(* ===== verification/Prelude.thy ===== *)
theory Prelude
  imports Main
begin

text \<open>
  Shared vocabulary of the development: Go's error conventions as HOL values, a way to
  write a validator as the list of its checks in source order, and the generic list lemmas
  that the components share.

  A Go \<open>error\<close> is \<open>None\<close> (nil) or \<open>Some message\<close>; a Go function with results
  \<open>(T, error)\<close> returns \<open>Inl message\<close> or \<open>Inr value\<close>. Messages are kept because
  the source inspects them (\<open>strings.Contains(err.Error(), ...)\<close>).
\<close>

named_theorems validator \<open>unfolding rules of validators: success exactly when every check passes\<close>
named_theorems go_string \<open>facts about the modelled part of Go's strings and strconv packages\<close>
named_theorems store_step \<open>what one store operation does to the state, for one branch\<close>

type_synonym error = "string option"
type_synonym 'a result = "string + 'a"

abbreviation Err :: "string \<Rightarrow> 'a result" where "Err \<equiv> Inl"
abbreviation Ok :: "'a \<Rightarrow> 'a result" where "Ok \<equiv> Inr"

section \<open>Validators as lists of checks\<close>

text \<open>
  \<open>fail_if b m\<close> is \<open>if b { return fmt.Errorf(m) }\<close>; \<open>wrap_err p e\<close> is
  \<open>fmt.Errorf("p%w", e)\<close> for a non-nil \<open>e\<close>; \<open>first_error\<close> runs checks in order and
  returns the first non-nil error, as a sequence of early returns does.
\<close>

definition fail_if :: "bool \<Rightarrow> string \<Rightarrow> error" where
  "fail_if b m = (if b then Some m else None)"

definition wrap_err :: "string \<Rightarrow> error \<Rightarrow> error" where
  "wrap_err p e = map_option (\<lambda>m. p @ m) e"

definition replace_err :: "string \<Rightarrow> error \<Rightarrow> error" where
  "replace_err m e = map_option (\<lambda>_. m) e"

fun first_error :: "error list \<Rightarrow> error" where
  "first_error [] = None"
| "first_error (None # es) = first_error es"
| "first_error (Some m # es) = Some m"

definition err_of :: "'a result \<Rightarrow> error" where
  "err_of r = (case r of Inl m \<Rightarrow> Some m | Inr _ \<Rightarrow> None)"

definition guard_result :: "error \<Rightarrow> 'a result \<Rightarrow> 'a result" where
  "guard_result e r = (case e of None \<Rightarrow> r | Some m \<Rightarrow> Inl m)"

definition wrap_result :: "string \<Rightarrow> 'a result \<Rightarrow> 'a result" where
  "wrap_result p r = (case r of Inl m \<Rightarrow> Inl (p @ m) | Inr v \<Rightarrow> Inr v)"

lemma fail_if_None [simp, validator]: "fail_if b m = None \<longleftrightarrow> \<not> b"
  by (simp add: fail_if_def)

lemma fail_if_Some: "fail_if b m = Some k \<longleftrightarrow> b \<and> k = m"
  by (auto simp: fail_if_def)

lemma fail_if_simps [simp]: "fail_if True m = Some m" "fail_if False m = None"
  by (simp_all add: fail_if_def)

lemma wrap_err_None [simp, validator]: "wrap_err p e = None \<longleftrightarrow> e = None"
  by (simp add: wrap_err_def)

lemma replace_err_None [simp, validator]: "replace_err m e = None \<longleftrightarrow> e = None"
  by (simp add: replace_err_def)

lemma first_error_None [validator]: "first_error es = None \<longleftrightarrow> (\<forall>e \<in> set es. e = None)"
  by (induction es rule: first_error.induct) auto

lemma first_error_Cons_None [simp]:
  "first_error (e # es) = None \<longleftrightarrow> e = None \<and> first_error es = None"
  by (cases e) auto

lemma first_error_append_None [simp]:
  "first_error (es @ fs) = None \<longleftrightarrow> first_error es = None \<and> first_error fs = None"
  by (auto simp: first_error_None)

lemma first_error_in_set: "first_error es = Some m \<Longrightarrow> Some m \<in> set es"
  by (induction es rule: first_error.induct) auto

lemma first_error_map_None [simp]:
  "first_error (map f xs) = None \<longleftrightarrow> (\<forall>x \<in> set xs. f x = None)"
  by (simp add: first_error_None)

lemma err_of_None [simp, validator]: "err_of r = None \<longleftrightarrow> (\<exists>v. r = Inr v)"
  by (cases r) (auto simp: err_of_def)

lemma err_of_simps [simp]: "err_of (Inl m) = Some m" "err_of (Inr v) = None"
  by (simp_all add: err_of_def)

lemma guard_result_Inr [simp, validator]:
  "guard_result e r = Inr v \<longleftrightarrow> e = None \<and> r = Inr v"
  by (cases e) (auto simp: guard_result_def)

lemma guard_result_simps [simp]: "guard_result None r = r" "guard_result (Some m) r = Inl m"
  by (simp_all add: guard_result_def)

lemma guard_result_passed [simp]: "e = None \<Longrightarrow> guard_result e r = r"
  by simp

lemma wrap_result_Inr [simp, validator]: "wrap_result p r = Inr v \<longleftrightarrow> r = Inr v"
  by (cases r) (auto simp: wrap_result_def)

lemma map_sum_Ok [simp]: "map_sum id f r = Inr x \<longleftrightarrow> (\<exists>y. r = Inr y \<and> x = f y)"
  by (cases r) auto

section \<open>Optional values and duplicates\<close>

text \<open>
  Go's \<open>seen := map[string]bool{}\<close> loops reject the first element seen before.
  \<open>dup_check\<close> runs such a loop: each element is first checked by \<open>f\<close>, then looked up
  among the elements already seen.
\<close>

fun dup_check :: "('a \<Rightarrow> error) \<Rightarrow> ('a \<Rightarrow> 'b) \<Rightarrow> ('a \<Rightarrow> string) \<Rightarrow> 'b list \<Rightarrow> 'a list \<Rightarrow> error" where
  "dup_check f key dup seen [] = None"
| "dup_check f key dup seen (x # xs) =
     (case f x of
        Some m \<Rightarrow> Some m
      | None \<Rightarrow> if key x \<in> set seen then Some (dup x)
                else dup_check f key dup (key x # seen) xs)"

lemma dup_check_None_seen:
  "dup_check f key dup seen xs = None \<longleftrightarrow>
     (\<forall>x \<in> set xs. f x = None) \<and> distinct (map key xs) \<and> key ` set xs \<inter> set seen = {}"
  by (induction xs arbitrary: seen) (auto split: option.splits)

lemma dup_check_None [simp, validator]:
  "dup_check f key dup [] xs = None \<longleftrightarrow>
     (\<forall>x \<in> set xs. f x = None) \<and> distinct (map key xs)"
  by (simp add: dup_check_None_seen)

section \<open>Lists\<close>

lemma take_drop_split: "n \<le> length xs \<Longrightarrow> \<exists>ys zs. xs = ys @ zs \<and> length ys = n"
  by (metis append_take_drop_id length_take min.absorb2)

lemma length_3_conv: "length xs = 3 \<longleftrightarrow> (\<exists>a b c. xs = [a, b, c])"
  by (auto simp: numeral_3_eq_3 length_Suc_conv)

lemma distinct_map_filter_key:
  "distinct (map f xs) \<Longrightarrow> distinct (map f (filter P xs))"
  by (induction xs) auto

lemma find_Some_iff_distinct:
  assumes "distinct (map key xs)" and "x \<in> set xs"
  shows "find (\<lambda>y. key y = key x) xs = Some x"
  using assms by (induction xs) (auto simp: rev_image_eqI)

lemma find_key_SomeD: "find P xs = Some x \<Longrightarrow> x \<in> set xs \<and> P x"
  by (auto simp: find_Some_iff)

lemma find_None_filter: "find P xs = None \<longleftrightarrow> filter P xs = []"
  by (induction xs) auto

lemma dropWhile_all_iff [simp]:
  "(\<forall>x \<in> set (dropWhile P xs). P x) \<longleftrightarrow> (\<forall>x \<in> set xs. P x)"
proof
  assume "\<forall>x \<in> set (dropWhile P xs). P x"
  then have "dropWhile P xs = []" by (metis hd_dropWhile hd_in_set)
  then show "\<forall>x \<in> set xs. P x" by (simp add: dropWhile_eq_Nil_conv)
qed (blast dest: set_dropWhileD)

end
