(* ===== verification/Go_Std.thy ===== *)
theory Go_Std
  imports Prelude "HOL-Library.Char_ord" "HOL-Library.List_Lexorder"
begin

text \<open>
  The part of Go's standard library that the modelled code relies on. A Go string is the
  list of its bytes, so \<open>len(s)\<close> is the length of the list; \<open>[]rune(s)\<close> and
  \<open>strings.TrimSpace\<close> decode UTF-8 the way package \<open>unicode/utf8\<close> does, an invalid byte
  being a rune of width one. \<open>strconv\<close>'s decimal conversions keep their 64-bit range checks,
  \<open>encoding/json\<close> its HTML-safe string escaping, and a \<open>time.Time\<close> is an instant in
  nanoseconds since the zero time together with its zone offset.

  One approximation: \<open>%q\<close> copies a valid non-ASCII rune as it is, where \<open>strconv.Quote\<close>
  escapes the unprintable ones (the Unicode tables behind \<open>strconv.IsPrint\<close> are not
  reproduced). It occurs only inside error texts.
\<close>

section \<open>Bytes, prefixes and character sets\<close>

definition byte :: "char \<Rightarrow> nat" where
  "byte c = of_char c"

definition HasPrefix :: "string \<Rightarrow> string \<Rightarrow> bool" where
  "HasPrefix s p \<longleftrightarrow> take (length p) s = p"

definition HasSuffix :: "string \<Rightarrow> string \<Rightarrow> bool" where
  "HasSuffix s p \<longleftrightarrow> length p \<le> length s \<and> drop (length s - length p) s = p"

fun Contains :: "string \<Rightarrow> string \<Rightarrow> bool" where
  "Contains [] p \<longleftrightarrow> p = []"
| "Contains (c # s) p \<longleftrightarrow> HasPrefix (c # s) p \<or> Contains s p"

text \<open>\<open>strings.ContainsAny(s, chars)\<close> for a set of ASCII characters.\<close>

definition ContainsAny :: "string \<Rightarrow> string \<Rightarrow> bool" where
  "ContainsAny s chars \<longleftrightarrow> list_ex (\<lambda>c. List.member chars c) s"

text \<open>\<open>strings.Trim(s, cutset)\<close> for a set of ASCII characters.\<close>

definition go_Trim :: "string \<Rightarrow> string \<Rightarrow> string" where
  "go_Trim s cutset =
     (let inner = dropWhile (\<lambda>c. List.member cutset c) s
      in rev (dropWhile (\<lambda>c. List.member cutset c) (rev inner)))"

text \<open>The control characters NUL, CR and LF that the validators exclude.\<close>

definition nul :: char where "nul = CHR 0x00"
definition lf :: char where "lf = CHR 0x0A"
definition cr :: char where "cr = CHR 0x0D"
definition nul_cr_lf :: string where "nul_cr_lf = [nul, cr, lf]"

lemma ContainsAny_iff [go_string]: "ContainsAny s chars \<longleftrightarrow> (\<exists>c \<in> set s. c \<in> set chars)"
  by (auto simp: ContainsAny_def list_ex_iff)

lemma ContainsAny_Nil [simp]: "\<not> ContainsAny [] chars"
  by (simp add: ContainsAny_def)

lemma ContainsAny_append [simp]:
  "ContainsAny (s @ t) chars \<longleftrightarrow> ContainsAny s chars \<or> ContainsAny t chars"
  by (simp add: ContainsAny_def)

lemma HasPrefix_iff [go_string]: "HasPrefix s p \<longleftrightarrow> (\<exists>t. s = p @ t)"
  unfolding HasPrefix_def by (metis append_eq_conv_conj append_take_drop_id)

lemma HasPrefix_append [simp]: "HasPrefix (p @ t) p"
  by (simp add: HasPrefix_def)

lemma HasSuffix_iff [go_string]: "HasSuffix s p \<longleftrightarrow> (\<exists>t. s = t @ p)"
proof
  assume "HasSuffix s p"
  then show "\<exists>t. s = t @ p"
    unfolding HasSuffix_def by (metis append_take_drop_id)
qed (auto simp: HasSuffix_def)

lemma Contains_iff [go_string]: "Contains s p \<longleftrightarrow> (\<exists>u v. s = u @ p @ v)"
proof (induction s)
  case Nil
  show ?case by auto
next
  case (Cons c s)
  show ?case
  proof
    assume "Contains (c # s) p"
    then have "HasPrefix (c # s) p \<or> Contains s p" by simp
    then show "\<exists>u v. c # s = u @ p @ v"
    proof
      assume "HasPrefix (c # s) p"
      then obtain t where "c # s = [] @ p @ t" by (auto simp: HasPrefix_iff)
      then show ?thesis by blast
    next
      assume "Contains s p"
      then obtain u v where "s = u @ p @ v" using Cons.IH by blast
      then have "c # s = (c # u) @ p @ v" by simp
      then show ?thesis by blast
    qed
  next
    assume "\<exists>u v. c # s = u @ p @ v"
    then obtain u v where uv: "c # s = u @ p @ v" by blast
    show "Contains (c # s) p"
    proof (cases u)
      case Nil
      then have "HasPrefix (c # s) p" using uv by (simp add: HasPrefix_def)
      then show ?thesis by simp
    next
      case (Cons d w)
      then have "s = w @ p @ v" using uv by simp
      then show ?thesis using Cons.IH by auto
    qed
  qed
qed

lemma go_Trim_Nil_iff [go_string]:
  "go_Trim s cutset = [] \<longleftrightarrow> set s \<subseteq> set cutset"
proof -
  define P where "P = (\<lambda>c. List.member cutset c)"
  have "go_Trim s cutset = [] \<longleftrightarrow> (\<forall>c \<in> set (dropWhile P s). P c)"
    by (simp add: go_Trim_def Let_def P_def dropWhile_eq_Nil_conv)
  then have "go_Trim s cutset = [] \<longleftrightarrow> (\<forall>c \<in> set s. P c)" by simp
  then show ?thesis by (auto simp: P_def)
qed

section \<open>UTF-8\<close>

definition utf8_cont :: "char \<Rightarrow> bool" where
  "utf8_cont c \<longleftrightarrow> 0x80 \<le> byte c \<and> byte c \<le> 0xBF"

definition rune_error :: nat where "rune_error = 0xFFFD"

text \<open>
  \<open>utf8.DecodeRuneInString\<close> of the string that starts with the byte \<open>c\<close>: the rune and its
  width, the replacement rune with width one for an invalid sequence. The second byte's range
  excludes overlong forms and surrogates.
\<close>

definition utf8_lo :: "nat \<Rightarrow> nat" where
  "utf8_lo b0 = (if b0 = 0xE0 then 0xA0 else if b0 = 0xF0 then 0x90 else 0x80)"

definition utf8_hi :: "nat \<Rightarrow> nat" where
  "utf8_hi b0 = (if b0 = 0xED then 0x9F else if b0 = 0xF4 then 0x8F else 0xBF)"

definition decode_rune :: "char \<Rightarrow> string \<Rightarrow> nat \<times> nat" where
  "decode_rune c cs =
     (let b0 = byte c; bad = (rune_error, 1)
      in if b0 < 0x80 then (b0, 1)
         else if b0 < 0xC2 then bad
         else if b0 \<le> 0xDF then
           (case cs of
              c1 # _ \<Rightarrow> if utf8_cont c1 then (b0 mod 32 * 64 + byte c1 mod 64, 2) else bad
            | _ \<Rightarrow> bad)
         else if b0 \<le> 0xEF then
           (case cs of
              c1 # c2 # _ \<Rightarrow>
                if utf8_lo b0 \<le> byte c1 \<and> byte c1 \<le> utf8_hi b0 \<and> utf8_cont c2
                then (b0 mod 16 * 4096 + byte c1 mod 64 * 64 + byte c2 mod 64, 3) else bad
            | _ \<Rightarrow> bad)
         else if b0 \<le> 0xF4 then
           (case cs of
              c1 # c2 # c3 # _ \<Rightarrow>
                if utf8_lo b0 \<le> byte c1 \<and> byte c1 \<le> utf8_hi b0 \<and> utf8_cont c2 \<and> utf8_cont c3
                then (b0 mod 8 * 262144 + byte c1 mod 64 * 4096 + byte c2 mod 64 * 64
                        + byte c3 mod 64, 4) else bad
            | _ \<Rightarrow> bad)
         else bad)"

text \<open>The runes of a string, each with the bytes it was decoded from.\<close>

function runes :: "string \<Rightarrow> (nat \<times> string) list" where
  "runes [] = []"
| "runes (c # cs) =
     (let (r, w) = decode_rune c cs
      in (r, c # take (w - 1) cs) # runes (drop (w - 1) cs))"
  by pat_completeness auto
termination by (relation "measure length") auto

definition rune_count :: "string \<Rightarrow> nat" where
  "rune_count s = length (runes s)"

text \<open>\<open>unicode.IsSpace\<close>\<close>

definition IsSpace :: "nat \<Rightarrow> bool" where
  "IsSpace r \<longleftrightarrow> List.member [0x09, 0x0A, 0x0B, 0x0C, 0x0D, 0x20, 0x85, 0xA0, 0x1680, 0x2028, 0x2029,
     0x202F, 0x205F, 0x3000] r \<or> (0x2000 \<le> r \<and> r \<le> 0x200A)"

definition TrimSpace :: "string \<Rightarrow> string" where
  "TrimSpace s =
     (let space = (\<lambda>(r, _). IsSpace r); inner = dropWhile space (runes s)
      in concat (map snd (rev (dropWhile space (rev inner)))))"

lemma runes_ascii: "\<forall>c \<in> set s. byte c < 0x80 \<Longrightarrow> runes s = map (\<lambda>c. (byte c, [c])) s"
  by (induction s) (auto simp: decode_rune_def Let_def)

lemma rune_count_ascii: "\<forall>c \<in> set s. byte c < 0x80 \<Longrightarrow> rune_count s = length s"
  by (simp add: rune_count_def runes_ascii)

lemma runes_concat: "concat (map snd (runes s)) = s"
  by (induction s rule: runes.induct) (auto simp: Let_def split: prod.splits)

lemma runes_nonempty: "x \<in> set (runes s) \<Longrightarrow> snd x \<noteq> []"
  by (induction s rule: runes.induct) (auto simp: Let_def split: prod.splits)

lemma rune_count_le: "rune_count s \<le> length s"
  unfolding rune_count_def
proof (induction s rule: runes.induct)
  case (2 c cs)
  obtain r w where rw: "decode_rune c cs = (r, w)" by (cases "decode_rune c cs")
  have "length (runes (drop (w - 1) cs)) \<le> length (drop (w - 1) cs)" using 2 rw by auto
  then show ?case using rw by simp
qed simp

lemma TrimSpace_Nil [simp]: "TrimSpace [] = []"
  by (simp add: TrimSpace_def)

lemma TrimSpace_Nil_iff: "TrimSpace s = [] \<longleftrightarrow> (\<forall>(r, b) \<in> set (runes s). IsSpace r)"
proof -
  define sp where "sp = (\<lambda>(r :: nat, _ :: string). IsSpace r)"
  define kept where "kept = dropWhile sp (rev (dropWhile sp (runes s)))"
  have kept: "\<forall>x \<in> set kept. snd x \<noteq> []"
    unfolding kept_def by (metis set_dropWhileD set_rev runes_nonempty)
  have "TrimSpace s = [] \<longleftrightarrow> concat (map snd (rev kept)) = []"
    by (simp add: TrimSpace_def Let_def kept_def sp_def)
  also have "\<dots> \<longleftrightarrow> kept = []" using kept by (cases kept) auto
  also have "\<dots> \<longleftrightarrow> (\<forall>x \<in> set (runes s). sp x)" by (simp add: kept_def dropWhile_eq_Nil_conv)
  finally show ?thesis by (simp add: sp_def case_prod_beta)
qed

text \<open>A string that starts with an ASCII character other than white space is not blank.\<close>

lemma TrimSpace_Cons [simp]:
  "byte c < 0x80 \<Longrightarrow> \<not> IsSpace (byte c) \<Longrightarrow> TrimSpace (c # s) \<noteq> []"
  by (simp add: TrimSpace_Nil_iff decode_rune_def)

section \<open>Machine integers\<close>

text \<open>A Go \<open>int\<close> is 64 bits wide: \<open>n++\<close> wraps around at \<open>2 ^ 63\<close>.\<close>

definition wrap_int :: "int \<Rightarrow> int" where
  "wrap_int i = (i + 9223372036854775808) mod 18446744073709551616 - 9223372036854775808"

lemma wrap_int_range [simp]: "-9223372036854775808 \<le> wrap_int i" "wrap_int i < 9223372036854775808"
proof -
  have "0 \<le> (i + 9223372036854775808) mod 18446744073709551616"
    "(i + 9223372036854775808) mod 18446744073709551616 < 18446744073709551616" by simp_all
  then show "-9223372036854775808 \<le> wrap_int i" "wrap_int i < 9223372036854775808"
    unfolding wrap_int_def by linarith+
qed

lemma wrap_int_id: "-9223372036854775808 \<le> i \<Longrightarrow> i < 9223372036854775808 \<Longrightarrow> wrap_int i = i"
  by (simp add: wrap_int_def)

lemma wrap_int_succ:
  assumes "wrap_int i = i" and "0 < wrap_int (i + 1)"
  shows "wrap_int (i + 1) = i + 1"
proof (cases "i = 9223372036854775807")
  case True
  then show ?thesis using assms(2) by (simp add: wrap_int_def)
next
  case False
  then show ?thesis using assms(1) wrap_int_range [of i] by (intro wrap_int_id) linarith+
qed

end
