(* ===== verification/Go_Text.thy ===== *)
theory Go_Text
  imports Go_Std
begin

text \<open>
  Conversions between values and text: \<open>strconv\<close>'s decimal numbers, \<open>%q\<close>, the encoding of
  strings, numbers, lists, maps and structs by \<open>encoding/json\<close>, and times in RFC 3339 form.
\<close>

section \<open>Decimal numbers\<close>

definition digit :: "nat \<Rightarrow> char" where
  "digit d = char_of (48 + d)"

definition is_digit :: "char \<Rightarrow> bool" where
  "is_digit c \<longleftrightarrow> 48 \<le> byte c \<and> byte c \<le> 57"

definition digit_val :: "char \<Rightarrow> nat" where
  "digit_val c = byte c - 48"

text \<open>\<open>strconv.FormatUint(n, 10)\<close>, and \<open>strconv.Itoa\<close> for a signed number.\<close>

fun dec :: "nat \<Rightarrow> string" where
  "dec n = (if n < 10 then [digit n] else dec (n div 10) @ [digit (n mod 10)])"

declare dec.simps [simp del]

definition dec_int :: "int \<Rightarrow> string" where
  "dec_int i = (if i < 0 then CHR ''-'' # dec (nat (- i)) else dec (nat i))"

definition dec_value :: "string \<Rightarrow> nat" where
  "dec_value s = foldl (\<lambda>acc c. acc * 10 + digit_val c) 0 s"

text \<open>\<open>strconv.ParseUint(s, 10, 64)\<close>: digits only, and below \<open>2 ^ 64\<close>.\<close>

definition parse_uint :: "string \<Rightarrow> nat option" where
  "parse_uint s =
     (if s \<noteq> [] \<and> list_all is_digit s \<and> dec_value s < 18446744073709551616
      then Some (dec_value s) else None)"

lemma byte_digit: "d < 10 \<Longrightarrow> byte (digit d) = 48 + d"
  by (simp add: byte_def digit_def)

lemma is_digit_digit [simp]: "d < 10 \<Longrightarrow> is_digit (digit d)"
  by (simp add: is_digit_def byte_digit)

lemma digit_val_digit [simp]: "d < 10 \<Longrightarrow> digit_val (digit d) = d"
  by (simp add: digit_val_def byte_digit)

lemma digit_digit_val [simp]: "is_digit c \<Longrightarrow> digit (digit_val c) = c"
  by (simp add: is_digit_def digit_val_def digit_def byte_def)

lemma digit_val_less [simp]: "is_digit c \<Longrightarrow> digit_val c < 10"
  by (auto simp: is_digit_def digit_val_def)

lemma dec_value_Nil [simp]: "dec_value [] = 0"
  by (simp add: dec_value_def)

lemma dec_value_snoc [simp]: "dec_value (s @ [c]) = dec_value s * 10 + digit_val c"
  by (simp add: dec_value_def)

lemma dec_value_append: "dec_value (s @ t) = dec_value s * 10 ^ length t + dec_value t"
  by (induction t rule: rev_induct) (simp_all add: append_assoc [symmetric] algebra_simps del: append_assoc)

lemma dec_value_Cons: "dec_value (c # s) = digit_val c * 10 ^ length s + dec_value s"
  using dec_value_append [of "[c]" s] by (simp add: dec_value_def)

lemma dec_value_less: "list_all is_digit s \<Longrightarrow> dec_value s < 10 ^ length s"
proof (induction s)
  case (Cons c s)
  then have "digit_val c * 10 ^ length s + dec_value s < (digit_val c + 1) * 10 ^ length s"
    by (simp add: algebra_simps)
  also have "\<dots> \<le> 10 * 10 ^ length s" using Cons.prems by (intro mult_right_mono) (auto simp: Suc_le_eq)
  finally show ?case by (simp add: dec_value_Cons)
qed simp

lemma dec_nonempty [simp]: "dec n \<noteq> []"
  by (subst dec.simps) simp

lemma dec_digits [simp]: "list_all is_digit (dec n)"
proof (induction n rule: dec.induct)
  case (1 n)
  then show ?case by (subst dec.simps) auto
qed

lemma dec_value_dec [simp]: "dec_value (dec n) = n"
proof (induction n rule: dec.induct)
  case (1 n)
  show ?case
  proof (cases "n < 10")
    case True
    then show ?thesis by (subst dec.simps) (simp add: dec_value_def)
  next
    case False
    then have "dec n = dec (n div 10) @ [digit (n mod 10)]" by (subst dec.simps) simp
    then show ?thesis using 1 False by simp
  qed
qed

lemma dec_inject [simp]: "dec m = dec n \<longleftrightarrow> m = n"
  by (metis dec_value_dec)

text \<open>\<open>dec n\<close> has no leading zero, and a digit string without one is its number's decimal.\<close>

lemma dec_no_leading_zero: "0 < n \<Longrightarrow> hd (dec n) \<noteq> digit 0"
proof (induction n rule: dec.induct)
  case (1 n)
  show ?case
  proof (cases "n < 10")
    case True
    then have "dec n = [digit n]" by (subst dec.simps) simp
    then show ?thesis using 1 True by (metis digit_val_digit list.sel(1) not_gr_zero zero_less_numeral)
  next
    case False
    then have "dec n = dec (n div 10) @ [digit (n mod 10)]" by (subst dec.simps) simp
    moreover have "hd (dec (n div 10)) \<noteq> digit 0" using 1 False by simp
    ultimately show ?thesis by simp
  qed
qed

lemma dec_of_value:
  assumes "list_all is_digit s" and "s \<noteq> []" and "hd s \<noteq> digit 0"
  shows "dec (dec_value s) = s"
  using assms
proof (induction s rule: rev_induct)
  case (snoc c s)
  have c: "is_digit c" using snoc.prems by simp
  show ?case
  proof (cases "s = []")
    case True
    then show ?thesis using c by (subst dec.simps) (simp add: dec_value_def)
  next
    case False
    then have s: "dec (dec_value s) = s" using snoc by simp
    have "dec_value s \<noteq> 0"
    proof
      assume "dec_value s = 0"
      then have "dec 0 = s" using s by simp
      moreover have "dec 0 = [digit 0]" by (subst dec.simps) simp
      ultimately show False using snoc.prems(3) by auto
    qed
    then have "dec (dec_value (s @ [c])) = dec (dec_value s) @ [digit (digit_val c)]"
      using c by (subst dec.simps) simp
    then show ?thesis using s c by simp
  qed
qed simp

lemma parse_uint_dec [simp]: "n < 18446744073709551616 \<Longrightarrow> parse_uint (dec n) = Some n"
  by (simp add: parse_uint_def)

lemma parse_uint_SomeD:
  "parse_uint s = Some n \<Longrightarrow> s \<noteq> [] \<and> list_all is_digit s \<and> n = dec_value s \<and> n < 18446744073709551616"
  by (auto simp: parse_uint_def split: if_splits)

section \<open>Hexadecimal and quoting\<close>

definition hex_digit :: "nat \<Rightarrow> char" where
  "hex_digit d = (if d < 10 then char_of (48 + d) else char_of (87 + d))"

definition hex2 :: "nat \<Rightarrow> string" where
  "hex2 b = [hex_digit (b div 16 mod 16), hex_digit (b mod 16)]"

definition quote_mark :: char where "quote_mark = CHR 0x22"
definition backslash :: char where "backslash = CHR 0x5C"

definition quote_rune :: "nat \<times> string \<Rightarrow> string" where
  "quote_rune = (\<lambda>(r, bs).
     if r = rune_error \<and> length bs = 1 then backslash # CHR ''x'' # hex2 (byte (hd bs))
     else if r = 0x22 \<or> r = 0x5C then backslash # bs
     else if r = 7 then [backslash, CHR ''a'']
     else if r = 8 then [backslash, CHR ''b'']
     else if r = 12 then [backslash, CHR ''f'']
     else if r = 10 then [backslash, CHR ''n'']
     else if r = 13 then [backslash, CHR ''r'']
     else if r = 9 then [backslash, CHR ''t'']
     else if r = 11 then [backslash, CHR ''v'']
     else if r < 32 \<or> r = 127 then backslash # CHR ''x'' # hex2 r
     else bs)"

definition go_quote :: "string \<Rightarrow> string" where
  "go_quote s = quote_mark # concat (map quote_rune (runes s)) @ [quote_mark]"

lemma go_quote_plain:
  assumes "\<forall>c \<in> set s. 32 \<le> byte c \<and> byte c < 127 \<and> byte c \<noteq> 0x22 \<and> byte c \<noteq> 0x5C"
  shows "go_quote s = quote_mark # s @ [quote_mark]"
proof -
  have "\<forall>c \<in> set s. byte c < 0x80" using assms by auto
  then have "map quote_rune (runes s) = map (\<lambda>c. [c]) s"
    using assms by (auto simp: runes_ascii quote_rune_def rune_error_def)
  then show ?thesis by (simp add: go_quote_def)
qed

section \<open>JSON encoding\<close>

text \<open>
  \<open>encoding/json\<close> as \<open>json.Marshal\<close> uses it (Go 1.23): strings with HTML escaping and
  replacement of invalid UTF-8; a struct is the list of its fields in declaration order, an
  \<open>omitempty\<close> field that is empty being left out; map keys in sorted order; a nil slice or
  pointer is \<open>null\<close>.
\<close>

definition json_rune :: "nat \<times> string \<Rightarrow> string" where
  "json_rune = (\<lambda>(r, bs).
     if r = rune_error \<and> length bs = 1 then backslash # ''ufffd''
     else if r = 0x2028 then backslash # ''u2028''
     else if r = 0x2029 then backslash # ''u2029''
     else if r = 0x22 \<or> r = 0x5C then backslash # bs
     else if r = 8 then [backslash, CHR ''b'']
     else if r = 12 then [backslash, CHR ''f'']
     else if r = 10 then [backslash, CHR ''n'']
     else if r = 13 then [backslash, CHR ''r'']
     else if r = 9 then [backslash, CHR ''t'']
     else if r < 32 \<or> r = 60 \<or> r = 62 \<or> r = 38 then backslash # ''u00'' @ hex2 r
     else bs)"

definition json_string :: "string \<Rightarrow> string" where
  "json_string s = quote_mark # concat (map json_rune (runes s)) @ [quote_mark]"

definition json_bool :: "bool \<Rightarrow> string" where
  "json_bool b = (if b then ''true'' else ''false'')"

fun sep_concat :: "string \<Rightarrow> string list \<Rightarrow> string" where
  "sep_concat sep [] = []"
| "sep_concat sep [x] = x"
| "sep_concat sep (x # y # ys) = x @ sep @ sep_concat sep (y # ys)"

definition json_list :: "string list \<Rightarrow> string" where
  "json_list vs = ''['' @ sep_concat '','' vs @ '']''"

definition json_strings :: "string list option \<Rightarrow> string" where
  "json_strings vs = (case vs of None \<Rightarrow> ''null'' | Some ss \<Rightarrow> json_list (map json_string ss))"

definition json_object :: "(string \<times> string) list \<Rightarrow> string" where
  "json_object fs = ''{'' @ sep_concat '','' (map (\<lambda>(k, v). json_string k @ '':'' @ v) fs) @ ''}''"

text \<open>A field that is always written, and one with \<open>omitempty\<close>.\<close>

abbreviation (input) json_field :: "string \<Rightarrow> string \<Rightarrow> (string \<times> string) list" where
  "json_field k v \<equiv> [(k, v)]"

definition json_omit :: "bool \<Rightarrow> string \<Rightarrow> string \<Rightarrow> (string \<times> string) list" where
  "json_omit blank k v = (if blank then [] else [(k, v)])"

definition json_string_map :: "(string \<times> string) list \<Rightarrow> string" where
  "json_string_map m = json_object (map (\<lambda>(k, v). (k, json_string v)) (sort_key fst m))"

section \<open>Times\<close>

text \<open>
  A \<open>time.Time\<close>: nanoseconds since 0001-01-01T00:00:00Z and the offset of its zone in seconds
  east of UTC. \<open>UTC()\<close> keeps the instant; \<open>Before\<close>, \<open>After\<close>, \<open>Equal\<close> compare instants.
\<close>

record gotime =
  gt_ns :: int
  gt_offset :: int

definition zero_time :: gotime where
  "zero_time = \<lparr>gt_ns = 0, gt_offset = 0\<rparr>"

definition IsZero :: "gotime \<Rightarrow> bool" where
  "IsZero t \<longleftrightarrow> gt_ns t = 0"

definition to_utc :: "gotime \<Rightarrow> gotime" where
  "to_utc t = t\<lparr>gt_offset := 0\<rparr>"

definition time_before :: "gotime \<Rightarrow> gotime \<Rightarrow> bool" where
  "time_before a b \<longleftrightarrow> gt_ns a < gt_ns b"

abbreviation time_after :: "gotime \<Rightarrow> gotime \<Rightarrow> bool" where
  "time_after a b \<equiv> time_before b a"

definition unix_utc :: "int \<Rightarrow> gotime" where
  "unix_utc s = \<lparr>gt_ns = (s + 62135596800) * 1000000000, gt_offset = 0\<rparr>"

text \<open>The civil date of a day counted from 0001-01-01 in the proleptic Gregorian calendar.\<close>

definition civil_date :: "int \<Rightarrow> int \<times> int \<times> int" where
  "civil_date day =
     (let z = day + 306; era = z div 146097; doe = z mod 146097;
          yoe = (doe - doe div 1460 + doe div 36524 - doe div 146096) div 365;
          doy = doe - (365 * yoe + yoe div 4 - yoe div 100);
          mp = (5 * doy + 2) div 153;
          d = doy - (153 * mp + 2) div 5 + 1;
          m = (if mp < 10 then mp + 3 else mp - 9);
          y = yoe + era * 400 + (if m \<le> 2 then 1 else 0)
      in (y, m, d))"

definition pad :: "nat \<Rightarrow> int \<Rightarrow> string" where
  "pad w i = (let s = dec (nat i) in replicate (w - length s) (CHR ''0'') @ s)"

definition drop_trailing_zeros :: "string \<Rightarrow> string" where
  "drop_trailing_zeros s = rev (dropWhile (\<lambda>c. c = CHR ''0'') (rev s))"

definition rfc3339_zone :: "int \<Rightarrow> string" where
  "rfc3339_zone off =
     (if off = 0 then ''Z''
      else let m = \<bar>off\<bar> div 60
           in (if off \<le> -60 then ''-'' else ''+'') @ pad 2 (m div 60) @ '':'' @ pad 2 (m mod 60))"

definition rfc3339_nano :: "gotime \<Rightarrow> string" where
  "rfc3339_nano t =
     (let local = gt_ns t + gt_offset t * 1000000000;
          secs = local div 1000000000; ns = local mod 1000000000;
          (y, m, d) = civil_date (secs div 86400); s = secs mod 86400;
          frac = drop_trailing_zeros (pad 9 ns)
      in pad 4 y @ ''-'' @ pad 2 m @ ''-'' @ pad 2 d @ ''T''
           @ pad 2 (s div 3600) @ '':'' @ pad 2 (s div 60 mod 60) @ '':'' @ pad 2 (s mod 60)
           @ (if frac = [] then [] else ''.'' @ frac) @ rfc3339_zone (gt_offset t))"

definition time_year :: "gotime \<Rightarrow> int" where
  "time_year t = fst (civil_date ((gt_ns t + gt_offset t * 1000000000) div 1000000000 div 86400))"

text \<open>\<open>Time.MarshalJSON\<close> fails for a year outside of 0..9999 or a zone of a day or more.\<close>

definition json_time :: "gotime \<Rightarrow> string result" where
  "json_time t =
     (if time_year t < 0 \<or> 9999 < time_year t
      then Err ''json: error calling MarshalJSON for type time.Time: Time.MarshalJSON: year outside of range [0,9999]''
      else if 86400 \<le> \<bar>gt_offset t\<bar>
      then Err ''json: error calling MarshalJSON for type time.Time: Time.MarshalJSON: timezone hour outside of range [0,23]''
      else Ok (quote_mark # rfc3339_nano t @ [quote_mark]))"

lemma to_utc_simps [simp]:
  "gt_ns (to_utc t) = gt_ns t" "gt_offset (to_utc t) = 0" "to_utc (to_utc t) = to_utc t"
  "IsZero (to_utc t) \<longleftrightarrow> IsZero t"
  by (simp_all add: to_utc_def IsZero_def)

lemma time_year_zero [simp]: "time_year zero_time = 1"
  by code_simp

lemma zero_time_simps [simp]: "gt_ns zero_time = 0" "gt_offset zero_time = 0" "IsZero zero_time"
  by (simp_all add: zero_time_def IsZero_def)

lemma json_time_ok:
  "0 \<le> time_year t \<Longrightarrow> time_year t \<le> 9999 \<Longrightarrow> \<bar>gt_offset t\<bar> < 86400
     \<Longrightarrow> json_time t = Ok (quote_mark # rfc3339_nano t @ [quote_mark])"
  unfolding json_time_def by ((subst if_not_P, linarith)+, rule refl)

lemma json_time_zero [simp]:
  "json_time zero_time = Ok (quote_mark # rfc3339_nano zero_time @ [quote_mark])"
  by (rule json_time_ok) simp_all

end
