(* ===== verification/Regex.thy ===== *)
theory Regex
  imports Go_Text
begin

text \<open>
  The regular expressions of \<open>internal/model\<close>: sequences of character classes with repetition
  bounds, anchored at both ends. The classes contain ASCII characters only, so matching bytes is
  matching runes. \<open>rx_seq ps s\<close> says that the whole string matches the sequence; a choice
  is tried as a list of such sequences.
\<close>

datatype piece = Rep (rep_class: "char \<Rightarrow> bool") (rep_min: nat) (rep_max: "nat option")

definition rep_upto :: "nat option \<Rightarrow> string \<Rightarrow> nat" where
  "rep_upto hi s = (case hi of None \<Rightarrow> length s | Some h \<Rightarrow> min h (length s))"

fun rx_seq :: "piece list \<Rightarrow> string \<Rightarrow> bool" where
  "rx_seq [] s \<longleftrightarrow> s = []"
| "rx_seq (Rep p lo hi # ps) s \<longleftrightarrow>
     (\<exists>k \<in> set [lo..<Suc (rep_upto hi s)]. list_all p (take k s) \<and> rx_seq ps (drop k s))"

definition rx_alt :: "piece list list \<Rightarrow> string \<Rightarrow> bool" where
  "rx_alt alts s \<longleftrightarrow> list_ex (\<lambda>ps. rx_seq ps s) alts"

text \<open>A literal, a class repeated exactly \<open>n\<close> times, and the classes of the source.\<close>

definition rx_lit :: "string \<Rightarrow> piece list" where
  "rx_lit w = map (\<lambda>c. Rep (\<lambda>x. x = c) 1 (Some 1)) w"

abbreviation times :: "nat \<Rightarrow> (char \<Rightarrow> bool) \<Rightarrow> piece" where
  "times n p \<equiv> Rep p n (Some n)"

definition between :: "char \<Rightarrow> char \<Rightarrow> char \<Rightarrow> bool" where
  "between lo hi c \<longleftrightarrow> byte lo \<le> byte c \<and> byte c \<le> byte hi"

definition is_upper :: "char \<Rightarrow> bool" where
  "is_upper = between (CHR ''A'') (CHR ''Z'')"

definition is_lower :: "char \<Rightarrow> bool" where
  "is_lower = between (CHR ''a'') (CHR ''z'')"

definition is_lower_digit :: "char \<Rightarrow> bool" where
  "is_lower_digit c \<longleftrightarrow> is_lower c \<or> is_digit c"

definition is_alnum :: "char \<Rightarrow> bool" where
  "is_alnum c \<longleftrightarrow> is_upper c \<or> is_lower c \<or> is_digit c"

definition is_hex_lower :: "char \<Rightarrow> bool" where
  "is_hex_lower c \<longleftrightarrow> is_digit c \<or> between (CHR ''a'') (CHR ''f'') c"

lemma rx_Rep:
  "rx_seq (Rep p lo hi # ps) s \<longleftrightarrow>
     (\<exists>k. lo \<le> k \<and> k \<le> rep_upto hi s \<and> list_all p (take k s) \<and> rx_seq ps (drop k s))"
  by (simp only: rx_seq.simps set_upt Bex_def atLeastLessThan_iff less_Suc_eq_le conj_assoc)

declare rx_seq.simps(2) [simp del]

lemma rx_times [simp]:
  "rx_seq (times n p # ps) s \<longleftrightarrow> n \<le> length s \<and> list_all p (take n s) \<and> rx_seq ps (drop n s)"
  unfolding rx_Rep rep_upto_def by (metis dual_order.antisym min.bounded_iff option.simps(5) order_refl)

lemma rx_last:
  "rx_seq [Rep p lo hi] s \<longleftrightarrow> lo \<le> length s \<and> length s \<le> rep_upto hi s \<and> list_all p s"
proof -
  have "k \<le> rep_upto hi s \<Longrightarrow> drop k s = [] \<longleftrightarrow> k = length s" for k
    by (cases hi) (auto simp: rep_upto_def)
  then show ?thesis unfolding rx_Rep by auto
qed

lemma rx_last_unbounded [simp]:
  "rx_seq [Rep p lo None] s \<longleftrightarrow> lo \<le> length s \<and> list_all p s"
  by (simp add: rx_last rep_upto_def)

lemma rx_last_bounded [simp]:
  "rx_seq [Rep p lo (Some hi)] s \<longleftrightarrow> lo \<le> length s \<and> length s \<le> hi \<and> list_all p s"
  by (simp add: rx_last rep_upto_def)

lemma rx_lit_simps [simp]: "rx_lit [] = []" "rx_lit (c # w) = times 1 (\<lambda>x. x = c) # rx_lit w"
  by (simp_all add: rx_lit_def)

lemma rx_lit_append: "rx_seq (rx_lit w @ ps) s \<longleftrightarrow> HasPrefix s w \<and> rx_seq ps (drop (length w) s)"
proof (induction w arbitrary: s)
  case (Cons c w)
  then show ?case by (cases s) (auto simp: HasPrefix_def)
qed (simp add: HasPrefix_def)

section \<open>The compact number pattern\<close>

definition MaxSafeInteger :: nat where
  "MaxSafeInteger = 9007199254740991"

text \<open>
  \<open>OperatorJournalNumberPattern\<close>, alternative by alternative.
\<close>

abbreviation "d09 \<equiv> between (CHR ''0'') (CHR ''9'')"

definition OperatorJournalNumberPattern :: "piece list list" where
  "OperatorJournalNumberPattern =
     [[times 1 (between (CHR ''1'') (CHR ''9'')), Rep d09 0 (Some 14)],
      [times 1 (between (CHR ''1'') (CHR ''8'')), times 15 d09],
      rx_lit ''900'' @ [times 1 (between (CHR ''0'') (CHR ''6'')), times 12 d09],
      rx_lit ''90070'' @ [times 11 d09],
      rx_lit ''90071'' @ [times 1 (between (CHR ''0'') (CHR ''8'')), times 10 d09],
      rx_lit ''900719'' @ [times 1 (between (CHR ''0'') (CHR ''8'')), times 9 d09],
      rx_lit ''9007199'' @ [times 1 (between (CHR ''0'') (CHR ''1'')), times 8 d09],
      rx_lit ''90071992'' @ [times 1 (between (CHR ''0'') (CHR ''4'')), times 7 d09],
      rx_lit ''900719925'' @ [times 1 (between (CHR ''0'') (CHR ''3'')), times 6 d09],
      rx_lit ''9007199254'' @ [times 1 (between (CHR ''0'') (CHR ''6'')), times 5 d09],
      rx_lit ''90071992547'' @ [times 1 (between (CHR ''0'') (CHR ''3'')), times 4 d09],
      rx_lit ''9007199254740'' @ [times 1 (between (CHR ''0'') (CHR ''8'')), times 2 d09],
      rx_lit ''90071992547409'' @ [times 1 (between (CHR ''0'') (CHR ''8'')), times 1 d09],
      rx_lit ''9007199254740990'',
      rx_lit ''9007199254740991'']"

definition matches_number :: "string \<Rightarrow> bool" where
  "matches_number s \<longleftrightarrow> rx_alt OperatorJournalNumberPattern s"

lemma d09_is_digit: "d09 = is_digit"
  by (rule ext) (simp add: between_def is_digit_def byte_def)

lemma list_all_take_drop:
  "n \<le> length s \<Longrightarrow> list_all p (take n s) \<and> list_all p (drop n s) \<longleftrightarrow> list_all p s"
  by (metis append_take_drop_id list_all_append)

text \<open>Comparing digit strings of one length compares their digits from the left.\<close>

lemma dec_value_lex:
  assumes "list_all is_digit (c # s)" "list_all is_digit (d # t)" "length s = length t"
  shows "dec_value (c # s) \<le> dec_value (d # t) \<longleftrightarrow>
           digit_val c < digit_val d \<or> (digit_val c = digit_val d \<and> dec_value s \<le> dec_value t)"
proof -
  let ?B = "(10 :: nat) ^ length t"
  have s: "dec_value s < ?B" and t: "dec_value t < ?B"
    using dec_value_less [of s] dec_value_less [of t] assms by auto
  have val: "dec_value (c # s) = digit_val c * ?B + dec_value s"
    "dec_value (d # t) = digit_val d * ?B + dec_value t"
    using assms(3) by (simp_all add: dec_value_Cons)
  consider "digit_val c < digit_val d" | "digit_val c = digit_val d" | "digit_val d < digit_val c"
    by linarith
  then show ?thesis
  proof cases
    case 1
    then have "(digit_val c + 1) * ?B \<le> digit_val d * ?B" by (intro mult_right_mono) auto
    then have "digit_val c * ?B + ?B \<le> digit_val d * ?B" by (simp add: algebra_simps)
    then show ?thesis using 1 s val by linarith
  next
    case 2
    then show ?thesis using val by simp
  next
    case 3
    then have "(digit_val d + 1) * ?B \<le> digit_val c * ?B" by (intro mult_right_mono) auto
    then have "digit_val d * ?B + ?B \<le> digit_val c * ?B" by (simp add: algebra_simps)
    then show ?thesis using 3 t val by linarith
  qed
qed

lemma max_safe_digits: "MaxSafeInteger = dec_value ''9007199254740991''"
  by (simp add: MaxSafeInteger_def dec_value_def digit_val_def byte_def)


lemma char_eq_byte: "c = d \<longleftrightarrow> byte c = byte d"
  by (auto simp: byte_def)

lemma length_16: "length s = 16 \<Longrightarrow> \<exists>a b c d e f g h i j k l m n p q. s = [a,b,c,d,e,f,g,h,i,j,k,l,m,n,p,q]"
  by (rule exI [where x = "s ! 0"], rule exI [where x = "s ! 1"], rule exI [where x = "s ! 2"],
    rule exI [where x = "s ! 3"], rule exI [where x = "s ! 4"], rule exI [where x = "s ! 5"],
    rule exI [where x = "s ! 6"], rule exI [where x = "s ! 7"], rule exI [where x = "s ! 8"],
    rule exI [where x = "s ! 9"], rule exI [where x = "s ! 10"], rule exI [where x = "s ! 11"],
    rule exI [where x = "s ! 12"], rule exI [where x = "s ! 13"], rule exI [where x = "s ! 14"],
    rule exI [where x = "s ! 15"])
   (auto simp: list_eq_iff_nth_eq less_Suc_eq numeral_eq_Suc)

lemma dec_value_lex':
  assumes "is_digit c" "list_all is_digit s" "list_all is_digit (d # t)" "length s = length t"
  shows "dec_value (c # s) \<le> dec_value (d # t) \<longleftrightarrow>
           byte c < byte d \<or> (c = d \<and> dec_value s \<le> dec_value t)"
  using dec_value_lex[of c s d t] assms by (auto simp: digit_val_def is_digit_def char_eq_byte)

lemma rx_seq_class:
  "rx_seq ps s \<Longrightarrow> (\<And>pc c. pc \<in> set ps \<Longrightarrow> rep_class pc c \<Longrightarrow> P c) \<Longrightarrow> list_all P s"
proof (induction ps s rule: rx_seq.induct)
  case (2 p lo hi ps s)
  then obtain k where k: "list_all p (take k s)" "rx_seq ps (drop k s)" "k \<in> set [lo..<Suc (rep_upto hi s)]"
    unfolding rx_seq.simps by blast
  then have "list_all P (drop k s)" by (intro 2(1)) (auto intro: 2(3))
  moreover have "list_all P (take k s)"
    using k(1) 2(3) [of "Rep p lo hi"] by (auto simp: list_all_iff)
  ultimately show ?case by (metis append_take_drop_id list_all_append)
qed simp

lemma rx_seq_length:
  "rx_seq ps s \<Longrightarrow> sum_list (map rep_min ps) \<le> length s"
  "rx_seq ps s \<Longrightarrow> list_all (\<lambda>pc. rep_max pc \<noteq> None) ps
     \<Longrightarrow> length s \<le> sum_list (map (the \<circ> rep_max) ps)"
proof (induction ps s rule: rx_seq.induct)
  case (2 p lo hi ps s)
  {
    case 1
    then show ?case using "2.IH"(1) unfolding rx_Rep by (force simp: rep_upto_def split: option.splits)
  next
    case 2
    then show ?case using "2.IH"(2) unfolding rx_Rep by (force simp: rep_upto_def split: option.splits)
  }
qed simp_all

lemma digit_0: "digit 0 = CHR ''0''"
  by code_simp

lemma number_alternatives:
  "ps \<in> set OperatorJournalNumberPattern \<Longrightarrow>
     ps = [times 1 (between (CHR ''1'') (CHR ''9'')), Rep d09 0 (Some 14)]
       \<or> sum_list (map rep_min ps) = 16"
  "ps \<in> set OperatorJournalNumberPattern \<Longrightarrow> list_all (\<lambda>pc. rep_max pc \<noteq> None) ps"
  "ps \<in> set OperatorJournalNumberPattern \<Longrightarrow> sum_list (map (the \<circ> rep_max) ps) \<le> 16"
  by (auto simp: OperatorJournalNumberPattern_def)

lemma matches_number_digits: "matches_number s \<Longrightarrow> list_all is_digit s"
  unfolding matches_number_def rx_alt_def list_ex_iff
  by (erule bexE, erule rx_seq_class)
    (auto simp: OperatorJournalNumberPattern_def between_def is_digit_def byte_def rx_lit_def)

lemma sixteen_digits:
  assumes "length s = 16"
  shows "matches_number s \<longleftrightarrow> list_all is_digit s \<and> hd s \<noteq> CHR ''0'' \<and> dec_value s \<le> MaxSafeInteger"
proof -
  obtain a b c d e f g h i j k l m n p q where s: "s = [a,b,c,d,e,f,g,h,i,j,k,l,m,n,p,q]"
    using length_16 [OF assms] by blast
  have lex: "list_all is_digit s \<Longrightarrow> dec_value s \<le> MaxSafeInteger \<longleftrightarrow>
     byte a < 57 \<or> (byte a = 57 \<and> (byte b < 48 \<or> (byte b = 48 \<and> (byte c < 48 \<or> (byte c = 48 \<and> (byte d < 55 \<or> (byte d = 55 \<and>
    (byte e < 49 \<or> (byte e = 49 \<and> (byte f < 57 \<or> (byte f = 57 \<and> (byte g < 57 \<or> (byte g = 57 \<and> (byte h < 50 \<or> (byte h = 50 \<and> 
    (byte i < 53 \<or> (byte i = 53 \<and> (byte j < 52 \<or> (byte j = 52 \<and> (byte k < 55 \<or> (byte k = 55 \<and> (byte l < 52 \<or> (byte l = 52 \<and> 
    (byte m < 48 \<or> (byte m = 48 \<and> (byte n < 57 \<or> (byte n = 57 \<and> (byte p < 57 \<or> (byte p = 57 \<and> (byte q < 49 \<or> byte q = 49
    ))))))))))))))))))))))))))))))"
    unfolding s max_safe_digits
    by (simp add: dec_value_lex' is_digit_def char_eq_byte byte_def)
  show ?thesis
  proof (cases "list_all is_digit s")
    case True
    then have dig: "is_digit a" "is_digit b" "is_digit c" "is_digit d" "is_digit e" "is_digit f" "is_digit g" "is_digit h"
      "is_digit i" "is_digit j" "is_digit k" "is_digit l" "is_digit m" "is_digit n" "is_digit p" "is_digit q" by (simp_all add: s)
    have bt: "is_digit x \<Longrightarrow> between (CHR ''0'') hi x \<longleftrightarrow> byte x < Suc (byte hi)" for x hi
      by (auto simp: between_def is_digit_def byte_def)
    have z: "is_digit x \<Longrightarrow> \<not> byte x < 48" for x by (simp add: is_digit_def)
    have nine: "\<not> between (CHR ''1'') (CHR ''8'') (CHR ''9'')" "byte (CHR ''9'') = 57" "is_digit (CHR ''9'')"
      by (simp_all add: between_def byte_def is_digit_def)
    have e1: "is_digit x \<Longrightarrow> byte x < 49 \<longleftrightarrow> x = CHR ''0''" for x
      by (auto simp: char_eq_byte is_digit_def byte_def)
    have a: "a \<noteq> CHR ''0'' \<and> byte a < 57 \<longleftrightarrow> between (CHR ''1'') (CHR ''8'') a"
      using dig(1) by (auto simp: char_eq_byte between_def is_digit_def byte_def)
    have byte_simps: "byte (CHR ''0'') = 48" "byte (CHR ''1'') = 49" "byte (CHR ''3'') = 51" "byte (CHR ''4'') = 52"
     "byte (CHR ''6'') = 54" "byte (CHR ''8'') = 56"
     "byte x = 57 \<longleftrightarrow> x = CHR ''9''" "byte x = 48 \<longleftrightarrow> x = CHR ''0''" "byte x = 49 \<longleftrightarrow> x = CHR ''1''" "byte x = 50 \<longleftrightarrow> x = CHR ''2''" 
     "byte x = 52 \<longleftrightarrow> x = CHR ''4''" "byte x = 53 \<longleftrightarrow> x = CHR ''5''" "byte x = 55 \<longleftrightarrow> x = CHR ''7''" for x
      by (simp_all add: char_eq_byte) (simp_all add: byte_def)
    show ?thesis
    proof (cases "a = CHR ''9''")
      case True
      show ?thesis unfolding lex [OF \<open>list_all is_digit s\<close>]
        unfolding s matches_number_def rx_alt_def OperatorJournalNumberPattern_def byte_simps
        using True by (simp add: dig bt z d09_is_digit byte_simps e1 nine conj_disj_distribL)
    next
      case False
      show ?thesis unfolding lex [OF \<open>list_all is_digit s\<close>]
        unfolding s matches_number_def rx_alt_def OperatorJournalNumberPattern_def byte_simps
        using False by (simp add: dig bt z d09_is_digit byte_simps e1 a [symmetric])
    qed
  next
    case False
    then show ?thesis using matches_number_digits by blast
  qed
qed

lemma matches_number_iff:
  "matches_number s \<longleftrightarrow>
     s \<noteq> [] \<and> list_all is_digit s \<and> hd s \<noteq> CHR ''0'' \<and> dec_value s \<le> MaxSafeInteger"
proof -
  have first: "rx_seq [times 1 (between (CHR ''1'') (CHR ''9'')), Rep d09 0 (Some 14)] s \<longleftrightarrow>
      s \<noteq> [] \<and> length s \<le> 15 \<and> list_all is_digit s \<and> hd s \<noteq> CHR ''0''"
    by (cases s) (auto simp: d09_is_digit between_def is_digit_def byte_def char_eq_byte)
  consider "length s \<le> 15" | "length s = 16" | "16 < length s" by linarith
  then show ?thesis
  proof cases
    case 1
    have "dec_value s \<le> MaxSafeInteger" if "list_all is_digit s"
    proof -
      have "dec_value s < 10 ^ length s" by (rule dec_value_less [OF that])
      also have "\<dots> \<le> (10 :: nat) ^ 15" using 1 by (intro power_increasing) auto
      finally show ?thesis by (simp add: MaxSafeInteger_def)
    qed
    moreover have "matches_number s \<longleftrightarrow>
        rx_seq [times 1 (between (CHR ''1'') (CHR ''9'')), Rep d09 0 (Some 14)] s"
    proof
      assume "matches_number s"
      then obtain ps where "ps \<in> set OperatorJournalNumberPattern" "rx_seq ps s"
        by (auto simp: matches_number_def rx_alt_def list_ex_iff)
      then show "rx_seq [times 1 (between (CHR ''1'') (CHR ''9'')), Rep d09 0 (Some 14)] s"
        using number_alternatives(1) [of ps] rx_seq_length(1) [of ps s] 1 by auto
    next
      assume "rx_seq [times 1 (between (CHR ''1'') (CHR ''9'')), Rep d09 0 (Some 14)] s"
      then show "matches_number s"
        unfolding matches_number_def rx_alt_def list_ex_iff
        by (rule bexI) (simp add: OperatorJournalNumberPattern_def)
    qed
    ultimately show ?thesis using first 1 by auto
  next
    case 2
    then show ?thesis using sixteen_digits by auto
  next
    case 3
    have "\<not> matches_number s"
      using 3 number_alternatives(2,3) rx_seq_length(2) [of _ s]
      by (fastforce simp: matches_number_def rx_alt_def list_ex_iff)
    moreover have "MaxSafeInteger < dec_value s" if "list_all is_digit s" "hd s \<noteq> CHR ''0''"
    proof -
      obtain c t where s: "s = c # t" using 3 by (cases s) auto
      then have "digit_val c \<noteq> 0" using that by (auto simp: digit_val_def is_digit_def char_eq_byte byte_def)
      then have "(10 :: nat) ^ 16 \<le> digit_val c * 10 ^ length t"
        using 3 s power_increasing [of 16 "length t" "10 :: nat"] by (cases "digit_val c") auto
      then show ?thesis by (simp add: s dec_value_Cons MaxSafeInteger_def)
    qed
    ultimately show ?thesis by fastforce
  qed
qed

lemma matches_number_dec: "matches_number s \<longleftrightarrow> (\<exists>n. 1 \<le> n \<and> n \<le> MaxSafeInteger \<and> s = dec n)"
proof
  assume m: "matches_number s"
  then have "s = dec (dec_value s)" using dec_of_value [of s]
    by (auto simp: matches_number_iff digit_0)
  moreover have "dec_value s \<noteq> 0"
  proof
    assume "dec_value s = 0"
    then have "s = dec 0" using calculation by simp
    then have "s = ''0''" by (subst (asm) dec.simps) (simp add: digit_0)
    then show False using m by (simp add: matches_number_iff)
  qed
  ultimately show "\<exists>n. 1 \<le> n \<and> n \<le> MaxSafeInteger \<and> s = dec n"
    using m by (intro exI [of _ "dec_value s"]) (auto simp: matches_number_iff)
next
  assume "\<exists>n. 1 \<le> n \<and> n \<le> MaxSafeInteger \<and> s = dec n"
  then show "matches_number s"
    using dec_no_leading_zero by (auto simp: matches_number_iff digit_0)
qed

end
