(* ===== verification/Identifiers.thy ===== *)
theory Identifiers
  imports Regex
begin

text \<open>
  \<open>internal/model\<close>'s identifiers: \<open>model.go\<close> (patterns), \<open>model_identifiers.go\<close>,
  \<open>entity_models.go\<close>, \<open>task_revision.go\<close>, \<open>track.go\<close>, \<open>milestone.go\<close>,
  \<open>operator_journal.go\<close>, \<open>session_identity.go\<close> and \<open>model_validation_strings.go\<close>.
  Each family has a formatter and a parser; a parser's submatches are the fixed-width code and
  what follows the family's marker. Go's \<open>uint64\<close> numbers are \<open>nat\<close>s, bounded by
  \<open>ParseUint\<close> and by \<open>MaxSafeInteger\<close>.
\<close>

section \<open>Codes and numbers\<close>

definition idRE :: "piece list" where
  "idRE = [times 1 is_lower_digit, Rep (\<lambda>c. is_lower_digit c \<or> c = CHR ''_'' \<or> c = CHR ''-'') 0 (Some 63)]"

definition projectCodeRE :: "piece list" where
  "projectCodeRE = [times 3 is_upper]"

definition ValidateProjectIdentifier :: "string \<Rightarrow> error" where
  "ValidateProjectIdentifier s = fail_if (\<not> rx_seq idRE s) ''invalid project identifier''"

definition ValidateProjectCode :: "string \<Rightarrow> error" where
  "ValidateProjectCode s =
     fail_if (\<not> rx_seq projectCodeRE s) ''project_code must be exactly three uppercase letters''"

definition ValidateCompactIDNumber :: "nat \<Rightarrow> error" where
  "ValidateCompactIDNumber n =
     fail_if (n < 1 \<or> MaxSafeInteger < n)
       (''compact identifier number must be between 1 and '' @ dec MaxSafeInteger)"

definition parseCompactIDNumber :: "string \<Rightarrow> nat result" where
  "parseCompactIDNumber s =
     (case parse_uint s of
        None \<Rightarrow> Err ''invalid compact identifier number''
      | Some n \<Rightarrow> guard_result (ValidateCompactIDNumber n) (Ok n))"

record ProjectIdentifiers =
  pi_SchemaVersion :: int
  pi_ProjectID :: string
  pi_ProjectCode :: string
  pi_NextTaskNumber :: nat
  pi_NextADRNumber :: nat

definition SchemaVersion :: int where "SchemaVersion = 1"

definition ValidateProjectIdentifiers :: "ProjectIdentifiers \<Rightarrow> error" where
  "ValidateProjectIdentifiers v = first_error
     [fail_if (pi_SchemaVersion v \<noteq> SchemaVersion) ''invalid project identifiers schema_version'',
      ValidateProjectIdentifier (pi_ProjectID v),
      ValidateProjectCode (pi_ProjectCode v),
      wrap_err ''next_task_number: '' (ValidateCompactIDNumber (pi_NextTaskNumber v)),
      wrap_err ''next_adr_number: '' (ValidateCompactIDNumber (pi_NextADRNumber v))]"

section \<open>Families with an exact number pattern\<close>

text \<open>
  \<open>^([A-Z]{3})-FAM(N)$\<close> for a marker such as \<open>-TSK\<close>: three capitals, the marker and a
  compact number. The two submatches are the code and the digits.
\<close>

definition matches_family :: "string \<Rightarrow> string \<Rightarrow> bool" where
  "matches_family marker s \<longleftrightarrow>
     3 \<le> length s \<and> list_all is_upper (take 3 s) \<and> HasPrefix (drop 3 s) marker
       \<and> matches_number (drop (3 + length marker) s)"

definition parse_family :: "string \<Rightarrow> string \<Rightarrow> string \<Rightarrow> (string \<times> nat) result" where
  "parse_family marker what s =
     (if matches_family marker s
      then map_sum id (Pair (take 3 s)) (parseCompactIDNumber (drop (3 + length marker) s))
      else Err (''invalid '' @ what @ '' ID''))"

definition format_family :: "string \<Rightarrow> string \<Rightarrow> nat \<Rightarrow> string result" where
  "format_family marker code n =
     guard_result (ValidateProjectCode code)
       (guard_result (ValidateCompactIDNumber n) (Ok (code @ marker @ dec n)))"

definition FormatTaskID :: "string \<Rightarrow> nat \<Rightarrow> string result" where
  "FormatTaskID = format_family ''-TSK''"

definition FormatADRID :: "string \<Rightarrow> nat \<Rightarrow> string result" where
  "FormatADRID = format_family ''-ADR''"

definition FormatOperationID :: "string \<Rightarrow> nat \<Rightarrow> string result" where
  "FormatOperationID = format_family ''-OPR''"

definition ParseTaskID :: "string \<Rightarrow> (string \<times> nat) result" where
  "ParseTaskID = parse_family ''-TSK'' ''canonical task''"

definition ParseTrainV2ID :: "string \<Rightarrow> (string \<times> nat) result" where
  "ParseTrainV2ID = parse_family ''-TRN'' ''canonical train v2''"

definition ParseOperationID :: "string \<Rightarrow> (string \<times> nat) result" where
  "ParseOperationID = parse_family ''-OPR'' ''canonical operation''"

definition ParseADRID :: "string \<Rightarrow> (string \<times> nat) result" where
  "ParseADRID = parse_family ''-ADR'' ''canonical ADR''"

definition ParseHistoricalADRID :: "string \<Rightarrow> (string \<times> nat) result" where
  "ParseHistoricalADRID = parse_family ''-A'' ''historical ADR''"

definition ParseOperatorEventID :: "string \<Rightarrow> (string \<times> nat) result" where
  "ParseOperatorEventID = parse_family ''-OPR'' ''canonical operator event''"

definition ParseHistoricalOperatorEventID :: "string \<Rightarrow> (string \<times> nat) result" where
  "ParseHistoricalOperatorEventID = parse_family ''-O'' ''historical operator event''"

definition ValidateOperatorEventID :: "string \<Rightarrow> error" where
  "ValidateOperatorEventID value = err_of (ParseOperatorEventID value)"

text \<open>\<open>legacyTaskIDRE\<close> has no upper bound on the digits; the bound is in the number parser.\<close>

definition ParseHistoricalTaskID :: "string \<Rightarrow> (string \<times> nat) result" where
  "ParseHistoricalTaskID s =
     (if rx_seq ([times 3 is_upper] @ rx_lit ''-T'' @
           [times 1 (between (CHR ''1'') (CHR ''9'')), Rep is_digit 0 None]) s
      then map_sum id (Pair (take 3 s)) (parseCompactIDNumber (drop 5 s))
      else Err ''invalid historical task ID'')"

definition ValidateCanonicalTaskID :: "string \<Rightarrow> error" where
  "ValidateCanonicalTaskID s = err_of (ParseTaskID s)"

definition ValidateCanonicalADRIdentifier :: "string \<Rightarrow> error" where
  "ValidateCanonicalADRIdentifier s = err_of (ParseADRID s)"

definition ValidateOperationID :: "string \<Rightarrow> error" where
  "ValidateOperationID s = err_of (ParseOperationID s)"

text \<open>
  \<open>canonicalRunIDRE\<close>: a task id, \<open>-RUN\<close> and a number. Digits contain no \<open>-\<close>, so the split
  is at the last occurrence of the marker.
\<close>

definition run_splits :: "string \<Rightarrow> (string \<times> string) list" where
  "run_splits s =
     filter (\<lambda>(t, n). matches_family ''-TSK'' t \<and> matches_number n)
       (map (\<lambda>k. (take k s, drop (k + 4) s))
         (filter (\<lambda>k. HasPrefix (drop k s) ''-RUN'') [0..<length s]))"

definition ParseRunID :: "string \<Rightarrow> (string \<times> nat) result" where
  "ParseRunID s =
     (case run_splits s of
        [] \<Rightarrow> Err ''invalid canonical run ID''
      | (t, n) # _ \<Rightarrow>
          guard_result (err_of (ParseTaskID t))
            (map_sum id (Pair t) (parseCompactIDNumber n)))"

definition ValidateCanonicalRunID :: "string \<Rightarrow> error" where
  "ValidateCanonicalRunID s = err_of (ParseRunID s)"

section \<open>Identifiers of one project\<close>

definition for_project :: "(string \<Rightarrow> (string \<times> nat) result) \<Rightarrow> string \<Rightarrow> string \<Rightarrow> string \<Rightarrow> nat result" where
  "for_project parse what value expected =
     guard_result (wrap_err ''expected project code: '' (ValidateProjectCode expected))
       (case parse value of
          Inl m \<Rightarrow> Err m
        | Inr (code, n) \<Rightarrow>
            guard_result (fail_if (code \<noteq> expected)
              (what @ '' ID project code '' @ go_quote code
                @ '' does not match expected project code '' @ go_quote expected)) (Ok n))"

definition ParseTaskIDForProject :: "string \<Rightarrow> string \<Rightarrow> nat result" where
  "ParseTaskIDForProject = for_project ParseTaskID ''compact task''"

definition ValidateTaskIDForProject :: "string \<Rightarrow> string \<Rightarrow> error" where
  "ValidateTaskIDForProject value expected = err_of (ParseTaskIDForProject value expected)"

definition ParseADRIDForProject :: "string \<Rightarrow> string \<Rightarrow> nat result" where
  "ParseADRIDForProject = for_project ParseADRID ''compact ADR''"

definition ValidateADRIDForProject :: "string \<Rightarrow> string \<Rightarrow> error" where
  "ValidateADRIDForProject value expected = err_of (ParseADRIDForProject value expected)"

definition ValidateOperationIDForProject :: "string \<Rightarrow> string \<Rightarrow> error" where
  "ValidateOperationIDForProject value expected =
     err_of (for_project ParseOperationID ''operation'' value expected)"

definition ParseRunIDForProject :: "string \<Rightarrow> string \<Rightarrow> (string \<times> nat) result" where
  "ParseRunIDForProject value expected =
     guard_result (wrap_err ''expected project code: '' (ValidateProjectCode expected))
       (case ParseRunID value of
          Inl m \<Rightarrow> Err m
        | Inr (task, n) \<Rightarrow>
            (case ParseTaskID task of
               Inl m \<Rightarrow> Err m
             | Inr (code, _) \<Rightarrow>
                 guard_result (fail_if (code \<noteq> expected)
                   (''run ID project code '' @ go_quote code
                     @ '' does not match expected project code '' @ go_quote expected)) (Ok (task, n))))"

definition ValidateRunIDForProject :: "string \<Rightarrow> string \<Rightarrow> error" where
  "ValidateRunIDForProject value expected = err_of (ParseRunIDForProject value expected)"

section \<open>Families read by the generic parser\<close>

text \<open>
  \<open>formatEntityID\<close> and \<open>parseEntityID\<close> of \<open>entity_models.go\<close>: rules, messages and journals.
  The parser checks positions and calls \<open>ParseUint\<close>; it does not use the number pattern.
\<close>

definition formatEntityID :: "string \<Rightarrow> string \<Rightarrow> nat \<Rightarrow> string result" where
  "formatEntityID code family n =
     guard_result (ValidateProjectCode code)
       (guard_result (ValidateCompactIDNumber n) (Ok (code @ ''-'' @ family @ dec n)))"

definition parseEntityID :: "string \<Rightarrow> string \<Rightarrow> (string \<times> nat) result" where
  "parseEntityID value family =
     (if length value < 8 \<or> take 1 (drop 3 value) \<noteq> ''-'' \<or> \<not> HasPrefix (drop 4 value) family
      then Err (''invalid canonical '' @ family @ '' identifier'')
      else guard_result (ValidateProjectCode (take 3 value))
        (case parseCompactIDNumber (drop (4 + length family) value) of
           Inl _ \<Rightarrow> Err (''invalid canonical '' @ family @ '' identifier'')
         | Inr n \<Rightarrow> Ok (take 3 value, n)))"

definition FormatRuleID :: "string \<Rightarrow> nat \<Rightarrow> string result" where
  "FormatRuleID code n = formatEntityID code ''RUL'' n"

definition FormatMessageID :: "string \<Rightarrow> nat \<Rightarrow> string result" where
  "FormatMessageID code n = formatEntityID code ''MSG'' n"

definition FormatJournalID :: "string \<Rightarrow> nat \<Rightarrow> string result" where
  "FormatJournalID code n = formatEntityID code ''JRN'' n"

definition ParseRuleID :: "string \<Rightarrow> (string \<times> nat) result" where
  "ParseRuleID value = parseEntityID value ''RUL''"

definition ParseMessageID :: "string \<Rightarrow> (string \<times> nat) result" where
  "ParseMessageID value = parseEntityID value ''MSG''"

definition ParseJournalID :: "string \<Rightarrow> (string \<times> nat) result" where
  "ParseJournalID value = parseEntityID value ''JRN''"

definition ValidateRuleID :: "string \<Rightarrow> error" where
  "ValidateRuleID value = err_of (ParseRuleID value)"

definition ValidateMessageID :: "string \<Rightarrow> error" where
  "ValidateMessageID value = err_of (ParseMessageID value)"

definition ValidateJournalID :: "string \<Rightarrow> error" where
  "ValidateJournalID value = err_of (ParseJournalID value)"

definition ValidateAnyOperatorEventID :: "string \<Rightarrow> error" where
  "ValidateAnyOperatorEventID value =
     (if err_of (ParseOperatorEventID value) = None \<or> err_of (ParseJournalID value) = None then None
      else err_of (ParseHistoricalOperatorEventID value))"

definition ParseAnyJournalEventID :: "string \<Rightarrow> (string \<times> nat) result" where
  "ParseAnyJournalEventID value =
     (case ParseJournalID value of
        Inr x \<Rightarrow> Ok x
      | Inl _ \<Rightarrow> (case ParseOperatorEventID value of
                    Inr x \<Rightarrow> Ok x
                  | Inl _ \<Rightarrow> ParseHistoricalOperatorEventID value))"

definition ValidateOperatorEventIDForProject :: "string \<Rightarrow> string \<Rightarrow> error" where
  "ValidateOperatorEventIDForProject value projectCode = first_error
     [ValidateProjectCode projectCode,
      (case ParseAnyJournalEventID value of
         Inl m \<Rightarrow> Some m
       | Inr (code, _) \<Rightarrow> fail_if (code \<noteq> projectCode)
           (''operator event ID project code '' @ go_quote code @ '' does not match expected project code ''
             @ go_quote projectCode))]"

definition ValidateDurableIdentifier :: "string \<Rightarrow> error" where
  "ValidateDurableIdentifier s =
     fail_if (\<not> (ValidateCanonicalTaskID s = None \<or> ValidateCanonicalRunID s = None
         \<or> ValidateCanonicalADRIdentifier s = None \<or> ValidateOperatorEventID s = None
         \<or> ValidateJournalID s = None)) ''invalid canonical durable identifier''"

definition FormatMilestoneID :: "string \<Rightarrow> nat \<Rightarrow> string result" where
  "FormatMilestoneID code n = formatEntityID code ''MIL'' n"

definition ParseMilestoneID :: "string \<Rightarrow> (string \<times> nat) result" where
  "ParseMilestoneID value = parseEntityID value ''MIL''"

definition ValidateMilestoneID :: "string \<Rightarrow> error" where
  "ValidateMilestoneID value = err_of (ParseMilestoneID value)"

section \<open>Tracks\<close>

text \<open>
  \<open>trackIDRE\<close> does not bound the digits; \<open>Sscanf(.., "%d")\<close> into a \<open>uint64\<close> fails on
  overflow, as \<open>ParseUint\<close> does.
\<close>

definition trackIDRE :: "piece list" where
  "trackIDRE = [times 3 is_upper] @ rx_lit ''-TRK''
     @ [times 1 (between (CHR ''1'') (CHR ''9'')), Rep is_digit 0 None]"

definition FormatTrackID :: "string \<Rightarrow> nat \<Rightarrow> string result" where
  "FormatTrackID code n =
     guard_result (ValidateProjectCode code)
       (guard_result (fail_if (n = 0 \<or> MaxSafeInteger < n) ''invalid Track number'')
         (Ok (code @ ''-TRK'' @ dec n)))"

definition ParseTrackID :: "string \<Rightarrow> (string \<times> nat) result" where
  "ParseTrackID value =
     (if \<not> rx_seq trackIDRE value then Err ''invalid Track identifier''
      else (case parse_uint (drop 7 value) of
              None \<Rightarrow> Err ''invalid Track number''
            | Some n \<Rightarrow> guard_result (fail_if (n = 0 \<or> MaxSafeInteger < n) ''invalid Track number'')
                          (Ok (take 3 value, n))))"

definition ValidateTrackID :: "string \<Rightarrow> error" where
  "ValidateTrackID value = err_of (ParseTrackID value)"

section \<open>Task revisions and their runs\<close>

text \<open>
  \<open>taskRevisionIDRE\<close> is \<open>^([A-Z]{3}-TSK\<close> followed by the alternatives of the number pattern
  without parentheses of their own and by \<open>)\.REV([1-9][0-9]*)$\<close>: the prefix belongs to the
  first alternative only. The first group contains no dot, so it ends at the first dot.
\<close>

definition task_revision_group :: "string \<Rightarrow> bool" where
  "task_revision_group t \<longleftrightarrow>
     rx_seq ([times 3 is_upper] @ rx_lit ''-TSK'' @ hd OperatorJournalNumberPattern) t
       \<or> rx_alt (tl OperatorJournalNumberPattern) t"

definition FormatTaskRevisionIDUnchecked :: "string \<Rightarrow> int \<Rightarrow> string" where
  "FormatTaskRevisionIDUnchecked task revision = task @ ''.REV'' @ dec_int revision"

definition FormatTaskRevisionID :: "string \<Rightarrow> int \<Rightarrow> string result" where
  "FormatTaskRevisionID task revision =
     guard_result (ValidateCanonicalTaskID task)
       (guard_result (fail_if (revision < 1 \<or> int MaxSafeInteger < revision) ''invalid task revision'')
         (Ok (FormatTaskRevisionIDUnchecked task revision)))"

definition ParseTaskRevisionID :: "string \<Rightarrow> (string \<times> int) result" where
  "ParseTaskRevisionID value =
     (let task = takeWhile (\<lambda>c. c \<noteq> CHR ''.'') value; rest = dropWhile (\<lambda>c. c \<noteq> CHR ''.'') value
      in if \<not> (task_revision_group task \<and> HasPrefix rest ''.REV''
              \<and> rx_seq [times 1 (between (CHR ''1'') (CHR ''9'')), Rep is_digit 0 None] (drop 4 rest))
         then Err ''invalid task revision id''
         else (case parse_uint (drop 4 rest) of
                 None \<Rightarrow> Err ''invalid task revision number''
               | Some n \<Rightarrow> guard_result (fail_if (n = 0 \<or> MaxSafeInteger < n) ''invalid task revision number'')
                             (Ok (task, int n))))"

definition ValidateTaskRevisionID :: "string \<Rightarrow> error" where
  "ValidateTaskRevisionID value = err_of (ParseTaskRevisionID value)"

definition FormatTaskRevisionRunID :: "string \<Rightarrow> nat \<Rightarrow> string result" where
  "FormatTaskRevisionRunID revision_id run =
     guard_result (ValidateTaskRevisionID revision_id)
       (guard_result (fail_if (run = 0 \<or> MaxSafeInteger < run) ''invalid task run number'')
         (Ok (revision_id @ ''-RUN'' @ dec run)))"

text \<open>\<open>strings.LastIndex(value, p)\<close>\<close>

definition LastIndex :: "string \<Rightarrow> string \<Rightarrow> nat option" where
  "LastIndex value p = find (\<lambda>k. HasPrefix (drop k value) p) (rev [0..<Suc (length value)])"

definition ParseTaskRevisionRunID :: "string \<Rightarrow> (string \<times> nat) result" where
  "ParseTaskRevisionRunID value =
     (case LastIndex value ''-RUN'' of
        None \<Rightarrow> Err ''invalid task revision run id''
      | Some marker \<Rightarrow>
          guard_result (ValidateTaskRevisionID (take marker value))
            (case parse_uint (drop (marker + 4) value) of
               None \<Rightarrow> Err ''invalid task run number''
             | Some n \<Rightarrow> guard_result (fail_if (n = 0 \<or> MaxSafeInteger < n) ''invalid task run number'')
                           (Ok (take marker value, n))))"

definition ValidateTaskRevisionRunID :: "string \<Rightarrow> error" where
  "ValidateTaskRevisionRunID value = err_of (ParseTaskRevisionRunID value)"

section \<open>Other identifiers and references\<close>

definition canonicalSessionIDRE :: "piece list list" where
  "canonicalSessionIDRE =
     [[times 3 is_upper] @ rx_lit ''_'' @ [times 3 is_upper] @ rx_lit ''_''
        @ [times 1 (\<lambda>c. List.member ''PLAW'' c)] @ rx_lit ''_'' @ [times 5 is_lower_digit],
      [times 3 is_upper] @ rx_lit ''_ADM_'' @ [times 32 is_lower_digit]]"

definition IsCanonicalSessionID :: "string \<Rightarrow> bool" where
  "IsCanonicalSessionID value \<longleftrightarrow> rx_alt canonicalSessionIDRE value"

definition object_char :: "char \<Rightarrow> bool" where
  "object_char c \<longleftrightarrow> is_alnum c \<or> List.member ''._-'' c"

definition ValidateObjectIdentifier :: "string \<Rightarrow> error" where
  "ValidateObjectIdentifier s =
     fail_if (\<not> rx_seq [times 1 is_alnum, Rep object_char 0 (Some 127)] s) ''invalid object identifier''"

definition adrIDRE :: "piece list" where
  "adrIDRE = rx_lit ''ADR-'' @ [times 1 is_alnum, Rep object_char 0 (Some 63)]"

definition ValidateADRIdentifier :: "string \<Rightarrow> error" where
  "ValidateADRIdentifier s = fail_if (\<not> rx_seq adrIDRE s) ''invalid ADR identifier''"

definition validateAnyADRIdentifier :: "string \<Rightarrow> error" where
  "validateAnyADRIdentifier s =
     fail_if (\<not> (ValidateADRIdentifier s = None \<or> ValidateCanonicalADRIdentifier s = None))
       ''invalid ADR identifier''"

text \<open>\<open>c+(?:sepc+)*\<close>: non-empty runs of a class between separators outside of it.\<close>

fun split_on :: "char \<Rightarrow> string \<Rightarrow> string list" where
  "split_on d [] = [[]]"
| "split_on d (c # s) =
     (if c = d then [] # split_on d s
      else (case split_on d s of [] \<Rightarrow> [[c]] | w # ws \<Rightarrow> (c # w) # ws))"

definition rx_separated :: "char \<Rightarrow> (char \<Rightarrow> bool) \<Rightarrow> string \<Rightarrow> bool" where
  "rx_separated d p s \<longleftrightarrow> list_all (\<lambda>w. w \<noteq> [] \<and> list_all p w) (split_on d s)"

definition ValidateTaskSlug :: "string \<Rightarrow> error" where
  "ValidateTaskSlug s =
     fail_if (length s < 1 \<or> 80 < length s \<or> \<not> rx_separated (CHR ''-'') is_lower_digit s) ''invalid task slug''"

definition git_ref_chars :: string where
  "git_ref_chars = nul_cr_lf @ '' ~^:?*['' @ [backslash]"

definition ValidateBranch :: "string \<Rightarrow> error" where
  "ValidateBranch s =
     fail_if (s = [] \<or> 255 < length s \<or> ContainsAny s git_ref_chars \<or> HasPrefix s ''-''
       \<or> Contains s ''..'' \<or> HasSuffix s ''/'') ''invalid branch''"

definition ValidateRevision :: "string \<Rightarrow> error" where
  "ValidateRevision s =
     fail_if (s = [] \<or> 255 < length s \<or> ContainsAny s git_ref_chars \<or> HasPrefix s ''-''
       \<or> Contains s ''..'') ''invalid revision''"

definition shaRE :: "piece list" where
  "shaRE = [times 40 is_hex_lower]"

text \<open>\<open>len(s) == 64\<close> and lower-case hexadecimal, in the two spellings the source uses.\<close>

definition sha256RE :: "string \<Rightarrow> bool" where
  "sha256RE s \<longleftrightarrow> length s = 64 \<and> rx_seq [Rep is_hex_lower 1 None] s"

definition ValidateSHA256 :: "string \<Rightarrow> error" where
  "ValidateSHA256 value = fail_if (\<not> sha256RE value) ''invalid SHA-256 digest''"

definition ValidateCommitSHA :: "string \<Rightarrow> error" where
  "ValidateCommitSHA s = fail_if (\<not> rx_seq shaRE s) ''must be a lowercase 40-character SHA''"

definition is_sha256 :: "string \<Rightarrow> bool" where
  "is_sha256 s \<longleftrightarrow> length s = 64 \<and> go_Trim s ''0123456789abcdef'' = []"

end
