(* ===== verification/Identifier_Laws.thy ===== *)
theory Identifier_Laws
  imports Identifiers
begin

text \<open>
  What the identifier formatters and parsers promise each other. The locale \<open>id_codec\<close> is the
  contract every family keeps (what is formatted is read back, so identifiers never collide);
  \<open>canonical_id_codec\<close> adds that nothing else is accepted, which holds for the families that
  are matched against the number pattern and fails for those read by \<open>parseEntityID\<close>.
\<close>

locale id_codec =
  fixes encode :: "'a \<Rightarrow> 'b \<Rightarrow> string result"
    and decode :: "string \<Rightarrow> ('a \<times> 'b) result"
  assumes decode_encode: "encode a b = Ok s \<Longrightarrow> decode s = Ok (a, b)"
begin

lemma encode_inject: "encode a b = Ok s \<Longrightarrow> encode a' b' = Ok s \<Longrightarrow> a = a' \<and> b = b'"
  using decode_encode [of a b s] decode_encode [of a' b' s] by simp

lemma encoded_valid: "encode a b = Ok s \<Longrightarrow> err_of (decode s) = None"
  using decode_encode by simp

end

locale canonical_id_codec = id_codec +
  assumes encode_decode: "decode s = Ok (a, b) \<Longrightarrow> encode a b = Ok s"
begin

lemma decode_inject: "decode s = Ok x \<Longrightarrow> decode t = Ok x \<Longrightarrow> s = t"
  using encode_decode by (metis old.sum.inject(2) surj_pair)

lemma decode_iff: "decode s = Ok (a, b) \<longleftrightarrow> encode a b = Ok s"
  using decode_encode encode_decode by blast

lemma valid_iff_encoded: "err_of (decode s) = None \<longleftrightarrow> (\<exists>a b. encode a b = Ok s)"
  using decode_iff by (metis err_of_None surj_pair)

end

section \<open>Numbers and codes\<close>

lemma ValidateProjectCode_None:
  "ValidateProjectCode s = None \<longleftrightarrow> length s = 3 \<and> list_all is_upper s"
  by (auto simp: ValidateProjectCode_def projectCodeRE_def)

lemma ValidateCompactIDNumber_None [simp]:
  "ValidateCompactIDNumber n = None \<longleftrightarrow> 1 \<le> n \<and> n \<le> MaxSafeInteger"
  by (auto simp: ValidateCompactIDNumber_def)

lemma parseCompactIDNumber_dec:
  "1 \<le> n \<Longrightarrow> n \<le> MaxSafeInteger \<Longrightarrow> parseCompactIDNumber (dec n) = Ok n"
  by (simp add: parseCompactIDNumber_def MaxSafeInteger_def)

lemma parseCompactIDNumber_Ok:
  "parseCompactIDNumber s = Ok n \<Longrightarrow> 1 \<le> n \<and> n \<le> MaxSafeInteger \<and> list_all is_digit s \<and> n = dec_value s"
  by (auto simp: parseCompactIDNumber_def split: option.splits dest: parse_uint_SomeD)

text \<open>A digit string that the number pattern matches is the decimal of the number it denotes.\<close>

lemma parseCompactIDNumber_matched:
  "matches_number s \<Longrightarrow> parseCompactIDNumber s = Ok n \<Longrightarrow> s = dec n"
  by (auto simp: matches_number_dec dest: parseCompactIDNumber_Ok)

section \<open>Families with the exact pattern\<close>

lemma format_family_Ok:
  "format_family marker code n = Ok s \<longleftrightarrow>
     length code = 3 \<and> list_all is_upper code \<and> 1 \<le> n \<and> n \<le> MaxSafeInteger \<and> s = code @ marker @ dec n"
  by (auto simp: format_family_def ValidateProjectCode_None)

lemma matches_family_iff:
  "matches_family marker s \<longleftrightarrow>
     (\<exists>code n. length code = 3 \<and> list_all is_upper code \<and> 1 \<le> n \<and> n \<le> MaxSafeInteger
        \<and> s = code @ marker @ dec n)"
proof
  assume m: "matches_family marker s"
  then obtain t where t: "drop 3 s = marker @ t" by (auto simp: matches_family_def HasPrefix_iff)
  then have "drop (3 + length marker) s = t"
    by (metis add.commute append_eq_conv_conj drop_drop)
  then obtain n where n: "1 \<le> n" "n \<le> MaxSafeInteger" "t = dec n"
    using m by (auto simp: matches_family_def matches_number_dec)
  have "s = take 3 s @ marker @ dec n" using t n(3) by (metis append_take_drop_id)
  moreover have "length (take 3 s) = 3" "list_all is_upper (take 3 s)"
    using m by (auto simp: matches_family_def)
  ultimately show "\<exists>code n. length code = 3 \<and> list_all is_upper code \<and> 1 \<le> n \<and> n \<le> MaxSafeInteger
      \<and> s = code @ marker @ dec n"
    using n by blast
next
  assume "\<exists>code n. length code = 3 \<and> list_all is_upper code \<and> 1 \<le> n \<and> n \<le> MaxSafeInteger
      \<and> s = code @ marker @ dec n"
  then show "matches_family marker s"
    by (auto simp: matches_family_def matches_number_dec)
qed

lemma parse_family_Ok:
  "parse_family marker what s = Ok (code, n) \<longleftrightarrow> format_family marker code n = Ok s"
proof
  assume p: "parse_family marker what s = Ok (code, n)"
  then have m: "matches_family marker s" by (auto simp: parse_family_def split: if_splits)
  then obtain c k where s: "length c = 3" "list_all is_upper c" "1 \<le> k" "k \<le> MaxSafeInteger"
    "s = c @ marker @ dec k"
    by (auto simp: matches_family_iff)
  then show "format_family marker code n = Ok s"
    using p m by (auto simp: parse_family_def format_family_Ok parseCompactIDNumber_dec)
next
  assume "format_family marker code n = Ok s"
  then have s: "length code = 3" "list_all is_upper code" "1 \<le> n" "n \<le> MaxSafeInteger"
    "s = code @ marker @ dec n"
    by (auto simp: format_family_Ok)
  then have "matches_family marker s" by (auto simp: matches_family_iff)
  then show "parse_family marker what s = Ok (code, n)"
    using s by (auto simp: parse_family_def parseCompactIDNumber_dec)
qed

lemma family_codec: "canonical_id_codec (format_family marker) (parse_family marker what)"
  by unfold_locales (simp_all add: parse_family_Ok)

interpretation task_id: canonical_id_codec FormatTaskID ParseTaskID
  unfolding FormatTaskID_def ParseTaskID_def by (rule family_codec)

interpretation adr_id: canonical_id_codec FormatADRID ParseADRID
  unfolding FormatADRID_def ParseADRID_def by (rule family_codec)

interpretation operation_id: canonical_id_codec FormatOperationID ParseOperationID
  unfolding FormatOperationID_def ParseOperationID_def by (rule family_codec)

lemma ValidateCanonicalTaskID_iff:
  "ValidateCanonicalTaskID s = None \<longleftrightarrow> (\<exists>code n. FormatTaskID code n = Ok s)"
  by (simp only: ValidateCanonicalTaskID_def task_id.valid_iff_encoded)

section \<open>Tracks\<close>

lemma first_then_digits:
  "rx_seq [times 1 (between (CHR ''1'') (CHR ''9'')), Rep is_digit 0 None] s \<longleftrightarrow>
     s \<noteq> [] \<and> list_all is_digit s \<and> hd s \<noteq> CHR ''0''"
  by (cases s) (auto simp: between_def is_digit_def byte_def char_eq_byte)

lemma dec_first_then_digits:
  "1 \<le> n \<Longrightarrow> rx_seq [times 1 (between (CHR ''1'') (CHR ''9'')), Rep is_digit 0 None] (dec n)"
  using dec_no_leading_zero [of n] by (simp only: first_then_digits dec_digits digit_0) auto

lemma trackIDRE_iff:
  "rx_seq trackIDRE s \<longleftrightarrow>
     3 \<le> length s \<and> list_all is_upper (take 3 s) \<and> HasPrefix (drop 3 s) ''-TRK''
       \<and> drop 7 s \<noteq> [] \<and> list_all is_digit (drop 7 s) \<and> hd (drop 7 s) \<noteq> CHR ''0''"
proof -
  have "rx_seq trackIDRE s \<longleftrightarrow> 3 \<le> length s \<and> list_all is_upper (take 3 s) \<and> HasPrefix (drop 3 s) ''-TRK''
     \<and> rx_seq [times 1 (between (CHR ''1'') (CHR ''9'')), Rep is_digit 0 None] (drop 4 (drop 3 s))"
    unfolding trackIDRE_def append.simps rx_times rx_lit_append by simp
  then show ?thesis unfolding first_then_digits by simp
qed

lemma ParseTrackID_Ok: "ParseTrackID s = Ok (code, n) \<longleftrightarrow> FormatTrackID code n = Ok s"
proof
  assume p: "ParseTrackID s = Ok (code, n)"
  then have rx: "rx_seq trackIDRE s" and n: "parse_uint (drop 7 s) = Some n" "1 \<le> n" "n \<le> MaxSafeInteger"
    and code: "code = take 3 s"
    by (auto simp: ParseTrackID_def split: if_splits option.splits)
  have "dec n = drop 7 s"
    using parse_uint_SomeD [OF n(1)] rx dec_of_value [of "drop 7 s"] by (auto simp: trackIDRE_iff digit_0)
  moreover have "s = take 3 s @ ''-TRK'' @ drop 7 s"
  proof -
    obtain t where t: "drop 3 s = ''-TRK'' @ t" using rx by (auto simp: trackIDRE_iff HasPrefix_iff)
    then have "drop 7 s = t" using drop_drop [of 4 3 s] by simp
    then show ?thesis using t by (metis append_take_drop_id)
  qed
  ultimately show "FormatTrackID code n = Ok s"
    using rx n code by (auto simp: FormatTrackID_def ValidateProjectCode_None trackIDRE_iff)
next
  assume "FormatTrackID code n = Ok s"
  then have s: "length code = 3" "list_all is_upper code" "1 \<le> n" "n \<le> MaxSafeInteger"
    "s = code @ ''-TRK'' @ dec n"
    by (auto simp: FormatTrackID_def ValidateProjectCode_None)
  have "hd (dec n) \<noteq> CHR ''0''" using dec_no_leading_zero [of n] s(3) by (simp add: digit_0)
  then have "rx_seq trackIDRE s" using s by (simp add: trackIDRE_iff HasPrefix_def)
  moreover have "n < 18446744073709551616" using s(4) by (simp add: MaxSafeInteger_def)
  ultimately show "ParseTrackID s = Ok (code, n)"
    using s by (simp add: ParseTrackID_def)
qed

interpretation track_id: canonical_id_codec FormatTrackID ParseTrackID
  by unfold_locales (simp_all add: ParseTrackID_Ok)

section \<open>Families read by \<open>parseEntityID\<close>\<close>

lemma formatEntityID_Ok:
  "formatEntityID code family n = Ok s \<longleftrightarrow>
     length code = 3 \<and> list_all is_upper code \<and> 1 \<le> n \<and> n \<le> MaxSafeInteger
       \<and> s = code @ ''-'' @ family @ dec n"
  by (auto simp: formatEntityID_def ValidateProjectCode_None)

lemma parse_formatted_entity:
  assumes "formatEntityID code family n = Ok s" and "length family = 3"
  shows "parseEntityID s family = Ok (code, n)"
proof -
  have s: "length code = 3" "list_all is_upper code" "1 \<le> n" "n \<le> MaxSafeInteger"
    "s = code @ ''-'' @ family @ dec n"
    using assms(1) by (auto simp: formatEntityID_Ok)
  have "1 \<le> length (dec n)" by (simp add: Suc_le_eq)
  then have "8 \<le> length s" using s assms(2) by simp
  then show ?thesis
    using s assms(2) by (simp add: parseEntityID_def ValidateProjectCode_None parseCompactIDNumber_dec)
qed

lemma parseEntityID_Ok:
  assumes "parseEntityID s family = Ok (code, n)"
  shows "1 \<le> n \<and> n \<le> MaxSafeInteger \<and> length code = 3 \<and> list_all is_upper code
       \<and> (\<exists>digits. list_all is_digit digits \<and> dec_value digits = n \<and> s = code @ ''-'' @ family @ digits)"
proof -
  let ?digits = "drop (4 + length family) s"
  have fam: "\<not> length s < 8" "take 1 (drop 3 s) = ''-''" "HasPrefix (drop 4 s) family"
    and code: "code = take 3 s" "ValidateProjectCode (take 3 s) = None"
    and n: "parseCompactIDNumber ?digits = Ok n"
    using assms by (auto simp: parseEntityID_def split: if_splits sum.splits)
  obtain t where t: "drop 4 s = family @ t" using fam(3) by (auto simp: HasPrefix_iff)
  then have "?digits = t" by (metis add.commute append_eq_conv_conj drop_drop)
  moreover have "drop 3 s = CHR ''-'' # drop 4 s"
    using fam(1,2) by (cases "drop 3 s") (auto simp: drop_Suc eval_nat_numeral tl_drop dest: arg_cong [where f = tl])
  ultimately have "s = code @ ''-'' @ family @ ?digits"
    using t code(1) by (metis append_Cons append_Nil append_take_drop_id)
  then show ?thesis
    using n code parseCompactIDNumber_Ok [OF n] by (auto simp: ValidateProjectCode_None)
qed

interpretation rule_id: id_codec FormatRuleID ParseRuleID
  by unfold_locales (simp add: FormatRuleID_def ParseRuleID_def parse_formatted_entity)

interpretation message_id: id_codec FormatMessageID ParseMessageID
  by unfold_locales (simp add: FormatMessageID_def ParseMessageID_def parse_formatted_entity)

interpretation journal_id: id_codec FormatJournalID ParseJournalID
  by unfold_locales (simp add: FormatJournalID_def ParseJournalID_def parse_formatted_entity)

interpretation milestone_id: id_codec FormatMilestoneID ParseMilestoneID
  by unfold_locales (simp add: FormatMilestoneID_def ParseMilestoneID_def parse_formatted_entity)

definition entity_spelling :: "string \<Rightarrow> string \<Rightarrow> nat \<Rightarrow> string \<Rightarrow> bool" where
  "entity_spelling family code n s \<longleftrightarrow>
     length code = 3 \<and> list_all is_upper code \<and> 1 \<le> n \<and> n \<le> MaxSafeInteger
       \<and> (\<exists>digits. list_all is_digit digits \<and> dec_value digits = n \<and> s = code @ ''-'' @ family @ digits)"

lemma length_3_code: "length ''RUL'' = 3" "length ''MSG'' = 3" "length ''JRN'' = 3" "length ''MIL'' = 3"
  by simp_all

lemma entity_spelling_iff:
  assumes "length family = 3"
  shows "parseEntityID s family = Ok (code, n) \<longleftrightarrow> entity_spelling family code n s"
proof
  assume "parseEntityID s family = Ok (code, n)"
  then show "entity_spelling family code n s"
    using parseEntityID_Ok by (simp add: entity_spelling_def)
next
  assume "entity_spelling family code n s"
  then obtain digits where d: "length code = 3" "list_all is_upper code" "1 \<le> n" "n \<le> MaxSafeInteger"
    "list_all is_digit digits" "dec_value digits = n" "s = code @ ''-'' @ family @ digits"
    by (auto simp: entity_spelling_def)
  have "digits \<noteq> []" using d(3,6) by auto
  then have "parse_uint digits = Some n" using d by (auto simp: parse_uint_def MaxSafeInteger_def)
  then have "parseCompactIDNumber digits = Ok n" using d by (simp add: parseCompactIDNumber_def)
  moreover have "8 \<le> length s" using d(1,7) assms \<open>digits \<noteq> []\<close> by (cases digits) auto
  ultimately show "parseEntityID s family = Ok (code, n)"
    using d assms \<open>digits \<noteq> []\<close> by (simp add: parseEntityID_def ValidateProjectCode_None)
qed

section \<open>Task revisions\<close>

lemma length_dec_le: "1 \<le> k \<Longrightarrow> length (dec n) \<le> k \<longleftrightarrow> n < 10 ^ k"
proof (induction n arbitrary: k rule: dec.induct)
  case (1 n)
  obtain j where k: "k = Suc j" using 1(2) by (cases k) auto
  show ?case
  proof (cases "n < 10")
    case True
    then have "dec n = [digit n]" by (subst dec.simps) simp
    moreover have "n < 10 * 10 ^ j" using True less_le_trans [of n 10 "10 * 10 ^ j"] by simp
    ultimately show ?thesis using k by simp
  next
    case False
    then have d: "dec n = dec (n div 10) @ [digit (n mod 10)]" by (subst dec.simps) simp
    show ?thesis
    proof (cases "j = 0")
      case True
      then show ?thesis using False d k by (cases "dec (n div 10)") auto
    next
      case j: False
      have "length (dec n) \<le> k \<longleftrightarrow> n div 10 < 10 ^ j" using d k j 1(1) False by simp
      also have "\<dots> \<longleftrightarrow> n < 10 ^ k" using k by (simp add: div_less_iff_less_mult mult.commute)
      finally show ?thesis .
    qed
  qed
qed

lemma number_alternatives_digits:
  "rx_alt (tl OperatorJournalNumberPattern) s \<Longrightarrow> list_all is_digit s"
  unfolding rx_alt_def list_ex_iff
  by (erule bexE, erule rx_seq_class)
    (auto simp: OperatorJournalNumberPattern_def between_def is_digit_def byte_def rx_lit_def)

lemma upper_not_digit: "is_upper c \<Longrightarrow> \<not> is_digit c"
  by (auto simp: is_upper_def between_def is_digit_def byte_def)

lemma task_revision_group_iff:
  assumes "FormatTaskID code n = Ok task"
  shows "task_revision_group task \<longleftrightarrow> n < 10 ^ 15"
proof -
  have t: "length code = 3" "list_all is_upper code" "1 \<le> n" "task = code @ ''-TSK'' @ dec n"
    using assms by (auto simp: FormatTaskID_def format_family_Ok)
  have "\<not> list_all is_digit task" using t upper_not_digit by (cases code) auto
  then have tl: "\<not> rx_alt (tl OperatorJournalNumberPattern) task"
    using number_alternatives_digits by blast
  have hd: "hd OperatorJournalNumberPattern
      = [times 1 (between (CHR ''1'') (CHR ''9'')), Rep d09 0 (Some 14)]"
    by (simp add: OperatorJournalNumberPattern_def)
  have "rx_seq (hd OperatorJournalNumberPattern) (dec n) \<longleftrightarrow> length (dec n) \<le> 15"
    using dec_first_then_digits [OF t(3)] unfolding hd by (auto simp: d09_is_digit)
  then have "rx_seq (hd OperatorJournalNumberPattern) (dec n) \<longleftrightarrow> n < 10 ^ 15"
    by (simp only: length_dec_le)
  moreover have "rx_seq ([times 3 is_upper] @ rx_lit ''-TSK'' @ hd OperatorJournalNumberPattern) task
      \<longleftrightarrow> rx_seq (hd OperatorJournalNumberPattern) (dec n)"
    using t unfolding append.simps rx_times rx_lit_append by (simp add: HasPrefix_def)
  ultimately show ?thesis using tl by (simp add: task_revision_group_def)
qed

lemma task_id_no_dot: "FormatTaskID code n = Ok task \<Longrightarrow> CHR ''.'' \<notin> set task"
proof -
  assume "FormatTaskID code n = Ok task"
  then have t: "list_all is_upper code" "task = code @ ''-TSK'' @ dec n"
    by (auto simp: FormatTaskID_def format_family_Ok)
  have "\<not> is_upper (CHR ''.'')" "\<not> is_digit (CHR ''.'')"
    by (simp_all add: is_upper_def between_def is_digit_def byte_def)
  then show ?thesis using t dec_digits [of n] by (auto simp: list_all_iff)
qed

lemma ParseTaskRevisionID_formatted:
  assumes "FormatTaskID code n = Ok task" and "FormatTaskRevisionID task r = Ok s"
  shows "ParseTaskRevisionID s =
     (if n < 10 ^ 15 then Ok (task, r) else Err ''invalid task revision id'')"
proof -
  have s: "s = task @ CHR ''.'' # ''REV'' @ dec (nat r)" and r: "1 \<le> r" "r \<le> int MaxSafeInteger"
    using assms(2) by (auto simp: FormatTaskRevisionID_def FormatTaskRevisionIDUnchecked_def dec_int_def)
  have split: "takeWhile (\<lambda>c. c \<noteq> CHR ''.'') s = task"
    "dropWhile (\<lambda>c. c \<noteq> CHR ''.'') s = CHR ''.'' # ''REV'' @ dec (nat r)"
    using task_id_no_dot [OF assms(1)] unfolding s by (auto simp: takeWhile_append dropWhile_append)
  have "1 \<le> nat r" "nat r \<le> MaxSafeInteger" using r by linarith+
  then have "rx_seq [times 1 (between (CHR ''1'') (CHR ''9'')), Rep is_digit 0 None] (dec (nat r))"
    "parse_uint (dec (nat r)) = Some (nat r)"
    using dec_first_then_digits by (auto simp: MaxSafeInteger_def)
  then show ?thesis
    using r task_revision_group_iff [OF assms(1)] \<open>nat r \<le> MaxSafeInteger\<close>
    by (simp add: ParseTaskRevisionID_def Let_def split HasPrefix_def del: rx_times rx_last_unbounded)
qed

section \<open>Properties\<close>

text \<open>
  The fifteen alternatives of \<open>OperatorJournalNumberPattern\<close> accept exactly the decimals,
  without leading zeros, of the numbers from 1 to 9007199254740991 (\<open>MaxSafeInteger\<close>).
\<close>

theorem number_pattern_exact:
  "rx_alt OperatorJournalNumberPattern s \<longleftrightarrow> (\<exists>n. 1 \<le> n \<and> n \<le> MaxSafeInteger \<and> s = dec n)"
  using matches_number_dec by (simp only: matches_number_def)

text \<open>
  C27. For tasks, ADRs, operations and tracks, parsing and formatting are inverse: the parser
  accepts a string as (code, number) exactly when the formatter produces that string from them, so
  every accepted identifier has one spelling.
\<close>

theorem canonical_ids:
  "(ParseTaskID s = Ok (code, n) \<longleftrightarrow> FormatTaskID code n = Ok s)
     \<and> (ParseADRID s = Ok (code, n) \<longleftrightarrow> FormatADRID code n = Ok s)
     \<and> (ParseOperationID s = Ok (code, n) \<longleftrightarrow> FormatOperationID code n = Ok s)
     \<and> (ParseTrackID s = Ok (code, n) \<longleftrightarrow> FormatTrackID code n = Ok s)"
  by (simp only: task_id.decode_iff adr_id.decode_iff operation_id.decode_iff track_id.decode_iff)

text \<open>
  C28. What the generic parser of rules, messages, journals and milestones accepts: three
  capitals, the family's marker and any digit string whose value lies between 1 and
  \<open>MaxSafeInteger\<close>. It reads back what the formatter writes, but leading zeros pass too.
\<close>

theorem entity_ids_exact:
  "(ParseRuleID s = Ok (code, n) \<longleftrightarrow> entity_spelling ''RUL'' code n s)
     \<and> (ParseMessageID s = Ok (code, n) \<longleftrightarrow> entity_spelling ''MSG'' code n s)
     \<and> (ParseJournalID s = Ok (code, n) \<longleftrightarrow> entity_spelling ''JRN'' code n s)
     \<and> (ParseMilestoneID s = Ok (code, n) \<longleftrightarrow> entity_spelling ''MIL'' code n s)"
  by (simp only: ParseRuleID_def ParseMessageID_def ParseJournalID_def ParseMilestoneID_def
      entity_spelling_iff length_3_code)

text \<open>
  The published patterns exclude leading zeros, so the rule parser accepts an identifier that
  \<open>RuleIDPattern\<close> rejects and that the formatter never writes.
\<close>

theorem entity_id_not_canonical:
  "ParseRuleID ''AAA-RUL01'' = Ok (''AAA'', 1) \<and> FormatRuleID ''AAA'' 1 = Ok ''AAA-RUL1''
     \<and> \<not> matches_family ''-RUL'' ''AAA-RUL01''"
proof -
  have p: "parse_uint ''01'' = Some 1" by (simp add: parse_uint_def dec_value_def digit_val_def is_digit_def byte_def)
  have c: "ValidateProjectCode ''AAA'' = None"
    by (simp add: ValidateProjectCode_None is_upper_def between_def byte_def)
  have d: "dec 1 = ''1''" by code_simp
  show ?thesis
    using p c d by (simp add: ParseRuleID_def parseEntityID_def HasPrefix_def parseCompactIDNumber_def
        FormatRuleID_def formatEntityID_def matches_family_def matches_number_iff MaxSafeInteger_def)
qed

text \<open>
  C29. A formatted task revision id is read back only while the task's number has at most fifteen
  digits; above, the parser rejects the identifier the formatter has just produced, because the
  alternation of the number pattern is not parenthesised in \<open>taskRevisionIDRE\<close>.
\<close>

theorem task_revision_id_roundtrip:
  assumes "FormatTaskID code n = Ok task" and "FormatTaskRevisionID task r = Ok s"
  shows "ParseTaskRevisionID s =
     (if n < 10 ^ 15 then Ok (task, r) else Err ''invalid task revision id'')"
  using assms by (rule ParseTaskRevisionID_formatted)

lemma format_task_AAA:
  "1 \<le> n \<Longrightarrow> n \<le> MaxSafeInteger \<Longrightarrow> FormatTaskID ''AAA'' n = Ok (''AAA-TSK'' @ dec n)"
  by (simp add: FormatTaskID_def format_family_Ok is_upper_def between_def byte_def)

lemma format_revision_AAA:
  "1 \<le> n \<Longrightarrow> n \<le> MaxSafeInteger \<Longrightarrow>
     FormatTaskRevisionID (''AAA-TSK'' @ dec n) 2 = Ok ((''AAA-TSK'' @ dec n) @ ''.REV2'')"
proof -
  assume n: "1 \<le> n" "n \<le> MaxSafeInteger"
  have v: "ValidateCanonicalTaskID (''AAA-TSK'' @ dec n) = None"
    unfolding ValidateCanonicalTaskID_iff using format_task_AAA [OF n] by blast
  have two: "dec_int 2 = ''2''" by code_simp
  show ?thesis unfolding FormatTaskRevisionID_def v FormatTaskRevisionIDUnchecked_def two
    by (simp add: MaxSafeInteger_def)
qed

theorem task_revision_id_roundtrip_witness:
  "ParseTaskRevisionID ((''AAA-TSK'' @ dec 7) @ ''.REV2'') = Ok (''AAA-TSK'' @ dec 7, 2)"
proof -
  have n: "1 \<le> (7 :: nat)" "7 \<le> MaxSafeInteger" by (simp_all add: MaxSafeInteger_def)
  show ?thesis
    using task_revision_id_roundtrip [OF format_task_AAA [OF n] format_revision_AAA [OF n]] by simp
qed

text \<open>
  The two faces of the missing parentheses: the revision id of task number 10^15 is formatted but
  not parsed, and a bare sixteen-digit number is parsed as a task id.
\<close>

theorem task_revision_id_large_rejected:
  "\<exists>task s. FormatTaskID ''AAA'' (10 ^ 15) = Ok task \<and> FormatTaskRevisionID task 2 = Ok s
     \<and> ParseTaskRevisionID s = Err ''invalid task revision id''"
  "ParseTaskRevisionID ''1234567890123456.REV2'' = Ok (''1234567890123456'', 2)"
proof -
  have n: "1 \<le> (10 ^ 15 :: nat)" "10 ^ 15 \<le> MaxSafeInteger" by (simp_all add: MaxSafeInteger_def)
  show "\<exists>task s. FormatTaskID ''AAA'' (10 ^ 15) = Ok task \<and> FormatTaskRevisionID task 2 = Ok s
     \<and> ParseTaskRevisionID s = Err ''invalid task revision id''"
    using format_task_AAA [OF n] format_revision_AAA [OF n]
      ParseTaskRevisionID_formatted [OF format_task_AAA [OF n] format_revision_AAA [OF n]] by auto
next
  have "rx_alt (tl OperatorJournalNumberPattern) ''1234567890123456''"
    by (simp add: rx_alt_def OperatorJournalNumberPattern_def between_def byte_def)
  then have "task_revision_group ''1234567890123456''" by (simp add: task_revision_group_def)
  moreover have "parse_uint ''2'' = Some 2"
    by (simp add: parse_uint_def dec_value_def digit_val_def is_digit_def byte_def)
  ultimately show "ParseTaskRevisionID ''1234567890123456.REV2'' = Ok (''1234567890123456'', 2)"
    by (simp add: ParseTaskRevisionID_def HasPrefix_def between_def byte_def MaxSafeInteger_def)
qed

end
