(* ===== verification/Workflow_Policy.thy ===== *)
theory Workflow_Policy
  imports Identifier_Laws
begin

text \<open>
  \<open>internal/model/workflow_policy.go\<close>: the project's workflow policy, the effective policy it
  gives an operation class, and the workflow gates. Where the source ranges over a map literal
  the model checks its entries in the order of the literal: which of several invalid entries is
  named in the error is not determined by the source.
\<close>

section \<open>Records\<close>

record ProjectGateCommands =
  gc_Format :: "string list"
  gc_Check :: "string list"
  gc_TestTask :: "string list"

record ProjectWorkflowPolicy =
  wp_SchemaVersion :: int
  wp_ProjectID :: string
  wp_Revision :: int
  wp_WorkflowStage :: string
  wp_IntegrationBranch :: string
  wp_AgentWaitForCI :: bool
  wp_CITask :: string
  wp_CITaskMerge :: string
  wp_CIRelease :: string
  wp_UpdatedBy :: string
  wp_UpdatedAt :: gotime

record EffectiveWorkflowPolicy =
  ep_Revision :: int
  ep_OperationClass :: string
  ep_CIField :: string
  ep_CIMode :: string
  ep_WaitForCI :: bool
  ep_CIBlocking :: bool
  ep_AgentMayWait :: bool

record CompletionGateResult =
  cg_ID :: string
  cg_ExitCode :: int
  cg_Execution :: string
  cg_TreeID :: string
  cg_ContractDigest :: string
  cg_ReceiptDigest :: string
  cg_DurationMS :: int
  cg_AggregateMS :: int
  cg_Warnings :: "string list"

section \<open>Gates\<close>

definition DefaultProjectGateCommands :: ProjectGateCommands where
  "DefaultProjectGateCommands =
     \<lparr>gc_Format = [''./scripts/check-go-format.sh''],
      gc_Check = [''python3'', ''scripts/static-check.py''],
      gc_TestTask = [''./scripts/test-full.sh'']\<rparr>"

definition gates_IsZero :: "ProjectGateCommands \<Rightarrow> bool" where
  "gates_IsZero v \<longleftrightarrow> gc_Format v = [] \<and> gc_Check v = [] \<and> gc_TestTask v = []"

definition gates_Validate :: "ProjectGateCommands \<Rightarrow> error" where
  "gates_Validate v = first_error
     (map (\<lambda>(name, command). fail_if
         (command = [] \<or> hd command = [] \<or> list_ex (\<lambda>part. part = [] \<or> ContainsAny part nul_cr_lf) command)
         (''invalid '' @ name @ '' gate command''))
       [(''format'', gc_Format v), (''check'', gc_Check v), (''test.task'', gc_TestTask v)])"

definition StandardWorkflowGates :: "string list" where
  "StandardWorkflowGates = [''format'', ''check'', ''test'']"

definition ValidateWorkflowGates :: "string list \<Rightarrow> error" where
  "ValidateWorkflowGates gates =
     dup_check (\<lambda>gate. fail_if (\<not> List.member StandardWorkflowGates gate)
                 (''invalid workflow gate '' @ go_quote gate))
       id (\<lambda>gate. ''duplicate workflow gate '' @ go_quote gate) [] gates"

definition EffectiveWorkflowGates :: "string list \<Rightarrow> string list" where
  "EffectiveWorkflowGates gates = (if gates = [] then StandardWorkflowGates else gates)"

definition EffectiveProjectWorkflowGates :: "string list \<Rightarrow> string list" where
  "EffectiveProjectWorkflowGates gates =
     filter (\<lambda>gate. List.member (''check'' # EffectiveWorkflowGates gates) gate) StandardWorkflowGates"

definition gate_evidence_error :: "CompletionGateResult \<Rightarrow> error" where
  "gate_evidence_error r = first_error
     [fail_if (cg_DurationMS r < 0 \<or> cg_AggregateMS r < 0 \<or> 8 < length (cg_Warnings r))
        ''invalid server gate timing evidence'',
      fail_if (list_ex (\<lambda>w. w = [] \<or> 256 < length w) (cg_Warnings r))
        ''invalid server gate warning evidence'',
      fail_if (\<not> List.member StandardWorkflowGates (cg_ID r))
        (''invalid server gate evidence '' @ go_quote (cg_ID r))]"

definition gate_execution_error :: "CompletionGateResult \<Rightarrow> error" where
  "gate_execution_error r = first_error
     [fail_if (cg_Execution r \<noteq> '''' \<and> cg_Execution r \<noteq> ''executed'' \<and> cg_Execution r \<noteq> ''reused'')
        (''invalid server gate execution '' @ go_quote (cg_Execution r)),
      fail_if (cg_Execution r = ''reused''
          \<and> (cg_TreeID r = '''' \<or> cg_ContractDigest r = '''' \<or> cg_ReceiptDigest r = ''''))
        ''reused server gate evidence is missing receipt identity'']"

text \<open>The loop looks a result up among those seen between its two groups of checks.\<close>

fun gate_evidence_loop :: "string list \<Rightarrow> CompletionGateResult list \<Rightarrow> error" where
  "gate_evidence_loop seen [] = None"
| "gate_evidence_loop seen (r # rs) = first_error
     [gate_evidence_error r,
      fail_if (List.member seen (cg_ID r)) (''duplicate server gate evidence '' @ go_quote (cg_ID r)),
      gate_execution_error r,
      gate_evidence_loop (cg_ID r # seen) rs]"

definition ValidateServerGateEvidence :: "CompletionGateResult list \<Rightarrow> error" where
  "ValidateServerGateEvidence results = gate_evidence_loop [] results"

section \<open>Policies\<close>

definition workflowOperationClasses :: "(string \<times> string) list" where
  "workflowOperationClasses =
     [(''implementation'', ''task''), (''correction'', ''task''), (''integration'', ''task_merge''),
      (''release'', ''release''), (''activation'', ''activation'')]"

definition ci_mode_ok :: "string \<Rightarrow> bool" where
  "ci_mode_ok mode \<longleftrightarrow> mode = ''disabled'' \<or> mode = ''observe'' \<or> mode = ''require''"

definition ValidateProjectWorkflowPolicy :: "ProjectWorkflowPolicy \<Rightarrow> error" where
  "ValidateProjectWorkflowPolicy v = first_error
     [fail_if (wp_SchemaVersion v \<noteq> SchemaVersion \<or> \<not> rx_seq idRE (wp_ProjectID v) \<or> wp_Revision v < 1)
        ''invalid workflow policy identity'',
      (if wp_WorkflowStage v = ''transitional_main''
       then fail_if (wp_IntegrationBranch v \<noteq> ''main'') ''transitional_main requires integration branch main''
       else if wp_WorkflowStage v = ''develop_active''
       then fail_if (wp_IntegrationBranch v \<noteq> ''develop'') ''develop_active requires integration branch develop''
       else Some ''invalid workflow stage''),
      first_error (map (\<lambda>(name, mode). fail_if (\<not> ci_mode_ok mode) (''invalid '' @ name @ '' CI mode''))
        [(''task'', wp_CITask v), (''task_merge'', wp_CITaskMerge v), (''release'', wp_CIRelease v)]),
      fail_if (TrimSpace (wp_UpdatedBy v) = '''' \<or> ContainsAny (wp_UpdatedBy v) nul_cr_lf
          \<or> IsZero (wp_UpdatedAt v)) ''invalid workflow policy update metadata'']"

definition WorkflowPolicyForOperation :: "ProjectWorkflowPolicy \<Rightarrow> string \<Rightarrow> EffectiveWorkflowPolicy result" where
  "WorkflowPolicyForOperation policy operationClass =
     guard_result (ValidateProjectWorkflowPolicy policy)
       (case map_of workflowOperationClasses operationClass of
          None \<Rightarrow> Err ''invalid operation class''
        | Some field \<Rightarrow>
            if operationClass = ''activation''
            then Ok \<lparr>ep_Revision = wp_Revision policy, ep_OperationClass = operationClass,
                     ep_CIField = ''activation'', ep_CIMode = ''disabled'', ep_WaitForCI = False,
                     ep_CIBlocking = False, ep_AgentMayWait = False\<rparr>
            else let mode = (if field = ''task_merge'' then wp_CITaskMerge policy
                             else if field = ''release'' then wp_CIRelease policy else wp_CITask policy);
                     blocking = (mode = ''require'');
                     wait = (wp_AgentWaitForCI policy \<and> blocking)
                 in Ok \<lparr>ep_Revision = wp_Revision policy, ep_OperationClass = operationClass,
                        ep_CIField = field, ep_CIMode = mode, ep_WaitForCI = wait,
                        ep_CIBlocking = blocking, ep_AgentMayWait = wait\<rparr>)"

definition ValidateEffectiveWorkflowPolicy :: "EffectiveWorkflowPolicy \<Rightarrow> error" where
  "ValidateEffectiveWorkflowPolicy v = first_error
     [fail_if (ep_Revision v < 1) ''invalid effective workflow policy'',
      fail_if (map_of workflowOperationClasses (ep_OperationClass v) = None) ''invalid effective workflow policy'',
      fail_if (ep_CIField v \<noteq> (case map_of workflowOperationClasses (ep_OperationClass v) of
                                None \<Rightarrow> '''' | Some f \<Rightarrow> f))
        ''effective CI field does not match operation class'',
      fail_if (\<not> ci_mode_ok (ep_CIMode v)) ''invalid effective CI mode'',
      fail_if (ep_CIBlocking v \<noteq> (ep_CIMode v = ''require'') \<or> ep_WaitForCI v \<noteq> ep_AgentMayWait v
          \<or> (ep_WaitForCI v \<and> \<not> ep_CIBlocking v)) ''invalid effective CI wait policy'']"

definition ValidateOperationClass :: "string \<Rightarrow> error" where
  "ValidateOperationClass value =
     fail_if (map_of workflowOperationClasses value = None) ''invalid operation class''"

definition WorkflowOperationClasses :: "string list" where
  "WorkflowOperationClasses = [''implementation'', ''correction'', ''integration'', ''release'', ''activation'']"

section \<open>Lemmas\<close>

lemma policy_valid_modes:
  "ValidateProjectWorkflowPolicy v = None \<Longrightarrow>
     1 \<le> wp_Revision v \<and> ci_mode_ok (wp_CITask v) \<and> ci_mode_ok (wp_CITaskMerge v) \<and> ci_mode_ok (wp_CIRelease v)"
  by (simp add: ValidateProjectWorkflowPolicy_def)

lemma operation_class_Some:
  "map_of workflowOperationClasses c = Some f \<longleftrightarrow> (c, f) \<in> set workflowOperationClasses"
proof -
  have "distinct (map fst workflowOperationClasses)" by (simp add: workflowOperationClasses_def)
  then show ?thesis by simp
qed

lemma operation_class_None:
  "map_of workflowOperationClasses c = None \<longleftrightarrow> c \<notin> set WorkflowOperationClasses"
  by (simp add: workflowOperationClasses_def WorkflowOperationClasses_def)

lemma operation_class_cases:
  assumes "map_of workflowOperationClasses c = Some f"
  obtains "c = ''implementation''" "f = ''task''" | "c = ''correction''" "f = ''task''"
    | "c = ''integration''" "f = ''task_merge''" | "c = ''release''" "f = ''release''"
    | "c = ''activation''" "f = ''activation''"
  using assms [unfolded operation_class_Some] unfolding workflowOperationClasses_def list.set insert_iff empty_iff
    prod.inject simp_thms
  by (elim disjE conjE) (rule that, assumption, assumption)+

lemma gate_evidence_loop_None:
  "gate_evidence_loop seen rs = None \<longleftrightarrow>
     (\<forall>r \<in> set rs. gate_evidence_error r = None \<and> gate_execution_error r = None)
       \<and> distinct (map cg_ID rs) \<and> cg_ID ` set rs \<inter> set seen = {}"
  by (induction rs arbitrary: seen) auto

lemma EffectiveProjectWorkflowGates_set:
  "set (EffectiveProjectWorkflowGates gates)
     = set StandardWorkflowGates \<inter> insert ''check'' (set (EffectiveWorkflowGates gates))"
  by (auto simp: EffectiveProjectWorkflowGates_def)

section \<open>Properties\<close>

text \<open>
  For a valid project policy, every operation class gets an effective policy that passes its
  own validator; the CI blocks exactly in mode \<open>require\<close>, an agent waits only for a blocking CI,
  and activation never runs CI. Any other class is rejected.
\<close>

theorem workflow_policy_effective:
  assumes "ValidateProjectWorkflowPolicy policy = None"
  shows "case WorkflowPolicyForOperation policy cls of
       Inl m \<Rightarrow> cls \<notin> set WorkflowOperationClasses \<and> m = ''invalid operation class''
     | Inr e \<Rightarrow> cls \<in> set WorkflowOperationClasses \<and> ValidateEffectiveWorkflowPolicy e = None
         \<and> ep_OperationClass e = cls \<and> ep_Revision e = wp_Revision policy
         \<and> (ep_CIBlocking e \<longleftrightarrow> ep_CIMode e = ''require'')
         \<and> (ep_WaitForCI e \<longleftrightarrow> wp_AgentWaitForCI policy \<and> ep_CIBlocking e)
         \<and> (ep_CIMode e =
              (if cls = ''activation'' then ''disabled'' else if cls = ''release'' then wp_CIRelease policy
               else if cls = ''integration'' then wp_CITaskMerge policy else wp_CITask policy))"
proof (cases "map_of workflowOperationClasses cls")
  case None
  then show ?thesis using assms
    by (simp add: WorkflowPolicyForOperation_def operation_class_None [symmetric] del: map_of_eq_None_iff)
next
  case (Some f)
  have modes: "1 \<le> wp_Revision policy" "ci_mode_ok (wp_CITask policy)" "ci_mode_ok (wp_CITaskMerge policy)"
    "ci_mode_ok (wp_CIRelease policy)" "ci_mode_ok ''disabled''"
    using policy_valid_modes [OF assms] by (simp_all add: ci_mode_ok_def)
  have member: "cls \<in> set WorkflowOperationClasses"
    using Some operation_class_None [of cls] by (metis option.distinct(1))
  show ?thesis
    using Some
    by (rule operation_class_cases)
      (use Some assms modes member in
        \<open>simp_all add: WorkflowPolicyForOperation_def Let_def ValidateEffectiveWorkflowPolicy_def\<close>)
qed

definition sample_policy :: ProjectWorkflowPolicy where
  "sample_policy =
     \<lparr>wp_SchemaVersion = 1, wp_ProjectID = ''demo'', wp_Revision = 3, wp_WorkflowStage = ''develop_active'',
      wp_IntegrationBranch = ''develop'', wp_AgentWaitForCI = True, wp_CITask = ''observe'',
      wp_CITaskMerge = ''require'', wp_CIRelease = ''disabled'', wp_UpdatedBy = ''ops'',
      wp_UpdatedAt = unix_utc 1\<rparr>"

lemma sample_policy_valid: "ValidateProjectWorkflowPolicy sample_policy = None"
  by (simp add: ValidateProjectWorkflowPolicy_def sample_policy_def SchemaVersion_def idRE_def
      is_lower_digit_def is_lower_def between_def is_digit_def byte_def ci_mode_ok_def IsSpace_def
      ContainsAny_iff nul_cr_lf_def nul_def cr_def lf_def IsZero_def unix_utc_def)

theorem workflow_policy_effective_witness:
  "\<exists>e. WorkflowPolicyForOperation sample_policy ''integration'' = Ok e \<and> ep_WaitForCI e
     \<and> ValidateEffectiveWorkflowPolicy e = None"
proof -
  have "''integration'' \<in> set WorkflowOperationClasses" by (simp add: WorkflowOperationClasses_def)
  then show ?thesis
    using workflow_policy_effective [OF sample_policy_valid, of "''integration''"]
    by (cases "WorkflowPolicyForOperation sample_policy ''integration''")
      (auto simp: sample_policy_def)
qed

text \<open>
  The gates a project runs are, in the standard order and without repetition, the selected
  ones (all three when none is selected) with \<open>check\<close> always among them.
\<close>

theorem effective_gates:
  "distinct (EffectiveProjectWorkflowGates gates)
     \<and> ''check'' \<in> set (EffectiveProjectWorkflowGates gates)
     \<and> set (EffectiveProjectWorkflowGates gates)
         = set StandardWorkflowGates \<inter> ({''check''} \<union> (if gates = [] then set StandardWorkflowGates else set gates))
     \<and> ValidateWorkflowGates (EffectiveProjectWorkflowGates gates) = None
     \<and> (\<exists>keep. EffectiveProjectWorkflowGates gates = filter keep [''format'', ''check'', ''test''])"
proof -
  have d: "distinct (EffectiveProjectWorkflowGates gates)"
    by (simp add: EffectiveProjectWorkflowGates_def StandardWorkflowGates_def)
  have s: "set (EffectiveProjectWorkflowGates gates)
      = set StandardWorkflowGates \<inter> ({''check''} \<union> (if gates = [] then set StandardWorkflowGates else set gates))"
    by (auto simp: EffectiveProjectWorkflowGates_set EffectiveWorkflowGates_def)
  moreover have "''check'' \<in> set StandardWorkflowGates" by (simp add: StandardWorkflowGates_def)
  moreover have "ValidateWorkflowGates (EffectiveProjectWorkflowGates gates) = None"
    using d s by (auto simp: ValidateWorkflowGates_def)
  moreover have "\<exists>keep. EffectiveProjectWorkflowGates gates = filter keep [''format'', ''check'', ''test'']"
    unfolding EffectiveProjectWorkflowGates_def StandardWorkflowGates_def by (rule exI, rule refl)
  ultimately show ?thesis using d by simp
qed

end
