(* ===== verification/Task_Vocabulary.thy ===== *)
theory Task_Vocabulary
  imports Workflow_Policy
begin

text \<open>
  The vocabulary of tasks in \<open>internal/model\<close>: types (\<open>task_type.go\<close>), execution kinds and
  scopes (\<open>task_scope.go\<close>), priorities (\<open>task_priority.go\<close>) and display symbols
  (\<open>task_status_symbol.go\<close>). A Go slice is \<open>string list option\<close>: \<open>None\<close> is the nil slice,
  which \<open>encoding/json\<close> and \<open>reflect.DeepEqual\<close> distinguish from an empty one.
\<close>

section \<open>Slices and maps\<close>

definition elems :: "'a list option \<Rightarrow> 'a list" where
  "elems xs = (case xs of None \<Rightarrow> [] | Some ys \<Rightarrow> ys)"

text \<open>
  \<open>cloneStrings\<close> appends to a nil slice, so an empty slice becomes nil; \<open>cloneStringMap\<close>
  allocates, so an empty map stays one. A map is its entries in key order.
\<close>

definition cloneStrings :: "string list option \<Rightarrow> string list option" where
  "cloneStrings xs = (if elems xs = [] then None else xs)"

definition cloneStringMap :: "(string \<times> string) list option \<Rightarrow> (string \<times> string) list option" where
  "cloneStringMap m = m"

lemma elems_simps [simp]: "elems None = []" "elems (Some xs) = xs"
  by (simp_all add: elems_def)

lemma elems_cloneStrings [simp]: "elems (cloneStrings xs) = elems xs"
  by (simp add: cloneStrings_def)

lemma cloneStrings_idem [simp]: "cloneStrings (cloneStrings xs) = cloneStrings xs"
  by (simp add: cloneStrings_def)

lemma cloneStringMap_id [simp]: "cloneStringMap m = m"
  by (simp add: cloneStringMap_def)

section \<open>Types, executions and priorities\<close>

definition TaskTypes :: "string list" where
  "TaskTypes = [''task'', ''bug'', ''perf'', ''chore'']"

definition NormalizeTaskType :: "string \<Rightarrow> string result" where
  "NormalizeTaskType value =
     (if value = '''' then Ok ''task''
      else if List.member TaskTypes value then Ok value
      else Err (''invalid task type '' @ go_quote value))"

definition DefaultTaskType :: "string \<Rightarrow> string" where
  "DefaultTaskType value = (if value = '''' then ''task'' else value)"

text \<open>The canonical execution is stored under its historical name \<open>train\<close>.\<close>

definition NormalizeTaskExecution :: "string \<Rightarrow> string result" where
  "NormalizeTaskExecution value =
     (if value = '''' then Ok ''''
      else if value = ''train'' \<or> value = ''hotfix'' then Ok value
      else Err (''invalid task execution '' @ go_quote value))"

definition TaskPriorities :: "string list" where
  "TaskPriorities = [''P0'', ''P1'', ''P2'', ''P3'', ''P4'']"

definition NormalizeTaskPriority :: "string \<Rightarrow> string result" where
  "NormalizeTaskPriority value =
     (if value = '''' then Ok ''''
      else if List.member TaskPriorities value then Ok value
      else Err (''invalid task priority '' @ go_quote value))"

definition ValidateTaskPriority :: "string \<Rightarrow> bool \<Rightarrow> error" where
  "ValidateTaskPriority value required =
     (if value = '''' then fail_if required ''task priority is required for executable Tasks''
      else err_of (NormalizeTaskPriority value))"

definition TaskPriorityRank :: "string \<Rightarrow> int result" where
  "TaskPriorityRank value =
     (case NormalizeTaskPriority value of
        Inl m \<Rightarrow> Err m
      | Inr p \<Rightarrow> if p = '''' then Err ''task priority is required for ranking''
                 else Ok (int (byte (p ! 1)) - 48))"

section \<open>Scopes\<close>

record TaskScope =
  ts_Files :: "string list option"
  ts_Modules :: "string list option"

definition MaxTaskScopeItems :: nat where "MaxTaskScopeItems = 128"
definition MaxTaskScopeItemBytes :: nat where "MaxTaskScopeItemBytes = 1024"

definition ValidateTaskScope :: "TaskScope option \<Rightarrow> error" where
  "ValidateTaskScope value =
     (case value of
        None \<Rightarrow> None
      | Some s \<Rightarrow> first_error
          [fail_if (MaxTaskScopeItems < length (elems (ts_Files s)) \<or> MaxTaskScopeItems < length (elems (ts_Modules s)))
             (''task scope exceeds '' @ dec MaxTaskScopeItems @ '' items''),
           fail_if (list_ex (\<lambda>item. TrimSpace item = '''' \<or> ContainsAny item nul_cr_lf
                        \<or> MaxTaskScopeItemBytes < length item)
                     (elems (ts_Files s) @ elems (ts_Modules s)))
             ''invalid task scope item''])"

definition NormalizeTaskScope :: "TaskScope option \<Rightarrow> TaskScope option result" where
  "NormalizeTaskScope value =
     (case value of
        None \<Rightarrow> Ok None
      | Some s \<Rightarrow>
          let r = \<lparr>ts_Files = Some (elems (ts_Files s)), ts_Modules = Some (elems (ts_Modules s))\<rparr>
          in guard_result (ValidateTaskScope (Some r)) (Ok (Some r)))"

section \<open>Display symbols\<close>

text \<open>The symbols are the UTF-8 bytes of the source's one-rune strings.\<close>

definition TaskStatusSymbol :: "string \<Rightarrow> string result" where
  "TaskStatusSymbol status =
     (if List.member [''planned'', ''ready''] status then Ok [CHR 0xE2, CHR 0x97, CHR 0x8B]
      else if List.member [''dispatched'', ''in_progress''] status then Ok [CHR 0xE2, CHR 0x96, CHR 0xB6]
      else if status = ''awaiting_review'' then Ok [CHR 0xE2, CHR 0x97, CHR 0x90]
      else if List.member [''ready_for_verification'', ''verifying'', ''verified'', ''integrating'', ''integrated''] status
      then Ok [CHR 0xE2, CHR 0x97, CHR 0x87]
      else if status = ''blocked'' then Ok [CHR 0xE2, CHR 0x8A, CHR 0x98]
      else if status = ''done'' then Ok [CHR 0xE2, CHR 0x97, CHR 0x8F]
      else if List.member [''changes_requested'', ''failed'', ''rejected''] status then Ok [CHR 0xC3, CHR 0x97]
      else if List.member [''deferred'', ''paused''] status then Ok [CHR 0xE2, CHR 0x97, CHR 0x8C]
      else Err (''invalid Task status '' @ go_quote status))"

section \<open>Lemmas\<close>

lemma NormalizeTaskType_Ok:
  "NormalizeTaskType v = Ok t \<longleftrightarrow> t = DefaultTaskType v \<and> (v = '''' \<or> v \<in> set TaskTypes)"
  by (auto simp: NormalizeTaskType_def DefaultTaskType_def)

lemma DefaultTaskType_valid [simp]:
  "v \<in> set TaskTypes \<or> v = '''' \<Longrightarrow> DefaultTaskType v \<in> set TaskTypes"
  by (auto simp: DefaultTaskType_def TaskTypes_def)

lemma DefaultTaskType_idem [simp]: "DefaultTaskType (DefaultTaskType v) = DefaultTaskType v"
  by (simp add: DefaultTaskType_def)

lemma NormalizeTaskExecution_Ok: "NormalizeTaskExecution v = Ok e \<Longrightarrow> e = v"
  by (auto simp: NormalizeTaskExecution_def split: if_splits)

lemma ValidateTaskPriority_None:
  "ValidateTaskPriority v required = None \<longleftrightarrow> (v = '''' \<and> \<not> required) \<or> v \<in> set TaskPriorities"
proof -
  have "'''' \<notin> set TaskPriorities" by (simp add: TaskPriorities_def)
  then show ?thesis by (auto simp: ValidateTaskPriority_def NormalizeTaskPriority_def)
qed

lemma NormalizeTaskScope_Ok:
  "NormalizeTaskScope s = Ok s' \<Longrightarrow>
     ValidateTaskScope s' = None \<and> NormalizeTaskScope s' = Ok s'"
  by (cases s) (auto simp: NormalizeTaskScope_def Let_def ValidateTaskScope_def)

section \<open>Properties\<close>

text \<open>
  A task's priority rank is defined for the five priorities only, and is their number: the
  ranks 0 to 4 are what a validated, required priority sorts by.
\<close>

theorem priority_rank_exact:
  "TaskPriorityRank p = Ok r \<longleftrightarrow>
     (p, r) \<in> {(''P0'', 0), (''P1'', 1), (''P2'', 2), (''P3'', 3), (''P4'', 4)}"
proof -
  have "'''' \<notin> set TaskPriorities" by (simp add: TaskPriorities_def)
  then have "TaskPriorityRank p = Ok r \<longleftrightarrow> p \<in> set TaskPriorities \<and> r = int (byte (p ! 1)) - 48"
    by (auto simp: TaskPriorityRank_def NormalizeTaskPriority_def)
  also have "\<dots> \<longleftrightarrow> (p, r) \<in> set (map (\<lambda>p. (p, int (byte (p ! 1)) - 48)) TaskPriorities)"
    by (simp add: image_iff)
  also have "map (\<lambda>p. (p, int (byte (p ! 1)) - 48)) TaskPriorities
      = [(''P0'', 0), (''P1'', 1), (''P2'', 2), (''P3'', 3), (''P4'', 4)]"
    by (simp add: TaskPriorities_def byte_def)
  finally show ?thesis by (simp only: list.set)
qed

end
