(* ===== verification/Go_Json.thy ===== *)
theory Go_Json
  imports Go_Text
begin

text \<open>
  The reading side of \<open>encoding/json\<close>: the values its scanner accepts, as a recursive-descent
  parser, \<open>json.Valid\<close>, and \<open>json.Unmarshal\<close> into maps and structs. String literals and numbers
  are kept as they are written, as a \<open>json.RawMessage\<close> keeps them. Every call on a value or a
  member consumes a byte, so twice the length of the text is enough fuel; the scanner's nesting
  limit of 10000 is not reproduced.
\<close>

section \<open>The grammar\<close>

datatype json =
    J_null
  | J_bool bool
  | J_number string
  | J_string string
  | J_array "json list"
  | J_object "(string \<times> json) list"

definition json_space :: "char \<Rightarrow> bool" where
  "json_space c \<longleftrightarrow> byte c = 0x20 \<or> byte c = 0x09 \<or> byte c = 0x0A \<or> byte c = 0x0D"

definition skip_space :: "string \<Rightarrow> string" where
  "skip_space s = dropWhile json_space s"

definition json_hex :: "char \<Rightarrow> bool" where
  "json_hex c \<longleftrightarrow> is_digit c \<or> (97 \<le> byte c \<and> byte c \<le> 102) \<or> (65 \<le> byte c \<and> byte c \<le> 70)"

text \<open>The rest of a string literal after its opening quote.\<close>

fun json_string_rest :: "string \<Rightarrow> string option" where
  "json_string_rest [] = None"
| "json_string_rest (c # s) =
     (if c = quote_mark then Some s
      else if byte c < 0x20 then None
      else if c = backslash then
        (case s of
           [] \<Rightarrow> None
         | e # t \<Rightarrow>
             if e = CHR ''u'' then
               (case t of
                  a # b # d # f # u \<Rightarrow>
                    if json_hex a \<and> json_hex b \<and> json_hex d \<and> json_hex f then json_string_rest u else None
                | _ \<Rightarrow> None)
             else if e \<in> set ''bfnrt/'' \<or> e = quote_mark \<or> e = backslash then json_string_rest t
             else None)
      else json_string_rest s)"

definition json_digits :: "string \<Rightarrow> string option" where
  "json_digits s = (case s of c # _ \<Rightarrow> if is_digit c then Some (dropWhile is_digit s) else None | [] \<Rightarrow> None)"

definition json_fraction :: "string \<Rightarrow> string option" where
  "json_fraction s = (if HasPrefix s ''.'' then json_digits (drop 1 s) else Some s)"

definition json_exponent :: "string \<Rightarrow> string option" where
  "json_exponent s =
     (if HasPrefix s ''e'' \<or> HasPrefix s ''E'' then
        (let t = drop 1 s in json_digits (if HasPrefix t ''+'' \<or> HasPrefix t ''-'' then drop 1 t else t))
      else Some s)"

definition json_number :: "string \<Rightarrow> string option" where
  "json_number s =
     (let s = (if HasPrefix s ''-'' then drop 1 s else s) in
      case (if HasPrefix s ''0'' then Some (drop 1 s) else json_digits s) of
        None \<Rightarrow> None
      | Some t \<Rightarrow> (case json_fraction t of None \<Rightarrow> None | Some u \<Rightarrow> json_exponent u))"

text \<open>The bytes of \<open>s\<close> before its suffix \<open>rest\<close>.\<close>

definition taken :: "string \<Rightarrow> string \<Rightarrow> string" where
  "taken s rest = take (length s - length rest) s"

text \<open>Values, and the elements and members after an opening bracket or a comma.\<close>

fun json_value :: "nat \<Rightarrow> string \<Rightarrow> (json \<times> string) option"
  and json_elements :: "nat \<Rightarrow> string \<Rightarrow> (json list \<times> string) option"
  and json_members :: "nat \<Rightarrow> string \<Rightarrow> ((string \<times> json) list \<times> string) option" where
  "json_value 0 s = None"
| "json_value (Suc n) s =
     (case skip_space s of
        [] \<Rightarrow> None
      | c # t \<Rightarrow>
          if c = quote_mark then map_option (\<lambda>u. (J_string (butlast (taken t u)), u)) (json_string_rest t)
          else if c = CHR ''['' then
            (if HasPrefix (skip_space t) '']'' then Some (J_array [], drop 1 (skip_space t))
             else map_option (apfst J_array) (json_elements n t))
          else if c = CHR ''{'' then
            (if HasPrefix (skip_space t) ''}'' then Some (J_object [], drop 1 (skip_space t))
             else map_option (apfst J_object) (json_members n t))
          else if HasPrefix (c # t) ''true'' then Some (J_bool True, drop 4 (c # t))
          else if HasPrefix (c # t) ''false'' then Some (J_bool False, drop 5 (c # t))
          else if HasPrefix (c # t) ''null'' then Some (J_null, drop 4 (c # t))
          else map_option (\<lambda>u. (J_number (taken (c # t) u), u)) (json_number (c # t)))"
| "json_elements 0 s = None"
| "json_elements (Suc n) s =
     (case json_value n s of
        None \<Rightarrow> None
      | Some (v, t) \<Rightarrow>
          if HasPrefix (skip_space t) '']'' then Some ([v], drop 1 (skip_space t))
          else if HasPrefix (skip_space t) '','' then
            map_option (apfst (Cons v)) (json_elements n (drop 1 (skip_space t)))
          else None)"
| "json_members 0 s = None"
| "json_members (Suc n) s =
     (case skip_space s of
        [] \<Rightarrow> None
      | c # t \<Rightarrow>
          if c \<noteq> quote_mark then None
          else (case json_string_rest t of
                  None \<Rightarrow> None
                | Some u \<Rightarrow>
                    if \<not> HasPrefix (skip_space u) '':'' then None
                    else (case json_value n (drop 1 (skip_space u)) of
                            None \<Rightarrow> None
                          | Some (v, w) \<Rightarrow>
                              let m = (butlast (taken t u), v) in
                              if HasPrefix (skip_space w) ''}'' then Some ([m], drop 1 (skip_space w))
                              else if HasPrefix (skip_space w) '','' then
                                map_option (apfst (Cons m)) (json_members n (drop 1 (skip_space w)))
                              else None)))"

definition json_parse :: "string \<Rightarrow> json option" where
  "json_parse s =
     (case json_value (2 * length s + 2) s of
        None \<Rightarrow> None
      | Some (v, t) \<Rightarrow> if skip_space t = [] then Some v else None)"

definition json_Valid :: "string \<Rightarrow> bool" where
  "json_Valid s \<longleftrightarrow> json_parse s \<noteq> None"

section \<open>String literals\<close>

definition encode_rune :: "nat \<Rightarrow> string" where
  "encode_rune r = map char_of
     (if r < 0x80 then [r]
      else if r < 0x800 then [0xC0 + r div 64, 0x80 + r mod 64]
      else if r < 0x10000 then [0xE0 + r div 4096, 0x80 + r div 64 mod 64, 0x80 + r mod 64]
      else [0xF0 + r div 262144, 0x80 + r div 4096 mod 64, 0x80 + r div 64 mod 64, 0x80 + r mod 64])"

definition hex_val :: "char \<Rightarrow> nat" where
  "hex_val c = (if is_digit c then byte c - 48 else if 97 \<le> byte c then byte c - 87 else byte c - 55)"

text \<open>The four hex digits behind \<open>u\<close>, when the string starts with them.\<close>

definition unicode_escape :: "string \<Rightarrow> (nat \<times> string) option" where
  "unicode_escape s =
     (case s of
        b # u # w # x # y # z # t \<Rightarrow>
          if b = backslash \<and> u = CHR ''u''
          then Some (((hex_val w * 16 + hex_val x) * 16 + hex_val y) * 16 + hex_val z, t) else None
      | _ \<Rightarrow> None)"

definition simple_escape :: "char \<Rightarrow> char" where
  "simple_escape e =
     (if e = CHR ''b'' then CHR 0x08 else if e = CHR ''f'' then CHR 0x0C else if e = CHR ''n'' then lf
      else if e = CHR ''r'' then cr else if e = CHR ''t'' then CHR 0x09 else e)"

text \<open>
  The string that a literal's content stands for: surrogate pairs are combined, a lone surrogate
  and an invalid UTF-8 byte become the replacement rune.
\<close>

function unquote :: "string \<Rightarrow> string" where
  "unquote [] = []"
| "unquote (c # s) =
     (if c = backslash then
        (case unicode_escape (c # s) of
           Some (hi, t) \<Rightarrow>
             if 0xD800 \<le> hi \<and> hi \<le> 0xDFFF then
               (case unicode_escape t of
                  Some (lo, t') \<Rightarrow>
                    if hi \<le> 0xDBFF \<and> 0xDC00 \<le> lo \<and> lo \<le> 0xDFFF
                    then encode_rune ((hi - 0xD800) * 1024 + (lo - 0xDC00) + 0x10000) @ unquote t'
                    else encode_rune rune_error @ unquote t
                | None \<Rightarrow> encode_rune rune_error @ unquote t)
             else encode_rune hi @ unquote t
         | None \<Rightarrow> (case s of [] \<Rightarrow> [] | e # t \<Rightarrow> simple_escape e # unquote t))
      else (let (r, w) = decode_rune c s
            in (if r = rune_error \<and> w = 1 then encode_rune rune_error else c # take (w - 1) s)
                 @ unquote (drop (w - 1) s)))"
  by pat_completeness auto
termination
  by (relation "measure length") (auto simp: unicode_escape_def split: list.splits if_splits)

declare unquote.simps [simp del]

section \<open>Unmarshal\<close>

text \<open>\<open>map[string]json.RawMessage\<close>: a later member of the same name replaces an earlier one.\<close>

definition decode_map :: "string \<Rightarrow> (string \<rightharpoonup> json) option" where
  "decode_map s =
     (case json_parse s of
        Some (J_object ms) \<Rightarrow> Some (map_of (rev (map (apfst unquote) ms)))
      | Some J_null \<Rightarrow> Some (\<lambda>_. None)
      | _ \<Rightarrow> None)"

text \<open>
  A struct is decoded member by member into the fields it names; a member is looked up by its
  exact name and then by its folded name (the two non-ASCII runes that fold to ASCII letters
  included), unknown members are skipped. A field's decoder is given the record so far.
\<close>

type_synonym 'r field_decoder = "json \<Rightarrow> 'r \<Rightarrow> 'r option"

definition fold_rune :: "nat \<Rightarrow> nat" where
  "fold_rune r = (if 97 \<le> r \<and> r \<le> 122 then r - 32 else if r = 0x17F then 83 else if r = 0x212A then 75 else r)"

definition fold_name :: "string \<Rightarrow> nat list" where
  "fold_name s = map (fold_rune \<circ> fst) (runes s)"

definition struct_field :: "(string \<times> 'f) list \<Rightarrow> string \<Rightarrow> 'f option" where
  "struct_field table name =
     (case map_of table name of
        Some f \<Rightarrow> Some f
      | None \<Rightarrow> map_option snd (find (\<lambda>(n, _). fold_name n = fold_name name) table))"

fun decode_members :: "bool \<Rightarrow> (string \<times> 'r field_decoder) list \<Rightarrow> (string \<times> json) list \<Rightarrow> 'r \<Rightarrow> 'r option" where
  "decode_members strict table [] r = Some r"
| "decode_members strict table ((name, v) # ms) r =
     (case struct_field table (unquote name) of
        None \<Rightarrow> if strict then None else decode_members strict table ms r
      | Some f \<Rightarrow> (case f v r of None \<Rightarrow> None | Some r' \<Rightarrow> decode_members strict table ms r'))"

definition decode_struct :: "bool \<Rightarrow> (string \<times> 'r field_decoder) list \<Rightarrow> 'r field_decoder" where
  "decode_struct strict table v r =
     (case v of J_null \<Rightarrow> Some r | J_object ms \<Rightarrow> decode_members strict table ms r | _ \<Rightarrow> None)"

definition json_Unmarshal :: "(string \<times> 'r field_decoder) list \<Rightarrow> 'r \<Rightarrow> string \<Rightarrow> 'r option" where
  "json_Unmarshal table zero s = (case json_parse s of None \<Rightarrow> None | Some v \<Rightarrow> decode_struct False table v zero)"

text \<open>Decoders of the field types that occur; \<open>null\<close> leaves a plain field as it is and clears a slice.\<close>

definition dec_string :: "(string \<Rightarrow> 'r \<Rightarrow> 'r) \<Rightarrow> 'r field_decoder" where
  "dec_string upd v r = (case v of J_string raw \<Rightarrow> Some (upd (unquote raw) r) | J_null \<Rightarrow> Some r | _ \<Rightarrow> None)"

definition parse_int64 :: "string \<Rightarrow> int option" where
  "parse_int64 s =
     (let neg = HasPrefix s ''-''; ds = (if neg then drop 1 s else s) in
      if ds \<noteq> [] \<and> list_all is_digit ds then
        (let i = (if neg then - int (dec_value ds) else int (dec_value ds)) in
         if -9223372036854775808 \<le> i \<and> i < 9223372036854775808 then Some i else None)
      else None)"

definition dec_int64 :: "(int \<Rightarrow> 'r \<Rightarrow> 'r) \<Rightarrow> 'r field_decoder" where
  "dec_int64 upd v r =
     (case v of J_number raw \<Rightarrow> map_option (\<lambda>i. upd i r) (parse_int64 raw) | J_null \<Rightarrow> Some r | _ \<Rightarrow> None)"

definition dec_slice :: "('a \<Rightarrow> json \<Rightarrow> 'a option) \<Rightarrow> 'a \<Rightarrow> ('a list option \<Rightarrow> 'r \<Rightarrow> 'r) \<Rightarrow> 'r field_decoder" where
  "dec_slice element zero upd v r =
     (case v of
        J_array vs \<Rightarrow> map_option (\<lambda>xs. upd (Some xs) r) (those (map (element zero) vs))
      | J_null \<Rightarrow> Some (upd None r)
      | _ \<Rightarrow> None)"

definition dec_strings :: "(string list option \<Rightarrow> 'r \<Rightarrow> 'r) \<Rightarrow> 'r field_decoder" where
  "dec_strings = dec_slice (\<lambda>_ v. dec_string (\<lambda>s _. s) v []) []"

section \<open>Times\<close>

text \<open>The day, counted from 0001-01-01, of a civil date; the inverse of \<open>civil_date\<close>.\<close>

definition civil_day :: "int \<Rightarrow> int \<Rightarrow> int \<Rightarrow> int" where
  "civil_day y m d =
     (let y' = (if m \<le> 2 then y - 1 else y); era = y' div 400; yoe = y' mod 400;
          doy = (153 * (if m > 2 then m - 3 else m + 9) + 2) div 5 + d - 1;
          doe = yoe * 365 + yoe div 4 - yoe div 100 + doy
      in era * 146097 + doe - 306)"

definition days_in :: "int \<Rightarrow> int \<Rightarrow> int" where
  "days_in m y =
     (if m = 2 then (if y mod 4 = 0 \<and> (y mod 100 \<noteq> 0 \<or> y mod 400 = 0) then 29 else 28)
      else if m = 4 \<or> m = 6 \<or> m = 9 \<or> m = 11 then 30 else 31)"

text \<open>A decimal field of fixed width with its range, and the literal bytes between the fields.\<close>

definition time_field :: "nat \<Rightarrow> int \<Rightarrow> int \<Rightarrow> string \<Rightarrow> (int \<times> string) option" where
  "time_field w lo hi s =
     (let f = take w s; i = int (dec_value f) in
      if length f = w \<and> list_all is_digit f \<and> lo \<le> i \<and> i \<le> hi then Some (i, drop w s) else None)"

definition time_lit :: "string \<Rightarrow> string \<Rightarrow> string option" where
  "time_lit p s = (if HasPrefix s p then Some (drop (length p) s) else None)"

definition time_fraction :: "string \<Rightarrow> int \<times> string" where
  "time_fraction s =
     (if HasPrefix s ''.'' \<and> 2 \<le> length s \<and> is_digit (s ! 1)
      then (let ds = takeWhile is_digit (drop 1 s)
            in (int (dec_value (take 9 (ds @ replicate 9 (CHR ''0'')))), dropWhile is_digit (drop 1 s)))
      else (0, s))"

definition time_zone :: "string \<Rightarrow> int option" where
  "time_zone s =
     (if s = ''Z'' then Some 0
      else if length s = 6 \<and> (s ! 0 = CHR ''+'' \<or> s ! 0 = CHR ''-'') \<and> s ! 3 = CHR '':'' then
        (case (time_field 2 0 23 (drop 1 s), time_field 2 0 59 (drop 4 s)) of
           (Some (h, _), Some (m, _)) \<Rightarrow> Some ((if s ! 0 = CHR ''-'' then -1 else 1) * (h * 60 + m) * 60)
         | _ \<Rightarrow> None)
      else None)"

text \<open>\<open>time.Parse(time.RFC3339Nano, s)\<close> on the strict RFC 3339 form.\<close>

definition parse_rfc3339 :: "string \<Rightarrow> gotime option" where
  "parse_rfc3339 s =
     Option.bind (time_field 4 0 9999 s) (\<lambda>(y, s). Option.bind (time_lit ''-'' s) (\<lambda>s.
     Option.bind (time_field 2 1 12 s) (\<lambda>(m, s). Option.bind (time_lit ''-'' s) (\<lambda>s.
     Option.bind (time_field 2 1 (days_in m y) s) (\<lambda>(d, s). Option.bind (time_lit ''T'' s) (\<lambda>s.
     Option.bind (time_field 2 0 23 s) (\<lambda>(hh, s). Option.bind (time_lit '':'' s) (\<lambda>s.
     Option.bind (time_field 2 0 59 s) (\<lambda>(mm, s). Option.bind (time_lit '':'' s) (\<lambda>s.
     Option.bind (time_field 2 0 59 s) (\<lambda>(ss, s).
       case time_fraction s of (ns, s) \<Rightarrow> Option.bind (time_zone s) (\<lambda>off.
         Some \<lparr>gt_ns = (civil_day y m d * 86400 + hh * 3600 + mm * 60 + ss - off) * 1000000000 + ns,
               gt_offset = off\<rparr>))))))))))))"

definition decode_time :: "json \<Rightarrow> gotime \<Rightarrow> gotime option" where
  "decode_time v t = (case v of J_null \<Rightarrow> Some t | J_string raw \<Rightarrow> parse_rfc3339 raw | _ \<Rightarrow> None)"

definition dec_time :: "('r \<Rightarrow> gotime) \<Rightarrow> (gotime \<Rightarrow> 'r \<Rightarrow> 'r) \<Rightarrow> 'r field_decoder" where
  "dec_time sel upd v r = map_option (\<lambda>t. upd t r) (decode_time v (sel r))"

text \<open>A pointer field: \<open>null\<close> makes it nil, anything else is decoded into the value it points to.\<close>

definition dec_pointer ::
  "(json \<Rightarrow> 'a \<Rightarrow> 'a option) \<Rightarrow> 'a \<Rightarrow> ('r \<Rightarrow> 'a option) \<Rightarrow> ('a option \<Rightarrow> 'r \<Rightarrow> 'r) \<Rightarrow> 'r field_decoder" where
  "dec_pointer decode zero sel upd v r =
     (if v = J_null then Some (upd None r)
      else map_option (\<lambda>x. upd (Some x) r) (decode v (case sel r of None \<Rightarrow> zero | Some x \<Rightarrow> x)))"

end
