(* ===== verification/Planning.thy ===== *)
theory Planning
  imports Task_Vocabulary Go_Json
begin

text \<open>
  The planning entities of \<open>internal/model\<close>: milestones (\<open>milestone.go\<close>), tracks with their
  review snapshots (\<open>track.go\<close>), relations (\<open>relation.go\<close>) and rules (\<open>rule.go\<close>), each with its
  validator, and the constructors of milestones and tracks.
\<close>

section \<open>Milestones\<close>

record Milestone =
  ms_SchemaVersion :: int
  ms_ID :: string
  ms_ProjectID :: string
  ms_Revision :: int
  ms_Title :: string
  ms_Summary :: string
  ms_Status :: string
  ms_Tasks :: "string list option"
  ms_CompletionEvidence :: string
  ms_CompletionEvidenceRefs :: "string list option"
  ms_CreatedBy :: string
  ms_CreatedAt :: gotime
  ms_UpdatedBy :: string
  ms_UpdatedAt :: gotime

definition MilestoneStatuses :: "string list" where
  "MilestoneStatuses = [''planned'', ''active'', ''completed'', ''archived'']"

definition containsMilestoneStatus :: "string \<Rightarrow> bool" where
  "containsMilestoneStatus status \<longleftrightarrow> List.member MilestoneStatuses status"

definition MilestoneStatusSymbol :: "string \<Rightarrow> string result" where
  "MilestoneStatusSymbol status =
     (if status = ''planned'' then Ok [CHR 0xE2, CHR 0x97, CHR 0x8B]
      else if status = ''active'' then Ok [CHR 0xE2, CHR 0x96, CHR 0xB6]
      else if status = ''completed'' then Ok [CHR 0xE2, CHR 0x9C, CHR 0x93]
      else if status = ''archived'' then Ok [CHR 0xE2, CHR 0x97, CHR 0x86]
      else Err (''invalid milestone status '' @ go_quote status))"

definition projectCodeFromProjectIDReference :: "string \<Rightarrow> string result" where
  "projectCodeFromProjectIDReference ref =
     (if length ref < 5 \<or> ref ! 3 \<noteq> CHR ''-'' then Err ''invalid entity reference''
      else guard_result (ValidateProjectCode (take 3 ref)) (Ok (take 3 ref)))"

text \<open>The parser chosen by the marker behind the code; the first matching prefix decides.\<close>

definition evidence_parsers :: "(string \<times> (string \<Rightarrow> (string \<times> nat) result)) list" where
  "evidence_parsers =
     [(''-TSK'', ParseTaskID), (''-ADR'', ParseADRID), (''-RUL'', ParseRuleID), (''-JRN'', ParseJournalID),
      (''-OPR'', ParseOperatorEventID), (''-MIL'', ParseMilestoneID), (''-MSG'', ParseMessageID)]"

definition ValidateMilestoneEvidenceReference :: "string \<Rightarrow> string \<Rightarrow> error" where
  "ValidateMilestoneEvidenceReference ref projectID =
     (let bad = ''invalid milestone evidence reference '' @ go_quote ref in
      first_error
        [fail_if (projectID \<noteq> '''' \<and> ValidateProjectIdentifier projectID \<noteq> None)
           ''invalid milestone evidence project'',
         fail_if (ValidateObjectIdentifier ref \<noteq> None) bad,
         (case projectCodeFromProjectIDReference ref of
            Inl _ \<Rightarrow> Some bad
          | Inr code \<Rightarrow>
              (case find (\<lambda>(marker, _). HasPrefix ref (code @ marker)) evidence_parsers of
                 None \<Rightarrow> Some bad
               | Some (_, parse) \<Rightarrow> replace_err bad (err_of (parse ref))))])"

definition validateMilestoneEvidence :: "string \<Rightarrow> string \<Rightarrow> string list \<Rightarrow> error" where
  "validateMilestoneEvidence projectID evidence refs = first_error
     [fail_if (TrimSpace evidence = '''' \<or> 20000 < length evidence \<or> List.member evidence nul)
        ''milestone evidence is required and bounded'',
      fail_if (32 < length refs) ''milestone evidence references exceed 32'',
      dup_check (\<lambda>ref. ValidateMilestoneEvidenceReference ref projectID) id
        (\<lambda>ref. ''duplicate milestone evidence reference '' @ go_quote ref) [] refs]"

definition ValidateMilestone :: "Milestone \<Rightarrow> error" where
  "ValidateMilestone v =
     (let final = (ms_Status v = ''completed'' \<or> ms_Status v = ''archived''); refs = elems (ms_CompletionEvidenceRefs v) in
      first_error
        [fail_if (ms_SchemaVersion v \<noteq> SchemaVersion \<or> ValidateProjectIdentifier (ms_ProjectID v) \<noteq> None
             \<or> ValidateMilestoneID (ms_ID v) \<noteq> None) ''invalid milestone identity'',
         fail_if (rune_count (ms_Title v) < 3 \<or> 128 < rune_count (ms_Title v) \<or> 256 < rune_count (ms_Summary v))
           ''invalid milestone content'',
         fail_if (256 < length (elems (ms_Tasks v))) ''milestone task membership exceeds 256'',
         dup_check (\<lambda>t. fail_if (ValidateCanonicalTaskID t \<noteq> None) (''invalid milestone task '' @ go_quote t)) id
           (\<lambda>t. ''duplicate milestone task '' @ go_quote t) [] (elems (ms_Tasks v)),
         fail_if (\<not> containsMilestoneStatus (ms_Status v)) ''invalid milestone status'',
         fail_if (\<not> final \<and> (ms_CompletionEvidence v \<noteq> '''' \<or> refs \<noteq> []))
           ''non-completed milestone contains completion evidence'',
         (if final then validateMilestoneEvidence (ms_ProjectID v) (ms_CompletionEvidence v) refs else None),
         fail_if (ms_Revision v < 1 \<or> ms_CreatedBy v = '''' \<or> ms_UpdatedBy v = ''''
             \<or> ContainsAny (ms_CreatedBy v @ ms_UpdatedBy v) nul_cr_lf \<or> IsZero (ms_CreatedAt v)
             \<or> IsZero (ms_UpdatedAt v)) ''invalid milestone metadata''])"

definition CanonicalMilestoneTasks :: "string list option \<Rightarrow> string list option" where
  "CanonicalMilestoneTasks tasks = map_option sort (cloneStrings tasks)"

definition NewMilestone ::
  "string \<Rightarrow> string \<Rightarrow> string \<Rightarrow> string \<Rightarrow> string list option \<Rightarrow> string \<Rightarrow> gotime \<Rightarrow> Milestone result" where
  "NewMilestone projectID ident title summary tasks createdBy now =
     (let m = \<lparr>ms_SchemaVersion = SchemaVersion, ms_ID = ident, ms_ProjectID = projectID, ms_Revision = 1,
               ms_Title = title, ms_Summary = summary, ms_Status = ''planned'',
               ms_Tasks = CanonicalMilestoneTasks tasks, ms_CompletionEvidence = '''',
               ms_CompletionEvidenceRefs = None, ms_CreatedBy = createdBy, ms_CreatedAt = to_utc now,
               ms_UpdatedBy = createdBy, ms_UpdatedAt = to_utc now\<rparr>
      in guard_result (ValidateMilestone m) (Ok m))"

section \<open>Tracks\<close>

record TrackTaskSnapshot =
  tt_Key :: string
  tt_Revision :: int
  tt_RevisionSHA256 :: string

record TrackReview =
  tr_Head :: string
  tr_Tree :: string
  tr_Digest :: string
  tr_TrackRevision :: int
  tr_Tasks :: "TrackTaskSnapshot list"
  tr_SubmittedAt :: gotime
  tr_SubmittedBy :: string

record Track =
  tk_SchemaVersion :: int
  tk_ID :: string
  tk_ProjectID :: string
  tk_Revision :: int
  tk_Milestone :: string
  tk_Title :: string
  tk_Summary :: string
  tk_Tasks :: "string list option"
  tk_DispatchedTasks :: "string list option"
  tk_Status :: string
  tk_Review :: "TrackReview option"
  tk_CancelledAt :: "gotime option"
  tk_CancelledBy :: string
  tk_CancelledReason :: string
  tk_CreatedBy :: string
  tk_CreatedAt :: gotime
  tk_UpdatedBy :: string
  tk_UpdatedAt :: gotime

definition TrackMaxTasks :: nat where "TrackMaxTasks = 256"

definition TrackStatuses :: "string list" where
  "TrackStatuses = [''planned'', ''active'', ''ready'', ''review_pending'', ''accepted'', ''stale'', ''cancelled'',
                    ''archived'']"

definition containsTrackStatus :: "string \<Rightarrow> bool" where
  "containsTrackStatus status \<longleftrightarrow> List.member TrackStatuses status"

definition ValidateTrackReview :: "TrackReview option \<Rightarrow> int \<Rightarrow> error" where
  "ValidateTrackReview review trackRevision =
     (case review of
        None \<Rightarrow> Some ''invalid Track review snapshot''
      | Some r \<Rightarrow> first_error
          [fail_if (ValidateCommitSHA (tr_Head r) \<noteq> None \<or> ValidateCommitSHA (tr_Tree r) \<noteq> None
               \<or> ValidateSHA256 (tr_Digest r) \<noteq> None \<or> tr_TrackRevision r < 1 \<or> tr_TrackRevision r \<noteq> trackRevision
               \<or> IsZero (tr_SubmittedAt r) \<or> tr_SubmittedBy r = '''' \<or> ContainsAny (tr_SubmittedBy r) nul_cr_lf)
             ''invalid Track review snapshot'',
           fail_if (tr_Tasks r = [] \<or> TrackMaxTasks < length (tr_Tasks r)) ''invalid Track review task snapshot'',
           dup_check (\<lambda>t. fail_if (ValidateCanonicalTaskID (tt_Key t) \<noteq> None \<or> tt_Revision t < 1
                          \<or> ValidateSHA256 (tt_RevisionSHA256 t) \<noteq> None) ''invalid Track review Task snapshot'')
             tt_Key (\<lambda>_. ''duplicate Track review Task snapshot'') [] (tr_Tasks r)])"

definition track_review_members :: "Track \<Rightarrow> error" where
  "track_review_members v =
     (case tk_Review v of
        None \<Rightarrow> None
      | Some r \<Rightarrow> fail_if (map tt_Key (tr_Tasks r) \<noteq> elems (tk_Tasks v))
          ''Track review membership does not match Track membership'')"

definition track_cancellation :: "Track \<Rightarrow> error" where
  "track_cancellation v =
     (if tk_Status v = ''cancelled'' \<or> tk_CancelledAt v \<noteq> None \<or> tk_CancelledBy v \<noteq> '''' \<or> tk_CancelledReason v \<noteq> ''''
      then first_error
        [fail_if (tk_Status v \<noteq> ''cancelled'' \<and> tk_Status v \<noteq> ''archived'')
           ''non-terminal Track contains cancellation metadata'',
         fail_if (tk_CancelledAt v = None \<or> tk_CancelledBy v = '''' \<or> TrimSpace (tk_CancelledReason v) = '''')
           ''cancelled Track requires cancellation metadata'']
      else None)"

definition ValidateTrack :: "Track \<Rightarrow> error" where
  "ValidateTrack v = first_error
     [fail_if (tk_SchemaVersion v \<noteq> SchemaVersion \<or> ValidateProjectIdentifier (tk_ProjectID v) \<noteq> None
          \<or> ValidateTrackID (tk_ID v) \<noteq> None) ''invalid Track identity'',
      (case ParseTrackID (tk_ID v) of
         Inl _ \<Rightarrow> Some ''invalid Track identifier''
       | Inr (projectCode, _) \<Rightarrow>
           (case ParseMilestoneID (tk_Milestone v) of
              Inl _ \<Rightarrow> Some ''invalid Track Milestone''
            | Inr (milestoneCode, _) \<Rightarrow> fail_if (milestoneCode \<noteq> projectCode) ''invalid Track Milestone'')),
      fail_if (rune_count (tk_Title v) < 3 \<or> 128 < rune_count (tk_Title v) \<or> 256 < rune_count (tk_Summary v))
        ''invalid Track content'',
      fail_if (elems (tk_Tasks v) = [] \<or> TrackMaxTasks < length (elems (tk_Tasks v)))
        ''Track task membership must contain 1-256 Tasks'',
      dup_check (\<lambda>t. fail_if (ValidateCanonicalTaskID t \<noteq> None) (''invalid Track task '' @ go_quote t)) id
        (\<lambda>t. ''duplicate Track task '' @ go_quote t) [] (elems (tk_Tasks v)),
      dup_check (\<lambda>t. fail_if (\<not> List.member (elems (tk_Tasks v)) t)
                    (''Track dispatch history contains non-member Task '' @ go_quote t)) id
        (\<lambda>t. ''duplicate Track dispatched Task '' @ go_quote t) [] (elems (tk_DispatchedTasks v)),
      fail_if (\<not> containsTrackStatus (tk_Status v)) ''invalid Track status'',
      (if tk_Status v = ''review_pending'' \<or> tk_Status v = ''accepted'' \<or> tk_Status v = ''stale''
       then first_error [ValidateTrackReview (tk_Review v) (tk_Revision v), track_review_members v]
       else None),
      track_cancellation v,
      fail_if (tk_Revision v < 1 \<or> tk_CreatedBy v = '''' \<or> tk_UpdatedBy v = ''''
          \<or> ContainsAny (tk_CreatedBy v @ tk_UpdatedBy v) nul_cr_lf \<or> IsZero (tk_CreatedAt v)
          \<or> IsZero (tk_UpdatedAt v)) ''invalid Track metadata'']"

definition NewTrack ::
  "string \<Rightarrow> string \<Rightarrow> string \<Rightarrow> string \<Rightarrow> string \<Rightarrow> string list option \<Rightarrow> string \<Rightarrow> gotime \<Rightarrow> Track result" where
  "NewTrack projectID ident milestone title summary tasks createdBy now =
     (let t = \<lparr>tk_SchemaVersion = SchemaVersion, tk_ID = ident, tk_ProjectID = projectID, tk_Revision = 1,
               tk_Milestone = milestone, tk_Title = title, tk_Summary = summary, tk_Tasks = Some (elems tasks),
               tk_DispatchedTasks = None, tk_Status = ''planned'', tk_Review = None, tk_CancelledAt = None,
               tk_CancelledBy = '''', tk_CancelledReason = '''', tk_CreatedBy = createdBy,
               tk_CreatedAt = to_utc now, tk_UpdatedBy = createdBy, tk_UpdatedAt = to_utc now\<rparr>
      in guard_result (ValidateTrack t) (Ok t))"

section \<open>Relations\<close>

record Relation =
  rl_SchemaVersion :: int
  rl_ProjectID :: string
  rl_Kind :: string
  rl_Source :: string
  rl_Target :: string
  rl_CreatedAt :: gotime
  rl_CreatedBy :: string

definition relation_identity :: "Relation \<Rightarrow> string" where
  "relation_identity v = rl_ProjectID v @ ''|'' @ rl_Kind v @ ''|'' @ rl_Source v @ ''|'' @ rl_Target v"

definition relationKindMatrix :: "(string \<times> string list \<times> string list) list" where
  "relationKindMatrix =
     [(''authority'', [''TSK'', ''ADR'', ''RUL''], [''ADR'', ''RUL'']), (''corrects'', [''TSK''], [''TSK'']),
      (''supersedes'', [''ADR''], [''ADR'']), (''concerns'', [''PMT''], [''TSK'', ''ADR'', ''RUL''])]"

definition RelationKinds :: "string list" where
  "RelationKinds = [''authority'', ''corrects'', ''supersedes'', ''concerns'']"

definition ValidateRelationKind :: "string \<Rightarrow> error" where
  "ValidateRelationKind kind =
     fail_if (map_of relationKindMatrix kind = None) (''unsupported relation kind '' @ go_quote kind)"

definition RelationFamilyOf :: "string \<Rightarrow> string result" where
  "RelationFamilyOf ident =
     (if ValidateCanonicalTaskID ident = None then Ok ''TSK''
      else if ValidateCanonicalADRIdentifier ident = None then Ok ''ADR''
      else if ValidateRuleID ident = None then Ok ''RUL''
      else if matches_family ''-PMT'' ident then Ok ''PMT''
      else Err (''unsupported relation endpoint '' @ go_quote ident))"

definition RelationTitleField :: "string \<Rightarrow> string result" where
  "RelationTitleField family =
     (if List.member [''TSK'', ''ADR'', ''RUL''] family then Ok ''title''
      else Err (''relation family '' @ go_quote family @ '' has no live-title field''))"

definition ValidateRelationKindFamilies :: "string \<Rightarrow> string \<Rightarrow> string \<Rightarrow> error" where
  "ValidateRelationKindFamilies kind sourceFamily targetFamily =
     (case map_of relationKindMatrix kind of
        None \<Rightarrow> Some (''unsupported relation kind '' @ go_quote kind)
      | Some (sources, targets) \<Rightarrow> first_error
          [fail_if (\<not> List.member sources sourceFamily)
             (''relation kind '' @ go_quote kind @ '' does not accept a '' @ sourceFamily @ '' source''),
           fail_if (\<not> List.member targets targetFamily)
             (''relation kind '' @ go_quote kind @ '' does not accept a '' @ targetFamily @ '' target'')])"

definition ValidateRelationEndpoints :: "string \<Rightarrow> string \<Rightarrow> string \<Rightarrow> (string \<times> string) result" where
  "ValidateRelationEndpoints kind source target =
     (if source = target then Err ''relation source and target must differ''
      else (case RelationFamilyOf source of
              Inl m \<Rightarrow> Err (''relation source: '' @ m)
            | Inr sourceFamily \<Rightarrow>
                (case RelationFamilyOf target of
                   Inl m \<Rightarrow> Err (''relation target: '' @ m)
                 | Inr targetFamily \<Rightarrow>
                     guard_result (ValidateRelationKindFamilies kind sourceFamily targetFamily)
                       (Ok (sourceFamily, targetFamily)))))"

definition ValidateRelation :: "Relation \<Rightarrow> error" where
  "ValidateRelation v = first_error
     [fail_if (rl_SchemaVersion v \<noteq> SchemaVersion \<or> ValidateProjectIdentifier (rl_ProjectID v) \<noteq> None
          \<or> IsZero (rl_CreatedAt v) \<or> ContainsAny (rl_CreatedBy v) nul_cr_lf \<or> TrimSpace (rl_CreatedBy v) = '''')
        ''invalid relation metadata'',
      err_of (ValidateRelationEndpoints (rl_Kind v) (rl_Source v) (rl_Target v))]"

section \<open>Rules\<close>

record Rule =
  ru_SchemaVersion :: int
  ru_ID :: string
  ru_ProjectID :: string
  ru_Revision :: int
  ru_Title :: string
  ru_Summary :: string
  ru_Status :: string
  ru_Name :: string
  ru_Value :: string
  ru_Description :: string
  ru_CreatedBy :: string
  ru_CreatedAt :: gotime
  ru_UpdatedBy :: string
  ru_UpdatedAt :: gotime
  ru_LastReason :: string
  ru_ArchivedAt :: "gotime option"
  ru_ArchivedBy :: string
  ru_ArchiveReason :: string

definition ValidateRuleName :: "string \<Rightarrow> error" where
  "ValidateRuleName name =
     fail_if (name = '''' \<or> 128 < rune_count name
       \<or> \<not> rx_separated (CHR ''.'') (\<lambda>c. is_lower_digit c \<or> c = CHR ''_'') name) ''invalid rule name''"

definition ValidateRuleValue :: "string \<Rightarrow> error" where
  "ValidateRuleValue value = first_error
     [fail_if (value = '''') ''named rule requires a value'',
      fail_if (8192 < length value) ''rule value exceeds the serialized bound'',
      fail_if (\<not> json_Valid value \<or> TrimSpace value = ''null'') ''invalid rule value'']"

definition ValidateRule :: "Rule \<Rightarrow> error" where
  "ValidateRule v = first_error
     [fail_if (ru_SchemaVersion v \<noteq> SchemaVersion \<or> ValidateProjectIdentifier (ru_ProjectID v) \<noteq> None
          \<or> ValidateRuleID (ru_ID v) \<noteq> None) ''invalid rule identity'',
      fail_if (ru_Revision v < 1) ''invalid rule revision'',
      fail_if (rune_count (ru_Title v) = 0 \<or> 128 < rune_count (ru_Title v) \<or> TrimSpace (ru_Title v) \<noteq> ru_Title v)
        ''invalid rule title'',
      fail_if (256 < rune_count (ru_Summary v)) ''invalid rule summary'',
      fail_if (ru_Status v \<noteq> ''proposed'' \<and> ru_Status v \<noteq> ''accepted'' \<and> ru_Status v \<noteq> ''archived'')
        ''invalid rule status'',
      (if ru_Name v \<noteq> '''' then first_error [ValidateRuleName (ru_Name v), ValidateRuleValue (ru_Value v)]
       else first_error
         [fail_if (ru_Value v \<noteq> '''') ''unnamed rule cannot carry a value'',
          fail_if (TrimSpace (ru_Description v) = '''') ''narrative rule requires a description'']),
      fail_if (16384 < rune_count (ru_Description v) \<or> List.member (ru_Description v) nul)
        ''invalid rule description'',
      fail_if (IsZero (ru_CreatedAt v)) ''invalid rule timestamps'',
      (if ru_Status v = ''archived''
       then first_error
         [fail_if ((case ru_ArchivedAt v of None \<Rightarrow> True | Some t \<Rightarrow> IsZero t) \<or> ru_ArchivedBy v = ''''
              \<or> ContainsAny (ru_ArchivedBy v) nul_cr_lf) ''invalid archived rule metadata'',
          fail_if (ru_ArchiveReason v = '''' \<or> 1024 < length (ru_ArchiveReason v)
              \<or> ContainsAny (ru_ArchiveReason v) nul_cr_lf) ''invalid archived rule reason'']
       else None)]"

end
