(* ===== verification/Samples.thy ===== *)
theory Samples
  imports Task_Vocabulary
begin

text \<open>
  Concrete values that the witnesses share: an instant, an author, and identifiers of one project.
\<close>

definition noon :: gotime where "noon = unix_utc 1700000000"

lemma noon_simps [simp]: "\<not> IsZero noon" "to_utc noon = noon"
  by (simp_all add: noon_def unix_utc_def IsZero_def to_utc_def)

lemma noon_json: "\<exists>j. json_time noon = Ok j"
proof -
  have "time_year noon = 2023" by code_simp
  then show ?thesis using json_time_ok [of noon] by (simp add: noon_def unix_utc_def)
qed

lemma sample_author: "''ana'' \<noteq> ''''" "\<not> ContainsAny ''ana'' nul_cr_lf" "TrimSpace ''ana'' \<noteq> ''''"
  by (simp_all add: ContainsAny_iff nul_cr_lf_def nul_def cr_def lf_def byte_def IsSpace_def)

lemma sample_task_id: "ValidateCanonicalTaskID ''AAA-TSK1'' = None"
proof -
  have "dec 1 = ''1''" by code_simp
  then have "FormatTaskID ''AAA'' 1 = Ok ''AAA-TSK1''"
    using format_task_AAA [of 1] by (simp add: MaxSafeInteger_def)
  then show ?thesis unfolding ValidateCanonicalTaskID_iff by blast
qed

lemma sample_project_id: "ValidateProjectIdentifier ''example'' = None"
  by (simp add: ValidateProjectIdentifier_def idRE_def is_lower_digit_def is_lower_def between_def byte_def)

lemma sample_ids:
  "ParseTrackID ''AAA-TRK1'' = Ok (''AAA'', 1)" "ParseMilestoneID ''AAA-MIL1'' = Ok (''AAA'', 1)"
proof -
  have d: "dec 1 = ''1''" by code_simp
  have v: "ValidateProjectCode ''AAA'' = None"
    by (simp add: ValidateProjectCode_None is_upper_def between_def byte_def)
  have "FormatTrackID ''AAA'' 1 = Ok ''AAA-TRK1''"
    by (simp add: FormatTrackID_def v MaxSafeInteger_def d [unfolded One_nat_def])
  then show "ParseTrackID ''AAA-TRK1'' = Ok (''AAA'', 1)" by (simp only: track_id.decode_iff)
  have "FormatMilestoneID ''AAA'' 1 = Ok ''AAA-MIL1''"
    by (simp add: FormatMilestoneID_def formatEntityID_def v MaxSafeInteger_def d [unfolded One_nat_def])
  then show "ParseMilestoneID ''AAA-MIL1'' = Ok (''AAA'', 1)" by (rule milestone_id.decode_encode)
qed

end
