(* ===== verification/Planning_Laws.thy ===== *)
theory Planning_Laws
  imports Planning Samples "HOL-Library.Multiset"
begin

text \<open>
  Properties of the planning entities: which relations exist, what a valid track promises about
  its members, and that a milestone's membership is unordered.
\<close>

section \<open>Relation families\<close>

lemma family_marker:
  "ValidateCanonicalTaskID s = None \<Longrightarrow> take 4 (drop 3 s) = ''-TSK''"
  "ValidateCanonicalADRIdentifier s = None \<Longrightarrow> take 4 (drop 3 s) = ''-ADR''"
  "matches_family ''-PMT'' s \<Longrightarrow> take 4 (drop 3 s) = ''-PMT''"
  by (auto simp: ValidateCanonicalTaskID_def ValidateCanonicalADRIdentifier_def ParseTaskID_def ParseADRID_def
      parse_family_Ok format_family_Ok matches_family_iff)

lemma rule_marker: "ValidateRuleID s = None \<Longrightarrow> take 4 (drop 3 s) = ''-RUL''"
  unfolding ValidateRuleID_def ParseRuleID_def err_of_None
  by (auto dest!: parseEntityID_Ok)

lemma RelationFamilyOf_Ok:
  "RelationFamilyOf s = Ok f \<longleftrightarrow>
     (f = ''TSK'' \<and> ValidateCanonicalTaskID s = None) \<or> (f = ''ADR'' \<and> ValidateCanonicalADRIdentifier s = None)
       \<or> (f = ''RUL'' \<and> ValidateRuleID s = None) \<or> (f = ''PMT'' \<and> matches_family ''-PMT'' s)"
proof -
  define a b c d where abcd: "a = (ValidateCanonicalTaskID s = None)" "b = (ValidateCanonicalADRIdentifier s = None)"
    "c = (ValidateRuleID s = None)" "d = matches_family ''-PMT'' s"
  have "a \<Longrightarrow> take 4 (drop 3 s) = ''-TSK''" "b \<Longrightarrow> take 4 (drop 3 s) = ''-ADR''"
    "c \<Longrightarrow> take 4 (drop 3 s) = ''-RUL''" "d \<Longrightarrow> take 4 (drop 3 s) = ''-PMT''"
    unfolding abcd by (rule family_marker rule_marker, assumption)+
  then have "\<not> (a \<and> b)" "\<not> (a \<and> c)" "\<not> (a \<and> d)" "\<not> (b \<and> c)" "\<not> (b \<and> d)" "\<not> (c \<and> d)"
    by auto
  then show ?thesis
    unfolding RelationFamilyOf_def abcd [symmetric] by (cases a; cases b; cases c; cases d) auto
qed

definition relation_triples :: "(string \<times> string \<times> string) list" where
  "relation_triples =
     [(''authority'', ''TSK'', ''ADR''), (''authority'', ''TSK'', ''RUL''), (''authority'', ''ADR'', ''ADR''),
      (''authority'', ''ADR'', ''RUL''), (''authority'', ''RUL'', ''ADR''), (''authority'', ''RUL'', ''RUL''),
      (''corrects'', ''TSK'', ''TSK''), (''supersedes'', ''ADR'', ''ADR''),
      (''concerns'', ''PMT'', ''TSK''), (''concerns'', ''PMT'', ''ADR''), (''concerns'', ''PMT'', ''RUL'')]"

lemma relation_triples_concat:
  "relation_triples = concat (map (\<lambda>(k, ss, ts). concat (map (\<lambda>s. map (\<lambda>t. (k, s, t)) ts) ss)) relationKindMatrix)"
  by (simp add: relation_triples_def relationKindMatrix_def)

lemma concat_triples:
  "(k, f, g) \<in> set (concat (map (\<lambda>(k, ss, ts). concat (map (\<lambda>s. map (\<lambda>t. (k, s, t)) ts) ss)) M)) \<longleftrightarrow>
     (\<exists>ss ts. (k, ss, ts) \<in> set M \<and> f \<in> set ss \<and> g \<in> set ts)"
proof (induction M)
  case (Cons m M)
  obtain k' ss ts where m: "m = (k', ss, ts)" by (cases m)
  have "(k, f, g) \<in> set (concat (map (\<lambda>s. map (\<lambda>t. (k', s, t)) ts) ss)) \<longleftrightarrow> k = k' \<and> f \<in> set ss \<and> g \<in> set ts"
    by auto
  then show ?case using Cons.IH by (simp add: m del: set_concat) blast
qed simp

lemma kind_families_iff:
  "ValidateRelationKindFamilies k f g = None \<longleftrightarrow> (k, f, g) \<in> set relation_triples"
proof -
  have "distinct (map fst relationKindMatrix)" by (simp add: relationKindMatrix_def)
  then have m: "map_of relationKindMatrix k = Some x \<longleftrightarrow> (k, x) \<in> set relationKindMatrix" for x by simp
  have "ValidateRelationKindFamilies k f g = None \<longleftrightarrow>
      (\<exists>ss ts. map_of relationKindMatrix k = Some (ss, ts) \<and> f \<in> set ss \<and> g \<in> set ts)"
    by (auto simp: ValidateRelationKindFamilies_def simp del: map_of_eq_None_iff split: option.splits)
  also have "\<dots> \<longleftrightarrow> (\<exists>ss ts. (k, ss, ts) \<in> set relationKindMatrix \<and> f \<in> set ss \<and> g \<in> set ts)"
    by (simp only: m)
  also have "\<dots> \<longleftrightarrow> (k, f, g) \<in> set relation_triples"
    unfolding relation_triples_concat by (rule concat_triples [symmetric])
  finally show ?thesis .
qed

section \<open>Properties\<close>

text \<open>
  The relations the validator accepts are exactly those of eleven kind, source family and
  target family combinations between two different endpoints, and an endpoint has one family only:
  the four identifier families exclude each other.
\<close>

theorem relation_endpoints_exact:
  "ValidateRelationEndpoints kind source target = Ok (f, g) \<longleftrightarrow>
     source \<noteq> target \<and> (kind, f, g) \<in> set relation_triples
       \<and> RelationFamilyOf source = Ok f \<and> RelationFamilyOf target = Ok g"
  by (cases "RelationFamilyOf source"; cases "RelationFamilyOf target")
    (auto simp: ValidateRelationEndpoints_def kind_families_iff)

text \<open>
  C35. A valid track: its members are distinct canonical task ids, the dispatched ones are among
  them and distinct, it belongs to a milestone of its own project code, while it is under review,
  accepted or stale its snapshot lists exactly its members at its own revision, and a cancelled
  track says when, by whom and why.
\<close>

theorem valid_track_invariant:
  assumes "ValidateTrack v = None"
  shows "distinct (elems (tk_Tasks v)) \<and> elems (tk_Tasks v) \<noteq> []
     \<and> (\<forall>t \<in> set (elems (tk_Tasks v)). \<exists>code n. FormatTaskID code n = Ok t)
     \<and> distinct (elems (tk_DispatchedTasks v)) \<and> set (elems (tk_DispatchedTasks v)) \<subseteq> set (elems (tk_Tasks v))
     \<and> (\<exists>code n k. ParseTrackID (tk_ID v) = Ok (code, n) \<and> ParseMilestoneID (tk_Milestone v) = Ok (code, k))
     \<and> (tk_Status v \<in> {''review_pending'', ''accepted'', ''stale''} \<longrightarrow>
          (\<exists>r. tk_Review v = Some r \<and> map tt_Key (tr_Tasks r) = elems (tk_Tasks v)
             \<and> tr_TrackRevision r = tk_Revision v))
     \<and> (tk_Status v = ''cancelled'' \<longrightarrow>
          tk_CancelledAt v \<noteq> None \<and> tk_CancelledBy v \<noteq> '''' \<and> TrimSpace (tk_CancelledReason v) \<noteq> '''')"
proof -
  note v = assms [unfolded ValidateTrack_def]
  have members: "distinct (elems (tk_Tasks v))" "elems (tk_Tasks v) \<noteq> []"
    "\<forall>t \<in> set (elems (tk_Tasks v)). ValidateCanonicalTaskID t = None"
    "distinct (elems (tk_DispatchedTasks v))" "set (elems (tk_DispatchedTasks v)) \<subseteq> set (elems (tk_Tasks v))"
    using v by auto
  have project: "\<exists>code n k. ParseTrackID (tk_ID v) = Ok (code, n) \<and> ParseMilestoneID (tk_Milestone v) = Ok (code, k)"
    using v by (auto split: sum.splits)
  have review: "tk_Status v \<in> {''review_pending'', ''accepted'', ''stale''} \<longrightarrow>
      (\<exists>r. tk_Review v = Some r \<and> map tt_Key (tr_Tasks r) = elems (tk_Tasks v) \<and> tr_TrackRevision r = tk_Revision v)"
    using v by (cases "tk_Review v") (auto simp: ValidateTrackReview_def track_review_members_def)
  have cancelled: "tk_Status v = ''cancelled'' \<longrightarrow>
      tk_CancelledAt v \<noteq> None \<and> tk_CancelledBy v \<noteq> '''' \<and> TrimSpace (tk_CancelledReason v) \<noteq> ''''"
    using v by (simp add: track_cancellation_def split: if_splits)
  show ?thesis
    using members project review cancelled ValidateCanonicalTaskID_iff by blast
qed

text \<open>When a new track is accepted.\<close>

lemma NewTrack_Ok:
  assumes "ValidateProjectIdentifier pid = None" "ParseTrackID ident = Ok (code, n)" "ParseMilestoneID ms = Ok (code, k)"
    and "3 \<le> rune_count title" "rune_count title \<le> 128" "rune_count summary \<le> 256"
    and "elems tasks \<noteq> []" "length (elems tasks) \<le> 256" "distinct (elems tasks)"
    and "\<forall>t \<in> set (elems tasks). ValidateCanonicalTaskID t = None"
    and "who \<noteq> ''''" "\<not> ContainsAny who nul_cr_lf" "\<not> IsZero now"
  shows "\<exists>t. NewTrack pid ident ms title summary tasks who now = Ok t \<and> ValidateTrack t = None"
  using assms by (simp add: NewTrack_def ValidateTrack_def ValidateTrackID_def SchemaVersion_def TrackMaxTasks_def
      containsTrackStatus_def TrackStatuses_def track_cancellation_def)

theorem valid_track_invariant_witness:
  "\<exists>t. NewTrack ''example'' ''AAA-TRK1'' ''AAA-MIL1'' ''Track'' '''' (Some [''AAA-TSK1'']) ''ana'' noon = Ok t
     \<and> distinct (elems (tk_Tasks t))"
proof -
  obtain t where t: "NewTrack ''example'' ''AAA-TRK1'' ''AAA-MIL1'' ''Track'' '''' (Some [''AAA-TSK1'']) ''ana'' noon = Ok t"
    "ValidateTrack t = None"
    using NewTrack_Ok [OF sample_project_id sample_ids, of "''Track''" "''''" "Some [''AAA-TSK1'']" "''ana''" noon]
      sample_task_id sample_author by (auto simp: rune_count_ascii byte_def)
  then show ?thesis using valid_track_invariant [OF t(2)] by blast
qed

text \<open>
  A milestone's membership is a set: creating it from any ordering of the same tasks gives
  the same record, in particular the same stored list.
\<close>

theorem milestone_membership_unordered:
  assumes "mset (elems xs) = mset (elems ys)"
  shows "NewMilestone pid ident title summary xs who now = NewMilestone pid ident title summary ys who now"
proof -
  have "sort (elems xs) = sort (elems ys)"
    using assms by (metis mset_sort properties_for_sort sorted_sort)
  moreover have "elems xs = [] \<longleftrightarrow> elems ys = []" using assms by (metis mset_zero_iff)
  ultimately have "CanonicalMilestoneTasks xs = CanonicalMilestoneTasks ys"
    by (cases xs; cases ys) (auto simp: CanonicalMilestoneTasks_def cloneStrings_def)
  then show ?thesis by (simp add: NewMilestone_def)
qed

theorem milestone_membership_unordered_witness:
  "NewMilestone ''example'' ''AAA-MIL1'' ''Title'' ''Summary'' (Some [''AAA-TSK2'', ''AAA-TSK1'']) ''ana'' zero_time
     = NewMilestone ''example'' ''AAA-MIL1'' ''Title'' ''Summary'' (Some [''AAA-TSK1'', ''AAA-TSK2'']) ''ana'' zero_time"
  by (rule milestone_membership_unordered) simp

end
