(* ===== verification/Lifecycle_Registry.thy ===== *)
theory Lifecycle_Registry
  imports Planning
begin

text \<open>
  The registry of durable entities (\<open>sqlitestore/shared_lifecycle.go\<close>) and the policies that
  guard a change of an entity's payload: the status machine of every entity type
  (\<open>shared_lifecycle_status_policy.go\<close>), the milestone policy (\<open>milestone_lifecycle_policy.go\<close>), the
  track policy (\<open>track_lifecycle_policy.go\<close>), the logical revision and the reason of a history row
  (\<open>shared_lifecycle_revision.go\<close>).
\<close>

section \<open>Decoding payloads\<close>

definition zero_Milestone :: Milestone where
  "zero_Milestone = \<lparr>ms_SchemaVersion = 0, ms_ID = [], ms_ProjectID = [], ms_Revision = 0, ms_Title = [],
     ms_Summary = [], ms_Status = [], ms_Tasks = None, ms_CompletionEvidence = [],
     ms_CompletionEvidenceRefs = None, ms_CreatedBy = [], ms_CreatedAt = zero_time, ms_UpdatedBy = [],
     ms_UpdatedAt = zero_time\<rparr>"

definition milestone_fields :: "(string \<times> Milestone field_decoder) list" where
  "milestone_fields =
     [(''schema_version'', dec_int64 (\<lambda>x r. r\<lparr>ms_SchemaVersion := x\<rparr>)),
      (''id'', dec_string (\<lambda>x r. r\<lparr>ms_ID := x\<rparr>)),
      (''project_id'', dec_string (\<lambda>x r. r\<lparr>ms_ProjectID := x\<rparr>)),
      (''revision'', dec_int64 (\<lambda>x r. r\<lparr>ms_Revision := x\<rparr>)),
      (''title'', dec_string (\<lambda>x r. r\<lparr>ms_Title := x\<rparr>)),
      (''summary'', dec_string (\<lambda>x r. r\<lparr>ms_Summary := x\<rparr>)),
      (''status'', dec_string (\<lambda>x r. r\<lparr>ms_Status := x\<rparr>)),
      (''tasks'', dec_strings (\<lambda>x r. r\<lparr>ms_Tasks := x\<rparr>)),
      (''completion_evidence'', dec_string (\<lambda>x r. r\<lparr>ms_CompletionEvidence := x\<rparr>)),
      (''completion_evidence_refs'', dec_strings (\<lambda>x r. r\<lparr>ms_CompletionEvidenceRefs := x\<rparr>)),
      (''created_by'', dec_string (\<lambda>x r. r\<lparr>ms_CreatedBy := x\<rparr>)),
      (''created_at'', dec_time ms_CreatedAt (\<lambda>x r. r\<lparr>ms_CreatedAt := x\<rparr>)),
      (''updated_by'', dec_string (\<lambda>x r. r\<lparr>ms_UpdatedBy := x\<rparr>)),
      (''updated_at'', dec_time ms_UpdatedAt (\<lambda>x r. r\<lparr>ms_UpdatedAt := x\<rparr>))]"

definition decode_milestone :: "string \<Rightarrow> Milestone option" where
  "decode_milestone payload = json_Unmarshal milestone_fields zero_Milestone payload"

definition zero_TrackTaskSnapshot :: TrackTaskSnapshot where
  "zero_TrackTaskSnapshot = \<lparr>tt_Key = [], tt_Revision = 0, tt_RevisionSHA256 = []\<rparr>"

definition track_task_fields :: "(string \<times> TrackTaskSnapshot field_decoder) list" where
  "track_task_fields =
     [(''key'', dec_string (\<lambda>x r. r\<lparr>tt_Key := x\<rparr>)),
      (''revision'', dec_int64 (\<lambda>x r. r\<lparr>tt_Revision := x\<rparr>)),
      (''revision_sha256'', dec_string (\<lambda>x r. r\<lparr>tt_RevisionSHA256 := x\<rparr>))]"

definition zero_TrackReview :: TrackReview where
  "zero_TrackReview = \<lparr>tr_Head = [], tr_Tree = [], tr_Digest = [], tr_TrackRevision = 0, tr_Tasks = [],
     tr_SubmittedAt = zero_time, tr_SubmittedBy = []\<rparr>"

definition track_review_fields :: "(string \<times> TrackReview field_decoder) list" where
  "track_review_fields =
     [(''head'', dec_string (\<lambda>x r. r\<lparr>tr_Head := x\<rparr>)),
      (''tree'', dec_string (\<lambda>x r. r\<lparr>tr_Tree := x\<rparr>)),
      (''digest'', dec_string (\<lambda>x r. r\<lparr>tr_Digest := x\<rparr>)),
      (''track_revision'', dec_int64 (\<lambda>x r. r\<lparr>tr_TrackRevision := x\<rparr>)),
      (''tasks'', dec_slice (\<lambda>z v. decode_struct False track_task_fields v z) zero_TrackTaskSnapshot
         (\<lambda>x r. r\<lparr>tr_Tasks := elems x\<rparr>)),
      (''submitted_at'', dec_time tr_SubmittedAt (\<lambda>x r. r\<lparr>tr_SubmittedAt := x\<rparr>)),
      (''submitted_by'', dec_string (\<lambda>x r. r\<lparr>tr_SubmittedBy := x\<rparr>))]"

definition zero_Track :: Track where
  "zero_Track = \<lparr>tk_SchemaVersion = 0, tk_ID = [], tk_ProjectID = [], tk_Revision = 0, tk_Milestone = [],
     tk_Title = [], tk_Summary = [], tk_Tasks = None, tk_DispatchedTasks = None, tk_Status = [],
     tk_Review = None, tk_CancelledAt = None, tk_CancelledBy = [], tk_CancelledReason = [], tk_CreatedBy = [],
     tk_CreatedAt = zero_time, tk_UpdatedBy = [], tk_UpdatedAt = zero_time\<rparr>"

definition track_fields :: "(string \<times> Track field_decoder) list" where
  "track_fields =
     [(''schema_version'', dec_int64 (\<lambda>x r. r\<lparr>tk_SchemaVersion := x\<rparr>)),
      (''id'', dec_string (\<lambda>x r. r\<lparr>tk_ID := x\<rparr>)),
      (''project_id'', dec_string (\<lambda>x r. r\<lparr>tk_ProjectID := x\<rparr>)),
      (''revision'', dec_int64 (\<lambda>x r. r\<lparr>tk_Revision := x\<rparr>)),
      (''milestone'', dec_string (\<lambda>x r. r\<lparr>tk_Milestone := x\<rparr>)),
      (''title'', dec_string (\<lambda>x r. r\<lparr>tk_Title := x\<rparr>)),
      (''summary'', dec_string (\<lambda>x r. r\<lparr>tk_Summary := x\<rparr>)),
      (''tasks'', dec_strings (\<lambda>x r. r\<lparr>tk_Tasks := x\<rparr>)),
      (''dispatched_tasks'', dec_strings (\<lambda>x r. r\<lparr>tk_DispatchedTasks := x\<rparr>)),
      (''status'', dec_string (\<lambda>x r. r\<lparr>tk_Status := x\<rparr>)),
      (''review'', dec_pointer (decode_struct False track_review_fields) zero_TrackReview tk_Review
         (\<lambda>x r. r\<lparr>tk_Review := x\<rparr>)),
      (''cancelled_at'', dec_pointer decode_time zero_time tk_CancelledAt (\<lambda>x r. r\<lparr>tk_CancelledAt := x\<rparr>)),
      (''cancelled_by'', dec_string (\<lambda>x r. r\<lparr>tk_CancelledBy := x\<rparr>)),
      (''cancelled_reason'', dec_string (\<lambda>x r. r\<lparr>tk_CancelledReason := x\<rparr>)),
      (''created_by'', dec_string (\<lambda>x r. r\<lparr>tk_CreatedBy := x\<rparr>)),
      (''created_at'', dec_time tk_CreatedAt (\<lambda>x r. r\<lparr>tk_CreatedAt := x\<rparr>)),
      (''updated_by'', dec_string (\<lambda>x r. r\<lparr>tk_UpdatedBy := x\<rparr>)),
      (''updated_at'', dec_time tk_UpdatedAt (\<lambda>x r. r\<lparr>tk_UpdatedAt := x\<rparr>))]"

definition decode_track :: "string \<Rightarrow> Track option" where
  "decode_track payload = json_Unmarshal track_fields zero_Track payload"

text \<open>The anonymous struct with a status only.\<close>

definition decode_status :: "string \<Rightarrow> string option" where
  "decode_status payload = json_Unmarshal [(''status'', dec_string (\<lambda>x _. x))] '''' payload"

section \<open>The registry\<close>

record sharedLifecycleDefinition =
  ld_EntityType :: string
  ld_StateTable :: string
  ld_SequenceTable :: string
  ld_IDToken :: string
  ld_HistoryTable :: string
  ld_SearchFields :: "string list"
  ld_FilterFields :: "string list"
  ld_DefaultCreateStatus :: string
  ld_AllowedCreateStatuses :: "string list"
  ld_AllowedStatuses :: "string list"
  ld_AllowedTransitions :: "(string \<times> string list) list"
  ld_ArchiveStatus :: string
  ld_StatusMutationKind :: string
  ld_ArchiveMutationKind :: string

definition sharedLifecycleRegistry :: "(string \<times> sharedLifecycleDefinition) list" where
  "sharedLifecycleRegistry =
     [(''milestone'',
       \<lparr>ld_EntityType = ''milestone'', ld_StateTable = ''shared_milestones'',
        ld_SequenceTable = ''shared_entity_sequences'', ld_IDToken = ''MIL'',
        ld_HistoryTable = ''shared_entity_revisions'',
        ld_SearchFields = [''id'', ''title'', ''summary'', ''status'', ''tasks''], ld_FilterFields = [''status''],
        ld_DefaultCreateStatus = ''planned'', ld_AllowedCreateStatuses = [''planned''],
        ld_AllowedStatuses = [''planned'', ''active'', ''completed'', ''archived''],
        ld_AllowedTransitions = [(''planned'', [''active'']), (''active'', [''completed'']), (''completed'', [''archived''])],
        ld_ArchiveStatus = ''archived'', ld_StatusMutationKind = ''status'', ld_ArchiveMutationKind = ''archive''\<rparr>),
      (''track'',
       \<lparr>ld_EntityType = ''track'', ld_StateTable = ''shared_tracks'',
        ld_SequenceTable = ''shared_entity_sequences'', ld_IDToken = ''TRK'',
        ld_HistoryTable = ''shared_entity_revisions'',
        ld_SearchFields = [''id'', ''milestone'', ''title'', ''summary'', ''status'', ''tasks''],
        ld_FilterFields = [''status'', ''milestone''],
        ld_DefaultCreateStatus = ''planned'', ld_AllowedCreateStatuses = [''planned''],
        ld_AllowedStatuses = [''planned'', ''active'', ''ready'', ''review_pending'', ''accepted'', ''stale'',
                              ''cancelled'', ''archived''],
        ld_AllowedTransitions =
          [(''planned'', [''active'', ''ready'', ''review_pending'', ''cancelled'']),
           (''active'', [''ready'', ''stale'', ''review_pending'']),
           (''ready'', [''active'', ''review_pending'', ''stale'']),
           (''review_pending'', [''active'', ''ready'', ''accepted'', ''stale'']),
           (''accepted'', [''stale'', ''review_pending'', ''archived'']),
           (''stale'', [''active'', ''ready'', ''review_pending'']),
           (''cancelled'', [''archived''])],
        ld_ArchiveStatus = ''archived'', ld_StatusMutationKind = ''status'', ld_ArchiveMutationKind = ''archive''\<rparr>),
      (''task'',
       \<lparr>ld_EntityType = ''task'', ld_StateTable = ''shared_tasks'',
        ld_SequenceTable = ''shared_entity_sequences'', ld_IDToken = ''TSK'',
        ld_HistoryTable = ''shared_entity_revisions'',
        ld_SearchFields = [''id'', ''title'', ''summary'', ''objective'', ''status'', ''type'', ''priority'', ''adr_relation''],
        ld_FilterFields = [''status'', ''type''],
        ld_DefaultCreateStatus = ''planned'', ld_AllowedCreateStatuses = [''planned''],
        ld_AllowedStatuses = [''planned'', ''ready'', ''done'', ''archived''],
        ld_AllowedTransitions =
          [(''planned'', [''ready'', ''done'', ''archived'']), (''ready'', [''done'', ''archived'']), (''done'', [''archived''])],
        ld_ArchiveStatus = ''archived'', ld_StatusMutationKind = ''complete'', ld_ArchiveMutationKind = ''archive''\<rparr>),
      (''adr'',
       \<lparr>ld_EntityType = ''adr'', ld_StateTable = ''shared_adrs'',
        ld_SequenceTable = ''shared_entity_sequences'', ld_IDToken = ''ADR'',
        ld_HistoryTable = ''shared_entity_revisions'',
        ld_SearchFields = [''id'', ''title'', ''status'', ''context'', ''decision'', ''consequences'', ''supersedes''],
        ld_FilterFields = [''status''],
        ld_DefaultCreateStatus = ''proposed'', ld_AllowedCreateStatuses = [''proposed''],
        ld_AllowedStatuses = [''proposed'', ''accepted'', ''superseded'', ''archived''],
        ld_AllowedTransitions =
          [(''proposed'', [''accepted'', ''archived'']), (''accepted'', [''superseded'', ''archived'']),
           (''superseded'', [''archived''])],
        ld_ArchiveStatus = ''archived'', ld_StatusMutationKind = ''status'', ld_ArchiveMutationKind = ''archive''\<rparr>),
      (''rule'',
       \<lparr>ld_EntityType = ''rule'', ld_StateTable = ''shared_rules'',
        ld_SequenceTable = ''shared_entity_sequences'', ld_IDToken = ''RUL'',
        ld_HistoryTable = ''shared_entity_revisions'',
        ld_SearchFields = [''id'', ''title'', ''summary'', ''description'', ''status''],
        ld_FilterFields = [''status''],
        ld_DefaultCreateStatus = ''proposed'', ld_AllowedCreateStatuses = [''proposed''],
        ld_AllowedStatuses = [''proposed'', ''accepted'', ''archived''],
        ld_AllowedTransitions = [(''proposed'', [''accepted'', ''archived'']), (''accepted'', [''archived''])],
        ld_ArchiveStatus = ''archived'', ld_StatusMutationKind = ''status'', ld_ArchiveMutationKind = ''archive''\<rparr>),
      (''journal'',
       \<lparr>ld_EntityType = ''journal'', ld_StateTable = ''shared_journals'',
        ld_SequenceTable = ''shared_entity_sequences'', ld_IDToken = ''JRN'',
        ld_HistoryTable = ''shared_entity_revisions'',
        ld_SearchFields = [''id'', ''stream'', ''actor'', ''role'', ''status''],
        ld_FilterFields = [''status'', ''stream''],
        ld_DefaultCreateStatus = ''published'', ld_AllowedCreateStatuses = [''published''],
        ld_AllowedStatuses = [''published''], ld_AllowedTransitions = [],
        ld_ArchiveStatus = '''', ld_StatusMutationKind = '''', ld_ArchiveMutationKind = ''''\<rparr>),
      (''project_configuration'',
       \<lparr>ld_EntityType = ''project_configuration'', ld_StateTable = ''shared_project_configurations'',
        ld_SequenceTable = '''', ld_IDToken = '''', ld_HistoryTable = ''shared_entity_revisions'',
        ld_SearchFields = [''id''], ld_FilterFields = [],
        ld_DefaultCreateStatus = '''', ld_AllowedCreateStatuses = [], ld_AllowedStatuses = [],
        ld_AllowedTransitions = [], ld_ArchiveStatus = '''', ld_StatusMutationKind = '''',
        ld_ArchiveMutationKind = ''''\<rparr>)]"

definition sharedLifecycle :: "string \<Rightarrow> sharedLifecycleDefinition option" where
  "sharedLifecycle entityType = map_of sharedLifecycleRegistry entityType"

definition transitions :: "sharedLifecycleDefinition \<Rightarrow> string \<Rightarrow> string list" where
  "transitions d s = (case map_of (ld_AllowedTransitions d) s of None \<Rightarrow> [] | Some ts \<Rightarrow> ts)"

section \<open>Status policy\<close>

definition SharedLifecycleStatusValues :: "string \<Rightarrow> bool \<Rightarrow> string list option" where
  "SharedLifecycleStatusValues entityType forCreate =
     map_option (\<lambda>d. if forCreate then ld_AllowedCreateStatuses d else ld_AllowedStatuses d)
       (sharedLifecycle entityType)"

definition typed_payload :: "sharedLifecycleDefinition \<Rightarrow> string \<Rightarrow> error" where
  "typed_payload d payload =
     (if ld_EntityType d = ''milestone'' then
        (case decode_milestone payload of
           None \<Rightarrow> Some ''invalid shared milestone payload''
         | Some m \<Rightarrow> replace_err ''invalid shared milestone payload'' (ValidateMilestone m))
      else if ld_EntityType d = ''track'' then
        (case decode_track payload of
           None \<Rightarrow> Some ''invalid shared Track payload''
         | Some t \<Rightarrow> replace_err ''invalid shared Track payload'' (ValidateTrack t))
      else None)"

definition status_in :: "string \<Rightarrow> string list \<Rightarrow> string option" where
  "status_in payload allowed =
     (case decode_status payload of
        None \<Rightarrow> None
      | Some s \<Rightarrow> if s \<noteq> '''' \<and> List.member allowed s then Some s else None)"

definition validateSharedLifecycleStatus :: "sharedLifecycleDefinition \<Rightarrow> string \<Rightarrow> string \<Rightarrow> bool \<Rightarrow> error" where
  "validateSharedLifecycleStatus d previousPayload payload creating =
     (if ld_DefaultCreateStatus d = '''' then None
      else (case status_in payload (ld_AllowedStatuses d) of
              None \<Rightarrow> Some (''invalid shared '' @ ld_EntityType d @ '' status'')
            | Some nxt \<Rightarrow> first_error
                [typed_payload d payload,
                 (if creating then
                    fail_if (\<not> List.member (ld_AllowedCreateStatuses d) nxt)
                      (''invalid shared '' @ ld_EntityType d @ '' create status'')
                  else
                    (case status_in previousPayload (ld_AllowedStatuses d) of
                       None \<Rightarrow> Some (''invalid shared '' @ ld_EntityType d @ '' previous status'')
                     | Some prev \<Rightarrow>
                         fail_if (prev \<noteq> nxt \<and> \<not> List.member (transitions d prev) nxt)
                           (''invalid shared '' @ ld_EntityType d @ '' status transition '' @ go_quote prev
                              @ '' to '' @ go_quote nxt)))]))"

definition validateSharedLifecycleEventKind :: "sharedLifecycleDefinition \<Rightarrow> string \<Rightarrow> string \<Rightarrow> error" where
  "validateSharedLifecycleEventKind d eventKind toStatus =
     (if ld_ArchiveStatus d = '''' then None
      else if eventKind = ''archive'' \<and> toStatus = ld_ArchiveStatus d then None
      else if eventKind = ''status'' \<and> toStatus \<noteq> ld_ArchiveStatus d then None
      else Some (''invalid shared '' @ ld_EntityType d @ '' '' @ eventKind @ '' lifecycle event target status''))"

definition sharedLifecycleMutationKind :: "sharedLifecycleDefinition \<Rightarrow> string \<Rightarrow> string" where
  "sharedLifecycleMutationKind d eventKind =
     (if eventKind = ''status'' then ld_StatusMutationKind d
      else if eventKind = ''archive'' then ld_ArchiveMutationKind d else '''')"

section \<open>Milestone and track policies\<close>

definition validateTrackMutation :: "string \<Rightarrow> string \<Rightarrow> string \<Rightarrow> error" where
  "validateTrackMutation previousPayload payload kind =
     (case (decode_track previousPayload, decode_track payload) of
        (Some previous, Some nxt) \<Rightarrow>
          (let p = tk_Status previous; n = tk_Status nxt in first_error
            [fail_if ((p = ''accepted'' \<or> p = ''archived'') \<and> kind \<noteq> ''track-archive'')
               ''accepted or archived Track is immutable'',
             fail_if (p = ''cancelled'' \<and> kind \<noteq> ''track-archive'') ''cancelled Track is immutable'',
             (if kind = ''track-update'' then
                fail_if (p \<noteq> ''planned'' \<or> n \<noteq> ''planned'') ''Track update is planned-only''
              else if kind = ''track-append-task'' \<or> kind = ''track-remove-task'' then
                fail_if (p = ''planned'' \<or> n = ''planned'') ''Track membership append/remove is post-start only''
              else if kind = ''track-submit'' then
                fail_if (n \<noteq> ''review_pending'' \<or> (p \<noteq> ''ready'' \<and> p \<noteq> ''stale'' \<and> p \<noteq> ''review_pending''))
                  ''Track submit requires a derived ready Track''
              else if kind = ''track-accept'' then
                fail_if (p \<noteq> ''review_pending'' \<or> n \<noteq> ''accepted'') ''Track accept requires a pending review''
              else if kind = ''track-cancel'' then
                fail_if (p \<noteq> ''planned'' \<or> n \<noteq> ''cancelled'') ''Track cancel is planned-only''
              else if kind = ''track-archive'' then
                fail_if ((p \<noteq> ''accepted'' \<and> p \<noteq> ''cancelled'') \<or> n \<noteq> ''archived'')
                  ''Track archive requires accepted or cancelled status''
              else fail_if (p \<noteq> n) (''unsupported Track lifecycle mutation '' @ go_quote kind)),
             fail_if (tk_Milestone nxt \<noteq> tk_Milestone previous) ''Track Milestone is immutable''])
      | _ \<Rightarrow> Some ''invalid shared Track payload'')"

definition milestone_step_kinds :: "string \<Rightarrow> string \<Rightarrow> (string \<times> string) option" where
  "milestone_step_kinds p n =
     (if p = ''planned'' \<and> n = ''active'' then Some (''milestone-activate'', ''activate'')
      else if p = ''active'' \<and> n = ''completed'' then Some (''milestone-complete'', ''complete'')
      else if p = ''completed'' \<and> n = ''archived'' then Some (''archive'', ''archive'')
      else None)"

definition validateMilestoneMutation ::
  "sharedLifecycleDefinition \<Rightarrow> string \<Rightarrow> string \<Rightarrow> string \<Rightarrow> string \<Rightarrow> error" where
  "validateMilestoneMutation d previousPayload payload kind historyKind =
     (if ld_EntityType d = ''track'' then validateTrackMutation previousPayload payload kind
      else if ld_EntityType d \<noteq> ''milestone'' then None
      else (case decode_status previousPayload of
              None \<Rightarrow> Some ''invalid shared milestone previous payload''
            | Some p \<Rightarrow>
                (case decode_status payload of
                   None \<Rightarrow> Some ''invalid shared milestone payload''
                 | Some n \<Rightarrow>
                     if p = n then
                       fail_if (p = ''completed'' \<or> p = ''archived'')
                         (''shared milestone status '' @ go_quote p @ '' is terminal for content mutations'')
                     else (case milestone_step_kinds p n of
                             None \<Rightarrow> Some ''invalid shared milestone lifecycle transition''
                           | Some (wantKind, wantHistory) \<Rightarrow>
                               fail_if (kind \<noteq> wantKind \<or> historyKind \<noteq> wantHistory)
                                 (''shared milestone transition requires '' @ wantKind)))))"

section \<open>Revisions and reasons\<close>

definition sharedPayloadLogicalRevision :: "string \<Rightarrow> int option" where
  "sharedPayloadLogicalRevision payload =
     (case decode_map payload of
        None \<Rightarrow> None
      | Some fs \<Rightarrow>
          (case fs ''revision'' of
             None \<Rightarrow> Some 1
           | Some J_null \<Rightarrow> Some 1
           | Some (J_number raw) \<Rightarrow>
               (case parse_int64 raw of None \<Rightarrow> None | Some i \<Rightarrow> if i < 1 then None else Some i)
           | Some _ \<Rightarrow> None))"

definition validSharedHistoryReason :: "string \<Rightarrow> bool" where
  "validSharedHistoryReason reason \<longleftrightarrow>
     TrimSpace reason \<noteq> '''' \<and> length reason \<le> 1024 \<and> \<not> ContainsAny reason nul_cr_lf"

end
