(* ===== verification/Local_Tables.thy ===== *)
theory Local_Tables
  imports Go_Text
begin

text \<open>
  The rows of the Local database that the execution of tasks uses, with the columns of
  \<open>internal/sqlitestore/databases_local_task_execution_migration.go\<close>: the execution state of a
  task (one row per task), the phases recorded for it (one per execution revision) and the
  verification receipts.
\<close>

record execution_row =
  xr_task_id :: string
  xr_project_id :: string
  xr_task_revision :: int
  xr_task_revision_sha256 :: string
  xr_status :: string
  xr_stage :: string
  xr_worktree :: string
  xr_base_head_sha :: string
  xr_head_sha :: string
  xr_branch :: string
  xr_agent :: string
  xr_execution_revision :: int
  xr_updated_at :: string

record phase_row =
  pr_id :: int
  pr_task_id :: string
  pr_project_id :: string
  pr_execution_revision :: int
  pr_stage :: string
  pr_status :: string
  pr_head_sha :: string
  pr_branch :: string
  pr_task_revision_sha256 :: string
  pr_event_kind :: string
  pr_decision :: "string option"
  pr_comment :: "string option"
  pr_created_at :: string

record verification_row =
  vr_id :: int
  vr_project_id :: string
  vr_task_id :: string
  vr_operation_id :: string
  vr_attempt_revision :: int
  vr_outcome :: string
  vr_receipt_json :: string
  vr_created_at :: string

text \<open>A row of \<open>shared_relations\<close> or \<open>local_relations\<close>; the first four columns are the key.\<close>

record relation_row =
  re_project_id :: string
  re_kind :: string
  re_source_id :: string
  re_target_id :: string
  re_created_at :: string
  re_created_by :: string

text \<open>
  Besides the tables of the Local database the service keeps one durable file per operation,
  \<open>operations/mutations/<id>.json\<close>; the part of it that the execution code writes and reads back is
  its captured state, a JSON text (\<open>lo_captured\<close>, by operation id).
\<close>

record local_db =
  lo_states :: "execution_row list"
  lo_phases :: "phase_row list"
  lo_verifications :: "verification_row list"
  lo_captured :: "string \<rightharpoonup> string"

definition empty_local :: local_db where
  "empty_local = \<lparr>lo_states = [], lo_phases = [], lo_verifications = [], lo_captured = Map.empty\<rparr>"

text \<open>
  The durable queue: operations with their numbers (\<open>databases_local_baseline.go\<close>), one epoch per piece of work that an
  agent was given, and the files of the operations, \<open>operations/mutations/<id>.json\<close>: each name once, with its text.
\<close>

record operation_row =
  oo_operation_id :: string
  oo_project_id :: string
  oo_project_code :: string
  oo_operation_number :: int
  oo_mutation_id :: string
  oo_kind :: string
  oo_status :: string
  oo_result_payload :: "string option"
  oo_error :: string
  oo_recovery_reason :: string
  oo_created_at :: string
  oo_updated_at :: string
  oo_admission_session_id :: string
  oo_admission_input_sha256 :: string

record epoch_row =
  eh_epoch_id :: string
  eh_project_id :: string
  eh_agent_id :: string
  eh_session_key :: string
  eh_armed_at :: string
  eh_busy_seen :: int
  eh_idle_observations :: int
  eh_emitted_at :: "string option"
  eh_session_id :: string
  eh_operation_id :: "string option"
  eh_hook_outcome :: string
  eh_hook_completed_at :: "string option"

record queue_db =
  qd_operations :: "operation_row list"
  qd_numbers :: "string \<rightharpoonup> (string \<times> int)"
  qd_epochs :: "epoch_row list"
  qd_files :: "(string \<times> string) list"

definition empty_queue :: queue_db where
  "empty_queue = \<lparr>qd_operations = [], qd_numbers = Map.empty, qd_epochs = [], qd_files = []\<rparr>"

end
