(* ===== verification/Shared_Store.thy ===== *)
theory Shared_Store
  imports Lifecycle_Registry Local_Tables "HOL-Library.Product_Lexorder"
begin

text \<open>
  The two databases (Shared and Local) as the operations of \<open>internal/sqlitestore\<close> see them: their
  tables as lists of rows, the SQL statements of the sources as functions on them, and the accesses of an operation
  in the order the code makes them.

  The store package (\<open>github.com/rceman/go-sqlite-store\<close>) and SQLite are not part of the sources.
  They are the parameter \<open>driver\<close>: whether an access fails, what other writers commit before each
  access, what \<open>json_extract\<close> makes of a payload and what \<open>Batch\<close> does. \<open>atomic_driver\<close> is the
  documented behaviour the code relies on: a batch is applied as a whole or not at all, it
  is applied when no error is reported, and a row count mismatch means that it was not
  applied; any other error leaves it open (the code reads the outbox back for that reason).
\<close>

section \<open>Tables\<close>

record SharedEntity =
  se_ID :: string
  se_Revision :: int
  se_Payload :: string
  se_UpdatedAt :: string

record outbox_row =
  or_id :: string
  or_entity_type :: string
  or_entity_id :: string
  or_revision :: int
  or_kind :: string
  or_payload :: string
  or_created_at :: string
  or_published_at :: "string option"
  or_cancelled_at :: "string option"
  or_cancellation_reason :: "string option"
  or_attempts :: int
  or_next_attempt_at :: "string option"
  or_last_error :: string

record history_row =
  hr_entity_type :: string
  hr_entity_id :: string
  hr_project_id :: string
  hr_revision :: int
  hr_mutation_kind :: string
  hr_actor :: string
  hr_reason :: string
  hr_changed_fields :: string
  hr_payload :: string
  hr_recorded_at :: string

record event_row =
  ev_id :: int
  ev_operation_id :: string
  ev_entity_type :: string
  ev_project_id :: string
  ev_entity_id :: string
  ev_revision :: int
  ev_event_kind :: string
  ev_mutation_kind :: string
  ev_from_status :: string
  ev_to_status :: string
  ev_actor :: string
  ev_reason :: string
  ev_contract :: string
  ev_changed_fields :: string
  ev_recorded_at :: string

record shared_db =
  sd_tables :: "string \<Rightarrow> SharedEntity list"
  sd_sequences :: "(string \<times> string) \<rightharpoonup> (string \<times> int)"
  sd_history :: "history_row list"
  sd_outbox :: "outbox_row list"
  sd_events :: "event_row list"
  sd_retirements :: "string \<rightharpoonup> string"
  sd_markers :: "string \<rightharpoonup> (string \<times> string)"
  sd_local_retirements :: "string \<rightharpoonup> (string \<times> string)"
  sd_relations :: "relation_row list"
  sd_local_relations :: "relation_row list"
  sd_local :: local_db
  sd_queue :: queue_db

definition empty_db :: shared_db where
  "empty_db = \<lparr>sd_tables = (\<lambda>_. []), sd_sequences = (\<lambda>_. None), sd_history = [], sd_outbox = [], sd_events = [],
     sd_retirements = (\<lambda>_. None), sd_markers = (\<lambda>_. None), sd_local_retirements = (\<lambda>_. None), sd_relations = [], sd_local_relations = [],
     sd_local = empty_local, sd_queue = empty_queue\<rparr>"

definition entity_row :: "shared_db \<Rightarrow> string \<Rightarrow> string \<Rightarrow> SharedEntity option" where
  "entity_row db table ident = find (\<lambda>r. se_ID r = ident) (sd_tables db table)"

definition history_at :: "shared_db \<Rightarrow> string \<Rightarrow> string \<Rightarrow> int \<Rightarrow> history_row option" where
  "history_at db entityType ident revision =
     find (\<lambda>h. hr_entity_type h = entityType \<and> hr_entity_id h = ident \<and> hr_revision h = revision) (sd_history db)"

definition outbox_at :: "shared_db \<Rightarrow> string \<Rightarrow> outbox_row option" where
  "outbox_at db ident = find (\<lambda>o'. or_id o' = ident) (sd_outbox db)"

section \<open>Errors and accesses\<close>

datatype store_error =
    RowsAffectedMismatch
  | NotExist string
  | LocalProjectRetired
  | ProjectRetirementConflict
  | Failure string

type_synonym statement = "shared_db \<Rightarrow> (shared_db \<times> nat) option"
type_synonym batch = "(statement \<times> nat) list"

text \<open>A statement with the number of rows it must affect, 0 for any; \<open>None\<close> is a violated constraint.\<close>

fun run_statements :: "batch \<Rightarrow> shared_db \<Rightarrow> store_error + shared_db" where
  "run_statements [] db = Inr db"
| "run_statements ((st, required) # sts) db =
     (case st db of
        None \<Rightarrow> Inl (Failure ''constraint failed'')
      | Some (db', n) \<Rightarrow> if required \<noteq> 0 \<and> n \<noteq> required then Inl RowsAffectedMismatch else run_statements sts db')"

declare run_statements.simps(2) [simp del]

record driver =
  dv_Shared :: bool
  dv_Local :: bool
  dv_fault :: "nat \<Rightarrow> string option"
  dv_others :: "nat \<Rightarrow> shared_db \<Rightarrow> shared_db"
  dv_batch :: "nat \<Rightarrow> batch \<Rightarrow> shared_db \<Rightarrow> shared_db \<times> store_error option"
  dv_json_revision :: "string \<Rightarrow> int option"
  dv_now :: string

definition atomic_driver :: "driver \<Rightarrow> bool" where
  "atomic_driver dv \<longleftrightarrow> (\<forall>k sts db db' e. dv_batch dv k sts db = (db', e) \<longrightarrow>
     (case e of
        None \<Rightarrow> run_statements sts db = Inr db'
      | Some RowsAffectedMismatch \<Rightarrow> db' = db
      | Some _ \<Rightarrow> db' = db \<or> run_statements sts db = Inr db'))"

text \<open>SQLite without faults and with no other writer, for the witnesses.\<close>

definition sqlite_batch :: "nat \<Rightarrow> batch \<Rightarrow> shared_db \<Rightarrow> shared_db \<times> store_error option" where
  "sqlite_batch k sts db = (case run_statements sts db of Inl e \<Rightarrow> (db, Some e) | Inr db' \<Rightarrow> (db', None))"

definition sqlite :: "string \<Rightarrow> driver" where
  "sqlite now = \<lparr>dv_Shared = True, dv_Local = True, dv_fault = (\<lambda>_. None), dv_others = (\<lambda>_ db. db),
     dv_batch = sqlite_batch, dv_json_revision = sharedPayloadLogicalRevision, dv_now = now\<rparr>"

text \<open>
  An operation is a function of the number of accesses made so far and the database. \<open>io_bind\<close>
  returns the first error, \<open>io_try\<close> hands the outcome to the code that inspects it.
\<close>

type_synonym 'a io = "nat \<times> shared_db \<Rightarrow> (store_error + 'a) \<times> nat \<times> shared_db"

definition io_return :: "'a \<Rightarrow> 'a io" where "io_return x s = (Inr x, s)"
definition io_fail :: "store_error \<Rightarrow> 'a io" where "io_fail e s = (Inl e, s)"

definition io_bind :: "'a io \<Rightarrow> ('a \<Rightarrow> 'b io) \<Rightarrow> 'b io" where
  "io_bind m f s = (case m s of (Inl e, s') \<Rightarrow> (Inl e, s') | (Inr x, s') \<Rightarrow> f x s')"

definition io_try :: "'a io \<Rightarrow> (store_error + 'a) io" where
  "io_try m s = (case m s of (r, s') \<Rightarrow> (Inr r, s'))"

definition io_check :: "error \<Rightarrow> 'a io \<Rightarrow> 'a io" where
  "io_check e m = (case e of None \<Rightarrow> m | Some text \<Rightarrow> io_fail (Failure text))"

definition io_query :: "driver \<Rightarrow> (shared_db \<Rightarrow> 'a) \<Rightarrow> 'a io" where
  "io_query dv q = (\<lambda>(k, db).
     let db' = dv_others dv k db in
     case dv_fault dv k of
       Some text \<Rightarrow> (Inl (Failure text), Suc k, db')
     | None \<Rightarrow> (Inr (q db'), Suc k, db'))"

definition io_batch :: "driver \<Rightarrow> batch \<Rightarrow> unit io" where
  "io_batch dv sts = (\<lambda>(k, db).
     case dv_batch dv k sts (dv_others dv k db) of
       (db', None) \<Rightarrow> (Inr (), Suc k, db')
     | (db', Some e) \<Rightarrow> (Inl e, Suc k, db'))"

text \<open>\<open>Exec\<close> with the number of rows its statement affected.\<close>

definition io_exec_rows :: "driver \<Rightarrow> statement \<Rightarrow> nat io" where
  "io_exec_rows dv st = (\<lambda>(k, db).
     let mid = dv_others dv k db in
     case dv_batch dv k [(st, 0)] mid of
       (db', None) \<Rightarrow> (Inr (case st mid of None \<Rightarrow> 0 | Some (_, n) \<Rightarrow> n), Suc k, db')
     | (db', Some e) \<Rightarrow> (Inl e, Suc k, db'))"

abbreviation io_exec :: "driver \<Rightarrow> statement \<Rightarrow> unit io" where
  "io_exec dv st \<equiv> io_batch dv [(st, 0)]"

definition io_error :: "string \<Rightarrow> 'a io" where
  "io_error text = io_fail (Failure text)"

definition stamp :: "driver \<Rightarrow> gotime \<Rightarrow> string" where
  "stamp dv t = (if IsZero t then dv_now dv else rfc3339_nano (to_utc t))"

section \<open>SQL statements\<close>

definition insert_state :: "string \<Rightarrow> SharedEntity \<Rightarrow> statement" where
  "insert_state table row db =
     (if entity_row db table (se_ID row) \<noteq> None then None
      else Some (db\<lparr>sd_tables := (sd_tables db)(table := sd_tables db table @ [row])\<rparr>, 1))"

text \<open>\<open>UPDATE table SET revision=?,payload=?,updated_at=? WHERE id=? AND\<close> a condition on the row.\<close>

definition update_state :: "string \<Rightarrow> SharedEntity \<Rightarrow> (SharedEntity \<Rightarrow> bool) \<Rightarrow> statement" where
  "update_state table row cond db =
     (let hit = (\<lambda>r. se_ID r = se_ID row \<and> cond r); rows = sd_tables db table in
      Some (db\<lparr>sd_tables := (sd_tables db)(table := map (\<lambda>r. if hit r then row else r) rows)\<rparr>,
            length (filter hit rows)))"

definition insert_history :: "history_row \<Rightarrow> statement" where
  "insert_history h db =
     (if history_at db (hr_entity_type h) (hr_entity_id h) (hr_revision h) \<noteq> None then None
      else Some (db\<lparr>sd_history := sd_history db @ [h]\<rparr>, 1))"

text \<open>The upsert of a history seed affects a row only when it inserts it or finds it unchanged.\<close>

definition seed_history :: "history_row \<Rightarrow> statement" where
  "seed_history h db =
     (case history_at db (hr_entity_type h) (hr_entity_id h) (hr_revision h) of
        None \<Rightarrow> Some (db\<lparr>sd_history := sd_history db @ [h]\<rparr>, 1)
      | Some old \<Rightarrow> Some (db, if old = h then 1 else 0))"

definition insert_outbox :: "outbox_row \<Rightarrow> statement" where
  "insert_outbox o' db =
     (if outbox_at db (or_id o') \<noteq> None then None
      else Some (db\<lparr>sd_outbox := sd_outbox db @ [o']\<rparr>, 1))"

definition update_outbox :: "string \<Rightarrow> (outbox_row \<Rightarrow> outbox_row) \<Rightarrow> statement" where
  "update_outbox ident f db =
     (let hit = (\<lambda>o'. or_id o' = ident \<and> or_published_at o' = None \<and> or_cancelled_at o' = None) in
      Some (db\<lparr>sd_outbox := map (\<lambda>o'. if hit o' then f o' else o') (sd_outbox db)\<rparr>,
            length (filter hit (sd_outbox db))))"

definition advance_sequence :: "string \<Rightarrow> string \<Rightarrow> string \<Rightarrow> int \<Rightarrow> statement" where
  "advance_sequence entityType projectID projectCode current db =
     (if sd_sequences db (entityType, projectID) = Some (projectCode, current)
      then Some (db\<lparr>sd_sequences := (sd_sequences db)((entityType, projectID) \<mapsto> (projectCode, wrap_int (current + 1)))\<rparr>, 1)
      else Some (db, 0))"

definition insert_sequence_or_ignore :: "string \<Rightarrow> string \<Rightarrow> string \<Rightarrow> int \<Rightarrow> statement" where
  "insert_sequence_or_ignore entityType projectID projectCode initial db =
     (if sd_sequences db (entityType, projectID) = None
      then Some (db\<lparr>sd_sequences := (sd_sequences db)((entityType, projectID) \<mapsto> (projectCode, initial))\<rparr>, 1)
      else Some (db, 0))"

text \<open>The statement guarded by \<open>WHERE NOT EXISTS(SELECT 1 FROM shared_project_retirements ...)\<close>.\<close>

definition unless_retired :: "string \<Rightarrow> statement \<Rightarrow> statement" where
  "unless_retired projectID st db = (if sd_retirements db projectID \<noteq> None then Some (db, 0) else st db)"

definition outbox_intent ::
  "string \<Rightarrow> string \<Rightarrow> string \<Rightarrow> int \<Rightarrow> string \<Rightarrow> string \<Rightarrow> string \<Rightarrow> outbox_row" where
  "outbox_intent operationID entityType entityID revision kind payload created =
     \<lparr>or_id = operationID, or_entity_type = entityType, or_entity_id = entityID, or_revision = revision,
      or_kind = kind, or_payload = payload, or_created_at = created, or_published_at = None,
      or_cancelled_at = None, or_cancellation_reason = None, or_attempts = 0, or_next_attempt_at = None, or_last_error = ''''\<rparr>"

section \<open>The outbox and mutation receipts\<close>

record OutboxEntry =
  ob_ID :: string
  ob_EntityType :: string
  ob_EntityID :: string
  ob_Revision :: int
  ob_Kind :: string
  ob_Payload :: string
  ob_CreatedAt :: string
  ob_PublishedAt :: string
  ob_Attempts :: int
  ob_NextAttemptAt :: string
  ob_LastError :: string

definition coalesce :: "string option \<Rightarrow> string" where
  "coalesce v = (case v of None \<Rightarrow> '''' | Some s \<Rightarrow> s)"

definition decodeOutboxRow :: "outbox_row \<Rightarrow> OutboxEntry" where
  "decodeOutboxRow o' = \<lparr>ob_ID = or_id o', ob_EntityType = or_entity_type o', ob_EntityID = or_entity_id o',
     ob_Revision = or_revision o', ob_Kind = or_kind o', ob_Payload = or_payload o',
     ob_CreatedAt = or_created_at o', ob_PublishedAt = coalesce (or_published_at o'),
     ob_Attempts = or_attempts o', ob_NextAttemptAt = coalesce (or_next_attempt_at o'),
     ob_LastError = or_last_error o'\<rparr>"

definition outboxEntry :: "driver \<Rightarrow> string \<Rightarrow> OutboxEntry option io" where
  "outboxEntry dv ident = io_query dv (\<lambda>db. map_option decodeOutboxRow (outbox_at db ident))"

record SharedMutationReceipt =
  rc_OperationID :: string
  rc_EntityType :: string
  rc_EntityID :: string
  rc_Revision :: int
  rc_Committed :: bool
  rc_Reused :: bool

record SharedMutation =
  mu_OperationID :: string
  mu_EntityType :: string
  mu_EntityID :: string
  mu_ExpectedRevision :: int
  mu_Revision :: int
  mu_Kind :: string
  mu_Payload :: string
  mu_CreatedAt :: gotime
  mu_Create :: bool
  mu_AllowSameRevision :: bool

definition reuseSharedMutation :: "SharedMutation \<Rightarrow> OutboxEntry \<Rightarrow> store_error + SharedMutationReceipt" where
  "reuseSharedMutation m existing =
     (if ob_EntityType existing \<noteq> mu_EntityType m \<or> ob_EntityID existing \<noteq> mu_EntityID m
         \<or> ob_Revision existing \<noteq> mu_Revision m \<or> ob_Kind existing \<noteq> mu_Kind m \<or> ob_Payload existing \<noteq> mu_Payload m
      then Inl (Failure ''shared mutation operation identity mismatch'')
      else Inr \<lparr>rc_OperationID = mu_OperationID m, rc_EntityType = ob_EntityType existing,
                rc_EntityID = ob_EntityID existing, rc_Revision = ob_Revision existing,
                rc_Committed = True, rc_Reused = True\<rparr>)"

definition io_result :: "store_error + 'a \<Rightarrow> 'a io" where
  "io_result r = (case r of Inl e \<Rightarrow> io_fail e | Inr x \<Rightarrow> io_return x)"

definition PendingOutbox :: "driver \<Rightarrow> int \<Rightarrow> OutboxEntry list io" where
  "PendingOutbox dv limit =
     (if \<not> dv_Shared dv then io_error ''shared store is unavailable''
      else if limit < 1 \<or> 1000 < limit then io_error ''invalid outbox limit''
      else io_query dv (\<lambda>db.
        map decodeOutboxRow (take (nat limit)
          (sort_key (\<lambda>o'. (or_created_at o', or_id o'))
            (filter (\<lambda>o'. or_published_at o' = None \<and> or_cancelled_at o' = None
               \<and> (coalesce (or_next_attempt_at o') = '''' \<or> coalesce (or_next_attempt_at o') \<le> dv_now dv))
              (sd_outbox db))))))"

definition ReadSharedOutboxEntry :: "driver \<Rightarrow> string \<Rightarrow> OutboxEntry option io" where
  "ReadSharedOutboxEntry dv operationID =
     (if operationID = '''' then io_error ''shared outbox operation id is required'' else outboxEntry dv operationID)"

definition MarkOutboxPublished :: "driver \<Rightarrow> string \<Rightarrow> gotime \<Rightarrow> unit io" where
  "MarkOutboxPublished dv ident at =
     (if \<not> dv_Shared dv then io_error ''shared store is unavailable''
      else if ident = '''' then io_error ''outbox id is required''
      else io_exec dv (update_outbox ident (\<lambda>o'. o'\<lparr>or_published_at := Some (rfc3339_nano (to_utc at))\<rparr>)))"

definition MarkOutboxRetry :: "driver \<Rightarrow> string \<Rightarrow> gotime \<Rightarrow> error \<Rightarrow> unit io" where
  "MarkOutboxRetry dv ident at cause =
     (if \<not> dv_Shared dv then io_error ''shared store is unavailable''
      else if ident = '''' then io_error ''outbox id is required''
      else let message = take 512 (case cause of None \<Rightarrow> ''outbox publish failed'' | Some text \<Rightarrow> text)
           in io_exec dv (update_outbox ident (\<lambda>o'. o'\<lparr>or_attempts := or_attempts o' + 1,
                or_next_attempt_at := Some (rfc3339_nano (to_utc at)), or_last_error := message\<rparr>)))"

definition MarkOutboxCancelled :: "driver \<Rightarrow> string \<Rightarrow> string \<Rightarrow> gotime \<Rightarrow> unit io" where
  "MarkOutboxCancelled dv ident reason at =
     (if \<not> dv_Shared dv \<or> ident = '''' \<or> 256 < length ident \<or> reason = '''' \<or> 512 < length reason \<or> IsZero at
      then io_error ''invalid outbox cancellation''
      else io_exec dv (update_outbox ident (\<lambda>o'. o'\<lparr>or_cancelled_at := Some (rfc3339_nano (to_utc at)),
             or_cancellation_reason := Some reason\<rparr>)))"

end
