(* ===== verification/Project_Retirement.thy ===== *)
theory Project_Retirement
  imports Shared_Store
begin

text \<open>
  Project retirements: the record and validator of \<open>model/project_retirement.go\<close> and the
  reads of \<open>sqlitestore/project_retirement.go\<close> that guard a project configuration.
\<close>

record ProjectRetirement =
  pr_SchemaVersion :: int
  pr_ProjectID :: string
  pr_Revision :: int
  pr_Reason :: string
  pr_Actor :: string
  pr_RetiredAt :: gotime
  pr_ConfigurationRevision :: int
  pr_CancelledConfigPublications :: int
  pr_CancelledConfigOutboxSHA256 :: string
  pr_LegacyCallbackEpochCount :: int
  pr_LegacyCallbackEpochSHA256 :: string

definition ProjectRetirementSchemaVersion :: int where "ProjectRetirementSchemaVersion = 1"

definition valid_utf8 :: "string \<Rightarrow> bool" where
  "valid_utf8 s \<longleftrightarrow> list_all (\<lambda>(r, bs). \<not> (r = rune_error \<and> length bs = 1)) (runes s)"

definition IsControl :: "nat \<Rightarrow> bool" where
  "IsControl r \<longleftrightarrow> r < 32 \<or> (127 \<le> r \<and> r < 160)"

definition ValidateProjectRetirement :: "ProjectRetirement \<Rightarrow> error" where
  "ValidateProjectRetirement v = first_error
     [fail_if (pr_SchemaVersion v \<noteq> ProjectRetirementSchemaVersion \<or> ValidateProjectIdentifier (pr_ProjectID v) \<noteq> None
          \<or> pr_Revision v \<noteq> 1) ''invalid project retirement identity'',
      fail_if (pr_Reason v = '''' \<or> 512 < length (pr_Reason v) \<or> \<not> valid_utf8 (pr_Reason v)
          \<or> TrimSpace (pr_Reason v) \<noteq> pr_Reason v) ''invalid project retirement reason'',
      fail_if (list_ex (\<lambda>(r, _). IsControl r) (runes (pr_Reason v))) ''invalid project retirement reason'',
      fail_if (pr_Actor v \<noteq> ''gatewayd'' \<or> IsZero (pr_RetiredAt v) \<or> pr_ConfigurationRevision v < 0
          \<or> pr_CancelledConfigPublications v < 0 \<or> 4096 < pr_CancelledConfigPublications v
          \<or> ValidateSHA256 (pr_CancelledConfigOutboxSHA256 v) \<noteq> None \<or> pr_LegacyCallbackEpochCount v < 0
          \<or> 4096 < pr_LegacyCallbackEpochCount v
          \<or> (pr_LegacyCallbackEpochSHA256 v \<noteq> '''' \<and> ValidateSHA256 (pr_LegacyCallbackEpochSHA256 v) \<noteq> None)
          \<or> (0 < pr_LegacyCallbackEpochCount v \<and> pr_LegacyCallbackEpochSHA256 v = ''''))
        ''invalid project retirement evidence'']"

definition zero_ProjectRetirement :: ProjectRetirement where
  "zero_ProjectRetirement = \<lparr>pr_SchemaVersion = 0, pr_ProjectID = [], pr_Revision = 0, pr_Reason = [], pr_Actor = [],
     pr_RetiredAt = zero_time, pr_ConfigurationRevision = 0, pr_CancelledConfigPublications = 0,
     pr_CancelledConfigOutboxSHA256 = [], pr_LegacyCallbackEpochCount = 0, pr_LegacyCallbackEpochSHA256 = []\<rparr>"

definition retirement_fields :: "(string \<times> ProjectRetirement field_decoder) list" where
  "retirement_fields =
     [(''schema_version'', dec_int64 (\<lambda>x r. r\<lparr>pr_SchemaVersion := x\<rparr>)),
      (''project_id'', dec_string (\<lambda>x r. r\<lparr>pr_ProjectID := x\<rparr>)),
      (''revision'', dec_int64 (\<lambda>x r. r\<lparr>pr_Revision := x\<rparr>)),
      (''reason'', dec_string (\<lambda>x r. r\<lparr>pr_Reason := x\<rparr>)),
      (''actor'', dec_string (\<lambda>x r. r\<lparr>pr_Actor := x\<rparr>)),
      (''retired_at'', dec_time pr_RetiredAt (\<lambda>x r. r\<lparr>pr_RetiredAt := x\<rparr>)),
      (''configuration_revision'', dec_int64 (\<lambda>x r. r\<lparr>pr_ConfigurationRevision := x\<rparr>)),
      (''cancelled_config_publications'', dec_int64 (\<lambda>x r. r\<lparr>pr_CancelledConfigPublications := x\<rparr>)),
      (''cancelled_config_outbox_sha256'', dec_string (\<lambda>x r. r\<lparr>pr_CancelledConfigOutboxSHA256 := x\<rparr>)),
      (''legacy_callback_epoch_count'', dec_int64 (\<lambda>x r. r\<lparr>pr_LegacyCallbackEpochCount := x\<rparr>)),
      (''legacy_callback_epoch_sha256'', dec_string (\<lambda>x r. r\<lparr>pr_LegacyCallbackEpochSHA256 := x\<rparr>))]"

definition decode_retirement :: "string \<Rightarrow> ProjectRetirement option" where
  "decode_retirement payload =
     (case json_parse payload of
        None \<Rightarrow> None
      | Some v \<Rightarrow> decode_struct True retirement_fields v zero_ProjectRetirement)"

definition projectConfigurationHardCutMaxPayloadBytes :: int where
  "projectConfigurationHardCutMaxPayloadBytes = 1048576"

definition ReadSharedProjectRetirement :: "driver \<Rightarrow> string \<Rightarrow> ProjectRetirement option io" where
  "ReadSharedProjectRetirement dv projectID =
     (if \<not> dv_Shared dv \<or> ValidateProjectIdentifier projectID \<noteq> None
      then io_error ''invalid Shared project retirement selector''
      else io_bind (io_query dv (\<lambda>db. sd_retirements db projectID)) (\<lambda>row.
        case row of
          None \<Rightarrow> io_return None
        | Some payload \<Rightarrow>
            if payload = '''' \<or> projectConfigurationHardCutMaxPayloadBytes < int (length payload)
            then io_error ''invalid Shared project retirement payload''
            else (case decode_retirement payload of
                    None \<Rightarrow> io_error ''decode Shared project retirement''
                  | Some r \<Rightarrow>
                      if ValidateProjectRetirement r \<noteq> None \<or> pr_ProjectID r \<noteq> projectID
                      then io_error ''invalid Shared project retirement authority'' else io_return (Some r))))"

definition ReadLocalProjectRetirement :: "driver \<Rightarrow> string \<Rightarrow> (string \<times> string \<times> gotime) option io" where
  "ReadLocalProjectRetirement dv projectID =
     (if \<not> dv_Local dv \<or> ValidateProjectIdentifier projectID \<noteq> None
      then io_error ''invalid Local project retirement selector''
      else io_bind (io_query dv (\<lambda>db. sd_local_retirements db projectID)) (\<lambda>row.
        case row of
          None \<Rightarrow> io_return None
        | Some (reason, retiredAt) \<Rightarrow>
            (case parse_rfc3339 retiredAt of
               None \<Rightarrow> io_error ''invalid Local project retirement values''
             | Some t \<Rightarrow>
                 if IsZero t \<or> TrimSpace reason \<noteq> reason \<or> reason = '''' \<or> 512 < length reason
                 then io_error ''invalid Local project retirement values''
                 else io_return (Some (projectID, reason, t)))))"

definition IsLocalProjectRetired :: "driver \<Rightarrow> string \<Rightarrow> bool io" where
  "IsLocalProjectRetired dv projectID =
     io_bind (ReadLocalProjectRetirement dv projectID) (\<lambda>row. io_return (row \<noteq> None))"

end
