(* ===== verification/Shared_Lifecycle.thy ===== *)
theory Shared_Lifecycle
  imports Project_Retirement
begin

text \<open>
  The operations on durable entities: creation with an allocated identifier
  (\<open>shared_lifecycle_mutation.go\<close>), compare-and-set revision with history and outbox intent
  (\<open>shared_lifecycle_revision.go\<close>), the plain mutation and the older task and ADR creations
  (\<open>shared_mutation_mutation_outbox_core.go\<close>, \<open>shared_mutation_entity_sequence.go\<close>), history rows
  and number sequences (\<open>shared_lifecycle_history.go\<close>).
\<close>

section \<open>Create defaults\<close>

text \<open>\<open>json.Marshal\<close> of a map of raw messages: names sorted, values compacted and HTML-escaped.\<close>

fun html_escape :: "string \<Rightarrow> string" where
  "html_escape [] = []"
| "html_escape (c # s) =
     (if byte c = 60 \<or> byte c = 62 \<or> byte c = 38 then backslash # ''u00'' @ hex2 (byte c) @ html_escape s
      else if byte c = 0xE2 \<and> (case s of d # e # _ \<Rightarrow> byte d = 0x80 \<and> (byte e = 0xA8 \<or> byte e = 0xA9) | _ \<Rightarrow> False)
      then (if byte (s ! 1) = 0xA8 then backslash # ''u2028'' else backslash # ''u2029'') @ html_escape (drop 2 s)
      else c # html_escape s)"

fun json_compact :: "json \<Rightarrow> string" where
  "json_compact J_null = ''null''"
| "json_compact (J_bool b) = json_bool b"
| "json_compact (J_number raw) = raw"
| "json_compact (J_string raw) = quote_mark # html_escape raw @ [quote_mark]"
| "json_compact (J_array vs) = json_list (map json_compact vs)"
| "json_compact (J_object ms) =
     ''{'' @ sep_concat '','' (map (\<lambda>(k, v). quote_mark # html_escape k @ [quote_mark, CHR '':''] @ json_compact v) ms) @ ''}''"

definition last_members :: "(string \<times> json) list \<Rightarrow> (string \<times> json) list" where
  "last_members ms = map (\<lambda>k. (k, the (map_of (rev ms) k))) (sort (remdups (map fst ms)))"

definition ApplySharedLifecycleCreateDefaults :: "string \<Rightarrow> string \<Rightarrow> string result" where
  "ApplySharedLifecycleCreateDefaults entityType payload =
     (case sharedLifecycle entityType of
        None \<Rightarrow> Err (''unsupported shared lifecycle '' @ go_quote entityType)
      | Some d \<Rightarrow>
          if ld_DefaultCreateStatus d = '''' then Ok payload
          else (case json_parse payload of
                  Some (J_object ms) \<Rightarrow>
                    (let fs = map (apfst unquote) ms; status = map_of (rev fs) ''status'';
                         raw = J_string (tl (butlast (json_string (ld_DefaultCreateStatus d))));
                         fs' = (if status = None \<or> status = Some (J_string '''') \<or> status = Some J_null
                                then fs @ [(''status'', raw)] else fs)
                     in Ok (json_object (map (\<lambda>(k, v). (k, json_compact v)) (last_members fs'))))
                | Some J_null \<Rightarrow> Err ''panic: assignment to entry in nil map''
                | _ \<Rightarrow> Err ''json: cannot unmarshal the payload''))"

section \<open>Number sequences\<close>

text \<open>
  \<open>strings.ToUpper\<close> on ASCII letters; a non-ASCII rune counts as unchanged, since the Unicode case
  tables are not reproduced.
\<close>

definition go_ToUpper :: "string \<Rightarrow> string" where
  "go_ToUpper s = map (\<lambda>c. if 97 \<le> byte c \<and> byte c \<le> 122 then char_of (byte c - 32) else c) s"

definition upper_code :: "string \<Rightarrow> bool" where
  "upper_code code \<longleftrightarrow> length code = 3 \<and> go_ToUpper code = code"

definition nextSharedLifecycleNumber ::
  "driver \<Rightarrow> sharedLifecycleDefinition \<Rightarrow> string \<Rightarrow> string \<Rightarrow> int \<Rightarrow> int io" where
  "nextSharedLifecycleNumber dv d projectID projectCode initial =
     (let read = io_query dv (\<lambda>db. sd_sequences db (ld_EntityType d, projectID)) in
      io_bind (io_bind read (\<lambda>row.
          case row of
            Some r \<Rightarrow> io_return (Some r)
          | None \<Rightarrow> io_bind (io_exec dv (insert_sequence_or_ignore (ld_EntityType d) projectID projectCode
                       (if initial < 1 then 1 else initial))) (\<lambda>_. read)))
        (\<lambda>row. case row of
            None \<Rightarrow> io_error (''shared '' @ ld_EntityType d @ '' project code mismatch'')
          | Some (code, nxt) \<Rightarrow>
              if code \<noteq> projectCode then io_error (''shared '' @ ld_EntityType d @ '' project code mismatch'')
              else if nxt < 1 then io_error (''invalid shared '' @ ld_EntityType d @ '' sequence'')
              else io_return nxt))"

definition ReadSharedSequence :: "driver \<Rightarrow> string \<Rightarrow> string \<Rightarrow> (string \<times> int) option io" where
  "ReadSharedSequence dv entityType projectID =
     (case sharedLifecycle entityType of
        None \<Rightarrow> io_error (''shared lifecycle '' @ go_quote entityType @ '' has no allocator'')
      | Some d \<Rightarrow>
          if ld_SequenceTable d = '''' then io_error (''shared lifecycle '' @ go_quote entityType @ '' has no allocator'')
          else if \<not> dv_Shared dv then io_error ''shared store is unavailable''
          else io_bind (io_query dv (\<lambda>db. sd_sequences db (ld_EntityType d, projectID))) (\<lambda>row.
            case row of
              None \<Rightarrow> io_return None
            | Some (code, nxt) \<Rightarrow>
                if nxt < 1 then io_error (''invalid shared '' @ entityType @ '' sequence'')
                else io_return (Some (code, nxt))))"

text \<open>\<open>... ON CONFLICT DO UPDATE SET next_number=MAX(...) WHERE project_code=excluded.project_code\<close>\<close>

definition raise_sequence :: "string \<Rightarrow> string \<Rightarrow> string \<Rightarrow> int \<Rightarrow> statement" where
  "raise_sequence entityType projectID projectCode nxt db =
     (case sd_sequences db (entityType, projectID) of
        None \<Rightarrow> Some (db\<lparr>sd_sequences := (sd_sequences db)((entityType, projectID) \<mapsto> (projectCode, nxt))\<rparr>, 1)
      | Some (code, current) \<Rightarrow>
          if code = projectCode
          then Some (db\<lparr>sd_sequences := (sd_sequences db)((entityType, projectID) \<mapsto> (code, max current nxt))\<rparr>, 1)
          else Some (db, 0))"

definition ReconcileSharedSequence :: "driver \<Rightarrow> string \<Rightarrow> string \<Rightarrow> string \<Rightarrow> int \<Rightarrow> unit io" where
  "ReconcileSharedSequence dv entityType projectID projectCode nxt =
     (let bad = io_error (''invalid shared '' @ entityType @ '' sequence reconciliation'') in
      case sharedLifecycle entityType of
        None \<Rightarrow> bad
      | Some d \<Rightarrow>
          if ld_SequenceTable d = '''' \<or> \<not> dv_Shared dv \<or> ValidateProjectIdentifier projectID \<noteq> None
             \<or> ValidateProjectCode projectCode \<noteq> None \<or> nxt < 1 \<or> int MaxSafeInteger < nxt then bad
          else io_bind (io_exec dv (raise_sequence (ld_EntityType d) projectID projectCode nxt)) (\<lambda>_.
            io_bind (io_try (ReadSharedSequence dv entityType projectID)) (\<lambda>r.
              case r of
                Inr (Some (code, current)) \<Rightarrow>
                  if code \<noteq> projectCode \<or> current < nxt
                  then io_error (''Shared '' @ entityType @ '' sequence reconciliation did not persist'')
                  else io_return ()
              | _ \<Rightarrow> io_error (''Shared '' @ entityType @ '' sequence reconciliation did not persist''))))"

definition replace_sequence :: "string \<Rightarrow> string \<Rightarrow> string \<Rightarrow> int \<Rightarrow> statement" where
  "replace_sequence entityType projectID projectCode nxt db =
     (let current = (case sd_sequences db (entityType, projectID) of None \<Rightarrow> nxt | Some (_, n) \<Rightarrow> max n nxt) in
      Some (db\<lparr>sd_sequences := (sd_sequences db)((entityType, projectID) \<mapsto> (projectCode, current))\<rparr>, 1))"

definition PutSharedSequence :: "driver \<Rightarrow> string \<Rightarrow> string \<Rightarrow> string \<Rightarrow> int \<Rightarrow> unit io" where
  "PutSharedSequence dv entityType projectID projectCode nxt =
     (let bad = io_error (''invalid shared '' @ entityType @ '' sequence'') in
      case sharedLifecycle entityType of
        None \<Rightarrow> bad
      | Some d \<Rightarrow>
          if ld_SequenceTable d = '''' \<or> \<not> dv_Shared dv \<or> projectID = '''' \<or> \<not> upper_code projectCode \<or> nxt < 1 then bad
          else io_exec dv (replace_sequence entityType projectID projectCode nxt))"

definition PutSharedADRSequence :: "driver \<Rightarrow> string \<Rightarrow> string \<Rightarrow> int \<Rightarrow> unit io" where
  "PutSharedADRSequence dv projectID projectCode nxt =
     (if \<not> dv_Shared dv \<or> projectID = '''' \<or> \<not> upper_code projectCode \<or> nxt < 1
      then io_error ''invalid shared ADR sequence''
      else ReconcileSharedSequence dv ''adr'' projectID projectCode nxt)"

definition PutSharedTaskSequence :: "driver \<Rightarrow> string \<Rightarrow> string \<Rightarrow> int \<Rightarrow> unit io" where
  "PutSharedTaskSequence dv projectID projectCode nxt =
     (if \<not> dv_Shared dv then io_error ''shared store is unavailable''
      else if projectID = '''' \<or> \<not> upper_code projectCode \<or> nxt < 1 then io_error ''invalid shared task sequence''
      else ReconcileSharedSequence dv ''task'' projectID projectCode nxt)"

section \<open>Committing a batch\<close>

text \<open>
  Every committing operation ends the same way: on an error the outbox tells whether the same
  operation has been committed after all.
\<close>

definition commit_or_reuse :: "driver \<Rightarrow> string \<Rightarrow> batch \<Rightarrow> 'a io \<Rightarrow> (OutboxEntry \<Rightarrow> 'a io) \<Rightarrow> 'a io" where
  "commit_or_reuse dv operationID sts committed reuse =
     io_bind (io_try (io_batch dv sts)) (\<lambda>r.
       case r of
         Inr _ \<Rightarrow> committed
       | Inl e \<Rightarrow> io_bind (io_try (outboxEntry dv operationID)) (\<lambda>found.
           case found of
             Inr (Some existing) \<Rightarrow> reuse existing
           | _ \<Rightarrow> io_fail e))"

definition mutation_of_entry :: "string \<Rightarrow> string \<Rightarrow> string \<Rightarrow> OutboxEntry \<Rightarrow> SharedMutation" where
  "mutation_of_entry operationID entityType kind existing =
     \<lparr>mu_OperationID = operationID, mu_EntityType = entityType, mu_EntityID = ob_EntityID existing,
      mu_ExpectedRevision = 0, mu_Revision = ob_Revision existing, mu_Kind = kind,
      mu_Payload = ob_Payload existing, mu_CreatedAt = zero_time, mu_Create = False, mu_AllowSameRevision = False\<rparr>"

definition new_receipt :: "string \<Rightarrow> string \<Rightarrow> string \<Rightarrow> int \<Rightarrow> SharedMutationReceipt" where
  "new_receipt operationID entityType entityID revision =
     \<lparr>rc_OperationID = operationID, rc_EntityType = entityType, rc_EntityID = entityID,
      rc_Revision = revision, rc_Committed = True, rc_Reused = False\<rparr>"

definition reuse_created ::
  "string \<Rightarrow> string \<Rightarrow> string \<Rightarrow> OutboxEntry \<Rightarrow> (SharedMutationReceipt \<times> string \<times> string) io" where
  "reuse_created operationID entityType kind existing =
     io_bind (io_result (reuseSharedMutation (mutation_of_entry operationID entityType kind existing) existing))
       (\<lambda>receipt. io_return (receipt, ob_EntityID existing, ob_Payload existing))"

section \<open>Creation\<close>

record SharedLifecycleCreate =
  lc_OperationID :: string
  lc_EntityType :: string
  lc_ProjectID :: string
  lc_ProjectCode :: string
  lc_InitialNextNumber :: int
  lc_Kind :: string
  lc_HistoryMutationKind :: string
  lc_Actor :: string
  lc_Reason :: string
  lc_ChangedFields :: "string list option"
  lc_CreatedAt :: gotime
  lc_BuildPayload :: "(string \<Rightarrow> string result) option"
  lc_ExtraStatements :: "(string \<Rightarrow> batch result) option"

definition entity_id :: "string \<Rightarrow> sharedLifecycleDefinition \<Rightarrow> int \<Rightarrow> string" where
  "entity_id projectCode d n = projectCode @ ''-'' @ ld_IDToken d @ dec_int n"

definition create_statements ::
  "sharedLifecycleDefinition \<Rightarrow> SharedLifecycleCreate \<Rightarrow> string \<Rightarrow> string \<Rightarrow> int \<Rightarrow> string \<Rightarrow> string \<Rightarrow> string \<Rightarrow> string \<Rightarrow> batch" where
  "create_statements d rq actor reason nxt entityID payload historyKind created =
     [(advance_sequence (lc_EntityType rq) (lc_ProjectID rq) (lc_ProjectCode rq) nxt, 1),
      (insert_state (ld_StateTable d) \<lparr>se_ID = entityID, se_Revision = 1, se_Payload = payload, se_UpdatedAt = created\<rparr>, 1)]
     @ (if ld_HistoryTable d = '''' then []
        else [(insert_history \<lparr>hr_entity_type = ld_EntityType d, hr_entity_id = entityID, hr_project_id = lc_ProjectID rq,
                 hr_revision = 1, hr_mutation_kind = historyKind, hr_actor = actor, hr_reason = reason,
                 hr_changed_fields = json_strings (lc_ChangedFields rq), hr_payload = payload, hr_recorded_at = created\<rparr>, 1)])
     @ [(insert_outbox (outbox_intent (lc_OperationID rq) (lc_EntityType rq) entityID 1 (lc_Kind rq) payload created), 1)]"

text \<open>The part behind the allocation of the number \<open>nxt\<close>.\<close>

definition create_numbered ::
  "driver \<Rightarrow> sharedLifecycleDefinition \<Rightarrow> SharedLifecycleCreate \<Rightarrow> string \<Rightarrow> string \<Rightarrow> string \<Rightarrow> int
     \<Rightarrow> (SharedMutationReceipt \<times> string \<times> string) io" where
  "create_numbered dv d rq actor reason historyKind nxt =
     (let entityID = entity_id (lc_ProjectCode rq) d nxt in
      case (the (lc_BuildPayload rq)) entityID of
        Inl m \<Rightarrow> io_error m
      | Inr built \<Rightarrow>
          (case ApplySharedLifecycleCreateDefaults (lc_EntityType rq) built of
             Inl m \<Rightarrow> io_error m
           | Inr payload \<Rightarrow>
               if payload = '''' then io_error (''shared '' @ lc_EntityType rq @ '' payload is empty'')
               else io_check (validateSharedLifecycleStatus d '''' payload True)
                 (case (case lc_ExtraStatements rq of None \<Rightarrow> Ok [] | Some f \<Rightarrow> f entityID) of
                    Inl m \<Rightarrow> io_error m
                  | Inr extra \<Rightarrow>
                      if 4 < length extra
                      then io_error (''shared '' @ lc_EntityType rq @ '' create has too many extra statements'')
                      else commit_or_reuse dv (lc_OperationID rq)
                        (create_statements d rq actor reason nxt entityID payload historyKind (stamp dv (lc_CreatedAt rq)) @ extra)
                        (io_return (new_receipt (lc_OperationID rq) (lc_EntityType rq) entityID 1, entityID, payload))
                        (reuse_created (lc_OperationID rq) (lc_EntityType rq) (lc_Kind rq)))))"

definition commitSharedLifecycleCreateOnce ::
  "driver \<Rightarrow> SharedLifecycleCreate \<Rightarrow> (SharedMutationReceipt \<times> string \<times> string) io" where
  "commitSharedLifecycleCreateOnce dv rq =
     (case sharedLifecycle (lc_EntityType rq) of
        None \<Rightarrow> io_error (''shared lifecycle '' @ go_quote (lc_EntityType rq) @ '' has no allocator'')
      | Some d \<Rightarrow>
          if ld_SequenceTable d = '''' then io_error (''shared lifecycle '' @ go_quote (lc_EntityType rq) @ '' has no allocator'')
          else if \<not> dv_Shared dv then io_error ''shared store is unavailable''
          else if lc_OperationID rq = '''' \<or> lc_ProjectID rq = '''' \<or> lc_Kind rq = '''' \<or> lc_BuildPayload rq = None
            then io_error ''shared lifecycle create identity is incomplete''
          else if \<not> upper_code (lc_ProjectCode rq)
            then io_error (''invalid shared '' @ lc_EntityType rq @ '' project code'')
          else (let history = (ld_HistoryTable d \<noteq> '''');
                    actor = (if history \<and> lc_Actor rq = '''' then ''server'' else lc_Actor rq);
                    reason = (if history \<and> lc_Reason rq = '''' then ''init'' else lc_Reason rq);
                    historyKind = (if lc_HistoryMutationKind rq = '''' then ''create'' else lc_HistoryMutationKind rq) in
            if history \<and> \<not> validSharedHistoryReason reason
            then io_error (''invalid shared '' @ lc_EntityType rq @ '' reason'')
            else io_bind (outboxEntry dv (lc_OperationID rq)) (\<lambda>existing.
              case existing of
                Some entry \<Rightarrow> reuse_created (lc_OperationID rq) (lc_EntityType rq) (lc_Kind rq) entry
              | None \<Rightarrow>
                  io_bind (nextSharedLifecycleNumber dv d (lc_ProjectID rq) (lc_ProjectCode rq) (lc_InitialNextNumber rq))
                    (create_numbered dv d rq actor reason historyKind))))"

text \<open>Eight attempts; a lost race on the sequence is retried, every other error is returned.\<close>

primrec create_attempts ::
  "nat \<Rightarrow> driver \<Rightarrow> SharedLifecycleCreate \<Rightarrow> (SharedMutationReceipt \<times> string \<times> string) io" where
  "create_attempts 0 dv rq = io_error (''shared '' @ lc_EntityType rq @ '' sequence changed during allocation'')"
| "create_attempts (Suc n) dv rq =
     io_bind (io_try (commitSharedLifecycleCreateOnce dv rq)) (\<lambda>r.
       case r of
         Inl RowsAffectedMismatch \<Rightarrow> create_attempts n dv rq
       | Inl e \<Rightarrow> io_fail e
       | Inr v \<Rightarrow> io_return v)"

definition CommitSharedLifecycleCreate ::
  "driver \<Rightarrow> SharedLifecycleCreate \<Rightarrow> (SharedMutationReceipt \<times> string \<times> string) io" where
  "CommitSharedLifecycleCreate dv rq = create_attempts 8 dv rq"

section \<open>Revision\<close>

record SharedHistorySeed =
  hs_Revision :: int
  hs_MutationKind :: string
  hs_Actor :: string
  hs_Reason :: string
  hs_ChangedFields :: "string list option"
  hs_Payload :: string
  hs_RecordedAt :: string

record SharedLifecycleRevision =
  lr_OperationID :: string
  lr_EntityType :: string
  lr_ProjectID :: string
  lr_EntityID :: string
  lr_ExpectedRevision :: int
  lr_ExpectedStoreRevision :: int
  lr_Revision :: int
  lr_Kind :: string
  lr_HistoryMutationKind :: string
  lr_Payload :: string
  lr_Actor :: string
  lr_Reason :: string
  lr_ChangedFields :: "string list option"
  lr_CreatedAt :: gotime
  lr_PreviousHistory :: "SharedHistorySeed option"

definition valid_revision_request :: "SharedLifecycleRevision \<Rightarrow> bool" where
  "valid_revision_request rq \<longleftrightarrow>
     lr_OperationID rq \<noteq> '''' \<and> lr_ProjectID rq \<noteq> '''' \<and> lr_EntityID rq \<noteq> '''' \<and> lr_Kind rq \<noteq> ''''
     \<and> 1 \<le> lr_ExpectedRevision rq \<and> 1 \<le> lr_ExpectedStoreRevision rq
     \<and> lr_Revision rq = wrap_int (lr_ExpectedRevision rq + 1) \<and> lr_Payload rq \<noteq> '''' \<and> lr_Actor rq \<noteq> ''''
     \<and> validSharedHistoryReason (lr_Reason rq)"

definition valid_seed :: "SharedLifecycleRevision \<Rightarrow> SharedHistorySeed \<Rightarrow> bool" where
  "valid_seed rq seed \<longleftrightarrow>
     hs_Revision seed = lr_ExpectedRevision rq \<and> hs_MutationKind seed \<noteq> '''' \<and> hs_Actor seed \<noteq> ''''
     \<and> validSharedHistoryReason (hs_Reason seed) \<and> hs_Payload seed \<noteq> '''' \<and> hs_RecordedAt seed \<noteq> ''''"

definition sharedHistorySeedStatement ::
  "sharedLifecycleDefinition \<Rightarrow> string \<Rightarrow> string \<Rightarrow> SharedHistorySeed \<Rightarrow> statement" where
  "sharedHistorySeedStatement d entityID projectID seed = seed_history
     \<lparr>hr_entity_type = ld_EntityType d, hr_entity_id = entityID, hr_project_id = projectID,
      hr_revision = hs_Revision seed, hr_mutation_kind = hs_MutationKind seed, hr_actor = hs_Actor seed,
      hr_reason = hs_Reason seed, hr_changed_fields = json_strings (hs_ChangedFields seed),
      hr_payload = hs_Payload seed, hr_recorded_at = hs_RecordedAt seed\<rparr>"

definition history_kind :: "SharedLifecycleRevision \<Rightarrow> string" where
  "history_kind rq = (if lr_HistoryMutationKind rq = '''' then lr_Kind rq else lr_HistoryMutationKind rq)"

definition revised_row :: "SharedLifecycleRevision \<Rightarrow> string \<Rightarrow> SharedEntity" where
  "revised_row rq recorded = \<lparr>se_ID = lr_EntityID rq, se_Revision = lr_Revision rq, se_Payload = lr_Payload rq,
     se_UpdatedAt = recorded\<rparr>"

definition revised_history :: "sharedLifecycleDefinition \<Rightarrow> SharedLifecycleRevision \<Rightarrow> string \<Rightarrow> history_row" where
  "revised_history d rq recorded =
     \<lparr>hr_entity_type = ld_EntityType d, hr_entity_id = lr_EntityID rq, hr_project_id = lr_ProjectID rq,
      hr_revision = lr_Revision rq, hr_mutation_kind = history_kind rq, hr_actor = lr_Actor rq,
      hr_reason = lr_Reason rq, hr_changed_fields = json_strings (lr_ChangedFields rq),
      hr_payload = lr_Payload rq, hr_recorded_at = recorded\<rparr>"

definition revision_statements ::
  "driver \<Rightarrow> sharedLifecycleDefinition \<Rightarrow> SharedLifecycleRevision \<Rightarrow> string \<Rightarrow> batch" where
  "revision_statements dv d rq recorded =
     (case lr_PreviousHistory rq of
        None \<Rightarrow> []
      | Some seed \<Rightarrow> [(sharedHistorySeedStatement d (lr_EntityID rq) (lr_ProjectID rq) seed, 1)])
     @ [(update_state (ld_StateTable d) (revised_row rq recorded)
           (\<lambda>r. se_Revision r = lr_ExpectedStoreRevision rq
                \<and> dv_json_revision dv (se_Payload r) = Some (lr_ExpectedRevision rq)), 1),
        (insert_history (revised_history d rq recorded), 1),
        (insert_outbox (outbox_intent (lr_OperationID rq) (lr_EntityType rq) (lr_EntityID rq) (lr_Revision rq)
           (lr_Kind rq) (lr_Payload rq) recorded), 1)]"

definition reuse_revised :: "SharedLifecycleRevision \<Rightarrow> OutboxEntry \<Rightarrow> SharedMutationReceipt io" where
  "reuse_revised rq existing = io_result
     (reuseSharedMutation (mutation_of_entry (lr_OperationID rq) (lr_EntityType rq) (lr_Kind rq) existing) existing)"

definition CommitSharedLifecycleRevision :: "driver \<Rightarrow> SharedLifecycleRevision \<Rightarrow> SharedMutationReceipt io" where
  "CommitSharedLifecycleRevision dv rq =
     (case sharedLifecycle (lr_EntityType rq) of
        None \<Rightarrow> io_error (''shared lifecycle '' @ go_quote (lr_EntityType rq) @ '' has no revision history'')
      | Some d \<Rightarrow>
          if ld_HistoryTable d = ''''
            then io_error (''shared lifecycle '' @ go_quote (lr_EntityType rq) @ '' has no revision history'')
          else if \<not> dv_Shared dv then io_error ''shared store is unavailable''
          else if \<not> valid_revision_request rq then io_error (''invalid shared '' @ lr_EntityType rq @ '' revision'')
          else if sharedPayloadLogicalRevision (lr_Payload rq) \<noteq> Some (lr_Revision rq)
            then io_error (''invalid shared '' @ lr_EntityType rq @ '' logical revision'')
          else io_bind (io_try (io_query dv (\<lambda>db. entity_row db (ld_StateTable d) (lr_EntityID rq)))) (\<lambda>current.
            case current of
              Inr (Some row) \<Rightarrow>
                io_check (validateSharedLifecycleStatus d (se_Payload row) (lr_Payload rq) False)
                (io_check (validateMilestoneMutation d (se_Payload row) (lr_Payload rq) (lr_Kind rq) (history_kind rq))
                (io_bind (outboxEntry dv (lr_OperationID rq)) (\<lambda>existing.
                   case existing of
                     Some entry \<Rightarrow> reuse_revised rq entry
                   | None \<Rightarrow>
                       if (case lr_PreviousHistory rq of None \<Rightarrow> False | Some seed \<Rightarrow> \<not> valid_seed rq seed)
                       then io_error (''invalid shared '' @ lr_EntityType rq @ '' history seed'')
                       else commit_or_reuse dv (lr_OperationID rq)
                         (revision_statements dv d rq (stamp dv (lr_CreatedAt rq)))
                         (io_return (new_receipt (lr_OperationID rq) (lr_EntityType rq) (lr_EntityID rq) (lr_Revision rq)))
                         (reuse_revised rq))))
            | _ \<Rightarrow> io_error (''invalid shared '' @ lr_EntityType rq @ '' current state'')))"

definition CommitSharedLifecycleArchive :: "driver \<Rightarrow> SharedLifecycleRevision \<Rightarrow> SharedMutationReceipt io" where
  "CommitSharedLifecycleArchive dv rq =
     CommitSharedLifecycleRevision dv (rq\<lparr>lr_Kind := ''archive'', lr_HistoryMutationKind := ''archive''\<rparr>)"

section \<open>Plain mutations\<close>

definition sharedEntityTables :: "(string \<times> string) list" where
  "sharedEntityTables =
     [(''milestone'', ''shared_milestones''), (''track'', ''shared_tracks''), (''task'', ''shared_tasks''),
      (''adr'', ''shared_adrs''), (''rule'', ''shared_rules''), (''journal'', ''shared_journals''),
      (''project_configuration'', ''shared_project_configurations'')]"

definition sharedProjectionTables :: "(string \<times> string) list" where
  "sharedProjectionTables =
     [(''milestone'', ''shared_milestones''), (''track'', ''shared_tracks''), (''task'', ''shared_tasks''),
      (''adr'', ''shared_adrs''), (''rule'', ''shared_rules''), (''journal'', ''shared_journals''),
      (''project_configuration'', ''shared_project_configurations'')]"

definition sharedEvidenceTables :: "(string \<times> string) list" where
  "sharedEvidenceTables = [(''train'', ''shared_trains''), (''integration_receipt'', ''shared_integration_receipts'')]"

definition valid_cas_step :: "SharedMutation \<Rightarrow> bool" where
  "valid_cas_step m \<longleftrightarrow>
     (if mu_AllowSameRevision m then 1 \<le> mu_ExpectedRevision m \<and> mu_Revision m = mu_ExpectedRevision m
      else 0 \<le> mu_ExpectedRevision m \<and> mu_Revision m = wrap_int (mu_ExpectedRevision m + 1))"

definition mutation_statements :: "string \<Rightarrow> SharedMutation \<Rightarrow> string \<Rightarrow> batch" where
  "mutation_statements table m created =
     (let row = \<lparr>se_ID = mu_EntityID m, se_Revision = mu_Revision m, se_Payload = mu_Payload m, se_UpdatedAt = created\<rparr>;
          entity = (if mu_Create m then insert_state table row
                    else update_state table row (\<lambda>r. se_Revision r = mu_ExpectedRevision m));
          intent = insert_outbox (outbox_intent (mu_OperationID m) (mu_EntityType m) (mu_EntityID m) (mu_Revision m)
                     (mu_Kind m) (mu_Payload m) created);
          guard = (if mu_EntityType m = ''project_configuration'' then unless_retired (mu_EntityID m) else id)
      in [(guard entity, 1), (guard intent, 1)])"

definition CommitSharedMutation :: "driver \<Rightarrow> SharedMutation \<Rightarrow> SharedMutationReceipt io" where
  "CommitSharedMutation dv m =
     (case map_of sharedEntityTables (mu_EntityType m) of
        None \<Rightarrow> io_error (''unsupported shared entity type '' @ go_quote (mu_EntityType m))
      | Some table \<Rightarrow>
          if \<not> dv_Shared dv then io_error ''shared store is unavailable''
          else if mu_OperationID m = '''' \<or> mu_EntityID m = '''' \<or> mu_Kind m = ''''
            then io_error ''shared mutation identity is incomplete''
          else if \<not> valid_cas_step m then io_error ''shared mutation revision is not a single CAS step''
          else if mu_Payload m = '''' then io_error ''shared mutation payload is empty''
          else io_bind
            (if mu_EntityType m = ''project_configuration'' then
               io_bind (IsLocalProjectRetired dv (mu_EntityID m)) (\<lambda>retired.
                 if retired then io_fail LocalProjectRetired
                 else io_bind (ReadSharedProjectRetirement dv (mu_EntityID m)) (\<lambda>found.
                   if found \<noteq> None then io_fail ProjectRetirementConflict else io_return ()))
             else io_return ())
            (\<lambda>_. io_bind (outboxEntry dv (mu_OperationID m)) (\<lambda>existing.
              case existing of
                Some entry \<Rightarrow> io_result (reuseSharedMutation m entry)
              | None \<Rightarrow> commit_or_reuse dv (mu_OperationID m)
                  (mutation_statements table m (stamp dv (mu_CreatedAt m)))
                  (io_return (new_receipt (mu_OperationID m) (mu_EntityType m) (mu_EntityID m) (mu_Revision m)))
                  (\<lambda>entry. io_result (reuseSharedMutation m entry)))))"

end
