(* ===== verification/Shared_History.thy ===== *)
theory Shared_History
  imports Shared_Lifecycle
begin

text \<open>
  The rest of the Shared store's operations: reading and listing entities and projections
  (\<open>shared_mutation_entity_query_outbox.go\<close>), the immutable history (\<open>shared_lifecycle_history.go\<close>),
  the task and ADR creations without history (\<open>shared_mutation_mutation_outbox_core.go\<close>,
  \<open>shared_mutation_entity_sequence.go\<close>) and the bootstrap markers.
\<close>

section \<open>Entities\<close>

definition projection_table :: "string \<Rightarrow> string option" where
  "projection_table entityType =
     (case map_of sharedProjectionTables entityType of
        Some t \<Rightarrow> Some t
      | None \<Rightarrow> map_of sharedEvidenceTables entityType)"

definition ReadSharedEntity :: "driver \<Rightarrow> string \<Rightarrow> string \<Rightarrow> SharedEntity io" where
  "ReadSharedEntity dv entityType entityID =
     (case projection_table entityType of
        None \<Rightarrow> io_error (''unsupported shared entity type '' @ go_quote entityType)
      | Some table \<Rightarrow>
          if \<not> dv_Shared dv then io_error ''shared store is unavailable''
          else io_bind (io_query dv (\<lambda>db. entity_row db table entityID)) (\<lambda>row.
            case row of
              None \<Rightarrow> io_fail (NotExist (''shared '' @ entityType @ '' '' @ go_quote entityID))
            | Some r \<Rightarrow> io_return r))"

definition ReadSharedTask :: "driver \<Rightarrow> string \<Rightarrow> SharedEntity io" where
  "ReadSharedTask dv taskID =
     (if \<not> dv_Shared dv then io_error ''shared store is unavailable''
      else io_bind (io_query dv (\<lambda>db. entity_row db ''shared_tasks'' taskID)) (\<lambda>row.
        case row of
          None \<Rightarrow> io_fail (NotExist (''shared task '' @ go_quote taskID))
        | Some r \<Rightarrow> io_return r))"

text \<open>\<open>INSERT ... ON CONFLICT(id) DO UPDATE SET ... WHERE excluded.revision >= revision\<close>\<close>

definition upsert_projection :: "string \<Rightarrow> SharedEntity \<Rightarrow> statement" where
  "upsert_projection table row db =
     (case entity_row db table (se_ID row) of
        None \<Rightarrow> insert_state table row db
      | Some old \<Rightarrow>
          if se_Revision old \<le> se_Revision row then update_state table row (\<lambda>_. True) db else Some (db, 0))"

definition PutSharedProjection :: "driver \<Rightarrow> string \<Rightarrow> SharedEntity \<Rightarrow> unit io" where
  "PutSharedProjection dv entityType entity =
     (case map_of sharedProjectionTables entityType of
        None \<Rightarrow> io_error (''unsupported shared projection type '' @ go_quote entityType)
      | Some table \<Rightarrow>
          if \<not> dv_Shared dv then io_error ''shared store is unavailable''
          else if se_ID entity = '''' \<or> se_Revision entity < 1 \<or> se_Payload entity = '''' \<or> se_UpdatedAt entity = ''''
            then io_error ''invalid shared projection''
          else if entityType = ''project_configuration'' then
            io_bind (IsLocalProjectRetired dv (se_ID entity)) (\<lambda>retired.
              if retired then io_fail LocalProjectRetired
              else io_bind (ReadSharedProjectRetirement dv (se_ID entity)) (\<lambda>found.
                if found \<noteq> None then io_fail ProjectRetirementConflict
                else io_bind (io_exec_rows dv (unless_retired (se_ID entity) (upsert_projection table entity))) (\<lambda>n.
                  if n = 0
                  then io_bind (ReadSharedProjectRetirement dv (se_ID entity)) (\<lambda>found.
                    if found \<noteq> None then io_fail ProjectRetirementConflict else io_return ())
                  else io_return ())))
          else io_exec dv (upsert_projection table entity))"

definition SeedSharedTask :: "driver \<Rightarrow> SharedEntity \<Rightarrow> unit io" where
  "SeedSharedTask dv task =
     (if se_ID task = '''' \<or> se_Revision task < 1 \<or> se_Payload task = '''' \<or> se_UpdatedAt task = ''''
      then io_error ''invalid shared task seed''
      else io_exec dv (\<lambda>db. if entity_row db ''shared_tasks'' (se_ID task) \<noteq> None then Some (db, 0)
                          else insert_state ''shared_tasks'' task db))"

text \<open>The listings in the order of update time and id: a bounded prefix, an offset, or a keyset.\<close>

definition ordered_entities :: "shared_db \<Rightarrow> string \<Rightarrow> SharedEntity list" where
  "ordered_entities db table = sort_key (\<lambda>r. (se_UpdatedAt r, se_ID r)) (sd_tables db table)"

definition list_entities :: "driver \<Rightarrow> string \<Rightarrow> int \<Rightarrow> int \<Rightarrow> (SharedEntity \<Rightarrow> bool) \<Rightarrow> SharedEntity list io" where
  "list_entities dv entityType offset limit cond =
     (case projection_table entityType of
        None \<Rightarrow> io_error (''unsupported shared entity type '' @ go_quote entityType)
      | Some table \<Rightarrow>
          if \<not> dv_Shared dv then io_error ''shared store is unavailable''
          else if offset < 0 then io_error ''invalid shared entity offset''
          else if limit < 1 \<or> 1000 < limit then io_error ''invalid shared entity limit''
          else io_query dv (\<lambda>db. take (nat limit) (drop (nat offset) (filter cond (ordered_entities db table)))))"

definition ListSharedEntities :: "driver \<Rightarrow> string \<Rightarrow> int \<Rightarrow> SharedEntity list io" where
  "ListSharedEntities dv entityType limit = list_entities dv entityType 0 limit (\<lambda>_. True)"

definition ListSharedEntitiesPage :: "driver \<Rightarrow> string \<Rightarrow> int \<Rightarrow> int \<Rightarrow> SharedEntity list io" where
  "ListSharedEntitiesPage dv entityType offset limit = list_entities dv entityType offset limit (\<lambda>_. True)"

definition ListSharedEntitiesAfter :: "driver \<Rightarrow> string \<Rightarrow> string \<Rightarrow> string \<Rightarrow> int \<Rightarrow> SharedEntity list io" where
  "ListSharedEntitiesAfter dv entityType afterUpdatedAt afterID limit =
     (if afterUpdatedAt = '''' \<and> afterID = '''' then ListSharedEntities dv entityType limit
      else list_entities dv entityType 0 limit (\<lambda>r.
        afterUpdatedAt < se_UpdatedAt r \<or> (se_UpdatedAt r = afterUpdatedAt \<and> afterID < se_ID r)))"

section \<open>History\<close>

record SharedRevisionRecord =
  sr_EntityID :: string
  sr_ProjectID :: string
  sr_Revision :: int
  sr_MutationKind :: string
  sr_Actor :: string
  sr_Reason :: string
  sr_ChangedFields :: "string list option"
  sr_Payload :: string
  sr_RecordedAt :: string

definition decode_changed_fields :: "string \<Rightarrow> string list option option" where
  "decode_changed_fields bytes =
     (case json_parse bytes of None \<Rightarrow> None | Some v \<Rightarrow> dec_strings (\<lambda>x _. x) v None)"

definition decodeSharedRevisionRow :: "history_row \<Rightarrow> store_error + SharedRevisionRecord" where
  "decodeSharedRevisionRow h =
     (case decode_changed_fields (hr_changed_fields h) of
        None \<Rightarrow> Inl (Failure ''invalid shared changed fields'')
      | Some fs \<Rightarrow> Inr \<lparr>sr_EntityID = hr_entity_id h, sr_ProjectID = hr_project_id h, sr_Revision = hr_revision h,
          sr_MutationKind = hr_mutation_kind h, sr_Actor = hr_actor h, sr_Reason = hr_reason h,
          sr_ChangedFields = fs, sr_Payload = hr_payload h, sr_RecordedAt = hr_recorded_at h\<rparr>)"

definition record_row :: "string \<Rightarrow> SharedRevisionRecord \<Rightarrow> history_row" where
  "record_row entityType r =
     \<lparr>hr_entity_type = entityType, hr_entity_id = sr_EntityID r, hr_project_id = sr_ProjectID r,
      hr_revision = sr_Revision r, hr_mutation_kind = sr_MutationKind r, hr_actor = sr_Actor r,
      hr_reason = sr_Reason r, hr_changed_fields = json_strings (sr_ChangedFields r),
      hr_payload = sr_Payload r, hr_recorded_at = sr_RecordedAt r\<rparr>"

definition history_definition :: "string \<Rightarrow> sharedLifecycleDefinition option" where
  "history_definition entityType =
     (case sharedLifecycle entityType of
        None \<Rightarrow> None
      | Some d \<Rightarrow> if ld_HistoryTable d = '''' then None else Some d)"

definition no_history :: "string \<Rightarrow> 'a io" where
  "no_history entityType = io_error (''shared lifecycle '' @ go_quote entityType @ '' has no revision history'')"

definition readStoredSharedRevision ::
  "driver \<Rightarrow> string \<Rightarrow> string \<Rightarrow> string \<Rightarrow> int \<Rightarrow> SharedRevisionRecord io" where
  "readStoredSharedRevision dv entityType projectID entityID revision =
     (case history_definition entityType of
        None \<Rightarrow> no_history entityType
      | Some d \<Rightarrow>
          if \<not> dv_Shared dv then io_error ''shared store is unavailable''
          else io_bind (io_query dv (\<lambda>db. find (\<lambda>h. hr_entity_type h = entityType \<and> hr_project_id h = projectID
                 \<and> hr_entity_id h = entityID \<and> hr_revision h = revision) (sd_history db))) (\<lambda>row.
            case row of
              None \<Rightarrow> io_fail (NotExist (''shared '' @ entityType @ '' revision '' @ entityID @ '':'' @ dec_int revision))
            | Some h \<Rightarrow> io_result (decodeSharedRevisionRow h)))"

definition same_history :: "string \<Rightarrow> SharedRevisionRecord \<Rightarrow> SharedRevisionRecord \<Rightarrow> unit io" where
  "same_history entityType existing r =
     (if record_row entityType existing = record_row entityType r then io_return ()
      else io_error (''shared '' @ entityType @ '' history conflict for '' @ sr_EntityID r @ '':'' @ dec_int (sr_Revision r)))"

definition EnsureSharedLifecycleHistory :: "driver \<Rightarrow> string \<Rightarrow> SharedRevisionRecord \<Rightarrow> unit io" where
  "EnsureSharedLifecycleHistory dv entityType r =
     (case history_definition entityType of
        None \<Rightarrow> no_history entityType
      | Some d \<Rightarrow>
          if \<not> dv_Shared dv then io_error ''shared store is unavailable''
          else if sr_EntityID r = '''' \<or> sr_ProjectID r = '''' \<or> sr_Revision r < 1 \<or> sr_MutationKind r = ''''
               \<or> sr_Actor r = '''' \<or> sr_Reason r = '''' \<or> sr_Payload r = '''' \<or> sr_RecordedAt r = ''''
            then io_error (''invalid shared '' @ entityType @ '' history record'')
          else (let read = io_try (readStoredSharedRevision dv entityType (sr_ProjectID r) (sr_EntityID r) (sr_Revision r)) in
            io_bind read (\<lambda>first.
              case first of
                Inr existing \<Rightarrow> same_history entityType existing r
              | Inl (NotExist _) \<Rightarrow>
                  io_bind (io_try (io_exec dv (insert_history (record_row (ld_EntityType d) r)))) (\<lambda>inserted.
                    case inserted of
                      Inr _ \<Rightarrow> io_return ()
                    | Inl e \<Rightarrow> io_bind read (\<lambda>again.
                        case again of
                          Inr existing \<Rightarrow> same_history entityType existing r
                        | Inl _ \<Rightarrow> io_fail e))
              | Inl e \<Rightarrow> io_fail e)))"

definition entity_history :: "shared_db \<Rightarrow> string \<Rightarrow> string \<Rightarrow> string \<Rightarrow> int \<Rightarrow> history_row list" where
  "entity_history db entityType projectID entityID after =
     sort_key hr_revision (filter (\<lambda>h. hr_entity_type h = entityType \<and> hr_project_id h = projectID
       \<and> hr_entity_id h = entityID \<and> after < hr_revision h) (sd_history db))"

fun decode_rows :: "history_row list \<Rightarrow> store_error + SharedRevisionRecord list" where
  "decode_rows [] = Inr []"
| "decode_rows (h # hs) =
     (case decodeSharedRevisionRow h of
        Inl e \<Rightarrow> Inl e
      | Inr r \<Rightarrow> map_sum id (Cons r) (decode_rows hs))"

record SharedHistoryPage =
  hp_Records :: "SharedRevisionRecord list"
  hp_NextRevision :: int
  hp_NextCursor :: string
  hp_HasMore :: bool

definition ListSharedHistoryPage ::
  "driver \<Rightarrow> string \<Rightarrow> string \<Rightarrow> string \<Rightarrow> int \<Rightarrow> int \<Rightarrow> SharedHistoryPage io" where
  "ListSharedHistoryPage dv entityType projectID entityID afterRevision limit =
     (case history_definition entityType of
        None \<Rightarrow> no_history entityType
      | Some d \<Rightarrow>
          if \<not> dv_Shared dv then no_history entityType
          else if projectID = '''' \<or> entityID = '''' \<or> afterRevision < 0 \<or> limit < 1 \<or> 1000 < limit
            then io_error (''invalid '' @ entityType @ '' history page'')
          else io_bind (io_query dv (\<lambda>db. take (nat limit + 1) (entity_history db entityType projectID entityID afterRevision)))
            (\<lambda>rows. io_bind (io_result (decode_rows rows)) (\<lambda>rs.
              io_return (if nat limit < length rs
                then \<lparr>hp_Records = take (nat limit) rs, hp_NextRevision = sr_Revision (last (take (nat limit) rs)),
                      hp_NextCursor = '''', hp_HasMore = True\<rparr>
                else \<lparr>hp_Records = rs, hp_NextRevision = 0, hp_NextCursor = '''', hp_HasMore = False\<rparr>))))"

definition ListSharedHistory :: "driver \<Rightarrow> string \<Rightarrow> string \<Rightarrow> string \<Rightarrow> int \<Rightarrow> SharedRevisionRecord list io" where
  "ListSharedHistory dv entityType projectID entityID limit =
     (case history_definition entityType of
        None \<Rightarrow> no_history entityType
      | Some d \<Rightarrow>
          if \<not> dv_Shared dv then no_history entityType
          else if projectID = '''' \<or> entityID = '''' \<or> limit < 1 \<or> 1000 < limit
            then io_error (''invalid '' @ entityType @ '' history limit'')
          else io_bind (io_query dv (\<lambda>db. take (nat limit) (sort_key hr_revision (filter (\<lambda>h.
                 hr_entity_type h = entityType \<and> hr_project_id h = projectID \<and> hr_entity_id h = entityID)
                 (sd_history db))))) (\<lambda>rows. io_result (decode_rows rows)))"

definition ReadSharedRevision ::
  "driver \<Rightarrow> string \<Rightarrow> string \<Rightarrow> string \<Rightarrow> int \<Rightarrow> SharedRevisionRecord io" where
  "ReadSharedRevision dv entityType projectID entityID revision =
     io_bind (io_try (readStoredSharedRevision dv entityType projectID entityID revision)) (\<lambda>stored.
       case stored of
         Inr r \<Rightarrow> io_return r
       | Inl (NotExist m) \<Rightarrow>
           io_bind (io_try (ReadSharedEntity dv entityType entityID)) (\<lambda>current.
             case current of
               Inl _ \<Rightarrow> io_fail (NotExist m)
             | Inr row \<Rightarrow>
                 if se_Revision row \<noteq> revision then io_fail (NotExist m)
                 else (case json_Unmarshal [(''project_id'', dec_string (\<lambda>x _. x))] '''' (se_Payload row) of
                         None \<Rightarrow> io_error (''invalid shared '' @ entityType @ '' current payload'')
                       | Some pid \<Rightarrow>
                           if pid \<noteq> projectID
                           then io_error (''shared '' @ entityType @ '' current state ownership mismatch'')
                           else io_return \<lparr>sr_EntityID = se_ID row, sr_ProjectID = projectID, sr_Revision = se_Revision row,
                                  sr_MutationKind = '''', sr_Actor = '''', sr_Reason = '''', sr_ChangedFields = None,
                                  sr_Payload = se_Payload row, sr_RecordedAt = ''''\<rparr>))
       | Inl e \<Rightarrow> io_fail e)"

section \<open>Creations without history\<close>

record SharedTaskCreate =
  tc_OperationID :: string
  tc_ProjectID :: string
  tc_ProjectCode :: string
  tc_InitialNextTaskNumber :: int
  tc_Kind :: string
  tc_CreatedAt :: gotime
  tc_BuildPayload :: "(string \<Rightarrow> string result) option"

definition plain_create_statements ::
  "string \<Rightarrow> string \<Rightarrow> SharedTaskCreate \<Rightarrow> int \<Rightarrow> string \<Rightarrow> string \<Rightarrow> string \<Rightarrow> batch" where
  "plain_create_statements entityType table rq nxt ident payload created =
     [(advance_sequence entityType (tc_ProjectID rq) (tc_ProjectCode rq) nxt, 1),
      (insert_state table \<lparr>se_ID = ident, se_Revision = 1, se_Payload = payload, se_UpdatedAt = created\<rparr>, 1),
      (insert_outbox (outbox_intent (tc_OperationID rq) entityType ident 1 (tc_Kind rq) payload created), 1)]"

definition create_step ::
  "driver \<Rightarrow> string \<Rightarrow> string \<Rightarrow> sharedLifecycleDefinition \<Rightarrow> SharedTaskCreate
     \<Rightarrow> (SharedMutationReceipt \<times> string \<times> string) io" where
  "create_step dv entityType table d rq =
     io_bind (outboxEntry dv (tc_OperationID rq)) (\<lambda>existing.
       case existing of
         Some entry \<Rightarrow> reuse_created (tc_OperationID rq) entityType (tc_Kind rq) entry
       | None \<Rightarrow> io_bind (nextSharedLifecycleNumber dv d (tc_ProjectID rq) (tc_ProjectCode rq) (tc_InitialNextTaskNumber rq))
           (\<lambda>nxt. let ident = entity_id (tc_ProjectCode rq) d nxt in
             case (the (tc_BuildPayload rq)) ident of
               Inl m \<Rightarrow> io_error m
             | Inr payload \<Rightarrow>
                 if payload = '''' then io_error (''shared '' @ entityType @ '' payload is empty'')
                 else commit_or_reuse dv (tc_OperationID rq)
                   (plain_create_statements entityType table rq nxt ident payload (stamp dv (tc_CreatedAt rq)))
                   (io_return (new_receipt (tc_OperationID rq) entityType ident 1, ident, payload))
                   (reuse_created (tc_OperationID rq) entityType (tc_Kind rq))))"

primrec task_create_attempts ::
  "nat \<Rightarrow> driver \<Rightarrow> sharedLifecycleDefinition \<Rightarrow> SharedTaskCreate \<Rightarrow> (SharedMutationReceipt \<times> string \<times> string) io" where
  "task_create_attempts 0 dv d rq = io_error ''shared task sequence changed during allocation''"
| "task_create_attempts (Suc n) dv d rq =
     io_bind (io_try (create_step dv ''task'' ''shared_tasks'' d rq)) (\<lambda>r.
       case r of
         Inl RowsAffectedMismatch \<Rightarrow> task_create_attempts n dv d rq
       | Inl e \<Rightarrow> io_fail e
       | Inr v \<Rightarrow> io_return v)"

definition CommitSharedTaskCreate ::
  "driver \<Rightarrow> SharedTaskCreate \<Rightarrow> (SharedMutationReceipt \<times> string \<times> string) io" where
  "CommitSharedTaskCreate dv rq =
     (if \<not> dv_Shared dv then io_error ''shared store is unavailable''
      else if tc_OperationID rq = '''' \<or> tc_ProjectID rq = '''' \<or> tc_Kind rq = '''' \<or> tc_BuildPayload rq = None
        then io_error ''shared task create identity is incomplete''
      else if \<not> upper_code (tc_ProjectCode rq) then io_error ''invalid shared task project code''
      else (case sharedLifecycle ''task'' of
              None \<Rightarrow> io_error ''invalid shared task sequence''
            | Some d \<Rightarrow> task_create_attempts 8 dv d rq))"

definition CommitSharedADRCreate ::
  "driver \<Rightarrow> SharedTaskCreate \<Rightarrow> (SharedMutationReceipt \<times> string \<times> string) io" where
  "CommitSharedADRCreate dv rq =
     (if \<not> dv_Shared dv then io_error ''shared store is unavailable''
      else if tc_OperationID rq = '''' \<or> tc_ProjectID rq = '''' \<or> tc_Kind rq = '''' \<or> tc_BuildPayload rq = None
        then io_error ''shared ADR create identity is incomplete''
      else if \<not> upper_code (tc_ProjectCode rq) then io_error ''invalid shared ADR project code''
      else (case sharedLifecycle ''adr'' of
              None \<Rightarrow> io_error ''invalid shared adr sequence''
            | Some d \<Rightarrow> create_step dv ''adr'' ''shared_adrs'' d rq))"

section \<open>Bootstrap markers\<close>

definition MarkSharedBootstrapComplete :: "driver \<Rightarrow> string \<Rightarrow> string \<Rightarrow> string \<Rightarrow> unit io" where
  "MarkSharedBootstrapComplete dv projectID hubRevision completedAt =
     (if \<not> dv_Shared dv then io_error ''shared store is unavailable''
      else if projectID = '''' \<or> hubRevision = '''' \<or> completedAt = '''' then io_error ''invalid shared bootstrap marker''
      else io_exec dv (\<lambda>db. Some (db\<lparr>sd_markers := (sd_markers db)(projectID \<mapsto> (hubRevision, completedAt))\<rparr>, 1)))"

definition SharedBootstrapComplete :: "driver \<Rightarrow> string \<Rightarrow> bool io" where
  "SharedBootstrapComplete dv projectID =
     (if \<not> dv_Shared dv then io_error ''shared store is unavailable''
      else io_bind (io_query dv (\<lambda>db. sd_markers db projectID)) (\<lambda>row.
        case row of
          None \<Rightarrow> io_return False
        | Some (revision, completed) \<Rightarrow>
            if revision = '''' \<or> completed = '''' then io_error ''invalid shared bootstrap marker'' else io_return True))"

end
