(* ===== verification/Shared_Events.thy ===== *)
theory Shared_Events
  imports Shared_History
begin

text \<open>
  Lifecycle events (\<open>sqlitestore/shared_lifecycle_event.go\<close>): the event row and its decoder, the
  commit of a status change with its event, history and outbox intent, the chain of an entity's
  events, and the pages of an entity's merged history.
\<close>

section \<open>Events\<close>

record SharedLifecycleEvent =
  le_ID :: int
  le_OperationID :: string
  le_EntityType :: string
  le_ProjectID :: string
  le_EntityID :: string
  le_Revision :: int
  le_EventKind :: string
  le_MutationKind :: string
  le_FromStatus :: string
  le_ToStatus :: string
  le_Actor :: string
  le_Reason :: string
  le_Contract :: string
  le_ChangedFields :: "string list"
  le_RecordedAt :: gotime

definition validateSharedLifecycleChangedFields :: "string list \<Rightarrow> error" where
  "validateSharedLifecycleChangedFields fs = first_error
     [fail_if (fs = [] \<or> 16 < length fs) ''invalid shared lifecycle event changed fields'',
      dup_check (\<lambda>f. fail_if (f = '''' \<or> 64 < rune_count f \<or> List.member f nul)
                  ''invalid shared lifecycle event changed fields'') id
        (\<lambda>_. ''invalid shared lifecycle event changed fields'') [] fs]"

definition decodeSharedLifecycleChangedFields :: "string \<Rightarrow> string list option" where
  "decodeSharedLifecycleChangedFields raw =
     (case decode_changed_fields raw of
        Some fs \<Rightarrow> if validateSharedLifecycleChangedFields (elems fs) = None then Some (elems fs) else None
      | None \<Rightarrow> None)"

definition valid_event :: "SharedLifecycleEvent \<Rightarrow> bool" where
  "valid_event e \<longleftrightarrow>
     (case sharedLifecycle (le_EntityType e) of
        None \<Rightarrow> False
      | Some d \<Rightarrow>
          1 \<le> le_ID e \<and> 1 \<le> le_Revision e \<and> ld_DefaultCreateStatus d \<noteq> ''''
          \<and> le_OperationID e \<noteq> '''' \<and> le_ProjectID e \<noteq> '''' \<and> le_EntityID e \<noteq> ''''
          \<and> (le_EventKind e = ''status'' \<or> le_EventKind e = ''archive'')
          \<and> le_FromStatus e \<noteq> le_ToStatus e
          \<and> List.member (ld_AllowedStatuses d) (le_FromStatus e) \<and> List.member (ld_AllowedStatuses d) (le_ToStatus e)
          \<and> List.member (transitions d (le_FromStatus e)) (le_ToStatus e)
          \<and> validateSharedLifecycleEventKind d (le_EventKind e) (le_ToStatus e) = None
          \<and> le_MutationKind e = sharedLifecycleMutationKind d (le_EventKind e)
          \<and> le_Actor e \<noteq> '''' \<and> \<not> List.member (le_Actor e) nul \<and> rune_count (le_Actor e) \<le> 256
          \<and> validSharedHistoryReason (le_Reason e) \<and> le_Contract e \<noteq> '''')"

definition decodeSharedLifecycleEvent :: "event_row \<Rightarrow> store_error + SharedLifecycleEvent" where
  "decodeSharedLifecycleEvent row =
     (case parse_rfc3339 (ev_recorded_at row) of
        None \<Rightarrow> Inl (Failure ''invalid shared lifecycle event recorded_at'')
      | Some at \<Rightarrow>
          (case decodeSharedLifecycleChangedFields (ev_changed_fields row) of
             None \<Rightarrow> Inl (Failure ''invalid shared lifecycle event changed fields'')
           | Some fs \<Rightarrow>
               (let e = \<lparr>le_ID = ev_id row, le_OperationID = ev_operation_id row, le_EntityType = ev_entity_type row,
                         le_ProjectID = ev_project_id row, le_EntityID = ev_entity_id row, le_Revision = ev_revision row,
                         le_EventKind = ev_event_kind row, le_MutationKind = ev_mutation_kind row,
                         le_FromStatus = ev_from_status row, le_ToStatus = ev_to_status row, le_Actor = ev_actor row,
                         le_Reason = ev_reason row, le_Contract = ev_contract row, le_ChangedFields = fs,
                         le_RecordedAt = at\<rparr>
                in if valid_event e then Inr e else Inl (Failure ''invalid shared lifecycle event identity''))))"

definition sameSharedLifecycleEvent :: "SharedLifecycleEvent \<Rightarrow> SharedLifecycleEvent \<Rightarrow> bool" where
  "sameSharedLifecycleEvent l r \<longleftrightarrow>
     le_OperationID l = le_OperationID r \<and> le_EntityType l = le_EntityType r \<and> le_ProjectID l = le_ProjectID r
     \<and> le_EntityID l = le_EntityID r \<and> le_Revision l = le_Revision r \<and> le_EventKind l = le_EventKind r
     \<and> le_MutationKind l = le_MutationKind r \<and> le_FromStatus l = le_FromStatus r \<and> le_ToStatus l = le_ToStatus r
     \<and> le_Actor l = le_Actor r \<and> le_Reason l = le_Reason r \<and> le_Contract l = le_Contract r
     \<and> le_ChangedFields l = le_ChangedFields r \<and> gt_ns (le_RecordedAt l) = gt_ns (le_RecordedAt r)"

text \<open>The table numbers its rows itself and holds one row for an operation.\<close>

definition insert_event :: "event_row \<Rightarrow> statement" where
  "insert_event e db =
     (if list_ex (\<lambda>x. ev_operation_id x = ev_operation_id e) (sd_events db) then None
      else Some (db\<lparr>sd_events := sd_events db
                    @ [e\<lparr>ev_id := 1 + Max (insert 0 (set (map ev_id (sd_events db))))\<rparr>]\<rparr>, 1))"

definition entity_events :: "shared_db \<Rightarrow> string \<Rightarrow> string \<Rightarrow> string \<Rightarrow> event_row list" where
  "entity_events db entityType projectID entityID =
     sort_key ev_id (filter (\<lambda>e. ev_entity_type e = entityType \<and> ev_project_id e = projectID
       \<and> ev_entity_id e = entityID) (sd_events db))"

section \<open>Committing a status change\<close>

record SharedLifecycleEventRequest =
  eq_OperationID :: string
  eq_EntityType :: string
  eq_ProjectID :: string
  eq_EntityID :: string
  eq_ExpectedRevision :: int
  eq_ExpectedStoreRevision :: int
  eq_ExpectedPayload :: string
  eq_Revision :: int
  eq_Kind :: string
  eq_EventKind :: string
  eq_HistoryMutationKind :: string
  eq_FromStatus :: string
  eq_ToStatus :: string
  eq_Payload :: string
  eq_Actor :: string
  eq_Reason :: string
  eq_ChangedFields :: "string list"
  eq_Contract :: string
  eq_CreatedAt :: gotime
  eq_PreviousHistory :: "SharedHistorySeed option"
  eq_ExtraStatements :: batch

definition complete_event_request :: "SharedLifecycleEventRequest \<Rightarrow> bool" where
  "complete_event_request rq \<longleftrightarrow>
     eq_OperationID rq \<noteq> '''' \<and> eq_ProjectID rq \<noteq> '''' \<and> eq_EntityID rq \<noteq> '''' \<and> eq_Kind rq \<noteq> ''''
     \<and> eq_EventKind rq \<noteq> '''' \<and> 1 \<le> eq_ExpectedRevision rq \<and> 1 \<le> eq_ExpectedStoreRevision rq
     \<and> eq_ExpectedPayload rq \<noteq> '''' \<and> eq_Payload rq \<noteq> '''' \<and> eq_Actor rq \<noteq> ''''
     \<and> validSharedHistoryReason (eq_Reason rq) \<and> eq_Contract rq \<noteq> ''''"

definition content_changed :: "SharedLifecycleEventRequest \<Rightarrow> bool" where
  "content_changed rq \<longleftrightarrow> eq_Revision rq = wrap_int (eq_ExpectedRevision rq + 1)"

definition event_checks :: "sharedLifecycleDefinition \<Rightarrow> SharedLifecycleEventRequest \<Rightarrow> error" where
  "event_checks d rq =
     (let t = eq_EntityType rq; bad = (\<lambda>m. ''invalid shared '' @ t @ m) in first_error
        [fail_if (\<not> complete_event_request rq) (bad '' lifecycle event''),
         fail_if (\<not> content_changed rq \<and> eq_Revision rq \<noteq> eq_ExpectedRevision rq) (bad '' lifecycle event revision''),
         fail_if (sharedPayloadLogicalRevision (eq_Payload rq) \<noteq> Some (eq_Revision rq)) (bad '' logical revision''),
         validateSharedLifecycleStatus d (eq_ExpectedPayload rq) (eq_Payload rq) False,
         fail_if (decode_status (eq_ExpectedPayload rq) = None) (bad '' previous payload''),
         fail_if (decode_status (eq_Payload rq) = None) (bad '' payload''),
         fail_if (decode_status (eq_ExpectedPayload rq) = decode_status (eq_Payload rq)
             \<or> decode_status (eq_ExpectedPayload rq) \<noteq> Some (eq_FromStatus rq)
             \<or> decode_status (eq_Payload rq) \<noteq> Some (eq_ToStatus rq)) (bad '' lifecycle transition''),
         validateSharedLifecycleEventKind d (eq_EventKind rq) (eq_ToStatus rq),
         fail_if (eq_HistoryMutationKind rq \<noteq> sharedLifecycleMutationKind d (eq_EventKind rq))
           (bad '' lifecycle mutation kind''),
         validateSharedLifecycleChangedFields (eq_ChangedFields rq),
         fail_if (case eq_PreviousHistory rq of None \<Rightarrow> False | Some s \<Rightarrow> hs_Revision s \<noteq> eq_ExpectedRevision rq)
           (bad '' history seed''),
         fail_if (4 < length (eq_ExtraStatements rq)) (bad '' lifecycle side effects''),
         fail_if (list_ex (\<lambda>(_, n). n < 1) (eq_ExtraStatements rq)) (bad '' lifecycle side effect'')])"

definition event_cas :: "driver \<Rightarrow> SharedLifecycleEventRequest \<Rightarrow> SharedEntity \<Rightarrow> bool" where
  "event_cas dv rq r \<longleftrightarrow>
     se_Revision r = eq_ExpectedStoreRevision rq \<and> se_Payload r = eq_ExpectedPayload rq
     \<and> dv_json_revision dv (se_Payload r) = Some (eq_ExpectedRevision rq)"

definition event_state_row :: "SharedLifecycleEventRequest \<Rightarrow> string \<Rightarrow> SharedEntity" where
  "event_state_row rq recorded =
     \<lparr>se_ID = eq_EntityID rq,
      se_Revision = (if content_changed rq then eq_Revision rq else eq_ExpectedStoreRevision rq),
      se_Payload = eq_Payload rq, se_UpdatedAt = recorded\<rparr>"

definition event_row_of :: "SharedLifecycleEventRequest \<Rightarrow> string \<Rightarrow> event_row" where
  "event_row_of rq recorded =
     \<lparr>ev_id = 0, ev_operation_id = eq_OperationID rq, ev_entity_type = eq_EntityType rq, ev_project_id = eq_ProjectID rq,
      ev_entity_id = eq_EntityID rq, ev_revision = eq_Revision rq, ev_event_kind = eq_EventKind rq,
      ev_mutation_kind = eq_HistoryMutationKind rq, ev_from_status = eq_FromStatus rq, ev_to_status = eq_ToStatus rq,
      ev_actor = eq_Actor rq, ev_reason = eq_Reason rq, ev_contract = eq_Contract rq,
      ev_changed_fields = json_strings (Some (eq_ChangedFields rq)), ev_recorded_at = recorded\<rparr>"

definition event_history :: "sharedLifecycleDefinition \<Rightarrow> SharedLifecycleEventRequest \<Rightarrow> string \<Rightarrow> history_row" where
  "event_history d rq recorded =
     \<lparr>hr_entity_type = ld_EntityType d, hr_entity_id = eq_EntityID rq, hr_project_id = eq_ProjectID rq,
      hr_revision = eq_Revision rq, hr_mutation_kind = ''update'', hr_actor = eq_Actor rq, hr_reason = eq_Reason rq,
      hr_changed_fields = json_strings (Some (eq_ChangedFields rq)), hr_payload = eq_Payload rq,
      hr_recorded_at = recorded\<rparr>"

definition event_statements ::
  "driver \<Rightarrow> sharedLifecycleDefinition \<Rightarrow> SharedLifecycleEventRequest \<Rightarrow> string \<Rightarrow> batch" where
  "event_statements dv d rq recorded =
     (case eq_PreviousHistory rq of
        None \<Rightarrow> []
      | Some seed \<Rightarrow> [(sharedHistorySeedStatement d (eq_EntityID rq) (eq_ProjectID rq) seed, 1)])
     @ [(update_state (ld_StateTable d) (event_state_row rq recorded) (event_cas dv rq), 1)]
     @ (if content_changed rq then [(insert_history (event_history d rq recorded), 1)] else [])
     @ eq_ExtraStatements rq
     @ [(insert_event (event_row_of rq recorded), 1),
        (insert_outbox (outbox_intent (eq_OperationID rq) (eq_EntityType rq) (eq_EntityID rq) (eq_Revision rq)
           (eq_Kind rq) (eq_Payload rq) recorded), 1)]"

definition incomplete_seed :: "SharedHistorySeed \<Rightarrow> bool" where
  "incomplete_seed s \<longleftrightarrow> hs_MutationKind s = '''' \<or> hs_Actor s = '''' \<or> \<not> validSharedHistoryReason (hs_Reason s)
     \<or> hs_Payload s = '''' \<or> hs_RecordedAt s = ''''"

definition CommitSharedLifecycleEvent :: "driver \<Rightarrow> SharedLifecycleEventRequest \<Rightarrow> SharedMutationReceipt io" where
  "CommitSharedLifecycleEvent dv rq =
     (let none = io_error (''shared lifecycle '' @ go_quote (eq_EntityType rq) @ '' has no lifecycle events'') in
      case sharedLifecycle (eq_EntityType rq) of
        None \<Rightarrow> none
      | Some d \<Rightarrow>
          if ld_HistoryTable d = '''' \<or> ld_DefaultCreateStatus d = '''' then none
          else if \<not> dv_Shared dv then io_error ''shared store is unavailable''
          else io_check (event_checks d rq)
            (io_bind (outboxEntry dv (eq_OperationID rq)) (\<lambda>existing.
              let reuse = (\<lambda>entry. io_result (reuseSharedMutation
                    (mutation_of_entry (eq_OperationID rq) (eq_EntityType rq) (eq_Kind rq) entry) entry)) in
              case existing of
                Some entry \<Rightarrow> reuse entry
              | None \<Rightarrow>
                  if (case eq_PreviousHistory rq of None \<Rightarrow> False | Some s \<Rightarrow> incomplete_seed s)
                  then io_error (''invalid shared '' @ eq_EntityType rq @ '' history seed'')
                  else commit_or_reuse dv (eq_OperationID rq) (event_statements dv d rq (stamp dv (eq_CreatedAt rq)))
                    (io_return (new_receipt (eq_OperationID rq) (eq_EntityType rq) (eq_EntityID rq) (eq_Revision rq)))
                    reuse)))"

section \<open>The chain of events\<close>

fun chained :: "SharedLifecycleEvent list \<Rightarrow> bool" where
  "chained [] \<longleftrightarrow> True"
| "chained [e] \<longleftrightarrow> True"
| "chained (e # f # es) \<longleftrightarrow> le_FromStatus f = le_ToStatus e \<and> chained (f # es)"

definition validateSharedLifecycleChain ::
  "driver \<Rightarrow> sharedLifecycleDefinition \<Rightarrow> string \<Rightarrow> SharedLifecycleEvent list \<Rightarrow> unit io" where
  "validateSharedLifecycleChain dv d entityID events =
     (if \<not> chained events then io_error (''shared '' @ ld_EntityType d @ '' lifecycle chain is discontinuous'')
      else if events = [] then io_return ()
      else io_bind (io_query dv (\<lambda>db. entity_row db (ld_StateTable d) entityID)) (\<lambda>row.
        case row of
          None \<Rightarrow> io_error (''shared '' @ ld_EntityType d @ '' lifecycle chain has no current state'')
        | Some r \<Rightarrow>
            (case decode_status (se_Payload r) of
               None \<Rightarrow> io_error (''invalid shared '' @ ld_EntityType d @ '' lifecycle state payload'')
             | Some s \<Rightarrow>
                 if s \<noteq> le_ToStatus (last events)
                 then io_error (''shared '' @ ld_EntityType d @ '' lifecycle chain does not agree with the current state status'')
                 else io_return ())))"

fun decode_events :: "event_row list \<Rightarrow> store_error + SharedLifecycleEvent list" where
  "decode_events [] = Inr []"
| "decode_events (r # rs) =
     (case decodeSharedLifecycleEvent r of
        Inl e \<Rightarrow> Inl e
      | Inr v \<Rightarrow> map_sum id (Cons v) (decode_events rs))"

definition readSharedLifecycleChain ::
  "driver \<Rightarrow> sharedLifecycleDefinition \<Rightarrow> string \<Rightarrow> string \<Rightarrow> nat \<Rightarrow> SharedLifecycleEvent list io" where
  "readSharedLifecycleChain dv d projectID entityID limit =
     io_bind (io_query dv (\<lambda>db. take (limit + 1) (entity_events db (ld_EntityType d) projectID entityID))) (\<lambda>rows.
       if limit < length rows
       then io_error (''shared '' @ ld_EntityType d @ '' lifecycle chain exceeds bounded maximum '' @ dec limit)
       else io_bind (io_result (decode_events rows)) (\<lambda>events.
         io_bind (validateSharedLifecycleChain dv d entityID events) (\<lambda>_. io_return events)))"

definition SharedLifecycleQueryMaxRows :: nat where "SharedLifecycleQueryMaxRows = 256"

definition ListSharedLifecycleEvents ::
  "driver \<Rightarrow> string \<Rightarrow> string \<Rightarrow> string \<Rightarrow> int \<Rightarrow> SharedLifecycleEvent list io" where
  "ListSharedLifecycleEvents dv entityType projectID entityID limit =
     (let none = io_error (''shared lifecycle '' @ go_quote entityType @ '' has no lifecycle events'') in
      case sharedLifecycle entityType of
        None \<Rightarrow> none
      | Some d \<Rightarrow>
          if ld_DefaultCreateStatus d = '''' \<or> \<not> dv_Shared dv then none
          else if projectID = '''' \<or> entityID = '''' \<or> limit < 1 \<or> int SharedLifecycleQueryMaxRows < limit
            then io_error (''invalid shared '' @ entityType @ '' lifecycle event limit'')
          else readSharedLifecycleChain dv d projectID entityID (nat limit))"

definition EnsureSharedLifecycleEvent :: "driver \<Rightarrow> SharedLifecycleEvent \<Rightarrow> unit io" where
  "EnsureSharedLifecycleEvent dv e =
     (let row = \<lparr>ev_id = 1, ev_operation_id = le_OperationID e, ev_entity_type = le_EntityType e,
                 ev_project_id = le_ProjectID e, ev_entity_id = le_EntityID e, ev_revision = le_Revision e,
                 ev_event_kind = le_EventKind e, ev_mutation_kind = le_MutationKind e,
                 ev_from_status = le_FromStatus e, ev_to_status = le_ToStatus e, ev_actor = le_Actor e,
                 ev_reason = le_Reason e, ev_contract = le_Contract e,
                 ev_changed_fields = json_strings (Some (le_ChangedFields e)),
                 ev_recorded_at = rfc3339_nano (to_utc (le_RecordedAt e))\<rparr> in
      io_bind (io_result (decodeSharedLifecycleEvent row)) (\<lambda>validated.
      io_bind (ReadSharedEntity dv (le_EntityType e) (le_EntityID e)) (\<lambda>current.
        if se_Revision current < le_Revision e
        then io_error (''Shared '' @ le_EntityType e @ '' lifecycle event exceeds current revision'')
        else (let read = io_bind (io_query dv (\<lambda>db. find (\<lambda>x. ev_operation_id x = le_OperationID e) (sd_events db)))
                (\<lambda>r. case r of None \<Rightarrow> io_return None
                     | Some x \<Rightarrow> io_bind (io_result (decodeSharedLifecycleEvent x)) (\<lambda>v. io_return (Some v))) in
          io_bind read (\<lambda>stored. case stored of
            Some v \<Rightarrow>
              if sameSharedLifecycleEvent v validated then io_return ()
              else io_error (''conflicting Shared lifecycle operation '' @ go_quote (le_OperationID e))
          | None \<Rightarrow>
              io_bind (io_try (io_exec dv (insert_event row))) (\<lambda>inserted. case inserted of
                Inr _ \<Rightarrow> io_return ()
              | Inl err \<Rightarrow> io_bind (io_try read) (\<lambda>again. case again of
                  Inr (Some v) \<Rightarrow> if sameSharedLifecycleEvent v validated then io_return () else io_fail err
                | _ \<Rightarrow> io_fail err)))))))"

section \<open>Pages of the merged history\<close>

record SharedLifecycleHistoryCursor =
  cu_RecordedAt :: string
  cu_Revision :: int
  cu_Source :: int
  cu_ID :: int

definition zero_cursor :: SharedLifecycleHistoryCursor where
  "zero_cursor = \<lparr>cu_RecordedAt = '''', cu_Revision = 0, cu_Source = 0, cu_ID = 0\<rparr>"

definition validateSharedLifecycleHistoryCursor :: "SharedLifecycleHistoryCursor \<Rightarrow> bool \<Rightarrow> error" where
  "validateSharedLifecycleHistoryCursor c allowZero =
     (if allowZero \<and> c = zero_cursor then None
      else first_error
        [fail_if (cu_Source c \<noteq> 0 \<and> cu_Source c \<noteq> 1) ''invalid shared history cursor source'',
         fail_if (cu_Revision c < 0) ''invalid shared history cursor revision'',
         fail_if (cu_ID c < 1) ''invalid shared history cursor id'',
         fail_if (case parse_rfc3339 (cu_RecordedAt c) of
                    None \<Rightarrow> True
                  | Some t \<Rightarrow> gt_offset t \<noteq> 0 \<or> rfc3339_nano t \<noteq> cu_RecordedAt c)
           ''invalid shared history cursor timestamp''])"

text \<open>The items of the merged history with their keys: revision, source (content before event), id.\<close>

type_synonym history_key = "int \<times> int \<times> int"

definition content_key :: "history_row \<Rightarrow> history_key" where
  "content_key h = (hr_revision h, 0, hr_revision h)"

definition event_key :: "event_row \<Rightarrow> history_key" where
  "event_key e = (ev_revision e, 1, ev_id e)"

datatype history_item = Content history_row | Event event_row

fun item_key :: "history_item \<Rightarrow> history_key" where
  "item_key (Content h) = content_key h"
| "item_key (Event e) = event_key e"

definition content_after :: "shared_db \<Rightarrow> string \<Rightarrow> string \<Rightarrow> string \<Rightarrow> SharedLifecycleHistoryCursor \<Rightarrow> history_row list" where
  "content_after db entityType projectID entityID after =
     sort_key hr_revision (filter (\<lambda>h. hr_entity_type h = entityType \<and> hr_project_id h = projectID
       \<and> hr_entity_id h = entityID \<and> cu_Revision after < hr_revision h) (sd_history db))"

definition events_after :: "shared_db \<Rightarrow> string \<Rightarrow> string \<Rightarrow> string \<Rightarrow> SharedLifecycleHistoryCursor \<Rightarrow> event_row list" where
  "events_after db entityType projectID entityID after =
     sort_key (\<lambda>e. (ev_revision e, ev_id e)) (filter (\<lambda>e. ev_entity_type e = entityType \<and> ev_project_id e = projectID
       \<and> ev_entity_id e = entityID
       \<and> (if after = zero_cursor \<or> cu_Source after = 0 then cu_Revision after \<le> ev_revision e
          else cu_Revision after < ev_revision e \<or> (ev_revision e = cu_Revision after \<and> cu_ID after < ev_id e)))
       (sd_events db))"

definition merge_history :: "history_row list \<Rightarrow> event_row list \<Rightarrow> history_item list" where
  "merge_history contents events = sort_key item_key (map Content contents @ map Event events)"

text \<open>A history item with its decoded record and the time that its cursor carries.\<close>

definition decode_item :: "string \<Rightarrow> string \<Rightarrow> string \<Rightarrow> history_item \<Rightarrow> store_error + (SharedRevisionRecord \<times> gotime)" where
  "decode_item entityType projectID entityID item =
     (case item of
        Content h \<Rightarrow>
          (case decodeSharedRevisionRow h of
             Inl e \<Rightarrow> Inl e
           | Inr r \<Rightarrow> (case parse_rfc3339 (sr_RecordedAt r) of
                         None \<Rightarrow> Inl (Failure ''invalid shared revision recorded_at'')
                       | Some at \<Rightarrow> Inr (r, at)))
      | Event e \<Rightarrow>
          (case decodeSharedLifecycleEvent e of
             Inl err \<Rightarrow> Inl err
           | Inr v \<Rightarrow>
               if le_EntityType v \<noteq> entityType \<or> le_ProjectID v \<noteq> projectID \<or> le_EntityID v \<noteq> entityID
               then Inl (Failure ''shared lifecycle event ownership mismatch'')
               else Inr (\<lparr>sr_EntityID = le_EntityID v, sr_ProjectID = le_ProjectID v, sr_Revision = le_Revision v,
                          sr_MutationKind = le_MutationKind v, sr_Actor = le_Actor v, sr_Reason = le_Reason v,
                          sr_ChangedFields = Some (le_ChangedFields v), sr_Payload = le_Contract v,
                          sr_RecordedAt = rfc3339_nano (to_utc (le_RecordedAt v))\<rparr>, to_utc (le_RecordedAt v))))"

fun decode_items :: "string \<Rightarrow> string \<Rightarrow> string \<Rightarrow> history_item list \<Rightarrow> store_error + (SharedRevisionRecord \<times> gotime) list" where
  "decode_items entityType projectID entityID [] = Inr []"
| "decode_items entityType projectID entityID (x # xs) =
     (case decode_item entityType projectID entityID x of
        Inl e \<Rightarrow> Inl e
      | Inr r \<Rightarrow> map_sum id (Cons r) (decode_items entityType projectID entityID xs))"

definition cursor_of :: "history_item \<Rightarrow> gotime \<Rightarrow> SharedLifecycleHistoryCursor" where
  "cursor_of item at =
     (case item_key item of (revision, source, ident) \<Rightarrow>
       \<lparr>cu_RecordedAt = rfc3339_nano (to_utc at), cu_Revision = revision, cu_Source = source, cu_ID = ident\<rparr>)"

definition EncodeSharedLifecycleHistoryCursor :: "SharedLifecycleHistoryCursor \<Rightarrow> string result" where
  "EncodeSharedLifecycleHistoryCursor c =
     guard_result (validateSharedLifecycleHistoryCursor c False)
       (Ok (json_object [(''recorded_at'', json_string (cu_RecordedAt c)), (''revision'', dec_int (cu_Revision c)),
                         (''source'', dec_int (cu_Source c)), (''id'', dec_int (cu_ID c))]))"

definition cursor_fields :: "(string \<times> SharedLifecycleHistoryCursor field_decoder) list" where
  "cursor_fields =
     [(''recorded_at'', dec_string (\<lambda>x r. r\<lparr>cu_RecordedAt := x\<rparr>)),
      (''revision'', dec_int64 (\<lambda>x r. r\<lparr>cu_Revision := x\<rparr>)),
      (''source'', dec_int64 (\<lambda>x r. r\<lparr>cu_Source := x\<rparr>)),
      (''id'', dec_int64 (\<lambda>x r. r\<lparr>cu_ID := x\<rparr>))]"

definition DecodeSharedLifecycleHistoryCursor :: "string \<Rightarrow> SharedLifecycleHistoryCursor result" where
  "DecodeSharedLifecycleHistoryCursor raw =
     (case json_parse raw of
        None \<Rightarrow> Err ''invalid shared history cursor''
      | Some v \<Rightarrow>
          (case decode_struct True cursor_fields v zero_cursor of
             None \<Rightarrow> Err ''invalid shared history cursor''
           | Some c \<Rightarrow> guard_result (validateSharedLifecycleHistoryCursor c False) (Ok c)))"

text \<open>
  The rows are decoded as they are read, content rows before events, so an undecodable row fails
  the page even when it lies behind the limit.
\<close>

definition ListSharedLifecycleHistoryPage ::
  "driver \<Rightarrow> string \<Rightarrow> string \<Rightarrow> string \<Rightarrow> SharedLifecycleHistoryCursor \<Rightarrow> int \<Rightarrow> SharedHistoryPage io" where
  "ListSharedLifecycleHistoryPage dv entityType projectID entityID after limit =
     (case history_definition entityType of
        None \<Rightarrow> no_history entityType
      | Some d \<Rightarrow>
          if \<not> dv_Shared dv then no_history entityType
          else if projectID = '''' \<or> entityID = '''' \<or> limit < 1 \<or> int SharedLifecycleQueryMaxRows < limit
            then io_error (''invalid '' @ entityType @ '' history page'')
          else io_check (validateSharedLifecycleHistoryCursor after True) (
            let n = nat limit; decode = decode_items entityType projectID entityID in
            io_bind (readSharedLifecycleChain dv d projectID entityID SharedLifecycleQueryMaxRows) (\<lambda>_.
            io_bind (io_query dv (\<lambda>db. take (n + 1) (content_after db entityType projectID entityID after))) (\<lambda>contents.
            io_bind (io_result (decode (map Content contents))) (\<lambda>_.
            io_bind (io_query dv (\<lambda>db. take (n + 1) (events_after db entityType projectID entityID after))) (\<lambda>events.
            io_bind (io_result (decode (map Event events))) (\<lambda>_.
              let merged = merge_history contents events; kept = take n merged in
              io_bind (io_result (decode kept)) (\<lambda>rs.
                if length merged \<le> n
                then io_return \<lparr>hp_Records = map fst rs, hp_NextRevision = 0, hp_NextCursor = '''', hp_HasMore = False\<rparr>
                else (case EncodeSharedLifecycleHistoryCursor (cursor_of (last kept) (snd (last rs))) of
                        Inl m \<Rightarrow> io_error m
                      | Inr c \<Rightarrow> io_return \<lparr>hp_Records = map fst rs, hp_NextRevision = fst (item_key (last kept)),
                                   hp_NextCursor = c, hp_HasMore = True\<rparr>)))))))))"

end
