(* ===== verification/Json_Laws.thy ===== *)
theory Json_Laws
  imports Go_Json
begin

text \<open>
  Flat JSON objects are read back as they were written: the round trip of \<open>encoding/json\<close> for an
  object whose values are plain strings and natural numbers, and what \<open>json.Unmarshal\<close> makes of it.
\<close>

definition plain_char :: "char \<Rightarrow> bool" where
  "plain_char c \<longleftrightarrow> 32 \<le> byte c \<and> byte c < 128 \<and> byte c \<noteq> 34 \<and> byte c \<noteq> 92 \<and> byte c \<noteq> 60 \<and> byte c \<noteq> 62 \<and> byte c \<noteq> 38"

definition plain :: "string \<Rightarrow> bool" where
  "plain s \<longleftrightarrow> list_all plain_char s"

datatype flat = Flat_string string | Flat_number nat

fun flat_text :: "flat \<Rightarrow> string" where
  "flat_text (Flat_string s) = json_string s"
| "flat_text (Flat_number n) = dec n"

fun flat_json :: "flat \<Rightarrow> json" where
  "flat_json (Flat_string s) = J_string s"
| "flat_json (Flat_number n) = J_number (dec n)"

fun flat_plain :: "flat \<Rightarrow> bool" where
  "flat_plain (Flat_string s) = plain s"
| "flat_plain (Flat_number n) = True"

lemma plain_append [simp]: "plain (s @ t) \<longleftrightarrow> plain s \<and> plain t"
  by (simp add: plain_def)

lemma plain_digits: "list_all is_digit s \<Longrightarrow> plain s"
  unfolding plain_def by (induction s) (auto simp: is_digit_def plain_char_def)

lemma plain_Cons: "plain (c # s) \<longleftrightarrow> plain_char c \<and> plain s"
  by (simp add: plain_def)

lemma plain_char_marks: "plain_char c \<Longrightarrow> c \<noteq> quote_mark \<and> c \<noteq> backslash \<and> \<not> byte c < 0x20"
  by (auto simp: plain_char_def quote_mark_def backslash_def byte_def)

lemma json_rune_plain: "plain_char c \<Longrightarrow> json_rune (byte c, [c]) = [c]"
  by (simp add: plain_char_def json_rune_def rune_error_def)

lemma json_string_plain: "plain s \<Longrightarrow> json_string s = quote_mark # s @ [quote_mark]"
proof -
  assume p: "plain s"
  then have "runes s = map (\<lambda>c. (byte c, [c])) s" by (intro runes_ascii) (auto simp: plain_def plain_char_def list_all_iff)
  moreover have "concat (map (json_rune \<circ> (\<lambda>c. (byte c, [c]))) s) = s"
    using p by (induction s) (simp_all add: plain_def json_rune_plain)
  ultimately show ?thesis by (simp add: json_string_def)
qed

lemma json_string_rest_plain: "plain s \<Longrightarrow> json_string_rest (s @ quote_mark # t) = Some t"
  by (induction s) (auto simp: plain_def dest: plain_char_marks)

lemma taken_append: "taken (s @ t) t = s"
  by (simp add: taken_def)

lemma taken_string: "butlast (taken (s @ quote_mark # t) t) = s"
  using taken_append [of "s @ [quote_mark]" t] by simp

lemma taken_member: "butlast (taken (k @ quote_mark # c # w) (c # w)) = k"
  by (rule taken_string)

lemma skip_space_quote [simp]: "skip_space (quote_mark # s) = quote_mark # s"
  by (simp add: skip_space_def json_space_def quote_mark_def byte_def)

lemma skip_space_mark [simp]:
  "skip_space (CHR '','' # s) = CHR '','' # s" "skip_space (CHR ''}'' # s) = CHR ''}'' # s"
  "skip_space (CHR '':'' # s) = CHR '':'' # s" "skip_space (CHR ''{'' # s) = CHR ''{'' # s"
  by (simp_all add: skip_space_def json_space_def byte_def)

lemma HasPrefix_char [simp]: "HasPrefix (c # s) [d] \<longleftrightarrow> c = d"
  by (simp add: HasPrefix_def)

lemma skip_space_digit: "is_digit c \<Longrightarrow> skip_space (c # s) = c # s"
  by (auto simp: skip_space_def json_space_def is_digit_def)

text \<open>A number followed by a comma or a closing brace.\<close>

definition closing :: "string \<Rightarrow> bool" where
  "closing t \<longleftrightarrow> (\<exists>u. t = CHR '','' # u \<or> t = CHR ''}'' # u)"

lemma closing_simps [simp]: "closing (CHR '','' # u)" "closing (CHR ''}'' # u)"
  by (auto simp: closing_def)

lemma drop_digits: "list_all is_digit s \<Longrightarrow> closing t \<Longrightarrow> dropWhile is_digit (s @ t) = t"
  by (induction s) (auto simp: closing_def is_digit_def byte_def)

lemma json_number_dec:
  assumes "closing t"
  shows "json_number (dec n @ t) = Some t"
proof -
  have digits: "list_all is_digit (dec n)" "dec n \<noteq> []" by simp_all
  then obtain c s where s: "dec n = c # s" "is_digit c" by (cases "dec n") auto
  have minus: "\<not> HasPrefix (dec n @ t) ''-''" using s by (auto simp: is_digit_def byte_def)
  have tail: "json_fraction t = Some t" "json_exponent t = Some t"
    using assms by (auto simp: closing_def json_fraction_def json_exponent_def)
  have head: "(if HasPrefix (dec n @ t) ''0'' then Some (drop 1 (dec n @ t)) else json_digits (dec n @ t)) = Some t"
  proof (cases "n = 0")
    case True
    then have "dec n = ''0''" by (simp add: dec.simps) code_simp
    then show ?thesis by simp
  next
    case False
    then have "c \<noteq> digit 0" using dec_no_leading_zero [of n] s by simp
    moreover have "digit 0 = CHR ''0''" by code_simp
    ultimately show ?thesis using s digits drop_digits [OF digits(1) assms] by (simp add: json_digits_def)
  qed
  show ?thesis using head minus tail by (simp add: json_number_def Let_def)
qed

lemma digit_not_mark: "is_digit c \<Longrightarrow> c \<noteq> quote_mark \<and> c \<noteq> CHR ''['' \<and> c \<noteq> CHR ''{'' \<and> c \<noteq> CHR ''t''
    \<and> c \<noteq> CHR ''f'' \<and> c \<noteq> CHR ''n''"
  by (auto simp: is_digit_def quote_mark_def byte_def)

lemma json_value_flat:
  assumes "flat_plain v" "closing t"
  shows "json_value (Suc k) (flat_text v @ t) = Some (flat_json v, t)"
proof (cases v)
  case (Flat_string s)
  then have "plain s" using assms(1) by simp
  then show ?thesis by (simp add: Flat_string json_string_plain json_string_rest_plain taken_string)
next
  case (Flat_number n)
  have "list_all is_digit (dec n)" "dec n \<noteq> []" by simp_all
  then obtain c s where s: "dec n = c # s" "is_digit c" by (cases "dec n") auto
  have "json_number (c # s @ t) = Some t" using json_number_dec [OF assms(2), of n] s by simp
  then show ?thesis using s digit_not_mark [OF s(2)] taken_append [of "c # s" t]
    by (simp add: Flat_number skip_space_digit HasPrefix_def)
qed

definition member_text :: "string \<times> flat \<Rightarrow> string" where
  "member_text m = json_string (fst m) @ '':'' @ flat_text (snd m)"

lemma json_members_step:
  assumes "plain k" "flat_plain v" "closing w"
  shows "json_members (Suc (Suc j)) (member_text (k, v) @ w) =
    (if HasPrefix w ''}'' then Some ([(k, flat_json v)], drop 1 w)
     else map_option (apfst (Cons (k, flat_json v))) (json_members (Suc j) (drop 1 w)))"
proof -
  have w: "skip_space w = w" "HasPrefix w ''}'' \<or> HasPrefix w '',''"
    using assms(3) by (auto simp: closing_def)
  have u: "json_string_rest (k @ quote_mark # CHR '':'' # flat_text v @ w) = Some (CHR '':'' # flat_text v @ w)"
    by (rule json_string_rest_plain [OF assms(1)])
  have "json_members (Suc (Suc j)) (member_text (k, v) @ w) =
      (case json_value (Suc j) (flat_text v @ w) of
         None \<Rightarrow> None
       | Some (x, w) \<Rightarrow>
           if HasPrefix (skip_space w) ''}'' then Some ([(k, x)], drop 1 (skip_space w))
           else if HasPrefix (skip_space w) '','' then map_option (apfst (Cons (k, x))) (json_members (Suc j) (drop 1 (skip_space w)))
           else None)"
    by (subst json_members.simps(2)) (simp add: member_text_def json_string_plain [OF assms(1)] u Let_def
        taken_member del: json_members.simps json_value.simps split: option.split)
  then show ?thesis using w by (auto simp: json_value_flat [OF assms(2,3)] simp del: json_members.simps json_value.simps)
qed

lemma json_members_flat:
  assumes "ms \<noteq> []" "\<forall>(k, v) \<in> set ms. plain k \<and> flat_plain v" "length ms < n"
  shows "json_members n (sep_concat '','' (map member_text ms) @ ''}'' @ t) = Some (map (apsnd flat_json) ms, t)"
  using assms
proof (induction ms arbitrary: n)
  case (Cons m ms)
  obtain k v where m: "m = (k, v)" by (cases m)
  obtain j where n: "n = Suc (Suc j)" using Cons.prems(3) by (cases n; cases "n - 1") auto
  have kv: "plain k" "flat_plain v" using Cons.prems(2) m by auto
  show ?case
  proof (cases ms)
    case Nil
    then show ?thesis using json_members_step [OF kv, of "CHR ''}'' # t" j]
      by (simp add: n m del: json_members.simps)
  next
    case (Cons x xs)
    define r where "r = sep_concat '','' (map member_text ms) @ ''}'' @ t"
    have "json_members (Suc j) r = Some (map (apsnd flat_json) ms, t)"
      unfolding r_def by (rule Cons.IH) (use Cons.prems n Cons in auto)
    moreover have "sep_concat '','' (map member_text (m # ms)) @ ''}'' @ t = member_text (k, v) @ CHR '','' # r"
      by (simp add: Cons m r_def)
    ultimately show ?thesis using json_members_step [OF kv, of "CHR '','' # r" j]
      by (simp add: n m del: json_members.simps)
  qed
qed simp

lemma json_object_members: "json_object (map (apsnd flat_text) ms) = ''{'' @ sep_concat '','' (map member_text ms) @ ''}''"
proof -
  have "(\<lambda>(k, v). json_string k @ '':'' @ v) \<circ> apsnd flat_text = member_text"
    by (simp add: member_text_def fun_eq_iff)
  then show ?thesis by (simp add: json_object_def)
qed

lemma sep_concat_length: "length ms \<le> length (sep_concat '','' (map member_text ms))"
proof (induction ms)
  case (Cons m ms)
  have "1 \<le> length (member_text m)" by (simp add: member_text_def)
  then show ?case using Cons by (cases ms) auto
qed simp

text \<open>The round trip.\<close>

lemma json_parse_flat:
  assumes "ms \<noteq> []" "\<forall>(k, v) \<in> set ms. plain k \<and> flat_plain v"
  shows "json_parse (json_object (map (apsnd flat_text) ms)) = Some (J_object (map (apsnd flat_json) ms))"
proof -
  define body where "body = sep_concat '','' (map member_text ms) @ ''}''"
  have obj: "json_object (map (apsnd flat_text) ms) = CHR ''{'' # body"
    unfolding json_object_members body_def by simp
  have "length ms < 2 * length body" unfolding body_def using sep_concat_length [of ms] by simp
  then have m: "json_members (Suc (Suc (Suc (2 * length body)))) body = Some (map (apsnd flat_json) ms, [])"
    unfolding body_def using json_members_flat [OF assms, of _ "[]"] by (simp del: json_members.simps)
  obtain k v xs where ms: "ms = (k, v) # xs" using assms(1) by (cases ms) auto
  then have "plain k" using assms(2) by simp
  have start: "HasPrefix body [quote_mark]" "body \<noteq> []"
    unfolding body_def using ms by (cases xs; simp add: member_text_def json_string_plain [OF \<open>plain k\<close>])+
  then have "\<not> HasPrefix (skip_space body) ''}''"
    by (cases body) (simp_all, simp add: quote_mark_def)
  moreover have "2 * length (CHR ''{'' # body) + 2 = Suc (Suc (Suc (Suc (2 * length body))))" by simp
  ultimately have "json_value (2 * length (CHR ''{'' # body) + 2) (CHR ''{'' # body)
      = Some (J_object (map (apsnd flat_json) ms), [])"
    using m by (simp del: json_members.simps length_Cons add: quote_mark_def)
  then show ?thesis by (simp only: obj json_parse_def) (simp add: skip_space_def)
qed

section \<open>Unmarshalling a flat object\<close>

lemma unquote_plain: "plain s \<Longrightarrow> unquote s = s"
proof (induction s)
  case (Cons c s)
  then have c: "plain_char c" and s: "unquote s = s" by (simp_all add: plain_def)
  then have "decode_rune c s = (byte c, 1)" "byte c \<noteq> rune_error"
    by (auto simp: plain_char_def decode_rune_def rune_error_def)
  then show ?case using c s plain_char_marks [OF c] by (simp add: unquote.simps)
qed (simp add: unquote.simps)

lemma fold_name_plain: "plain s \<Longrightarrow> fold_name s = map (fold_rune \<circ> byte) s"
  unfolding fold_name_def by (subst runes_ascii) (auto simp: plain_def plain_char_def list_all_iff)

lemma parse_int64_dec: "n < 9223372036854775808 \<Longrightarrow> parse_int64 (dec n) = Some (int n)"
proof -
  assume n: "n < 9223372036854775808"
  obtain c s where s: "dec n = c # s" "is_digit c" using dec_digits [of n] by (cases "dec n") auto
  then have "\<not> HasPrefix (dec n) ''-''" by (auto simp: is_digit_def byte_def)
  moreover have "int n < 9223372036854775808" using n by linarith
  ultimately show ?thesis by (simp add: parse_int64_def Let_def)
qed

lemma json_Unmarshal_flat:
  assumes "ms \<noteq> []" "\<forall>(k, v) \<in> set ms. plain k \<and> flat_plain v"
  shows "json_Unmarshal table zero (json_object (map (apsnd flat_text) ms))
           = decode_members False table (map (apsnd flat_json) ms) zero"
  by (simp add: json_Unmarshal_def json_parse_flat [OF assms] decode_struct_def)

lemma decode_map_flat:
  assumes "ms \<noteq> []" "\<forall>(k, v) \<in> set ms. plain k \<and> flat_plain v"
  shows "decode_map (json_object (map (apsnd flat_text) ms)) = Some (map_of (rev (map (apsnd flat_json) ms)))"
proof -
  have "map (apfst unquote) (map (apsnd flat_json) ms) = map (apsnd flat_json) ms"
    using assms(2) by (auto simp: unquote_plain)
  then show ?thesis by (simp only: decode_map_def json_parse_flat [OF assms] option.case json.case)
qed

end
