(* ===== verification/Lifecycle_Laws.thy ===== *)
theory Lifecycle_Laws
  imports Lifecycle_Registry Json_Laws
begin

text \<open>
  Properties of the status machines: which changes the policies accept, that milestones, tasks,
  ADRs and rules only move forward, that a journal never changes, and what a track can do.
\<close>

section \<open>The step relation\<close>

text \<open>\<open>lifecycle_step et s t\<close>: the registry lists \<open>t\<close> among the transitions of \<open>s\<close> for the entity type.\<close>

inductive lifecycle_step :: "string \<Rightarrow> string \<Rightarrow> string \<Rightarrow> bool" for et where
  step: "sharedLifecycle et = Some d \<Longrightarrow> t \<in> set (transitions d s) \<Longrightarrow> lifecycle_step et s t"

inductive_simps lifecycle_step_iff: "lifecycle_step et s t"

definition lifecycle_edges :: "string \<Rightarrow> (string \<times> string) list" where
  "lifecycle_edges et =
     (case sharedLifecycle et of
        None \<Rightarrow> []
      | Some d \<Rightarrow> concat (map (\<lambda>(s, ts). map (Pair s) ts) (ld_AllowedTransitions d)))"

lemma registry_keys: "distinct (map fst sharedLifecycleRegistry)"
  by (simp add: sharedLifecycleRegistry_def)

lemma registry_transition_keys_all:
  "list_all (\<lambda>(et, d). distinct (map fst (ld_AllowedTransitions d))) sharedLifecycleRegistry"
  by (simp add: sharedLifecycleRegistry_def)

lemma registry_transition_keys:
  "(et, d) \<in> set sharedLifecycleRegistry \<Longrightarrow> distinct (map fst (ld_AllowedTransitions d))"
  using registry_transition_keys_all by (auto simp: list_all_iff)

lemma lifecycle_in_registry: "sharedLifecycle et = Some d \<longleftrightarrow> (et, d) \<in> set sharedLifecycleRegistry"
  unfolding sharedLifecycle_def using registry_keys by simp

lemma lifecycle_step_edges: "lifecycle_step et s t \<longleftrightarrow> (s, t) \<in> set (lifecycle_edges et)"
proof (cases "sharedLifecycle et")
  case None
  then show ?thesis by (simp add: lifecycle_step_iff lifecycle_edges_def)
next
  case (Some d)
  then have "distinct (map fst (ld_AllowedTransitions d))"
    by (metis lifecycle_in_registry registry_transition_keys)
  then have m: "(s, ts) \<in> set (ld_AllowedTransitions d) \<longleftrightarrow> map_of (ld_AllowedTransitions d) s = Some ts" for ts
    by simp
  have "t \<in> set (transitions d s) \<longleftrightarrow> (\<exists>ts. (s, ts) \<in> set (ld_AllowedTransitions d) \<and> t \<in> set ts)"
    unfolding m transitions_def by (metis list.set(1) empty_iff option.case_eq_if option.collapse option.sel option.simps(3))
  then show ?thesis using Some by (auto simp: lifecycle_step_iff lifecycle_edges_def)
qed

lemma lifecycle_edges_simps:
  "lifecycle_edges ''milestone'' = [(''planned'', ''active''), (''active'', ''completed''), (''completed'', ''archived'')]"
  "lifecycle_edges ''task'' = [(''planned'', ''ready''), (''planned'', ''done''), (''planned'', ''archived''),
     (''ready'', ''done''), (''ready'', ''archived''), (''done'', ''archived'')]"
  "lifecycle_edges ''adr'' = [(''proposed'', ''accepted''), (''proposed'', ''archived''), (''accepted'', ''superseded''),
     (''accepted'', ''archived''), (''superseded'', ''archived'')]"
  "lifecycle_edges ''rule'' = [(''proposed'', ''accepted''), (''proposed'', ''archived''), (''accepted'', ''archived'')]"
  "lifecycle_edges ''journal'' = []"
  by (simp_all add: lifecycle_edges_def sharedLifecycle_def sharedLifecycleRegistry_def)

lemma lifecycle_edges_track:
  "lifecycle_edges ''track'' =
     [(''planned'', ''active''), (''planned'', ''ready''), (''planned'', ''review_pending''), (''planned'', ''cancelled''),
      (''active'', ''ready''), (''active'', ''stale''), (''active'', ''review_pending''),
      (''ready'', ''active''), (''ready'', ''review_pending''), (''ready'', ''stale''),
      (''review_pending'', ''active''), (''review_pending'', ''ready''), (''review_pending'', ''accepted''),
      (''review_pending'', ''stale''), (''accepted'', ''stale''), (''accepted'', ''review_pending''),
      (''accepted'', ''archived''), (''stale'', ''active''), (''stale'', ''ready''), (''stale'', ''review_pending''),
      (''cancelled'', ''archived'')]"
  by (simp add: lifecycle_edges_def sharedLifecycle_def sharedLifecycleRegistry_def)

section \<open>What the status policy accepts\<close>

lemma status_in_Some:
  "status_in payload allowed = Some s \<longleftrightarrow> decode_status payload = Some s \<and> s \<noteq> '''' \<and> s \<in> set allowed"
  by (auto simp: status_in_def split: option.splits)

lemma status_policy_update:
  assumes "sharedLifecycle et = Some d" "ld_DefaultCreateStatus d \<noteq> ''''"
    and "validateSharedLifecycleStatus d previous payload False = None"
  obtains p n where "decode_status previous = Some p" "decode_status payload = Some n"
    "p \<in> set (ld_AllowedStatuses d)" "n \<in> set (ld_AllowedStatuses d)" "p = n \<or> lifecycle_step et p n"
    "typed_payload d payload = None"
proof -
  from assms obtain n where n: "status_in payload (ld_AllowedStatuses d) = Some n"
    and typed: "typed_payload d payload = None"
    and rest: "(case status_in previous (ld_AllowedStatuses d) of
        None \<Rightarrow> Some (''invalid shared '' @ ld_EntityType d @ '' previous status'')
      | Some prev \<Rightarrow> fail_if (prev \<noteq> n \<and> \<not> List.member (transitions d prev) n)
          (''invalid shared '' @ ld_EntityType d @ '' status transition '' @ go_quote prev @ '' to '' @ go_quote n)) = None"
    by (auto simp: validateSharedLifecycleStatus_def split: option.splits)
  from rest obtain p where p: "status_in previous (ld_AllowedStatuses d) = Some p"
    and step: "p = n \<or> n \<in> set (transitions d p)"
    by (cases "status_in previous (ld_AllowedStatuses d)") auto
  show ?thesis
    by (rule that [of p n]) (use n p step typed assms(1) in \<open>auto simp: status_in_Some lifecycle_step_iff\<close>)
qed

text \<open>The position of a status in the list the registry gives.\<close>

fun position :: "'a list \<Rightarrow> 'a \<Rightarrow> nat" where
  "position [] x = 0"
| "position (y # ys) x = (if x = y then 0 else Suc (position ys x))"

definition status_rank :: "string \<Rightarrow> string \<Rightarrow> nat" where
  "status_rank et s = (case sharedLifecycle et of None \<Rightarrow> 0 | Some d \<Rightarrow> position (ld_AllowedStatuses d) s)"

definition forward_types :: "string list" where
  "forward_types = [''milestone'', ''task'', ''adr'', ''rule'', ''journal'']"

lemma statuses_simps:
  "map_option ld_AllowedStatuses (sharedLifecycle ''milestone'') = Some [''planned'', ''active'', ''completed'', ''archived'']"
  "map_option ld_AllowedStatuses (sharedLifecycle ''task'') = Some [''planned'', ''ready'', ''done'', ''archived'']"
  "map_option ld_AllowedStatuses (sharedLifecycle ''adr'') = Some [''proposed'', ''accepted'', ''superseded'', ''archived'']"
  "map_option ld_AllowedStatuses (sharedLifecycle ''rule'') = Some [''proposed'', ''accepted'', ''archived'']"
  by (simp_all add: sharedLifecycle_def sharedLifecycleRegistry_def)

lemma status_rank_code:
  "map_option ld_AllowedStatuses (sharedLifecycle et) = Some ss \<Longrightarrow> status_rank et s = position ss s"
  by (auto simp: status_rank_def)

lemma edges_forward:
  assumes "et \<in> set forward_types"
  shows "\<forall>(s, t) \<in> set (lifecycle_edges et). status_rank et s < status_rank et t"
proof -
  have "et \<in> {''milestone'', ''task'', ''adr'', ''rule'', ''journal''}" using assms by (simp add: forward_types_def)
  then show ?thesis
    by (elim insertE) (simp_all add: lifecycle_edges_simps status_rank_code [OF statuses_simps(1)]
        status_rank_code [OF statuses_simps(2)] status_rank_code [OF statuses_simps(3)]
        status_rank_code [OF statuses_simps(4)])
qed

lemma step_forward:
  "et \<in> set forward_types \<Longrightarrow> lifecycle_step et s t \<Longrightarrow> status_rank et s < status_rank et t"
  using edges_forward by (fastforce simp: lifecycle_step_edges)

lemma reachable_forward:
  assumes "et \<in> set forward_types" and "(lifecycle_step et)\<^sup>*\<^sup>* s t"
  shows "s = t \<or> status_rank et s < status_rank et t"
  using assms(2) by (induction rule: rtranclp_induct) (use step_forward [OF assms(1)] in force)+

lemma archived_final: "\<not> lifecycle_step et ''archived'' t"
proof
  assume "lifecycle_step et ''archived'' t"
  then obtain d where "sharedLifecycle et = Some d" "t \<in> set (transitions d ''archived'')"
    by (auto simp: lifecycle_step_iff)
  then have "map_of (ld_AllowedTransitions d) ''archived'' \<noteq> None"
    by (cases "map_of (ld_AllowedTransitions d) ''archived''") (simp_all add: transitions_def)
  moreover have "list_all (\<lambda>(et, d). map_of (ld_AllowedTransitions d) ''archived'' = None) sharedLifecycleRegistry"
    by (simp add: sharedLifecycleRegistry_def)
  ultimately show False using \<open>sharedLifecycle et = Some d\<close> by (auto simp: lifecycle_in_registry list_all_iff)
qed

section \<open>What the track and milestone policies accept\<close>

text \<open>
  The moves of a track by kind of mutation: an edit while planned, membership changes after the
  start, submission, acceptance, cancellation, archival, and mutations of any other kind that keep
  the status of a live track.
\<close>

definition frozen_track :: "string \<Rightarrow> bool" where
  "frozen_track s \<longleftrightarrow> s = ''accepted'' \<or> s = ''archived'' \<or> s = ''cancelled''"

definition membership_kind :: "string \<Rightarrow> bool" where
  "membership_kind k \<longleftrightarrow> k = ''track-append-task'' \<or> k = ''track-remove-task''"

definition other_track_kind :: "string \<Rightarrow> bool" where
  "other_track_kind k \<longleftrightarrow> k \<noteq> ''track-update'' \<and> \<not> membership_kind k \<and> k \<noteq> ''track-submit'' \<and> k \<noteq> ''track-accept''
     \<and> k \<noteq> ''track-cancel'' \<and> k \<noteq> ''track-archive''"

inductive track_move :: "string \<Rightarrow> string \<Rightarrow> string \<Rightarrow> bool" where
  update: "track_move ''track-update'' ''planned'' ''planned''"
| membership: "membership_kind k \<Longrightarrow> \<not> frozen_track p \<Longrightarrow> p \<noteq> ''planned'' \<Longrightarrow> n \<noteq> ''planned'' \<Longrightarrow> track_move k p n"
| submit: "p = ''ready'' \<or> p = ''stale'' \<or> p = ''review_pending'' \<Longrightarrow> track_move ''track-submit'' p ''review_pending''"
| accept: "track_move ''track-accept'' ''review_pending'' ''accepted''"
| cancel: "track_move ''track-cancel'' ''planned'' ''cancelled''"
| archive: "p = ''accepted'' \<or> p = ''cancelled'' \<Longrightarrow> track_move ''track-archive'' p ''archived''"
| other: "other_track_kind k \<Longrightarrow> \<not> frozen_track p \<Longrightarrow> track_move k p p"

inductive_simps track_move_iff: "track_move k p n"

lemma track_kind_cases:
  obtains "k = ''track-update''" | "membership_kind k" | "k = ''track-submit''" | "k = ''track-accept''"
  | "k = ''track-cancel''" | "k = ''track-archive''" | "other_track_kind k"
  unfolding other_track_kind_def by blast

lemma track_kinds_apart:
  "\<not> membership_kind ''track-update''" "\<not> membership_kind ''track-submit''" "\<not> membership_kind ''track-accept''"
  "\<not> membership_kind ''track-cancel''" "\<not> membership_kind ''track-archive''"
  "\<not> other_track_kind ''track-update''" "\<not> other_track_kind ''track-submit''" "\<not> other_track_kind ''track-accept''"
  "\<not> other_track_kind ''track-cancel''" "\<not> other_track_kind ''track-archive''"
  "membership_kind k \<Longrightarrow> \<not> other_track_kind k"
  by (simp_all add: membership_kind_def other_track_kind_def)

definition track_rule :: "string \<Rightarrow> string \<Rightarrow> string \<Rightarrow> bool" where
  "track_rule k p n \<longleftrightarrow>
     (frozen_track p \<longrightarrow> k = ''track-archive'')
     \<and> (if k = ''track-update'' then p = ''planned'' \<and> n = ''planned''
        else if membership_kind k then p \<noteq> ''planned'' \<and> n \<noteq> ''planned''
        else if k = ''track-submit'' then n = ''review_pending'' \<and> (p = ''ready'' \<or> p = ''stale'' \<or> p = ''review_pending'')
        else if k = ''track-accept'' then p = ''review_pending'' \<and> n = ''accepted''
        else if k = ''track-cancel'' then p = ''planned'' \<and> n = ''cancelled''
        else if k = ''track-archive'' then (p = ''accepted'' \<or> p = ''cancelled'') \<and> n = ''archived''
        else p = n)"

lemma track_rule_move: "track_rule k p n \<longleftrightarrow> track_move k p n"
proof (cases k rule: track_kind_cases)
  case 1
  then show ?thesis by (auto simp: track_rule_def track_move_iff track_kinds_apart frozen_track_def)
next
  case 2
  then have "k \<noteq> ''track-update''" "k \<noteq> ''track-submit''" "k \<noteq> ''track-accept''" "k \<noteq> ''track-cancel''"
    "k \<noteq> ''track-archive''" "\<not> other_track_kind k" using track_kinds_apart by metis+
  with 2 show ?thesis by (auto simp: track_rule_def track_move_iff)
next
  case 3
  then show ?thesis by (auto simp: track_rule_def track_move_iff track_kinds_apart frozen_track_def)
next
  case 4
  then show ?thesis by (auto simp: track_rule_def track_move_iff track_kinds_apart frozen_track_def)
next
  case 5
  then show ?thesis by (auto simp: track_rule_def track_move_iff track_kinds_apart frozen_track_def)
next
  case 6
  then show ?thesis by (auto simp: track_rule_def track_move_iff track_kinds_apart frozen_track_def)
next
  case 7
  then have "k \<noteq> ''track-update''" "k \<noteq> ''track-submit''" "k \<noteq> ''track-accept''" "k \<noteq> ''track-cancel''"
    "k \<noteq> ''track-archive''" "\<not> membership_kind k" by (simp_all add: other_track_kind_def)
  with 7 show ?thesis by (auto simp: track_rule_def track_move_iff)
qed

lemma if_None_iff: "((if c then x else y) = None) \<longleftrightarrow> (if c then x = None else y = None)"
  by simp

lemma track_policy_rule:
  "validateTrackMutation previous payload kind = None \<longleftrightarrow>
     (\<exists>p n. decode_track previous = Some p \<and> decode_track payload = Some n
        \<and> track_rule kind (tk_Status p) (tk_Status n) \<and> tk_Milestone n = tk_Milestone p)"
proof (cases "decode_track previous"; cases "decode_track payload")
  fix p n assume d: "decode_track previous = Some p" "decode_track payload = Some n"
  have frozen: "(\<not> ((p = ''accepted'' \<or> p = ''archived'') \<and> k \<noteq> ''track-archive'') \<and> \<not> (p = ''cancelled'' \<and> k \<noteq> ''track-archive''))
      \<longleftrightarrow> (frozen_track p \<longrightarrow> k = ''track-archive'')" for p k
    unfolding frozen_track_def by meson
  show ?thesis
    by (simp only: validateTrackMutation_def d Let_def prod.case option.case first_error_Cons_None first_error.simps
        if_None_iff fail_if_None frozen [symmetric] track_rule_def membership_kind_def de_Morgan_disj de_Morgan_conj
        not_not simp_thms conj_assoc option.inject ex_simps cong: if_cong)
qed (simp_all add: validateTrackMutation_def)

section \<open>Sample payloads\<close>

definition sample_payload :: "string \<Rightarrow> nat \<Rightarrow> string" where
  "sample_payload status revision =
     json_object (map (apsnd flat_text) [(''status'', Flat_string status), (''revision'', Flat_number revision)])"

lemma plain_names: "plain ''status''" "plain ''revision''" "plain ''planned''" "plain ''ready''" "plain ''done''"
  by (simp_all add: plain_def plain_char_def byte_def)

lemma sample_members:
  "plain s \<Longrightarrow> \<forall>(k, v) \<in> set [(''status'', Flat_string s), (''revision'', Flat_number n)]. plain k \<and> flat_plain v"
  by (simp add: plain_names)

lemma fold_names: "fold_name ''revision'' \<noteq> fold_name ''status''"
proof -
  have "length (fold_name ''revision'') = 8" "length (fold_name ''status'') = 6"
    by (simp_all add: fold_name_plain plain_names)
  then show ?thesis by auto
qed

lemma struct_field_names:
  "struct_field [(''status'', f)] ''status'' = Some f" "struct_field [(''status'', f)] ''revision'' = None"
  using fold_names by (simp_all add: struct_field_def)

lemma sample_status: "plain s \<Longrightarrow> decode_status (sample_payload s n) = Some s"
  unfolding decode_status_def sample_payload_def json_Unmarshal_flat [OF list.distinct(2) sample_members]
  by (simp add: plain_names unquote_plain struct_field_names dec_string_def)

lemma sample_revision:
  "plain s \<Longrightarrow> 1 \<le> n \<Longrightarrow> n < 9223372036854775808 \<Longrightarrow> sharedPayloadLogicalRevision (sample_payload s n) = Some (int n)"
  unfolding sharedPayloadLogicalRevision_def sample_payload_def decode_map_flat [OF list.distinct(2) sample_members]
  by (simp add: parse_int64_dec)

lemma sample_nonempty: "sample_payload s n \<noteq> ''''"
  unfolding sample_payload_def json_object_members by simp

lemma task_definition:
  obtains d where "sharedLifecycle ''task'' = Some d" "ld_EntityType d = ''task''" "ld_DefaultCreateStatus d = ''planned''"
    "ld_AllowedStatuses d = [''planned'', ''ready'', ''done'', ''archived'']" "ld_StateTable d = ''shared_tasks''"
    "ld_HistoryTable d = ''shared_entity_revisions''" "ld_SequenceTable d = ''shared_entity_sequences''"
    "ld_IDToken d = ''TSK''" "ld_AllowedCreateStatuses d = [''planned'']"
    "ld_AllowedTransitions d = [(''planned'', [''ready'', ''done'', ''archived'']), (''ready'', [''done'', ''archived'']), (''done'', [''archived''])]"
    "ld_ArchiveStatus d = ''archived''" "ld_StatusMutationKind d = ''complete''"
  by (rule that [of "the (sharedLifecycle ''task'')"]) (simp_all add: sharedLifecycle_def sharedLifecycleRegistry_def)

end
