(* ===== verification/Shared_Store_Laws.thy ===== *)
theory Shared_Store_Laws
  imports Shared_Events Lifecycle_Laws
begin

text \<open>
  Laws of the Shared database: tables with unique keys as one interface with four instances, what
  a successful batch has done, and a rule system for relations between the database before and
  after an operation, whatever other writers commit in between.
\<close>

section \<open>The sqlite driver\<close>

lemma sqlite_atomic: "atomic_driver (sqlite now)"
  unfolding atomic_driver_def sqlite_def
  by (auto simp: sqlite_batch_def split: sum.splits option.splits store_error.splits)

lemma sqlite_simps [simp]:
  "dv_others (sqlite now) k db = db" "dv_fault (sqlite now) k = None" "dv_Shared (sqlite now)" "dv_Local (sqlite now)"
  "dv_batch (sqlite now) = sqlite_batch" "dv_json_revision (sqlite now) = sharedPayloadLogicalRevision"
  "dv_now (sqlite now) = now"
  by (simp_all add: sqlite_def)

section \<open>Tables with a unique key\<close>

locale keyed_table =
  fixes rows :: "shared_db \<Rightarrow> 'r list"
    and key :: "'r \<Rightarrow> 'k"
    and ins :: "'r \<Rightarrow> statement"
  assumes ins_None: "ins r db = None \<longleftrightarrow> key r \<in> key ` set (rows db)"
    and ins_Some: "ins r db = Some (db', n) \<Longrightarrow> n = 1 \<and> (\<exists>r'. rows db' = rows db @ [r'] \<and> key r' = key r)"
begin

lemma ins_fresh: "ins r db = Some (db', n) \<Longrightarrow> key r \<notin> key ` set (rows db)"
  using ins_None [of r db] by auto

lemma ins_count: "ins r db = Some (db', n) \<Longrightarrow> n = 1"
  using ins_Some by blast

lemma ins_distinct:
  assumes "distinct (map key (rows db))" and "ins r db = Some (db', n)"
  shows "distinct (map key (rows db'))"
proof -
  obtain r' where "rows db' = rows db @ [r']" "key r' = key r" using ins_Some [OF assms(2)] by blast
  then show ?thesis using assms(1) ins_fresh [OF assms(2)] by simp
qed

lemma ins_keeps_found:
  assumes "ins r db = Some (db', n)" and "find (\<lambda>x. key x = k) (rows db) = Some x"
  shows "find (\<lambda>x. key x = k) (rows db') = Some x"
proof -
  obtain r' where r': "rows db' = rows db @ [r']" using ins_Some [OF assms(1)] by blast
  have "find P xs = Some x \<Longrightarrow> find P (xs @ ys) = Some x" for P and xs ys :: "'r list"
    by (induction xs) auto
  then show ?thesis using r' assms(2) by simp
qed

lemma twice_fails:
  assumes "ins r db = Some (db', n)"
  shows "ins r db' = None"
proof -
  obtain r' where "rows db' = rows db @ [r']" "key r' = key r" using ins_Some [OF assms] by blast
  then show ?thesis by (subst ins_None) (auto simp: image_iff intro: bexI [of _ r'])
qed

end

definition history_key_of :: "history_row \<Rightarrow> string \<times> string \<times> int" where
  "history_key_of h = (hr_entity_type h, hr_entity_id h, hr_revision h)"

lemma history_at_key: "history_at db et i v = find (\<lambda>h. history_key_of h = (et, i, v)) (sd_history db)"
  by (simp add: history_at_def history_key_of_def)

lemma find_None_key: "find (\<lambda>x. f x = k) xs = None \<longleftrightarrow> k \<notin> f ` set xs"
  by (auto simp: find_None_iff)

interpretation history_table: keyed_table sd_history history_key_of insert_history
proof unfold_locales
  fix r db
  show "insert_history r db = None \<longleftrightarrow> history_key_of r \<in> history_key_of ` set (sd_history db)"
    using find_None_key [of history_key_of "history_key_of r" "sd_history db"]
    by (auto simp: insert_history_def history_at_key history_key_of_def [of r, symmetric])
next
  fix r db db' n
  assume "insert_history r db = Some (db', n)"
  then show "n = 1 \<and> (\<exists>r'. sd_history db' = sd_history db @ [r'] \<and> history_key_of r' = history_key_of r)"
    by (auto simp: insert_history_def split: if_splits)
qed

interpretation outbox_table: keyed_table sd_outbox or_id insert_outbox
proof unfold_locales
  fix r db
  show "insert_outbox r db = None \<longleftrightarrow> or_id r \<in> or_id ` set (sd_outbox db)"
    using find_None_key [of or_id "or_id r" "sd_outbox db"] by (auto simp: insert_outbox_def outbox_at_def)
next
  fix r db db' n
  assume "insert_outbox r db = Some (db', n)"
  then show "n = 1 \<and> (\<exists>r'. sd_outbox db' = sd_outbox db @ [r'] \<and> or_id r' = or_id r)"
    by (auto simp: insert_outbox_def split: if_splits)
qed

interpretation event_table: keyed_table sd_events ev_operation_id insert_event
proof unfold_locales
  fix r db
  show "insert_event r db = None \<longleftrightarrow> ev_operation_id r \<in> ev_operation_id ` set (sd_events db)"
    by (auto simp: insert_event_def list_ex_iff image_iff eq_commute [of "ev_operation_id r"])
next
  fix r db db' n
  assume "insert_event r db = Some (db', n)"
  then show "n = 1 \<and> (\<exists>r'. sd_events db' = sd_events db @ [r'] \<and> ev_operation_id r' = ev_operation_id r)"
    by (auto simp: insert_event_def split: if_splits)
qed

interpretation state_table: keyed_table "\<lambda>db. sd_tables db t" se_ID "insert_state t" for t
proof unfold_locales
  fix r db
  show "insert_state t r db = None \<longleftrightarrow> se_ID r \<in> se_ID ` set (sd_tables db t)"
    using find_None_key [of se_ID "se_ID r" "sd_tables db t"] by (auto simp: insert_state_def entity_row_def)
next
  fix r db db' n
  assume "insert_state t r db = Some (db', n)"
  then show "n = 1 \<and> (\<exists>r'. sd_tables db' t = sd_tables db t @ [r'] \<and> se_ID r' = se_ID r)"
    by (auto simp: insert_state_def split: if_splits)
qed

section \<open>Batches\<close>

lemma run_statements_Cons [store_step]:
  "run_statements ((st, required) # sts) db = Inr db' \<longleftrightarrow>
     (\<exists>mid n. st db = Some (mid, n) \<and> (required = 0 \<or> n = required) \<and> run_statements sts mid = Inr db')"
  by (auto simp: run_statements.simps split: option.splits if_splits)

lemma run_statements_append:
  "run_statements (xs @ ys) db = Inr db' \<longleftrightarrow> (\<exists>mid. run_statements xs db = Inr mid \<and> run_statements ys mid = Inr db')"
proof (induction xs arbitrary: db)
  case (Cons x xs)
  then show ?case by (cases x) (auto simp: run_statements_Cons)
qed simp

definition statement_keeps :: "(shared_db \<Rightarrow> shared_db \<Rightarrow> bool) \<Rightarrow> statement \<Rightarrow> bool" where
  "statement_keeps R st \<longleftrightarrow> (\<forall>db db' n. st db = Some (db', n) \<longrightarrow> R db db')"

definition batch_keeps :: "(shared_db \<Rightarrow> shared_db \<Rightarrow> bool) \<Rightarrow> batch \<Rightarrow> bool" where
  "batch_keeps R sts \<longleftrightarrow> (\<forall>(st, n) \<in> set sts. statement_keeps R st)"

lemma batch_keeps_simps [simp]:
  "batch_keeps R []" "batch_keeps R ((st, n) # sts) \<longleftrightarrow> statement_keeps R st \<and> batch_keeps R sts"
  "batch_keeps R (xs @ ys) \<longleftrightarrow> batch_keeps R xs \<and> batch_keeps R ys"
  by (auto simp: batch_keeps_def)

text \<open>What of an outbox row never changes once it is written.\<close>

definition outbox_identity :: "outbox_row \<Rightarrow> string \<times> string \<times> string \<times> int \<times> string \<times> string \<times> string" where
  "outbox_identity o' = (or_id o', or_entity_type o', or_entity_id o', or_revision o', or_kind o', or_payload o', or_created_at o')"

section \<open>Operations and relations between databases\<close>

text \<open>
  \<open>keeps R m\<close>: however the operation \<open>m\<close> ends, the database after it is related to the one
  before it. The locale collects what a relation must satisfy, other writers included.
\<close>

definition keeps :: "(shared_db \<Rightarrow> shared_db \<Rightarrow> bool) \<Rightarrow> 'a io \<Rightarrow> bool" where
  "keeps R m \<longleftrightarrow> (\<forall>k db r k' db'. m (k, db) = (r, k', db') \<longrightarrow> R db db')"

locale store_relation =
  fixes dv :: driver and R :: "shared_db \<Rightarrow> shared_db \<Rightarrow> bool"
  assumes atomic: "atomic_driver dv"
    and same: "R db db"
    and trans: "R a b \<Longrightarrow> R b c \<Longrightarrow> R a c"
    and others: "R db (dv_others dv k db)"
begin

lemma run_keeps: "batch_keeps R sts \<Longrightarrow> run_statements sts db = Inr db' \<Longrightarrow> R db db'"
proof (induction sts arbitrary: db)
  case (Cons x sts)
  obtain st n where x: "x = (st, n)" by (cases x)
  with Cons.prems obtain mid m where "st db = Some (mid, m)" "run_statements sts mid = Inr db'"
    by (auto simp: run_statements_Cons)
  moreover from this have "R mid db'" using Cons x by simp
  ultimately show ?case using Cons.prems(1) x trans [of db mid db'] by (auto simp: statement_keeps_def)
qed (simp add: same)

lemma keeps_return [intro]: "keeps R (io_return x)" "keeps R (io_fail e)" "keeps R (io_error m)"
  by (simp_all add: keeps_def io_return_def io_fail_def io_error_def same)

lemma keeps_result [intro]: "keeps R (io_result r)"
  by (cases r) (auto simp: io_result_def)

lemma keeps_bind [intro]: "keeps R m \<Longrightarrow> (\<And>x. keeps R (f x)) \<Longrightarrow> keeps R (io_bind m f)"
  unfolding keeps_def io_bind_def by (auto split: prod.splits sum.splits) (metis trans)+

lemma keeps_try [intro]: "keeps R m \<Longrightarrow> keeps R (io_try m)"
  unfolding keeps_def io_try_def by (auto split: prod.splits)

lemma keeps_check [intro]: "keeps R m \<Longrightarrow> keeps R (io_check e m)"
  by (cases e) (auto simp: io_check_def)

lemma keeps_query [intro]: "keeps R (io_query dv q)"
  unfolding keeps_def io_query_def by (auto simp: Let_def others split: option.splits)

lemma batch_outcome:
  assumes "dv_batch dv k sts db = (db', e)"
  shows "(e = None \<longrightarrow> run_statements sts db = Inr db') \<and> (db' = db \<or> run_statements sts db = Inr db')"
proof -
  note a = atomic [unfolded atomic_driver_def, rule_format, OF assms]
  show ?thesis
  proof (cases e)
    case (Some err)
    then show ?thesis using a by (cases err) auto
  qed (use a in simp)
qed

lemma keeps_batch [intro]:
  assumes "batch_keeps R sts"
  shows "keeps R (io_batch dv sts)"
proof -
  have "R db db'" if "dv_batch dv k sts (dv_others dv k db) = (db', e)" for k db db' e
    using batch_outcome [OF that] run_keeps [OF assms] others [of db k] trans by metis
  then show ?thesis unfolding keeps_def io_batch_def by (auto split: prod.splits option.splits)
qed

lemma keeps_exec [intro]: "statement_keeps R st \<Longrightarrow> keeps R (io_exec dv st)"
  by (rule keeps_batch) simp

lemma keeps_exec_rows [intro]:
  assumes "statement_keeps R st"
  shows "keeps R (io_exec_rows dv st)"
proof -
  have sts: "batch_keeps R [(st, 0)]" using assms by simp
  have "R db db'" if "dv_batch dv k [(st, 0)] (dv_others dv k db) = (db', e)" for k db db' e
    using batch_outcome [OF that] run_keeps [OF sts] others [of db k] trans by metis
  then show ?thesis unfolding keeps_def io_exec_rows_def by (auto simp: Let_def split: prod.splits option.splits)
qed

lemma keeps_commit [intro]:
  "batch_keeps R sts \<Longrightarrow> keeps R m \<Longrightarrow> (\<And>e. keeps R (f e)) \<Longrightarrow> keeps R (commit_or_reuse dv op sts m f)"
  unfolding commit_or_reuse_def outboxEntry_def
  by (intro keeps_bind keeps_try keeps_batch keeps_query)
    (auto split: sum.splits option.splits intro!: keeps_bind keeps_try keeps_query)

lemma keeps_outbox [intro]: "keeps R (outboxEntry dv i)"
  unfolding outboxEntry_def by (rule keeps_query)

lemma keeps_if: "keeps R m \<Longrightarrow> keeps R n \<Longrightarrow> keeps R (if b then m else n)"
  by simp

lemma keeps_option: "keeps R m \<Longrightarrow> (\<And>x. keeps R (f x)) \<Longrightarrow> keeps R (case v of None \<Rightarrow> m | Some x \<Rightarrow> f x)"
  by (cases v) auto

lemma keeps_sum:
  "(\<And>e. v = Inl e \<Longrightarrow> keeps R (f e)) \<Longrightarrow> (\<And>x. v = Inr x \<Longrightarrow> keeps R (g x)) \<Longrightarrow> keeps R (case v of Inl e \<Rightarrow> f e | Inr x \<Rightarrow> g x)"
  by (cases v) auto

lemma keeps_pair: "(\<And>x y. keeps R (f x y)) \<Longrightarrow> keeps R (case v of (x, y) \<Rightarrow> f x y)"
  by (cases v) auto

lemma keeps_let: "keeps R (f v) \<Longrightarrow> keeps R (Let v f)"
  by simp

lemmas keeps_rules = keeps_return keeps_result keeps_bind keeps_try keeps_check keeps_query keeps_outbox keeps_batch
  keeps_exec_rows keeps_commit keeps_if keeps_option keeps_sum keeps_pair keeps_let

lemma keeps_retirement_reads [intro]:
  "keeps R (ReadSharedProjectRetirement dv p)" "keeps R (IsLocalProjectRetired dv p)"
  unfolding ReadSharedProjectRetirement_def IsLocalProjectRetired_def ReadLocalProjectRetirement_def
  by (intro keeps_rules)+

lemma keeps_next_number [intro]:
  assumes "\<And>e p c n. statement_keeps R (insert_sequence_or_ignore e p c n)"
  shows "keeps R (nextSharedLifecycleNumber dv d p c n)"
  unfolding nextSharedLifecycleNumber_def by (intro keeps_rules) (simp_all add: assms)

lemma keeps_reuse_created [intro]: "keeps R (reuse_created op et kind entry)"
  unfolding reuse_created_def by (intro keeps_rules)

lemma keeps_revision:
  assumes "\<And>d rec. batch_keeps R (revision_statements dv d rq rec)"
  shows "keeps R (CommitSharedLifecycleRevision dv rq)"
  unfolding CommitSharedLifecycleRevision_def reuse_revised_def by (intro keeps_rules) (rule assms)

lemma keeps_event:
  assumes "\<And>d rec. batch_keeps R (event_statements dv d rq rec)"
  shows "keeps R (CommitSharedLifecycleEvent dv rq)"
  unfolding CommitSharedLifecycleEvent_def by (intro keeps_rules) (rule assms)

lemma keeps_mutation:
  assumes "\<And>t rec. batch_keeps R (mutation_statements t m rec)"
  shows "keeps R (CommitSharedMutation dv m)"
  unfolding CommitSharedMutation_def by (intro keeps_rules keeps_retirement_reads) (rule assms)

lemma keeps_store_error: "(\<And>m. keeps R (f m)) \<Longrightarrow> (\<And>m. keeps R (g m)) \<Longrightarrow> keeps R a \<Longrightarrow> keeps R b \<Longrightarrow> keeps R c
    \<Longrightarrow> keeps R (case e of RowsAffectedMismatch \<Rightarrow> a | NotExist m \<Rightarrow> f m | LocalProjectRetired \<Rightarrow> b
          | ProjectRetirementConflict \<Rightarrow> c | Failure m \<Rightarrow> g m)"
  by (cases e) auto

lemma keeps_create_once:
  assumes "\<And>e p c n. statement_keeps R (insert_sequence_or_ignore e p c n)"
    and "\<And>d a r n i p h c. batch_keeps R (create_statements d rq a r n i p h c)"
    and "\<And>f i extra. lc_ExtraStatements rq = Some f \<Longrightarrow> f i = Inr extra \<Longrightarrow> batch_keeps R extra"
  shows "keeps R (commitSharedLifecycleCreateOnce dv rq)"
proof -
  have extra: "batch_keeps R xs" if "(case lc_ExtraStatements rq of None \<Rightarrow> Inr [] | Some f \<Rightarrow> f i) = Inr xs" for i xs
    using that assms(3) by (cases "lc_ExtraStatements rq") auto
  show ?thesis
    unfolding commitSharedLifecycleCreateOnce_def create_numbered_def
    by (intro keeps_rules keeps_next_number keeps_reuse_created) (auto simp: assms(1,2) dest: extra)
qed

lemma keeps_create:
  assumes "\<And>e p c n. statement_keeps R (insert_sequence_or_ignore e p c n)"
    and "\<And>d a r n i p h c. batch_keeps R (create_statements d rq a r n i p h c)"
    and "\<And>f i extra. lc_ExtraStatements rq = Some f \<Longrightarrow> f i = Inr extra \<Longrightarrow> batch_keeps R extra"
  shows "keeps R (CommitSharedLifecycleCreate dv rq)"
proof -
  have "keeps R (create_attempts n dv rq)" for n
    by (induction n) (auto intro!: keeps_rules keeps_store_error keeps_create_once assms)
  then show ?thesis by (simp add: CommitSharedLifecycleCreate_def)
qed

lemma keeps_create_step:
  assumes "\<And>e p c n. statement_keeps R (insert_sequence_or_ignore e p c n)"
    and "\<And>n i p c. batch_keeps R (plain_create_statements et t rq n i p c)"
  shows "keeps R (create_step dv et t d rq)"
  unfolding create_step_def
  by (intro keeps_rules keeps_next_number keeps_reuse_created) (auto simp: assms)

lemma keeps_task_create:
  assumes "\<And>e p c n. statement_keeps R (insert_sequence_or_ignore e p c n)"
    and "\<And>et t n i p c. batch_keeps R (plain_create_statements et t rq n i p c)"
  shows "keeps R (CommitSharedTaskCreate dv rq)" "keeps R (CommitSharedADRCreate dv rq)"
proof -
  have "keeps R (task_create_attempts n dv d rq)" for n d
    by (induction n) (auto intro!: keeps_rules keeps_store_error keeps_create_step assms)
  then show "keeps R (CommitSharedTaskCreate dv rq)"
    unfolding CommitSharedTaskCreate_def by (auto intro!: keeps_rules)
  show "keeps R (CommitSharedADRCreate dv rq)"
    unfolding CommitSharedADRCreate_def by (auto intro!: keeps_rules keeps_create_step assms)
qed

lemma keeps_ensure_history:
  assumes "\<And>h. statement_keeps R (insert_history h)"
  shows "keeps R (EnsureSharedLifecycleHistory dv et r)"
  unfolding EnsureSharedLifecycleHistory_def readStoredSharedRevision_def same_history_def no_history_def
  by (intro keeps_rules keeps_store_error keeps_exec) (auto simp: assms)

lemma keeps_ensure_event:
  assumes "\<And>e. statement_keeps R (insert_event e)"
  shows "keeps R (EnsureSharedLifecycleEvent dv e)"
  unfolding EnsureSharedLifecycleEvent_def ReadSharedEntity_def
  by (intro keeps_rules keeps_exec) (auto simp: assms)

lemma keeps_projection:
  assumes "\<And>t e. statement_keeps R (upsert_projection t e)" "\<And>p t e. statement_keeps R (unless_retired p (upsert_projection t e))"
  shows "keeps R (PutSharedProjection dv et e)"
  unfolding PutSharedProjection_def
  by (intro keeps_rules keeps_retirement_reads keeps_exec) (auto simp: assms)

lemma keeps_marks:
  assumes "\<And>i f. (\<And>x. outbox_identity (f x) = outbox_identity x) \<Longrightarrow> statement_keeps R (update_outbox i f)"
  shows "keeps R (MarkOutboxPublished dv i at)" "keeps R (MarkOutboxRetry dv i at cause)"
    "keeps R (MarkOutboxCancelled dv i reason at)"
  unfolding MarkOutboxPublished_def MarkOutboxRetry_def MarkOutboxCancelled_def
  by (intro keeps_rules keeps_exec; auto intro!: assms simp: outbox_identity_def)+

end

end
