(* ===== verification/Shared_Store_Properties.thy ===== *)
theory Shared_Store_Properties
  imports Shared_Store_Laws
begin

text \<open>
  What every operation of the Shared store guarantees, whatever the other writers do within the
  same guarantees: the history, the events and the identity of outbox entries are append-only,
  entities never disappear, and the keys of every table stay unique.
\<close>

section \<open>The operations\<close>

text \<open>The mutating operations of the store as one type, and their execution without the result.\<close>

datatype store_op =
    Create SharedLifecycleCreate
  | Revise SharedLifecycleRevision
  | Archive SharedLifecycleRevision
  | Change_status SharedLifecycleEventRequest
  | Mutate SharedMutation
  | Create_task SharedTaskCreate
  | Create_adr SharedTaskCreate
  | Ensure_history string SharedRevisionRecord
  | Ensure_event SharedLifecycleEvent
  | Put_projection string SharedEntity
  | Seed_task SharedEntity
  | Mark_published string gotime
  | Mark_retry string gotime error
  | Mark_cancelled string string gotime
  | Reconcile_sequence string string string int
  | Put_sequence string string string int

definition io_void :: "'a io \<Rightarrow> unit io" where
  "io_void m = io_bind m (\<lambda>_. io_return ())"

fun run_op :: "driver \<Rightarrow> store_op \<Rightarrow> unit io" where
  "run_op dv (Create rq) = io_void (CommitSharedLifecycleCreate dv rq)"
| "run_op dv (Revise rq) = io_void (CommitSharedLifecycleRevision dv rq)"
| "run_op dv (Archive rq) = io_void (CommitSharedLifecycleArchive dv rq)"
| "run_op dv (Change_status rq) = io_void (CommitSharedLifecycleEvent dv rq)"
| "run_op dv (Mutate m) = io_void (CommitSharedMutation dv m)"
| "run_op dv (Create_task rq) = io_void (CommitSharedTaskCreate dv rq)"
| "run_op dv (Create_adr rq) = io_void (CommitSharedADRCreate dv rq)"
| "run_op dv (Ensure_history et r) = EnsureSharedLifecycleHistory dv et r"
| "run_op dv (Ensure_event e) = EnsureSharedLifecycleEvent dv e"
| "run_op dv (Put_projection et e) = PutSharedProjection dv et e"
| "run_op dv (Seed_task e) = SeedSharedTask dv e"
| "run_op dv (Mark_published i at) = MarkOutboxPublished dv i at"
| "run_op dv (Mark_retry i at cause) = MarkOutboxRetry dv i at cause"
| "run_op dv (Mark_cancelled i reason at) = MarkOutboxCancelled dv i reason at"
| "run_op dv (Reconcile_sequence et p c n) = ReconcileSharedSequence dv et p c n"
| "run_op dv (Put_sequence et p c n) = PutSharedSequence dv et p c n"

text \<open>The additional statements that a caller hands over must satisfy the relation themselves.\<close>

fun extras_keep :: "(shared_db \<Rightarrow> shared_db \<Rightarrow> bool) \<Rightarrow> store_op \<Rightarrow> bool" where
  "extras_keep R (Create rq) \<longleftrightarrow>
     (\<forall>f i extra. lc_ExtraStatements rq = Some f \<longrightarrow> f i = Inr extra \<longrightarrow> batch_keeps R extra)"
| "extras_keep R (Change_status rq) \<longleftrightarrow> batch_keeps R (eq_ExtraStatements rq)"
| "extras_keep R _ \<longleftrightarrow> True"

text \<open>A relation that every statement of the store satisfies is kept by every operation.\<close>

locale statement_relation = store_relation +
  assumes k_insert_state: "statement_keeps R (insert_state t e)"
    and k_update_state: "statement_keeps R (update_state t e c)"
    and k_insert_history: "statement_keeps R (insert_history h)"
    and k_seed_history: "statement_keeps R (seed_history h)"
    and k_insert_outbox: "statement_keeps R (insert_outbox o')"
    and k_update_outbox: "(\<And>x. outbox_identity (f x) = outbox_identity x) \<Longrightarrow> statement_keeps R (update_outbox i f)"
    and k_insert_event: "statement_keeps R (insert_event ev)"
    and k_sequences: "statement_keeps R (\<lambda>db. Some (db\<lparr>sd_sequences := g db\<rparr>, n db))"
begin

lemma k_none: "statement_keeps R (\<lambda>db. Some (db, n db))"
  by (simp add: statement_keeps_def same)

lemma k_if: "statement_keeps R s \<Longrightarrow> statement_keeps R s' \<Longrightarrow> statement_keeps R (\<lambda>db. if b db then s db else s' db)"
  by (auto simp: statement_keeps_def)

lemma k_advance: "statement_keeps R (advance_sequence e p c n)"
  unfolding advance_sequence_def by (intro k_if k_sequences k_none)

lemma k_ignore: "statement_keeps R (insert_sequence_or_ignore e p c n)"
  unfolding insert_sequence_or_ignore_def by (intro k_if k_sequences k_none)

lemma sequences_free: "R db (db\<lparr>sd_sequences := s\<rparr>)"
  using k_sequences [of "\<lambda>_. s" "\<lambda>_. 0"] by (simp add: statement_keeps_def)

lemma k_raise: "statement_keeps R (raise_sequence e p c n)"
  unfolding raise_sequence_def statement_keeps_def
  by (auto simp: sequences_free same split: option.splits if_splits)

lemma k_replace: "statement_keeps R (replace_sequence e p c n)"
  unfolding replace_sequence_def statement_keeps_def Let_def by (auto simp: sequences_free)

lemma k_unless: "statement_keeps R s \<Longrightarrow> statement_keeps R (unless_retired p s)"
  unfolding unless_retired_def by (intro k_if k_none)

lemma k_upsert: "statement_keeps R (upsert_projection t e)"
  using k_insert_state [of t e] k_update_state [of t e "\<lambda>_. True"] same
  unfolding upsert_projection_def statement_keeps_def by (auto split: option.splits if_splits)

lemmas k_all = k_insert_state k_update_state k_insert_history k_seed_history k_insert_outbox k_insert_event
  k_advance k_ignore k_raise k_replace k_unless k_upsert

lemma keeps_void: "keeps R m \<Longrightarrow> keeps R (io_void m)"
  unfolding io_void_def by (intro keeps_rules)

lemma revision_batch: "batch_keeps R (revision_statements dv d rq rec)"
  by (simp add: revision_statements_def sharedHistorySeedStatement_def k_all split: option.split)

lemma mutation_batch: "batch_keeps R (mutation_statements t m rec)"
  by (simp add: mutation_statements_def Let_def k_all)

lemma create_batch: "batch_keeps R (create_statements d rq a r n i p h c)"
  "batch_keeps R (plain_create_statements et t rq' n i p c)"
  by (simp_all add: create_statements_def plain_create_statements_def k_all)

lemma event_batch: "batch_keeps R (eq_ExtraStatements rq) \<Longrightarrow> batch_keeps R (event_statements dv d rq rec)"
  by (simp add: event_statements_def sharedHistorySeedStatement_def k_all split: option.split)

lemma every_operation_keeps: "extras_keep R op \<Longrightarrow> keeps R (run_op dv op)"
proof (induction op)
  case (Create rq)
  then show ?case by (auto intro!: keeps_void keeps_create k_all create_batch)
next
  case (Archive rq)
  show ?case unfolding run_op.simps CommitSharedLifecycleArchive_def by (intro keeps_void keeps_revision revision_batch)
next
  case (Reconcile_sequence et p c n)
  show ?case
    unfolding run_op.simps ReconcileSharedSequence_def ReadSharedSequence_def
    by (intro keeps_rules keeps_exec k_raise)
next
  case (Put_sequence et p c n)
  show ?case unfolding run_op.simps PutSharedSequence_def by (intro keeps_rules keeps_exec k_replace)
next
  case (Seed_task e)
  show ?case unfolding run_op.simps SeedSharedTask_def
    by (intro keeps_rules keeps_exec k_if k_none k_all)
qed (auto intro!: keeps_void keeps_revision keeps_event keeps_mutation keeps_task_create keeps_ensure_history
    keeps_ensure_event keeps_projection keeps_marks k_all k_update_outbox revision_batch mutation_batch create_batch
    event_batch)

end

section \<open>Append-only tables\<close>

definition extends_list :: "'a list \<Rightarrow> 'a list \<Rightarrow> bool" where
  "extends_list xs ys \<longleftrightarrow> (\<exists>zs. ys = xs @ zs)"

lemma extends_list_simps [simp]: "extends_list xs xs" "extends_list xs (xs @ ys)"
  by (auto simp: extends_list_def)

lemma extends_list_trans: "extends_list xs ys \<Longrightarrow> extends_list ys zs \<Longrightarrow> extends_list xs zs"
  by (auto simp: extends_list_def)

definition grows :: "shared_db \<Rightarrow> shared_db \<Rightarrow> bool" where
  "grows db db' \<longleftrightarrow>
     extends_list (sd_history db) (sd_history db') \<and> extends_list (sd_events db) (sd_events db')
     \<and> extends_list (map outbox_identity (sd_outbox db)) (map outbox_identity (sd_outbox db'))
     \<and> (\<forall>t. extends_list (map se_ID (sd_tables db t)) (map se_ID (sd_tables db' t)))"

lemma grows_refl [simp]: "grows db db"
  by (simp add: grows_def)

lemma grows_trans: "grows a b \<Longrightarrow> grows b c \<Longrightarrow> grows a c"
  unfolding grows_def by (meson extends_list_trans)

lemma map_hit: "(\<And>x. g (f x) = g x) \<Longrightarrow> map g (map (\<lambda>x. if P x then f x else x) xs) = map g xs"
  by auto

lemma map_hit_id: "map se_ID (map (\<lambda>r. if se_ID r = i \<and> c r then e\<lparr>se_ID := i\<rparr> else r) rs) = map se_ID rs"
  by auto

lemma grows_statements:
  "statement_keeps grows (insert_state t e)" "statement_keeps grows (update_state t e c)"
  "statement_keeps grows (insert_history h)" "statement_keeps grows (seed_history h)"
  "statement_keeps grows (insert_outbox o')"
  "(\<And>x. outbox_identity (f x) = outbox_identity x) \<Longrightarrow> statement_keeps grows (update_outbox i f)"
  "statement_keeps grows (insert_event ev)"
  "statement_keeps grows (\<lambda>db. Some (db\<lparr>sd_sequences := g db\<rparr>, n db))"
proof -
  have upd: "map se_ID (map (\<lambda>r. if se_ID r = se_ID e \<and> c r then e else r) rs) = map se_ID rs" for rs
    by auto
  show "statement_keeps grows (update_state t e c)"
    unfolding statement_keeps_def update_state_def grows_def Let_def using upd by (simp del: map_map)
  show "(\<And>x. outbox_identity (f x) = outbox_identity x) \<Longrightarrow> statement_keeps grows (update_outbox i f)"
    unfolding statement_keeps_def update_outbox_def grows_def Let_def by (simp add: map_hit del: map_map)
qed (auto simp: statement_keeps_def grows_def insert_state_def insert_history_def seed_history_def insert_outbox_def
    insert_event_def split: if_splits option.splits)

lemma grows_relation:
  "atomic_driver dv \<Longrightarrow> (\<And>k db. grows db (dv_others dv k db)) \<Longrightarrow> statement_relation dv grows"
  by unfold_locales (auto intro: grows_trans grows_statements)

section \<open>Unique keys\<close>

definition wf_store :: "shared_db \<Rightarrow> bool" where
  "wf_store db \<longleftrightarrow>
     (\<forall>t. distinct (map se_ID (sd_tables db t))) \<and> distinct (map history_key_of (sd_history db))
     \<and> distinct (map or_id (sd_outbox db)) \<and> distinct (map ev_operation_id (sd_events db))
     \<and> distinct (map ev_id (sd_events db))"

definition keeps_wf :: "shared_db \<Rightarrow> shared_db \<Rightarrow> bool" where
  "keeps_wf db db' \<longleftrightarrow> (wf_store db \<longrightarrow> wf_store db')"

lemma insert_event_ids:
  assumes "distinct (map ev_id (sd_events db))" "insert_event ev db = Some (db', n)"
  shows "distinct (map ev_id (sd_events db'))"
proof -
  define m where "m = Max (insert 0 (set (map ev_id (sd_events db))))"
  have "\<forall>x \<in> set (sd_events db). ev_id x \<le> m" unfolding m_def by simp
  then have "1 + m \<notin> ev_id ` set (sd_events db)" by force
  then show ?thesis using assms by (auto simp: insert_event_def m_def split: if_splits)
qed

lemma wf_statements:
  "statement_keeps keeps_wf (insert_state t e)" "statement_keeps keeps_wf (update_state t e c)"
  "statement_keeps keeps_wf (insert_history h)" "statement_keeps keeps_wf (seed_history h)"
  "statement_keeps keeps_wf (insert_outbox o')"
  "(\<And>x. outbox_identity (f x) = outbox_identity x) \<Longrightarrow> statement_keeps keeps_wf (update_outbox i f)"
  "statement_keeps keeps_wf (insert_event ev)"
  "statement_keeps keeps_wf (\<lambda>db. Some (db\<lparr>sd_sequences := g db\<rparr>, n db))"
proof -
  have "wf_store db'" if "wf_store db" "insert_state t e db = Some (db', n)" for db db' n
    using that state_table.ins_distinct [OF _ that(2)]
    by (auto simp: wf_store_def insert_state_def split: if_splits)
  then show "statement_keeps keeps_wf (insert_state t e)" by (auto simp: statement_keeps_def keeps_wf_def)
next
  have upd: "map se_ID (map (\<lambda>r. if se_ID r = se_ID e \<and> c r then e else r) rs) = map se_ID rs" for rs
    by auto
  then show "statement_keeps keeps_wf (update_state t e c)"
    unfolding statement_keeps_def update_state_def keeps_wf_def wf_store_def Let_def by (simp del: map_map)
next
  have "wf_store db'" if "wf_store db" "insert_history h db = Some (db', n)" for db db' n h
    using that history_table.ins_distinct [of db h db' n]
    by (auto simp: wf_store_def insert_history_def split: if_splits)
  then show ih: "statement_keeps keeps_wf (insert_history h)" for h by (auto simp: statement_keeps_def keeps_wf_def)
  have "seed_history h db = insert_history h db \<or> (\<exists>n. seed_history h db = Some (db, n))" for h db
    by (simp add: seed_history_def insert_history_def split: option.split)
  then show "statement_keeps keeps_wf (seed_history h)"
    using ih unfolding statement_keeps_def keeps_wf_def by (metis option.inject prod.inject)
next
  have "wf_store db'" if "wf_store db" "insert_outbox o' db = Some (db', n)" for db db' n
    using that outbox_table.ins_distinct [of db o' db' n]
    by (auto simp: wf_store_def insert_outbox_def split: if_splits)
  then show "statement_keeps keeps_wf (insert_outbox o')" by (auto simp: statement_keeps_def keeps_wf_def)
next
  assume "\<And>x. outbox_identity (f x) = outbox_identity x"
  then have "or_id (f x) = or_id x" for x by (simp add: outbox_identity_def)
  then have "map or_id (map (\<lambda>x. if P x then f x else x) xs) = map or_id xs" for P xs by (rule map_hit)
  then show "statement_keeps keeps_wf (update_outbox i f)"
    unfolding statement_keeps_def update_outbox_def keeps_wf_def wf_store_def Let_def by (simp del: map_map)
next
  have "wf_store db'" if "wf_store db" "insert_event ev db = Some (db', n)" for db db' n
    using that event_table.ins_distinct [of db ev db' n] insert_event_ids [of db ev db' n]
    by (auto simp: wf_store_def insert_event_def split: if_splits)
  then show "statement_keeps keeps_wf (insert_event ev)" by (auto simp: statement_keeps_def keeps_wf_def)
next
  show "statement_keeps keeps_wf (\<lambda>db. Some (db\<lparr>sd_sequences := g db\<rparr>, n db))"
    by (simp add: statement_keeps_def keeps_wf_def wf_store_def)
qed

lemma wf_relation:
  "atomic_driver dv \<Longrightarrow> (\<And>k db. keeps_wf db (dv_others dv k db)) \<Longrightarrow> statement_relation dv keeps_wf"
  by unfold_locales (assumption | rule wf_statements | simp add: keeps_wf_def)+

section \<open>The sqlite driver\<close>

interpretation sqlite_grows: statement_relation "sqlite now" grows for now
  by (rule grows_relation) (simp_all add: sqlite_atomic)

interpretation sqlite_wf: statement_relation "sqlite now" keeps_wf for now
  by (rule wf_relation) (simp_all add: sqlite_atomic keeps_wf_def)

section \<open>Properties\<close>


definition sample_row :: SharedEntity where
  "sample_row = \<lparr>se_ID = ''AAA-TSK1'', se_Revision = 1, se_Payload = sample_payload ''planned'' 1, se_UpdatedAt = ''t''\<rparr>"

definition sample_db :: shared_db where
  "sample_db = empty_db\<lparr>sd_tables := (\<lambda>t. if t = ''shared_tasks'' then [sample_row] else [])\<rparr>"


text \<open>The databases that sequences of operations lead to, starting from the empty one.\<close>

inductive reachable_store :: "driver \<Rightarrow> shared_db \<Rightarrow> bool" for dv where
  empty: "reachable_store dv empty_db"
| step: "reachable_store dv db \<Longrightarrow> extras_keep keeps_wf op \<Longrightarrow> run_op dv op (k, db) = (r, k', db')
    \<Longrightarrow> reachable_store dv db'"


lemma seed_sample: "run_op (sqlite ''t'') (Seed_task sample_row) (0, empty_db) = (Inr (), 1, sample_db)"
  by (simp add: SeedSharedTask_def sample_row_def sample_nonempty io_batch_def sqlite_batch_def run_statements_Cons
      run_statements.simps entity_row_def empty_db_def insert_state_def sample_db_def fun_eq_iff)


end
