(* ===== verification/Shared_Commit_Laws.thy ===== *)
theory Shared_Commit_Laws
  imports Shared_Store_Properties
begin

text \<open>
  What a committed operation has done: the effects of the single statements on the rows that are
  looked up by key, and how a fresh receipt traces back to the batch that was applied.
\<close>

section \<open>Effects of statements\<close>

lemma find_unique:
  assumes "distinct (map key rs)" "x \<in> set rs"
  shows "find (\<lambda>r. key r = key x) rs = Some x"
  by (rule find_Some_iff_distinct [OF assms])

lemma entity_rowD: "entity_row db t i = Some r \<Longrightarrow> r \<in> set (sd_tables db t) \<and> se_ID r = i"
  unfolding entity_row_def by (auto dest: find_key_SomeD)

lemma update_state_exact:
  assumes "distinct (map se_ID (sd_tables db t))" and "update_state t row c db = Some (db', 1)"
  shows "\<exists>old. entity_row db t (se_ID row) = Some old \<and> c old \<and> entity_row db' t (se_ID row) = Some row
     \<and> (\<forall>t' i. (t', i) \<noteq> (t, se_ID row) \<longrightarrow> entity_row db' t' i = entity_row db t' i)
     \<and> sd_history db' = sd_history db \<and> sd_outbox db' = sd_outbox db \<and> sd_events db' = sd_events db
     \<and> sd_sequences db' = sd_sequences db"
proof -
  define hit where "hit = (\<lambda>r. se_ID r = se_ID row \<and> c r)"
  define rs where "rs = sd_tables db t"
  define f where "f = (\<lambda>r. if hit r then row else r)"
  from assms(2) have db': "db' = db\<lparr>sd_tables := (sd_tables db)(t := map f rs)\<rparr>" and n: "length (filter hit rs) = 1"
    by (auto simp: update_state_def Let_def hit_def rs_def f_def)
  obtain old where "old \<in> set (filter hit rs)" using n by (cases "filter hit rs") auto
  then have old: "old \<in> set rs" "hit old" by simp_all
  have ids: "se_ID (f r) = se_ID r" for r by (auto simp: f_def hit_def)
  have found: "entity_row db t (se_ID row) = Some old"
    unfolding entity_row_def using find_unique [OF assms(1), of old] old by (simp add: rs_def hit_def)
  have "map se_ID (map f rs) = map se_ID rs" by (simp add: ids)
  then have "distinct (map se_ID (map f rs))" using assms(1) by (simp add: rs_def del: map_map)
  moreover have "row \<in> set (map f rs)" using old by (force simp: f_def)
  ultimately have new: "find (\<lambda>r. se_ID r = se_ID row) (map f rs) = Some row" by (rule find_unique)
  have other: "find (\<lambda>r. se_ID r = i) (map f xs) = find (\<lambda>r. se_ID r = i) xs" if "i \<noteq> se_ID row" for i xs
    using that by (induction xs) (auto simp: f_def hit_def)
  show ?thesis using old found new other by (auto simp: db' entity_row_def hit_def rs_def)
qed

lemma insert_history_exact:
  assumes "insert_history h db = Some (db', n)"
  shows "history_at db (hr_entity_type h) (hr_entity_id h) (hr_revision h) = None"
    "history_at db' (hr_entity_type h) (hr_entity_id h) (hr_revision h) = Some h"
    "sd_history db' = sd_history db @ [h]" "entity_row db' = entity_row db" "sd_outbox db' = sd_outbox db"
    "sd_events db' = sd_events db" "sd_sequences db' = sd_sequences db"
proof -
  from assms have fresh: "history_at db (hr_entity_type h) (hr_entity_id h) (hr_revision h) = None"
    and db': "db' = db\<lparr>sd_history := sd_history db @ [h]\<rparr>"
    by (auto simp: insert_history_def split: if_splits)
  have app: "find P xs = None \<Longrightarrow> P h \<Longrightarrow> find P (xs @ [h]) = Some h" for P and xs :: "history_row list"
    by (induction xs) (auto split: if_splits)
  show "history_at db (hr_entity_type h) (hr_entity_id h) (hr_revision h) = None" by (rule fresh)
  then show "history_at db' (hr_entity_type h) (hr_entity_id h) (hr_revision h) = Some h"
    unfolding history_at_def db' using app by simp
qed (use assms in \<open>auto simp: insert_history_def entity_row_def fun_eq_iff split: if_splits\<close>)

lemma insert_outbox_exact:
  assumes "insert_outbox o' db = Some (db', n)"
  shows "outbox_at db (or_id o') = None" "outbox_at db' (or_id o') = Some o'" "sd_outbox db' = sd_outbox db @ [o']"
    "entity_row db' = entity_row db" "sd_history db' = sd_history db" "sd_events db' = sd_events db"
    "sd_sequences db' = sd_sequences db"
proof -
  from assms have fresh: "outbox_at db (or_id o') = None" and db': "db' = db\<lparr>sd_outbox := sd_outbox db @ [o']\<rparr>"
    by (auto simp: insert_outbox_def split: if_splits)
  have app: "find P xs = None \<Longrightarrow> P o' \<Longrightarrow> find P (xs @ [o']) = Some o'" for P and xs :: "outbox_row list"
    by (induction xs) (auto split: if_splits)
  show "outbox_at db (or_id o') = None" by (rule fresh)
  then show "outbox_at db' (or_id o') = Some o'" unfolding outbox_at_def db' using app by simp
qed (use assms in \<open>auto simp: insert_outbox_def entity_row_def fun_eq_iff split: if_splits\<close>)

lemma insert_state_exact:
  assumes "insert_state t row db = Some (db', n)"
  shows "entity_row db t (se_ID row) = None" "entity_row db' t (se_ID row) = Some row"
    "(t', i) \<noteq> (t, se_ID row) \<Longrightarrow> entity_row db' t' i = entity_row db t' i"
    "sd_history db' = sd_history db" "sd_outbox db' = sd_outbox db" "sd_events db' = sd_events db"
    "sd_sequences db' = sd_sequences db"
proof -
  from assms have fresh: "entity_row db t (se_ID row) = None"
    and db': "db' = db\<lparr>sd_tables := (sd_tables db)(t := sd_tables db t @ [row])\<rparr>"
    by (auto simp: insert_state_def split: if_splits)
  have app: "find P xs = None \<Longrightarrow> P row \<Longrightarrow> find P (xs @ [row]) = Some row" for P and xs :: "SharedEntity list"
    by (induction xs) (auto split: if_splits)
  have app': "\<not> P row \<Longrightarrow> find P (xs @ [row]) = find P xs" for P and xs :: "SharedEntity list"
    by (induction xs) auto
  show "entity_row db t (se_ID row) = None" by (rule fresh)
  then show "entity_row db' t (se_ID row) = Some row" unfolding entity_row_def db' using app by simp
  show "(t', i) \<noteq> (t, se_ID row) \<Longrightarrow> entity_row db' t' i = entity_row db t' i"
    unfolding entity_row_def db' using app' by auto
qed (use assms in \<open>auto simp: insert_state_def split: if_splits\<close>)

section \<open>Fresh receipts\<close>

lemma io_bind_Inr:
  "io_bind m f s = (Inr y, s'') \<longleftrightarrow> (\<exists>x s'. m s = (Inr x, s') \<and> f x s' = (Inr y, s''))"
  unfolding io_bind_def by (auto split: prod.splits sum.splits)

lemma io_try_Inr: "io_try m s = (Inr r, s') \<longleftrightarrow> m s = (r, s')"
  by (auto simp: io_try_def split: prod.splits)

lemma io_simps:
  "io_return x s = (Inr y, s') \<longleftrightarrow> x = y \<and> s' = s" "io_fail e s \<noteq> (Inr y, s')" "io_error t s \<noteq> (Inr y, s')"
  by (auto simp: io_return_def io_fail_def io_error_def)

lemma io_check_Inr: "io_check e m s = (Inr y, s') \<longleftrightarrow> e = None \<and> m s = (Inr y, s')"
  by (cases e) (auto simp: io_check_def io_simps)

lemma io_result_Inr: "io_result r s = (Inr y, s') \<longleftrightarrow> r = Inr y \<and> s' = s"
  by (cases r) (auto simp: io_result_def io_simps)

lemma io_query_Inr:
  "io_query dv q (k, db) = (Inr y, s') \<longleftrightarrow>
     dv_fault dv k = None \<and> y = q (dv_others dv k db) \<and> s' = (Suc k, dv_others dv k db)"
  by (auto simp: io_query_def Let_def split: option.splits)

lemma reuse_is_reused: "reuseSharedMutation m e = Inr rc \<Longrightarrow> rc_Reused rc"
  by (auto simp: reuseSharedMutation_def split: if_splits)

lemma io_batch_Inr:
  assumes "atomic_driver dv" "io_batch dv sts (k, db) = (Inr u, s')"
  shows "s' = (Suc k, snd s') \<and> run_statements sts (dv_others dv k db) = Inr (snd s')"
proof -
  obtain db' e where b: "dv_batch dv k sts (dv_others dv k db) = (db', e)" by (cases "dv_batch dv k sts (dv_others dv k db)")
  then have "e = None" "s' = (Suc k, db')" using assms(2) by (auto simp: io_batch_def split: option.splits)
  then show ?thesis using assms(1) b unfolding atomic_driver_def by force
qed

lemma commit_fresh:
  assumes "atomic_driver dv" and "commit_or_reuse dv op sts (io_return x) reuse (k, db) = (Inr y, s')"
    and "\<And>e s s'. reuse e s = (Inr y, s') \<Longrightarrow> False"
  shows "y = x \<and> run_statements sts (dv_others dv k db) = Inr (snd s')"
proof -
  from assms(2) obtain r s1 where r: "io_batch dv sts (k, db) = (r, s1)"
    and rest: "(case r of Inr _ \<Rightarrow> io_return x
       | Inl e \<Rightarrow> io_bind (io_try (outboxEntry dv op)) (\<lambda>found. case found of
             Inr (Some existing) \<Rightarrow> reuse existing | _ \<Rightarrow> io_fail e)) s1 = (Inr y, s')"
    unfolding commit_or_reuse_def by (auto simp: io_bind_Inr io_try_Inr)
  show ?thesis
  proof (cases r)
    case (Inr u)
    then have "s' = s1" "y = x" using rest by (simp_all add: io_simps)
    then show ?thesis using io_batch_Inr [OF assms(1), of sts k db u s1] r Inr by simp
  next
    case (Inl e)
    from rest [unfolded Inl sum.case io_bind_Inr] obtain found :: "store_error + OutboxEntry option" and s2 where f: "(case found of Inr (Some existing) \<Rightarrow> reuse existing | _ \<Rightarrow> io_fail e) s2 = (Inr y, s')"
      by blast
    have False
    proof (cases found)
      case (Inr o')
      then show ?thesis using f by (cases o') (simp_all add: io_simps, rule assms(3))
    qed (use f in \<open>simp add: io_simps\<close>)
    then show ?thesis by simp
  qed
qed

text \<open>What lies behind a fresh receipt of a revision.\<close>

lemma revision_fresh:
  assumes dv: "atomic_driver dv"
    and ok: "CommitSharedLifecycleRevision dv rq (k, db) = (Inr rc, k', db')" and fresh: "\<not> rc_Reused rc"
  obtains d row where "sharedLifecycle (lr_EntityType rq) = Some d" "ld_HistoryTable d \<noteq> ''''"
    "valid_revision_request rq" "sharedPayloadLogicalRevision (lr_Payload rq) = Some (lr_Revision rq)"
    "entity_row (dv_others dv k db) (ld_StateTable d) (lr_EntityID rq) = Some row"
    "validateSharedLifecycleStatus d (se_Payload row) (lr_Payload rq) False = None"
    "validateMilestoneMutation d (se_Payload row) (lr_Payload rq) (lr_Kind rq) (history_kind rq) = None"
    "rc = new_receipt (lr_OperationID rq) (lr_EntityType rq) (lr_EntityID rq) (lr_Revision rq)"
    "run_statements (revision_statements dv d rq (stamp dv (lr_CreatedAt rq)))
       (dv_others dv (k + 2) (dv_others dv (k + 1) (dv_others dv k db))) = Inr db'"
proof -
  have no_reuse: "reuse_revised rq e s \<noteq> (Inr rc, s')" for e s s'
    using fresh reuse_is_reused unfolding reuse_revised_def io_result_Inr by metis
  from ok obtain d where d: "sharedLifecycle (lr_EntityType rq) = Some d" "ld_HistoryTable d \<noteq> ''''"
      "valid_revision_request rq" "sharedPayloadLogicalRevision (lr_Payload rq) = Some (lr_Revision rq)"
    unfolding CommitSharedLifecycleRevision_def by (auto simp: io_simps split: option.splits if_splits)
  from ok d obtain row where row: "entity_row (dv_others dv k db) (ld_StateTable d) (lr_EntityID rq) = Some row"
    and "io_check (validateSharedLifecycleStatus d (se_Payload row) (lr_Payload rq) False)
      (io_check (validateMilestoneMutation d (se_Payload row) (lr_Payload rq) (lr_Kind rq) (history_kind rq))
      (io_bind (outboxEntry dv (lr_OperationID rq)) (\<lambda>existing.
         case existing of
           Some entry \<Rightarrow> reuse_revised rq entry
         | None \<Rightarrow>
             if (case lr_PreviousHistory rq of None \<Rightarrow> False | Some seed \<Rightarrow> \<not> valid_seed rq seed)
             then io_error (''invalid shared '' @ lr_EntityType rq @ '' history seed'')
             else commit_or_reuse dv (lr_OperationID rq)
               (revision_statements dv d rq (stamp dv (lr_CreatedAt rq)))
               (io_return (new_receipt (lr_OperationID rq) (lr_EntityType rq) (lr_EntityID rq) (lr_Revision rq)))
               (reuse_revised rq)))) (Suc k, dv_others dv k db) = (Inr rc, k', db')"
    unfolding CommitSharedLifecycleRevision_def
    by (auto simp: io_simps io_bind_Inr io_try_Inr io_query_def Let_def split: option.splits if_splits sum.splits)
  note checks = this(2) [unfolded io_check_Inr io_bind_Inr outboxEntry_def io_query_Inr]
  from checks no_reuse have "commit_or_reuse dv (lr_OperationID rq)
      (revision_statements dv d rq (stamp dv (lr_CreatedAt rq)))
      (io_return (new_receipt (lr_OperationID rq) (lr_EntityType rq) (lr_EntityID rq) (lr_Revision rq)))
      (reuse_revised rq) (Suc (Suc k), dv_others dv (Suc k) (dv_others dv k db)) = (Inr rc, k', db')"
    by (auto simp: io_simps split: option.splits if_splits)
  from commit_fresh [OF dv this] no_reuse
  have "rc = new_receipt (lr_OperationID rq) (lr_EntityType rq) (lr_EntityID rq) (lr_Revision rq)"
    "run_statements (revision_statements dv d rq (stamp dv (lr_CreatedAt rq)))
       (dv_others dv (Suc (Suc k)) (dv_others dv (Suc k) (dv_others dv k db))) = Inr db'" by auto
  then show ?thesis using d row checks by (intro that [of d row]) simp_all
qed

section \<open>Well-formed states along an operation\<close>

lemma run_keeps_wf:
  "atomic_driver dv \<Longrightarrow> (\<And>k db. keeps_wf db (dv_others dv k db)) \<Longrightarrow> batch_keeps keeps_wf sts
     \<Longrightarrow> run_statements sts db = Inr db' \<Longrightarrow> wf_store db \<Longrightarrow> wf_store db'"
  using store_relation.run_keeps [OF statement_relation.axioms(1) [OF wf_relation]] unfolding keeps_wf_def by blast

lemma others_wf: "(\<And>k db. keeps_wf db (dv_others dv k db)) \<Longrightarrow> wf_store db \<Longrightarrow> wf_store (dv_others dv k db)"
  unfolding keeps_wf_def by blast

lemma wf_table: "wf_store db \<Longrightarrow> distinct (map se_ID (sd_tables db t))"
  by (simp add: wf_store_def)

lemma seed_history_exact:
  assumes "seed_history h db = Some (db', n)"
  shows "sd_tables db' = sd_tables db" "sd_outbox db' = sd_outbox db" "sd_events db' = sd_events db"
    "sd_sequences db' = sd_sequences db"
    "extends_list (sd_history db) (sd_history db')" "wf_store db \<Longrightarrow> wf_store db'"
proof -
  show "wf_store db \<Longrightarrow> wf_store db'"
    using assms wf_statements(4) [of h] unfolding statement_keeps_def keeps_wf_def by blast
qed (use assms in \<open>auto simp: seed_history_def split: option.splits\<close>)

lemma extends_list_snoc: "ys = xs @ [x] \<Longrightarrow> extends_list xs ys"
  by (auto simp: extends_list_def)

text \<open>The effect of the batch of a revision.\<close>

lemma revision_batch_exact:
  assumes run: "run_statements (revision_statements dv d rq rec) mid = Inr db'" and wf: "wf_store mid"
  shows "\<exists>old. entity_row mid (ld_StateTable d) (lr_EntityID rq) = Some old
       \<and> se_Revision old = lr_ExpectedStoreRevision rq \<and> dv_json_revision dv (se_Payload old) = Some (lr_ExpectedRevision rq)
     \<and> entity_row db' (ld_StateTable d) (lr_EntityID rq) = Some (revised_row rq rec)
     \<and> (\<forall>t i. (t, i) \<noteq> (ld_StateTable d, lr_EntityID rq) \<longrightarrow> entity_row db' t i = entity_row mid t i)
     \<and> history_at db' (ld_EntityType d) (lr_EntityID rq) (lr_Revision rq) = Some (revised_history d rq rec)
     \<and> extends_list (sd_history mid) (sd_history db')
     \<and> outbox_at mid (lr_OperationID rq) = None
     \<and> sd_outbox db' = sd_outbox mid @ [outbox_intent (lr_OperationID rq) (lr_EntityType rq) (lr_EntityID rq)
           (lr_Revision rq) (lr_Kind rq) (lr_Payload rq) rec]
     \<and> sd_events db' = sd_events mid \<and> sd_sequences db' = sd_sequences mid"
proof -
  obtain m0 where m0: "wf_store m0" "sd_tables m0 = sd_tables mid" "sd_outbox m0 = sd_outbox mid"
      "sd_events m0 = sd_events mid" "sd_sequences m0 = sd_sequences mid"
      "extends_list (sd_history mid) (sd_history m0)"
    and rest: "run_statements [(update_state (ld_StateTable d) (revised_row rq rec)
           (\<lambda>r. se_Revision r = lr_ExpectedStoreRevision rq
                \<and> dv_json_revision dv (se_Payload r) = Some (lr_ExpectedRevision rq)), 1),
        (insert_history (revised_history d rq rec), 1),
        (insert_outbox (outbox_intent (lr_OperationID rq) (lr_EntityType rq) (lr_EntityID rq) (lr_Revision rq)
           (lr_Kind rq) (lr_Payload rq) rec), 1)] m0 = Inr db'"
  proof (cases "lr_PreviousHistory rq")
    case None
    then show ?thesis using that [of mid] run wf by (simp add: revision_statements_def)
  next
    case (Some seed)
    with run obtain m0 n where s: "sharedHistorySeedStatement d (lr_EntityID rq) (lr_ProjectID rq) seed mid = Some (m0, n)"
      and r: "run_statements (tl (revision_statements dv d rq rec)) m0 = Inr db'"
      by (auto simp: revision_statements_def run_statements_Cons)
    from seed_history_exact [OF s [unfolded sharedHistorySeedStatement_def]] wf
    show ?thesis using that [of m0] r Some by (simp add: revision_statements_def)
  qed
  from rest obtain m1 m2 where u: "update_state (ld_StateTable d) (revised_row rq rec)
           (\<lambda>r. se_Revision r = lr_ExpectedStoreRevision rq
                \<and> dv_json_revision dv (se_Payload r) = Some (lr_ExpectedRevision rq)) m0 = Some (m1, 1)"
    and h: "insert_history (revised_history d rq rec) m1 = Some (m2, 1)"
    and o': "insert_outbox (outbox_intent (lr_OperationID rq) (lr_EntityType rq) (lr_EntityID rq) (lr_Revision rq)
           (lr_Kind rq) (lr_Payload rq) rec) m2 = Some (db', 1)"
    by (auto simp: run_statements_Cons)
  from update_state_exact [OF wf_table [OF m0(1)] u] obtain old where
    old: "entity_row m0 (ld_StateTable d) (lr_EntityID rq) = Some old" "se_Revision old = lr_ExpectedStoreRevision rq"
      "dv_json_revision dv (se_Payload old) = Some (lr_ExpectedRevision rq)"
      "entity_row m1 (ld_StateTable d) (lr_EntityID rq) = Some (revised_row rq rec)"
      "\<forall>t i. (t, i) \<noteq> (ld_StateTable d, lr_EntityID rq) \<longrightarrow> entity_row m1 t i = entity_row m0 t i"
      "sd_history m1 = sd_history m0" "sd_outbox m1 = sd_outbox m0" "sd_events m1 = sd_events m0" "sd_sequences m1 = sd_sequences m0"
    by (auto simp: revised_row_def)
  note h' = insert_history_exact [OF h] and o'' = insert_outbox_exact [OF o']
  have rows: "entity_row m0 = entity_row mid" using m0(2) by (simp add: entity_row_def fun_eq_iff)
  have hist: "extends_list (sd_history mid) (sd_history db')"
    using m0(6) h'(3) o''(5) old(6) by (auto intro: extends_list_trans)
  have at: "history_at db' (ld_EntityType d) (lr_EntityID rq) (lr_Revision rq) = Some (revised_history d rq rec)"
    using h'(2) o''(5) by (simp add: revised_history_def history_at_def)
  have none: "outbox_at mid (lr_OperationID rq) = None"
    using o''(1) h'(5) old(7) m0(3) by (simp add: outbox_at_def outbox_intent_def)
  have box: "sd_outbox db' = sd_outbox mid @ [outbox_intent (lr_OperationID rq) (lr_EntityType rq) (lr_EntityID rq)
           (lr_Revision rq) (lr_Kind rq) (lr_Payload rq) rec]"
    using o''(3) h'(5) old(7) m0(3) by simp
  have ev: "sd_events db' = sd_events mid" "sd_sequences db' = sd_sequences mid"
    using o''(6,7) h'(6,7) old(8,9) m0(4,5) by simp_all
  show ?thesis
    using old(1-5) h'(4) o''(4) rows hist at none box ev by (intro exI [of _ old]) simp
qed

end
