(* ===== verification/Shared_Commit_Properties.thy ===== *)
theory Shared_Commit_Properties
  imports Shared_Commit_Laws
begin

text \<open>
  The properties of the commits: what a fresh receipt of a revision guarantees, where the guarantee
  ends, and how replays of committed operations behave.
\<close>

section \<open>Revisions\<close>

text \<open>A planned task, an edit of it, and its sealing by another writer.\<close>

definition edit_request :: SharedLifecycleRevision where
  "edit_request =
     \<lparr>lr_OperationID = ''edit'', lr_EntityType = ''task'', lr_ProjectID = ''example'', lr_EntityID = ''AAA-TSK1'',
      lr_ExpectedRevision = 1, lr_ExpectedStoreRevision = 1, lr_Revision = 2, lr_Kind = ''update'',
      lr_HistoryMutationKind = ''update'', lr_Payload = sample_payload ''planned'' 2, lr_Actor = ''ana'', lr_Reason = ''edit'',
      lr_ChangedFields = None, lr_CreatedAt = zero_time, lr_PreviousHistory = None\<rparr>"

definition ready_mutation :: SharedMutation where
  "ready_mutation =
     \<lparr>mu_OperationID = ''ready'', mu_EntityType = ''task'', mu_EntityID = ''AAA-TSK1'', mu_ExpectedRevision = 1,
      mu_Revision = 1, mu_Kind = ''task-authoring-ready'', mu_Payload = sample_payload ''ready'' 1,
      mu_CreatedAt = zero_time, mu_Create = False, mu_AllowSameRevision = True\<rparr>"

lemma sample_reason: "validSharedHistoryReason ''edit''"
  by (simp add: validSharedHistoryReason_def ContainsAny_iff nul_cr_lf_def nul_def cr_def lf_def byte_def IsSpace_def)

lemma edit_valid: "valid_revision_request edit_request"
  by (simp add: valid_revision_request_def edit_request_def sample_reason sample_nonempty wrap_int_def)

lemma task_status_same:
  assumes "sharedLifecycle ''task'' = Some d"
  shows "validateSharedLifecycleStatus d (sample_payload ''planned'' m) (sample_payload ''planned'' n) False = None"
    "validateMilestoneMutation d p q k h = None" "ld_StateTable d = ''shared_tasks''" "ld_HistoryTable d \<noteq> ''''"
    "ld_EntityType d = ''task''"
proof -
  have s: "status_in (sample_payload ''planned'' n) [''planned'', ''ready'', ''done'', ''archived''] = Some ''planned''" for n
    by (simp add: status_in_def sample_status plain_names)
  have "d = the (sharedLifecycle ''task'')" using assms by simp
  then have d: "ld_EntityType d = ''task''" "ld_AllowedStatuses d = [''planned'', ''ready'', ''done'', ''archived'']"
    "ld_StateTable d = ''shared_tasks''" "ld_HistoryTable d = ''shared_entity_revisions''"
    by (simp_all add: sharedLifecycle_def sharedLifecycleRegistry_def)
  then show "validateSharedLifecycleStatus d (sample_payload ''planned'' m) (sample_payload ''planned'' n) False = None"
    "validateMilestoneMutation d p q k h = None" "ld_StateTable d = ''shared_tasks''" "ld_HistoryTable d \<noteq> ''''"
    "ld_EntityType d = ''task''"
    by (simp_all add: validateSharedLifecycleStatus_def s typed_payload_def validateMilestoneMutation_def)
qed

definition sealed_row :: SharedEntity where
  "sealed_row = \<lparr>se_ID = ''AAA-TSK1'', se_Revision = 1, se_Payload = sample_payload ''ready'' 1, se_UpdatedAt = ''t''\<rparr>"

definition sealed_db :: shared_db where
  "sealed_db = sample_db\<lparr>sd_tables := (sd_tables sample_db)(''shared_tasks'' := [sealed_row]),
     sd_outbox := [outbox_intent ''ready'' ''task'' ''AAA-TSK1'' 1 ''task-authoring-ready'' (sample_payload ''ready'' 1) ''t'']\<rparr>"

lemma sample_db_simps:
  "sd_tables sample_db ''shared_tasks'' = [sample_row]" "sd_outbox sample_db = []" "sd_history sample_db = []"
  "entity_row sample_db ''shared_tasks'' ''AAA-TSK1'' = Some sample_row"
  by (simp_all add: sample_db_def empty_db_def entity_row_def sample_row_def)

lemma ready_commits:
  "CommitSharedMutation (sqlite ''t'') ready_mutation (k, sample_db)
     = (Inr (new_receipt ''ready'' ''task'' ''AAA-TSK1'' 1), Suc (Suc k), sealed_db)"
proof -
  have table: "map_of sharedEntityTables ''task'' = Some ''shared_tasks''" by (simp add: sharedEntityTables_def)
  have run: "run_statements (mutation_statements ''shared_tasks'' ready_mutation ''t'') sample_db = Inr sealed_db"
    by (simp add: mutation_statements_def ready_mutation_def run_statements_Cons Let_def update_state_def
        insert_outbox_def outbox_at_def sample_db_simps sample_row_def sealed_row_def sealed_db_def outbox_intent_def)
  have box: "outbox_at sample_db ''ready'' = None" by (simp add: outbox_at_def sample_db_simps)
  have m: "mu_EntityType ready_mutation = ''task''" "mu_OperationID ready_mutation = ''ready''"
    "mu_EntityID ready_mutation = ''AAA-TSK1''" "mu_Kind ready_mutation \<noteq> ''''" "mu_Payload ready_mutation \<noteq> ''''"
    "mu_Revision ready_mutation = 1" "valid_cas_step ready_mutation" "IsZero (mu_CreatedAt ready_mutation)"
    by (simp_all add: ready_mutation_def sample_nonempty valid_cas_step_def)
  show ?thesis
    by (simp add: CommitSharedMutation_def table m stamp_def io_bind_def io_return_def outboxEntry_def io_query_def box
        commit_or_reuse_def io_try_def io_batch_def sqlite_batch_def run)
qed

lemma edit_run:
  assumes "entity_row db ''shared_tasks'' ''AAA-TSK1'' = Some row" and "sd_tables db ''shared_tasks'' = [row]"
    and "se_ID row = ''AAA-TSK1''" "se_Revision row = 1" "sharedPayloadLogicalRevision (se_Payload row) = Some 1"
    and "sd_history db = []" and "outbox_at db ''edit'' = None" and "sharedLifecycle ''task'' = Some d"
    and "dv_json_revision dv = sharedPayloadLogicalRevision"
  shows "\<exists>db'. run_statements (revision_statements dv d edit_request ''t'') db = Inr db'
     \<and> entity_row db' ''shared_tasks'' ''AAA-TSK1'' = Some (revised_row edit_request ''t'')"
proof -
  note d = task_status_same [OF assms(8)]
  show ?thesis
    using assms(1-7) by (simp add: revision_statements_def edit_request_def run_statements_Cons Let_def update_state_def
        insert_outbox_def outbox_at_def revised_row_def insert_history_def history_at_def entity_row_def
        revised_history_def outbox_intent_def d assms(9))
qed

text \<open>
  C3. A fresh receipt of a revision means that one compare-and-set happened: at the moment of
  the commit, and whatever other writers did before, the entity was at the expected store and
  logical revision; now it is the requested one, history and outbox hold the new revision, and
  no other entity, event or number sequence has changed.
\<close>

theorem revision_commit_exact:
  assumes "atomic_driver dv" and "\<And>k db. keeps_wf db (dv_others dv k db)" and "wf_store db"
    and "CommitSharedLifecycleRevision dv rq (k, db) = (Inr rc, k', db')" and "\<not> rc_Reused rc"
  shows "\<exists>d old. let mid = dv_others dv (k + 2) (dv_others dv (k + 1) (dv_others dv k db)); t = ld_StateTable d;
       i = lr_EntityID rq; now = stamp dv (lr_CreatedAt rq) in
     sharedLifecycle (lr_EntityType rq) = Some d
     \<and> entity_row mid t i = Some old \<and> se_Revision old = lr_ExpectedStoreRevision rq
     \<and> dv_json_revision dv (se_Payload old) = Some (lr_ExpectedRevision rq)
     \<and> entity_row db' t i = Some (revised_row rq now)
     \<and> (\<forall>t' i'. (t', i') \<noteq> (t, i) \<longrightarrow> entity_row db' t' i' = entity_row mid t' i')
     \<and> history_at db' (ld_EntityType d) i (lr_Revision rq) = Some (revised_history d rq now)
     \<and> extends_list (sd_history mid) (sd_history db')
     \<and> outbox_at mid (lr_OperationID rq) = None
     \<and> sd_outbox db' = sd_outbox mid @ [outbox_intent (lr_OperationID rq) (lr_EntityType rq) i (lr_Revision rq)
           (lr_Kind rq) (lr_Payload rq) now]
     \<and> sd_events db' = sd_events mid \<and> sd_sequences db' = sd_sequences mid
     \<and> rc = new_receipt (lr_OperationID rq) (lr_EntityType rq) i (lr_Revision rq)"
proof (rule revision_fresh [OF assms(1,4,5)])
  define mid where "mid = dv_others dv (k + 2) (dv_others dv (k + 1) (dv_others dv k db))"
  fix d row
  assume d: "sharedLifecycle (lr_EntityType rq) = Some d"
    and rc: "rc = new_receipt (lr_OperationID rq) (lr_EntityType rq) (lr_EntityID rq) (lr_Revision rq)"
    and run: "run_statements (revision_statements dv d rq (stamp dv (lr_CreatedAt rq)))
        (dv_others dv (k + 2) (dv_others dv (k + 1) (dv_others dv k db))) = Inr db'"
  have "wf_store mid" unfolding mid_def by (intro others_wf assms(2,3))
  from revision_batch_exact [OF run [folded mid_def] this] show ?thesis
    unfolding Let_def mid_def [symmetric] using d rc by blast
qed

lemma sample_db_wf: "wf_store sample_db"
  by (simp add: wf_store_def sample_db_def empty_db_def)

lemma edit_commits:
  "\<exists>db'. CommitSharedLifecycleRevision (sqlite ''t'') edit_request (0, sample_db)
       = (Inr (new_receipt ''edit'' ''task'' ''AAA-TSK1'' 2), 3, db')"
proof -
  obtain d where d: "sharedLifecycle ''task'' = Some d" by (rule task_definition)
  note dd = task_status_same [OF d]
  have rev: "sharedPayloadLogicalRevision (sample_payload ''planned'' 2) = Some 2"
    "sharedPayloadLogicalRevision (se_Payload sample_row) = Some 1"
    using sample_revision [of "''planned''" 2] sample_revision [of "''planned''" 1] by (simp_all add: plain_names sample_row_def)
  have box: "outbox_at sample_db ''edit'' = None" by (simp add: outbox_at_def sample_db_simps)
  have "se_ID sample_row = ''AAA-TSK1''" "se_Revision sample_row = 1" by (simp_all add: sample_row_def)
  from edit_run [OF sample_db_simps(4,1) this rev(2) sample_db_simps(3) box d, of "sqlite ''t''"] obtain db' where
    db': "run_statements (revision_statements (sqlite ''t'') d edit_request ''t'') sample_db = Inr db'" by auto
  have rq: "lr_EntityType edit_request = ''task''" "lr_EntityID edit_request = ''AAA-TSK1''" "lr_OperationID edit_request = ''edit''"
    "lr_Revision edit_request = 2" "lr_Payload edit_request = sample_payload ''planned'' 2" "IsZero (lr_CreatedAt edit_request)"
    "lr_PreviousHistory edit_request = None"
    by (simp_all add: edit_request_def)
  show ?thesis
    by (simp add: CommitSharedLifecycleRevision_def rq d dd edit_valid rev io_bind_def io_try_def io_query_def
        sample_db_simps sample_row_def io_check_def outboxEntry_def box commit_or_reuse_def stamp_def
        io_batch_def sqlite_batch_def db' io_return_def)
qed

theorem revision_commit_exact_witness:
  "\<exists>db' :: shared_db. sd_outbox db' = sd_outbox sample_db @ [outbox_intent ''edit'' ''task'' ''AAA-TSK1'' 2 ''update''
     (sample_payload ''planned'' 2) ''t'']"
proof -
  obtain db' where run: "CommitSharedLifecycleRevision (sqlite ''t'') edit_request (0, sample_db)
       = (Inr (new_receipt ''edit'' ''task'' ''AAA-TSK1'' 2), 3, db')" using edit_commits by blast
  have "\<not> rc_Reused (new_receipt ''edit'' ''task'' ''AAA-TSK1'' 2)" by (simp add: new_receipt_def)
  from revision_commit_exact [OF sqlite_atomic _ sample_db_wf run this]
  have "sd_outbox db' = sd_outbox sample_db @ [outbox_intent ''edit'' ''task'' ''AAA-TSK1'' 2 ''update''
     (sample_payload ''planned'' 2) ''t'']"
    by (auto simp: Let_def keeps_wf_def edit_request_def stamp_def)
  then show ?thesis by blast
qed

definition racing_driver :: driver where
  "racing_driver = (sqlite ''t'')
     \<lparr>dv_others := \<lambda>k db. if k = 2 then snd (snd (CommitSharedMutation (sqlite ''t'') ready_mutation (0, db))) else db\<rparr>"

lemma racing_driver_simps:
  "dv_Shared racing_driver" "dv_fault racing_driver k = None" "dv_json_revision racing_driver = sharedPayloadLogicalRevision"
  "dv_batch racing_driver = sqlite_batch" "dv_others racing_driver 0 db = db" "dv_others racing_driver (Suc 0) db = db"
  "dv_others racing_driver (Suc (Suc 0)) sample_db = sealed_db" "dv_now racing_driver = ''t''"
  by (simp_all add: racing_driver_def ready_commits numeral_2_eq_2)

text \<open>
  C15. Where the guarantee ends: a sealing of a task that another writer commits between the checks
  and the batch of an edit is lost. The sealing keeps the revision, so the edit, which was checked
  against the planned payload, still passes its compare-and-set and turns the sealed task
  back into a planned one, a step the registry does not have; both operations report success.
\<close>

theorem concurrent_seal_is_lost:
  "\<exists>db'. CommitSharedLifecycleRevision racing_driver edit_request (0, sample_db)
       = (Inr (new_receipt ''edit'' ''task'' ''AAA-TSK1'' 2), 3, db')
     \<and> fst (CommitSharedMutation (sqlite ''t'') ready_mutation (0, sample_db)) = Inr (new_receipt ''ready'' ''task'' ''AAA-TSK1'' 1)
     \<and> map_option (decode_status \<circ> se_Payload) (entity_row sealed_db ''shared_tasks'' ''AAA-TSK1'') = Some (Some ''ready'')
     \<and> map_option (decode_status \<circ> se_Payload) (entity_row db' ''shared_tasks'' ''AAA-TSK1'') = Some (Some ''planned'')
     \<and> \<not> lifecycle_step ''task'' ''ready'' ''planned''"
proof -
  obtain d where d: "sharedLifecycle ''task'' = Some d" by (rule task_definition)
  note dd = task_status_same [OF d]
  have sealed: "entity_row sealed_db ''shared_tasks'' ''AAA-TSK1'' = Some sealed_row"
    "sd_tables sealed_db ''shared_tasks'' = [sealed_row]" "sd_history sealed_db = []" "outbox_at sealed_db ''edit'' = None"
    by (simp_all add: sealed_db_def entity_row_def sealed_row_def sample_db_simps outbox_at_def outbox_intent_def)
  have "sharedPayloadLogicalRevision (se_Payload sealed_row) = Some 1" "se_ID sealed_row = ''AAA-TSK1''" "se_Revision sealed_row = 1"
    using sample_revision [of "''ready''" 1] by (simp_all add: sealed_row_def plain_names)
  from edit_run [OF sealed(1,2) this(2,3,1) sealed(3,4) d racing_driver_simps(3)] obtain db' where
    db': "run_statements (revision_statements racing_driver d edit_request ''t'') sealed_db = Inr db'"
      "entity_row db' ''shared_tasks'' ''AAA-TSK1'' = Some (revised_row edit_request ''t'')" by blast
  have rq: "lr_EntityType edit_request = ''task''" "lr_EntityID edit_request = ''AAA-TSK1''" "lr_OperationID edit_request = ''edit''"
    "lr_Revision edit_request = 2" "lr_Payload edit_request = sample_payload ''planned'' 2" "IsZero (lr_CreatedAt edit_request)"
    "lr_PreviousHistory edit_request = None"
    by (simp_all add: edit_request_def)
  have rev: "sharedPayloadLogicalRevision (sample_payload ''planned'' 2) = Some 2"
    using sample_revision [of "''planned''" 2] by (simp add: plain_names)
  have box: "outbox_at sample_db ''edit'' = None" by (simp add: outbox_at_def sample_db_simps)
  have "CommitSharedLifecycleRevision racing_driver edit_request (0, sample_db)
      = (Inr (new_receipt ''edit'' ''task'' ''AAA-TSK1'' 2), 3, db')"
    by (simp add: CommitSharedLifecycleRevision_def rq d dd edit_valid rev io_bind_def io_try_def io_query_def
        racing_driver_simps sample_db_simps sample_row_def io_check_def outboxEntry_def box commit_or_reuse_def stamp_def
        io_batch_def sqlite_batch_def db' io_return_def)
  moreover have "\<not> lifecycle_step ''task'' ''ready'' ''planned''"
    by (simp add: lifecycle_step_edges lifecycle_edges_simps)
  ultimately show ?thesis
    using db'(2) sealed(1) by (simp add: ready_commits revised_row_def rq sealed_row_def sample_status plain_names)
qed

end
