(* ===== verification/Lifecycle_Properties.thy ===== *)
theory Lifecycle_Properties
  imports Lifecycle_Laws
begin

text \<open>
  The properties of the lifecycle policies and their witnesses.
\<close>

section \<open>Status changes\<close>

text \<open>
  The status policy is safe: when it accepts a new payload over a previous one, both carry
  statuses of the entity type's vocabulary, the status stays or takes a step the registry lists,
  and a milestone or track payload has passed its own validator.
\<close>

theorem status_policy_safe:
  assumes "sharedLifecycle et = Some d" and "ld_DefaultCreateStatus d \<noteq> ''''"
    and "validateSharedLifecycleStatus d previous payload False = None"
  shows "\<exists>p n. decode_status previous = Some p \<and> decode_status payload = Some n
     \<and> p \<in> set (ld_AllowedStatuses d) \<and> n \<in> set (ld_AllowedStatuses d) \<and> (p = n \<or> lifecycle_step et p n)
     \<and> typed_payload d payload = None"
  using status_policy_update [OF assms] by metis

lemma task_status_accepted:
  assumes "sharedLifecycle ''task'' = Some d"
  shows "validateSharedLifecycleStatus d (sample_payload ''planned'' 1) (sample_payload ''done'' 2) False = None"
proof (rule task_definition)
  fix d' assume d': "sharedLifecycle ''task'' = Some d'" "ld_EntityType d' = ''task''"
    "ld_AllowedStatuses d' = [''planned'', ''ready'', ''done'', ''archived'']"
    "ld_AllowedTransitions d' = [(''planned'', [''ready'', ''done'', ''archived'']), (''ready'', [''done'', ''archived'']), (''done'', [''archived''])]"
  then have "d' = d" using assms by simp
  have s: "status_in (sample_payload ''planned'' n) [''planned'', ''ready'', ''done'', ''archived''] = Some ''planned''"
    "status_in (sample_payload ''done'' n) [''planned'', ''ready'', ''done'', ''archived''] = Some ''done''" for n
    by (simp_all add: status_in_def sample_status plain_names)
  show "validateSharedLifecycleStatus d (sample_payload ''planned'' 1) (sample_payload ''done'' 2) False = None"
    using d' by (simp add: validateSharedLifecycleStatus_def \<open>d' = d\<close> s typed_payload_def transitions_def)
qed

theorem status_policy_safe_witness: "lifecycle_step ''task'' ''planned'' ''done''"
proof (rule task_definition)
  fix d assume d: "sharedLifecycle ''task'' = Some d" "ld_DefaultCreateStatus d = ''planned''"
  then have "ld_DefaultCreateStatus d \<noteq> ''''" by simp
  from status_policy_safe [OF d(1) this task_status_accepted [OF d(1)]] show ?thesis
    by (auto simp: sample_status plain_names)
qed

text \<open>
  C16. Milestones, tasks, ADRs, rules and journals only move forward: along any chain of accepted
  steps the rank of the status grows, so no status is ever left and entered again; archived
  entities of any type, and published journals, do not move at all.
\<close>

theorem lifecycles_move_forward:
  assumes "et \<in> set forward_types" and "(lifecycle_step et)\<^sup>*\<^sup>* s t"
  shows "(s = t \<or> status_rank et s < status_rank et t) \<and> ((lifecycle_step et)\<^sup>*\<^sup>* t s \<longrightarrow> s = t)
     \<and> \<not> lifecycle_step et ''archived'' t \<and> \<not> lifecycle_step ''journal'' s t"
proof -
  have "(lifecycle_step et)\<^sup>*\<^sup>* t s \<Longrightarrow> t = s \<or> status_rank et t < status_rank et s"
    by (rule reachable_forward [OF assms(1)])
  moreover have "\<not> lifecycle_step ''journal'' s t" by (simp add: lifecycle_step_edges lifecycle_edges_simps)
  ultimately show ?thesis using reachable_forward [OF assms] archived_final by fastforce
qed

theorem lifecycles_move_forward_witness:
  "status_rank ''task'' ''planned'' < status_rank ''task'' ''archived''"
proof -
  have "lifecycle_step ''task'' ''planned'' ''ready''" "lifecycle_step ''task'' ''ready'' ''done''"
    "lifecycle_step ''task'' ''done'' ''archived''"
    by (simp_all add: lifecycle_step_edges lifecycle_edges_simps)
  then have "(lifecycle_step ''task'')\<^sup>*\<^sup>* ''planned'' ''archived''"
    by (meson r_into_rtranclp rtranclp_trans)
  with lifecycles_move_forward [of "''task''" "''planned''" "''archived''"] show ?thesis
    by (simp add: forward_types_def)
qed

text \<open>
  C17. The track policy accepts exactly the moves of the relation \<open>track_move\<close> between two decodable
  payloads of the same milestone: edits stay planned, only a track under review is accepted, only
  a planned one cancelled, only an accepted or cancelled one archived, and nothing else changes
  the status of an accepted, cancelled or archived track.
\<close>

theorem track_policy_exact:
  "validateTrackMutation previous payload kind = None \<longleftrightarrow>
     (\<exists>p n. decode_track previous = Some p \<and> decode_track payload = Some n
        \<and> track_move kind (tk_Status p) (tk_Status n) \<and> tk_Milestone n = tk_Milestone p)"
  unfolding track_policy_rule track_rule_move by (rule refl)

definition milestone_steps :: "(string \<times> string \<times> string \<times> string) list" where
  "milestone_steps =
     [(''planned'', ''active'', ''milestone-activate'', ''activate''),
      (''active'', ''completed'', ''milestone-complete'', ''complete''),
      (''completed'', ''archived'', ''archive'', ''archive'')]"

lemma milestone_step_kinds_iff:
  "milestone_step_kinds p n = Some (k, h) \<longleftrightarrow> (p, n, k, h) \<in> set milestone_steps"
  unfolding milestone_step_kinds_def milestone_steps_def by simp metis

text \<open>
  A milestone changes its status in three steps only, each under its own mutation and history
  kind, and its content only while it is planned or active.
\<close>

theorem milestone_policy_exact:
  assumes "sharedLifecycle ''milestone'' = Some d"
  shows "validateMilestoneMutation d previous payload kind historyKind = None \<longleftrightarrow>
     (\<exists>p n. decode_status previous = Some p \<and> decode_status payload = Some n
        \<and> (if p = n then p \<noteq> ''completed'' \<and> p \<noteq> ''archived'' else (p, n, kind, historyKind) \<in> set milestone_steps))"
proof -
  have d: "ld_EntityType d = ''milestone''"
    using assms by (auto simp: sharedLifecycle_def sharedLifecycleRegistry_def)
  have step: "(case milestone_step_kinds p n of
        None \<Rightarrow> Some ''invalid shared milestone lifecycle transition''
      | Some (wantKind, wantHistory) \<Rightarrow> fail_if (kind \<noteq> wantKind \<or> historyKind \<noteq> wantHistory)
          (''shared milestone transition requires '' @ wantKind)) = None
      \<longleftrightarrow> (p, n, kind, historyKind) \<in> set milestone_steps" for p n
    unfolding milestone_step_kinds_iff [symmetric] by (auto split: option.splits)
  show ?thesis
    by (cases "decode_status previous"; cases "decode_status payload")
      (simp_all add: validateMilestoneMutation_def d if_None_iff step)
qed

theorem milestone_policy_exact_witness:
  "\<exists>d. sharedLifecycle ''milestone'' = Some d \<and>
     validateMilestoneMutation d (sample_payload ''planned'' 1) (sample_payload ''planned'' 2) ''update'' ''update'' = None"
proof -
  obtain d where d: "sharedLifecycle ''milestone'' = Some d"
    by (simp add: sharedLifecycle_def sharedLifecycleRegistry_def)
  show ?thesis using d milestone_policy_exact [OF d, of "sample_payload ''planned'' 1" "sample_payload ''planned'' 2"]
    by (simp add: sample_status plain_names)
qed

end
