(* ===== verification/Shared_Event_Properties.thy ===== *)
theory Shared_Event_Properties
  imports Shared_Commit_Properties Lifecycle_Properties
begin

text \<open>
  The commit of a status change with its lifecycle event: what a fresh receipt guarantees. Its
  compare-and-set includes the whole payload, so the policies were checked against the very row
  that is replaced.
\<close>

section \<open>Fresh receipts\<close>

text \<open>Side effects that a caller adds to the batch leave the Shared tables of this development alone.\<close>

definition leaves_shared :: "shared_db \<Rightarrow> shared_db \<Rightarrow> bool" where
  "leaves_shared db db' \<longleftrightarrow> sd_tables db' = sd_tables db \<and> sd_history db' = sd_history db
     \<and> sd_events db' = sd_events db \<and> sd_outbox db' = sd_outbox db \<and> sd_sequences db' = sd_sequences db"

lemma extras_run:
  "batch_keeps leaves_shared xs \<Longrightarrow> run_statements (xs @ ys) db = Inr db' \<Longrightarrow>
     \<exists>mid. leaves_shared db mid \<and> run_statements ys mid = Inr db'"
proof (induction xs arbitrary: db)
  case (Cons x xs)
  obtain st n where x: "x = (st, n)" by (cases x)
  with Cons.prems obtain mid m where mid: "st db = Some (mid, m)" "run_statements (xs @ ys) mid = Inr db'"
    by (auto simp: run_statements_Cons)
  have "leaves_shared db mid" using Cons.prems(1) x mid(1) by (auto simp: statement_keeps_def)
  moreover obtain last where "leaves_shared mid last" "run_statements ys last = Inr db'"
    using Cons.IH [OF _ mid(2)] Cons.prems(1) x by auto
  ultimately show ?case by (auto simp: leaves_shared_def)
qed (auto simp: leaves_shared_def)

lemma event_fresh:
  assumes dv: "atomic_driver dv"
    and ok: "CommitSharedLifecycleEvent dv rq (k, db) = (Inr rc, k', db')" and fresh: "\<not> rc_Reused rc"
  obtains d where "sharedLifecycle (eq_EntityType rq) = Some d" "ld_DefaultCreateStatus d \<noteq> ''''"
    "event_checks d rq = None"
    "rc = new_receipt (eq_OperationID rq) (eq_EntityType rq) (eq_EntityID rq) (eq_Revision rq)"
    "run_statements (event_statements dv d rq (stamp dv (eq_CreatedAt rq)))
       (dv_others dv (k + 1) (dv_others dv k db)) = Inr db'"
proof -
  define reuse where "reuse = (\<lambda>entry. io_result (reuseSharedMutation
      (mutation_of_entry (eq_OperationID rq) (eq_EntityType rq) (eq_Kind rq) entry) entry))"
  have no_reuse: "reuse e s \<noteq> (Inr rc, s')" for e s s'
    using fresh reuse_is_reused unfolding reuse_def io_result_Inr by metis
  from ok obtain d where d: "sharedLifecycle (eq_EntityType rq) = Some d" "ld_DefaultCreateStatus d \<noteq> ''''"
      "event_checks d rq = None"
    and run: "io_bind (outboxEntry dv (eq_OperationID rq)) (\<lambda>existing.
              case existing of
                Some entry \<Rightarrow> reuse entry
              | None \<Rightarrow>
                  if (case eq_PreviousHistory rq of None \<Rightarrow> False | Some s \<Rightarrow> incomplete_seed s)
                  then io_error (''invalid shared '' @ eq_EntityType rq @ '' history seed'')
                  else commit_or_reuse dv (eq_OperationID rq) (event_statements dv d rq (stamp dv (eq_CreatedAt rq)))
                    (io_return (new_receipt (eq_OperationID rq) (eq_EntityType rq) (eq_EntityID rq) (eq_Revision rq)))
                    reuse) (k, db) = (Inr rc, k', db')"
    unfolding CommitSharedLifecycleEvent_def reuse_def
    by (auto simp: io_simps io_check_Inr Let_def split: option.splits if_splits)
  from run no_reuse have "commit_or_reuse dv (eq_OperationID rq) (event_statements dv d rq (stamp dv (eq_CreatedAt rq)))
      (io_return (new_receipt (eq_OperationID rq) (eq_EntityType rq) (eq_EntityID rq) (eq_Revision rq)))
      reuse (Suc k, dv_others dv k db) = (Inr rc, k', db')"
    by (auto simp: io_bind_Inr outboxEntry_def io_query_Inr io_simps split: option.splits if_splits)
  from commit_fresh [OF dv this] no_reuse
  have "rc = new_receipt (eq_OperationID rq) (eq_EntityType rq) (eq_EntityID rq) (eq_Revision rq)"
    "run_statements (event_statements dv d rq (stamp dv (eq_CreatedAt rq)))
       (dv_others dv (Suc k) (dv_others dv k db)) = Inr db'" by auto
  then show ?thesis using d by (intro that [of d]) simp_all
qed

lemma event_transition:
  assumes "sharedLifecycle (eq_EntityType rq) = Some d" "ld_DefaultCreateStatus d \<noteq> ''''" "event_checks d rq = None"
  shows "decode_status (eq_ExpectedPayload rq) = Some (eq_FromStatus rq)" "decode_status (eq_Payload rq) = Some (eq_ToStatus rq)"
    "lifecycle_step (eq_EntityType rq) (eq_FromStatus rq) (eq_ToStatus rq)"
proof -
  have from_to: "decode_status (eq_ExpectedPayload rq) = Some (eq_FromStatus rq)" "decode_status (eq_Payload rq) = Some (eq_ToStatus rq)"
    "eq_FromStatus rq \<noteq> eq_ToStatus rq"
    and status: "validateSharedLifecycleStatus d (eq_ExpectedPayload rq) (eq_Payload rq) False = None"
    using assms(3) by (auto simp: event_checks_def Let_def)
  then show "decode_status (eq_ExpectedPayload rq) = Some (eq_FromStatus rq)" "decode_status (eq_Payload rq) = Some (eq_ToStatus rq)"
    by simp_all
  show "lifecycle_step (eq_EntityType rq) (eq_FromStatus rq) (eq_ToStatus rq)"
    by (rule status_policy_update [OF assms(1,2) status]) (use from_to in simp)
qed

lemma insert_event_exact:
  assumes "insert_event e db = Some (db', n)"
  shows "\<exists>m. sd_events db' = sd_events db @ [e\<lparr>ev_id := m\<rparr>] \<and> (\<forall>x \<in> set (sd_events db). ev_id x < m)"
    "entity_row db' = entity_row db" "sd_history db' = sd_history db" "sd_outbox db' = sd_outbox db"
    "sd_sequences db' = sd_sequences db"
proof -
  define m where "m = 1 + Max (insert 0 (set (map ev_id (sd_events db))))"
  have "ev_id x < m" if "x \<in> set (sd_events db)" for x
  proof -
    have "ev_id x \<le> Max (insert 0 (set (map ev_id (sd_events db))))" using that by simp
    then show ?thesis by (simp add: m_def)
  qed
  then show "\<exists>m. sd_events db' = sd_events db @ [e\<lparr>ev_id := m\<rparr>] \<and> (\<forall>x \<in> set (sd_events db). ev_id x < m)"
    using assms by (intro exI [of _ m]) (auto simp: insert_event_def m_def split: if_splits)
qed (use assms in \<open>auto simp: insert_event_def entity_row_def fun_eq_iff split: if_splits\<close>)

section \<open>The effect of a status change\<close>

lemma event_batch_exact:
  assumes run: "run_statements (event_statements dv d rq rec) mid = Inr db'" and wf: "wf_store mid"
    and extras: "batch_keeps leaves_shared (eq_ExtraStatements rq)"
  shows "\<exists>old n. entity_row mid (ld_StateTable d) (eq_EntityID rq) = Some old \<and> event_cas dv rq old
     \<and> entity_row db' (ld_StateTable d) (eq_EntityID rq) = Some (event_state_row rq rec)
     \<and> (\<forall>t i. (t, i) \<noteq> (ld_StateTable d, eq_EntityID rq) \<longrightarrow> entity_row db' t i = entity_row mid t i)
     \<and> extends_list (sd_history mid) (sd_history db')
     \<and> (content_changed rq \<longrightarrow>
          history_at db' (ld_EntityType d) (eq_EntityID rq) (eq_Revision rq) = Some (event_history d rq rec))
     \<and> sd_events db' = sd_events mid @ [(event_row_of rq rec)\<lparr>ev_id := n\<rparr>] \<and> (\<forall>x \<in> set (sd_events mid). ev_id x < n)
     \<and> outbox_at mid (eq_OperationID rq) = None
     \<and> sd_outbox db' = sd_outbox mid @ [outbox_intent (eq_OperationID rq) (eq_EntityType rq) (eq_EntityID rq)
           (eq_Revision rq) (eq_Kind rq) (eq_Payload rq) rec]"
proof -
  define tail where "tail = [(insert_event (event_row_of rq rec), 1 :: nat),
        (insert_outbox (outbox_intent (eq_OperationID rq) (eq_EntityType rq) (eq_EntityID rq) (eq_Revision rq)
           (eq_Kind rq) (eq_Payload rq) rec), 1)]"
  define hist where "hist = (if content_changed rq then [(insert_history (event_history d rq rec), 1 :: nat)] else [])"
  define upd where "upd = update_state (ld_StateTable d) (event_state_row rq rec) (event_cas dv rq)"
  obtain m0 where m0: "wf_store m0" "sd_tables m0 = sd_tables mid" "sd_outbox m0 = sd_outbox mid"
      "sd_events m0 = sd_events mid" "extends_list (sd_history mid) (sd_history m0)"
    and rest: "run_statements ((upd, 1) # hist @ eq_ExtraStatements rq @ tail) m0 = Inr db'"
  proof (cases "eq_PreviousHistory rq")
    case None
    then show ?thesis using that [of mid] run wf by (simp add: event_statements_def hist_def tail_def upd_def)
  next
    case (Some seed)
    with run obtain m0 n where s: "sharedHistorySeedStatement d (eq_EntityID rq) (eq_ProjectID rq) seed mid = Some (m0, n)"
      and r: "run_statements (tl (event_statements dv d rq rec)) m0 = Inr db'"
      by (auto simp: event_statements_def run_statements_Cons)
    from seed_history_exact [OF s [unfolded sharedHistorySeedStatement_def]] wf
    show ?thesis using that [of m0] r Some by (simp add: event_statements_def hist_def tail_def upd_def)
  qed
  from rest obtain m1 where u: "upd m0 = Some (m1, 1)"
    and r1: "run_statements (hist @ eq_ExtraStatements rq @ tail) m1 = Inr db'"
    by (auto simp: run_statements_Cons)
  obtain m2 where m2: "sd_outbox m2 = sd_outbox m1" "sd_events m2 = sd_events m1" "entity_row m2 = entity_row m1"
      "extends_list (sd_history m1) (sd_history m2)"
      "content_changed rq \<longrightarrow> history_at m2 (ld_EntityType d) (eq_EntityID rq) (eq_Revision rq) = Some (event_history d rq rec)"
    and r2: "run_statements (eq_ExtraStatements rq @ tail) m2 = Inr db'"
  proof (cases "content_changed rq")
    case True
    with r1 obtain m2 where h: "insert_history (event_history d rq rec) m1 = Some (m2, 1)"
      and r2: "run_statements (eq_ExtraStatements rq @ tail) m2 = Inr db'"
      by (auto simp: hist_def run_statements_Cons)
    show ?thesis using insert_history_exact [OF h] r2 by (intro that [of m2]) (simp_all add: event_history_def)
  qed (use that [of m1] r1 in \<open>simp add: hist_def\<close>)
  from extras_run [OF extras r2] obtain m3 where m3: "leaves_shared m2 m3" and r3: "run_statements tail m3 = Inr db'"
    by blast
  then obtain m4 where e: "insert_event (event_row_of rq rec) m3 = Some (m4, 1)"
    and o': "insert_outbox (outbox_intent (eq_OperationID rq) (eq_EntityType rq) (eq_EntityID rq) (eq_Revision rq)
           (eq_Kind rq) (eq_Payload rq) rec) m4 = Some (db', 1)"
    by (auto simp: tail_def run_statements_Cons)
  from update_state_exact [OF wf_table [OF m0(1)] u [unfolded upd_def]] obtain old where
    old: "entity_row m0 (ld_StateTable d) (eq_EntityID rq) = Some old" "event_cas dv rq old"
      "entity_row m1 (ld_StateTable d) (eq_EntityID rq) = Some (event_state_row rq rec)"
      "\<forall>t i. (t, i) \<noteq> (ld_StateTable d, eq_EntityID rq) \<longrightarrow> entity_row m1 t i = entity_row m0 t i"
      "sd_history m1 = sd_history m0" "sd_outbox m1 = sd_outbox m0" "sd_events m1 = sd_events m0"
    by (auto simp: event_state_row_def)
  from insert_event_exact(1) [OF e] obtain n where n: "sd_events m4 = sd_events m3 @ [(event_row_of rq rec)\<lparr>ev_id := n\<rparr>]"
      "\<forall>x \<in> set (sd_events m3). ev_id x < n" by blast
  note e' = insert_event_exact(2-) [OF e] and o'' = insert_outbox_exact [OF o']
  have rows0: "entity_row m0 = entity_row mid" "entity_row m3 = entity_row m2"
    using m0(2) m3 by (simp_all add: entity_row_def leaves_shared_def fun_eq_iff)
  then have rows: "entity_row db' = entity_row m1" using e'(1) o''(4) m2(3) by simp
  have hist: "sd_history db' = sd_history m2" using e'(2) o''(5) m3 by (simp add: leaves_shared_def)
  have events: "sd_events m3 = sd_events mid" "sd_events db' = sd_events m4"
    using m3 m2(2) old(7) m0(4) o''(6) by (simp_all add: leaves_shared_def)
  have box: "sd_outbox m4 = sd_outbox mid" using e'(3) m3 m2(1) old(6) m0(3) by (simp add: leaves_shared_def)
  have none: "outbox_at mid (eq_OperationID rq) = None"
    using o''(1) box by (simp add: outbox_at_def outbox_intent_def)
  have grown: "extends_list (sd_history mid) (sd_history db')"
    using m0(5) m2(4) old(5) hist by (auto intro: extends_list_trans)
  have at: "content_changed rq \<longrightarrow>
      history_at db' (ld_EntityType d) (eq_EntityID rq) (eq_Revision rq) = Some (event_history d rq rec)"
    using m2(5) hist by (simp add: history_at_def)
  show ?thesis
    using old(1-4) rows rows0(1) n events none o''(3) box grown at by (intro exI [of _ old] exI [of _ n]) simp
qed


text \<open>The completion of the sample task, as an event with a new revision.\<close>

definition done_request :: SharedLifecycleEventRequest where
  "done_request =
     \<lparr>eq_OperationID = ''finish'', eq_EntityType = ''task'', eq_ProjectID = ''example'', eq_EntityID = ''AAA-TSK1'',
      eq_ExpectedRevision = 1, eq_ExpectedStoreRevision = 1, eq_ExpectedPayload = sample_payload ''planned'' 1,
      eq_Revision = 2, eq_Kind = ''complete'', eq_EventKind = ''status'', eq_HistoryMutationKind = ''complete'',
      eq_FromStatus = ''planned'', eq_ToStatus = ''done'', eq_Payload = sample_payload ''done'' 2, eq_Actor = ''ana'',
      eq_Reason = ''edit'', eq_ChangedFields = [''status''], eq_Contract = ''c'', eq_CreatedAt = zero_time,
      eq_PreviousHistory = None, eq_ExtraStatements = []\<rparr>"

lemma done_fields: "validateSharedLifecycleChangedFields [''status''] = None"
proof -
  have "rune_count ''status'' \<le> length ''status''" by (rule rune_count_le)
  then have "\<not> 64 < rune_count ''status''" by simp
  moreover have "\<not> List.member ''status'' nul" by (simp add: nul_def)
  ultimately show ?thesis by (simp add: validateSharedLifecycleChangedFields_def)
qed

lemma done_checks:
  assumes "sharedLifecycle ''task'' = Some d"
  shows "event_checks d done_request = None" "ld_DefaultCreateStatus d \<noteq> ''''"
proof -
  have "d = the (sharedLifecycle ''task'')" using assms by simp
  then have d: "ld_ArchiveStatus d = ''archived''" "ld_StatusMutationKind d = ''complete''" "ld_DefaultCreateStatus d = ''planned''"
    by (simp_all add: sharedLifecycle_def sharedLifecycleRegistry_def)
  have rev: "sharedPayloadLogicalRevision (sample_payload ''done'' 2) = Some 2"
    using sample_revision [of "''done''" 2] by (simp add: plain_names)
  show "event_checks d done_request = None"
    by (simp add: event_checks_def done_request_def Let_def complete_event_request_def content_changed_def wrap_int_def
        sample_nonempty sample_reason rev task_status_accepted [OF assms, simplified] sample_status plain_names
        validateSharedLifecycleEventKind_def sharedLifecycleMutationKind_def d done_fields)
  show "ld_DefaultCreateStatus d \<noteq> ''''" by (simp add: d)
qed

lemma done_commits:
  "\<exists>db'. CommitSharedLifecycleEvent (sqlite ''t'') done_request (0, sample_db)
     = (Inr (new_receipt ''finish'' ''task'' ''AAA-TSK1'' 2), 2, db')"
proof -
  obtain d where d: "sharedLifecycle ''task'' = Some d" by (rule task_definition)
  note dd = task_status_same [OF d]
  have rev: "sharedPayloadLogicalRevision (sample_payload ''planned'' (Suc 0)) = Some 1"
    using sample_revision [of "''planned''" 1] by (simp add: plain_names)
  have "\<exists>db'. run_statements (event_statements (sqlite ''t'') d done_request ''t'') sample_db = Inr db'"
    by (simp add: event_statements_def done_request_def run_statements_Cons Let_def update_state_def sample_db_def
        sample_row_def empty_db_def content_changed_def wrap_int_def event_cas_def rev event_state_row_def insert_history_def
        history_at_def insert_event_def insert_outbox_def outbox_at_def outbox_intent_def dd)
  then obtain db' where db': "run_statements (event_statements (sqlite ''t'') d done_request ''t'') sample_db = Inr db'" ..
  have rq: "eq_EntityType done_request = ''task''" "eq_EntityID done_request = ''AAA-TSK1''" "eq_OperationID done_request = ''finish''"
    "eq_Revision done_request = 2" "IsZero (eq_CreatedAt done_request)" "eq_PreviousHistory done_request = None"
    by (simp_all add: done_request_def)
  have box: "outbox_at sample_db ''finish'' = None" by (simp add: outbox_at_def sample_db_simps)
  show ?thesis
    by (simp add: CommitSharedLifecycleEvent_def rq d dd done_checks [OF d] Let_def io_check_def io_bind_def outboxEntry_def
        io_query_def box commit_or_reuse_def stamp_def io_try_def io_batch_def sqlite_batch_def db' io_return_def)
qed


end
