(* ===== verification/Shared_Page_Laws.thy ===== *)
theory Shared_Page_Laws
  imports Shared_Event_Properties Json_Laws
begin

text \<open>
  Reading the history of an entity page by page: the merge of two bounded prefixes is a prefix of
  the whole merged history, the SQL conditions of a cursor select what lies behind its key, and a
  cursor is read back as it was written.
\<close>

section \<open>Prefixes of a merge\<close>

lemma take_filter_prefix: "(\<And>x. x \<in> set (take m xs) \<Longrightarrow> P x) \<Longrightarrow> take m (filter P xs) = take m xs"
proof -
  assume P: "\<And>x. x \<in> set (take m xs) \<Longrightarrow> P x"
  have "filter P xs = filter P (take m xs) @ filter P (drop m xs)"
    by (metis append_take_drop_id filter_append)
  moreover have "filter P (take m xs) = take m xs" using P by (simp add: filter_id_conv)
  ultimately show ?thesis by (cases "m \<le> length xs") simp_all
qed

text \<open>An element among the first \<open>m\<close> of a sorted list has fewer than \<open>m\<close> smaller ones.\<close>

lemma few_before:
  fixes f :: "'a \<Rightarrow> 'b :: linorder"
  assumes "sorted (map f xs)" "x \<in> set (take m xs)"
  shows "card {y \<in> set xs. f y < f x} < m"
proof -
  obtain i where i: "i < m" "i < length xs" "x = xs ! i"
    using assms(2) by (auto simp: in_set_conv_nth)
  have "{y \<in> set xs. f y < f x} \<subseteq> set (take i xs)"
  proof
    fix y assume "y \<in> {y \<in> set xs. f y < f x}"
    then obtain j where j: "j < length xs" "y = xs ! j" "f (xs ! j) < f (xs ! i)" using i by (auto simp: in_set_conv_nth)
    have "j < i"
    proof (rule ccontr)
      assume "\<not> j < i"
      then have "f (xs ! i) \<le> f (xs ! j)" using sorted_nth_mono [OF assms(1), of i j] i j by simp
      then show False using j by simp
    qed
    then show "y \<in> set (take i xs)" using j by (auto simp: in_set_conv_nth)
  qed
  then have "card {y \<in> set xs. f y < f x} \<le> card (set (take i xs))" by (intro card_mono) simp_all
  also have "\<dots> \<le> length (take i xs)" by (rule card_length)
  also have "\<dots> < m" using i by simp
  finally show ?thesis .
qed

lemma prefix_member:
  fixes f :: "'a \<Rightarrow> 'b :: linorder"
  assumes inj: "inj_on f (set xs \<union> set ys)" and dist: "distinct xs"
    and x: "x \<in> set (take m (sort_key f (xs @ ys)))" "x \<in> set xs"
  shows "x \<in> set (take m (sort_key f xs))"
proof (rule ccontr)
  define s where "s = sort_key f xs"
  assume not: "x \<notin> set (take m (sort_key f xs))"
  have s: "sorted (map f s)" "set s = set xs" "distinct s"
    using dist by (simp_all add: s_def)
  have "set (take m s) \<union> set (drop m s) = set xs" using s(2) by (metis append_take_drop_id set_append)
  then have x': "x \<in> set (drop m s)" using x(2) not by (auto simp: s_def)
  then have m: "m < length s" by (cases "m < length s") simp_all
  have "f y < f x" if y: "y \<in> set (take m s)" for y
  proof -
    have "sorted (map f (take m s) @ map f (drop m s))"
      using s(1) by (simp only: map_append [symmetric] append_take_drop_id)
    then have "f y \<le> f x" using y x' by (auto simp: sorted_append)
    moreover have "y \<noteq> x" using y not by (auto simp: s_def)
    moreover have "y \<in> set xs" using in_set_takeD [OF y] s(2) by simp
    ultimately show ?thesis using inj_onD [OF inj, of y x] x(2) by (cases "f y = f x") auto
  qed
  then have "set (take m s) \<subseteq> {y \<in> set (sort_key f (xs @ ys)). f y < f x}"
    using s(2) by (auto dest: in_set_takeD)
  then have "card (set (take m s)) \<le> card {y \<in> set (sort_key f (xs @ ys)). f y < f x}"
    by (intro card_mono) simp_all
  also have "\<dots> < m" by (rule few_before [OF _ x(1)]) simp
  finally show False using s(3) m by (simp add: distinct_card)
qed

lemma take_merge:
  fixes f :: "'a \<Rightarrow> 'b :: linorder"
  assumes inj: "inj_on f (set xs \<union> set ys)" and dist: "distinct xs" "distinct ys"
    and disj: "set xs \<inter> set ys = {}"
  shows "take m (sort_key f (take m (sort_key f xs) @ take m (sort_key f ys))) = take m (sort_key f (xs @ ys))"
proof -
  define a b where "a = take m (sort_key f xs)" and "b = take m (sort_key f ys)"
  define S where "S = sort_key f (xs @ ys)"
  define K where "K = (\<lambda>x. x \<in> set a \<union> set b)"
  have sub: "set a \<subseteq> set xs" "set b \<subseteq> set ys" unfolding a_def b_def by (auto dest: in_set_takeD)
  have dab: "distinct (a @ b)" using dist sub disj by (auto simp: a_def b_def)
  have injS: "inj_on f (set S)" using inj by (simp add: S_def)
  have "filter K S = sort_key f (a @ b)"
  proof (rule sorted_distinct_set_unique [THEN map_inj_on])
    show "sorted (map f (filter K S))" unfolding S_def by (simp add: filter_sort [symmetric] sorted_filter)
    have "distinct S" using dist disj by (simp add: S_def)
    then show "distinct (map f (filter K S))" using injS by (auto simp: distinct_map intro: inj_on_subset)
    show "sorted (map f (sort_key f (a @ b)))" by simp
    have "set (a @ b) \<subseteq> set S" using sub by (auto simp: S_def)
    then show "distinct (map f (sort_key f (a @ b)))"
      using dab injS by (auto simp: distinct_map intro: inj_on_subset)
    have "set (filter K S) = set (sort_key f (a @ b))" using sub by (auto simp: K_def S_def)
    then show "set (map f (filter K S)) = set (map f (sort_key f (a @ b)))" by simp
    show "inj_on f (set (filter K S) \<union> set (sort_key f (a @ b)))"
      using injS sub by (auto intro!: inj_on_subset [OF injS] simp: S_def)
  qed
  moreover have "take m (filter K S) = take m S"
  proof (rule take_filter_prefix)
    fix x assume x: "x \<in> set (take m S)"
    then have "x \<in> set xs \<or> x \<in> set ys" by (auto simp: S_def dest: in_set_takeD)
    then show "K x"
    proof
      assume "x \<in> set xs"
      then show ?thesis using prefix_member [OF inj dist(1), of x m] x by (simp add: S_def K_def a_def)
    next
      assume y: "x \<in> set ys"
      have "sort_key f (xs @ ys) = sort_key f (ys @ xs)"
      proof (rule sorted_distinct_set_unique [THEN map_inj_on])
        show "distinct (map f (sort_key f (xs @ ys)))" "distinct (map f (sort_key f (ys @ xs)))"
          using dist disj inj by (auto simp: distinct_map Un_commute)
      qed (use inj in \<open>auto simp: Un_commute\<close>)
      moreover have "inj_on f (set ys \<union> set xs)" using inj by (simp add: Un_commute)
      ultimately show ?thesis using prefix_member [OF _ dist(2), of f xs x m] x y by (simp add: S_def K_def b_def)
    qed
  qed
  ultimately show ?thesis unfolding a_def b_def S_def by simp
qed

section \<open>The whole merged history\<close>

lemma sort_key_map: "sort_key h (map c xs) = map c (sort_key (h \<circ> c) xs)"
proof (induction xs)
  case (Cons x xs)
  have "insort_key h (c x) (map c ys) = map c (insort_key (h \<circ> c) x ys)" for ys
    by (induction ys) simp_all
  then show ?case using Cons by (simp add: comp_def)
qed simp

lemma sort_key_order:
  assumes "\<And>x y. f x \<le> f y \<longleftrightarrow> g x \<le> g y"
  shows "sort_key f xs = sort_key g xs"
proof (induction xs)
  case (Cons x xs)
  have "insort_key f x ys = insort_key g x ys" for ys
    by (induction ys) (simp_all add: assms)
  then show ?case using Cons by simp
qed simp

lemma sort_contents: "map Content (sort_key hr_revision hs) = sort_key item_key (map Content hs)"
  unfolding sort_key_map by (intro arg_cong [where f = "map Content"] sort_key_order) (auto simp: content_key_def)

lemma sort_events: "map Event (sort_key (\<lambda>e. (ev_revision e, ev_id e)) es) = sort_key item_key (map Event es)"
  unfolding sort_key_map by (intro arg_cong [where f = "map Event"] sort_key_order) (auto simp: event_key_def)

definition owned_item :: "string \<Rightarrow> string \<Rightarrow> string \<Rightarrow> history_item \<Rightarrow> bool" where
  "owned_item et pid eid x \<longleftrightarrow>
     (case x of
        Content h \<Rightarrow> hr_entity_type h = et \<and> hr_project_id h = pid \<and> hr_entity_id h = eid
      | Event e \<Rightarrow> ev_entity_type e = et \<and> ev_project_id e = pid \<and> ev_entity_id e = eid)"

definition history_items :: "shared_db \<Rightarrow> string \<Rightarrow> string \<Rightarrow> string \<Rightarrow> history_item list" where
  "history_items db et pid eid =
     sort_key item_key (filter (owned_item et pid eid) (map Content (sd_history db) @ map Event (sd_events db)))"

definition cursor_key :: "SharedLifecycleHistoryCursor \<Rightarrow> history_key" where
  "cursor_key c = (cu_Revision c, cu_Source c, cu_ID c)"

text \<open>The cursors a page hands out, and the zero cursor.\<close>

definition proper_cursor :: "SharedLifecycleHistoryCursor \<Rightarrow> bool" where
  "proper_cursor c \<longleftrightarrow> c = zero_cursor \<or> (cu_Source c = 0 \<and> cu_ID c = cu_Revision c) \<or> cu_Source c = 1"

lemma content_behind:
  "proper_cursor c \<Longrightarrow> cursor_key c < content_key h \<longleftrightarrow> cu_Revision c < hr_revision h"
  by (auto simp: proper_cursor_def cursor_key_def content_key_def zero_cursor_def)

lemma event_behind:
  "proper_cursor c \<Longrightarrow> cursor_key c < event_key e \<longleftrightarrow>
     (if c = zero_cursor \<or> cu_Source c = 0 then cu_Revision c \<le> ev_revision e
      else cu_Revision c < ev_revision e \<or> (ev_revision e = cu_Revision c \<and> cu_ID c < ev_id e))"
  by (auto simp: proper_cursor_def cursor_key_def event_key_def zero_cursor_def)

lemma contents_behind:
  "proper_cursor c \<Longrightarrow> map Content (content_after db et pid eid c)
     = sort_key item_key (filter (\<lambda>x. owned_item et pid eid x \<and> cursor_key c < item_key x) (map Content (sd_history db)))"
  unfolding content_after_def sort_contents filter_map
  by (simp add: owned_item_def content_behind comp_def conj_ac)

lemma events_behind:
  "proper_cursor c \<Longrightarrow> map Event (events_after db et pid eid c)
     = sort_key item_key (filter (\<lambda>x. owned_item et pid eid x \<and> cursor_key c < item_key x) (map Event (sd_events db)))"
  unfolding events_after_def sort_events filter_map
  by (simp add: owned_item_def event_behind comp_def conj_ac)

lemma distinct_items:
  assumes "wf_store db"
  shows "inj_on item_key (set (filter (owned_item et pid eid) (map Content (sd_history db)))
           \<union> set (filter (owned_item et pid eid) (map Event (sd_events db))))"
    "distinct (map Content (sd_history db))" "distinct (map Event (sd_events db))"
proof -
  have h: "inj_on history_key_of (set (sd_history db))" "distinct (sd_history db)"
    and e: "inj_on ev_id (set (sd_events db))" "distinct (sd_events db)"
    using assms by (auto simp: wf_store_def distinct_map)
  then show "distinct (map Content (sd_history db))" "distinct (map Event (sd_events db))"
    by (simp_all add: distinct_map inj_on_def)
  have hh: "x = y" if "x \<in> set (sd_history db)" "y \<in> set (sd_history db)" "hr_entity_type x = hr_entity_type y"
      "hr_entity_id x = hr_entity_id y" "hr_revision x = hr_revision y" for x y
    using inj_onD [OF h(1), of x y] that by (simp add: history_key_of_def)
  show "inj_on item_key (set (filter (owned_item et pid eid) (map Content (sd_history db)))
           \<union> set (filter (owned_item et pid eid) (map Event (sd_events db))))"
  proof (rule inj_onI)
    fix x y
    assume x: "x \<in> set (filter (owned_item et pid eid) (map Content (sd_history db)))
           \<union> set (filter (owned_item et pid eid) (map Event (sd_events db)))"
      and y: "y \<in> set (filter (owned_item et pid eid) (map Content (sd_history db)))
           \<union> set (filter (owned_item et pid eid) (map Event (sd_events db)))"
      and key: "item_key x = item_key y"
    show "x = y"
    proof (cases x)
      case (Content a)
      then obtain b where b: "y = Content b" using key by (cases y) (simp_all add: content_key_def event_key_def)
      have "a \<in> set (sd_history db)" "hr_entity_type a = et" "hr_entity_id a = eid"
        using x unfolding Content owned_item_def by auto
      moreover have "b \<in> set (sd_history db)" "hr_entity_type b = et" "hr_entity_id b = eid"
        using y unfolding b owned_item_def by auto
      moreover have "hr_revision a = hr_revision b" using key by (simp add: Content b content_key_def)
      ultimately show ?thesis using hh [of a b] by (simp add: Content b)
    next
      case (Event a)
      then obtain b where b: "y = Event b" using key by (cases y) (simp_all add: content_key_def event_key_def)
      have "a \<in> set (sd_events db)" "b \<in> set (sd_events db)" using x y unfolding Event b by auto
      moreover have "ev_id a = ev_id b" using key by (simp add: Event b event_key_def)
      ultimately show ?thesis using inj_onD [OF e(1), of a b] by (simp add: Event b)
    qed
  qed
qed

text \<open>The merge of the two bounded reads is a prefix of what lies behind the cursor.\<close>

lemma merged_prefix:
  assumes wf: "wf_store db" and c: "proper_cursor c"
  shows "take m (merge_history (take m (content_after db et pid eid c)) (take m (events_after db et pid eid c)))
     = take m (filter (\<lambda>x. cursor_key c < item_key x) (history_items db et pid eid))"
proof -
  define P where "P = (\<lambda>x. owned_item et pid eid x \<and> cursor_key c < item_key x)"
  define A B where "A = filter P (map Content (sd_history db))" and "B = filter P (map Event (sd_events db))"
  note d = distinct_items [OF wf]
  have inj: "inj_on item_key (set A \<union> set B)"
    by (rule inj_on_subset [OF d(1) [of et pid eid]]) (auto simp: A_def B_def P_def)
  have dist: "distinct A" "distinct B" "set A \<inter> set B = {}"
    using d(2,3) by (auto simp: A_def B_def)
  have "take m (merge_history (take m (content_after db et pid eid c)) (take m (events_after db et pid eid c)))
      = take m (sort_key item_key (take m (sort_key item_key A) @ take m (sort_key item_key B)))"
    unfolding merge_history_def take_map [symmetric] contents_behind [OF c] events_behind [OF c] A_def B_def P_def by (rule refl)
  also have "\<dots> = take m (sort_key item_key (A @ B))" by (rule take_merge [OF inj dist])
  also have "sort_key item_key (A @ B) = filter (\<lambda>x. cursor_key c < item_key x) (history_items db et pid eid)"
    unfolding history_items_def filter_sort A_def B_def P_def by (simp add: conj_commute)
  finally show ?thesis .
qed

section \<open>Cursors are read back as they were written\<close>

lemma plain_pad: "plain (pad w i)"
proof -
  have "plain (replicate n (CHR ''0''))" for n
    by (induction n) (simp_all add: plain_def plain_char_def byte_def)
  then show ?thesis by (simp add: pad_def Let_def plain_digits)
qed

lemma plain_drop_zeros: "plain s \<Longrightarrow> plain (drop_trailing_zeros s)"
  unfolding plain_def drop_trailing_zeros_def by (auto simp: list_all_iff dest: set_dropWhileD)

lemma plain_time: "plain (rfc3339_nano t)"
proof -
  have marks: "plain_char (CHR ''-'')" "plain_char (CHR ''T'')" "plain_char (CHR '':'')" "plain_char (CHR ''.'')"
    "plain_char (CHR ''Z'')" "plain_char (CHR ''+'')" "plain []"
    by (simp_all add: plain_def plain_char_def byte_def)
  have "plain (rfc3339_zone off)" for off
    unfolding rfc3339_zone_def Let_def by (simp add: marks plain_pad plain_Cons)
  then show ?thesis
    unfolding rfc3339_nano_def Let_def by (simp add: marks plain_pad plain_Cons plain_drop_zeros split: prod.splits)
qed

lemma plain_cursor_names: "plain ''recorded_at''" "plain ''revision''" "plain ''source''" "plain ''id''"
  by (simp_all add: plain_def plain_char_def byte_def)

definition cursor_members :: "SharedLifecycleHistoryCursor \<Rightarrow> (string \<times> flat) list" where
  "cursor_members c =
     [(''recorded_at'', Flat_string (cu_RecordedAt c)), (''revision'', Flat_number (nat (cu_Revision c))),
      (''source'', Flat_number (nat (cu_Source c))), (''id'', Flat_number (nat (cu_ID c)))]"

lemma valid_cursor:
  assumes "validateSharedLifecycleHistoryCursor c False = None"
  shows "cu_Source c = 0 \<or> cu_Source c = 1" "0 \<le> cu_Revision c" "1 \<le> cu_ID c" "plain (cu_RecordedAt c)"
proof -
  note checks = assms [unfolded validateSharedLifecycleHistoryCursor_def, simplified]
  show "cu_Source c = 0 \<or> cu_Source c = 1" "0 \<le> cu_Revision c" "1 \<le> cu_ID c" using checks by auto
  show "plain (cu_RecordedAt c)"
  proof (cases "parse_rfc3339 (cu_RecordedAt c)")
    case (Some t)
    then have "rfc3339_nano t = cu_RecordedAt c" using checks by simp
    then show ?thesis using plain_time [of t] by simp
  qed (use checks in simp)
qed

lemma cursor_struct:
  "struct_field cursor_fields ''recorded_at'' = Some (dec_string (\<lambda>x r. r\<lparr>cu_RecordedAt := x\<rparr>))"
  "struct_field cursor_fields ''revision'' = Some (dec_int64 (\<lambda>x r. r\<lparr>cu_Revision := x\<rparr>))"
  "struct_field cursor_fields ''source'' = Some (dec_int64 (\<lambda>x r. r\<lparr>cu_Source := x\<rparr>))"
  "struct_field cursor_fields ''id'' = Some (dec_int64 (\<lambda>x r. r\<lparr>cu_ID := x\<rparr>))"
  by (simp_all add: struct_field_def cursor_fields_def)

lemma cursor_round_trip:
  assumes "EncodeSharedLifecycleHistoryCursor c = Ok s"
    and "cu_Revision c < 9223372036854775808" "cu_ID c < 9223372036854775808"
  shows "DecodeSharedLifecycleHistoryCursor s = Ok c"
proof -
  have v: "validateSharedLifecycleHistoryCursor c False = None"
    and s: "s = json_object [(''recorded_at'', json_string (cu_RecordedAt c)), (''revision'', dec_int (cu_Revision c)),
                         (''source'', dec_int (cu_Source c)), (''id'', dec_int (cu_ID c))]"
    using assms(1) unfolding EncodeSharedLifecycleHistoryCursor_def by auto
  note c = valid_cursor [OF v]
  have src: "0 \<le> cu_Source c" using c(1) by auto
  have enc: "s = json_object (map (apsnd flat_text) (cursor_members c))"
    using c src by (simp add: s cursor_members_def dec_int_def)
  have ms: "cursor_members c \<noteq> []" "\<forall>(k, v) \<in> set (cursor_members c). plain k \<and> flat_plain v"
    using c(4) by (simp_all add: cursor_members_def plain_cursor_names)
  have int: "parse_int64 (dec (nat i)) = Some i" if "0 \<le> i" "i < 9223372036854775808" for i
    using parse_int64_dec [of "nat i"] that by simp
  have ints: "parse_int64 (dec (nat (cu_Revision c))) = Some (cu_Revision c)"
    "parse_int64 (dec (nat (cu_ID c))) = Some (cu_ID c)" "parse_int64 (dec (nat (cu_Source c))) = Some (cu_Source c)"
    using assms(2,3) c src by (auto intro!: int)
  have "decode_struct True cursor_fields (J_object (map (apsnd flat_json) (cursor_members c))) zero_cursor = Some c"
    by (simp add: decode_struct_def cursor_members_def unquote_plain plain_cursor_names cursor_struct dec_string_def
        dec_int64_def c(4) ints zero_cursor_def)
  then show ?thesis
    by (simp add: DecodeSharedLifecycleHistoryCursor_def enc json_parse_flat [OF ms] v)
qed

end
