(* ===== verification/Shared_Page_Properties.thy ===== *)
theory Shared_Page_Properties
  imports Shared_Page_Laws
begin

text \<open>
  The pages of an entity's merged history: each page is the next stretch of the one sorted list
  of its revisions and events, and following the cursors reads the list exactly once.
\<close>

section \<open>One page\<close>

text \<open>No other writer between the reads of a page.\<close>

definition quiet :: "driver \<Rightarrow> bool" where
  "quiet dv \<longleftrightarrow> (\<forall>k db. dv_others dv k db = db)"

definition int64_keys :: "shared_db \<Rightarrow> bool" where
  "int64_keys db \<longleftrightarrow> (\<forall>h \<in> set (sd_history db). 0 < hr_revision h \<and> hr_revision h < 9223372036854775808)
     \<and> (\<forall>e \<in> set (sd_events db). 0 < ev_revision e \<and> ev_revision e < 9223372036854775808 \<and> ev_id e < 9223372036854775808)"

lemma quiet_query: "quiet dv \<Longrightarrow> io_query dv q (k, db) = (Inr y, s') \<longleftrightarrow> dv_fault dv k = None \<and> y = q db \<and> s' = (Suc k, db)"
  by (simp add: io_query_Inr quiet_def)

lemma bind_query:
  "quiet dv \<Longrightarrow> io_bind (io_query dv q) f (k, db) = (Inr y, s') \<longleftrightarrow> dv_fault dv k = None \<and> f (q db) (Suc k, db) = (Inr y, s')"
  by (auto simp: io_bind_Inr quiet_query)

lemma bind_result: "io_bind (io_result r) f s = (Inr y, s') \<longleftrightarrow> (\<exists>x. r = Inr x \<and> f x s = (Inr y, s'))"
  by (auto simp: io_bind_Inr io_result_Inr)

lemma chain_reads:
  assumes "quiet dv" "readSharedLifecycleChain dv d pid eid n (k, db) = (Inr es, s')"
  shows "snd s' = db"
  using assms(2) unfolding readSharedLifecycleChain_def validateSharedLifecycleChain_def
  by (auto simp: io_bind_Inr quiet_query [OF assms(1)] io_simps io_result_Inr split: if_splits option.splits)

lemma decode_items_length: "decode_items et pid eid xs = Inr rs \<Longrightarrow> length rs = length xs"
  by (induction xs arbitrary: rs) (auto split: sum.splits)

lemma page_reads:
  assumes q: "quiet dv"
    and ok: "ListSharedLifecycleHistoryPage dv et pid eid after limit (k, db) = (Inr page, k', db')"
  obtains contents events rs where "1 \<le> limit" "db' = db" "validateSharedLifecycleHistoryCursor after True = None"
    "contents = take (nat limit + 1) (content_after db et pid eid after)"
    "events = take (nat limit + 1) (events_after db et pid eid after)"
    "decode_items et pid eid (take (nat limit) (merge_history contents events)) = Inr rs"
    "hp_Records page = map fst rs" "hp_HasMore page \<longleftrightarrow> nat limit < length (merge_history contents events)"
    "hp_HasMore page \<longrightarrow> EncodeSharedLifecycleHistoryCursor
       (cursor_of (last (take (nat limit) (merge_history contents events))) (snd (last rs))) = Ok (hp_NextCursor page)"
proof -
  from ok obtain d where guard: "1 \<le> limit"
      "validateSharedLifecycleHistoryCursor after True = None"
    and run: "io_bind (readSharedLifecycleChain dv d pid eid SharedLifecycleQueryMaxRows) (\<lambda>_.
            io_bind (io_query dv (\<lambda>db. take (nat limit + 1) (content_after db et pid eid after))) (\<lambda>contents.
            io_bind (io_result (decode_items et pid eid (map Content contents))) (\<lambda>_.
            io_bind (io_query dv (\<lambda>db. take (nat limit + 1) (events_after db et pid eid after))) (\<lambda>events.
            io_bind (io_result (decode_items et pid eid (map Event events))) (\<lambda>_.
              let merged = merge_history contents events; kept = take (nat limit) merged in
              io_bind (io_result (decode_items et pid eid kept)) (\<lambda>rs.
                if length merged \<le> nat limit
                then io_return \<lparr>hp_Records = map fst rs, hp_NextRevision = 0, hp_NextCursor = '''', hp_HasMore = False\<rparr>
                else (case EncodeSharedLifecycleHistoryCursor (cursor_of (last kept) (snd (last rs))) of
                        Inl m \<Rightarrow> io_error m
                      | Inr c \<Rightarrow> io_return \<lparr>hp_Records = map fst rs, hp_NextRevision = fst (item_key (last kept)),
                                   hp_NextCursor = c, hp_HasMore = True\<rparr>))))))) (k, db) = (Inr page, k', db')"
    unfolding ListSharedLifecycleHistoryPage_def no_history_def
    by (auto simp: io_check_Inr io_simps Let_def split: option.splits if_splits)
  from run obtain es s1 where chain: "readSharedLifecycleChain dv d pid eid SharedLifecycleQueryMaxRows (k, db) = (Inr es, s1)"
    and rest: "io_bind (io_query dv (\<lambda>db. take (nat limit + 1) (content_after db et pid eid after))) (\<lambda>contents.
            io_bind (io_result (decode_items et pid eid (map Content contents))) (\<lambda>_.
            io_bind (io_query dv (\<lambda>db. take (nat limit + 1) (events_after db et pid eid after))) (\<lambda>events.
            io_bind (io_result (decode_items et pid eid (map Event events))) (\<lambda>_.
              let merged = merge_history contents events; kept = take (nat limit) merged in
              io_bind (io_result (decode_items et pid eid kept)) (\<lambda>rs.
                if length merged \<le> nat limit
                then io_return \<lparr>hp_Records = map fst rs, hp_NextRevision = 0, hp_NextCursor = '''', hp_HasMore = False\<rparr>
                else (case EncodeSharedLifecycleHistoryCursor (cursor_of (last kept) (snd (last rs))) of
                        Inl m \<Rightarrow> io_error m
                      | Inr c \<Rightarrow> io_return \<lparr>hp_Records = map fst rs, hp_NextRevision = fst (item_key (last kept)),
                                   hp_NextCursor = c, hp_HasMore = True\<rparr>)))))) s1 = (Inr page, k', db')"
    unfolding io_bind_Inr by blast
  obtain k1 where s1: "s1 = (k1, db)" using chain_reads [OF q chain] by (cases s1) simp
  define contents where "contents = take (nat limit + 1) (content_after db et pid eid after)"
  define events where "events = take (nat limit + 1) (events_after db et pid eid after)"
  from rest [unfolded s1 bind_query [OF q] bind_result Let_def] obtain rs where rs: "decode_items et pid eid (take (nat limit) (merge_history contents events)) = Inr rs"
    and fin: "(if length (merge_history contents events) \<le> nat limit
        then io_return \<lparr>hp_Records = map fst rs, hp_NextRevision = 0, hp_NextCursor = '''', hp_HasMore = False\<rparr>
        else (case EncodeSharedLifecycleHistoryCursor
               (cursor_of (last (take (nat limit) (merge_history contents events))) (snd (last rs))) of
                Inl m \<Rightarrow> io_error m
              | Inr c \<Rightarrow> io_return \<lparr>hp_Records = map fst rs,
                   hp_NextRevision = fst (item_key (last (take (nat limit) (merge_history contents events)))),
                   hp_NextCursor = c, hp_HasMore = True\<rparr>)) (Suc (Suc k1), db) = (Inr page, k', db')"
    unfolding contents_def events_def by blast
  show ?thesis
    by (rule that [OF guard(1) _ guard(2) contents_def events_def rs])
      (use fin in \<open>auto simp: io_simps split: if_splits sum.splits\<close>)
qed

lemma cursor_of_key: "cursor_key (cursor_of x at) = item_key x" "proper_cursor (cursor_of x at)"
proof -
  show "cursor_key (cursor_of x at) = item_key x"
    by (simp add: cursor_of_def cursor_key_def split: prod.splits)
  show "proper_cursor (cursor_of x at)"
    by (cases x) (simp_all add: cursor_of_def content_key_def event_key_def proper_cursor_def)
qed

lemma cursor_int64:
  assumes "int64_keys db" "x \<in> set (history_items db et pid eid)"
  shows "cu_Revision (cursor_of x at) < 9223372036854775808" "cu_ID (cursor_of x at) < 9223372036854775808"
  using assms by (cases x; auto simp: history_items_def int64_keys_def cursor_of_def content_key_def event_key_def)+

text \<open>
  A page is the next stretch of the whole: with no other writer between its reads, the records
  of a page are the first \<open>limit\<close> items behind the cursor in the one list of all revisions and events
  of the entity, sorted by revision, with the content of a revision before its events. There
  is more exactly when that list is longer, and then the cursor handed out decodes to the
  key of the last record.
\<close>

theorem history_page_exact:
  assumes "quiet dv" and "wf_store db" and "int64_keys db" and "proper_cursor after"
    and "ListSharedLifecycleHistoryPage dv et pid eid after limit (k, db) = (Inr page, k', db')"
  shows "\<exists>rs. let rest = filter (\<lambda>x. cursor_key after < item_key x) (history_items db et pid eid) in
     decode_items et pid eid (take (nat limit) rest) = Inr rs \<and> hp_Records page = map fst rs \<and> db' = db
     \<and> (hp_HasMore page \<longleftrightarrow> nat limit < length rest)
     \<and> (hp_HasMore page \<longrightarrow> (\<exists>c. DecodeSharedLifecycleHistoryCursor (hp_NextCursor page) = Ok c
           \<and> cursor_key c = item_key (last (take (nat limit) rest)) \<and> proper_cursor c))"
proof (rule page_reads [OF assms(1,5)])
  define rest where "rest = filter (\<lambda>x. cursor_key after < item_key x) (history_items db et pid eid)"
  fix contents events rs
  assume lim: "1 \<le> limit" and db: "db' = db"
    and c: "contents = take (nat limit + 1) (content_after db et pid eid after)"
    and e: "events = take (nat limit + 1) (events_after db et pid eid after)"
    and rs: "decode_items et pid eid (take (nat limit) (merge_history contents events)) = Inr rs" "hp_Records page = map fst rs"
    and more: "hp_HasMore page \<longleftrightarrow> nat limit < length (merge_history contents events)"
    and cur: "hp_HasMore page \<longrightarrow> EncodeSharedLifecycleHistoryCursor
       (cursor_of (last (take (nat limit) (merge_history contents events))) (snd (last rs))) = Ok (hp_NextCursor page)"
  have prefix: "take (nat limit + 1) (merge_history contents events) = take (nat limit + 1) rest"
    unfolding c e rest_def by (rule merged_prefix [OF assms(2,4)])
  then have kept: "take (nat limit) (merge_history contents events) = take (nat limit) rest"
    by (metis add.commute le_add2 min.absorb1 take_take)
  have len: "nat limit < length (merge_history contents events) \<longleftrightarrow> nat limit < length rest"
    using arg_cong [OF prefix, of length] by simp linarith
  have "\<exists>c. DecodeSharedLifecycleHistoryCursor (hp_NextCursor page) = Ok c
       \<and> cursor_key c = item_key (last (take (nat limit) rest)) \<and> proper_cursor c" if "hp_HasMore page"
  proof -
    have "rest \<noteq> []" "take (nat limit) rest \<noteq> []" using that more len lim by auto
    then have "last (take (nat limit) rest) \<in> set rest" by (metis in_set_takeD last_in_set)
    then have "last (take (nat limit) rest) \<in> set (history_items db et pid eid)" by (simp add: rest_def)
    from cursor_int64 [OF assms(3) this] cur that show ?thesis
      unfolding kept by (intro exI conjI, intro cursor_round_trip) (auto simp: cursor_of_key)
  qed
  then show ?thesis
    unfolding Let_def rest_def [symmetric] using rs more len db kept by auto
qed

section \<open>Following the cursors\<close>

text \<open>A reader that follows the cursors, through at most \<open>n\<close> pages.\<close>

fun read_pages ::
  "nat \<Rightarrow> driver \<Rightarrow> string \<Rightarrow> string \<Rightarrow> string \<Rightarrow> SharedLifecycleHistoryCursor \<Rightarrow> int \<Rightarrow> SharedRevisionRecord list io" where
  "read_pages 0 dv et pid eid after limit = io_error ''too many pages''"
| "read_pages (Suc n) dv et pid eid after limit =
     io_bind (ListSharedLifecycleHistoryPage dv et pid eid after limit) (\<lambda>page.
       if hp_HasMore page then
         (case DecodeSharedLifecycleHistoryCursor (hp_NextCursor page) of
            Inl m \<Rightarrow> io_error m
          | Inr c \<Rightarrow> io_bind (read_pages n dv et pid eid c limit) (\<lambda>rs. io_return (hp_Records page @ rs)))
       else io_return (hp_Records page))"

lemma sorted_last: "sorted (map f xs) \<Longrightarrow> x \<in> set xs \<Longrightarrow> f x \<le> (f (last xs) :: 'b :: linorder)"
proof (induction xs)
  case (Cons y ys)
  then show ?case by (cases "ys = []") auto
qed simp

lemma behind_last:
  fixes f :: "'a \<Rightarrow> 'b :: linorder"
  assumes "sorted (map f xs)" "distinct (map f xs)" "0 < m" "m < length xs"
  shows "filter (\<lambda>x. f (last (take m xs)) < f x) xs = drop m xs"
proof -
  have s: "sorted (map f (take m xs) @ map f (drop m xs))" "distinct (map f (take m xs) @ map f (drop m xs))"
    using assms(1,2) by (simp_all only: map_append [symmetric] append_take_drop_id)
  have ne: "take m xs \<noteq> []" using assms(3,4) by auto
  then have l: "last (take m xs) \<in> set (take m xs)" by (rule last_in_set)
  have "filter (\<lambda>x. f (last (take m xs)) < f x) (take m xs) = []"
  proof -
    have "f x \<le> f (last (take m xs))" if x: "x \<in> set (take m xs)" for x
      by (rule sorted_last [OF _ x]) (use s(1) in \<open>simp add: sorted_append\<close>)
    then show ?thesis by (auto simp: filter_empty_conv not_less)
  qed
  moreover have "filter (\<lambda>x. f (last (take m xs)) < f x) (drop m xs) = drop m xs"
  proof -
    have "f (last (take m xs)) < f x" if x: "x \<in> set (drop m xs)" for x
    proof -
      have "f (last (take m xs)) \<le> f x" using s(1) l x by (simp add: sorted_append)
      moreover have "f (last (take m xs)) \<noteq> f x" using s(2) l x by (simp add: distinct_append disjoint_iff) blast
      ultimately show ?thesis by simp
    qed
    then show ?thesis by (simp add: filter_id_conv)
  qed
  moreover have "filter Q xs = filter Q (take m xs) @ filter Q (drop m xs)" for Q
    by (simp only: filter_append [symmetric] append_take_drop_id)
  ultimately show ?thesis by simp
qed

lemma decode_items_append:
  "decode_items et pid eid (xs @ ys) = Inr rs \<longleftrightarrow>
     (\<exists>a b. decode_items et pid eid xs = Inr a \<and> decode_items et pid eid ys = Inr b \<and> rs = a @ b)"
  by (induction xs arbitrary: rs) (auto split: sum.splits)

lemma sorted_items:
  assumes "wf_store db"
  shows "sorted (map item_key (history_items db et pid eid))" "distinct (map item_key (history_items db et pid eid))"
proof -
  show "sorted (map item_key (history_items db et pid eid))" by (simp add: history_items_def)
  have "distinct (history_items db et pid eid)"
    using distinct_items(2,3) [OF assms] by (auto simp: history_items_def)
  moreover have "inj_on item_key (set (history_items db et pid eid))"
    using distinct_items(1) [OF assms, of et pid eid] by (simp add: history_items_def)
  ultimately show "distinct (map item_key (history_items db et pid eid))" by (simp add: distinct_map)
qed

definition items_behind :: "shared_db \<Rightarrow> string \<Rightarrow> string \<Rightarrow> string \<Rightarrow> SharedLifecycleHistoryCursor \<Rightarrow> history_item list" where
  "items_behind db et pid eid c = filter (\<lambda>x. cursor_key c < item_key x) (history_items db et pid eid)"

lemma next_items:
  assumes "wf_store db" "0 < m" "m < length (items_behind db et pid eid a)"
    and c: "cursor_key c = item_key (last (take m (items_behind db et pid eid a)))"
  shows "items_behind db et pid eid c = drop m (items_behind db et pid eid a)"
proof -
  define L where "L = items_behind db et pid eid a"
  have L: "sorted (map item_key L)" "distinct (map item_key L)"
    using sorted_items [OF assms(1), of et pid eid] unfolding L_def items_behind_def
    by (auto simp: sorted_filter distinct_map_filter)
  have "last (take m L) \<in> set L" using assms(2,3) unfolding L_def
    by (metis in_set_takeD last_in_set less_nat_zero_code list.size(3) take_eq_Nil)
  then have "cursor_key a < cursor_key c" unfolding c by (simp add: L_def items_behind_def)
  then have "items_behind db et pid eid c = filter (\<lambda>x. cursor_key c < item_key x) L"
    unfolding L_def items_behind_def by (auto intro!: filter_cong)
  also have "\<dots> = drop m L"
    unfolding c [folded L_def] by (rule behind_last [OF L]) (use assms(2,3) L_def in auto)
  finally show ?thesis by (simp add: L_def)
qed

lemma pages_exact:
  assumes q: "quiet dv" and wf: "wf_store db" and i: "int64_keys db"
  shows "proper_cursor a \<Longrightarrow> read_pages n dv et pid eid a limit (k, db) = (Inr rs, k', db') \<Longrightarrow>
    \<exists>xs. decode_items et pid eid (items_behind db et pid eid a) = Inr xs \<and> rs = map fst xs"
proof (induction n arbitrary: a k rs)
  case 0
  then show ?case by (simp add: io_simps)
next
  case (Suc n)
  then obtain page k1 db1 where page: "ListSharedLifecycleHistoryPage dv et pid eid a limit (k, db) = (Inr page, k1, db1)"
    and rest: "(if hp_HasMore page then
         (case DecodeSharedLifecycleHistoryCursor (hp_NextCursor page) of
            Inl m \<Rightarrow> io_error m
          | Inr c \<Rightarrow> io_bind (read_pages n dv et pid eid c limit) (\<lambda>rs. io_return (hp_Records page @ rs)))
       else io_return (hp_Records page)) (k1, db1) = (Inr rs, k', db')"
    by (auto simp: io_bind_Inr)
  define L where "L = items_behind db et pid eid a"
  have lim: "1 \<le> limit" by (rule page_reads [OF q page])
  from history_page_exact [OF q wf i Suc.prems(1) page] obtain xs where
    xs: "decode_items et pid eid (take (nat limit) L) = Inr xs" "hp_Records page = map fst xs" "db1 = db"
      "hp_HasMore page \<longleftrightarrow> nat limit < length L"
      "hp_HasMore page \<longrightarrow> (\<exists>c. DecodeSharedLifecycleHistoryCursor (hp_NextCursor page) = Ok c
           \<and> cursor_key c = item_key (last (take (nat limit) L)) \<and> proper_cursor c)"
    unfolding Let_def L_def items_behind_def by blast
  show ?case
  proof (cases "hp_HasMore page")
    case False
    then have "take (nat limit) L = L" using xs(4) by simp
    moreover have "rs = map fst xs" using rest False xs(2) by (simp add: io_simps)
    ultimately show ?thesis using xs(1) by (auto simp: L_def)
  next
    case True
    then obtain c where c: "DecodeSharedLifecycleHistoryCursor (hp_NextCursor page) = Ok c"
        "cursor_key c = item_key (last (take (nat limit) L))" "proper_cursor c" using xs(5) by blast
    then obtain rs' where rs': "read_pages n dv et pid eid c limit (k1, db) = (Inr rs', k', db')" "rs = hp_Records page @ rs'"
      using rest True xs(3) by (auto simp: io_bind_Inr io_simps)
    from Suc.IH [OF c(3) rs'(1)] obtain ys where ys: "decode_items et pid eid (items_behind db et pid eid c) = Inr ys"
        "rs' = map fst ys" by blast
    have "items_behind db et pid eid c = drop (nat limit) L"
      unfolding L_def by (rule next_items [OF wf _ _ c(2) [unfolded L_def]]) (use lim True xs(4) L_def in auto)
    then have "decode_items et pid eid L = Inr (xs @ ys)"
      using xs(1) ys(1) decode_items_append [of et pid eid "take (nat limit) L" "drop (nat limit) L"] by simp
    then show ?thesis using rs'(2) xs(2) ys(2) by (auto simp: L_def)
  qed
qed

lemma decoded_valid: "DecodeSharedLifecycleHistoryCursor s = Ok c \<Longrightarrow> validateSharedLifecycleHistoryCursor c True = None"
  unfolding DecodeSharedLifecycleHistoryCursor_def validateSharedLifecycleHistoryCursor_def
  by (auto split: option.splits)

lemma pages_suffice:
  assumes q: "quiet dv" and wf: "wf_store db" and i: "int64_keys db"
    and reads: "\<And>c k. proper_cursor c \<Longrightarrow> validateSharedLifecycleHistoryCursor c True = None \<Longrightarrow>
      \<exists>page s. ListSharedLifecycleHistoryPage dv et pid eid c limit (k, db) = (Inr page, s)"
  shows "proper_cursor a \<Longrightarrow> validateSharedLifecycleHistoryCursor a True = None \<Longrightarrow> length (items_behind db et pid eid a) < n \<Longrightarrow>
    \<exists>rs s. read_pages n dv et pid eid a limit (k, db) = (Inr rs, s)"
proof (induction n arbitrary: a k)
  case (Suc n)
  define L where "L = items_behind db et pid eid a"
  obtain page k1 db1 where page: "ListSharedLifecycleHistoryPage dv et pid eid a limit (k, db) = (Inr page, k1, db1)"
    using reads [OF Suc.prems(1,2)] by (metis prod.collapse)
  have lim: "1 \<le> limit" by (rule page_reads [OF q page])
  from history_page_exact [OF q wf i Suc.prems(1) page] have
    xs: "db1 = db" "hp_HasMore page \<longleftrightarrow> nat limit < length L"
      "hp_HasMore page \<longrightarrow> (\<exists>c. DecodeSharedLifecycleHistoryCursor (hp_NextCursor page) = Ok c
           \<and> cursor_key c = item_key (last (take (nat limit) L)) \<and> proper_cursor c)"
    unfolding Let_def L_def items_behind_def by blast+
  show ?case
  proof (cases "hp_HasMore page")
    case False
    then show ?thesis using page by (simp add: io_bind_def io_return_def)
  next
    case True
    then obtain c where c: "DecodeSharedLifecycleHistoryCursor (hp_NextCursor page) = Ok c"
        "cursor_key c = item_key (last (take (nat limit) L))" "proper_cursor c" using xs(3) by blast
    have "items_behind db et pid eid c = drop (nat limit) L"
      unfolding L_def by (rule next_items [OF wf _ _ c(2) [unfolded L_def]]) (use lim True xs(2) L_def in auto)
    then have len: "length (items_behind db et pid eid c) < n" using Suc.prems(3) True xs(2) lim by (simp add: L_def)
    have "validateSharedLifecycleHistoryCursor c True = None" by (rule decoded_valid [OF c(1)])
    from Suc.IH [OF c(3) this len, of k1] show ?thesis
      using page True c(1) xs(1) by (auto simp: io_bind_def io_return_def)
  qed
qed simp

text \<open>When a page is read without an error.\<close>

lemma decode_items_total:
  "(\<And>x. x \<in> set xs \<Longrightarrow> \<exists>r. decode_item et pid eid x = Inr r) \<Longrightarrow> \<exists>rs. decode_items et pid eid xs = Inr rs"
proof (induction xs)
  case (Cons x xs)
  obtain r where "decode_item et pid eid x = Inr r" using Cons.prems [of x] by auto
  moreover obtain rs where "decode_items et pid eid xs = Inr rs" using Cons by auto
  ultimately show ?case by simp
qed simp

lemma decode_items_last:
  "decode_items et pid eid xs = Inr rs \<Longrightarrow> xs \<noteq> [] \<Longrightarrow> decode_item et pid eid (last xs) = Inr (last rs)"
proof (induction xs arbitrary: rs)
  case (Cons x xs)
  then obtain r rs' where r: "decode_item et pid eid x = Inr r" "decode_items et pid eid xs = Inr rs'" "rs = r # rs'"
    by (auto split: sum.splits)
  show ?case
  proof (cases "xs = []")
    case False
    then have "rs' \<noteq> []" using decode_items_length [OF r(2)] by auto
    then show ?thesis using Cons.IH [OF r(2) False] False r(3) by simp
  qed (use r in simp)
qed simp

definition readable_history :: "driver \<Rightarrow> shared_db \<Rightarrow> string \<Rightarrow> string \<Rightarrow> string \<Rightarrow> bool" where
  "readable_history dv db et pid eid \<longleftrightarrow>
     (\<forall>d k. sharedLifecycle et = Some d \<longrightarrow>
        (\<exists>es s. readSharedLifecycleChain dv d pid eid SharedLifecycleQueryMaxRows (k, db) = (Inr es, s)))
     \<and> (\<forall>x \<in> set (history_items db et pid eid). \<exists>r. decode_item et pid eid x = Inr r
          \<and> validateSharedLifecycleHistoryCursor (cursor_of x (snd r)) False = None)"

lemma bind_ok: "io_bind (io_result (Inr x)) f s = f x s"
  by (simp add: io_bind_def io_result_def io_return_def)

lemma page_succeeds:
  assumes q: "quiet dv" and wf: "wf_store db" and a: "proper_cursor a" "validateSharedLifecycleHistoryCursor a True = None"
    and dv: "dv_Shared dv" "\<And>k. dv_fault dv k = None" and et: "history_definition et = Some d"
    and args: "pid \<noteq> ''''" "eid \<noteq> ''''" "1 \<le> limit" "limit \<le> 256"
    and h: "readable_history dv db et pid eid"
  shows "\<exists>page s. ListSharedLifecycleHistoryPage dv et pid eid a limit (k, db) = (Inr page, s)"
proof -
  define contents events where "contents = take (nat limit + 1) (content_after db et pid eid a)"
    and "events = take (nat limit + 1) (events_after db et pid eid a)"
  define merged where "merged = merge_history contents events"
  have "sharedLifecycle et = Some d" using et by (auto simp: history_definition_def split: option.splits if_splits)
  then obtain es s1 where chain: "readSharedLifecycleChain dv d pid eid SharedLifecycleQueryMaxRows (k, db) = (Inr es, s1)"
    using h unfolding readable_history_def by blast
  then obtain k1 where s1: "s1 = (k1, db)" using chain_reads [OF q chain] by (cases s1) simp
  have dec: "\<exists>r. decode_item et pid eid x = Inr r \<and> validateSharedLifecycleHistoryCursor (cursor_of x (snd r)) False = None"
    if "x \<in> set (map Content contents) \<union> set (map Event events)" for x
  proof -
    have "x \<in> set (history_items db et pid eid)"
      using that by (auto simp: contents_def events_def history_items_def content_after_def events_after_def
          owned_item_def dest!: in_set_takeD)
    then show ?thesis using h by (simp add: readable_history_def)
  qed
  have sub: "set merged = set (map Content contents) \<union> set (map Event events)" by (simp add: merged_def merge_history_def)
  then have ex: "\<exists>r. decode_item et pid eid x = Inr r" if "x \<in> set merged" for x using dec that by blast
  obtain ra rb rs where r: "decode_items et pid eid (map Content contents) = Inr ra"
      "decode_items et pid eid (map Event events) = Inr rb" "decode_items et pid eid (take (nat limit) merged) = Inr rs"
    using decode_items_total [of "map Content contents" et pid eid] decode_items_total [of "map Event events" et pid eid]
      decode_items_total [of "take (nat limit) merged" et pid eid] ex sub by (metis UnCI in_set_takeD)
  have enc: "\<exists>c. EncodeSharedLifecycleHistoryCursor (cursor_of (last (take (nat limit) merged)) (snd (last rs))) = Ok c"
    if "nat limit < length merged"
  proof -
    have ne: "take (nat limit) merged \<noteq> []" using that args(3) by auto
    have "last (take (nat limit) merged) \<in> set merged" by (rule in_set_takeD [OF last_in_set [OF ne]])
    then obtain r where "decode_item et pid eid (last (take (nat limit) merged)) = Inr r"
        "validateSharedLifecycleHistoryCursor (cursor_of (last (take (nat limit) merged)) (snd r)) False = None"
      using dec sub by blast
    then have "validateSharedLifecycleHistoryCursor (cursor_of (last (take (nat limit) merged)) (snd (last rs))) False = None"
      using decode_items_last [OF r(3) ne] by simp
    then show ?thesis by (simp add: EncodeSharedLifecycleHistoryCursor_def)
  qed
  have query: "io_bind (io_query dv f) F (j, db) = F (f db) (Suc j, db)" for f :: "shared_db \<Rightarrow> 'z" and F :: "'z \<Rightarrow> 'y io" and j
    using q dv(2) by (simp add: io_query_def quiet_def io_bind_def)
  have read: "io_bind (readSharedLifecycleChain dv d pid eid SharedLifecycleQueryMaxRows) F (k, db) = F es (k1, db)"
    for F :: "SharedLifecycleEvent list \<Rightarrow> 'y io"
    using chain by (simp add: io_bind_def s1)
  have lim: "\<not> limit < 1" "\<not> int SharedLifecycleQueryMaxRows < limit"
    using args(3,4) by (simp_all add: SharedLifecycleQueryMaxRows_def)
  note folds = contents_def [symmetric] events_def [symmetric] merged_def [symmetric]
  have "ListSharedLifecycleHistoryPage dv et pid eid a limit (k, db) =
      (if length merged \<le> nat limit
       then io_return \<lparr>hp_Records = map fst rs, hp_NextRevision = 0, hp_NextCursor = '''', hp_HasMore = False\<rparr>
       else (case EncodeSharedLifecycleHistoryCursor (cursor_of (last (take (nat limit) merged)) (snd (last rs))) of
               Inl m \<Rightarrow> io_error m
             | Inr c \<Rightarrow> io_return \<lparr>hp_Records = map fst rs, hp_NextRevision = fst (item_key (last (take (nat limit) merged))),
                  hp_NextCursor = c, hp_HasMore = True\<rparr>)) (Suc (Suc k1), db)"
    by (simp only: ListSharedLifecycleHistoryPage_def et option.case dv(1) not_True_eq_False if_False args(1,2) lim simp_thms
        a(2) io_check_def Let_def read query bind_ok folds r)
  then show ?thesis using enc by (auto simp: io_return_def)
qed

lemma items_behind_zero: "int64_keys db \<Longrightarrow> items_behind db et pid eid zero_cursor = history_items db et pid eid"
proof -
  assume i: "int64_keys db"
  have "cursor_key zero_cursor < item_key x" if "x \<in> set (history_items db et pid eid)" for x
    by (cases x) (use that i in \<open>auto simp: history_items_def int64_keys_def cursor_key_def zero_cursor_def
      content_key_def event_key_def\<close>)
  then show ?thesis unfolding items_behind_def by (auto simp: filter_id_conv)
qed

text \<open>
  C11. Following the cursors from the beginning reads the whole history of an entity, every revision
  and every event exactly once and in order, whatever the page size, and more pages than the
  history has items are never needed; given that no access fails, nobody writes meanwhile, the
  chain of events is consistent and the stored rows decode.
\<close>

theorem history_pages_complete:
  assumes "quiet dv" and "wf_store db" and "int64_keys db" and "dv_Shared dv" and "\<And>k. dv_fault dv k = None"
    and "history_definition et = Some d" and "pid \<noteq> ''''" and "eid \<noteq> ''''" and "1 \<le> limit" and "limit \<le> 256"
    and "readable_history dv db et pid eid" and "length (history_items db et pid eid) < n"
  shows "\<exists>rs s. read_pages n dv et pid eid zero_cursor limit (k, db) = (Inr (map fst rs), s)
     \<and> decode_items et pid eid (history_items db et pid eid) = Inr rs"
proof -
  have zero: "proper_cursor zero_cursor" "validateSharedLifecycleHistoryCursor zero_cursor True = None"
    by (simp_all add: proper_cursor_def validateSharedLifecycleHistoryCursor_def)
  have len: "length (items_behind db et pid eid zero_cursor) < n"
    using assms(12) by (simp add: items_behind_zero [OF assms(3)])
  have "\<exists>page s. ListSharedLifecycleHistoryPage dv et pid eid c limit (k, db) = (Inr page, s)"
    if "proper_cursor c" "validateSharedLifecycleHistoryCursor c True = None" for c k
    by (rule page_succeeds [OF assms(1,2) that assms(4-11)])
  from pages_suffice [OF assms(1-3) this zero len, of k] obtain rs k' db' where
    rs: "read_pages n dv et pid eid zero_cursor limit (k, db) = (Inr rs, k', db')" by auto
  from pages_exact [OF assms(1-3) zero(1) rs] show ?thesis
    using rs by (auto simp: items_behind_zero [OF assms(3)])
qed

text \<open>A task with two recorded revisions, read one by one.\<close>

definition sample_history :: "int \<Rightarrow> history_row" where
  "sample_history n =
     \<lparr>hr_entity_type = ''task'', hr_entity_id = ''AAA-TSK1'', hr_project_id = ''example'', hr_revision = n,
      hr_mutation_kind = ''update'', hr_actor = ''ana'', hr_reason = ''edit'', hr_changed_fields = ''null'',
      hr_payload = ''p'', hr_recorded_at = ''2024-01-02T03:04:05Z''\<rparr>"

definition page_db :: shared_db where
  "page_db = empty_db\<lparr>sd_history := [sample_history 2, sample_history 1]\<rparr>"

definition sample_record :: "int \<Rightarrow> SharedRevisionRecord" where
  "sample_record n =
     \<lparr>sr_EntityID = ''AAA-TSK1'', sr_ProjectID = ''example'', sr_Revision = n, sr_MutationKind = ''update'',
      sr_Actor = ''ana'', sr_Reason = ''edit'', sr_ChangedFields = None, sr_Payload = ''p'',
      sr_RecordedAt = ''2024-01-02T03:04:05Z''\<rparr>"

lemma sample_time_checks:
  "(case parse_rfc3339 ''2024-01-02T03:04:05Z'' of None \<Rightarrow> False
    | Some t \<Rightarrow> gt_offset t = 0 \<and> rfc3339_nano t = ''2024-01-02T03:04:05Z'' \<and> rfc3339_nano (to_utc t) = ''2024-01-02T03:04:05Z'')"
  by code_simp

lemma null_fields: "decode_changed_fields ''null'' = Some None"
  by (simp add: decode_changed_fields_def json_parse_def HasPrefix_def skip_space_def json_space_def byte_def dec_strings_def
      dec_slice_def quote_mark_def eval_nat_numeral)

lemma decode_sample: "\<exists>t. decode_item et pid eid (Content (sample_history n)) = Inr (sample_record n, t)
    \<and> rfc3339_nano (to_utc t) = ''2024-01-02T03:04:05Z''"
proof (cases "parse_rfc3339 ''2024-01-02T03:04:05Z''")
  case (Some t)
  then show ?thesis using sample_time_checks
    by (simp add: decode_item_def decodeSharedRevisionRow_def sample_history_def null_fields sample_record_def)
qed (use sample_time_checks in simp)

lemma page_items:
  "history_items page_db ''task'' ''example'' ''AAA-TSK1'' = [Content (sample_history 1), Content (sample_history 2)]"
  by (simp add: history_items_def page_db_def empty_db_def owned_item_def sample_history_def content_key_def)

lemma page_db_readable: "readable_history (sqlite ''t'') page_db ''task'' ''example'' ''AAA-TSK1''"
proof -
  have chain: "readSharedLifecycleChain (sqlite ''t'') d pid eid m (k, page_db) = (Inr [], Suc k, page_db)" for d pid eid m k
    by (simp add: readSharedLifecycleChain_def validateSharedLifecycleChain_def io_bind_def io_query_def io_result_def
        io_return_def entity_events_def page_db_def empty_db_def)
  have cur: "validateSharedLifecycleHistoryCursor (cursor_of (Content (sample_history n)) t) False = None"
    if "1 \<le> n" "rfc3339_nano (to_utc t) = ''2024-01-02T03:04:05Z''" for n t
    using that sample_time_checks
    by (simp add: validateSharedLifecycleHistoryCursor_def cursor_of_def content_key_def sample_history_def split: option.splits)
  have "\<exists>r. decode_item ''task'' ''example'' ''AAA-TSK1'' (Content (sample_history n)) = Inr r
      \<and> validateSharedLifecycleHistoryCursor (cursor_of (Content (sample_history n)) (snd r)) False = None" if "1 \<le> n" for n
    using decode_sample [of _ _ _ n] cur [OF that] by (metis snd_conv)
  then show ?thesis unfolding readable_history_def page_items using chain by auto
qed

theorem history_pages_complete_witness:
  "\<exists>s. read_pages 3 (sqlite ''t'') ''task'' ''example'' ''AAA-TSK1'' zero_cursor 1 (0, page_db)
     = (Inr [sample_record 1, sample_record 2], s)"
proof -
  obtain d where d: "sharedLifecycle ''task'' = Some d" by (rule task_definition)
  have h: "history_definition ''task'' = Some d" using task_status_same(4) [OF d] d by (simp add: history_definition_def)
  have q: "quiet (sqlite ''t'')" by (simp add: quiet_def)
  have wf: "wf_store page_db" "int64_keys page_db"
    by (simp_all add: wf_store_def int64_keys_def page_db_def empty_db_def sample_history_def history_key_of_def)
  obtain t1 t2 where t: "decode_items ''task'' ''example'' ''AAA-TSK1'' (history_items page_db ''task'' ''example'' ''AAA-TSK1'')
      = Inr [(sample_record 1, t1), (sample_record 2, t2)]"
    using decode_sample [of "''task''" "''example''" "''AAA-TSK1''" 1] decode_sample [of "''task''" "''example''" "''AAA-TSK1''" 2]
    by (auto simp: page_items)
  show ?thesis
    using history_pages_complete [OF q wf _ _ h _ _ _ _ page_db_readable, of 1 3 0] t by (auto simp: page_items)
qed

theorem history_page_exact_witness:
  "\<exists>page s. ListSharedLifecycleHistoryPage (sqlite ''t'') ''task'' ''example'' ''AAA-TSK1'' zero_cursor 1 (0, page_db)
     = (Inr page, s) \<and> hp_Records page = [sample_record 1] \<and> hp_HasMore page"
proof -
  obtain d where d: "sharedLifecycle ''task'' = Some d" by (rule task_definition)
  have h: "history_definition ''task'' = Some d" using task_status_same(4) [OF d] d by (simp add: history_definition_def)
  have q: "quiet (sqlite ''t'')" by (simp add: quiet_def)
  have wf: "wf_store page_db" "int64_keys page_db"
    by (simp_all add: wf_store_def int64_keys_def page_db_def empty_db_def sample_history_def history_key_of_def)
  have zero: "proper_cursor zero_cursor" "validateSharedLifecycleHistoryCursor zero_cursor True = None"
    by (simp_all add: proper_cursor_def validateSharedLifecycleHistoryCursor_def)
  from page_succeeds [OF q wf(1) zero _ _ h _ _ _ _ page_db_readable, of 1 0] obtain page s where
    page: "ListSharedLifecycleHistoryPage (sqlite ''t'') ''task'' ''example'' ''AAA-TSK1'' zero_cursor 1 (0, page_db)
      = (Inr page, s)" by auto
  obtain k' db' where s: "s = (k', db')" by (cases s)
  have items: "filter (\<lambda>x. cursor_key zero_cursor < item_key x) (history_items page_db ''task'' ''example'' ''AAA-TSK1'')
      = [Content (sample_history 1), Content (sample_history 2)]"
    using items_behind_zero [OF wf(2), of "''task''" "''example''" "''AAA-TSK1''"] by (simp add: items_behind_def page_items)
  obtain t1 where "decode_items ''task'' ''example'' ''AAA-TSK1'' [Content (sample_history 1)] = Inr [(sample_record 1, t1)]"
    using decode_sample [of "''task''" "''example''" "''AAA-TSK1''" 1] by auto
  then show ?thesis
    using history_page_exact [OF q wf zero(1) page [unfolded s]] page by (auto simp: Let_def items)
qed

end
