(* ===== verification/Shared_Create_Properties.thy ===== *)
theory Shared_Create_Properties
  imports Shared_Event_Properties
begin

text \<open>
  Creation with an allocated identifier: what a fresh receipt guarantees, and that no two creations
  are ever given the same identifier.
\<close>

section \<open>What a sequence of operations leads to\<close>

definition follows :: "shared_db \<Rightarrow> shared_db \<Rightarrow> bool" where
  "follows db db' \<longleftrightarrow> grows db db' \<and> keeps_wf db db'"

lemma follows_refl [simp]: "follows db db"
  by (simp add: follows_def keeps_wf_def)

lemma follows_trans: "follows a b \<Longrightarrow> follows b c \<Longrightarrow> follows a c"
  unfolding follows_def keeps_wf_def using grows_trans by blast

lemma follows_wf: "follows a b \<Longrightarrow> wf_store a \<Longrightarrow> wf_store b"
  by (simp add: follows_def keeps_wf_def)

lemma follows_keeps: "statement_keeps grows st \<Longrightarrow> statement_keeps keeps_wf st \<Longrightarrow> statement_keeps follows st"
  unfolding statement_keeps_def follows_def by blast

lemma follows_relation:
  assumes "atomic_driver dv" "\<And>k db. follows db (dv_others dv k db)"
  shows "statement_relation dv follows"
  by unfold_locales
    (assumption | rule assms follows_refl follows_trans follows_keeps grows_statements wf_statements)+

lemma follows_row: "follows a b \<Longrightarrow> entity_row a t i \<noteq> None \<Longrightarrow> entity_row b t i \<noteq> None"
proof -
  have row: "entity_row db t i \<noteq> None \<longleftrightarrow> i \<in> set (map se_ID (sd_tables db t))" for db
    by (auto simp: entity_row_def find_None_iff)
  assume "follows a b"
  then obtain zs where "map se_ID (sd_tables b t) = map se_ID (sd_tables a t) @ zs"
    by (auto simp: follows_def grows_def extends_list_def)
  then show "entity_row a t i \<noteq> None \<Longrightarrow> entity_row b t i \<noteq> None" unfolding row by simp
qed

lemma leaves_follows: "leaves_shared db db' \<Longrightarrow> follows db db'"
  by (simp add: leaves_shared_def follows_def grows_def keeps_wf_def wf_store_def)

lemma batch_leaves_follows: "batch_keeps leaves_shared sts \<Longrightarrow> batch_keeps follows sts"
  unfolding batch_keeps_def statement_keeps_def using leaves_follows by blast

section \<open>Fresh receipts\<close>

lemma next_number_keeps:
  assumes "statement_relation dv R" and "nextSharedLifecycleNumber dv d p c i (k, db) = (r, k', db')"
  shows "R db db'"
  using store_relation.keeps_next_number [OF statement_relation.axioms(1) [OF assms(1)] statement_relation.k_ignore [OF assms(1)]]
    assms(2) unfolding keeps_def by blast

lemma next_number_positive:
  assumes "nextSharedLifecycleNumber dv d p c i s = (Inr n, s')"
  shows "1 \<le> n"
  using assms unfolding nextSharedLifecycleNumber_def Let_def
  by (auto simp: io_bind_Inr io_simps split: option.splits if_splits)

lemma create_once_fresh:
  assumes dv: "atomic_driver dv" "\<And>k db. follows db (dv_others dv k db)"
    and ok: "commitSharedLifecycleCreateOnce dv rq (k, db) = (Inr (rc, ident, payload), k', db')" and fresh: "\<not> rc_Reused rc"
  obtains d n mid actor reason kind extra where "sharedLifecycle (lc_EntityType rq) = Some d" "1 \<le> n" "follows db mid"
    "ident = entity_id (lc_ProjectCode rq) d n" "validateSharedLifecycleStatus d '''' payload True = None"
    "rc = new_receipt (lc_OperationID rq) (lc_EntityType rq) ident 1"
    "(case lc_ExtraStatements rq of None \<Rightarrow> Ok [] | Some f \<Rightarrow> f ident) = Inr extra"
    "run_statements (create_statements d rq actor reason n ident payload kind (stamp dv (lc_CreatedAt rq)) @ extra) mid = Inr db'"
proof -
  have no_reuse: "reuse_created op et kd e s \<noteq> (Inr (rc, x), s')" for op et kd e s x s'
    using fresh reuse_is_reused unfolding reuse_created_def
    by (auto simp: io_bind_Inr io_result_Inr io_simps)
  from ok obtain d actor reason kind where d: "sharedLifecycle (lc_EntityType rq) = Some d"
    and run: "io_bind (outboxEntry dv (lc_OperationID rq)) (\<lambda>existing.
              case existing of
                Some entry \<Rightarrow> reuse_created (lc_OperationID rq) (lc_EntityType rq) (lc_Kind rq) entry
              | None \<Rightarrow>
                  io_bind (nextSharedLifecycleNumber dv d (lc_ProjectID rq) (lc_ProjectCode rq) (lc_InitialNextNumber rq))
                    (create_numbered dv d rq actor reason kind)) (k, db) = (Inr (rc, ident, payload), k', db')"
    unfolding commitSharedLifecycleCreateOnce_def Let_def
    by (simp only: io_simps split: option.splits if_splits)
  from run no_reuse obtain n k1 db1 where
    numb: "nextSharedLifecycleNumber dv d (lc_ProjectID rq) (lc_ProjectCode rq) (lc_InitialNextNumber rq)
       (Suc k, dv_others dv k db) = (Inr n, k1, db1)"
    and rest: "create_numbered dv d rq actor reason kind n (k1, db1) = (Inr (rc, ident, payload), k', db')"
    by (auto simp: io_bind_Inr outboxEntry_def io_query_Inr split: option.splits)
  from rest obtain p extra where ex: "(case lc_ExtraStatements rq of None \<Rightarrow> Ok [] | Some f \<Rightarrow> f (entity_id (lc_ProjectCode rq) d n)) = Inr extra"
    and st: "validateSharedLifecycleStatus d '''' p True = None"
    and com: "commit_or_reuse dv (lc_OperationID rq)
        (create_statements d rq actor reason n (entity_id (lc_ProjectCode rq) d n) p kind (stamp dv (lc_CreatedAt rq)) @ extra)
        (io_return (new_receipt (lc_OperationID rq) (lc_EntityType rq) (entity_id (lc_ProjectCode rq) d n) 1,
           entity_id (lc_ProjectCode rq) d n, p))
        (reuse_created (lc_OperationID rq) (lc_EntityType rq) (lc_Kind rq)) (k1, db1) = (Inr (rc, ident, payload), k', db')"
    unfolding create_numbered_def Let_def by (auto simp: io_simps io_check_Inr split: sum.splits if_splits)
  from commit_fresh [OF dv(1) com] no_reuse have
    res: "(rc, ident, payload) = (new_receipt (lc_OperationID rq) (lc_EntityType rq) (entity_id (lc_ProjectCode rq) d n) 1,
           entity_id (lc_ProjectCode rq) d n, p)"
      "run_statements (create_statements d rq actor reason n (entity_id (lc_ProjectCode rq) d n) p kind
           (stamp dv (lc_CreatedAt rq)) @ extra) (dv_others dv k1 db1) = Inr db'" by auto
  have "follows db (dv_others dv k1 db1)"
    using next_number_keeps [OF follows_relation [OF dv] numb] dv(2) follows_trans by blast
  moreover have id: "ident = entity_id (lc_ProjectCode rq) d n" and "payload = p" using res(1) by simp_all
  ultimately show ?thesis
    using d next_number_positive [OF numb] st res ex [folded id]
    by (intro that [of d n "dv_others dv k1 db1" extra actor reason kind]) simp_all
qed

text \<open>The statements a caller adds leave the modelled tables alone.\<close>

definition extras_leave :: "SharedLifecycleCreate \<Rightarrow> bool" where
  "extras_leave rq \<longleftrightarrow> (\<forall>f i extra. lc_ExtraStatements rq = Some f \<longrightarrow> f i = Inr extra \<longrightarrow> batch_keeps leaves_shared extra)"

lemma extras_leaveD: "extras_leave rq \<Longrightarrow> lc_ExtraStatements rq = Some f \<Longrightarrow> f i = Inr extra \<Longrightarrow> batch_keeps leaves_shared extra"
  unfolding extras_leave_def by blast

lemma create_once_follows:
  assumes dv: "atomic_driver dv" "\<And>k db. follows db (dv_others dv k db)"
    and extras: "extras_leave rq"
    and "commitSharedLifecycleCreateOnce dv rq (k, db) = (r, k', db')"
  shows "follows db db'"
proof -
  note rel = follows_relation [OF dv]
  have "keeps follows (commitSharedLifecycleCreateOnce dv rq)"
    by (rule store_relation.keeps_create_once [OF statement_relation.axioms(1) [OF rel]])
      (auto intro: statement_relation.k_ignore [OF rel] statement_relation.create_batch(1) [OF rel] batch_leaves_follows extras_leaveD [OF extras])
  then show ?thesis using assms(4) unfolding keeps_def by blast
qed

text \<open>The attempt that succeeded, behind attempts that lost a race.\<close>

lemma create_attempt:
  assumes dv: "atomic_driver dv" "\<And>k db. follows db (dv_others dv k db)"
    and extras: "extras_leave rq"
  shows "create_attempts n dv rq (k, db) = (Inr v, k', db') \<Longrightarrow>
    \<exists>k0 db0. follows db db0 \<and> commitSharedLifecycleCreateOnce dv rq (k0, db0) = (Inr v, k', db')"
proof (induction n arbitrary: k db)
  case (Suc n)
  obtain r k1 db1 where once: "commitSharedLifecycleCreateOnce dv rq (k, db) = (r, k1, db1)"
    by (cases "commitSharedLifecycleCreateOnce dv rq (k, db)") auto
  have fol: "follows db db1" by (rule create_once_follows [OF dv extras once])
  have rest: "(case r of Inl RowsAffectedMismatch \<Rightarrow> create_attempts n dv rq | Inl e \<Rightarrow> io_fail e | Inr v \<Rightarrow> io_return v) (k1, db1)
      = (Inr v, k', db')"
    using Suc.prems once by (simp add: io_bind_def io_try_def)
  show ?case
  proof (cases r)
    case (Inl e)
    then have "create_attempts n dv rq (k1, db1) = (Inr v, k', db')"
      using rest by (cases e) (simp_all add: io_simps)
    then show ?thesis using Suc.IH follows_trans [OF fol] by blast
  next
    case (Inr w)
    then have "w = v" "k' = k1" "db' = db1" using rest by (simp_all add: io_simps)
    then show ?thesis using once Inr follows_refl by blast
  qed
qed (simp add: io_simps)

lemma create_fresh:
  assumes dv: "atomic_driver dv" "\<And>k db. follows db (dv_others dv k db)"
    and extras: "extras_leave rq"
    and ok: "CommitSharedLifecycleCreate dv rq (k, db) = (Inr (rc, ident, payload), k', db')" and fresh: "\<not> rc_Reused rc"
  obtains d n mid actor reason kind extra where "sharedLifecycle (lc_EntityType rq) = Some d" "1 \<le> n" "follows db mid"
    "ident = entity_id (lc_ProjectCode rq) d n" "validateSharedLifecycleStatus d '''' payload True = None"
    "rc = new_receipt (lc_OperationID rq) (lc_EntityType rq) ident 1" "batch_keeps leaves_shared extra"
    "run_statements (create_statements d rq actor reason n ident payload kind (stamp dv (lc_CreatedAt rq)) @ extra) mid = Inr db'"
proof -
  from create_attempt [OF dv extras ok [unfolded CommitSharedLifecycleCreate_def]] obtain k0 db0 where
    o': "follows db db0" "commitSharedLifecycleCreateOnce dv rq (k0, db0) = (Inr (rc, ident, payload), k', db')" by blast
  show ?thesis
  proof (rule create_once_fresh [OF dv o'(2) fresh])
    fix d n mid actor reason kind extra
    assume a: "sharedLifecycle (lc_EntityType rq) = Some d" "1 \<le> n" "follows db0 mid" "ident = entity_id (lc_ProjectCode rq) d n"
      "validateSharedLifecycleStatus d '''' payload True = None" "rc = new_receipt (lc_OperationID rq) (lc_EntityType rq) ident 1"
      and ex: "(case lc_ExtraStatements rq of None \<Rightarrow> Ok [] | Some f \<Rightarrow> f ident) = Inr extra"
      and run: "run_statements (create_statements d rq actor reason n ident payload kind (stamp dv (lc_CreatedAt rq)) @ extra) mid = Inr db'"
    have "batch_keeps leaves_shared extra" using ex extras_leaveD [OF extras] by (cases "lc_ExtraStatements rq") auto
    then show ?thesis by (rule that [OF a(1,2) follows_trans [OF o'(1) a(3)] a(4-6) _ run])
  qed
qed

section \<open>The effect of a creation\<close>

lemma advance_sequence_exact:
  assumes "advance_sequence et pid code n db = Some (db', 1)"
  shows "sd_sequences db (et, pid) = Some (code, n)"
    "sd_sequences db' = (sd_sequences db)((et, pid) \<mapsto> (code, wrap_int (n + 1)))"
    "sd_tables db' = sd_tables db" "sd_history db' = sd_history db" "sd_outbox db' = sd_outbox db" "sd_events db' = sd_events db"
  using assms by (auto simp: advance_sequence_def split: if_splits)

lemma create_batch_exact:
  assumes run: "run_statements (create_statements d rq actor reason n ident payload kind rec @ extra) mid = Inr db'"
    and extra: "batch_keeps leaves_shared extra"
  shows "sd_sequences mid (lc_EntityType rq, lc_ProjectID rq) = Some (lc_ProjectCode rq, n)
     \<and> sd_sequences db' = (sd_sequences mid)((lc_EntityType rq, lc_ProjectID rq) \<mapsto> (lc_ProjectCode rq, wrap_int (n + 1)))
     \<and> entity_row mid (ld_StateTable d) ident = None
     \<and> entity_row db' (ld_StateTable d) ident
         = Some \<lparr>se_ID = ident, se_Revision = 1, se_Payload = payload, se_UpdatedAt = rec\<rparr>
     \<and> (\<forall>t i. (t, i) \<noteq> (ld_StateTable d, ident) \<longrightarrow> entity_row db' t i = entity_row mid t i)
     \<and> (ld_HistoryTable d \<noteq> '''' \<longrightarrow> (\<exists>h. history_at db' (ld_EntityType d) ident 1 = Some h \<and> hr_payload h = payload))
     \<and> outbox_at mid (lc_OperationID rq) = None
     \<and> sd_outbox db' = sd_outbox mid @ [outbox_intent (lc_OperationID rq) (lc_EntityType rq) ident 1 (lc_Kind rq) payload rec]
     \<and> sd_events db' = sd_events mid"
proof -
  define h where "h = \<lparr>hr_entity_type = ld_EntityType d, hr_entity_id = ident, hr_project_id = lc_ProjectID rq,
      hr_revision = 1, hr_mutation_kind = kind, hr_actor = actor, hr_reason = reason,
      hr_changed_fields = json_strings (lc_ChangedFields rq), hr_payload = payload, hr_recorded_at = rec\<rparr>"
  define row where "row = \<lparr>se_ID = ident, se_Revision = 1, se_Payload = payload, se_UpdatedAt = rec\<rparr>"
  define out where "out = outbox_intent (lc_OperationID rq) (lc_EntityType rq) ident 1 (lc_Kind rq) payload rec"
  define hist where "hist = (if ld_HistoryTable d = '''' then [] else [(insert_history h, 1 :: nat)])"
  have sts: "create_statements d rq actor reason n ident payload kind rec @ extra =
      (advance_sequence (lc_EntityType rq) (lc_ProjectID rq) (lc_ProjectCode rq) n, 1)
        # (insert_state (ld_StateTable d) row, 1) # hist @ (insert_outbox out, 1) # extra"
    by (simp add: create_statements_def row_def out_def hist_def h_def)
  from run [unfolded sts run_statements_Cons] obtain m1 m2 where a: "advance_sequence (lc_EntityType rq) (lc_ProjectID rq) (lc_ProjectCode rq) n mid = Some (m1, 1)"
    and s: "insert_state (ld_StateTable d) row m1 = Some (m2, 1)"
    and r2: "run_statements (hist @ (insert_outbox out, 1) # extra) m2 = Inr db'"
    by auto
  obtain m3 where m3: "sd_outbox m3 = sd_outbox m2" "sd_events m3 = sd_events m2" "entity_row m3 = entity_row m2"
      "sd_sequences m3 = sd_sequences m2"
      "ld_HistoryTable d \<noteq> '''' \<longrightarrow> history_at m3 (ld_EntityType d) ident 1 = Some h"
    and r3: "run_statements ((insert_outbox out, 1) # extra) m3 = Inr db'"
  proof (cases "ld_HistoryTable d = ''''")
    case False
    with r2 obtain m3 where i: "insert_history h m2 = Some (m3, 1)" and r3: "run_statements ((insert_outbox out, 1) # extra) m3 = Inr db'"
      by (auto simp: hist_def run_statements_Cons)
    show ?thesis using insert_history_exact [OF i] r3 by (intro that [of m3]) (simp_all add: h_def)
  qed (use that [of m2] r2 in \<open>simp add: hist_def\<close>)
  from r3 obtain m4 where o': "insert_outbox out m3 = Some (m4, 1)" and r4: "run_statements extra m4 = Inr db'"
    by (auto simp: run_statements_Cons)
  have left: "leaves_shared m4 db'" using extras_run [OF extra, of "[]" m4 db'] r4 by auto
  note a' = advance_sequence_exact [OF a] and s' = insert_state_exact [OF s] and o'' = insert_outbox_exact [OF o']
  have rows: "entity_row db' = entity_row m2"
    using left o''(4) m3(3) by (simp add: leaves_shared_def entity_row_def fun_eq_iff)
  have rows1: "entity_row m1 = entity_row mid" using a'(3) by (simp add: entity_row_def fun_eq_iff)
  have id: "se_ID row = ident" "or_id out = lc_OperationID rq" by (simp_all add: row_def out_def outbox_intent_def)
  have seqs: "sd_sequences db' = (sd_sequences mid)((lc_EntityType rq, lc_ProjectID rq) \<mapsto> (lc_ProjectCode rq, wrap_int (n + 1)))"
    using left o''(7) m3(4) s'(7) a'(2) by (simp add: leaves_shared_def)
  have box: "sd_outbox m3 = sd_outbox mid" using m3(1) s'(5) a'(5) by simp
  have hist': "ld_HistoryTable d \<noteq> '''' \<longrightarrow> history_at db' (ld_EntityType d) ident 1 = Some h"
    using m3(5) o''(5) left by (simp add: history_at_def leaves_shared_def)
  show ?thesis
    using a'(1) seqs s'(1,2) rows rows1 s'(3) id hist' o''(1,3) box left o''(6) m3(2) s'(6) a'(6)
    by (auto simp: row_def out_def leaves_shared_def outbox_at_def h_def)
qed



section \<open>Two sample creations\<close>

definition create_request :: "string \<Rightarrow> SharedLifecycleCreate" where
  "create_request op =
     \<lparr>lc_OperationID = op, lc_EntityType = ''task'', lc_ProjectID = ''example'', lc_ProjectCode = ''AAA'',
      lc_InitialNextNumber = 1, lc_Kind = ''task-create'', lc_HistoryMutationKind = '''', lc_Actor = '''', lc_Reason = '''',
      lc_ChangedFields = None, lc_CreatedAt = zero_time, lc_BuildPayload = Some (\<lambda>_. Ok (sample_payload ''planned'' 1)),
      lc_ExtraStatements = None\<rparr>"

definition created_members :: "(string \<times> flat) list" where
  "created_members = [(''revision'', Flat_number 1), (''status'', Flat_string ''planned'')]"

definition created_payload :: string where
  "created_payload = json_object (map (apsnd flat_text) created_members)"

lemma html_escape_plain: "plain s \<Longrightarrow> html_escape s = s"
proof (induction s)
  case (Cons c s)
  then have "plain_char c" "html_escape s = s" by (simp_all add: plain_Cons)
  then show ?case by (auto simp: plain_char_def)
qed simp

lemma created_plain: "created_members \<noteq> []" "\<forall>(k, v) \<in> set created_members. plain k \<and> flat_plain v"
  by (simp_all add: created_members_def plain_names)

lemma create_defaults: "ApplySharedLifecycleCreateDefaults ''task'' (sample_payload ''planned'' 1) = Ok created_payload"
proof -
  obtain d where d: "sharedLifecycle ''task'' = Some d" by (rule task_definition)
  have "d = the (sharedLifecycle ''task'')" using d by simp
  then have def: "ld_DefaultCreateStatus d = ''planned''"
    by (simp add: sharedLifecycle_def sharedLifecycleRegistry_def)
  have parse: "json_parse (sample_payload ''planned'' (Suc 0))
      = Some (J_object [(''status'', J_string ''planned''), (''revision'', J_number (dec (Suc 0)))])"
    unfolding sample_payload_def using json_parse_flat [OF _ sample_members] by (simp add: plain_names)
  have sorted: "sort [''status'', ''revision''] = [''revision'', ''status'']"
    by code_simp
  have "last_members [(''status'', J_string ''planned''), (''revision'', J_number (dec (Suc 0)))]
      = [(''revision'', J_number (dec (Suc 0))), (''status'', J_string ''planned'')]"
    by (simp add: last_members_def sorted [simplified])
  note members = this
  have "ApplySharedLifecycleCreateDefaults ''task'' (sample_payload ''planned'' (Suc 0)) = Ok (json_object (map (\<lambda>(k, v). (k, json_compact v))
      (last_members [(''status'', J_string ''planned''), (''revision'', J_number (dec (Suc 0)))])))"
    unfolding ApplySharedLifecycleCreateDefaults_def d option.case def parse
    by (simp add: unquote_plain plain_names)
  moreover have "json_compact (J_string ''planned'') = flat_text (Flat_string ''planned'')"
    by (simp add: html_escape_plain [OF plain_names(3)] json_string_plain [OF plain_names(3)] del: html_escape.simps)
  ultimately show ?thesis unfolding members created_payload_def created_members_def by simp
qed

definition sequence_db :: shared_db where
  "sequence_db = empty_db\<lparr>sd_sequences := [(''task'', ''example'') \<mapsto> (''AAA'', 1)]\<rparr>"

definition created_row :: "string \<Rightarrow> SharedEntity" where
  "created_row ident = \<lparr>se_ID = ident, se_Revision = 1, se_Payload = created_payload, se_UpdatedAt = ''t''\<rparr>"

definition created_history :: "string \<Rightarrow> history_row" where
  "created_history ident = \<lparr>hr_entity_type = ''task'', hr_entity_id = ident, hr_project_id = ''example'',
     hr_revision = 1, hr_mutation_kind = ''create'', hr_actor = ''server'', hr_reason = ''init'',
     hr_changed_fields = json_strings None, hr_payload = created_payload, hr_recorded_at = ''t''\<rparr>"

definition created_db :: "string \<Rightarrow> string \<Rightarrow> int \<Rightarrow> shared_db \<Rightarrow> shared_db" where
  "created_db op ident n db = db
     \<lparr>sd_sequences := (sd_sequences db)((''task'', ''example'') \<mapsto> (''AAA'', n + 1)),
      sd_tables := (sd_tables db)(''shared_tasks'' := sd_tables db ''shared_tasks'' @ [created_row ident]),
      sd_history := sd_history db @ [created_history ident],
      sd_outbox := sd_outbox db @ [outbox_intent op ''task'' ident 1 ''task-create'' created_payload ''t'']\<rparr>"

lemma created_status: "decode_status created_payload = Some ''planned''"
  unfolding decode_status_def created_payload_def json_Unmarshal_flat [OF created_plain]
  by (simp add: created_members_def plain_names unquote_plain struct_field_names dec_string_def)

lemma create_reason: "validSharedHistoryReason ''init''"
  by (simp add: validSharedHistoryReason_def ContainsAny_iff nul_cr_lf_def nul_def cr_def lf_def byte_def IsSpace_def)

lemma sample_create:
  assumes i: "ident = ''AAA-TSK'' @ dec n" and "op \<noteq> ''''" and "outbox_at db op = None" and "sd_sequences db (''task'', ''example'') = Some (''AAA'', int n)"
    and "1 \<le> n" "n < 1000" and "entity_row db ''shared_tasks'' ident = None"
    and "history_at db ''task'' ident 1 = None"
  shows "CommitSharedLifecycleCreate (sqlite ''t'') (create_request op) (k, db)
     = (Inr (new_receipt op ''task'' ident 1, ident, created_payload), Suc (Suc (Suc k)),
        created_db op ident (int n) db)"
proof -
  obtain d where d: "sharedLifecycle ''task'' = Some d" "ld_EntityType d = ''task''" "ld_DefaultCreateStatus d = ''planned''"
    "ld_AllowedStatuses d = [''planned'', ''ready'', ''done'', ''archived'']" "ld_StateTable d = ''shared_tasks''"
    "ld_HistoryTable d = ''shared_entity_revisions''" "ld_SequenceTable d = ''shared_entity_sequences''"
    "ld_IDToken d = ''TSK''" "ld_AllowedCreateStatuses d = [''planned'']"
    by (rule task_definition)
  have eid: "entity_id ''AAA'' d (int n) = ident"
    by (simp add: i entity_id_def d dec_int_def)
  have code: "upper_code ''AAA''" by (simp add: upper_code_def go_ToUpper_def byte_def)
  have status: "validateSharedLifecycleStatus d '''' created_payload True = None"
    by (simp add: validateSharedLifecycleStatus_def status_in_def d created_status typed_payload_def)
  have ne: "created_payload \<noteq> ''''" unfolding created_payload_def json_object_members by simp
  have rq: "lc_EntityType (create_request op) = ''task''" "lc_OperationID (create_request op) = op"
    "lc_ProjectID (create_request op) = ''example''" "lc_ProjectCode (create_request op) = ''AAA''"
    "lc_Kind (create_request op) = ''task-create''" "lc_ExtraStatements (create_request op) = None"
    "lc_BuildPayload (create_request op) = Some (\<lambda>_. Ok (sample_payload ''planned'' 1))"
    "lc_Actor (create_request op) = ''''" "lc_Reason (create_request op) = ''''" "IsZero (lc_CreatedAt (create_request op))"
    "lc_HistoryMutationKind (create_request op) = ''''" "lc_ChangedFields (create_request op) = None"
    by (simp_all add: create_request_def)
  have wrap: "wrap_int (int n + 1) = int n + 1" by (rule wrap_int_id) (use assms(6) in simp_all)
  have num: "n \<noteq> 0" using assms(5) by simp
  have run: "run_statements (create_statements d (create_request op) ''server'' ''init'' (int n) ident
      created_payload ''create'' ''t'') db = Inr (created_db op ident (int n) db)"
    using assms(3,4,7,8)
    by (simp add: create_statements_def rq d run_statements_Cons advance_sequence_def wrap insert_state_def
        entity_row_def insert_history_def history_at_def insert_outbox_def outbox_at_def outbox_intent_def created_db_def
        created_row_def created_history_def)
  have once: "commitSharedLifecycleCreateOnce (sqlite ''t'') (create_request op) (k, db)
     = (Inr (new_receipt op ''task'' ident 1, ident, created_payload), Suc (Suc (Suc k)),
        created_db op ident (int n) db)"
    by (simp add: commitSharedLifecycleCreateOnce_def rq d assms(2,3,4) code create_reason Let_def io_bind_def outboxEntry_def
        io_query_def nextSharedLifecycleNumber_def num create_numbered_def eid create_defaults [simplified] ne io_check_def status
        commit_or_reuse_def io_try_def io_batch_def sqlite_batch_def stamp_def run io_return_def)
  then show ?thesis
    by (simp add: CommitSharedLifecycleCreate_def eval_nat_numeral io_bind_def io_try_def io_return_def)
qed

lemma first_create:
  "CommitSharedLifecycleCreate (sqlite ''t'') (create_request ''new'') (0, sequence_db)
     = (Inr (new_receipt ''new'' ''task'' (''AAA-TSK'' @ dec 1) 1, ''AAA-TSK'' @ dec 1, created_payload), 3,
        created_db ''new'' (''AAA-TSK'' @ dec 1) 1 sequence_db)"
  using sample_create [OF refl, of "''new''" sequence_db 1 0]
  by (simp add: sequence_db_def empty_db_def outbox_at_def entity_row_def history_at_def)

lemma second_create:
  "CommitSharedLifecycleCreate (sqlite ''t'') (create_request ''two'') (3, created_db ''new'' (''AAA-TSK'' @ dec 1) 1 sequence_db)
     = (Inr (new_receipt ''two'' ''task'' (''AAA-TSK'' @ dec 2) 1, ''AAA-TSK'' @ dec 2, created_payload), 6,
        created_db ''two'' (''AAA-TSK'' @ dec 2) 2 (created_db ''new'' (''AAA-TSK'' @ dec 1) 1 sequence_db))"
  using sample_create [OF refl, of "''two''" "created_db ''new'' (''AAA-TSK'' @ dec 1) 1 sequence_db" 2 3]
  by (simp add: created_db_def sequence_db_def empty_db_def outbox_at_def entity_row_def history_at_def outbox_intent_def
      created_row_def created_history_def dec_inject)



end
