(* ===== verification/Sha256.thy ===== *)
theory Sha256
  imports Go_Text "HOL-Library.Word"
begin

unbundle bit_operations_syntax

text \<open>
  SHA-256 (FIPS 180-4) on lists of bytes, as \<open>crypto/sha256.Sum256\<close> followed by
  \<open>hex.EncodeToString\<close>: the message schedule and the compression function on 32-bit words,
  whose \<open>+\<close> wraps.
\<close>

type_synonym word32 = "32 word"

definition sha_k :: "word32 list" where
  "sha_k = [
   1116352408, 1899447441, 3049323471, 3921009573, 961987163, 1508970993, 2453635748, 2870763221,
   3624381080, 310598401, 607225278, 1426881987, 1925078388, 2162078206, 2614888103, 3248222580,
   3835390401, 4022224774, 264347078, 604807628, 770255983, 1249150122, 1555081692, 1996064986,
   2554220882, 2821834349, 2952996808, 3210313671, 3336571891, 3584528711, 113926993, 338241895,
   666307205, 773529912, 1294757372, 1396182291, 1695183700, 1986661051, 2177026350, 2456956037,
   2730485921, 2820302411, 3259730800, 3345764771, 3516065817, 3600352804, 4094571909, 275423344,
   430227734, 506948616, 659060556, 883997877, 958139571, 1322822218, 1537002063, 1747873779,
   1955562222, 2024104815, 2227730452, 2361852424, 2428436474, 2756734187, 3204031479, 3329325298]"

definition sha_init :: "word32 list" where
  "sha_init = [1779033703, 3144134277, 1013904242, 2773480762,
               1359893119, 2600822924, 528734635, 1541459225]"

definition rotr :: "nat \<Rightarrow> word32 \<Rightarrow> word32" where
  "rotr n x = drop_bit n x OR push_bit (32 - n) x"

definition ssig0 :: "word32 \<Rightarrow> word32" where
  "ssig0 x = rotr 7 x XOR rotr 18 x XOR drop_bit 3 x"

definition ssig1 :: "word32 \<Rightarrow> word32" where
  "ssig1 x = rotr 17 x XOR rotr 19 x XOR drop_bit 10 x"

definition bsig0 :: "word32 \<Rightarrow> word32" where
  "bsig0 x = rotr 2 x XOR rotr 13 x XOR rotr 22 x"

definition bsig1 :: "word32 \<Rightarrow> word32" where
  "bsig1 x = rotr 6 x XOR rotr 11 x XOR rotr 25 x"

definition be_word :: "nat list \<Rightarrow> word32" where
  "be_word bs = foldl (\<lambda>acc b. push_bit 8 acc OR of_nat b) 0 bs"

definition be_bytes :: "word32 \<Rightarrow> nat list" where
  "be_bytes w = map (\<lambda>i. unat (drop_bit i w AND 0xFF)) [24, 16, 8, 0]"

text \<open>The schedule is kept in reverse, so its last sixteen words are its first sixteen entries.\<close>

fun extend_schedule :: "nat \<Rightarrow> word32 list \<Rightarrow> word32 list" where
  "extend_schedule 0 ws = ws"
| "extend_schedule (Suc n) ws =
     extend_schedule n ((ssig1 (ws ! 1) + ws ! 6 + ssig0 (ws ! 14) + ws ! 15) # ws)"

definition sha_round :: "word32 list \<Rightarrow> word32 \<times> word32 \<Rightarrow> word32 list" where
  "sha_round h kw =
     (case h of
        [a, b, c, d, e, f, g, i] \<Rightarrow>
          let t1 = i + bsig1 e + ((e AND f) XOR (NOT e AND g)) + fst kw + snd kw;
              t2 = bsig0 a + ((a AND b) XOR (a AND c) XOR (b AND c))
          in [t1 + t2, a, b, c, d + t1, e, f, g]
      | _ \<Rightarrow> h)"

fun chunks :: "nat \<Rightarrow> nat \<Rightarrow> 'a list \<Rightarrow> 'a list list" where
  "chunks n 0 xs = []"
| "chunks n (Suc k) xs = take n xs # chunks n k (drop n xs)"

definition sha_block :: "word32 list \<Rightarrow> nat list \<Rightarrow> word32 list" where
  "sha_block h block =
     (let ws = rev (extend_schedule 48 (rev (map be_word (chunks 4 16 block))))
      in map2 (+) h (foldl sha_round h (zip sha_k ws)))"

definition sha_pad :: "nat list \<Rightarrow> nat list" where
  "sha_pad m =
     (let l = length m; z = (119 - l mod 64) mod 64
      in m @ [0x80] @ replicate z 0
           @ map (\<lambda>i. nat (drop_bit i (8 * int l) mod 256)) [56, 48, 40, 32, 24, 16, 8, 0])"

definition sha256_bytes :: "nat list \<Rightarrow> nat list" where
  "sha256_bytes m =
     (let p = sha_pad m
      in concat (map be_bytes (foldl sha_block sha_init (chunks 64 (length p div 64) p))))"

text \<open>\<open>hex.EncodeToString(sha256.Sum256(data)[:])\<close>\<close>

definition sha256_hex :: "string \<Rightarrow> string" where
  "sha256_hex data = concat (map hex2 (sha256_bytes (map byte data)))"

section \<open>The shape of a digest\<close>

definition is_hex :: "char \<Rightarrow> bool" where
  "is_hex c \<longleftrightarrow> List.member ''0123456789abcdef'' c"

lemma hex_digit_is_hex: "d < 16 \<Longrightarrow> is_hex (hex_digit d)"
proof -
  have "list_all (\<lambda>d. is_hex (hex_digit d)) [0..<16]" by code_simp
  then show "d < 16 \<Longrightarrow> is_hex (hex_digit d)" by (simp add: list_all_iff)
qed

lemma hex2_is_hex [simp]: "list_all is_hex (hex2 b)" "length (hex2 b) = 2"
  by (simp_all add: hex2_def hex_digit_is_hex)

lemma length_sha_round: "length (sha_round h kw) = length h"
  by (auto simp: sha_round_def Let_def split: list.splits)

lemma length_foldl_sha_round: "length (foldl sha_round h kws) = length h"
  by (induction kws arbitrary: h) (simp_all add: length_sha_round)

lemma length_sha_block [simp]: "length (sha_block h block) = length h"
  by (simp add: sha_block_def Let_def length_foldl_sha_round)

lemma length_foldl_sha_block: "length (foldl sha_block h blocks) = length h"
  by (induction blocks arbitrary: h) simp_all

lemma length_concat_const: "\<forall>x \<in> set xs. length (f x) = n \<Longrightarrow> length (concat (map f xs)) = length xs * n"
  by (induction xs) auto

lemma length_sha256_bytes [simp]: "length (sha256_bytes m) = 32"
  by (simp add: sha256_bytes_def Let_def length_concat_const [where n = 4] be_bytes_def
      length_foldl_sha_block sha_init_def)

lemma sha256_hex_length [simp]: "length (sha256_hex s) = 64"
  by (simp add: sha256_hex_def length_concat_const [where n = 2])

lemma sha256_hex_is_hex [simp]: "list_all is_hex (sha256_hex s)"
  by (simp add: sha256_hex_def list_all_iff) (metis hex2_is_hex(1) list_all_iff)

end
