(* ===== verification/Task_Authoring.thy ===== *)
theory Task_Authoring
  imports Task_Vocabulary Sha256
begin

text \<open>
  The task authoring lifecycle: \<open>internal/model/task_authoring.go\<close> (the validator and the
  revision hash) and \<open>task_authoring_lifecycle.go\<close> (create, edit, seal). A task is a record
  with the fields of the Go struct; identity, revision, hash and seal are derived here, the other
  fields come from drafts and patches.
\<close>

section \<open>Records\<close>

record TaskReadySeal =
  rs_Revision :: int
  rs_RevisionSHA256 :: string
  rs_ReadyBy :: string
  rs_ReadyAt :: gotime

record TaskAuthoring =
  ta_SchemaVersion :: int
  ta_ID :: string
  ta_ProjectID :: string
  ta_Revision :: int
  ta_RevisionSHA256 :: string
  ta_Title :: string
  ta_Summary :: string
  ta_Type :: string
  ta_Execution :: string
  ta_Scope :: "TaskScope option"
  ta_Objective :: string
  ta_AcceptanceCriteria :: "string list option"
  ta_Constraints :: "string list option"
  ta_Priority :: string
  ta_Dependencies :: "string list option"
  ta_PreparationReferences :: "string list option"
  ta_Metadata :: "(string \<times> string) list option"
  ta_ADRRelation :: string
  ta_ADRReferences :: "string list option"
  ta_Status :: string
  ta_ReadySeal :: "TaskReadySeal option"
  ta_CreatedBy :: string
  ta_CreatedAt :: gotime
  ta_UpdatedAt :: gotime

record AuthoringDraft =
  ad_Type :: string
  ad_Execution :: string
  ad_Scope :: "TaskScope option"
  ad_Title :: string
  ad_Summary :: string
  ad_Objective :: string
  ad_AcceptanceCriteria :: "string list option"
  ad_Constraints :: "string list option"
  ad_Priority :: string
  ad_Dependencies :: "string list option"
  ad_PreparationReferences :: "string list option"
  ad_Metadata :: "(string \<times> string) list option"
  ad_ADRRelation :: string
  ad_ADRReferences :: "string list option"

text \<open>Each field of a patch is a pointer: \<open>None\<close> leaves the task's field alone.\<close>

record AuthoringPatch =
  ap_Type :: "string option"
  ap_Execution :: "string option"
  ap_Scope :: "TaskScope option"
  ap_Title :: "string option"
  ap_Summary :: "string option"
  ap_Objective :: "string option"
  ap_AcceptanceCriteria :: "string list option option"
  ap_Constraints :: "string list option option"
  ap_Priority :: "string option"
  ap_Dependencies :: "string list option option"
  ap_PreparationReferences :: "string list option option"
  ap_Metadata :: "(string \<times> string) list option option"
  ap_ADRRelation :: "string option"
  ap_ADRReferences :: "string list option option"

abbreviation "Planned \<equiv> ''planned''"
abbreviation "Ready \<equiv> ''ready''"
abbreviation "Done \<equiv> ''done''"
abbreviation "Archived \<equiv> ''archived''"

section \<open>The revision hash\<close>

definition json_TaskScope :: "TaskScope \<Rightarrow> string" where
  "json_TaskScope s = json_object
     (json_field ''files'' (json_strings (ts_Files s)) @ json_field ''modules'' (json_strings (ts_Modules s)))"

definition json_TaskReadySeal :: "TaskReadySeal \<Rightarrow> string result" where
  "json_TaskReadySeal s = map_sum id (\<lambda>at. json_object
     (json_field ''revision'' (dec_int (rs_Revision s))
      @ json_field ''revision_sha256'' (json_string (rs_RevisionSHA256 s))
      @ json_field ''ready_by'' (json_string (rs_ReadyBy s)) @ json_field ''ready_at'' at))
     (json_time (rs_ReadyAt s))"

text \<open>\<open>json.Marshal\<close> of a task: the fields before and after the seal, which may fail on a time.\<close>

definition json_task_content :: "TaskAuthoring \<Rightarrow> (string \<times> string) list" where
  "json_task_content v =
     json_field ''schema_version'' (dec_int (ta_SchemaVersion v))
     @ json_field ''id'' (json_string (ta_ID v))
     @ json_field ''project_id'' (json_string (ta_ProjectID v))
     @ json_field ''revision'' (dec_int (ta_Revision v))
     @ json_field ''revision_sha256'' (json_string (ta_RevisionSHA256 v))
     @ json_field ''title'' (json_string (ta_Title v))
     @ json_omit (ta_Summary v = []) ''summary'' (json_string (ta_Summary v))
     @ json_omit (ta_Type v = []) ''type'' (json_string (ta_Type v))
     @ json_omit (ta_Execution v = []) ''execution'' (json_string (ta_Execution v))
     @ (case ta_Scope v of None \<Rightarrow> [] | Some s \<Rightarrow> json_field ''scope'' (json_TaskScope s))
     @ json_field ''objective'' (json_string (ta_Objective v))
     @ json_field ''acceptance_criteria'' (json_strings (ta_AcceptanceCriteria v))
     @ json_field ''constraints'' (json_strings (ta_Constraints v))
     @ json_omit (ta_Priority v = []) ''priority'' (json_string (ta_Priority v))
     @ json_omit (elems (ta_Dependencies v) = []) ''dependencies'' (json_strings (ta_Dependencies v))
     @ json_omit (elems (ta_PreparationReferences v) = []) ''preparation_references''
         (json_strings (ta_PreparationReferences v))
     @ json_omit (elems (ta_Metadata v) = []) ''metadata'' (json_string_map (elems (ta_Metadata v)))
     @ json_field ''adr_relation'' (json_string (ta_ADRRelation v))
     @ json_omit (elems (ta_ADRReferences v) = []) ''adr_references'' (json_strings (ta_ADRReferences v))
     @ json_field ''status'' (json_string (ta_Status v))"

definition json_TaskAuthoring :: "TaskAuthoring \<Rightarrow> string result" where
  "json_TaskAuthoring v =
     (case (case ta_ReadySeal v of None \<Rightarrow> Ok []
            | Some s \<Rightarrow> map_sum id (\<lambda>j. json_field ''ready_seal'' j) (json_TaskReadySeal s)) of
        Inl m \<Rightarrow> Err m
      | Inr seal \<Rightarrow>
          (case json_time (ta_CreatedAt v) of
             Inl m \<Rightarrow> Err m
           | Inr created \<Rightarrow>
               (case json_time (ta_UpdatedAt v) of
                  Inl m \<Rightarrow> Err m
                | Inr updated \<Rightarrow> Ok (json_object (json_task_content v @ seal
                    @ json_field ''created_by'' (json_string (ta_CreatedBy v))
                    @ json_field ''created_at'' created @ json_field ''updated_at'' updated)))))"

text \<open>What \<open>HashTaskAuthoring\<close> resets before encoding: it hashes the semantic revision only.\<close>

definition semantic_revision :: "TaskAuthoring \<Rightarrow> TaskAuthoring" where
  "semantic_revision v = v\<lparr>ta_Type := (if ta_Type v = ''task'' then '''' else ta_Type v),
     ta_RevisionSHA256 := '''', ta_Status := Planned, ta_ReadySeal := None,
     ta_CreatedAt := to_utc (ta_CreatedAt v), ta_UpdatedAt := zero_time\<rparr>"

definition HashTaskAuthoring :: "TaskAuthoring \<Rightarrow> string result" where
  "HashTaskAuthoring v = map_sum id sha256_hex (json_TaskAuthoring (semantic_revision v))"

section \<open>The validator\<close>

definition authoring_entries :: "TaskAuthoring \<Rightarrow> string list" where
  "authoring_entries v = elems (ta_AcceptanceCriteria v) @ elems (ta_Constraints v)
     @ elems (ta_Dependencies v) @ elems (ta_PreparationReferences v)"

definition check_priority :: "bool \<Rightarrow> TaskAuthoring \<Rightarrow> error" where
  "check_priority allowLegacyPriority v =
     (if allowLegacyPriority \<or> ta_Status v = Done \<or> ta_Status v = Archived
      then fail_if (ta_Priority v \<noteq> '''' \<and> (32 < length (ta_Priority v) \<or> ContainsAny (ta_Priority v) nul_cr_lf))
             ''invalid task authoring priority''
      else ValidateTaskPriority (ta_Priority v) (ta_Status v = Ready))"

definition check_adr_ids :: "string list \<Rightarrow> error" where
  "check_adr_ids ids =
     dup_check (\<lambda>i. fail_if (ValidateADRIdentifier i \<noteq> None \<and> ValidateCanonicalADRIdentifier i \<noteq> None)
                 (''invalid ADR reference '' @ go_quote i))
       id (\<lambda>i. ''duplicate ADR reference '' @ go_quote i) [] ids"

definition check_adr_relation :: "TaskAuthoring \<Rightarrow> error" where
  "check_adr_relation v =
     (let refs = elems (ta_ADRReferences v) in
      if ta_ADRRelation v = ''no_adr_required''
      then fail_if (refs \<noteq> []) ''no_adr_required cannot include ADR references''
      else if ta_ADRRelation v = ''implements_existing'' \<or> ta_ADRRelation v = ''supersedes_existing_adr''
      then first_error
        [fail_if (refs = [] \<or> 8 < length refs) ''ADR relation requires bounded ADR references'',
         check_adr_ids refs]
      else if ta_ADRRelation v = ''requires_new_adr''
      then first_error
        [fail_if (8 < length refs) ''ADR relation requires bounded ADR references'', check_adr_ids refs]
      else Some ''invalid ADR relation'')"

text \<open>The checks of the content, up to the ADR relation, in source order.\<close>

definition content_checks :: "bool \<Rightarrow> bool \<Rightarrow> TaskAuthoring \<Rightarrow> error list" where
  "content_checks requireSummary allowLegacyPriority v =
     [fail_if (rune_count (ta_Title v) < 3 \<or> 128 < rune_count (ta_Title v)
          \<or> length (ta_Objective v) < 3 \<or> 200000 < length (ta_Objective v)) ''invalid task authoring content'',
      fail_if ((requireSummary \<and> TrimSpace (ta_Summary v) = '''') \<or> 256 < rune_count (ta_Summary v))
        ''invalid task authoring summary'',
      err_of (NormalizeTaskType (ta_Type v)),
      err_of (NormalizeTaskExecution (ta_Execution v)),
      ValidateTaskScope (ta_Scope v),
      fail_if (200 < length (elems (ta_AcceptanceCriteria v)) \<or> 200 < length (elems (ta_Constraints v))
          \<or> 64 < length (elems (ta_Dependencies v)) \<or> 64 < length (elems (ta_PreparationReferences v))
          \<or> 64 < length (elems (ta_Metadata v))) ''task authoring bounds exceeded'',
      fail_if (list_ex (\<lambda>e. TrimSpace e = '''' \<or> 20000 < length e \<or> List.member e nul) (authoring_entries v))
        ''invalid task authoring entry'',
      check_priority allowLegacyPriority v,
      fail_if (list_ex (\<lambda>(key, value). TrimSpace key = '''' \<or> 64 < length key \<or> 1024 < length value
            \<or> ContainsAny (key @ value) nul_cr_lf) (elems (ta_Metadata v)))
        ''invalid task authoring metadata'',
      check_adr_relation v]"

definition check_seal :: "TaskAuthoring \<Rightarrow> error" where
  "check_seal v =
     (if ta_Status v = Planned then fail_if (ta_ReadySeal v \<noteq> None) ''planned task cannot have ready seal''
      else if ta_Status v = Ready
      then fail_if (case ta_ReadySeal v of
                      None \<Rightarrow> True
                    | Some s \<Rightarrow> rs_Revision s \<noteq> ta_Revision v \<or> rs_RevisionSHA256 s \<noteq> ta_RevisionSHA256 v
                        \<or> rs_ReadyBy s = '''' \<or> IsZero (rs_ReadyAt s))
             ''ready task has invalid ready seal''
      else fail_if (ta_ReadySeal v \<noteq> None) ''terminal task cannot have ready seal'')"

text \<open>The message that \<open>ValidateDraft\<close> looks for.\<close>

definition hash_mismatch :: string where
  "hash_mismatch = ''task authoring revision hash mismatch''"

definition validateTaskAuthoring :: "TaskAuthoring \<Rightarrow> bool \<Rightarrow> bool \<Rightarrow> error" where
  "validateTaskAuthoring v requireSummary allowLegacyPriority = first_error
     ([fail_if (ta_SchemaVersion v \<noteq> 1 \<or> ValidateCanonicalTaskID (ta_ID v) \<noteq> None
          \<or> ValidateProjectIdentifier (ta_ProjectID v) \<noteq> None) ''invalid task authoring identity'']
      @ content_checks requireSummary allowLegacyPriority v
      @ [fail_if (ta_Revision v < 1 \<or> \<not> is_sha256 (ta_RevisionSHA256 v)) ''invalid task authoring revision'',
         fail_if (ta_CreatedBy v = '''' \<or> ContainsAny (ta_CreatedBy v) nul_cr_lf \<or> IsZero (ta_CreatedAt v)
             \<or> IsZero (ta_UpdatedAt v)) ''invalid task authoring metadata'',
         fail_if (ta_Status v \<noteq> Planned \<and> ta_Status v \<noteq> Ready \<and> ta_Status v \<noteq> Done \<and> ta_Status v \<noteq> Archived)
           ''invalid task authoring status'',
         fail_if (HashTaskAuthoring v \<noteq> Ok (ta_RevisionSHA256 v)) hash_mismatch,
         check_seal v])"

definition ValidateTaskAuthoring :: "TaskAuthoring \<Rightarrow> error" where
  "ValidateTaskAuthoring v = validateTaskAuthoring v True False"

definition ValidateTaskAuthoringRevision :: "TaskAuthoring \<Rightarrow> bool \<Rightarrow> error" where
  "ValidateTaskAuthoringRevision v historical = validateTaskAuthoring v (\<not> historical) historical"

section \<open>Creating a task\<close>

text \<open>The task that \<open>ValidateDraft\<close> and \<open>NewTask\<close> build from a draft.\<close>

definition draft_task :: "AuthoringDraft \<Rightarrow> string \<Rightarrow> string \<Rightarrow> string \<Rightarrow> string \<Rightarrow> string \<Rightarrow> gotime \<Rightarrow> TaskAuthoring" where
  "draft_task d typ projectID taskID sha createdBy now =
     \<lparr>ta_SchemaVersion = 1, ta_ID = taskID, ta_ProjectID = projectID, ta_Revision = 1,
      ta_RevisionSHA256 = sha, ta_Title = ad_Title d, ta_Summary = ad_Summary d, ta_Type = typ,
      ta_Execution = ad_Execution d, ta_Scope = ad_Scope d, ta_Objective = ad_Objective d,
      ta_AcceptanceCriteria = cloneStrings (ad_AcceptanceCriteria d),
      ta_Constraints = cloneStrings (ad_Constraints d), ta_Priority = ad_Priority d,
      ta_Dependencies = cloneStrings (ad_Dependencies d),
      ta_PreparationReferences = cloneStrings (ad_PreparationReferences d),
      ta_Metadata = cloneStringMap (ad_Metadata d), ta_ADRRelation = ad_ADRRelation d,
      ta_ADRReferences = cloneStrings (ad_ADRReferences d), ta_Status = Planned, ta_ReadySeal = None,
      ta_CreatedBy = createdBy, ta_CreatedAt = now, ta_UpdatedAt = now\<rparr>"

definition ValidateDraft :: "AuthoringDraft \<Rightarrow> error" where
  "ValidateDraft draft =
     (case ValidateTaskAuthoring
         (draft_task draft (DefaultTaskType (ad_Type draft)) ''example'' ''AAA-TSK1''
            (replicate 64 (CHR ''a'')) ''validator'' (unix_utc 1)) of
        None \<Rightarrow> None
      | Some m \<Rightarrow> if Contains m ''revision hash mismatch'' then None else Some m)"

definition NewTask :: "string \<Rightarrow> string \<Rightarrow> AuthoringDraft \<Rightarrow> string \<Rightarrow> gotime \<Rightarrow> TaskAuthoring result" where
  "NewTask projectID taskID draft createdBy now =
     guard_result (first_error
       [ValidateProjectIdentifier projectID, ValidateCanonicalTaskID taskID,
        fail_if (createdBy = '''' \<or> ContainsAny createdBy nul_cr_lf) ''created_by is required''])
     (case NormalizeTaskType (ad_Type draft) of
        Inl m \<Rightarrow> Err m
      | Inr typ \<Rightarrow>
     (case NormalizeTaskExecution (ad_Execution draft) of
        Inl m \<Rightarrow> Err m
      | Inr execution \<Rightarrow>
     (case NormalizeTaskScope (ad_Scope draft) of
        Inl m \<Rightarrow> Err m
      | Inr scope \<Rightarrow>
          let d = draft\<lparr>ad_ADRRelation := (if ad_ADRRelation draft = '''' then ''no_adr_required''
                                         else ad_ADRRelation draft),
                       ad_Type := typ, ad_Execution := execution, ad_Scope := scope\<rparr>;
              task = draft_task d typ projectID taskID '''' createdBy (to_utc now)
          in guard_result (ValidateDraft d)
            (case HashTaskAuthoring task of
               Inl m \<Rightarrow> Err m
             | Inr sha \<Rightarrow>
                 let task = task\<lparr>ta_RevisionSHA256 := sha\<rparr>
                 in guard_result (ValidateTaskAuthoring task) (Ok task)))))"

section \<open>Editing a task\<close>

text \<open>
  Each mutable field is patched when its pointer is set and the value differs; the flag records
  whether anything changed. \<open>reflect.DeepEqual\<close> on slices and maps is equality of the options.
\<close>

definition patch_field ::
  "'a option \<Rightarrow> (TaskAuthoring \<Rightarrow> 'a) \<Rightarrow> ('a \<Rightarrow> TaskAuthoring \<Rightarrow> TaskAuthoring)
     \<Rightarrow> TaskAuthoring \<times> bool \<Rightarrow> TaskAuthoring \<times> bool" where
  "patch_field p get put tc =
     (case p of
        None \<Rightarrow> tc
      | Some v \<Rightarrow> if v \<noteq> get (fst tc) then (put v (fst tc), True) else tc)"

text \<open>A patched field that is normalised first, which may fail.\<close>

definition patch_normalized ::
  "'p option \<Rightarrow> ('p \<Rightarrow> 'a result) \<Rightarrow> (TaskAuthoring \<Rightarrow> 'a) \<Rightarrow> ('a \<Rightarrow> TaskAuthoring \<Rightarrow> TaskAuthoring)
     \<Rightarrow> TaskAuthoring \<times> bool \<Rightarrow> (TaskAuthoring \<times> bool) result" where
  "patch_normalized p norm get put tc =
     (case p of
        None \<Rightarrow> Ok tc
      | Some v \<Rightarrow> (case norm v of
                     Inl m \<Rightarrow> Err m
                   | Inr w \<Rightarrow> Ok (patch_field (Some w) get put tc)))"

definition patch_plain :: "AuthoringPatch \<Rightarrow> TaskAuthoring \<times> bool \<Rightarrow> TaskAuthoring \<times> bool" where
  "patch_plain p tc =
     (let tc = patch_field (ap_Title p) ta_Title (\<lambda>v t. t\<lparr>ta_Title := v\<rparr>) tc;
          tc = patch_field (ap_Summary p) ta_Summary (\<lambda>v t. t\<lparr>ta_Summary := v\<rparr>) tc;
          tc = patch_field (ap_Objective p) ta_Objective (\<lambda>v t. t\<lparr>ta_Objective := v\<rparr>) tc;
          tc = patch_field (ap_AcceptanceCriteria p) ta_AcceptanceCriteria
                 (\<lambda>v t. t\<lparr>ta_AcceptanceCriteria := cloneStrings v\<rparr>) tc;
          tc = patch_field (ap_Constraints p) ta_Constraints (\<lambda>v t. t\<lparr>ta_Constraints := cloneStrings v\<rparr>) tc;
          tc = patch_field (ap_Priority p) ta_Priority (\<lambda>v t. t\<lparr>ta_Priority := v\<rparr>) tc;
          tc = patch_field (ap_Dependencies p) ta_Dependencies (\<lambda>v t. t\<lparr>ta_Dependencies := cloneStrings v\<rparr>) tc;
          tc = patch_field (ap_PreparationReferences p) ta_PreparationReferences
                 (\<lambda>v t. t\<lparr>ta_PreparationReferences := cloneStrings v\<rparr>) tc;
          tc = patch_field (ap_Metadata p) ta_Metadata (\<lambda>v t. t\<lparr>ta_Metadata := cloneStringMap v\<rparr>) tc;
          tc = patch_field (ap_ADRRelation p) ta_ADRRelation (\<lambda>v t. t\<lparr>ta_ADRRelation := v\<rparr>) tc
      in patch_field (ap_ADRReferences p) ta_ADRReferences (\<lambda>v t. t\<lparr>ta_ADRReferences := cloneStrings v\<rparr>) tc)"

definition apply_patch :: "AuthoringPatch \<Rightarrow> TaskAuthoring \<Rightarrow> (TaskAuthoring \<times> bool) result" where
  "apply_patch p current =
     (case patch_normalized (ap_Type p) NormalizeTaskType ta_Type (\<lambda>v t. t\<lparr>ta_Type := v\<rparr>)
             (current\<lparr>ta_Type := DefaultTaskType (ta_Type current)\<rparr>, False) of
        Inl m \<Rightarrow> Err m
      | Inr tc \<Rightarrow>
     (case patch_normalized (ap_Execution p) NormalizeTaskExecution ta_Execution
             (\<lambda>v t. t\<lparr>ta_Execution := v\<rparr>) tc of
        Inl m \<Rightarrow> Err m
      | Inr tc \<Rightarrow>
     (case patch_normalized (ap_Scope p) (NormalizeTaskScope \<circ> Some) ta_Scope (\<lambda>v t. t\<lparr>ta_Scope := v\<rparr>) tc of
        Inl m \<Rightarrow> Err m
      | Inr tc \<Rightarrow> Ok (patch_plain p tc))))"

definition task_draft :: "TaskAuthoring \<Rightarrow> AuthoringDraft" where
  "task_draft t =
     \<lparr>ad_Type = ta_Type t, ad_Execution = ta_Execution t, ad_Scope = ta_Scope t, ad_Title = ta_Title t,
      ad_Summary = ta_Summary t, ad_Objective = ta_Objective t,
      ad_AcceptanceCriteria = ta_AcceptanceCriteria t, ad_Constraints = ta_Constraints t,
      ad_Priority = ta_Priority t, ad_Dependencies = ta_Dependencies t,
      ad_PreparationReferences = ta_PreparationReferences t, ad_Metadata = ta_Metadata t,
      ad_ADRRelation = ta_ADRRelation t, ad_ADRReferences = ta_ADRReferences t\<rparr>"

definition seal_revision :: "TaskAuthoring \<Rightarrow> TaskAuthoring result" where
  "seal_revision t =
     (case HashTaskAuthoring t of
        Inl m \<Rightarrow> Err m
      | Inr sha \<Rightarrow> let t = t\<lparr>ta_RevisionSHA256 := sha\<rparr> in guard_result (ValidateTaskAuthoring t) (Ok t))"

definition UpdateTask :: "TaskAuthoring \<Rightarrow> AuthoringPatch \<Rightarrow> string \<Rightarrow> gotime \<Rightarrow> (TaskAuthoring \<times> bool) result" where
  "UpdateTask current patch updatedBy now =
     guard_result (first_error
       [ValidateTaskAuthoring current,
        fail_if (ta_Status current \<noteq> Planned \<and> ta_Status current \<noteq> Ready) ''invalid task authoring status'',
        fail_if (updatedBy = '''' \<or> ContainsAny updatedBy nul_cr_lf) ''updated_by is required''])
     (case apply_patch patch current of
        Inl m \<Rightarrow> Err m
      | Inr (updated, changed) \<Rightarrow>
          if \<not> changed then Ok (current, False)
          else guard_result (ValidateDraft (task_draft updated))
            (map_sum id (\<lambda>t. (t, True))
              (seal_revision (updated\<lparr>ta_Revision := wrap_int (ta_Revision updated + 1),
                 ta_RevisionSHA256 := '''', ta_Status := Planned, ta_ReadySeal := None,
                 ta_UpdatedAt := to_utc now\<rparr>))))"

section \<open>Sealing a task\<close>

definition ReadyTask :: "TaskAuthoring \<Rightarrow> string \<Rightarrow> gotime \<Rightarrow> TaskAuthoring result" where
  "ReadyTask current readyBy readyAt =
     guard_result (first_error
       [ValidateTaskAuthoring current,
        fail_if (TrimSpace readyBy = '''' \<or> ContainsAny readyBy nul_cr_lf) ''ready_by is required'',
        ValidateTaskPriority (ta_Priority current) True])
     (if ta_Status current = Ready then Ok current
      else let t = current\<lparr>ta_Status := Ready,
                 ta_ReadySeal := Some \<lparr>rs_Revision = ta_Revision current,
                   rs_RevisionSHA256 = ta_RevisionSHA256 current, rs_ReadyBy = readyBy,
                   rs_ReadyAt = to_utc readyAt\<rparr>,
                 ta_UpdatedAt := to_utc readyAt\<rparr>
           in guard_result (ValidateTaskAuthoring t) (Ok t))"

definition ValidateExecutionTask :: "TaskAuthoring \<Rightarrow> error" where
  "ValidateExecutionTask task = first_error
     [ValidateTaskAuthoring task,
      fail_if (ta_Status task \<noteq> Ready \<or>
          (case ta_ReadySeal task of
             None \<Rightarrow> True
           | Some s \<Rightarrow> rs_Revision s \<noteq> ta_Revision task \<or> rs_RevisionSHA256 s \<noteq> ta_RevisionSHA256 task))
        (''task '' @ go_quote (ta_ID task) @ '' is not ready for execution'')]"

definition CheckRevision :: "TaskAuthoring \<Rightarrow> int \<Rightarrow> string \<Rightarrow> error" where
  "CheckRevision task revision hash = first_error
     [fail_if (ta_Revision task \<noteq> revision)
        (''task authoring revision conflict: expected '' @ dec_int revision @ '', current ''
          @ dec_int (ta_Revision task)),
      fail_if (hash \<noteq> '''' \<and> ta_RevisionSHA256 task \<noteq> hash) ''task authoring revision hash conflict'']"

end
