(* ===== verification/Task_Authoring_Laws.thy ===== *)
theory Task_Authoring_Laws
  imports Task_Authoring Samples
begin

text \<open>
  What the authoring lifecycle guarantees. The validity of a task is split into its content
  (\<open>content_ok\<close>, what drafts and patches supply), its envelope (identity, authorship, times) and
  its seal; the create, edit and seal operations are then characterised on these parts.
\<close>

section \<open>The hash\<close>

lemma is_sha256_hex [simp]: "is_sha256 (sha256_hex s)"
proof -
  have "\<forall>c \<in> set (sha256_hex s). is_hex c" using sha256_hex_is_hex [of s] by (simp only: list_all_iff)
  then have "set (sha256_hex s) \<subseteq> set ''0123456789abcdef''" by (intro subsetI) (simp only: is_hex_def List.member_iff)
  then show ?thesis by (simp add: is_sha256_def go_Trim_Nil_iff)
qed

lemma HashTaskAuthoring_sha: "HashTaskAuthoring v = Ok s \<Longrightarrow> is_sha256 s"
  by (cases "json_TaskAuthoring (semantic_revision v)") (auto simp: HashTaskAuthoring_def)

lemma HashTaskAuthoring_cong:
  "semantic_revision v = semantic_revision w \<Longrightarrow> HashTaskAuthoring v = HashTaskAuthoring w"
  by (simp add: HashTaskAuthoring_def)

text \<open>Status, seal, stored hash and write time are not part of the hashed revision.\<close>

lemma hash_ignores [simp]:
  "HashTaskAuthoring (v\<lparr>ta_RevisionSHA256 := h\<rparr>) = HashTaskAuthoring v"
  "HashTaskAuthoring (v\<lparr>ta_Status := s\<rparr>) = HashTaskAuthoring v"
  "HashTaskAuthoring (v\<lparr>ta_ReadySeal := r\<rparr>) = HashTaskAuthoring v"
  "HashTaskAuthoring (v\<lparr>ta_UpdatedAt := u\<rparr>) = HashTaskAuthoring v"
  by (rule HashTaskAuthoring_cong, simp add: semantic_revision_def)+

text \<open>The only way hashing fails is a creation time that JSON cannot represent.\<close>

lemma HashTaskAuthoring_ok:
  "(\<exists>s. HashTaskAuthoring v = Ok s) \<longleftrightarrow> (\<exists>j. json_time (to_utc (ta_CreatedAt v)) = Ok j)"
  by (cases "json_time (to_utc (ta_CreatedAt v))")
    (auto simp: HashTaskAuthoring_def json_TaskAuthoring_def semantic_revision_def)

section \<open>Content, envelope and seal\<close>

definition content_ok :: "TaskAuthoring \<Rightarrow> bool" where
  "content_ok v \<longleftrightarrow> first_error (content_checks True False v) = None"

definition envelope_ok :: "TaskAuthoring \<Rightarrow> bool" where
  "envelope_ok v \<longleftrightarrow>
     ta_SchemaVersion v = 1 \<and> ValidateCanonicalTaskID (ta_ID v) = None
       \<and> ValidateProjectIdentifier (ta_ProjectID v) = None \<and> 1 \<le> ta_Revision v
       \<and> ta_CreatedBy v \<noteq> '''' \<and> \<not> ContainsAny (ta_CreatedBy v) nul_cr_lf
       \<and> \<not> IsZero (ta_CreatedAt v) \<and> \<not> IsZero (ta_UpdatedAt v)
       \<and> ta_Status v \<in> {Planned, Ready, Done, Archived}"

lemma valid_task_iff:
  "ValidateTaskAuthoring v = None \<longleftrightarrow>
     content_ok v \<and> envelope_ok v \<and> HashTaskAuthoring v = Ok (ta_RevisionSHA256 v) \<and> check_seal v = None"
  using HashTaskAuthoring_sha [of v "ta_RevisionSHA256 v"]
  by (auto simp: ValidateTaskAuthoring_def validateTaskAuthoring_def content_ok_def envelope_ok_def)

text \<open>
  A task's content does not depend on its envelope, except for the status through the priority:
  leaving \<open>ready\<close> never makes a content invalid, entering it needs a priority.
\<close>

definition same_content :: "TaskAuthoring \<Rightarrow> TaskAuthoring \<Rightarrow> bool" where
  "same_content v w \<longleftrightarrow>
     ta_Title v = ta_Title w \<and> ta_Summary v = ta_Summary w \<and> ta_Type v = ta_Type w
       \<and> ta_Execution v = ta_Execution w \<and> ta_Scope v = ta_Scope w \<and> ta_Objective v = ta_Objective w
       \<and> elems (ta_AcceptanceCriteria v) = elems (ta_AcceptanceCriteria w)
       \<and> elems (ta_Constraints v) = elems (ta_Constraints w) \<and> ta_Priority v = ta_Priority w
       \<and> elems (ta_Dependencies v) = elems (ta_Dependencies w)
       \<and> elems (ta_PreparationReferences v) = elems (ta_PreparationReferences w)
       \<and> ta_Metadata v = ta_Metadata w \<and> ta_ADRRelation v = ta_ADRRelation w
       \<and> elems (ta_ADRReferences v) = elems (ta_ADRReferences w)"

lemma same_content_refl [simp]: "same_content v v"
  by (simp add: same_content_def)

lemma content_ok_cong:
  assumes "same_content v w" and "content_ok w"
    and "check_priority False w = None \<Longrightarrow> check_priority False v = None"
  shows "content_ok v"
proof -
  note s = assms(1) [unfolded same_content_def]
  have "check_adr_relation v = check_adr_relation w" "authoring_entries v = authoring_entries w"
    by (simp_all add: check_adr_relation_def authoring_entries_def s cong: if_cong)
  then show ?thesis using assms(2,3) by (simp add: content_ok_def content_checks_def s)
qed

lemma check_priority_planned:
  assumes "ta_Priority v = ta_Priority w" and "ta_Status v = Planned" and "ta_Status w \<in> {Planned, Ready}"
    and "check_priority False w = None"
  shows "check_priority False v = None"
  using assms by (auto simp: check_priority_def ValidateTaskPriority_None)

lemma check_priority_ready:
  assumes "ta_Status v = Ready" and "ValidateTaskPriority (ta_Priority v) True = None"
  shows "check_priority False v = None"
  using assms by (simp add: check_priority_def)

lemma content_ok_planned:
  assumes "content_ok w" and "same_content v w" and "ta_Status v = Planned" and "ta_Status w \<in> {Planned, Ready}"
  shows "content_ok v"
  using content_ok_cong [OF assms(2,1) check_priority_planned] assms by (simp add: same_content_def)

lemma content_ok_ready:
  assumes "content_ok w" and "same_content v w" and "ta_Status v = Ready"
    and "ValidateTaskPriority (ta_Priority v) True = None"
  shows "content_ok v"
  using content_ok_cong [OF assms(2,1) check_priority_ready] assms(3,4) by simp

section \<open>Drafts\<close>

lemma draft_task_of_task [simp]:
  "same_content (draft_task (task_draft t) (ta_Type t) p i sha by now) t"
  by (simp add: same_content_def draft_task_def task_draft_def)

lemma first_error_single_None: "first_error [e] = e"
  by (cases e) simp_all

lemma first_error_pass: "first_error es = None \<Longrightarrow> first_error (es @ fs) = first_error fs"
  by (induction es rule: first_error.induct) auto

text \<open>The template \<open>ValidateDraft\<close> builds passes everything but the hash check when the content is fine.\<close>

lemma ValidateDraft_ok:
  assumes "content_ok (draft_task d (DefaultTaskType (ad_Type d)) p i sha by now)"
  shows "ValidateDraft d = None"
proof -
  define t where "t = draft_task d (DefaultTaskType (ad_Type d)) ''example'' ''AAA-TSK1''
      (replicate 64 (CHR ''a'')) ''validator'' (unix_utc 1)"
  have t: "ta_Status t = Planned" "ta_SchemaVersion t = 1" "ta_ID t = ''AAA-TSK1''" "ta_ProjectID t = ''example''"
    "ta_Revision t = 1" "ta_RevisionSHA256 t = replicate 64 (CHR ''a'')" "ta_CreatedBy t = ''validator''"
    "ta_CreatedAt t = unix_utc 1" "ta_UpdatedAt t = unix_utc 1" "ta_ReadySeal t = None"
    by (simp_all add: t_def draft_task_def)
  have "content_ok t"
    by (rule content_ok_planned [OF assms]) (simp_all add: t_def draft_task_def same_content_def)
  then have content: "first_error (content_checks True False t) = None" by (simp add: content_ok_def)
  have "is_sha256 (replicate 64 (CHR ''a''))" by (simp add: is_sha256_def go_Trim_Nil_iff)
  moreover have "\<not> ContainsAny ''validator'' nul_cr_lf"
    by (simp add: ContainsAny_iff nul_cr_lf_def nul_def cr_def lf_def)
  ultimately have "ValidateTaskAuthoring t
      = first_error [fail_if (HashTaskAuthoring t \<noteq> Ok (ta_RevisionSHA256 t)) hash_mismatch, check_seal t]"
    using content
    by (simp add: ValidateTaskAuthoring_def validateTaskAuthoring_def t sample_task_id sample_project_id
        first_error_pass IsZero_def unix_utc_def)
  moreover have "check_seal t = None" by (simp add: check_seal_def t)
  ultimately have "ValidateTaskAuthoring t = None \<or> ValidateTaskAuthoring t = Some hash_mismatch"
    by (simp add: fail_if_def)
  moreover have "Contains hash_mismatch ''revision hash mismatch''"
    by (simp add: hash_mismatch_def HasPrefix_def)
  ultimately show ?thesis by (auto simp: ValidateDraft_def t_def [symmetric])
qed

section \<open>Patches\<close>

text \<open>The fields no patch touches.\<close>

definition envelope :: "TaskAuthoring \<Rightarrow>
    int \<times> string \<times> string \<times> int \<times> string \<times> string \<times> TaskReadySeal option \<times> string \<times> gotime \<times> gotime" where
  "envelope t = (ta_SchemaVersion t, ta_ID t, ta_ProjectID t, ta_Revision t, ta_RevisionSHA256 t,
     ta_Status t, ta_ReadySeal t, ta_CreatedBy t, ta_CreatedAt t, ta_UpdatedAt t)"

lemma patch_field_envelope:
  "(\<And>v t. envelope (put v t) = envelope t) \<Longrightarrow> envelope (fst (patch_field p get put tc)) = envelope (fst tc)"
  by (simp add: patch_field_def split: option.split)

lemma patch_normalized_envelope:
  "patch_normalized p norm get put tc = Ok tc' \<Longrightarrow> (\<And>v t. envelope (put v t) = envelope t)
     \<Longrightarrow> envelope (fst tc') = envelope (fst tc)"
  by (auto simp: patch_normalized_def patch_field_envelope split: option.splits sum.splits)

lemma patch_plain_envelope: "envelope (fst (patch_plain p tc)) = envelope (fst tc)"
  by (simp only: patch_plain_def Let_def, (subst patch_field_envelope, simp add: envelope_def)+) (rule refl)

lemma apply_patch_envelope:
  assumes "apply_patch p cur = Ok (u, changed)"
  shows "envelope u = envelope cur"
proof -
  obtain t1 t2 t3 where
    p1: "patch_normalized (ap_Type p) NormalizeTaskType ta_Type (\<lambda>v t. t\<lparr>ta_Type := v\<rparr>)
           (cur\<lparr>ta_Type := DefaultTaskType (ta_Type cur)\<rparr>, False) = Ok t1"
    and p2: "patch_normalized (ap_Execution p) NormalizeTaskExecution ta_Execution
           (\<lambda>v t. t\<lparr>ta_Execution := v\<rparr>) t1 = Ok t2"
    and p3: "patch_normalized (ap_Scope p) (NormalizeTaskScope \<circ> Some) ta_Scope
           (\<lambda>v t. t\<lparr>ta_Scope := v\<rparr>) t2 = Ok t3"
    and p4: "patch_plain p t3 = (u, changed)"
    using assms unfolding apply_patch_def by (auto split: sum.splits)
  have "envelope u = envelope (fst t3)" using patch_plain_envelope [of p t3] p4 by simp
  also have "\<dots> = envelope (fst t2)" by (rule patch_normalized_envelope [OF p3]) (simp add: envelope_def)
  also have "\<dots> = envelope (fst t1)" by (rule patch_normalized_envelope [OF p2]) (simp add: envelope_def)
  also have "\<dots> = envelope (fst (cur\<lparr>ta_Type := DefaultTaskType (ta_Type cur)\<rparr>, False))"
    by (rule patch_normalized_envelope [OF p1]) (simp add: envelope_def)
  also have "\<dots> = envelope cur" by (simp add: envelope_def)
  finally show ?thesis .
qed

section \<open>The operations on valid tasks\<close>

lemma content_ok_same:
  "same_content v w \<Longrightarrow> ta_Status v = ta_Status w \<Longrightarrow> content_ok w \<Longrightarrow> content_ok v"
  by (rule content_ok_cong) (auto simp: check_priority_def same_content_def)

text \<open>Sealing the hash into a well-formed task makes it valid, whenever it can be hashed at all.\<close>

lemma seal_revision_Ok:
  "seal_revision t = Ok t' \<longleftrightarrow>
     (\<exists>h. HashTaskAuthoring t = Ok h \<and> t' = t\<lparr>ta_RevisionSHA256 := h\<rparr> \<and> ValidateTaskAuthoring t' = None)"
  by (cases "HashTaskAuthoring t") (auto simp: seal_revision_def Let_def)

lemma sealed_hash_valid:
  assumes "content_ok t" "envelope_ok t" "ta_Status t = Planned" "ta_ReadySeal t = None"
    and "HashTaskAuthoring t = Ok h"
  shows "ValidateTaskAuthoring (t\<lparr>ta_RevisionSHA256 := h\<rparr>) = None"
proof -
  have "content_ok (t\<lparr>ta_RevisionSHA256 := h\<rparr>)"
    by (rule content_ok_same [OF _ _ assms(1)]) (simp_all add: same_content_def)
  then show ?thesis
    using assms by (simp add: valid_task_iff envelope_ok_def check_seal_def)
qed

lemma seal_revision_succeeds:
  assumes "content_ok t" "envelope_ok t" "ta_Status t = Planned" "ta_ReadySeal t = None"
    and "json_time (to_utc (ta_CreatedAt t)) = Ok j"
  shows "\<exists>h. seal_revision t = Ok (t\<lparr>ta_RevisionSHA256 := h\<rparr>)"
proof -
  obtain h where "HashTaskAuthoring t = Ok h" using HashTaskAuthoring_ok [of t] assms(5) by blast
  then show ?thesis using sealed_hash_valid [OF assms(1-4)] by (auto simp: seal_revision_Ok)
qed

lemma seal_revision_guard:
  "(case HashTaskAuthoring t of Inl m \<Rightarrow> Err m
    | Inr sha \<Rightarrow> let t = t\<lparr>ta_RevisionSHA256 := sha\<rparr> in guard_result (ValidateTaskAuthoring t) (Ok t))
     = seal_revision t"
  by (simp only: seal_revision_def)

text \<open>The draft \<open>NewTask\<close> works on, once its parts are normalised.\<close>

definition normalized_draft :: "AuthoringDraft \<Rightarrow> AuthoringDraft result" where
  "normalized_draft d =
     (case NormalizeTaskType (ad_Type d) of Inl m \<Rightarrow> Err m | Inr typ \<Rightarrow>
     (case NormalizeTaskExecution (ad_Execution d) of Inl m \<Rightarrow> Err m | Inr execution \<Rightarrow>
     (case NormalizeTaskScope (ad_Scope d) of Inl m \<Rightarrow> Err m | Inr scope \<Rightarrow>
        Ok (d\<lparr>ad_ADRRelation := (if ad_ADRRelation d = '''' then ''no_adr_required'' else ad_ADRRelation d),
              ad_Type := typ, ad_Execution := execution, ad_Scope := scope\<rparr>))))"

lemma NewTask_unfold:
  "NewTask projectID taskID draft createdBy now =
     guard_result (first_error
       [ValidateProjectIdentifier projectID, ValidateCanonicalTaskID taskID,
        fail_if (createdBy = '''' \<or> ContainsAny createdBy nul_cr_lf) ''created_by is required''])
     (case normalized_draft draft of
        Inl m \<Rightarrow> Err m
      | Inr d \<Rightarrow> guard_result (ValidateDraft d)
          (seal_revision (draft_task d (ad_Type d) projectID taskID '''' createdBy (to_utc now))))"
  by (simp add: NewTask_def normalized_draft_def seal_revision_def Let_def split: sum.split)

lemma normalized_draft_type: "normalized_draft d = Ok d' \<Longrightarrow> DefaultTaskType (ad_Type d') = ad_Type d'"
  by (auto simp: normalized_draft_def NormalizeTaskType_Ok split: sum.splits)

lemma draft_task_fields [simp]:
  "ta_Status (draft_task d typ p i sha by now) = Planned"
  "ta_ReadySeal (draft_task d typ p i sha by now) = None"
  "ta_Revision (draft_task d typ p i sha by now) = 1"
  "ta_ID (draft_task d typ p i sha by now) = i"
  "ta_ProjectID (draft_task d typ p i sha by now) = p"
  "ta_CreatedBy (draft_task d typ p i sha by now) = by"
  "ta_CreatedAt (draft_task d typ p i sha by now) = now"
  "ta_UpdatedAt (draft_task d typ p i sha by now) = now"
  "ta_SchemaVersion (draft_task d typ p i sha by now) = 1"
  by (simp_all add: draft_task_def)

end
