(* ===== verification/Task_Authoring_Properties.thy ===== *)
theory Task_Authoring_Properties
  imports Task_Authoring_Laws
begin

text \<open>
  The properties of the authoring lifecycle, over the laws of \<open>Task_Authoring_Laws\<close>, with
  concrete tasks as witnesses. The witnesses never evaluate SHA-256: a task created by \<open>NewTask\<close>
  carries its hash symbolically.
\<close>

section \<open>A sample task\<close>

definition sample_draft :: AuthoringDraft where
  "sample_draft =
     \<lparr>ad_Type = '''', ad_Execution = ''train'', ad_Scope = None, ad_Title = ''Sample'', ad_Summary = ''Short'',
      ad_Objective = ''Do it'', ad_AcceptanceCriteria = Some [''works''], ad_Constraints = None,
      ad_Priority = ''P1'', ad_Dependencies = None, ad_PreparationReferences = None, ad_Metadata = None,
      ad_ADRRelation = '''', ad_ADRReferences = None\<rparr>"

abbreviation "sample_normalized \<equiv>
  sample_draft\<lparr>ad_ADRRelation := ''no_adr_required'', ad_Type := ''task''\<rparr>"

lemma sample_draft_normalized: "normalized_draft sample_draft = Ok sample_normalized"
  by (simp add: normalized_draft_def NormalizeTaskType_def NormalizeTaskExecution_def
      NormalizeTaskScope_def sample_draft_def)

text \<open>The content of the sample is valid whichever priority of the five it has.\<close>

lemma sample_content:
  "p \<in> set TaskPriorities \<Longrightarrow>
     content_ok (draft_task (sample_normalized\<lparr>ad_Priority := p\<rparr>) ''task'' pid tid sha who now)"
  by (simp add: content_ok_def content_checks_def draft_task_def sample_draft_def rune_count_ascii byte_def
      NormalizeTaskType_def NormalizeTaskExecution_def TaskTypes_def ValidateTaskScope_def
      authoring_entries_def cloneStrings_def check_priority_def ValidateTaskPriority_None check_adr_relation_def
      IsSpace_def nul_def)

lemma P1_priority: "''P1'' \<in> set TaskPriorities" "''P0'' \<in> set TaskPriorities"
  by (simp_all add: TaskPriorities_def)

lemma sample_draft_priority [simp]: "sample_normalized\<lparr>ad_Priority := ''P1''\<rparr> = sample_normalized"
  by (simp add: sample_draft_def)

section \<open>Creating\<close>

lemma NewTask_Ok:
  "NewTask pid tid draft by now = Ok t \<longleftrightarrow>
     ValidateProjectIdentifier pid = None \<and> ValidateCanonicalTaskID tid = None
       \<and> by \<noteq> '''' \<and> \<not> ContainsAny by nul_cr_lf
       \<and> (\<exists>d. normalized_draft draft = Ok d \<and> ValidateDraft d = None
            \<and> seal_revision (draft_task d (ad_Type d) pid tid '''' by (to_utc now)) = Ok t)"
  by (cases "normalized_draft draft") (auto simp: NewTask_unfold)

lemma draft_task_sealed:
  "seal_revision (draft_task d typ pid tid sha by now) = Ok t \<Longrightarrow>
     ValidateTaskAuthoring t = None \<and> ta_Status t = Planned \<and> ta_Revision t = 1 \<and> ta_ReadySeal t = None
       \<and> ta_ID t = tid \<and> ta_ProjectID t = pid \<and> ta_CreatedBy t = by
       \<and> ta_CreatedAt t = now \<and> ta_UpdatedAt t = now"
  by (auto simp: seal_revision_Ok)

text \<open>
  A task that \<open>NewTask\<close> returns is valid: it is planned, unsealed, at revision 1, carries the
  given identity and authorship, and its stored hash is the hash of its content.
\<close>

theorem new_task_valid:
  assumes "NewTask pid tid draft by now = Ok t"
  shows "ValidateTaskAuthoring t = None \<and> ta_Status t = Planned \<and> ta_Revision t = 1 \<and> ta_ReadySeal t = None
     \<and> ta_ID t = tid \<and> ta_ProjectID t = pid \<and> ta_CreatedBy t = by
     \<and> ta_CreatedAt t = to_utc now \<and> ta_UpdatedAt t = to_utc now
     \<and> HashTaskAuthoring t = Ok (ta_RevisionSHA256 t)"
  using assms draft_task_sealed by (auto simp: NewTask_Ok valid_task_iff)

lemma NewTask_exists_iff:
  "(\<exists>t. NewTask pid tid draft by now = Ok t) \<longleftrightarrow>
     ValidateProjectIdentifier pid = None \<and> ValidateCanonicalTaskID tid = None
       \<and> by \<noteq> '''' \<and> \<not> ContainsAny by nul_cr_lf \<and> \<not> IsZero now \<and> (\<exists>j. json_time (to_utc now) = Ok j)
       \<and> (\<exists>d. normalized_draft draft = Ok d
            \<and> content_ok (draft_task d (ad_Type d) pid tid '''' by (to_utc now)))"
  (is "?l = ?r")
proof
  assume ?l
  then obtain t d where d: "normalized_draft draft = Ok d"
    and ids: "ValidateProjectIdentifier pid = None" "ValidateCanonicalTaskID tid = None" "by \<noteq> ''''"
      "\<not> ContainsAny by nul_cr_lf"
    and t: "seal_revision (draft_task d (ad_Type d) pid tid '''' by (to_utc now)) = Ok t"
    by (auto simp: NewTask_Ok)
  obtain h where h: "HashTaskAuthoring (draft_task d (ad_Type d) pid tid '''' by (to_utc now)) = Ok h"
    and th: "t = draft_task d (ad_Type d) pid tid '''' by (to_utc now)\<lparr>ta_RevisionSHA256 := h\<rparr>"
    and v: "ValidateTaskAuthoring t = None"
    using t by (auto simp: seal_revision_Ok)
  have "content_ok (draft_task d (ad_Type d) pid tid '''' by (to_utc now))"
    by (rule content_ok_same [of _ t]) (use v th in \<open>auto simp: valid_task_iff same_content_def\<close>)
  moreover have "\<not> IsZero now" using v th by (simp add: valid_task_iff envelope_ok_def)
  moreover have "\<exists>j. json_time (to_utc now) = Ok j"
    using h HashTaskAuthoring_ok [of "draft_task d (ad_Type d) pid tid '''' by (to_utc now)"] by simp
  ultimately show ?r using d ids by simp
next
  assume ?r
  then obtain d j where d: "normalized_draft draft = Ok d"
    and ids: "ValidateProjectIdentifier pid = None" "ValidateCanonicalTaskID tid = None" "by \<noteq> ''''"
      "\<not> ContainsAny by nul_cr_lf" "\<not> IsZero now" "json_time (to_utc now) = Ok j"
    and c: "content_ok (draft_task d (ad_Type d) pid tid '''' by (to_utc now))"
    by blast
  let ?t = "draft_task d (ad_Type d) pid tid '''' by (to_utc now)"
  have "envelope_ok ?t" using ids by (simp add: envelope_ok_def)
  then obtain h where "seal_revision ?t = Ok (?t\<lparr>ta_RevisionSHA256 := h\<rparr>)"
    using seal_revision_succeeds [OF c] ids(6) by auto
  moreover have "ValidateDraft d = None"
    using ValidateDraft_ok [of d pid tid "''''" "by" "to_utc now"] c normalized_draft_type [OF d] by simp
  ultimately show ?l using d ids by (auto simp: NewTask_Ok)
qed

text \<open>
  C32. \<open>NewTask\<close> succeeds exactly when the identifiers and the author are well formed, the draft
  can be normalised, its content is valid, and the clock is neither zero nor outside of the years
  JSON can write. In particular the draft check it runs first rejects nothing more.
\<close>

theorem new_task_succeeds_iff:
  "(\<exists>t. NewTask pid tid draft by now = Ok t) \<longleftrightarrow>
     ValidateProjectIdentifier pid = None \<and> ValidateCanonicalTaskID tid = None
       \<and> by \<noteq> '''' \<and> \<not> ContainsAny by nul_cr_lf \<and> \<not> IsZero now \<and> (\<exists>j. json_time (to_utc now) = Ok j)
       \<and> (\<exists>d. normalized_draft draft = Ok d
            \<and> content_ok (draft_task d (ad_Type d) pid tid '''' by (to_utc now)))"
  by (rule NewTask_exists_iff)

lemma sample_created: "\<exists>t. NewTask ''example'' ''AAA-TSK1'' sample_draft ''ana'' noon = Ok t"
  using sample_content [OF P1_priority(1)] sample_draft_normalized noon_json sample_author
    sample_project_id sample_task_id
  by (simp add: NewTask_exists_iff)

theorem new_task_valid_witness:
  "\<exists>t. NewTask ''example'' ''AAA-TSK1'' sample_draft ''ana'' noon = Ok t
     \<and> ValidateTaskAuthoring t = None \<and> ta_Revision t = 1"
  using sample_created new_task_valid [of "''example''" "''AAA-TSK1''" sample_draft "''ana''" noon] by blast

section \<open>Editing\<close>

lemma UpdateTask_Ok:
  "UpdateTask cur p who now = Ok (t, changed) \<longleftrightarrow>
     ValidateTaskAuthoring cur = None \<and> (ta_Status cur = Planned \<or> ta_Status cur = Ready)
       \<and> who \<noteq> '''' \<and> \<not> ContainsAny who nul_cr_lf
       \<and> (\<exists>u. apply_patch p cur = Ok (u, changed)
            \<and> (if changed then ValidateDraft (task_draft u) = None
                  \<and> seal_revision (u\<lparr>ta_Revision := wrap_int (ta_Revision u + 1), ta_RevisionSHA256 := '''',
                       ta_Status := Planned, ta_ReadySeal := None, ta_UpdatedAt := to_utc now\<rparr>) = Ok t
                else t = cur))"
  by (cases "apply_patch p cur") (auto simp: UpdateTask_def split: prod.splits)

text \<open>
  C30. A successful edit either changes nothing and returns the task as it was, or produces a
  valid, planned and unsealed task at exactly the next revision, with the identity, the author and
  the creation time of the old one: an edit of a sealed task always unseals it. Revisions are Go
  \<open>int\<close>s; the increment cannot wrap around in an accepted task.
\<close>

theorem update_task_step:
  assumes "UpdateTask cur patch who now = Ok (t, changed)"
    and "wrap_int (ta_Revision cur) = ta_Revision cur"
  shows "if changed
     then ValidateTaskAuthoring t = None \<and> ta_Status t = Planned \<and> ta_ReadySeal t = None
       \<and> ta_Revision t = ta_Revision cur + 1
       \<and> ta_ID t = ta_ID cur \<and> ta_ProjectID t = ta_ProjectID cur \<and> ta_CreatedBy t = ta_CreatedBy cur
       \<and> ta_CreatedAt t = ta_CreatedAt cur \<and> ta_UpdatedAt t = to_utc now
     else t = cur"
proof (cases changed)
  case True
  then obtain u where u: "apply_patch patch cur = Ok (u, True)"
    and s: "seal_revision (u\<lparr>ta_Revision := wrap_int (ta_Revision u + 1), ta_RevisionSHA256 := '''',
       ta_Status := Planned, ta_ReadySeal := None, ta_UpdatedAt := to_utc now\<rparr>) = Ok t"
    using assms(1) by (auto simp: UpdateTask_Ok)
  have e: "envelope u = envelope cur" by (rule apply_patch_envelope [OF u])
  have v: "ValidateTaskAuthoring t = None" and r: "ta_Revision t = wrap_int (ta_Revision cur + 1)"
    using s e by (auto simp: seal_revision_Ok envelope_def)
  have "ta_Revision t = ta_Revision cur + 1"
    using v r wrap_int_succ [OF assms(2)] by (simp add: valid_task_iff envelope_ok_def)
  then show ?thesis using True v s e by (auto simp: seal_revision_Ok envelope_def)
qed (use assms(1) in \<open>auto simp: UpdateTask_Ok\<close>)

text \<open>When an edit goes through, in terms of the patched task alone.\<close>

lemma UpdateTask_changes:
  assumes cur: "ValidateTaskAuthoring cur = None" "ta_Status cur = Planned \<or> ta_Status cur = Ready"
    and who: "who \<noteq> ''''" "\<not> ContainsAny who nul_cr_lf" and now: "\<not> IsZero now"
    and rv: "wrap_int (ta_Revision cur + 1) = ta_Revision cur + 1"
    and u: "apply_patch p cur = Ok (u, True)" "ta_Type u \<noteq> ''''"
    and c: "content_ok (u\<lparr>ta_Status := Planned\<rparr>)"
  shows "\<exists>h. UpdateTask cur p who now
     = Ok (u\<lparr>ta_Revision := ta_Revision cur + 1, ta_Status := Planned, ta_ReadySeal := None,
            ta_UpdatedAt := to_utc now, ta_RevisionSHA256 := h\<rparr>, True)"
proof -
  have e: "envelope u = envelope cur" by (rule apply_patch_envelope [OF u(1)])
  let ?t = "u\<lparr>ta_Revision := wrap_int (ta_Revision u + 1), ta_RevisionSHA256 := '''',
       ta_Status := Planned, ta_ReadySeal := None, ta_UpdatedAt := to_utc now\<rparr>"
  have c': "content_ok ?t" by (rule content_ok_same [OF _ _ c]) (simp_all add: same_content_def)
  have "content_ok (draft_task (task_draft u) (DefaultTaskType (ad_Type (task_draft u))) [] [] [] [] noon)"
    by (rule content_ok_same [OF _ _ c])
      (simp_all add: same_content_def draft_task_def task_draft_def DefaultTaskType_def u(2))
  then have "ValidateDraft (task_draft u) = None" by (rule ValidateDraft_ok)
  moreover have "envelope_ok ?t"
    using cur e rv now by (simp add: valid_task_iff envelope_ok_def envelope_def)
  moreover obtain j where "json_time (to_utc (ta_CreatedAt ?t)) = Ok j"
    using cur e HashTaskAuthoring_ok [of cur] by (auto simp: valid_task_iff envelope_def)
  ultimately obtain h where "seal_revision ?t = Ok (?t\<lparr>ta_RevisionSHA256 := h\<rparr>)"
    using seal_revision_succeeds [OF c'] by auto
  then show ?thesis
    using cur who u(1) \<open>ValidateDraft (task_draft u) = None\<close> rv e
    by (auto simp: UpdateTask_Ok envelope_def)
qed

definition title_patch :: "string \<Rightarrow> AuthoringPatch" where
  "title_patch title =
     \<lparr>ap_Type = None, ap_Execution = None, ap_Scope = None, ap_Title = Some title, ap_Summary = None,
      ap_Objective = None, ap_AcceptanceCriteria = None, ap_Constraints = None, ap_Priority = None,
      ap_Dependencies = None, ap_PreparationReferences = None, ap_Metadata = None, ap_ADRRelation = None,
      ap_ADRReferences = None\<rparr>"

definition empty_constraints_patch :: AuthoringPatch where
  "empty_constraints_patch = (title_patch [])\<lparr>ap_Title := None, ap_Constraints := Some (Some [])\<rparr>"

lemma title_patch_applied:
  "ta_Type cur = ''task'' \<Longrightarrow> ta_Title cur \<noteq> title
     \<Longrightarrow> apply_patch (title_patch title) cur = Ok (cur\<lparr>ta_Title := title\<rparr>, True)"
  by (simp add: apply_patch_def title_patch_def patch_normalized_def patch_plain_def patch_field_def
      DefaultTaskType_def)

text \<open>The sample task, whatever its symbolic hash is.\<close>

lemma sample_task_facts:
  assumes "NewTask ''example'' ''AAA-TSK1'' sample_draft ''ana'' noon = Ok t"
  shows "\<exists>h. t = draft_task sample_normalized ''task'' ''example'' ''AAA-TSK1'' h ''ana'' noon
     \<and> ValidateTaskAuthoring t = None"
  using assms sample_draft_normalized
  by (auto simp: NewTask_Ok seal_revision_Ok draft_task_def sample_draft_def)

theorem update_task_step_witness:
  "\<exists>cur t. UpdateTask cur (title_patch ''Better'') ''ana'' noon = Ok (t, True)
     \<and> ta_Revision cur = 1 \<and> ta_Revision t = 2 \<and> ValidateTaskAuthoring t = None"
proof -
  obtain cur h where cur: "ValidateTaskAuthoring cur = None"
    "cur = draft_task sample_normalized ''task'' ''example'' ''AAA-TSK1'' h ''ana'' noon"
    using sample_created sample_task_facts by blast
  have f: "ta_Type cur = ''task''" "ta_Title cur = ''Sample''" "ta_Status cur = Planned" "ta_Revision cur = 1"
    by (simp_all add: cur(2) draft_task_def sample_draft_def)
  have u: "apply_patch (title_patch ''Better'') cur = Ok (cur\<lparr>ta_Title := ''Better''\<rparr>, True)"
    by (rule title_patch_applied) (simp_all add: f)
  have c: "content_ok (cur\<lparr>ta_Title := ''Better'', ta_Status := Planned\<rparr>)"
    using sample_content [OF P1_priority(1)]
    by (simp add: cur(2) content_ok_def content_checks_def draft_task_def authoring_entries_def
        check_adr_relation_def check_priority_def rune_count_ascii byte_def)
  have w: "wrap_int (1 :: int) = 1" "wrap_int (1 + 1 :: int) = 2" by (simp_all add: wrap_int_def)
  obtain t where t: "UpdateTask cur (title_patch ''Better'') ''ana'' noon = Ok (t, True)"
    using UpdateTask_changes [OF cur(1) _ sample_author(1,2) noon_simps(1) _ u _ c] f w by auto
  moreover have "ta_Revision t = 2" "ValidateTaskAuthoring t = None"
    using update_task_step [OF t] f w by simp_all
  ultimately show ?thesis using f by blast
qed

text \<open>
  C33. An empty, non-nil list in a patch counts as a change against a nil list, although the copy
  stored is nil again: the edit yields the next revision of a task whose content is the same
  in every field. The comment of \<open>UpdateTask\<close> promises the original task and \<open>false\<close> here.
\<close>

theorem empty_list_patch_bumps_revision:
  assumes "ValidateTaskAuthoring cur = None" and "ta_Status cur = Planned" and "ta_Type cur \<noteq> ''''"
    and "ta_Constraints cur = None" and "ta_Revision cur < 9223372036854775807"
    and "who \<noteq> ''''" and "\<not> ContainsAny who nul_cr_lf" and "\<not> IsZero now"
  shows "\<exists>t. UpdateTask cur empty_constraints_patch who now = Ok (t, True)
     \<and> ta_Revision t = ta_Revision cur + 1 \<and> task_draft t = task_draft cur"
proof -
  have ty: "DefaultTaskType (ta_Type cur) = ta_Type cur" using assms(3) by (simp add: DefaultTaskType_def)
  have u: "apply_patch empty_constraints_patch cur = Ok (cur\<lparr>ta_Constraints := None\<rparr>, True)"
    using assms(4) ty by (simp add: apply_patch_def empty_constraints_patch_def title_patch_def
        patch_normalized_def patch_plain_def patch_field_def cloneStrings_def)
  have same: "cur\<lparr>ta_Constraints := None\<rparr> = cur" "cur\<lparr>ta_Status := Planned\<rparr> = cur"
    using assms(2,4) by simp_all
  have "1 \<le> ta_Revision cur" using assms(1) by (simp add: valid_task_iff envelope_ok_def)
  then have w: "wrap_int (ta_Revision cur + 1) = ta_Revision cur + 1"
    using assms(5) by (intro wrap_int_id) linarith+
  have c: "content_ok (cur\<lparr>ta_Status := Planned\<rparr>)"
    using assms(1) by (simp only: same valid_task_iff)
  obtain h where "UpdateTask cur empty_constraints_patch who now
     = Ok (cur\<lparr>ta_Revision := ta_Revision cur + 1, ta_Status := Planned, ta_ReadySeal := None,
            ta_UpdatedAt := to_utc now, ta_RevisionSHA256 := h\<rparr>, True)"
    using UpdateTask_changes [OF assms(1) _ assms(6,7,8) w u [unfolded same] assms(3) c] assms(2) by blast
  then show ?thesis by (intro exI conjI) (assumption, simp_all add: task_draft_def)
qed

theorem empty_list_patch_bumps_revision_witness:
  "\<exists>cur t. UpdateTask cur empty_constraints_patch ''ana'' noon = Ok (t, True)
     \<and> ta_Revision cur = 1 \<and> ta_Revision t = 2 \<and> task_draft t = task_draft cur"
proof -
  obtain cur h where cur: "ValidateTaskAuthoring cur = None"
    "cur = draft_task sample_normalized ''task'' ''example'' ''AAA-TSK1'' h ''ana'' noon"
    using sample_created sample_task_facts by blast
  have f: "ta_Status cur = Planned" "ta_Type cur \<noteq> ''''" "ta_Constraints cur = None" "ta_Revision cur = 1"
    by (simp_all add: cur(2) draft_task_def sample_draft_def cloneStrings_def)
  have "ta_Revision cur < 9223372036854775807" by (simp add: f(4))
  from empty_list_patch_bumps_revision [OF cur(1) f(1,2,3) this sample_author(1,2) noon_simps(1)] f(4)
  show ?thesis by force
qed

section \<open>Sealing\<close>

lemma ReadyTask_Ok:
  "ReadyTask cur who at = Ok t \<longleftrightarrow>
     ValidateTaskAuthoring cur = None \<and> TrimSpace who \<noteq> '''' \<and> \<not> ContainsAny who nul_cr_lf
       \<and> ValidateTaskPriority (ta_Priority cur) True = None
       \<and> (if ta_Status cur = Ready then t = cur
           else t = cur\<lparr>ta_Status := Ready,
                  ta_ReadySeal := Some \<lparr>rs_Revision = ta_Revision cur, rs_RevisionSHA256 = ta_RevisionSHA256 cur,
                    rs_ReadyBy = who, rs_ReadyAt = to_utc at\<rparr>, ta_UpdatedAt := to_utc at\<rparr>
             \<and> ValidateTaskAuthoring t = None)"
  by (auto simp: ReadyTask_def Let_def)

lemma ReadyTask_executable:
  assumes "ReadyTask cur who at = Ok t"
  shows "ValidateExecutionTask t = None"
proof -
  have v: "ValidateTaskAuthoring t = None" and s: "ta_Status t = Ready"
    using assms by (auto simp: ReadyTask_Ok split: if_splits)
  then show ?thesis
    by (auto simp: ValidateExecutionTask_def valid_task_iff check_seal_def split: option.splits)
qed

text \<open>
  C31. Sealing a task yields a task that the dispatch boundary accepts, seals the current revision
  (same revision, same hash, same content), and is idempotent: sealing the result again, by anyone
  and at any time, returns it with its first seal.
\<close>

theorem ready_task_seals:
  assumes "ReadyTask cur who at = Ok t"
  shows "ValidateExecutionTask t = None \<and> ta_Revision t = ta_Revision cur
     \<and> ta_RevisionSHA256 t = ta_RevisionSHA256 cur \<and> task_draft t = task_draft cur
     \<and> (TrimSpace who2 \<noteq> '''' \<and> \<not> ContainsAny who2 nul_cr_lf \<longrightarrow> ReadyTask t who2 at2 = Ok t)"
proof -
  have p: "ta_Status t = Ready" "ValidateTaskAuthoring t = None"
    "ValidateTaskPriority (ta_Priority t) True = None" "task_draft t = task_draft cur"
    "ta_Revision t = ta_Revision cur" "ta_RevisionSHA256 t = ta_RevisionSHA256 cur"
    using assms by (auto simp: ReadyTask_Ok task_draft_def split: if_splits)
  then show ?thesis using ReadyTask_executable [OF assms] by (simp add: ReadyTask_Ok)
qed

text \<open>When a planned task can be sealed.\<close>

lemma ReadyTask_planned:
  assumes "ValidateTaskAuthoring cur = None" "ta_Status cur = Planned" "TrimSpace who \<noteq> ''''"
    and "\<not> ContainsAny who nul_cr_lf" "ta_Priority cur \<in> set TaskPriorities" "\<not> IsZero at"
  shows "\<exists>t. ReadyTask cur who at = Ok t"
proof -
  let ?t = "cur\<lparr>ta_Status := Ready,
     ta_ReadySeal := Some \<lparr>rs_Revision = ta_Revision cur, rs_RevisionSHA256 = ta_RevisionSHA256 cur,
       rs_ReadyBy = who, rs_ReadyAt = to_utc at\<rparr>, ta_UpdatedAt := to_utc at\<rparr>"
  have "who \<noteq> ''''" using assms(3) by auto
  have "content_ok ?t"
    by (rule content_ok_ready [of cur]) (use assms in \<open>simp_all add: valid_task_iff same_content_def
        ValidateTaskPriority_None\<close>)
  then have "ValidateTaskAuthoring ?t = None"
    using assms \<open>who \<noteq> ''''\<close> by (simp add: valid_task_iff envelope_ok_def check_seal_def)
  then show ?thesis using assms by (simp add: ReadyTask_Ok ValidateTaskPriority_None)
qed

theorem ready_task_seals_witness:
  "\<exists>cur t. ReadyTask cur ''ana'' noon = Ok t \<and> ta_Status cur = Planned \<and> ValidateExecutionTask t = None"
proof -
  obtain cur h where cur: "ValidateTaskAuthoring cur = None"
    "cur = draft_task sample_normalized ''task'' ''example'' ''AAA-TSK1'' h ''ana'' noon"
    using sample_created sample_task_facts by blast
  have f: "ta_Status cur = Planned" "ta_Priority cur \<in> set TaskPriorities"
    by (simp_all add: cur(2) draft_task_def sample_draft_def TaskPriorities_def)
  obtain t where t: "ReadyTask cur ''ana'' noon = Ok t"
    using ReadyTask_planned [OF cur(1) f(1) sample_author(3,2) f(2) noon_simps(1)] by blast
  then show ?thesis using ready_task_seals [OF t] f by blast
qed

text \<open>
  In a valid task the seal and the status agree: a task carries a seal exactly when it is
  ready, and then the seal names the task's own revision and hash; its stored hash is always that
  of its content.
\<close>

theorem valid_task_seal:
  assumes "ValidateTaskAuthoring t = None"
  shows "(ta_ReadySeal t \<noteq> None \<longleftrightarrow> ta_Status t = Ready)
     \<and> (\<forall>s. ta_ReadySeal t = Some s \<longrightarrow>
          rs_Revision s = ta_Revision t \<and> HashTaskAuthoring t = Ok (rs_RevisionSHA256 s))
     \<and> HashTaskAuthoring t = Ok (ta_RevisionSHA256 t)"
  using assms by (auto simp: valid_task_iff check_seal_def split: if_splits option.splits)

theorem valid_task_seal_witness:
  "\<exists>t. ta_Status t = Planned \<and> ta_ReadySeal t = None \<and> HashTaskAuthoring t = Ok (ta_RevisionSHA256 t)"
proof -
  obtain cur h where cur: "ValidateTaskAuthoring cur = None"
    "cur = draft_task sample_normalized ''task'' ''example'' ''AAA-TSK1'' h ''ana'' noon"
    using sample_created sample_task_facts by blast
  have "ta_Status cur = Planned" "ta_ReadySeal cur = None" by (simp_all add: cur(2))
  then show ?thesis using valid_task_seal [OF cur(1)] by blast
qed

section \<open>Drafts\<close>

text \<open>
  C34. \<open>ValidateDraft\<close> recognises its own placeholder hash by a substring of the error text, and
  so accepts any draft whose first error quotes that text: a draft with the task type
  \<open>revision hash mismatch\<close> passes, while \<open>NewTask\<close> rejects the type.
\<close>

theorem draft_error_swallowed:
  "ValidateDraft (sample_draft\<lparr>ad_Type := ''revision hash mismatch''\<rparr>) = None
     \<and> (\<nexists>t. NewTask ''example'' ''AAA-TSK1'' (sample_draft\<lparr>ad_Type := ''revision hash mismatch''\<rparr>) ''ana'' noon = Ok t)"
proof -
  let ?bad = "''revision hash mismatch''"
  have q: "go_quote ?bad = quote_mark # ?bad @ [quote_mark]"
    by (rule go_quote_plain) (simp add: byte_def)
  have n: "NormalizeTaskType ?bad = Err (''invalid task type '' @ go_quote ?bad)"
    by (simp add: NormalizeTaskType_def TaskTypes_def)
  have "ValidateTaskAuthoring (draft_task (sample_draft\<lparr>ad_Type := ?bad\<rparr>) ?bad ''example'' ''AAA-TSK1'' sha who now)
      = Some (''invalid task type '' @ go_quote ?bad)" for sha who now
    using sample_task_id sample_project_id
    by (simp add: ValidateTaskAuthoring_def validateTaskAuthoring_def content_checks_def draft_task_def n
        sample_draft_def rune_count_ascii byte_def IsSpace_def)
  moreover have "Contains (''invalid task type '' @ go_quote ?bad) ?bad"
    unfolding Contains_iff q by (rule exI [of _ "''invalid task type '' @ [quote_mark]"]) simp
  ultimately have "ValidateDraft (sample_draft\<lparr>ad_Type := ?bad\<rparr>) = None"
    by (simp add: ValidateDraft_def DefaultTaskType_def)
  moreover have "normalized_draft (sample_draft\<lparr>ad_Type := ?bad\<rparr>) = Err (''invalid task type '' @ go_quote ?bad)"
    by (simp add: normalized_draft_def n)
  ultimately show ?thesis by (simp add: NewTask_Ok)
qed

end
