(* ===== verification/Shared_Replay_Properties.thy ===== *)
theory Shared_Replay_Properties
  imports Shared_Create_Properties Task_Authoring_Properties
begin

text \<open>
  What a second run of an operation does: a replayed mutation returns the receipt of the first
  run and changes nothing; a replayed terminal transition is rejected before its outbox entry is
  looked at; an edit of a sealed task, which the task model allows, never commits.
\<close>

section \<open>Replays of mutations\<close>

lemma mutation_fresh:
  assumes dv: "atomic_driver dv" "\<And>k db. follows db (dv_others dv k db)"
    and ok: "CommitSharedMutation dv m (k, db) = (Inr rc, k', db')" and fresh: "\<not> rc_Reused rc"
    and plain: "mu_EntityType m \<noteq> ''project_configuration''"
  obtains table mid where "map_of sharedEntityTables (mu_EntityType m) = Some table"
    "mu_OperationID m \<noteq> ''''" "mu_EntityID m \<noteq> ''''" "mu_Kind m \<noteq> ''''" "valid_cas_step m" "mu_Payload m \<noteq> ''''"
    "follows db mid" "rc = new_receipt (mu_OperationID m) (mu_EntityType m) (mu_EntityID m) (mu_Revision m)"
    "run_statements (mutation_statements table m (stamp dv (mu_CreatedAt m))) mid = Inr db'"
proof -
  have no_reuse: "io_result (reuseSharedMutation m e) s \<noteq> (Inr rc, s')" for e s s'
    using fresh reuse_is_reused by (auto simp: io_result_Inr)
  from ok plain obtain table where t: "map_of sharedEntityTables (mu_EntityType m) = Some table"
      "mu_OperationID m \<noteq> ''''" "mu_EntityID m \<noteq> ''''" "mu_Kind m \<noteq> ''''" "valid_cas_step m" "mu_Payload m \<noteq> ''''"
    and run: "io_bind (outboxEntry dv (mu_OperationID m)) (\<lambda>existing.
              case existing of
                Some entry \<Rightarrow> io_result (reuseSharedMutation m entry)
              | None \<Rightarrow> commit_or_reuse dv (mu_OperationID m)
                  (mutation_statements table m (stamp dv (mu_CreatedAt m)))
                  (io_return (new_receipt (mu_OperationID m) (mu_EntityType m) (mu_EntityID m) (mu_Revision m)))
                  (\<lambda>entry. io_result (reuseSharedMutation m entry))) (k, db) = (Inr rc, k', db')"
    unfolding CommitSharedMutation_def
    by (auto simp: io_simps io_bind_Inr split: option.splits if_splits)
  from run no_reuse have "commit_or_reuse dv (mu_OperationID m)
                  (mutation_statements table m (stamp dv (mu_CreatedAt m)))
                  (io_return (new_receipt (mu_OperationID m) (mu_EntityType m) (mu_EntityID m) (mu_Revision m)))
                  (\<lambda>entry. io_result (reuseSharedMutation m entry)) (Suc k, dv_others dv k db) = (Inr rc, k', db')"
    by (auto simp: io_bind_Inr outboxEntry_def io_query_Inr split: option.splits)
  from commit_fresh [OF dv(1) this] no_reuse have
    "rc = new_receipt (mu_OperationID m) (mu_EntityType m) (mu_EntityID m) (mu_Revision m)"
    "run_statements (mutation_statements table m (stamp dv (mu_CreatedAt m))) (dv_others dv (Suc k) (dv_others dv k db)) = Inr db'"
    by auto
  moreover have "follows db (dv_others dv (Suc k) (dv_others dv k db))" using dv(2) follows_trans by blast
  ultimately show ?thesis using t by (intro that [of table "dv_others dv (Suc k) (dv_others dv k db)"])
qed

lemma outbox_follows:
  assumes "follows a b" "wf_store b" "o' \<in> set (sd_outbox a)"
  shows "\<exists>p. outbox_at b (or_id o') = Some p \<and> outbox_identity p = outbox_identity o'"
proof -
  obtain zs where "map outbox_identity (sd_outbox b) = map outbox_identity (sd_outbox a) @ zs"
    using assms(1) by (auto simp: follows_def grows_def extends_list_def)
  moreover have "outbox_identity o' \<in> set (map outbox_identity (sd_outbox a))" using assms(3) by simp
  ultimately have "outbox_identity o' \<in> set (map outbox_identity (sd_outbox b))" by simp
  then obtain p where p: "p \<in> set (sd_outbox b)" "outbox_identity p = outbox_identity o'" by auto
  then have "or_id p = or_id o'" by (simp add: outbox_identity_def)
  moreover have "outbox_at b (or_id p) = Some p"
    unfolding outbox_at_def using find_unique [of or_id "sd_outbox b" p] p(1) assms(2) by (simp add: wf_store_def)
  ultimately show ?thesis using p(2) by auto
qed

lemma mutation_outbox:
  assumes "run_statements (mutation_statements table m rec) mid = Inr db'" "mu_EntityType m \<noteq> ''project_configuration''"
  shows "outbox_intent (mu_OperationID m) (mu_EntityType m) (mu_EntityID m) (mu_Revision m) (mu_Kind m) (mu_Payload m) rec
     \<in> set (sd_outbox db')"
proof -
  from assms obtain m1 where "insert_outbox (outbox_intent (mu_OperationID m) (mu_EntityType m) (mu_EntityID m)
      (mu_Revision m) (mu_Kind m) (mu_Payload m) rec) m1 = Some (db', 1)"
    by (auto simp: mutation_statements_def Let_def run_statements_Cons)
  from insert_outbox_exact(3) [OF this] show ?thesis by simp
qed



section \<open>Rejections\<close>

lemma check_fails: "e \<noteq> None \<Longrightarrow> \<exists>x. fst (io_check e m s) = Inl x"
  by (cases e) (auto simp: io_check_def io_fail_def)

text \<open>A revision whose policies fail on the row it reads is rejected, whatever the outbox holds.\<close>

lemma revision_rejected:
  assumes "sharedLifecycle (lr_EntityType rq) = Some d"
    and "entity_row (dv_others dv k db) (ld_StateTable d) (lr_EntityID rq) = Some row"
    and "validateSharedLifecycleStatus d (se_Payload row) (lr_Payload rq) False \<noteq> None
      \<or> validateMilestoneMutation d (se_Payload row) (lr_Payload rq) (lr_Kind rq) (history_kind rq) \<noteq> None"
  shows "\<exists>e. fst (CommitSharedLifecycleRevision dv rq (k, db)) = Inl e"
proof (cases "ld_HistoryTable d = '''' \<or> \<not> dv_Shared dv \<or> \<not> valid_revision_request rq
    \<or> sharedPayloadLogicalRevision (lr_Payload rq) \<noteq> Some (lr_Revision rq) \<or> dv_fault dv k \<noteq> None")
  case True
  then show ?thesis
    by (auto simp: CommitSharedLifecycleRevision_def assms(1) io_error_def io_fail_def io_bind_def io_try_def io_query_def
        Let_def split: option.splits)
next
  case False
  define body where "body = (\<lambda>row :: SharedEntity. io_check (validateSharedLifecycleStatus d (se_Payload row) (lr_Payload rq) False)
      (io_check (validateMilestoneMutation d (se_Payload row) (lr_Payload rq) (lr_Kind rq) (history_kind rq))
      (io_bind (outboxEntry dv (lr_OperationID rq)) (\<lambda>existing.
         case existing of
           Some entry \<Rightarrow> reuse_revised rq entry
         | None \<Rightarrow>
             if (case lr_PreviousHistory rq of None \<Rightarrow> False | Some seed \<Rightarrow> \<not> valid_seed rq seed)
             then io_error (''invalid shared '' @ lr_EntityType rq @ '' history seed'')
             else commit_or_reuse dv (lr_OperationID rq)
               (revision_statements dv d rq (stamp dv (lr_CreatedAt rq)))
               (io_return (new_receipt (lr_OperationID rq) (lr_EntityType rq) (lr_EntityID rq) (lr_Revision rq)))
               (reuse_revised rq)))))"
  have "CommitSharedLifecycleRevision dv rq (k, db) = body row (Suc k, dv_others dv k db)"
    using False by (simp add: CommitSharedLifecycleRevision_def assms(1,2) io_bind_def [of "io_try _"] io_try_def io_query_def
        Let_def body_def)
  moreover have "\<exists>e. fst (body row s) = Inl e" for s
    using assms(3) check_fails unfolding body_def by (cases "validateSharedLifecycleStatus d (se_Payload row) (lr_Payload rq) False")
      (auto simp: io_check_def io_fail_def)
  ultimately show ?thesis by simp
qed

lemma update_task_planned: "UpdateTask cur patch who now = Ok (t, True) \<Longrightarrow> ta_Status t = Planned"
  by (auto simp: UpdateTask_Ok seal_revision_Ok)

text \<open>
  A sealed task cannot be edited, although the task model allows it: \<open>UpdateTask\<close> accepts a
  ready task and returns a planned revision of it, but a commit of that revision over the
  ready row fails for every driver, because the registry has no step from ready to planned.
\<close>

theorem ready_task_edit_rejected:
  assumes "UpdateTask cur patch who now = Ok (t, True)"
    and "ta_Status cur = Ready" and "lr_EntityType rq = ''task''"
    and "entity_row (dv_others dv k db) ''shared_tasks'' (lr_EntityID rq) = Some row"
    and "decode_status (se_Payload row) = Some (ta_Status cur)" and "decode_status (lr_Payload rq) = Some (ta_Status t)"
  shows "\<exists>e. fst (CommitSharedLifecycleRevision dv rq (k, db)) = Inl e"
proof (rule task_definition)
  fix d assume d: "sharedLifecycle ''task'' = Some d" "ld_DefaultCreateStatus d = ''planned''" "ld_StateTable d = ''shared_tasks''"
  have status: "ta_Status t = Planned" using update_task_planned [OF assms(1)] .
  have "validateSharedLifecycleStatus d (se_Payload row) (lr_Payload rq) False \<noteq> None"
  proof
    assume ok: "validateSharedLifecycleStatus d (se_Payload row) (lr_Payload rq) False = None"
    have "ld_DefaultCreateStatus d \<noteq> ''''" by (simp add: d)
    from d(1) this ok obtain p n where pn: "decode_status (se_Payload row) = Some p" "decode_status (lr_Payload rq) = Some n"
      "p = n \<or> lifecycle_step ''task'' p n" by (rule status_policy_update)
    then have "p = ta_Status cur" "n = ta_Status t" using assms(5,6) by simp_all
    with pn(3) have "ta_Status cur = ta_Status t \<or> lifecycle_step ''task'' (ta_Status cur) (ta_Status t)" by simp
    then show False by (simp add: assms(2) status lifecycle_step_edges lifecycle_edges_simps)
  qed
  then show ?thesis using revision_rejected [of rq d dv k db row] assms(3,4) d by simp
qed

lemma sample_ready_edit:
  "\<exists>cur t. UpdateTask cur (title_patch ''Better'') ''ana'' noon = Ok (t, True) \<and> ta_Status cur = Ready"
proof -
  obtain cur h where cur: "ValidateTaskAuthoring cur = None"
    "cur = draft_task sample_normalized ''task'' ''example'' ''AAA-TSK1'' h ''ana'' noon"
    using sample_created sample_task_facts by blast
  have f: "ta_Status cur = Planned" "ta_Priority cur \<in> set TaskPriorities" "ta_Type cur = ''task''" "ta_Title cur = ''Sample''"
    "ta_Revision cur = 1"
    by (simp_all add: cur(2) draft_task_def sample_draft_def TaskPriorities_def)
  obtain r where r: "ReadyTask cur ''ana'' noon = Ok r"
    using ReadyTask_planned [OF cur(1) f(1) sample_author(3,2) f(2) noon_simps(1)] by blast
  have "f1 = Ready" if "f1 = ta_Status r" for f1 using r f(1) that by (auto simp: ReadyTask_def Let_def)
  then have ready: "ta_Status r = Ready" by simp
  have same: "same_content (r\<lparr>ta_Title := ''Better'', ta_Status := Planned\<rparr>) (cur\<lparr>ta_Title := ''Better'', ta_Status := Planned\<rparr>)"
    and fields: "ta_Type r = ta_Type cur" "ta_Title r = ta_Title cur" "ta_Revision r = ta_Revision cur" "ValidateTaskAuthoring r = None"
    using r f(1) by (auto simp: ReadyTask_def Let_def same_content_def)
  have u: "apply_patch (title_patch ''Better'') r = Ok (r\<lparr>ta_Title := ''Better''\<rparr>, True)"
    by (rule title_patch_applied) (simp_all add: f fields)
  have "content_ok (cur\<lparr>ta_Title := ''Better'', ta_Status := Planned\<rparr>)"
    using sample_content [OF P1_priority(1)]
    by (simp add: cur(2) content_ok_def content_checks_def draft_task_def authoring_entries_def
        check_adr_relation_def check_priority_def rune_count_ascii byte_def)
  then have c: "content_ok (r\<lparr>ta_Title := ''Better'', ta_Status := Planned\<rparr>)"
    by (intro content_ok_same [OF same]) simp_all
  have "wrap_int (1 + 1 :: int) = 1 + 1" by (simp add: wrap_int_def)
  then have "\<exists>t. UpdateTask r (title_patch ''Better'') ''ana'' noon = Ok (t, True)"
    using UpdateTask_changes [OF fields(4) _ sample_author(1,2) noon_simps(1) _ u _ c] f ready fields by auto
  then show ?thesis using ready by blast
qed

theorem ready_task_edit_rejected_witness:
  "\<exists>e. fst (CommitSharedLifecycleRevision (sqlite ''t'') edit_request (0, sealed_db)) = Inl e"
proof -
  obtain cur t where t: "UpdateTask cur (title_patch ''Better'') ''ana'' noon = Ok (t, True)" "ta_Status cur = Ready"
    using sample_ready_edit by blast
  have rq: "lr_EntityType edit_request = ''task''" "lr_EntityID edit_request = ''AAA-TSK1''"
    "decode_status (lr_Payload edit_request) = Some (ta_Status t)"
    by (simp_all add: edit_request_def update_task_planned [OF t(1)] sample_status plain_names)
  have row: "entity_row sealed_db ''shared_tasks'' ''AAA-TSK1'' = Some sealed_row"
    "decode_status (se_Payload sealed_row) = Some (ta_Status cur)"
    by (simp_all add: sealed_db_def entity_row_def sealed_row_def t(2) sample_status plain_names)
  show ?thesis
    by (rule ready_task_edit_rejected [OF t rq(1) _ row(2) rq(3)]) (simp add: rq row)
qed

lemma registry_type: "sharedLifecycle et = Some d \<Longrightarrow> ld_EntityType d = et"
proof -
  have "list_all (\<lambda>(k, d). ld_EntityType d = k) sharedLifecycleRegistry" by (simp add: sharedLifecycleRegistry_def)
  then show "sharedLifecycle et = Some d \<Longrightarrow> ld_EntityType d = et"
    unfolding lifecycle_in_registry list_all_iff by fastforce
qed

text \<open>
  C12. No receipt without the policies: whether it is fresh or reused, a receipt of a revision means
  that the row read at the start allowed the step, by the registry, by the milestone rules
  and by the track rules. So the replay of a committed terminal step (completing or archiving a
  milestone, accepting or archiving a track) gets an error instead of its receipt, since the row
  it reads is already in the terminal status.
\<close>

theorem revision_respects_policies:
  assumes "CommitSharedLifecycleRevision dv rq (k, db) = (Inr rc, s)"
  shows "\<exists>d row. let p = se_Payload row; q = lr_Payload rq in sharedLifecycle (lr_EntityType rq) = Some d
     \<and> entity_row (dv_others dv k db) (ld_StateTable d) (lr_EntityID rq) = Some row
     \<and> (ld_DefaultCreateStatus d \<noteq> '''' \<longrightarrow> decode_status p = decode_status q
          \<or> lifecycle_step (lr_EntityType rq) (the (decode_status p)) (the (decode_status q)))
     \<and> (lr_EntityType rq = ''milestone'' \<and> decode_status p = decode_status q \<longrightarrow>
          decode_status p \<noteq> Some ''completed'' \<and> decode_status p \<noteq> Some ''archived'')
     \<and> (lr_EntityType rq = ''track'' \<longrightarrow> (\<exists>t u. decode_track p = Some t \<and> decode_track q = Some u
          \<and> track_move (lr_Kind rq) (tk_Status t) (tk_Status u)))"
proof -
  from assms obtain d where d: "sharedLifecycle (lr_EntityType rq) = Some d"
    unfolding CommitSharedLifecycleRevision_def by (auto simp: io_simps split: option.splits)
  from assms obtain row where row: "entity_row (dv_others dv k db) (ld_StateTable d) (lr_EntityID rq) = Some row"
    unfolding CommitSharedLifecycleRevision_def
    by (auto simp: d io_simps io_bind_Inr io_try_Inr io_query_def Let_def split: option.splits if_splits sum.splits)
  have ok: "validateSharedLifecycleStatus d (se_Payload row) (lr_Payload rq) False = None"
    "validateMilestoneMutation d (se_Payload row) (lr_Payload rq) (lr_Kind rq) (history_kind rq) = None"
    using revision_rejected [OF d row] assms by (metis fst_conv sum.simps(4))+
  have type: "ld_EntityType d = lr_EntityType rq" by (rule registry_type [OF d])
  have step: "decode_status (se_Payload row) = decode_status (lr_Payload rq)
      \<or> lifecycle_step (lr_EntityType rq) (the (decode_status (se_Payload row))) (the (decode_status (lr_Payload rq)))"
    if "ld_DefaultCreateStatus d \<noteq> ''''"
    by (rule status_policy_update [OF d that ok(1)]) auto
  have mile: "decode_status (se_Payload row) \<noteq> Some ''completed'' \<and> decode_status (se_Payload row) \<noteq> Some ''archived''"
    if "lr_EntityType rq = ''milestone''" "decode_status (se_Payload row) = decode_status (lr_Payload rq)"
    using ok(2) that by (auto simp: validateMilestoneMutation_def type split: option.splits)
  have track: "\<exists>t u. decode_track (se_Payload row) = Some t \<and> decode_track (lr_Payload rq) = Some u
      \<and> track_move (lr_Kind rq) (tk_Status t) (tk_Status u)" if "lr_EntityType rq = ''track''"
    using ok(2) that track_policy_rule [of "se_Payload row" "lr_Payload rq" "lr_Kind rq"] track_rule_move
    by (auto simp: validateMilestoneMutation_def type)
  show ?thesis unfolding Let_def using d row step mile track by blast
qed

theorem revision_respects_policies_witness: "\<exists>row. entity_row sample_db ''shared_tasks'' ''AAA-TSK1'' = Some row"
proof -
  obtain db' where run: "CommitSharedLifecycleRevision (sqlite ''t'') edit_request (0, sample_db)
       = (Inr (new_receipt ''edit'' ''task'' ''AAA-TSK1'' 2), 3, db')" using edit_commits by blast
  from revision_respects_policies [OF run] obtain d row where "sharedLifecycle ''task'' = Some d"
      "entity_row sample_db (ld_StateTable d) ''AAA-TSK1'' = Some row"
    by (auto simp: Let_def edit_request_def)
  then show ?thesis using task_status_same(3) by auto
qed

end
