(* ===== verification/Execution_Model.thy ===== *)
theory Execution_Model
  imports Lifecycle_Registry
begin

text \<open>
  The execution state of a task, its verification receipt and the phases recorded for it:
  \<open>internal/model/task_execution_state.go\<close>, \<open>internal/model/task_execution_verification.go\<close> and
  the phase record with its validator of \<open>internal/sqlitestore/task_execution_phases.go\<close>.
\<close>

section \<open>The execution state\<close>

record TaskExecutionState =
  xs_TaskID :: string
  xs_ProjectID :: string
  xs_Status :: string
  xs_Stage :: string
  xs_Worktree :: string
  xs_BaseHead :: string
  xs_Head :: string
  xs_Branch :: string
  xs_TaskRevision :: int
  xs_TaskRevisionSHA256 :: string
  xs_Agent :: string
  xs_ExecutionRevision :: int
  xs_UpdatedAt :: gotime

definition validTaskExecutionStatus :: "string \<Rightarrow> bool" where
  "validTaskExecutionStatus value \<longleftrightarrow> List.member
     [''dispatched'', ''in_progress'', ''awaiting_review'', ''changes_requested'', ''ready_for_verification'',
      ''verifying'', ''verified'', ''integrating'', ''integrated'', ''done'', ''blocked'', ''failed'',
      ''resetting'', ''abandoned''] value"

definition IsTaskExecutionTerminal :: "string \<Rightarrow> bool" where
  "IsTaskExecutionTerminal status \<longleftrightarrow> status = ''done'' \<or> status = ''failed'' \<or> status = ''abandoned''"

definition IsTaskExecutionNonTerminal :: "string \<Rightarrow> bool" where
  "IsTaskExecutionNonTerminal status \<longleftrightarrow> status \<noteq> '''' \<and> \<not> IsTaskExecutionTerminal status"

definition execution_stage :: "string \<Rightarrow> bool" where
  "execution_stage stage \<longleftrightarrow> stage = ''code'' \<or> stage = ''tests'' \<or> stage = ''rebase''"

definition IsTaskExecutionAgentActionable :: "string \<Rightarrow> string \<Rightarrow> bool" where
  "IsTaskExecutionAgentActionable status stage \<longleftrightarrow> execution_stage stage
     \<and> (status = ''dispatched'' \<or> status = ''in_progress'' \<or> status = ''changes_requested'')"

definition IsTaskExecutionAgentOwned :: "string \<Rightarrow> bool" where
  "IsTaskExecutionAgentOwned status \<longleftrightarrow> List.member
     [''dispatched'', ''in_progress'', ''awaiting_review'', ''changes_requested'', ''ready_for_verification'',
      ''verifying'', ''verified'', ''integrating'', ''blocked''] status"

definition IsTaskExecutionReworkable :: "string \<Rightarrow> bool" where
  "IsTaskExecutionReworkable status \<longleftrightarrow> List.member
     [''dispatched'', ''in_progress'', ''awaiting_review'', ''changes_requested'', ''ready_for_verification'',
      ''verified'', ''blocked''] status"

text \<open>\<open>strings.ToLower\<close> on the ASCII strings it is applied to.\<close>

definition ascii_lower :: "string \<Rightarrow> string" where
  "ascii_lower s = map (\<lambda>c. if is_upper c then char_of (byte c + 32) else c) s"

definition taskExecutionWorktreePattern :: "piece list" where
  "taskExecutionWorktreePattern =
     rx_lit ''WT-TSK'' @ [Rep is_digit 1 None] @ rx_lit ''-'' @ [times 8 is_hex_lower]"

text \<open>\<open>TaskID[idx+4:]\<close> for the last occurrence of \<open>-TSK\<close>.\<close>

definition task_number :: "string \<Rightarrow> string option" where
  "task_number taskID = map_option (\<lambda>i. drop (i + 4) taskID) (LastIndex taskID ''-TSK'')"

definition ValidateTaskExecutionState :: "TaskExecutionState \<Rightarrow> error" where
  "ValidateTaskExecutionState v = first_error
     [wrap_err ''invalid Task execution project: '' (ValidateProjectIdentifier (xs_ProjectID v)),
      wrap_err ''invalid Task execution Task: '' (ValidateCanonicalTaskID (xs_TaskID v)),
      fail_if (xs_Status v = ''planned'' \<or> \<not> validTaskExecutionStatus (xs_Status v))
        ''invalid persisted Task execution status'',
      fail_if (\<not> execution_stage (xs_Stage v)) ''invalid persisted Task execution stage'',
      wrap_err ''invalid Task execution Agent: '' (ValidateObjectIdentifier (xs_Agent v)),
      fail_if (ValidateCommitSHA (xs_BaseHead v) \<noteq> None \<or> ValidateCommitSHA (xs_Head v) \<noteq> None
          \<or> ValidateSHA256 (xs_TaskRevisionSHA256 v) \<noteq> None) ''invalid Task execution full head authority'',
      fail_if (\<not> rx_seq taskExecutionWorktreePattern (xs_Worktree v)) ''invalid Task execution worktree'',
      fail_if (case task_number (xs_TaskID v) of
                 None \<Rightarrow> True
               | Some n \<Rightarrow> \<not> HasPrefix (xs_Worktree v) (''WT-TSK'' @ n @ ''-''))
        ''Task execution worktree does not match Task'',
      fail_if (length (xs_Head v) \<noteq> 40
          \<or> \<not> HasSuffix (xs_Worktree v) (''-'' @ ascii_lower (take 8 (xs_Head v))))
        ''Task execution worktree does not match current head'',
      fail_if (xs_ExecutionRevision v < 1 \<or> IsZero (xs_UpdatedAt v) \<or> xs_Branch v = '''' \<or> xs_TaskRevision v < 1)
        ''incomplete Task execution state'',
      fail_if (ValidateBranch (xs_Branch v) \<noteq> None
          \<or> \<not> HasPrefix (xs_Branch v) (''task/'' @ xs_TaskID v @ ''-''))
        ''invalid server-derived Task execution branch'']"

section \<open>The verification receipt\<close>

record TaskExecutionVerification =
  xv_ProjectID :: string
  xv_TaskID :: string
  xv_OperationID :: string
  xv_TaskRevisionSHA256 :: string
  xv_BaseHead :: string
  xv_CandidateHead :: string
  xv_CandidateTree :: string
  xv_Branch :: string
  xv_GateProfileSHA256 :: string
  xv_Outcome :: string
  xv_Error :: string
  xv_TaskRevision :: int
  xv_AttemptRevision :: int
  xv_CodeReviewID :: int
  xv_TestsReviewID :: int
  xv_RebaseReviewID :: int
  xv_Gates :: "CompletionGateResult list option"
  xv_StartedAt :: gotime
  xv_CompletedAt :: gotime

definition MaxTaskVerificationProcedureGates :: nat where
  "MaxTaskVerificationProcedureGates = 16"

definition MaxTaskVerificationGateDurationMS :: int where
  "MaxTaskVerificationGateDurationMS = 30 * 60 * 1000"

definition procedureNamePattern :: "piece list" where
  "procedureNamePattern = [times 1 is_lower, Rep (\<lambda>c. is_lower_digit c \<or> c = CHR ''_'') 0 (Some 63)]"

definition ValidateProcedureName :: "string \<Rightarrow> error" where
  "ValidateProcedureName name = fail_if (\<not> rx_seq procedureNamePattern name) ''invalid ProcedureName''"

definition passing_gate :: "TaskExecutionVerification \<Rightarrow> CompletionGateResult \<Rightarrow> bool" where
  "passing_gate v gate \<longleftrightarrow> ValidateProcedureName (cg_ID gate) = None \<and> cg_ExitCode gate = 0
     \<and> cg_Execution gate = ''executed'' \<and> cg_TreeID gate = xv_CandidateTree v
     \<and> cg_ContractDigest gate = xv_GateProfileSHA256 v \<and> ValidateSHA256 (cg_ReceiptDigest gate) = None
     \<and> 0 \<le> cg_DurationMS gate \<and> cg_DurationMS gate \<le> MaxTaskVerificationGateDurationMS"

definition verification_outcome :: "TaskExecutionVerification \<Rightarrow> error" where
  "verification_outcome v =
     (let gates = elems (xv_Gates v) in
      if xv_Outcome v = ''succeeded'' then first_error
        [fail_if (\<not> time_before (xv_StartedAt v) (xv_CompletedAt v))
           ''successful Task verification requires ordered timing'',
         fail_if (xv_Error v \<noteq> '''') ''successful Task verification must not record an error'',
         fail_if (gates = [] \<or> MaxTaskVerificationProcedureGates < length gates)
           ''successful Task verification requires bounded gate evidence'',
         dup_check (\<lambda>g. fail_if (\<not> passing_gate v g)
                       ''successful Task verification requires passing Procedure gate evidence'')
           cg_ID (\<lambda>_. ''duplicate Task verification gate evidence'') [] gates]
      else if xv_Outcome v = ''failed'' \<or> xv_Outcome v = ''interrupted''
      then fail_if (xv_Error v = '''') ''unsuccessful Task verification must record an error''
      else Some ''invalid Task verification outcome'')"

definition ValidateTaskExecutionVerification :: "TaskExecutionVerification \<Rightarrow> error" where
  "ValidateTaskExecutionVerification v = first_error
     [wrap_err ''invalid Task verification project: '' (ValidateProjectIdentifier (xv_ProjectID v)),
      wrap_err ''invalid Task verification Task: '' (ValidateCanonicalTaskID (xv_TaskID v)),
      wrap_err ''invalid Task verification operation: '' (ValidateObjectIdentifier (xv_OperationID v)),
      fail_if (ValidateSHA256 (xv_TaskRevisionSHA256 v) \<noteq> None \<or> ValidateSHA256 (xv_GateProfileSHA256 v) \<noteq> None)
        ''invalid Task verification digest authority'',
      fail_if (ValidateCommitSHA (xv_BaseHead v) \<noteq> None \<or> ValidateCommitSHA (xv_CandidateHead v) \<noteq> None
          \<or> ValidateCommitSHA (xv_CandidateTree v) \<noteq> None) ''invalid Task verification head authority'',
      fail_if (ValidateBranch (xv_Branch v) \<noteq> None \<or> \<not> HasPrefix (xv_Branch v) (''task/'' @ xv_TaskID v @ ''-''))
        ''invalid Task verification branch'',
      fail_if (xv_TaskRevision v < 1 \<or> xv_AttemptRevision v < 1 \<or> xv_CodeReviewID v < 1
          \<or> xv_TestsReviewID v < 0 \<or> xv_RebaseReviewID v < 0)
        ''incomplete Task verification revision authority'',
      fail_if (IsZero (xv_StartedAt v) \<or> IsZero (xv_CompletedAt v)
          \<or> gt_offset (xv_StartedAt v) \<noteq> 0 \<or> gt_offset (xv_CompletedAt v) \<noteq> 0)
        ''invalid Task verification timing'',
      verification_outcome v]"

section \<open>Phases\<close>

record TaskExecutionPhase =
  ph_ID :: int
  ph_TaskID :: string
  ph_ProjectID :: string
  ph_ExecutionRevision :: int
  ph_Stage :: string
  ph_Status :: string
  ph_Head :: string
  ph_Branch :: string
  ph_TaskRevisionSHA256 :: string
  ph_EventKind :: string
  ph_Decision :: string
  ph_Comment :: string
  ph_CreatedAt :: gotime

definition phase_event_kinds :: "string list" where
  "phase_event_kinds = [''submission'', ''review'', ''rework'', ''integration'', ''block'', ''resume'', ''refresh'',
     ''reset_start'', ''reset'']"

definition phase_evidence :: "TaskExecutionPhase \<Rightarrow> error" where
  "phase_evidence p =
     (let kind = ph_EventKind p in
      if kind = ''block'' \<or> kind = ''resume'' then
        fail_if (ph_Stage p = ''integration'' \<or> \<not> IsTaskExecutionAgentActionable (ph_Decision p) (ph_Stage p))
          ''invalid Task execution parked status''
      else if kind = ''refresh'' then
        fail_if (ph_Stage p = ''integration'' \<or> ph_Decision p \<noteq> '''' \<or> TrimSpace (ph_Comment p) = '''')
          ''invalid Task execution refresh evidence''
      else if kind = ''reset_start'' \<or> kind = ''reset'' then
        fail_if (ph_Stage p \<noteq> ''code''
            \<or> ph_Status p \<noteq> (if kind = ''reset'' then ''abandoned'' else ''resetting'')
            \<or> (ph_Decision p \<noteq> ''dispatched'' \<and> ph_Decision p \<noteq> ''in_progress'' \<and> ph_Decision p \<noteq> ''blocked'')
            \<or> TrimSpace (ph_Comment p) = '''' \<or> 8192 < rune_count (ph_Comment p))
          ''invalid Task execution reset evidence''
      else fail_if (ph_Decision p \<noteq> '''' \<and> ph_Decision p \<noteq> ''accept'' \<and> ph_Decision p \<noteq> ''reject'')
             ''invalid Task execution phase decision'')"

definition validateTaskExecutionPhase :: "TaskExecutionPhase \<Rightarrow> error" where
  "validateTaskExecutionPhase p = first_error
     [fail_if (ValidateProjectIdentifier (ph_ProjectID p) \<noteq> None \<or> ValidateCanonicalTaskID (ph_TaskID p) \<noteq> None
          \<or> ph_Stage p = '''' \<or> ph_Status p = '''' \<or> ph_ExecutionRevision p < 1 \<or> ph_Head p = ''''
          \<or> ph_Branch p = '''' \<or> ph_TaskRevisionSHA256 p = '''') ''incomplete Task execution phase'',
      fail_if (\<not> List.member phase_event_kinds (ph_EventKind p)) ''invalid Task execution phase event kind'',
      phase_evidence p,
      fail_if (\<not> execution_stage (ph_Stage p) \<and> ph_Stage p \<noteq> ''integration'') ''invalid Task execution phase stage'',
      fail_if (length (ph_Head p) \<noteq> 40 \<or> ValidateCommitSHA (ph_Head p) \<noteq> None
          \<or> ValidateSHA256 (ph_TaskRevisionSHA256 p) \<noteq> None \<or> ValidateBranch (ph_Branch p) \<noteq> None
          \<or> \<not> HasPrefix (ph_Branch p) (''task/'' @ ph_TaskID p @ ''-'')) ''invalid Task execution phase authority'']"

end
