(* ===== verification/Execution_Records.thy ===== *)
theory Execution_Records
  imports Execution_Model Task_Authoring Shared_Events
begin

text \<open>
  How task payloads and verification receipts are read from and written to JSON, and how rows of
  the Local database become execution states and phases (\<open>shared_task_execution.go\<close>,
  \<open>task_execution_phases.go\<close>, \<open>task_execution_verification.go\<close> of \<open>internal/sqlitestore\<close>).
\<close>

section \<open>Task payloads\<close>

text \<open>A \<open>map[string]string\<close> is the list of its entries in the order of the keys.\<close>

definition put_entry :: "string \<Rightarrow> string \<Rightarrow> (string \<times> string) list \<Rightarrow> (string \<times> string) list" where
  "put_entry k v m = insort_key fst (k, v) (filter (\<lambda>e. fst e \<noteq> k) m)"

fun decode_entries :: "(string \<times> json) list \<Rightarrow> (string \<times> string) list \<Rightarrow> (string \<times> string) list option" where
  "decode_entries [] m = Some m"
| "decode_entries ((k, v) # ms) m =
     (case dec_string (\<lambda>s _. s) v [] of None \<Rightarrow> None | Some s \<Rightarrow> decode_entries ms (put_entry (unquote k) s m))"

definition dec_string_map ::
  "('r \<Rightarrow> (string \<times> string) list option) \<Rightarrow> ((string \<times> string) list option \<Rightarrow> 'r \<Rightarrow> 'r) \<Rightarrow> 'r field_decoder" where
  "dec_string_map sel upd v r =
     (case v of
        J_object ms \<Rightarrow> map_option (\<lambda>m. upd (Some m) r) (decode_entries ms (elems (sel r)))
      | J_null \<Rightarrow> Some (upd None r)
      | _ \<Rightarrow> None)"

definition task_scope_fields :: "(string \<times> TaskScope field_decoder) list" where
  "task_scope_fields =
     [(''files'', dec_strings (\<lambda>x r. r\<lparr>ts_Files := x\<rparr>)), (''modules'', dec_strings (\<lambda>x r. r\<lparr>ts_Modules := x\<rparr>))]"

definition zero_TaskScope :: TaskScope where
  "zero_TaskScope = \<lparr>ts_Files = None, ts_Modules = None\<rparr>"

definition ready_seal_fields :: "(string \<times> TaskReadySeal field_decoder) list" where
  "ready_seal_fields =
     [(''revision'', dec_int64 (\<lambda>x r. r\<lparr>rs_Revision := x\<rparr>)),
      (''revision_sha256'', dec_string (\<lambda>x r. r\<lparr>rs_RevisionSHA256 := x\<rparr>)),
      (''ready_by'', dec_string (\<lambda>x r. r\<lparr>rs_ReadyBy := x\<rparr>)),
      (''ready_at'', dec_time rs_ReadyAt (\<lambda>x r. r\<lparr>rs_ReadyAt := x\<rparr>))]"

definition zero_TaskReadySeal :: TaskReadySeal where
  "zero_TaskReadySeal = \<lparr>rs_Revision = 0, rs_RevisionSHA256 = [], rs_ReadyBy = [], rs_ReadyAt = zero_time\<rparr>"

definition zero_TaskAuthoring :: TaskAuthoring where
  "zero_TaskAuthoring = \<lparr>ta_SchemaVersion = 0, ta_ID = [], ta_ProjectID = [], ta_Revision = 0, ta_RevisionSHA256 = [],
     ta_Title = [], ta_Summary = [], ta_Type = [], ta_Execution = [], ta_Scope = None, ta_Objective = [],
     ta_AcceptanceCriteria = None, ta_Constraints = None, ta_Priority = [], ta_Dependencies = None,
     ta_PreparationReferences = None, ta_Metadata = None, ta_ADRRelation = [], ta_ADRReferences = None,
     ta_Status = [], ta_ReadySeal = None, ta_CreatedBy = [], ta_CreatedAt = zero_time, ta_UpdatedAt = zero_time\<rparr>"

definition task_fields :: "(string \<times> TaskAuthoring field_decoder) list" where
  "task_fields =
     [(''schema_version'', dec_int64 (\<lambda>x r. r\<lparr>ta_SchemaVersion := x\<rparr>)),
      (''id'', dec_string (\<lambda>x r. r\<lparr>ta_ID := x\<rparr>)),
      (''project_id'', dec_string (\<lambda>x r. r\<lparr>ta_ProjectID := x\<rparr>)),
      (''revision'', dec_int64 (\<lambda>x r. r\<lparr>ta_Revision := x\<rparr>)),
      (''revision_sha256'', dec_string (\<lambda>x r. r\<lparr>ta_RevisionSHA256 := x\<rparr>)),
      (''title'', dec_string (\<lambda>x r. r\<lparr>ta_Title := x\<rparr>)),
      (''summary'', dec_string (\<lambda>x r. r\<lparr>ta_Summary := x\<rparr>)),
      (''type'', dec_string (\<lambda>x r. r\<lparr>ta_Type := x\<rparr>)),
      (''execution'', dec_string (\<lambda>x r. r\<lparr>ta_Execution := x\<rparr>)),
      (''scope'', dec_pointer (decode_struct False task_scope_fields) zero_TaskScope ta_Scope
         (\<lambda>x r. r\<lparr>ta_Scope := x\<rparr>)),
      (''objective'', dec_string (\<lambda>x r. r\<lparr>ta_Objective := x\<rparr>)),
      (''acceptance_criteria'', dec_strings (\<lambda>x r. r\<lparr>ta_AcceptanceCriteria := x\<rparr>)),
      (''constraints'', dec_strings (\<lambda>x r. r\<lparr>ta_Constraints := x\<rparr>)),
      (''priority'', dec_string (\<lambda>x r. r\<lparr>ta_Priority := x\<rparr>)),
      (''dependencies'', dec_strings (\<lambda>x r. r\<lparr>ta_Dependencies := x\<rparr>)),
      (''preparation_references'', dec_strings (\<lambda>x r. r\<lparr>ta_PreparationReferences := x\<rparr>)),
      (''metadata'', dec_string_map ta_Metadata (\<lambda>x r. r\<lparr>ta_Metadata := x\<rparr>)),
      (''adr_relation'', dec_string (\<lambda>x r. r\<lparr>ta_ADRRelation := x\<rparr>)),
      (''adr_references'', dec_strings (\<lambda>x r. r\<lparr>ta_ADRReferences := x\<rparr>)),
      (''status'', dec_string (\<lambda>x r. r\<lparr>ta_Status := x\<rparr>)),
      (''ready_seal'', dec_pointer (decode_struct False ready_seal_fields) zero_TaskReadySeal ta_ReadySeal
         (\<lambda>x r. r\<lparr>ta_ReadySeal := x\<rparr>)),
      (''created_by'', dec_string (\<lambda>x r. r\<lparr>ta_CreatedBy := x\<rparr>)),
      (''created_at'', dec_time ta_CreatedAt (\<lambda>x r. r\<lparr>ta_CreatedAt := x\<rparr>)),
      (''updated_at'', dec_time ta_UpdatedAt (\<lambda>x r. r\<lparr>ta_UpdatedAt := x\<rparr>))]"

definition decode_task :: "string \<Rightarrow> TaskAuthoring option" where
  "decode_task payload = json_Unmarshal task_fields zero_TaskAuthoring payload"

section \<open>Verification receipts\<close>

definition json_CompletionGateResult :: "CompletionGateResult \<Rightarrow> string" where
  "json_CompletionGateResult g = json_object
     (json_field ''id'' (json_string (cg_ID g))
      @ json_field ''exit_code'' (dec_int (cg_ExitCode g))
      @ json_omit (cg_Execution g = []) ''execution'' (json_string (cg_Execution g))
      @ json_omit (cg_TreeID g = []) ''tree_id'' (json_string (cg_TreeID g))
      @ json_omit (cg_ContractDigest g = []) ''contract_digest'' (json_string (cg_ContractDigest g))
      @ json_omit (cg_ReceiptDigest g = []) ''receipt_digest'' (json_string (cg_ReceiptDigest g))
      @ json_omit (cg_DurationMS g = 0) ''duration_ms'' (dec_int (cg_DurationMS g))
      @ json_omit (cg_AggregateMS g = 0) ''aggregate_ms'' (dec_int (cg_AggregateMS g))
      @ json_omit (cg_Warnings g = []) ''warnings'' (json_strings (Some (cg_Warnings g))))"

definition json_TaskExecutionVerification :: "TaskExecutionVerification \<Rightarrow> string result" where
  "json_TaskExecutionVerification v =
     (case json_time (xv_StartedAt v) of
        Inl m \<Rightarrow> Err m
      | Inr started \<Rightarrow>
          (case json_time (xv_CompletedAt v) of
             Inl m \<Rightarrow> Err m
           | Inr completed \<Rightarrow> Ok (json_object
               (json_field ''project_id'' (json_string (xv_ProjectID v))
                @ json_field ''task_id'' (json_string (xv_TaskID v))
                @ json_field ''operation_id'' (json_string (xv_OperationID v))
                @ json_field ''task_revision_sha256'' (json_string (xv_TaskRevisionSHA256 v))
                @ json_field ''base_head'' (json_string (xv_BaseHead v))
                @ json_field ''candidate_head'' (json_string (xv_CandidateHead v))
                @ json_field ''candidate_tree'' (json_string (xv_CandidateTree v))
                @ json_field ''branch'' (json_string (xv_Branch v))
                @ json_field ''gate_profile_sha256'' (json_string (xv_GateProfileSHA256 v))
                @ json_field ''outcome'' (json_string (xv_Outcome v))
                @ json_omit (xv_Error v = []) ''error'' (json_string (xv_Error v))
                @ json_field ''task_revision'' (dec_int (xv_TaskRevision v))
                @ json_field ''attempt_revision'' (dec_int (xv_AttemptRevision v))
                @ json_field ''code_review_id'' (dec_int (xv_CodeReviewID v))
                @ json_field ''tests_review_id'' (dec_int (xv_TestsReviewID v))
                @ json_omit (xv_RebaseReviewID v = 0) ''rebase_review_id'' (dec_int (xv_RebaseReviewID v))
                @ json_field ''gates'' (case xv_Gates v of None \<Rightarrow> ''null''
                    | Some gs \<Rightarrow> json_list (map json_CompletionGateResult gs))
                @ json_field ''started_at'' started @ json_field ''completed_at'' completed))))"

definition zero_CompletionGateResult :: CompletionGateResult where
  "zero_CompletionGateResult = \<lparr>cg_ID = [], cg_ExitCode = 0, cg_Execution = [], cg_TreeID = [], cg_ContractDigest = [],
     cg_ReceiptDigest = [], cg_DurationMS = 0, cg_AggregateMS = 0, cg_Warnings = []\<rparr>"

definition gate_fields :: "(string \<times> CompletionGateResult field_decoder) list" where
  "gate_fields =
     [(''id'', dec_string (\<lambda>x r. r\<lparr>cg_ID := x\<rparr>)),
      (''exit_code'', dec_int64 (\<lambda>x r. r\<lparr>cg_ExitCode := x\<rparr>)),
      (''execution'', dec_string (\<lambda>x r. r\<lparr>cg_Execution := x\<rparr>)),
      (''tree_id'', dec_string (\<lambda>x r. r\<lparr>cg_TreeID := x\<rparr>)),
      (''contract_digest'', dec_string (\<lambda>x r. r\<lparr>cg_ContractDigest := x\<rparr>)),
      (''receipt_digest'', dec_string (\<lambda>x r. r\<lparr>cg_ReceiptDigest := x\<rparr>)),
      (''duration_ms'', dec_int64 (\<lambda>x r. r\<lparr>cg_DurationMS := x\<rparr>)),
      (''aggregate_ms'', dec_int64 (\<lambda>x r. r\<lparr>cg_AggregateMS := x\<rparr>)),
      (''warnings'', dec_strings (\<lambda>x r. r\<lparr>cg_Warnings := elems x\<rparr>))]"

definition zero_TaskExecutionVerification :: TaskExecutionVerification where
  "zero_TaskExecutionVerification = \<lparr>xv_ProjectID = [], xv_TaskID = [], xv_OperationID = [], xv_TaskRevisionSHA256 = [],
     xv_BaseHead = [], xv_CandidateHead = [], xv_CandidateTree = [], xv_Branch = [], xv_GateProfileSHA256 = [],
     xv_Outcome = [], xv_Error = [], xv_TaskRevision = 0, xv_AttemptRevision = 0, xv_CodeReviewID = 0,
     xv_TestsReviewID = 0, xv_RebaseReviewID = 0, xv_Gates = None, xv_StartedAt = zero_time, xv_CompletedAt = zero_time\<rparr>"

definition verification_fields :: "(string \<times> TaskExecutionVerification field_decoder) list" where
  "verification_fields =
     [(''project_id'', dec_string (\<lambda>x r. r\<lparr>xv_ProjectID := x\<rparr>)),
      (''task_id'', dec_string (\<lambda>x r. r\<lparr>xv_TaskID := x\<rparr>)),
      (''operation_id'', dec_string (\<lambda>x r. r\<lparr>xv_OperationID := x\<rparr>)),
      (''task_revision_sha256'', dec_string (\<lambda>x r. r\<lparr>xv_TaskRevisionSHA256 := x\<rparr>)),
      (''base_head'', dec_string (\<lambda>x r. r\<lparr>xv_BaseHead := x\<rparr>)),
      (''candidate_head'', dec_string (\<lambda>x r. r\<lparr>xv_CandidateHead := x\<rparr>)),
      (''candidate_tree'', dec_string (\<lambda>x r. r\<lparr>xv_CandidateTree := x\<rparr>)),
      (''branch'', dec_string (\<lambda>x r. r\<lparr>xv_Branch := x\<rparr>)),
      (''gate_profile_sha256'', dec_string (\<lambda>x r. r\<lparr>xv_GateProfileSHA256 := x\<rparr>)),
      (''outcome'', dec_string (\<lambda>x r. r\<lparr>xv_Outcome := x\<rparr>)),
      (''error'', dec_string (\<lambda>x r. r\<lparr>xv_Error := x\<rparr>)),
      (''task_revision'', dec_int64 (\<lambda>x r. r\<lparr>xv_TaskRevision := x\<rparr>)),
      (''attempt_revision'', dec_int64 (\<lambda>x r. r\<lparr>xv_AttemptRevision := x\<rparr>)),
      (''code_review_id'', dec_int64 (\<lambda>x r. r\<lparr>xv_CodeReviewID := x\<rparr>)),
      (''tests_review_id'', dec_int64 (\<lambda>x r. r\<lparr>xv_TestsReviewID := x\<rparr>)),
      (''rebase_review_id'', dec_int64 (\<lambda>x r. r\<lparr>xv_RebaseReviewID := x\<rparr>)),
      (''gates'', dec_slice (\<lambda>z v. decode_struct False gate_fields v z) zero_CompletionGateResult
         (\<lambda>x r. r\<lparr>xv_Gates := x\<rparr>)),
      (''started_at'', dec_time xv_StartedAt (\<lambda>x r. r\<lparr>xv_StartedAt := x\<rparr>)),
      (''completed_at'', dec_time xv_CompletedAt (\<lambda>x r. r\<lparr>xv_CompletedAt := x\<rparr>))]"

definition unmarshal_verification :: "string \<Rightarrow> TaskExecutionVerification option" where
  "unmarshal_verification text = json_Unmarshal verification_fields zero_TaskExecutionVerification text"

definition decodeTaskExecutionVerification :: "string \<Rightarrow> TaskExecutionVerification result" where
  "decodeTaskExecutionVerification text =
     (case unmarshal_verification text of
        None \<Rightarrow> Err ''invalid Task verification receipt payload''
      | Some r \<Rightarrow> guard_result (ValidateTaskExecutionVerification r) (Ok r))"

definition legacy_gate :: "CompletionGateResult \<Rightarrow> bool" where
  "legacy_gate g \<longleftrightarrow> cg_ID g \<noteq> '''' \<and> (cg_Execution g = '''' \<or> cg_Execution g = ''executed'')
     \<and> (cg_ReceiptDigest g = '''' \<or> ValidateSHA256 (cg_ReceiptDigest g) = None)
     \<and> (cg_ContractDigest g = '''' \<or> ValidateSHA256 (cg_ContractDigest g) = None)
     \<and> (cg_TreeID g = '''' \<or> ValidateCommitSHA (cg_TreeID g) = None)"

text \<open>The gates are looked up among those seen before they are checked.\<close>

fun legacy_gates :: "string list \<Rightarrow> CompletionGateResult list \<Rightarrow> error" where
  "legacy_gates seen [] = None"
| "legacy_gates seen (g # gs) = first_error
     [fail_if (List.member seen (cg_ID g)) ''invalid legacy Task verification gates'',
      fail_if (\<not> legacy_gate g) ''invalid legacy Task verification gate evidence'',
      legacy_gates (cg_ID g # seen) gs]"

definition legacy_checks :: "TaskExecutionVerification \<Rightarrow> error" where
  "legacy_checks r = first_error
     [fail_if (ValidateProjectIdentifier (xv_ProjectID r) \<noteq> None \<or> ValidateCanonicalTaskID (xv_TaskID r) \<noteq> None
          \<or> ValidateObjectIdentifier (xv_OperationID r) \<noteq> None) ''invalid legacy Task verification identity'',
      fail_if (ValidateSHA256 (xv_TaskRevisionSHA256 r) \<noteq> None \<or> ValidateSHA256 (xv_GateProfileSHA256 r) \<noteq> None
          \<or> ValidateCommitSHA (xv_BaseHead r) \<noteq> None \<or> ValidateCommitSHA (xv_CandidateHead r) \<noteq> None
          \<or> ValidateCommitSHA (xv_CandidateTree r) \<noteq> None) ''invalid legacy Task verification digests'',
      fail_if (ValidateBranch (xv_Branch r) \<noteq> None \<or> \<not> HasPrefix (xv_Branch r) (''task/'' @ xv_TaskID r @ ''-'')
          \<or> xv_TaskRevision r < 1 \<or> xv_AttemptRevision r < 1 \<or> xv_CodeReviewID r < 1 \<or> xv_TestsReviewID r < 0
          \<or> xv_RebaseReviewID r < 0) ''invalid legacy Task verification revision authority'',
      fail_if (IsZero (xv_StartedAt r) \<or> IsZero (xv_CompletedAt r)
          \<or> \<not> time_before (xv_StartedAt r) (xv_CompletedAt r)) ''invalid legacy Task verification timing'',
      (if xv_Outcome r = ''succeeded''
       then fail_if (xv_Error r \<noteq> '''' \<or> elems (xv_Gates r) = []) ''invalid legacy Task verification outcome evidence''
       else fail_if (xv_Outcome r \<noteq> ''failed'' \<and> xv_Outcome r \<noteq> ''interrupted'')
              ''invalid legacy Task verification outcome''),
      legacy_gates [] (elems (xv_Gates r))]"

definition decodeTaskExecutionVerificationLegacy :: "string \<Rightarrow> TaskExecutionVerification result" where
  "decodeTaskExecutionVerificationLegacy text =
     (case unmarshal_verification text of
        None \<Rightarrow> Err ''invalid Task verification receipt payload''
      | Some r \<Rightarrow> guard_result (legacy_checks r) (Ok r))"

section \<open>Rows\<close>

definition row_of_state :: "TaskExecutionState \<Rightarrow> execution_row" where
  "row_of_state s =
     \<lparr>xr_task_id = xs_TaskID s, xr_project_id = xs_ProjectID s, xr_task_revision = xs_TaskRevision s,
      xr_task_revision_sha256 = xs_TaskRevisionSHA256 s, xr_status = xs_Status s, xr_stage = xs_Stage s,
      xr_worktree = xs_Worktree s, xr_base_head_sha = xs_BaseHead s, xr_head_sha = xs_Head s, xr_branch = xs_Branch s,
      xr_agent = xs_Agent s, xr_execution_revision = xs_ExecutionRevision s,
      xr_updated_at = rfc3339_nano (to_utc (xs_UpdatedAt s))\<rparr>"

definition state_of_row :: "execution_row \<Rightarrow> TaskExecutionState result" where
  "state_of_row r =
     (case parse_rfc3339 (xr_updated_at r) of
        None \<Rightarrow> Err ''invalid Task execution timestamp''
      | Some updated \<Rightarrow>
          let s = \<lparr>xs_TaskID = xr_task_id r, xs_ProjectID = xr_project_id r, xs_Status = xr_status r,
                   xs_Stage = xr_stage r, xs_Worktree = xr_worktree r, xs_BaseHead = xr_base_head_sha r,
                   xs_Head = xr_head_sha r, xs_Branch = xr_branch r, xs_TaskRevision = xr_task_revision r,
                   xs_TaskRevisionSHA256 = xr_task_revision_sha256 r, xs_Agent = xr_agent r,
                   xs_ExecutionRevision = xr_execution_revision r, xs_UpdatedAt = updated\<rparr>
          in guard_result (ValidateTaskExecutionState s) (Ok s))"

fun decodeTaskExecutionStateRows :: "execution_row list \<Rightarrow> TaskExecutionState list result" where
  "decodeTaskExecutionStateRows [] = Ok []"
| "decodeTaskExecutionStateRows (r # rs) =
     (case state_of_row r of Inl m \<Rightarrow> Err m | Inr s \<Rightarrow> map_sum id (Cons s) (decodeTaskExecutionStateRows rs))"

definition row_of_phase :: "TaskExecutionPhase \<Rightarrow> phase_row" where
  "row_of_phase p =
     \<lparr>pr_id = 0, pr_task_id = ph_TaskID p, pr_project_id = ph_ProjectID p,
      pr_execution_revision = ph_ExecutionRevision p, pr_stage = ph_Stage p, pr_status = ph_Status p,
      pr_head_sha = ph_Head p, pr_branch = ph_Branch p, pr_task_revision_sha256 = ph_TaskRevisionSHA256 p,
      pr_event_kind = ph_EventKind p, pr_decision = Some (ph_Decision p), pr_comment = Some (ph_Comment p),
      pr_created_at = rfc3339_nano (to_utc (ph_CreatedAt p))\<rparr>"

definition decodeTaskExecutionPhaseRow :: "phase_row \<Rightarrow> TaskExecutionPhase result" where
  "decodeTaskExecutionPhaseRow r =
     (case parse_rfc3339 (pr_created_at r) of
        None \<Rightarrow> Err ''invalid Task execution phase timestamp''
      | Some created \<Rightarrow>
          let p = \<lparr>ph_ID = pr_id r, ph_TaskID = pr_task_id r, ph_ProjectID = pr_project_id r,
                   ph_ExecutionRevision = pr_execution_revision r, ph_Stage = pr_stage r, ph_Status = pr_status r,
                   ph_Head = pr_head_sha r, ph_Branch = pr_branch r, ph_TaskRevisionSHA256 = pr_task_revision_sha256 r,
                   ph_EventKind = pr_event_kind r, ph_Decision = coalesce (pr_decision r),
                   ph_Comment = coalesce (pr_comment r), ph_CreatedAt = created\<rparr>
          in guard_result (validateTaskExecutionPhase p) (Ok p))"

fun decode_phases :: "phase_row list \<Rightarrow> TaskExecutionPhase list result" where
  "decode_phases [] = Ok []"
| "decode_phases (r # rs) =
     (case decodeTaskExecutionPhaseRow r of Inl m \<Rightarrow> Err m | Inr p \<Rightarrow> map_sum id (Cons p) (decode_phases rs))"

end
