(* ===== verification/Execution_Store.thy ===== *)
theory Execution_Store
  imports Execution_Records Shared_History Project_Retirement
begin

text \<open>
  Reading and writing the execution of tasks in the Local database: execution states, phases and
  verification receipts (\<open>shared_task_execution.go\<close>, \<open>task_execution_phases.go\<close>,
  \<open>task_execution_state_list.go\<close>, \<open>task_execution_state_page.go\<close>, \<open>task_execution_verification.go\<close> of
  \<open>internal/sqlitestore\<close>). Every statement is guarded by the project not being retired locally.
\<close>

section \<open>Statements\<close>

definition locally_retired :: "shared_db \<Rightarrow> string \<Rightarrow> bool" where
  "locally_retired db projectID \<longleftrightarrow> sd_local_retirements db projectID \<noteq> None"

text \<open>\<open>UPDATE local_task_execution_states SET ... WHERE project_id=? AND task_id=? AND\<close> a condition on the row.\<close>

definition alter_execution ::
  "string \<Rightarrow> string \<Rightarrow> (execution_row \<Rightarrow> bool) \<Rightarrow> (execution_row \<Rightarrow> execution_row) \<Rightarrow> statement" where
  "alter_execution projectID taskID cond f db =
     (let hit = (\<lambda>r. xr_project_id r = projectID \<and> xr_task_id r = taskID \<and> cond r);
          rows = lo_states (sd_local db)
      in if locally_retired db projectID then Some (db, 0)
         else Some (db\<lparr>sd_local := (sd_local db)\<lparr>lo_states := map (\<lambda>r. if hit r then f r else r) rows\<rparr>\<rparr>,
                    length (filter hit rows)))"

definition update_execution :: "execution_row \<Rightarrow> (execution_row \<Rightarrow> bool) \<Rightarrow> statement" where
  "update_execution row cond = alter_execution (xr_project_id row) (xr_task_id row) cond (\<lambda>_. row)"

definition insert_execution :: "execution_row \<Rightarrow> statement" where
  "insert_execution row db =
     (let rows = lo_states (sd_local db) in
      if locally_retired db (xr_project_id row) then Some (db, 0)
      else if list_ex (\<lambda>r. xr_task_id r = xr_task_id row) rows then None
      else Some (db\<lparr>sd_local := (sd_local db)\<lparr>lo_states := rows @ [row]\<rparr>\<rparr>, 1))"

definition insert_phase :: "phase_row \<Rightarrow> statement" where
  "insert_phase row db =
     (let rows = lo_phases (sd_local db) in
      if locally_retired db (pr_project_id row) then Some (db, 0)
      else if list_ex (\<lambda>r. pr_project_id r = pr_project_id row \<and> pr_task_id r = pr_task_id row
                 \<and> pr_execution_revision r = pr_execution_revision row) rows then None
      else Some (db\<lparr>sd_local := (sd_local db)\<lparr>lo_phases :=
                   rows @ [row\<lparr>pr_id := 1 + Max (insert 0 (set (map pr_id rows)))\<rparr>]\<rparr>\<rparr>, 1))"

definition insert_verification :: "verification_row \<Rightarrow> statement" where
  "insert_verification row db =
     (let rows = lo_verifications (sd_local db) in
      if locally_retired db (vr_project_id row) then Some (db, 0)
      else if list_ex (\<lambda>r. vr_project_id r = vr_project_id row \<and> vr_task_id r = vr_task_id row
                 \<and> vr_operation_id r = vr_operation_id row \<and> vr_attempt_revision r = vr_attempt_revision row) rows
      then None
      else Some (db\<lparr>sd_local := (sd_local db)\<lparr>lo_verifications :=
                   rows @ [row\<lparr>vr_id := 1 + Max (insert 0 (set (map vr_id rows)))\<rparr>]\<rparr>\<rparr>, 1))"

section \<open>Execution states\<close>

definition local_store :: "driver \<Rightarrow> 'a io \<Rightarrow> 'a io" where
  "local_store dv m = (if \<not> dv_Local dv then io_error ''local store is unavailable'' else m)"

definition io_value :: "'a result \<Rightarrow> 'a io" where
  "io_value r = (case r of Inl m \<Rightarrow> io_error m | Inr x \<Rightarrow> io_return x)"

definition execution_of :: "shared_db \<Rightarrow> string \<Rightarrow> string \<Rightarrow> execution_row option" where
  "execution_of db projectID taskID =
     (if locally_retired db projectID then None
      else find (\<lambda>r. xr_project_id r = projectID \<and> xr_task_id r = taskID) (lo_states (sd_local db)))"

definition ReadTaskExecutionState :: "driver \<Rightarrow> string \<Rightarrow> string \<Rightarrow> TaskExecutionState option io" where
  "ReadTaskExecutionState dv projectID taskID = local_store dv
     (io_bind (io_query dv (\<lambda>db. execution_of db projectID taskID)) (\<lambda>row.
       case row of None \<Rightarrow> io_return None | Some r \<Rightarrow> io_value (map_sum id Some (state_of_row r))))"

definition CreateTaskExecutionState :: "driver \<Rightarrow> TaskExecutionState \<Rightarrow> unit io" where
  "CreateTaskExecutionState dv s = local_store dv
     (io_check (ValidateTaskExecutionState s) (io_batch dv [(insert_execution (row_of_state s), 1)]))"

definition update_to :: "TaskExecutionState \<Rightarrow> int \<Rightarrow> statement" where
  "update_to s expectedRevision =
     update_execution (row_of_state s) (\<lambda>r. xr_execution_revision r = expectedRevision)"

definition UpdateTaskExecutionState :: "driver \<Rightarrow> TaskExecutionState \<Rightarrow> int \<Rightarrow> unit io" where
  "UpdateTaskExecutionState dv s expectedRevision = local_store dv
     (io_check (ValidateTaskExecutionState s) (io_batch dv [(update_to s expectedRevision, 1)]))"

definition phase_matches :: "TaskExecutionPhase \<Rightarrow> TaskExecutionState \<Rightarrow> bool" where
  "phase_matches p s \<longleftrightarrow> ph_TaskID p = xs_TaskID s \<and> ph_ProjectID p = xs_ProjectID s
     \<and> ph_ExecutionRevision p = xs_ExecutionRevision s \<and> ph_Branch p = xs_Branch s
     \<and> ph_TaskRevisionSHA256 p = xs_TaskRevisionSHA256 s \<and> (ph_Stage p = ''integration'' \<or> ph_Head p = xs_Head s)"

definition TransitionTaskExecutionState ::
  "driver \<Rightarrow> TaskExecutionState \<Rightarrow> int \<Rightarrow> TaskExecutionPhase \<Rightarrow> unit io" where
  "TransitionTaskExecutionState dv s expectedRevision p = local_store dv
     (io_check (ValidateTaskExecutionState s)
     (io_check (fail_if (\<not> phase_matches p s) ''Task execution phase does not match state'')
     (io_check (validateTaskExecutionPhase p)
     (io_batch dv [(update_to s expectedRevision, 1), (insert_phase (row_of_phase p), 1)]))))"

definition CreateTaskExecutionStateWithPhase ::
  "driver \<Rightarrow> TaskExecutionState \<Rightarrow> TaskExecutionPhase \<Rightarrow> unit io" where
  "CreateTaskExecutionStateWithPhase dv s p = local_store dv
     (io_check (ValidateTaskExecutionState s)
     (io_check (fail_if (\<not> phase_matches p s) ''Task execution phase does not match state'')
     (io_check (validateTaskExecutionPhase p)
     (io_batch dv [(insert_execution (row_of_state s), 1), (insert_phase (row_of_phase p), 1)]))))"

definition project_executions :: "shared_db \<Rightarrow> string \<Rightarrow> execution_row list" where
  "project_executions db projectID =
     (if locally_retired db projectID then []
      else sort_key xr_task_id (filter (\<lambda>r. xr_project_id r = projectID) (lo_states (sd_local db))))"

definition ListTaskExecutionStates :: "driver \<Rightarrow> string \<Rightarrow> TaskExecutionState list io" where
  "ListTaskExecutionStates dv projectID = local_store dv
     (io_bind (io_query dv (\<lambda>db. project_executions db projectID)) (\<lambda>rows. io_value (decodeTaskExecutionStateRows rows)))"

section \<open>Pages of execution states\<close>

record TaskExecutionStatePageCursor =
  xc_UpdatedAt :: string
  xc_TaskID :: string
  xc_Worktree :: string

record TaskExecutionStatePage =
  xp_States :: "TaskExecutionState list"
  xp_HasMore :: bool
  xp_NextCursor :: TaskExecutionStatePageCursor

definition TaskExecutionStatePageMaxRows :: int where "TaskExecutionStatePageMaxRows = 100"

definition open_execution :: "string \<Rightarrow> execution_row \<Rightarrow> bool" where
  "open_execution projectID r \<longleftrightarrow>
     xr_project_id r = projectID \<and> xr_status r \<noteq> ''done'' \<and> xr_status r \<noteq> ''failed''"

definition page_executions ::
  "shared_db \<Rightarrow> string \<Rightarrow> string \<Rightarrow> TaskExecutionStatePageCursor \<Rightarrow> nat \<Rightarrow> execution_row list" where
  "page_executions db projectID query after n =
     (if locally_retired db projectID then []
      else take n (rev (sort_key (\<lambda>r. (xr_updated_at r, xr_task_id r))
        (filter (\<lambda>r. open_execution projectID r
            \<and> (query = '''' \<or> Contains (xr_worktree r) query \<or> Contains (xr_task_id r) query)
            \<and> (xc_TaskID after = '''' \<or> xr_updated_at r < xc_UpdatedAt after
               \<or> (xr_updated_at r = xc_UpdatedAt after \<and> xr_task_id r < xc_TaskID after)))
          (lo_states (sd_local db))))))"

definition cursor_current :: "shared_db \<Rightarrow> string \<Rightarrow> TaskExecutionStatePageCursor \<Rightarrow> bool" where
  "cursor_current db projectID after \<longleftrightarrow> \<not> locally_retired db projectID
     \<and> length (filter (\<lambda>r. open_execution projectID r \<and> xr_task_id r = xc_TaskID after
         \<and> xr_worktree r = xc_Worktree after \<and> xr_updated_at r = xc_UpdatedAt after) (lo_states (sd_local db))) = 1"

definition ListTaskExecutionStatesPage ::
  "driver \<Rightarrow> string \<Rightarrow> string \<Rightarrow> TaskExecutionStatePageCursor \<Rightarrow> int \<Rightarrow> TaskExecutionStatePage io" where
  "ListTaskExecutionStatesPage dv projectID query after limit = local_store dv
     (if limit < 1 \<or> TaskExecutionStatePageMaxRows < limit
      then io_error ''invalid Task execution state page limit''
      else io_bind (if xc_TaskID after = '''' then io_return True
                    else io_query dv (\<lambda>db. cursor_current db projectID after)) (\<lambda>current.
        if \<not> current then io_error ''continuation cursor is no longer valid''
        else io_bind (io_query dv (\<lambda>db. page_executions db projectID query after (nat limit + 1))) (\<lambda>rows.
          io_bind (io_value (decodeTaskExecutionStateRows rows)) (\<lambda>states.
            io_return (if nat limit < length states
              then (let page = take (nat limit) states; l = last page in
                \<lparr>xp_States = page, xp_HasMore = True, xp_NextCursor =
                   \<lparr>xc_UpdatedAt = rfc3339_nano (to_utc (xs_UpdatedAt l)), xc_TaskID = xs_TaskID l,
                    xc_Worktree = xs_Worktree l\<rparr>\<rparr>)
              else \<lparr>xp_States = states, xp_HasMore = False,
                    xp_NextCursor = \<lparr>xc_UpdatedAt = '''', xc_TaskID = '''', xc_Worktree = ''''\<rparr>\<rparr>)))))"

section \<open>Phases\<close>

definition task_phases :: "shared_db \<Rightarrow> string \<Rightarrow> string \<Rightarrow> (phase_row \<Rightarrow> bool) \<Rightarrow> phase_row list" where
  "task_phases db projectID taskID cond =
     (if locally_retired db projectID then []
      else sort_key pr_id (filter (\<lambda>r. pr_project_id r = projectID \<and> pr_task_id r = taskID \<and> cond r)
             (lo_phases (sd_local db))))"

definition read_phase ::
  "driver \<Rightarrow> string \<Rightarrow> string \<Rightarrow> (phase_row \<Rightarrow> bool) \<Rightarrow> TaskExecutionPhase option io" where
  "read_phase dv projectID taskID cond =
     io_bind (io_query dv (\<lambda>db. task_phases db projectID taskID cond)) (\<lambda>rows.
       if rows = [] then io_return None else io_value (map_sum id Some (decodeTaskExecutionPhaseRow (last rows))))"

definition ReadLatestTaskExecutionPhase ::
  "driver \<Rightarrow> string \<Rightarrow> string \<Rightarrow> string \<Rightarrow> TaskExecutionPhase option io" where
  "ReadLatestTaskExecutionPhase dv projectID taskID stage =
     local_store dv (read_phase dv projectID taskID (\<lambda>r. pr_stage r = stage))"

definition readTaskExecutionPhaseWhere ::
  "driver \<Rightarrow> string \<Rightarrow> string \<Rightarrow> string \<Rightarrow> (phase_row \<Rightarrow> bool) \<Rightarrow> TaskExecutionPhase option io" where
  "readTaskExecutionPhaseWhere dv projectID taskID stage predicate =
     read_phase dv projectID taskID (\<lambda>r. pr_stage r = stage \<and> predicate r)"

definition readTaskExecutionPhaseAcrossStages ::
  "driver \<Rightarrow> string \<Rightarrow> string \<Rightarrow> (phase_row \<Rightarrow> bool) \<Rightarrow> TaskExecutionPhase option io" where
  "readTaskExecutionPhaseAcrossStages dv projectID taskID predicate =
     local_store dv (read_phase dv projectID taskID predicate)"

definition ReadLatestAcceptedTaskExecutionPhase ::
  "driver \<Rightarrow> string \<Rightarrow> string \<Rightarrow> string \<Rightarrow> TaskExecutionPhase option io" where
  "ReadLatestAcceptedTaskExecutionPhase dv projectID taskID stage =
     readTaskExecutionPhaseWhere dv projectID taskID stage (\<lambda>r. pr_decision r = Some ''accept'')"

definition ReadLatestTaskExecutionParkPhase ::
  "driver \<Rightarrow> string \<Rightarrow> string \<Rightarrow> string \<Rightarrow> TaskExecutionPhase option io" where
  "ReadLatestTaskExecutionParkPhase dv projectID taskID stage =
     readTaskExecutionPhaseWhere dv projectID taskID stage
       (\<lambda>r. pr_event_kind r = ''block'' \<or> pr_event_kind r = ''resume'')"

definition ReadLatestTaskExecutionResetPhase :: "driver \<Rightarrow> string \<Rightarrow> string \<Rightarrow> TaskExecutionPhase option io" where
  "ReadLatestTaskExecutionResetPhase dv projectID taskID =
     readTaskExecutionPhaseAcrossStages dv projectID taskID
       (\<lambda>r. pr_event_kind r = ''reset_start'' \<or> pr_event_kind r = ''reset'')"

definition ReadLatestTaskExecutionResetTerminalPhase ::
  "driver \<Rightarrow> string \<Rightarrow> string \<Rightarrow> TaskExecutionPhase option io" where
  "ReadLatestTaskExecutionResetTerminalPhase dv projectID taskID =
     readTaskExecutionPhaseAcrossStages dv projectID taskID (\<lambda>r. pr_event_kind r = ''reset'')"

definition taskExecutionPhaseHistoryBound :: nat where "taskExecutionPhaseHistoryBound = 256"

definition ReadTaskExecutionPhases :: "driver \<Rightarrow> string \<Rightarrow> string \<Rightarrow> string \<Rightarrow> TaskExecutionPhase list io" where
  "ReadTaskExecutionPhases dv projectID taskID stage = local_store dv
     (io_bind (io_query dv (\<lambda>db. take (taskExecutionPhaseHistoryBound + 1)
        (task_phases db projectID taskID (\<lambda>r. pr_stage r = stage)))) (\<lambda>rows.
       if taskExecutionPhaseHistoryBound < length rows
       then io_error ''Task execution phase history exceeds the bounded read''
       else io_value (decode_phases rows)))"

definition AppendTaskExecutionPhase :: "driver \<Rightarrow> TaskExecutionPhase \<Rightarrow> unit io" where
  "AppendTaskExecutionPhase dv p = local_store dv
     (io_check (validateTaskExecutionPhase p)
     (io_check (fail_if (IsZero (ph_CreatedAt p)) ''incomplete Task execution phase'')
     (io_bind (io_try (io_batch dv [(insert_phase (row_of_phase p), 1)])) (\<lambda>r.
       case r of
         Inr _ \<Rightarrow> io_return ()
       | Inl e \<Rightarrow> io_bind (io_try (IsLocalProjectRetired dv (ph_ProjectID p))) (\<lambda>retired.
           if retired = Inr True then io_fail LocalProjectRetired else io_fail e)))))"

section \<open>Verification receipts\<close>

definition task_verifications :: "shared_db \<Rightarrow> string \<Rightarrow> string \<Rightarrow> verification_row list" where
  "task_verifications db projectID taskID =
     (if locally_retired db projectID then []
      else sort_key vr_attempt_revision
             (filter (\<lambda>r. vr_project_id r = projectID \<and> vr_task_id r = taskID) (lo_verifications (sd_local db))))"

definition ReadLatestTaskExecutionVerification ::
  "driver \<Rightarrow> string \<Rightarrow> string \<Rightarrow> TaskExecutionVerification option io" where
  "ReadLatestTaskExecutionVerification dv projectID taskID = local_store dv
     (io_bind (io_query dv (\<lambda>db. task_verifications db projectID taskID)) (\<lambda>rows.
       if rows = [] then io_return None
       else io_bind (io_value (decodeTaskExecutionVerification (vr_receipt_json (last rows)))) (\<lambda>receipt.
         if xv_ProjectID receipt \<noteq> projectID \<or> xv_TaskID receipt \<noteq> taskID
         then io_error ''Task verification receipt identity mismatch'' else io_return (Some receipt))))"

text \<open>The receipt, and whether it is a historical one that today's contract rejects.\<close>

definition ReadLatestTaskExecutionVerificationTolerant ::
  "driver \<Rightarrow> string \<Rightarrow> string \<Rightarrow> (TaskExecutionVerification option \<times> bool) io" where
  "ReadLatestTaskExecutionVerificationTolerant dv projectID taskID =
     io_bind (io_try (ReadLatestTaskExecutionVerification dv projectID taskID)) (\<lambda>first.
       case first of
         Inr receipt \<Rightarrow> io_return (receipt, False)
       | Inl e \<Rightarrow> io_bind (io_try (io_query dv (\<lambda>db. task_verifications db projectID taskID))) (\<lambda>again.
           case again of
             Inl _ \<Rightarrow> io_fail e
           | Inr rows \<Rightarrow>
               if rows = [] then io_fail e
               else (case decodeTaskExecutionVerificationLegacy (vr_receipt_json (last rows)) of
                       Inl _ \<Rightarrow> io_fail e
                     | Inr legacy \<Rightarrow>
                         if xv_ProjectID legacy \<noteq> projectID \<or> xv_TaskID legacy \<noteq> taskID then io_fail e
                         else io_return (Some legacy, True))))"

record TaskExecutionVerificationReceipt =
  vx_OperationID :: string
  vx_Outcome :: string
  vx_AttemptRevision :: int
  vx_ReceiptJSON :: string

definition ReadTaskExecutionVerificationReceipts ::
  "driver \<Rightarrow> string \<Rightarrow> string \<Rightarrow> TaskExecutionVerificationReceipt list io" where
  "ReadTaskExecutionVerificationReceipts dv projectID taskID = local_store dv
     (io_query dv (\<lambda>db. map (\<lambda>r. \<lparr>vx_OperationID = vr_operation_id r, vx_Outcome = vr_outcome r,
        vx_AttemptRevision = vr_attempt_revision r, vx_ReceiptJSON = vr_receipt_json r\<rparr>)
        (take 8 (task_verifications db projectID taskID))))"

definition taskExecutionVerificationReceipt ::
  "driver \<Rightarrow> string \<Rightarrow> string \<Rightarrow> string \<Rightarrow> int \<Rightarrow> string option io" where
  "taskExecutionVerificationReceipt dv projectID taskID operationID attemptRevision =
     io_query dv (\<lambda>db. map_option vr_receipt_json (find (\<lambda>r. vr_operation_id r = operationID
        \<and> vr_attempt_revision r = attemptRevision) (task_verifications db projectID taskID)))"

definition same_execution :: "TaskExecutionState \<Rightarrow> TaskExecutionState \<Rightarrow> bool" where
  "same_execution s t \<longleftrightarrow> xs_Status s = xs_Status t \<and> xs_Stage s = xs_Stage t \<and> xs_Worktree s = xs_Worktree t
     \<and> xs_TaskRevision s = xs_TaskRevision t \<and> xs_TaskRevisionSHA256 s = xs_TaskRevisionSHA256 t
     \<and> xs_BaseHead s = xs_BaseHead t \<and> xs_Head s = xs_Head t \<and> xs_Branch s = xs_Branch t
     \<and> xs_Agent s = xs_Agent t \<and> xs_ExecutionRevision s = xs_ExecutionRevision t"

definition reuseTaskExecutionVerification ::
  "driver \<Rightarrow> TaskExecutionState \<Rightarrow> string \<Rightarrow> string \<Rightarrow> unit io" where
  "reuseTaskExecutionVerification dv nextState receiptJSON existing =
     (if existing \<noteq> receiptJSON then io_error ''conflicting Task verification receipt''
      else io_bind (ReadTaskExecutionState dv (xs_ProjectID nextState) (xs_TaskID nextState)) (\<lambda>state.
        case state of
          None \<Rightarrow> io_error ''Task verification finish does not match durable state''
        | Some s \<Rightarrow> if same_execution s nextState then io_return ()
                    else io_error ''Task verification finish does not match durable state''))"

definition receipt_matches :: "TaskExecutionVerification \<Rightarrow> TaskExecutionState \<Rightarrow> bool" where
  "receipt_matches v s \<longleftrightarrow> xv_ProjectID v = xs_ProjectID s \<and> xv_TaskID v = xs_TaskID s
     \<and> xv_TaskRevision v = xs_TaskRevision s \<and> xv_TaskRevisionSHA256 v = xs_TaskRevisionSHA256 s
     \<and> xv_BaseHead v = xs_BaseHead s \<and> xv_CandidateHead v = xs_Head s \<and> xv_Branch v = xs_Branch s"

definition verifying_row :: "TaskExecutionState \<Rightarrow> int \<Rightarrow> execution_row \<Rightarrow> bool" where
  "verifying_row s expectedRevision r \<longleftrightarrow> xr_task_revision r = xs_TaskRevision s
     \<and> xr_task_revision_sha256 r = xs_TaskRevisionSHA256 s \<and> xr_status r = ''verifying'' \<and> xr_stage r = xs_Stage s
     \<and> xr_worktree r = xs_Worktree s \<and> xr_base_head_sha r = xs_BaseHead s \<and> xr_head_sha r = xs_Head s
     \<and> xr_branch r = xs_Branch s \<and> xr_agent r = xs_Agent s \<and> xr_execution_revision r = expectedRevision"

definition row_of_receipt :: "TaskExecutionVerification \<Rightarrow> string \<Rightarrow> verification_row" where
  "row_of_receipt v receiptJSON =
     \<lparr>vr_id = 0, vr_project_id = xv_ProjectID v, vr_task_id = xv_TaskID v, vr_operation_id = xv_OperationID v,
      vr_attempt_revision = xv_AttemptRevision v, vr_outcome = xv_Outcome v, vr_receipt_json = receiptJSON,
      vr_created_at = rfc3339_nano (to_utc (xv_CompletedAt v))\<rparr>"

definition finish_checks :: "TaskExecutionState \<Rightarrow> int \<Rightarrow> TaskExecutionVerification \<Rightarrow> error" where
  "finish_checks nextState expectedRevision v = first_error
     [ValidateTaskExecutionVerification v,
      ValidateTaskExecutionState nextState,
      fail_if (expectedRevision \<noteq> xv_AttemptRevision v \<or> xs_ExecutionRevision nextState \<noteq> xv_AttemptRevision v + 1)
        ''Task verification finish is not a single CAS step'',
      fail_if (xs_Status nextState \<noteq>
          (if xv_Outcome v = ''succeeded'' then ''verified'' else ''ready_for_verification''))
        ''Task verification finish status does not match outcome'',
      fail_if (\<not> receipt_matches v nextState) ''Task verification receipt does not match execution state'']"

definition finish_statements ::
  "TaskExecutionState \<Rightarrow> int \<Rightarrow> TaskExecutionVerification \<Rightarrow> string \<Rightarrow> batch" where
  "finish_statements nextState expectedRevision v receiptJSON =
     [(update_execution (row_of_state nextState) (verifying_row nextState expectedRevision), 1),
      (insert_verification (row_of_receipt v receiptJSON), 1)]"

definition FinishTaskExecutionVerification ::
  "driver \<Rightarrow> TaskExecutionState \<Rightarrow> int \<Rightarrow> TaskExecutionVerification \<Rightarrow> unit io" where
  "FinishTaskExecutionVerification dv nextState expectedRevision v = local_store dv
     (io_check (finish_checks nextState expectedRevision v)
     (io_bind (io_value (json_TaskExecutionVerification v)) (\<lambda>receiptJSON.
      let stored = taskExecutionVerificationReceipt dv (xv_ProjectID v) (xv_TaskID v) (xv_OperationID v)
                     (xv_AttemptRevision v) in
      io_bind stored (\<lambda>existing.
        case existing of
          Some text \<Rightarrow> reuseTaskExecutionVerification dv nextState receiptJSON text
        | None \<Rightarrow>
            io_bind (io_try (io_batch dv (finish_statements nextState expectedRevision v receiptJSON))) (\<lambda>r.
              case r of
                Inr _ \<Rightarrow> io_return ()
              | Inl e \<Rightarrow> io_bind (io_try stored) (\<lambda>found.
                  case found of
                    Inr (Some text) \<Rightarrow> reuseTaskExecutionVerification dv nextState receiptJSON text
                  | _ \<Rightarrow> io_fail e))))))"

end
