(* ===== verification/Task_Completion.thy ===== *)
theory Task_Completion
  imports Execution_Store Sha256
begin

text \<open>
  The completion and the archiving of a task (\<open>internal/sqlitestore/task_completion.go\<close>): the checks
  that bind the two payloads, the contract and the execution state to each other, the commit of the
  lifecycle event in the Shared database, and the step of the Local execution state that follows it.
\<close>

section \<open>Lifecycle events of a task\<close>

record TaskLifecycleEvent =
  te_ID :: int
  te_OperationID :: string
  te_ProjectID :: string
  te_TaskID :: string
  te_Revision :: int
  te_EventKind :: string
  te_FromStatus :: string
  te_ToStatus :: string
  te_Actor :: string
  te_Reason :: string
  te_Contract :: string
  te_RecordedAt :: gotime

definition taskLifecycleEventFromShared :: "SharedLifecycleEvent \<Rightarrow> TaskLifecycleEvent" where
  "taskLifecycleEventFromShared e =
     \<lparr>te_ID = le_ID e, te_OperationID = le_OperationID e, te_ProjectID = le_ProjectID e, te_TaskID = le_EntityID e,
      te_Revision = le_Revision e,
      te_EventKind = (if le_EventKind e = ''status'' then ''complete'' else le_EventKind e),
      te_FromStatus = le_FromStatus e, te_ToStatus = le_ToStatus e, te_Actor = le_Actor e, te_Reason = le_Reason e,
      te_Contract = le_Contract e, te_RecordedAt = le_RecordedAt e\<rparr>"

definition is_completion :: "SharedLifecycleEvent \<Rightarrow> bool" where
  "is_completion e \<longleftrightarrow> le_EventKind e = ''status'' \<and> le_ToStatus e = Done"

definition ReadTaskCompletionEvent :: "driver \<Rightarrow> string \<Rightarrow> string \<Rightarrow> TaskLifecycleEvent option io" where
  "ReadTaskCompletionEvent dv projectID taskID =
     (if \<not> dv_Shared dv then io_error ''shared store is unavailable''
      else io_check (ValidateProjectIdentifier projectID) (io_check (ValidateCanonicalTaskID taskID)
        (io_bind (ListSharedLifecycleEvents dv ''task'' projectID taskID (int SharedLifecycleQueryMaxRows)) (\<lambda>events.
          case filter is_completion events of
            [] \<Rightarrow> io_return None
          | [e] \<Rightarrow> io_return (Some (taskLifecycleEventFromShared e))
          | _ \<Rightarrow> io_error ''invalid task completion lifecycle history''))))"

definition ListTaskLifecycleEvents :: "driver \<Rightarrow> string \<Rightarrow> string \<Rightarrow> int \<Rightarrow> TaskLifecycleEvent list io" where
  "ListTaskLifecycleEvents dv projectID taskID limit =
     (if \<not> dv_Shared dv then io_error ''shared store is unavailable''
      else io_check (ValidateProjectIdentifier projectID) (io_check (ValidateCanonicalTaskID taskID)
        (io_check (fail_if (limit < 1 \<or> int SharedLifecycleQueryMaxRows < limit)
                     ''task lifecycle event limit out of range'')
        (io_bind (ListSharedLifecycleEvents dv ''task'' projectID taskID limit) (\<lambda>events.
          io_return (map taskLifecycleEventFromShared events))))))"

section \<open>Completing a task\<close>

record CommitTaskCompletionRequest =
  cq_OperationID :: string
  cq_ProjectID :: string
  cq_TaskID :: string
  cq_Revision :: int
  cq_PreviousTaskPayload :: string
  cq_TaskPayload :: string
  cq_FromStatus :: string
  cq_Actor :: string
  cq_Reason :: string
  cq_Contract :: string
  cq_ContractSHA256 :: string
  cq_RecordedAt :: gotime
  cq_PreviousExecution :: "TaskExecutionState option"
  cq_FinalExecution :: "TaskExecutionState option"

text \<open>The hash over project, task and contract that both operations carry in their identity.\<close>

definition contract_digest :: "string \<Rightarrow> string \<Rightarrow> string \<Rightarrow> string" where
  "contract_digest projectID taskID contract = sha256_hex (projectID @ [nul] @ taskID @ [nul] @ contract)"

definition bounded_text :: "nat \<Rightarrow> string \<Rightarrow> bool" where
  "bounded_text n s \<longleftrightarrow> \<not> List.member s nul \<and> 1 \<le> rune_count s \<and> rune_count s \<le> n"

text \<open>What completing or archiving leaves of the previous task.\<close>

definition closed_task :: "TaskAuthoring \<Rightarrow> string \<Rightarrow> gotime \<Rightarrow> TaskAuthoring" where
  "closed_task t status at = t\<lparr>ta_Status := status, ta_ReadySeal := None, ta_UpdatedAt := to_utc at\<rparr>"

definition close_binding :: "string \<Rightarrow> string \<Rightarrow> int \<Rightarrow> string \<Rightarrow> string \<Rightarrow> gotime \<Rightarrow> TaskAuthoring \<Rightarrow> TaskAuthoring \<Rightarrow> bool" where
  "close_binding projectID taskID revision fromStatus toStatus at prev final \<longleftrightarrow>
     ta_ID prev = taskID \<and> ta_ProjectID prev = projectID \<and> ta_ID final = taskID \<and> ta_ProjectID final = projectID
     \<and> ta_Revision prev = revision \<and> ta_Revision final = revision \<and> ta_Status prev = fromStatus
     \<and> ta_Status final = toStatus \<and> ta_ReadySeal final = None
     \<and> ta_RevisionSHA256 final = ta_RevisionSHA256 prev \<and> gt_ns (ta_UpdatedAt final) = gt_ns at"

definition completion_request_checks :: "CommitTaskCompletionRequest \<Rightarrow> error" where
  "completion_request_checks rq = first_error
     [ValidateProjectIdentifier (cq_ProjectID rq), ValidateCanonicalTaskID (cq_TaskID rq),
      fail_if (cq_OperationID rq = '''' \<or> cq_Revision rq < 1 \<or> cq_PreviousTaskPayload rq = ''''
          \<or> cq_TaskPayload rq = '''' \<or> cq_Contract rq = '''') ''invalid task completion identities'',
      fail_if (cq_ContractSHA256 rq \<noteq> sha256_hex (cq_Contract rq)) ''invalid task completion contract digest'',
      fail_if (cq_OperationID rq \<noteq>
          ''task-complete-'' @ contract_digest (cq_ProjectID rq) (cq_TaskID rq) (cq_Contract rq))
        ''invalid task completion operation identity'',
      fail_if (cq_FromStatus rq \<noteq> Planned \<and> cq_FromStatus rq \<noteq> Ready) ''invalid task completion source status'',
      fail_if (\<not> bounded_text 256 (cq_Actor rq)) ''invalid task completion actor'',
      fail_if (\<not> bounded_text 1024 (cq_Reason rq)) ''invalid task completion reason'',
      fail_if (IsZero (cq_RecordedAt rq)) ''invalid task completion time'',
      fail_if ((cq_PreviousExecution rq = None) \<noteq> (cq_FinalExecution rq = None))
        ''task completion execution state must be supplied in pairs'']"

definition execution_step_checks ::
  "CommitTaskCompletionRequest \<Rightarrow> TaskAuthoring \<Rightarrow> TaskExecutionState \<Rightarrow> TaskExecutionState \<Rightarrow> error" where
  "execution_step_checks rq prevTask prev final = first_error
     [ValidateTaskExecutionState prev, ValidateTaskExecutionState final,
      fail_if (xs_Status prev \<noteq> ''integrated'' \<or> xs_Status final \<noteq> ''done''
          \<or> xs_ExecutionRevision final \<noteq> xs_ExecutionRevision prev + 1
          \<or> xs_ProjectID prev \<noteq> cq_ProjectID rq \<or> xs_TaskID prev \<noteq> cq_TaskID rq
          \<or> xs_ProjectID final \<noteq> xs_ProjectID prev \<or> xs_TaskID final \<noteq> xs_TaskID prev
          \<or> xs_TaskRevision prev \<noteq> ta_Revision prevTask
          \<or> xs_TaskRevisionSHA256 prev \<noteq> ta_RevisionSHA256 prevTask
          \<or> gt_ns (xs_UpdatedAt final) \<noteq> gt_ns (cq_RecordedAt rq))
        ''task completion must only transition the exact previous integrated execution state to done'',
      fail_if (final \<noteq> prev\<lparr>xs_Status := ''done'', xs_ExecutionRevision := xs_ExecutionRevision prev + 1,
                             xs_UpdatedAt := to_utc (cq_RecordedAt rq)\<rparr>)
        ''task completion execution state drifts beyond the done transition'']"

definition completion_payload_checks :: "CommitTaskCompletionRequest \<Rightarrow> error" where
  "completion_payload_checks rq =
     (case decode_task (cq_PreviousTaskPayload rq) of
        None \<Rightarrow> Some ''invalid previous Task payload''
      | Some prev \<Rightarrow>
          (case decode_task (cq_TaskPayload rq) of
             None \<Rightarrow> Some ''invalid Task payload''
           | Some final \<Rightarrow> first_error
               [ValidateTaskAuthoring prev, ValidateTaskAuthoring final,
                fail_if (\<not> close_binding (cq_ProjectID rq) (cq_TaskID rq) (cq_Revision rq) (cq_FromStatus rq) Done
                    (cq_RecordedAt rq) prev final) ''invalid task completion payload binding'',
                fail_if (final \<noteq> closed_task prev Done (cq_RecordedAt rq))
                  ''task completion payload drifts beyond the done transition'',
                (case (cq_PreviousExecution rq, cq_FinalExecution rq) of
                   (Some p, Some f) \<Rightarrow> execution_step_checks rq prev p f
                 | _ \<Rightarrow> None)]))"

definition sameTaskExecutionState :: "TaskExecutionState \<Rightarrow> TaskExecutionState \<Rightarrow> bool" where
  "sameTaskExecutionState a b \<longleftrightarrow> xs_TaskID a = xs_TaskID b \<and> xs_ProjectID a = xs_ProjectID b
     \<and> same_execution a b \<and> gt_ns (xs_UpdatedAt a) = gt_ns (xs_UpdatedAt b)"

text \<open>The row that \<open>completeTaskExecutionState\<close> may change, and the three columns it sets.\<close>

definition previous_row :: "TaskExecutionState \<Rightarrow> execution_row \<Rightarrow> bool" where
  "previous_row s r \<longleftrightarrow> r = row_of_state s"

definition final_row :: "TaskExecutionState \<Rightarrow> execution_row \<Rightarrow> execution_row" where
  "final_row s r = r\<lparr>xr_status := xs_Status s, xr_execution_revision := xs_ExecutionRevision s,
     xr_updated_at := rfc3339_nano (to_utc (xs_UpdatedAt s))\<rparr>"

definition completeTaskExecutionState :: "driver \<Rightarrow> TaskExecutionState \<Rightarrow> TaskExecutionState \<Rightarrow> unit io" where
  "completeTaskExecutionState dv previous final =
     io_bind (ReadTaskExecutionState dv (xs_ProjectID previous) (xs_TaskID previous)) (\<lambda>current.
       case current of
         None \<Rightarrow> io_error ''Task completion Local execution state is missing''
       | Some s \<Rightarrow>
           if sameTaskExecutionState s final then io_return ()
           else if \<not> sameTaskExecutionState s previous
             then io_error ''Task completion Local execution state changed concurrently''
           else io_bind (io_exec_rows dv (alter_execution (xs_ProjectID previous) (xs_TaskID previous)
                  (previous_row previous) (final_row final))) (\<lambda>affected.
             if affected \<noteq> 1 then io_error ''Task completion Local execution state changed concurrently''
             else io_return ()))"

definition taskLifecycleChangedFields :: "string \<Rightarrow> string list" where
  "taskLifecycleChangedFields fromStatus = ''status'' # (if fromStatus = Ready then [''ready_seal''] else [])"

definition completion_event :: "CommitTaskCompletionRequest \<Rightarrow> SharedLifecycleEventRequest" where
  "completion_event rq =
     \<lparr>eq_OperationID = cq_OperationID rq, eq_EntityType = ''task'', eq_ProjectID = cq_ProjectID rq,
      eq_EntityID = cq_TaskID rq, eq_ExpectedRevision = cq_Revision rq, eq_ExpectedStoreRevision = cq_Revision rq,
      eq_ExpectedPayload = cq_PreviousTaskPayload rq, eq_Revision = cq_Revision rq, eq_Kind = ''task-complete'',
      eq_EventKind = ''status'', eq_HistoryMutationKind = ''complete'', eq_FromStatus = cq_FromStatus rq,
      eq_ToStatus = Done, eq_Payload = cq_TaskPayload rq, eq_Actor = cq_Actor rq, eq_Reason = cq_Reason rq,
      eq_ChangedFields = taskLifecycleChangedFields (cq_FromStatus rq), eq_Contract = cq_Contract rq,
      eq_CreatedAt = cq_RecordedAt rq, eq_PreviousHistory = None, eq_ExtraStatements = []\<rparr>"

definition CommitTaskCompletion :: "driver \<Rightarrow> CommitTaskCompletionRequest \<Rightarrow> unit io" where
  "CommitTaskCompletion dv rq =
     (if \<not> dv_Shared dv then io_error ''shared store is unavailable''
      else io_check (completion_request_checks rq) (io_check (completion_payload_checks rq)
        (io_bind (CommitSharedLifecycleEvent dv (completion_event rq)) (\<lambda>_.
          case (cq_PreviousExecution rq, cq_FinalExecution rq) of
            (Some previous, Some final) \<Rightarrow> completeTaskExecutionState dv previous final
          | _ \<Rightarrow> io_return ()))))"

section \<open>Archiving a task\<close>

record CommitTaskArchiveRequest =
  aq_OperationID :: string
  aq_ProjectID :: string
  aq_TaskID :: string
  aq_Revision :: int
  aq_PreviousTaskPayload :: string
  aq_TaskPayload :: string
  aq_FromStatus :: string
  aq_Actor :: string
  aq_Reason :: string
  aq_Contract :: string
  aq_RecordedAt :: gotime

definition archive_request_checks :: "CommitTaskArchiveRequest \<Rightarrow> error" where
  "archive_request_checks rq = first_error
     [ValidateProjectIdentifier (aq_ProjectID rq), ValidateCanonicalTaskID (aq_TaskID rq),
      fail_if (aq_OperationID rq = '''' \<or> aq_Revision rq < 1 \<or> aq_PreviousTaskPayload rq = ''''
          \<or> aq_TaskPayload rq = '''' \<or> aq_Contract rq = '''') ''invalid task archive identities'',
      fail_if (aq_OperationID rq \<noteq>
          ''task-archive-'' @ contract_digest (aq_ProjectID rq) (aq_TaskID rq) (aq_Contract rq))
        ''invalid task archive operation identity'',
      fail_if (aq_FromStatus rq \<noteq> Planned \<and> aq_FromStatus rq \<noteq> Ready \<and> aq_FromStatus rq \<noteq> Done)
        ''invalid task archive source status'',
      fail_if (\<not> bounded_text 256 (aq_Actor rq)) ''invalid task archive actor'',
      fail_if (\<not> validSharedHistoryReason (aq_Reason rq) \<or> 1024 < rune_count (aq_Reason rq))
        ''invalid task archive reason'',
      fail_if (IsZero (aq_RecordedAt rq)) ''invalid task archive time'']"

definition archive_payload_checks :: "CommitTaskArchiveRequest \<Rightarrow> error" where
  "archive_payload_checks rq =
     (case decode_task (aq_PreviousTaskPayload rq) of
        None \<Rightarrow> Some ''invalid previous Task payload''
      | Some prev \<Rightarrow>
          (case decode_task (aq_TaskPayload rq) of
             None \<Rightarrow> Some ''invalid Task payload''
           | Some final \<Rightarrow> first_error
               [ValidateTaskAuthoring prev, ValidateTaskAuthoring final,
                fail_if (\<not> close_binding (aq_ProjectID rq) (aq_TaskID rq) (aq_Revision rq) (aq_FromStatus rq) Archived
                    (aq_RecordedAt rq) prev final) ''invalid task archive payload binding'',
                fail_if (final \<noteq> closed_task prev Archived (aq_RecordedAt rq))
                  ''task archive payload drifts beyond the archived transition'']))"

definition archive_event :: "CommitTaskArchiveRequest \<Rightarrow> SharedLifecycleEventRequest" where
  "archive_event rq =
     \<lparr>eq_OperationID = aq_OperationID rq, eq_EntityType = ''task'', eq_ProjectID = aq_ProjectID rq,
      eq_EntityID = aq_TaskID rq, eq_ExpectedRevision = aq_Revision rq, eq_ExpectedStoreRevision = aq_Revision rq,
      eq_ExpectedPayload = aq_PreviousTaskPayload rq, eq_Revision = aq_Revision rq, eq_Kind = ''task-archive'',
      eq_EventKind = ''archive'', eq_HistoryMutationKind = ''archive'', eq_FromStatus = aq_FromStatus rq,
      eq_ToStatus = Archived, eq_Payload = aq_TaskPayload rq, eq_Actor = aq_Actor rq, eq_Reason = aq_Reason rq,
      eq_ChangedFields = taskLifecycleChangedFields (aq_FromStatus rq), eq_Contract = aq_Contract rq,
      eq_CreatedAt = aq_RecordedAt rq, eq_PreviousHistory = None, eq_ExtraStatements = []\<rparr>"

definition CommitTaskArchive :: "driver \<Rightarrow> CommitTaskArchiveRequest \<Rightarrow> unit io" where
  "CommitTaskArchive dv rq =
     (if \<not> dv_Shared dv then io_error ''shared store is unavailable''
      else io_check (archive_request_checks rq) (io_check (archive_payload_checks rq)
        (io_bind (CommitSharedLifecycleEvent dv (archive_event rq)) (\<lambda>_. io_return ()))))"

end
