(* ===== verification/Gateway_World.thy ===== *)
theory Gateway_World
  imports Task_Completion
begin

text \<open>
  What the service layer (\<open>internal/service\<close>) asks of the rest of the gateway while it moves a task
  through its execution: the clock, Git (\<open>internal/gitx\<close> runs the \<open>git\<close> program), the project
  configuration, the registry of agents and their sessions, procedure hooks and the queue of durable
  operations. Each is a field of \<open>world\<close>, an arbitrary answer that may be different at every access,
  so what is proved holds whatever Git, agents and hooks do.

  The mutexes of the service serialise its operations within one process; other writers of the
  databases act, as everywhere, through the driver before every access.
\<close>

record project_config =
  pc_Root :: string
  pc_DefaultBranch :: string
  pc_ProjectCode :: string

text \<open>The fields of \<open>RuntimeRoleSession\<close> that the execution code reads.\<close>

record role_session =
  rw_AgentID :: string
  rw_SessionID :: string
  rw_RuntimeState :: string
  rw_ControllerReachable :: bool

record lane_head =
  lh_Head :: string
  lh_Branch :: string
  lh_Clean :: bool

record verificationGateSnapshot =
  gs_head :: string
  gs_branch :: string
  gs_tree :: string
  gs_contentID :: string
  gs_clean :: bool

datatype push_error = ExpectedOldMismatch string | PushFailure string

datatype reconcile_error = ReconcileConflict string string | ReconcileFailure string

record git =
  g_RefreshDefaultBranch :: "nat \<Rightarrow> project_config \<Rightarrow> string result"
  g_CreateTaskWorktree :: "nat \<Rightarrow> project_config \<Rightarrow> TaskAuthoring \<Rightarrow> string \<Rightarrow> int \<Rightarrow> (project_config \<times> string) result"
  g_RemoveTaskWorktree :: "nat \<Rightarrow> project_config \<Rightarrow> string \<Rightarrow> error"
  g_RemoveTaskWorktreeAfterIntegration :: "nat \<Rightarrow> project_config \<Rightarrow> TaskExecutionState \<Rightarrow> error"
  g_RemoveTaskWorktreeForReset :: "nat \<Rightarrow> project_config \<Rightarrow> string \<Rightarrow> string \<Rightarrow> string \<Rightarrow> error"
  g_CurrentHead :: "nat \<Rightarrow> project_config \<Rightarrow> lane_head result"
  g_CommitCandidate :: "nat \<Rightarrow> project_config \<Rightarrow> string \<Rightarrow> string result"
  g_TreeID :: "nat \<Rightarrow> project_config \<Rightarrow> string result"
  g_CommitTree :: "nat \<Rightarrow> project_config \<Rightarrow> string \<Rightarrow> string result"
  g_IsAncestor :: "nat \<Rightarrow> string \<Rightarrow> string \<Rightarrow> string \<Rightarrow> bool result"
  g_RemoteLaneHead :: "nat \<Rightarrow> project_config \<Rightarrow> string \<Rightarrow> (string \<times> bool) result"
  g_RemoteBranchHead :: "nat \<Rightarrow> project_config \<Rightarrow> string \<Rightarrow> string result"
  g_PushTaskLaneCAS :: "nat \<Rightarrow> project_config \<Rightarrow> string \<Rightarrow> string \<Rightarrow> string \<Rightarrow> push_error option"
  g_MaterializeRemoteBranchObjects :: "nat \<Rightarrow> project_config \<Rightarrow> string \<Rightarrow> error"
  g_MaterializeMirrorCommit :: "nat \<Rightarrow> project_config \<Rightarrow> string \<Rightarrow> string \<Rightarrow> error"
  g_MergeBaseInWorktree :: "nat \<Rightarrow> string \<Rightarrow> string \<Rightarrow> string \<Rightarrow> string result"
  g_ReconcileTaskLane :: "nat \<Rightarrow> project_config \<Rightarrow> string \<Rightarrow> string \<Rightarrow> reconcile_error + string"
  g_TaskRebaseInProgress :: "nat \<Rightarrow> project_config \<Rightarrow> bool result"
  g_LaneDirectory :: "nat \<Rightarrow> project_config \<Rightarrow> bool option result"
  g_captureVerificationSnapshot :: "nat \<Rightarrow> project_config \<Rightarrow> verificationGateSnapshot result"
  g_InspectTaskIntegrationCommit :: "nat \<Rightarrow> project_config \<Rightarrow> string \<Rightarrow> (string \<times> string list) result"
  g_PrepareTaskIntegrationCommit :: "nat \<Rightarrow> project_config \<Rightarrow> string \<Rightarrow> string \<Rightarrow> string \<Rightarrow> string result"
  g_PushTaskIntegrationCAS :: "nat \<Rightarrow> project_config \<Rightarrow> string \<Rightarrow> string \<Rightarrow> string \<Rightarrow> string \<Rightarrow> push_error option"
  g_SyncTaskIntegrationCheckout :: "nat \<Rightarrow> project_config \<Rightarrow> string \<Rightarrow> string \<Rightarrow> error"

record world =
  w_git :: git
  w_now :: "nat \<Rightarrow> gotime"
  w_session :: string
  w_operation :: string
  w_planner :: error
  w_StateDir :: string
  w_EffectiveProjectConfig :: "nat \<Rightarrow> string \<Rightarrow> project_config result"
  w_ResolveProjectWorker :: "nat \<Rightarrow> string \<Rightarrow> role_session result"
  w_ResolveWorkerSession :: "nat \<Rightarrow> string \<Rightarrow> string \<Rightarrow> role_session result"
  w_ResolveAgent :: "nat \<Rightarrow> string \<Rightarrow> string \<Rightarrow> error"
  w_ProcedureHook :: "nat \<Rightarrow> string \<Rightarrow> error"
  w_VerifyHook :: "nat \<Rightarrow> string \<Rightarrow> string result"
  w_GateProfile :: "nat \<Rightarrow> string \<Rightarrow> (string list \<times> string) result"
  w_NoInFlightWorkerTurn :: "nat \<Rightarrow> TaskExecutionState \<Rightarrow> error"
  w_ResetOperations :: "nat \<Rightarrow> TaskExecutionState \<Rightarrow> error"
  w_VerifyInFlight :: "nat \<Rightarrow> string \<Rightarrow> string option"
  w_recordTrackTaskDispatch :: "nat \<Rightarrow> string \<Rightarrow> string \<Rightarrow> error"
  w_CompactGitFingerprint :: "nat \<Rightarrow> string \<Rightarrow> string \<Rightarrow> string result"
  w_FailHookAttempt :: "nat \<Rightarrow> string \<Rightarrow> error"
  w_cancelled :: "nat \<Rightarrow> error"

section \<open>Asking the world\<close>

definition io_ask :: "driver \<Rightarrow> (nat \<Rightarrow> 'a result) \<Rightarrow> 'a io" where
  "io_ask dv f = (\<lambda>(k, db). (map_sum Failure id (f k), Suc k, dv_others dv k db))"

definition io_tell :: "driver \<Rightarrow> (nat \<Rightarrow> error) \<Rightarrow> unit io" where
  "io_tell dv f = io_ask dv (\<lambda>k. case f k of None \<Rightarrow> Inr () | Some m \<Rightarrow> Inl m)"

definition io_know :: "driver \<Rightarrow> (nat \<Rightarrow> 'a) \<Rightarrow> 'a io" where
  "io_know dv f = io_ask dv (\<lambda>k. Inr (f k))"

definition io_require :: "bool \<Rightarrow> string \<Rightarrow> 'a io \<Rightarrow> 'a io" where
  "io_require c m k = (if c then k else io_error m)"

text \<open>\<open>if err != nil || ... { return fmt.Errorf(m) }\<close>: any error of the access becomes the one message.\<close>

definition io_replace :: "string \<Rightarrow> 'a io \<Rightarrow> 'a io" where
  "io_replace m a = io_bind (io_try a) (\<lambda>r. case r of Inl _ \<Rightarrow> io_error m | Inr x \<Rightarrow> io_return x)"

definition io_wrap :: "string \<Rightarrow> 'a io \<Rightarrow> 'a io" where
  "io_wrap p a = io_bind (io_try a) (\<lambda>r. case r of
     Inr x \<Rightarrow> io_return x | Inl (Failure m) \<Rightarrow> io_error (p @ m) | Inl e \<Rightarrow> io_fail e)"

text \<open>\<open>_ = call()\<close>: the error is dropped.\<close>

definition io_ignore :: "'a io \<Rightarrow> unit io" where
  "io_ignore a = io_bind (io_try a) (\<lambda>_. io_return ())"

definition no_durability :: "driver \<Rightarrow> bool" where
  "no_durability dv \<longleftrightarrow> \<not> dv_Shared dv \<and> \<not> dv_Local dv"

section \<open>Tasks as the service reads them\<close>

definition project_of :: "driver \<Rightarrow> world \<Rightarrow> string \<Rightarrow> project_config io" where
  "project_of dv w projectID = io_ask dv (\<lambda>k. w_EffectiveProjectConfig w k projectID)"

definition requireLocalTaskAuthoring :: "driver \<Rightarrow> world \<Rightarrow> string \<Rightarrow> unit io" where
  "requireLocalTaskAuthoring dv w projectID =
     io_check (ValidateProjectIdentifier projectID)
       (io_bind (io_wrap (''project '' @ go_quote projectID @ '' is not configured locally: '') (project_of dv w projectID))
         (\<lambda>_. io_return ()))"

definition DefaultTaskType_of :: "TaskAuthoring \<Rightarrow> TaskAuthoring" where
  "DefaultTaskType_of t = t\<lparr>ta_Type := DefaultTaskType (ta_Type t)\<rparr>"

definition readSharedTask :: "driver \<Rightarrow> string \<Rightarrow> string \<Rightarrow> TaskAuthoring io" where
  "readSharedTask dv projectID taskID =
     io_bind (ReadSharedTask dv taskID) (\<lambda>row.
       case decode_task (se_Payload row) of
         None \<Rightarrow> io_error (''decode shared task '' @ taskID)
       | Some t \<Rightarrow>
           io_require (ta_ProjectID t = projectID \<and> ta_ID t = taskID) ''shared task ownership mismatch''
           (io_check (ValidateTaskAuthoring t) (io_return (DefaultTaskType_of t))))"

text \<open>With Shared durability; the reading of the hub that older gateways used is not modelled.\<close>

definition TaskAuthoringRead :: "driver \<Rightarrow> world \<Rightarrow> string \<Rightarrow> string \<Rightarrow> TaskAuthoring io" where
  "TaskAuthoringRead dv w projectID taskID =
     io_check (ValidateProjectIdentifier projectID) (io_check (ValidateCanonicalTaskID taskID)
       (io_bind (requireLocalTaskAuthoring dv w projectID) (\<lambda>_. readSharedTask dv projectID taskID)))"

definition TaskLifecycleRead :: "driver \<Rightarrow> world \<Rightarrow> string \<Rightarrow> string \<Rightarrow> int \<Rightarrow> TaskAuthoring io" where
  "TaskLifecycleRead dv w projectID taskID revision =
     (if revision = 0 then TaskAuthoringRead dv w projectID taskID
      else io_bind (requireLocalTaskAuthoring dv w projectID) (\<lambda>_.
        io_bind (ReadSharedRevision dv ''task'' projectID taskID revision) (\<lambda>record.
          case decode_task (sr_Payload record) of
            None \<Rightarrow> io_error ''json: cannot unmarshal task revision''
          | Some t \<Rightarrow>
              io_require (ta_ID t = taskID \<and> ta_ProjectID t = projectID \<and> ta_Revision t = sr_Revision record)
                ''task revision identity mismatch''
              (io_check (ValidateTaskAuthoringRevision t (ta_Summary t = '''')) (io_return t)))))"

definition taskAuthoringReadForExecution :: "driver \<Rightarrow> world \<Rightarrow> string \<Rightarrow> string \<Rightarrow> TaskAuthoring io" where
  "taskAuthoringReadForExecution dv w projectID key =
     io_bind (TaskAuthoringRead dv w projectID key) (\<lambda>t.
       io_require (ta_Status t = Planned \<or> ta_Status t = Ready)
         (''Task is not dispatchable in status '' @ go_quote (ta_Status t))
       (io_check (ValidateTaskPriority (ta_Priority t) True)
       (io_require (HashTaskAuthoring t = Ok (ta_RevisionSHA256 t)) ''Task authoring revision hash is invalid''
         (io_return t))))"

definition validateFrozenTaskExecutionTask :: "driver \<Rightarrow> world \<Rightarrow> TaskExecutionState \<Rightarrow> unit io" where
  "validateFrozenTaskExecutionTask dv w s =
     io_bind (TaskLifecycleRead dv w (xs_ProjectID s) (xs_TaskID s) (xs_TaskRevision s)) (\<lambda>t.
       io_require (ta_Revision t = xs_TaskRevision s \<and> ta_RevisionSHA256 t = xs_TaskRevisionSHA256 s)
         ''Task authoring revision is not the frozen execution revision''
       (io_bind (TaskAuthoringRead dv w (xs_ProjectID s) (xs_TaskID s)) (\<lambda>current.
         io_require (ta_Revision current = xs_TaskRevision s \<and> ta_RevisionSHA256 current = xs_TaskRevisionSHA256 s)
           ''Task authoring revision changed during execution'' (io_return ()))))"

definition readExecutionForMutation :: "driver \<Rightarrow> world \<Rightarrow> string \<Rightarrow> string \<Rightarrow> TaskExecutionState option io" where
  "readExecutionForMutation dv w projectID key =
     (if no_durability dv then io_error ''shared durability is unavailable''
      else io_bind (ReadTaskExecutionState dv projectID key) (\<lambda>found.
        case found of
          None \<Rightarrow> io_return None
        | Some s \<Rightarrow> io_bind (validateFrozenTaskExecutionTask dv w s) (\<lambda>_. io_return (Some s))))"

text \<open>The state that an operation works on, or its error when there is none.\<close>

definition execution_for :: "driver \<Rightarrow> world \<Rightarrow> string \<Rightarrow> string \<Rightarrow> string \<Rightarrow> TaskExecutionState io" where
  "execution_for dv w projectID key missing =
     io_bind (readExecutionForMutation dv w projectID key) (\<lambda>found.
       case found of None \<Rightarrow> io_error missing | Some s \<Rightarrow> io_return s)"

section \<open>Lanes\<close>

definition TaskWorktreePath :: "string \<Rightarrow> string \<Rightarrow> string \<Rightarrow> string result" where
  "TaskWorktreePath stateDir projectID taskID =
     guard_result (first_error [ValidateProjectIdentifier projectID, ValidateCanonicalTaskID taskID,
         fail_if (stateDir = '''') ''Task worktree state directory is required''])
       (Ok (stateDir @ ''/task-worktrees/'' @ projectID @ ''/'' @ taskID))"

definition taskExecutionWorktree :: "string \<Rightarrow> string \<Rightarrow> string" where
  "taskExecutionWorktree key head =
     ''WT-TSK'' @ (case task_number key of None \<Rightarrow> drop 3 key | Some n \<Rightarrow> n) @ ''-'' @ head"

definition taskExecutionLane :: "driver \<Rightarrow> world \<Rightarrow> string \<Rightarrow> string \<Rightarrow> TaskExecutionState \<Rightarrow> project_config io" where
  "taskExecutionLane dv w projectID key s =
     io_require (xs_ProjectID s = projectID \<and> xs_TaskID s = key)
       ''Task lane authority does not match the requested project and Task''
     (io_require (ValidateCommitSHA (xs_Head s) = None \<and> ValidateBranch (xs_Branch s) = None
         \<and> xs_Worktree s = taskExecutionWorktree key (ascii_lower (take 8 (xs_Head s))))
       ''Task lane authority is invalid or stale''
     (io_bind (io_value (TaskWorktreePath (w_StateDir w) projectID key)) (\<lambda>path.
       io_bind (project_of dv w projectID) (\<lambda>project. io_return (project\<lparr>pc_Root := path\<rparr>)))))"

definition CurrentHead :: "driver \<Rightarrow> world \<Rightarrow> project_config \<Rightarrow> lane_head io" where
  "CurrentHead dv w lane = io_ask dv (\<lambda>k. g_CurrentHead (w_git w) k lane)"

section \<open>What a caller sees\<close>

record TaskExecutionVerificationPublic =
  vp_OperationID :: string
  vp_TaskRevision :: int
  vp_CandidateHead :: string
  vp_CandidateTree :: string
  vp_MainBase :: string
  vp_VerifiedAt :: string

record TaskExecutionPublicOutput =
  po_Key :: string
  po_Status :: string
  po_Stage :: string
  po_Worktree :: string
  po_Head :: string
  po_Agent :: string
  po_ExecutionRevision :: int
  po_Reason :: string
  po_UpdatedAt :: string
  po_Verification :: "TaskExecutionVerificationPublic option"

definition taskExecutionPublicOutput :: "driver \<Rightarrow> world \<Rightarrow> TaskExecutionState \<Rightarrow> TaskExecutionPublicOutput io" where
  "taskExecutionPublicOutput dv w s =
     io_bind (io_know dv (\<lambda>k. case w_CompactGitFingerprint w k (xs_ProjectID s) (xs_Head s) of
                                 Inl _ \<Rightarrow> '''' | Inr f \<Rightarrow> f)) (\<lambda>head. io_return
       \<lparr>po_Key = xs_TaskID s, po_Status = xs_Status s, po_Stage = xs_Stage s, po_Worktree = xs_Worktree s,
        po_Head = head, po_Agent = xs_Agent s, po_ExecutionRevision = xs_ExecutionRevision s, po_Reason = '''',
        po_UpdatedAt = rfc3339_nano (to_utc (xs_UpdatedAt s)), po_Verification = None\<rparr>)"

definition output_with_reason :: "driver \<Rightarrow> world \<Rightarrow> TaskExecutionState \<Rightarrow> string \<Rightarrow> TaskExecutionPublicOutput io" where
  "output_with_reason dv w s reason =
     io_bind (taskExecutionPublicOutput dv w s) (\<lambda>out. io_return (out\<lparr>po_Reason := reason\<rparr>))"

section \<open>One actionable task per agent\<close>

definition ensureWorkerActionableSlot :: "driver \<Rightarrow> string \<Rightarrow> string \<Rightarrow> string \<Rightarrow> unit io" where
  "ensureWorkerActionableSlot dv projectID agent excludedTaskID =
     io_bind (ListTaskExecutionStates dv projectID) (\<lambda>states.
       io_require (\<not> list_ex (\<lambda>other. xs_Agent other = agent \<and> xs_TaskID other \<noteq> excludedTaskID
           \<and> IsTaskExecutionAgentActionable (xs_Status other) (xs_Stage other)) states)
         (''logical Agent '' @ go_quote agent @ '' already has an actionable Task'') (io_return ()))"

end
