(* ===== verification/Task_Execution.thy ===== *)
theory Task_Execution
  imports Gateway_World
begin

text \<open>
  The operations of the service that move a task through its execution up to its verification:
  dispatch, submission, review and rework (\<open>task_execution_lifecycle.go\<close>, \<open>task_execution_review.go\<close>,
  \<open>task_execution_submit_publish.go\<close>, \<open>task_execution_review_ancestry.go\<close>), blocking and resuming
  (\<open>task_execution_block.go\<close>) and the controlled rebase (\<open>task_execution_reconcile.go\<close>), all of
  \<open>internal/service\<close>.
\<close>

section \<open>Phases of a state\<close>

definition new_phase ::
  "TaskExecutionState \<Rightarrow> string \<Rightarrow> string \<Rightarrow> string \<Rightarrow> TaskExecutionPhase" where
  "new_phase s kind decision comment =
     \<lparr>ph_ID = 0, ph_TaskID = xs_TaskID s, ph_ProjectID = xs_ProjectID s,
      ph_ExecutionRevision = xs_ExecutionRevision s, ph_Stage = xs_Stage s, ph_Status = xs_Status s,
      ph_Head = xs_Head s, ph_Branch = xs_Branch s, ph_TaskRevisionSHA256 = xs_TaskRevisionSHA256 s,
      ph_EventKind = kind, ph_Decision = decision, ph_Comment = comment, ph_CreatedAt = xs_UpdatedAt s\<rparr>"

text \<open>The next state of a task: its status and the revision and time that every step changes.\<close>

definition next_state :: "TaskExecutionState \<Rightarrow> string \<Rightarrow> gotime \<Rightarrow> TaskExecutionState" where
  "next_state s status now =
     s\<lparr>xs_Status := status, xs_ExecutionRevision := xs_ExecutionRevision s + 1, xs_UpdatedAt := to_utc now\<rparr>"

definition io_now :: "driver \<Rightarrow> world \<Rightarrow> gotime io" where
  "io_now dv w = io_know dv (w_now w)"

section \<open>Reset evidence\<close>

record taskExecutionResetEvidence =
  re_SchemaVersion :: int
  re_ProjectID :: string
  re_TaskID :: string
  re_TaskRevision :: int
  re_TaskRevisionSHA256 :: string
  re_ExecutionRevision :: int
  re_Status :: string
  re_Stage :: string
  re_Worktree :: string
  re_BaseHead :: string
  re_Head :: string
  re_Branch :: string
  re_Agent :: string
  re_Reason :: string

definition taskExecutionBlockReasonLimit :: nat where "taskExecutionBlockReasonLimit = 1024"

definition taskExecutionResettableStatus :: "string \<Rightarrow> bool" where
  "taskExecutionResettableStatus status \<longleftrightarrow>
     status = ''dispatched'' \<or> status = ''in_progress'' \<or> status = ''blocked''"

definition taskExecutionResetEvidenceFromState :: "TaskExecutionState \<Rightarrow> string \<Rightarrow> taskExecutionResetEvidence" where
  "taskExecutionResetEvidenceFromState s reason =
     \<lparr>re_SchemaVersion = 1, re_ProjectID = xs_ProjectID s, re_TaskID = xs_TaskID s,
      re_TaskRevision = xs_TaskRevision s, re_TaskRevisionSHA256 = xs_TaskRevisionSHA256 s,
      re_ExecutionRevision = xs_ExecutionRevision s, re_Status = xs_Status s, re_Stage = xs_Stage s,
      re_Worktree = xs_Worktree s, re_BaseHead = xs_BaseHead s, re_Head = xs_Head s, re_Branch = xs_Branch s,
      re_Agent = xs_Agent s, re_Reason = reason\<rparr>"

definition json_reset_evidence :: "taskExecutionResetEvidence \<Rightarrow> string" where
  "json_reset_evidence e = json_object
     (json_field ''schema_version'' (dec_int (re_SchemaVersion e))
      @ json_field ''project_id'' (json_string (re_ProjectID e))
      @ json_field ''task_id'' (json_string (re_TaskID e))
      @ json_field ''task_revision'' (dec_int (re_TaskRevision e))
      @ json_field ''task_revision_sha256'' (json_string (re_TaskRevisionSHA256 e))
      @ json_field ''execution_revision'' (dec_int (re_ExecutionRevision e))
      @ json_field ''status'' (json_string (re_Status e))
      @ json_field ''stage'' (json_string (re_Stage e))
      @ json_field ''worktree'' (json_string (re_Worktree e))
      @ json_field ''base_head'' (json_string (re_BaseHead e))
      @ json_field ''head'' (json_string (re_Head e))
      @ json_field ''branch'' (json_string (re_Branch e))
      @ json_field ''agent'' (json_string (re_Agent e))
      @ json_field ''reason'' (json_string (re_Reason e)))"

definition reset_evidence_fields :: "(string \<times> taskExecutionResetEvidence field_decoder) list" where
  "reset_evidence_fields =
     [(''schema_version'', dec_int64 (\<lambda>x r. r\<lparr>re_SchemaVersion := x\<rparr>)),
      (''project_id'', dec_string (\<lambda>x r. r\<lparr>re_ProjectID := x\<rparr>)),
      (''task_id'', dec_string (\<lambda>x r. r\<lparr>re_TaskID := x\<rparr>)),
      (''task_revision'', dec_int64 (\<lambda>x r. r\<lparr>re_TaskRevision := x\<rparr>)),
      (''task_revision_sha256'', dec_string (\<lambda>x r. r\<lparr>re_TaskRevisionSHA256 := x\<rparr>)),
      (''execution_revision'', dec_int64 (\<lambda>x r. r\<lparr>re_ExecutionRevision := x\<rparr>)),
      (''status'', dec_string (\<lambda>x r. r\<lparr>re_Status := x\<rparr>)),
      (''stage'', dec_string (\<lambda>x r. r\<lparr>re_Stage := x\<rparr>)),
      (''worktree'', dec_string (\<lambda>x r. r\<lparr>re_Worktree := x\<rparr>)),
      (''base_head'', dec_string (\<lambda>x r. r\<lparr>re_BaseHead := x\<rparr>)),
      (''head'', dec_string (\<lambda>x r. r\<lparr>re_Head := x\<rparr>)),
      (''branch'', dec_string (\<lambda>x r. r\<lparr>re_Branch := x\<rparr>)),
      (''agent'', dec_string (\<lambda>x r. r\<lparr>re_Agent := x\<rparr>)),
      (''reason'', dec_string (\<lambda>x r. r\<lparr>re_Reason := x\<rparr>))]"

definition zero_reset_evidence :: taskExecutionResetEvidence where
  "zero_reset_evidence = \<lparr>re_SchemaVersion = 0, re_ProjectID = [], re_TaskID = [], re_TaskRevision = 0,
     re_TaskRevisionSHA256 = [], re_ExecutionRevision = 0, re_Status = [], re_Stage = [], re_Worktree = [],
     re_BaseHead = [], re_Head = [], re_Branch = [], re_Agent = [], re_Reason = []\<rparr>"

definition validateTaskExecutionResetEvidence :: "taskExecutionResetEvidence \<Rightarrow> error" where
  "validateTaskExecutionResetEvidence e =
     fail_if (re_SchemaVersion e \<noteq> 1 \<or> ValidateProjectIdentifier (re_ProjectID e) \<noteq> None
         \<or> ValidateCanonicalTaskID (re_TaskID e) \<noteq> None \<or> re_TaskRevision e < 1
         \<or> ValidateSHA256 (re_TaskRevisionSHA256 e) \<noteq> None \<or> re_ExecutionRevision e < 1
         \<or> \<not> taskExecutionResettableStatus (re_Status e) \<or> re_Stage e \<noteq> ''code''
         \<or> ValidateCommitSHA (re_BaseHead e) \<noteq> None \<or> re_Head e \<noteq> re_BaseHead e
         \<or> ValidateBranch (re_Branch e) \<noteq> None \<or> \<not> HasPrefix (re_Branch e) (''task/'' @ re_TaskID e @ ''-'')
         \<or> re_Worktree e \<noteq> taskExecutionWorktree (re_TaskID e) (ascii_lower (take 8 (re_Head e)))
         \<or> ValidateObjectIdentifier (re_Agent e) \<noteq> None \<or> re_Reason e = '''' \<or> TrimSpace (re_Reason e) \<noteq> re_Reason e
         \<or> List.member (re_Reason e) nul \<or> taskExecutionBlockReasonLimit < rune_count (re_Reason e))
       ''invalid Task execution reset evidence''"

definition decodeTaskExecutionResetEvidence :: "string \<Rightarrow> taskExecutionResetEvidence result" where
  "decodeTaskExecutionResetEvidence comment =
     (case json_Unmarshal reset_evidence_fields zero_reset_evidence comment of
        None \<Rightarrow> Err ''invalid Task execution reset evidence''
      | Some e \<Rightarrow> guard_result (first_error
          [fail_if (json_reset_evidence e \<noteq> comment) ''noncanonical Task execution reset evidence'',
           validateTaskExecutionResetEvidence e]) (Ok e))"

definition reset_phase_binds :: "TaskExecutionPhase \<Rightarrow> taskExecutionResetEvidence \<Rightarrow> bool" where
  "reset_phase_binds p e \<longleftrightarrow>
     (ph_EventKind p = ''reset_start'' \<or> ph_EventKind p = ''reset'') \<and> ph_ProjectID p = re_ProjectID e
     \<and> ph_TaskID p = re_TaskID e
     \<and> ph_ExecutionRevision p = re_ExecutionRevision e + (if ph_EventKind p = ''reset'' then 2 else 1)
     \<and> ph_Stage p = ''code'' \<and> ph_Status p = (if ph_EventKind p = ''reset'' then ''abandoned'' else ''resetting'')
     \<and> ph_Head p = re_Head e \<and> ph_Branch p = re_Branch e
     \<and> ph_TaskRevisionSHA256 p = re_TaskRevisionSHA256 e \<and> ph_Decision p = re_Status e"

definition validateTaskExecutionResetPhase :: "TaskExecutionPhase \<Rightarrow> taskExecutionResetEvidence result" where
  "validateTaskExecutionResetPhase p =
     (case decodeTaskExecutionResetEvidence (ph_Comment p) of
        Inl m \<Rightarrow> Err m
      | Inr e \<Rightarrow> guard_result (fail_if (\<not> reset_phase_binds p e)
                   ''Task execution reset phase does not match its evidence'') (Ok e))"

definition taskExecutionResetEvidenceBindsState ::
  "taskExecutionResetEvidence \<Rightarrow> TaskExecutionState \<Rightarrow> string \<Rightarrow> bool" where
  "taskExecutionResetEvidenceBindsState e s status \<longleftrightarrow>
     xs_ProjectID s = re_ProjectID e \<and> xs_TaskID s = re_TaskID e \<and> xs_TaskRevision s = re_TaskRevision e
     \<and> xs_TaskRevisionSHA256 s = re_TaskRevisionSHA256 e
     \<and> xs_ExecutionRevision s = re_ExecutionRevision e
         + (if status = ''resetting'' then 1 else if status = ''abandoned'' then 2 else 0)
     \<and> xs_Status s = status \<and> xs_Stage s = re_Stage e \<and> xs_Worktree s = re_Worktree e
     \<and> xs_BaseHead s = re_BaseHead e \<and> xs_Head s = re_Head e \<and> xs_Branch s = re_Branch e \<and> xs_Agent s = re_Agent e"

definition validateTaskExecutionResetTerminalState :: "driver \<Rightarrow> TaskExecutionState \<Rightarrow> unit io" where
  "validateTaskExecutionResetTerminalState dv s =
     io_bind (ReadLatestTaskExecutionResetPhase dv (xs_ProjectID s) (xs_TaskID s)) (\<lambda>found.
       case found of
         None \<Rightarrow> io_error ''Task execution has no matching completed reset receipt''
       | Some p \<Rightarrow>
           io_require (ph_EventKind p = ''reset'' \<and> ph_ExecutionRevision p = xs_ExecutionRevision s)
             ''Task execution has no matching completed reset receipt''
           (case validateTaskExecutionResetPhase p of
              Inl _ \<Rightarrow> io_error ''Task reset receipt does not match its retired execution''
            | Inr e \<Rightarrow> io_require (taskExecutionResetEvidenceBindsState e s ''abandoned'')
                ''Task reset receipt does not match its retired execution'' (io_return ())))"

section \<open>Dispatch\<close>

definition resolveTaskExecutionAgent :: "driver \<Rightarrow> world \<Rightarrow> string \<Rightarrow> string \<Rightarrow> string io" where
  "resolveTaskExecutionAgent dv w projectID requested =
     io_bind (io_ask dv (\<lambda>k. w_ResolveProjectWorker w k projectID)) (\<lambda>worker.
       io_require (requested = '''' \<or> requested = rw_AgentID worker)
         ''requested Agent is not the project's attached Worker'' (io_return (rw_AgentID worker)))"

record TaskExecutionDispatchInput =
  di_ProjectID :: string
  di_Key :: string
  di_Agent :: string

text \<open>What the stored state says: nothing stored, a completed reset to start again from, or the answer.\<close>

datatype dispatch_start = Fresh | Again TaskExecutionState | Already TaskExecutionState

definition dispatch_state :: "driver \<Rightarrow> TaskExecutionDispatchInput \<Rightarrow> dispatch_start io" where
  "dispatch_state dv i =
     io_bind (ReadTaskExecutionState dv (di_ProjectID i) (di_Key i)) (\<lambda>found.
       case found of
         Some existing \<Rightarrow>
           if xs_Status existing = ''abandoned''
           then io_bind (validateTaskExecutionResetTerminalState dv existing) (\<lambda>_. io_return (Again existing))
           else if xs_Status existing = ''resetting'' then io_error ''Task execution reset is incomplete''
           else io_require (di_Agent i = '''' \<or> xs_Agent existing = di_Agent i)
                  (''Task is already dispatched to logical Agent '' @ go_quote (xs_Agent existing))
                  (io_return (Already existing))
       | None \<Rightarrow>
           io_bind (ReadLatestTaskExecutionResetPhase dv (di_ProjectID i) (di_Key i)) (\<lambda>phase.
             io_require (phase = None) ''Task reset history exists without current execution state''
               (io_return Fresh)))"

text \<open>After a failed write: the state another writer created meanwhile, or the lane is removed again.\<close>

definition undo_dispatch :: "driver \<Rightarrow> world \<Rightarrow> TaskExecutionDispatchInput \<Rightarrow> project_config
    \<Rightarrow> TaskExecutionState option \<Rightarrow> TaskExecutionState \<Rightarrow> store_error \<Rightarrow> TaskExecutionPublicOutput io" where
  "undo_dispatch dv w i project previous s e =
     io_bind (io_ignore (io_tell dv (\<lambda>k. case previous of
         None \<Rightarrow> g_RemoveTaskWorktree (w_git w) k project (di_Key i)
       | Some _ \<Rightarrow> g_RemoveTaskWorktreeAfterIntegration (w_git w) k project s))) (\<lambda>_. io_fail e)"

definition persist_dispatch :: "driver \<Rightarrow> world \<Rightarrow> TaskExecutionDispatchInput \<Rightarrow> project_config
    \<Rightarrow> TaskExecutionState option \<Rightarrow> TaskExecutionState \<Rightarrow> TaskExecutionPublicOutput io" where
  "persist_dispatch dv w i project previous s =
     io_bind (io_try (case previous of
                        None \<Rightarrow> CreateTaskExecutionState dv s
                      | Some p \<Rightarrow> UpdateTaskExecutionState dv s (xs_ExecutionRevision p))) (\<lambda>r.
       case r of
         Inr _ \<Rightarrow>
           io_bind (io_tell dv (\<lambda>k. w_recordTrackTaskDispatch w k (di_ProjectID i) (di_Key i))) (\<lambda>_.
             taskExecutionPublicOutput dv w s)
       | Inl e \<Rightarrow>
           io_bind (io_try (ReadTaskExecutionState dv (di_ProjectID i) (di_Key i))) (\<lambda>again.
             case again of
               Inr (Some existing) \<Rightarrow>
                 if xs_ExecutionRevision s < xs_ExecutionRevision existing
                 then taskExecutionPublicOutput dv w existing
                 else undo_dispatch dv w i project previous s e
             | _ \<Rightarrow> undo_dispatch dv w i project previous s e))"

definition dispatch_lane :: "driver \<Rightarrow> world \<Rightarrow> TaskExecutionDispatchInput \<Rightarrow> TaskAuthoring
    \<Rightarrow> TaskExecutionState option \<Rightarrow> TaskExecutionPublicOutput io" where
  "dispatch_lane dv w i task previous =
     io_bind (resolveTaskExecutionAgent dv w (di_ProjectID i) (di_Agent i)) (\<lambda>agent.
     io_bind (ensureWorkerActionableSlot dv (di_ProjectID i) agent (di_Key i)) (\<lambda>_.
     io_bind (project_of dv w (di_ProjectID i)) (\<lambda>project.
     io_bind (io_ask dv (\<lambda>k. g_RefreshDefaultBranch (w_git w) k project)) (\<lambda>base.
     let revision = (case previous of None \<Rightarrow> 1 | Some p \<Rightarrow> xs_ExecutionRevision p + 1) in
     io_bind (io_ask dv (\<lambda>k. wrap_result ''create Task worktree: ''
                (g_CreateTaskWorktree (w_git w) k project task base revision))) (\<lambda>(lane, branch).
     io_bind (io_try (CurrentHead dv w lane)) (\<lambda>head.
       case head of
         Inr h \<Rightarrow>
           if lh_Clean h \<and> lh_Branch h = branch \<and> lh_Head h = base
           then io_bind (io_now dv w) (\<lambda>now. persist_dispatch dv w i project previous
             \<lparr>xs_TaskID = di_Key i, xs_ProjectID = di_ProjectID i, xs_Status = ''dispatched'', xs_Stage = ''code'',
              xs_Worktree = taskExecutionWorktree (di_Key i) (ascii_lower (take 8 base)), xs_BaseHead = base,
              xs_Head = lh_Head h, xs_Branch = branch, xs_TaskRevision = ta_Revision task,
              xs_TaskRevisionSHA256 = ta_RevisionSHA256 task, xs_Agent = agent,
              xs_ExecutionRevision = revision, xs_UpdatedAt = to_utc now\<rparr>)
           else io_bind (io_ignore (io_tell dv (\<lambda>k. g_RemoveTaskWorktree (w_git w) k project (di_Key i))))
                  (\<lambda>_. io_error ''created Task worktree failed identity validation'')
       | Inl _ \<Rightarrow> io_bind (io_ignore (io_tell dv (\<lambda>k. g_RemoveTaskWorktree (w_git w) k project (di_Key i))))
                  (\<lambda>_. io_error ''created Task worktree failed identity validation'')))))))"

definition TaskExecutionDispatch ::
  "driver \<Rightarrow> world \<Rightarrow> TaskExecutionDispatchInput \<Rightarrow> TaskExecutionPublicOutput io" where
  "TaskExecutionDispatch dv w i =
     (if no_durability dv then io_error ''shared durability is unavailable''
      else io_check (ValidateProjectIdentifier (di_ProjectID i)) (io_check (ValidateCanonicalTaskID (di_Key i))
        (io_bind (taskAuthoringReadForExecution dv w (di_ProjectID i) (di_Key i)) (\<lambda>task.
          io_bind (dispatch_state dv i) (\<lambda>start.
            case start of
              Already existing \<Rightarrow> taskExecutionPublicOutput dv w existing
            | Fresh \<Rightarrow> dispatch_lane dv w i task None
            | Again previous \<Rightarrow> dispatch_lane dv w i task (Some previous))))))"

section \<open>Submission\<close>

text \<open>The head of the latest submission on a branch over the three stages, \<open>""\<close> before the first.\<close>

definition submitted_head :: "string \<Rightarrow> TaskExecutionPhase list \<Rightarrow> string \<times> int \<Rightarrow> string \<times> int" where
  "submitted_head branch phases start = fold (\<lambda>p (expected, revision).
     if ph_EventKind p \<noteq> ''submission'' \<or> ph_Branch p \<noteq> branch then (expected, revision)
     else if revision \<le> ph_ExecutionRevision p then (ph_Head p, ph_ExecutionRevision p)
     else (expected, revision)) phases start"

definition taskSubmissionExpectedRemoteHead :: "driver \<Rightarrow> string \<Rightarrow> string \<Rightarrow> string \<Rightarrow> string io" where
  "taskSubmissionExpectedRemoteHead dv projectID key branch =
     io_bind (ReadTaskExecutionPhases dv projectID key ''code'') (\<lambda>code.
     io_bind (ReadTaskExecutionPhases dv projectID key ''tests'') (\<lambda>tests.
     io_bind (ReadTaskExecutionPhases dv projectID key ''rebase'') (\<lambda>rebase.
       io_return (fst (submitted_head branch rebase (submitted_head branch tests (submitted_head branch code ('''', 0))))))))"

definition verifyTaskSubmissionLane ::
  "driver \<Rightarrow> world \<Rightarrow> project_config \<Rightarrow> string \<Rightarrow> string \<Rightarrow> string \<Rightarrow> unit io" where
  "verifyTaskSubmissionLane dv w project branch candidate candidateTree =
     io_bind (io_ask dv (\<lambda>k. g_RemoteLaneHead (w_git w) k project branch)) (\<lambda>(remote, remoteExists).
     io_require (remoteExists \<and> remote = candidate) ''origin Task lane did not advance to the submitted head''
     (io_bind (io_tell dv (\<lambda>k. g_MaterializeRemoteBranchObjects (w_git w) k project branch)) (\<lambda>_.
      io_bind (io_ask dv (\<lambda>k. wrap_result ''origin Task lane commit is unavailable: ''
                 (g_CommitTree (w_git w) k project candidate))) (\<lambda>tree.
      io_require (tree = candidateTree) ''origin Task lane tree does not match the submitted candidate''
        (io_return ())))))"

text \<open>An error of the push is forgiven when the lane turns out to hold the candidate, save a lost lease.\<close>

definition push_lane :: "driver \<Rightarrow> world \<Rightarrow> project_config \<Rightarrow> string \<Rightarrow> string \<Rightarrow> string \<Rightarrow> unit io" where
  "push_lane dv w project branch remote candidate =
     io_bind (io_know dv (\<lambda>k. g_PushTaskLaneCAS (w_git w) k project branch remote candidate)) (\<lambda>pushed.
       case pushed of
         None \<Rightarrow> io_return ()
       | Some (ExpectedOldMismatch m) \<Rightarrow> io_error m
       | Some (PushFailure m) \<Rightarrow>
           io_bind (io_try (io_ask dv (\<lambda>k. g_RemoteLaneHead (w_git w) k project branch))) (\<lambda>probe.
             case probe of
               Inr (head, _) \<Rightarrow> io_require (head = candidate) m (io_return ())
             | Inl _ \<Rightarrow> io_error m))"

definition publishTaskSubmissionLane :: "driver \<Rightarrow> world \<Rightarrow> project_config \<Rightarrow> project_config
    \<Rightarrow> TaskExecutionState \<Rightarrow> string \<Rightarrow> string \<Rightarrow> unit io" where
  "publishTaskSubmissionLane dv w project lane s candidate candidateTree =
     io_bind (taskSubmissionExpectedRemoteHead dv (xs_ProjectID s) (xs_TaskID s) (xs_Branch s)) (\<lambda>expected.
     io_bind (io_ask dv (\<lambda>k. g_RemoteLaneHead (w_git w) k project (xs_Branch s))) (\<lambda>(remote, _).
     io_bind
       (if remote = candidate then io_return ()
        else io_bind
          (if remote = expected then io_return ()
           else io_require (remote \<noteq> '''') ''origin Task lane lost its last submitted head''
             (io_bind (io_replace ''origin Task lane diverged from its last submitted head''
                (io_ask dv (\<lambda>k. g_IsAncestor (w_git w) k (pc_Root lane) remote candidate))) (\<lambda>ancestor.
              io_require ancestor ''origin Task lane diverged from its last submitted head'' (io_return ()))))
          (\<lambda>_. push_lane dv w project (xs_Branch s) remote candidate))
       (\<lambda>_. verifyTaskSubmissionLane dv w project (xs_Branch s) candidate candidateTree)))"

definition resolveWorkerSessionForTask :: "driver \<Rightarrow> world \<Rightarrow> string \<Rightarrow> role_session io" where
  "resolveWorkerSessionForTask dv w projectID =
     io_require (w_session w \<noteq> '''') ''Task requires an active Worker Session''
     (io_bind (io_ask dv (\<lambda>k. w_ResolveProjectWorker w k projectID)) (\<lambda>worker.
       io_require (rw_SessionID worker = w_session w)
         ''RUNTIME_SESSION_UNAVAILABLE: Worker attachment is stale or mismatched'' (io_return worker)))"

definition submitting_worker :: "driver \<Rightarrow> world \<Rightarrow> string \<Rightarrow> TaskExecutionState \<Rightarrow> unit io" where
  "submitting_worker dv w projectID s =
     (if w_session w \<noteq> '''' then
        io_bind (resolveWorkerSessionForTask dv w projectID) (\<lambda>worker.
          io_require (xs_Agent s = rw_AgentID worker) ''Task is assigned to a different Worker'' (io_return ()))
      else io_tell dv (\<lambda>k. wrap_err ''assigned Worker lane is not usable: '' (w_ResolveAgent w k projectID (xs_Agent s))))"

text \<open>The head to submit: uncommitted work is committed first.\<close>

definition candidate_head :: "driver \<Rightarrow> world \<Rightarrow> project_config \<Rightarrow> string \<Rightarrow> string \<Rightarrow> TaskExecutionState \<Rightarrow> string io" where
  "candidate_head dv w lane key stage s =
     io_bind (io_replace ''assigned Task worktree must be on its server-owned branch'' (CurrentHead dv w lane)) (\<lambda>h.
     io_require (lh_Branch h = xs_Branch s) ''assigned Task worktree must be on its server-owned branch''
     (if lh_Clean h then io_return (lh_Head h)
      else io_bind (io_ask dv (\<lambda>k. wrap_result ''finalize Task submission commit: ''
                (g_CommitCandidate (w_git w) k lane (''Task '' @ key @ '' '' @ stage @ '' submission'')))) (\<lambda>_.
        io_bind (io_replace ''finalized Task submission commit is not clean on its server-owned branch''
                   (CurrentHead dv w lane)) (\<lambda>h'.
          io_require (lh_Clean h' \<and> lh_Branch h' = xs_Branch s)
            ''finalized Task submission commit is not clean on its server-owned branch'' (io_return (lh_Head h'))))))"

text \<open>The stage whose accepted review a later submission builds on.\<close>

definition previous_stage :: "driver \<Rightarrow> string \<Rightarrow> string \<Rightarrow> string \<Rightarrow> string io" where
  "previous_stage dv projectID key stage =
     (if stage = ''rebase''
      then io_bind (ReadLatestAcceptedTaskExecutionPhase dv projectID key ''tests'') (\<lambda>tests.
        io_return (if tests = None then ''code'' else ''tests''))
      else io_return ''code'')"

definition submission_descends :: "driver \<Rightarrow> world \<Rightarrow> string \<Rightarrow> string \<Rightarrow> string \<Rightarrow> TaskExecutionState \<Rightarrow> unit io" where
  "submission_descends dv w projectID key stage s =
     (if stage = ''code'' then io_return ()
      else io_bind (previous_stage dv projectID key stage) (\<lambda>previousStage.
        io_bind (ReadLatestTaskExecutionPhase dv projectID key previousStage) (\<lambda>accepted.
          case accepted of
            None \<Rightarrow> io_error (''accepted '' @ previousStage @ '' submission is required'')
          | Some p \<Rightarrow>
              io_require (ph_Decision p = ''accept'' \<and> ph_EventKind p = ''review'')
                (''accepted '' @ previousStage @ '' submission is required'')
              (let base = (if stage = ''rebase'' then xs_BaseHead s else ph_Head p);
                   refused = (if stage = ''rebase''
                     then ''rebase submission must descend from the refreshed canonical base''
                     else stage @ '' submission must descend from accepted '' @ previousStage @ '' head'') in
               io_bind (io_value (TaskWorktreePath (w_StateDir w) projectID key)) (\<lambda>lanePath.
               io_bind (io_replace refused (io_ask dv (\<lambda>k. g_IsAncestor (w_git w) k lanePath base (xs_Head s)))) (\<lambda>ancestor.
                 io_require ancestor refused (io_return ())))))))"

definition submitTaskExecution ::
  "driver \<Rightarrow> world \<Rightarrow> string \<Rightarrow> string \<Rightarrow> string \<Rightarrow> TaskExecutionPublicOutput io" where
  "submitTaskExecution dv w projectID key stage =
     io_bind (execution_for dv w projectID key ''Task has not been dispatched'') (\<lambda>s.
     io_require (xs_Stage s = stage \<and> (xs_Status s = ''dispatched'' \<or> xs_Status s = ''changes_requested''))
       (''Task is not accepting a '' @ stage @ '' submission'')
     (io_bind (submitting_worker dv w projectID s) (\<lambda>_.
      io_bind (taskExecutionLane dv w projectID key s) (\<lambda>lane.
      io_bind (candidate_head dv w lane key stage s) (\<lambda>actual.
      io_bind (io_ask dv (\<lambda>k. g_TreeID (w_git w) k lane)) (\<lambda>candidateTree.
      io_bind (io_now dv w) (\<lambda>now.
      let t = (next_state s ''awaiting_review'' now)\<lparr>xs_Head := actual,
                xs_Worktree := taskExecutionWorktree key (take 8 actual)\<rparr> in
      io_bind (submission_descends dv w projectID key stage t) (\<lambda>_.
      io_bind (io_tell dv (\<lambda>k. w_ProcedureHook w k ''pre_task_submit'')) (\<lambda>_.
      io_bind (project_of dv w projectID) (\<lambda>project.
      io_bind (publishTaskSubmissionLane dv w project lane t actual candidateTree) (\<lambda>_.
      io_bind (TransitionTaskExecutionState dv t (xs_ExecutionRevision s)
                 ((new_phase t ''submission'' '''' '''')\<lparr>ph_Stage := stage\<rparr>)) (\<lambda>_.
      io_bind (taskExecutionPublicOutput dv w t) (\<lambda>out.
      io_bind (io_ignore (io_tell dv (\<lambda>k. w_ProcedureHook w k ''post_task_submit''))) (\<lambda>_.
        io_return out))))))))))))))"

definition TaskExecutionSubmitCode :: "driver \<Rightarrow> world \<Rightarrow> string \<Rightarrow> string \<Rightarrow> TaskExecutionPublicOutput io" where
  "TaskExecutionSubmitCode dv w projectID key = submitTaskExecution dv w projectID key ''code''"

definition TaskExecutionSubmitRebase :: "driver \<Rightarrow> world \<Rightarrow> string \<Rightarrow> string \<Rightarrow> TaskExecutionPublicOutput io" where
  "TaskExecutionSubmitRebase dv w projectID key = submitTaskExecution dv w projectID key ''rebase''"

text \<open>Without a session, a Worker's current task: the one actionable task with a usable lane.\<close>

fun select_current :: "driver \<Rightarrow> world \<Rightarrow> string \<Rightarrow> string \<Rightarrow> string option \<Rightarrow> TaskExecutionState list \<Rightarrow> string io" where
  "select_current dv w projectID agent selected [] =
     (case selected of None \<Rightarrow> io_error ''no current Task is assigned to this Worker'' | Some key \<Rightarrow> io_return key)"
| "select_current dv w projectID agent selected (s # ss) =
     (if xs_Agent s \<noteq> agent \<or> \<not> IsTaskExecutionAgentActionable (xs_Status s) (xs_Stage s)
      then select_current dv w projectID agent selected ss
      else io_bind (io_wrap ''current Task lane is unavailable: '' (taskExecutionLane dv w projectID (xs_TaskID s) s)) (\<lambda>_.
        if selected \<noteq> None then io_error ''multiple current Tasks are assigned to this Worker''
        else select_current dv w projectID agent (Some (xs_TaskID s)) ss))"

definition resolveTaskExecutionTaskForAgent :: "driver \<Rightarrow> world \<Rightarrow> string \<Rightarrow> string io" where
  "resolveTaskExecutionTaskForAgent dv w projectID =
     (if no_durability dv then io_error ''shared durability is unavailable''
      else io_require (TrimSpace projectID = projectID \<and> ValidateProjectIdentifier projectID = None)
        ''invalid project authority''
      (io_bind (io_ask dv (\<lambda>k. w_ResolveWorkerSession w k projectID (w_session w))) (\<lambda>worker.
       io_bind (ListTaskExecutionStates dv projectID) (\<lambda>states.
         select_current dv w projectID (rw_AgentID worker) None states))))"

section \<open>Review\<close>

definition validateTaskExecutionReviewInput :: "string \<Rightarrow> string \<Rightarrow> string \<Rightarrow> error" where
  "validateTaskExecutionReviewInput projectID key stage = first_error
     [ValidateProjectIdentifier projectID, ValidateCanonicalTaskID key,
      fail_if (\<not> execution_stage stage) ''invalid review stage'']"

record TaskExecutionReviewOutput =
  ro_Key :: string
  ro_Stage :: string
  ro_Status :: string
  ro_Worktree :: string
  ro_Base :: string
  ro_Head :: string
  ro_Agent :: string
  ro_ExecutionRevision :: int
  ro_SubmittedAt :: string

definition taskExecutionReviewOutput ::
  "TaskExecutionState \<Rightarrow> TaskExecutionPhase \<Rightarrow> string \<Rightarrow> TaskExecutionReviewOutput" where
  "taskExecutionReviewOutput s p comparisonBase =
     \<lparr>ro_Key = xs_TaskID s, ro_Stage = ph_Stage p, ro_Status = ph_Status p, ro_Worktree = xs_Worktree s,
      ro_Base = ascii_lower (take 8 comparisonBase), ro_Head = ascii_lower (take 8 (ph_Head p)), ro_Agent = xs_Agent s,
      ro_ExecutionRevision = ph_ExecutionRevision p, ro_SubmittedAt = rfc3339_nano (to_utc (ph_CreatedAt p))\<rparr>"

definition submission_current :: "string \<Rightarrow> string \<Rightarrow> string \<Rightarrow> TaskExecutionState \<Rightarrow> TaskExecutionPhase \<Rightarrow> bool" where
  "submission_current projectID key stage s p \<longleftrightarrow>
     ph_ProjectID p = projectID \<and> ph_TaskID p = key \<and> ph_Stage p = stage \<and> ph_EventKind p = ''submission''
     \<and> ph_Status p = ''awaiting_review'' \<and> ph_Decision p = '''' \<and> ph_Comment p = ''''
     \<and> ph_ExecutionRevision p = xs_ExecutionRevision s \<and> ph_TaskRevisionSHA256 p = xs_TaskRevisionSHA256 s
     \<and> ph_Head p = xs_Head s \<and> ph_Branch p = xs_Branch s"

definition accepted_for_review ::
  "string \<Rightarrow> string \<Rightarrow> string \<Rightarrow> TaskExecutionState \<Rightarrow> TaskExecutionPhase \<Rightarrow> TaskExecutionPhase \<Rightarrow> bool" where
  "accepted_for_review projectID key previous s p a \<longleftrightarrow>
     ph_ProjectID a = projectID \<and> ph_TaskID a = key \<and> ph_Stage a = previous \<and> ph_EventKind a = ''review''
     \<and> ph_Decision a = ''accept''
     \<and> (ph_Status a = ''ready_for_verification'' \<or> (previous = ''code'' \<and> ph_Status a = ''dispatched''))
     \<and> ph_ExecutionRevision a < ph_ExecutionRevision p \<and> ph_TaskRevisionSHA256 a = xs_TaskRevisionSHA256 s
     \<and> ValidateCommitSHA (ph_Head a) = None \<and> ph_Branch a = xs_Branch s"

text \<open>The base a reviewer compares with and the base that the head must descend from.\<close>

definition review_bases :: "driver \<Rightarrow> string \<Rightarrow> string \<Rightarrow> string \<Rightarrow> TaskExecutionState \<Rightarrow> TaskExecutionPhase
    \<Rightarrow> (string \<times> string) io" where
  "review_bases dv projectID key stage s p =
     (if stage = ''code'' then io_return (xs_BaseHead s, xs_BaseHead s)
      else io_bind (previous_stage dv projectID key stage) (\<lambda>previous.
        io_bind (ReadLatestAcceptedTaskExecutionPhase dv projectID key previous) (\<lambda>accepted.
          case accepted of
            None \<Rightarrow> io_error (''accepted '' @ previous @ '' submission is required for review'')
          | Some a \<Rightarrow>
              io_require (accepted_for_review projectID key previous s p a)
                (''accepted '' @ previous @ '' submission is required for review'')
              (io_return (ph_Head a, if stage = ''rebase'' then xs_BaseHead s else ph_Head a)))))"

definition taskExecutionReviewSelection :: "driver \<Rightarrow> world \<Rightarrow> string \<Rightarrow> string \<Rightarrow> string \<Rightarrow> TaskExecutionState
    \<Rightarrow> (TaskExecutionPhase \<times> string) io" where
  "taskExecutionReviewSelection dv w projectID key stage s =
     (if no_durability dv then io_error ''shared durability is unavailable''
      else io_require (xs_ProjectID s = projectID \<and> xs_TaskID s = key \<and> xs_Status s = ''awaiting_review''
          \<and> xs_Stage s = stage) (''Task is not awaiting '' @ stage @ '' review'')
      (io_bind (ReadLatestTaskExecutionPhase dv projectID key stage) (\<lambda>found.
        case found of
          None \<Rightarrow> io_error (''Task has no '' @ stage @ '' submission'')
        | Some p \<Rightarrow>
            io_require (submission_current projectID key stage s p) ''Task review is stale''
            (io_require (ValidateCommitSHA (ph_Head p) = None) ''Task review has invalid head authority''
            (io_require (xs_Worktree s = taskExecutionWorktree key (take 8 (ph_Head p)))
               ''Task review has invalid worktree authority''
            (io_bind (io_replace ''assigned Task lane must be clean on the submitted head''
               (io_bind (taskExecutionLane dv w projectID key s) (CurrentHead dv w))) (\<lambda>h.
             io_require (lh_Clean h \<and> lh_Branch h = xs_Branch s \<and> lh_Head h = ph_Head p)
               ''assigned Task lane must be clean on the submitted head''
             (io_bind (project_of dv w projectID) (\<lambda>project.
              io_bind (io_ask dv (\<lambda>k. g_RemoteLaneHead (w_git w) k project (ph_Branch p))) (\<lambda>(remote, remoteExists).
              io_require (remoteExists \<and> remote = ph_Head p) ''origin Task lane does not hold the submitted head''
              (io_bind (review_bases dv projectID key stage s p) (\<lambda>(comparisonBase, ancestryBase).
               let refused = ''Task '' @ stage @ '' review head is not descended from its required base'' in
               io_bind (io_value (TaskWorktreePath (w_StateDir w) (xs_ProjectID s) (xs_TaskID s))) (\<lambda>lanePath.
               io_bind (io_replace refused
                          (io_ask dv (\<lambda>k. g_IsAncestor (w_git w) k lanePath ancestryBase (ph_Head p)))) (\<lambda>ancestor.
                 io_require ancestor refused (io_return (p, comparisonBase))))))))))))))))"

definition TaskExecutionReview ::
  "driver \<Rightarrow> world \<Rightarrow> string \<Rightarrow> string \<Rightarrow> string \<Rightarrow> TaskExecutionReviewOutput io" where
  "TaskExecutionReview dv w projectID key stage =
     io_check (validateTaskExecutionReviewInput projectID key stage)
     (io_bind (execution_for dv w projectID key ''Task has no execution state'') (\<lambda>s.
      io_bind (taskExecutionReviewSelection dv w projectID key stage s) (\<lambda>(p, comparisonBase).
        io_return (taskExecutionReviewOutput s p comparisonBase))))"

record TaskExecutionReviewDecisionInput =
  rd_ProjectID :: string
  rd_Key :: string
  rd_Stage :: string
  rd_Decision :: string
  rd_Comment :: string

definition TaskExecutionReviewDecide ::
  "driver \<Rightarrow> world \<Rightarrow> TaskExecutionReviewDecisionInput \<Rightarrow> TaskExecutionPublicOutput io" where
  "TaskExecutionReviewDecide dv w i =
     io_check (validateTaskExecutionReviewInput (rd_ProjectID i) (rd_Key i) (rd_Stage i))
     (io_require (rd_Decision i = ''accept'' \<or> rd_Decision i = ''reject'') ''review decision must be accept or reject''
     (io_require (TrimSpace (rd_Comment i) = '''' \<or> rune_count (rd_Comment i) \<le> 1024) ''review comment is too long''
     (io_bind (execution_for dv w (rd_ProjectID i) (rd_Key i) ''Task has no execution state'') (\<lambda>s.
      io_bind (ReadLatestTaskExecutionPhase dv (rd_ProjectID i) (rd_Key i) (rd_Stage i)) (\<lambda>found.
        case found of
          None \<Rightarrow> io_error (''Task has no '' @ rd_Stage i @ '' submission'')
        | Some p \<Rightarrow>
            if ph_Decision p \<noteq> '''' then
              (if ph_Decision p = rd_Decision i \<and> ph_Comment p = TrimSpace (rd_Comment i)
               then taskExecutionPublicOutput dv w s else io_error ''contradictory review decision'')
            else io_require (xs_Status s = ''awaiting_review'' \<and> xs_Stage s = rd_Stage i) ''review decision is stale''
            (let nextStatus = (if rd_Decision i = ''reject'' then ''changes_requested'' else ''ready_for_verification'') in
             io_bind (if IsTaskExecutionAgentActionable nextStatus (xs_Stage s)
                      then ensureWorkerActionableSlot dv (rd_ProjectID i) (xs_Agent s) (rd_Key i)
                      else io_return ()) (\<lambda>_.
             io_bind (io_now dv w) (\<lambda>now.
             let t = next_state s nextStatus now in
             io_bind (TransitionTaskExecutionState dv t (xs_ExecutionRevision s)
                (new_phase t ''review'' (rd_Decision i) (TrimSpace (rd_Comment i)))) (\<lambda>_.
               taskExecutionPublicOutput dv w t)))))))))"

record TaskExecutionReworkInput =
  ri_ProjectID :: string
  ri_Key :: string
  ri_Stage :: string
  ri_Comment :: string

definition rework_stage_open :: "string \<Rightarrow> string \<Rightarrow> bool" where
  "rework_stage_open wanted current \<longleftrightarrow>
     \<not> ((wanted = ''code'' \<and> current \<noteq> ''code'' \<and> current \<noteq> ''tests'' \<and> current \<noteq> ''rebase'')
        \<or> (wanted = ''tests'' \<and> current \<noteq> ''tests'' \<and> current \<noteq> ''rebase'')
        \<or> (wanted = ''rebase'' \<and> current \<noteq> ''rebase''))"

definition TaskExecutionRework :: "driver \<Rightarrow> world \<Rightarrow> TaskExecutionReworkInput \<Rightarrow> TaskExecutionPublicOutput io" where
  "TaskExecutionRework dv w i =
     io_check (validateTaskExecutionReviewInput (ri_ProjectID i) (ri_Key i) (ri_Stage i))
     (io_require (TrimSpace (ri_Comment i) \<noteq> '''' \<and> rune_count (ri_Comment i) \<le> 1024)
        ''rework comment is required and bounded''
     (io_bind (execution_for dv w (ri_ProjectID i) (ri_Key i) ''Task has no execution state'') (\<lambda>s.
      io_require (IsTaskExecutionReworkable (xs_Status s)) ''Task execution is not open for rework''
      (io_require (rework_stage_open (ri_Stage i) (xs_Stage s)) ''rework stage is stale''
      (let comment = TrimSpace (ri_Comment i) in
       io_bind (if xs_Status s = ''changes_requested''
                then ReadLatestTaskExecutionPhase dv (ri_ProjectID i) (ri_Key i) (ri_Stage i)
                else io_return None) (\<lambda>found.
         if (case found of None \<Rightarrow> False | Some p \<Rightarrow> ph_EventKind p = ''rework'') then
           (if ph_Comment (the found) = comment then taskExecutionPublicOutput dv w s
            else io_error ''conflicting Task rework mutation'')
         else io_bind (ensureWorkerActionableSlot dv (ri_ProjectID i) (xs_Agent s) (ri_Key i)) (\<lambda>_.
           io_bind (io_now dv w) (\<lambda>now.
           let t = (next_state s ''changes_requested'' now)\<lparr>xs_Stage := ri_Stage i\<rparr> in
           io_bind (TransitionTaskExecutionState dv t (xs_ExecutionRevision s)
                      (new_phase t ''rework'' '''' comment)) (\<lambda>_.
             taskExecutionPublicOutput dv w t)))))))))"

end
