(* ===== verification/Task_Parking.thy ===== *)
theory Task_Parking
  imports Task_Execution
begin

text \<open>
  Blocking, resuming, refreshing and resetting a task, and the controlled rebase that an advanced
  default branch forces (\<open>task_execution_block.go\<close>, \<open>task_execution_refresh.go\<close>,
  \<open>task_execution_reset.go\<close>, \<open>task_execution_reconcile.go\<close> of \<open>internal/service\<close>).
\<close>

section \<open>Refresh evidence\<close>

record taskExecutionRefreshEvidence =
  rf_OldBase :: string
  rf_NewBase :: string
  rf_OldHead :: string
  rf_NewHead :: string
  rf_Reason :: string
  rf_ExecutionRevision :: int
  rf_Stage :: string
  rf_Status :: string
  rf_Branch :: string
  rf_TaskRevisionSHA256 :: string

definition json_refresh_evidence :: "taskExecutionRefreshEvidence \<Rightarrow> string" where
  "json_refresh_evidence e = json_object
     (json_field ''old_base'' (json_string (rf_OldBase e)) @ json_field ''new_base'' (json_string (rf_NewBase e))
      @ json_field ''old_head'' (json_string (rf_OldHead e)) @ json_field ''new_head'' (json_string (rf_NewHead e))
      @ json_field ''reason'' (json_string (rf_Reason e))
      @ json_field ''execution_revision'' (dec_int (rf_ExecutionRevision e))
      @ json_field ''stage'' (json_string (rf_Stage e)) @ json_field ''status'' (json_string (rf_Status e))
      @ json_field ''branch'' (json_string (rf_Branch e))
      @ json_field ''task_revision_sha256'' (json_string (rf_TaskRevisionSHA256 e)))"

definition refresh_evidence_fields :: "(string \<times> taskExecutionRefreshEvidence field_decoder) list" where
  "refresh_evidence_fields =
     [(''old_base'', dec_string (\<lambda>x r. r\<lparr>rf_OldBase := x\<rparr>)), (''new_base'', dec_string (\<lambda>x r. r\<lparr>rf_NewBase := x\<rparr>)),
      (''old_head'', dec_string (\<lambda>x r. r\<lparr>rf_OldHead := x\<rparr>)), (''new_head'', dec_string (\<lambda>x r. r\<lparr>rf_NewHead := x\<rparr>)),
      (''reason'', dec_string (\<lambda>x r. r\<lparr>rf_Reason := x\<rparr>)),
      (''execution_revision'', dec_int64 (\<lambda>x r. r\<lparr>rf_ExecutionRevision := x\<rparr>)),
      (''stage'', dec_string (\<lambda>x r. r\<lparr>rf_Stage := x\<rparr>)), (''status'', dec_string (\<lambda>x r. r\<lparr>rf_Status := x\<rparr>)),
      (''branch'', dec_string (\<lambda>x r. r\<lparr>rf_Branch := x\<rparr>)),
      (''task_revision_sha256'', dec_string (\<lambda>x r. r\<lparr>rf_TaskRevisionSHA256 := x\<rparr>))]"

definition zero_refresh_evidence :: taskExecutionRefreshEvidence where
  "zero_refresh_evidence = \<lparr>rf_OldBase = [], rf_NewBase = [], rf_OldHead = [], rf_NewHead = [], rf_Reason = [],
     rf_ExecutionRevision = 0, rf_Stage = [], rf_Status = [], rf_Branch = [], rf_TaskRevisionSHA256 = []\<rparr>"

definition validTaskExecutionRefreshStatus :: "string \<Rightarrow> bool" where
  "validTaskExecutionRefreshStatus status \<longleftrightarrow> List.member
     [''dispatched'', ''in_progress'', ''awaiting_review'', ''changes_requested'', ''ready_for_verification'',
      ''verifying'', ''verified'', ''integrating'', ''integrated'', ''done'', ''blocked'', ''failed''] status"

definition refresh_evidence_ok :: "taskExecutionRefreshEvidence \<Rightarrow> bool" where
  "refresh_evidence_ok e \<longleftrightarrow> ValidateCommitSHA (rf_OldBase e) = None \<and> ValidateCommitSHA (rf_NewBase e) = None
     \<and> ValidateCommitSHA (rf_OldHead e) = None \<and> ValidateCommitSHA (rf_NewHead e) = None
     \<and> rf_OldBase e = rf_OldHead e \<and> rf_NewBase e = rf_NewHead e \<and> 1 \<le> rf_ExecutionRevision e
     \<and> execution_stage (rf_Stage e) \<and> validTaskExecutionRefreshStatus (rf_Status e)
     \<and> ValidateBranch (rf_Branch e) = None \<and> ValidateSHA256 (rf_TaskRevisionSHA256 e) = None
     \<and> TrimSpace (rf_Reason e) \<noteq> '''' \<and> rune_count (rf_Reason e) \<le> taskExecutionBlockReasonLimit"

definition decodeTaskExecutionRefreshEvidence :: "string \<Rightarrow> taskExecutionRefreshEvidence result" where
  "decodeTaskExecutionRefreshEvidence comment =
     (case json_Unmarshal refresh_evidence_fields zero_refresh_evidence comment of
        None \<Rightarrow> Err ''invalid Task refresh evidence''
      | Some e \<Rightarrow> if refresh_evidence_ok e then Ok e else Err ''invalid Task refresh evidence'')"

definition refresh_binds_phase :: "taskExecutionRefreshEvidence \<Rightarrow> TaskExecutionPhase \<Rightarrow> bool" where
  "refresh_binds_phase e p \<longleftrightarrow> ph_ExecutionRevision p = rf_ExecutionRevision e \<and> ph_Stage p = rf_Stage e
     \<and> ph_Status p = rf_Status e \<and> ph_Branch p = rf_Branch e \<and> ph_TaskRevisionSHA256 p = rf_TaskRevisionSHA256 e
     \<and> ph_Head p = rf_NewHead e"

text \<open>
  The chain of refreshes among the phases of one stage: the phase before a refresh gives the base
  and head it starts from and the revision it follows. \<open>prev\<close> is the phase before, if any.
\<close>

definition refresh_follows ::
  "int \<Rightarrow> TaskExecutionPhase option \<Rightarrow> TaskExecutionPhase \<Rightarrow> taskExecutionRefreshEvidence \<Rightarrow> error" where
  "refresh_follows resetRevision prev p e =
     (let discontinuous = ''Task refresh chain is not monotonic'';
          step = (\<lambda>base head revision. fail_if (rf_OldBase e \<noteq> base \<or> rf_OldHead e \<noteq> head
             \<or> ph_ExecutionRevision p \<noteq> revision \<or> rf_NewBase e \<noteq> rf_NewHead e \<or> rf_NewBase e \<noteq> ph_Head p) discontinuous)
      in case prev of
           None \<Rightarrow> fail_if (ph_ExecutionRevision p \<noteq> resetRevision + 2 \<or> rf_NewBase e \<noteq> rf_NewHead e
                     \<or> rf_NewBase e \<noteq> ph_Head p) discontinuous
         | Some q \<Rightarrow>
             if ph_EventKind q = ''block'' \<or> ph_EventKind q = ''resume''
             then step (ph_Head q) (ph_Head q) (ph_ExecutionRevision q + 1)
             else if ph_EventKind q = ''refresh'' then
               (case decodeTaskExecutionRefreshEvidence (ph_Comment q) of
                  Inl _ \<Rightarrow> Some ''Task refresh chain has invalid prior evidence''
                | Inr old \<Rightarrow> step (rf_NewBase old) (rf_NewHead old) (ph_ExecutionRevision q + 1))
             else Some ''Task refresh chain has an invalid prior phase'')"

fun refresh_chain :: "int \<Rightarrow> TaskExecutionPhase option \<Rightarrow> taskExecutionRefreshEvidence option
    \<Rightarrow> TaskExecutionPhase list \<Rightarrow> taskExecutionRefreshEvidence option result" where
  "refresh_chain resetRevision prev latest [] = Ok latest"
| "refresh_chain resetRevision prev latest (p # ps) =
     (if ph_EventKind p \<noteq> ''refresh'' then refresh_chain resetRevision (Some p) latest ps
      else case decodeTaskExecutionRefreshEvidence (ph_Comment p) of
        Inl _ \<Rightarrow> Err ''Task refresh evidence does not match its phase''
      | Inr e \<Rightarrow>
          if \<not> refresh_binds_phase e p then Err ''Task refresh evidence does not match its phase''
          else guard_result (refresh_follows resetRevision prev p e)
                 (refresh_chain resetRevision (Some p) (Some e) ps))"

definition validateTaskExecutionRefreshChain :: "TaskExecutionState \<Rightarrow> TaskExecutionPhase list \<Rightarrow> int \<Rightarrow> error" where
  "validateTaskExecutionRefreshChain s phases resetRevision =
     (case refresh_chain resetRevision None None phases of
        Inl m \<Rightarrow> Some m
      | Inr None \<Rightarrow> None
      | Inr (Some latest) \<Rightarrow>
          fail_if (rf_NewBase latest \<noteq> xs_BaseHead s \<or> rf_NewHead latest \<noteq> xs_Head s \<or> rf_Stage latest \<noteq> xs_Stage s
              \<or> rf_Branch latest \<noteq> xs_Branch s \<or> rf_TaskRevisionSHA256 latest \<noteq> xs_TaskRevisionSHA256 s)
            ''Task refresh evidence does not bind the current execution'')"

definition taskExecutionPhasesAfterRevision :: "TaskExecutionPhase list \<Rightarrow> int \<Rightarrow> TaskExecutionPhase list" where
  "taskExecutionPhasesAfterRevision phases revision = filter (\<lambda>p. revision < ph_ExecutionRevision p) phases"

definition latestTaskExecutionResetRevision :: "driver \<Rightarrow> string \<Rightarrow> string \<Rightarrow> int io" where
  "latestTaskExecutionResetRevision dv projectID taskID =
     io_bind (ReadLatestTaskExecutionResetTerminalPhase dv projectID taskID) (\<lambda>found.
       case found of
         None \<Rightarrow> io_return 0
       | Some p \<Rightarrow> io_bind (io_value (validateTaskExecutionResetPhase p)) (\<lambda>_. io_return (ph_ExecutionRevision p)))"

section \<open>Blocking and resuming\<close>

definition validateTaskExecutionParkInput :: "string \<Rightarrow> string \<Rightarrow> string \<Rightarrow> string result" where
  "validateTaskExecutionParkInput projectID key reason =
     guard_result (first_error [ValidateProjectIdentifier projectID, ValidateCanonicalTaskID key,
         fail_if (TrimSpace reason = '''' \<or> taskExecutionBlockReasonLimit < rune_count (TrimSpace reason))
           ''Task block/resume reason is required and bounded''])
       (Ok (TrimSpace reason))"

definition park_revision :: "TaskExecutionState \<Rightarrow> TaskExecutionPhase \<Rightarrow> int" where
  "park_revision s p =
     (if ph_EventKind p = ''resume''
         \<or> (xs_Status s = ''blocked'' \<and> ph_EventKind p = ''block'' \<and> ph_ExecutionRevision p \<le> xs_ExecutionRevision s)
      then ph_ExecutionRevision p else xs_ExecutionRevision s - 1)"

definition latestTaskExecutionParkPhase :: "driver \<Rightarrow> TaskExecutionState \<Rightarrow> TaskExecutionPhase io" where
  "latestTaskExecutionParkPhase dv s =
     (let inconsistent = ''Task execution phase history is not consistent with the durable state'' in
      if no_durability dv then io_error ''shared durability is unavailable''
      else io_bind (ReadLatestTaskExecutionParkPhase dv (xs_ProjectID s) (xs_TaskID s) (xs_Stage s)) (\<lambda>found.
        case found of
          None \<Rightarrow> io_error inconsistent
        | Some p \<Rightarrow>
            io_require (ph_ProjectID p = xs_ProjectID s \<and> ph_TaskID p = xs_TaskID s
                \<and> ph_ExecutionRevision p = park_revision s p \<and> ph_ExecutionRevision p \<le> xs_ExecutionRevision s
                \<and> ph_TaskRevisionSHA256 p = xs_TaskRevisionSHA256 s) inconsistent (io_return p)))"

definition ensureTaskExecutionRefreshChain :: "driver \<Rightarrow> TaskExecutionState \<Rightarrow> unit io" where
  "ensureTaskExecutionRefreshChain dv s =
     io_bind (latestTaskExecutionResetRevision dv (xs_ProjectID s) (xs_TaskID s)) (\<lambda>resetRevision.
     io_bind (ReadTaskExecutionPhases dv (xs_ProjectID s) (xs_TaskID s) (xs_Stage s)) (\<lambda>phases.
       io_check (wrap_err ''Task blocked state has invalid refresh authority: ''
          (validateTaskExecutionRefreshChain s (taskExecutionPhasesAfterRevision phases resetRevision) resetRevision))
         (io_return ())))"

definition block_evidence :: "TaskExecutionState \<Rightarrow> TaskExecutionPhase \<Rightarrow> bool" where
  "block_evidence s p \<longleftrightarrow> ph_EventKind p = ''block'' \<and> ph_Status p = ''blocked'' \<and> ph_Stage p = xs_Stage s
     \<and> ph_Branch p = xs_Branch s \<and> ph_Decision p \<noteq> ''''
     \<and> IsTaskExecutionAgentActionable (ph_Decision p) (ph_Stage p)"

definition taskExecutionBlockedPhase :: "driver \<Rightarrow> TaskExecutionState \<Rightarrow> TaskExecutionPhase io" where
  "taskExecutionBlockedPhase dv s =
     io_bind (latestTaskExecutionParkPhase dv s) (\<lambda>p.
       io_require (block_evidence s p \<and> TrimSpace (ph_Comment p) \<noteq> '''')
         ''Task blocked state has no valid durable block evidence''
       (io_bind (if ph_Head p \<noteq> xs_Head s \<or> ph_ExecutionRevision p \<noteq> xs_ExecutionRevision s
                 then ensureTaskExecutionRefreshChain dv s else io_return ()) (\<lambda>_. io_return p)))"

definition ensureNoInFlightWorkerTurn :: "driver \<Rightarrow> world \<Rightarrow> TaskExecutionState \<Rightarrow> unit io" where
  "ensureNoInFlightWorkerTurn dv w s = io_tell dv (\<lambda>k. w_NoInFlightWorkerTurn w k s)"

definition TaskExecutionBlock :: "driver \<Rightarrow> world \<Rightarrow> string \<Rightarrow> string \<Rightarrow> string \<Rightarrow> TaskExecutionPublicOutput io" where
  "TaskExecutionBlock dv w projectID key text =
     io_bind (io_value (validateTaskExecutionParkInput projectID key text)) (\<lambda>reason.
     io_bind (execution_for dv w projectID key ''Task has no execution state'') (\<lambda>s.
       if xs_Status s = ''blocked'' then
         io_bind (taskExecutionBlockedPhase dv s) (\<lambda>p.
           io_require (ph_Comment p = reason) ''conflicting Task block mutation'' (output_with_reason dv w s reason))
       else io_require (IsTaskExecutionAgentActionable (xs_Status s) (xs_Stage s))
         ''Task execution is not at a Worker-actionable block boundary''
       (io_bind (ensureNoInFlightWorkerTurn dv w s) (\<lambda>_.
        io_bind (io_now dv w) (\<lambda>now.
        let t = next_state s ''blocked'' now in
        io_bind (TransitionTaskExecutionState dv t (xs_ExecutionRevision s) (new_phase t ''block'' (xs_Status s) reason))
          (\<lambda>_. output_with_reason dv w t reason))))))"

definition TaskExecutionResume :: "driver \<Rightarrow> world \<Rightarrow> string \<Rightarrow> string \<Rightarrow> string \<Rightarrow> TaskExecutionPublicOutput io" where
  "TaskExecutionResume dv w projectID key text =
     io_bind (io_value (validateTaskExecutionParkInput projectID key text)) (\<lambda>reason.
     io_bind (execution_for dv w projectID key ''Task has no execution state'') (\<lambda>s.
     io_bind (if xs_Status s = ''blocked'' then taskExecutionBlockedPhase dv s else latestTaskExecutionParkPhase dv s)
       (\<lambda>p.
       if xs_Status s \<noteq> ''blocked'' then
         io_require (ph_EventKind p = ''resume'' \<and> ph_Comment p = reason \<and> ph_Status p = xs_Status s
             \<and> ph_Decision p = xs_Status s) ''Task execution is not blocked'' (output_with_reason dv w s reason)
       else io_require (block_evidence s p) ''Task blocked state has invalid resume authority''
       (io_bind (ensureNoInFlightWorkerTurn dv w s) (\<lambda>_.
        io_bind (ensureWorkerActionableSlot dv (xs_ProjectID s) (xs_Agent s) (xs_TaskID s)) (\<lambda>_.
        io_bind (io_now dv w) (\<lambda>now.
        let t = next_state s (ph_Decision p) now in
        io_bind (TransitionTaskExecutionState dv t (xs_ExecutionRevision s) (new_phase t ''resume'' (xs_Status t) reason))
          (\<lambda>_. output_with_reason dv w t reason))))))))"

section \<open>Refreshing\<close>

definition stage_unprogressed :: "driver \<Rightarrow> TaskExecutionState \<Rightarrow> int \<Rightarrow> string \<Rightarrow> unit io" where
  "stage_unprogressed dv s resetRevision stage =
     io_bind (io_wrap ''inspect Task refresh evidence: '' (ReadTaskExecutionPhases dv (xs_ProjectID s) (xs_TaskID s) stage))
       (\<lambda>phases. let later = taskExecutionPhasesAfterRevision phases resetRevision in
        io_require (list_all (\<lambda>p. ph_EventKind p = ''block'' \<or> ph_EventKind p = ''resume'' \<or> ph_EventKind p = ''refresh'') later)
          ''Task execution has immutable lifecycle evidence''
        (io_check (validateTaskExecutionRefreshChain s later resetRevision) (io_return ())))"

definition no_verification :: "driver \<Rightarrow> TaskExecutionState \<Rightarrow> unit io" where
  "no_verification dv s =
     io_bind (io_wrap ''inspect Task verification evidence: ''
                (ReadLatestTaskExecutionVerification dv (xs_ProjectID s) (xs_TaskID s))) (\<lambda>found.
       io_require (found = None) ''Task execution has immutable verification evidence'' (io_return ()))"

definition ensureTaskExecutionRefreshable :: "driver \<Rightarrow> world \<Rightarrow> TaskExecutionState \<Rightarrow> unit io" where
  "ensureTaskExecutionRefreshable dv w s =
     io_bind (io_wrap ''inspect Task reset history: ''
                (latestTaskExecutionResetRevision dv (xs_ProjectID s) (xs_TaskID s))) (\<lambda>resetRevision.
     io_bind (if xs_Status s = ''dispatched'' \<or> xs_Status s = ''in_progress'' then io_return ()
              else if xs_Status s = ''blocked'' then io_bind (taskExecutionBlockedPhase dv s) (\<lambda>_. io_return ())
              else io_error ''Task execution is not at a safe refresh boundary'') (\<lambda>_.
     io_require (xs_Head s = xs_BaseHead s) ''Task execution has progressed beyond its base''
     (io_bind (ensureNoInFlightWorkerTurn dv w s) (\<lambda>_.
      io_bind (stage_unprogressed dv s resetRevision ''code'') (\<lambda>_.
      io_bind (stage_unprogressed dv s resetRevision ''tests'') (\<lambda>_.
      io_bind (stage_unprogressed dv s resetRevision ''rebase'') (\<lambda>_.
      io_bind (stage_unprogressed dv s resetRevision ''integration'') (\<lambda>_.
        no_verification dv s))))))))"

text \<open>Bring the lane to the canonical head, unless an interrupted refresh has done it already.\<close>

definition refresh_lane :: "driver \<Rightarrow> world \<Rightarrow> project_config \<Rightarrow> project_config \<Rightarrow> TaskExecutionState
    \<Rightarrow> string \<Rightarrow> string \<Rightarrow> string io" where
  "refresh_lane dv w project lane s canonical actual =
     (let recovered = (actual = canonical \<and> actual \<noteq> xs_Head s);
          root = (if recovered then pc_Root lane else pc_Root project) in
      io_bind (if recovered then io_return ()
               else io_tell dv (\<lambda>k. wrap_err ''materialize canonical Task refresh base: ''
                      (g_MaterializeMirrorCommit (w_git w) k project (pc_DefaultBranch project) canonical))) (\<lambda>_.
      io_bind (io_wrap ''verify canonical Task refresh ancestry: ''
                 (io_ask dv (\<lambda>k. g_IsAncestor (w_git w) k root (xs_BaseHead s) canonical))) (\<lambda>ancestor.
      io_require ancestor ''canonical main diverged from the Task base''
      (if recovered then io_return actual
       else io_bind (io_know dv (\<lambda>k. g_ReconcileTaskLane (w_git w) k lane canonical (xs_BaseHead s))) (\<lambda>r.
         case r of
           Inl _ \<Rightarrow> io_error ''refresh Task lane''
         | Inr newHead \<Rightarrow>
             io_require (newHead = canonical) ''refreshed Task lane did not reach canonical main''
             (io_bind (io_replace ''refreshed Task lane failed identity validation'' (CurrentHead dv w lane)) (\<lambda>h.
                io_require (lh_Clean h \<and> lh_Branch h = xs_Branch s \<and> lh_Head h = canonical)
                  ''refreshed Task lane failed identity validation'' (io_return (lh_Head h)))))))))"

definition TaskExecutionRefresh :: "driver \<Rightarrow> world \<Rightarrow> string \<Rightarrow> string \<Rightarrow> string \<Rightarrow> TaskExecutionPublicOutput io" where
  "TaskExecutionRefresh dv w projectID key text =
     io_check (ValidateProjectIdentifier projectID) (io_check (ValidateCanonicalTaskID key)
     (let reason = TrimSpace text; dirty = ''Task lane is not clean on its server-owned branch'' in
      io_require (reason \<noteq> '''' \<and> rune_count reason \<le> taskExecutionBlockReasonLimit)
        ''Task refresh reason is required and bounded''
      (io_bind (execution_for dv w projectID key ''Task has no execution state'') (\<lambda>s.
       io_bind (ensureTaskExecutionRefreshable dv w s) (\<lambda>_.
       io_bind (project_of dv w projectID) (\<lambda>project.
       io_bind (io_ask dv (\<lambda>k. wrap_result ''resolve canonical main: ''
                  (g_RefreshDefaultBranch (w_git w) k project))) (\<lambda>canonical.
       io_bind (taskExecutionLane dv w projectID key s) (\<lambda>lane.
       io_bind (io_replace dirty (CurrentHead dv w lane)) (\<lambda>h.
       io_require (lh_Clean h \<and> lh_Branch h = xs_Branch s) dirty
       (io_require (lh_Head h = xs_Head s \<or> (lh_Head h = canonical \<and> xs_BaseHead s \<noteq> canonical))
          ''Task lane does not match durable or canonical refresh identity''
       (if lh_Head h = xs_Head s \<and> xs_BaseHead s = canonical then output_with_reason dv w s reason
        else io_bind (refresh_lane dv w project lane s canonical (lh_Head h)) (\<lambda>actual.
          io_bind (io_now dv w) (\<lambda>now.
          let t = (next_state s (xs_Status s) now)\<lparr>xs_BaseHead := canonical, xs_Head := actual,
                    xs_Worktree := taskExecutionWorktree key (ascii_lower (take 8 actual))\<rparr>;
              evidence = json_refresh_evidence
                \<lparr>rf_OldBase = xs_BaseHead s, rf_NewBase = canonical, rf_OldHead = xs_Head s, rf_NewHead = actual,
                 rf_Reason = reason, rf_ExecutionRevision = xs_ExecutionRevision t, rf_Stage = xs_Stage s,
                 rf_Status = xs_Status s, rf_Branch = xs_Branch s,
                 rf_TaskRevisionSHA256 = xs_TaskRevisionSHA256 s\<rparr> in
          io_bind (TransitionTaskExecutionState dv t (xs_ExecutionRevision s) (new_phase t ''refresh'' '''' evidence))
            (\<lambda>_. output_with_reason dv w t reason))))))))))))))"

section \<open>Resetting\<close>

record TaskExecutionResetOutput =
  zo_Key :: string
  zo_Status :: string
  zo_ExecutionRevision :: int

definition reset_output :: "TaskExecutionState \<Rightarrow> TaskExecutionResetOutput" where
  "reset_output s = \<lparr>zo_Key = xs_TaskID s, zo_Status = ''planned'', zo_ExecutionRevision = xs_ExecutionRevision s\<rparr>"

definition reset_phase_allowed ::
  "TaskExecutionState \<Rightarrow> taskExecutionResetEvidence \<Rightarrow> TaskExecutionPhase \<Rightarrow> error" where
  "reset_phase_allowed s e p =
     (if ph_Stage p \<noteq> xs_Stage s then Some ''Task execution has lifecycle evidence outside its current stage''
      else if ph_EventKind p = ''block'' \<or> ph_EventKind p = ''resume'' \<or> ph_EventKind p = ''refresh'' then None
      else if ph_EventKind p = ''reset_start'' then
        fail_if (validateTaskExecutionResetPhase p \<noteq> Ok e \<or> xs_Status s \<noteq> ''resetting'')
          ''Task reset history does not match the requested execution''
      else if ph_EventKind p = ''reset''
        then Some ''Task reset history conflicts with its current execution state''
      else Some ''Task execution has immutable submission, review, integration, or candidate evidence'')"

definition stage_resettable ::
  "driver \<Rightarrow> TaskExecutionState \<Rightarrow> taskExecutionResetEvidence \<Rightarrow> int \<Rightarrow> string \<Rightarrow> unit io" where
  "stage_resettable dv s e resetRevision stage =
     io_bind (io_wrap ''inspect Task reset history: '' (ReadTaskExecutionPhases dv (xs_ProjectID s) (xs_TaskID s) stage))
       (\<lambda>phases. let later = taskExecutionPhasesAfterRevision phases resetRevision in
        io_check (first_error (map (reset_phase_allowed s e) later))
        (io_check (validateTaskExecutionRefreshChain s
           (filter (\<lambda>p. ph_EventKind p = ''block'' \<or> ph_EventKind p = ''resume'' \<or> ph_EventKind p = ''refresh'') later)
           resetRevision) (io_return ())))"

definition reset_boundary :: "TaskExecutionState \<Rightarrow> taskExecutionResetEvidence \<Rightarrow> error" where
  "reset_boundary s e = first_error
     [fail_if (xs_Stage s \<noteq> ''code'' \<or> (xs_Status s \<noteq> ''resetting'' \<and> \<not> taskExecutionResettableStatus (xs_Status s))
          \<or> re_ProjectID e \<noteq> xs_ProjectID s \<or> re_TaskID e \<noteq> xs_TaskID s)
        ''Task execution is not at a resettable nonterminal boundary'',
      (if xs_Status s = ''resetting'' then
         fail_if (\<not> taskExecutionResetEvidenceBindsState e s ''resetting'')
           ''Task execution reset state does not match its durable start evidence''
       else fail_if (xs_Status s \<noteq> re_Status e \<or> xs_ExecutionRevision s \<noteq> re_ExecutionRevision e
                \<or> \<not> taskExecutionResetEvidenceBindsState e s (xs_Status s))
              ''Task execution changed before reset could be recorded'')]"

definition lane_untouched :: "driver \<Rightarrow> world \<Rightarrow> TaskExecutionState \<Rightarrow> bool \<Rightarrow> unit io" where
  "lane_untouched dv w s allowMissingLane =
     io_bind (taskExecutionLane dv w (xs_ProjectID s) (xs_TaskID s) s) (\<lambda>lane.
     io_bind (io_ask dv (\<lambda>k. wrap_result ''inspect canonical Task lane: '' (g_LaneDirectory (w_git w) k lane))) (\<lambda>info.
       case info of
         None \<Rightarrow> if allowMissingLane then io_return () else io_error ''inspect canonical Task lane''
       | Some directory \<Rightarrow>
           io_require directory ''canonical Task lane is not a managed directory''
           (let mismatched = ''Task lane is dirty, candidate-bearing, or mismatched'' in
            io_bind (io_replace mismatched (CurrentHead dv w lane)) (\<lambda>h.
            io_require (lh_Clean h \<and> lh_Branch h = xs_Branch s \<and> lh_Head h = xs_Head s \<and> lh_Head h = xs_BaseHead s)
              mismatched
            (io_bind (io_replace ''Task lane is in an unsafe rebase state''
                        (io_ask dv (\<lambda>k. g_TaskRebaseInProgress (w_git w) k lane))) (\<lambda>rebasing.
              io_require (\<not> rebasing) ''Task lane is in an unsafe rebase state'' (io_return ())))))))"

definition ensureTaskExecutionResetSafe ::
  "driver \<Rightarrow> world \<Rightarrow> TaskExecutionState \<Rightarrow> taskExecutionResetEvidence \<Rightarrow> bool \<Rightarrow> unit io" where
  "ensureTaskExecutionResetSafe dv w s e allowMissingLane =
     io_check (reset_boundary s e)
     (io_bind (if xs_Status s = ''blocked'' then io_bind (taskExecutionBlockedPhase dv s) (\<lambda>_. io_return ())
               else io_return ()) (\<lambda>_.
      io_bind (ensureNoInFlightWorkerTurn dv w s) (\<lambda>_.
      io_bind (io_tell dv (\<lambda>k. w_ResetOperations w k s)) (\<lambda>_.
      io_bind (io_replace ''attached Worker is unavailable or has in-flight work''
                 (io_ask dv (\<lambda>k. w_ResolveProjectWorker w k (xs_ProjectID s)))) (\<lambda>worker.
      io_require (rw_AgentID worker = xs_Agent s \<and> rw_ControllerReachable worker
          \<and> ascii_lower (TrimSpace (rw_RuntimeState worker)) = ''idle'')
        ''attached Worker is unavailable or has in-flight work''
      (io_bind (io_wrap ''inspect prior Task reset history: ''
                  (latestTaskExecutionResetRevision dv (xs_ProjectID s) (xs_TaskID s))) (\<lambda>resetRevision.
       io_bind (stage_resettable dv s e resetRevision ''code'') (\<lambda>_.
       io_bind (stage_resettable dv s e resetRevision ''tests'') (\<lambda>_.
       io_bind (stage_resettable dv s e resetRevision ''rebase'') (\<lambda>_.
       io_bind (stage_resettable dv s e resetRevision ''integration'') (\<lambda>_.
       io_bind (no_verification dv s) (\<lambda>_.
       io_bind (io_wrap ''inspect Task completion evidence: ''
                  (ReadTaskCompletionEvent dv (xs_ProjectID s) (xs_TaskID s))) (\<lambda>completion.
       io_require (completion = None) ''Task has immutable completion evidence''
         (lane_untouched dv w s allowMissingLane))))))))))))))"

definition beginTaskExecutionReset ::
  "driver \<Rightarrow> world \<Rightarrow> TaskExecutionState \<Rightarrow> taskExecutionResetEvidence \<Rightarrow> TaskExecutionState io" where
  "beginTaskExecutionReset dv w s e =
     io_bind (io_now dv w) (\<lambda>now.
     let t = next_state s ''resetting'' now in
     io_bind (TransitionTaskExecutionState dv t (xs_ExecutionRevision s)
                (new_phase t ''reset_start'' (re_Status e) (json_reset_evidence e))) (\<lambda>_. io_return t))"

definition replayTaskExecutionReset ::
  "driver \<Rightarrow> TaskExecutionState \<Rightarrow> string \<Rightarrow> TaskExecutionResetOutput io" where
  "replayTaskExecutionReset dv s reason =
     io_bind (ReadLatestTaskExecutionResetPhase dv (xs_ProjectID s) (xs_TaskID s)) (\<lambda>found.
       case found of
         None \<Rightarrow> io_error ''Task execution has no matching completed reset receipt''
       | Some p \<Rightarrow>
           io_require (ph_EventKind p = ''reset'' \<and> ph_ExecutionRevision p = xs_ExecutionRevision s)
             ''Task execution has no matching completed reset receipt''
           (case validateTaskExecutionResetPhase p of
              Inl _ \<Rightarrow> io_error ''Task reset receipt does not match its retired execution''
            | Inr e \<Rightarrow>
                io_require (taskExecutionResetEvidenceBindsState e s ''abandoned'')
                  ''Task reset receipt does not match its retired execution''
                (io_require (re_Reason e = reason) ''conflicting Task reset mutation'' (io_return (reset_output s)))))"

text \<open>The start of a reset that has been recorded, or that is recorded now.\<close>

definition resumed_reset ::
  "driver \<Rightarrow> world \<Rightarrow> string \<Rightarrow> string \<Rightarrow> string \<Rightarrow> (TaskExecutionState \<times> taskExecutionResetEvidence) io" where
  "resumed_reset dv w projectID key reason =
     io_bind (execution_for dv w projectID key ''Task execution reset authority is missing'') (\<lambda>s.
     io_bind (ReadLatestTaskExecutionResetPhase dv projectID key) (\<lambda>found.
       case found of
         None \<Rightarrow> io_error ''Task execution reset has no matching durable start evidence''
       | Some p \<Rightarrow>
           io_require (ph_EventKind p = ''reset_start'' \<and> ph_ExecutionRevision p = xs_ExecutionRevision s)
             ''Task execution reset has no matching durable start evidence''
           (case validateTaskExecutionResetPhase p of
              Inl _ \<Rightarrow> io_error ''Task execution reset start evidence does not match its state''
            | Inr e \<Rightarrow>
                io_require (taskExecutionResetEvidenceBindsState e s ''resetting'')
                  ''Task execution reset start evidence does not match its state''
                (io_require (re_Reason e = reason) ''conflicting Task reset mutation'' (io_return (s, e))))))"

definition started_reset ::
  "driver \<Rightarrow> world \<Rightarrow> string \<Rightarrow> string \<Rightarrow> string \<Rightarrow> (TaskExecutionState \<times> taskExecutionResetEvidence) io" where
  "started_reset dv w projectID key reason =
     io_bind (execution_for dv w projectID key ''Task has no execution state to reset'') (\<lambda>s.
     io_require (taskExecutionResettableStatus (xs_Status s) \<and> xs_Stage s = ''code'')
       ''Task execution is not at a resettable nonterminal boundary''
     (io_bind (ReadLatestTaskExecutionResetPhase dv projectID key) (\<lambda>found.
      io_require (case found of None \<Rightarrow> True | Some p \<Rightarrow> ph_EventKind p \<noteq> ''reset_start'')
        ''Task execution has an incomplete prior reset''
      (let e = taskExecutionResetEvidenceFromState s reason in
       io_check (validateTaskExecutionResetEvidence e)
       (io_bind (taskAuthoringReadForExecution dv w projectID key) (\<lambda>_.
        io_bind (ensureTaskExecutionResetSafe dv w s e False) (\<lambda>_.
        io_bind (beginTaskExecutionReset dv w s e) (\<lambda>t. io_return (t, e)))))))))"

definition finish_reset :: "driver \<Rightarrow> world \<Rightarrow> string \<Rightarrow> string \<Rightarrow> TaskExecutionState \<Rightarrow> taskExecutionResetEvidence
    \<Rightarrow> TaskExecutionResetOutput io" where
  "finish_reset dv w projectID key s e =
     io_bind (taskAuthoringReadForExecution dv w projectID key) (\<lambda>_.
     io_bind (ensureTaskExecutionResetSafe dv w s e True) (\<lambda>_.
     io_bind (project_of dv w projectID) (\<lambda>project.
     io_bind (io_tell dv (\<lambda>k. wrap_err ''remove safe Task reset lane: ''
                (g_RemoveTaskWorktreeForReset (w_git w) k project key (re_Head e) (re_Branch e)))) (\<lambda>_.
     io_bind (io_now dv w) (\<lambda>now.
     let t = next_state s ''abandoned'' now in
     io_bind (TransitionTaskExecutionState dv t (xs_ExecutionRevision s)
                (new_phase t ''reset'' (re_Status e) (json_reset_evidence e))) (\<lambda>_. io_return (reset_output t)))))))"

definition TaskExecutionReset :: "driver \<Rightarrow> world \<Rightarrow> string \<Rightarrow> string \<Rightarrow> string \<Rightarrow> TaskExecutionResetOutput io" where
  "TaskExecutionReset dv w projectID key text =
     io_check (w_planner w)
     (io_bind (io_value (validateTaskExecutionParkInput projectID key text)) (\<lambda>reason.
      io_check (fail_if (List.member reason nul) ''Task reset reason is invalid'')
      (if no_durability dv then io_error ''shared durability is unavailable''
       else io_bind (io_know dv (\<lambda>k. w_VerifyInFlight w k key)) (\<lambda>active.
         io_require (active = None) ''Task verification is in flight''
         (io_bind (ReadTaskExecutionState dv projectID key) (\<lambda>found.
           case found of
             None \<Rightarrow>
               io_bind (ReadTaskExecutionPhases dv projectID key ''code'') (\<lambda>a.
               io_bind (if a = [] then ReadTaskExecutionPhases dv projectID key ''tests'' else io_return a) (\<lambda>b.
               io_bind (if b = [] then ReadTaskExecutionPhases dv projectID key ''rebase'' else io_return b) (\<lambda>c.
               io_bind (if c = [] then ReadTaskExecutionPhases dv projectID key ''integration'' else io_return c) (\<lambda>d.
                 io_error (if d = [] then ''Task has no execution state to reset''
                           else ''Task execution phase history exists without current execution state'')))))
           | Some s \<Rightarrow>
               if xs_Status s = ''abandoned'' then replayTaskExecutionReset dv s reason
               else io_bind (if xs_Status s = ''resetting'' then resumed_reset dv w projectID key reason
                             else started_reset dv w projectID key reason) (\<lambda>(t, e).
                 finish_reset dv w projectID key t e)))))))"

section \<open>The controlled rebase\<close>

definition rebase_comment :: "reconcile_error \<Rightarrow> string \<Rightarrow> string" where
  "rebase_comment e canonical =
     (case e of
        ReconcileConflict commit target \<Rightarrow>
          ''controlled rebase conflict replaying '' @ take 8 commit @ '' onto canonical '' @ take 8 target
            @ ''; owning Agent resolves and Planner review is required''
      | ReconcileFailure _ \<Rightarrow>
          ''controlled rebase onto canonical '' @ take 8 canonical @ '' failed; Planner authorization required'')"

definition reconcileTaskExecutionBase ::
  "driver \<Rightarrow> world \<Rightarrow> TaskExecutionState \<Rightarrow> project_config \<Rightarrow> string \<Rightarrow> unit io" where
  "reconcileTaskExecutionBase dv w s project canonical =
     io_bind (io_value (TaskWorktreePath (w_StateDir w) (xs_ProjectID s) (xs_TaskID s))) (\<lambda>path.
     io_bind (io_ask dv (\<lambda>k. wrap_result ''read Task lane divergence for rebase: ''
                (g_MergeBaseInWorktree (w_git w) k path (xs_Head s) canonical))) (\<lambda>base.
     io_require (base \<noteq> '''') ''Task lane has no common history with the refreshed canonical''
     (io_bind (io_know dv (\<lambda>k. g_ReconcileTaskLane (w_git w) k (project\<lparr>pc_Root := path\<rparr>) canonical base)) (\<lambda>r.
      io_bind (io_now dv w) (\<lambda>now.
      let rebased = (next_state s ''changes_requested'' now)\<lparr>xs_Stage := ''rebase'', xs_BaseHead := canonical\<rparr> in
      case r of
        Inl e \<Rightarrow>
          io_bind (io_wrap ''rebase failure and recovery state could not be recorded: ''
            (TransitionTaskExecutionState dv rebased (xs_ExecutionRevision s)
               (new_phase rebased ''rework'' '''' (rebase_comment e canonical)))) (\<lambda>_.
            io_error ''controlled Task rebase could not complete; durable rebase state recorded'')
      | Inr newHead \<Rightarrow>
          let t = rebased\<lparr>xs_Head := newHead,
                    xs_Worktree := taskExecutionWorktree (xs_TaskID s) (take 8 newHead)\<rparr> in
          io_wrap ''persist controlled Task rebase state: ''
            (TransitionTaskExecutionState dv t (xs_ExecutionRevision s)
               (new_phase t ''rework'' '''' ''canonical main advanced; controlled rebase required'')))))))"

end
