(* ===== verification/Task_Verifying.thy ===== *)
theory Task_Verifying
  imports Task_Parking
begin

text \<open>
  The verification of a reviewed candidate (\<open>internal/service/task_execution_verification.go\<close>): what
  admits a task, the evidence of the gates, the receipt that makes a task verified and whether a
  receipt still proves it. The gate profile of the project configuration is an answer of the world.
\<close>

section \<open>Admission\<close>

record taskExecutionVerificationReviews =
  rv_code :: int
  rv_tests :: int
  rv_rebase :: int

record taskExecutionTestIdentity =
  ti_ProjectID :: string
  ti_TaskID :: string
  ti_TaskRevision :: int
  ti_TaskRevisionSHA256 :: string
  ti_Stage :: string
  ti_BaseHead :: string
  ti_Head :: string
  ti_Branch :: string
  ti_Agent :: string
  ti_Worktree :: string
  ti_CodeReviewID :: int
  ti_TestsReviewID :: int
  ti_RebaseReviewID :: int
  ti_GateProfileSHA256 :: string
  ti_CanonicalHead :: string
  ti_LaneHead :: string
  ti_LaneContent :: string

record taskExecutionVerificationAdmission =
  va_identity :: taskExecutionTestIdentity
  va_reviews :: taskExecutionVerificationReviews
  va_names :: "string list"
  va_profile :: string
  va_canonical :: string
  va_project :: project_config
  va_lane :: project_config
  va_snapshot :: verificationGateSnapshot

text \<open>The id of the accepted review of a stage, 0 for a stage that the task has not entered.\<close>

definition accepted_review :: "driver \<Rightarrow> string \<Rightarrow> string \<Rightarrow> TaskExecutionState \<Rightarrow> string \<Rightarrow> int io" where
  "accepted_review dv projectID key s stage =
     (if (stage = ''tests'' \<and> xs_Stage s \<noteq> ''tests'') \<or> (stage = ''rebase'' \<and> xs_Stage s \<noteq> ''rebase'') then io_return 0
      else io_bind (ReadLatestAcceptedTaskExecutionPhase dv projectID key stage) (\<lambda>found.
        case found of
          None \<Rightarrow> io_error (''accepted '' @ stage @ '' review is required for verification'')
        | Some p \<Rightarrow>
            io_require (ph_TaskRevisionSHA256 p = xs_TaskRevisionSHA256 s)
              (''accepted '' @ stage @ '' review is required for verification'')
            (io_require (xs_Stage s \<noteq> stage \<or> ph_Head p = xs_Head s)
              (''accepted '' @ stage @ '' review does not match the candidate head'') (io_return (ph_ID p)))))"

definition verificationReviews ::
  "driver \<Rightarrow> string \<Rightarrow> string \<Rightarrow> TaskExecutionState \<Rightarrow> taskExecutionVerificationReviews io" where
  "verificationReviews dv projectID key s =
     io_bind (accepted_review dv projectID key s ''code'') (\<lambda>code.
     io_bind (accepted_review dv projectID key s ''tests'') (\<lambda>tests.
     io_bind (accepted_review dv projectID key s ''rebase'') (\<lambda>rebase.
       io_return \<lparr>rv_code = code, rv_tests = tests, rv_rebase = rebase\<rparr>)))"

definition gate_profile :: "driver \<Rightarrow> world \<Rightarrow> string \<Rightarrow> (string list \<times> string) io" where
  "gate_profile dv w projectID = io_ask dv (\<lambda>k. w_GateProfile w k projectID)"

definition computeTaskExecutionVerificationAdmission ::
  "driver \<Rightarrow> world \<Rightarrow> string \<Rightarrow> TaskExecutionState \<Rightarrow> taskExecutionVerificationAdmission io" where
  "computeTaskExecutionVerificationAdmission dv w projectID s =
     (if no_durability dv then io_error ''shared durability is unavailable''
      else io_bind (readSharedTask dv projectID (xs_TaskID s)) (\<lambda>task.
      io_require (ta_Revision task = xs_TaskRevision s \<and> ta_RevisionSHA256 task = xs_TaskRevisionSHA256 s)
        ''frozen Task content changed after dispatch''
      (io_bind (verificationReviews dv projectID (xs_TaskID s) s) (\<lambda>reviews.
       io_bind (gate_profile dv w projectID) (\<lambda>(names, profile).
       io_bind (project_of dv w projectID) (\<lambda>project.
       io_bind (io_value (TaskWorktreePath (w_StateDir w) projectID (xs_TaskID s))) (\<lambda>lanePath.
       let lane = project\<lparr>pc_Root := lanePath\<rparr> in
       io_bind (io_ask dv (\<lambda>k. g_captureVerificationSnapshot (w_git w) k lane)) (\<lambda>snapshot.
       io_require (gs_clean snapshot \<and> gs_head snapshot = xs_Head s \<and> gs_branch snapshot = xs_Branch s
           \<and> ValidateCommitSHA (gs_tree snapshot) = None)
         ''Task candidate lane is not the exact clean reviewed head''
       (io_bind (io_ask dv (\<lambda>k. g_RefreshDefaultBranch (w_git w) k project)) (\<lambda>canonical. io_return
         \<lparr>va_identity = \<lparr>ti_ProjectID = projectID, ti_TaskID = xs_TaskID s, ti_TaskRevision = xs_TaskRevision s,
            ti_TaskRevisionSHA256 = xs_TaskRevisionSHA256 s, ti_Stage = xs_Stage s, ti_BaseHead = xs_BaseHead s,
            ti_Head = xs_Head s, ti_Branch = xs_Branch s, ti_Agent = xs_Agent s, ti_Worktree = xs_Worktree s,
            ti_CodeReviewID = rv_code reviews, ti_TestsReviewID = rv_tests reviews,
            ti_RebaseReviewID = rv_rebase reviews, ti_GateProfileSHA256 = profile, ti_CanonicalHead = canonical,
            ti_LaneHead = gs_head snapshot, ti_LaneContent = gs_contentID snapshot\<rparr>,
          va_reviews = reviews, va_names = names, va_profile = profile, va_canonical = canonical,
          va_project = project, va_lane = lane, va_snapshot = snapshot\<rparr>))))))))))"

definition taskExecutionVerificationAdmissionFor ::
  "driver \<Rightarrow> world \<Rightarrow> string \<Rightarrow> TaskExecutionState \<Rightarrow> taskExecutionVerificationAdmission io" where
  "taskExecutionVerificationAdmissionFor dv w projectID s =
     (if no_durability dv then io_error ''shared durability is unavailable''
      else io_require (xs_Status s = ''ready_for_verification'' \<or> xs_Status s = ''verifying'' \<or> xs_Status s = ''verified'')
        ''Task is not ready for verification'' (computeTaskExecutionVerificationAdmission dv w projectID s))"

section \<open>Gate evidence\<close>

record procedure_gate =
  pg_ID :: string
  pg_ExitCode :: int
  pg_DurationMS :: int

definition procedure_gate_fields :: "(string \<times> procedure_gate field_decoder) list" where
  "procedure_gate_fields =
     [(''id'', dec_string (\<lambda>x r. r\<lparr>pg_ID := x\<rparr>)), (''exit_code'', dec_int64 (\<lambda>x r. r\<lparr>pg_ExitCode := x\<rparr>)),
      (''duration_ms'', dec_int64 (\<lambda>x r. r\<lparr>pg_DurationMS := x\<rparr>))]"

definition decode_procedure_gates :: "string \<Rightarrow> procedure_gate list option" where
  "decode_procedure_gates raw = map_option elems (json_Unmarshal
     [(''gates'', dec_slice (\<lambda>z v. decode_struct False procedure_gate_fields v z)
        \<lparr>pg_ID = [], pg_ExitCode = 0, pg_DurationMS = 0\<rparr> (\<lambda>x _. x))] None raw)"

fun gate_evidence :: "string \<Rightarrow> string \<Rightarrow> string \<Rightarrow> string list \<Rightarrow> procedure_gate list \<Rightarrow> CompletionGateResult list result" where
  "gate_evidence tree profile digest (name # names) (g # gs) =
     (if pg_ID g \<noteq> name \<or> pg_ExitCode g < 0 \<or> 255 < pg_ExitCode g \<or> pg_DurationMS g < 0
          \<or> MaxTaskVerificationGateDurationMS < pg_DurationMS g
      then Err ''pre_task_verify Procedure returned invalid or reordered gate evidence''
      else if pg_ExitCode g \<noteq> 0 then Err (''Task verification gate '' @ go_quote (pg_ID g) @ '' failed'')
      else map_sum id (Cons \<lparr>cg_ID = pg_ID g, cg_ExitCode = pg_ExitCode g, cg_Execution = ''executed'',
             cg_TreeID = tree, cg_ContractDigest = profile, cg_ReceiptDigest = digest,
             cg_DurationMS = pg_DurationMS g, cg_AggregateMS = 0, cg_Warnings = []\<rparr>)
           (gate_evidence tree profile digest names gs))"
| "gate_evidence tree profile digest names gs = Ok []"

definition taskExecutionProcedureGateEvidence ::
  "string \<Rightarrow> string list \<Rightarrow> string \<Rightarrow> string \<Rightarrow> CompletionGateResult list result" where
  "taskExecutionProcedureGateEvidence raw names candidateTree profile =
     (let invalid = Err ''pre_task_verify Procedure returned invalid gate evidence'' in
      case decode_procedure_gates raw of
        None \<Rightarrow> invalid
      | Some gates \<Rightarrow>
          if length gates \<noteq> length names \<or> ValidateCommitSHA candidateTree \<noteq> None \<or> ValidateSHA256 profile \<noteq> None
          then invalid else gate_evidence candidateTree profile (sha256_hex raw) names gates)"

definition passing_receipt_gate :: "string \<Rightarrow> string \<Rightarrow> CompletionGateResult \<Rightarrow> string \<Rightarrow> bool" where
  "passing_receipt_gate candidateTree profile g name \<longleftrightarrow> cg_ID g = name \<and> cg_Execution g = ''executed''
     \<and> cg_ExitCode g = 0 \<and> cg_TreeID g = candidateTree \<and> cg_ContractDigest g = profile
     \<and> ValidateSHA256 (cg_ReceiptDigest g) = None \<and> 0 \<le> cg_DurationMS g
     \<and> cg_DurationMS g \<le> MaxTaskVerificationGateDurationMS"

definition validateTaskVerificationGateResults ::
  "CompletionGateResult list \<Rightarrow> string list \<Rightarrow> string \<Rightarrow> string \<Rightarrow> error" where
  "validateTaskVerificationGateResults gates expected candidateTree profile = first_error
     [fail_if (gates = [] \<or> length gates \<noteq> length expected \<or> ValidateCommitSHA candidateTree \<noteq> None
          \<or> ValidateSHA256 profile \<noteq> None) ''Task verification gate coverage is invalid'',
      fail_if (\<not> list_all2 (passing_receipt_gate candidateTree profile) gates expected)
        ''Task verification gate evidence is not a passing Procedure receipt'']"

section \<open>Is the task still proved?\<close>

definition taskExecutionVerificationBinds :: "TaskExecutionVerification \<Rightarrow> TaskExecutionState \<Rightarrow> bool" where
  "taskExecutionVerificationBinds v s \<longleftrightarrow> receipt_matches v s \<and> xv_AttemptRevision v < xs_ExecutionRevision s"

text \<open>The outcome: the receipt, whether it proves the task, whether a fallback is eligible, the reason.\<close>

record verification_proof =
  vf_receipt :: "TaskExecutionVerification option"
  vf_current :: bool
  vf_fallback :: bool
  vf_reason :: string

definition not_proved :: "TaskExecutionVerification option \<Rightarrow> bool \<Rightarrow> string \<Rightarrow> verification_proof" where
  "not_proved v fallback reason =
     \<lparr>vf_receipt = v, vf_current = False, vf_fallback = fallback, vf_reason = reason\<rparr>"

definition latest_phase_revision :: "driver \<Rightarrow> TaskExecutionState \<Rightarrow> string \<Rightarrow> int \<Rightarrow> int io" where
  "latest_phase_revision dv s stage so_far =
     io_bind (ReadLatestTaskExecutionPhase dv (xs_ProjectID s) (xs_TaskID s) stage) (\<lambda>found.
       io_return (case found of None \<Rightarrow> so_far | Some p \<Rightarrow> max so_far (ph_ExecutionRevision p)))"

definition taskExecutionVerificationProofCurrent ::
  "driver \<Rightarrow> world \<Rightarrow> TaskExecutionState \<Rightarrow> verification_proof io" where
  "taskExecutionVerificationProofCurrent dv w s =
     io_bind (ReadLatestTaskExecutionVerificationTolerant dv (xs_ProjectID s) (xs_TaskID s)) (\<lambda>(found, legacy).
       if legacy then io_return (not_proved found True ''Task verification receipt predates the current gate contract'')
       else case found of
         None \<Rightarrow> io_return (not_proved None True ''no Task verification receipt'')
       | Some v \<Rightarrow>
           if xv_Outcome v \<noteq> ''succeeded''
             then io_return (not_proved found False ''receipt outcome is not succeeded'')
           else if \<not> taskExecutionVerificationBinds v s
             then io_return (not_proved found False ''receipt does not bind the integrated execution state'')
           else io_bind (gate_profile dv w (xs_ProjectID s)) (\<lambda>(names, profile).
             if xv_GateProfileSHA256 v \<noteq> profile
               then io_return (not_proved found True ''verification Procedure changed after the receipt'')
             else if validateTaskVerificationGateResults (elems (xv_Gates v)) names (xv_CandidateTree v) profile \<noteq> None
               then io_return (not_proved found False ''receipt gate evidence is invalid'')
             else io_bind (latest_phase_revision dv s ''code'' 0) (\<lambda>a.
               io_bind (latest_phase_revision dv s ''tests'' a) (\<lambda>b.
               io_bind (latest_phase_revision dv s ''rebase'' b) (\<lambda>c. io_return
                 (if xv_AttemptRevision v + 1 < c
                  then not_proved found False ''a review phase postdates the verification attempt''
                  else \<lparr>vf_receipt = found, vf_current = True, vf_fallback = False, vf_reason = ''''\<rparr>))))))"

definition compact_commit :: "driver \<Rightarrow> world \<Rightarrow> string \<Rightarrow> string \<Rightarrow> string io" where
  "compact_commit dv w projectID commit =
     io_require (ValidateCommitSHA commit = None) ''invalid Git object ID in verification receipt''
       (io_ask dv (\<lambda>k. w_CompactGitFingerprint w k projectID commit))"

definition taskExecutionVerificationProjection ::
  "driver \<Rightarrow> world \<Rightarrow> TaskExecutionVerification \<Rightarrow> TaskExecutionVerificationPublic io" where
  "taskExecutionVerificationProjection dv w v =
     io_bind (compact_commit dv w (xv_ProjectID v) (xv_CandidateHead v)) (\<lambda>head.
     io_bind (compact_commit dv w (xv_ProjectID v) (xv_CandidateTree v)) (\<lambda>tree.
     io_bind (compact_commit dv w (xv_ProjectID v) (xv_BaseHead v)) (\<lambda>base. io_return
       \<lparr>vp_OperationID = xv_OperationID v, vp_TaskRevision = xv_TaskRevision v, vp_CandidateHead = head,
        vp_CandidateTree = tree, vp_MainBase = base, vp_VerifiedAt = rfc3339_nano (to_utc (xv_CompletedAt v))\<rparr>)))"

definition output_with_proof ::
  "driver \<Rightarrow> world \<Rightarrow> TaskExecutionState \<Rightarrow> TaskExecutionVerification \<Rightarrow> TaskExecutionPublicOutput io" where
  "output_with_proof dv w s v =
     io_bind (taskExecutionPublicOutput dv w s) (\<lambda>out.
     io_bind (taskExecutionVerificationProjection dv w v) (\<lambda>projection.
       io_return (out\<lparr>po_Verification := Some projection\<rparr>)))"

section \<open>The captured identity\<close>

definition test_identity_fields :: "(string \<times> taskExecutionTestIdentity field_decoder) list" where
  "test_identity_fields =
     [(''project_id'', dec_string (\<lambda>x r. r\<lparr>ti_ProjectID := x\<rparr>)), (''task_id'', dec_string (\<lambda>x r. r\<lparr>ti_TaskID := x\<rparr>)),
      (''task_revision'', dec_int64 (\<lambda>x r. r\<lparr>ti_TaskRevision := x\<rparr>)),
      (''task_revision_sha256'', dec_string (\<lambda>x r. r\<lparr>ti_TaskRevisionSHA256 := x\<rparr>)),
      (''stage'', dec_string (\<lambda>x r. r\<lparr>ti_Stage := x\<rparr>)), (''base_head'', dec_string (\<lambda>x r. r\<lparr>ti_BaseHead := x\<rparr>)),
      (''head'', dec_string (\<lambda>x r. r\<lparr>ti_Head := x\<rparr>)), (''branch'', dec_string (\<lambda>x r. r\<lparr>ti_Branch := x\<rparr>)),
      (''agent'', dec_string (\<lambda>x r. r\<lparr>ti_Agent := x\<rparr>)), (''worktree'', dec_string (\<lambda>x r. r\<lparr>ti_Worktree := x\<rparr>)),
      (''code_review_id'', dec_int64 (\<lambda>x r. r\<lparr>ti_CodeReviewID := x\<rparr>)),
      (''tests_review_id'', dec_int64 (\<lambda>x r. r\<lparr>ti_TestsReviewID := x\<rparr>)),
      (''rebase_review_id'', dec_int64 (\<lambda>x r. r\<lparr>ti_RebaseReviewID := x\<rparr>)),
      (''gate_profile_sha256'', dec_string (\<lambda>x r. r\<lparr>ti_GateProfileSHA256 := x\<rparr>)),
      (''canonical_head'', dec_string (\<lambda>x r. r\<lparr>ti_CanonicalHead := x\<rparr>)),
      (''lane_head'', dec_string (\<lambda>x r. r\<lparr>ti_LaneHead := x\<rparr>)),
      (''lane_content'', dec_string (\<lambda>x r. r\<lparr>ti_LaneContent := x\<rparr>))]"

definition zero_test_identity :: taskExecutionTestIdentity where
  "zero_test_identity = \<lparr>ti_ProjectID = [], ti_TaskID = [], ti_TaskRevision = 0, ti_TaskRevisionSHA256 = [], ti_Stage = [],
     ti_BaseHead = [], ti_Head = [], ti_Branch = [], ti_Agent = [], ti_Worktree = [], ti_CodeReviewID = 0,
     ti_TestsReviewID = 0, ti_RebaseReviewID = 0, ti_GateProfileSHA256 = [], ti_CanonicalHead = [], ti_LaneHead = [],
     ti_LaneContent = []\<rparr>"

definition captured_ok :: "taskExecutionTestIdentity \<Rightarrow> bool" where
  "captured_ok c \<longleftrightarrow> ValidateProjectIdentifier (ti_ProjectID c) = None \<and> ValidateCanonicalTaskID (ti_TaskID c) = None
     \<and> 1 \<le> ti_TaskRevision c \<and> length (ti_TaskRevisionSHA256 c) = 64 \<and> length (ti_GateProfileSHA256 c) = 64
     \<and> execution_stage (ti_Stage c) \<and> list_all is_hex (ti_TaskRevisionSHA256 c) \<and> list_all is_hex (ti_GateProfileSHA256 c)
     \<and> ValidateCommitSHA (ti_LaneContent c) = None \<and> ValidateCommitSHA (ti_BaseHead c) = None
     \<and> ValidateCommitSHA (ti_Head c) = None \<and> ValidateCommitSHA (ti_CanonicalHead c) = None
     \<and> ValidateCommitSHA (ti_LaneHead c) = None \<and> ValidateBranch (ti_Branch c) = None
     \<and> HasPrefix (ti_Worktree c) ''WT-TSK'' \<and> HasSuffix (ti_Worktree c) (''-'' @ ascii_lower (take 8 (ti_Head c)))
     \<and> ti_Branch c \<noteq> '''' \<and> ti_Agent c \<noteq> '''' \<and> ti_Worktree c \<noteq> '''' \<and> 1 \<le> ti_CodeReviewID c
     \<and> 0 \<le> ti_TestsReviewID c \<and> 0 \<le> ti_RebaseReviewID c \<and> (ti_Stage c = ''tests'' \<longrightarrow> 1 \<le> ti_TestsReviewID c)"

definition taskExecutionCapturedIdentity :: "string \<Rightarrow> taskExecutionTestIdentity result" where
  "taskExecutionCapturedIdentity raw =
     (case json_Unmarshal test_identity_fields zero_test_identity raw of
        None \<Rightarrow> Err ''durable Task verification snapshot is invalid''
      | Some c \<Rightarrow> if captured_ok c then Ok c else Err ''durable Task verification snapshot is invalid'')"

section \<open>Running the verification\<close>

definition rebase_required ::
  "driver \<Rightarrow> world \<Rightarrow> TaskExecutionState \<Rightarrow> project_config \<Rightarrow> string \<Rightarrow> string \<Rightarrow> 'a io" where
  "rebase_required dv w s project canonical message =
     io_bind (reconcileTaskExecutionBase dv w s project canonical) (\<lambda>_. io_error message)"

text \<open>The receipt of a successful attempt.\<close>

definition success_receipt :: "TaskExecutionState \<Rightarrow> taskExecutionVerificationAdmission \<Rightarrow> string
    \<Rightarrow> CompletionGateResult list \<Rightarrow> gotime \<Rightarrow> gotime \<Rightarrow> TaskExecutionVerification" where
  "success_receipt s a operationID gates startedAt completedAt =
     \<lparr>xv_ProjectID = xs_ProjectID s, xv_TaskID = xs_TaskID s, xv_OperationID = operationID,
      xv_TaskRevisionSHA256 = xs_TaskRevisionSHA256 s, xv_BaseHead = xs_BaseHead s, xv_CandidateHead = xs_Head s,
      xv_CandidateTree = gs_tree (va_snapshot a), xv_Branch = xs_Branch s, xv_GateProfileSHA256 = va_profile a,
      xv_Outcome = ''succeeded'', xv_Error = '''', xv_TaskRevision = xs_TaskRevision s,
      xv_AttemptRevision = xs_ExecutionRevision s, xv_CodeReviewID = rv_code (va_reviews a),
      xv_TestsReviewID = rv_tests (va_reviews a), xv_RebaseReviewID = rv_rebase (va_reviews a),
      xv_Gates = Some gates, xv_StartedAt = startedAt, xv_CompletedAt = completedAt\<rparr>"

text \<open>After the gates: the state and the admission are read again, the attempt is claimed and finished.\<close>

definition finish_verification :: "driver \<Rightarrow> world \<Rightarrow> TaskExecutionState \<Rightarrow> taskExecutionVerificationAdmission
    \<Rightarrow> gotime \<Rightarrow> CompletionGateResult list \<Rightarrow> TaskExecutionPublicOutput io" where
  "finish_verification dv w s a startedAt gates =
     io_bind (ReadTaskExecutionState dv (xs_ProjectID s) (xs_TaskID s)) (\<lambda>found.
       case found of
         None \<Rightarrow> io_error ''Task execution state changed during pre_task_verify Procedure''
       | Some current \<Rightarrow>
           io_require (xs_Status current = xs_Status s \<and> xs_ExecutionRevision current = xs_ExecutionRevision s)
             ''Task execution state changed during pre_task_verify Procedure''
           (io_bind (taskExecutionVerificationAdmissionFor dv w (xs_ProjectID s) current) (\<lambda>after.
            if va_identity after \<noteq> va_identity a then
              (if ti_CanonicalHead (va_identity after) \<noteq> ti_CanonicalHead (va_identity a)
               then rebase_required dv w current (va_project a) (ti_CanonicalHead (va_identity after))
                      ''canonical default branch advanced during Task verification''
               else io_error ''Task verification authority changed during pre_task_verify Procedure'')
            else io_bind (io_tell dv (w_cancelled w)) (\<lambda>_.
              io_bind
                (if xs_Status current = ''ready_for_verification'' then
                   io_bind (io_now dv w) (\<lambda>now.
                   let t = next_state current ''verifying'' now in
                   io_bind (UpdateTaskExecutionState dv t (xs_ExecutionRevision current)) (\<lambda>_. io_return t))
                 else io_return current) (\<lambda>t.
              io_bind (io_now dv w) (\<lambda>now.
              let completedAt = to_utc now; v = success_receipt t a (w_operation w) gates startedAt completedAt;
                  verified = t\<lparr>xs_Status := ''verified'', xs_ExecutionRevision := xs_ExecutionRevision t + 1,
                               xs_UpdatedAt := completedAt\<rparr> in
              io_require (time_before startedAt completedAt)
                ''Task verification timing is not ordered; proof cannot be recorded''
              (io_bind (io_wrap ''Task verification finish could not be recorded: ''
                 (FinishTaskExecutionVerification dv verified (xs_ExecutionRevision t) v)) (\<lambda>_.
               io_bind (output_with_proof dv w verified v) (\<lambda>out.
               io_bind (io_ignore (io_tell dv (\<lambda>k. w_ProcedureHook w k ''post_task_verify''))) (\<lambda>_.
                 io_return out))))))))))"

text \<open>Whether a verified task needs no run: its proof is current for today's coordinates.\<close>

definition live_proof :: "verification_proof \<Rightarrow> taskExecutionVerificationAdmission \<Rightarrow> bool" where
  "live_proof f a \<longleftrightarrow> vf_current f \<and> (case vf_receipt f of None \<Rightarrow> False | Some v \<Rightarrow>
     xv_BaseHead v = va_canonical a \<and> xv_GateProfileSHA256 v = va_profile a \<and> gs_clean (va_snapshot a)
     \<and> gs_head (va_snapshot a) = xv_CandidateHead v \<and> gs_tree (va_snapshot a) = xv_CandidateTree v)"

definition verified_already ::
  "driver \<Rightarrow> world \<Rightarrow> TaskExecutionState \<Rightarrow> taskExecutionVerificationAdmission \<Rightarrow> TaskExecutionPublicOutput io" where
  "verified_already dv w s a =
     io_bind (taskExecutionVerificationProofCurrent dv w s) (\<lambda>f.
       if live_proof f a then output_with_proof dv w s (the (vf_receipt f))
       else if va_canonical a \<noteq> xs_BaseHead s then rebase_required dv w s (va_project a) (va_canonical a)
         ''canonical default branch advanced beyond verified Task base; controlled rebase is required''
       else io_error ''Task verification proof is stale under current authority; Planner rework is required'')"

definition run_gates :: "driver \<Rightarrow> world \<Rightarrow> taskExecutionVerificationAdmission \<Rightarrow> CompletionGateResult list io" where
  "run_gates dv w a =
     io_bind (io_ask dv (\<lambda>k. w_VerifyHook w k (pc_Root (va_lane a)))) (\<lambda>raw.
       case taskExecutionProcedureGateEvidence raw (va_names a) (gs_tree (va_snapshot a)) (va_profile a) of
         Inr gates \<Rightarrow> io_return gates
       | Inl m \<Rightarrow>
           if raw = '''' then io_error m
           else io_bind (io_wrap ''Task verification Procedure failed and its evidence could not be updated: ''
                  (io_tell dv (\<lambda>k. w_FailHookAttempt w k (w_operation w)))) (\<lambda>_. io_error m))"

definition taskExecutionTestRun ::
  "driver \<Rightarrow> world \<Rightarrow> string \<Rightarrow> string \<Rightarrow> string \<Rightarrow> TaskExecutionPublicOutput io" where
  "taskExecutionTestRun dv w projectID key capturedJSON =
     io_check (ValidateProjectIdentifier projectID) (io_check (ValidateCanonicalTaskID key)
     (if no_durability dv then io_error ''shared durability is unavailable''
      else io_require (w_operation w \<noteq> '''') ''Task verification requires a durable operation identity''
      (io_bind (io_now dv w) (\<lambda>started.
       io_bind (execution_for dv w projectID key ''Task has not been dispatched'') (\<lambda>s.
       io_bind (taskExecutionVerificationAdmissionFor dv w projectID s) (\<lambda>a.
       io_bind (io_value (taskExecutionCapturedIdentity capturedJSON)) (\<lambda>captured.
         if captured \<noteq> va_identity a then
           io_require (captured\<lparr>ti_CanonicalHead := ti_CanonicalHead (va_identity a)\<rparr> = va_identity a)
             ''admitted Task verification authority changed while queued''
           (rebase_required dv w s (va_project a) (va_canonical a)
             ''canonical default branch advanced beyond the admitted Task base; controlled rebase is required'')
         else if xs_Status s = ''verified'' then verified_already dv w s a
         else if va_canonical a \<noteq> xs_BaseHead s then rebase_required dv w s (va_project a) (va_canonical a)
           ''canonical default branch advanced beyond Task base; controlled rebase is required''
         else io_bind (io_know dv (\<lambda>k. w_VerifyInFlight w k key)) (\<lambda>owner.
           io_require (owner = None \<or> owner = Some (w_operation w)) ''Task verification is already in flight''
           (io_bind (run_gates dv w a) (finish_verification dv w s a (to_utc started)))))))))))"

end
