(* ===== verification/Task_Integration.thy ===== *)
theory Task_Integration
  imports Task_Verifying
begin

text \<open>
  Landing a verified task on the default branch (\<open>internal/service/task_execution_integrate.go\<close>,
  \<open>task_execution_integration_recovery.go\<close>): the capture that the durable operation keeps of the
  admitted proof and of the prepared commit, the release of the claim when nothing landed, the
  publication by compare-and-swap and the recovery of a landed commit. The historical mode, which
  proves a commit from Journal records of the hub, is an argument of \<open>TaskExecutionIntegrate\<close>.
\<close>

section \<open>The request\<close>

record TaskExecutionHistoricalIntegrationInput =
  hi_IntegrationHead :: string
  hi_Profile :: string
  hi_Evidence :: string
  hi_CandidateHead :: string
  hi_MainBase :: string

record TaskExecutionIntegrateInput =
  ii_ProjectID :: string
  ii_Key :: string
  ii_Comment :: string
  ii_Mode :: string
  ii_Historical :: "TaskExecutionHistoricalIntegrationInput option"

definition validTaskExecutionCommitReference :: "string \<Rightarrow> bool" where
  "validTaskExecutionCommitReference value \<longleftrightarrow>
     ValidateCommitSHA value = None \<or> (length value = 8 \<and> list_all is_hex_lower value)"

definition validate_historical_input :: "TaskExecutionHistoricalIntegrationInput \<Rightarrow> error" where
  "validate_historical_input h = first_error
     [fail_if (\<not> validTaskExecutionCommitReference (hi_IntegrationHead h))
        ''historical integration_head must be an 8-character fingerprint or exact internal commit SHA'',
      (case ParseJournalID (hi_Evidence h) of Inl m \<Rightarrow> Some (''historical evidence: '' @ m) | Inr _ \<Rightarrow> None),
      (if hi_Profile h = ''legacy'' then fail_if (hi_CandidateHead h \<noteq> '''' \<or> hi_MainBase h \<noteq> '''')
         ''legacy historical integration does not accept candidate_head or main_base''
       else if hi_Profile h = ''bootstrap_full'' then first_error
         [fail_if (\<not> validTaskExecutionCommitReference (hi_CandidateHead h))
            ''historical candidate_head must be an 8-character fingerprint or exact internal commit SHA'',
          fail_if (\<not> validTaskExecutionCommitReference (hi_MainBase h))
            ''historical main_base must be an 8-character fingerprint or exact internal commit SHA'']
       else Some ''invalid historical integration profile'')]"

definition validateTaskExecutionIntegrateInput :: "TaskExecutionIntegrateInput \<Rightarrow> error" where
  "validateTaskExecutionIntegrateInput i = first_error
     [validateTaskExecutionReviewInput (ii_ProjectID i) (ii_Key i) ''code'',
      fail_if (1024 < rune_count (TrimSpace (ii_Comment i))) ''integration comment is too long'',
      (if ii_Mode i = '''' \<or> ii_Mode i = ''verified''
       then fail_if (ii_Historical i \<noteq> None) ''verified integration does not accept historical proof''
       else if ii_Mode i = ''historical''
       then (case ii_Historical i of
               None \<Rightarrow> Some ''historical integration requires proof input''
             | Some h \<Rightarrow> validate_historical_input h)
       else Some ''invalid integration mode'')]"

section \<open>The capture\<close>

record taskExecutionIntegrationCapture =
  ic_SchemaVersion :: int
  ic_ProjectID :: string
  ic_TaskID :: string
  ic_TaskRevision :: int
  ic_TaskRevisionSHA256 :: string
  ic_ExecutionRevision :: int
  ic_BaseHead :: string
  ic_LaneHead :: string
  ic_Branch :: string
  ic_CandidateHead :: string
  ic_CandidateTree :: string
  ic_GateProfileSHA256 :: string
  ic_CodeReviewID :: int
  ic_TestsReviewID :: int
  ic_RebaseReviewID :: int
  ic_IntegrationHead :: string
  ic_Gates :: "CompletionGateResult list option"

definition zero_capture :: taskExecutionIntegrationCapture where
  "zero_capture = \<lparr>ic_SchemaVersion = 0, ic_ProjectID = [], ic_TaskID = [], ic_TaskRevision = 0,
     ic_TaskRevisionSHA256 = [], ic_ExecutionRevision = 0, ic_BaseHead = [], ic_LaneHead = [], ic_Branch = [],
     ic_CandidateHead = [], ic_CandidateTree = [], ic_GateProfileSHA256 = [], ic_CodeReviewID = 0,
     ic_TestsReviewID = 0, ic_RebaseReviewID = 0, ic_IntegrationHead = [], ic_Gates = None\<rparr>"

definition json_capture :: "taskExecutionIntegrationCapture \<Rightarrow> string" where
  "json_capture c = json_object
     (json_field ''schema_version'' (dec_int (ic_SchemaVersion c))
      @ json_field ''project_id'' (json_string (ic_ProjectID c))
      @ json_field ''task_id'' (json_string (ic_TaskID c))
      @ json_field ''task_revision'' (dec_int (ic_TaskRevision c))
      @ json_field ''task_revision_sha256'' (json_string (ic_TaskRevisionSHA256 c))
      @ json_field ''execution_revision'' (dec_int (ic_ExecutionRevision c))
      @ json_field ''base_head'' (json_string (ic_BaseHead c))
      @ json_field ''lane_head'' (json_string (ic_LaneHead c))
      @ json_field ''branch'' (json_string (ic_Branch c))
      @ json_field ''candidate_head'' (json_string (ic_CandidateHead c))
      @ json_field ''candidate_tree'' (json_string (ic_CandidateTree c))
      @ json_field ''gate_profile_sha256'' (json_string (ic_GateProfileSHA256 c))
      @ json_field ''code_review_id'' (dec_int (ic_CodeReviewID c))
      @ json_field ''tests_review_id'' (dec_int (ic_TestsReviewID c))
      @ json_field ''rebase_review_id'' (dec_int (ic_RebaseReviewID c))
      @ json_omit (ic_IntegrationHead c = []) ''integration_head'' (json_string (ic_IntegrationHead c))
      @ json_field ''gates'' (case ic_Gates c of None \<Rightarrow> ''null''
          | Some gs \<Rightarrow> json_list (map json_CompletionGateResult gs)))"

definition capture_fields :: "(string \<times> taskExecutionIntegrationCapture field_decoder) list" where
  "capture_fields =
     [(''schema_version'', dec_int64 (\<lambda>x r. r\<lparr>ic_SchemaVersion := x\<rparr>)),
      (''project_id'', dec_string (\<lambda>x r. r\<lparr>ic_ProjectID := x\<rparr>)), (''task_id'', dec_string (\<lambda>x r. r\<lparr>ic_TaskID := x\<rparr>)),
      (''task_revision'', dec_int64 (\<lambda>x r. r\<lparr>ic_TaskRevision := x\<rparr>)),
      (''task_revision_sha256'', dec_string (\<lambda>x r. r\<lparr>ic_TaskRevisionSHA256 := x\<rparr>)),
      (''execution_revision'', dec_int64 (\<lambda>x r. r\<lparr>ic_ExecutionRevision := x\<rparr>)),
      (''base_head'', dec_string (\<lambda>x r. r\<lparr>ic_BaseHead := x\<rparr>)), (''lane_head'', dec_string (\<lambda>x r. r\<lparr>ic_LaneHead := x\<rparr>)),
      (''branch'', dec_string (\<lambda>x r. r\<lparr>ic_Branch := x\<rparr>)),
      (''candidate_head'', dec_string (\<lambda>x r. r\<lparr>ic_CandidateHead := x\<rparr>)),
      (''candidate_tree'', dec_string (\<lambda>x r. r\<lparr>ic_CandidateTree := x\<rparr>)),
      (''gate_profile_sha256'', dec_string (\<lambda>x r. r\<lparr>ic_GateProfileSHA256 := x\<rparr>)),
      (''code_review_id'', dec_int64 (\<lambda>x r. r\<lparr>ic_CodeReviewID := x\<rparr>)),
      (''tests_review_id'', dec_int64 (\<lambda>x r. r\<lparr>ic_TestsReviewID := x\<rparr>)),
      (''rebase_review_id'', dec_int64 (\<lambda>x r. r\<lparr>ic_RebaseReviewID := x\<rparr>)),
      (''integration_head'', dec_string (\<lambda>x r. r\<lparr>ic_IntegrationHead := x\<rparr>)),
      (''gates'', dec_slice (\<lambda>z v. decode_struct False gate_fields v z) zero_CompletionGateResult
         (\<lambda>x r. r\<lparr>ic_Gates := x\<rparr>))]"

definition capture_ok :: "taskExecutionIntegrationCapture \<Rightarrow> bool" where
  "capture_ok c \<longleftrightarrow> ic_SchemaVersion c = 3 \<and> ic_ProjectID c \<noteq> '''' \<and> ic_TaskID c \<noteq> '''' \<and> 1 \<le> ic_TaskRevision c
     \<and> ValidateSHA256 (ic_TaskRevisionSHA256 c) = None \<and> 1 \<le> ic_ExecutionRevision c
     \<and> ValidateCommitSHA (ic_BaseHead c) = None \<and> ValidateCommitSHA (ic_LaneHead c) = None
     \<and> ValidateCommitSHA (ic_CandidateHead c) = None \<and> ValidateCommitSHA (ic_CandidateTree c) = None
     \<and> ValidateSHA256 (ic_GateProfileSHA256 c) = None \<and> ValidateBranch (ic_Branch c) = None
     \<and> 1 \<le> ic_CodeReviewID c \<and> 0 \<le> ic_TestsReviewID c \<and> 0 \<le> ic_RebaseReviewID c \<and> elems (ic_Gates c) \<noteq> []"

fun capture_gates :: "string \<Rightarrow> string list \<Rightarrow> CompletionGateResult list \<Rightarrow> error" where
  "capture_gates tree seen [] = None"
| "capture_gates tree seen (g # gs) =
     (if cg_ID g = '''' \<or> cg_ExitCode g \<noteq> 0 then Some ''invalid durable Task gate evidence''
      else if List.member seen (cg_ID g) then Some ''duplicate durable Task gate evidence''
      else if cg_TreeID g \<noteq> '''' \<and> (ValidateCommitSHA (cg_TreeID g) \<noteq> None \<or> cg_TreeID g \<noteq> tree)
        then Some ''invalid durable Task gate tree evidence''
      else capture_gates tree (cg_ID g # seen) gs)"

definition readTaskExecutionIntegrationCapture :: "string \<Rightarrow> taskExecutionIntegrationCapture result" where
  "readTaskExecutionIntegrationCapture raw =
     (if raw = '''' then Ok zero_capture
      else case json_Unmarshal capture_fields zero_capture raw of
        None \<Rightarrow> Err ''invalid durable Task integration capture''
      | Some c \<Rightarrow> guard_result (first_error
          [fail_if (\<not> capture_ok c) ''invalid durable Task integration capture'',
           fail_if (ic_IntegrationHead c \<noteq> '''' \<and> ValidateCommitSHA (ic_IntegrationHead c) \<noteq> None)
             ''invalid durable Task integration result'',
           capture_gates (ic_CandidateTree c) [] (elems (ic_Gates c))]) (Ok c))"

text \<open>The file of the durable operation: reading its captured state and writing it back.\<close>

definition captured_state :: "driver \<Rightarrow> string \<Rightarrow> string io" where
  "captured_state dv operationID =
     io_bind (io_query dv (\<lambda>db. lo_captured (sd_local db) operationID)) (\<lambda>found.
       case found of None \<Rightarrow> io_error ''durable operation not found'' | Some raw \<Rightarrow> io_return raw)"

definition store_captured :: "string \<Rightarrow> string \<Rightarrow> statement" where
  "store_captured operationID raw db =
     Some (db\<lparr>sd_local := (sd_local db)\<lparr>lo_captured := (lo_captured (sd_local db))(operationID \<mapsto> raw)\<rparr>\<rparr>, 1)"

definition saveTaskExecutionIntegrationCapture ::
  "driver \<Rightarrow> world \<Rightarrow> taskExecutionIntegrationCapture \<Rightarrow> unit io" where
  "saveTaskExecutionIntegrationCapture dv w c =
     (if w_operation w = '''' then io_return ()
      else io_bind (captured_state dv (w_operation w)) (\<lambda>_.
        io_exec dv (store_captured (w_operation w) (json_capture c))))"

section \<open>Integrating\<close>

definition readExecutionForIntegration :: "driver \<Rightarrow> world \<Rightarrow> string \<Rightarrow> string \<Rightarrow> TaskExecutionState option io" where
  "readExecutionForIntegration dv w projectID key = readExecutionForMutation dv w projectID key"

text \<open>A claim that did not land is released: the task is verified again, and the cause is returned.\<close>

definition rejectTaskExecutionIntegration ::
  "driver \<Rightarrow> world \<Rightarrow> TaskExecutionState \<Rightarrow> store_error \<Rightarrow> 'a io" where
  "rejectTaskExecutionIntegration dv w s cause =
     (if xs_Status s \<noteq> ''integrating'' then io_fail cause
      else io_bind (io_now dv w) (\<lambda>now.
        io_bind (io_wrap ''Task integration rejection state could not be recorded: ''
          (UpdateTaskExecutionState dv (next_state s ''verified'' now) (xs_ExecutionRevision s))) (\<lambda>_.
          io_fail cause)))"

definition or_reject :: "driver \<Rightarrow> world \<Rightarrow> TaskExecutionState \<Rightarrow> 'a io \<Rightarrow> 'a io" where
  "or_reject dv w s m = io_bind (io_try m) (\<lambda>r.
     case r of Inl e \<Rightarrow> rejectTaskExecutionIntegration dv w s e | Inr x \<Rightarrow> io_return x)"

definition taskExecutionIntegrationCaptureMatchesAdmission ::
  "taskExecutionIntegrationCapture \<Rightarrow> taskExecutionVerificationAdmission \<Rightarrow> TaskExecutionState \<Rightarrow> bool" where
  "taskExecutionIntegrationCaptureMatchesAdmission c a s \<longleftrightarrow> (let t = va_identity a in
     ic_ProjectID c = ti_ProjectID t \<and> ic_TaskID c = ti_TaskID t \<and> ic_TaskRevision c = ti_TaskRevision t
     \<and> ic_TaskRevisionSHA256 c = ti_TaskRevisionSHA256 t \<and> ic_ExecutionRevision c = xs_ExecutionRevision s
     \<and> ic_BaseHead c = ti_CanonicalHead t \<and> ic_LaneHead c = ti_Head t \<and> ic_Branch c = ti_Branch t
     \<and> ic_CandidateHead c = ti_Head t \<and> ic_CandidateTree c = gs_tree (va_snapshot a)
     \<and> ic_GateProfileSHA256 c = ti_GateProfileSHA256 t \<and> ic_CodeReviewID c = ti_CodeReviewID t
     \<and> ic_TestsReviewID c = ti_TestsReviewID t \<and> ic_RebaseReviewID c = ti_RebaseReviewID t)"

definition taskExecutionIntegrationCaptureBindsState ::
  "taskExecutionIntegrationCapture \<Rightarrow> TaskExecutionState \<Rightarrow> bool" where
  "taskExecutionIntegrationCaptureBindsState c s \<longleftrightarrow>
     ic_ProjectID c = xs_ProjectID s \<and> ic_TaskID c = xs_TaskID s \<and> ic_TaskRevision c = xs_TaskRevision s
     \<and> ic_TaskRevisionSHA256 c = xs_TaskRevisionSHA256 s \<and> ic_ExecutionRevision c = xs_ExecutionRevision s
     \<and> ic_BaseHead c = xs_BaseHead s \<and> ic_LaneHead c = xs_Head s \<and> ic_Branch c = xs_Branch s"

definition taskIntegrationCommitExact ::
  "driver \<Rightarrow> world \<Rightarrow> project_config \<Rightarrow> taskExecutionIntegrationCapture \<Rightarrow> bool io" where
  "taskIntegrationCommitExact dv w project c =
     io_bind (io_ask dv (\<lambda>k. g_InspectTaskIntegrationCommit (w_git w) k project (ic_IntegrationHead c)))
       (\<lambda>(tree, parents). io_return (tree = ic_CandidateTree c \<and> parents = [ic_BaseHead c]))"

definition taskIntegrationCommitOnCanonical ::
  "driver \<Rightarrow> world \<Rightarrow> project_config \<Rightarrow> string \<Rightarrow> string \<Rightarrow> string \<Rightarrow> bool io" where
  "taskIntegrationCommitOnCanonical dv w project branch commit canonical =
     (if commit = canonical then io_return True
      else io_bind (io_tell dv (\<lambda>k. g_MaterializeMirrorCommit (w_git w) k project branch canonical)) (\<lambda>_.
        io_ask dv (\<lambda>k. g_IsAncestor (w_git w) k (pc_Root project) commit canonical)))"

definition default_branch :: "project_config \<Rightarrow> string" where
  "default_branch project = (let b = pc_DefaultBranch project; p = ''refs/heads/'' in
     if HasPrefix b p then drop (length p) b else b)"

definition canonical_head :: "driver \<Rightarrow> world \<Rightarrow> project_config \<Rightarrow> string io" where
  "canonical_head dv w project = io_ask dv (\<lambda>k. g_RefreshDefaultBranch (w_git w) k project)"

text \<open>What the operation captured before, nothing without a durable operation.\<close>

definition operation_capture :: "driver \<Rightarrow> world \<Rightarrow> TaskExecutionState \<Rightarrow> taskExecutionIntegrationCapture io" where
  "operation_capture dv w s =
     (if w_operation w = '''' then io_return zero_capture
      else io_bind (or_reject dv w s (captured_state dv (w_operation w))) (\<lambda>raw.
        case readTaskExecutionIntegrationCapture raw of
          Inr c \<Rightarrow> io_return c
        | Inl m \<Rightarrow>
            if xs_Status s = ''integrating''
            then io_error (''durable Task integration evidence is unreadable while the recorded commit may have landed; explicit evidence reconciliation is required: '' @ m)
            else io_return zero_capture))"

definition usable_capture :: "taskExecutionIntegrationCapture \<Rightarrow> TaskExecutionState \<Rightarrow> bool" where
  "usable_capture c s \<longleftrightarrow> ic_SchemaVersion c \<noteq> 0 \<and> taskExecutionIntegrationCaptureBindsState c s"

text \<open>The head of the default branch when the recorded commit is already on it.\<close>

definition landed_before :: "driver \<Rightarrow> world \<Rightarrow> project_config \<Rightarrow> TaskExecutionState
    \<Rightarrow> taskExecutionIntegrationCapture \<Rightarrow> string option io" where
  "landed_before dv w project s c =
     (if ic_IntegrationHead c = '''' then io_return None
      else io_bind (canonical_head dv w project) (\<lambda>canonical.
        io_bind (taskIntegrationCommitOnCanonical dv w project (default_branch project) (ic_IntegrationHead c) canonical)
          (\<lambda>present.
             if \<not> present then io_return None
             else if \<not> usable_capture c s
             then io_error ''recorded Task integration commit is on canonical main but the durable evidence does not bind the current execution state; explicit evidence reconciliation is required''
             else io_bind (taskIntegrationCommitExact dv w project c) (\<lambda>exact.
               io_require exact ''recorded Task integration commit on canonical main does not match the durable proof; explicit evidence reconciliation is required''
                 (io_return (Some canonical))))))"

definition exact_receipt :: "TaskExecutionVerification \<Rightarrow> taskExecutionVerificationAdmission \<Rightarrow> bool" where
  "exact_receipt v a \<longleftrightarrow> (let t = va_identity a in
     xv_TaskRevision v = ti_TaskRevision t \<and> xv_TaskRevisionSHA256 v = ti_TaskRevisionSHA256 t
     \<and> xv_BaseHead v = ti_CanonicalHead t \<and> xv_CandidateHead v = ti_Head t
     \<and> xv_CandidateTree v = gs_tree (va_snapshot a) \<and> xv_GateProfileSHA256 v = ti_GateProfileSHA256 t
     \<and> xv_CodeReviewID v = ti_CodeReviewID t \<and> xv_TestsReviewID v = ti_TestsReviewID t
     \<and> xv_RebaseReviewID v = ti_RebaseReviewID t)"

definition new_capture :: "TaskExecutionIntegrateInput \<Rightarrow> TaskExecutionState \<Rightarrow> TaskExecutionVerification
    \<Rightarrow> taskExecutionIntegrationCapture" where
  "new_capture i s v = \<lparr>ic_SchemaVersion = 3, ic_ProjectID = ii_ProjectID i, ic_TaskID = ii_Key i,
     ic_TaskRevision = xs_TaskRevision s, ic_TaskRevisionSHA256 = xs_TaskRevisionSHA256 s,
     ic_ExecutionRevision = xs_ExecutionRevision s, ic_BaseHead = xs_BaseHead s, ic_LaneHead = xs_Head s,
     ic_Branch = xs_Branch s, ic_CandidateHead = xv_CandidateHead v, ic_CandidateTree = xv_CandidateTree v,
     ic_GateProfileSHA256 = xv_GateProfileSHA256 v, ic_CodeReviewID = xv_CodeReviewID v,
     ic_TestsReviewID = xv_TestsReviewID v, ic_RebaseReviewID = xv_RebaseReviewID v, ic_IntegrationHead = '''',
     ic_Gates = xv_Gates v\<rparr>"

text \<open>Claiming a verified task: it becomes \<open>integrating\<close>.\<close>

definition claim_integration :: "driver \<Rightarrow> world \<Rightarrow> TaskExecutionState \<Rightarrow> taskExecutionIntegrationCapture
    \<Rightarrow> (TaskExecutionState \<times> taskExecutionIntegrationCapture) io" where
  "claim_integration dv w s c =
     (if xs_Status s \<noteq> ''verified'' then io_return (s, c)
      else io_bind (io_tell dv (\<lambda>k. w_ProcedureHook w k ''pre_task_integrate'')) (\<lambda>_.
        io_bind (io_now dv w) (\<lambda>now.
        let t = next_state s ''integrating'' now in
        io_bind (UpdateTaskExecutionState dv t (xs_ExecutionRevision s)) (\<lambda>_.
          io_return (t, c\<lparr>ic_ExecutionRevision := xs_ExecutionRevision t\<rparr>)))))"

definition admit_integration :: "driver \<Rightarrow> world \<Rightarrow> TaskExecutionIntegrateInput \<Rightarrow> project_config
    \<Rightarrow> TaskExecutionState \<Rightarrow> taskExecutionIntegrationCapture
    \<Rightarrow> (TaskExecutionState \<times> taskExecutionIntegrationCapture) io" where
  "admit_integration dv w i project s c =
     io_bind (or_reject dv w s (computeTaskExecutionVerificationAdmission dv w (ii_ProjectID i) s)) (\<lambda>a.
       if usable_capture c s \<and> taskExecutionIntegrationCaptureMatchesAdmission c a s then io_return (s, c)
       else io_bind (or_reject dv w s (taskExecutionVerificationProofCurrent dv w s)) (\<lambda>f.
         case vf_receipt f of
           Some v \<Rightarrow>
             if vf_current f \<and> exact_receipt v a then
               io_bind (or_reject dv w s (io_tell dv (\<lambda>k. g_SyncTaskIntegrationCheckout (w_git w) k project
                          (default_branch project) (ti_CanonicalHead (va_identity a))))) (\<lambda>_.
               io_bind (claim_integration dv w s (new_capture i s v)) (\<lambda>(t, c').
               io_bind (saveTaskExecutionIntegrationCapture dv w c') (\<lambda>_. io_return (t, c'))))
             else rejectTaskExecutionIntegration dv w s
               (Failure ''Task integration requires current exact verification proof'')
         | None \<Rightarrow> rejectTaskExecutionIntegration dv w s
               (Failure ''Task integration requires current exact verification proof'')))"

definition prepare_integration :: "driver \<Rightarrow> world \<Rightarrow> TaskExecutionIntegrateInput \<Rightarrow> project_config
    \<Rightarrow> taskExecutionIntegrationCapture \<Rightarrow> taskExecutionIntegrationCapture io" where
  "prepare_integration dv w i project c =
     (if ic_IntegrationHead c \<noteq> '''' then io_return c
      else io_require (w_operation w \<noteq> '''') ''Task integration requires a durable operation for write-ahead evidence''
        (io_bind (readSharedTask dv (ii_ProjectID i) (ii_Key i)) (\<lambda>task.
         let comment = TrimSpace (ii_Comment i);
             message = ''Task '' @ ta_ID task @ '': '' @ ta_Title task
               @ (if comment = '''' then '''' else '' - '' @ comment) in
         io_bind (io_ask dv (\<lambda>k. g_PrepareTaskIntegrationCommit (w_git w) k project (ic_CandidateTree c) (ic_BaseHead c)
                    message)) (\<lambda>prepared.
         let c' = c\<lparr>ic_IntegrationHead := prepared\<rparr> in
         io_bind (io_wrap ''integration write-ahead evidence remains pending; retry is required: ''
                    (saveTaskExecutionIntegrationCapture dv w c')) (\<lambda>_. io_return c')))))"

definition publish_integration :: "driver \<Rightarrow> world \<Rightarrow> project_config \<Rightarrow> TaskExecutionState
    \<Rightarrow> taskExecutionIntegrationCapture \<Rightarrow> string io" where
  "publish_integration dv w project s c =
     (let branch = default_branch project; commit = ic_IntegrationHead c in
      io_bind (taskIntegrationCommitExact dv w project c) (\<lambda>exact.
      io_require exact ''recorded Task integration commit does not match the durable proof; explicit evidence reconciliation is required''
      (io_bind (canonical_head dv w project) (\<lambda>canonical.
        if canonical \<noteq> ic_BaseHead c then
          io_bind (taskIntegrationCommitOnCanonical dv w project branch commit canonical) (\<lambda>present.
            if present then io_return canonical
            else rejectTaskExecutionIntegration dv w s
              (Failure ''canonical default branch advanced beyond the verified Task base; fresh task/test is required''))
        else
          io_bind (io_know dv (\<lambda>k. g_PushTaskIntegrationCAS (w_git w) k project branch (ic_BaseHead c) (ic_CandidateTree c)
                     commit)) (\<lambda>pushed.
          io_bind (io_wrap ''canonical reread after the Task publication attempt is uncertain; retry is required: ''
                     (canonical_head dv w project)) (\<lambda>reread.
            if reread = commit then io_return commit
            else io_bind (taskIntegrationCommitOnCanonical dv w project branch commit reread) (\<lambda>present.
              if present then io_error ''exact Task integration post-publication proof failed; evidence reconciliation or retry is required''
              else case pushed of
                None \<Rightarrow> io_error ''exact Task integration post-publication proof failed after a confirmed publication; evidence reconciliation or retry is required''
              | Some (PushFailure m) \<Rightarrow>
                  io_error (''Task integration publication outcome is uncertain; retry is required: '' @ m)
              | Some (ExpectedOldMismatch m) \<Rightarrow> rejectTaskExecutionIntegration dv w s
                  (Failure (''canonical default branch exact expected-old mismatch; fresh task/test is required: '' @ m)))))))))"

definition land_integration :: "driver \<Rightarrow> world \<Rightarrow> TaskExecutionIntegrateInput \<Rightarrow> project_config
    \<Rightarrow> TaskExecutionState \<Rightarrow> taskExecutionIntegrationCapture \<Rightarrow> string \<Rightarrow> TaskExecutionPublicOutput io" where
  "land_integration dv w i project s c landedHead =
     io_bind (io_tell dv (w_cancelled w)) (\<lambda>_.
     io_bind (io_wrap ''canonical worktree synchronization remains pending; retry is required: ''
       (io_tell dv (\<lambda>k. g_SyncTaskIntegrationCheckout (w_git w) k project (default_branch project) landedHead))) (\<lambda>_.
     io_bind (io_now dv w) (\<lambda>now.
     let t = next_state s ''integrated'' now in
     io_bind (io_wrap ''Task integration landing state remains pending; retry is required: ''
       (TransitionTaskExecutionState dv t (xs_ExecutionRevision s)
         ((new_phase t ''integration'' ''accept'' (TrimSpace (ii_Comment i)))
            \<lparr>ph_Stage := ''integration'', ph_Head := ic_IntegrationHead c\<rparr>))) (\<lambda>_.
     io_bind (taskExecutionPublicOutput dv w t) (\<lambda>out.
     io_bind (io_ignore (io_tell dv (\<lambda>k. w_ProcedureHook w k ''post_task_integrate''))) (\<lambda>_. io_return out))))))"

definition integrate_verified :: "driver \<Rightarrow> world \<Rightarrow> TaskExecutionIntegrateInput \<Rightarrow> project_config
    \<Rightarrow> TaskExecutionState \<Rightarrow> TaskExecutionPublicOutput io" where
  "integrate_verified dv w i project s =
     io_bind (operation_capture dv w s) (\<lambda>c.
     io_bind (landed_before dv w project s c) (\<lambda>before.
       case before of
         Some landedHead \<Rightarrow> land_integration dv w i project s c landedHead
       | None \<Rightarrow>
           io_bind (admit_integration dv w i project s c) (\<lambda>(t, c').
           io_bind (prepare_integration dv w i project c') (\<lambda>c''.
           io_bind (publish_integration dv w project t c'') (\<lambda>landedHead.
             land_integration dv w i project t c'' landedHead)))))"

definition TaskExecutionIntegrate ::
  "driver \<Rightarrow> world \<Rightarrow> (TaskExecutionIntegrateInput \<Rightarrow> project_config \<Rightarrow> TaskExecutionState \<Rightarrow> TaskExecutionPublicOutput io)
   \<Rightarrow> TaskExecutionIntegrateInput \<Rightarrow> TaskExecutionPublicOutput io" where
  "TaskExecutionIntegrate dv w historical i =
     io_check (validateTaskExecutionIntegrateInput i)
     (io_bind (readExecutionForIntegration dv w (ii_ProjectID i) (ii_Key i)) (\<lambda>found.
        case found of
          None \<Rightarrow> io_error ''Task has no execution state''
        | Some s \<Rightarrow>
            io_bind (project_of dv w (ii_ProjectID i)) (\<lambda>project.
              if ii_Mode i = ''historical'' then historical i project s
              else if xs_Status s = ''verified'' \<or> xs_Status s = ''integrating''
              then integrate_verified dv w i project s
              else if xs_Status s = ''integrated'' then taskExecutionPublicOutput dv w s
              else io_error ''Task is not ready for integration'')))"

end
