(* ===== verification/Execution_Machine.thy ===== *)
theory Execution_Machine
  imports Shared_Store_Laws Task_Integration
begin

text \<open>
  The specification of a task execution: which moves its row in the Local database may make, with
  what evidence, and how a database may change from one commit to the next. Nothing here mentions
  the operations of the service; \<open>Execution_Refinement\<close> shows that they implement it.
\<close>

section \<open>Moves of a row\<close>

definition next_row :: "execution_row \<Rightarrow> string \<Rightarrow> string \<Rightarrow> execution_row" where
  "next_row r status u =
     r\<lparr>xr_status := status, xr_execution_revision := xr_execution_revision r + 1, xr_updated_at := u\<rparr>"

definition moved_lane :: "execution_row \<Rightarrow> string \<Rightarrow> string \<Rightarrow> string \<Rightarrow> execution_row" where
  "moved_lane r base head worktree =
     r\<lparr>xr_base_head_sha := base, xr_head_sha := head, xr_worktree := worktree\<rparr>"

text \<open>The phase that records a move, written in the same commit.\<close>

definition phase_for :: "execution_row \<Rightarrow> string \<Rightarrow> phase_row \<Rightarrow> bool" where
  "phase_for r kind p \<longleftrightarrow> pr_project_id p = xr_project_id r \<and> pr_task_id p = xr_task_id r
     \<and> pr_execution_revision p = xr_execution_revision r \<and> pr_status p = xr_status r
     \<and> pr_branch p = xr_branch r \<and> pr_task_revision_sha256 p = xr_task_revision_sha256 r \<and> pr_event_kind p = kind
     \<and> (if kind = ''integration'' then pr_stage p = ''integration''
        else pr_stage p = xr_stage r \<and> pr_head_sha p = xr_head_sha r)"

text \<open>A stored receipt that proves the candidate of a row: valid, succeeded, about exactly this attempt.\<close>

definition receipt_for :: "execution_row \<Rightarrow> verification_row \<Rightarrow> TaskExecutionVerification \<Rightarrow> bool" where
  "receipt_for r v x \<longleftrightarrow> ValidateTaskExecutionVerification x = None \<and> xv_Outcome x = ''succeeded''
     \<and> json_TaskExecutionVerification x = Inr (vr_receipt_json v) \<and> vr_project_id v = xr_project_id r
     \<and> vr_task_id v = xr_task_id r \<and> vr_outcome v = ''succeeded''
     \<and> vr_attempt_revision v = xv_AttemptRevision x \<and> xv_ProjectID x = xr_project_id r \<and> xv_TaskID x = xr_task_id r
     \<and> xv_TaskRevisionSHA256 x = xr_task_revision_sha256 r \<and> xv_BaseHead x = xr_base_head_sha r
     \<and> xv_CandidateHead x = xr_head_sha r \<and> xv_Branch x = xr_branch r"

inductive execution_move ::
  "execution_row \<Rightarrow> phase_row option \<Rightarrow> verification_row option \<Rightarrow> execution_row \<Rightarrow> bool" where
  redispatch: "xr_status r = ''abandoned'' \<Longrightarrow> xr_status r' = ''dispatched'' \<Longrightarrow> xr_stage r' = ''code''
    \<Longrightarrow> xr_project_id r' = xr_project_id r \<Longrightarrow> xr_task_id r' = xr_task_id r
    \<Longrightarrow> xr_execution_revision r' = xr_execution_revision r + 1 \<Longrightarrow> xr_head_sha r' = xr_base_head_sha r'
    \<Longrightarrow> execution_move r None None r'"
| submit: "xr_status r = ''dispatched'' \<or> xr_status r = ''changes_requested''
    \<Longrightarrow> r' = moved_lane (next_row r ''awaiting_review'' u) (xr_base_head_sha r) h wt
    \<Longrightarrow> phase_for r' ''submission'' p \<Longrightarrow> execution_move r (Some p) None r'"
| review: "xr_status r = ''awaiting_review''
    \<Longrightarrow> r' = next_row r (if accepted then ''ready_for_verification'' else ''changes_requested'') u
    \<Longrightarrow> phase_for r' ''review'' p \<Longrightarrow> pr_decision p = Some (if accepted then ''accept'' else ''reject'')
    \<Longrightarrow> execution_move r (Some p) None r'"
| rework: "IsTaskExecutionReworkable (xr_status r) \<Longrightarrow> execution_stage st
    \<Longrightarrow> r' = (next_row r ''changes_requested'' u)\<lparr>xr_stage := st\<rparr> \<Longrightarrow> phase_for r' ''rework'' p
    \<Longrightarrow> execution_move r (Some p) None r'"
| rebase: "xr_status r = ''ready_for_verification'' \<or> xr_status r = ''verifying'' \<or> xr_status r = ''verified''
    \<Longrightarrow> r' = moved_lane ((next_row r ''changes_requested'' u)\<lparr>xr_stage := ''rebase''\<rparr>) b h wt
    \<Longrightarrow> phase_for r' ''rework'' p \<Longrightarrow> execution_move r (Some p) None r'"
| block: "IsTaskExecutionAgentActionable (xr_status r) (xr_stage r) \<Longrightarrow> r' = next_row r ''blocked'' u
    \<Longrightarrow> phase_for r' ''block'' p \<Longrightarrow> pr_decision p = Some (xr_status r) \<Longrightarrow> execution_move r (Some p) None r'"
| resume: "xr_status r = ''blocked'' \<Longrightarrow> IsTaskExecutionAgentActionable status (xr_stage r)
    \<Longrightarrow> r' = next_row r status u \<Longrightarrow> phase_for r' ''resume'' p \<Longrightarrow> execution_move r (Some p) None r'"
| refresh: "xr_status r = ''dispatched'' \<or> xr_status r = ''in_progress'' \<or> xr_status r = ''blocked''
    \<Longrightarrow> xr_head_sha r = xr_base_head_sha r
    \<Longrightarrow> r' = moved_lane (next_row r (xr_status r) u) b b wt \<Longrightarrow> phase_for r' ''refresh'' p
    \<Longrightarrow> execution_move r (Some p) None r'"
| reset_start: "taskExecutionResettableStatus (xr_status r) \<Longrightarrow> xr_stage r = ''code''
    \<Longrightarrow> r' = next_row r ''resetting'' u \<Longrightarrow> phase_for r' ''reset_start'' p \<Longrightarrow> execution_move r (Some p) None r'"
| reset: "xr_status r = ''resetting'' \<Longrightarrow> r' = next_row r ''abandoned'' u
    \<Longrightarrow> phase_for r' ''reset'' p \<Longrightarrow> execution_move r (Some p) None r'"
| start_verification: "xr_status r = ''ready_for_verification'' \<Longrightarrow> execution_move r None None (next_row r ''verifying'' u)"
| verify: "xr_status r = ''verifying'' \<Longrightarrow> r' = next_row r ''verified'' u \<Longrightarrow> receipt_for r v x
    \<Longrightarrow> vr_attempt_revision v = xr_execution_revision r \<Longrightarrow> execution_move r None (Some v) r'"
| claim: "xr_status r = ''verified'' \<Longrightarrow> execution_move r None None (next_row r ''integrating'' u)"
| release: "xr_status r = ''integrating'' \<Longrightarrow> execution_move r None None (next_row r ''verified'' u)"
| integrate: "xr_status r = ''verified'' \<or> xr_status r = ''integrating'' \<Longrightarrow> r' = next_row r ''integrated'' u
    \<Longrightarrow> phase_for r' ''integration'' p \<Longrightarrow> pr_decision p = Some ''accept'' \<Longrightarrow> execution_move r (Some p) None r'"
| complete: "xr_status r = ''integrated'' \<Longrightarrow> execution_move r None None (next_row r ''done'' u)"

section \<open>Steps of a database\<close>

text \<open>A row of a table with generated ids is the given one but for its id.\<close>

definition logged_phases :: "shared_db \<Rightarrow> shared_db \<Rightarrow> phase_row option \<Rightarrow> bool" where
  "logged_phases db db' p \<longleftrightarrow> (case p of
     None \<Rightarrow> lo_phases (sd_local db') = lo_phases (sd_local db)
   | Some q \<Rightarrow> (\<exists>i. lo_phases (sd_local db') = lo_phases (sd_local db) @ [q\<lparr>pr_id := i\<rparr>])
       \<and> (\<forall>x \<in> set (lo_phases (sd_local db)). pr_project_id x = pr_project_id q \<longrightarrow> pr_task_id x = pr_task_id q
            \<longrightarrow> pr_execution_revision x \<noteq> pr_execution_revision q))"

definition logged_receipts :: "shared_db \<Rightarrow> shared_db \<Rightarrow> verification_row option \<Rightarrow> bool" where
  "logged_receipts db db' v \<longleftrightarrow> (case v of
     None \<Rightarrow> lo_verifications (sd_local db') = lo_verifications (sd_local db)
   | Some q \<Rightarrow> \<exists>i. lo_verifications (sd_local db') = lo_verifications (sd_local db) @ [q\<lparr>vr_id := i\<rparr>])"

definition initial_row :: "execution_row \<Rightarrow> bool" where
  "initial_row r \<longleftrightarrow> xr_status r = ''dispatched'' \<and> xr_stage r = ''code'' \<and> xr_execution_revision r = 1
     \<and> xr_head_sha r = xr_base_head_sha r"

inductive local_step :: "shared_db \<Rightarrow> shared_db \<Rightarrow> bool" where
  dispatched: "lo_states (sd_local db') = lo_states (sd_local db) @ [r] \<Longrightarrow> initial_row r
    \<Longrightarrow> xr_task_id r \<notin> xr_task_id ` set (lo_states (sd_local db))
    \<Longrightarrow> logged_phases db db' None \<Longrightarrow> logged_receipts db db' None \<Longrightarrow> local_step db db'"
| moved: "r \<in> set (lo_states (sd_local db)) \<Longrightarrow> execution_move r p v r'
    \<Longrightarrow> lo_states (sd_local db') = map (\<lambda>x. if x = r then r' else x) (lo_states (sd_local db))
    \<Longrightarrow> logged_phases db db' p \<Longrightarrow> logged_receipts db db' v \<Longrightarrow> local_step db db'"
| elsewhere: "lo_states (sd_local db') = lo_states (sd_local db) \<Longrightarrow> logged_phases db db' None
    \<Longrightarrow> logged_receipts db db' None \<Longrightarrow> local_step db db'"

definition wf_local :: "shared_db \<Rightarrow> bool" where
  "wf_local db \<longleftrightarrow> distinct (map xr_task_id (lo_states (sd_local db)))"

text \<open>The relation that operations and other writers keep.\<close>

definition machine :: "shared_db \<Rightarrow> shared_db \<Rightarrow> bool" where
  "machine db db' \<longleftrightarrow> (wf_local db \<longrightarrow> wf_local db' \<and> local_step\<^sup>*\<^sup>* db db')"

section \<open>Laws of moves\<close>

lemmas row_simps = next_row_def moved_lane_def

lemma move_key: "execution_move r p v r' \<Longrightarrow> xr_project_id r' = xr_project_id r \<and> xr_task_id r' = xr_task_id r
    \<and> xr_execution_revision r' = xr_execution_revision r + 1"
  by (induction rule: execution_move.induct) (simp_all add: row_simps)

lemma machine_refl: "machine db db"
  by (simp add: machine_def)

lemma machine_trans: "machine a b \<Longrightarrow> machine b c \<Longrightarrow> machine a c"
  unfolding machine_def by (meson rtranclp_trans)

lemma local_step_wf:
  assumes "local_step db db'" and "wf_local db"
  shows "wf_local db'"
  using assms
proof cases
  case (moved r p v r')
  have "xr_task_id (if x = r then r' else x) = xr_task_id x" for x using move_key [OF moved(2)] by simp
  then have "map xr_task_id (lo_states (sd_local db')) = map xr_task_id (lo_states (sd_local db))"
    by (simp add: moved(3))
  then show ?thesis using assms(2) by (simp add: wf_local_def)
qed (auto simp: wf_local_def)

lemma machine_step: "local_step db db' \<Longrightarrow> machine db db'"
  unfolding machine_def using local_step_wf by blast

lemma machine_elsewhere: "sd_local db' = sd_local db \<Longrightarrow> machine db db'"
  by (rule machine_step, rule local_step.elsewhere) (simp_all add: logged_phases_def logged_receipts_def)

end
