(* ===== verification/Execution_Reads.thy ===== *)
theory Execution_Reads
  imports Shared_Store_Laws Task_Integration
begin

text \<open>
  The operations of the gateway that only read the databases or ask the world: each keeps any
  relation that the other writers keep. They are collected in \<open>reading\<close>, so that the operations that do change a task are
  taken apart by \<open>intro\<close>.
\<close>

named_theorems reading \<open>operations that make no step of their own, and how they are composed\<close>
named_theorems leaf \<open>the operations alone\<close>

context store_relation
begin

section \<open>Asking and composing\<close>

lemma keeps_ask: "keeps R (io_ask dv f)"
  unfolding keeps_def io_ask_def using others by auto

lemma keeps_world:
  "keeps R (io_tell dv g)" "keeps R (io_know dv h)" "keeps R (io_now dv w)"
  unfolding io_tell_def io_know_def io_now_def by (rule keeps_ask)+

lemma keeps_value: "keeps R (io_value r)"
  unfolding io_value_def by (intro keeps_rules)

lemma keeps_require: "(c \<Longrightarrow> keeps R m) \<Longrightarrow> keeps R (io_require c t m)"
  by (auto simp: io_require_def intro: keeps_return)

lemma keeps_local_store: "keeps R m \<Longrightarrow> keeps R (local_store dv m)"
  by (auto simp: local_store_def intro: keeps_return)

lemma keeps_wrap: "keeps R m \<Longrightarrow> keeps R (io_wrap p m)"
  unfolding io_wrap_def by (intro keeps_rules keeps_store_error)

lemma keeps_replace: "keeps R m \<Longrightarrow> keeps R (io_replace p m)"
  unfolding io_replace_def by (intro keeps_rules)

lemma keeps_ignore: "keeps R m \<Longrightarrow> keeps R (io_ignore m)"
  unfolding io_ignore_def by (intro keeps_rules)


lemmas keeps_structure [reading] = keeps_return keeps_result keeps_bind keeps_try keeps_check keeps_query
  keeps_if keeps_option keeps_sum keeps_pair keeps_let keeps_store_error keeps_value
  keeps_require keeps_local_store keeps_wrap keeps_replace

declare keeps_ask [reading, leaf] keeps_world [reading, leaf] keeps_ignore [reading, leaf]

section \<open>The operations\<close>

lemma keeps_list [reading]:
  "keeps R m \<Longrightarrow> (\<And>x xs. keeps R (f x xs)) \<Longrightarrow> keeps R (case v of [] \<Rightarrow> m | x # xs \<Rightarrow> f x xs)"
  by (cases v) auto

lemma keeps_push_error [reading]:
  "(\<And>m. keeps R (f m)) \<Longrightarrow> (\<And>m. keeps R (g m))
    \<Longrightarrow> keeps R (case v of ExpectedOldMismatch m \<Rightarrow> f m | PushFailure m \<Rightarrow> g m)"
  by (cases v) auto

lemma keeps_ReadTaskExecutionState [reading, leaf]: "keeps R (ReadTaskExecutionState dv p k)"
  unfolding ReadTaskExecutionState_def by (intro reading)

lemma keeps_ListTaskExecutionStates [reading, leaf]: "keeps R (ListTaskExecutionStates dv p)"
  unfolding ListTaskExecutionStates_def by (intro reading)

lemma keeps_read_phase [reading, leaf]: "keeps R (read_phase dv p k c)"
  unfolding read_phase_def by (intro reading)

lemma keeps_ReadLatestTaskExecutionPhase [reading, leaf]: "keeps R (ReadLatestTaskExecutionPhase dv p k st)"
  unfolding ReadLatestTaskExecutionPhase_def by (intro reading)

lemma keeps_readTaskExecutionPhaseWhere [reading, leaf]: "keeps R (readTaskExecutionPhaseWhere dv p k st c)"
  unfolding readTaskExecutionPhaseWhere_def by (intro reading)

lemma keeps_readTaskExecutionPhaseAcrossStages [reading, leaf]: "keeps R (readTaskExecutionPhaseAcrossStages dv p k c)"
  unfolding readTaskExecutionPhaseAcrossStages_def by (intro reading)

lemma keeps_ReadLatestAcceptedTaskExecutionPhase [reading, leaf]: "keeps R (ReadLatestAcceptedTaskExecutionPhase dv p k st)"
  unfolding ReadLatestAcceptedTaskExecutionPhase_def by (intro reading)

lemma keeps_ReadLatestTaskExecutionParkPhase [reading, leaf]: "keeps R (ReadLatestTaskExecutionParkPhase dv p k st)"
  unfolding ReadLatestTaskExecutionParkPhase_def by (intro reading)

lemma keeps_ReadLatestTaskExecutionResetPhase [reading, leaf]: "keeps R (ReadLatestTaskExecutionResetPhase dv p k)"
  unfolding ReadLatestTaskExecutionResetPhase_def by (intro reading)

lemma keeps_ReadLatestTaskExecutionResetTerminalPhase [reading, leaf]: "keeps R (ReadLatestTaskExecutionResetTerminalPhase dv p k)"
  unfolding ReadLatestTaskExecutionResetTerminalPhase_def by (intro reading)

lemma keeps_ReadTaskExecutionPhases [reading, leaf]: "keeps R (ReadTaskExecutionPhases dv p k st)"
  unfolding ReadTaskExecutionPhases_def by (intro reading)

lemma keeps_ReadLatestTaskExecutionVerification [reading, leaf]: "keeps R (ReadLatestTaskExecutionVerification dv p k)"
  unfolding ReadLatestTaskExecutionVerification_def by (intro reading)

lemma keeps_ReadLatestTaskExecutionVerificationTolerant [reading, leaf]: "keeps R (ReadLatestTaskExecutionVerificationTolerant dv p k)"
  unfolding ReadLatestTaskExecutionVerificationTolerant_def by (intro reading)

lemma keeps_reuseTaskExecutionVerification [reading, leaf]: "keeps R (reuseTaskExecutionVerification dv s a b)"
  unfolding reuseTaskExecutionVerification_def by (intro reading)

lemma keeps_taskExecutionVerificationReceipt [reading, leaf]: "keeps R (taskExecutionVerificationReceipt dv p k i n)"
  unfolding taskExecutionVerificationReceipt_def by (intro reading)

lemma keeps_ReadSharedTask [reading, leaf]: "keeps R (ReadSharedTask dv k)"
  unfolding ReadSharedTask_def by (intro reading)

lemma keeps_ListSharedLifecycleEvents [reading, leaf]: "keeps R (ListSharedLifecycleEvents dv a b c n)"
  unfolding ListSharedLifecycleEvents_def readSharedLifecycleChain_def validateSharedLifecycleChain_def
  by (intro reading)

lemma keeps_ReadTaskCompletionEvent [reading, leaf]: "keeps R (ReadTaskCompletionEvent dv p k)"
  unfolding ReadTaskCompletionEvent_def by (intro reading)

lemma keeps_ListTaskLifecycleEvents [reading, leaf]: "keeps R (ListTaskLifecycleEvents dv p k n)"
  unfolding ListTaskLifecycleEvents_def by (intro reading)

lemma keeps_ReadSharedRevision [reading, leaf]: "keeps R (ReadSharedRevision dv a b c n)"
  unfolding ReadSharedRevision_def readStoredSharedRevision_def ReadSharedEntity_def no_history_def by (intro reading)

lemma keeps_project_of [reading, leaf]: "keeps R (project_of dv w p)"
  unfolding project_of_def by (intro reading)

lemma keeps_requireLocalTaskAuthoring [reading, leaf]: "keeps R (requireLocalTaskAuthoring dv w p)"
  unfolding requireLocalTaskAuthoring_def by (intro reading)

lemma keeps_readSharedTask [reading, leaf]: "keeps R (readSharedTask dv p k)"
  unfolding readSharedTask_def by (intro reading)

lemma keeps_TaskAuthoringRead [reading, leaf]: "keeps R (TaskAuthoringRead dv w p k)"
  unfolding TaskAuthoringRead_def by (intro reading)

lemma keeps_TaskLifecycleRead [reading, leaf]: "keeps R (TaskLifecycleRead dv w p k n)"
  unfolding TaskLifecycleRead_def by (intro reading)

lemma keeps_taskAuthoringReadForExecution [reading, leaf]: "keeps R (taskAuthoringReadForExecution dv w p k)"
  unfolding taskAuthoringReadForExecution_def by (intro reading)

lemma keeps_validateFrozenTaskExecutionTask [reading, leaf]: "keeps R (validateFrozenTaskExecutionTask dv w s)"
  unfolding validateFrozenTaskExecutionTask_def by (intro reading)

lemma keeps_readExecutionForMutation [reading, leaf]: "keeps R (readExecutionForMutation dv w p k)"
  unfolding readExecutionForMutation_def by (intro reading)

lemma keeps_readExecutionForIntegration [reading, leaf]: "keeps R (readExecutionForIntegration dv w p k)"
  unfolding readExecutionForIntegration_def by (intro reading)

lemma keeps_execution_for [reading, leaf]: "keeps R (execution_for dv w p k m)"
  unfolding execution_for_def by (intro reading)

lemma keeps_taskExecutionLane [reading, leaf]: "keeps R (taskExecutionLane dv w p k s)"
  unfolding taskExecutionLane_def by (intro reading)

lemma keeps_CurrentHead [reading, leaf]: "keeps R (CurrentHead dv w l)"
  unfolding CurrentHead_def by (intro reading)

lemma keeps_taskExecutionPublicOutput [reading, leaf]: "keeps R (taskExecutionPublicOutput dv w s)"
  unfolding taskExecutionPublicOutput_def by (intro reading)

lemma keeps_output_with_reason [reading, leaf]: "keeps R (output_with_reason dv w s m)"
  unfolding output_with_reason_def by (intro reading)

lemma keeps_ensureWorkerActionableSlot [reading, leaf]: "keeps R (ensureWorkerActionableSlot dv p a k)"
  unfolding ensureWorkerActionableSlot_def by (intro reading)

lemma keeps_validateTaskExecutionResetTerminalState [reading, leaf]: "keeps R (validateTaskExecutionResetTerminalState dv s)"
  unfolding validateTaskExecutionResetTerminalState_def by (intro reading)

lemma keeps_resolveTaskExecutionAgent [reading, leaf]: "keeps R (resolveTaskExecutionAgent dv w p a)"
  unfolding resolveTaskExecutionAgent_def by (intro reading)

lemma keeps_undo_dispatch [reading, leaf]: "keeps R (undo_dispatch dv w i pr prev s e)"
  unfolding undo_dispatch_def by (intro reading)

lemma keeps_taskSubmissionExpectedRemoteHead [reading, leaf]: "keeps R (taskSubmissionExpectedRemoteHead dv p k b)"
  unfolding taskSubmissionExpectedRemoteHead_def by (intro reading)

lemma keeps_verifyTaskSubmissionLane [reading, leaf]: "keeps R (verifyTaskSubmissionLane dv w pr b c d)"
  unfolding verifyTaskSubmissionLane_def by (intro reading)

lemma keeps_push_lane [reading, leaf]: "keeps R (push_lane dv w pr b c d)"
  unfolding push_lane_def by (intro reading)

lemma keeps_publishTaskSubmissionLane [reading, leaf]: "keeps R (publishTaskSubmissionLane dv w pr l s c d)"
  unfolding publishTaskSubmissionLane_def by (intro reading)

lemma keeps_resolveWorkerSessionForTask [reading, leaf]: "keeps R (resolveWorkerSessionForTask dv w p)"
  unfolding resolveWorkerSessionForTask_def by (intro reading)

lemma keeps_submitting_worker [reading, leaf]: "keeps R (submitting_worker dv w p s)"
  unfolding submitting_worker_def by (intro reading)

lemma keeps_candidate_head [reading, leaf]: "keeps R (candidate_head dv w l k st s)"
  unfolding candidate_head_def by (intro reading)

lemma keeps_previous_stage [reading, leaf]: "keeps R (previous_stage dv p k st)"
  unfolding previous_stage_def by (intro reading)

lemma keeps_submission_descends [reading, leaf]: "keeps R (submission_descends dv w p k st s)"
  unfolding submission_descends_def by (intro reading)

lemma keeps_select_current [reading, leaf]: "keeps R (select_current dv w p a k xs)"
  by (induction xs arbitrary: k) (auto intro!: reading)

lemma keeps_resolveTaskExecutionTaskForAgent [reading, leaf]: "keeps R (resolveTaskExecutionTaskForAgent dv w p)"
  unfolding resolveTaskExecutionTaskForAgent_def by (intro reading)

lemma keeps_review_bases [reading, leaf]: "keeps R (review_bases dv p k st s ph)"
  unfolding review_bases_def by (intro reading)

lemma keeps_taskExecutionReviewSelection [reading, leaf]: "keeps R (taskExecutionReviewSelection dv w p k st s)"
  unfolding taskExecutionReviewSelection_def by (intro reading)

lemma keeps_latestTaskExecutionResetRevision [reading, leaf]: "keeps R (latestTaskExecutionResetRevision dv p k)"
  unfolding latestTaskExecutionResetRevision_def by (intro reading)

lemma keeps_latestTaskExecutionParkPhase [reading, leaf]: "keeps R (latestTaskExecutionParkPhase dv s)"
  unfolding latestTaskExecutionParkPhase_def by (intro reading)

lemma keeps_ensureTaskExecutionRefreshChain [reading, leaf]: "keeps R (ensureTaskExecutionRefreshChain dv s)"
  unfolding ensureTaskExecutionRefreshChain_def by (intro reading)

lemma keeps_taskExecutionBlockedPhase [reading, leaf]: "keeps R (taskExecutionBlockedPhase dv s)"
  unfolding taskExecutionBlockedPhase_def by (intro reading)

lemma keeps_ensureNoInFlightWorkerTurn [reading, leaf]: "keeps R (ensureNoInFlightWorkerTurn dv w s)"
  unfolding ensureNoInFlightWorkerTurn_def by (intro reading)

lemma keeps_stage_unprogressed [reading, leaf]: "keeps R (stage_unprogressed dv s n st)"
  unfolding stage_unprogressed_def by (intro reading)

lemma keeps_no_verification [reading, leaf]: "keeps R (no_verification dv s)"
  unfolding no_verification_def by (intro reading)

lemma keeps_ensureTaskExecutionRefreshable [reading, leaf]: "keeps R (ensureTaskExecutionRefreshable dv w s)"
  unfolding ensureTaskExecutionRefreshable_def by (intro reading)

lemma keeps_refresh_lane [reading, leaf]: "keeps R (refresh_lane dv w pr l s c a)"
  unfolding refresh_lane_def by (intro reading)

lemma keeps_stage_resettable [reading, leaf]: "keeps R (stage_resettable dv s e n st)"
  unfolding stage_resettable_def by (intro reading)

lemma keeps_lane_untouched [reading, leaf]: "keeps R (lane_untouched dv w s b)"
  unfolding lane_untouched_def by (intro reading)

lemma keeps_ensureTaskExecutionResetSafe [reading, leaf]: "keeps R (ensureTaskExecutionResetSafe dv w s e b)"
  unfolding ensureTaskExecutionResetSafe_def by (intro reading)

lemma keeps_replayTaskExecutionReset [reading, leaf]: "keeps R (replayTaskExecutionReset dv s m)"
  unfolding replayTaskExecutionReset_def by (intro reading)

lemma keeps_resumed_reset [reading, leaf]: "keeps R (resumed_reset dv w p k m)"
  unfolding resumed_reset_def by (intro reading)

lemma keeps_accepted_review [reading, leaf]: "keeps R (accepted_review dv p k s st)"
  unfolding accepted_review_def by (intro reading)

lemma keeps_verificationReviews [reading, leaf]: "keeps R (verificationReviews dv p k s)"
  unfolding verificationReviews_def by (intro reading)

lemma keeps_gate_profile [reading, leaf]: "keeps R (gate_profile dv w p)"
  unfolding gate_profile_def by (intro reading)

lemma keeps_computeTaskExecutionVerificationAdmission [reading, leaf]: "keeps R (computeTaskExecutionVerificationAdmission dv w p s)"
  unfolding computeTaskExecutionVerificationAdmission_def by (intro reading)

lemma keeps_taskExecutionVerificationAdmissionFor [reading, leaf]: "keeps R (taskExecutionVerificationAdmissionFor dv w p s)"
  unfolding taskExecutionVerificationAdmissionFor_def by (intro reading)

lemma keeps_latest_phase_revision [reading, leaf]: "keeps R (latest_phase_revision dv s st n)"
  unfolding latest_phase_revision_def by (intro reading)

lemma keeps_taskExecutionVerificationProofCurrent [reading, leaf]: "keeps R (taskExecutionVerificationProofCurrent dv w s)"
  unfolding taskExecutionVerificationProofCurrent_def by (intro reading)

lemma keeps_compact_commit [reading, leaf]: "keeps R (compact_commit dv w p c)"
  unfolding compact_commit_def by (intro reading)

lemma keeps_taskExecutionVerificationProjection [reading, leaf]: "keeps R (taskExecutionVerificationProjection dv w v)"
  unfolding taskExecutionVerificationProjection_def by (intro reading)

lemma keeps_output_with_proof [reading, leaf]: "keeps R (output_with_proof dv w s v)"
  unfolding output_with_proof_def by (intro reading)

lemma keeps_run_gates [reading, leaf]: "keeps R (run_gates dv w a)"
  unfolding run_gates_def by (intro reading)

lemma keeps_captured_state [reading, leaf]: "keeps R (captured_state dv i)"
  unfolding captured_state_def by (intro reading)

lemma keeps_taskIntegrationCommitExact [reading, leaf]: "keeps R (taskIntegrationCommitExact dv w pr c)"
  unfolding taskIntegrationCommitExact_def by (intro reading)

lemma keeps_taskIntegrationCommitOnCanonical [reading, leaf]: "keeps R (taskIntegrationCommitOnCanonical dv w pr b c d)"
  unfolding taskIntegrationCommitOnCanonical_def by (intro reading)

lemma keeps_canonical_head [reading, leaf]: "keeps R (canonical_head dv w pr)"
  unfolding canonical_head_def by (intro reading)

lemma keeps_landed_before [reading, leaf]: "keeps R (landed_before dv w pr s c)"
  unfolding landed_before_def by (intro reading)

section \<open>Completing and archiving\<close>

text \<open>Two steps in two databases: the event in the Shared one, then the row in the Local one.\<close>

lemma keeps_checked: "(e = None \<Longrightarrow> keeps R m) \<Longrightarrow> keeps R (io_check e m)"
  by (cases e) (auto simp: io_check_def)

lemma keeps_closing:
  assumes statements: "\<And>e. statement_keeps R (insert_event e)" "\<And>h. statement_keeps R (insert_history h)"
      "\<And>o'. statement_keeps R (insert_outbox o')" "\<And>t row c. statement_keeps R (update_state t row c)"
    and final: "\<And>p f at. ValidateTaskExecutionState f = None \<Longrightarrow> xs_Status p = ''integrated''
      \<Longrightarrow> f = p\<lparr>xs_Status := ''done'', xs_ExecutionRevision := xs_ExecutionRevision p + 1, xs_UpdatedAt := at\<rparr>
      \<Longrightarrow> statement_keeps R (alter_execution (xs_ProjectID p) (xs_TaskID p) (previous_row p) (final_row f))"
  shows "keeps R (CommitTaskCompletion dv rq)" "keeps R (CommitTaskArchive dv aq)"
proof -
  have event: "keeps R (CommitSharedLifecycleEvent dv rq)" if "eq_PreviousHistory rq = None" "eq_ExtraStatements rq = []" for rq
    by (rule keeps_event) (simp add: event_statements_def that statements)
  show "keeps R (CommitTaskArchive dv aq)"
    unfolding CommitTaskArchive_def by (intro reading event) (simp_all add: archive_event_def)
  have state: "keeps R (completeTaskExecutionState dv p f)"
    if checks: "completion_payload_checks rq = None" and pf: "cq_PreviousExecution rq = Some p" "cq_FinalExecution rq = Some f" for p f
  proof -
    obtain prev where "execution_step_checks rq prev p f = None"
      using checks pf by (auto simp: completion_payload_checks_def validator split: option.splits)
    then have "statement_keeps R (alter_execution (xs_ProjectID p) (xs_TaskID p) (previous_row p) (final_row f))"
      by (intro final [where at = "to_utc (cq_RecordedAt rq)"]) (auto simp: execution_step_checks_def validator)
    then show ?thesis unfolding completeTaskExecutionState_def by (intro reading keeps_exec_rows)
  qed
  have tail: "keeps R (case (cq_PreviousExecution rq, cq_FinalExecution rq) of
      (Some p, Some f) \<Rightarrow> completeTaskExecutionState dv p f | _ \<Rightarrow> io_return ())"
    if "completion_payload_checks rq = None"
    using state [OF that] by (auto split: option.splits intro!: keeps_return)
  show "keeps R (CommitTaskCompletion dv rq)"
    unfolding CommitTaskCompletion_def
    by (intro keeps_if keeps_return keeps_checked keeps_bind [OF event] tail) (simp_all add: completion_event_def)
qed

end

end
