(* ===== verification/Execution_Logic.thy ===== *)
theory Execution_Logic
  imports Execution_Machine Execution_Reads
begin

text \<open>
  How operations of the service are shown to follow the machine. A state that an operation has read
  stays \<open>known\<close>: its row is still the one read, or has moved on to a higher revision, whatever
  other writers commit. \<open>move S m T F\<close> says that \<open>m\<close>, started where the states \<open>S\<close> are known, changes
  the database by steps of the machine only, and when it returns \<open>x\<close>, knows \<open>T x\<close> and \<open>F x\<close> holds.
\<close>

section \<open>Known states\<close>

definition sees :: "execution_row \<Rightarrow> TaskExecutionState \<Rightarrow> bool" where
  "sees r s \<longleftrightarrow> r\<lparr>xr_updated_at := ''''\<rparr> = (row_of_state s)\<lparr>xr_updated_at := ''''\<rparr>"

definition known :: "shared_db \<Rightarrow> TaskExecutionState \<Rightarrow> bool" where
  "known db s \<longleftrightarrow> (\<exists>r \<in> set (lo_states (sd_local db)). xr_task_id r = xs_TaskID s
     \<and> (sees r s \<or> xs_ExecutionRevision s < xr_execution_revision r))"

lemma sees_fields:
  "sees r s \<longleftrightarrow> xr_task_id r = xs_TaskID s \<and> xr_project_id r = xs_ProjectID s \<and> xr_task_revision r = xs_TaskRevision s
     \<and> xr_task_revision_sha256 r = xs_TaskRevisionSHA256 s \<and> xr_status r = xs_Status s \<and> xr_stage r = xs_Stage s
     \<and> xr_worktree r = xs_Worktree s \<and> xr_base_head_sha r = xs_BaseHead s \<and> xr_head_sha r = xs_Head s
     \<and> xr_branch r = xs_Branch s \<and> xr_agent r = xs_Agent s \<and> xr_execution_revision r = xs_ExecutionRevision s"
  by (cases r) (auto simp: sees_def row_of_state_def)

lemma sees_row_of_state [simp]: "sees (row_of_state s) s"
  by (simp add: sees_def)

lemma state_of_row_sees: "state_of_row r = Inr s \<Longrightarrow> sees r s"
  by (auto simp: state_of_row_def sees_fields Let_def guard_result_def split: option.splits)

lemma known_step:
  assumes "local_step db db'" and "known db s"
  shows "known db' s"
proof -
  obtain x where x: "x \<in> set (lo_states (sd_local db))" "xr_task_id x = xs_TaskID s"
    "sees x s \<or> xs_ExecutionRevision s < xr_execution_revision x"
    using assms(2) by (auto simp: known_def)
  show ?thesis using assms(1)
  proof cases
    case (moved r p v r')
    define y where "y = (if x = r then r' else x)"
    have "y \<in> set (lo_states (sd_local db'))" using x(1) by (auto simp: moved(3) y_def)
    moreover have "xr_task_id y = xs_TaskID s \<and> (sees y s \<or> xs_ExecutionRevision s < xr_execution_revision y)"
      using x move_key [OF moved(2)] by (auto simp: y_def sees_fields)
    ultimately show ?thesis by (auto simp: known_def)
  qed (use x in \<open>auto simp: known_def\<close>)
qed

lemma known_machine:
  assumes "machine db db'" "wf_local db" "known db s"
  shows "known db' s"
proof -
  have "local_step\<^sup>*\<^sup>* db db'" using assms by (simp add: machine_def)
  then show ?thesis using assms(3) by (induction rule: rtranclp_induct) (auto intro: known_step)
qed

definition known_all :: "shared_db \<Rightarrow> TaskExecutionState set \<Rightarrow> bool" where
  "known_all db S \<longleftrightarrow> (\<forall>s \<in> S. known db s)"

lemma known_all_simps [simp]:
  "known_all db {}" "known_all db (insert s S) \<longleftrightarrow> known db s \<and> known_all db S"
  "known_all db (S \<union> T) \<longleftrightarrow> known_all db S \<and> known_all db T"
  by (auto simp: known_all_def)

lemma known_all_machine: "machine db db' \<Longrightarrow> wf_local db \<Longrightarrow> known_all db S \<Longrightarrow> known_all db' S"
  by (auto simp: known_all_def intro: known_machine)

text \<open>The row that a compare-and-set on the revision hits is the one that was read.\<close>

lemma known_hit:
  assumes "wf_local db" "known db s" "r \<in> set (lo_states (sd_local db))" "xr_task_id r = xs_TaskID s"
    "xr_execution_revision r = xs_ExecutionRevision s"
  shows "sees r s"
proof -
  obtain x where x: "x \<in> set (lo_states (sd_local db))" "xr_task_id x = xs_TaskID s"
    "sees x s \<or> xs_ExecutionRevision s < xr_execution_revision x"
    using assms(2) by (auto simp: known_def)
  have "x = r" using assms(1,3,4) x(1,2) unfolding wf_local_def by (metis inj_onD distinct_map)
  then show ?thesis using x(3) assms(5) by auto
qed

section \<open>Statements\<close>

lemma map_single:
  assumes "distinct (map f xs)" "r \<in> set xs" "\<And>x. x \<in> set xs \<Longrightarrow> P x \<longleftrightarrow> x = r"
  shows "map (\<lambda>x. if P x then g x else x) xs = map (\<lambda>x. if x = r then g r else x) xs"
  using assms(3) by (auto intro!: map_cong)

text \<open>An update of exactly one row.\<close>

lemma alter_execution_one:
  assumes "alter_execution p t c f db = Some (db', 1)" and "wf_local db"
  obtains r where "r \<in> set (lo_states (sd_local db))" "xr_project_id r = p" "xr_task_id r = t" "c r"
    "db' = db\<lparr>sd_local := (sd_local db)\<lparr>lo_states :=
       map (\<lambda>x. if x = r then f r else x) (lo_states (sd_local db))\<rparr>\<rparr>"
proof -
  let ?rows = "lo_states (sd_local db)"
  let ?hit = "\<lambda>r. xr_project_id r = p \<and> xr_task_id r = t \<and> c r"
  from assms(1) have db': "db' = db\<lparr>sd_local := (sd_local db)\<lparr>lo_states := map (\<lambda>r. if ?hit r then f r else r) ?rows\<rparr>\<rparr>"
    and n: "length (filter ?hit ?rows) = 1"
    by (auto simp: alter_execution_def Let_def split: if_splits)
  obtain r where "r \<in> set (filter ?hit ?rows)" using n by (cases "filter ?hit ?rows") auto
  then have r: "r \<in> set ?rows" "?hit r" by simp_all
  have only: "?hit x \<longleftrightarrow> x = r" if "x \<in> set ?rows" for x
    using that r assms(2) unfolding wf_local_def by (metis inj_onD distinct_map)
  have "map (\<lambda>r. if ?hit r then f r else r) ?rows = map (\<lambda>x. if x = r then f r else x) ?rows"
    by (rule map_single [where f = xr_task_id]) (use assms(2) r(1) only in \<open>auto simp: wf_local_def\<close>)
  then show ?thesis using that [of r] r db' by simp
qed

lemma insert_phase_logs:
  assumes "insert_phase p db = Some (db', 1)"
  shows "logged_phases db db' (Some p)" "lo_states (sd_local db') = lo_states (sd_local db)"
    "lo_verifications (sd_local db') = lo_verifications (sd_local db)"
  using assms by (auto simp: insert_phase_def Let_def logged_phases_def list_ex_iff split: if_splits)

lemma insert_verification_logs:
  assumes "insert_verification v db = Some (db', 1)"
  shows "logged_receipts db db' (Some v)" "lo_states (sd_local db') = lo_states (sd_local db)"
    "lo_phases (sd_local db') = lo_phases (sd_local db)"
  using assms by (auto simp: insert_verification_def Let_def logged_receipts_def split: if_splits)

lemma update_to_one:
  assumes "update_to t n db = Some (db', 1)" and "wf_local db"
  obtains r where "r \<in> set (lo_states (sd_local db))" "xr_task_id r = xs_TaskID t" "xr_execution_revision r = n"
    "db' = db\<lparr>sd_local := (sd_local db)\<lparr>lo_states :=
       map (\<lambda>x. if x = r then row_of_state t else x) (lo_states (sd_local db))\<rparr>\<rparr>"
proof -
  have "alter_execution (xs_ProjectID t) (xs_TaskID t) (\<lambda>r. xr_execution_revision r = n) (\<lambda>_. row_of_state t) db = Some (db', 1)"
    using assms(1) by (simp add: update_to_def update_execution_def row_of_state_def)
  then show ?thesis using that by (rule alter_execution_one [OF _ assms(2)])
qed

text \<open>The two forms of a compare-and-set make one step when the known state allows the move.\<close>

lemma update_step:
  assumes "run_statements [(update_to t (xs_ExecutionRevision s), 1)] db = Inr db'" and "wf_local db" "known db s"
    and "xs_TaskID t = xs_TaskID s" and "\<And>r. sees r s \<Longrightarrow> execution_move r None None (row_of_state t)"
  shows "local_step db db' \<and> known db' t"
proof -
  from assms(1) have u: "update_to t (xs_ExecutionRevision s) db = Some (db', 1)"
    by (auto simp: run_statements_Cons)
  obtain r where r: "r \<in> set (lo_states (sd_local db))" "xr_task_id r = xs_TaskID t"
    "xr_execution_revision r = xs_ExecutionRevision s"
    "db' = db\<lparr>sd_local := (sd_local db)\<lparr>lo_states :=
       map (\<lambda>x. if x = r then row_of_state t else x) (lo_states (sd_local db))\<rparr>\<rparr>"
    by (rule update_to_one [OF u assms(2)])
  have "sees r s" using known_hit [OF assms(2,3) r(1)] r assms(4) by simp
  then have "local_step db db'"
    by (intro local_step.moved [OF r(1) assms(5)]) (simp_all add: r(4) logged_phases_def logged_receipts_def)
  moreover have "row_of_state t \<in> set (lo_states (sd_local db'))" using r(1) by (force simp: r(4))
  ultimately show ?thesis by (auto simp: known_def row_of_state_def sees_fields intro!: bexI [of _ "row_of_state t"])
qed

lemma transition_step:
  assumes "run_statements [(update_to t (xs_ExecutionRevision s), 1), (insert_phase (row_of_phase p), 1)] db = Inr db'"
    and "wf_local db" "known db s" and "xs_TaskID t = xs_TaskID s"
    and "\<And>r. sees r s \<Longrightarrow> execution_move r (Some (row_of_phase p)) None (row_of_state t)"
  shows "local_step db db' \<and> known db' t"
proof -
  from assms(1) obtain mid where u: "update_to t (xs_ExecutionRevision s) db = Some (mid, 1)"
    and i: "insert_phase (row_of_phase p) mid = Some (db', 1)"
    by (auto simp: run_statements_Cons)
  obtain r where r: "r \<in> set (lo_states (sd_local db))" "xr_task_id r = xs_TaskID t"
    "xr_execution_revision r = xs_ExecutionRevision s"
    "mid = db\<lparr>sd_local := (sd_local db)\<lparr>lo_states :=
       map (\<lambda>x. if x = r then row_of_state t else x) (lo_states (sd_local db))\<rparr>\<rparr>"
    by (rule update_to_one [OF u assms(2)])
  have "sees r s" using known_hit [OF assms(2,3) r(1)] r assms(4) by simp
  note l = insert_phase_logs [OF i]
  have "local_step db db'"
    by (rule local_step.moved [OF r(1) assms(5) [OF \<open>sees r s\<close>]])
      (use l in \<open>simp_all add: r(4) logged_phases_def logged_receipts_def\<close>)
  moreover have "row_of_state t \<in> set (lo_states (sd_local db'))" using r(1) by (force simp: r(4) l(2))
  ultimately show ?thesis by (auto simp: known_def row_of_state_def sees_fields intro!: bexI [of _ "row_of_state t"])
qed

section \<open>The locale of the machine\<close>

definition move :: "TaskExecutionState set \<Rightarrow> 'a io \<Rightarrow> ('a \<Rightarrow> TaskExecutionState set) \<Rightarrow> ('a \<Rightarrow> bool) \<Rightarrow> bool" where
  "move S m T F \<longleftrightarrow> (\<forall>k db r k' db'. wf_local db \<longrightarrow> known_all db S \<longrightarrow> m (k, db) = (r, k', db') \<longrightarrow>
     machine db db' \<and> (\<forall>x. r = Inr x \<longrightarrow> known_all db' (T x) \<and> F x))"

abbreviation moves :: "TaskExecutionState set \<Rightarrow> 'a io \<Rightarrow> bool" where
  "moves S m \<equiv> move S m (\<lambda>_. {}) (\<lambda>_. True)"

locale execution_world =
  fixes dv :: driver
  assumes driver_atomic: "atomic_driver dv"
    and others_follow: "machine db (dv_others dv k db)"
begin

sublocale db: store_relation dv machine
  by unfold_locales (use driver_atomic others_follow machine_refl machine_trans in blast)+

lemma move_keeps: "move {} m T F \<Longrightarrow> keeps machine m"
  unfolding move_def keeps_def by (auto simp: machine_def)

lemma move_weaken:
  "move S m T F \<Longrightarrow> S \<subseteq> S' \<Longrightarrow> (\<And>x. T' x \<subseteq> T x) \<Longrightarrow> (\<And>x. F x \<Longrightarrow> F' x) \<Longrightarrow> move S' m T' F'"
  unfolding move_def known_all_def subset_iff by (intro allI impI) blast

lemma move_forget: "move S m T F \<Longrightarrow> moves S m"
  by (rule move_weaken) auto

lemma move_try_known:
  "move S m T F \<Longrightarrow> move S (io_try m) (\<lambda>r. case r of Inl e \<Rightarrow> {} | Inr x \<Rightarrow> T x) (\<lambda>r. case r of Inl e \<Rightarrow> True | Inr x \<Rightarrow> F x)"
  unfolding move_def io_try_def by (auto split: prod.splits sum.splits)

lemma move_read: "keeps machine m \<Longrightarrow> moves S m"
  unfolding move_def keeps_def by auto

lemma move_bind:
  assumes "move S m T F" and "\<And>x. F x \<Longrightarrow> move (S \<union> T x) (f x) U G"
  shows "move S (io_bind m f) U G"
  unfolding move_def
proof (intro allI impI)
  fix k db r k' db'
  assume wf: "wf_local db" and S: "known_all db S" and run: "io_bind m f (k, db) = (r, k', db')"
  obtain q j mid where m: "m (k, db) = (q, j, mid)" by (metis prod_cases3)
  have 1: "machine db mid" "\<forall>x. q = Inr x \<longrightarrow> known_all mid (T x) \<and> F x"
    using assms(1) wf S m unfolding move_def by blast+
  have wf': "wf_local mid" "known_all mid S" using 1(1) wf S known_all_machine by (auto simp: machine_def)
  show "machine db db' \<and> (\<forall>x. r = Inr x \<longrightarrow> known_all db' (U x) \<and> G x)"
  proof (cases q)
    case (Inl e)
    then have "db' = mid" "r = Inl e" using run m by (auto simp: io_bind_def)
    then show ?thesis using 1(1) by simp
  next
    case (Inr x)
    then have "f x (j, mid) = (r, k', db')" "known_all mid (S \<union> T x)" "F x"
      using run m 1 wf' by (simp_all add: io_bind_def)
    then have "machine mid db' \<and> (\<forall>x. r = Inr x \<longrightarrow> known_all db' (U x) \<and> G x)"
      using assms(2) [of x] wf'(1) unfolding move_def by blast
    then show ?thesis using 1(1) machine_trans by blast
  qed
qed

lemma move_bind_read: "keeps machine m \<Longrightarrow> (\<And>x. move S (f x) U G) \<Longrightarrow> move S (io_bind m f) U G"
  by (rule move_bind [OF move_read]) simp_all

lemma move_bind_moves: "moves S m \<Longrightarrow> (\<And>x. move S (f x) U G) \<Longrightarrow> move S (io_bind m f) U G"
  by (rule move_bind [where T = "\<lambda>_. {}" and F = "\<lambda>_. True"]) simp_all

lemma move_bind_fact: "move S m (\<lambda>_. {}) F \<Longrightarrow> (\<And>x. F x \<Longrightarrow> move S (f x) U G) \<Longrightarrow> move S (io_bind m f) U G"
  by (rule move_bind [where T = "\<lambda>_. {}" and F = F]) simp_all

lemma move_try: "moves S m \<Longrightarrow> moves S (io_try m)"
  unfolding move_def io_try_def by (auto split: prod.splits)

lemma move_fail: "move S (io_fail e) T F" "move S (io_error m) T F"
  by (simp_all add: move_def io_error_def io_fail_def machine_refl)

lemma move_return: "F x \<Longrightarrow> T x \<subseteq> S \<Longrightarrow> move S (io_return x) T F"
  by (auto simp: move_def io_return_def machine_refl known_all_def)

lemma move_check: "(e = None \<Longrightarrow> move S m T F) \<Longrightarrow> move S (io_check e m) T F"
  by (cases e) (auto simp: io_check_def move_fail)

lemma move_require: "(c \<Longrightarrow> move S m T F) \<Longrightarrow> move S (io_require c t m) T F"
  by (auto simp: io_require_def move_fail)

lemma move_if: "(c \<Longrightarrow> move S m T F) \<Longrightarrow> (\<not> c \<Longrightarrow> move S n T F) \<Longrightarrow> move S (if c then m else n) T F"
  by simp

lemma move_option:
  "(v = None \<Longrightarrow> move S m T F) \<Longrightarrow> (\<And>x. v = Some x \<Longrightarrow> move S (f x) T F)
    \<Longrightarrow> move S (case v of None \<Rightarrow> m | Some x \<Rightarrow> f x) T F"
  by (cases v) auto

lemma move_sum:
  "(\<And>e. v = Inl e \<Longrightarrow> move S (f e) T F) \<Longrightarrow> (\<And>x. v = Inr x \<Longrightarrow> move S (g x) T F)
    \<Longrightarrow> move S (case v of Inl e \<Rightarrow> f e | Inr x \<Rightarrow> g x) T F"
  by (cases v) auto

lemma move_push_error:
  "(\<And>m. move S (f m) T F) \<Longrightarrow> (\<And>m. move S (g m) T F)
    \<Longrightarrow> move S (case v of ExpectedOldMismatch m \<Rightarrow> f m | PushFailure m \<Rightarrow> g m) T F"
  by (cases v) auto

lemma move_pair: "(\<And>x y. v = (x, y) \<Longrightarrow> move S (f x y) T F) \<Longrightarrow> move S (case v of (x, y) \<Rightarrow> f x y) T F"
  by (cases v) auto

lemma move_let: "move S (f v) T F \<Longrightarrow> move S (Let v f) T F"
  by simp

lemma move_local_store: "move S m T F \<Longrightarrow> move S (local_store dv m) T F"
  by (simp add: local_store_def move_fail)

lemma move_value: "(\<And>x. r = Inr x \<Longrightarrow> F x \<and> T x \<subseteq> S) \<Longrightarrow> move S (io_value r) T F"
  by (cases r) (auto simp: io_value_def move_fail intro: move_return)

lemma move_wrap: "moves S m \<Longrightarrow> moves S (io_wrap p m)"
  unfolding move_def io_wrap_def io_bind_def io_try_def
  by (auto simp: io_return_def io_error_def io_fail_def split: prod.splits sum.splits store_error.splits)

lemma move_wrap_known:
  assumes "move S m T F"
  shows "move S (io_wrap p m) T F"
  unfolding move_def
proof (intro allI impI)
  fix k db r k' db'
  assume a: "wf_local db" "known_all db S" and run: "io_wrap p m (k, db) = (r, k', db')"
  obtain q j mid where m: "m (k, db) = (q, j, mid)" by (metis prod_cases3)
  have "machine db mid \<and> (\<forall>x. q = Inr x \<longrightarrow> known_all mid (T x) \<and> F x)"
    using assms a m unfolding move_def by blast
  moreover have "db' = mid \<and> (\<forall>x. r = Inr x \<longrightarrow> q = Inr x)"
    using run m unfolding io_wrap_def io_bind_def io_try_def
    by (auto simp: io_return_def io_error_def io_fail_def split: sum.splits store_error.splits)
  ultimately show "machine db db' \<and> (\<forall>x. r = Inr x \<longrightarrow> known_all db' (T x) \<and> F x)" by blast
qed

lemmas moving = move_check move_require move_if move_option move_sum move_pair move_let move_local_store move_fail

text \<open>What only reads leaves what is known behind.\<close>

lemmas leaves = leaf [THEN move_read]

end

end
