(* ===== verification/Execution_Rules.thy ===== *)
theory Execution_Rules
  imports Execution_Logic
begin

text \<open>
  What the operations of the stores that write an execution do in the machine: creating a state,
  the two forms of the compare-and-set, the finish of a verification, the commit of a completion and
  the captured state of an operation; and what a state that has just been read tells.
\<close>

section \<open>Rows that other statements leave alone\<close>

lemma statement_elsewhere: "(\<And>db db' n. st db = Some (db', n) \<Longrightarrow> sd_local db' = sd_local db) \<Longrightarrow> statement_keeps machine st"
  unfolding statement_keeps_def using machine_elsewhere by blast

lemma event_statement_elsewhere:
  "statement_keeps machine (insert_event e)" "statement_keeps machine (insert_history h)"
  "statement_keeps machine (insert_outbox o')" "statement_keeps machine (update_state t row c)"
  by (rule statement_elsewhere,
      auto simp: insert_event_def insert_history_def insert_outbox_def update_state_def Let_def split: if_splits)+

lemma store_captured_step: "statement_keeps machine (store_captured i raw)"
proof -
  have "local_step db db'" if "store_captured i raw db = Some (db', n)" for db db' n
    using that by (intro local_step.elsewhere) (auto simp: store_captured_def logged_phases_def logged_receipts_def)
  then show ?thesis unfolding statement_keeps_def using machine_step by blast
qed

text \<open>An update that is not required to hit a row hits at most one.\<close>

lemma alter_execution_cases:
  assumes "alter_execution p t c f db = Some (db', n)" and "wf_local db"
  shows "sd_local db' = sd_local db \<or> n = 1"
proof -
  let ?hit = "\<lambda>r. xr_project_id r = p \<and> xr_task_id r = t \<and> c r"
  have "length (filter ?hit rows) \<le> 1" if "distinct (map xr_task_id rows)" for rows
  proof -
    have "length (filter (\<lambda>r. xr_task_id r = t) rows) \<le> 1"
      using that by (induction rows) (auto simp: filter_empty_conv image_iff)
    moreover have "length (filter ?hit rows) \<le> length (filter (\<lambda>r. xr_task_id r = t) rows)"
      by (induction rows) auto
    ultimately show ?thesis by linarith
  qed
  then have one: "length (filter ?hit (lo_states (sd_local db))) \<le> 1" using assms(2) by (simp add: wf_local_def)
  show ?thesis
  proof (cases "filter ?hit (lo_states (sd_local db)) = []")
    case True
    then have "map (\<lambda>r. if ?hit r then f r else r) (lo_states (sd_local db)) = lo_states (sd_local db)"
      by (intro map_idI) (auto simp: filter_empty_conv)
    then show ?thesis using assms(1) by (auto simp: alter_execution_def Let_def split: if_splits)
  next
    case False
    then have "length (filter ?hit (lo_states (sd_local db))) = 1" using one by (cases "filter ?hit (lo_states (sd_local db))") auto
    then show ?thesis using assms(1) by (auto simp: alter_execution_def Let_def split: if_splits)
  qed
qed

lemma insert_execution_step:
  assumes "run_statements [(insert_execution (row_of_state s), 1)] db = Inr db'" and "initial_row (row_of_state s)"
  shows "local_step db db'"
proof -
  from assms(1) have "insert_execution (row_of_state s) db = Some (db', 1)" by (auto simp: run_statements_Cons)
  then have "lo_states (sd_local db') = lo_states (sd_local db) @ [row_of_state s]"
    "lo_phases (sd_local db') = lo_phases (sd_local db)" "lo_verifications (sd_local db') = lo_verifications (sd_local db)"
    "xr_task_id (row_of_state s) \<notin> xr_task_id ` set (lo_states (sd_local db))"
    by (auto simp: insert_execution_def Let_def list_ex_iff split: if_splits)
  then show ?thesis using assms(2)
    by (intro local_step.dispatched [where r = "row_of_state s"]) (simp_all add: logged_phases_def logged_receipts_def)
qed

section \<open>The row of the next state\<close>

lemma row_next: "sees r s \<Longrightarrow> row_of_state (next_state s status now) = next_row r status (rfc3339_nano (to_utc (to_utc now)))"
  by (cases r) (simp add: sees_fields row_of_state_def next_row_def next_state_def)

lemma row_of_updates:
  "row_of_state (s\<lparr>xs_Stage := x\<rparr>) = (row_of_state s)\<lparr>xr_stage := x\<rparr>"
  "row_of_state (s\<lparr>xs_Head := x\<rparr>) = (row_of_state s)\<lparr>xr_head_sha := x\<rparr>"
  "row_of_state (s\<lparr>xs_BaseHead := x\<rparr>) = (row_of_state s)\<lparr>xr_base_head_sha := x\<rparr>"
  "row_of_state (s\<lparr>xs_Worktree := x\<rparr>) = (row_of_state s)\<lparr>xr_worktree := x\<rparr>"
  by (simp_all add: row_of_state_def)

lemma next_state_simps [simp]:
  "xs_TaskID (next_state s a u) = xs_TaskID s" "xs_ProjectID (next_state s a u) = xs_ProjectID s"
  "xs_Status (next_state s a u) = a" "xs_Stage (next_state s a u) = xs_Stage s"
  "xs_ExecutionRevision (next_state s a u) = xs_ExecutionRevision s + 1" "xs_Head (next_state s a u) = xs_Head s"
  "xs_BaseHead (next_state s a u) = xs_BaseHead s" "xs_Branch (next_state s a u) = xs_Branch s"
  "xs_Agent (next_state s a u) = xs_Agent s" "xs_TaskRevisionSHA256 (next_state s a u) = xs_TaskRevisionSHA256 s"
  "xs_TaskRevision (next_state s a u) = xs_TaskRevision s" "xs_Worktree (next_state s a u) = xs_Worktree s"
  by (simp_all add: next_state_def)

section \<open>The finish of a verification\<close>

lemma finish_checks_simps:
  "finish_checks t n v = None \<longleftrightarrow> ValidateTaskExecutionVerification v = None \<and> ValidateTaskExecutionState t = None
     \<and> n = xv_AttemptRevision v \<and> xs_ExecutionRevision t = xv_AttemptRevision v + 1
     \<and> xs_Status t = (if xv_Outcome v = ''succeeded'' then ''verified'' else ''ready_for_verification'')
     \<and> receipt_matches v t"
  unfolding finish_checks_def by (auto simp: validator fail_if_def)

lemma finish_step:
  assumes run: "run_statements (finish_statements t n v text) db = Inr db'" and wf: "wf_local db"
    and checks: "finish_checks t n v = None" and ok: "xv_Outcome v = ''succeeded''"
    and json: "json_TaskExecutionVerification v = Inr text"
  shows "local_step db db'"
proof -
  have m: "ValidateTaskExecutionVerification v = None" "n = xv_AttemptRevision v" "xs_ExecutionRevision t = n + 1"
    "xs_Status t = ''verified''" "receipt_matches v t"
    using checks ok by (simp_all add: finish_checks_simps)
  from run obtain mid where u: "alter_execution (xs_ProjectID t) (xs_TaskID t) (verifying_row t n) (\<lambda>_. row_of_state t) db
      = Some (mid, 1)" and i: "insert_verification (row_of_receipt v text) mid = Some (db', 1)"
    by (auto simp: finish_statements_def run_statements_Cons update_execution_def row_of_state_def)
  obtain r where r: "r \<in> set (lo_states (sd_local db))" "xr_project_id r = xs_ProjectID t" "xr_task_id r = xs_TaskID t"
    "verifying_row t n r" "mid = db\<lparr>sd_local := (sd_local db)\<lparr>lo_states :=
       map (\<lambda>x. if x = r then row_of_state t else x) (lo_states (sd_local db))\<rparr>\<rparr>"
    by (rule alter_execution_one [OF u wf])
  have row: "row_of_state t = next_row r ''verified'' (xr_updated_at (row_of_state t))"
    using r(2-4) m by (cases r) (simp add: verifying_row_def row_of_state_def next_row_def)
  have receipt: "receipt_for (row_of_state t) (row_of_receipt v text) v"
    using m json ok by (simp add: receipt_for_def row_of_receipt_def row_of_state_def receipt_matches_def)
  have "execution_move r None (Some (row_of_receipt v text)) (row_of_state t)"
    by (rule execution_move.verify [OF _ row])
      (use r(2-4) m(2) receipt in \<open>auto simp: verifying_row_def receipt_for_def row_of_receipt_def row_of_state_def\<close>)
  then show ?thesis
    by (rule local_step.moved [OF r(1)])
      (use insert_verification_logs [OF i] in \<open>simp_all add: r(5) logged_phases_def logged_receipts_def\<close>)
qed

section \<open>Rules of the store operations\<close>

definition read_states :: "execution_row option \<Rightarrow> TaskExecutionState set" where
  "read_states row = {s. \<exists>r. row = Some r \<and> state_of_row r = Inr s}"

definition at_task :: "string \<Rightarrow> string \<Rightarrow> TaskExecutionState option \<Rightarrow> bool" where
  "at_task p k found \<longleftrightarrow> (\<forall>s. found = Some s \<longrightarrow> xs_ProjectID s = p \<and> xs_TaskID s = k)"

lemma execution_of_known:
  "execution_of db p k = Some r \<Longrightarrow> xr_project_id r = p \<and> xr_task_id r = k \<and> known_all db (read_states (Some r))"
  by (auto simp: execution_of_def find_Some_iff known_all_def known_def read_states_def sees_fields split: if_splits
      dest!: state_of_row_sees intro!: bexI [of _ r])

context execution_world
begin

lemma move_query: "(\<And>db. known_all db (T (q db)) \<and> F (q db)) \<Longrightarrow> move S (io_query dv q) T F"
  unfolding move_def io_query_def using others_follow by (auto simp: Let_def split: option.splits)

lemma move_batch:
  assumes "\<And>db db'. wf_local db \<Longrightarrow> known_all db S \<Longrightarrow> run_statements sts db = Inr db'
    \<Longrightarrow> local_step db db' \<and> known_all db' T"
  shows "move S (io_batch dv sts) (\<lambda>_. T) (\<lambda>_. True)"
  unfolding move_def
proof (intro allI impI)
  fix k db r k' db'
  assume wf: "wf_local db" and S: "known_all db S" and run: "io_batch dv sts (k, db) = (r, k', db')"
  let ?mid = "dv_others dv k db"
  obtain b e where b: "dv_batch dv k sts ?mid = (b, e)" by (cases "dv_batch dv k sts ?mid")
  have [simp]: "db' = b" and r: "r = Inr () \<longleftrightarrow> e = None"
    using run b by (auto simp: io_batch_def split: option.splits)
  have mid: "wf_local ?mid" "known_all ?mid S"
    using others_follow [of db k] wf known_all_machine [OF others_follow wf S] by (auto simp: machine_def)
  note o = db.batch_outcome [OF b]
  have "machine ?mid b" using o assms [OF mid, of b] machine_step machine_refl by metis
  moreover have "e = None \<Longrightarrow> known_all b T" using o assms [OF mid, of b] by blast
  ultimately show "machine db db' \<and> (\<forall>x. r = Inr x \<longrightarrow> known_all db' T \<and> True)"
    using machine_trans [OF others_follow] r by auto
qed

lemma move_read_state:
  "move S (ReadTaskExecutionState dv p k) set_option (at_task p k)"
  unfolding ReadTaskExecutionState_def
proof (intro move_local_store move_bind move_query)
  fix db
  show "known_all db (read_states (execution_of db p k))
      \<and> (\<forall>r. execution_of db p k = Some r \<longrightarrow> xr_project_id r = p \<and> xr_task_id r = k)"
    using execution_of_known [of db p k] by (cases "execution_of db p k") (auto simp: read_states_def known_all_def)
next
  fix row :: "execution_row option"
  assume row: "\<forall>r. row = Some r \<longrightarrow> xr_project_id r = p \<and> xr_task_id r = k"
  show "move (S \<union> read_states row) (case row of None \<Rightarrow> io_return None | Some r \<Rightarrow> io_value (map_sum id Some (state_of_row r)))
      set_option (at_task p k)"
  proof (intro move_option move_value)
    fix r found
    assume r: "row = Some r" and found: "map_sum id Some (state_of_row r) = Inr found"
    then obtain s where s: "found = Some s" "state_of_row r = Inr s" by (cases "state_of_row r") auto
    then show "at_task p k found \<and> set_option found \<subseteq> S \<union> read_states row"
      using row r state_of_row_sees [of r s] by (auto simp: read_states_def sees_fields at_task_def)
  qed (auto intro: move_return simp: at_task_def)
qed

text \<open>What is known of a state is known of the ones before it too, so a rule may forget states.\<close>

lemma move_mutation_read: "move S (readExecutionForMutation dv w p k) set_option (at_task p k)"
  unfolding readExecutionForMutation_def
  by (intro move_if move_fail move_bind [OF move_read_state] move_option move_bind_read reading move_return)
    (auto simp: at_task_def)

lemma move_execution_for:
  "move S (execution_for dv w p k m) (\<lambda>s. {s}) (\<lambda>s. xs_ProjectID s = p \<and> xs_TaskID s = k)"
  unfolding execution_for_def
  by (intro move_bind [OF move_mutation_read] move_option move_fail move_return) (auto simp: at_task_def)

lemma move_integration_read: "move S (readExecutionForIntegration dv w p k) set_option (at_task p k)"
  unfolding readExecutionForIntegration_def by (rule move_mutation_read)

lemma move_update:
  assumes "s \<in> S" "xs_TaskID t = xs_TaskID s"
    and "\<And>r. sees r s \<Longrightarrow> execution_move r None None (row_of_state t)"
  shows "move S (UpdateTaskExecutionState dv t (xs_ExecutionRevision s)) (\<lambda>_. {t}) (\<lambda>_. True)"
  unfolding UpdateTaskExecutionState_def
  by (intro move_local_store move_check move_batch)
    (use update_step [of t s] assms in \<open>auto simp: known_all_def\<close>)

lemmas moves_update = move_update [THEN move_forget]

lemma move_transition:
  assumes "s \<in> S" "xs_TaskID t = xs_TaskID s"
    and "\<And>r. sees r s \<Longrightarrow> execution_move r (Some (row_of_phase p)) None (row_of_state t)"
  shows "move S (TransitionTaskExecutionState dv t (xs_ExecutionRevision s) p) (\<lambda>_. {t}) (\<lambda>_. True)"
  unfolding TransitionTaskExecutionState_def
  by (intro move_local_store move_check move_batch)
    (use transition_step [of t s p] assms in \<open>auto simp: known_all_def\<close>)

lemma move_create:
  assumes "initial_row (row_of_state s)"
  shows "moves S (CreateTaskExecutionState dv s)"
  unfolding CreateTaskExecutionState_def
  by (intro move_local_store move_check move_batch) (use insert_execution_step assms in auto)

lemma move_finish:
  assumes "xv_Outcome v = ''succeeded''"
  shows "moves S (FinishTaskExecutionVerification dv t n v)"
proof -
  have batch: "move S (io_batch dv (finish_statements t n v raw)) (\<lambda>_. {}) (\<lambda>_. True)"
    if "finish_checks t n v = None" "json_TaskExecutionVerification v = Inr raw" for raw
    by (rule move_batch) (use finish_step [OF _ _ that(1) assms that(2)] in auto)
  have json: "move S (io_value (json_TaskExecutionVerification v)) (\<lambda>_. {}) (\<lambda>x. json_TaskExecutionVerification v = Inr x)"
    by (intro move_value) simp
  show ?thesis
    unfolding FinishTaskExecutionVerification_def Let_def
    by (intro move_local_store move_check move_bind_fact [OF json] move_bind_moves [OF move_try [OF batch]]
        move_bind_read move_option move_sum move_fail leaves reading) (auto intro: move_return)
qed

text \<open>A claim that is released, or kept when there was none.\<close>

lemma move_reject:
  assumes "s \<in> S"
  shows "move S (rejectTaskExecutionIntegration dv w s e) T F"
  unfolding rejectTaskExecutionIntegration_def Let_def
  by (intro move_if move_fail move_bind_read reading move_bind_moves [OF move_wrap_known [OF moves_update]] assms)
    (auto simp: row_next execution_move.release sees_fields)

lemma move_or_reject:
  assumes "s \<in> S" "move S m T F"
  shows "move S (or_reject dv w s m) T F"
  unfolding or_reject_def
  by (intro move_bind [OF move_try_known [OF assms(2)]] move_sum move_reject move_return) (use assms(1) in auto)

lemma move_save_capture: "moves S (saveTaskExecutionIntegrationCapture dv w c)"
  unfolding saveTaskExecutionIntegrationCapture_def
  by (intro move_if move_return move_bind_read reading move_read db.keeps_exec store_captured_step) auto

end

end
