(* ===== verification/Execution_Refinement.thy ===== *)
theory Execution_Refinement
  imports Execution_Rules
begin

text \<open>
  The operations of the service implement the machine: each of the moves that the code makes on a
  state it has read is a move of the row, and each operation, whatever the world answers and
  wherever it fails, changes the database by steps of the machine only.
\<close>

section \<open>The moves of the code\<close>

lemma phase_for_new: "kind \<noteq> ''integration'' \<Longrightarrow> phase_for (row_of_state t) kind (row_of_phase (new_phase t kind d c))"
  by (simp add: phase_for_def row_of_phase_def new_phase_def row_of_state_def)

lemma phase_decision [simp]: "pr_decision (row_of_phase (new_phase t kind d c)) = Some d"
  by (simp add: row_of_phase_def new_phase_def)

lemma row_lane:
  assumes "sees r s"
  shows "row_of_state ((next_state s status now)\<lparr>xs_Head := h, xs_Worktree := wt\<rparr>)
      = moved_lane (next_row r status (rfc3339_nano (to_utc (to_utc now)))) (xr_base_head_sha r) h wt"
    "row_of_state ((next_state s status now)\<lparr>xs_BaseHead := b, xs_Head := h, xs_Worktree := wt\<rparr>)
      = moved_lane (next_row r status (rfc3339_nano (to_utc (to_utc now)))) b h wt"
  unfolding row_of_updates row_next [OF assms] by (cases r; simp add: moved_lane_def next_row_def)+

lemma submit_moves:
  assumes "xs_Status s = ''dispatched'' \<or> xs_Status s = ''changes_requested''" "xs_Stage s = stage" "sees r s"
    and t: "t = (next_state s ''awaiting_review'' now)\<lparr>xs_Head := h, xs_Worktree := wt\<rparr>"
  shows "execution_move r (Some (row_of_phase ((new_phase t ''submission'' d c)\<lparr>ph_Stage := stage\<rparr>))) None (row_of_state t)"
proof -
  have stage: "(new_phase t ''submission'' d c)\<lparr>ph_Stage := stage\<rparr> = new_phase t ''submission'' d c"
    using assms(2) by (simp add: new_phase_def t)
  show ?thesis unfolding stage
    by (rule execution_move.submit [OF _ _ phase_for_new]) (use assms row_lane(1) in \<open>auto simp: sees_fields\<close>)
qed

lemma review_moves:
  assumes "xs_Status s = ''awaiting_review''" "sees r s" "d = ''accept'' \<or> d = ''reject''"
    "st = (if d = ''reject'' then ''changes_requested'' else ''ready_for_verification'')"
  shows "execution_move r (Some (row_of_phase (new_phase (next_state s st now) ''review'' d c))) None
    (row_of_state (next_state s st now))"
  by (rule execution_move.review [OF _ _ phase_for_new, of _ _ "d = ''accept''"])
    (use assms row_next in \<open>auto simp: sees_fields\<close>)

lemma rework_moves:
  assumes "IsTaskExecutionReworkable (xs_Status s)" "sees r s" "execution_stage st"
    and t: "t = (next_state s ''changes_requested'' now)\<lparr>xs_Stage := st\<rparr>"
  shows "execution_move r (Some (row_of_phase (new_phase t ''rework'' d c))) None (row_of_state t)"
  by (rule execution_move.rework [OF _ _ _ phase_for_new]) (use assms row_next [OF assms(2)] in \<open>auto simp: sees_fields row_of_updates\<close>)

lemma rebase_moves:
  assumes "xs_Status s = ''ready_for_verification'' \<or> xs_Status s = ''verifying'' \<or> xs_Status s = ''verified''" "sees r s"
  shows "execution_move r (Some (row_of_phase (new_phase ((next_state s ''changes_requested'' now)
        \<lparr>xs_Stage := ''rebase'', xs_BaseHead := b\<rparr>) ''rework'' d c))) None
      (row_of_state ((next_state s ''changes_requested'' now)\<lparr>xs_Stage := ''rebase'', xs_BaseHead := b\<rparr>))"
    "execution_move r (Some (row_of_phase (new_phase ((next_state s ''changes_requested'' now)
        \<lparr>xs_Stage := ''rebase'', xs_BaseHead := b, xs_Head := h, xs_Worktree := wt\<rparr>) ''rework'' d c))) None
      (row_of_state ((next_state s ''changes_requested'' now)
        \<lparr>xs_Stage := ''rebase'', xs_BaseHead := b, xs_Head := h, xs_Worktree := wt\<rparr>))"
proof -
  let ?u = "rfc3339_nano (to_utc (to_utc now))"
  have status: "xr_status r = ''ready_for_verification'' \<or> xr_status r = ''verifying'' \<or> xr_status r = ''verified''"
    using assms by (simp add: sees_fields)
  note move = execution_move.rebase [OF status _ phase_for_new, where u = ?u and b = b]
  have "row_of_state ((next_state s ''changes_requested'' now)\<lparr>xs_Stage := ''rebase'', xs_BaseHead := b\<rparr>)
      = moved_lane ((next_row r ''changes_requested'' ?u)\<lparr>xr_stage := ''rebase''\<rparr>) b (xr_head_sha r) (xr_worktree r)"
    unfolding row_of_updates row_next [OF assms(2)] by (cases r) (simp add: moved_lane_def next_row_def)
  then show "execution_move r (Some (row_of_phase (new_phase ((next_state s ''changes_requested'' now)
        \<lparr>xs_Stage := ''rebase'', xs_BaseHead := b\<rparr>) ''rework'' d c))) None
      (row_of_state ((next_state s ''changes_requested'' now)\<lparr>xs_Stage := ''rebase'', xs_BaseHead := b\<rparr>))"
    by (rule move) simp
  have "row_of_state ((next_state s ''changes_requested'' now)
        \<lparr>xs_Stage := ''rebase'', xs_BaseHead := b, xs_Head := h, xs_Worktree := wt\<rparr>)
      = moved_lane ((next_row r ''changes_requested'' ?u)\<lparr>xr_stage := ''rebase''\<rparr>) b h wt"
    unfolding row_of_updates row_next [OF assms(2)] by (simp add: moved_lane_def)
  then show "execution_move r (Some (row_of_phase (new_phase ((next_state s ''changes_requested'' now)
        \<lparr>xs_Stage := ''rebase'', xs_BaseHead := b, xs_Head := h, xs_Worktree := wt\<rparr>) ''rework'' d c))) None
      (row_of_state ((next_state s ''changes_requested'' now)
        \<lparr>xs_Stage := ''rebase'', xs_BaseHead := b, xs_Head := h, xs_Worktree := wt\<rparr>))"
    by (rule move) simp
qed

lemma block_moves:
  assumes "IsTaskExecutionAgentActionable (xs_Status s) (xs_Stage s)" "sees r s"
  shows "execution_move r (Some (row_of_phase (new_phase (next_state s ''blocked'' now) ''block'' (xs_Status s) c))) None
    (row_of_state (next_state s ''blocked'' now))"
  by (rule execution_move.block [OF _ row_next phase_for_new]) (use assms in \<open>auto simp: sees_fields\<close>)

lemma resume_moves:
  assumes "xs_Status s = ''blocked''" "IsTaskExecutionAgentActionable st (xs_Stage s)" "sees r s"
  shows "execution_move r (Some (row_of_phase (new_phase (next_state s st now) ''resume'' d c))) None
    (row_of_state (next_state s st now))"
  by (rule execution_move.resume [OF _ _ row_next phase_for_new]) (use assms in \<open>auto simp: sees_fields\<close>)

lemma refresh_moves:
  assumes "xs_Status s = ''dispatched'' \<or> xs_Status s = ''in_progress'' \<or> xs_Status s = ''blocked''"
    and "xs_Head s = xs_BaseHead s" "sees r s" and t: "t = (next_state s (xs_Status s) now)\<lparr>xs_BaseHead := b, xs_Head := b, xs_Worktree := wt\<rparr>"
  shows "execution_move r (Some (row_of_phase (new_phase t ''refresh'' d c))) None (row_of_state t)"
  by (rule execution_move.refresh [OF _ _ _ phase_for_new])
    (use assms row_lane(2) [OF assms(3)] in \<open>auto simp: sees_fields\<close>)

lemma reset_moves:
  assumes "sees r s"
  shows "taskExecutionResettableStatus (xs_Status s) \<Longrightarrow> xs_Stage s = ''code''
      \<Longrightarrow> execution_move r (Some (row_of_phase (new_phase (next_state s ''resetting'' now) ''reset_start'' d c))) None
            (row_of_state (next_state s ''resetting'' now))"
    "xs_Status s = ''resetting''
      \<Longrightarrow> execution_move r (Some (row_of_phase (new_phase (next_state s ''abandoned'' now) ''reset'' d c))) None
            (row_of_state (next_state s ''abandoned'' now))"
  by (rule execution_move.reset_start [OF _ _ row_next phase_for_new], use assms in \<open>auto simp: sees_fields\<close>)
    (rule execution_move.reset [OF _ row_next phase_for_new], use assms in \<open>auto simp: sees_fields\<close>)

lemma silent_moves:
  assumes "sees r s"
  shows "xs_Status s = ''ready_for_verification''
      \<Longrightarrow> execution_move r None None (row_of_state (next_state s ''verifying'' now))"
    "xs_Status s = ''verified'' \<Longrightarrow> execution_move r None None (row_of_state (next_state s ''integrating'' now))"
  using assms by (auto simp: row_next sees_fields intro: execution_move.start_verification execution_move.claim)

lemma integrate_moves:
  assumes "xs_Status s = ''verified'' \<or> xs_Status s = ''integrating''" "sees r s" and t: "t = next_state s ''integrated'' now"
  shows "execution_move r (Some (row_of_phase ((new_phase t ''integration'' ''accept'' c)
      \<lparr>ph_Stage := ''integration'', ph_Head := h\<rparr>))) None (row_of_state t)"
proof -
  let ?p = "row_of_phase ((new_phase t ''integration'' ''accept'' c)\<lparr>ph_Stage := ''integration'', ph_Head := h\<rparr>)"
  have p: "phase_for (row_of_state t) ''integration'' ?p" "pr_decision ?p = Some ''accept''"
    by (simp_all add: phase_for_def row_of_phase_def new_phase_def row_of_state_def)
  show ?thesis unfolding t
    by (rule execution_move.integrate [OF _ row_next]) (use assms p in \<open>auto simp: sees_fields\<close>)
qed

section \<open>The operations\<close>

context execution_world
begin

lemmas transition = move_bind_moves [OF move_forget [OF move_transition]]
lemmas update = move_bind_moves [OF move_forget [OF move_update]]

lemmas steps = move_bind [OF move_execution_for] transition update move_bind_read moving leaves reading move_return

lemma moves_block: "moves S (TaskExecutionBlock dv w p k m)"
  unfolding TaskExecutionBlock_def by (intro steps) (auto intro: block_moves)

lemma moves_resume: "moves S (TaskExecutionResume dv w p k m)"
  unfolding TaskExecutionResume_def by (intro steps) (auto intro: resume_moves simp: block_evidence_def)

lemma moves_rework: "moves S (TaskExecutionRework dv w i)"
  unfolding TaskExecutionRework_def by (intro steps) (auto intro!: rework_moves simp: validateTaskExecutionReviewInput_def)

lemma moves_submit: "moves S (submitTaskExecution dv w p k st)"
  unfolding submitTaskExecution_def by (intro steps) (auto intro: submit_moves)

lemma moves_review: "moves S (TaskExecutionReviewDecide dv w i)"
  unfolding TaskExecutionReviewDecide_def by (intro steps) (auto intro: review_moves)

lemma moves_refreshable:
  "move S (ensureTaskExecutionRefreshable dv w s) (\<lambda>_. {}) (\<lambda>_. xs_Head s = xs_BaseHead s
     \<and> (xs_Status s = ''dispatched'' \<or> xs_Status s = ''in_progress'' \<or> xs_Status s = ''blocked''))"
proof -
  have boundary: "move S (if xs_Status s = ''dispatched'' \<or> xs_Status s = ''in_progress'' then io_return ()
      else if xs_Status s = ''blocked'' then io_bind (taskExecutionBlockedPhase dv s) (\<lambda>_. io_return ())
      else io_error m) (\<lambda>_. {})
      (\<lambda>_. xs_Status s = ''dispatched'' \<or> xs_Status s = ''in_progress'' \<or> xs_Status s = ''blocked'')" for m
    by (intro move_if move_bind_read reading move_fail move_return) auto
  show ?thesis unfolding ensureTaskExecutionRefreshable_def
    by (intro move_bind_fact [OF boundary] move_bind_read reading move_require)
      (auto intro: move_weaken [OF leaves(1)] move_weaken [OF move_read [OF db.keeps_no_verification]])
qed

lemma moves_refresh_lane: "move S (refresh_lane dv w pr l s c a) (\<lambda>_. {}) (\<lambda>h. h = c)"
  unfolding refresh_lane_def Let_def
  by (intro move_bind_read reading move_require move_if move_sum move_fail move_return) auto

lemma moves_refresh: "moves S (TaskExecutionRefresh dv w p k m)"
  unfolding TaskExecutionRefresh_def
  by (intro move_bind_fact [OF moves_refreshable] move_bind_fact [OF moves_refresh_lane] steps) (auto intro: refresh_moves)

text \<open>A reset: its start is recorded, or found recorded, before its end.\<close>

lemma move_begin_reset:
  assumes "s \<in> S" "taskExecutionResettableStatus (xs_Status s)" "xs_Stage s = ''code''"
  shows "move S (beginTaskExecutionReset dv w s e) (\<lambda>t. {t}) (\<lambda>t. xs_Status t = ''resetting'')"
  unfolding beginTaskExecutionReset_def
  by (intro move_bind_read reading move_let move_bind [OF move_transition] move_return)
    (use assms reset_moves(1) in auto)

lemma move_started_reset:
  "move S (started_reset dv w p k m) (\<lambda>x. {fst x}) (\<lambda>x. xs_Status (fst x) = ''resetting'')"
  unfolding started_reset_def
  by (intro move_bind [OF move_execution_for] move_require move_bind_read reading move_let move_check
      move_bind [OF move_begin_reset] move_return) auto

lemma move_resumed_reset:
  "move S (resumed_reset dv w p k m) (\<lambda>x. {fst x}) (\<lambda>x. xs_Status (fst x) = ''resetting'')"
  unfolding resumed_reset_def
  by (intro move_bind [OF move_execution_for] move_require move_bind_read reading move_option move_sum move_fail move_return)
    (auto simp: taskExecutionResetEvidenceBindsState_def)

lemma moves_finish_reset:
  assumes "s \<in> S" "xs_Status s = ''resetting''"
  shows "moves S (finish_reset dv w p k s e)"
  unfolding finish_reset_def by (intro steps) (use assms reset_moves(2) in auto)

lemma moves_reset: "moves S (TaskExecutionReset dv w p k m)"
proof -
  have both: "move S (if xs_Status s = ''resetting'' then resumed_reset dv w p k m' else started_reset dv w p k m')
      (\<lambda>x. {fst x}) (\<lambda>x. xs_Status (fst x) = ''resetting'')" for s m'
    by (intro move_if move_started_reset move_resumed_reset)
  show ?thesis
    unfolding TaskExecutionReset_def
    by (intro move_bind_fact [OF move_value [where T = "\<lambda>_. {}"]] move_bind [OF both] steps) (auto intro: moves_finish_reset)
qed

text \<open>Dispatch: a first state, or the next one of a task that was reset.\<close>

lemma move_dispatch_state:
  "move S (dispatch_state dv i) (\<lambda>x. case x of Again s \<Rightarrow> {s} | _ \<Rightarrow> {})
     (\<lambda>x. \<forall>s. x = Again s \<longrightarrow> xs_Status s = ''abandoned'' \<and> xs_ProjectID s = di_ProjectID i \<and> xs_TaskID s = di_Key i)"
  unfolding dispatch_state_def
  by (intro move_bind [OF move_read_state] move_option move_if move_require move_bind_read reading move_fail move_return)
    (auto simp: at_task_def)

lemma redispatch_moves:
  assumes "sees r s" "xs_Status s = ''abandoned''" "xs_Status t = ''dispatched''" "xs_Stage t = ''code''"
    "xs_ProjectID t = xs_ProjectID s" "xs_TaskID t = xs_TaskID s" "xs_ExecutionRevision t = xs_ExecutionRevision s + 1"
    "xs_Head t = xs_BaseHead t"
  shows "execution_move r None None (row_of_state t)"
  by (rule execution_move.redispatch) (use assms in \<open>auto simp: sees_fields row_of_state_def\<close>)

lemma moves_persist_dispatch:
  assumes "\<And>s. previous = Some s \<Longrightarrow> s \<in> S \<and> xs_Status s = ''abandoned'' \<and> xs_ProjectID t = xs_ProjectID s
      \<and> xs_TaskID t = xs_TaskID s \<and> xs_ExecutionRevision t = xs_ExecutionRevision s + 1"
    and "previous = None \<Longrightarrow> xs_ExecutionRevision t = 1"
    and "xs_Status t = ''dispatched''" "xs_Stage t = ''code''" "xs_Head t = xs_BaseHead t"
  shows "moves S (persist_dispatch dv w i pr previous t)"
proof -
  have initial: "initial_row (row_of_state t)" if "previous = None"
    using that assms by (simp add: initial_row_def row_of_state_def)
  have store: "moves S (case previous of None \<Rightarrow> CreateTaskExecutionState dv t
      | Some s \<Rightarrow> UpdateTaskExecutionState dv t (xs_ExecutionRevision s))"
    by (intro move_option move_create move_forget [OF move_update] initial) (use assms redispatch_moves in auto)
  show ?thesis unfolding persist_dispatch_def
    by (intro move_bind_moves [OF move_try [OF store]] move_sum steps)
qed

lemma moves_dispatch_lane:
  assumes "\<And>s. previous = Some s \<Longrightarrow> s \<in> S \<and> xs_Status s = ''abandoned'' \<and> xs_ProjectID s = di_ProjectID i \<and> xs_TaskID s = di_Key i"
  shows "moves S (dispatch_lane dv w i task previous)"
  unfolding dispatch_lane_def by (intro steps) (use assms in \<open>auto intro!: moves_persist_dispatch split: option.splits\<close>)

lemma move_start:
  "(x = Fresh \<Longrightarrow> move S a T F) \<Longrightarrow> (\<And>s. x = Again s \<Longrightarrow> move S (b s) T F) \<Longrightarrow> (\<And>s. x = Already s \<Longrightarrow> move S (c s) T F)
    \<Longrightarrow> move S (case x of Fresh \<Rightarrow> a | Again s \<Rightarrow> b s | Already s \<Rightarrow> c s) T F"
  by (cases x) auto

lemma moves_dispatch: "moves S (TaskExecutionDispatch dv w i)"
  unfolding TaskExecutionDispatch_def
  by (intro move_bind [OF move_dispatch_state] move_start moves_dispatch_lane steps) auto

text \<open>Verification: the run of the gates, and the rebase that an advanced default branch forces.\<close>

lemma move_admission:
  "move S (taskExecutionVerificationAdmissionFor dv w p s) (\<lambda>_. {})
     (\<lambda>_. xs_Status s = ''ready_for_verification'' \<or> xs_Status s = ''verifying'' \<or> xs_Status s = ''verified'')"
  unfolding taskExecutionVerificationAdmissionFor_def
  by (intro move_if move_fail move_require
      move_weaken [OF move_read [OF db.keeps_computeTaskExecutionVerificationAdmission]]) auto

lemma moves_reconcile:
  assumes "s \<in> S" "xs_Status s = ''ready_for_verification'' \<or> xs_Status s = ''verifying'' \<or> xs_Status s = ''verified''"
  shows "moves S (reconcileTaskExecutionBase dv w s pr c)"
proof -
  note store = move_wrap [OF move_forget [OF move_transition]]
  show ?thesis unfolding reconcileTaskExecutionBase_def
    by (intro move_bind_moves [OF store] store move_bind_read reading move_require move_let move_sum move_fail)
      (use assms rebase_moves in auto)
qed

lemma moves_rebase:
  assumes "s \<in> S" "xs_Status s = ''ready_for_verification'' \<or> xs_Status s = ''verifying'' \<or> xs_Status s = ''verified''"
  shows "move S (rebase_required dv w s pr c m) T F"
  unfolding rebase_required_def by (intro move_bind_moves [OF moves_reconcile [OF assms]] move_fail)

lemma moves_finish_verification:
  "moves S (finish_verification dv w s a started gates)"
proof -
  have claim: "move S' (if xs_Status s' = ''ready_for_verification'' then
        io_bind (io_now dv w) (\<lambda>now. let t = next_state s' ''verifying'' now in
          io_bind (UpdateTaskExecutionState dv t (xs_ExecutionRevision s')) (\<lambda>_. io_return t))
      else io_return s') (\<lambda>_. {}) (\<lambda>_. True)" if "s' \<in> S'" for s' S'
    by (intro steps) (use that silent_moves(1) in auto)
  have finish: "moves S' (FinishTaskExecutionVerification dv t n (success_receipt t' a op gates started c))" for S' t n t' op c
    by (rule move_finish) (simp add: success_receipt_def)
  show ?thesis
    unfolding finish_verification_def
    by (intro move_bind [OF move_read_state] move_bind_fact [OF move_admission] move_bind_moves [OF claim]
        move_bind_moves [OF move_wrap [OF finish]] moves_rebase steps) auto
qed

lemma moves_verified_already:
  assumes "s \<in> S" "xs_Status s = ''verified''"
  shows "moves S (verified_already dv w s a)"
  unfolding verified_already_def by (intro moves_rebase steps) (use assms in auto)

lemma moves_test_run: "moves S (taskExecutionTestRun dv w p k captured)"
  unfolding taskExecutionTestRun_def
  by (intro move_bind_fact [OF move_admission] moves_rebase moves_verified_already moves_finish_verification steps) auto

text \<open>Integration: claiming, preparing, publishing, landing.\<close>

lemma move_claim_integration:
  assumes "s \<in> S" "xs_Status s = ''verified'' \<or> xs_Status s = ''integrating''"
  shows "move S (claim_integration dv w s c) (\<lambda>x. {fst x})
    (\<lambda>x. xs_Status (fst x) = ''verified'' \<or> xs_Status (fst x) = ''integrating'')"
  unfolding claim_integration_def
  by (intro move_if move_bind_read reading move_let move_bind [OF move_update] move_return)
    (use assms silent_moves(2) in auto)

lemma move_admit_integration:
  assumes "s \<in> S" "xs_Status s = ''verified'' \<or> xs_Status s = ''integrating''"
  shows "move S (admit_integration dv w i pr s c) (\<lambda>x. {fst x})
    (\<lambda>x. xs_Status (fst x) = ''verified'' \<or> xs_Status (fst x) = ''integrating'')"
proof -
  note rejecting = move_bind_moves [OF move_or_reject [OF assms(1)]]
  show ?thesis
    unfolding admit_integration_def
    by (intro rejecting move_bind [OF move_claim_integration] move_bind_moves [OF move_save_capture] move_pair move_if
        move_option move_reject move_return leaves assms) (use assms in auto)
qed

lemma moves_land:
  assumes "s \<in> S" "xs_Status s = ''verified'' \<or> xs_Status s = ''integrating''"
  shows "moves S (land_integration dv w i pr s c h)"
  unfolding land_integration_def
  by (intro move_bind_moves [OF move_wrap [OF move_forget [OF move_transition]]] steps) (use assms integrate_moves in auto)

lemma moves_publish:
  assumes "s \<in> S"
  shows "moves S (publish_integration dv w pr s c)"
  unfolding publish_integration_def
  by (intro move_reject assms move_push_error steps) auto

lemma move_prepare: "moves S (prepare_integration dv w i pr c)"
  unfolding prepare_integration_def
  by (intro move_bind_moves [OF move_wrap [OF move_save_capture]] steps) auto

lemma moves_operation_capture:
  assumes "s \<in> S"
  shows "moves S (operation_capture dv w s)"
  unfolding operation_capture_def
  by (intro move_bind_moves [OF move_or_reject [OF assms]] steps) auto

lemma moves_integrate_verified:
  assumes "s \<in> S" "xs_Status s = ''verified'' \<or> xs_Status s = ''integrating''"
  shows "moves S (integrate_verified dv w i pr s)"
  unfolding integrate_verified_def
  by (intro move_bind_moves [OF moves_operation_capture] move_bind [OF move_admit_integration] move_bind_moves [OF move_prepare]
      move_bind_moves [OF moves_publish] moves_land steps) (use assms in auto)

lemma moves_integrate:
  assumes "\<And>i pr s. keeps machine (historical i pr s)"
  shows "moves S (TaskExecutionIntegrate dv w historical i)"
  unfolding TaskExecutionIntegrate_def
  by (intro move_bind [OF move_integration_read] moves_integrate_verified move_read [OF assms] steps) auto

section \<open>Completing and archiving\<close>

text \<open>The last move, done.\<close>

lemma completion_step:
  assumes "xs_Status previous = ''integrated''"
    and "final = previous\<lparr>xs_Status := ''done'', xs_ExecutionRevision := xs_ExecutionRevision previous + 1, xs_UpdatedAt := u\<rparr>"
  shows "statement_keeps machine (alter_execution p t (previous_row previous) (final_row final))"
  unfolding statement_keeps_def
proof (intro allI impI)
  fix db db' n
  assume run: "alter_execution p t (previous_row previous) (final_row final) db = Some (db', n)"
  show "machine db db'"
  proof (cases "wf_local db")
    case True
    then consider "sd_local db' = sd_local db" | "n = 1" using alter_execution_cases [OF run] by blast
    then show ?thesis
    proof cases
      case 2
      obtain r where r: "r \<in> set (lo_states (sd_local db))" "previous_row previous r"
        "db' = db\<lparr>sd_local := (sd_local db)\<lparr>lo_states :=
           map (\<lambda>x. if x = r then final_row final r else x) (lo_states (sd_local db))\<rparr>\<rparr>"
        by (rule alter_execution_one [OF run [unfolded 2] True])
      have "final_row final r = next_row r ''done'' (rfc3339_nano (to_utc u))"
        using r(2) assms by (simp add: previous_row_def final_row_def next_row_def row_of_state_def)
      then have step: "execution_move r None None (final_row final r)"
        using r(2) assms(1) execution_move.complete [of r] by (simp add: previous_row_def row_of_state_def)
      show ?thesis
        by (rule machine_step, rule local_step.moved [OF r(1) step])
          (simp_all add: r(3) logged_phases_def logged_receipts_def)
    qed (rule machine_elsewhere)
  qed (simp add: machine_def)
qed


end

end
