(* ===== verification/Execution_Typed.thy ===== *)
theory Execution_Typed
  imports Execution_Reads
begin

text \<open>
  The type of the Local tables: every stored row is the image of a state, phase or receipt that its
  validator accepts. The operations of the service keep it, whatever the world answers.
\<close>

section \<open>Well-typed tables\<close>

definition typed_state :: "execution_row \<Rightarrow> bool" where
  "typed_state r \<longleftrightarrow> (\<exists>s. ValidateTaskExecutionState s = None \<and> r = row_of_state s)"

definition typed_phase :: "phase_row \<Rightarrow> bool" where
  "typed_phase p \<longleftrightarrow> (\<exists>q. validateTaskExecutionPhase q = None \<and> p = (row_of_phase q)\<lparr>pr_id := pr_id p\<rparr>)"

definition typed_receipt :: "verification_row \<Rightarrow> bool" where
  "typed_receipt v \<longleftrightarrow> (\<exists>x. ValidateTaskExecutionVerification x = None
     \<and> json_TaskExecutionVerification x = Inr (vr_receipt_json v)
     \<and> v = (row_of_receipt x (vr_receipt_json v))\<lparr>vr_id := vr_id v\<rparr>)"

definition typed :: "shared_db \<Rightarrow> bool" where
  "typed db \<longleftrightarrow> (\<forall>r \<in> set (lo_states (sd_local db)). typed_state r)
     \<and> (\<forall>p \<in> set (lo_phases (sd_local db)). typed_phase p)
     \<and> (\<forall>v \<in> set (lo_verifications (sd_local db)). typed_receipt v)"

definition typed_step :: "shared_db \<Rightarrow> shared_db \<Rightarrow> bool" where
  "typed_step db db' \<longleftrightarrow> (typed db \<longrightarrow> typed db')"

section \<open>Statements\<close>

lemma typed_elsewhere:
  assumes "\<And>db db' n. st db = Some (db', n) \<Longrightarrow> sd_local db' = sd_local db"
  shows "statement_keeps typed_step st"
  using assms unfolding statement_keeps_def typed_step_def typed_def by metis

lemma typed_event_statements:
  "statement_keeps typed_step (insert_event e)" "statement_keeps typed_step (insert_history h)"
  "statement_keeps typed_step (insert_outbox o')" "statement_keeps typed_step (update_state t row c)"
  by (rule typed_elsewhere,
      auto simp: insert_event_def insert_history_def insert_outbox_def update_state_def Let_def split: if_splits)+

lemma typed_alter:
  assumes "\<And>r. typed_state r \<Longrightarrow> c r \<Longrightarrow> typed_state (f r)"
  shows "statement_keeps typed_step (alter_execution p t c f)"
  using assms by (auto simp: statement_keeps_def typed_step_def typed_def alter_execution_def Let_def split: if_splits)

lemma typed_row: "ValidateTaskExecutionState s = None \<Longrightarrow> typed_state (row_of_state s)"
  by (auto simp: typed_state_def)

lemma typed_update: "ValidateTaskExecutionState s = None \<Longrightarrow> statement_keeps typed_step (update_execution (row_of_state s) c)"
  unfolding update_execution_def by (intro typed_alter typed_row)

lemma typed_insert: "ValidateTaskExecutionState s = None \<Longrightarrow> statement_keeps typed_step (insert_execution (row_of_state s))"
  by (auto simp: statement_keeps_def typed_step_def typed_def insert_execution_def Let_def typed_row split: if_splits)

lemma typed_log:
  assumes "validateTaskExecutionPhase q = None"
  shows "statement_keeps typed_step (insert_phase (row_of_phase q))"
proof -
  have "typed_phase ((row_of_phase q)\<lparr>pr_id := i\<rparr>)" for i
    unfolding typed_phase_def by (rule exI [of _ q]) (simp add: assms)
  then show ?thesis
    by (auto simp: statement_keeps_def typed_step_def typed_def insert_phase_def Let_def split: if_splits)
qed

lemma typed_receipt_row:
  assumes "ValidateTaskExecutionVerification x = None" "json_TaskExecutionVerification x = Inr j"
  shows "statement_keeps typed_step (insert_verification (row_of_receipt x j))"
proof -
  have "typed_receipt ((row_of_receipt x j)\<lparr>vr_id := i\<rparr>)" for i
    unfolding typed_receipt_def by (rule exI [of _ x]) (simp add: assms row_of_receipt_def)
  then show ?thesis
    by (auto simp: statement_keeps_def typed_step_def typed_def insert_verification_def Let_def split: if_splits)
qed

lemma typed_captured: "statement_keeps typed_step (store_captured i raw)"
  by (auto simp: statement_keeps_def typed_step_def typed_def store_captured_def)

lemma typed_complete:
  assumes "ValidateTaskExecutionState final = None"
    and "final = previous\<lparr>xs_Status := st, xs_ExecutionRevision := n, xs_UpdatedAt := u\<rparr>"
  shows "statement_keeps typed_step (alter_execution p t (previous_row previous) (final_row final))"
proof (rule typed_alter)
  fix r assume "previous_row previous r"
  then have "final_row final r = row_of_state final"
    by (simp add: previous_row_def final_row_def row_of_state_def assms(2))
  then show "typed_state (final_row final r)" using typed_row [OF assms(1)] by simp
qed

section \<open>Operations\<close>

locale typed_world =
  fixes dv :: driver
  assumes driver_atomic: "atomic_driver dv"
    and others_typed: "typed_step db (dv_others dv k db)"
begin

sublocale db: store_relation dv typed_step
  by unfold_locales (use driver_atomic others_typed in \<open>auto simp: typed_step_def\<close>)

lemma keeps_given: "(\<And>x. r = Inr x \<Longrightarrow> keeps typed_step (f x)) \<Longrightarrow> keeps typed_step (io_bind (io_value r) f)"
  by (cases r) (auto simp: io_value_def io_bind_def io_error_def io_fail_def io_return_def keeps_def typed_step_def)

lemma keeps_Create [reading]: "keeps typed_step (CreateTaskExecutionState dv s)"
  unfolding CreateTaskExecutionState_def
  by (intro db.keeps_local_store db.keeps_checked db.keeps_batch) (simp add: typed_insert)

lemma keeps_Update [reading]: "keeps typed_step (UpdateTaskExecutionState dv s n)"
  unfolding UpdateTaskExecutionState_def update_to_def
  by (intro db.keeps_local_store db.keeps_checked db.keeps_batch) (simp add: typed_update)

lemma keeps_Transition [reading]: "keeps typed_step (TransitionTaskExecutionState dv s n p)"
  unfolding TransitionTaskExecutionState_def update_to_def
  by (intro db.keeps_local_store db.keeps_checked db.keeps_batch) (simp add: typed_update typed_log)

lemma keeps_Finish [reading]: "keeps typed_step (FinishTaskExecutionVerification dv s n v)"
proof -
  have "batch_keeps typed_step (finish_statements s n v raw)"
    if "finish_checks s n v = None" "json_TaskExecutionVerification v = Inr raw" for raw
    using that by (simp add: finish_statements_def finish_checks_def validator typed_update typed_receipt_row)
  then show ?thesis
    unfolding FinishTaskExecutionVerification_def
    by (intro db.keeps_local_store db.keeps_checked keeps_given reading db.keeps_batch)
qed

lemma keeps_capture [reading]: "keeps typed_step (saveTaskExecutionIntegrationCapture dv w c)"
  unfolding saveTaskExecutionIntegrationCapture_def by (intro reading db.keeps_exec typed_captured)

lemma keeps_reject [reading]: "keeps typed_step (rejectTaskExecutionIntegration dv w s e)"
  unfolding rejectTaskExecutionIntegration_def by (intro reading)

lemma keeps_or_reject [reading]: "keeps typed_step m \<Longrightarrow> keeps typed_step (or_reject dv w s m)"
  unfolding or_reject_def by (intro reading)

lemma keeps_parts [reading]:
  "keeps typed_step (persist_dispatch dv w i pr prev s)" "keeps typed_step (dispatch_state dv i)"
  "keeps typed_step (beginTaskExecutionReset dv w s e)" "keeps typed_step (reconcileTaskExecutionBase dv w s pr c)"
  "keeps typed_step (claim_integration dv w s c')" "keeps typed_step (operation_capture dv w s)"
  "keeps typed_step (prepare_integration dv w ii pr c')" "keeps typed_step (publish_integration dv w pr s c')"
  "keeps typed_step (land_integration dv w ii pr s c' h)"
  unfolding persist_dispatch_def dispatch_state_def beginTaskExecutionReset_def reconcileTaskExecutionBase_def
    claim_integration_def operation_capture_def prepare_integration_def publish_integration_def land_integration_def
  by (intro reading)+

lemma keeps_wholes [reading]:
  "keeps typed_step (dispatch_lane dv w i task prev)" "keeps typed_step (started_reset dv w p k m)"
  "keeps typed_step (finish_reset dv w p k s e)" "keeps typed_step (rebase_required dv w s pr c m)"
  "keeps typed_step (admit_integration dv w ii pr s c')"
  unfolding dispatch_lane_def started_reset_def finish_reset_def rebase_required_def admit_integration_def
  by (intro reading)+

lemma keeps_start [reading]: "keeps typed_step a \<Longrightarrow> (\<And>s. keeps typed_step (b s)) \<Longrightarrow> (\<And>s. keeps typed_step (c s))
    \<Longrightarrow> keeps typed_step (case x of Fresh \<Rightarrow> a | Again s \<Rightarrow> b s | Already s \<Rightarrow> c s)"
  by (cases x) auto

lemma keeps_services [reading]:
  "keeps typed_step (TaskExecutionDispatch dv w i)" "keeps typed_step (submitTaskExecution dv w p k st)"
  "keeps typed_step (TaskExecutionReviewDecide dv w rd)" "keeps typed_step (TaskExecutionRework dv w ri)"
  "keeps typed_step (TaskExecutionBlock dv w p k m)" "keeps typed_step (TaskExecutionResume dv w p k m)"
  "keeps typed_step (TaskExecutionRefresh dv w p k m)" "keeps typed_step (TaskExecutionReset dv w p k m)"
  unfolding TaskExecutionDispatch_def submitTaskExecution_def TaskExecutionReviewDecide_def TaskExecutionRework_def
    TaskExecutionBlock_def TaskExecutionResume_def TaskExecutionRefresh_def TaskExecutionReset_def
  by (intro reading)+

lemma keeps_verifying [reading]:
  "keeps typed_step (finish_verification dv w s a u gates)" "keeps typed_step (verified_already dv w s a)"
  unfolding finish_verification_def verified_already_def by (intro reading)+

lemma keeps_test_run [reading]: "keeps typed_step (taskExecutionTestRun dv w p k j)"
  unfolding taskExecutionTestRun_def by (intro reading)

lemma keeps_integrate:
  assumes "\<And>i pr s. keeps typed_step (historical i pr s)"
  shows "keeps typed_step (TaskExecutionIntegrate dv w historical i)"
  unfolding TaskExecutionIntegrate_def integrate_verified_def by (intro reading assms)


end

end
