(* ===== verification/Execution_Invariants.thy ===== *)
theory Execution_Invariants
  imports Execution_Machine "HOL-Library.Sublist"
begin

text \<open>
  What every run of the machine keeps: tasks past their verification have a stored receipt of
  exactly their coordinates, the phases of a task are told apart by their revision, and nothing
  recorded is ever rewritten.
\<close>

section \<open>Verified tasks have their proof\<close>

definition past_verification :: "string \<Rightarrow> bool" where
  "past_verification status \<longleftrightarrow>
     status = ''verified'' \<or> status = ''integrating'' \<or> status = ''integrated'' \<or> status = ''done''"

definition proved_row :: "shared_db \<Rightarrow> execution_row \<Rightarrow> bool" where
  "proved_row db r \<longleftrightarrow> (\<exists>v \<in> set (lo_verifications (sd_local db)). \<exists>x.
     receipt_for r v x \<and> vr_attempt_revision v < xr_execution_revision r)"

definition proved :: "shared_db \<Rightarrow> bool" where
  "proved db \<longleftrightarrow> (\<forall>r \<in> set (lo_states (sd_local db)). past_verification (xr_status r) \<longrightarrow> proved_row db r)"

lemma past_verification_simps [simp]:
  "past_verification ''verified''" "past_verification ''integrating''" "past_verification ''integrated''"
  "past_verification ''done''" "\<not> past_verification ''dispatched''" "\<not> past_verification ''awaiting_review''"
  "\<not> past_verification ''ready_for_verification''" "\<not> past_verification ''changes_requested''"
  "\<not> past_verification ''blocked''" "\<not> past_verification ''resetting''" "\<not> past_verification ''abandoned''"
  "\<not> past_verification ''verifying''" "\<not> past_verification ''in_progress''"
  by (simp_all add: past_verification_def)

text \<open>A step to another status keeps the coordinates that a receipt names.\<close>

lemma receipt_for_next [simp]: "receipt_for (next_row r status u) v x \<longleftrightarrow> receipt_for r v x"
  by (simp add: receipt_for_def next_row_def)

lemma receipt_for_id [simp]: "receipt_for r (v\<lparr>vr_id := i\<rparr>) x \<longleftrightarrow> receipt_for r v x"
  by (simp add: receipt_for_def)

lemma next_row_simps [simp]:
  "xr_status (next_row r status u) = status" "xr_execution_revision (next_row r status u) = xr_execution_revision r + 1"
  by (simp_all add: next_row_def)

lemma actionable_not_past: "IsTaskExecutionAgentActionable status stage \<Longrightarrow> \<not> past_verification status"
  by (auto simp: IsTaskExecutionAgentActionable_def past_verification_def split: if_splits)

lemma move_receipt:
  assumes "execution_move r p v r'" and "past_verification (xr_status r')"
  shows "(past_verification (xr_status r) \<and> (\<forall>w x. receipt_for r' w x \<longleftrightarrow> receipt_for r w x))
    \<or> (\<exists>w x. v = Some w \<and> receipt_for r' w x \<and> vr_attempt_revision w < xr_execution_revision r')"
  using assms
  by (induction rule: execution_move.induct)
    (auto simp: moved_lane_def dest: actionable_not_past split: if_splits)

lemma proved_row_mono:
  "proved_row db r \<Longrightarrow> set (lo_verifications (sd_local db)) \<subseteq> set (lo_verifications (sd_local db'))
    \<Longrightarrow> (\<And>w x. receipt_for r' w x \<longleftrightarrow> receipt_for r w x) \<Longrightarrow> xr_execution_revision r \<le> xr_execution_revision r'
    \<Longrightarrow> proved_row db' r'"
  unfolding proved_row_def by (meson order_less_le_trans subset_iff)

lemma logged_receipts_subset:
  "logged_receipts db db' v \<Longrightarrow> set (lo_verifications (sd_local db)) \<subseteq> set (lo_verifications (sd_local db'))"
  by (auto simp: logged_receipts_def split: option.splits)

lemma proved_step:
  assumes "local_step db db'" and "proved db"
  shows "proved db'"
  using assms(1)
proof cases
  case (moved r p v r')
  note more = logged_receipts_subset [OF moved(5)]
  show ?thesis unfolding proved_def
  proof (intro ballI impI)
    fix y
    assume y: "y \<in> set (lo_states (sd_local db'))" "past_verification (xr_status y)"
    then obtain x where x: "x \<in> set (lo_states (sd_local db))" "y = (if x = r then r' else x)"
      by (auto simp: moved(3))
    show "proved_row db' y"
    proof (cases "x = r")
      case True
      then have "y = r'" using x by simp
      then consider "past_verification (xr_status r)" "\<forall>w x. receipt_for y w x \<longleftrightarrow> receipt_for r w x"
        | w x where "v = Some w" "receipt_for y w x" "vr_attempt_revision w < xr_execution_revision y"
        using move_receipt [OF moved(2)] y(2) by blast
      then show ?thesis
      proof cases
        case 1
        then have "proved_row db r" using assms(2) moved(1) by (simp add: proved_def)
        then show ?thesis
          by (rule proved_row_mono [OF _ more]) (use 1 move_key [OF moved(2)] \<open>y = r'\<close> in auto)
      next
        case 2
        then obtain i where "lo_verifications (sd_local db') = lo_verifications (sd_local db) @ [w\<lparr>vr_id := i\<rparr>]"
          using moved(5) by (auto simp: logged_receipts_def)
        then show ?thesis using 2 unfolding proved_row_def by (auto intro!: bexI [of _ "w\<lparr>vr_id := i\<rparr>"])
      qed
    next
      case False
      then have "proved_row db x" using assms(2) x y by (simp add: proved_def)
      then show ?thesis by (rule proved_row_mono [OF _ more]) (use x False in auto)
    qed
  qed
next
  case (dispatched r)
  then show ?thesis using assms(2) logged_receipts_subset [of db db' None]
    by (auto simp: proved_def initial_row_def intro: proved_row_mono [of db])
next
  case elsewhere
  then show ?thesis using assms(2) logged_receipts_subset [of db db' None]
    by (auto simp: proved_def intro: proved_row_mono [of db])
qed

section \<open>Accepted candidates have their review\<close>

definition past_review :: "string \<Rightarrow> bool" where
  "past_review status \<longleftrightarrow> status = ''ready_for_verification'' \<or> status = ''verifying'' \<or> past_verification status"

text \<open>An accepted review of exactly the head that the row carries.\<close>

definition accepts :: "execution_row \<Rightarrow> phase_row \<Rightarrow> bool" where
  "accepts r p \<longleftrightarrow> pr_project_id p = xr_project_id r \<and> pr_task_id p = xr_task_id r
     \<and> pr_event_kind p = ''review'' \<and> pr_decision p = Some ''accept'' \<and> pr_head_sha p = xr_head_sha r
     \<and> pr_branch p = xr_branch r \<and> pr_task_revision_sha256 p = xr_task_revision_sha256 r
     \<and> pr_execution_revision p \<le> xr_execution_revision r"

definition reviewed :: "shared_db \<Rightarrow> bool" where
  "reviewed db \<longleftrightarrow> (\<forall>r \<in> set (lo_states (sd_local db)). past_review (xr_status r) \<longrightarrow>
     (\<exists>p \<in> set (lo_phases (sd_local db)). accepts r p))"

lemma past_review_simps [simp]:
  "past_review ''ready_for_verification''" "past_review ''verifying''" "past_verification status \<Longrightarrow> past_review status"
  "\<not> past_review ''dispatched''" "\<not> past_review ''awaiting_review''" "\<not> past_review ''changes_requested''"
  "\<not> past_review ''blocked''" "\<not> past_review ''resetting''" "\<not> past_review ''abandoned''" "\<not> past_review ''in_progress''"
  by (simp_all add: past_review_def)

lemma accepts_next: "accepts r p \<Longrightarrow> accepts (next_row r status u) p"
  by (simp add: accepts_def next_row_def)

lemma accepts_id [simp]: "accepts r (p\<lparr>pr_id := i\<rparr>) \<longleftrightarrow> accepts r p"
  by (simp add: accepts_def)

lemma actionable_not_reviewed: "IsTaskExecutionAgentActionable status stage \<Longrightarrow> \<not> past_review status"
  by (auto simp: IsTaskExecutionAgentActionable_def)

lemma move_accepts:
  assumes "execution_move r p v r'" and "past_review (xr_status r')"
  shows "(past_review (xr_status r) \<and> (\<forall>q. accepts r q \<longrightarrow> accepts r' q)) \<or> (\<exists>q. p = Some q \<and> accepts r' q)"
  using assms
  by (induction rule: execution_move.induct)
    (auto simp: moved_lane_def phase_for_def accepts_def next_row_def dest: actionable_not_reviewed split: if_splits)

lemma logged_phases_subset:
  "logged_phases db db' p \<Longrightarrow> set (lo_phases (sd_local db)) \<subseteq> set (lo_phases (sd_local db'))"
  by (auto simp: logged_phases_def split: option.splits)

lemma reviewed_step:
  assumes "local_step db db'" and "reviewed db"
  shows "reviewed db'"
  using assms(1)
proof cases
  case (moved r p v r')
  note more = logged_phases_subset [OF moved(4)]
  show ?thesis unfolding reviewed_def
  proof (intro ballI impI)
    fix y
    assume y: "y \<in> set (lo_states (sd_local db'))" "past_review (xr_status y)"
    then obtain x where x: "x \<in> set (lo_states (sd_local db))" "y = (if x = r then r' else x)"
      by (auto simp: moved(3))
    show "\<exists>q \<in> set (lo_phases (sd_local db')). accepts y q"
    proof (cases "x = r")
      case True
      then have "y = r'" using x by simp
      then consider "past_review (xr_status r)" "\<forall>q. accepts r q \<longrightarrow> accepts y q" | q where "p = Some q" "accepts y q"
        using move_accepts [OF moved(2)] y(2) by blast
      then show ?thesis
      proof cases
        case 1
        then obtain q where "q \<in> set (lo_phases (sd_local db))" "accepts r q"
          using assms(2) moved(1) unfolding reviewed_def by blast
        then show ?thesis using 1(2) more by blast
      next
        case 2
        then obtain i where "lo_phases (sd_local db') = lo_phases (sd_local db) @ [q\<lparr>pr_id := i\<rparr>]"
          using moved(4) by (auto simp: logged_phases_def)
        then show ?thesis using 2 by (auto intro!: bexI [of _ "q\<lparr>pr_id := i\<rparr>"])
      qed
    next
      case False
      then obtain q where "q \<in> set (lo_phases (sd_local db))" "accepts x q"
        using assms(2) x y(2) unfolding reviewed_def by auto
      then show ?thesis using False x(2) more by auto
    qed
  qed
next
  case (dispatched r)
  then have "lo_phases (sd_local db') = lo_phases (sd_local db)" by (simp add: logged_phases_def)
  then show ?thesis using dispatched(1,2) assms(2) by (auto simp: reviewed_def initial_row_def)
next
  case elsewhere
  then have "lo_phases (sd_local db') = lo_phases (sd_local db)" by (simp add: logged_phases_def)
  then show ?thesis using elsewhere(1) assms(2) by (simp add: reviewed_def)
qed

section \<open>Phases\<close>

definition phase_key :: "phase_row \<Rightarrow> string \<times> string \<times> int" where
  "phase_key p = (pr_project_id p, pr_task_id p, pr_execution_revision p)"

definition phases_unique :: "shared_db \<Rightarrow> bool" where
  "phases_unique db \<longleftrightarrow> distinct (map phase_key (lo_phases (sd_local db)))"

lemma phase_key_id [simp]: "phase_key (p\<lparr>pr_id := i\<rparr>) = phase_key p"
  by (simp add: phase_key_def)

lemma logged_phases_unique: "logged_phases db db' p \<Longrightarrow> phases_unique db \<Longrightarrow> phases_unique db'"
  by (auto simp: logged_phases_def phases_unique_def split: option.splits) (auto simp: phase_key_def)

lemma phases_unique_step: "local_step db db' \<Longrightarrow> phases_unique db \<Longrightarrow> phases_unique db'"
  by (auto elim!: local_step.cases intro: logged_phases_unique)

section \<open>Nothing recorded is rewritten\<close>

definition final_status :: "string \<Rightarrow> bool" where
  "final_status status \<longleftrightarrow> status = ''done'' \<or> status = ''failed''"

text \<open>
  What a later database keeps of an earlier one: the phases and receipts, and each task at a revision
  that is no lower, with the same row at the same revision, and for good when the task is final.
\<close>

definition row_later :: "execution_row \<Rightarrow> execution_row \<Rightarrow> bool" where
  "row_later r r' \<longleftrightarrow> xr_project_id r' = xr_project_id r \<and> xr_task_id r' = xr_task_id r
     \<and> (r' = r \<or> (xr_execution_revision r < xr_execution_revision r' \<and> \<not> final_status (xr_status r)))"

definition later :: "shared_db \<Rightarrow> shared_db \<Rightarrow> bool" where
  "later db db' \<longleftrightarrow> prefix (lo_phases (sd_local db)) (lo_phases (sd_local db'))
     \<and> prefix (lo_verifications (sd_local db)) (lo_verifications (sd_local db'))
     \<and> (\<forall>r \<in> set (lo_states (sd_local db)). \<exists>r' \<in> set (lo_states (sd_local db')). row_later r r')"

lemma row_later_refl: "row_later r r"
  by (simp add: row_later_def)

lemma row_later_trans: "row_later a b \<Longrightarrow> row_later b c \<Longrightarrow> row_later a c"
  by (auto simp: row_later_def)

lemma later_refl: "later db db"
  by (auto simp: later_def intro: row_later_refl)

lemma later_trans: "later a b \<Longrightarrow> later b c \<Longrightarrow> later a c"
  unfolding later_def by (meson prefix_order.trans row_later_trans)

lemma actionable_not_final: "IsTaskExecutionAgentActionable status stage \<Longrightarrow> \<not> final_status status"
  by (auto simp: IsTaskExecutionAgentActionable_def final_status_def split: if_splits)

lemma move_not_final: "execution_move r p v r' \<Longrightarrow> \<not> final_status (xr_status r)"
  by (induction rule: execution_move.induct)
    (auto simp: final_status_def IsTaskExecutionReworkable_def taskExecutionResettableStatus_def
      dest: actionable_not_final)

lemma move_later: "execution_move r p v r' \<Longrightarrow> row_later r r'"
  using move_key [of r p v r'] move_not_final [of r p v r'] by (simp add: row_later_def)

lemma logs_prefix:
  "logged_phases db db' p \<Longrightarrow> prefix (lo_phases (sd_local db)) (lo_phases (sd_local db'))"
  "logged_receipts db db' v \<Longrightarrow> prefix (lo_verifications (sd_local db)) (lo_verifications (sd_local db'))"
  by (auto simp: logged_phases_def logged_receipts_def prefix_def split: option.splits)

lemma later_step:
  assumes "local_step db db'"
  shows "later db db'"
  using assms
proof cases
  case (moved r p v r')
  then show ?thesis using move_later [OF moved(2)]
    by (auto simp: later_def intro: logs_prefix row_later_refl)
qed (auto simp: later_def intro: logs_prefix row_later_refl)

section \<open>Runs\<close>

lemma run_keeps_proof: "local_step\<^sup>*\<^sup>* db db' \<Longrightarrow> proved db \<Longrightarrow> proved db'"
  by (induction rule: rtranclp_induct) (auto intro: proved_step)

lemma run_keeps_review: "local_step\<^sup>*\<^sup>* db db' \<Longrightarrow> reviewed db \<Longrightarrow> reviewed db'"
  by (induction rule: rtranclp_induct) (auto intro: reviewed_step)

lemma run_keeps_phases: "local_step\<^sup>*\<^sup>* db db' \<Longrightarrow> phases_unique db \<Longrightarrow> phases_unique db'"
  by (induction rule: rtranclp_induct) (auto intro: phases_unique_step)

lemma run_later: "local_step\<^sup>*\<^sup>* db db' \<Longrightarrow> later db db'"
  by (induction rule: rtranclp_induct) (auto intro: later_refl later_trans later_step)

end
