(* ===== verification/Relation_Store.thy ===== *)
theory Relation_Store
  imports Shared_Store Planning
begin

text \<open>
  The rows of relations (\<open>sqlitestore/shared_relations.go\<close> and the tables and the trigger of
  \<open>databases_relation_migration.go\<close>, \<open>databases_relation_outbox_migration.go\<close>). Relations of the PMT family are kept in
  the Local database, all others in the Shared one, where a new row also enters the outbox.
\<close>

section \<open>Inserting\<close>

definition RelationListMaxRows :: int where "RelationListMaxRows = 256"

text \<open>\<open>json_object\<close> of SQLite quotes only what JSON demands.\<close>

definition sqlite_json_char :: "char \<Rightarrow> string" where
  "sqlite_json_char c =
     (if c = CHR 0x22 \<or> c = CHR 0x5C then [CHR 0x5C, c]
      else if c = CHR 0x08 then [CHR 0x5C, CHR ''b'']
      else if c = CHR 0x0C then [CHR 0x5C, CHR ''f'']
      else if c = CHR 0x0A then [CHR 0x5C, CHR ''n'']
      else if c = CHR 0x0D then [CHR 0x5C, CHR ''r'']
      else if c = CHR 0x09 then [CHR 0x5C, CHR ''t'']
      else if byte c < 0x20 then CHR 0x5C # ''u00'' @ hex2 (byte c)
      else [c])"

definition sqlite_json_string :: "string \<Rightarrow> string" where
  "sqlite_json_string s = CHR 0x22 # concat (map sqlite_json_char s) @ [CHR 0x22]"

definition relation_key :: "relation_row \<Rightarrow> string \<times> string \<times> string \<times> string" where
  "relation_key r = (re_project_id r, re_kind r, re_source_id r, re_target_id r)"

definition relation_row_identity :: "relation_row \<Rightarrow> string" where
  "relation_row_identity r = re_project_id r @ ''|'' @ re_kind r @ ''|'' @ re_source_id r @ ''|'' @ re_target_id r"

definition trigger_payload :: "relation_row \<Rightarrow> string" where
  "trigger_payload r = json_object
     (json_field ''schema_version'' ''1''
      @ json_field ''project_id'' (sqlite_json_string (re_project_id r))
      @ json_field ''kind'' (sqlite_json_string (re_kind r))
      @ json_field ''source'' (sqlite_json_string (re_source_id r))
      @ json_field ''target'' (sqlite_json_string (re_target_id r))
      @ json_field ''created_at'' (sqlite_json_string (re_created_at r))
      @ json_field ''created_by'' (sqlite_json_string (re_created_by r)))"

text \<open>The trigger \<open>shared_relations_hub_outbox_after_insert\<close>: \<open>INSERT OR IGNORE INTO hub_outbox\<close>.\<close>

definition relation_trigger :: "relation_row \<Rightarrow> shared_db \<Rightarrow> shared_db" where
  "relation_trigger r db =
     (let ident = ''relation-'' @ relation_row_identity r in
      case outbox_at db ident of
        Some _ \<Rightarrow> db
      | None \<Rightarrow> db\<lparr>sd_outbox := sd_outbox db @
          [outbox_intent ident ''relation'' (relation_row_identity r) 1 ''relation-create'' (trigger_payload r) (re_created_at r)]\<rparr>)"

text \<open>\<open>INSERT ... ON CONFLICT DO NOTHING\<close>.\<close>

definition insert_relation :: "bool \<Rightarrow> relation_row \<Rightarrow> statement" where
  "insert_relation local r db =
     (if list_ex (\<lambda>old. relation_key old = relation_key r) (if local then sd_local_relations db else sd_relations db)
      then Some (db, 0)
      else if local then Some (db\<lparr>sd_local_relations := sd_local_relations db @ [r]\<rparr>, 1)
      else Some (relation_trigger r (db\<lparr>sd_relations := sd_relations db @ [r]\<rparr>), 1))"

definition RelationInsertStatement ::
  "bool \<Rightarrow> string \<Rightarrow> string \<Rightarrow> string \<Rightarrow> string \<Rightarrow> string \<Rightarrow> string \<Rightarrow> statement" where
  "RelationInsertStatement local projectID kind source target createdAt createdBy = insert_relation local
     \<lparr>re_project_id = projectID, re_kind = kind, re_source_id = source, re_target_id = target,
      re_created_at = createdAt, re_created_by = createdBy\<rparr>"

definition relationStore :: "driver \<Rightarrow> bool \<Rightarrow> error" where
  "relationStore dv local =
     (if local then fail_if (\<not> dv_Local dv) ''local store is unavailable''
      else fail_if (\<not> dv_Shared dv) ''shared store is unavailable'')"

text \<open>True when the row is new.\<close>

definition CreateRelation ::
  "driver \<Rightarrow> bool \<Rightarrow> string \<Rightarrow> string \<Rightarrow> string \<Rightarrow> string \<Rightarrow> string \<Rightarrow> gotime \<Rightarrow> bool io" where
  "CreateRelation dv local projectID kind source target createdBy now =
     io_check (relationStore dv local)
       (io_bind (io_exec_rows dv
          (RelationInsertStatement local projectID kind source target (rfc3339_nano (to_utc now)) createdBy))
        (\<lambda>n. io_return (n = 1)))"

text \<open>A relation restored from the hub: written when it is missing, otherwise it must be the stored one.\<close>

definition same_authority :: "Relation \<Rightarrow> relation_row \<Rightarrow> bool" where
  "same_authority v r \<longleftrightarrow>
     (case parse_rfc3339 (re_created_at r) of
        None \<Rightarrow> False
      | Some t \<Rightarrow> gt_ns t = gt_ns (rl_CreatedAt v)) \<and> re_created_by r = rl_CreatedBy v"

definition local_only :: "Relation \<Rightarrow> bool" where
  "local_only v \<longleftrightarrow> (case RelationFamilyOf (rl_Source v) of Inl _ \<Rightarrow> True | Inr family \<Rightarrow> family = ''PMT'')"

definition EnsureSharedRelation :: "driver \<Rightarrow> Relation \<Rightarrow> unit io" where
  "EnsureSharedRelation dv v =
     io_check (first_error
       [fail_if (\<not> dv_Shared dv) ''Shared relation store is unavailable'',
        ValidateRelation v,
        fail_if (local_only v) ''Local-only relation cannot be restored to Shared''])
     (io_bind (io_query dv (\<lambda>db. find (\<lambda>r. relation_key r = (rl_ProjectID v, rl_Kind v, rl_Source v, rl_Target v))
        (sd_relations db))) (\<lambda>found.
        case found of
          Some r \<Rightarrow>
            if same_authority v r then io_return () else io_error ''Shared relation conflicts with Hub authority''
        | None \<Rightarrow> io_bind (CreateRelation dv False (rl_ProjectID v) (rl_Kind v) (rl_Source v) (rl_Target v)
              (rl_CreatedBy v) (rl_CreatedAt v)) (\<lambda>_. io_return ())))"

section \<open>Listing\<close>

record RelationRow =
  rw_Kind :: string
  rw_Direction :: string
  rw_Other :: string
  rw_CreatedAt :: string
  rw_CreatedBy :: string

definition listed_relation :: "bool \<Rightarrow> relation_row \<Rightarrow> RelationRow" where
  "listed_relation outgoing r =
     \<lparr>rw_Kind = re_kind r, rw_Direction = (if outgoing then ''outgoing'' else ''incoming''),
      rw_Other = (if outgoing then re_target_id r else re_source_id r),
      rw_CreatedAt = re_created_at r, rw_CreatedBy = re_created_by r\<rparr>"

text \<open>The rows of one direction behind a position, by kind and other endpoint.\<close>

definition direction_selects :: "string \<Rightarrow> string \<Rightarrow> string list \<Rightarrow> bool \<Rightarrow> relation_row \<Rightarrow> bool" where
  "direction_selects projectID self kinds outgoing r \<longleftrightarrow>
     re_project_id r = projectID \<and> (if outgoing then re_source_id r else re_target_id r) = self
     \<and> (kinds = [] \<or> re_kind r \<in> set kinds)"

definition behind_position :: "bool \<Rightarrow> string \<Rightarrow> string \<Rightarrow> RelationRow \<Rightarrow> bool" where
  "behind_position includeEqual afterKind afterOther v \<longleftrightarrow>
     afterKind = [] \<or> afterKind < rw_Kind v
     \<or> rw_Kind v = afterKind \<and> (if includeEqual then afterOther \<le> rw_Other v else afterOther < rw_Other v)"

definition direction_rows ::
  "bool \<Rightarrow> string \<Rightarrow> string \<Rightarrow> string list \<Rightarrow> bool \<Rightarrow> bool \<Rightarrow> string \<Rightarrow> string \<Rightarrow> int \<Rightarrow> shared_db \<Rightarrow> RelationRow list" where
  "direction_rows local projectID self kinds outgoing includeEqual afterKind afterOther limit db =
     take (nat limit) (sort_key (\<lambda>v. (rw_Kind v, rw_Other v))
       (filter (behind_position includeEqual afterKind afterOther) (map (listed_relation outgoing)
         (filter (direction_selects projectID self kinds outgoing)
           (if local then sd_local_relations db else sd_relations db)))))"

definition relationDirectionPage ::
  "driver \<Rightarrow> bool \<Rightarrow> string \<Rightarrow> string \<Rightarrow> string list \<Rightarrow> bool \<Rightarrow> bool \<Rightarrow> string \<Rightarrow> string \<Rightarrow> int \<Rightarrow> RelationRow list io" where
  "relationDirectionPage dv local projectID self kinds outgoing includeEqual afterKind afterOther limit =
     (if limit < 1 \<or> RelationListMaxRows + 1 < limit then io_error ''invalid relation list limit''
      else io_check (relationStore dv local)
        (io_query dv (direction_rows local projectID self kinds outgoing includeEqual afterKind afterOther limit)))"

definition relationDirectionRank :: "string \<Rightarrow> nat" where
  "relationDirectionRank direction = (if direction = ''outgoing'' then 0 else 1)"

definition relationRowLess :: "RelationRow \<Rightarrow> RelationRow \<Rightarrow> bool" where
  "relationRowLess a b =
     (if rw_Kind a \<noteq> rw_Kind b then rw_Kind a < rw_Kind b
      else if rw_Other a \<noteq> rw_Other b then rw_Other a < rw_Other b
      else relationDirectionRank (rw_Direction a) < relationDirectionRank (rw_Direction b))"

fun mergeRelationRows :: "RelationRow list \<Rightarrow> RelationRow list \<Rightarrow> RelationRow list" where
  "mergeRelationRows [] incoming = incoming"
| "mergeRelationRows outgoing [] = outgoing"
| "mergeRelationRows (a # outgoing) (b # incoming) =
     (if relationRowLess a b then a # mergeRelationRows outgoing (b # incoming)
      else b # mergeRelationRows (a # outgoing) incoming)"

text \<open>One row more than the limit, so that the caller sees whether others follow.\<close>

definition ListRelationPage ::
  "driver \<Rightarrow> bool \<Rightarrow> string \<Rightarrow> string \<Rightarrow> string list \<Rightarrow> string \<Rightarrow> string \<Rightarrow> string \<Rightarrow> string \<Rightarrow> int \<Rightarrow> RelationRow list io" where
  "ListRelationPage dv local projectID self kinds direction afterKind afterOther afterDirection limit =
     (if limit < 1 \<or> RelationListMaxRows < limit then io_error ''invalid relation list limit''
      else if direction \<notin> {''outgoing'', ''incoming'', ''both''}
      then io_error (''invalid relation direction '' @ go_quote direction)
      else
        io_bind (if direction = ''outgoing'' \<or> direction = ''both''
           then relationDirectionPage dv local projectID self kinds True False afterKind afterOther (limit + 1)
           else io_return []) (\<lambda>outgoing.
        io_bind (if direction = ''incoming'' \<or> direction = ''both''
           then relationDirectionPage dv local projectID self kinds False (afterKind \<noteq> [] \<and> afterDirection = ''outgoing'')
             afterKind afterOther (limit + 1)
           else io_return []) (\<lambda>incoming.
          io_return (take (nat (limit + 1)) (mergeRelationRows outgoing incoming)))))"

definition CountRelations :: "driver \<Rightarrow> bool \<Rightarrow> int io" where
  "CountRelations dv local =
     io_check (relationStore dv local)
       (io_query dv (\<lambda>db. int (length (if local then sd_local_relations db else sd_relations db))))"

end
