(* ===== verification/Pagination.thy ===== *)
theory Pagination
  imports Go_Json Sha256 Identifiers
begin

text \<open>
  Continuation cursors (\<open>internal/pagination\<close>). A cursor is an eight-character handle, a digest of
  the kind of the list and the key behind which the next page starts; the process keeps the handles
  it has given out in one registry. The mutex of the package makes each access atomic, so the
  registry is passed as a state.
\<close>

section \<open>The registry\<close>

record cursor_registry =
  ch_values :: "string \<Rightarrow> string \<rightharpoonup> string"
  ch_ambiguous :: "string \<Rightarrow> string \<Rightarrow> bool"
  ch_order :: "string list"

definition empty_registry :: cursor_registry where
  "empty_registry = \<lparr>ch_values = (\<lambda>_ _. None), ch_ambiguous = (\<lambda>_ _. False), ch_order = []\<rparr>"

definition CompactCursorLength :: nat where "CompactCursorLength = 8"

definition compactAlphabet :: string where
  "compactAlphabet = ''ABCDEFGHJKMNPQRSTUVWXYZabcdefghjkmnpqrstuvwxyz23456789''"

definition DefaultLimit :: int where "DefaultLimit = 20"
definition MaxLimit :: int where "MaxLimit = 100"
definition compactHandleCapacity :: nat where "compactHandleCapacity = 65536"
definition maxServerCursorKeyBytes :: nat where "maxServerCursorKeyBytes = 65535"

definition Limit :: "int \<Rightarrow> int \<Rightarrow> int result" where
  "Limit requested configured =
     (let hardMax = (if 0 < configured \<and> configured < MaxLimit then configured else MaxLimit);
          n = (if requested = 0 then min DefaultLimit hardMax else requested) in
      if n < 1 \<or> hardMax < n then Err (''list limit must be between 1 and '' @ dec_int hardMax) else Ok n)"

section \<open>Handles\<close>

fun compact_digits :: "nat \<Rightarrow> nat \<Rightarrow> string" where
  "compact_digits 0 v = []"
| "compact_digits (Suc n) v =
     compact_digits n (v div length compactAlphabet) @ [compactAlphabet ! (v mod length compactAlphabet)]"

definition compactEncode :: "string \<Rightarrow> string \<Rightarrow> string" where
  "compactEncode kind key =
     (let digest = sha256_bytes (map byte (kind @ [nul] @ key));
          v = foldl (\<lambda>v b. v * 256 + b) 0 (take 8 digest)
      in compact_digits CompactCursorLength v)"

definition ValidServerCursor :: "string \<Rightarrow> bool" where
  "ValidServerCursor raw \<longleftrightarrow> length raw = CompactCursorLength \<and> (\<forall>c \<in> set raw. c \<in> set compactAlphabet)"

definition set_value :: "string \<Rightarrow> string \<Rightarrow> string option \<Rightarrow> cursor_registry \<Rightarrow> cursor_registry" where
  "set_value kind handle v r =
     r\<lparr>ch_values := (ch_values r)(kind := (ch_values r kind)(handle := v))\<rparr>"

text \<open>The empty string when no cursor can be issued.\<close>

definition EncodeServerCursor :: "string \<Rightarrow> string \<Rightarrow> cursor_registry \<Rightarrow> string \<times> cursor_registry" where
  "EncodeServerCursor kind key r =
     (if kind = [] \<or> key = [] \<or> maxServerCursorKeyBytes < length key then ([], r)
      else let handle = compactEncode kind key in
        if ch_ambiguous r kind handle then ([], r)
        else (case ch_values r kind handle of
          Some previous \<Rightarrow>
            if previous = key then (handle, r)
            else ([], (set_value kind handle None r)
                   \<lparr>ch_ambiguous := (ch_ambiguous r)(kind := (ch_ambiguous r kind)(handle := True))\<rparr>)
        | None \<Rightarrow>
            if compactHandleCapacity \<le> length (ch_order r) then ([], r)
            else (handle, (set_value kind handle (Some key) r)\<lparr>ch_order := ch_order r @ [kind @ [nul] @ handle]\<rparr>)))"

definition Encode :: "string \<Rightarrow> string \<Rightarrow> cursor_registry \<Rightarrow> string \<times> cursor_registry" where
  "Encode kind key r = EncodeServerCursor kind key r"

definition ResolveServerCursor :: "cursor_registry \<Rightarrow> string \<Rightarrow> string \<Rightarrow> string option" where
  "ResolveServerCursor r raw kind =
     (if kind = [] \<or> \<not> ValidServerCursor raw \<or> ch_ambiguous r kind raw then None else ch_values r kind raw)"

definition OpaqueCursorMatches :: "cursor_registry \<Rightarrow> string \<Rightarrow> string \<Rightarrow> string \<Rightarrow> bool" where
  "OpaqueCursorMatches r raw kind key \<longleftrightarrow> ResolveServerCursor r raw kind = Some key"

definition stale :: string where "stale = ''invalid or stale continuation cursor''"
definition invalid_cursor :: string where "invalid_cursor = ''invalid continuation cursor''"

definition EncodeOpaqueKeyset :: "string \<Rightarrow> string \<Rightarrow> cursor_registry \<Rightarrow> string \<times> cursor_registry" where
  "EncodeOpaqueKeyset kind key r = EncodeServerCursor kind key r"

definition DecodeOpaqueKeyset :: "cursor_registry \<Rightarrow> string \<Rightarrow> string \<Rightarrow> string result" where
  "DecodeOpaqueKeyset r raw kind =
     (case ResolveServerCursor r raw kind of None \<Rightarrow> Err stale | Some key \<Rightarrow> Ok key)"

definition ValidateOpaqueCursor :: "cursor_registry \<Rightarrow> string \<Rightarrow> string \<Rightarrow> error" where
  "ValidateOpaqueCursor r raw kind = fail_if (ResolveServerCursor r raw kind = None) stale"

section \<open>Offsets, ranges and search positions\<close>

text \<open>\<open>strconv.ParseInt(s, 10, 64)\<close> and \<open>strconv.Atoi\<close>, which accept a plus sign.\<close>

definition ParseInt :: "string \<Rightarrow> int option" where
  "ParseInt s = (if HasPrefix s ''+'' then (if HasPrefix s ''+-'' then None else parse_int64 (drop 1 s)) else parse_int64 s)"

definition canonical_nat :: "string \<Rightarrow> int option" where
  "canonical_nat s = (case ParseInt s of None \<Rightarrow> None | Some i \<Rightarrow> if i < 0 \<or> dec_int i \<noteq> s then None else Some i)"

definition EncodeOffset :: "string \<Rightarrow> int \<Rightarrow> cursor_registry \<Rightarrow> string \<times> cursor_registry" where
  "EncodeOffset kind offset r = (if offset < 0 then ([], r) else EncodeServerCursor kind (dec_int offset) r)"

definition DecodeOffset :: "cursor_registry \<Rightarrow> string \<Rightarrow> string \<Rightarrow> int result" where
  "DecodeOffset r raw kind =
     (case ResolveServerCursor r raw kind of
        None \<Rightarrow> Err stale
      | Some key \<Rightarrow> (case canonical_nat key of None \<Rightarrow> Err invalid_cursor | Some i \<Rightarrow> Ok i))"

definition range_key :: "int \<Rightarrow> int \<Rightarrow> string" where
  "range_key offset until = dec_int offset @ '':'' @ dec_int until"

definition EncodeRangeCursor :: "string \<Rightarrow> int \<Rightarrow> int \<Rightarrow> cursor_registry \<Rightarrow> string \<times> cursor_registry" where
  "EncodeRangeCursor kind offset until r =
     (if offset < 0 \<or> until < offset then ([], r) else EncodeServerCursor kind (range_key offset until) r)"

definition DecodeRangeCursor :: "cursor_registry \<Rightarrow> string \<Rightarrow> string \<Rightarrow> (int \<times> int) result" where
  "DecodeRangeCursor r raw kind =
     (case ResolveServerCursor r raw kind of
        None \<Rightarrow> Err stale
      | Some key \<Rightarrow>
          (let before = takeWhile (\<lambda>c. c \<noteq> CHR '':'') key; after = drop (Suc (length before)) key in
           if before = [] \<or> length before = length key \<or> CHR '':'' \<in> set after then Err invalid_cursor
           else (case (ParseInt before, ParseInt after) of
                   (Some offset, Some until) \<Rightarrow>
                     if offset < 0 \<or> until < offset \<or> range_key offset until \<noteq> key then Err invalid_cursor
                     else Ok (offset, until)
                 | _ \<Rightarrow> Err invalid_cursor)))"

definition EncodeSearchCursor :: "string \<Rightarrow> string \<Rightarrow> int \<Rightarrow> cursor_registry \<Rightarrow> string \<times> cursor_registry" where
  "EncodeSearchCursor kind path line r =
     (if path = [] \<or> line < 0 then ([], r) else EncodeServerCursor kind (path @ ''|'' @ dec_int line) r)"

definition parseSearchKey :: "string \<Rightarrow> (string \<times> int) result" where
  "parseSearchKey key =
     (case LastIndex key ''|'' of
        None \<Rightarrow> Err invalid_cursor
      | Some separator \<Rightarrow>
          if separator < 1 then Err invalid_cursor
          else (case canonical_nat (drop (Suc separator) key) of
                  None \<Rightarrow> Err invalid_cursor
                | Some line \<Rightarrow> Ok (take separator key, line)))"

definition search_key :: "cursor_registry \<Rightarrow> string \<Rightarrow> string \<Rightarrow> (string \<times> int) result" where
  "search_key r raw kind =
     (case ResolveServerCursor r raw kind of None \<Rightarrow> Err stale | Some key \<Rightarrow> parseSearchKey key)"

definition ValidateSearchCursor :: "cursor_registry \<Rightarrow> string \<Rightarrow> string \<Rightarrow> error" where
  "ValidateSearchCursor r raw kind = err_of (search_key r raw kind)"

definition SearchCursorPathMatches :: "cursor_registry \<Rightarrow> string \<Rightarrow> string \<Rightarrow> string \<Rightarrow> bool" where
  "SearchCursorPathMatches r raw kind path \<longleftrightarrow>
     (case search_key r raw kind of Inl _ \<Rightarrow> False | Inr (p, _) \<Rightarrow> p = path)"

definition DecodeSearchCursorLine :: "cursor_registry \<Rightarrow> string \<Rightarrow> string \<Rightarrow> string \<Rightarrow> int result" where
  "DecodeSearchCursorLine r raw kind path =
     (case search_key r raw kind of
        Inl m \<Rightarrow> Err m
      | Inr (p, line) \<Rightarrow> if p \<noteq> path then Err ''continuation cursor path does not match'' else Ok line)"

section \<open>Pages\<close>

definition Decode :: "cursor_registry \<Rightarrow> string \<Rightarrow> string \<Rightarrow> string result" where
  "Decode r value kind =
     (if value = [] then Ok []
      else case ResolveServerCursor r value kind of None \<Rightarrow> Err stale | Some key \<Rightarrow> Ok key)"

definition Resolve :: "cursor_registry \<Rightarrow> string \<Rightarrow> string \<Rightarrow> string list \<Rightarrow> string result" where
  "Resolve r value kind keys =
     (if value = [] then Ok []
      else case Decode r value kind of
        Inl m \<Rightarrow> Err m
      | Inr key \<Rightarrow>
          (let matches = length (filter (\<lambda>k. k = key) keys) in
           if matches = 0 then Err ''continuation cursor is no longer valid''
           else if 1 < matches then Err ''ambiguous continuation cursor'' else Ok key))"

record PageInfo =
  pi_NextCursor :: string
  pi_HasMore :: bool

text \<open>The index behind the first item with a key.\<close>

definition start_after :: "('a \<Rightarrow> string) \<Rightarrow> 'a list \<Rightarrow> string \<Rightarrow> nat" where
  "start_after key items after =
     (let before = length (takeWhile (\<lambda>x. key x \<noteq> after) items) in
      if after = [] \<or> before = length items then 0 else Suc before)"

definition Page :: "string \<Rightarrow> 'a list \<Rightarrow> nat \<Rightarrow> string \<Rightarrow> ('a \<Rightarrow> string) \<Rightarrow> cursor_registry
    \<Rightarrow> ('a list \<times> PageInfo) result \<times> cursor_registry" where
  "Page kind items limit rawCursor key r =
     (case Resolve r rawCursor kind (map key items) of
        Inl m \<Rightarrow> (Err m, r)
      | Inr after \<Rightarrow>
          (let start = start_after key items after; last_index = min (start + limit) (length items);
               page = take (last_index - start) (drop start items) in
           if last_index < length items \<and> page \<noteq> [] then
             (case EncodeServerCursor kind (key (last page)) r of (cursor, r') \<Rightarrow>
                if cursor = [] then (Err ''could not issue an unambiguous continuation cursor'', r')
                else (Ok (page, \<lparr>pi_NextCursor = cursor, pi_HasMore = True\<rparr>), r'))
           else (Ok (page, \<lparr>pi_NextCursor = [], pi_HasMore = False\<rparr>), r)))"

end
