(* ===== verification/Lifecycle_Query.thy ===== *)
theory Lifecycle_Query
  imports Shared_Events Execution_Model Pagination
begin

text \<open>
  The paged query of the shared lifecycle (\<open>QuerySharedLifecycle\<close> in \<open>internal/sqlitestore/shared_lifecycle.go\<close>).
  \<open>json_extract(payload, '$.field')\<close> is SQLite's and stands as the argument \<open>extract\<close>, the text of
  a member or \<open>NULL\<close>; \<open>LIKE\<close> is written out. The filters are a Go map: an association list with distinct
  fields, or nil.
\<close>

section \<open>SQLite's LIKE\<close>

text \<open>A percent sign matches any run of characters, an underscore any one; ASCII letters match in both cases.\<close>

definition like_fold :: "nat \<Rightarrow> nat" where
  "like_fold c = (if 65 \<le> c \<and> c \<le> 90 then c + 32 else c)"

fun like_match :: "nat list \<Rightarrow> nat list \<Rightarrow> bool" where
  "like_match [] s \<longleftrightarrow> s = []"
| "like_match (p # ps) [] \<longleftrightarrow> p = 37 \<and> like_match ps []"
| "like_match (p # ps) (c # cs) \<longleftrightarrow>
     (if p = 37 then like_match ps (c # cs) \<or> like_match (p # ps) cs
      else (p = 95 \<or> like_fold p = like_fold c) \<and> like_match ps cs)"

definition sql_like :: "string \<Rightarrow> string \<Rightarrow> bool" where
  "sql_like value pattern \<longleftrightarrow> like_match (map fst (runes pattern)) (map fst (runes value))"

section \<open>The query\<close>

record SharedLifecycleQuery =
  lq_EntityType :: string
  lq_ProjectID :: string
  lq_Text :: string
  lq_Filters :: "(string \<times> string) list option"
  lq_IncludeArchived :: bool
  lq_ExcludeSuperseded :: bool
  lq_ExcludeDone :: bool
  lq_Limit :: int
  lq_Cursor :: string

record SharedLifecycleQueryPage =
  qp_Entities :: "SharedEntity list"
  qp_NextCursor :: string
  qp_HasMore :: bool
  qp_CursorKind :: string

definition filter_list :: "SharedLifecycleQuery \<Rightarrow> (string \<times> string) list" where
  "filter_list q = (case lq_Filters q of None \<Rightarrow> [] | Some fs \<Rightarrow> fs)"

definition search_text :: "SharedLifecycleQuery \<Rightarrow> string" where
  "search_text q = ascii_lower (TrimSpace (lq_Text q))"

definition query_kind :: "SharedLifecycleQuery \<Rightarrow> string" where
  "query_kind q = ''shared_lifecycle:'' @ json_object
     (json_field ''entity_type'' (json_string (lq_EntityType q))
      @ json_field ''project_id'' (json_string (lq_ProjectID q))
      @ json_field ''text'' (json_string (search_text q))
      @ json_field ''filters'' (case lq_Filters q of None \<Rightarrow> ''null'' | Some fs \<Rightarrow> json_string_map fs)
      @ json_field ''archived'' (json_bool (lq_IncludeArchived q))
      @ json_field ''exclude_superseded'' (json_bool (lq_ExcludeSuperseded q))
      @ json_field ''exclude_done'' (json_bool (lq_ExcludeDone q)))"

text \<open>The \<open>WHERE\<close> clause but for the key of the cursor.\<close>

definition query_selects ::
  "(string \<Rightarrow> string \<Rightarrow> string option) \<Rightarrow> sharedLifecycleDefinition \<Rightarrow> SharedLifecycleQuery \<Rightarrow> SharedEntity \<Rightarrow> bool" where
  "query_selects extract d q r \<longleftrightarrow>
     (let member = extract (se_Payload r); status = coalesce (member ''status'') in
      member ''project_id'' = Some (lq_ProjectID q)
      \<and> (\<not> lq_IncludeArchived q \<longrightarrow> status \<noteq> ''archived'' \<and> status \<noteq> ''superseded'')
      \<and> (lq_IncludeArchived q \<and> lq_ExcludeSuperseded q \<longrightarrow> status \<noteq> ''superseded'')
      \<and> (lq_ExcludeDone q \<longrightarrow> status \<noteq> ''done'')
      \<and> list_all (\<lambda>(f, v). member f = Some v) (filter_list q)
      \<and> (search_text q \<noteq> [] \<longrightarrow>
           list_ex (\<lambda>f. sql_like (ascii_lower (coalesce (member f))) (''%'' @ search_text q @ ''%'')) (ld_SearchFields d)))"

definition query_rows ::
  "(string \<Rightarrow> string \<Rightarrow> string option) \<Rightarrow> sharedLifecycleDefinition \<Rightarrow> SharedLifecycleQuery \<Rightarrow> string \<Rightarrow> int \<Rightarrow> shared_db
   \<Rightarrow> SharedEntity list" where
  "query_rows extract d q afterID limit db =
     take (nat limit) (sort_key se_ID
       (filter (\<lambda>r. query_selects extract d q r \<and> (afterID \<noteq> [] \<longrightarrow> afterID < se_ID r)) (sd_tables db (ld_StateTable d))))"

definition querySharedLifecycleRows ::
  "driver \<Rightarrow> (string \<Rightarrow> string \<Rightarrow> string option) \<Rightarrow> sharedLifecycleDefinition \<Rightarrow> SharedLifecycleQuery \<Rightarrow> string \<Rightarrow> int
   \<Rightarrow> SharedEntity list io" where
  "querySharedLifecycleRows dv extract d q afterID limit =
     (if limit < 1 \<or> int SharedLifecycleQueryMaxRows + 1 < limit then io_error ''invalid shared lifecycle query limit''
      else io_query dv (query_rows extract d q afterID limit))"

text \<open>The page of the rows read, one more than the limit when there is another page.\<close>

definition query_page ::
  "SharedLifecycleQuery \<Rightarrow> SharedEntity list \<Rightarrow> cursor_registry \<Rightarrow> SharedLifecycleQueryPage \<times> cursor_registry" where
  "query_page q entities reg =
     (let kind = query_kind q; rows = take (nat (lq_Limit q)) entities in
      if lq_Limit q < int (length entities) then
        (case EncodeServerCursor kind (se_ID (last rows)) reg of (cursor, reg') \<Rightarrow>
           (\<lparr>qp_Entities = rows, qp_NextCursor = cursor, qp_HasMore = True, qp_CursorKind = kind\<rparr>, reg'))
      else (\<lparr>qp_Entities = entities, qp_NextCursor = [], qp_HasMore = False, qp_CursorKind = kind\<rparr>, reg))"

definition query_checks :: "driver \<Rightarrow> SharedLifecycleQuery \<Rightarrow> sharedLifecycleDefinition result" where
  "query_checks dv q =
     (case sharedLifecycle (lq_EntityType q) of
        None \<Rightarrow> Err (''unsupported shared entity type '' @ go_quote (lq_EntityType q))
      | Some d \<Rightarrow>
          if \<not> dv_Shared dv then Err ''shared store is unavailable''
          else if lq_ProjectID q = [] \<or> lq_Limit q < 1 \<or> int SharedLifecycleQueryMaxRows < lq_Limit q
          then Err (''invalid shared '' @ lq_EntityType q @ '' query'')
          else (case find (\<lambda>(f, v). f \<notin> set (ld_FilterFields d)) (filter_list q) of
                  Some (f, _) \<Rightarrow> Err (''unsupported '' @ lq_EntityType q @ '' filter '' @ go_quote f)
                | None \<Rightarrow> Ok d))"

definition QuerySharedLifecycle ::
  "driver \<Rightarrow> (string \<Rightarrow> string \<Rightarrow> string option) \<Rightarrow> SharedLifecycleQuery \<Rightarrow> cursor_registry
   \<Rightarrow> (SharedLifecycleQueryPage \<times> cursor_registry) io" where
  "QuerySharedLifecycle dv extract q reg =
     (case query_checks dv q of
        Inl m \<Rightarrow> io_error m
      | Inr d \<Rightarrow>
          (case (if lq_Cursor q = [] then Ok [] else DecodeOpaqueKeyset reg (lq_Cursor q) (query_kind q)) of
             Inl m \<Rightarrow> io_error m
           | Inr afterID \<Rightarrow>
               io_bind (querySharedLifecycleRows dv extract d q afterID (lq_Limit q + 1))
                 (\<lambda>entities. io_return (query_page q entities reg))))"

end
