(* ===== verification/Task_Closing.thy ===== *)
theory Task_Closing
  imports Task_Integration Lifecycle_Query
begin

text \<open>
  The completion of a task as the service decides it (\<open>internal/service/task_complete.go\<close>): the proof
  that the task was delivered, the contract that is recorded, the commit, and the replay of a completion that is
  already recorded.

  The evidence in the Journal and the identifiers of a project come from parts that are not modelled: they are the
  answers of \<open>evidence\<close>. The search for an accepted Track pages through the Tracks in a loop without a bound;
  it has fuel, and running out of it is the value \<open>None\<close>, which the code never returns.
\<close>

section \<open>Input, output and contract\<close>

record TaskCompleteInput =
  tci_ProjectID :: string
  tci_Key :: string
  tci_Mode :: string
  tci_Reason :: string
  tci_Review :: string

record TaskCompleteOutput =
  tco_Key :: string
  tco_Status :: string
  tco_Revision :: int

definition validateTaskCompleteInput :: "TaskCompleteInput \<Rightarrow> error" where
  "validateTaskCompleteInput i = first_error
     [ValidateProjectIdentifier (tci_ProjectID i), ValidateCanonicalTaskID (tci_Key i),
      fail_if (\<not> List.member [''integrated'', ''non_code'', ''historical''] (tci_Mode i))
        (''invalid Task completion mode '' @ go_quote (tci_Mode i)),
      fail_if (\<not> bounded_text 1024 (tci_Reason i)) ''invalid Task completion reason'',
      fail_if (err_of (ParseJournalID (tci_Review i)) \<noteq> None)
        (''invalid Task completion review Journal identifier '' @ go_quote (tci_Review i))]"

record taskCompleteLegacyAcceptanceInput =
  la_Criterion :: int
  la_Evidence :: "string list option"

record taskCompletionContract =
  tc_SchemaVersion :: int
  tc_Mode :: string
  tc_Reason :: string
  tc_Review :: string
  tc_TaskRevision :: int
  tc_TaskRevisionSHA256 :: string
  tc_AcceptanceCriteria :: "string list option"
  tc_IntegrationHead :: string
  tc_VerificationOperationID :: string
  tc_VerificationAttemptRevision :: int
  tc_AcceptedTrack :: string
  tc_Acceptance :: "taskCompleteLegacyAcceptanceInput list option"

definition zero_contract :: taskCompletionContract where
  "zero_contract = \<lparr>tc_SchemaVersion = 0, tc_Mode = [], tc_Reason = [], tc_Review = [], tc_TaskRevision = 0,
     tc_TaskRevisionSHA256 = [], tc_AcceptanceCriteria = None, tc_IntegrationHead = [],
     tc_VerificationOperationID = [], tc_VerificationAttemptRevision = 0, tc_AcceptedTrack = [], tc_Acceptance = None\<rparr>"

definition json_acceptance :: "taskCompleteLegacyAcceptanceInput \<Rightarrow> string" where
  "json_acceptance a = json_object
     (json_field ''criterion'' (dec_int (la_Criterion a)) @ json_field ''evidence'' (json_strings (la_Evidence a)))"

definition json_contract :: "taskCompletionContract \<Rightarrow> string" where
  "json_contract c = json_object
     (json_field ''schema_version'' (dec_int (tc_SchemaVersion c))
      @ json_field ''mode'' (json_string (tc_Mode c))
      @ json_field ''reason'' (json_string (tc_Reason c))
      @ json_omit (tc_Review c = []) ''review'' (json_string (tc_Review c))
      @ json_field ''task_revision'' (dec_int (tc_TaskRevision c))
      @ json_field ''task_revision_sha256'' (json_string (tc_TaskRevisionSHA256 c))
      @ json_omit (elems (tc_AcceptanceCriteria c) = []) ''acceptance_criteria'' (json_strings (tc_AcceptanceCriteria c))
      @ json_omit (tc_IntegrationHead c = []) ''integration_head'' (json_string (tc_IntegrationHead c))
      @ json_omit (tc_VerificationOperationID c = []) ''verification_operation_id'' (json_string (tc_VerificationOperationID c))
      @ json_omit (tc_VerificationAttemptRevision c = 0) ''verification_attempt_revision''
          (dec_int (tc_VerificationAttemptRevision c))
      @ json_omit (tc_AcceptedTrack c = []) ''accepted_track'' (json_string (tc_AcceptedTrack c))
      @ json_omit (elems (tc_Acceptance c) = []) ''acceptance'' (json_list (map json_acceptance (elems (tc_Acceptance c)))))"

definition acceptance_fields :: "(string \<times> taskCompleteLegacyAcceptanceInput field_decoder) list" where
  "acceptance_fields =
     [(''criterion'', dec_int64 (\<lambda>x r. r\<lparr>la_Criterion := x\<rparr>)), (''evidence'', dec_strings (\<lambda>x r. r\<lparr>la_Evidence := x\<rparr>))]"

definition contract_fields :: "(string \<times> taskCompletionContract field_decoder) list" where
  "contract_fields =
     [(''schema_version'', dec_int64 (\<lambda>x r. r\<lparr>tc_SchemaVersion := x\<rparr>)),
      (''mode'', dec_string (\<lambda>x r. r\<lparr>tc_Mode := x\<rparr>)),
      (''reason'', dec_string (\<lambda>x r. r\<lparr>tc_Reason := x\<rparr>)),
      (''review'', dec_string (\<lambda>x r. r\<lparr>tc_Review := x\<rparr>)),
      (''task_revision'', dec_int64 (\<lambda>x r. r\<lparr>tc_TaskRevision := x\<rparr>)),
      (''task_revision_sha256'', dec_string (\<lambda>x r. r\<lparr>tc_TaskRevisionSHA256 := x\<rparr>)),
      (''acceptance_criteria'', dec_strings (\<lambda>x r. r\<lparr>tc_AcceptanceCriteria := x\<rparr>)),
      (''integration_head'', dec_string (\<lambda>x r. r\<lparr>tc_IntegrationHead := x\<rparr>)),
      (''verification_operation_id'', dec_string (\<lambda>x r. r\<lparr>tc_VerificationOperationID := x\<rparr>)),
      (''verification_attempt_revision'', dec_int64 (\<lambda>x r. r\<lparr>tc_VerificationAttemptRevision := x\<rparr>)),
      (''accepted_track'', dec_string (\<lambda>x r. r\<lparr>tc_AcceptedTrack := x\<rparr>)),
      (''acceptance'', dec_slice (\<lambda>z v. decode_struct True acceptance_fields v z) \<lparr>la_Criterion = 0, la_Evidence = None\<rparr>
         (\<lambda>x r. r\<lparr>tc_Acceptance := x\<rparr>))]"

text \<open>\<open>decodeStrict\<close>: unknown members and content behind the value are refused.\<close>

definition decodeStrict :: "(string \<times> 'r field_decoder) list \<Rightarrow> 'r \<Rightarrow> string \<Rightarrow> 'r option" where
  "decodeStrict table zero s = (case json_parse s of None \<Rightarrow> None | Some v \<Rightarrow> decode_struct True table v zero)"

text \<open>The contract of a request for a task, without the proof of its delivery.\<close>

definition request_contract :: "TaskCompleteInput \<Rightarrow> TaskAuthoring \<Rightarrow> taskCompletionContract" where
  "request_contract i t = zero_contract\<lparr>tc_SchemaVersion := 1, tc_Mode := tci_Mode i, tc_Reason := tci_Reason i,
     tc_Review := tci_Review i, tc_TaskRevision := ta_Revision t, tc_TaskRevisionSHA256 := ta_RevisionSHA256 t,
     tc_AcceptanceCriteria := (case elems (ta_AcceptanceCriteria t) of [] \<Rightarrow> None | cs \<Rightarrow> Some cs)\<rparr>"

definition contract_operation :: "TaskCompleteInput \<Rightarrow> string \<Rightarrow> string" where
  "contract_operation i contract = ''task-complete-'' @ contract_digest (tci_ProjectID i) (tci_Key i) contract"

definition completed :: "TaskCompleteInput \<Rightarrow> TaskAuthoring \<Rightarrow> TaskCompleteOutput" where
  "completed i t = \<lparr>tco_Key = tci_Key i, tco_Status = Done, tco_Revision = ta_Revision t\<rparr>"

section \<open>The proof of delivery\<close>

definition taskExecutionHistoricalPhasePrefix :: string where
  "taskExecutionHistoricalPhasePrefix = ''historical-integration:''"

record taskExecutionHistoricalPhaseEvidence =
  he_SchemaVersion :: int
  he_Mode :: string
  he_Profile :: string
  he_Evidence :: string
  he_IntegrationHead :: string
  he_CandidateHead :: string
  he_MainBase :: string
  he_Comment :: string

record evidence =
  ew_ProjectCode :: "nat \<Rightarrow> string \<Rightarrow> string result"
  ew_ReviewProof :: "nat \<Rightarrow> string \<Rightarrow> string \<Rightarrow> TaskAuthoring \<Rightarrow> string \<Rightarrow> error"
  ew_HistoricalProof :: "nat \<Rightarrow> string \<Rightarrow> string \<Rightarrow> string \<Rightarrow> string \<Rightarrow> taskExecutionHistoricalPhaseEvidence \<Rightarrow> error"

definition zero_envelope :: taskExecutionHistoricalPhaseEvidence where
  "zero_envelope = \<lparr>he_SchemaVersion = 0, he_Mode = [], he_Profile = [], he_Evidence = [], he_IntegrationHead = [],
     he_CandidateHead = [], he_MainBase = [], he_Comment = []\<rparr>"

definition envelope_fields :: "(string \<times> taskExecutionHistoricalPhaseEvidence field_decoder) list" where
  "envelope_fields =
     [(''schema_version'', dec_int64 (\<lambda>x r. r\<lparr>he_SchemaVersion := x\<rparr>)),
      (''mode'', dec_string (\<lambda>x r. r\<lparr>he_Mode := x\<rparr>)),
      (''profile'', dec_string (\<lambda>x r. r\<lparr>he_Profile := x\<rparr>)),
      (''evidence'', dec_string (\<lambda>x r. r\<lparr>he_Evidence := x\<rparr>)),
      (''integration_head'', dec_string (\<lambda>x r. r\<lparr>he_IntegrationHead := x\<rparr>)),
      (''candidate_head'', dec_string (\<lambda>x r. r\<lparr>he_CandidateHead := x\<rparr>)),
      (''main_base'', dec_string (\<lambda>x r. r\<lparr>he_MainBase := x\<rparr>)),
      (''comment'', dec_string (\<lambda>x r. r\<lparr>he_Comment := x\<rparr>))]"

definition is_historical :: "TaskExecutionPhase \<Rightarrow> bool" where
  "is_historical p \<longleftrightarrow> HasPrefix (ph_Comment p) taskExecutionHistoricalPhasePrefix"

definition phase_envelope :: "TaskExecutionPhase \<Rightarrow> taskExecutionHistoricalPhaseEvidence option" where
  "phase_envelope p = decodeStrict envelope_fields zero_envelope
     (drop (length taskExecutionHistoricalPhasePrefix) (ph_Comment p))"

record taskCompleteIntegratedEvidence =
  ie_Head :: string
  ie_OperationID :: string
  ie_AttemptRevision :: int
  ie_AcceptedTrack :: string

definition no_evidence :: taskCompleteIntegratedEvidence where
  "no_evidence = \<lparr>ie_Head = [], ie_OperationID = [], ie_AttemptRevision = 0, ie_AcceptedTrack = []\<rparr>"

definition accepts_integration :: "TaskExecutionPhase \<Rightarrow> bool" where
  "accepts_integration p \<longleftrightarrow> ph_Status p = ''integrated'' \<and> ph_Stage p = ''integration''
     \<and> ph_EventKind p = ''integration'' \<and> ph_Decision p = ''accept''"

text \<open>The one integration phase that both proofs start from, \<open>mode\<close> is the first word of the messages.\<close>

definition integration_phase ::
  "string \<Rightarrow> TaskAuthoring \<Rightarrow> TaskExecutionState option \<Rightarrow> TaskExecutionPhase list
   \<Rightarrow> (TaskExecutionState \<times> TaskExecutionPhase) result" where
  "integration_phase mode t found phases =
     (case found of
        None \<Rightarrow> Err (mode @ '' completion requires an integrated Task execution'')
      | Some s \<Rightarrow>
          if xs_Status s \<noteq> ''integrated'' then Err (mode @ '' completion requires an integrated Task execution'')
          else case phases of
            [p] \<Rightarrow>
              if ph_ProjectID p \<noteq> ta_ProjectID t \<or> ph_TaskID p \<noteq> ta_ID t \<or> \<not> accepts_integration p
                 \<or> ph_TaskRevisionSHA256 p \<noteq> xs_TaskRevisionSHA256 s \<or> ph_Branch p \<noteq> xs_Branch s
                 \<or> ph_ExecutionRevision p \<noteq> xs_ExecutionRevision s
              then Err ''integration phase does not bind the integrated execution state''
              else if xs_TaskRevision s \<noteq> ta_Revision t \<or> xs_TaskRevisionSHA256 s \<noteq> ta_RevisionSHA256 t
              then Err ''integrated execution does not bind the current Task revision''
              else Ok (s, p)
          | _ \<Rightarrow> Err (mode @ '' completion requires exactly one integration phase''))"

subsection \<open>An accepted Track\<close>

definition track_query :: "string \<Rightarrow> string \<Rightarrow> SharedLifecycleQuery" where
  "track_query projectID cursor =
     \<lparr>lq_EntityType = ''track'', lq_ProjectID = projectID, lq_Text = [], lq_Filters = None, lq_IncludeArchived = True,
      lq_ExcludeSuperseded = False, lq_ExcludeDone = False, lq_Limit = int SharedLifecycleQueryMaxRows,
      lq_Cursor = cursor\<rparr>"

definition review_pins :: "TaskAuthoring \<Rightarrow> TrackReview \<Rightarrow> bool" where
  "review_pins t v \<longleftrightarrow> (case find (\<lambda>x. tt_Key x = ta_ID t) (tr_Tasks v) of
     None \<Rightarrow> False | Some x \<Rightarrow> tt_Revision x = ta_Revision t \<and> tt_RevisionSHA256 x = ta_RevisionSHA256 t)"

text \<open>An accepted Track of the project with a review that has the task as a member.\<close>

definition candidate_review :: "TaskAuthoring \<Rightarrow> string \<Rightarrow> Track \<Rightarrow> TrackReview option" where
  "candidate_review t rowID tk =
     (if tk_ID tk = rowID \<and> tk_ProjectID tk = ta_ProjectID t \<and> tk_Status tk = ''accepted''
         \<and> List.member (elems (tk_Tasks tk)) (ta_ID t) then tk_Review tk else None)"

text \<open>The rows of a page in order: the reasons collected, or the Track that proves the delivery.\<close>

fun accepted_track_rows ::
  "driver \<Rightarrow> world \<Rightarrow> project_config \<Rightarrow> TaskAuthoring \<Rightarrow> TaskExecutionPhase \<Rightarrow> SharedEntity list \<Rightarrow> string list
   \<Rightarrow> (string list + string) io" where
  "accepted_track_rows dv w project t p [] reasons = io_return (Inl reasons)"
| "accepted_track_rows dv w project t p (row # rows) reasons =
     (case decode_track (se_Payload row) of
        None \<Rightarrow> io_error ''invalid stored Track record''
      | Some tk \<Rightarrow>
          (case candidate_review t (se_ID row) tk of
             None \<Rightarrow> accepted_track_rows dv w project t p rows reasons
           | Some v \<Rightarrow>
               if \<not> review_pins t v then accepted_track_rows dv w project t p rows
                 (reasons @ [''Track '' @ go_quote (tk_ID tk) @ '' review does not pin the current Task revision''])
               else io_bind (io_ask dv (\<lambda>k. g_IsAncestor (w_git w) k (pc_Root project) (ph_Head p) (tr_Head v)))
                 (\<lambda>contained.
                   if \<not> contained then accepted_track_rows dv w project t p rows
                     (reasons @ [''Track '' @ go_quote (tk_ID tk)
                        @ '' accepted source does not contain the integration commit''])
                   else io_return (Inr (tk_ID tk)))))"

fun accepted_track_pages ::
  "nat \<Rightarrow> driver \<Rightarrow> world \<Rightarrow> (string \<Rightarrow> string \<Rightarrow> string option) \<Rightarrow> project_config \<Rightarrow> TaskAuthoring \<Rightarrow> TaskExecutionPhase
   \<Rightarrow> string \<Rightarrow> string list \<Rightarrow> cursor_registry \<Rightarrow> ((string list + string) \<times> cursor_registry) option io" where
  "accepted_track_pages 0 dv w extract project t p cursor reasons reg = io_return None"
| "accepted_track_pages (Suc fuel) dv w extract project t p cursor reasons reg =
     io_bind (QuerySharedLifecycle dv extract (track_query (ta_ProjectID t) cursor) reg) (\<lambda>(page, reg').
     io_bind (accepted_track_rows dv w project t p (qp_Entities page) reasons) (\<lambda>r.
       case r of
         Inr track \<Rightarrow> io_return (Some (Inr track, reg'))
       | Inl reasons' \<Rightarrow>
           if \<not> qp_HasMore page then io_return (Some (Inl reasons', reg'))
           else accepted_track_pages fuel dv w extract project t p (qp_NextCursor page) reasons' reg'))"

definition no_track_message :: "string list \<Rightarrow> string" where
  "no_track_message reasons =
     ''integrated completion requires a current immutable Task verification or durable accepted Track proof: ''
     @ (if reasons = [] then ''no durable accepted Track contains this Task revision's integration''
        else sep_concat ''; '' reasons)"

definition taskCompleteIntegratedAcceptedTrackProof ::
  "nat \<Rightarrow> driver \<Rightarrow> world \<Rightarrow> (string \<Rightarrow> string \<Rightarrow> string option) \<Rightarrow> TaskAuthoring \<Rightarrow> TaskExecutionPhase \<Rightarrow> cursor_registry
   \<Rightarrow> (taskCompleteIntegratedEvidence \<times> cursor_registry) option io" where
  "taskCompleteIntegratedAcceptedTrackProof fuel dv w extract t p reg =
     io_check (fail_if (ValidateCommitSHA (ph_Head p) \<noteq> None) ''integration phase does not carry a commit'')
     (io_bind (project_of dv w (ta_ProjectID t)) (\<lambda>project.
      io_bind (accepted_track_pages fuel dv w extract project t p [] [] reg) (\<lambda>r.
        case r of
          None \<Rightarrow> io_return None
        | Some (Inl reasons, reg') \<Rightarrow> io_error (no_track_message reasons)
        | Some (Inr track, reg') \<Rightarrow>
            io_return (Some (no_evidence\<lparr>ie_Head := ph_Head p, ie_AcceptedTrack := track\<rparr>, reg')))))"

subsection \<open>The three modes\<close>

text \<open>The receipt must be that of the commit that was integrated.\<close>

definition receipt_delivered ::
  "driver \<Rightarrow> world \<Rightarrow> TaskAuthoring \<Rightarrow> TaskExecutionPhase \<Rightarrow> TaskExecutionVerification \<Rightarrow> unit io" where
  "receipt_delivered dv w t p v =
     io_check (fail_if (time_before (ph_CreatedAt p) (xv_CompletedAt v))
                 ''integrated Task verification postdates the integration phase'')
     (io_check (wrap_err ''Task verification gate evidence is malformed: '' (ValidateTaskExecutionVerification v))
     (io_bind (project_of dv w (ta_ProjectID t)) (\<lambda>project.
      io_bind (io_ask dv (\<lambda>k. g_InspectTaskIntegrationCommit (w_git w) k project (ph_Head p))) (\<lambda>(tree, parents).
        io_check (first_error
          [fail_if (parents \<noteq> [xv_BaseHead v]) ''Task integration commit is not an exact child of the verified base'',
           fail_if (tree \<noteq> xv_CandidateTree v)
             ''Task integration commit tree does not match the verified candidate tree''])
        (io_return ())))))"

definition taskCompleteIntegratedProof ::
  "nat \<Rightarrow> driver \<Rightarrow> world \<Rightarrow> (string \<Rightarrow> string \<Rightarrow> string option) \<Rightarrow> TaskAuthoring \<Rightarrow> TaskExecutionState option
   \<Rightarrow> TaskExecutionPhase list \<Rightarrow> cursor_registry \<Rightarrow> (taskCompleteIntegratedEvidence \<times> cursor_registry) option io" where
  "taskCompleteIntegratedProof fuel dv w extract t found phases reg =
     (case integration_phase ''integrated'' t found phases of
        Inl m \<Rightarrow> io_error m
      | Inr (s, p) \<Rightarrow>
          if is_historical p then io_error ''integrated completion rejects a historical integration phase''
          else io_bind (taskExecutionVerificationProofCurrent dv w s) (\<lambda>f.
            case (vf_current f, vf_receipt f) of
              (True, Some v) \<Rightarrow>
                io_bind (receipt_delivered dv w t p v) (\<lambda>_.
                  let e = \<lparr>ie_Head = ph_Head p, ie_OperationID = xv_OperationID v,
                           ie_AttemptRevision = xv_AttemptRevision v, ie_AcceptedTrack = []\<rparr> in
                  if elems (ta_AcceptanceCriteria t) \<noteq> [] then io_return (Some (e, reg))
                  else io_bind (taskCompleteIntegratedAcceptedTrackProof fuel dv w extract t p reg)
                    (\<lambda>r. io_return (map_option (apfst (\<lambda>track. e\<lparr>ie_AcceptedTrack := ie_AcceptedTrack track\<rparr>)) r)))
            | _ \<Rightarrow>
                if vf_fallback f then taskCompleteIntegratedAcceptedTrackProof fuel dv w extract t p reg
                else io_error (''integrated completion requires a current immutable Task verification: '' @ vf_reason f)))"

definition profile_commits :: "taskExecutionHistoricalPhaseEvidence \<Rightarrow> error" where
  "profile_commits v =
     (if he_Profile v = ''legacy''
      then fail_if (he_CandidateHead v \<noteq> [] \<or> he_MainBase v \<noteq> [])
        ''historical legacy phase evidence must not carry candidate/base''
      else if he_Profile v = ''bootstrap_full''
      then fail_if (ValidateCommitSHA (he_CandidateHead v) \<noteq> None \<or> ValidateCommitSHA (he_MainBase v) \<noteq> None)
        ''historical bootstrap phase evidence must carry valid candidate/base''
      else Some ''historical integration phase evidence has an unknown profile'')"

definition taskCompleteHistoricalProof ::
  "driver \<Rightarrow> evidence \<Rightarrow> TaskCompleteInput \<Rightarrow> TaskAuthoring \<Rightarrow> TaskExecutionState option \<Rightarrow> TaskExecutionPhase list
   \<Rightarrow> (string \<times> taskExecutionHistoricalPhaseEvidence) io" where
  "taskCompleteHistoricalProof dv ew i t found phases =
     (case integration_phase ''historical'' t found phases of
        Inl m \<Rightarrow> io_error m
      | Inr (s, p) \<Rightarrow>
          if \<not> is_historical p then io_error ''historical completion rejects an ordinary integration phase''
          else case phase_envelope p of
            None \<Rightarrow> io_error ''historical integration phase evidence is malformed''
          | Some v \<Rightarrow>
              io_check (first_error
                [fail_if (he_SchemaVersion v \<noteq> 1 \<or> he_Mode v \<noteq> ''historical'' \<or> he_IntegrationHead v \<noteq> ph_Head p)
                   ''historical integration phase evidence does not bind the phase'',
                 profile_commits v])
              (case ParseJournalID (he_Evidence v) of
                 Inl _ \<Rightarrow> io_error ''historical integration phase evidence identifier is invalid''
               | Inr (code, _) \<Rightarrow>
                   io_bind (io_ask dv (\<lambda>k. ew_ProjectCode ew k (tci_ProjectID i))) (\<lambda>projectCode.
                     io_require (code = projectCode)
                       ''historical integration phase evidence does not bind this project''
                       (io_return (ph_Head p, v)))))"

section \<open>The replay of a recorded completion\<close>

definition conflict :: "string \<Rightarrow> string" where
  "conflict what = ''Task completion '' @ what
     @ '' conflicts with the recorded contract; evidence reconciliation is required''"

definition same_contract :: "taskCompletionContract \<Rightarrow> taskCompletionContract \<Rightarrow> bool" where
  "same_contract stored current \<longleftrightarrow>
     tc_SchemaVersion stored = 1 \<and> tc_TaskRevision stored = tc_TaskRevision current
     \<and> tc_TaskRevisionSHA256 stored = tc_TaskRevisionSHA256 current \<and> tc_Mode stored = tc_Mode current
     \<and> tc_Reason stored = tc_Reason current
     \<and> (tc_Review stored = [] \<and> elems (tc_Acceptance stored) \<noteq> []
        \<or> tc_Review stored = tc_Review current
          \<and> elems (tc_AcceptanceCriteria stored) = elems (tc_AcceptanceCriteria current))"

definition event_binds :: "TaskCompleteInput \<Rightarrow> TaskAuthoring \<Rightarrow> string \<Rightarrow> TaskLifecycleEvent \<Rightarrow> bool" where
  "event_binds i t contract e \<longleftrightarrow>
     te_ProjectID e = tci_ProjectID i \<and> te_TaskID e = tci_Key i \<and> te_Revision e = ta_Revision t
     \<and> te_EventKind e = ''complete'' \<and> (te_FromStatus e = Planned \<or> te_FromStatus e = Ready) \<and> te_ToStatus e = Done
     \<and> te_Reason e = tci_Reason i \<and> te_OperationID e = contract_operation i contract
     \<and> gt_ns (ta_UpdatedAt t) = gt_ns (te_RecordedAt e)"

definition execution_binds ::
  "TaskCompleteInput \<Rightarrow> TaskAuthoring \<Rightarrow> taskCompletionContract \<Rightarrow> TaskExecutionState \<Rightarrow> TaskExecutionPhase \<Rightarrow> bool" where
  "execution_binds i t stored s p \<longleftrightarrow>
     xs_Status s = ''done'' \<and> xs_TaskRevision s = ta_Revision t \<and> xs_TaskRevisionSHA256 s = ta_RevisionSHA256 t
     \<and> ph_Head p = tc_IntegrationHead stored \<and> ph_ProjectID p = tci_ProjectID i \<and> ph_TaskID p = tci_Key i
     \<and> accepts_integration p \<and> ph_TaskRevisionSHA256 p = xs_TaskRevisionSHA256 s \<and> ph_Branch p = xs_Branch s
     \<and> wrap_int (ph_ExecutionRevision p + 1) = xs_ExecutionRevision s"

definition verification_binds :: "taskCompletionContract \<Rightarrow> bool" where
  "verification_binds stored \<longleftrightarrow> ValidateObjectIdentifier (tc_VerificationOperationID stored) = None
     \<and> 1 \<le> tc_VerificationAttemptRevision stored"

definition trackReadStored :: "driver \<Rightarrow> string \<Rightarrow> string \<Rightarrow> int \<Rightarrow> Track io" where
  "trackReadStored dv projectID key revision =
     (if revision < 0 then io_error ''invalid Track revision''
      else io_bind (if revision = 0
          then io_bind (ReadSharedEntity dv ''track'' key) (\<lambda>row. io_return (se_Payload row))
          else io_bind (ReadSharedRevision dv ''track'' projectID key revision) (\<lambda>record. io_return (sr_Payload record)))
        (\<lambda>payload.
          case decode_track payload of
            None \<Rightarrow> io_error (''decode shared Track '' @ key)
          | Some tk \<Rightarrow>
              io_require (tk_ID tk = key \<and> tk_ProjectID tk = projectID) ''shared Track ownership mismatch''
              (io_check (ValidateTrack tk) (io_return tk))))"

definition track_still_pins :: "driver \<Rightarrow> TaskCompleteInput \<Rightarrow> TaskAuthoring \<Rightarrow> string \<Rightarrow> bool io" where
  "track_still_pins dv i t track =
     io_bind (io_try (trackReadStored dv (tci_ProjectID i) track 0)) (\<lambda>r. io_return
       (case r of
          Inl _ \<Rightarrow> False
        | Inr tk \<Rightarrow> tk_Status tk = ''accepted'' \<and> List.member (elems (tk_Tasks tk)) (tci_Key i)
            \<and> (case tk_Review tk of None \<Rightarrow> False
               | Some v \<Rightarrow> (case find (\<lambda>x. tt_Key x = tci_Key i) (tr_Tasks v) of None \<Rightarrow> False
                   | Some x \<Rightarrow> tt_Revision x = ta_Revision t \<and> tt_RevisionSHA256 x = ta_RevisionSHA256 t))))"

definition integrated_replay ::
  "driver \<Rightarrow> TaskCompleteInput \<Rightarrow> TaskAuthoring \<Rightarrow> taskCompletionContract \<Rightarrow> TaskExecutionPhase \<Rightarrow> unit io" where
  "integrated_replay dv i t stored p =
     io_require (\<not> is_historical p) (conflict ''phase evidence'')
     (if tc_AcceptedTrack stored = []
      then io_require (verification_binds stored) (conflict ''phase evidence'') (io_return ())
      else io_require (ValidateTrackID (tc_AcceptedTrack stored) = None
          \<and> ((tc_VerificationOperationID stored = []) = (tc_VerificationAttemptRevision stored = 0))
          \<and> (tc_VerificationOperationID stored = [] \<or> verification_binds stored)) (conflict ''phase evidence'')
        (io_bind (track_still_pins dv i t (tc_AcceptedTrack stored)) (\<lambda>pinned.
          io_require pinned (conflict ''Track evidence'') (io_return ()))))"

definition historical_replay :: "taskCompletionContract \<Rightarrow> TaskExecutionPhase \<Rightarrow> error" where
  "historical_replay stored p = first_error
     [fail_if (tc_VerificationOperationID stored \<noteq> [] \<or> tc_VerificationAttemptRevision stored \<noteq> 0)
        (conflict ''phase evidence''),
      (case if is_historical p then phase_envelope p else None of
         None \<Rightarrow> Some (conflict ''phase evidence'')
       | Some v \<Rightarrow> fail_if (he_SchemaVersion v \<noteq> 1 \<or> he_Mode v \<noteq> ''historical''
            \<or> he_IntegrationHead v \<noteq> ph_Head p \<or> he_IntegrationHead v \<noteq> tc_IntegrationHead stored
            \<or> err_of (ParseJournalID (he_Evidence v)) \<noteq> None \<or> profile_commits v \<noteq> None) (conflict ''phase evidence''))]"

definition taskCompleteReplay ::
  "driver \<Rightarrow> TaskCompleteInput \<Rightarrow> TaskAuthoring \<Rightarrow> TaskExecutionState option \<Rightarrow> TaskExecutionPhase list
   \<Rightarrow> TaskLifecycleEvent \<Rightarrow> TaskCompleteOutput io" where
  "taskCompleteReplay dv i t found phases e =
     (case decodeStrict contract_fields zero_contract (te_Contract e) of
        None \<Rightarrow> io_error ''Task completion contract is corrupt''
      | Some stored \<Rightarrow>
          io_check (first_error
            [fail_if (te_Contract e \<noteq> json_contract stored)
               ''Task completion contract is not canonical; evidence reconciliation is required'',
             fail_if (\<not> same_contract stored (request_contract i t))
               ''Task completion request conflicts with the recorded completion contract; evidence reconciliation is required'',
             fail_if (\<not> event_binds i t (json_contract stored) e) (conflict ''lifecycle event'')])
          (if tci_Mode i = ''non_code'' then
             io_require (tc_IntegrationHead stored = [] \<and> tc_VerificationOperationID stored = []
                 \<and> tc_VerificationAttemptRevision stored = 0 \<and> found = None \<and> phases = [])
               (conflict ''execution evidence'') (io_return (completed i t))
           else io_require (ValidateCommitSHA (tc_IntegrationHead stored) = None)
               ''Task completion contract does not carry a valid integration commit; evidence reconciliation is required''
             (case (found, phases) of
                (Some s, [p]) \<Rightarrow>
                  io_require (execution_binds i t stored s p) (conflict ''execution evidence'')
                  (io_require (\<not> time_before (te_RecordedAt e) (ph_CreatedAt p)
                      \<and> gt_ns (xs_UpdatedAt s) = gt_ns (te_RecordedAt e)) (conflict ''evidence timestamp ordering'')
                  (io_bind (if tci_Mode i = ''integrated'' then integrated_replay dv i t stored p
                            else if tci_Mode i = ''historical'' then io_check (historical_replay stored p) (io_return ())
                            else io_return ())
                     (\<lambda>_. io_return (completed i t))))
              | _ \<Rightarrow> io_error (conflict ''execution evidence''))))"

definition completion_records ::
  "driver \<Rightarrow> string \<Rightarrow> string \<Rightarrow> (TaskExecutionState option \<times> TaskExecutionPhase list) io" where
  "completion_records dv projectID key =
     io_bind (ReadTaskExecutionState dv projectID key) (\<lambda>found.
     io_bind (ReadTaskExecutionPhases dv projectID key ''integration'') (\<lambda>phases. io_return (found, phases)))"

text \<open>What another completion recorded, tried when the commit failed; every failure counts as none.\<close>

definition taskCompleteCommittedReplay :: "driver \<Rightarrow> TaskCompleteInput \<Rightarrow> TaskCompleteOutput option io" where
  "taskCompleteCommittedReplay dv i =
     io_bind (io_try
       (io_bind (ReadTaskCompletionEvent dv (tci_ProjectID i) (tci_Key i)) (\<lambda>event.
          case event of
            None \<Rightarrow> io_error []
          | Some e \<Rightarrow>
              io_bind (ReadSharedTask dv (tci_Key i)) (\<lambda>row.
                case decode_task (se_Payload row) of
                  None \<Rightarrow> io_error []
                | Some t \<Rightarrow>
                    io_require (ta_Status t = Done \<and> ta_ProjectID t = tci_ProjectID i \<and> se_Revision row = ta_Revision t
                        \<and> ValidateTaskAuthoring t = None) []
                    (io_bind (completion_records dv (tci_ProjectID i) (tci_Key i)) (\<lambda>(found, phases).
                      taskCompleteReplay dv i t found phases e))))))
       (\<lambda>r. io_return (case r of Inl _ \<Rightarrow> None | Inr out \<Rightarrow> Some out))"

section \<open>TaskComplete\<close>

text \<open>The task as it is stored, not normalised.\<close>

definition stored_task :: "driver \<Rightarrow> TaskCompleteInput \<Rightarrow> (SharedEntity \<times> TaskAuthoring) io" where
  "stored_task dv i =
     io_bind (ReadSharedTask dv (tci_Key i)) (\<lambda>row.
       case decode_task (se_Payload row) of
         None \<Rightarrow> io_error ''json: cannot unmarshal task''
       | Some t \<Rightarrow>
           io_check (first_error
             [fail_if (ta_ProjectID t \<noteq> tci_ProjectID i \<or> ta_ID t \<noteq> tci_Key i \<or> se_Revision row \<noteq> ta_Revision t)
                ''shared task ownership mismatch'',
              ValidateTaskAuthoring t,
              fail_if (ta_Status t = Archived) ''archived Task cannot be completed'',
              fail_if (128 < length (elems (ta_AcceptanceCriteria t))) ''Task has no completable acceptance criteria''])
           (io_return (row, t)))"

definition delivery_proof ::
  "nat \<Rightarrow> driver \<Rightarrow> world \<Rightarrow> evidence \<Rightarrow> (string \<Rightarrow> string \<Rightarrow> string option) \<Rightarrow> TaskCompleteInput \<Rightarrow> TaskAuthoring
   \<Rightarrow> TaskExecutionState option \<Rightarrow> TaskExecutionPhase list \<Rightarrow> cursor_registry
   \<Rightarrow> (taskCompleteIntegratedEvidence \<times> taskExecutionHistoricalPhaseEvidence \<times> cursor_registry) option io" where
  "delivery_proof fuel dv w ew extract i t found phases reg =
     (if tci_Mode i = ''non_code'' then
        io_require (found = None \<and> phases = [])
          ''non_code completion requires no Task execution or integration history''
          (io_return (Some (no_evidence, zero_envelope, reg)))
      else if tci_Mode i = ''integrated'' then
        io_bind (taskCompleteIntegratedProof fuel dv w extract t found phases reg)
          (\<lambda>r. io_return (map_option (apsnd (Pair zero_envelope)) r))
      else
        io_bind (taskCompleteHistoricalProof dv ew i t found phases)
          (\<lambda>(head, v). io_return (Some (no_evidence\<lparr>ie_Head := head\<rparr>, v, reg))))"

text \<open>The integration commit must be on the canonical branch.\<close>

definition commit_is_canonical :: "driver \<Rightarrow> world \<Rightarrow> TaskCompleteInput \<Rightarrow> string \<Rightarrow> unit io" where
  "commit_is_canonical dv w i head =
     io_bind (project_of dv w (tci_ProjectID i)) (\<lambda>project.
     io_bind (io_ask dv (\<lambda>k. g_RemoteBranchHead (w_git w) k project (default_branch project))) (\<lambda>canonical.
     io_bind (taskIntegrationCommitOnCanonical dv w project (default_branch project) head canonical) (\<lambda>present.
       io_require present ''Task integration commit is not on canonical main'' (io_return ()))))"

definition completion_contract ::
  "TaskCompleteInput \<Rightarrow> TaskAuthoring \<Rightarrow> taskCompleteIntegratedEvidence \<Rightarrow> taskCompletionContract" where
  "completion_contract i t v = (request_contract i t)\<lparr>tc_IntegrationHead := ie_Head v,
     tc_VerificationOperationID := ie_OperationID v, tc_VerificationAttemptRevision := ie_AttemptRevision v,
     tc_AcceptedTrack := ie_AcceptedTrack v\<rparr>"

definition completion_request ::
  "TaskCompleteInput \<Rightarrow> string \<Rightarrow> SharedEntity \<Rightarrow> TaskAuthoring \<Rightarrow> TaskExecutionState option \<Rightarrow> string \<Rightarrow> string
   \<Rightarrow> gotime \<Rightarrow> CommitTaskCompletionRequest" where
  "completion_request i actor row t found contract payload now =
     (let previous = (if tci_Mode i = ''non_code'' then None else found) in
      \<lparr>cq_OperationID = contract_operation i contract, cq_ProjectID = tci_ProjectID i, cq_TaskID = tci_Key i,
       cq_Revision = se_Revision row, cq_PreviousTaskPayload = se_Payload row, cq_TaskPayload = payload,
       cq_FromStatus = ta_Status t, cq_Actor = actor, cq_Reason = tci_Reason i, cq_Contract = contract,
       cq_ContractSHA256 = sha256_hex contract, cq_RecordedAt = now, cq_PreviousExecution = previous,
       cq_FinalExecution = map_option (\<lambda>s. s\<lparr>xs_Status := ''done'',
         xs_ExecutionRevision := wrap_int (xs_ExecutionRevision s + 1), xs_UpdatedAt := now\<rparr>) previous\<rparr>)"

text \<open>The commit of a proved completion.\<close>

definition commit_completion ::
  "driver \<Rightarrow> world \<Rightarrow> TaskCompleteInput \<Rightarrow> string \<Rightarrow> SharedEntity \<Rightarrow> TaskAuthoring \<Rightarrow> TaskExecutionState option
   \<Rightarrow> TaskExecutionPhase list \<Rightarrow> string \<Rightarrow> TaskCompleteOutput io" where
  "commit_completion dv w i actor row t found phases contract =
     io_bind (io_now dv w) (\<lambda>now.
       let final = t\<lparr>ta_Status := Done, ta_UpdatedAt := now, ta_ReadySeal := None\<rparr> in
       io_check (first_error
         [fail_if (tci_Mode i \<noteq> ''non_code'' \<and> length phases = 1 \<and> time_before now (ph_CreatedAt (hd phases)))
            (conflict ''evidence timestamp ordering''),
          ValidateTaskAuthoring final])
       (io_bind (io_value (json_TaskAuthoring final)) (\<lambda>payload.
        io_bind (io_try (CommitTaskCompletion dv (completion_request i actor row t found contract payload now)))
          (\<lambda>r. case r of
             Inr _ \<Rightarrow> io_return (completed i t)
           | Inl e \<Rightarrow> io_bind (taskCompleteCommittedReplay dv i) (\<lambda>replay.
               case replay of Some out \<Rightarrow> io_return out | None \<Rightarrow> io_fail e)))))"

text \<open>A task that is not done yet: the proofs in the order of the code, then the commit.\<close>

definition complete_open_task ::
  "nat \<Rightarrow> driver \<Rightarrow> world \<Rightarrow> evidence \<Rightarrow> (string \<Rightarrow> string \<Rightarrow> string option) \<Rightarrow> TaskCompleteInput \<Rightarrow> string \<Rightarrow> string
   \<Rightarrow> SharedEntity \<Rightarrow> TaskAuthoring \<Rightarrow> TaskExecutionState option \<Rightarrow> TaskExecutionPhase list \<Rightarrow> cursor_registry
   \<Rightarrow> (TaskCompleteOutput \<times> cursor_registry) option io" where
  "complete_open_task fuel dv w ew extract i actor projectCode row t found phases reg =
     io_bind (delivery_proof fuel dv w ew extract i t found phases reg) (\<lambda>r.
       case r of
         None \<Rightarrow> io_return None
       | Some (v, envelope, reg') \<Rightarrow>
           io_require (elems (ta_AcceptanceCriteria t) \<noteq> [] \<or> ie_AcceptedTrack v \<noteq> [])
             ''Task has no completable acceptance criteria''
           (io_bind (io_tell dv (\<lambda>k. ew_ReviewProof ew k (tci_ProjectID i) (tci_Review i) t projectCode)) (\<lambda>_.
            io_bind (if tci_Mode i = ''historical''
                     then io_tell dv (\<lambda>k. ew_HistoricalProof ew k (tci_ProjectID i) projectCode (tci_Key i) (ie_Head v) envelope)
                     else io_return ()) (\<lambda>_.
            io_bind (if tci_Mode i \<noteq> ''non_code'' then commit_is_canonical dv w i (ie_Head v) else io_return ()) (\<lambda>_.
            io_bind (commit_completion dv w i actor row t found phases (json_contract (completion_contract i t v)))
              (\<lambda>out. io_return (Some (out, reg'))))))))"

definition TaskComplete ::
  "nat \<Rightarrow> driver \<Rightarrow> world \<Rightarrow> evidence \<Rightarrow> (string \<Rightarrow> string \<Rightarrow> string option) \<Rightarrow> TaskCompleteInput \<Rightarrow> string
   \<Rightarrow> cursor_registry \<Rightarrow> (TaskCompleteOutput \<times> cursor_registry) option io" where
  "TaskComplete fuel dv w ew extract i actor reg =
     io_check (first_error [fail_if (rune_count actor < 1) ''Task completion requires an actor'', validateTaskCompleteInput i])
     (io_bind (requireLocalTaskAuthoring dv w (tci_ProjectID i)) (\<lambda>_.
      io_bind (stored_task dv i) (\<lambda>(row, t).
      io_bind (io_ask dv (\<lambda>k. ew_ProjectCode ew k (tci_ProjectID i))) (\<lambda>projectCode.
      io_bind (if ta_Status t = Done
               then io_tell dv (\<lambda>k. ew_ReviewProof ew k (tci_ProjectID i) (tci_Review i) t projectCode)
               else io_return ()) (\<lambda>_.
      io_bind (completion_records dv (tci_ProjectID i) (tci_Key i)) (\<lambda>(found, phases).
      io_bind (ReadTaskCompletionEvent dv (tci_ProjectID i) (tci_Key i)) (\<lambda>event.
        if ta_Status t = Done then
          (case event of
             None \<Rightarrow> io_error ''completed Task lacks its completion lifecycle event; evidence reconciliation is required''
           | Some e \<Rightarrow> io_bind (taskCompleteReplay dv i t found phases e) (\<lambda>out. io_return (Some (out, reg))))
        else if event \<noteq> None
        then io_error ''Task completion lifecycle event exists without a completed Task; evidence reconciliation is required''
        else io_require (ta_Status t = Planned \<or> ta_Status t = Ready)
               (''Task is not completable from status '' @ go_quote (ta_Status t))
             (complete_open_task fuel dv w ew extract i actor projectCode row t found phases reg))))))))"

end
