(* ===== verification/Relation_Service.thy ===== *)
theory Relation_Service
  imports Relation_Store Task_Closing
begin

text \<open>
  Relations between entities as the service offers them (\<open>service/relation.go\<close>): creation with live endpoints, lists by
  kind with the current titles, and the sugar that creates a relation together with its source.
\<close>

section \<open>Kinds and endpoints\<close>

definition relationFamilyEntityType :: "string \<Rightarrow> string option" where
  "relationFamilyEntityType family =
     (if family = ''TSK'' then Some ''task'' else if family = ''ADR'' then Some ''adr''
      else if family = ''RUL'' then Some ''rule'' else None)"

definition relationSourceIsLocal :: "string \<Rightarrow> bool" where
  "relationSourceIsLocal family \<longleftrightarrow> family = ''PMT''"

definition relationKindFamilies :: "string \<Rightarrow> string list \<times> string list" where
  "relationKindFamilies kind =
     (if kind = ''authority'' then ([''TSK'', ''ADR'', ''RUL''], [''ADR'', ''RUL''])
      else if kind = ''corrects'' then ([''TSK''], [''TSK''])
      else if kind = ''supersedes'' then ([''ADR''], [''ADR''])
      else if kind = ''concerns'' then ([''PMT''], [''TSK'', ''ADR'', ''RUL''])
      else ([], []))"

definition relationKindsForSource :: "string \<Rightarrow> string \<Rightarrow> string list" where
  "relationKindsForSource family direction =
     filter (\<lambda>kind.
       (direction = ''outgoing'' \<or> direction = ''both'') \<and> family \<in> set (fst (relationKindFamilies kind))
       \<or> (direction = ''incoming'' \<or> direction = ''both'') \<and> family \<in> set (snd (relationKindFamilies kind)))
     RelationKinds"

definition payload_text :: "(string \<rightharpoonup> json) \<Rightarrow> string \<Rightarrow> string" where
  "payload_text payload field = (case payload field of Some (J_string raw) \<Rightarrow> unquote raw | _ \<Rightarrow> [])"

definition relationLiveTitle :: "driver \<Rightarrow> string \<Rightarrow> string \<Rightarrow> string io" where
  "relationLiveTitle dv projectID ident =
     (case RelationFamilyOf ident of
        Inl m \<Rightarrow> io_error m
      | Inr family \<Rightarrow>
          (case relationFamilyEntityType family of
             None \<Rightarrow> io_error (''relation endpoint '' @ ident @ '' has no live title authority'')
           | Some entityType \<Rightarrow>
               (case RelationTitleField family of
                  Inl m \<Rightarrow> io_error m
                | Inr field \<Rightarrow>
                    io_bind (io_wrap (''relation target '' @ ident @ '' is unresolved: '') (ReadSharedEntity dv entityType ident))
                      (\<lambda>row. case decode_map (se_Payload row) of
                         None \<Rightarrow> io_error (''relation target '' @ ident @ '' is unresolved: invalid payload'')
                       | Some payload \<Rightarrow>
                           io_check (first_error
                             [fail_if (payload_text payload ''project_id'' \<noteq> projectID)
                                (''relation target '' @ ident @ '' is outside the bound project''),
                              fail_if (TrimSpace (payload_text payload field) = [])
                                (''relation target '' @ ident @ '' has no live title'')])
                           (io_return (payload_text payload field))))))"

fun firstNonEmpty :: "string list \<Rightarrow> string" where
  "firstNonEmpty [] = []"
| "firstNonEmpty (v # vs) = (if TrimSpace v \<noteq> [] then TrimSpace v else firstNonEmpty vs)"

section \<open>Creating\<close>

record RelationCreateInput =
  rci_ProjectID :: string
  rci_Source :: string
  rci_Kind :: string
  rci_Target :: string
  rci_CreatedBy :: string

record RelationCreateResult =
  rcr_Source :: string
  rcr_Kind :: string
  rcr_Target :: string
  rcr_Created :: bool

definition RelationCreate :: "driver \<Rightarrow> world \<Rightarrow> RelationCreateInput \<Rightarrow> RelationCreateResult io" where
  "RelationCreate dv w i =
     io_bind (requireLocalTaskAuthoring dv w (rci_ProjectID i)) (\<lambda>_.
     case ValidateRelationEndpoints (rci_Kind i) (rci_Source i) (rci_Target i) of
       Inl m \<Rightarrow> io_error m
     | Inr (sourceFamily, _) \<Rightarrow>
         io_bind (relationLiveTitle dv (rci_ProjectID i) (rci_Target i)) (\<lambda>_.
         io_bind (if relationSourceIsLocal sourceFamily then io_return []
                  else io_wrap ''relation source: '' (relationLiveTitle dv (rci_ProjectID i) (rci_Source i))) (\<lambda>_.
         io_bind (io_now dv w) (\<lambda>now.
         io_bind (CreateRelation dv (relationSourceIsLocal sourceFamily) (rci_ProjectID i) (rci_Kind i) (rci_Source i)
             (rci_Target i) (firstNonEmpty [rci_CreatedBy i, ''server'']) now) (\<lambda>created.
           io_return \<lparr>rcr_Source = rci_Source i, rcr_Kind = rci_Kind i, rcr_Target = rci_Target i, rcr_Created = created\<rparr>)))))"

text \<open>The builder of the extra statement that a creation commits with the new entity; none without the sugar.\<close>

definition relationCreateSugar ::
  "driver \<Rightarrow> world \<Rightarrow> string \<Rightarrow> string \<Rightarrow> string \<Rightarrow> string \<Rightarrow> string \<Rightarrow> (string \<Rightarrow> batch result) option io" where
  "relationCreateSugar dv w projectID sourceFamily relationType relationTarget createdBy =
     (if (relationType = []) \<noteq> (relationTarget = [])
      then io_error ''relation_type and relation_target must be supplied together or omitted together''
      else if relationType = [] then io_return None
      else (case RelationFamilyOf relationTarget of
          Inl m \<Rightarrow> io_error m
        | Inr targetFamily \<Rightarrow>
            io_check (ValidateRelationKindFamilies relationType sourceFamily targetFamily)
            (io_bind (relationLiveTitle dv projectID relationTarget) (\<lambda>_.
             io_bind (io_now dv w) (\<lambda>now.
               io_return (Some (\<lambda>entityID. Ok
                 [(RelationInsertStatement (relationSourceIsLocal sourceFamily) projectID relationType entityID
                     relationTarget (rfc3339_nano (to_utc now)) (firstNonEmpty [createdBy, ''server'']), 0)])))))))"

section \<open>Listing\<close>

record RelationListInput =
  rli_ProjectID :: string
  rli_Source :: string
  rli_Kind :: string
  rli_Direction :: string
  rli_Cursor :: string
  rli_Limit :: int

record RelationListResult =
  rlr_Source :: string
  rlr_Relations :: "string \<rightharpoonup> (string \<rightharpoonup> string)"
  rlr_HasMore :: bool
  rlr_NextCursor :: string

definition list_direction :: "RelationListInput \<Rightarrow> string" where
  "list_direction i = (if rli_Direction i = [] then ''outgoing'' else rli_Direction i)"

text \<open>The kinds that are listed: those the source can carry, or the one that is asked for.\<close>

definition list_kinds :: "RelationListInput \<Rightarrow> string \<Rightarrow> string list result" where
  "list_kinds i family =
     (let kinds = relationKindsForSource family (list_direction i) in
      if rli_Kind i = [] then Ok kinds
      else guard_result (first_error
        [ValidateRelationKind (rli_Kind i),
         fail_if (rli_Kind i \<notin> set kinds)
           (''relation kind '' @ go_quote (rli_Kind i) @ '' is not available for a '' @ family @ '' source in ''
            @ list_direction i @ '' direction'')]) (Ok [rli_Kind i]))"

definition list_limit :: "RelationListInput \<Rightarrow> int" where
  "list_limit i = (if rli_Limit i < 1 \<or> RelationListMaxRows < rli_Limit i then DefaultLimit else rli_Limit i)"

definition list_scope :: "RelationListInput \<Rightarrow> string" where
  "list_scope i = ''relation-list:'' @ rli_ProjectID i @ '':'' @ rli_Source i @ '':'' @ rli_Kind i @ '':'' @ list_direction i"

definition list_position :: "RelationListInput \<Rightarrow> cursor_registry \<Rightarrow> (string \<times> string \<times> string) result" where
  "list_position i reg =
     (if rli_Cursor i = [] then Ok ([], [], [])
      else (case DecodeOpaqueKeyset reg (rli_Cursor i) (list_scope i) of
          Inl m \<Rightarrow> Err m
        | Inr decoded \<Rightarrow>
            (case split_on nul decoded of
               [kind, other, direction] \<Rightarrow> Ok (kind, other, direction)
             | _ \<Rightarrow> Err ''invalid relation cursor'')))"

text \<open>The titles of the listed entities, by kind.\<close>

fun add_titles ::
  "driver \<Rightarrow> string \<Rightarrow> RelationRow list \<Rightarrow> (string \<rightharpoonup> (string \<rightharpoonup> string)) \<Rightarrow> (string \<rightharpoonup> (string \<rightharpoonup> string)) io" where
  "add_titles dv projectID [] m = io_return m"
| "add_titles dv projectID (v # vs) m =
     io_bind (relationLiveTitle dv projectID (rw_Other v)) (\<lambda>title.
       add_titles dv projectID vs
         (m(rw_Kind v \<mapsto> (case m (rw_Kind v) of None \<Rightarrow> Map.empty | Some bucket \<Rightarrow> bucket)(rw_Other v \<mapsto> title))))"

definition position_key :: "RelationRow \<Rightarrow> string" where
  "position_key v = rw_Kind v @ [nul] @ rw_Other v @ [nul] @ rw_Direction v"

text \<open>The page that is shown, and the registry with the cursor of its last row when more follow.\<close>

definition shown_page :: "RelationListInput \<Rightarrow> RelationRow list \<Rightarrow> cursor_registry \<Rightarrow> RelationRow list \<times> bool \<times> string \<times> cursor_registry" where
  "shown_page i rows reg =
     (if int (length rows) \<le> list_limit i then (rows, False, [], reg)
      else let shown = take (nat (list_limit i)) rows;
             (cursor, reg') = EncodeOpaqueKeyset (list_scope i) (position_key (last shown)) reg
        in (shown, True, cursor, reg'))"

definition RelationList ::
  "driver \<Rightarrow> world \<Rightarrow> RelationListInput \<Rightarrow> cursor_registry \<Rightarrow> (RelationListResult \<times> cursor_registry) io" where
  "RelationList dv w i reg =
     io_bind (requireLocalTaskAuthoring dv w (rli_ProjectID i)) (\<lambda>_.
     io_check (fail_if (list_direction i \<notin> {''outgoing'', ''incoming'', ''both''})
         (''invalid relation direction '' @ go_quote (list_direction i)))
     (case RelationFamilyOf (rli_Source i) of
        Inl m \<Rightarrow> io_error m
      | Inr family \<Rightarrow>
          io_bind (if relationSourceIsLocal family then io_return []
                   else io_wrap ''relation source: '' (relationLiveTitle dv (rli_ProjectID i) (rli_Source i))) (\<lambda>_.
          io_bind (io_value (list_kinds i family)) (\<lambda>kinds.
          io_bind (io_value (list_position i reg)) (\<lambda>(afterKind, afterOther, afterDirection).
            if kinds = [] then io_return (\<lparr>rlr_Source = rli_Source i, rlr_Relations = Map.empty, rlr_HasMore = False,
              rlr_NextCursor = []\<rparr>, reg)
            else
              io_bind (ListRelationPage dv (relationSourceIsLocal family) (rli_ProjectID i) (rli_Source i) kinds
                (list_direction i) afterKind afterOther afterDirection (list_limit i)) (\<lambda>rows.
              case shown_page i rows reg of
                (shown, further, cursor, reg') \<Rightarrow>
                  io_bind (add_titles dv (rli_ProjectID i) shown Map.empty) (\<lambda>relations.
                    io_return (\<lparr>rlr_Source = rli_Source i, rlr_Relations = relations, rlr_HasMore = further,
                      rlr_NextCursor = cursor\<rparr>, reg'))))))))"

text \<open>All outgoing relations of an entity; more than one page is an error.\<close>

definition RelationProjection ::
  "driver \<Rightarrow> world \<Rightarrow> string \<Rightarrow> string \<Rightarrow> cursor_registry \<Rightarrow> ((string \<rightharpoonup> (string \<rightharpoonup> string)) \<times> cursor_registry) io" where
  "RelationProjection dv w projectID entityID reg =
     (case RelationFamilyOf entityID of
        Inl m \<Rightarrow> io_error m
      | Inr family \<Rightarrow>
          if relationSourceIsLocal family
          then io_error (''relation projection is unavailable for a '' @ family @ '' entity'')
          else io_bind (RelationList dv w \<lparr>rli_ProjectID = projectID, rli_Source = entityID, rli_Kind = [],
              rli_Direction = ''outgoing'', rli_Cursor = [], rli_Limit = RelationListMaxRows\<rparr> reg) (\<lambda>(v, reg').
            io_require (\<not> rlr_HasMore v)
              (''relation projection for '' @ entityID @ '' exceeds the bounded relation limit'')
              (io_return (rlr_Relations v, reg'))))"

end
