(* ===== verification/Adr.thy ===== *)
theory Adr
  imports Relation_Service
begin

text \<open>
  Architecture decision records: the record and its validation (\<open>internal/model\<close>), and the reading, listing and
  creation of ADRs in the Shared database (\<open>internal/service/shared_adr.go\<close>, \<open>adr_revisioned.go\<close>). A creation
  with a relation to another entity is not modelled: the requests here name none.
\<close>

section \<open>The record\<close>

record ADR =
  dr_SchemaVersion :: int
  dr_ID :: string
  dr_ProjectID :: string
  dr_Revision :: int
  dr_RevisionCount :: int
  dr_Title :: string
  dr_Summary :: string
  dr_Status :: string
  dr_Context :: string
  dr_Decision :: string
  dr_Consequences :: string
  dr_Supersedes :: string
  dr_CreatedBy :: string
  dr_CreatedAt :: gotime
  dr_UpdatedBy :: string
  dr_UpdatedAt :: gotime
  dr_LastReason :: string
  dr_ArchivedAt :: "gotime option"
  dr_ArchivedBy :: string
  dr_ArchiveReason :: string
  dr_ReplacedBy :: string

definition zero_ADR :: ADR where
  "zero_ADR = \<lparr>dr_SchemaVersion = 0, dr_ID = [], dr_ProjectID = [], dr_Revision = 0, dr_RevisionCount = 0, dr_Title = [],
     dr_Summary = [], dr_Status = [], dr_Context = [], dr_Decision = [], dr_Consequences = [], dr_Supersedes = [],
     dr_CreatedBy = [], dr_CreatedAt = zero_time, dr_UpdatedBy = [], dr_UpdatedAt = zero_time, dr_LastReason = [],
     dr_ArchivedAt = None, dr_ArchivedBy = [], dr_ArchiveReason = [], dr_ReplacedBy = []\<rparr>"

definition adr_fields :: "(string \<times> ADR field_decoder) list" where
  "adr_fields =
     [(''schema_version'', dec_int64 (\<lambda>x r. r\<lparr>dr_SchemaVersion := x\<rparr>)),
      (''id'', dec_string (\<lambda>x r. r\<lparr>dr_ID := x\<rparr>)),
      (''project_id'', dec_string (\<lambda>x r. r\<lparr>dr_ProjectID := x\<rparr>)),
      (''revision'', dec_int64 (\<lambda>x r. r\<lparr>dr_Revision := x\<rparr>)),
      (''revision_count'', dec_int64 (\<lambda>x r. r\<lparr>dr_RevisionCount := x\<rparr>)),
      (''title'', dec_string (\<lambda>x r. r\<lparr>dr_Title := x\<rparr>)),
      (''summary'', dec_string (\<lambda>x r. r\<lparr>dr_Summary := x\<rparr>)),
      (''status'', dec_string (\<lambda>x r. r\<lparr>dr_Status := x\<rparr>)),
      (''context'', dec_string (\<lambda>x r. r\<lparr>dr_Context := x\<rparr>)),
      (''decision'', dec_string (\<lambda>x r. r\<lparr>dr_Decision := x\<rparr>)),
      (''consequences'', dec_string (\<lambda>x r. r\<lparr>dr_Consequences := x\<rparr>)),
      (''supersedes'', dec_string (\<lambda>x r. r\<lparr>dr_Supersedes := x\<rparr>)),
      (''created_by'', dec_string (\<lambda>x r. r\<lparr>dr_CreatedBy := x\<rparr>)),
      (''created_at'', dec_time dr_CreatedAt (\<lambda>x r. r\<lparr>dr_CreatedAt := x\<rparr>)),
      (''updated_by'', dec_string (\<lambda>x r. r\<lparr>dr_UpdatedBy := x\<rparr>)),
      (''updated_at'', dec_time dr_UpdatedAt (\<lambda>x r. r\<lparr>dr_UpdatedAt := x\<rparr>)),
      (''last_reason'', dec_string (\<lambda>x r. r\<lparr>dr_LastReason := x\<rparr>)),
      (''archived_at'', dec_pointer decode_time zero_time dr_ArchivedAt (\<lambda>x r. r\<lparr>dr_ArchivedAt := x\<rparr>)),
      (''archived_by'', dec_string (\<lambda>x r. r\<lparr>dr_ArchivedBy := x\<rparr>)),
      (''archive_reason'', dec_string (\<lambda>x r. r\<lparr>dr_ArchiveReason := x\<rparr>)),
      (''replaced_by'', dec_string (\<lambda>x r. r\<lparr>dr_ReplacedBy := x\<rparr>))]"

definition decode_adr :: "string \<Rightarrow> ADR option" where
  "decode_adr payload = json_Unmarshal adr_fields zero_ADR payload"

text \<open>\<open>omitempty\<close> does not omit a \<open>time.Time\<close>.\<close>

definition json_adr :: "ADR \<Rightarrow> string result" where
  "json_adr v =
     (case (json_time (dr_CreatedAt v), json_time (dr_UpdatedAt v),
            case dr_ArchivedAt v of None \<Rightarrow> Ok [] | Some at \<Rightarrow> map_sum id (\<lambda>s. [(''archived_at'', s)]) (json_time at)) of
        (Inr created, Inr updated, Inr archived) \<Rightarrow> Ok (json_object
          (json_field ''schema_version'' (dec_int (dr_SchemaVersion v))
           @ json_field ''id'' (json_string (dr_ID v))
           @ json_field ''project_id'' (json_string (dr_ProjectID v))
           @ json_omit (dr_Revision v = 0) ''revision'' (dec_int (dr_Revision v))
           @ json_omit (dr_RevisionCount v = 0) ''revision_count'' (dec_int (dr_RevisionCount v))
           @ json_field ''title'' (json_string (dr_Title v))
           @ json_omit (dr_Summary v = []) ''summary'' (json_string (dr_Summary v))
           @ json_field ''status'' (json_string (dr_Status v))
           @ json_field ''context'' (json_string (dr_Context v))
           @ json_field ''decision'' (json_string (dr_Decision v))
           @ json_field ''consequences'' (json_string (dr_Consequences v))
           @ json_omit (dr_Supersedes v = []) ''supersedes'' (json_string (dr_Supersedes v))
           @ json_omit (dr_CreatedBy v = []) ''created_by'' (json_string (dr_CreatedBy v))
           @ json_field ''created_at'' created
           @ json_omit (dr_UpdatedBy v = []) ''updated_by'' (json_string (dr_UpdatedBy v))
           @ json_field ''updated_at'' updated
           @ json_omit (dr_LastReason v = []) ''last_reason'' (json_string (dr_LastReason v))
           @ archived
           @ json_omit (dr_ArchivedBy v = []) ''archived_by'' (json_string (dr_ArchivedBy v))
           @ json_omit (dr_ArchiveReason v = []) ''archive_reason'' (json_string (dr_ArchiveReason v))
           @ json_omit (dr_ReplacedBy v = []) ''replaced_by'' (json_string (dr_ReplacedBy v))))
      | _ \<Rightarrow> Err ''json: error calling MarshalJSON for type time.Time'')"

section \<open>Validation\<close>

definition ADRTitleMaxRunes :: nat where "ADRTitleMaxRunes = 128"
definition ADRLegacyTitleMaxRunes :: nat where "ADRLegacyTitleMaxRunes = 300"
definition ADRSummaryMaxRunes :: nat where "ADRSummaryMaxRunes = 256"
definition MaxDeferredReasonBytes :: nat where "MaxDeferredReasonBytes = 1024"

definition optional_adr :: "string \<Rightarrow> string \<Rightarrow> error" where
  "optional_adr prefix s = (if s = [] then None else wrap_err prefix (validateAnyADRIdentifier s))"

definition archived_adr :: "ADR \<Rightarrow> error" where
  "archived_adr v = first_error
     [fail_if ((case dr_ArchivedAt v of None \<Rightarrow> True | Some at \<Rightarrow> IsZero at) \<or> dr_ArchivedBy v = []
          \<or> ContainsAny (dr_ArchivedBy v) nul_cr_lf) ''invalid archived ADR metadata'',
      fail_if (dr_ArchiveReason v = [] \<or> MaxDeferredReasonBytes < length (dr_ArchiveReason v)
          \<or> ContainsAny (dr_ArchiveReason v) nul_cr_lf) ''invalid archived ADR reason'',
      fail_if (dr_ReplacedBy v = dr_ID v) ''archived ADR cannot replace itself'']"

definition validateADR :: "ADR \<Rightarrow> bool \<Rightarrow> nat \<Rightarrow> error" where
  "validateADR v requireSummary titleMaxRunes = first_error
     [fail_if (dr_SchemaVersion v \<noteq> SchemaVersion \<or> \<not> rx_seq idRE (dr_ProjectID v)) ''invalid ADR identity'',
      validateAnyADRIdentifier (dr_ID v),
      optional_adr ''invalid supersedes: '' (dr_Supersedes v),
      optional_adr ''invalid replaced_by: '' (dr_ReplacedBy v),
      fail_if (rune_count (dr_Title v) < 3 \<or> titleMaxRunes < rune_count (dr_Title v)
          \<or> 100000 < length (dr_Context v) \<or> 100000 < length (dr_Decision v) \<or> 100000 < length (dr_Consequences v))
        ''invalid ADR content'',
      fail_if ((requireSummary \<and> TrimSpace (dr_Summary v) = []) \<or> ADRSummaryMaxRunes < rune_count (dr_Summary v))
        ''invalid ADR summary'',
      fail_if (\<not> List.member [''proposed'', ''accepted'', ''superseded'', ''archived''] (dr_Status v)) ''invalid ADR status'',
      (if dr_Status v = ''archived'' then archived_adr v else None)]"

definition ValidateADR :: "ADR \<Rightarrow> error" where
  "ValidateADR v = validateADR v True ADRTitleMaxRunes"

definition ValidateADRRevision :: "ADR \<Rightarrow> bool \<Rightarrow> error" where
  "ValidateADRRevision v historical =
     (if historical then validateADR v False ADRLegacyTitleMaxRunes else validateADR v True ADRTitleMaxRunes)"

definition normalizeADR :: "ADR \<Rightarrow> ADR" where
  "normalizeADR v =
     (let v = v\<lparr>dr_Status := (if dr_Status v = [] then ''accepted'' else dr_Status v),
                dr_Revision := (if dr_Revision v = 0 then 1 else dr_Revision v)\<rparr>;
          v = v\<lparr>dr_RevisionCount := (if dr_RevisionCount v < dr_Revision v then dr_Revision v else dr_RevisionCount v),
                dr_CreatedBy := (if dr_CreatedBy v = [] then ''migration'' else dr_CreatedBy v)\<rparr>;
          v = v\<lparr>dr_UpdatedBy := (if dr_UpdatedBy v = [] then dr_CreatedBy v else dr_UpdatedBy v),
                dr_UpdatedAt := (if IsZero (dr_UpdatedAt v) then dr_CreatedAt v else dr_UpdatedAt v),
                dr_LastReason := (if dr_LastReason v = [] then ''init'' else dr_LastReason v)\<rparr> in
      if dr_Status v \<noteq> ''archived'' then v
      else v\<lparr>dr_ArchivedAt := (if dr_ArchivedAt v = None \<and> \<not> IsZero (dr_UpdatedAt v) then Some (dr_UpdatedAt v)
                               else dr_ArchivedAt v),
             dr_ArchivedBy := (if dr_ArchivedBy v = [] then dr_UpdatedBy v else dr_ArchivedBy v),
             dr_ArchiveReason := (if dr_ArchiveReason v = [] then dr_LastReason v else dr_ArchiveReason v)\<rparr>)"

section \<open>Reading\<close>

definition stored_adr :: "string \<Rightarrow> string \<Rightarrow> ADR io" where
  "stored_adr prefix payload = (case decode_adr payload of None \<Rightarrow> io_error prefix | Some v \<Rightarrow> io_return v)"

definition readSharedADR :: "driver \<Rightarrow> world \<Rightarrow> string \<Rightarrow> string \<Rightarrow> ADR io" where
  "readSharedADR dv w projectID i =
     io_bind (requireLocalTaskAuthoring dv w projectID) (\<lambda>_.
     io_bind (ReadSharedEntity dv ''adr'' i) (\<lambda>row.
     io_bind (stored_adr (''decode shared ADR '' @ i) (se_Payload row)) (\<lambda>v.
       io_require (dr_ID v = i \<and> dr_ProjectID v = projectID) ''shared ADR ownership mismatch''
       (io_check (ValidateADR (normalizeADR v)) (io_return (normalizeADR v))))))"

text \<open>A page of ADRs; an undecodable or foreign row fails the page.\<close>

definition listed_adr :: "string \<Rightarrow> SharedEntity \<Rightarrow> ADR result" where
  "listed_adr projectID row =
     (case decode_adr (se_Payload row) of
        None \<Rightarrow> Err (''decode shared ADR '' @ se_ID row)
      | Some v \<Rightarrow> guard_result (first_error
          [fail_if (dr_ProjectID v \<noteq> projectID \<or> dr_ID v \<noteq> se_ID row) ''shared ADR identity mismatch'',
           ValidateADR (normalizeADR v)]) (Ok (normalizeADR v)))"

fun all_results :: "('a \<Rightarrow> 'b result) \<Rightarrow> 'a list \<Rightarrow> 'b list result" where
  "all_results f [] = Ok []"
| "all_results f (x # xs) =
     (case f x of Inl m \<Rightarrow> Err m | Inr y \<Rightarrow> map_sum id (Cons y) (all_results f xs))"

record sharedADRPage =
  al_ADRs :: "ADR list"
  al_NextCursor :: string
  al_HasMore :: bool
  al_CursorKind :: string

definition status_filter :: "string \<Rightarrow> (string \<times> string) list" where
  "status_filter status = (if status = [] then [] else [(''status'', status)])"

definition querySharedADRs ::
  "driver \<Rightarrow> world \<Rightarrow> (string \<Rightarrow> string \<Rightarrow> string option) \<Rightarrow> string \<Rightarrow> string \<Rightarrow> string \<Rightarrow> bool \<Rightarrow> int \<Rightarrow> string
   \<Rightarrow> cursor_registry \<Rightarrow> (sharedADRPage \<times> cursor_registry) io" where
  "querySharedADRs dv w extract projectID query status includeArchived limit cursor reg =
     (let archived = includeArchived \<or> status = ''archived'' \<or> status = ''superseded'' in
      io_bind (requireLocalTaskAuthoring dv w projectID) (\<lambda>_.
      io_bind (QuerySharedLifecycle dv extract
          \<lparr>lq_EntityType = ''adr'', lq_ProjectID = projectID, lq_Text = query, lq_Filters = Some (status_filter status),
           lq_IncludeArchived = archived, lq_ExcludeSuperseded = (archived \<and> status = []), lq_ExcludeDone = False,
           lq_Limit = limit, lq_Cursor = cursor\<rparr> reg) (\<lambda>(page, reg').
        case all_results (listed_adr projectID) (qp_Entities page) of
          Inl m \<Rightarrow> io_error m
        | Inr items \<Rightarrow> io_return (\<lparr>al_ADRs = items, al_NextCursor = qp_NextCursor page, al_HasMore = qp_HasMore page,
                           al_CursorKind = qp_CursorKind page\<rparr>, reg'))))"

definition ADRQuery ::
  "driver \<Rightarrow> world \<Rightarrow> (string \<Rightarrow> string \<Rightarrow> string option) \<Rightarrow> string \<Rightarrow> string \<Rightarrow> string \<Rightarrow> bool \<Rightarrow> string \<Rightarrow> cursor_registry
   \<Rightarrow> (sharedADRPage \<times> cursor_registry) io" where
  "ADRQuery dv w extract project query status includeArchived cursor reg =
     io_check (ValidateProjectIdentifier project)
     (let st = TrimSpace status in
      io_require (st = [] \<or> List.member [''proposed'', ''accepted'', ''superseded'', ''archived''] st)
        ''invalid ADR status filter''
        (querySharedADRs dv w extract project (ascii_lower (TrimSpace query)) st includeArchived
           (int SharedLifecycleQueryMaxRows) cursor reg))"

definition parseADRSelector :: "string \<Rightarrow> int \<Rightarrow> (string \<times> int) result" where
  "parseADRSelector value revision =
     guard_result (first_error
       [fail_if (Contains value '':'') ''ADR revision selectors must use the separate revision field'',
        fail_if (ValidateADRIdentifier value \<noteq> None \<and> ValidateCanonicalADRIdentifier value \<noteq> None)
          ''invalid ADR identifier'']) (Ok (value, revision))"

definition parseADRTime :: "string \<Rightarrow> gotime" where
  "parseADRTime s = (case parse_rfc3339 s of None \<Rightarrow> zero_time | Some t \<Rightarrow> t)"

text \<open>A stored revision takes author, reason and time from its history row.\<close>

definition revision_adr :: "ADR \<Rightarrow> SharedRevisionRecord \<Rightarrow> ADR" where
  "revision_adr v r =
     (let actor = TrimSpace (sr_Actor r); reason = TrimSpace (sr_Reason r); at = parseADRTime (sr_RecordedAt r) in
      v\<lparr>dr_Revision := sr_Revision r, dr_RevisionCount := sr_Revision r,
        dr_UpdatedBy := (if actor \<noteq> [] then actor else dr_UpdatedBy v),
        dr_LastReason := (if reason \<noteq> [] then reason else dr_LastReason v),
        dr_UpdatedAt := (if IsZero at then dr_UpdatedAt v else at)\<rparr>)"

definition ADRReadRevision :: "driver \<Rightarrow> world \<Rightarrow> string \<Rightarrow> string \<Rightarrow> int \<Rightarrow> ADR io" where
  "ADRReadRevision dv w project selector revision =
     (case parseADRSelector selector revision of
        Inl m \<Rightarrow> io_error m
      | Inr (i, requested) \<Rightarrow>
          if requested = 0 then
            (if no_durability dv then io_error ''ADR Shared durability is unavailable'' else readSharedADR dv w project i)
          else if no_durability dv then io_error ''revisioned ADR reads require Shared durability''
          else io_bind (requireLocalTaskAuthoring dv w project) (\<lambda>_.
            io_bind (ReadSharedRevision dv ''adr'' project i requested) (\<lambda>record.
            io_bind (stored_adr (''decode ADR revision '' @ i @ '':'' @ dec_int requested) (sr_Payload record)) (\<lambda>v.
              let v = normalizeADR v in
              io_require (sr_Revision record = requested \<and> dr_ID v = i \<and> dr_ProjectID v = project)
                ''ADR revision identity mismatch''
              (io_check (ValidateADRRevision (revision_adr v record) True) (io_return (revision_adr v record)))))))"

record ADRHistoryEntry =
  ah_Key :: string
  ah_ProjectID :: string
  ah_Revision :: int
  ah_MutationKind :: string
  ah_Actor :: string
  ah_Reason :: string
  ah_ChangedFields :: "string list option"
  ah_RecordedAt :: gotime

record ADRHistoryResult =
  hq_Key :: string
  hq_ProjectID :: string
  hq_Items :: "ADRHistoryEntry list"
  hq_NextCursor :: string
  hq_HasMore :: bool
  hq_CursorKind :: string

definition history_entry :: "string \<Rightarrow> string \<Rightarrow> SharedRevisionRecord \<Rightarrow> ADRHistoryEntry result" where
  "history_entry project i r =
     guard_result (fail_if (sr_EntityID r \<noteq> i \<or> sr_ProjectID r \<noteq> project) ''ADR history ownership mismatch'')
       (Ok \<lparr>ah_Key = i, ah_ProjectID = project, ah_Revision = sr_Revision r, ah_MutationKind = sr_MutationKind r,
            ah_Actor = sr_Actor r, ah_Reason = sr_Reason r,
            ah_ChangedFields = (case elems (sr_ChangedFields r) of [] \<Rightarrow> None | fs \<Rightarrow> Some fs),
            ah_RecordedAt = parseADRTime (sr_RecordedAt r)\<rparr>)"

text \<open>The position behind which a page of the history starts.\<close>

definition history_position :: "string \<Rightarrow> string \<Rightarrow> string \<Rightarrow> cursor_registry \<Rightarrow> SharedLifecycleHistoryCursor result" where
  "history_position m kind cursor reg =
     (if cursor = [] then Ok zero_cursor
      else case DecodeOpaqueKeyset reg cursor kind of
        Inl _ \<Rightarrow> Err m
      | Inr key \<Rightarrow> (case DecodeSharedLifecycleHistoryCursor key of Inl _ \<Rightarrow> Err m | Inr c \<Rightarrow> Ok c))"

definition ADRHistoryPage ::
  "driver \<Rightarrow> world \<Rightarrow> string \<Rightarrow> string \<Rightarrow> string \<Rightarrow> bool \<Rightarrow> cursor_registry \<Rightarrow> ADRHistoryResult io" where
  "ADRHistoryPage dv w project selector cursor backwards reg =
     (case parseADRSelector selector 0 of
        Inl m \<Rightarrow> io_error m
      | Inr (i, _) \<Rightarrow>
          if no_durability dv then io_error ''ADR history requires Shared durability''
          else io_bind (requireLocalTaskAuthoring dv w project) (\<lambda>_.
            let kind = ''adr-history:'' @ project @ '':'' @ i in
            case history_position ''invalid ADR history cursor'' kind cursor reg of
              Inl m \<Rightarrow> io_error m
            | Inr after \<Rightarrow>
                io_bind (ListSharedLifecycleHistoryPage dv ''adr'' project i after (int SharedLifecycleQueryMaxRows))
                (\<lambda>page.
                  case all_results (history_entry project i) (hp_Records page) of
                    Inl m \<Rightarrow> io_error m
                  | Inr items \<Rightarrow> io_return
                      \<lparr>hq_Key = i, hq_ProjectID = project, hq_Items = (if backwards then rev items else items),
                       hq_NextCursor = (if hp_HasMore page then hp_NextCursor page else []),
                       hq_HasMore = hp_HasMore page, hq_CursorKind = kind\<rparr>)))"

section \<open>Changing an ADR\<close>

text \<open>The result of an operation, without the hub transaction, which is empty here.\<close>

record OperationResult =
  op_OperationID :: string
  op_ProjectID :: string
  op_TaskID :: string
  op_EntityKey :: string
  op_Revision :: int
  op_Status :: string

definition entity_result :: "string \<Rightarrow> string \<Rightarrow> string \<Rightarrow> int \<Rightarrow> string \<Rightarrow> OperationResult" where
  "entity_result operationID projectID key revision status =
     \<lparr>op_OperationID = operationID, op_ProjectID = projectID, op_TaskID = [], op_EntityKey = key, op_Revision = revision,
      op_Status = status\<rparr>"

definition created_adr :: "ADR \<Rightarrow> string \<Rightarrow> gotime \<Rightarrow> ADR" where
  "created_adr v adrID now = v\<lparr>dr_SchemaVersion := SchemaVersion, dr_ID := adrID, dr_CreatedAt := to_utc now,
     dr_Revision := 1, dr_RevisionCount := 1, dr_UpdatedAt := zero_time, dr_LastReason := ''create''\<rparr>"

text \<open>Unmarshalling into \<open>created\<close> again, whose values stay where the payload has no member.\<close>

definition build_adr :: "ADR \<Rightarrow> gotime \<Rightarrow> string \<Rightarrow> (string \<times> ADR) result" where
  "build_adr v now adrID =
     (let c = created_adr v adrID now in
      case json_adr c of
        Inl m \<Rightarrow> Err m
      | Inr raw \<Rightarrow>
          (case ApplySharedLifecycleCreateDefaults ''adr'' raw of
             Inl m \<Rightarrow> Err m
           | Inr payload \<Rightarrow>
               (case json_Unmarshal adr_fields c payload of
                  None \<Rightarrow> Err ''json: cannot unmarshal ADR''
                | Some decoded \<Rightarrow> guard_result (ValidateADR decoded) (Ok (payload, decoded)))))"

definition json_adr_create :: "ADR \<Rightarrow> string \<Rightarrow> string \<Rightarrow> string \<Rightarrow> string result" where
  "json_adr_create v relationType relationTarget expectedHub = map_sum id (\<lambda>a. json_object
     (json_field ''adr'' a
      @ json_omit (relationType = []) ''relation_type'' (json_string relationType)
      @ json_omit (relationTarget = []) ''relation_target'' (json_string relationTarget)
      @ json_field ''expected_hub_revision'' (json_string expectedHub))) (json_adr v)"

text \<open>
  The operation and the identifier of the new ADR. The clock is read once for all attempts.
\<close>

definition adrCreateShared ::
  "driver \<Rightarrow> world \<Rightarrow> ADR \<Rightarrow> string \<Rightarrow> string \<Rightarrow> string \<Rightarrow> (string \<times> string) io" where
  "adrCreateShared dv w v relationType relationTarget expectedHub =
     io_bind (requireLocalTaskAuthoring dv w (dr_ProjectID v)) (\<lambda>_.
     io_bind (io_replace (''project '' @ go_quote (dr_ProjectID v) @ '' has no local project code'')
         (io_bind (project_of dv w (dr_ProjectID v)) (\<lambda>p.
            io_require (ValidateProjectCode (pc_ProjectCode p) = None) [] (io_return (pc_ProjectCode p))))) (\<lambda>code.
     io_bind (if w_operation w \<noteq> [] then io_return (w_operation w)
              else io_bind (io_value (json_adr_create v relationType relationTarget expectedHub))
                (\<lambda>raw. io_return (''adr-shared-'' @ sha256_hex raw)))
       (\<lambda>operationID.
     io_bind (relationCreateSugar dv w (dr_ProjectID v) ''ADR'' relationType relationTarget (dr_CreatedBy v)) (\<lambda>extra.
     io_bind (io_now dv w) (\<lambda>now.
     io_bind (CommitSharedLifecycleCreate dv
         \<lparr>lc_OperationID = operationID, lc_EntityType = ''adr'', lc_ProjectID = dr_ProjectID v, lc_ProjectCode = code,
          lc_InitialNextNumber = 1, lc_Kind = ''adr-create'', lc_HistoryMutationKind = ''create'',
          lc_Actor = firstNonEmpty [dr_CreatedBy v, ''server''], lc_Reason = ''create'',
          lc_ChangedFields = Some [''title'', ''summary'', ''context'', ''decision'', ''consequences''],
          lc_CreatedAt = to_utc now, lc_BuildPayload = Some (\<lambda>adrID. map_sum id fst (build_adr v now adrID)),
          lc_ExtraStatements = extra\<rparr>) (\<lambda>(receipt, key, payload).
       io_return (operationID, key)))))))"

record ADRUpdateInput =
  ui_ProjectID :: string
  ui_ADRID :: string
  ui_Title :: "string option"
  ui_Summary :: "string option"
  ui_Context :: "string option"
  ui_Decision :: "string option"
  ui_Consequences :: "string option"
  ui_Status :: "string option"
  ui_ExpectedRevision :: int
  ui_Reason :: string
  ui_UpdatedBy :: string

definition json_optional :: "string \<Rightarrow> string option \<Rightarrow> (string \<times> string) list" where
  "json_optional k v = (case v of None \<Rightarrow> [] | Some s \<Rightarrow> [(k, json_string s)])"

definition json_adr_update :: "ADRUpdateInput \<Rightarrow> string" where
  "json_adr_update i = json_object
     (json_field ''project_id'' (json_string (ui_ProjectID i)) @ json_field ''key'' (json_string (ui_ADRID i))
      @ json_optional ''title'' (ui_Title i) @ json_optional ''summary'' (ui_Summary i)
      @ json_optional ''context'' (ui_Context i) @ json_optional ''decision'' (ui_Decision i)
      @ json_optional ''consequences'' (ui_Consequences i) @ json_optional ''status'' (ui_Status i)
      @ json_field ''reason'' (json_string (ui_Reason i)) @ json_field ''updated_by'' (json_string (ui_UpdatedBy i)))"

record ADRArchiveInput =
  ri_ProjectID :: string
  ri_ADRID :: string
  ri_ExpectedRevision :: int
  ri_Reason :: string
  ri_ArchivedBy :: string

definition json_adr_archive :: "ADRArchiveInput \<Rightarrow> string" where
  "json_adr_archive i = json_object
     (json_field ''project_id'' (json_string (ri_ProjectID i)) @ json_field ''key'' (json_string (ri_ADRID i))
      @ json_field ''reason'' (json_string (ri_Reason i)) @ json_field ''archived_by'' (json_string (ri_ArchivedBy i)))"

text \<open>The operation of a durable worker, or a digest of the request, which leaves out the expected revision.\<close>

definition adrRevisionOperationID :: "world \<Rightarrow> string \<Rightarrow> string \<Rightarrow> string" where
  "adrRevisionOperationID w kind input =
     (if w_operation w \<noteq> [] then w_operation w else ''adr-'' @ sha256_hex (kind @ '':'' @ input))"

definition validADRMutationReason :: "string \<Rightarrow> bool" where
  "validADRMutationReason reason \<longleftrightarrow> TrimSpace reason \<noteq> [] \<and> length reason \<le> 1024 \<and> \<not> ContainsAny reason nul_cr_lf"

text \<open>A revision without a history row gets one from the ADR as it is stored.\<close>

definition adrHistorySeed ::
  "driver \<Rightarrow> string \<Rightarrow> string \<Rightarrow> int \<Rightarrow> ADR \<Rightarrow> string \<Rightarrow> SharedHistorySeed option io" where
  "adrHistorySeed dv projectID adrID revision previous payload =
     io_bind (io_try (ReadSharedRevision dv ''adr'' projectID adrID revision)) (\<lambda>r.
       case r of
         Inr _ \<Rightarrow> io_return None
       | Inl (NotExist _) \<Rightarrow>
           (let at = (if IsZero (dr_UpdatedAt previous) then dr_CreatedAt previous else dr_UpdatedAt previous) in
            io_require (\<not> IsZero at) (''ADR '' @ adrID @ '' has no historical timestamp'')
              (io_return (Some
                \<lparr>hs_Revision = revision, hs_MutationKind = ''migration'',
                 hs_Actor = firstNonEmpty [dr_UpdatedBy previous, dr_CreatedBy previous, ''migration''],
                 hs_Reason = firstNonEmpty [dr_LastReason previous, ''migration''],
                 hs_ChangedFields = Some [''migration''], hs_Payload = payload,
                 hs_RecordedAt = rfc3339_nano (to_utc at)\<rparr>)))
       | Inl e \<Rightarrow> io_fail e)"

definition adrLifecycleContract :: "ADR \<Rightarrow> ADR \<Rightarrow> string \<Rightarrow> string \<Rightarrow> int \<Rightarrow> string" where
  "adrLifecycleContract previous current previousPayload payload expectedRevision = json_object
     (json_field ''expected_revision'' (dec_int expectedRevision) @ json_field ''revision'' (dec_int (dr_Revision current))
      @ json_field ''from_status'' (json_string (dr_Status previous)) @ json_field ''to_status'' (json_string (dr_Status current))
      @ json_field ''previous_sha256'' (json_string (sha256_hex previousPayload))
      @ json_field ''payload_sha256'' (json_string (sha256_hex payload)))"

text \<open>The ADR an operation starts from: the row and its normalised record.\<close>

definition adr_for_change :: "driver \<Rightarrow> string \<Rightarrow> string \<Rightarrow> (SharedEntity \<times> ADR) io" where
  "adr_for_change dv projectID i =
     io_bind (ReadSharedEntity dv ''adr'' i) (\<lambda>row.
     io_bind (stored_adr ''json: cannot unmarshal ADR'' (se_Payload row)) (\<lambda>v.
       io_require (dr_ProjectID v = projectID \<and> dr_ID v = i) ''ADR ownership mismatch''
         (io_return (row, normalizeADR v))))"

definition revision_conflict :: "int \<Rightarrow> ADR \<Rightarrow> error" where
  "revision_conflict expected v = fail_if (dr_Revision v \<noteq> expected)
     (''ADR revision conflict expected='' @ dec_int expected @ '' actual='' @ dec_int (dr_Revision v))"

definition patched :: "string option \<Rightarrow> string \<Rightarrow> string" where
  "patched p old = (case p of None \<Rightarrow> old | Some s \<Rightarrow> s)"

definition patched_adr :: "ADRUpdateInput \<Rightarrow> ADR \<Rightarrow> ADR" where
  "patched_adr i v = v\<lparr>dr_Title := patched (ui_Title i) (dr_Title v), dr_Summary := patched (ui_Summary i) (dr_Summary v),
     dr_Context := patched (ui_Context i) (dr_Context v), dr_Decision := patched (ui_Decision i) (dr_Decision v),
     dr_Consequences := patched (ui_Consequences i) (dr_Consequences v), dr_Status := patched (ui_Status i) (dr_Status v)\<rparr>"

definition changed_field :: "string \<Rightarrow> string option \<Rightarrow> string \<Rightarrow> string list" where
  "changed_field field p old = (if patched p old \<noteq> old then [field] else [])"

definition changedADRFields :: "ADRUpdateInput \<Rightarrow> ADR \<Rightarrow> string list" where
  "changedADRFields i v = changed_field ''title'' (ui_Title i) (dr_Title v)
     @ changed_field ''summary'' (ui_Summary i) (dr_Summary v) @ changed_field ''context'' (ui_Context i) (dr_Context v)
     @ changed_field ''decision'' (ui_Decision i) (dr_Decision v)
     @ changed_field ''consequences'' (ui_Consequences i) (dr_Consequences v)
     @ changed_field ''status'' (ui_Status i) (dr_Status v)"

definition unchanged_adr :: "world \<Rightarrow> ADRUpdateInput \<Rightarrow> string \<Rightarrow> ADR \<Rightarrow> OperationResult" where
  "unchanged_adr w i key v =
     entity_result (adrRevisionOperationID w ''update'' (json_adr_update i)) (ui_ProjectID i) key (dr_Revision v) ''unchanged''"

text \<open>The ADR an update writes: every content change makes a revision, a change of the status alone does not.\<close>

definition updated_adr :: "ADRUpdateInput \<Rightarrow> ADR \<Rightarrow> gotime \<Rightarrow> ADR" where
  "updated_adr i previous now =
     (let v = patched_adr i previous;
          content = (v\<lparr>dr_Status := dr_Status previous\<rparr> \<noteq> previous);
          revision = (if content then wrap_int (dr_Revision v + 1) else dr_Revision v) in
      v\<lparr>dr_Revision := revision, dr_RevisionCount := revision, dr_UpdatedBy := TrimSpace (ui_UpdatedBy i),
        dr_UpdatedAt := now, dr_LastReason := TrimSpace (ui_Reason i)\<rparr>)"

definition adr_event ::
  "string \<Rightarrow> string \<Rightarrow> string \<Rightarrow> string \<Rightarrow> string \<Rightarrow> string \<Rightarrow> int \<Rightarrow> SharedEntity \<Rightarrow> ADR \<Rightarrow> ADR \<Rightarrow> string \<Rightarrow> string list
   \<Rightarrow> SharedHistorySeed option \<Rightarrow> SharedLifecycleEventRequest" where
  "adr_event operationID projectID key kind eventKind historyKind expected row previous current payload changed seed =
     \<lparr>eq_OperationID = operationID, eq_EntityType = ''adr'', eq_ProjectID = projectID, eq_EntityID = key,
      eq_ExpectedRevision = expected, eq_ExpectedStoreRevision = se_Revision row, eq_ExpectedPayload = se_Payload row,
      eq_Revision = dr_Revision current, eq_Kind = kind, eq_EventKind = eventKind, eq_HistoryMutationKind = historyKind,
      eq_FromStatus = dr_Status previous, eq_ToStatus = dr_Status current, eq_Payload = payload,
      eq_Actor = dr_UpdatedBy current, eq_Reason = dr_LastReason current, eq_ChangedFields = changed,
      eq_Contract = adrLifecycleContract previous current (se_Payload row) payload expected,
      eq_CreatedAt = dr_UpdatedAt current, eq_PreviousHistory = seed, eq_ExtraStatements = []\<rparr>"

definition adr_revision ::
  "string \<Rightarrow> string \<Rightarrow> string \<Rightarrow> int \<Rightarrow> SharedEntity \<Rightarrow> ADR \<Rightarrow> string \<Rightarrow> string list \<Rightarrow> SharedHistorySeed option
   \<Rightarrow> SharedLifecycleRevision" where
  "adr_revision operationID projectID key expected row current payload changed seed =
     \<lparr>lr_OperationID = operationID, lr_EntityType = ''adr'', lr_ProjectID = projectID, lr_EntityID = key,
      lr_ExpectedRevision = expected, lr_ExpectedStoreRevision = se_Revision row, lr_Revision = dr_Revision current,
      lr_Kind = ''adr-update'', lr_HistoryMutationKind = ''update'', lr_Payload = payload, lr_Actor = dr_UpdatedBy current,
      lr_Reason = dr_LastReason current, lr_ChangedFields = Some changed, lr_CreatedAt = dr_UpdatedAt current,
      lr_PreviousHistory = seed\<rparr>"

text \<open>The commit of an update: a change of the status is an event, a change of the content alone a revision.\<close>

definition commit_adr_update ::
  "driver \<Rightarrow> world \<Rightarrow> ADRUpdateInput \<Rightarrow> string \<Rightarrow> SharedEntity \<Rightarrow> ADR \<Rightarrow> ADR \<Rightarrow> OperationResult io" where
  "commit_adr_update dv w i key row previous current =
     io_check (ValidateADR current)
     (io_bind (io_value (json_adr current)) (\<lambda>payload.
      io_bind (adrHistorySeed dv (ui_ProjectID i) key (ui_ExpectedRevision i) previous (se_Payload row)) (\<lambda>seed.
        let operationID = adrRevisionOperationID w ''update'' (json_adr_update i) in
        io_bind (if dr_Status current \<noteq> dr_Status previous
                 then io_bind (CommitSharedLifecycleEvent dv (adr_event operationID (ui_ProjectID i) key ''adr-update''
                        ''status'' ''status'' (ui_ExpectedRevision i) row previous current payload
                        (changedADRFields i previous) seed)) (\<lambda>_. io_return ())
                 else io_bind (CommitSharedLifecycleRevision dv (adr_revision operationID (ui_ProjectID i) key
                        (ui_ExpectedRevision i) row current payload (changedADRFields i previous) seed)) (\<lambda>_. io_return ()))
          (\<lambda>_. io_return (entity_result operationID (ui_ProjectID i) key (dr_Revision current) ''updated'')))))"

definition ADRUpdate :: "driver \<Rightarrow> world \<Rightarrow> ADRUpdateInput \<Rightarrow> OperationResult io" where
  "ADRUpdate dv w i =
     io_check (fail_if (no_durability dv) ''ADR update requires Shared durability'')
     (io_bind (requireLocalTaskAuthoring dv w (ui_ProjectID i)) (\<lambda>_.
      io_check (first_error
        [fail_if (ui_ExpectedRevision i < 1 \<or> \<not> validADRMutationReason (ui_Reason i) \<or> TrimSpace (ui_UpdatedBy i) = [])
           ''ADR update requires expected_revision, reason, and updated_by'',
         fail_if (ui_Title i = None \<and> ui_Summary i = None \<and> ui_Context i = None \<and> ui_Decision i = None
             \<and> ui_Consequences i = None \<and> ui_Status i = None)
           ''ADR update requires at least one mutable content field''])
      (case parseADRSelector (ui_ADRID i) 0 of
         Inl m \<Rightarrow> io_error m
       | Inr (key, _) \<Rightarrow>
           io_bind (adr_for_change dv (ui_ProjectID i) key) (\<lambda>(row, previous).
             io_check (first_error
               [ValidateADR previous, revision_conflict (ui_ExpectedRevision i) previous,
                fail_if (dr_Status previous = ''archived'') ''archived ADR cannot be updated''])
             (if patched_adr i previous = previous then io_return (unchanged_adr w i key previous)
              else io_bind (io_now dv w) (\<lambda>now.
                commit_adr_update dv w i key row previous (updated_adr i previous (to_utc now))))))))"

definition archive_adr :: "ADRArchiveInput \<Rightarrow> ADR \<Rightarrow> gotime \<Rightarrow> ADR" where
  "archive_adr i v now = v\<lparr>dr_Status := ''archived'', dr_RevisionCount := dr_Revision v,
     dr_UpdatedBy := TrimSpace (ri_ArchivedBy i), dr_UpdatedAt := now, dr_LastReason := TrimSpace (ri_Reason i),
     dr_ArchivedAt := Some now, dr_ArchivedBy := TrimSpace (ri_ArchivedBy i), dr_ArchiveReason := TrimSpace (ri_Reason i)\<rparr>"

definition ADRArchive :: "driver \<Rightarrow> world \<Rightarrow> ADRArchiveInput \<Rightarrow> OperationResult io" where
  "ADRArchive dv w i =
     io_check (fail_if (no_durability dv) ''ADR archive requires Shared durability'')
     (io_bind (requireLocalTaskAuthoring dv w (ri_ProjectID i)) (\<lambda>_.
      io_check (fail_if (ri_ExpectedRevision i < 1 \<or> \<not> validADRMutationReason (ri_Reason i) \<or> TrimSpace (ri_ArchivedBy i) = [])
        ''ADR archive requires expected_revision, reason, and archived_by'')
      (case parseADRSelector (ri_ADRID i) 0 of
         Inl m \<Rightarrow> io_error m
       | Inr (key, _) \<Rightarrow>
           io_bind (adr_for_change dv (ri_ProjectID i) key) (\<lambda>(row, previous).
             io_check (first_error
               [revision_conflict (ri_ExpectedRevision i) previous,
                fail_if (dr_Status previous = ''archived'') ''ADR already archived''])
             (io_bind (io_now dv w) (\<lambda>now.
                let current = archive_adr i previous (to_utc now);
                    operationID = adrRevisionOperationID w ''archive'' (json_adr_archive i) in
                io_check (ValidateADR current)
                (io_bind (io_value (json_adr current)) (\<lambda>payload.
                 io_bind (adrHistorySeed dv (ri_ProjectID i) key (ri_ExpectedRevision i) previous (se_Payload row)) (\<lambda>seed.
                 io_bind (CommitSharedLifecycleEvent dv (adr_event operationID (ri_ProjectID i) key ''adr-archive''
                     ''archive'' ''archive'' (ri_ExpectedRevision i) row previous current payload
                     [''status'', ''archived_at'', ''archived_by'', ''archive_reason''] seed)) (\<lambda>_.
                   io_return (entity_result operationID (ri_ProjectID i) key (dr_Revision current) ''archived'')))))))))))"

definition ADRUpdateCurrent :: "driver \<Rightarrow> world \<Rightarrow> ADRUpdateInput \<Rightarrow> OperationResult io" where
  "ADRUpdateCurrent dv w i = io_bind (readSharedADR dv w (ui_ProjectID i) (ui_ADRID i)) (\<lambda>v.
     ADRUpdate dv w (i\<lparr>ui_ExpectedRevision := dr_Revision v\<rparr>))"

definition ADRArchiveCurrent :: "driver \<Rightarrow> world \<Rightarrow> ADRArchiveInput \<Rightarrow> OperationResult io" where
  "ADRArchiveCurrent dv w i = io_bind (readSharedADR dv w (ri_ProjectID i) (ri_ADRID i)) (\<lambda>v.
     ADRArchive dv w (i\<lparr>ri_ExpectedRevision := dr_Revision v\<rparr>))"

end
