(* ===== verification/Task_Service.thy ===== *)
theory Task_Service
  imports Adr
begin

text \<open>
  The life of a task outside its execution, as the service offers it: creation, editing, sealing, archiving, listing
  and history (\<open>internal/service/task_authoring_shared_shared_task.go\<close>, \<open>task_authoring_shared_shared_task_core.go\<close>
  and \<open>task_lifecycle.go\<close>). A creation may name an entity that the task is to be related to; the relation is then created with it.
  The operation id of \<open>TaskLifecycleCreate\<close> and \<open>TaskLifecycleUpdate\<close> is a clock reading and stands as an argument.
\<close>

section \<open>Reading tasks\<close>

definition sharedTaskProjectCode :: "driver \<Rightarrow> world \<Rightarrow> string \<Rightarrow> string io" where
  "sharedTaskProjectCode dv w projectID =
     io_bind (requireLocalTaskAuthoring dv w projectID) (\<lambda>_.
     io_bind (project_of dv w projectID) (\<lambda>project.
       if ValidateProjectCode (pc_ProjectCode project) = None then io_return (pc_ProjectCode project)
       else io_bind (ReadSharedSequence dv ''task'' projectID) (\<lambda>found.
         case found of
           Some (code, _) \<Rightarrow>
             io_require (ValidateProjectCode code = None)
               (''project '' @ go_quote projectID @ '' has no local project code'') (io_return code)
         | None \<Rightarrow> io_error (''project '' @ go_quote projectID @ '' has no local project code''))))"

definition readAnySharedTask :: "driver \<Rightarrow> world \<Rightarrow> string \<Rightarrow> TaskAuthoring io" where
  "readAnySharedTask dv w taskID =
     io_bind (ReadSharedTask dv taskID) (\<lambda>row.
       case decode_task (se_Payload row) of
         None \<Rightarrow> io_error (''decode shared task '' @ taskID)
       | Some t \<Rightarrow>
           io_require (ta_ID t = taskID) ''shared task identity mismatch''
           (io_bind (requireLocalTaskAuthoring dv w (ta_ProjectID t)) (\<lambda>_.
             io_check (ValidateTaskAuthoring t) (io_return (DefaultTaskType_of t)))))"

text \<open>
  All entities of a project, page by page behind the last row of the page before; a row seen twice counts once.
  The loop has no bound of its own: it has fuel, and running out of it is \<open>None\<close>.
\<close>

definition decode_owner :: "string \<Rightarrow> string option" where
  "decode_owner payload = json_Unmarshal [(''project_id'', dec_string (\<lambda>x _. x))] [] payload"

fun sharedProjectEntitiesFromPage ::
  "string \<Rightarrow> string \<Rightarrow> SharedEntity list \<Rightarrow> string list \<Rightarrow> (SharedEntity list \<times> string list) result" where
  "sharedProjectEntitiesFromPage entityType projectID [] seen = Ok ([], seen)"
| "sharedProjectEntitiesFromPage entityType projectID (row # rows) seen =
     (if List.member seen (se_ID row) then sharedProjectEntitiesFromPage entityType projectID rows seen
      else case decode_owner (se_Payload row) of
        None \<Rightarrow> Err (''decode shared '' @ entityType @ '' '' @ se_ID row)
      | Some owner \<Rightarrow> map_sum id (apfst (\<lambda>rest. if owner = projectID then row # rest else rest))
          (sharedProjectEntitiesFromPage entityType projectID rows (se_ID row # seen)))"

definition entity_page_size :: int where "entity_page_size = 1000"

fun sharedProjectEntities ::
  "nat \<Rightarrow> driver \<Rightarrow> string \<Rightarrow> string \<Rightarrow> string \<Rightarrow> string \<Rightarrow> string list \<Rightarrow> SharedEntity list option io" where
  "sharedProjectEntities 0 dv entityType projectID afterUpdatedAt afterID seen = io_return None"
| "sharedProjectEntities (Suc fuel) dv entityType projectID afterUpdatedAt afterID seen =
     io_bind (ListSharedEntitiesAfter dv entityType afterUpdatedAt afterID entity_page_size) (\<lambda>page.
       case sharedProjectEntitiesFromPage entityType projectID page seen of
         Inl m \<Rightarrow> io_error m
       | Inr (found, seen') \<Rightarrow>
           if int (length page) < entity_page_size then io_return (Some found)
           else io_bind (sharedProjectEntities fuel dv entityType projectID (se_UpdatedAt (last page)) (se_ID (last page)) seen')
             (\<lambda>rest. io_return (map_option ((@) found) rest)))"

definition listed_task :: "string \<Rightarrow> SharedEntity \<Rightarrow> TaskAuthoring option result" where
  "listed_task projectID row =
     (case decode_task (se_Payload row) of
        None \<Rightarrow> Err (''decode shared task '' @ se_ID row)
      | Some t \<Rightarrow>
          if ta_ProjectID t \<noteq> projectID then Ok None
          else guard_result (first_error
            [fail_if (ta_ID t \<noteq> se_ID row) ''shared task identity mismatch'', ValidateTaskAuthoring t])
            (Ok (Some (DefaultTaskType_of t))))"

text \<open>The newest first; \<open>sort.Slice\<close> leaves the order of equal times open, here it is that of the rows.\<close>

definition sharedTaskAuthoringAll :: "nat \<Rightarrow> driver \<Rightarrow> world \<Rightarrow> string \<Rightarrow> TaskAuthoring list option io" where
  "sharedTaskAuthoringAll fuel dv w projectID =
     io_bind (requireLocalTaskAuthoring dv w projectID) (\<lambda>_.
     io_bind (sharedProjectEntities fuel dv ''task'' projectID [] [] []) (\<lambda>found.
       case found of
         None \<Rightarrow> io_return None
       | Some rows \<Rightarrow>
           (case all_results (listed_task projectID) rows of
              Inl m \<Rightarrow> io_error m
            | Inr ts \<Rightarrow> io_return (Some (sort_key (\<lambda>t. - gt_ns (ta_UpdatedAt t)) (List.map_filter id ts))))))"

definition taskHasNonterminalExecutionShared :: "driver \<Rightarrow> string \<Rightarrow> string \<Rightarrow> bool io" where
  "taskHasNonterminalExecutionShared dv projectID taskID =
     (if no_durability dv then io_return False
      else io_bind (ReadTaskExecutionState dv projectID taskID) (\<lambda>found.
        io_return (case found of None \<Rightarrow> False | Some s \<Rightarrow> IsTaskExecutionNonTerminal (xs_Status s))))"

section \<open>Creating\<close>

record TaskAuthoringCreateInput =
  ki_ProjectID :: string
  ki_Draft :: AuthoringDraft
  ki_CreatedBy :: string
  ki_RelationType :: string
  ki_RelationTarget :: string

definition task_result :: "string \<Rightarrow> TaskAuthoring \<Rightarrow> OperationResult" where
  "task_result operationID t =
     \<lparr>op_OperationID = operationID, op_ProjectID = ta_ProjectID t, op_TaskID = ta_ID t, op_EntityKey = [],
      op_Revision = 0, op_Status = ta_Status t\<rparr>"

text \<open>The input has no execution field: the draft it becomes has the empty one.\<close>

definition create_draft :: "TaskAuthoringCreateInput \<Rightarrow> AuthoringDraft" where
  "create_draft i = (ki_Draft i)\<lparr>ad_Execution := [],
     ad_ADRRelation := (if ad_ADRRelation (ki_Draft i) = [] then ''no_adr_required'' else ad_ADRRelation (ki_Draft i))\<rparr>"

definition build_task :: "TaskAuthoringCreateInput \<Rightarrow> gotime \<Rightarrow> string \<Rightarrow> string result" where
  "build_task i now taskID =
     (case NewTask (ki_ProjectID i) taskID (create_draft i) (ki_CreatedBy i) now of
        Inl m \<Rightarrow> Err m | Inr t \<Rightarrow> json_TaskAuthoring t)"

text \<open>
  The task of the result is that of the stored payload; members it lacks stay as in the payload built last, which
  has the same members, so decoding starts from the zero value here. The clock is read once for all attempts.
\<close>

definition taskAuthoringCreateShared ::
  "driver \<Rightarrow> world \<Rightarrow> string \<Rightarrow> TaskAuthoringCreateInput \<Rightarrow> (TaskAuthoring \<times> OperationResult) io" where
  "taskAuthoringCreateShared dv w operationID i =
     io_bind (requireLocalTaskAuthoring dv w (ki_ProjectID i)) (\<lambda>_.
     io_check (first_error
       [fail_if (ki_CreatedBy i = [] \<or> ContainsAny (ki_CreatedBy i) nul_cr_lf) ''created_by is required'',
        ValidateDraft (create_draft i)])
     (io_bind (sharedTaskProjectCode dv w (ki_ProjectID i)) (\<lambda>code.
      io_bind (relationCreateSugar dv w (ki_ProjectID i) ''TSK'' (ki_RelationType i) (ki_RelationTarget i) (ki_CreatedBy i)) (\<lambda>extra.
      io_bind (io_now dv w) (\<lambda>now.
      io_bind (CommitSharedLifecycleCreate dv
          \<lparr>lc_OperationID = operationID, lc_EntityType = ''task'', lc_ProjectID = ki_ProjectID i, lc_ProjectCode = code,
           lc_InitialNextNumber = 0, lc_Kind = ''task-create'', lc_HistoryMutationKind = ''create'',
           lc_Actor = ki_CreatedBy i, lc_Reason = ''create'', lc_ChangedFields = Some [''create''], lc_CreatedAt = now,
           lc_BuildPayload = Some (build_task i now), lc_ExtraStatements = extra\<rparr>) (\<lambda>(_, _, payload).
        case decode_task payload of
          None \<Rightarrow> io_error ''json: cannot unmarshal task''
        | Some t \<Rightarrow> io_return (t, task_result operationID t)))))))"

section \<open>Editing\<close>

record TaskAuthoringUpdateInput =
  fi_ProjectID :: string
  fi_TaskID :: string
  fi_ExpectedRevision :: int
  fi_ExpectedRevisionSHA256 :: string
  fi_Patch :: AuthoringPatch
  fi_UpdatedBy :: string
  fi_Reason :: string

text \<open>The input has no execution field: the patch it becomes leaves that one alone.\<close>

definition update_patch :: "TaskAuthoringUpdateInput \<Rightarrow> AuthoringPatch" where
  "update_patch i = (fi_Patch i)\<lparr>ap_Execution := None\<rparr>"

definition named_if :: "'a option \<Rightarrow> string \<Rightarrow> string list" where
  "named_if v name = (if v = None then [] else [name])"

definition patch_names :: "AuthoringPatch \<Rightarrow> string list" where
  "patch_names p = named_if (ap_Type p) ''type'' @ named_if (ap_Scope p) ''scope'' @ named_if (ap_Title p) ''title''
     @ named_if (ap_Summary p) ''summary'' @ named_if (ap_Objective p) ''objective''
     @ named_if (ap_AcceptanceCriteria p) ''acceptance_criteria'' @ named_if (ap_Constraints p) ''constraints''
     @ named_if (ap_Priority p) ''priority'' @ named_if (ap_Dependencies p) ''dependencies''
     @ named_if (ap_PreparationReferences p) ''preparation_references'' @ named_if (ap_Metadata p) ''metadata''
     @ named_if (ap_ADRRelation p) ''adr_relation'' @ named_if (ap_ADRReferences p) ''adr_references''"

definition taskAuthoringChangedFields :: "TaskAuthoringUpdateInput \<Rightarrow> string list" where
  "taskAuthoringChangedFields i = (case patch_names (fi_Patch i) of [] \<Rightarrow> [''content''] | ns \<Rightarrow> ns)"

definition update_revision ::
  "string \<Rightarrow> TaskAuthoringUpdateInput \<Rightarrow> string \<Rightarrow> TaskAuthoring \<Rightarrow> string \<Rightarrow> SharedEntity \<Rightarrow> gotime \<Rightarrow> SharedLifecycleRevision" where
  "update_revision operationID i reason t payload row now =
     \<lparr>lr_OperationID = operationID, lr_EntityType = ''task'', lr_ProjectID = ta_ProjectID t, lr_EntityID = ta_ID t,
      lr_ExpectedRevision = fi_ExpectedRevision i, lr_ExpectedStoreRevision = se_Revision row, lr_Revision = ta_Revision t,
      lr_Kind = ''update'', lr_HistoryMutationKind = ''update'', lr_Payload = payload, lr_Actor = fi_UpdatedBy i,
      lr_Reason = reason, lr_ChangedFields = Some (taskAuthoringChangedFields i), lr_CreatedAt = now,
      lr_PreviousHistory = None\<rparr>"

text \<open>The execution is looked up twice, before and after the task is read.\<close>

definition taskAuthoringUpdateShared ::
  "driver \<Rightarrow> world \<Rightarrow> string \<Rightarrow> TaskAuthoringUpdateInput \<Rightarrow> (TaskAuthoring \<times> OperationResult) io" where
  "taskAuthoringUpdateShared dv w operationID i =
     io_bind (requireLocalTaskAuthoring dv w (fi_ProjectID i)) (\<lambda>_.
     io_check (first_error
       [fail_if (TrimSpace (fi_Reason i) = []) ''Task update reason is required'',
        fail_if (patch_names (fi_Patch i) = []) ''at least one mutable Task field is required''])
     (io_bind (ReadTaskExecutionState dv (fi_ProjectID i) (fi_TaskID i)) (\<lambda>found.
      io_check (fail_if (case found of None \<Rightarrow> False | Some s \<Rightarrow> IsTaskExecutionNonTerminal (xs_Status s))
        (''Task '' @ go_quote (fi_TaskID i) @ '' cannot be updated while execution is nonterminal''))
      (io_bind (readSharedTask dv (fi_ProjectID i) (fi_TaskID i)) (\<lambda>current.
       io_check (CheckRevision current (fi_ExpectedRevision i) (fi_ExpectedRevisionSHA256 i))
       (io_bind (taskHasNonterminalExecutionShared dv (fi_ProjectID i) (fi_TaskID i)) (\<lambda>admitted.
        io_check (fail_if admitted
          (''ready Task '' @ go_quote (fi_TaskID i) @ '' owns a nonterminal execution and cannot be edited''))
        (io_bind (io_now dv w) (\<lambda>now.
         case UpdateTask current (update_patch i) (fi_UpdatedBy i) now of
           Inl m \<Rightarrow> io_error m
         | Inr (t, changed) \<Rightarrow>
             if \<not> changed then io_return (current, task_result operationID current)
             else io_bind (io_value (json_TaskAuthoring t)) (\<lambda>payload.
               io_bind (ReadSharedTask dv (ta_ID t)) (\<lambda>row.
               io_bind (io_now dv w) (\<lambda>at.
               io_bind (CommitSharedLifecycleRevision dv
                   (update_revision operationID i (TrimSpace (fi_Reason i)) t payload row at)) (\<lambda>_.
                 io_return (t, task_result operationID t))))))))))))))"

section \<open>Sealing\<close>

record TaskAuthoringReadyInput =
  yi_ProjectID :: string
  yi_TaskID :: string
  yi_ExpectedRevision :: int
  yi_ExpectedRevisionSHA256 :: string
  yi_ReadyBy :: string

fun accepted_adrs :: "driver \<Rightarrow> string \<Rightarrow> string list \<Rightarrow> unit io" where
  "accepted_adrs dv projectID [] = io_return ()"
| "accepted_adrs dv projectID (i # ids) =
     io_bind (io_wrap (''ADR '' @ go_quote i @ '' is unavailable in Shared: '') (ReadSharedEntity dv ''adr'' i)) (\<lambda>row.
     io_bind (stored_adr (''decode shared ADR '' @ go_quote i) (se_Payload row)) (\<lambda>v.
       io_check (first_error
         [fail_if (dr_ProjectID v \<noteq> projectID \<or> dr_Status v \<noteq> ''accepted'')
            (''ADR '' @ go_quote i @ '' is not an accepted ADR for project '' @ go_quote projectID),
          wrap_err (''ADR '' @ go_quote i @ '' is invalid: '') (ValidateADR v)])
       (accepted_adrs dv projectID ids)))"

definition validateAuthoringADRReferencesShared :: "driver \<Rightarrow> TaskAuthoring \<Rightarrow> unit io" where
  "validateAuthoringADRReferencesShared dv t =
     (if ta_ADRRelation t = ''no_adr_required'' then io_return ()
      else accepted_adrs dv (ta_ProjectID t) (elems (ta_ADRReferences t)))"

definition dependency_integrated :: "driver \<Rightarrow> string \<Rightarrow> string \<Rightarrow> bool io" where
  "dependency_integrated dv projectID i =
     io_bind (ReadTaskExecutionState dv projectID i) (\<lambda>found.
       if (case found of None \<Rightarrow> False | Some s \<Rightarrow> xs_Status s = ''integrated'' \<or> xs_Status s = ''done'') then io_return True
       else io_bind (ReadTaskCompletionEvent dv projectID i) (\<lambda>event. io_return (event \<noteq> None)))"

fun dependencies_integrated :: "driver \<Rightarrow> string \<Rightarrow> string \<Rightarrow> string list \<Rightarrow> unit io" where
  "dependencies_integrated dv projectID taskID [] = io_return ()"
| "dependencies_integrated dv projectID taskID (i # ids) =
     io_bind (dependency_integrated dv projectID i) (\<lambda>integrated.
       io_require integrated (''dependency-not-integrated: Task '' @ go_quote taskID @ '' depends on '' @ go_quote i
           @ '' without canonical integrated implementation'')
         (dependencies_integrated dv projectID taskID ids))"

definition validateTaskDependenciesShared :: "driver \<Rightarrow> string \<Rightarrow> TaskAuthoring \<Rightarrow> unit io" where
  "validateTaskDependenciesShared dv projectID t =
     dependencies_integrated dv projectID (ta_ID t) (elems (ta_Dependencies t))"

definition seal_mutation :: "string \<Rightarrow> int \<Rightarrow> TaskAuthoring \<Rightarrow> string \<Rightarrow> gotime \<Rightarrow> SharedMutation" where
  "seal_mutation operationID expected t payload now =
     \<lparr>mu_OperationID = operationID, mu_EntityType = ''task'', mu_EntityID = ta_ID t, mu_ExpectedRevision = expected,
      mu_Revision = ta_Revision t, mu_Kind = ''task-authoring-ready'', mu_Payload = payload, mu_CreatedAt = now,
      mu_Create = False, mu_AllowSameRevision = True\<rparr>"

definition taskAuthoringReadyShared ::
  "driver \<Rightarrow> world \<Rightarrow> string \<Rightarrow> TaskAuthoringReadyInput \<Rightarrow> (TaskAuthoring \<times> OperationResult) io" where
  "taskAuthoringReadyShared dv w operationID i =
     io_bind (requireLocalTaskAuthoring dv w (yi_ProjectID i)) (\<lambda>_.
     io_bind (readSharedTask dv (yi_ProjectID i) (yi_TaskID i)) (\<lambda>current.
     io_check (CheckRevision current (yi_ExpectedRevision i) (yi_ExpectedRevisionSHA256 i))
     (if ta_Status current = Ready then io_return (current, task_result operationID current)
      else io_bind (validateAuthoringADRReferencesShared dv current) (\<lambda>_.
       io_bind (validateTaskDependenciesShared dv (yi_ProjectID i) current) (\<lambda>_.
       io_bind (io_now dv w) (\<lambda>now.
        case ReadyTask current (yi_ReadyBy i) now of
          Inl m \<Rightarrow> io_error m
        | Inr t \<Rightarrow>
            io_bind (io_value (json_TaskAuthoring t)) (\<lambda>payload.
            io_bind (io_now dv w) (\<lambda>at.
            io_bind (CommitSharedMutation dv (seal_mutation operationID (yi_ExpectedRevision i) t payload at)) (\<lambda>_.
              io_return (t, task_result operationID t))))))))))"

section \<open>Archiving\<close>

text \<open>The time of an archiving is behind the last change of the task.\<close>

definition archive_time :: "TaskAuthoring \<Rightarrow> gotime \<Rightarrow> gotime" where
  "archive_time t now = (if time_before (ta_UpdatedAt t) now then now
     else (to_utc (ta_UpdatedAt t))\<lparr>gt_ns := gt_ns (ta_UpdatedAt t) + 1\<rparr>)"

definition json_archive_contract :: "TaskAuthoring \<Rightarrow> string \<Rightarrow> string" where
  "json_archive_contract t reason = json_object
     (json_field ''schema_version'' ''1'' @ json_field ''task_revision'' (dec_int (ta_Revision t))
      @ json_field ''task_revision_sha256'' (json_string (ta_RevisionSHA256 t))
      @ json_field ''from_status'' (json_string (ta_Status t)) @ json_field ''reason'' (json_string reason))"

definition archive_request ::
  "string \<Rightarrow> string \<Rightarrow> string \<Rightarrow> string \<Rightarrow> SharedEntity \<Rightarrow> TaskAuthoring \<Rightarrow> string \<Rightarrow> gotime \<Rightarrow> CommitTaskArchiveRequest" where
  "archive_request projectID taskID actor reason row t payload now =
     (let contract = json_archive_contract t reason in
      \<lparr>aq_OperationID = ''task-archive-'' @ contract_digest projectID taskID contract, aq_ProjectID = projectID,
       aq_TaskID = taskID, aq_Revision = se_Revision row, aq_PreviousTaskPayload = se_Payload row, aq_TaskPayload = payload,
       aq_FromStatus = ta_Status t, aq_Actor = actor, aq_Reason = reason, aq_Contract = contract, aq_RecordedAt = now\<rparr>)"

definition TaskLifecycleArchive :: "driver \<Rightarrow> world \<Rightarrow> string \<Rightarrow> string \<Rightarrow> string \<Rightarrow> string \<Rightarrow> TaskAuthoring io" where
  "TaskLifecycleArchive dv w projectID taskID actor reason =
     io_bind (requireLocalTaskAuthoring dv w projectID) (\<lambda>_.
     io_bind (ReadSharedTask dv taskID) (\<lambda>row.
       case decode_task (se_Payload row) of
         None \<Rightarrow> io_error ''json: cannot unmarshal task''
       | Some t \<Rightarrow>
           io_require (ta_ProjectID t = projectID \<and> ta_ID t = taskID) ''shared task ownership mismatch''
           (if ta_Status t = Archived then io_return t
            else io_bind (taskHasNonterminalExecutionShared dv projectID taskID) (\<lambda>admitted.
             io_check (first_error
               [fail_if admitted (''Task '' @ go_quote taskID @ '' owns a nonterminal execution and cannot be archived''),
                fail_if (ta_Status t \<noteq> Planned \<and> ta_Status t \<noteq> Ready \<and> ta_Status t \<noteq> Done)
                  (''Task '' @ go_quote taskID @ '' cannot be archived from status '' @ go_quote (ta_Status t))])
             (io_bind (io_now dv w) (\<lambda>now.
               let at = archive_time t (to_utc now);
                   final = t\<lparr>ta_Status := Archived, ta_ReadySeal := None, ta_UpdatedAt := at\<rparr> in
               io_check (ValidateTaskAuthoring final)
               (io_bind (io_value (json_TaskAuthoring final)) (\<lambda>payload.
                io_bind (CommitTaskArchive dv (archive_request projectID taskID actor reason row t payload at)) (\<lambda>_.
                  io_return final)))))))))"

section \<open>Listing and history\<close>

record TaskLifecyclePage =
  tp_Tasks :: "TaskAuthoring list"
  tp_NextCursor :: string
  tp_HasMore :: bool
  tp_CursorKind :: string

definition page_task :: "string \<Rightarrow> SharedEntity \<Rightarrow> TaskAuthoring result" where
  "page_task projectID row =
     (case decode_task (se_Payload row) of
        None \<Rightarrow> Err ''json: cannot unmarshal task''
      | Some t \<Rightarrow> guard_result (first_error
          [fail_if (ta_ID t \<noteq> se_ID row \<or> ta_ProjectID t \<noteq> projectID) ''shared task identity mismatch'',
           ValidateTaskAuthoring (DefaultTaskType_of t)]) (Ok (DefaultTaskType_of t)))"

definition TaskLifecycleListQuery ::
  "driver \<Rightarrow> world \<Rightarrow> (string \<Rightarrow> string \<Rightarrow> string option) \<Rightarrow> string \<Rightarrow> string \<Rightarrow> string \<Rightarrow> string \<Rightarrow> string \<Rightarrow> bool
   \<Rightarrow> cursor_registry \<Rightarrow> (TaskLifecyclePage \<times> cursor_registry) io" where
  "TaskLifecycleListQuery dv w extract projectID query status typ cursor includeArchived reg =
     io_bind (requireLocalTaskAuthoring dv w projectID) (\<lambda>_.
     case (if typ = [] then Ok [] else map_sum id (\<lambda>t. [(''type'', t)]) (NormalizeTaskType typ)) of
       Inl m \<Rightarrow> io_error m
     | Inr typed \<Rightarrow>
         io_bind (QuerySharedLifecycle dv extract
             \<lparr>lq_EntityType = ''task'', lq_ProjectID = projectID, lq_Text = query,
              lq_Filters = Some (status_filter status @ typed),
              lq_IncludeArchived = (includeArchived \<or> status = Archived), lq_ExcludeSuperseded = True,
              lq_ExcludeDone = (status = []), lq_Limit = int SharedLifecycleQueryMaxRows, lq_Cursor = cursor\<rparr> reg)
           (\<lambda>(page, reg').
             case all_results (page_task projectID) (qp_Entities page) of
               Inl m \<Rightarrow> io_error m
             | Inr ts \<Rightarrow> io_return (\<lparr>tp_Tasks = ts, tp_NextCursor = qp_NextCursor page, tp_HasMore = qp_HasMore page,
                              tp_CursorKind = qp_CursorKind page\<rparr>, reg')))"

definition TaskLifecycleHistory ::
  "driver \<Rightarrow> world \<Rightarrow> string \<Rightarrow> string \<Rightarrow> string \<Rightarrow> cursor_registry \<Rightarrow> SharedHistoryPage io" where
  "TaskLifecycleHistory dv w projectID taskID cursor reg =
     io_bind (requireLocalTaskAuthoring dv w projectID) (\<lambda>_.
     case history_position ''invalid task history cursor'' (''task-history:'' @ projectID @ '':'' @ taskID) cursor reg of
       Inl m \<Rightarrow> io_error m
     | Inr after \<Rightarrow>
         ListSharedLifecycleHistoryPage dv ''task'' projectID taskID after (int SharedLifecycleQueryMaxRows))"

end
