(* ===== verification/Rule_Service.thy ===== *)
theory Rule_Service
  imports Task_Service
begin

text \<open>
  Rules (\<open>service/shared_rule.go\<close>): creation, update, archive, reads of revisions, search, history, and the effective
  set that sessions acknowledge, with its digest.
\<close>

section \<open>The stored record\<close>

definition zero_Rule :: Rule where
  "zero_Rule = \<lparr>ru_SchemaVersion = 0, ru_ID = [], ru_ProjectID = [], ru_Revision = 0, ru_Title = [], ru_Summary = [],
     ru_Status = [], ru_Name = [], ru_Value = [], ru_Description = [], ru_CreatedBy = [], ru_CreatedAt = zero_time,
     ru_UpdatedBy = [], ru_UpdatedAt = zero_time, ru_LastReason = [], ru_ArchivedAt = None, ru_ArchivedBy = [],
     ru_ArchiveReason = []\<rparr>"

definition rule_fields :: "(string \<times> Rule field_decoder) list" where
  "rule_fields =
     [(''schema_version'', dec_int64 (\<lambda>x r. r\<lparr>ru_SchemaVersion := x\<rparr>)),
      (''id'', dec_string (\<lambda>x r. r\<lparr>ru_ID := x\<rparr>)),
      (''project_id'', dec_string (\<lambda>x r. r\<lparr>ru_ProjectID := x\<rparr>)),
      (''revision'', dec_int64 (\<lambda>x r. r\<lparr>ru_Revision := x\<rparr>)),
      (''title'', dec_string (\<lambda>x r. r\<lparr>ru_Title := x\<rparr>)),
      (''summary'', dec_string (\<lambda>x r. r\<lparr>ru_Summary := x\<rparr>)),
      (''status'', dec_string (\<lambda>x r. r\<lparr>ru_Status := x\<rparr>)),
      (''name'', dec_string (\<lambda>x r. r\<lparr>ru_Name := x\<rparr>)),
      (''description'', dec_string (\<lambda>x r. r\<lparr>ru_Description := x\<rparr>)),
      (''created_by'', dec_string (\<lambda>x r. r\<lparr>ru_CreatedBy := x\<rparr>)),
      (''created_at'', dec_time ru_CreatedAt (\<lambda>x r. r\<lparr>ru_CreatedAt := x\<rparr>)),
      (''updated_by'', dec_string (\<lambda>x r. r\<lparr>ru_UpdatedBy := x\<rparr>)),
      (''updated_at'', dec_time ru_UpdatedAt (\<lambda>x r. r\<lparr>ru_UpdatedAt := x\<rparr>)),
      (''last_reason'', dec_string (\<lambda>x r. r\<lparr>ru_LastReason := x\<rparr>)),
      (''archived_at'', dec_pointer decode_time zero_time ru_ArchivedAt (\<lambda>x r. r\<lparr>ru_ArchivedAt := x\<rparr>)),
      (''archived_by'', dec_string (\<lambda>x r. r\<lparr>ru_ArchivedBy := x\<rparr>)),
      (''archive_reason'', dec_string (\<lambda>x r. r\<lparr>ru_ArchiveReason := x\<rparr>))]"

text \<open>
  The value is a \<open>json.RawMessage\<close>: the bytes of the member as they stand in the payload. \<open>raw_members\<close> walks over the
  members of an object as the parser does and keeps those bytes.
\<close>

fun raw_members :: "nat \<Rightarrow> string \<Rightarrow> (string \<times> string) list" where
  "raw_members 0 s = []"
| "raw_members (Suc n) s =
     (case skip_space s of
        [] \<Rightarrow> []
      | c # t \<Rightarrow>
          (case json_string_rest t of
             None \<Rightarrow> []
           | Some u \<Rightarrow>
               let v = skip_space (drop 1 (skip_space u)) in
               (case json_value (2 * length v + 2) v of
                  None \<Rightarrow> []
                | Some (_, rest) \<Rightarrow> (unquote (butlast (taken t u)), taken v rest)
                    # (if HasPrefix (skip_space rest) '','' then raw_members n (drop 1 (skip_space rest)) else []))))"

definition raw_value :: "string \<Rightarrow> string option" where
  "raw_value payload =
     (let s = skip_space payload in
      if HasPrefix s ''{'' then
        map_option snd (find (\<lambda>(k, _). fold_name k = fold_name ''value'') (rev (raw_members (length s) (drop 1 s))))
      else None)"

definition decode_rule_into :: "Rule \<Rightarrow> string \<Rightarrow> Rule option" where
  "decode_rule_into r payload =
     (case json_Unmarshal rule_fields r payload of
        None \<Rightarrow> None
      | Some v \<Rightarrow> Some (case raw_value payload of None \<Rightarrow> v | Some raw \<Rightarrow> v\<lparr>ru_Value := raw\<rparr>))"

definition decode_rule :: "string \<Rightarrow> Rule option" where
  "decode_rule payload = decode_rule_into zero_Rule payload"

text \<open>The encoder compacts a raw message, and fails when it is not JSON.\<close>

definition json_raw :: "string \<Rightarrow> string result" where
  "json_raw raw = (case json_parse raw of None \<Rightarrow> Err ''json: error calling MarshalJSON for type json.RawMessage''
     | Some v \<Rightarrow> Ok (json_compact v))"

definition json_rule :: "Rule \<Rightarrow> string result" where
  "json_rule v =
     (case (json_time (ru_CreatedAt v), json_time (ru_UpdatedAt v),
            case ru_ArchivedAt v of None \<Rightarrow> Ok [] | Some at \<Rightarrow> map_sum id (\<lambda>s. [(''archived_at'', s)]) (json_time at),
            if ru_Value v = [] then Ok [] else map_sum id (\<lambda>s. [(''value'', s)]) (json_raw (ru_Value v))) of
        (Inr created, Inr updated, Inr archived, Inr value) \<Rightarrow> Ok (json_object
          (json_field ''schema_version'' (dec_int (ru_SchemaVersion v))
           @ json_field ''id'' (json_string (ru_ID v))
           @ json_field ''project_id'' (json_string (ru_ProjectID v))
           @ json_field ''revision'' (dec_int (ru_Revision v))
           @ json_field ''title'' (json_string (ru_Title v))
           @ json_omit (ru_Summary v = []) ''summary'' (json_string (ru_Summary v))
           @ json_field ''status'' (json_string (ru_Status v))
           @ json_omit (ru_Name v = []) ''name'' (json_string (ru_Name v))
           @ value
           @ json_omit (ru_Description v = []) ''description'' (json_string (ru_Description v))
           @ json_omit (ru_CreatedBy v = []) ''created_by'' (json_string (ru_CreatedBy v))
           @ json_field ''created_at'' created
           @ json_omit (ru_UpdatedBy v = []) ''updated_by'' (json_string (ru_UpdatedBy v))
           @ json_field ''updated_at'' updated
           @ json_omit (ru_LastReason v = []) ''last_reason'' (json_string (ru_LastReason v))
           @ archived
           @ json_omit (ru_ArchivedBy v = []) ''archived_by'' (json_string (ru_ArchivedBy v))
           @ json_omit (ru_ArchiveReason v = []) ''archive_reason'' (json_string (ru_ArchiveReason v))))
      | _ \<Rightarrow> Err ''json: error calling MarshalJSON'')"

definition normalizeRule :: "Rule \<Rightarrow> Rule" where
  "normalizeRule v =
     (let v = v\<lparr>ru_Status := (if ru_Status v = [] then ''proposed'' else ru_Status v),
                ru_Revision := (if ru_Revision v = 0 then 1 else ru_Revision v),
                ru_CreatedBy := (if ru_CreatedBy v = [] then ''migration'' else ru_CreatedBy v)\<rparr>;
          v = v\<lparr>ru_UpdatedBy := (if ru_UpdatedBy v = [] then ru_CreatedBy v else ru_UpdatedBy v),
                ru_UpdatedAt := (if IsZero (ru_UpdatedAt v) then ru_CreatedAt v else ru_UpdatedAt v),
                ru_LastReason := (if ru_LastReason v = [] then ''init'' else ru_LastReason v)\<rparr> in
      if ru_Status v \<noteq> ''archived'' then v
      else v\<lparr>ru_ArchivedAt := (if ru_ArchivedAt v = None \<and> \<not> IsZero (ru_UpdatedAt v) then Some (ru_UpdatedAt v)
                               else ru_ArchivedAt v),
             ru_ArchivedBy := (if ru_ArchivedBy v = [] then ru_UpdatedBy v else ru_ArchivedBy v),
             ru_ArchiveReason := (if ru_ArchiveReason v = [] then ru_LastReason v else ru_ArchiveReason v)\<rparr>)"

section \<open>Reading\<close>

definition stored_rule :: "string \<Rightarrow> string \<Rightarrow> Rule io" where
  "stored_rule m payload = (case decode_rule payload of None \<Rightarrow> io_error m | Some v \<Rightarrow> io_return v)"

definition readSharedRule :: "driver \<Rightarrow> world \<Rightarrow> string \<Rightarrow> string \<Rightarrow> Rule io" where
  "readSharedRule dv w projectID i =
     io_bind (requireLocalTaskAuthoring dv w projectID) (\<lambda>_.
     io_bind (ReadSharedEntity dv ''rule'' i) (\<lambda>row.
     io_bind (stored_rule (''decode shared rule '' @ i) (se_Payload row)) (\<lambda>v.
       io_require (ru_ID v = i \<and> ru_ProjectID v = projectID) ''shared rule ownership mismatch''
       (io_check (ValidateRule (normalizeRule v)) (io_return (normalizeRule v))))))"

definition listed_rule :: "string \<Rightarrow> SharedEntity \<Rightarrow> Rule result" where
  "listed_rule projectID row =
     (case decode_rule (se_Payload row) of
        None \<Rightarrow> Err (''decode shared rule '' @ se_ID row)
      | Some v \<Rightarrow> guard_result (first_error
          [fail_if (ru_ProjectID v \<noteq> projectID \<or> ru_ID v \<noteq> se_ID row) ''shared rule identity mismatch'',
           ValidateRule (normalizeRule v)]) (Ok (normalizeRule v)))"

record sharedRulePage =
  sp_Rules :: "Rule list"
  sp_NextCursor :: string
  sp_HasMore :: bool
  sp_CursorKind :: string

definition querySharedRules ::
  "driver \<Rightarrow> world \<Rightarrow> (string \<Rightarrow> string \<Rightarrow> string option) \<Rightarrow> string \<Rightarrow> string \<Rightarrow> string \<Rightarrow> bool \<Rightarrow> int \<Rightarrow> string
   \<Rightarrow> cursor_registry \<Rightarrow> (sharedRulePage \<times> cursor_registry) io" where
  "querySharedRules dv w extract projectID query status includeArchived limit cursor reg =
     io_bind (requireLocalTaskAuthoring dv w projectID) (\<lambda>_.
     io_bind (QuerySharedLifecycle dv extract
         \<lparr>lq_EntityType = ''rule'', lq_ProjectID = projectID, lq_Text = query, lq_Filters = Some (status_filter status),
          lq_IncludeArchived = (includeArchived \<or> status = ''archived''), lq_ExcludeSuperseded = False,
          lq_ExcludeDone = False, lq_Limit = limit, lq_Cursor = cursor\<rparr> reg) (\<lambda>(page, reg').
       case all_results (listed_rule projectID) (qp_Entities page) of
         Inl m \<Rightarrow> io_error m
       | Inr items \<Rightarrow> io_return (\<lparr>sp_Rules = items, sp_NextCursor = qp_NextCursor page, sp_HasMore = qp_HasMore page,
                          sp_CursorKind = qp_CursorKind page\<rparr>, reg')))"

definition RuleListPageWithOptions ::
  "driver \<Rightarrow> world \<Rightarrow> (string \<Rightarrow> string \<Rightarrow> string option) \<Rightarrow> string \<Rightarrow> bool \<Rightarrow> string \<Rightarrow> cursor_registry
   \<Rightarrow> (sharedRulePage \<times> cursor_registry) io" where
  "RuleListPageWithOptions dv w extract project includeArchived cursor reg =
     io_check (fail_if (no_durability dv) ''rule Shared durability is unavailable'')
       (querySharedRules dv w extract project [] [] includeArchived (int SharedLifecycleQueryMaxRows) cursor reg)"

definition RuleQuery ::
  "driver \<Rightarrow> world \<Rightarrow> (string \<Rightarrow> string \<Rightarrow> string option) \<Rightarrow> string \<Rightarrow> string \<Rightarrow> string \<Rightarrow> bool \<Rightarrow> string \<Rightarrow> cursor_registry
   \<Rightarrow> (sharedRulePage \<times> cursor_registry) io" where
  "RuleQuery dv w extract project query status includeArchived cursor reg =
     io_check (first_error
       [ValidateProjectIdentifier project, fail_if (no_durability dv) ''rule Shared durability is unavailable''])
     (let st = TrimSpace status in
      io_require (st = [] \<or> List.member [''proposed'', ''accepted'', ''archived''] st) ''invalid rule status filter''
        (querySharedRules dv w extract project (ascii_lower (TrimSpace query)) st includeArchived
           (int SharedLifecycleQueryMaxRows) cursor reg))"

definition parseRuleSelector :: "string \<Rightarrow> int \<Rightarrow> (string \<times> int) result" where
  "parseRuleSelector value revision =
     guard_result (first_error
       [fail_if (Contains value '':'') ''rule revision selectors must use the separate revision field'',
        replace_err ''invalid rule identifier'' (ValidateRuleID value)]) (Ok (value, revision))"

definition revision_rule :: "Rule \<Rightarrow> SharedRevisionRecord \<Rightarrow> Rule" where
  "revision_rule v r =
     (let actor = TrimSpace (sr_Actor r); reason = TrimSpace (sr_Reason r); at = parseADRTime (sr_RecordedAt r) in
      v\<lparr>ru_Revision := sr_Revision r,
        ru_UpdatedBy := (if actor \<noteq> [] then actor else ru_UpdatedBy v),
        ru_LastReason := (if reason \<noteq> [] then reason else ru_LastReason v),
        ru_UpdatedAt := (if IsZero at then ru_UpdatedAt v else at)\<rparr>)"

definition RuleReadRevision :: "driver \<Rightarrow> world \<Rightarrow> string \<Rightarrow> string \<Rightarrow> int \<Rightarrow> Rule io" where
  "RuleReadRevision dv w project selector revision =
     (case parseRuleSelector selector revision of
        Inl m \<Rightarrow> io_error m
      | Inr (i, requested) \<Rightarrow>
          if requested = 0 then
            (if no_durability dv then io_error ''rule Shared durability is unavailable'' else readSharedRule dv w project i)
          else if no_durability dv then io_error ''revisioned rule reads require Shared durability''
          else io_bind (requireLocalTaskAuthoring dv w project) (\<lambda>_.
            io_bind (ReadSharedRevision dv ''rule'' project i requested) (\<lambda>record.
            io_bind (stored_rule (''decode rule revision '' @ i @ '':'' @ dec_int requested) (sr_Payload record)) (\<lambda>v.
              let v = normalizeRule v in
              io_require (sr_Revision record = requested \<and> ru_ID v = i \<and> ru_ProjectID v = project)
                ''rule revision identity mismatch''
              (io_check (ValidateRule (revision_rule v record)) (io_return (revision_rule v record)))))))"

text \<open>The entries and the page have the fields of those of an ADR.\<close>

definition rule_history_entry :: "string \<Rightarrow> string \<Rightarrow> SharedRevisionRecord \<Rightarrow> ADRHistoryEntry result" where
  "rule_history_entry project i r =
     (case history_entry project i r of Inl _ \<Rightarrow> Err ''rule history ownership mismatch'' | Inr v \<Rightarrow> Ok v)"

definition RuleHistoryPage ::
  "driver \<Rightarrow> world \<Rightarrow> string \<Rightarrow> string \<Rightarrow> string \<Rightarrow> bool \<Rightarrow> cursor_registry \<Rightarrow> ADRHistoryResult io" where
  "RuleHistoryPage dv w project selector cursor backwards reg =
     (case parseRuleSelector selector 0 of
        Inl m \<Rightarrow> io_error m
      | Inr (i, _) \<Rightarrow>
          if no_durability dv then io_error ''rule history requires Shared durability''
          else io_bind (requireLocalTaskAuthoring dv w project) (\<lambda>_.
            let kind = ''rule-history:'' @ project @ '':'' @ i in
            case history_position ''invalid rule history cursor'' kind cursor reg of
              Inl m \<Rightarrow> io_error m
            | Inr after \<Rightarrow>
                io_bind (ListSharedLifecycleHistoryPage dv ''rule'' project i after (int SharedLifecycleQueryMaxRows))
                (\<lambda>page.
                  case all_results (rule_history_entry project i) (hp_Records page) of
                    Inl m \<Rightarrow> io_error m
                  | Inr items \<Rightarrow> io_return
                      \<lparr>hq_Key = i, hq_ProjectID = project, hq_Items = (if backwards then rev items else items),
                       hq_NextCursor = (if hp_HasMore page then hp_NextCursor page else []),
                       hq_HasMore = hp_HasMore page, hq_CursorKind = kind\<rparr>)))"

section \<open>Creating\<close>

definition created_rule :: "Rule \<Rightarrow> string \<Rightarrow> gotime \<Rightarrow> Rule" where
  "created_rule v ruleID now = v\<lparr>ru_SchemaVersion := SchemaVersion, ru_ID := ruleID, ru_CreatedAt := to_utc now,
     ru_Revision := 1, ru_UpdatedAt := zero_time, ru_LastReason := ''create''\<rparr>"

definition build_rule :: "Rule \<Rightarrow> gotime \<Rightarrow> string \<Rightarrow> string result" where
  "build_rule v now ruleID =
     (let c = created_rule v ruleID now in
      case json_rule c of
        Inl m \<Rightarrow> Err m
      | Inr raw \<Rightarrow>
          (case ApplySharedLifecycleCreateDefaults ''rule'' raw of
             Inl m \<Rightarrow> Err m
           | Inr payload \<Rightarrow>
               (case decode_rule_into c payload of
                  None \<Rightarrow> Err ''json: cannot unmarshal rule''
                | Some decoded \<Rightarrow> guard_result (ValidateRule decoded) (Ok payload))))"

definition json_rule_create :: "Rule \<Rightarrow> string \<Rightarrow> string \<Rightarrow> string \<Rightarrow> string result" where
  "json_rule_create v relationType relationTarget expectedHub = map_sum id (\<lambda>a. json_object
     (json_field ''rule'' a
      @ json_omit (relationType = []) ''relation_type'' (json_string relationType)
      @ json_omit (relationTarget = []) ''relation_target'' (json_string relationTarget)
      @ json_field ''expected_hub_revision'' (json_string expectedHub))) (json_rule v)"

text \<open>The operation and the identifier of the new rule. The clock is read once for all attempts.\<close>

definition ruleCreateShared ::
  "driver \<Rightarrow> world \<Rightarrow> Rule \<Rightarrow> string \<Rightarrow> string \<Rightarrow> string \<Rightarrow> (string \<times> string) io" where
  "ruleCreateShared dv w v relationType relationTarget expectedHub =
     io_bind (requireLocalTaskAuthoring dv w (ru_ProjectID v)) (\<lambda>_.
     io_bind (io_replace (''project '' @ go_quote (ru_ProjectID v) @ '' has no local project code'')
         (io_bind (project_of dv w (ru_ProjectID v)) (\<lambda>p.
            io_require (ValidateProjectCode (pc_ProjectCode p) = None) [] (io_return (pc_ProjectCode p))))) (\<lambda>code.
     io_bind (relationCreateSugar dv w (ru_ProjectID v) ''RUL'' relationType relationTarget (ru_CreatedBy v)) (\<lambda>extra.
     io_bind (if w_operation w \<noteq> [] then io_return (w_operation w)
              else io_bind (io_value (json_rule_create v relationType relationTarget expectedHub))
                (\<lambda>raw. io_return (''rule-shared-'' @ sha256_hex raw))) (\<lambda>operationID.
     io_bind (io_now dv w) (\<lambda>now.
     io_bind (CommitSharedLifecycleCreate dv
         \<lparr>lc_OperationID = operationID, lc_EntityType = ''rule'', lc_ProjectID = ru_ProjectID v, lc_ProjectCode = code,
          lc_InitialNextNumber = 1, lc_Kind = ''rule-create'', lc_HistoryMutationKind = ''create'',
          lc_Actor = firstNonEmpty [ru_CreatedBy v, ''server''], lc_Reason = ''create'',
          lc_ChangedFields = Some [''title'', ''summary'', ''name'', ''value'', ''description''],
          lc_CreatedAt = to_utc now, lc_BuildPayload = Some (build_rule v now), lc_ExtraStatements = extra\<rparr>)
       (\<lambda>(receipt, key, payload). io_return (operationID, key)))))))"

definition RuleCreate :: "driver \<Rightarrow> world \<Rightarrow> Rule \<Rightarrow> string \<Rightarrow> string \<Rightarrow> string \<Rightarrow> (string \<times> string) io" where
  "RuleCreate dv w v relationType relationTarget expectedHub =
     io_check (fail_if (no_durability dv) ''rule Shared durability is unavailable'')
       (ruleCreateShared dv w v relationType relationTarget expectedHub)"

section \<open>Changing\<close>

record RuleUpdateInput =
  rui_ProjectID :: string
  rui_RuleID :: string
  rui_Title :: "string option"
  rui_Summary :: "string option"
  rui_Value :: "string option"
  rui_Description :: "string option"
  rui_Status :: "string option"
  rui_ExpectedRevision :: int
  rui_Reason :: string
  rui_UpdatedBy :: string

text \<open>A value that is not JSON cannot be encoded.\<close>

definition json_rule_update :: "RuleUpdateInput \<Rightarrow> string result" where
  "json_rule_update i = map_sum id (\<lambda>value. json_object
     (json_field ''project_id'' (json_string (rui_ProjectID i)) @ json_field ''key'' (json_string (rui_RuleID i))
      @ json_optional ''title'' (rui_Title i) @ json_optional ''summary'' (rui_Summary i) @ value
      @ json_optional ''description'' (rui_Description i) @ json_optional ''status'' (rui_Status i)
      @ json_field ''reason'' (json_string (rui_Reason i)) @ json_field ''updated_by'' (json_string (rui_UpdatedBy i))))
     (case rui_Value i of None \<Rightarrow> Ok [] | Some raw \<Rightarrow> map_sum id (\<lambda>s. [(''value'', s)]) (json_raw raw))"

record RuleArchiveInput =
  rai_ProjectID :: string
  rai_RuleID :: string
  rai_ExpectedRevision :: int
  rai_Reason :: string
  rai_ArchivedBy :: string

definition json_rule_archive :: "RuleArchiveInput \<Rightarrow> string" where
  "json_rule_archive i = json_object
     (json_field ''project_id'' (json_string (rai_ProjectID i)) @ json_field ''key'' (json_string (rai_RuleID i))
      @ json_field ''reason'' (json_string (rai_Reason i)) @ json_field ''archived_by'' (json_string (rai_ArchivedBy i)))"

definition ruleRevisionOperationID :: "world \<Rightarrow> string \<Rightarrow> string result \<Rightarrow> string result" where
  "ruleRevisionOperationID w kind input =
     (if w_operation w \<noteq> [] then Ok (w_operation w)
      else map_sum id (\<lambda>raw. ''rule-'' @ sha256_hex (kind @ '':'' @ raw)) input)"

definition validRuleMutationReason :: "string \<Rightarrow> bool" where
  "validRuleMutationReason reason \<longleftrightarrow> TrimSpace reason \<noteq> [] \<and> length reason \<le> 1024 \<and> \<not> ContainsAny reason nul_cr_lf"

definition ruleLifecycleContract :: "Rule \<Rightarrow> Rule \<Rightarrow> string \<Rightarrow> string \<Rightarrow> int \<Rightarrow> string" where
  "ruleLifecycleContract previous current previousPayload payload expectedRevision = json_object
     (json_field ''expected_revision'' (dec_int expectedRevision) @ json_field ''revision'' (dec_int (ru_Revision current))
      @ json_field ''from_status'' (json_string (ru_Status previous)) @ json_field ''to_status'' (json_string (ru_Status current))
      @ json_field ''previous_sha256'' (json_string (sha256_hex previousPayload))
      @ json_field ''payload_sha256'' (json_string (sha256_hex payload)))"

definition rule_for_change :: "driver \<Rightarrow> string \<Rightarrow> string \<Rightarrow> (SharedEntity \<times> Rule) io" where
  "rule_for_change dv projectID i =
     io_bind (ReadSharedEntity dv ''rule'' i) (\<lambda>row.
     io_bind (stored_rule ''json: cannot unmarshal rule'' (se_Payload row)) (\<lambda>v.
       io_require (ru_ProjectID v = projectID \<and> ru_ID v = i) ''rule ownership mismatch''
         (io_return (row, normalizeRule v))))"

definition rule_conflict :: "int \<Rightarrow> Rule \<Rightarrow> error" where
  "rule_conflict expected v = fail_if (ru_Revision v \<noteq> expected)
     (''rule revision conflict expected='' @ dec_int expected @ '' actual='' @ dec_int (ru_Revision v))"

text \<open>The value is compared as the bytes it was given in.\<close>

definition patched_rule :: "RuleUpdateInput \<Rightarrow> Rule \<Rightarrow> Rule" where
  "patched_rule i v = v\<lparr>ru_Title := patched (rui_Title i) (ru_Title v), ru_Summary := patched (rui_Summary i) (ru_Summary v),
     ru_Value := patched (rui_Value i) (ru_Value v), ru_Description := patched (rui_Description i) (ru_Description v),
     ru_Status := patched (rui_Status i) (ru_Status v)\<rparr>"

definition changedRuleFields :: "RuleUpdateInput \<Rightarrow> Rule \<Rightarrow> string list" where
  "changedRuleFields i v = changed_field ''title'' (rui_Title i) (ru_Title v)
     @ changed_field ''summary'' (rui_Summary i) (ru_Summary v) @ changed_field ''value'' (rui_Value i) (ru_Value v)
     @ changed_field ''description'' (rui_Description i) (ru_Description v)
     @ changed_field ''status'' (rui_Status i) (ru_Status v)"

text \<open>The rule an update writes: a change of the content makes a revision, archiving fills the archive metadata.\<close>

definition updated_rule :: "RuleUpdateInput \<Rightarrow> Rule \<Rightarrow> gotime \<Rightarrow> Rule" where
  "updated_rule i previous now =
     (let v = patched_rule i previous;
          content = (v\<lparr>ru_Status := ru_Status previous\<rparr> \<noteq> previous);
          v = v\<lparr>ru_Revision := (if content then wrap_int (ru_Revision v + 1) else ru_Revision v),
                ru_UpdatedBy := TrimSpace (rui_UpdatedBy i), ru_UpdatedAt := now, ru_LastReason := TrimSpace (rui_Reason i)\<rparr> in
      if ru_Status v \<noteq> ru_Status previous \<and> ru_Status v = ''archived'' \<and> ru_ArchivedAt v = None
      then v\<lparr>ru_ArchivedAt := Some now, ru_ArchivedBy := ru_UpdatedBy v, ru_ArchiveReason := ru_LastReason v\<rparr>
      else v)"

definition rule_event ::
  "string \<Rightarrow> string \<Rightarrow> string \<Rightarrow> string \<Rightarrow> string \<Rightarrow> string \<Rightarrow> int \<Rightarrow> SharedEntity \<Rightarrow> Rule \<Rightarrow> Rule \<Rightarrow> string \<Rightarrow> string list
   \<Rightarrow> SharedLifecycleEventRequest" where
  "rule_event operationID projectID key kind eventKind historyKind expected row previous current payload changed =
     \<lparr>eq_OperationID = operationID, eq_EntityType = ''rule'', eq_ProjectID = projectID, eq_EntityID = key,
      eq_ExpectedRevision = expected, eq_ExpectedStoreRevision = se_Revision row, eq_ExpectedPayload = se_Payload row,
      eq_Revision = ru_Revision current, eq_Kind = kind, eq_EventKind = eventKind, eq_HistoryMutationKind = historyKind,
      eq_FromStatus = ru_Status previous, eq_ToStatus = ru_Status current, eq_Payload = payload,
      eq_Actor = ru_UpdatedBy current, eq_Reason = ru_LastReason current, eq_ChangedFields = changed,
      eq_Contract = ruleLifecycleContract previous current (se_Payload row) payload expected,
      eq_CreatedAt = ru_UpdatedAt current, eq_PreviousHistory = None, eq_ExtraStatements = []\<rparr>"

definition rule_revision ::
  "string \<Rightarrow> string \<Rightarrow> string \<Rightarrow> int \<Rightarrow> SharedEntity \<Rightarrow> Rule \<Rightarrow> string \<Rightarrow> string list \<Rightarrow> SharedLifecycleRevision" where
  "rule_revision operationID projectID key expected row current payload changed =
     \<lparr>lr_OperationID = operationID, lr_EntityType = ''rule'', lr_ProjectID = projectID, lr_EntityID = key,
      lr_ExpectedRevision = expected, lr_ExpectedStoreRevision = se_Revision row, lr_Revision = ru_Revision current,
      lr_Kind = ''rule-update'', lr_HistoryMutationKind = ''update'', lr_Payload = payload, lr_Actor = ru_UpdatedBy current,
      lr_Reason = ru_LastReason current, lr_ChangedFields = Some changed, lr_CreatedAt = ru_UpdatedAt current,
      lr_PreviousHistory = None\<rparr>"

definition commit_rule_update ::
  "driver \<Rightarrow> world \<Rightarrow> RuleUpdateInput \<Rightarrow> string \<Rightarrow> SharedEntity \<Rightarrow> Rule \<Rightarrow> Rule \<Rightarrow> OperationResult io" where
  "commit_rule_update dv w i key row previous current =
     io_check (ValidateRule current)
     (io_bind (io_value (json_rule current)) (\<lambda>payload.
      io_bind (io_value (ruleRevisionOperationID w ''update'' (json_rule_update i))) (\<lambda>operationID.
        io_bind (if ru_Status current \<noteq> ru_Status previous
                 then io_bind (CommitSharedLifecycleEvent dv (rule_event operationID (rui_ProjectID i) key ''rule-update''
                        ''status'' ''status'' (rui_ExpectedRevision i) row previous current payload
                        (changedRuleFields i previous))) (\<lambda>_. io_return ())
                 else io_bind (CommitSharedLifecycleRevision dv (rule_revision operationID (rui_ProjectID i) key
                        (rui_ExpectedRevision i) row current payload (changedRuleFields i previous))) (\<lambda>_. io_return ()))
          (\<lambda>_. io_return (entity_result operationID (rui_ProjectID i) key (ru_Revision current) ''updated'')))))"

definition RuleUpdate :: "driver \<Rightarrow> world \<Rightarrow> RuleUpdateInput \<Rightarrow> OperationResult io" where
  "RuleUpdate dv w i =
     io_check (fail_if (no_durability dv) ''rule update requires Shared durability'')
     (io_bind (requireLocalTaskAuthoring dv w (rui_ProjectID i)) (\<lambda>_.
      io_check (first_error
        [fail_if (rui_ExpectedRevision i < 1 \<or> \<not> validRuleMutationReason (rui_Reason i) \<or> TrimSpace (rui_UpdatedBy i) = [])
           ''rule update requires expected_revision, reason, and updated_by'',
         fail_if (rui_Title i = None \<and> rui_Summary i = None \<and> rui_Value i = None \<and> rui_Description i = None
             \<and> rui_Status i = None)
           ''rule update requires at least one mutable content field''])
      (case parseRuleSelector (rui_RuleID i) 0 of
         Inl m \<Rightarrow> io_error m
       | Inr (key, _) \<Rightarrow>
           io_bind (rule_for_change dv (rui_ProjectID i) key) (\<lambda>(row, previous).
             io_check (first_error
               [ValidateRule previous, rule_conflict (rui_ExpectedRevision i) previous,
                fail_if (ru_Status previous = ''archived'') ''archived rule cannot be updated''])
             (if patched_rule i previous = previous
              then io_bind (io_value (ruleRevisionOperationID w ''update'' (json_rule_update i))) (\<lambda>operationID.
                io_return (entity_result operationID (rui_ProjectID i) key (ru_Revision previous) ''unchanged''))
              else io_bind (io_now dv w) (\<lambda>now.
                commit_rule_update dv w i key row previous (updated_rule i previous (to_utc now))))))))"

definition archive_rule :: "RuleArchiveInput \<Rightarrow> Rule \<Rightarrow> gotime \<Rightarrow> Rule" where
  "archive_rule i v now = v\<lparr>ru_Status := ''archived'', ru_UpdatedBy := TrimSpace (rai_ArchivedBy i), ru_UpdatedAt := now,
     ru_LastReason := TrimSpace (rai_Reason i), ru_ArchivedAt := Some now, ru_ArchivedBy := TrimSpace (rai_ArchivedBy i),
     ru_ArchiveReason := TrimSpace (rai_Reason i)\<rparr>"

definition RuleArchive :: "driver \<Rightarrow> world \<Rightarrow> RuleArchiveInput \<Rightarrow> OperationResult io" where
  "RuleArchive dv w i =
     io_check (fail_if (no_durability dv) ''rule archive requires Shared durability'')
     (io_bind (requireLocalTaskAuthoring dv w (rai_ProjectID i)) (\<lambda>_.
      io_check (fail_if (rai_ExpectedRevision i < 1 \<or> \<not> validRuleMutationReason (rai_Reason i) \<or> TrimSpace (rai_ArchivedBy i) = [])
        ''rule archive requires expected_revision, reason, and archived_by'')
      (case parseRuleSelector (rai_RuleID i) 0 of
         Inl m \<Rightarrow> io_error m
       | Inr (key, _) \<Rightarrow>
           io_bind (rule_for_change dv (rai_ProjectID i) key) (\<lambda>(row, previous).
             io_check (first_error
               [rule_conflict (rai_ExpectedRevision i) previous,
                fail_if (ru_Status previous = ''archived'') ''rule already archived''])
             (io_bind (io_now dv w) (\<lambda>now.
                let current = archive_rule i previous (to_utc now) in
                io_check (ValidateRule current)
                (io_bind (io_value (json_rule current)) (\<lambda>payload.
                 io_bind (io_value (ruleRevisionOperationID w ''archive'' (Ok (json_rule_archive i)))) (\<lambda>operationID.
                 io_bind (CommitSharedLifecycleEvent dv (rule_event operationID (rai_ProjectID i) key ''rule-archive''
                     ''archive'' ''archive'' (rai_ExpectedRevision i) row previous current payload [''status''])) (\<lambda>_.
                   io_return (entity_result operationID (rai_ProjectID i) key (ru_Revision current) ''archived'')))))))))))"

definition RuleUpdateCurrent :: "driver \<Rightarrow> world \<Rightarrow> RuleUpdateInput \<Rightarrow> OperationResult io" where
  "RuleUpdateCurrent dv w i = io_bind (readSharedRule dv w (rui_ProjectID i) (rui_RuleID i)) (\<lambda>v.
     RuleUpdate dv w (i\<lparr>rui_ExpectedRevision := ru_Revision v\<rparr>))"

definition RuleArchiveCurrent :: "driver \<Rightarrow> world \<Rightarrow> RuleArchiveInput \<Rightarrow> OperationResult io" where
  "RuleArchiveCurrent dv w i = io_bind (readSharedRule dv w (rai_ProjectID i) (rai_RuleID i)) (\<lambda>v.
     RuleArchive dv w (i\<lparr>rai_ExpectedRevision := ru_Revision v\<rparr>))"

section \<open>The effective set\<close>

definition ruleEffectiveMaxRules :: nat where "ruleEffectiveMaxRules = 256"

definition digest_member :: "Rule \<Rightarrow> string" where
  "digest_member v = ru_Name v @ [nul] @ ru_ID v @ [nul] @ dec_int (ru_Revision v)"

definition digest_text :: "Rule list \<Rightarrow> string" where
  "digest_text rules = sep_concat [nul] (sort (map digest_member rules))"

definition ruleEffectiveDigest :: "Rule list \<Rightarrow> string" where
  "ruleEffectiveDigest rules = sha256_hex (digest_text rules)"

definition effective_rule :: "Rule \<Rightarrow> bool" where
  "effective_rule v \<longleftrightarrow> ru_Status v = ''accepted'' \<and> ru_Name v \<noteq> []"

definition ruleEffectiveSetShared :: "nat \<Rightarrow> driver \<Rightarrow> string \<Rightarrow> (Rule list \<times> string) option io" where
  "ruleEffectiveSetShared fuel dv projectID =
     io_check (fail_if (no_durability dv) ''rule effective set requires Shared durability'')
     (io_bind (sharedProjectEntities fuel dv ''rule'' projectID [] [] []) (\<lambda>found.
        case found of
          None \<Rightarrow> io_return None
        | Some rows \<Rightarrow>
            (case all_results (listed_rule projectID) rows of
               Inl m \<Rightarrow> io_error m
             | Inr rules \<Rightarrow>
                 let effective = filter effective_rule rules in
                 io_require (length effective \<le> ruleEffectiveMaxRules)
                   ''effective rule set exceeds bounded maximum 256''
                   (io_return (Some (effective, ruleEffectiveDigest effective))))))"

definition RuleEffectiveSet :: "nat \<Rightarrow> driver \<Rightarrow> world \<Rightarrow> string \<Rightarrow> (Rule list \<times> string) option io" where
  "RuleEffectiveSet fuel dv w projectID =
     io_bind (requireLocalTaskAuthoring dv w projectID) (\<lambda>_. ruleEffectiveSetShared fuel dv projectID)"

end
