(* ===== verification/Service_Reads.thy ===== *)
theory Service_Reads
  imports Execution_Reads Rule_Service
begin

text \<open>
  The operations on tasks and ADRs outside the execution keep every relation that does not look at the Shared
  tables: they read, ask the world and commit to the Shared database, and completing a task ends in the one step of the Local
  one that \<open>CommitTaskCompletion\<close> makes.
\<close>

context store_relation
begin

section \<open>Reads\<close>

lemma keeps_ReadSharedEntity [reading, leaf]: "keeps R (ReadSharedEntity dv a b)"
  unfolding ReadSharedEntity_def by (intro reading)

lemma keeps_ReadSharedSequence [reading, leaf]: "keeps R (ReadSharedSequence dv a b)"
  unfolding ReadSharedSequence_def by (intro reading)

lemma keeps_QuerySharedLifecycle [reading, leaf]: "keeps R (QuerySharedLifecycle dv x q reg)"
  unfolding QuerySharedLifecycle_def querySharedLifecycleRows_def by (intro reading)

lemma keeps_accepted_track_rows [reading, leaf]: "keeps R (accepted_track_rows dv w pr t p rows reasons)"
  by (induction rows arbitrary: reasons) (auto intro!: reading split: option.split)

lemma keeps_accepted_track_pages [reading, leaf]: "keeps R (accepted_track_pages n dv w x pr t p c reasons reg)"
  by (induction n arbitrary: c reasons reg) (auto intro!: reading split: sum.split)

lemma keeps_trackReadStored [reading, leaf]: "keeps R (trackReadStored dv a b n)"
  unfolding trackReadStored_def by (intro reading)

lemma keeps_track_proof [reading, leaf]: "keeps R (taskCompleteIntegratedAcceptedTrackProof n dv w x t p reg)"
  unfolding taskCompleteIntegratedAcceptedTrackProof_def by (intro reading)

lemma keeps_receipt_delivered [reading, leaf]: "keeps R (receipt_delivered dv w t p v)"
  unfolding receipt_delivered_def by (intro reading)

lemma keeps_bind_result:
  assumes "keeps R m" and f: "\<And>x s s'. m s = (Inr x, s') \<Longrightarrow> keeps R (f x)"
  shows "keeps R (io_bind m f)"
  unfolding keeps_def
proof (intro allI impI)
  fix k db r k' db'
  assume run: "io_bind m f (k, db) = (r, k', db')"
  obtain a j mid where a: "m (k, db) = (a, j, mid)" by (metis prod.exhaust)
  then have "R db mid" using assms(1) by (simp add: keeps_def)
  moreover have "R mid db'" if "a = Inr x" for x
    using run a f[of "(k, db)" x "(j, mid)"] that by (simp add: io_bind_def keeps_def)
  moreover have "db' = mid" if "a = Inl e" for e using run a that by (simp add: io_bind_def)
  ultimately show "R db db'" using trans by (cases a) auto
qed

lemma keeps_bool_case [reading]: "keeps R a \<Longrightarrow> keeps R b \<Longrightarrow> keeps R (case c of True \<Rightarrow> a | False \<Rightarrow> b)"
  by (cases c) auto

lemma keeps_delivery_proof [reading, leaf]: "keeps R (delivery_proof n dv w ew x i t found phases reg)"
  unfolding delivery_proof_def taskCompleteIntegratedProof_def taskCompleteHistoricalProof_def by (intro reading)

lemma keeps_replay [reading, leaf]: "keeps R (taskCompleteReplay dv i t found phases e)"
  unfolding taskCompleteReplay_def integrated_replay_def track_still_pins_def by (intro reading)

lemma keeps_completion_records [reading, leaf]: "keeps R (completion_records dv p k)"
  unfolding completion_records_def by (intro reading)

lemma keeps_committed_replay [reading, leaf]: "keeps R (taskCompleteCommittedReplay dv i)"
  unfolding taskCompleteCommittedReplay_def by (intro reading)

lemma keeps_stored_task [reading, leaf]: "keeps R (stored_task dv i)"
  unfolding stored_task_def by (intro reading)

lemma keeps_commit_is_canonical [reading, leaf]: "keeps R (commit_is_canonical dv w i h)"
  unfolding commit_is_canonical_def by (intro reading)

lemma keeps_stored_adr [reading, leaf]: "keeps R (stored_adr m p)"
  unfolding stored_adr_def by (intro reading)

lemma keeps_readSharedADR [reading, leaf]: "keeps R (readSharedADR dv w p i)"
  unfolding readSharedADR_def by (intro reading)

lemma keeps_relationLiveTitle [reading, leaf]: "keeps R (relationLiveTitle dv p i)"
  unfolding relationLiveTitle_def by (intro reading)

lemma keeps_relationCreateSugar [reading, leaf]: "keeps R (relationCreateSugar dv w p f t g c)"
  unfolding relationCreateSugar_def by (intro reading)

lemma keeps_adrHistorySeed [reading, leaf]: "keeps R (adrHistorySeed dv p i n v raw)"
  unfolding adrHistorySeed_def by (intro reading)

lemma keeps_adr_for_change [reading, leaf]: "keeps R (adr_for_change dv p i)"
  unfolding adr_for_change_def by (intro reading)

lemma keeps_rule_for_change [reading, leaf]: "keeps R (rule_for_change dv p i)"
  unfolding rule_for_change_def stored_rule_def by (intro reading)

lemma keeps_sharedTaskProjectCode [reading, leaf]: "keeps R (sharedTaskProjectCode dv w p)"
  unfolding sharedTaskProjectCode_def by (intro reading)

lemma keeps_taskHasNonterminalExecutionShared [reading, leaf]: "keeps R (taskHasNonterminalExecutionShared dv p k)"
  unfolding taskHasNonterminalExecutionShared_def by (intro reading)

lemma keeps_accepted_adrs [reading, leaf]: "keeps R (accepted_adrs dv p ids)"
  by (induction ids) (auto intro!: reading)

lemma keeps_adr_references [reading, leaf]: "keeps R (validateAuthoringADRReferencesShared dv t)"
  unfolding validateAuthoringADRReferencesShared_def by (intro reading)

lemma keeps_dependencies_integrated [reading, leaf]: "keeps R (dependencies_integrated dv p k ids)"
  by (induction ids) (auto intro!: reading simp: dependency_integrated_def)

lemma keeps_task_dependencies [reading, leaf]: "keeps R (validateTaskDependenciesShared dv p t)"
  unfolding validateTaskDependenciesShared_def by (intro reading)

end

section \<open>Changes of the Shared database\<close>

text \<open>The statements that a creation commits besides its own follow the relation.\<close>

definition extras_follow :: "(shared_db \<Rightarrow> shared_db \<Rightarrow> bool) \<Rightarrow> (string \<Rightarrow> batch result) option \<Rightarrow> bool" where
  "extras_follow R extra \<longleftrightarrow> (\<forall>f i xs. extra = Some f \<longrightarrow> f i = Inr xs \<longrightarrow> batch_keeps R xs)"

text \<open>
  A relation that only looks at the Local database and admits the last step of an execution is kept by every operation on
  tasks, ADRs, rules and relations.
\<close>

locale service_relation = store_relation +
  assumes elsewhere: "(\<And>db db' n. st db = Some (db', n) \<Longrightarrow> sd_local db' = sd_local db) \<Longrightarrow> statement_keeps R st"
    and completed: "ValidateTaskExecutionState f = None \<Longrightarrow> xs_Status p = ''integrated''
      \<Longrightarrow> f = p\<lparr>xs_Status := ''done'', xs_ExecutionRevision := xs_ExecutionRevision p + 1, xs_UpdatedAt := at\<rparr>
      \<Longrightarrow> statement_keeps R (alter_execution (xs_ProjectID p) (xs_TaskID p) (previous_row p) (final_row f))"
begin

lemma keeps_shared_statements:
  "statement_keeps R (insert_event e)" "statement_keeps R (insert_history h)" "statement_keeps R (insert_outbox o')"
  "statement_keeps R (update_state t row c)" "statement_keeps R (insert_state t row)" "statement_keeps R (seed_history h)"
  "statement_keeps R (advance_sequence et p code n)" "statement_keeps R (insert_sequence_or_ignore et p code n)"
  by (rule elsewhere, auto simp: insert_event_def insert_history_def insert_outbox_def update_state_def insert_state_def
      seed_history_def advance_sequence_def insert_sequence_or_ignore_def Let_def split: if_splits option.splits)+

lemmas keeps_closings = keeps_closing [OF keeps_shared_statements(1-4) completed]

lemma keeps_guarded: "statement_keeps R st \<Longrightarrow> statement_keeps R (unless_retired p st)"
  unfolding statement_keeps_def unless_retired_def using same by (auto split: if_splits)

lemma keeps_shared_commits [reading]:
  "extras_follow R (lc_ExtraStatements rc) \<Longrightarrow> keeps R (CommitSharedLifecycleCreate dv rc)"
  "keeps R (CommitSharedLifecycleRevision dv rr)"
  "eq_ExtraStatements re = [] \<Longrightarrow> keeps R (CommitSharedLifecycleEvent dv re)"
  "keeps R (CommitSharedMutation dv m)"
proof -
  note st = keeps_shared_statements keeps_guarded
  show "keeps R (CommitSharedLifecycleCreate dv rc)" if "extras_follow R (lc_ExtraStatements rc)"
    using that by (intro keeps_create) (auto simp: create_statements_def extras_follow_def st)
  show "keeps R (CommitSharedLifecycleRevision dv rr)"
    by (rule keeps_revision) (auto simp: revision_statements_def sharedHistorySeedStatement_def st split: option.split)
  show "keeps R (CommitSharedLifecycleEvent dv re)" if "eq_ExtraStatements re = []"
    by (rule keeps_event) (auto simp: event_statements_def sharedHistorySeedStatement_def st that split: option.split)
  show "keeps R (CommitSharedMutation dv m)"
    by (rule keeps_mutation) (auto simp: mutation_statements_def Let_def st)
qed

text \<open>What the sugar adds to a creation is one relation.\<close>

lemma keeps_insert_relation: "statement_keeps R (insert_relation local r)"
  by (rule elsewhere) (auto simp: insert_relation_def relation_trigger_def Let_def split: if_splits option.splits)

lemma sugar_follows:
  assumes "relationCreateSugar dv w p f t g c s = (Inr extra, s')"
  shows "extras_follow R extra"
  using assms unfolding relationCreateSugar_def RelationInsertStatement_def
  by (auto simp: extras_follow_def io_bind_def io_check_def io_fail_def io_error_def io_return_def keeps_insert_relation
      split: if_splits sum.splits option.splits prod.splits)

lemma keeps_sugar:
  assumes "\<And>extra. extras_follow R extra \<Longrightarrow> keeps R (h extra)"
  shows "keeps R (io_bind (relationCreateSugar dv w p f t g c) h)"
  by (rule keeps_bind_result [OF keeps_relationCreateSugar]) (blast intro: assms dest: sugar_follows)

lemmas writing = keeps_sugar reading

lemma keeps_task_services:
  "keeps R (taskAuthoringCreateShared dv w op ci)" "keeps R (taskAuthoringUpdateShared dv w op ui)"
  "keeps R (taskAuthoringReadyShared dv w op ri)" "keeps R (TaskLifecycleArchive dv w p k a m)"
  unfolding taskAuthoringCreateShared_def taskAuthoringUpdateShared_def taskAuthoringReadyShared_def TaskLifecycleArchive_def
  by (intro writing keeps_closings; simp)+

lemma keeps_adr_services:
  "keeps R (adrCreateShared dv w v t g h)" "keeps R (ADRUpdate dv w au)" "keeps R (ADRArchive dv w ar)"
  unfolding adrCreateShared_def ADRUpdate_def commit_adr_update_def ADRArchive_def
  by (intro writing; simp add: adr_event_def)+

lemma keeps_rule_services:
  "keeps R (RuleCreate dv w v t g h)" "keeps R (RuleUpdate dv w ru)" "keeps R (RuleArchive dv w ra)"
  unfolding RuleCreate_def ruleCreateShared_def RuleUpdate_def commit_rule_update_def RuleArchive_def
  by (intro writing; simp add: rule_event_def)+

lemma keeps_relation_services:
  "keeps R (RelationCreate dv w rc)" "keeps R (EnsureSharedRelation dv v)"
  unfolding RelationCreate_def EnsureSharedRelation_def CreateRelation_def RelationInsertStatement_def
  by (intro writing keeps_insert_relation keeps_exec_rows)+

lemma keeps_TaskComplete: "keeps R (TaskComplete n dv w ew x ti a reg)"
  unfolding TaskComplete_def complete_open_task_def commit_completion_def by (intro reading keeps_closings)

end

end
