(* ===== verification/Track_Reads.thy ===== *)
theory Track_Reads
  imports Task_Service
begin

text \<open>
  What the services on milestones and tracks read (\<open>service/milestone_lifecycle.go\<close>, \<open>service/track_lifecycle.go\<close>):
  the JSON forms, stored records, the snapshot a review pins, and the status of a track, which is derived from the
  executions of its tasks and from the freshness of its review.
\<close>

section \<open>JSON forms\<close>

definition json_milestone :: "Milestone \<Rightarrow> string result" where
  "json_milestone v =
     (case (json_time (ms_CreatedAt v), json_time (ms_UpdatedAt v)) of
        (Inr created, Inr updated) \<Rightarrow> Ok (json_object
          (json_field ''schema_version'' (dec_int (ms_SchemaVersion v))
           @ json_field ''id'' (json_string (ms_ID v))
           @ json_field ''project_id'' (json_string (ms_ProjectID v))
           @ json_field ''revision'' (dec_int (ms_Revision v))
           @ json_field ''title'' (json_string (ms_Title v))
           @ json_omit (ms_Summary v = []) ''summary'' (json_string (ms_Summary v))
           @ json_field ''status'' (json_string (ms_Status v))
           @ json_field ''tasks'' (json_strings (ms_Tasks v))
           @ json_omit (ms_CompletionEvidence v = []) ''completion_evidence'' (json_string (ms_CompletionEvidence v))
           @ json_omit (elems (ms_CompletionEvidenceRefs v) = []) ''completion_evidence_refs''
               (json_strings (ms_CompletionEvidenceRefs v))
           @ json_field ''created_by'' (json_string (ms_CreatedBy v))
           @ json_field ''created_at'' created
           @ json_field ''updated_by'' (json_string (ms_UpdatedBy v))
           @ json_field ''updated_at'' updated))
      | _ \<Rightarrow> Err ''json: error calling MarshalJSON for type time.Time'')"

definition json_track_task :: "TrackTaskSnapshot \<Rightarrow> string" where
  "json_track_task t = json_object
     (json_field ''key'' (json_string (tt_Key t)) @ json_field ''revision'' (dec_int (tt_Revision t))
      @ json_field ''revision_sha256'' (json_string (tt_RevisionSHA256 t)))"

definition json_track_review :: "TrackReview \<Rightarrow> string result" where
  "json_track_review v = map_sum id (\<lambda>submitted. json_object
     (json_field ''head'' (json_string (tr_Head v)) @ json_field ''tree'' (json_string (tr_Tree v))
      @ json_field ''digest'' (json_string (tr_Digest v))
      @ json_field ''track_revision'' (dec_int (tr_TrackRevision v))
      @ json_field ''tasks'' (json_list (map json_track_task (tr_Tasks v)))
      @ json_field ''submitted_at'' submitted @ json_field ''submitted_by'' (json_string (tr_SubmittedBy v))))
     (json_time (tr_SubmittedAt v))"

definition json_track :: "Track \<Rightarrow> string result" where
  "json_track v =
     (case (json_time (tk_CreatedAt v), json_time (tk_UpdatedAt v),
            case tk_CancelledAt v of None \<Rightarrow> Ok [] | Some at \<Rightarrow> map_sum id (\<lambda>s. [(''cancelled_at'', s)]) (json_time at),
            case tk_Review v of None \<Rightarrow> Ok [] | Some r \<Rightarrow> map_sum id (\<lambda>s. [(''review'', s)]) (json_track_review r)) of
        (Inr created, Inr updated, Inr cancelled, Inr review) \<Rightarrow> Ok (json_object
          (json_field ''schema_version'' (dec_int (tk_SchemaVersion v))
           @ json_field ''id'' (json_string (tk_ID v))
           @ json_field ''project_id'' (json_string (tk_ProjectID v))
           @ json_field ''revision'' (dec_int (tk_Revision v))
           @ json_field ''milestone'' (json_string (tk_Milestone v))
           @ json_field ''title'' (json_string (tk_Title v))
           @ json_omit (tk_Summary v = []) ''summary'' (json_string (tk_Summary v))
           @ json_field ''tasks'' (json_strings (tk_Tasks v))
           @ json_omit (elems (tk_DispatchedTasks v) = []) ''dispatched_tasks'' (json_strings (tk_DispatchedTasks v))
           @ json_field ''status'' (json_string (tk_Status v))
           @ review
           @ cancelled
           @ json_omit (tk_CancelledBy v = []) ''cancelled_by'' (json_string (tk_CancelledBy v))
           @ json_omit (tk_CancelledReason v = []) ''cancelled_reason'' (json_string (tk_CancelledReason v))
           @ json_field ''created_by'' (json_string (tk_CreatedBy v))
           @ json_field ''created_at'' created
           @ json_field ''updated_by'' (json_string (tk_UpdatedBy v))
           @ json_field ''updated_at'' updated))
      | _ \<Rightarrow> Err ''json: error calling MarshalJSON for type time.Time'')"

text \<open>The time of a change lies behind that of the last one.\<close>

definition later_than :: "gotime \<Rightarrow> gotime \<Rightarrow> gotime" where
  "later_than previous now = (if time_before previous now then now else previous\<lparr>gt_ns := gt_ns previous + 1\<rparr>)"

section \<open>Milestones\<close>

definition stored_milestone :: "string \<Rightarrow> string \<Rightarrow> string \<Rightarrow> Milestone io" where
  "stored_milestone projectID key payload =
     (case decode_milestone payload of
        None \<Rightarrow> io_error (''decode shared milestone '' @ key)
      | Some m \<Rightarrow>
          io_require (ms_ID m = key \<and> ms_ProjectID m = projectID) ''shared milestone ownership mismatch''
            (io_check (ValidateMilestone m) (io_return m)))"

definition MilestoneLifecycleRead :: "driver \<Rightarrow> world \<Rightarrow> string \<Rightarrow> string \<Rightarrow> int \<Rightarrow> Milestone io" where
  "MilestoneLifecycleRead dv w projectID key revision =
     io_bind (requireLocalTaskAuthoring dv w projectID) (\<lambda>_.
       if revision < 0 then io_error ''invalid milestone revision''
       else io_bind (if revision = 0 then io_bind (ReadSharedEntity dv ''milestone'' key) (\<lambda>row. io_return (se_Payload row))
                     else io_bind (ReadSharedRevision dv ''milestone'' projectID key revision)
                       (\<lambda>record. io_return (sr_Payload record)))
         (stored_milestone projectID key))"

fun validate_tasks_from ::
  "driver \<Rightarrow> string \<Rightarrow> string \<Rightarrow> string \<Rightarrow> (string \<Rightarrow> error) \<Rightarrow> string list \<Rightarrow> string list \<Rightarrow> unit io" where
  "validate_tasks_from dv what projectID projectCode member [] seen = io_return ()"
| "validate_tasks_from dv what projectID projectCode member (t # ts) seen =
     io_check (first_error
       [wrap_err (''invalid '' @ what @ '' task '' @ go_quote t @ '': '') (ValidateTaskIDForProject t projectCode),
        fail_if (t \<in> set seen) (''duplicate '' @ what @ '' task '' @ go_quote t),
        member t])
     (io_bind (io_wrap (what @ '' task '' @ go_quote t @ '' does not resolve: '') (readSharedTask dv projectID t)) (\<lambda>_.
       validate_tasks_from dv what projectID projectCode member ts (t # seen)))"

definition validateMilestoneTasks :: "driver \<Rightarrow> string \<Rightarrow> string \<Rightarrow> string list \<Rightarrow> unit io" where
  "validateMilestoneTasks dv projectID projectCode tasks =
     io_check (fail_if (256 < length tasks) ''milestone task membership exceeds 256'')
       (validate_tasks_from dv ''milestone'' projectID projectCode (\<lambda>_. None) tasks [])"

definition validateTrackTasks :: "driver \<Rightarrow> string \<Rightarrow> string \<Rightarrow> Milestone \<Rightarrow> string list \<Rightarrow> unit io" where
  "validateTrackTasks dv projectID projectCode milestone tasks =
     io_check (fail_if (tasks = [] \<or> TrackMaxTasks < length tasks) ''Track task membership must contain 1-256 Tasks'')
       (validate_tasks_from dv ''Track'' projectID projectCode
          (\<lambda>t. fail_if (t \<notin> set (elems (ms_Tasks milestone)))
             (''Track task '' @ go_quote t @ '' is not a member of Milestone '' @ go_quote (ms_ID milestone))) tasks [])"

section \<open>The snapshot of a review\<close>

fun snapshot_tasks :: "driver \<Rightarrow> string \<Rightarrow> string list \<Rightarrow> TrackTaskSnapshot list io" where
  "snapshot_tasks dv projectID [] = io_return []"
| "snapshot_tasks dv projectID (t # ts) =
     io_bind (readSharedTask dv projectID t) (\<lambda>v.
     io_bind (snapshot_tasks dv projectID ts) (\<lambda>rest.
       io_return (\<lparr>tt_Key = ta_ID v, tt_Revision = ta_Revision v, tt_RevisionSHA256 = ta_RevisionSHA256 v\<rparr> # rest)))"

definition snapshot_text :: "string \<Rightarrow> string \<Rightarrow> int \<Rightarrow> TrackTaskSnapshot list \<Rightarrow> string" where
  "snapshot_text head tree revision tasks = json_object
     (json_field ''head'' (json_string head) @ json_field ''tree'' (json_string tree)
      @ json_field ''track_revision'' (dec_int revision) @ json_field ''tasks'' (json_list (map json_track_task tasks)))"

definition trackSnapshot :: "driver \<Rightarrow> world \<Rightarrow> Track \<Rightarrow> TrackReview io" where
  "trackSnapshot dv w tk =
     io_bind (project_of dv w (tk_ProjectID tk)) (\<lambda>project.
     io_bind (io_ask dv (\<lambda>k. g_RefreshDefaultBranch (w_git w) k project)) (\<lambda>head.
     io_bind (io_ask dv (\<lambda>k. g_CommitTree (w_git w) k project head)) (\<lambda>tree.
     io_bind (snapshot_tasks dv (tk_ProjectID tk) (elems (tk_Tasks tk))) (\<lambda>tasks.
       io_return \<lparr>tr_Head = head, tr_Tree = tree, tr_Digest = sha256_hex (snapshot_text head tree (tk_Revision tk) tasks),
         tr_TrackRevision = tk_Revision tk, tr_Tasks = tasks, tr_SubmittedAt = zero_time, tr_SubmittedBy = []\<rparr>))))"

definition same_snapshot :: "TrackReview \<Rightarrow> TrackReview \<Rightarrow> bool" where
  "same_snapshot c r \<longleftrightarrow> tr_TrackRevision c = tr_TrackRevision r \<and> tr_Head c = tr_Head r \<and> tr_Tree c = tr_Tree r
     \<and> tr_Digest c = tr_Digest r \<and> tr_Tasks c = tr_Tasks r"

definition trackReviewIsFresh :: "driver \<Rightarrow> world \<Rightarrow> Track \<Rightarrow> bool io" where
  "trackReviewIsFresh dv w tk =
     (case tk_Review tk of
        None \<Rightarrow> io_return False
      | Some r \<Rightarrow> io_bind (trackSnapshot dv w tk) (\<lambda>c. io_return (same_snapshot c r)))"

section \<open>The status of a track\<close>

fun tasks_progress :: "driver \<Rightarrow> string \<Rightarrow> string list \<Rightarrow> bool \<Rightarrow> bool \<Rightarrow> (bool \<times> bool) io" where
  "tasks_progress dv projectID [] started ready = io_return (started, ready)"
| "tasks_progress dv projectID (t # ts) started ready =
     io_bind (ReadTaskExecutionState dv projectID t) (\<lambda>found.
       case found of
         None \<Rightarrow> tasks_progress dv projectID ts started False
       | Some s \<Rightarrow> tasks_progress dv projectID ts True
           (ready \<and> (xs_Status s = ''integrated'' \<or> xs_Status s = ''done'')))"

definition trackStatusFromTasks :: "driver \<Rightarrow> Track \<Rightarrow> string io" where
  "trackStatusFromTasks dv tk =
     io_bind (tasks_progress dv (tk_ProjectID tk) (elems (tk_Tasks tk)) False True) (\<lambda>(started, ready).
       io_return (if ready \<and> elems (tk_Tasks tk) \<noteq> [] then ''ready'' else if started then ''active'' else ''planned''))"

definition deriveTrackStatus :: "driver \<Rightarrow> world \<Rightarrow> Track \<Rightarrow> string io" where
  "deriveTrackStatus dv w tk =
     (if tk_Status tk = ''archived'' \<or> tk_Status tk = ''cancelled'' then io_return (tk_Status tk)
      else if tk_Status tk = ''accepted'' \<or> tk_Status tk = ''review_pending''
      then io_bind (trackReviewIsFresh dv w tk) (\<lambda>fresh. io_return (if fresh then tk_Status tk else ''stale''))
      else if tk_Status tk = ''stale'' then io_return ''stale''
      else trackStatusFromTasks dv tk)"

definition TrackLifecycleRead :: "driver \<Rightarrow> world \<Rightarrow> string \<Rightarrow> string \<Rightarrow> int \<Rightarrow> Track io" where
  "TrackLifecycleRead dv w projectID key revision =
     io_bind (requireLocalTaskAuthoring dv w projectID) (\<lambda>_.
     io_bind (trackReadStored dv projectID key revision) (\<lambda>stored.
       if revision \<noteq> 0 then io_return stored
       else io_bind (deriveTrackStatus dv w stored) (\<lambda>status. io_return (stored\<lparr>tk_Status := status\<rparr>))))"

section \<open>Tracks that hold a task\<close>

definition nonterminal_track_status :: "string \<Rightarrow> bool" where
  "nonterminal_track_status status \<longleftrightarrow> List.member [''planned'', ''active'', ''ready'', ''review_pending'', ''stale''] status"

text \<open>The rows of the first page, archived ones included; an accepted track counts when its review is not fresh.\<close>

fun track_holding :: "driver \<Rightarrow> world \<Rightarrow> string \<Rightarrow> string \<Rightarrow> SharedEntity list \<Rightarrow> Track option io" where
  "track_holding dv w taskID excluded [] = io_return None"
| "track_holding dv w taskID excluded (row # rows) =
     (if se_ID row = excluded then track_holding dv w taskID excluded rows
      else case decode_track (se_Payload row) of
        None \<Rightarrow> io_error ''json: cannot unmarshal Track''
      | Some tk \<Rightarrow>
          if taskID \<notin> set (elems (tk_Tasks tk)) then track_holding dv w taskID excluded rows
          else io_bind (if tk_Status tk = ''accepted'' then deriveTrackStatus dv w tk else io_return (tk_Status tk))
            (\<lambda>status. if nonterminal_track_status status then io_return (Some tk)
              else track_holding dv w taskID excluded rows))"

definition nonterminalTrackForTaskExcluding ::
  "driver \<Rightarrow> world \<Rightarrow> (string \<Rightarrow> string \<Rightarrow> string option) \<Rightarrow> string \<Rightarrow> string \<Rightarrow> string \<Rightarrow> cursor_registry
   \<Rightarrow> (Track option \<times> cursor_registry) io" where
  "nonterminalTrackForTaskExcluding dv w extract projectID taskID excluded reg =
     io_bind (QuerySharedLifecycle dv extract (track_query projectID []) reg) (\<lambda>(page, reg').
     io_bind (track_holding dv w taskID excluded (qp_Entities page)) (\<lambda>found. io_return (found, reg')))"

definition nonterminalTrackForTask ::
  "driver \<Rightarrow> world \<Rightarrow> (string \<Rightarrow> string \<Rightarrow> string option) \<Rightarrow> string \<Rightarrow> string \<Rightarrow> cursor_registry
   \<Rightarrow> (Track option \<times> cursor_registry) io" where
  "nonterminalTrackForTask dv w extract projectID taskID reg =
     nonterminalTrackForTaskExcluding dv w extract projectID taskID [] reg"

text \<open>Every task is free of other nonterminal tracks.\<close>

fun tasks_untracked ::
  "driver \<Rightarrow> world \<Rightarrow> (string \<Rightarrow> string \<Rightarrow> string option) \<Rightarrow> string \<Rightarrow> string \<Rightarrow> string list \<Rightarrow> cursor_registry
   \<Rightarrow> cursor_registry io" where
  "tasks_untracked dv w extract projectID excluded [] reg = io_return reg"
| "tasks_untracked dv w extract projectID excluded (t # ts) reg =
     io_bind (nonterminalTrackForTaskExcluding dv w extract projectID t excluded reg) (\<lambda>(found, reg').
       case found of
         Some other \<Rightarrow> io_error (''Task '' @ go_quote t @ '' already belongs to nonterminal Track '' @ go_quote (tk_ID other))
       | None \<Rightarrow> tasks_untracked dv w extract projectID excluded ts reg')"

text \<open>The stored status decides here: an accepted track is terminal for the milestone.\<close>

fun milestone_tracks_terminal :: "string \<Rightarrow> string list \<Rightarrow> SharedEntity list \<Rightarrow> error" where
  "milestone_tracks_terminal milestoneID members [] = None"
| "milestone_tracks_terminal milestoneID members (row # rows) =
     (case decode_track (se_Payload row) of
        None \<Rightarrow> Some ''json: cannot unmarshal Track''
      | Some tk \<Rightarrow>
          if tk_Milestone tk = milestoneID \<and> (\<exists>t \<in> set (elems (tk_Tasks tk)). t \<in> set members)
             \<and> nonterminal_track_status (tk_Status tk)
          then Some (''Milestone '' @ go_quote milestoneID @ '' has nonterminal Track '' @ go_quote (tk_ID tk))
          else milestone_tracks_terminal milestoneID members rows)"

definition requireMilestoneHasNoNonterminalTracks ::
  "driver \<Rightarrow> world \<Rightarrow> (string \<Rightarrow> string \<Rightarrow> string option) \<Rightarrow> string \<Rightarrow> string \<Rightarrow> cursor_registry \<Rightarrow> cursor_registry io" where
  "requireMilestoneHasNoNonterminalTracks dv w extract projectID milestoneID reg =
     io_bind (MilestoneLifecycleRead dv w projectID milestoneID 0) (\<lambda>milestone.
     io_bind (QuerySharedLifecycle dv extract (track_query projectID []) reg) (\<lambda>(page, reg').
       io_check (milestone_tracks_terminal milestoneID (elems (ms_Tasks milestone)) (qp_Entities page)) (io_return reg')))"

end
