(* ===== verification/Milestone_Service.thy ===== *)
theory Milestone_Service
  imports Track_Reads
begin

text \<open>
  Milestones as the service offers them (\<open>service/milestone_lifecycle.go\<close>, \<open>service/milestone_membership.go\<close>): creation,
  update, activation, completion, archiving, membership, views with their report, search and history.
\<close>

section \<open>Creating\<close>

record MilestoneCreateInput =
  mci_ProjectID :: string
  mci_Title :: string
  mci_Summary :: string
  mci_Tasks :: "string list option"
  mci_CreatedBy :: string

definition json_milestone_create :: "MilestoneCreateInput \<Rightarrow> string" where
  "json_milestone_create i = json_object
     (json_field ''ProjectID'' (json_string (mci_ProjectID i)) @ json_field ''Title'' (json_string (mci_Title i))
      @ json_field ''Summary'' (json_string (mci_Summary i)) @ json_field ''Tasks'' (json_strings (mci_Tasks i))
      @ json_field ''CreatedBy'' (json_string (mci_CreatedBy i)))"

definition build_milestone :: "MilestoneCreateInput \<Rightarrow> gotime \<Rightarrow> string \<Rightarrow> string result" where
  "build_milestone i now key =
     (case NewMilestone (mci_ProjectID i) key (mci_Title i) (mci_Summary i) (mci_Tasks i) (mci_CreatedBy i) now of
        Inl m \<Rightarrow> Err m | Inr m \<Rightarrow> json_milestone m)"

definition MilestoneLifecycleCreate ::
  "driver \<Rightarrow> world \<Rightarrow> MilestoneCreateInput \<Rightarrow> string \<Rightarrow> (Milestone \<times> OperationResult) io" where
  "MilestoneLifecycleCreate dv w i operationID =
     io_bind (requireLocalTaskAuthoring dv w (mci_ProjectID i)) (\<lambda>_.
     let given = (if operationID = [] then w_operation w else operationID);
         operationID = (if given = [] then ''milestone-create-'' @ sha256_hex (json_milestone_create i) else given) in
     io_bind (sharedTaskProjectCode dv w (mci_ProjectID i)) (\<lambda>code.
     io_bind (validateMilestoneTasks dv (mci_ProjectID i) code (elems (mci_Tasks i))) (\<lambda>_.
     io_bind (io_now dv w) (\<lambda>now.
     io_bind (CommitSharedLifecycleCreate dv
         \<lparr>lc_OperationID = operationID, lc_EntityType = ''milestone'', lc_ProjectID = mci_ProjectID i,
          lc_ProjectCode = code, lc_InitialNextNumber = 1, lc_Kind = ''milestone-create'', lc_HistoryMutationKind = ''create'',
          lc_Actor = mci_CreatedBy i, lc_Reason = ''create'', lc_ChangedFields = Some [''title'', ''summary'', ''tasks''],
          lc_CreatedAt = to_utc now, lc_BuildPayload = Some (build_milestone i (to_utc now)), lc_ExtraStatements = None\<rparr>)
       (\<lambda>(receipt, key, payload).
          case decode_milestone payload of
            None \<Rightarrow> io_error ''json: cannot unmarshal milestone''
          | Some created \<Rightarrow>
              io_return (created, entity_result operationID (ms_ProjectID created) key 1 (ms_Status created)))))))"

section \<open>Changing\<close>

definition milestone_result :: "string \<Rightarrow> Milestone \<Rightarrow> OperationResult" where
  "milestone_result operationID m = entity_result operationID (ms_ProjectID m) (ms_ID m) (ms_Revision m) (ms_Status m)"

text \<open>The next revision of a milestone: its author and a time behind the last change.\<close>

definition next_milestone :: "Milestone \<Rightarrow> string \<Rightarrow> gotime \<Rightarrow> Milestone" where
  "next_milestone m actor now = m\<lparr>ms_Revision := wrap_int (ms_Revision m + 1), ms_UpdatedBy := actor,
     ms_UpdatedAt := later_than (ms_UpdatedAt m) (to_utc now)\<rparr>"

definition milestone_revision ::
  "string \<Rightarrow> string \<Rightarrow> string \<Rightarrow> string \<Rightarrow> int \<Rightarrow> SharedEntity \<Rightarrow> Milestone \<Rightarrow> string \<Rightarrow> string \<Rightarrow> string \<Rightarrow> string list
   \<Rightarrow> SharedLifecycleRevision" where
  "milestone_revision projectID key kind historyKind expected row m payload actor reason changed =
     \<lparr>lr_OperationID = (if kind = ''archive'' then ''milestone-archive'' else kind) @ ''-'' @ key @ ''-r'' @ dec_int (ms_Revision m),
      lr_EntityType = ''milestone'', lr_ProjectID = projectID, lr_EntityID = key, lr_ExpectedRevision = expected,
      lr_ExpectedStoreRevision = se_Revision row, lr_Revision = ms_Revision m, lr_Kind = kind,
      lr_HistoryMutationKind = historyKind, lr_Payload = payload, lr_Actor = actor, lr_Reason = reason,
      lr_ChangedFields = Some changed, lr_CreatedAt = ms_UpdatedAt m, lr_PreviousHistory = None\<rparr>"

record MilestoneUpdateInput =
  mui_ProjectID :: string
  mui_Key :: string
  mui_Title :: "string option"
  mui_Summary :: "string option"
  mui_Tasks :: "string list option"
  mui_ExpectedRevision :: int
  mui_UpdatedBy :: string
  mui_Reason :: string

definition MilestoneLifecycleUpdate ::
  "driver \<Rightarrow> world \<Rightarrow> MilestoneUpdateInput \<Rightarrow> (Milestone \<times> OperationResult) io" where
  "MilestoneLifecycleUpdate dv w i =
     io_bind (requireLocalTaskAuthoring dv w (mui_ProjectID i)) (\<lambda>_.
     io_check (first_error
       [fail_if (mui_UpdatedBy i = [] \<or> mui_Reason i = [] \<or> mui_ExpectedRevision i < 1)
          ''milestone update requires actor, reason, and expected revision'',
        fail_if (mui_Tasks i \<noteq> None)
          ''milestone update is metadata-only; tasks membership uses append_task or remove_task''])
     (io_bind (MilestoneLifecycleRead dv w (mui_ProjectID i) (mui_Key i) 0) (\<lambda>current.
      io_check (first_error
        [fail_if (ms_Status current = ''completed'' \<or> ms_Status current = ''archived'')
           (''milestone '' @ go_quote (mui_Key i) @ '' cannot be updated from status '' @ go_quote (ms_Status current)),
         fail_if (ms_Revision current \<noteq> mui_ExpectedRevision i)
           (''milestone revision conflict: expected '' @ dec_int (mui_ExpectedRevision i) @ '', current ''
            @ dec_int (ms_Revision current))])
      (if mui_Title i = None \<and> mui_Summary i = None then io_return (current, milestone_result [] current)
       else io_bind (io_now dv w) (\<lambda>now.
         let updated = next_milestone (current\<lparr>ms_Title := patched (mui_Title i) (ms_Title current),
               ms_Summary := patched (mui_Summary i) (ms_Summary current)\<rparr>) (mui_UpdatedBy i) now in
         io_check (ValidateMilestone updated)
         (io_bind (io_value (json_milestone updated)) (\<lambda>payload.
          io_bind (ReadSharedEntity dv ''milestone'' (mui_Key i)) (\<lambda>row.
          let rq = milestone_revision (mui_ProjectID i) (mui_Key i) ''milestone-update'' ''update'' (mui_ExpectedRevision i)
                row updated payload (mui_UpdatedBy i) (mui_Reason i)
                ((if mui_Title i = None then [] else [''title'']) @ (if mui_Summary i = None then [] else [''summary''])) in
          io_bind (CommitSharedLifecycleRevision dv rq) (\<lambda>_.
            io_return (updated, milestone_result (lr_OperationID rq) updated))))))))))"

definition milestoneStatusTransition ::
  "driver \<Rightarrow> world \<Rightarrow> string \<Rightarrow> string \<Rightarrow> string \<Rightarrow> string \<Rightarrow> string \<Rightarrow> string \<Rightarrow> string \<Rightarrow> Milestone io" where
  "milestoneStatusTransition dv w projectID key actor target kind historyKind reason =
     io_bind (requireLocalTaskAuthoring dv w projectID) (\<lambda>_.
     io_check (fail_if (actor = []) ''milestone transition actor is required'')
     (io_bind (MilestoneLifecycleRead dv w projectID key 0) (\<lambda>current.
      io_check (fail_if (ms_Status current \<noteq> ''planned'' \<or> target \<noteq> ''active'')
        (''milestone '' @ go_quote key @ '' cannot transition from status '' @ go_quote (ms_Status current) @ '' to ''
         @ go_quote target))
      (io_bind (ReadSharedEntity dv ''milestone'' key) (\<lambda>row.
       io_bind (io_now dv w) (\<lambda>now.
       let updated = next_milestone (current\<lparr>ms_Status := target\<rparr>) actor now in
       io_bind (io_value (json_milestone updated)) (\<lambda>payload.
       io_bind (CommitSharedLifecycleRevision dv (milestone_revision projectID key kind historyKind (ms_Revision current) row
           updated payload actor reason [''status''])) (\<lambda>_.
         io_return updated))))))))"

definition MilestoneLifecycleActivate :: "driver \<Rightarrow> world \<Rightarrow> string \<Rightarrow> string \<Rightarrow> string \<Rightarrow> Milestone io" where
  "MilestoneLifecycleActivate dv w projectID key actor =
     milestoneStatusTransition dv w projectID key actor ''active'' ''milestone-activate'' ''activate'' ''activate''"

section \<open>Completing and archiving\<close>

fun tasks_done :: "driver \<Rightarrow> world \<Rightarrow> Milestone \<Rightarrow> string list \<Rightarrow> unit io" where
  "tasks_done dv w m [] = io_return ()"
| "tasks_done dv w m (t # ts) =
     io_bind (io_wrap (''milestone task '' @ go_quote t @ '' cannot be resolved: '') (readAnySharedTask dv w t)) (\<lambda>v.
     io_bind (ReadTaskExecutionState dv (ms_ProjectID m) t) (\<lambda>found.
       let status = (case found of Some s \<Rightarrow> if xs_Status s \<noteq> ''done'' then xs_Status s else ta_Status v | None \<Rightarrow> ta_Status v) in
       io_check (fail_if (status \<noteq> ''done'')
         (''milestone '' @ go_quote (ms_ID m) @ '' cannot complete: Task '' @ go_quote t @ '' has status '' @ go_quote status))
       (tasks_done dv w m ts)))"

definition requireMilestoneTasksDone :: "driver \<Rightarrow> world \<Rightarrow> Milestone \<Rightarrow> unit io" where
  "requireMilestoneTasksDone dv w m =
     io_check (fail_if (elems (ms_Tasks m) = [])
       (''milestone '' @ go_quote (ms_ID m) @ '' cannot complete without Task membership''))
     (tasks_done dv w m (elems (ms_Tasks m)))"

record MilestoneCompletionInput =
  mdi_ProjectID :: string
  mdi_Key :: string
  mdi_Evidence :: string
  mdi_EvidenceRefs :: "string list"
  mdi_Actor :: string

definition completed_milestone :: "MilestoneCompletionInput \<Rightarrow> Milestone \<Rightarrow> gotime \<Rightarrow> Milestone" where
  "completed_milestone i m now = next_milestone (m\<lparr>ms_Status := ''completed'', ms_CompletionEvidence := mdi_Evidence i,
     ms_CompletionEvidenceRefs := Some (mdi_EvidenceRefs i)\<rparr>) (mdi_Actor i) now"

definition MilestoneLifecycleComplete ::
  "driver \<Rightarrow> world \<Rightarrow> (string \<Rightarrow> string \<Rightarrow> string option) \<Rightarrow> MilestoneCompletionInput \<Rightarrow> cursor_registry \<Rightarrow> Milestone io" where
  "MilestoneLifecycleComplete dv w extract i reg =
     io_bind (requireLocalTaskAuthoring dv w (mdi_ProjectID i)) (\<lambda>_.
     io_check (first_error
       [fail_if (mdi_Actor i = []) ''milestone completion actor is required'',
        validateMilestoneEvidence (mdi_ProjectID i) (mdi_Evidence i) (mdi_EvidenceRefs i)])
     (io_bind (MilestoneLifecycleRead dv w (mdi_ProjectID i) (mdi_Key i) 0) (\<lambda>current.
      io_check (fail_if (ms_Status current \<noteq> ''active'')
        (''milestone '' @ go_quote (mdi_Key i) @ '' cannot be completed from status '' @ go_quote (ms_Status current)))
      (io_bind (requireMilestoneHasNoNonterminalTracks dv w extract (ms_ProjectID current) (ms_ID current) reg) (\<lambda>_.
       io_bind (requireMilestoneTasksDone dv w current) (\<lambda>_.
       io_bind (ReadSharedEntity dv ''milestone'' (mdi_Key i)) (\<lambda>row.
       io_bind (io_now dv w) (\<lambda>now.
       let updated = completed_milestone i current now in
       io_check (ValidateMilestone updated)
       (io_bind (io_value (json_milestone updated)) (\<lambda>payload.
        io_bind (CommitSharedLifecycleRevision dv (milestone_revision (mdi_ProjectID i) (mdi_Key i) ''milestone-complete''
            ''complete'' (ms_Revision current) row updated payload (mdi_Actor i) ''completion evidence supplied''
            [''status'', ''completion_evidence'', ''completion_evidence_refs''])) (\<lambda>_.
          io_return updated)))))))))))"

definition MilestoneLifecycleArchive ::
  "driver \<Rightarrow> world \<Rightarrow> (string \<Rightarrow> string \<Rightarrow> string option) \<Rightarrow> string \<Rightarrow> string \<Rightarrow> string \<Rightarrow> string \<Rightarrow> cursor_registry \<Rightarrow> Milestone io" where
  "MilestoneLifecycleArchive dv w extract projectID key actor reason reg =
     io_bind (requireLocalTaskAuthoring dv w projectID) (\<lambda>_.
     io_bind (MilestoneLifecycleRead dv w projectID key 0) (\<lambda>current.
       if ms_Status current = ''archived'' then io_return current
       else if ms_Status current \<noteq> ''completed''
       then io_error (''milestone '' @ go_quote key @ '' cannot be archived from status '' @ go_quote (ms_Status current))
       else io_bind (requireMilestoneHasNoNonterminalTracks dv w extract (ms_ProjectID current) (ms_ID current) reg) (\<lambda>_.
         io_bind (ReadSharedEntity dv ''milestone'' key) (\<lambda>row.
         io_bind (io_now dv w) (\<lambda>now.
         let updated = next_milestone (current\<lparr>ms_Status := ''archived''\<rparr>) actor now in
         io_check (ValidateMilestone updated)
         (io_bind (io_value (json_milestone updated)) (\<lambda>payload.
          io_bind (CommitSharedLifecycleArchive dv (milestone_revision projectID key ''archive'' ''archive''
              (ms_Revision current) row updated payload actor reason [''status''])) (\<lambda>_.
            io_return updated))))))))"

section \<open>Membership\<close>

record MilestoneMembershipInput =
  mmi_ProjectID :: string
  mmi_Key :: string
  mmi_Tasks :: "string list"
  mmi_Actor :: string
  mmi_Reason :: string

definition appended_members :: "string list \<Rightarrow> string list \<Rightarrow> string list" where
  "appended_members tasks existing = foldl (\<lambda>m t. if t \<in> set m then m else m @ [t]) existing tasks"

text \<open>The members left; a member of a nonterminal track cannot leave.\<close>

fun removed_members ::
  "driver \<Rightarrow> world \<Rightarrow> (string \<Rightarrow> string \<Rightarrow> string option) \<Rightarrow> string \<Rightarrow> string list \<Rightarrow> string list \<Rightarrow> cursor_registry
   \<Rightarrow> string list io" where
  "removed_members dv w extract projectID [] existing reg = io_return existing"
| "removed_members dv w extract projectID (t # ts) existing reg =
     (if t \<notin> set existing then removed_members dv w extract projectID ts existing reg
      else io_bind (nonterminalTrackForTask dv w extract projectID t reg) (\<lambda>(found, reg').
        case found of
          Some track \<Rightarrow>
            io_error (''milestone task '' @ go_quote t @ '' belongs to nonterminal Track '' @ go_quote (tk_ID track))
        | None \<Rightarrow> removed_members dv w extract projectID ts (removeAll t existing) reg'))"

definition mutateMilestoneMembership ::
  "driver \<Rightarrow> world \<Rightarrow> (string \<Rightarrow> string \<Rightarrow> string option) \<Rightarrow> MilestoneMembershipInput \<Rightarrow> bool \<Rightarrow> cursor_registry
   \<Rightarrow> (Milestone \<times> OperationResult) io" where
  "mutateMilestoneMembership dv w extract i appendTasks reg =
     io_bind (requireLocalTaskAuthoring dv w (mmi_ProjectID i)) (\<lambda>_.
     io_check (fail_if (mmi_Actor i = [] \<or> mmi_Reason i = [] \<or> mmi_Tasks i = [])
       ''milestone membership mutation requires tasks, actor, and reason'')
     (io_bind (MilestoneLifecycleRead dv w (mmi_ProjectID i) (mmi_Key i) 0) (\<lambda>current.
      io_check (fail_if (ms_Status current = ''completed'' \<or> ms_Status current = ''archived'')
        (''milestone '' @ go_quote (mmi_Key i) @ '' cannot change membership from status '' @ go_quote (ms_Status current)))
      (io_bind (sharedTaskProjectCode dv w (mmi_ProjectID i)) (\<lambda>code.
       io_bind (validateMilestoneTasks dv (mmi_ProjectID i) code (mmi_Tasks i)) (\<lambda>_.
       io_bind (if appendTasks then io_return (appended_members (mmi_Tasks i) (elems (ms_Tasks current)))
                else removed_members dv w extract (mmi_ProjectID i) (mmi_Tasks i) (elems (ms_Tasks current)) reg) (\<lambda>members.
         if members = elems (ms_Tasks current) then io_return (current, milestone_result [] current)
         else io_bind (io_now dv w) (\<lambda>now.
           let updated = next_milestone (current\<lparr>ms_Tasks := CanonicalMilestoneTasks (Some members)\<rparr>) (mmi_Actor i) now;
               kind = (if appendTasks then ''milestone-append-task'' else ''milestone-remove-task'') in
           io_check (ValidateMilestone updated)
           (io_bind (io_value (json_milestone updated)) (\<lambda>payload.
            io_bind (ReadSharedEntity dv ''milestone'' (mmi_Key i)) (\<lambda>row.
            let rq = milestone_revision (mmi_ProjectID i) (mmi_Key i) kind ''update'' (ms_Revision current) row updated payload
                  (mmi_Actor i) (mmi_Reason i) [''tasks''] in
            io_bind (CommitSharedLifecycleRevision dv rq) (\<lambda>_.
              io_return (updated, milestone_result (lr_OperationID rq) updated)))))))))))))"

definition MilestoneLifecycleAppendTasks ::
  "driver \<Rightarrow> world \<Rightarrow> (string \<Rightarrow> string \<Rightarrow> string option) \<Rightarrow> MilestoneMembershipInput \<Rightarrow> cursor_registry
   \<Rightarrow> (Milestone \<times> OperationResult) io" where
  "MilestoneLifecycleAppendTasks dv w extract i reg = mutateMilestoneMembership dv w extract i True reg"

definition MilestoneLifecycleRemoveTasks ::
  "driver \<Rightarrow> world \<Rightarrow> (string \<Rightarrow> string \<Rightarrow> string option) \<Rightarrow> MilestoneMembershipInput \<Rightarrow> cursor_registry
   \<Rightarrow> (Milestone \<times> OperationResult) io" where
  "MilestoneLifecycleRemoveTasks dv w extract i reg = mutateMilestoneMembership dv w extract i False reg"

section \<open>Views\<close>

definition taskExecutionProjectedStatus :: "driver \<Rightarrow> TaskExecutionState \<Rightarrow> string io" where
  "taskExecutionProjectedStatus dv s =
     (if xs_Status s \<noteq> ''abandoned'' then io_return (xs_Status s)
      else io_bind (validateTaskExecutionResetTerminalState dv s) (\<lambda>_. io_return ''planned''))"

record MilestoneTaskProjection =
  mt_Key :: string
  mt_Title :: string
  mt_Status :: string
  mt_Priority :: string
  mt_Archived :: bool

record MilestoneView =
  mv_Milestone :: Milestone
  mv_Tasks :: "MilestoneTaskProjection list"
  mv_Report :: string

fun milestone_projections :: "driver \<Rightarrow> world \<Rightarrow> Milestone \<Rightarrow> string list \<Rightarrow> MilestoneTaskProjection list io" where
  "milestone_projections dv w m [] = io_return []"
| "milestone_projections dv w m (t # ts) =
     io_bind (io_wrap (''milestone task '' @ go_quote t @ '' cannot be resolved: '') (readAnySharedTask dv w t)) (\<lambda>v.
     io_bind (ReadTaskExecutionState dv (ms_ProjectID m) t) (\<lambda>found.
     io_bind (case found of
          Some s \<Rightarrow> if xs_Status s \<noteq> ''done'' then taskExecutionProjectedStatus dv s else io_return (ta_Status v)
        | None \<Rightarrow> io_return (ta_Status v)) (\<lambda>status.
     io_bind (milestone_projections dv w m ts) (\<lambda>rest.
       io_return (\<lparr>mt_Key = ta_ID v, mt_Title = ta_Title v, mt_Status = status, mt_Priority = ta_Priority v,
         mt_Archived = (ta_Status v = ''archived'')\<rparr> # rest)))))"

definition projection_rank :: "string \<Rightarrow> int" where
  "projection_rank priority =
     (case TaskPriorityRank priority of Inl _ \<Rightarrow> int (length TaskPriorities) + 1 | Inr r \<Rightarrow> r)"

definition task_symbol :: "string \<Rightarrow> string" where
  "task_symbol status =
     (if status = ''planned'' then [CHR 0xE2, CHR 0x97, CHR 0x8B]
      else if status = ''ready'' then [CHR 0xE2, CHR 0x96, CHR 0xB6]
      else if status = ''done'' then [CHR 0xE2, CHR 0x9C, CHR 0x93]
      else if status = ''archived'' then [CHR 0xE2, CHR 0x97, CHR 0x86]
      else if status = ''failed'' then [CHR 0xE2, CHR 0x9C, CHR 0x97]
      else ''?'')"

definition report_line :: "nat \<Rightarrow> MilestoneTaskProjection \<Rightarrow> string" where
  "report_line i t = dec (Suc i) @ ''. '' @ task_symbol (mt_Status t) @ '' ['' @ (if mt_Priority t = [] then ''P-'' else mt_Priority t)
     @ ''] '' @ mt_Key t @ '' '' @ [CHR 0xE2, CHR 0x80, CHR 0x94] @ '' '' @ mt_Title t @ '' ('' @ mt_Status t @ '')'' @ [lf]"

definition renderMilestoneReport :: "Milestone \<Rightarrow> MilestoneTaskProjection list \<Rightarrow> string result" where
  "renderMilestoneReport m tasks =
     map_sum id (\<lambda>symbol. symbol @ '' '' @ ms_Title m @ '' ['' @ ms_Status m @ '']'' @ [lf]
       @ (if ms_Summary m = [] then [] else ms_Summary m @ [lf]) @ ''Ungrouped tasks:'' @ [lf]
       @ concat (map (\<lambda>(i, t). report_line i t) (List.enumerate 0 tasks)))
     (MilestoneStatusSymbol (ms_Status m))"

definition milestoneView :: "driver \<Rightarrow> world \<Rightarrow> Milestone \<Rightarrow> MilestoneView io" where
  "milestoneView dv w m =
     io_bind (milestone_projections dv w m (elems (ms_Tasks m))) (\<lambda>tasks.
     let tasks = sort_key (\<lambda>t. (projection_rank (mt_Priority t), mt_Key t)) tasks in
     io_bind (io_value (renderMilestoneReport m tasks)) (\<lambda>report.
       io_return \<lparr>mv_Milestone = m, mv_Tasks = tasks, mv_Report = report\<rparr>))"

definition MilestoneLifecycleView :: "driver \<Rightarrow> world \<Rightarrow> string \<Rightarrow> string \<Rightarrow> int \<Rightarrow> MilestoneView io" where
  "MilestoneLifecycleView dv w projectID key revision =
     io_bind (MilestoneLifecycleRead dv w projectID key revision) (milestoneView dv w)"

section \<open>Search and history\<close>

record MilestonePage =
  mp_Milestones :: "MilestoneView list"
  mp_NextCursor :: string
  mp_HasMore :: bool
  mp_CursorKind :: string

fun milestone_views :: "driver \<Rightarrow> world \<Rightarrow> string \<Rightarrow> SharedEntity list \<Rightarrow> MilestoneView list io" where
  "milestone_views dv w projectID [] = io_return []"
| "milestone_views dv w projectID (row # rows) =
     (case decode_milestone (se_Payload row) of
        None \<Rightarrow> io_error ''json: cannot unmarshal milestone''
      | Some m \<Rightarrow>
          io_require (ms_ID m = se_ID row \<and> ms_ProjectID m = projectID) ''shared milestone identity mismatch''
          (io_check (ValidateMilestone m)
          (io_bind (milestoneView dv w m) (\<lambda>v.
           io_bind (milestone_views dv w projectID rows) (\<lambda>vs. io_return (v # vs))))))"

definition MilestoneLifecycleListQuery ::
  "driver \<Rightarrow> world \<Rightarrow> (string \<Rightarrow> string \<Rightarrow> string option) \<Rightarrow> string \<Rightarrow> string \<Rightarrow> string \<Rightarrow> string \<Rightarrow> bool \<Rightarrow> cursor_registry
   \<Rightarrow> (MilestonePage \<times> cursor_registry) io" where
  "MilestoneLifecycleListQuery dv w extract projectID query status cursor includeArchived reg =
     io_bind (requireLocalTaskAuthoring dv w projectID) (\<lambda>_.
     io_bind (QuerySharedLifecycle dv extract
         \<lparr>lq_EntityType = ''milestone'', lq_ProjectID = projectID, lq_Text = query, lq_Filters = Some (status_filter status),
          lq_IncludeArchived = (includeArchived \<or> status = ''archived''), lq_ExcludeSuperseded = False,
          lq_ExcludeDone = False, lq_Limit = int SharedLifecycleQueryMaxRows, lq_Cursor = cursor\<rparr> reg) (\<lambda>(page, reg').
     io_bind (milestone_views dv w projectID (qp_Entities page)) (\<lambda>views.
       io_return (\<lparr>mp_Milestones = views, mp_NextCursor = qp_NextCursor page, mp_HasMore = qp_HasMore page,
         mp_CursorKind = qp_CursorKind page\<rparr>, reg'))))"

definition MilestoneLifecycleHistory ::
  "driver \<Rightarrow> world \<Rightarrow> string \<Rightarrow> string \<Rightarrow> string \<Rightarrow> cursor_registry \<Rightarrow> SharedHistoryPage io" where
  "MilestoneLifecycleHistory dv w projectID key cursor reg =
     io_bind (requireLocalTaskAuthoring dv w projectID) (\<lambda>_.
     io_bind (io_value (history_position ''invalid milestone history cursor'' (''milestone-history:'' @ projectID @ '':'' @ key)
         cursor reg)) (\<lambda>after.
       ListSharedLifecycleHistoryPage dv ''milestone'' projectID key after (int SharedLifecycleQueryMaxRows)))"

end
