(* ===== verification/Track_Service.thy ===== *)
theory Track_Service
  imports Milestone_Service
begin

text \<open>
  Tracks as the service offers them (\<open>service/track_lifecycle.go\<close>): creation, update, membership, cancellation,
  submission, acceptance and archiving of a group of tasks of a milestone, the record of a dispatch, views, search and
  history.
\<close>

section \<open>Committing a change\<close>

definition track_result :: "string \<Rightarrow> Track \<Rightarrow> OperationResult" where
  "track_result operationID v = entity_result operationID (tk_ProjectID v) (tk_ID v) (tk_Revision v) (tk_Status v)"

definition track_contract :: string where
  "track_contract = json_object (json_field ''entity'' (json_string ''track''))"

text \<open>A change of the status is an event, any other change a revision.\<close>

definition track_event ::
  "string \<Rightarrow> SharedEntity \<Rightarrow> Track \<Rightarrow> Track \<Rightarrow> string \<Rightarrow> string \<Rightarrow> string \<Rightarrow> string \<Rightarrow> string list \<Rightarrow> SharedLifecycleEventRequest" where
  "track_event operationID row previous new payload kind actor reason changed =
     \<lparr>eq_OperationID = operationID, eq_EntityType = ''track'', eq_ProjectID = tk_ProjectID previous,
      eq_EntityID = tk_ID previous, eq_ExpectedRevision = tk_Revision previous, eq_ExpectedStoreRevision = se_Revision row,
      eq_ExpectedPayload = se_Payload row, eq_Revision = tk_Revision new, eq_Kind = kind, eq_EventKind = ''status'',
      eq_HistoryMutationKind = ''status'', eq_FromStatus = tk_Status previous, eq_ToStatus = tk_Status new,
      eq_Payload = payload, eq_Actor = actor, eq_Reason = reason, eq_ChangedFields = changed,
      eq_Contract = track_contract, eq_CreatedAt = tk_UpdatedAt new, eq_PreviousHistory = None, eq_ExtraStatements = []\<rparr>"

definition track_revision ::
  "string \<Rightarrow> SharedEntity \<Rightarrow> Track \<Rightarrow> Track \<Rightarrow> string \<Rightarrow> string \<Rightarrow> string \<Rightarrow> string \<Rightarrow> string list \<Rightarrow> SharedLifecycleRevision" where
  "track_revision operationID row previous new payload kind actor reason changed =
     \<lparr>lr_OperationID = operationID, lr_EntityType = ''track'', lr_ProjectID = tk_ProjectID previous,
      lr_EntityID = tk_ID previous, lr_ExpectedRevision = tk_Revision previous, lr_ExpectedStoreRevision = se_Revision row,
      lr_Revision = tk_Revision new, lr_Kind = kind, lr_HistoryMutationKind = ''update'', lr_Payload = payload,
      lr_Actor = actor, lr_Reason = reason, lr_ChangedFields = Some changed, lr_CreatedAt = tk_UpdatedAt new,
      lr_PreviousHistory = None\<rparr>"

definition commitTrack ::
  "driver \<Rightarrow> Track \<Rightarrow> Track \<Rightarrow> string \<Rightarrow> string \<Rightarrow> string \<Rightarrow> string list \<Rightarrow> (Track \<times> OperationResult) io" where
  "commitTrack dv previous new kind actor reason changed =
     io_bind (io_value (json_track new)) (\<lambda>payload.
     io_bind (ReadSharedEntity dv ''track'' (tk_ID previous)) (\<lambda>row.
     let operationID = kind @ ''-'' @ tk_ID previous @ ''-r'' @ dec_int (tk_Revision new) in
     io_bind (if tk_Status previous \<noteq> tk_Status new
              then CommitSharedLifecycleEvent dv (track_event operationID row previous new payload kind actor reason changed)
              else CommitSharedLifecycleRevision dv (track_revision operationID row previous new payload kind actor reason changed))
       (\<lambda>receipt. io_return (new, track_result (rc_OperationID receipt) new))))"

definition commitTrackContent ::
  "driver \<Rightarrow> world \<Rightarrow> Track \<Rightarrow> Track \<Rightarrow> string \<Rightarrow> string \<Rightarrow> string \<Rightarrow> string list \<Rightarrow> (Track \<times> OperationResult) io" where
  "commitTrackContent dv w previous new kind actor reason changed =
     io_bind (io_now dv w) (\<lambda>now.
     let new = new\<lparr>tk_Revision := wrap_int (tk_Revision previous + 1), tk_UpdatedBy := actor,
           tk_UpdatedAt := later_than (tk_UpdatedAt previous) (to_utc now)\<rparr> in
     io_check (ValidateTrack new) (commitTrack dv previous new kind actor reason changed))"

definition commitTrackEvent ::
  "driver \<Rightarrow> Track \<Rightarrow> Track \<Rightarrow> string \<Rightarrow> string \<Rightarrow> string \<Rightarrow> string list \<Rightarrow> (Track \<times> OperationResult) io" where
  "commitTrackEvent dv previous new kind actor reason changed =
     io_check (ValidateTrack new)
     (io_bind (commitTrack dv previous new kind actor reason changed) (\<lambda>(committed, result).
        io_require (op_EntityKey result \<noteq> []) ''Track mutation did not commit'' (io_return (committed, result))))"

section \<open>Creating\<close>

record TrackCreateInput =
  kci_ProjectID :: string
  kci_Milestone :: string
  kci_Title :: string
  kci_Summary :: string
  kci_Tasks :: "string list option"
  kci_CreatedBy :: string

definition json_track_create :: "TrackCreateInput \<Rightarrow> string" where
  "json_track_create i = json_object
     (json_field ''ProjectID'' (json_string (kci_ProjectID i)) @ json_field ''Milestone'' (json_string (kci_Milestone i))
      @ json_field ''Title'' (json_string (kci_Title i)) @ json_field ''Summary'' (json_string (kci_Summary i))
      @ json_field ''Tasks'' (json_strings (kci_Tasks i)) @ json_field ''CreatedBy'' (json_string (kci_CreatedBy i)))"

definition build_track :: "TrackCreateInput \<Rightarrow> gotime \<Rightarrow> string \<Rightarrow> string result" where
  "build_track i now key =
     (case NewTrack (kci_ProjectID i) key (kci_Milestone i) (kci_Title i) (kci_Summary i) (kci_Tasks i) (kci_CreatedBy i) now of
        Inl m \<Rightarrow> Err m | Inr v \<Rightarrow> json_track v)"

definition TrackLifecycleCreate ::
  "driver \<Rightarrow> world \<Rightarrow> (string \<Rightarrow> string \<Rightarrow> string option) \<Rightarrow> TrackCreateInput \<Rightarrow> string \<Rightarrow> cursor_registry
   \<Rightarrow> (Track \<times> OperationResult) io" where
  "TrackLifecycleCreate dv w extract i operationID reg =
     io_bind (requireLocalTaskAuthoring dv w (kci_ProjectID i)) (\<lambda>_.
     io_check (fail_if (kci_CreatedBy i = []) ''Track creator is required'')
     (io_bind (MilestoneLifecycleRead dv w (kci_ProjectID i) (kci_Milestone i) 0) (\<lambda>milestone.
      io_check (fail_if (ms_Status milestone = ''completed'' \<or> ms_Status milestone = ''archived'')
        (''Track cannot be created for terminal Milestone '' @ go_quote (kci_Milestone i)))
      (io_bind (sharedTaskProjectCode dv w (kci_ProjectID i)) (\<lambda>code.
       io_bind (validateTrackTasks dv (kci_ProjectID i) code milestone (elems (kci_Tasks i))) (\<lambda>_.
       io_bind (tasks_untracked dv w extract (kci_ProjectID i) [] (elems (kci_Tasks i)) reg) (\<lambda>_.
       let operationID = (if operationID = [] then ''track-create-'' @ sha256_hex (json_track_create i) else operationID) in
       io_bind (io_now dv w) (\<lambda>now.
       io_bind (CommitSharedLifecycleCreate dv
           \<lparr>lc_OperationID = operationID, lc_EntityType = ''track'', lc_ProjectID = kci_ProjectID i,
            lc_ProjectCode = code, lc_InitialNextNumber = 1, lc_Kind = ''track-create'', lc_HistoryMutationKind = ''create'',
            lc_Actor = kci_CreatedBy i, lc_Reason = ''create'',
            lc_ChangedFields = Some [''milestone'', ''title'', ''summary'', ''tasks''],
            lc_CreatedAt = to_utc now, lc_BuildPayload = Some (build_track i (to_utc now)), lc_ExtraStatements = None\<rparr>)
         (\<lambda>(receipt, key, payload).
            case decode_track payload of
              None \<Rightarrow> io_error ''json: cannot unmarshal Track''
            | Some created \<Rightarrow> io_return (created, track_result operationID created))))))))))"

section \<open>Changing the content\<close>

text \<open>The stored track and its derived form, read one after the other.\<close>

definition track_for_change :: "driver \<Rightarrow> world \<Rightarrow> string \<Rightarrow> string \<Rightarrow> (Track \<times> Track) io" where
  "track_for_change dv w projectID key =
     io_bind (trackReadStored dv projectID key 0) (\<lambda>stored.
     io_bind (TrackLifecycleRead dv w projectID key 0) (\<lambda>current. io_return (stored, current)))"

record TrackUpdateInput =
  tui_ProjectID :: string
  tui_Key :: string
  tui_Title :: "string option"
  tui_Summary :: "string option"
  tui_Tasks :: "string list option"
  tui_Actor :: string
  tui_Reason :: string

definition updated_track :: "TrackUpdateInput \<Rightarrow> Track \<Rightarrow> Track" where
  "updated_track i v = v\<lparr>tk_Title := patched (tui_Title i) (tk_Title v), tk_Summary := patched (tui_Summary i) (tk_Summary v),
     tk_Tasks := (case tui_Tasks i of None \<Rightarrow> tk_Tasks v | Some ts \<Rightarrow> Some ts)\<rparr>"

definition TrackLifecycleUpdate ::
  "driver \<Rightarrow> world \<Rightarrow> (string \<Rightarrow> string \<Rightarrow> string option) \<Rightarrow> TrackUpdateInput \<Rightarrow> cursor_registry
   \<Rightarrow> (Track \<times> OperationResult) io" where
  "TrackLifecycleUpdate dv w extract i reg =
     io_bind (requireLocalTaskAuthoring dv w (tui_ProjectID i)) (\<lambda>_.
     io_check (fail_if (tui_Actor i = [] \<or> tui_Reason i = []) ''Track update requires actor and reason'')
     (io_bind (track_for_change dv w (tui_ProjectID i) (tui_Key i)) (\<lambda>(stored, current).
      io_check (fail_if (tk_Status current \<noteq> ''planned'') ''Track update is planned-only'')
      (io_bind (case tui_Tasks i of
           None \<Rightarrow> io_return ()
         | Some tasks \<Rightarrow>
             io_bind (MilestoneLifecycleRead dv w (tui_ProjectID i) (tk_Milestone current) 0) (\<lambda>milestone.
             io_bind (sharedTaskProjectCode dv w (tui_ProjectID i)) (\<lambda>code.
             io_bind (validateTrackTasks dv (tui_ProjectID i) code milestone tasks) (\<lambda>_.
             io_bind (tasks_untracked dv w extract (tui_ProjectID i) (tk_ID current) tasks reg) (\<lambda>_. io_return ()))))) (\<lambda>_.
       if tui_Title i = None \<and> tui_Summary i = None \<and> tui_Tasks i = None then io_return (current, track_result [] current)
       else commitTrackContent dv w stored (updated_track i stored) ''track-update'' (tui_Actor i) (tui_Reason i)
         [''title'', ''summary'', ''tasks''])))))"

record TrackMembershipInput =
  tmi_ProjectID :: string
  tmi_Key :: string
  tmi_Tasks :: "string list"
  tmi_Actor :: string
  tmi_Reason :: string

text \<open>The members after adding tasks, each free of other nonterminal tracks.\<close>

fun joined_members ::
  "driver \<Rightarrow> world \<Rightarrow> (string \<Rightarrow> string \<Rightarrow> string option) \<Rightarrow> string \<Rightarrow> string \<Rightarrow> string list \<Rightarrow> string list \<Rightarrow> cursor_registry
   \<Rightarrow> string list io" where
  "joined_members dv w extract projectID key [] members reg = io_return members"
| "joined_members dv w extract projectID key (t # ts) members reg =
     (if t \<in> set members then joined_members dv w extract projectID key ts members reg
      else io_bind (nonterminalTrackForTaskExcluding dv w extract projectID t key reg) (\<lambda>(found, reg').
        case found of
          Some other \<Rightarrow> io_error (''Task '' @ go_quote t @ '' already belongs to nonterminal Track '' @ go_quote (tk_ID other))
        | None \<Rightarrow> joined_members dv w extract projectID key ts (members @ [t]) reg'))"

text \<open>The members after removing tasks, none of which was dispatched.\<close>

fun left_members :: "string list \<Rightarrow> string list \<Rightarrow> string list \<Rightarrow> string list result" where
  "left_members dispatched [] members = Ok members"
| "left_members dispatched (t # ts) members =
     (if t \<notin> set members then Err (''Task '' @ go_quote t @ '' is not a Track member'')
      else if t \<in> set dispatched then Err (''Track Task '' @ go_quote t @ '' was already dispatched and cannot be removed'')
      else left_members dispatched ts (removeAll t members))"

definition mutateTrackMembership ::
  "driver \<Rightarrow> world \<Rightarrow> (string \<Rightarrow> string \<Rightarrow> string option) \<Rightarrow> TrackMembershipInput \<Rightarrow> bool \<Rightarrow> cursor_registry
   \<Rightarrow> (Track \<times> OperationResult) io" where
  "mutateTrackMembership dv w extract i appendTasks reg =
     io_bind (requireLocalTaskAuthoring dv w (tmi_ProjectID i)) (\<lambda>_.
     io_check (fail_if (tmi_Actor i = [] \<or> tmi_Reason i = [] \<or> tmi_Tasks i = [])
       ''Track membership mutation requires tasks, actor, and reason'')
     (io_bind (track_for_change dv w (tmi_ProjectID i) (tmi_Key i)) (\<lambda>(stored, current).
      io_check (first_error
        [fail_if (tk_Status current = ''planned'') ''Track append/remove is post-start only'',
         fail_if (tk_Status stored = ''accepted'' \<or> tk_Status stored = ''cancelled'' \<or> tk_Status stored = ''archived'')
           (''Track '' @ go_quote (tmi_Key i) @ '' is immutable in status '' @ go_quote (tk_Status stored))])
      (io_bind (MilestoneLifecycleRead dv w (tmi_ProjectID i) (tk_Milestone current) 0) (\<lambda>milestone.
       io_bind (sharedTaskProjectCode dv w (tmi_ProjectID i)) (\<lambda>code.
       io_bind (validateTrackTasks dv (tmi_ProjectID i) code milestone (tmi_Tasks i)) (\<lambda>_.
       io_bind (if appendTasks
                then joined_members dv w extract (tmi_ProjectID i) (tk_ID stored) (tmi_Tasks i) (elems (tk_Tasks stored)) reg
                else io_value (left_members (elems (tk_DispatchedTasks stored)) (tmi_Tasks i) (elems (tk_Tasks stored))))
         (\<lambda>members.
         io_check (fail_if (members = []) ''Track must retain at least one Task'')
         (if members = elems (tk_Tasks stored) then io_return (current, track_result [] current)
          else let changed = stored\<lparr>tk_Tasks := Some members, tk_Review := None\<rparr> in
            io_bind (trackStatusFromTasks dv changed) (\<lambda>status.
              commitTrackContent dv w stored (changed\<lparr>tk_Status := status\<rparr>)
                (if appendTasks then ''track-append-task'' else ''track-remove-task'') (tmi_Actor i) (tmi_Reason i)
                [''tasks'', ''review'', ''status'']))))))))))"

definition TrackLifecycleAppendTasks ::
  "driver \<Rightarrow> world \<Rightarrow> (string \<Rightarrow> string \<Rightarrow> string option) \<Rightarrow> TrackMembershipInput \<Rightarrow> cursor_registry
   \<Rightarrow> (Track \<times> OperationResult) io" where
  "TrackLifecycleAppendTasks dv w extract i reg = mutateTrackMembership dv w extract i True reg"

definition TrackLifecycleRemoveTasks ::
  "driver \<Rightarrow> world \<Rightarrow> (string \<Rightarrow> string \<Rightarrow> string option) \<Rightarrow> TrackMembershipInput \<Rightarrow> cursor_registry
   \<Rightarrow> (Track \<times> OperationResult) io" where
  "TrackLifecycleRemoveTasks dv w extract i reg = mutateTrackMembership dv w extract i False reg"

section \<open>Cancelling, submitting, accepting, archiving\<close>

definition TrackLifecycleCancel ::
  "driver \<Rightarrow> world \<Rightarrow> string \<Rightarrow> string \<Rightarrow> string \<Rightarrow> string \<Rightarrow> (Track \<times> OperationResult) io" where
  "TrackLifecycleCancel dv w projectID key actor reason =
     io_bind (requireLocalTaskAuthoring dv w projectID) (\<lambda>_.
     io_check (fail_if (actor = [] \<or> reason = []) ''Track cancellation requires actor and reason'')
     (io_bind (track_for_change dv w projectID key) (\<lambda>(stored, current).
      io_check (fail_if (tk_Status current \<noteq> ''planned'') ''Track cancel is planned-only'')
      (io_bind (io_now dv w) (\<lambda>now.
        commitTrackEvent dv stored
          (stored\<lparr>tk_Status := ''cancelled'', tk_CancelledAt := Some (to_utc now), tk_CancelledBy := actor,
             tk_CancelledReason := reason, tk_UpdatedBy := actor, tk_UpdatedAt := to_utc now,
             tk_Revision := wrap_int (tk_Revision stored + 1)\<rparr>)
          ''track-cancel'' actor reason [''status'', ''cancelled_at'', ''cancelled_by'', ''cancelled_reason''])))))"

record TrackTaskProjection =
  tj_Key :: string
  tj_Title :: string
  tj_Priority :: string
  tj_Dependencies :: "string list"
  tj_Status :: string
  tj_ExecutionStatus :: string
  tj_ExecutionStage :: string
  tj_ExecutionRevision :: int
  tj_Revision :: int

record TrackView =
  tv_Track :: Track
  tv_Tasks :: "TrackTaskProjection list"

fun track_projections :: "driver \<Rightarrow> string \<Rightarrow> string list \<Rightarrow> TrackTaskProjection list io" where
  "track_projections dv projectID [] = io_return []"
| "track_projections dv projectID (t # ts) =
     io_bind (readSharedTask dv projectID t) (\<lambda>v.
     io_bind (ReadTaskExecutionState dv projectID t) (\<lambda>found.
     io_bind (case found of
          Some s \<Rightarrow> io_bind (taskExecutionProjectedStatus dv s) (\<lambda>status.
            io_return (status, xs_Status s, xs_Stage s, xs_ExecutionRevision s))
        | None \<Rightarrow> io_return (ta_Status v, ''planned'', [], 0)) (\<lambda>(status, execution, stage, revision).
     io_bind (track_projections dv projectID ts) (\<lambda>rest.
       io_return (\<lparr>tj_Key = ta_ID v, tj_Title = ta_Title v, tj_Priority = ta_Priority v,
         tj_Dependencies = elems (ta_Dependencies v), tj_Status = status, tj_ExecutionStatus = execution,
         tj_ExecutionStage = stage, tj_ExecutionRevision = revision, tj_Revision = ta_Revision v\<rparr> # rest)))))"

definition trackView :: "driver \<Rightarrow> Track \<Rightarrow> TrackView io" where
  "trackView dv v = io_bind (track_projections dv (tk_ProjectID v) (elems (tk_Tasks v)))
     (\<lambda>tasks. io_return \<lparr>tv_Track = v, tv_Tasks = tasks\<rparr>)"

definition TrackLifecycleView :: "driver \<Rightarrow> world \<Rightarrow> string \<Rightarrow> string \<Rightarrow> int \<Rightarrow> TrackView io" where
  "TrackLifecycleView dv w projectID key revision =
     io_bind (TrackLifecycleRead dv w projectID key revision) (trackView dv)"

definition TrackLifecycleSubmit :: "driver \<Rightarrow> world \<Rightarrow> string \<Rightarrow> string \<Rightarrow> string \<Rightarrow> (Track \<times> TrackView) io" where
  "TrackLifecycleSubmit dv w projectID key actor =
     io_bind (requireLocalTaskAuthoring dv w projectID) (\<lambda>_.
     io_check (fail_if (actor = []) ''Track submitter is required'')
     (io_bind (track_for_change dv w projectID key) (\<lambda>(stored, current).
      io_check (fail_if (tk_Status current \<noteq> ''ready'' \<and> tk_Status current \<noteq> ''stale'')
        (''Track '' @ go_quote key @ '' is not ready for review: status '' @ go_quote (tk_Status current)))
      (let pending = stored\<lparr>tk_Status := ''review_pending'', tk_Revision := wrap_int (tk_Revision stored + 1)\<rparr> in
       io_bind (trackSnapshot dv w pending) (\<lambda>review.
       io_bind (io_now dv w) (\<lambda>now.
       let at = later_than (tk_UpdatedAt stored) (to_utc now);
           new = pending\<lparr>tk_Review := Some (review\<lparr>tr_SubmittedBy := actor, tr_SubmittedAt := at\<rparr>),
             tk_UpdatedBy := actor, tk_UpdatedAt := at\<rparr> in
       io_bind (commitTrackEvent dv stored new ''track-submit'' actor ''submit Track for Planner acceptance''
           [''status'', ''review'']) (\<lambda>_.
       io_bind (trackView dv new) (\<lambda>view. io_return (new, view)))))))))"

definition TrackLifecycleAccept :: "driver \<Rightarrow> world \<Rightarrow> string \<Rightarrow> string \<Rightarrow> string \<Rightarrow> (Track \<times> TrackView) io" where
  "TrackLifecycleAccept dv w projectID key actor =
     io_bind (requireLocalTaskAuthoring dv w projectID) (\<lambda>_.
     io_check (fail_if (actor = []) ''Track accepter is required'')
     (io_bind (track_for_change dv w projectID key) (\<lambda>(stored, current).
      io_check (fail_if (tk_Status current \<noteq> ''review_pending'')
        (''Track '' @ go_quote key @ '' is not pending fresh review: status '' @ go_quote (tk_Status current)))
      (io_bind (trackReviewIsFresh dv w stored) (\<lambda>fresh.
       io_require fresh (''Track '' @ go_quote key @ '' review snapshot is stale'')
       (io_bind (io_now dv w) (\<lambda>now.
        let new = stored\<lparr>tk_Status := ''accepted'', tk_UpdatedBy := actor,
              tk_UpdatedAt := later_than (tk_UpdatedAt stored) (to_utc now)\<rparr> in
        io_bind (commitTrackEvent dv stored new ''track-accept'' actor ''accept fresh Track review'' [''status'']) (\<lambda>_.
        io_bind (trackView dv new) (\<lambda>view. io_return (new, view))))))))))"

definition TrackLifecycleArchive :: "driver \<Rightarrow> world \<Rightarrow> string \<Rightarrow> string \<Rightarrow> string \<Rightarrow> string \<Rightarrow> Track io" where
  "TrackLifecycleArchive dv w projectID key actor reason =
     io_bind (requireLocalTaskAuthoring dv w projectID) (\<lambda>_.
     io_check (fail_if (actor = [] \<or> reason = []) ''Track archive requires actor and reason'')
     (io_bind (track_for_change dv w projectID key) (\<lambda>(stored, current).
      io_check (fail_if (tk_Status current \<noteq> ''accepted'' \<and> tk_Status current \<noteq> ''cancelled'')
        (''Track '' @ go_quote key @ '' cannot be archived from status '' @ go_quote (tk_Status current)))
      (io_bind (io_now dv w) (\<lambda>now.
       let new = stored\<lparr>tk_Status := ''archived'', tk_UpdatedBy := actor,
             tk_UpdatedAt := later_than (tk_UpdatedAt stored) (to_utc now)\<rparr> in
       io_bind (commitTrackEvent dv stored new ''track-archive'' actor reason [''status'']) (\<lambda>_. io_return new))))))"

section \<open>Dispatched tasks\<close>

definition recordTrackTaskDispatch ::
  "driver \<Rightarrow> world \<Rightarrow> (string \<Rightarrow> string \<Rightarrow> string option) \<Rightarrow> string \<Rightarrow> string \<Rightarrow> cursor_registry \<Rightarrow> unit io" where
  "recordTrackTaskDispatch dv w extract projectID taskID reg =
     io_bind (nonterminalTrackForTask dv w extract projectID taskID reg) (\<lambda>(found, reg').
       case found of
         None \<Rightarrow> io_return ()
       | Some track \<Rightarrow>
           io_check (fail_if (tk_Status track = ''accepted'')
             (''Task '' @ go_quote taskID @ '' belongs to an accepted Track whose review is stale''))
           (if taskID \<in> set (elems (tk_DispatchedTasks track)) then io_return ()
            else let new = track\<lparr>tk_DispatchedTasks := Some (elems (tk_DispatchedTasks track) @ [taskID])\<rparr> in
              io_bind (trackStatusFromTasks dv new) (\<lambda>status.
              io_bind (commitTrackContent dv w track (new\<lparr>tk_Status := status, tk_Review := None\<rparr>) ''track-dispatch''
                  ''gateway'' ''Task dispatched'' [''status'', ''dispatched_tasks'', ''review'']) (\<lambda>_. io_return ()))))"

section \<open>Search and history\<close>

record TrackPage =
  tq_Tracks :: "TrackView list"
  tq_NextCursor :: string
  tq_HasMore :: bool
  tq_CursorKind :: string

text \<open>The derived status is compared with the one that is asked for; archived tracks keep theirs.\<close>

fun track_views :: "driver \<Rightarrow> world \<Rightarrow> string \<Rightarrow> string \<Rightarrow> SharedEntity list \<Rightarrow> TrackView list io" where
  "track_views dv w projectID status [] = io_return []"
| "track_views dv w projectID status (row # rows) =
     (case decode_track (se_Payload row) of
        None \<Rightarrow> io_error ''json: cannot unmarshal Track''
      | Some v \<Rightarrow>
          io_require (tk_ID v = se_ID row \<and> tk_ProjectID v = projectID) ''shared Track identity mismatch''
          (io_check (ValidateTrack v)
          (io_bind (if tk_Status v \<noteq> ''archived'' then deriveTrackStatus dv w v else io_return (tk_Status v)) (\<lambda>derived.
             let v = v\<lparr>tk_Status := derived\<rparr> in
             if status \<noteq> [] \<and> derived \<noteq> status then track_views dv w projectID status rows
             else io_bind (trackView dv v) (\<lambda>view.
               io_bind (track_views dv w projectID status rows) (\<lambda>views. io_return (view # views)))))))"

definition milestone_filter :: "string \<Rightarrow> (string \<times> string) list" where
  "milestone_filter milestone = (if milestone = [] then [] else [(''milestone'', milestone)])"

definition TrackLifecycleListQuery ::
  "driver \<Rightarrow> world \<Rightarrow> (string \<Rightarrow> string \<Rightarrow> string option) \<Rightarrow> string \<Rightarrow> string \<Rightarrow> string \<Rightarrow> string \<Rightarrow> string \<Rightarrow> bool
   \<Rightarrow> cursor_registry \<Rightarrow> (TrackPage \<times> cursor_registry) io" where
  "TrackLifecycleListQuery dv w extract projectID query status milestone cursor includeArchived reg =
     io_bind (requireLocalTaskAuthoring dv w projectID) (\<lambda>_.
     io_bind (QuerySharedLifecycle dv extract
         \<lparr>lq_EntityType = ''track'', lq_ProjectID = projectID, lq_Text = query, lq_Filters = Some (milestone_filter milestone),
          lq_IncludeArchived = (includeArchived \<or> status = ''archived''), lq_ExcludeSuperseded = False,
          lq_ExcludeDone = False, lq_Limit = int SharedLifecycleQueryMaxRows, lq_Cursor = cursor\<rparr> reg) (\<lambda>(page, reg').
     io_bind (track_views dv w projectID status (qp_Entities page)) (\<lambda>views.
       io_return (\<lparr>tq_Tracks = views, tq_NextCursor = qp_NextCursor page, tq_HasMore = qp_HasMore page,
         tq_CursorKind = qp_CursorKind page\<rparr>, reg'))))"

definition TrackLifecycleHistory ::
  "driver \<Rightarrow> world \<Rightarrow> string \<Rightarrow> string \<Rightarrow> string \<Rightarrow> cursor_registry \<Rightarrow> SharedHistoryPage io" where
  "TrackLifecycleHistory dv w projectID key cursor reg =
     io_bind (requireLocalTaskAuthoring dv w projectID) (\<lambda>_.
     io_bind (io_value (history_position ''invalid Track history cursor'' (''track-history:'' @ projectID @ '':'' @ key)
         cursor reg)) (\<lambda>after.
       ListSharedLifecycleHistoryPage dv ''track'' projectID key after (int SharedLifecycleQueryMaxRows)))"

end
