(* ===== verification/Planning_Reads.thy ===== *)
theory Planning_Reads
  imports Service_Reads Track_Service
begin

text \<open>The operations on milestones and tracks keep every relation that does not look at the Shared tables.\<close>

context store_relation
begin

section \<open>Reads\<close>

lemma keeps_MilestoneLifecycleRead [reading, leaf]: "keeps R (MilestoneLifecycleRead dv w p i n)"
  unfolding MilestoneLifecycleRead_def stored_milestone_def by (intro reading)

lemma keeps_validate_tasks_from [reading, leaf]: "keeps R (validate_tasks_from dv what p c m ts seen)"
  by (induction ts arbitrary: seen) (auto intro!: reading)

lemma keeps_validateMilestoneTasks [reading, leaf]: "keeps R (validateMilestoneTasks dv p c ts)"
  unfolding validateMilestoneTasks_def by (intro reading)

lemma keeps_validateTrackTasks [reading, leaf]: "keeps R (validateTrackTasks dv p c m ts)"
  unfolding validateTrackTasks_def by (intro reading)

lemma keeps_snapshot_tasks [reading, leaf]: "keeps R (snapshot_tasks dv p ts)"
  by (induction ts) (auto intro!: reading)

lemma keeps_trackSnapshot [reading, leaf]: "keeps R (trackSnapshot dv w v)"
  unfolding trackSnapshot_def by (intro reading)

lemma keeps_trackReviewIsFresh [reading, leaf]: "keeps R (trackReviewIsFresh dv w v)"
  unfolding trackReviewIsFresh_def by (intro reading)

lemma keeps_tasks_progress [reading, leaf]: "keeps R (tasks_progress dv p ts a b)"
  by (induction ts arbitrary: a b) (auto intro!: reading split: option.split)

lemma keeps_trackStatusFromTasks [reading, leaf]: "keeps R (trackStatusFromTasks dv v)"
  unfolding trackStatusFromTasks_def by (intro reading)

lemma keeps_deriveTrackStatus [reading, leaf]: "keeps R (deriveTrackStatus dv w v)"
  unfolding deriveTrackStatus_def by (intro reading)

lemma keeps_TrackLifecycleRead [reading, leaf]: "keeps R (TrackLifecycleRead dv w p i n)"
  unfolding TrackLifecycleRead_def by (intro reading)

lemma keeps_track_holding [reading, leaf]: "keeps R (track_holding dv w t x rows)"
  by (induction rows) (auto intro!: reading split: option.split)

lemma keeps_nonterminalTrackForTaskExcluding [reading, leaf]:
  "keeps R (nonterminalTrackForTaskExcluding dv w extract p t x reg)"
  unfolding nonterminalTrackForTaskExcluding_def by (intro reading)

lemma keeps_nonterminalTrackForTask [reading, leaf]: "keeps R (nonterminalTrackForTask dv w extract p t reg)"
  unfolding nonterminalTrackForTask_def by (intro reading)

lemma keeps_tasks_untracked [reading, leaf]: "keeps R (tasks_untracked dv w extract p x ts reg)"
  by (induction ts arbitrary: reg) (auto intro!: reading split: option.split)

lemma keeps_requireMilestoneHasNoNonterminalTracks [reading, leaf]:
  "keeps R (requireMilestoneHasNoNonterminalTracks dv w extract p i reg)"
  unfolding requireMilestoneHasNoNonterminalTracks_def by (intro reading)

lemma keeps_readAnySharedTask [reading, leaf]: "keeps R (readAnySharedTask dv w k)"
  unfolding readAnySharedTask_def by (intro reading)

lemma keeps_tasks_done [reading, leaf]: "keeps R (tasks_done dv w m ts)"
  by (induction ts) (auto intro!: reading simp: Let_def)

lemma keeps_requireMilestoneTasksDone [reading, leaf]: "keeps R (requireMilestoneTasksDone dv w m)"
  unfolding requireMilestoneTasksDone_def by (intro reading)

lemma keeps_removed_members [reading, leaf]: "keeps R (removed_members dv w extract p ts ms reg)"
  by (induction ts arbitrary: ms reg) (auto intro!: reading split: option.split)

lemma keeps_joined_members [reading, leaf]: "keeps R (joined_members dv w extract p k ts ms reg)"
  by (induction ts arbitrary: ms reg) (auto intro!: reading split: option.split)

lemma keeps_track_for_change [reading, leaf]: "keeps R (track_for_change dv w p k)"
  unfolding track_for_change_def by (intro reading)

lemma keeps_taskExecutionProjectedStatus [reading, leaf]: "keeps R (taskExecutionProjectedStatus dv s)"
  unfolding taskExecutionProjectedStatus_def by (intro reading)

lemma keeps_track_projections [reading, leaf]: "keeps R (track_projections dv p ts)"
  by (induction ts) (auto intro!: reading split: option.split)

lemma keeps_trackView [reading, leaf]: "keeps R (trackView dv v)"
  unfolding trackView_def by (intro reading)

end

section \<open>Changes\<close>

context service_relation
begin

lemma keeps_milestone_services:
  "keeps R (MilestoneLifecycleCreate dv w mc op)" "keeps R (MilestoneLifecycleUpdate dv w mu)"
  "keeps R (MilestoneLifecycleActivate dv w p k a)" "keeps R (MilestoneLifecycleComplete dv w extract md reg)"
  "keeps R (MilestoneLifecycleArchive dv w extract p k a m reg)" "keeps R (mutateMilestoneMembership dv w extract mm add reg)"
  unfolding MilestoneLifecycleCreate_def MilestoneLifecycleUpdate_def MilestoneLifecycleActivate_def
    milestoneStatusTransition_def MilestoneLifecycleComplete_def MilestoneLifecycleArchive_def CommitSharedLifecycleArchive_def
    mutateMilestoneMembership_def
  by (intro reading; simp add: extras_follow_def)+

lemma keeps_commitTrack [reading]: "keeps R (commitTrack dv a b k x r c)"
  unfolding commitTrack_def by (intro reading; simp add: track_event_def)

lemma keeps_commitTrackContent [reading]: "keeps R (commitTrackContent dv w a b k x r c)"
  unfolding commitTrackContent_def by (intro reading)

lemma keeps_commitTrackEvent [reading]: "keeps R (commitTrackEvent dv a b k x r c)"
  unfolding commitTrackEvent_def by (intro reading)

lemma keeps_track_services:
  "keeps R (TrackLifecycleCreate dv w extract tc op reg)" "keeps R (TrackLifecycleUpdate dv w extract tu reg)"
  "keeps R (mutateTrackMembership dv w extract tm add reg)" "keeps R (TrackLifecycleCancel dv w p k a m)"
  "keeps R (TrackLifecycleSubmit dv w p k a)" "keeps R (TrackLifecycleAccept dv w p k a)"
  "keeps R (TrackLifecycleArchive dv w p k a m)" "keeps R (recordTrackTaskDispatch dv w extract p t reg)"
  unfolding TrackLifecycleCreate_def TrackLifecycleUpdate_def mutateTrackMembership_def TrackLifecycleCancel_def
    TrackLifecycleSubmit_def TrackLifecycleAccept_def TrackLifecycleArchive_def recordTrackTaskDispatch_def
  by (intro reading; simp add: extras_follow_def)+

end

end
