(* ===== verification/Execution_Service.thy ===== *)
theory Execution_Service
  imports Execution_Refinement Execution_Typed Execution_Invariants Planning_Reads
begin

text \<open>
  The operations of the service on tasks, their execution, ADRs, rules, relations, milestones and tracks as one
  family of requests, the databases
  that a history of requests can leave, and what holds of all of them.
\<close>

section \<open>Requests\<close>

type_synonym json_reader = "string \<Rightarrow> string \<Rightarrow> string option"

datatype execution_request =
    Dispatch TaskExecutionDispatchInput
  | Submit_code string string
  | Submit_rebase string string
  | Show_review string string string
  | Decide_review TaskExecutionReviewDecisionInput
  | Rework_task TaskExecutionReworkInput
  | Block string string string
  | Resume string string string
  | Refresh string string string
  | Reset string string string
  | Run_tests string string string
  | Integrate TaskExecutionIntegrateInput
  | Complete CommitTaskCompletionRequest
  | Archive CommitTaskArchiveRequest
  | Complete_task nat evidence "string \<Rightarrow> string \<Rightarrow> string option" TaskCompleteInput string cursor_registry
  | Archive_task string string string string
  | Create_task string TaskAuthoringCreateInput
  | Update_task string TaskAuthoringUpdateInput
  | Ready_task string TaskAuthoringReadyInput
  | Create_adr ADR string string string
  | Update_adr ADRUpdateInput
  | Archive_adr ADRArchiveInput
  | Create_rule Rule string string string
  | Update_rule RuleUpdateInput
  | Archive_rule RuleArchiveInput
  | Create_relation RelationCreateInput
  | Restore_relation Relation
  | Create_milestone MilestoneCreateInput string
  | Update_milestone MilestoneUpdateInput
  | Activate_milestone string string string
  | Complete_milestone json_reader MilestoneCompletionInput cursor_registry
  | Archive_milestone json_reader string string string string cursor_registry
  | Change_milestone json_reader MilestoneMembershipInput bool cursor_registry
  | Create_track json_reader TrackCreateInput string cursor_registry
  | Update_track json_reader TrackUpdateInput cursor_registry
  | Change_track json_reader TrackMembershipInput bool cursor_registry
  | Cancel_track string string string string
  | Submit_track string string string
  | Accept_track string string string
  | Archive_track string string string string
  | Record_dispatch json_reader string string cursor_registry

type_synonym historical_integration =
  "TaskExecutionIntegrateInput \<Rightarrow> project_config \<Rightarrow> TaskExecutionState \<Rightarrow> TaskExecutionPublicOutput io"

definition io_done :: "'a io \<Rightarrow> unit io" where
  "io_done m = io_bind m (\<lambda>_. io_return ())"

fun serve :: "driver \<Rightarrow> world \<Rightarrow> historical_integration \<Rightarrow> execution_request \<Rightarrow> unit io" where
  "serve dv w h (Dispatch i) = io_done (TaskExecutionDispatch dv w i)"
| "serve dv w h (Submit_code p k) = io_done (TaskExecutionSubmitCode dv w p k)"
| "serve dv w h (Submit_rebase p k) = io_done (TaskExecutionSubmitRebase dv w p k)"
| "serve dv w h (Show_review p k st) = io_done (TaskExecutionReview dv w p k st)"
| "serve dv w h (Decide_review i) = io_done (TaskExecutionReviewDecide dv w i)"
| "serve dv w h (Rework_task i) = io_done (TaskExecutionRework dv w i)"
| "serve dv w h (Block p k m) = io_done (TaskExecutionBlock dv w p k m)"
| "serve dv w h (Resume p k m) = io_done (TaskExecutionResume dv w p k m)"
| "serve dv w h (Refresh p k m) = io_done (TaskExecutionRefresh dv w p k m)"
| "serve dv w h (Reset p k m) = io_done (TaskExecutionReset dv w p k m)"
| "serve dv w h (Run_tests p k c) = io_done (taskExecutionTestRun dv w p k c)"
| "serve dv w h (Integrate i) = io_done (TaskExecutionIntegrate dv w h i)"
| "serve dv w h (Complete rq) = CommitTaskCompletion dv rq"
| "serve dv w h (Archive rq) = CommitTaskArchive dv rq"
| "serve dv w h (Complete_task n ew x i a reg) = io_done (TaskComplete n dv w ew x i a reg)"
| "serve dv w h (Archive_task p k a m) = io_done (TaskLifecycleArchive dv w p k a m)"
| "serve dv w h (Create_task op i) = io_done (taskAuthoringCreateShared dv w op i)"
| "serve dv w h (Update_task op i) = io_done (taskAuthoringUpdateShared dv w op i)"
| "serve dv w h (Ready_task op i) = io_done (taskAuthoringReadyShared dv w op i)"
| "serve dv w h (Create_adr v t g hub) = io_done (adrCreateShared dv w v t g hub)"
| "serve dv w h (Update_adr i) = io_done (ADRUpdate dv w i)"
| "serve dv w h (Archive_adr i) = io_done (ADRArchive dv w i)"
| "serve dv w h (Create_rule v t g hub) = io_done (RuleCreate dv w v t g hub)"
| "serve dv w h (Update_rule i) = io_done (RuleUpdate dv w i)"
| "serve dv w h (Archive_rule i) = io_done (RuleArchive dv w i)"
| "serve dv w h (Create_relation i) = io_done (RelationCreate dv w i)"
| "serve dv w h (Restore_relation v) = EnsureSharedRelation dv v"
| "serve dv w h (Create_milestone i op) = io_done (MilestoneLifecycleCreate dv w i op)"
| "serve dv w h (Update_milestone i) = io_done (MilestoneLifecycleUpdate dv w i)"
| "serve dv w h (Activate_milestone p k a) = io_done (MilestoneLifecycleActivate dv w p k a)"
| "serve dv w h (Complete_milestone x i reg) = io_done (MilestoneLifecycleComplete dv w x i reg)"
| "serve dv w h (Archive_milestone x p k a m reg) = io_done (MilestoneLifecycleArchive dv w x p k a m reg)"
| "serve dv w h (Change_milestone x i add reg) = io_done (mutateMilestoneMembership dv w x i add reg)"
| "serve dv w h (Create_track x i op reg) = io_done (TrackLifecycleCreate dv w x i op reg)"
| "serve dv w h (Update_track x i reg) = io_done (TrackLifecycleUpdate dv w x i reg)"
| "serve dv w h (Change_track x i add reg) = io_done (mutateTrackMembership dv w x i add reg)"
| "serve dv w h (Cancel_track p k a m) = io_done (TrackLifecycleCancel dv w p k a m)"
| "serve dv w h (Submit_track p k a) = io_done (TrackLifecycleSubmit dv w p k a)"
| "serve dv w h (Accept_track p k a) = io_done (TrackLifecycleAccept dv w p k a)"
| "serve dv w h (Archive_track p k a m) = io_done (TrackLifecycleArchive dv w p k a m)"
| "serve dv w h (Record_dispatch x p k reg) = recordTrackTaskDispatch dv w x p k reg"

section \<open>Every request follows the machine and keeps the types\<close>

sublocale execution_world \<subseteq> service: service_relation dv machine
  by unfold_locales (blast intro: statement_elsewhere completion_step)+

sublocale typed_world \<subseteq> service: service_relation dv typed_step
  by unfold_locales (blast intro: typed_elsewhere typed_complete)+

context execution_world
begin

lemma serve_follows:
  assumes "\<And>i pr s. keeps machine (h i pr s)"
  shows "keeps machine (serve dv w h q)"
proof -
  note moved = moves_dispatch moves_submit moves_review moves_rework moves_block moves_resume moves_refresh moves_reset
    moves_test_run moves_integrate [OF assms]
  note kept = moved [where S = "{}", THEN move_keeps]
  have review: "keeps machine (TaskExecutionReview dv w p k st)" for p k st
    unfolding TaskExecutionReview_def by (intro reading)
  show ?thesis
    by (cases q) (auto simp: io_done_def TaskExecutionSubmitCode_def TaskExecutionSubmitRebase_def
        intro!: db.keeps_bind db.keeps_return kept service.keeps_closings service.keeps_task_services
          service.keeps_adr_services service.keeps_rule_services service.keeps_relation_services
          service.keeps_milestone_services service.keeps_track_services service.keeps_TaskComplete review)
qed

end

context typed_world
begin

lemma serve_typed:
  assumes "\<And>i pr s. keeps typed_step (h i pr s)"
  shows "keeps typed_step (serve dv w h q)"
proof -
  have review: "keeps typed_step (TaskExecutionReview dv w p k st)" for p k st
    unfolding TaskExecutionReview_def by (intro reading)
  show ?thesis
    by (cases q) (auto simp: io_done_def TaskExecutionSubmitCode_def TaskExecutionSubmitRebase_def
        intro!: db.keeps_bind db.keeps_return keeps_services keeps_test_run keeps_integrate [OF assms] service.keeps_closings
          service.keeps_task_services service.keeps_adr_services service.keeps_rule_services
          service.keeps_relation_services service.keeps_milestone_services service.keeps_track_services
          service.keeps_TaskComplete review)
qed

end

interpretation sqlite_world: execution_world "sqlite now" for now
  by unfold_locales (simp_all add: sqlite_atomic machine_refl)

interpretation sqlite_typed: typed_world "sqlite now" for now
  by unfold_locales (simp_all add: sqlite_atomic typed_step_def)

section \<open>Histories\<close>

text \<open>
  A database that is served starts without executions and goes through any requests, each with a
  driver and a world of its own, whose other writers follow the machine too.
\<close>

definition others_fit :: "driver \<Rightarrow> historical_integration \<Rightarrow> bool" where
  "others_fit dv h \<longleftrightarrow> atomic_driver dv
     \<and> (\<forall>k db. machine db (dv_others dv k db) \<and> typed_step db (dv_others dv k db))
     \<and> (\<forall>i pr s. keeps machine (h i pr s) \<and> keeps typed_step (h i pr s))"

inductive served :: "shared_db \<Rightarrow> bool" where
  fresh: "lo_states (sd_local db) = [] \<Longrightarrow> lo_phases (sd_local db) = [] \<Longrightarrow> lo_verifications (sd_local db) = []
    \<Longrightarrow> served db"
| request: "served db \<Longrightarrow> others_fit dv h \<Longrightarrow> serve dv w h q (k, db) = (r, k', db') \<Longrightarrow> served db'"

lemma others_fit_worlds: "others_fit dv h \<Longrightarrow> execution_world dv" "others_fit dv h \<Longrightarrow> typed_world dv"
  by (simp_all add: others_fit_def execution_world.intro typed_world.intro)

lemma serve_run:
  assumes "others_fit dv h" and "serve dv w h q (k, db) = (r, k', db')" and "wf_local db"
  shows "wf_local db' \<and> local_step\<^sup>*\<^sup>* db db'"
proof -
  have "keeps machine (serve dv w h q)"
    using execution_world.serve_follows [OF others_fit_worlds(1) [OF assms(1)]] assms(1) by (simp add: others_fit_def)
  then show ?thesis using assms(2,3) unfolding keeps_def machine_def by blast
qed

lemma serve_types:
  assumes "others_fit dv h" and "serve dv w h q (k, db) = (r, k', db')" and "typed db"
  shows "typed db'"
proof -
  have "keeps typed_step (serve dv w h q)"
    using typed_world.serve_typed [OF others_fit_worlds(2) [OF assms(1)]] assms(1) by (simp add: others_fit_def)
  then show ?thesis using assms(2,3) unfolding keeps_def typed_step_def by blast
qed

lemma served_all: "served db \<Longrightarrow> wf_local db \<and> typed db \<and> proved db \<and> reviewed db \<and> phases_unique db"
proof (induction rule: served.induct)
  case (fresh db)
  then show ?case by (simp add: wf_local_def typed_def proved_def reviewed_def phases_unique_def)
next
  case (request db dv h w q k r k' db')
  then have run: "wf_local db'" "local_step\<^sup>*\<^sup>* db db'" using serve_run by blast+
  then show ?case
    using request serve_types run_keeps_proof [OF run(2)] run_keeps_review [OF run(2)] run_keeps_phases [OF run(2)] by blast
qed

end
