(* ===== verification/Execution_Samples.thy ===== *)
theory Execution_Samples
  imports Execution_Service Samples
begin

text \<open>
  A run of the machine from nothing to a verified task, and a driver whose other writer has made it:
  the witnesses of the properties of executions apply them to what it leaves.
\<close>

section \<open>Coordinates\<close>

definition base_commit :: string where "base_commit = replicate 40 (CHR ''b'')"
definition candidate_commit :: string where "candidate_commit = replicate 40 (CHR ''c'')"
definition candidate_tree :: string where "candidate_tree = replicate 40 (CHR ''d'')"
definition revision_digest :: string where "revision_digest = replicate 64 (CHR ''a'')"
definition gate_digest :: string where "gate_digest = replicate 64 (CHR ''e'')"

lemma digest_valid: "is_hex_lower c \<Longrightarrow> ValidateSHA256 (replicate 64 c) = None"
  unfolding ValidateSHA256_def sha256RE_def fail_if_def by (simp add: list_all_iff)

definition sample_branch :: string where "sample_branch = ''task/AAA-TSK1-1''"

definition sample_lane :: "string \<Rightarrow> string" where "sample_lane head = ''WT-TSK1-'' @ take 8 head"

lemma coordinates_valid [simp]:
  "ValidateCommitSHA base_commit = None" "ValidateCommitSHA candidate_commit = None"
  "ValidateCommitSHA candidate_tree = None" "ValidateBranch sample_branch = None"
  "ValidateObjectIdentifier ''worker'' = None" "ValidateObjectIdentifier ''op'' = None"
  "ValidateProcedureName ''unit'' = None"
  by code_simp+

lemma digests_valid [simp]: "ValidateSHA256 revision_digest = None" "ValidateSHA256 gate_digest = None"
  unfolding revision_digest_def gate_digest_def by (rule digest_valid, code_simp)+

lemma lanes_valid [simp]:
  "rx_seq taskExecutionWorktreePattern (sample_lane base_commit)"
  "rx_seq taskExecutionWorktreePattern (sample_lane candidate_commit)"
  "HasPrefix (sample_lane base_commit) ''WT-TSK1-''" "HasPrefix (sample_lane candidate_commit) ''WT-TSK1-''"
  "HasSuffix (sample_lane base_commit) (CHR ''-'' # ascii_lower (take 8 base_commit))"
  "HasSuffix (sample_lane candidate_commit) (CHR ''-'' # ascii_lower (take 8 candidate_commit))"
  "HasPrefix sample_branch ''task/AAA-TSK1-''" "task_number ''AAA-TSK1'' = Some ''1''"
  by code_simp+

lemma commits_nonempty [simp]:
  "length base_commit = 40" "length candidate_commit = 40" "base_commit \<noteq> []" "candidate_commit \<noteq> []"
  "sample_branch \<noteq> []" "revision_digest \<noteq> []"
  by (simp_all add: base_commit_def candidate_commit_def sample_branch_def revision_digest_def)

section \<open>The states of the run\<close>

definition sample_execution :: "string \<Rightarrow> int \<Rightarrow> string \<Rightarrow> TaskExecutionState" where
  "sample_execution status revision head =
     \<lparr>xs_TaskID = ''AAA-TSK1'', xs_ProjectID = ''example'', xs_Status = status, xs_Stage = ''code'',
      xs_Worktree = sample_lane head, xs_BaseHead = base_commit, xs_Head = head,
      xs_Branch = sample_branch, xs_TaskRevision = 1, xs_TaskRevisionSHA256 = revision_digest,
      xs_Agent = ''worker'', xs_ExecutionRevision = revision, xs_UpdatedAt = noon\<rparr>"

lemma sample_execution_valid:
  assumes "validTaskExecutionStatus status" "status \<noteq> ''planned''" "1 \<le> n" "head = base_commit \<or> head = candidate_commit"
  shows "ValidateTaskExecutionState (sample_execution status n head) = None"
proof -
  have n: "\<not> n < 1" using assms(3) by simp
  show ?thesis using assms(4)
    by (auto simp: ValidateTaskExecutionState_def sample_execution_def validator assms(1,2) n sample_project_id
        sample_task_id execution_stage_def fail_if_def wrap_err_def)
qed

definition dispatched_state :: TaskExecutionState where "dispatched_state = sample_execution ''dispatched'' 1 base_commit"
definition submitted_state :: TaskExecutionState where "submitted_state = sample_execution ''awaiting_review'' 2 candidate_commit"
definition accepted_state :: TaskExecutionState where
  "accepted_state = sample_execution ''ready_for_verification'' 3 candidate_commit"
definition verifying_state :: TaskExecutionState where "verifying_state = sample_execution ''verifying'' 4 candidate_commit"
definition verified_state :: TaskExecutionState where "verified_state = sample_execution ''verified'' 5 candidate_commit"

definition submission_phase :: TaskExecutionPhase where "submission_phase = new_phase submitted_state ''submission'' [] []"
definition review_phase :: TaskExecutionPhase where "review_phase = new_phase accepted_state ''review'' ''accept'' ''fine''"

definition sample_receipt :: TaskExecutionVerification where
  "sample_receipt =
     \<lparr>xv_ProjectID = ''example'', xv_TaskID = ''AAA-TSK1'', xv_OperationID = ''op'',
      xv_TaskRevisionSHA256 = revision_digest, xv_BaseHead = base_commit, xv_CandidateHead = candidate_commit,
      xv_CandidateTree = candidate_tree, xv_Branch = sample_branch,
      xv_GateProfileSHA256 = gate_digest, xv_Outcome = ''succeeded'', xv_Error = '''', xv_TaskRevision = 1,
      xv_AttemptRevision = 4, xv_CodeReviewID = 2, xv_TestsReviewID = 0, xv_RebaseReviewID = 0,
      xv_Gates = Some [\<lparr>cg_ID = ''unit'', cg_ExitCode = 0, cg_Execution = ''executed'', cg_TreeID = candidate_tree,
        cg_ContractDigest = gate_digest, cg_ReceiptDigest = gate_digest, cg_DurationMS = 5,
        cg_AggregateMS = 0, cg_Warnings = []\<rparr>],
      xv_StartedAt = unix_utc 1699999999, xv_CompletedAt = noon\<rparr>"

lemmas sample_states = dispatched_state_def submitted_state_def accepted_state_def verifying_state_def verified_state_def

lemma sample_states_valid:
  "ValidateTaskExecutionState dispatched_state = None" "ValidateTaskExecutionState submitted_state = None"
  "ValidateTaskExecutionState accepted_state = None" "ValidateTaskExecutionState verifying_state = None"
  "ValidateTaskExecutionState verified_state = None"
  unfolding sample_states by (rule sample_execution_valid; simp add: validTaskExecutionStatus_def)+

lemma sample_phases_valid:
  "validateTaskExecutionPhase submission_phase = None" "validateTaskExecutionPhase review_phase = None"
  by (simp_all add: validateTaskExecutionPhase_def submission_phase_def review_phase_def new_phase_def sample_states
      sample_execution_def validator sample_project_id sample_task_id phase_event_kinds_def phase_evidence_def
      execution_stage_def fail_if_def Let_def)

lemma sample_receipt_valid: "ValidateTaskExecutionVerification sample_receipt = None"
proof -
  have times: "\<not> IsZero (unix_utc 1699999999)" "gt_offset (unix_utc 1699999999) = 0" "gt_offset noon = 0"
    "time_before (unix_utc 1699999999) noon"
    by code_simp+
  show ?thesis
    by (simp add: ValidateTaskExecutionVerification_def sample_receipt_def validator sample_project_id sample_task_id
        verification_outcome_def passing_gate_def MaxTaskVerificationProcedureGates_def MaxTaskVerificationGateDurationMS_def
        times fail_if_def wrap_err_def Let_def)
qed

definition sample_receipt_json :: string where
  "sample_receipt_json = projr (json_TaskExecutionVerification sample_receipt)"

lemma sample_receipt_json: "json_TaskExecutionVerification sample_receipt = Inr sample_receipt_json"
proof -
  have "time_year (unix_utc 1699999999) = 2023" by code_simp
  then obtain j where "json_time (unix_utc 1699999999) = Ok j"
    using json_time_ok [of "unix_utc 1699999999"] by (simp add: unix_utc_def)
  then show ?thesis using noon_json
    by (auto simp: sample_receipt_json_def json_TaskExecutionVerification_def sample_receipt_def)
qed

section \<open>The run\<close>

definition local_of :: "execution_row list \<Rightarrow> phase_row list \<Rightarrow> verification_row list \<Rightarrow> shared_db" where
  "local_of states phases receipts =
     empty_db\<lparr>sd_local := \<lparr>lo_states = states, lo_phases = phases, lo_verifications = receipts, lo_captured = Map.empty\<rparr>\<rparr>"

definition logged_submission :: phase_row where "logged_submission = (row_of_phase submission_phase)\<lparr>pr_id := 1\<rparr>"
definition logged_review :: phase_row where "logged_review = (row_of_phase review_phase)\<lparr>pr_id := 2\<rparr>"
definition logged_receipt :: verification_row where
  "logged_receipt = (row_of_receipt sample_receipt sample_receipt_json)\<lparr>vr_id := 1\<rparr>"

definition dispatched_db :: shared_db where "dispatched_db = local_of [row_of_state dispatched_state] [] []"
definition submitted_db :: shared_db where "submitted_db = local_of [row_of_state submitted_state] [logged_submission] []"
definition accepted_db :: shared_db where
  "accepted_db = local_of [row_of_state accepted_state] [logged_submission, logged_review] []"
definition verifying_db :: shared_db where
  "verifying_db = local_of [row_of_state verifying_state] [logged_submission, logged_review] []"
definition verified_db :: shared_db where
  "verified_db = local_of [row_of_state verified_state] [logged_submission, logged_review] [logged_receipt]"

lemmas sample_dbs = dispatched_db_def submitted_db_def accepted_db_def verifying_db_def verified_db_def local_of_def

lemma sample_next:
  "submitted_state = (next_state dispatched_state ''awaiting_review'' noon)\<lparr>xs_Head := candidate_commit, xs_Worktree := sample_lane candidate_commit\<rparr>"
  "accepted_state = next_state submitted_state ''ready_for_verification'' noon"
  "verifying_state = next_state accepted_state ''verifying'' noon"
  "verified_state = next_state verifying_state ''verified'' noon"
  by (simp_all add: sample_states sample_execution_def next_state_def)

lemma sample_run: "local_step\<^sup>*\<^sup>* empty_db verified_db"
proof -
  have 1: "local_step empty_db dispatched_db"
    by (rule local_step.dispatched [where r = "row_of_state dispatched_state"])
      (simp_all add: sample_dbs empty_db_def empty_local_def initial_row_def row_of_state_def sample_states
        sample_execution_def logged_phases_def logged_receipts_def)
  have "execution_move (row_of_state dispatched_state)
      (Some (row_of_phase ((new_phase submitted_state ''submission'' [] [])\<lparr>ph_Stage := ''code''\<rparr>))) None (row_of_state submitted_state)"
    by (rule submit_moves [of dispatched_state]) (simp_all add: sample_next(1), simp_all add: sample_states sample_execution_def)
  moreover have "(new_phase submitted_state ''submission'' [] [])\<lparr>ph_Stage := ''code''\<rparr> = submission_phase"
    by (simp add: submission_phase_def new_phase_def sample_states sample_execution_def)
  ultimately have m2: "execution_move (row_of_state dispatched_state) (Some (row_of_phase submission_phase)) None (row_of_state submitted_state)"
    by simp
  have 2: "local_step dispatched_db submitted_db"
    by (rule local_step.moved [OF _ m2])
      (simp_all add: sample_dbs logged_phases_def logged_receipts_def logged_submission_def, blast)
  have m3: "execution_move (row_of_state submitted_state) (Some (row_of_phase review_phase)) None (row_of_state accepted_state)"
    unfolding review_phase_def sample_next(2)
    by (rule review_moves) (simp_all add: sample_states sample_execution_def)
  have 3: "local_step submitted_db accepted_db"
    by (rule local_step.moved [OF _ m3])
      (simp_all add: sample_dbs logged_phases_def logged_receipts_def logged_review_def, auto simp: logged_submission_def
        row_of_phase_def submission_phase_def review_phase_def new_phase_def sample_states sample_execution_def)
  have m4: "execution_move (row_of_state accepted_state) None None (row_of_state verifying_state)"
    unfolding sample_next(3) by (rule silent_moves(1)) (simp_all add: sample_states sample_execution_def)
  have 4: "local_step accepted_db verifying_db"
    by (rule local_step.moved [OF _ m4]) (simp_all add: sample_dbs logged_phases_def logged_receipts_def)
  have "receipt_for (row_of_state verifying_state) (row_of_receipt sample_receipt sample_receipt_json) sample_receipt"
    using sample_receipt_valid sample_receipt_json
    by (simp add: receipt_for_def row_of_receipt_def row_of_state_def sample_states sample_execution_def sample_receipt_def)
  then have m5: "execution_move (row_of_state verifying_state) None (Some (row_of_receipt sample_receipt sample_receipt_json))
      (row_of_state verified_state)"
    unfolding sample_next(4)
    by (intro execution_move.verify [OF _ row_next [OF sees_row_of_state]])
      (simp_all add: row_of_receipt_def row_of_state_def sample_states sample_execution_def sample_receipt_def)
  have 5: "local_step verifying_db verified_db"
    by (rule local_step.moved [OF _ m5]) (simp_all add: sample_dbs logged_phases_def logged_receipts_def logged_receipt_def, blast)
  show ?thesis using 1 2 3 4 5 by (meson r_into_rtranclp rtranclp_trans)
qed

lemma sample_typed: "typed verified_db"
proof -
  have "typed_receipt logged_receipt"
    unfolding typed_receipt_def logged_receipt_def
    by (rule exI [of _ sample_receipt]) (simp add: sample_receipt_valid sample_receipt_json row_of_receipt_def)
  moreover have "typed_phase logged_submission" "typed_phase logged_review"
    unfolding typed_phase_def logged_submission_def logged_review_def using sample_phases_valid by auto
  ultimately show ?thesis by (simp add: typed_def sample_dbs typed_row sample_states_valid)
qed

section \<open>A driver with another writer\<close>

text \<open>The other writer takes an empty database through the run; the connection is down for the reader itself.\<close>

definition busy_writer :: "nat \<Rightarrow> shared_db \<Rightarrow> shared_db" where
  "busy_writer k db = (if db = empty_db then verified_db else db)"

definition relay :: driver where
  "relay = (sqlite ''t'')\<lparr>dv_others := busy_writer, dv_fault := (\<lambda>_. Some ''down'')\<rparr>"

definition unsupported_history :: historical_integration where "unsupported_history i pr s = io_error ''not supported''"

lemma relay_fits: "others_fit relay unsupported_history"
proof -
  have atomic: "atomic_driver relay" using sqlite_atomic [of "''t''"] by (simp add: atomic_driver_def relay_def)
  have wf: "wf_local verified_db" by (simp add: wf_local_def sample_dbs)
  have "machine db (busy_writer k db)" "typed_step db (busy_writer k db)" for k db
    using sample_run sample_typed wf by (simp_all add: busy_writer_def machine_def typed_step_def)
  moreover have "keeps R (unsupported_history i pr s)" if "\<And>db. R db db" for R i pr s
    using that by (auto simp: keeps_def unsupported_history_def io_error_def io_fail_def)
  ultimately show ?thesis using atomic machine_refl by (simp add: others_fit_def relay_def typed_step_def)
qed

end
