(* ===== verification/Cursor_Properties.thy ===== *)
theory Cursor_Properties
  imports Pagination
begin

text \<open>
  What the registry of cursors promises after any sequence of requests: a cursor resolves to the key it was issued
  for or, after a collision, to nothing; the registry stays within its capacity and never forgets a handle.
\<close>

section \<open>Handles are cursors\<close>

lemma compact_digits_length: "length (compact_digits n v) = n"
  by (induction n arbitrary: v) simp_all

lemma compact_digits_alphabet: "set (compact_digits n v) \<subseteq> set compactAlphabet"
proof (induction n arbitrary: v)
  case (Suc n)
  have "compactAlphabet ! (v mod length compactAlphabet) \<in> set compactAlphabet"
    by (rule nth_mem) (simp add: compactAlphabet_def)
  with Suc show ?case by simp
qed simp

lemma compactEncode_valid: "ValidServerCursor (compactEncode kind key)"
  using compact_digits_alphabet unfolding ValidServerCursor_def compactEncode_def Let_def
  by (auto simp: compact_digits_length)

lemma compactEncode_nonempty [simp]: "compactEncode kind key \<noteq> []"
  using compactEncode_valid[of kind key] by (auto simp: ValidServerCursor_def CompactCursorLength_def)

section \<open>The states of the registry\<close>

definition encodable :: "string \<Rightarrow> string \<Rightarrow> bool" where
  "encodable kind key \<longleftrightarrow> kind \<noteq> [] \<and> key \<noteq> [] \<and> length key \<le> maxServerCursorKeyBytes"

definition handles :: "cursor_registry \<Rightarrow> (string \<times> string) set" where
  "handles r = {(kind, h). ch_values r kind h \<noteq> None \<or> ch_ambiguous r kind h}"

definition handle_name :: "string \<times> string \<Rightarrow> string" where
  "handle_name = (\<lambda>(kind, h). kind @ [nul] @ h)"

text \<open>Requests for cursors, one after the other.\<close>

fun encodes :: "(string \<times> string) list \<Rightarrow> cursor_registry \<Rightarrow> cursor_registry" where
  "encodes [] r = r"
| "encodes ((kind, key) # requests) r = encodes requests (snd (EncodeServerCursor kind key r))"

lemma encodes_append: "encodes (xs @ ys) r = encodes ys (encodes xs r)"
  by (induction xs r rule: encodes.induct) simp_all

definition registry_ok :: "(string \<times> string) set \<Rightarrow> cursor_registry \<Rightarrow> bool" where
  "registry_ok requested r \<longleftrightarrow>
     distinct (ch_order r) \<and> length (ch_order r) \<le> compactHandleCapacity
     \<and> set (ch_order r) = handle_name ` handles r
     \<and> (\<forall>kind h. (kind, h) \<in> handles r \<longrightarrow> ValidServerCursor h)
     \<and> (\<forall>kind h key. ch_values r kind h = Some key \<longrightarrow>
          h = compactEncode kind key \<and> encodable kind key \<and> \<not> ch_ambiguous r kind h \<and> (kind, key) \<in> requested)"

text \<open>The outcomes of one request.\<close>

lemma encode_cases:
  obtains
    (refused) "\<not> encodable kind key" "EncodeServerCursor kind key r = ([], r)"
  | (ambiguous) "encodable kind key" "ch_ambiguous r kind (compactEncode kind key)" "EncodeServerCursor kind key r = ([], r)"
  | (again) "encodable kind key" "\<not> ch_ambiguous r kind (compactEncode kind key)"
      "ch_values r kind (compactEncode kind key) = Some key" "EncodeServerCursor kind key r = (compactEncode kind key, r)"
  | (collision) previous where "encodable kind key" "\<not> ch_ambiguous r kind (compactEncode kind key)"
      "ch_values r kind (compactEncode kind key) = Some previous" "previous \<noteq> key"
      "EncodeServerCursor kind key r = ([], (set_value kind (compactEncode kind key) None r)
         \<lparr>ch_ambiguous := (ch_ambiguous r)(kind := (ch_ambiguous r kind)(compactEncode kind key := True))\<rparr>)"
  | (full) "encodable kind key" "\<not> ch_ambiguous r kind (compactEncode kind key)"
      "ch_values r kind (compactEncode kind key) = None" "compactHandleCapacity \<le> length (ch_order r)"
      "EncodeServerCursor kind key r = ([], r)"
  | (fresh) "encodable kind key" "\<not> ch_ambiguous r kind (compactEncode kind key)"
      "ch_values r kind (compactEncode kind key) = None" "length (ch_order r) < compactHandleCapacity"
      "EncodeServerCursor kind key r = (compactEncode kind key,
         (set_value kind (compactEncode kind key) (Some key) r)
         \<lparr>ch_order := ch_order r @ [handle_name (kind, compactEncode kind key)]\<rparr>)"
proof (cases "encodable kind key")
  case False
  then show thesis by (intro refused) (auto simp: EncodeServerCursor_def encodable_def)
next
  case enc: True
  show thesis
  proof (cases "ch_ambiguous r kind (compactEncode kind key)")
    case True
    with enc show thesis by (intro ambiguous) (auto simp: EncodeServerCursor_def encodable_def Let_def)
  next
    case unamb: False
    show thesis
    proof (cases "ch_values r kind (compactEncode kind key)")
      case None
      with enc unamb show thesis
        by (cases "length (ch_order r) < compactHandleCapacity")
          (rule fresh full; force simp: EncodeServerCursor_def encodable_def handle_name_def Let_def)+
    next
      case (Some previous)
      with enc unamb show thesis
        by (cases "previous = key")
          (rule again collision; force simp: EncodeServerCursor_def encodable_def Let_def)+
    qed
  qed
qed

lemma handle_name_inj:
  assumes "ValidServerCursor h" "ValidServerCursor h'" "handle_name (k, h) = handle_name (k', h')"
  shows "k = k' \<and> h = h'"
  using assms by (auto simp: handle_name_def ValidServerCursor_def)

lemma set_value_parts [simp]:
  "ch_values (set_value kind h v r) = (ch_values r)(kind := (ch_values r kind)(h := v))"
  "ch_ambiguous (set_value kind h v r) = ch_ambiguous r" "ch_order (set_value kind h v r) = ch_order r"
  by (simp_all add: set_value_def)

lemma handles_set_value [simp]:
  "handles (set_value kind h (Some key) r) = insert (kind, h) (handles r)"
  by (auto simp: handles_def set_value_def split: if_splits)

lemma handles_order [simp]: "handles (r\<lparr>ch_order := xs\<rparr>) = handles r"
  by (simp add: handles_def)

lemma handles_collision:
  assumes "ch_values r kind h = Some previous"
  shows "handles ((set_value kind h None r)
     \<lparr>ch_ambiguous := (ch_ambiguous r)(kind := (ch_ambiguous r kind)(h := True))\<rparr>) = handles r"
  using assms by (auto simp: handles_def set_value_def split: if_splits)

lemma handles_grow: "handles r \<subseteq> handles (snd (EncodeServerCursor kind key r))"
  by (rule encode_cases[of kind key r]) (auto simp: handles_collision)

lemma registry_ok_mono: "registry_ok Q r \<Longrightarrow> Q \<subseteq> Q' \<Longrightarrow> registry_ok Q' r"
  unfolding registry_ok_def by blast

lemma registry_ok_encode:
  assumes ok: "registry_ok Q r" and req: "(kind, key) \<in> Q"
  shows "registry_ok Q (snd (EncodeServerCursor kind key r))"
proof (rule encode_cases[of kind key r])
  fix previous
  assume *: "ch_values r kind (compactEncode kind key) = Some previous"
    "EncodeServerCursor kind key r = ([], (set_value kind (compactEncode kind key) None r)
         \<lparr>ch_ambiguous := (ch_ambiguous r)(kind := (ch_ambiguous r kind)(compactEncode kind key := True))\<rparr>)"
  show ?thesis
    using ok unfolding registry_ok_def *(2) snd_conv handles_collision[OF *(1)]
    by (auto split: if_splits)
next
  let ?h = "compactEncode kind key"
  assume *: "encodable kind key" "\<not> ch_ambiguous r kind ?h" "ch_values r kind ?h = None"
    "length (ch_order r) < compactHandleCapacity"
    "EncodeServerCursor kind key r = (?h, (set_value kind ?h (Some key) r)
         \<lparr>ch_order := ch_order r @ [handle_name (kind, ?h)]\<rparr>)"
  have valid: "\<And>k h. (k, h) \<in> handles r \<Longrightarrow> ValidServerCursor h" using ok by (simp add: registry_ok_def)
  have new: "handle_name (kind, ?h) \<notin> handle_name ` handles r"
  proof
    assume "handle_name (kind, ?h) \<in> handle_name ` handles r"
    then obtain k h where kh: "(k, h) \<in> handles r" "handle_name (kind, ?h) = handle_name (k, h)" by auto
    then have "kind = k \<and> ?h = h" by (intro handle_name_inj compactEncode_valid valid)
    with kh(1) *(2,3) show False by (auto simp: handles_def)
  qed
  show ?thesis
    using ok new req *(1-4) unfolding registry_ok_def *(5) snd_conv
    by (auto simp: compactEncode_valid)
qed (use ok in simp_all)

lemma registry_ok_encodes: "registry_ok Q r \<Longrightarrow> registry_ok (Q \<union> set requests) (encodes requests r)"
proof (induction requests r arbitrary: Q rule: encodes.induct)
  case (2 kind key requests r)
  have "registry_ok (insert (kind, key) Q) (snd (EncodeServerCursor kind key r))"
    by (rule registry_ok_encode[OF registry_ok_mono[OF 2(2)]]) auto
  from 2(1)[OF this] show ?case by simp
qed simp

lemma registry_ok_empty: "registry_ok {} empty_registry"
  by (auto simp: registry_ok_def empty_registry_def handles_def)

lemma registry_reached: "registry_ok (set requests) (encodes requests empty_registry)"
  using registry_ok_encodes[OF registry_ok_empty] by simp

lemma handles_encodes: "handles r \<subseteq> handles (encodes requests r)"
proof (induction requests r rule: encodes.induct)
  case (2 kind key requests r)
  then show ?case using handles_grow[of r kind key] by simp
qed simp

section \<open>The registry is bounded\<close>

lemma handles_card:
  assumes ok: "registry_ok Q r"
  shows "finite (handles r) \<and> card (handles r) = length (ch_order r)"
proof -
  have inj: "inj_on handle_name (handles r)"
    using ok handle_name_inj unfolding registry_ok_def inj_on_def by (metis (mono_tags, lifting) prod.exhaust)
  have order: "handle_name ` handles r = set (ch_order r)" using ok by (simp add: registry_ok_def)
  then have fin: "finite (handles r)" using inj by (metis finite_imageD List.finite_set)
  have "card (handles r) = card (set (ch_order r))" using card_image[OF inj] order by simp
  also have "\<dots> = length (ch_order r)" using ok unfolding registry_ok_def by (blast intro: distinct_card)
  finally show ?thesis using fin by simp
qed

text \<open>
  C36. The registry of cursors is bounded and never forgets: after any requests it holds one handle for each entry
  of its order list, at most 65536 of them, and every later registry holds them too; so once it is full no cursor
  for another position is ever issued by this process.
\<close>

theorem cursor_registry_bounded:
  "card (handles (encodes requests empty_registry)) = length (ch_order (encodes requests empty_registry))
   \<and> card (handles (encodes requests empty_registry)) \<le> 65536
   \<and> handles (encodes requests empty_registry) \<subseteq> handles (encodes later (encodes requests empty_registry))"
  using handles_card[OF registry_reached] registry_reached[of requests] handles_encodes
  by (simp add: registry_ok_def compactHandleCapacity_def)

section \<open>What a cursor stands for\<close>

lemma resolve_valid:
  "encodable kind key \<Longrightarrow> ResolveServerCursor r (compactEncode kind key) kind =
     (if ch_ambiguous r kind (compactEncode kind key) then None else ch_values r kind (compactEncode kind key))"
  by (simp add: ResolveServerCursor_def compactEncode_valid encodable_def)

lemma encode_issued:
  assumes "EncodeServerCursor kind key r = (c, r')" "c \<noteq> []"
  shows "encodable kind key \<and> c = compactEncode kind key \<and> ch_values r' kind c = Some key \<and> \<not> ch_ambiguous r' kind c"
  using assms by (cases rule: encode_cases[of kind key r]) auto

text \<open>A request that collides with a handle already given out for another key.\<close>

definition collides :: "string \<Rightarrow> string \<Rightarrow> string \<times> string \<Rightarrow> bool" where
  "collides kind key = (\<lambda>(kind', key'). kind' = kind \<and> key' \<noteq> key \<and> encodable kind key'
     \<and> compactEncode kind key' = compactEncode kind key)"

lemma encode_keeps_ambiguous: "ch_ambiguous r kind h \<Longrightarrow> ch_ambiguous (snd (EncodeServerCursor k x r)) kind h"
  by (rule encode_cases[of k x r]) auto

lemma encodes_keep_ambiguous: "ch_ambiguous r kind h \<Longrightarrow> ch_ambiguous (encodes requests r) kind h"
proof (induction requests r rule: encodes.induct)
  case (2 k x requests r)
  then show ?case using encode_keeps_ambiguous by simp
qed simp

lemma encode_keeps_handle:
  assumes "ch_values r kind (compactEncode kind key) = Some key" "\<not> ch_ambiguous r kind (compactEncode kind key)"
  shows "if collides kind key (k, x) then ch_ambiguous (snd (EncodeServerCursor k x r)) kind (compactEncode kind key)
    else ch_values (snd (EncodeServerCursor k x r)) kind (compactEncode kind key) = Some key
         \<and> \<not> ch_ambiguous (snd (EncodeServerCursor k x r)) kind (compactEncode kind key)"
  by (rule encode_cases[of k x r]) (use assms in \<open>auto simp: collides_def\<close>)

lemma encodes_keep_handle:
  assumes "encodable kind key" "ch_values r kind (compactEncode kind key) = Some key"
    "\<not> ch_ambiguous r kind (compactEncode kind key)"
  shows "ResolveServerCursor (encodes requests r) (compactEncode kind key) kind =
     (if list_ex (collides kind key) requests then None else Some key)"
  using assms
proof (induction requests r rule: encodes.induct)
  case (2 k x requests r)
  show ?case
  proof (cases "collides kind key (k, x)")
    case True
    then have "ch_ambiguous (snd (EncodeServerCursor k x r)) kind (compactEncode kind key)"
      using encode_keeps_handle[OF 2(3,4), of k x] by simp
    then show ?thesis using True 2(2) by (simp add: resolve_valid encodes_keep_ambiguous)
  next
    case False
    then show ?thesis using encode_keeps_handle[OF 2(3,4), of k x] 2(1,2) by simp
  qed
qed (simp add: resolve_valid)

lemma resolved_was_requested:
  assumes "registry_ok Q r" "ResolveServerCursor r c kind = Some key"
  shows "(kind, key) \<in> Q \<and> c = compactEncode kind key"
  using assms by (auto simp: ResolveServerCursor_def registry_ok_def split: if_splits)

text \<open>
  C37. A cursor is never mistaken for another position: the cursor issued for a key resolves, after any later requests,
  to exactly that key until a request for another key of the same list has the same handle, and to nothing from then on;
  under any other list it resolves only to a key of that list that was requested and has this very handle.
\<close>

theorem cursor_never_mistaken:
  assumes issued: "EncodeServerCursor kind key (encodes before empty_registry) = (c, r)" "c \<noteq> []"
  shows "ResolveServerCursor (encodes later r) c kind = (if list_ex (collides kind key) later then None else Some key)
    \<and> (\<forall>kind' key'. ResolveServerCursor (encodes later r) c kind' = Some key' \<longrightarrow>
         (kind', key') \<in> set (before @ (kind, key) # later) \<and> c = compactEncode kind' key')"
proof
  note h = encode_issued[OF issued]
  then show "ResolveServerCursor (encodes later r) c kind = (if list_ex (collides kind key) later then None else Some key)"
    using encodes_keep_handle by blast
  have "encodes later r = encodes (before @ (kind, key) # later) empty_registry"
    using issued(1) by (simp add: encodes_append)
  then have ok: "registry_ok (set (before @ (kind, key) # later)) (encodes later r)"
    using registry_reached by metis
  then show "\<forall>kind' key'. ResolveServerCursor (encodes later r) c kind' = Some key' \<longrightarrow>
         (kind', key') \<in> set (before @ (kind, key) # later) \<and> c = compactEncode kind' key'"
    using resolved_was_requested[OF ok] by blast
qed

theorem cursor_never_mistaken_witness:
  "\<exists>c r. EncodeServerCursor ''track'' ''AAA-TRK1'' empty_registry = (c, r) \<and> c \<noteq> []
     \<and> ResolveServerCursor r c ''track'' = Some ''AAA-TRK1''"
proof -
  obtain c r where c: "EncodeServerCursor ''track'' ''AAA-TRK1'' (encodes [] empty_registry) = (c, r)" "c \<noteq> []"
    by (rule encode_cases[of "''track''" "''AAA-TRK1''" empty_registry])
      (auto simp: encodable_def empty_registry_def maxServerCursorKeyBytes_def compactHandleCapacity_def)
  from c cursor_never_mistaken[OF c, of "[]"] show ?thesis by auto
qed

end
