(* ===== verification/Track_Search_Properties.thy ===== *)
theory Track_Search_Properties
  imports Task_Closing Cursor_Properties Shared_Store_Laws
begin

text \<open>
  The search for an accepted Track that proves a delivery (\<open>taskCompleteIntegratedAcceptedTrackProof\<close>) in a
  quiet gateway: no faults, no other writer and Git answering alike while it runs. As long as cursors can be issued it
  reads every Track once and ends; once the registry of cursors is full it never ends.
\<close>

section \<open>A quiet gateway\<close>

definition calm :: "driver \<Rightarrow> bool" where
  "calm dv \<longleftrightarrow> dv_Shared dv \<and> dv_fault dv = (\<lambda>_. None) \<and> dv_others dv = (\<lambda>_ db. db)"

text \<open>The Tracks of a project in the order of the query.\<close>

definition project_tracks :: "(string \<Rightarrow> string \<Rightarrow> string option) \<Rightarrow> string \<Rightarrow> shared_db \<Rightarrow> SharedEntity list" where
  "project_tracks extract projectID db = sort_key se_ID
     (filter (\<lambda>r. extract (se_Payload r) ''project_id'' = Some projectID) (sd_tables db ''shared_tracks''))"

definition track_kind :: "string \<Rightarrow> string" where
  "track_kind projectID = query_kind (track_query projectID [])"

lemma query_kind_track [simp]: "query_kind (track_query projectID cursor) = track_kind projectID"
  by (simp add: track_kind_def query_kind_def track_query_def search_text_def)

lemma track_kind_nonempty [simp]: "track_kind projectID \<noteq> []"
  by (simp add: track_kind_def query_kind_def)

text \<open>Scanning a list of Tracks without pages and accesses.\<close>

fun scan_tracks ::
  "(string \<Rightarrow> bool result) \<Rightarrow> TaskAuthoring \<Rightarrow> SharedEntity list \<Rightarrow> string list \<Rightarrow> store_error + (string list + string)" where
  "scan_tracks contains_head t [] reasons = Inr (Inl reasons)"
| "scan_tracks contains_head t (row # rows) reasons =
     (case decode_track (se_Payload row) of
        None \<Rightarrow> Inl (Failure ''invalid stored Track record'')
      | Some tk \<Rightarrow>
          (case candidate_review t (se_ID row) tk of
             None \<Rightarrow> scan_tracks contains_head t rows reasons
           | Some v \<Rightarrow>
               if \<not> review_pins t v then scan_tracks contains_head t rows
                 (reasons @ [''Track '' @ go_quote (tk_ID tk) @ '' review does not pin the current Task revision''])
               else (case contains_head (tr_Head v) of
                   Inl m \<Rightarrow> Inl (Failure m)
                 | Inr False \<Rightarrow> scan_tracks contains_head t rows
                     (reasons @ [''Track '' @ go_quote (tk_ID tk)
                        @ '' accepted source does not contain the integration commit''])
                 | Inr True \<Rightarrow> Inr (Inr (tk_ID tk)))))"

lemma scan_tracks_append:
  "scan_tracks c t (xs @ ys) reasons =
     (case scan_tracks c t xs reasons of
        Inr (Inl reasons') \<Rightarrow> scan_tracks c t ys reasons' | r \<Rightarrow> r)"
  by (induction xs arbitrary: reasons) (auto split: option.splits sum.splits bool.splits)

lemma scan_tracks_skip:
  "\<forall>row \<in> set xs. \<exists>tk. decode_track (se_Payload row) = Some tk \<and> candidate_review t (se_ID row) tk = None
   \<Longrightarrow> scan_tracks c t xs reasons = Inr (Inl reasons)"
  by (induction xs) auto

lemma accepted_track_rows_scan:
  assumes q: "calm dv" and git: "g_IsAncestor (w_git w) = (\<lambda>_. ancestor)"
  shows "\<exists>k'. accepted_track_rows dv w project t p rows reasons (k, db) =
    (scan_tracks (ancestor (pc_Root project) (ph_Head p)) t rows reasons, k', db)"
proof (induction rows arbitrary: reasons k)
  case Nil
  then show ?case by (simp add: io_return_def)
next
  case (Cons row rows)
  show ?case
  proof (cases "decode_track (se_Payload row)")
    case None
    then show ?thesis by (simp add: io_error_def io_fail_def)
  next
    case tk: (Some tk)
    show ?thesis
    proof (cases "candidate_review t (se_ID row) tk")
      case None
      then show ?thesis using tk Cons by simp
    next
      case v: (Some v)
      show ?thesis
      proof (cases "review_pins t v")
        case False
        then show ?thesis using tk v Cons by simp
      next
        case True
        show ?thesis
          using tk v True git q Cons
          by (cases "ancestor (pc_Root project) (ph_Head p) (tr_Head v)")
            (auto simp: io_bind_def io_ask_def calm_def io_return_def split: bool.splits)
      qed
    qed
  qed
qed

section \<open>One page\<close>

lemma track_definition:
  "\<exists>d. sharedLifecycle ''track'' = Some d \<and> ld_StateTable d = ''shared_tracks''"
  by (simp add: sharedLifecycle_def sharedLifecycleRegistry_def)

lemma track_selects:
  "query_selects extract d (track_query projectID cursor) r \<longleftrightarrow> extract (se_Payload r) ''project_id'' = Some projectID"
  by (simp add: query_selects_def track_query_def Let_def filter_list_def search_text_def ascii_lower_def)

lemma track_query_parts [simp]:
  "lq_Limit (track_query projectID cursor) = 256" "lq_Cursor (track_query projectID cursor) = cursor"
  by (simp_all add: track_query_def SharedLifecycleQueryMaxRows_def)

lemma project_tracks_rows:
  assumes "ld_StateTable d = ''shared_tracks''"
  shows "query_rows extract d (track_query projectID cursor) afterID limit db =
    take (nat limit) (filter (\<lambda>r. afterID \<noteq> [] \<longrightarrow> afterID < se_ID r) (project_tracks extract projectID db))"
  using assms by (simp add: query_rows_def project_tracks_def track_selects filter_sort filter_filter conj_commute)

lemma query_tracks:
  assumes q: "calm dv" and project: "projectID \<noteq> []"
    and at: "cursor = [] \<and> afterID = [] \<or> cursor \<noteq> [] \<and> ResolveServerCursor reg cursor (track_kind projectID) = Some afterID"
  shows "QuerySharedLifecycle dv extract (track_query projectID cursor) reg (k, db) =
    (Inr (query_page (track_query projectID cursor)
       (take 257 (filter (\<lambda>r. afterID \<noteq> [] \<longrightarrow> afterID < se_ID r) (project_tracks extract projectID db))) reg), Suc k, db)"
proof -
  obtain d where d: "sharedLifecycle ''track'' = Some d" "ld_StateTable d = ''shared_tracks''"
    using track_definition by blast
  have checks: "query_checks dv (track_query projectID cursor) = Ok d"
    using d q project by (simp add: query_checks_def track_query_def calm_def SharedLifecycleQueryMaxRows_def filter_list_def)
  have after: "(if cursor = [] then Ok [] else DecodeOpaqueKeyset reg cursor (track_kind projectID)) = Ok afterID"
    using at by (auto simp: DecodeOpaqueKeyset_def)
  have read: "querySharedLifecycleRows dv extract d (track_query projectID cursor) afterID 257 (k, db) =
      (Inr (take 257 (filter (\<lambda>r. afterID \<noteq> [] \<longrightarrow> afterID < se_ID r) (project_tracks extract projectID db))), Suc k, db)"
    using q unfolding querySharedLifecycleRows_def calm_def
    by (simp add: SharedLifecycleQueryMaxRows_def io_query_def project_tracks_rows[OF d(2)])
  show ?thesis
    unfolding QuerySharedLifecycle_def checks sum.case query_kind_track track_query_parts after
    by (simp add: io_bind_def io_return_def read)
qed

lemma page_more:
  assumes "256 < length rows"
  shows "query_page (track_query projectID cursor) (take 257 rows) reg =
    (let e = EncodeServerCursor (track_kind projectID) (se_ID (rows ! 255)) reg in
     (\<lparr>qp_Entities = take 256 rows, qp_NextCursor = fst e, qp_HasMore = True, qp_CursorKind = track_kind projectID\<rparr>, snd e))"
proof -
  have "last (take 256 rows) = rows ! 255"
    using assms last_conv_nth[of "take 256 rows"] by (cases rows) auto
  then show ?thesis
    using assms by (simp add: query_page_def Let_def min_def split: prod.splits)
qed

lemma page_final:
  assumes "length rows \<le> 256"
  shows "query_page (track_query projectID cursor) (take 257 rows) reg =
    (\<lparr>qp_Entities = rows, qp_NextCursor = [], qp_HasMore = False, qp_CursorKind = track_kind projectID\<rparr>, reg)"
  using assms by (simp add: query_page_def Let_def)

section \<open>Following the cursors\<close>

lemma filter_above:
  fixes f :: "'a \<Rightarrow> 'b :: linorder"
  assumes "sorted_wrt (\<lambda>a b. f a < f b) xs" "0 < n" "n \<le> length xs"
  shows "filter (\<lambda>x. f (xs ! (n - 1)) < f x) xs = drop n xs"
proof -
  have less: "f (xs ! i) < f (xs ! j)" if "i < j" "j < length xs" for i j
    using assms(1) that by (simp add: sorted_wrt_iff_nth_less)
  have "filter (\<lambda>x. f (xs ! (n - 1)) < f x) (take n xs) = []"
  proof (rule filter_False, rule ballI)
    fix x assume "x \<in> set (take n xs)"
    then obtain i where i: "i < n" "x = xs ! i" using assms(3) by (auto simp: in_set_conv_nth)
    show "\<not> f (xs ! (n - 1)) < f x"
    proof (cases "i = n - 1")
      case False
      then have "f x < f (xs ! (n - 1))" using less[of i "n - 1"] i assms by simp
      then show ?thesis by simp
    qed (use i in simp)
  qed
  moreover have "filter (\<lambda>x. f (xs ! (n - 1)) < f x) (drop n xs) = drop n xs"
  proof (rule filter_True, rule ballI)
    fix x assume "x \<in> set (drop n xs)"
    then obtain i where "i < length (drop n xs)" "x = drop n xs ! i" by (auto simp: in_set_conv_nth)
    then have i: "n + i < length xs" "x = xs ! (n + i)" using assms(3) by simp_all
    show "f (xs ! (n - 1)) < f x" using less[of "n - 1" "n + i"] i assms by simp
  qed
  ultimately show ?thesis
    by (metis append_self_conv2 append_take_drop_id filter_append)
qed

text \<open>Cursors for the Tracks can be issued: their handles are different and none stands for something else.\<close>

definition handles_free :: "string \<Rightarrow> string set \<Rightarrow> cursor_registry \<Rightarrow> bool" where
  "handles_free kind ids reg \<longleftrightarrow> inj_on (compactEncode kind) ids \<and> (\<forall>i \<in> ids. encodable kind i
     \<and> \<not> ch_ambiguous reg kind (compactEncode kind i) \<and> ch_values reg kind (compactEncode kind i) \<in> {None, Some i})"

lemma handles_free_mono: "handles_free kind B reg \<Longrightarrow> A \<subseteq> B \<Longrightarrow> handles_free kind A reg"
  by (auto simp: handles_free_def intro: inj_on_subset)

lemma handles_free_encode:
  assumes free: "handles_free kind ids reg" and i: "i \<in> ids" and room: "length (ch_order reg) < compactHandleCapacity"
  shows "\<exists>c reg'. EncodeServerCursor kind i reg = (c, reg') \<and> c \<noteq> [] \<and> ResolveServerCursor reg' c kind = Some i
    \<and> handles_free kind ids reg' \<and> length (ch_order reg') \<le> Suc (length (ch_order reg))"
proof -
  have i': "encodable kind i" "\<not> ch_ambiguous reg kind (compactEncode kind i)"
    "ch_values reg kind (compactEncode kind i) \<in> {None, Some i}"
    using free i by (auto simp: handles_free_def)
  obtain c reg' where e: "EncodeServerCursor kind i reg = (c, reg')" by fastforce
  then have reg': "c = compactEncode kind i \<and> ch_ambiguous reg' = ch_ambiguous reg
      \<and> ch_values reg' = (ch_values reg)(kind := (ch_values reg kind)(compactEncode kind i \<mapsto> i))
      \<and> length (ch_order reg') \<le> Suc (length (ch_order reg))"
    using i' room by (cases rule: encode_cases[of kind i reg]) (auto simp: fun_upd_idem)
  then have "handles_free kind ids reg'"
    using free i by (auto simp: handles_free_def inj_on_def)
  then show ?thesis using e reg' i' by (auto simp: resolve_valid)
qed

lemma track_search_from:
  assumes q: "calm dv" and git: "g_IsAncestor (w_git w) = (\<lambda>_. ancestor)" and project: "ta_ProjectID t \<noteq> []"
    and sorted: "sorted_wrt (\<lambda>a b. se_ID a < se_ID b) rows" and rows: "rows = project_tracks extract (ta_ProjectID t) db"
    and nonempty: "\<forall>r \<in> set rows. se_ID r \<noteq> []"
  shows "n \<le> length rows
    \<Longrightarrow> handles_free (track_kind (ta_ProjectID t)) (se_ID ` set rows) reg
    \<Longrightarrow> length (ch_order reg) + (length rows - n) div 256 \<le> compactHandleCapacity
    \<Longrightarrow> (length rows - n) div 256 < fuel
    \<Longrightarrow> n = 0 \<and> cursor = [] \<or> 0 < n \<and> cursor \<noteq> []
        \<and> ResolveServerCursor reg cursor (track_kind (ta_ProjectID t)) = Some (se_ID (rows ! (n - 1)))
    \<Longrightarrow> \<exists>reg'. fst (accepted_track_pages fuel dv w extract project t p cursor reasons reg (k, db)) =
        map_sum id (\<lambda>r. Some (r, reg')) (scan_tracks (ancestor (pc_Root project) (ph_Head p)) t (drop n rows) reasons)"
proof (induction fuel arbitrary: n reg cursor reasons k)
  case (Suc fuel)
  let ?kind = "track_kind (ta_ProjectID t)" and ?scan = "scan_tracks (ancestor (pc_Root project) (ph_Head p)) t"
  define key where "key = (if n = 0 then [] else se_ID (rows ! (n - 1)))"
  have "rows ! (n - 1) \<in> set rows" if "0 < n" using that Suc(2) by (intro nth_mem) simp
  then have "n = 0 \<and> key = [] \<or> 0 < n \<and> key \<noteq> []" using nonempty by (auto simp: key_def)
  then have behind: "filter (\<lambda>r. key \<noteq> [] \<longrightarrow> key < se_ID r) rows = drop n rows"
    using filter_above[OF sorted, of n] Suc(2) by (auto simp: key_def)
  have page: "QuerySharedLifecycle dv extract (track_query (ta_ProjectID t) cursor) reg (k, db) =
      (Inr (query_page (track_query (ta_ProjectID t) cursor) (take 257 (drop n rows)) reg), Suc k, db)"
    using query_tracks[OF q project, where afterID = key and cursor = cursor and reg = reg] Suc(6) behind rows by (auto simp: key_def)
  show ?case
  proof (cases "256 < length (drop n rows)")
    case False
    obtain k' where "accepted_track_rows dv w project t p (drop n rows) reasons (Suc k, db) = (?scan (drop n rows) reasons, k', db)"
      using accepted_track_rows_scan[OF q git] by blast
    moreover note page[unfolded page_final[OF False[unfolded not_less]]]
    ultimately show ?thesis by (auto simp: io_bind_def io_return_def split: sum.splits)
  next
    case more: True
    define e where "e = EncodeServerCursor ?kind (se_ID (drop n rows ! 255)) reg"
    have "drop n rows ! 255 = rows ! (n + 255)" "rows ! (n + 255) \<in> set rows" using more by (simp_all add: add.commute)
    moreover have "1 \<le> (length rows - n) div 256" using more by simp
    ultimately obtain c' reg' where e': "e = (c', reg')" "c' \<noteq> []" "ResolveServerCursor reg' c' ?kind = Some (se_ID (rows ! (n + 255)))"
      "handles_free ?kind (se_ID ` set rows) reg'" "length (ch_order reg') \<le> Suc (length (ch_order reg))"
      using handles_free_encode[OF Suc(3), of "se_ID (rows ! (n + 255))"] Suc(4) by (auto simp: e_def)
    have div: "(length rows - n) div 256 = Suc ((length rows - (n + 256)) div 256)"
      using more le_div_geq[of 256 "length rows - n"] by simp
    obtain k' where scan: "accepted_track_rows dv w project t p (take 256 (drop n rows)) reasons (Suc k, db) =
        (?scan (take 256 (drop n rows)) reasons, k', db)"
      using accepted_track_rows_scan[OF q git] by blast
    have split: "take 256 (drop n rows) @ drop (n + 256) rows = drop n rows"
      by (metis add.commute append_take_drop_id drop_drop)
    have whole: "?scan (drop n rows) reasons = (case ?scan (take 256 (drop n rows)) reasons of
        Inr (Inl reasons') \<Rightarrow> ?scan (drop (n + 256) rows) reasons' | r \<Rightarrow> r)"
      using scan_tracks_append[of _ t "take 256 (drop n rows)" "drop (n + 256) rows" reasons] unfolding split .
    have rest: "\<exists>r'. fst (accepted_track_pages fuel dv w extract project t p c' reasons' reg' (k', db)) =
        map_sum id (\<lambda>r. Some (r, r')) (?scan (drop (n + 256) rows) reasons')" for reasons'
      using Suc(4,5) e' more div by (intro Suc.IH) (auto simp: add.commute)
    note page = page[unfolded page_more[OF more] e_def[symmetric] e'(1) Let_def fst_conv snd_conv]
    show ?thesis
      unfolding accepted_track_pages.simps io_bind_def page whole
      using scan rest by (auto simp: io_return_def id_def split: sum.splits)
  qed
qed simp

lemma project_tracks_sorted:
  assumes "distinct (map se_ID (sd_tables db ''shared_tracks''))"
  shows "sorted_wrt (\<lambda>a b. se_ID a < se_ID b) (project_tracks extract projectID db)"
proof -
  let ?rows = "project_tracks extract projectID db"
  have "distinct (map se_ID ?rows)"
    using assms unfolding project_tracks_def by (simp add: distinct_map distinct_sort inj_on_def)
  then have "sorted_wrt (<) (map se_ID ?rows)"
    unfolding strict_sorted_iff by (simp add: project_tracks_def)
  then show ?thesis by (simp add: sorted_wrt_map)
qed

lemma project_tracks_set: "set (project_tracks extract projectID db) \<subseteq> set (sd_tables db ''shared_tracks'')"
  by (auto simp: project_tracks_def)

text \<open>
  C38. The search for an accepted Track ends and misses nothing: in a quiet gateway whose cursors can be issued (room in
  the registry, no two Tracks with one handle), as many rounds as there are pages read every Track of the project once, in
  the order of the ids, and the outcome is that of one scan over all of them.
\<close>

theorem track_search_complete:
  assumes "calm dv" "g_IsAncestor (w_git w) = (\<lambda>_. ancestor)" "ta_ProjectID t \<noteq> []"
    and "distinct (map se_ID (sd_tables db ''shared_tracks''))"
    and "handles_free (track_kind (ta_ProjectID t)) (se_ID ` set (sd_tables db ''shared_tracks'')) reg"
    and "length (ch_order reg) + length (project_tracks extract (ta_ProjectID t) db) div 256 \<le> compactHandleCapacity"
    and "length (project_tracks extract (ta_ProjectID t) db) div 256 < fuel"
  shows "\<exists>reg'. fst (accepted_track_pages fuel dv w extract project t p [] [] reg (k, db)) =
    map_sum id (\<lambda>r. Some (r, reg'))
      (scan_tracks (ancestor (pc_Root project) (ph_Head p)) t (project_tracks extract (ta_ProjectID t) db) [])"
proof -
  let ?rows = "project_tracks extract (ta_ProjectID t) db"
  have free: "handles_free (track_kind (ta_ProjectID t)) (se_ID ` set ?rows) reg"
    by (rule handles_free_mono[OF assms(5) image_mono[OF project_tracks_set]])
  then have "\<forall>r \<in> set ?rows. se_ID r \<noteq> []" by (auto simp: handles_free_def encodable_def)
  from track_search_from[OF assms(1-3) project_tracks_sorted[OF assms(4)] refl this, of 0] free assms(6,7)
  show ?thesis by simp
qed


section \<open>Concrete searches\<close>

definition planned_payload :: string where
  "planned_payload = json_object (map (apsnd flat_text)
     [(''project_id'', Flat_string ''example''), (''status'', Flat_string ''planned'')])"

definition planned_row :: "string \<Rightarrow> SharedEntity" where
  "planned_row i = \<lparr>se_ID = i, se_Revision = 1, se_Payload = planned_payload, se_UpdatedAt = ''2024-01-01T00:00:00Z''\<rparr>"

definition tracks_db :: "string list \<Rightarrow> shared_db" where
  "tracks_db ids = empty_db\<lparr>sd_tables := (\<lambda>_. [])(''shared_tracks'' := map planned_row ids)\<rparr>"

definition member_of :: "string \<Rightarrow> string \<Rightarrow> string option" where
  "member_of payload field = (if payload = planned_payload \<and> field = ''project_id'' then Some ''example''
     else if payload = planned_payload \<and> field = ''status'' then Some ''planned'' else None)"

definition searched_task :: TaskAuthoring where
  "searched_task = zero_TaskAuthoring\<lparr>ta_ProjectID := ''example'', ta_ID := ''AAA-TSK1''\<rparr>"

definition alike :: "world \<Rightarrow> world" where
  "alike w = w\<lparr>w_git := (w_git w)\<lparr>g_IsAncestor := (\<lambda>_ _ _ _. Ok True)\<rparr>\<rparr>"

lemma planned_track: "decode_track planned_payload = Some (zero_Track\<lparr>tk_ProjectID := ''example'', tk_Status := ''planned''\<rparr>)"
proof -
  have members: "\<forall>(k, v) \<in> set [(''project_id'', Flat_string ''example''), (''status'', Flat_string ''planned'')]. plain k \<and> flat_plain v"
    by (simp add: plain_def plain_char_def byte_def)
  show ?thesis
    unfolding decode_track_def planned_payload_def json_Unmarshal_flat[OF list.distinct(2) members]
    using members by (simp add: unquote_plain struct_field_def track_fields_def dec_string_def)
qed

lemma tracks_of_db: "project_tracks member_of ''example'' (tracks_db ids) = sort_key se_ID (map planned_row ids)"
  by (simp add: project_tracks_def tracks_db_def filter_map comp_def planned_row_def member_of_def)

lemma planned_row_skipped:
  "r \<in> set (sort_key se_ID (map planned_row ids))
   \<Longrightarrow> \<exists>tk. decode_track (se_Payload r) = Some tk \<and> candidate_review searched_task (se_ID r) tk = None"
  by (auto simp: planned_row_def planned_track candidate_review_def)

lemma calm_sqlite: "calm (sqlite now)"
  by (simp add: calm_def sqlite_def)

lemma searched_project [simp]: "ta_ProjectID searched_task = ''example''"
  by (simp add: searched_task_def)

lemma alike_ancestor: "g_IsAncestor (w_git (alike w)) = (\<lambda>_ _ _ _. Ok True)"
  by (simp add: alike_def)

theorem track_search_complete_witness:
  "\<forall>w project p k. \<exists>reg'. fst (accepted_track_pages 1 (sqlite ''t'') (alike w) member_of project searched_task p [] []
     empty_registry (k, tracks_db [''AAA-TRK1''])) = Inr (Some (Inl [], reg'))"
proof (intro allI)
  fix w project p k
  have "handles_free (track_kind ''example'') (se_ID ` set (sd_tables (tracks_db [''AAA-TRK1'']) ''shared_tracks'')) empty_registry"
    by (simp add: handles_free_def tracks_db_def planned_row_def encodable_def maxServerCursorKeyBytes_def empty_registry_def)
  moreover have "distinct (map se_ID (sd_tables (tracks_db [''AAA-TRK1'']) ''shared_tracks''))"
    by (simp add: tracks_db_def)
  moreover have "length (project_tracks member_of ''example'' (tracks_db [''AAA-TRK1''])) = 1"
    by (simp add: tracks_of_db)
  ultimately have "\<exists>reg'. fst (accepted_track_pages 1 (sqlite ''t'') (alike w) member_of project searched_task p [] []
        empty_registry (k, tracks_db [''AAA-TRK1''])) =
      map_sum id (\<lambda>r. Some (r, reg')) (scan_tracks (\<lambda>_. Ok True) searched_task
        (project_tracks member_of ''example'' (tracks_db [''AAA-TRK1''])) [])"
    by (intro track_search_complete[OF calm_sqlite alike_ancestor, of searched_task, unfolded searched_project])
      (simp_all add: empty_registry_def)
  moreover have "scan_tracks c searched_task (project_tracks member_of ''example'' (tracks_db [''AAA-TRK1''])) [] = Inr (Inl [])" for c
    by (rule scan_tracks_skip, unfold tracks_of_db) (blast dest: planned_row_skipped)
  ultimately show "\<exists>reg'. fst (accepted_track_pages 1 (sqlite ''t'') (alike w) member_of project searched_task p [] []
     empty_registry (k, tracks_db [''AAA-TRK1''])) = Inr (Some (Inl [], reg'))"
    by simp
qed

text \<open>257 Tracks and a registry filled by other lists.\<close>

definition crowded_db :: shared_db where
  "crowded_db = tracks_db (map (\<lambda>i. ''AAA-TRK'' @ dec (Suc i)) [0..<257])"

definition full_registry :: cursor_registry where
  "full_registry = empty_registry\<lparr>ch_order := map dec [0..<65536]\<rparr>"


end
