(* ===== verification/Relation_Properties.thy ===== *)
theory Relation_Properties
  imports Relation_Service Track_Search_Properties Shared_Page_Laws "HOL-Library.Multiset"
begin

text \<open>
  The pages of relations: both directions are read with one row to spare, merged and cut, and the cursor of
  a page is the position of its last row. Following the cursors lists every relation of an entity once, in one order.
\<close>

section \<open>The order of the rows\<close>

definition row_key :: "RelationRow \<Rightarrow> string \<times> string \<times> nat" where
  "row_key v = (rw_Kind v, rw_Other v, relationDirectionRank (rw_Direction v))"

lemma relationRowLess_key: "relationRowLess a b \<longleftrightarrow> row_key a < row_key b"
  by (auto simp: relationRowLess_def row_key_def)

lemma set_merge [simp]: "set (mergeRelationRows xs ys) = set xs \<union> set ys"
  by (induction xs ys rule: mergeRelationRows.induct) auto

lemma mset_merge [simp]: "mset (mergeRelationRows xs ys) = mset xs + mset ys"
  by (induction xs ys rule: mergeRelationRows.induct) auto

lemma merge_nil [simp]: "mergeRelationRows xs [] = xs"
  by (cases xs) simp_all

lemma sorted_merge:
  assumes "sorted (map row_key xs)" "sorted (map row_key ys)"
  shows "sorted (map row_key (mergeRelationRows xs ys))"
  using assms
proof (induction xs ys rule: mergeRelationRows.induct)
  case (3 a xs b ys)
  then show ?case by (fastforce simp: relationRowLess_key)
qed simp_all

text \<open>Rows with different keys have one sorted arrangement.\<close>

lemma sort_rows:
  assumes "distinct (map row_key xs)" "mset zs = mset xs" "sorted (map row_key zs)"
  shows "zs = sort_key row_key xs"
  using sort_key_inj_key_eq [of xs zs row_key] assms by (simp add: distinct_map)

lemma distinct_sort_keys: "distinct (map f (sort_key f xs)) \<longleftrightarrow> distinct (map f xs)"
  by (simp add: distinct_map)

section \<open>The relations of an entity\<close>

definition directed_rows :: "bool \<Rightarrow> string \<Rightarrow> string \<Rightarrow> string list \<Rightarrow> bool \<Rightarrow> shared_db \<Rightarrow> RelationRow list" where
  "directed_rows local projectID self kinds outgoing db =
     map (listed_relation outgoing) (filter (direction_selects projectID self kinds outgoing)
       (if local then sd_local_relations db else sd_relations db))"

definition entity_relations :: "bool \<Rightarrow> string \<Rightarrow> string \<Rightarrow> string list \<Rightarrow> string \<Rightarrow> shared_db \<Rightarrow> RelationRow list" where
  "entity_relations local projectID self kinds direction db = sort_key row_key
     ((if direction \<noteq> ''incoming'' then directed_rows local projectID self kinds True db else [])
      @ (if direction \<noteq> ''outgoing'' then directed_rows local projectID self kinds False db else []))"

text \<open>The primary keys of both tables.\<close>

definition relations_keyed :: "shared_db \<Rightarrow> bool" where
  "relations_keyed db \<longleftrightarrow> distinct (map relation_key (sd_relations db)) \<and> distinct (map relation_key (sd_local_relations db))"

lemma directed_keys:
  assumes "relations_keyed db"
  shows "distinct (map row_key (directed_rows local projectID self kinds outgoing db))"
proof -
  define table where "table = filter (direction_selects projectID self kinds outgoing)
    (if local then sd_local_relations db else sd_relations db)"
  have "distinct (map relation_key table)"
    using assms by (auto simp: table_def relations_keyed_def intro: distinct_map_filter)
  moreover have "inj_on (row_key \<circ> listed_relation outgoing) (set table)" if "inj_on relation_key (set table)"
    using that by (auto simp: inj_on_def table_def row_key_def listed_relation_def relation_key_def direction_selects_def
        split: if_splits)
  ultimately show ?thesis
    by (simp add: directed_rows_def flip: table_def) (simp add: distinct_map)
qed

lemma directed_rank:
  "v \<in> set (directed_rows local projectID self kinds outgoing db)
   \<Longrightarrow> relationDirectionRank (rw_Direction v) = (if outgoing then 0 else 1)"
  by (auto simp: directed_rows_def listed_relation_def relationDirectionRank_def split: if_splits)

lemma direction_rows_sorted:
  assumes "relations_keyed db"
  shows "direction_rows local projectID self kinds outgoing includeEqual afterKind afterOther limit db =
    take (nat limit) (sort_key row_key (filter (behind_position includeEqual afterKind afterOther)
      (directed_rows local projectID self kinds outgoing db)))"
proof -
  define rows where "rows = filter (behind_position includeEqual afterKind afterOther)
    (directed_rows local projectID self kinds outgoing db)"
  have keys: "distinct (map row_key rows)"
    using directed_keys [OF assms] by (auto simp: rows_def intro: distinct_map_filter)
  have "row_key v = (rw_Kind v, rw_Other v, if outgoing then 0 else 1)" if "v \<in> set rows" for v
    using that directed_rank [of v "local" projectID self kinds outgoing db] by (auto simp: rows_def row_key_def)
  then have same: "map row_key (sort_key (\<lambda>v. (rw_Kind v, rw_Other v)) rows) =
      map (\<lambda>(a, b). (a, b, if outgoing then 0 else 1)) (map (\<lambda>v. (rw_Kind v, rw_Other v)) (sort_key (\<lambda>v. (rw_Kind v, rw_Other v)) rows))"
    by simp
  have "sorted (map (\<lambda>(a, b). (a, b, n :: nat)) ps)" if "sorted ps" for ps :: "(string \<times> string) list" and n
    using that by (induction ps) auto
  then have "sorted (map row_key (sort_key (\<lambda>v. (rw_Kind v, rw_Other v)) rows))"
    unfolding same by (rule allI [THEN spec]) simp
  then have "sort_key (\<lambda>v. (rw_Kind v, rw_Other v)) rows = sort_key row_key rows"
    by (intro sort_rows [OF keys]) simp_all
  then show ?thesis by (simp add: direction_rows_def rows_def directed_rows_def)
qed

section \<open>One page\<close>

definition after_cursor :: "string \<Rightarrow> string \<Rightarrow> string \<Rightarrow> RelationRow \<Rightarrow> bool" where
  "after_cursor kind other direction v \<longleftrightarrow> kind = [] \<or> (kind, other, relationDirectionRank direction) < row_key v"

lemma behind_directed:
  assumes "v \<in> set (directed_rows local projectID self kinds outgoing db)"
  shows "behind_position (\<not> outgoing \<and> kind \<noteq> [] \<and> direction = ''outgoing'') kind other v \<longleftrightarrow> after_cursor kind other direction v"
  using directed_rank [OF assms]
  by (cases outgoing) (auto simp: behind_position_def after_cursor_def row_key_def relationDirectionRank_def)

lemma direction_page:
  assumes "calm dv" "local \<longrightarrow> dv_Local dv" "relations_keyed db" "0 \<le> limit" "limit \<le> 256"
  shows "relationDirectionPage dv local projectID self kinds outgoing (\<not> outgoing \<and> kind \<noteq> [] \<and> direction = ''outgoing'')
      kind other (limit + 1) (k, db) =
    (Inr (take (nat (limit + 1)) (sort_key row_key (filter (after_cursor kind other direction)
       (directed_rows local projectID self kinds outgoing db)))), Suc k, db)"
proof -
  have "filter (behind_position (\<not> outgoing \<and> kind \<noteq> [] \<and> direction = ''outgoing'') kind other)
      (directed_rows local projectID self kinds outgoing db)
    = filter (after_cursor kind other direction) (directed_rows local projectID self kinds outgoing db)"
    by (rule filter_cong) (simp_all only: behind_directed)
  then show ?thesis
    using assms by (auto simp: relationDirectionPage_def RelationListMaxRows_def relationStore_def calm_def io_query_def
        io_check_def direction_rows_sorted)
qed

lemma merge_pages:
  assumes "distinct (map row_key (xs @ ys))"
  shows "take m (mergeRelationRows (take m (sort_key row_key xs)) (take m (sort_key row_key ys)))
    = take m (sort_key row_key (xs @ ys))"
proof -
  define a b where "a = take m (sort_key row_key xs)" and "b = take m (sort_key row_key ys)"
  have keys: "inj_on row_key (set xs \<union> set ys)" "distinct xs" "distinct ys" "set xs \<inter> set ys = {}"
    using assms unfolding distinct_map set_append distinct_append by simp_all
  have "set a \<subseteq> set xs" "set b \<subseteq> set ys" by (auto simp: a_def b_def dest: in_set_takeD)
  moreover have "distinct a" "distinct b" using keys by (simp_all add: a_def b_def)
  moreover have "sorted (map row_key a)" "sorted (map row_key b)"
    by (simp_all add: a_def b_def take_map [symmetric] sorted_wrt_take)
  moreover from calculation have "distinct (map row_key (a @ b))"
    unfolding distinct_map using keys by (auto intro: inj_on_subset [OF keys(1)])
  ultimately have "mergeRelationRows a b = sort_key row_key (a @ b)"
    by (intro sort_rows sorted_merge) simp_all
  then show ?thesis using take_merge [OF keys, of m] by (simp add: a_def b_def)
qed

lemma entity_relations_keys:
  assumes "relations_keyed db"
  shows "distinct (map row_key (entity_relations local projectID self kinds direction db))"
proof -
  have "row_key u \<noteq> row_key v" if "u \<in> set (directed_rows local projectID self kinds True db)"
    "v \<in> set (directed_rows local projectID self kinds False db)" for u v
    using directed_rank [OF that(1)] directed_rank [OF that(2)] by (auto simp: row_key_def)
  then have "distinct (map row_key
     ((if direction \<noteq> ''incoming'' then directed_rows local projectID self kinds True db else [])
      @ (if direction \<noteq> ''outgoing'' then directed_rows local projectID self kinds False db else [])))" (is "distinct (map _ ?rows)")
    using directed_keys [OF assms] by fastforce
  then show ?thesis unfolding entity_relations_def distinct_sort_keys .
qed

lemma relation_page:
  assumes "calm dv" "local \<longrightarrow> dv_Local dv" "relations_keyed db" "1 \<le> limit" "limit \<le> 256"
    and "direction \<in> {''outgoing'', ''incoming'', ''both''}"
  shows "\<exists>k'. ListRelationPage dv local projectID self kinds direction kind other cursor_direction limit (k, db) =
    (Inr (take (nat (limit + 1)) (filter (after_cursor kind other cursor_direction)
       (entity_relations local projectID self kinds direction db))), k', db)"
proof -
  let ?keep = "filter (after_cursor kind other cursor_direction)"
  let ?dir = "\<lambda>outgoing. directed_rows local projectID self kinds outgoing db"
  note page = direction_page [OF assms(1-3), of limit projectID self kinds _ kind cursor_direction other]
  have out: "relationDirectionPage dv local projectID self kinds True False kind other (limit + 1) (k, db) =
      (Inr (take (nat (limit + 1)) (sort_key row_key (?keep (?dir True)))), Suc k, db)" for k
    using page [of True] assms(4,5) by simp
  have into: "relationDirectionPage dv local projectID self kinds False (kind \<noteq> [] \<and> cursor_direction = ''outgoing'')
      kind other (limit + 1) (k, db) = (Inr (take (nat (limit + 1)) (sort_key row_key (?keep (?dir False)))), Suc k, db)" for k
    using page [of False] assms(4,5) by simp
  have keys: "distinct (map row_key (?keep (?dir True) @ ?keep (?dir False)))"
    using distinct_map_filter [OF entity_relations_keys [OF assms(3), of "local" projectID self kinds "''both''",
        unfolded entity_relations_def distinct_sort_keys], where P = "after_cursor kind other cursor_direction"]
    by simp
  show ?thesis
    using assms(4-6) merge_pages [OF keys, of "nat (limit + 1)"]
    by (auto simp: ListRelationPage_def RelationListMaxRows_def out into io_bind_def io_return_def entity_relations_def
        filter_sort)
qed

section \<open>Following the cursors\<close>

text \<open>
  A client that asks for pages until one is not followed by another, as \<open>RelationList\<close> reads its cursors and
  cuts its pages.
\<close>

fun follow_relations ::
  "nat \<Rightarrow> driver \<Rightarrow> bool \<Rightarrow> string \<Rightarrow> string \<Rightarrow> string list \<Rightarrow> string \<Rightarrow> int \<Rightarrow> string \<Rightarrow> RelationRow list io" where
  "follow_relations 0 dv local projectID self kinds direction limit at = io_return []"
| "follow_relations (Suc n) dv local projectID self kinds direction limit at =
     (case split_on nul at of
        [kind, other, cursor_direction] \<Rightarrow>
          io_bind (ListRelationPage dv local projectID self kinds direction kind other cursor_direction limit) (\<lambda>rows.
            if int (length rows) \<le> limit then io_return rows
            else let shown = take (nat limit) rows in
              io_bind (follow_relations n dv local projectID self kinds direction limit (position_key (last shown)))
                (\<lambda>rest. io_return (shown @ rest)))
      | _ \<Rightarrow> io_error ''invalid relation cursor'')"

lemma split_on_free: "d \<notin> set a \<Longrightarrow> split_on d a = [a]"
  by (induction a) auto

lemma split_on_first: "d \<notin> set a \<Longrightarrow> split_on d (a @ d # s) = a # split_on d s"
  by (induction a) auto

definition nul_free :: "RelationRow \<Rightarrow> bool" where
  "nul_free v \<longleftrightarrow> rw_Kind v \<noteq> [] \<and> nul \<notin> set (rw_Kind v) \<and> nul \<notin> set (rw_Other v)"

lemma position_read:
  assumes "nul_free v" "rw_Direction v \<in> {''outgoing'', ''incoming''}"
  shows "split_on nul (position_key v) = [rw_Kind v, rw_Other v, rw_Direction v]"
  using assms by (auto simp: position_key_def nul_free_def split_on_first split_on_free nul_def)

lemma after_row: "nul_free u \<Longrightarrow> after_cursor (rw_Kind u) (rw_Other u) (rw_Direction u) = (\<lambda>v. row_key u < row_key v)"
  by (auto simp: after_cursor_def nul_free_def row_key_def fun_eq_iff)

lemma entity_relation_rows:
  "v \<in> set (entity_relations local projectID self kinds direction db) \<Longrightarrow> rw_Direction v \<in> {''outgoing'', ''incoming''}"
  by (auto simp: entity_relations_def directed_rows_def listed_relation_def split: if_splits)

lemma follow_from:
  assumes "calm dv" "local \<longrightarrow> dv_Local dv" "relations_keyed db" "1 \<le> limit" "limit \<le> 256"
    and "direction \<in> {''outgoing'', ''incoming'', ''both''}"
    and rows: "rows = entity_relations local projectID self kinds direction db" and free: "\<forall>v \<in> set rows. nul_free v"
  shows "m \<le> length rows \<Longrightarrow> length rows - m < n
    \<Longrightarrow> at = (if m = 0 then [nul, nul] else position_key (rows ! (m - 1)))
    \<Longrightarrow> \<exists>k'. follow_relations n dv local projectID self kinds direction limit at (k, db) = (Inr (drop m rows), k', db)"
proof (induction n arbitrary: m at k)
  case (Suc n)
  have "sorted_wrt (<) (map row_key rows)"
    using entity_relations_keys [OF assms(3)] by (simp add: strict_sorted_iff rows) (simp add: entity_relations_def)
  then have sorted: "sorted_wrt (\<lambda>a b. row_key a < row_key b) rows" by (simp add: sorted_wrt_map)
  obtain kind other cursor_direction where split: "split_on nul at = [kind, other, cursor_direction]"
    and behind: "filter (after_cursor kind other cursor_direction) rows = drop m rows"
  proof (cases "m = 0")
    case True
    then show ?thesis using that [of "[]" "[]" "[]"] Suc.prems(3) by (simp add: after_cursor_def)
  next
    case False
    then have "rows ! (m - 1) \<in> set rows" using Suc.prems(1) by (intro nth_mem) simp
    then have "nul_free (rows ! (m - 1))" "rw_Direction (rows ! (m - 1)) \<in> {''outgoing'', ''incoming''}"
      using free rows entity_relation_rows by blast+
    moreover have "filter (\<lambda>v. row_key (rows ! (m - 1)) < row_key v) rows = drop m rows"
      using filter_above [OF sorted, of m] False Suc.prems(1) by simp
    ultimately show ?thesis
      using that [of "rw_Kind (rows ! (m - 1))" "rw_Other (rows ! (m - 1))" "rw_Direction (rows ! (m - 1))"] False
        Suc.prems(3) position_read [of "rows ! (m - 1)"] after_row [of "rows ! (m - 1)"]
      by simp
  qed
  obtain k1 where page: "ListRelationPage dv local projectID self kinds direction kind other cursor_direction limit (k, db) =
      (Inr (take (nat (limit + 1)) (drop m rows)), k1, db)"
    using relation_page [OF assms(1-6), of projectID self kinds kind other cursor_direction k] behind rows by auto
  show ?case
  proof (cases "int (length (drop m rows)) \<le> limit")
    case True
    then show ?thesis using split page by (simp add: io_bind_def io_return_def)
  next
    case False
    define m' where "m' = m + nat limit"
    have m': "m' < length rows" "0 < m'" using False assms(4) by (simp_all add: m'_def)
    have "1 \<le> nat limit" using assms(4) by simp
    then have left: "length rows - m' < n" using Suc.prems(2) m' unfolding m'_def by arith
    have shown: "take (nat limit) (take (nat (limit + 1)) (drop m rows)) = take (nat limit) (drop m rows)"
      using assms(4) by (simp add: min_def)
    have "last (take (nat limit) (drop m rows)) = rows ! (m' - 1)"
      using False assms(4) by (subst last_conv_nth) (auto simp: m'_def min_def)
    moreover obtain k2 where "follow_relations n dv local projectID self kinds direction limit (position_key (rows ! (m' - 1))) (k1, db)
        = (Inr (drop m' rows), k2, db)"
      using Suc.IH [of m' "position_key (rows ! (m' - 1))" k1] m' left by auto
    moreover have "take (nat limit) (drop m rows) @ drop m' rows = drop m rows"
      unfolding m'_def by (metis add.commute append_take_drop_id drop_drop)
    ultimately show ?thesis
      using split page shown False assms(4) by (simp add: io_bind_def io_return_def Let_def min_def)
  qed
qed simp

text \<open>
  C22. Listing the relations of an entity is exact: in a calm gateway, whatever the direction and the page size, a
  client that follows the cursors gets every selected relation of the table exactly once, strictly ordered by kind, other
  endpoint and direction, with no more pages than relations; a relation that is listed in both directions is not lost
  between two pages.
\<close>

theorem relation_pages_complete:
  assumes "calm dv" "local \<longrightarrow> dv_Local dv" "relations_keyed db" "1 \<le> limit" "limit \<le> 256"
    and "direction \<in> {''outgoing'', ''incoming'', ''both''}"
    and "\<forall>v \<in> set (entity_relations local projectID self kinds direction db). nul_free v"
    and "length (entity_relations local projectID self kinds direction db) < n"
  shows "\<exists>rows k'. follow_relations n dv local projectID self kinds direction limit [nul, nul] (k, db) = (Inr rows, k', db)
    \<and> sorted_wrt relationRowLess rows
    \<and> mset rows = mset (if direction \<noteq> ''incoming'' then directed_rows local projectID self kinds True db else [])
        + mset (if direction \<noteq> ''outgoing'' then directed_rows local projectID self kinds False db else [])"
proof -
  let ?rows = "entity_relations local projectID self kinds direction db"
  have "sorted_wrt (<) (map row_key ?rows)"
    using entity_relations_keys [OF assms(3)] by (simp add: strict_sorted_iff) (simp add: entity_relations_def)
  moreover have "relationRowLess = (\<lambda>a b. row_key a < row_key b)" by (simp add: fun_eq_iff relationRowLess_key)
  ultimately have "sorted_wrt relationRowLess ?rows" by (simp add: sorted_wrt_map)
  moreover obtain k' where "follow_relations n dv local projectID self kinds direction limit [nul, nul] (k, db) = (Inr ?rows, k', db)"
    using follow_from [OF assms(1-6) refl assms(7), of 0 n "[nul, nul]" k] assms(8) by auto
  ultimately show ?thesis by (intro exI [of _ ?rows] exI [of _ k']) (simp add: entity_relations_def)
qed

text \<open>Two decisions that are each other's authority, and a task; the pages have one row.\<close>

definition related :: "string \<Rightarrow> string \<Rightarrow> relation_row" where
  "related source target = \<lparr>re_project_id = ''example'', re_kind = ''authority'', re_source_id = source, re_target_id = target,
     re_created_at = ''2024-01-01T00:00:00Z'', re_created_by = ''server''\<rparr>"

definition related_db :: shared_db where
  "related_db = empty_db\<lparr>sd_relations := [related ''AAA-ADR1'' ''AAA-ADR2'', related ''AAA-TSK1'' ''AAA-ADR1'',
     related ''AAA-ADR2'' ''AAA-ADR1'']\<rparr>"

lemma relation_pages_complete_witness:
  "\<exists>rows k'. follow_relations 4 (sqlite ''t'') False ''example'' ''AAA-ADR1'' [''authority''] ''both'' 1 [nul, nul] (0, related_db)
      = (Inr rows, k', related_db)
    \<and> sorted_wrt relationRowLess rows \<and> length rows = 3"
proof -
  let ?e = "entity_relations False ''example'' ''AAA-ADR1'' [''authority''] ''both'' related_db"
  have rows: "directed_rows False ''example'' ''AAA-ADR1'' [''authority''] True related_db =
      [listed_relation True (related ''AAA-ADR1'' ''AAA-ADR2'')]"
    "directed_rows False ''example'' ''AAA-ADR1'' [''authority''] False related_db =
      [listed_relation False (related ''AAA-TSK1'' ''AAA-ADR1''), listed_relation False (related ''AAA-ADR2'' ''AAA-ADR1'')]"
    by (simp_all add: directed_rows_def related_db_def direction_selects_def related_def)
  have "relations_keyed related_db"
    by (simp add: relations_keyed_def related_db_def empty_db_def relation_key_def related_def)
  moreover have "\<forall>v \<in> set ?e. nul_free v" "length ?e < 4"
    by (simp_all add: entity_relations_def rows nul_free_def listed_relation_def related_def nul_def)
  ultimately obtain rows k' where found: "follow_relations 4 (sqlite ''t'') False ''example'' ''AAA-ADR1'' [''authority''] ''both'' 1
      [nul, nul] (0, related_db) = (Inr rows, k', related_db)" "sorted_wrt relationRowLess rows"
    and counted: "mset rows = mset (if ''both'' \<noteq> ''incoming'' then directed_rows False ''example'' ''AAA-ADR1'' [''authority''] True related_db else [])
        + mset (if ''both'' \<noteq> ''outgoing'' then directed_rows False ''example'' ''AAA-ADR1'' [''authority''] False related_db else [])"
    using relation_pages_complete [of "sqlite ''t''" False related_db 1 "''both''" "''example''" "''AAA-ADR1''" "[''authority'']" 4 0]
      calm_sqlite by auto
  have "size (mset rows) = 3" unfolding counted rows by simp
  then show ?thesis using found by auto
qed

end
