(* ===== verification/Rule_Properties.thy ===== *)
theory Rule_Properties
  imports Rule_Service Relation_Properties Identifier_Laws Samples
begin

text \<open>
  The digest of the effective rules, which sessions acknowledge and the workflow policy compares: the digested
  text determines which rules in which revision are in force, and nothing else.
\<close>

section \<open>Separated lists\<close>

lemma split_on_separated:
  "ws \<noteq> [] \<Longrightarrow> \<forall>w \<in> set ws. d \<notin> set w \<Longrightarrow> split_on d (sep_concat [d] ws) = ws"
  by (induction "[d]" ws rule: sep_concat.induct) (simp_all add: split_on_free split_on_first)

lemma sep_concat_append: "xs \<noteq> [] \<Longrightarrow> ys \<noteq> [] \<Longrightarrow> sep_concat d (xs @ ys) = sep_concat d xs @ d @ sep_concat d ys"
  by (induction d xs rule: sep_concat.induct) (auto simp: neq_Nil_conv)

lemma sep_concat_concat:
  "\<forall>ws \<in> set wss. ws \<noteq> [] \<Longrightarrow> sep_concat d (map (sep_concat d) wss) = sep_concat d (concat wss)"
proof (induction wss)
  case (Cons ws wss)
  then show ?case
    by (cases wss) (auto simp: sep_concat_append simp del: append_assoc)
qed simp

lemma concat_same_length:
  "concat xss = concat yss \<Longrightarrow> \<forall>xs \<in> set xss \<union> set yss. length xs = n \<Longrightarrow> 0 < n \<Longrightarrow> xss = yss"
proof (induction xss arbitrary: yss)
  case Nil
  then show ?case by (cases yss) auto
next
  case (Cons xs xss)
  then obtain ys yss' where "yss = ys # yss'" by (cases yss) auto
  then show ?case using Cons by simp
qed

lemma map_eq_map:
  "map f xs = map f ys \<Longrightarrow> \<forall>u \<in> set xs. \<forall>v \<in> set ys. f u = f v \<longrightarrow> g u = g v \<Longrightarrow> map g xs = map g ys"
  by (induction xs ys rule: list_induct2') auto

section \<open>What a valid rule is identified by\<close>

definition rule_pin :: "Rule \<Rightarrow> string \<times> string \<times> int" where
  "rule_pin v = (ru_Name v, ru_ID v, ru_Revision v)"

definition pin_parts :: "string \<times> string \<times> int \<Rightarrow> string list" where
  "pin_parts p = (case p of (name, i, revision) \<Rightarrow> [name, i, dec_int revision])"

lemma digest_member_parts: "digest_member v = sep_concat [nul] (pin_parts (rule_pin v))"
  by (simp add: digest_member_def pin_parts_def rule_pin_def)

lemma nul_not_digit: "\<not> is_digit nul" "\<not> is_upper nul" "\<not> is_lower_digit nul"
  by (simp_all add: nul_def is_digit_def is_upper_def is_lower_digit_def is_lower_def between_def byte_def)

lemma digits_nul_free: "list_all is_digit s \<Longrightarrow> nul \<notin> set s"
  using nul_not_digit by (auto simp: list_all_iff)

lemma separated_nul_free:
  assumes "rx_separated d p s" "\<not> p nul" "d \<noteq> nul"
  shows "nul \<notin> set s"
proof -
  have "set s \<subseteq> insert d (\<Union> (set ` set (split_on d s)))"
  proof (induction s)
    case (Cons c s)
    then show ?case by (cases "split_on d s") auto
  qed simp
  then show ?thesis using assms by (auto simp: rx_separated_def list_all_iff)
qed

lemma pin_parts_nul_free:
  assumes "ValidateRule v = None" "ru_Name v \<noteq> []"
  shows "\<forall>w \<in> set (pin_parts (rule_pin v)). nul \<notin> set w"
proof -
  have "rx_separated (CHR ''.'') (\<lambda>c. is_lower_digit c \<or> c = CHR ''_'') (ru_Name v)"
    using assms by (simp add: ValidateRule_def ValidateRuleName_def)
  then have "nul \<notin> set (ru_Name v)"
    by (rule separated_nul_free) (use nul_not_digit in \<open>auto simp: nul_def\<close>)
  moreover have "ValidateRuleID (ru_ID v) = None" using assms by (simp add: ValidateRule_def)
  then obtain code n where "parseEntityID (ru_ID v) ''RUL'' = Ok (code, n)"
    by (auto simp: ValidateRuleID_def ParseRuleID_def err_of_def split: sum.splits)
  then have "nul \<notin> set (ru_ID v)"
    using parseEntityID_Ok digits_nul_free nul_not_digit by (fastforce simp: list_all_iff nul_def)
  moreover have "nul \<notin> set (dec_int (ru_Revision v))"
    using digits_nul_free by (auto simp: dec_int_def nul_def)
  ultimately show ?thesis by (simp add: pin_parts_def rule_pin_def)
qed

lemma dec_int_inject: "0 \<le> a \<Longrightarrow> 0 \<le> b \<Longrightarrow> dec_int a = dec_int b \<longleftrightarrow> a = b"
  by (auto simp: dec_int_def)

section \<open>The digest\<close>

lemma sorted_members:
  "sort (map digest_member xs) = map (sep_concat [nul]) (map (pin_parts \<circ> rule_pin) (sort_key digest_member xs))"
proof -
  have "sort (map digest_member xs) = map digest_member (sort_key digest_member xs)"
    by (simp add: sort_key_map comp_def)
  then show ?thesis by (simp add: digest_member_parts)
qed

lemma pin_parts_shape [simp]: "length (pin_parts p) = 3" "pin_parts p \<noteq> []"
  by (simp_all add: pin_parts_def split: prod.splits)

lemma digest_text_parts:
  assumes "\<forall>v \<in> set xs. ValidateRule v = None \<and> effective_rule v"
  shows "digest_text xs = sep_concat [nul] (concat (map (pin_parts \<circ> rule_pin) (sort_key digest_member xs)))"
    and "\<forall>w \<in> set (concat (map (pin_parts \<circ> rule_pin) (sort_key digest_member xs))). nul \<notin> set w"
proof -
  show "digest_text xs = sep_concat [nul] (concat (map (pin_parts \<circ> rule_pin) (sort_key digest_member xs)))"
    unfolding digest_text_def sorted_members by (rule sep_concat_concat) auto
  show "\<forall>w \<in> set (concat (map (pin_parts \<circ> rule_pin) (sort_key digest_member xs))). nul \<notin> set w"
    using assms pin_parts_nul_free by (auto simp: effective_rule_def)
qed

lemma separated_inject:
  assumes "\<forall>w \<in> set us \<union> set vs. d \<notin> set w" "sep_concat [d] us = sep_concat [d] vs" "us \<noteq> []" "vs \<noteq> []"
  shows "us = vs"
proof -
  have "split_on d (sep_concat [d] us) = us" "split_on d (sep_concat [d] vs) = vs"
    using assms(1,3,4) by (auto intro: split_on_separated)
  then show ?thesis unfolding assms(2) by (rule trans [OF sym])
qed

lemma valid_revision: "ValidateRule v = None \<Longrightarrow> 1 \<le> ru_Revision v"
  by (simp only: ValidateRule_def first_error_Cons_None fail_if_None not_less)

lemma digest_text_empty: "digest_text zs = [] \<Longrightarrow> zs = []"
proof (rule ccontr)
  assume empty: "digest_text zs = []" and "zs \<noteq> []"
  then obtain m ms where "sort (map digest_member zs) = m # ms"
    by (metis list.exhaust list.map_disc_iff set_empty set_sort)
  moreover from this have "m \<in> set (map digest_member zs)" by (metis list.set_intros(1) set_sort)
  then have "m \<noteq> []" by (auto simp: digest_member_def)
  ultimately show False using empty by (cases ms) (auto simp: digest_text_def)
qed

lemma pin_parts_inject:
  "ValidateRule u = None \<Longrightarrow> ValidateRule v = None \<Longrightarrow> pin_parts (rule_pin u) = pin_parts (rule_pin v) \<Longrightarrow> rule_pin u = rule_pin v"
  using valid_revision [of u] valid_revision [of v] by (simp add: pin_parts_def rule_pin_def dec_int_inject)

text \<open>
  C23. The digest of the effective rules stands for exactly the rules in force: for valid named rules the
  digested texts agree if and only if the same names, identifiers and revisions are in force, each as often, in
  whatever order the rows are read; no name or identifier can be chosen so that two sets share a text.
\<close>

theorem rule_digest_exact:
  assumes valid: "\<forall>v \<in> set xs \<union> set ys. ValidateRule v = None \<and> effective_rule v"
  shows "(digest_text xs = digest_text ys \<longleftrightarrow> mset (map rule_pin xs) = mset (map rule_pin ys))
    \<and> (mset (map rule_pin xs) = mset (map rule_pin ys) \<longrightarrow> ruleEffectiveDigest xs = ruleEffectiveDigest ys)"
proof -
  let ?sort = "sort_key digest_member" and ?parts = "\<lambda>xs. map (pin_parts \<circ> rule_pin) (sort_key digest_member xs)"
  have same: "digest_text xs = digest_text ys" if "mset (map rule_pin xs) = mset (map rule_pin ys)"
  proof -
    have "mset (map digest_member xs) = image_mset (sep_concat [nul] \<circ> pin_parts) (mset (map rule_pin xs))" for xs
      by (simp add: digest_member_parts [abs_def] multiset.map_comp comp_def)
    then have "sort (map digest_member xs) = sort (map digest_member ys)"
      using that by (intro properties_for_sort) simp_all
    then show ?thesis by (simp add: digest_text_def)
  qed
  have "mset (map rule_pin xs) = mset (map rule_pin ys)" if eq: "digest_text xs = digest_text ys"
  proof -
    note parts = digest_text_parts [of xs] digest_text_parts [of ys]
    have "concat (?parts xs) = concat (?parts ys)"
    proof (cases "xs = [] \<or> ys = []")
      case True
      then show ?thesis using eq digest_text_empty [of xs] digest_text_empty [of ys] by (auto simp: digest_text_def)
    next
      case False
      then show ?thesis
        using parts valid eq by (intro separated_inject [where d = nul]) (auto simp: sort_key_const)
    qed
    then have eqs: "?parts xs = ?parts ys" by (rule concat_same_length [where n = 3]) auto
    then have "map rule_pin (?sort xs) = map rule_pin (?sort ys)"
      by (rule map_eq_map) (use pin_parts_inject valid in auto)
    then show ?thesis by (metis mset_map mset_sort)
  qed
  then show ?thesis using same by (auto simp: ruleEffectiveDigest_def)
qed

definition sample_rule :: "string \<Rightarrow> int \<Rightarrow> Rule" where
  "sample_rule name revision = zero_Rule\<lparr>ru_SchemaVersion := 1, ru_ID := ''AAA-RUL1'', ru_ProjectID := ''example'',
     ru_Revision := revision, ru_Title := ''Rule'', ru_Status := ''accepted'', ru_Name := name, ru_Value := ''true'',
     ru_CreatedBy := ''a'', ru_UpdatedBy := ''a'', ru_LastReason := ''a'',
     ru_CreatedAt := \<lparr>gt_ns = 5, gt_offset = 0\<rparr>, ru_UpdatedAt := \<lparr>gt_ns = 5, gt_offset = 0\<rparr>\<rparr>"

lemma sample_rule_texts:
  "ValidateRuleID ''AAA-RUL1'' = None" "json_Valid ''true''" "TrimSpace ''Rule'' = ''Rule''" "TrimSpace ''true'' = ''true''"
proof -
  have d: "dec 1 = ''1''" by code_simp
  have v: "ValidateProjectCode ''AAA'' = None"
    by (simp add: ValidateProjectCode_None is_upper_def between_def byte_def)
  have "FormatRuleID ''AAA'' 1 = Ok ''AAA-RUL1''"
    by (simp add: FormatRuleID_def formatEntityID_def v MaxSafeInteger_def d [unfolded One_nat_def])
  then show "ValidateRuleID ''AAA-RUL1'' = None" by (simp add: ValidateRuleID_def rule_id.decode_encode)
  have "json_value (Suc 9) ''true'' = Some (J_bool True, [])"
    by (subst json_value.simps) (simp add: skip_space_def json_space_def quote_mark_def HasPrefix_def byte_def)
  then show "json_Valid ''true''" by (simp add: json_Valid_def json_parse_def skip_space_def del: json_value.simps)
  have trim: "TrimSpace s = s" if "s = ''Rule'' \<or> s = ''true''" for s
    unfolding TrimSpace_def Let_def using that
    by (subst runes_ascii) (auto simp: IsSpace_def byte_def simp del: runes.simps)
  show "TrimSpace ''Rule'' = ''Rule''" "TrimSpace ''true'' = ''true''" by (simp_all add: trim)
qed

lemma sample_rule_names: "ValidateRuleName ''a'' = None" "ValidateRuleName ''b'' = None"
  by (simp_all add: ValidateRuleName_def rx_separated_def is_lower_digit_def is_lower_def between_def byte_def rune_count_ascii)

lemma sample_rule_valid: "ValidateRule (sample_rule ''a'' 1) = None" "ValidateRule (sample_rule ''b'' 2) = None"
  using sample_rule_texts sample_rule_names sample_project_id
  by (simp_all add: ValidateRule_def ValidateRuleValue_def sample_rule_def zero_Rule_def SchemaVersion_def rune_count_ascii
      byte_def IsZero_def ContainsAny_iff nul_cr_lf_def nul_def cr_def lf_def)

theorem rule_digest_exact_witness:
  "digest_text [sample_rule ''a'' 1, sample_rule ''b'' 2] = digest_text [sample_rule ''b'' 2, sample_rule ''a'' 1]
   \<and> digest_text [sample_rule ''a'' 1] \<noteq> digest_text [sample_rule ''b'' 2]"
proof -
  have pins: "rule_pin (sample_rule name n) = (name, ''AAA-RUL1'', n)" for name n
    by (simp add: rule_pin_def sample_rule_def)
  have effective: "effective_rule (sample_rule ''a'' 1)" "effective_rule (sample_rule ''b'' 2)"
    by (simp_all add: effective_rule_def sample_rule_def)
  have "digest_text [sample_rule ''a'' 1, sample_rule ''b'' 2] = digest_text [sample_rule ''b'' 2, sample_rule ''a'' 1]"
    using rule_digest_exact [of "[sample_rule ''a'' 1, sample_rule ''b'' 2]" "[sample_rule ''b'' 2, sample_rule ''a'' 1]"]
      sample_rule_valid effective by simp
  moreover have "digest_text [sample_rule ''a'' 1] \<noteq> digest_text [sample_rule ''b'' 2]"
    using rule_digest_exact [of "[sample_rule ''a'' 1]" "[sample_rule ''b'' 2]"] sample_rule_valid effective pins by simp
  ultimately show ?thesis by blast
qed

end
