(* ===== verification/Completion_Properties.thy ===== *)
theory Completion_Properties
  imports Track_Search_Properties Execution_Samples
begin

text \<open>
  A completion that was interrupted between its two databases: the event is committed in the Shared database, the
  execution in the Local one is still integrated. No later completion repairs it.
\<close>

section \<open>Operations that fail and change nothing\<close>

definition refuses :: "shared_db \<Rightarrow> 'a io \<Rightarrow> bool" where
  "refuses db m \<longleftrightarrow> (\<forall>k. \<exists>e k'. m (k, db) = (Inl e, k', db))"

lemma refuses_error: "refuses db (io_error m)" "refuses db (io_fail e)"
  by (simp_all add: refuses_def io_error_def io_fail_def)

lemma refuses_bind:
  assumes m: "keeps (=) m" and f: "\<And>x k k'. m (k, db) = (Inr x, k', db) \<Longrightarrow> refuses db (f x)"
  shows "refuses db (io_bind m f)"
  unfolding refuses_def
proof
  fix k
  obtain r k' db' where run: "m (k, db) = (r, k', db')" by (metis prod.exhaust)
  then have "db' = db" using m unfolding keeps_def by metis
  with run f show "\<exists>e k''. io_bind m f (k, db) = (Inl e, k'', db)"
    by (cases r) (auto simp: io_bind_def refuses_def)
qed

lemma refuses_bind_pair:
  "keeps (=) m \<Longrightarrow> (\<And>a b k k'. m (k, db) = (Inr (a, b), k', db) \<Longrightarrow> refuses db (f a b))
   \<Longrightarrow> refuses db (io_bind m (\<lambda>(a, b). f a b))"
  by (rule refuses_bind) auto

lemma refuses_then: "refuses db m \<Longrightarrow> refuses db (io_bind m f)"
  unfolding refuses_def
proof
  fix k
  assume "\<forall>k. \<exists>e k'. m (k, db) = (Inl e, k', db)"
  then obtain e k' where "m (k, db) = (Inl e, k', db)" by blast
  then show "\<exists>e k'. io_bind m f (k, db) = (Inl e, k', db)" by (simp add: io_bind_def)
qed

lemma refuses_check: "refuses db m \<Longrightarrow> refuses db (io_check e m)"
  by (cases e) (auto simp: io_check_def refuses_def io_fail_def)

lemma refuses_require: "refuses db m \<Longrightarrow> refuses db (io_require c x m)" "\<not> c \<Longrightarrow> refuses db (io_require c x m)"
  by (auto simp: io_require_def refuses_error)

lemma calm_relation: "calm dv \<Longrightarrow> atomic_driver dv \<Longrightarrow> store_relation dv (=)"
  by (simp add: store_relation_def calm_def)

lemma calm_query: "calm dv \<Longrightarrow> io_query dv q (k, db) = (Inr (q db), Suc k, db)"
  by (simp add: io_query_def calm_def)

section \<open>The task and the execution that are read\<close>

lemma stored_task_read:
  assumes "calm dv" "entity_row db ''shared_tasks'' (tci_Key i) = Some row" "decode_task (se_Payload row) = Some t"
    and "stored_task dv i (k, db) = (Inr (row', t'), k', db)"
  shows "row' = row \<and> t' = t"
  using assms unfolding stored_task_def ReadSharedTask_def
  by (auto simp: io_bind_def calm_query io_return_def io_error_def io_fail_def io_check_def split: if_splits option.splits)

lemma completion_records_read:
  assumes "calm dv" "execution_of db (tci_ProjectID i) (tci_Key i) = Some r"
    and "completion_records dv (tci_ProjectID i) (tci_Key i) (k, db) = (Inr (found, phases), k', db)"
  shows "\<exists>s. found = Some s \<and> xs_Status s = xr_status r"
proof (cases "state_of_row r")
  case (Inr s)
  then have "xs_Status s = xr_status r"
    by (auto simp: state_of_row_def Let_def guard_result_def split: option.splits if_splits)
  with assms Inr show ?thesis
    unfolding completion_records_def ReadTaskExecutionState_def local_store_def
    by (auto simp: io_bind_def calm_query io_return_def io_error_def io_fail_def io_value_def split: if_splits prod.splits sum.splits)
next
  case (Inl m)
  with assms show ?thesis
    unfolding completion_records_def ReadTaskExecutionState_def local_store_def
    by (auto simp: io_bind_def calm_query io_error_def io_fail_def io_value_def split: if_splits)
qed

lemma replay_needs_done:
  assumes "xs_Status s \<noteq> ''done''" "tci_Mode i \<noteq> ''non_code''"
  shows "refuses db (taskCompleteReplay dv i t (Some s) phases e)"
proof (cases "decodeStrict contract_fields zero_contract (te_Contract e)")
  case None
  then show ?thesis by (simp add: taskCompleteReplay_def refuses_error)
next
  case (Some stored)
  have no: "\<not> execution_binds i t stored s p" for p using assms(1) by (simp add: execution_binds_def)
  have evidence: "refuses db (case (Some s, phases) of (Some s, [p]) \<Rightarrow>
      io_require (execution_binds i t stored s p) a (g s p) | _ \<Rightarrow> io_error b)" for a b g
    by (cases phases rule: remdups_adj.cases) (use no in \<open>auto intro: refuses_error refuses_require(2)\<close>)
  show ?thesis
    unfolding taskCompleteReplay_def Some option.case if_not_P[OF assms(2)]
    by (rule refuses_check, rule refuses_require(1), rule evidence)
qed

text \<open>
  C40. A completion that was interrupted between its two commits is never repaired: once the task is stored as
  done while its execution is not, every later completion of it in a code mode is refused and changes nothing.
\<close>

theorem completion_stuck:
  assumes "calm dv" "atomic_driver dv"
    and "entity_row db ''shared_tasks'' (tci_Key i) = Some row" "decode_task (se_Payload row) = Some t" "ta_Status t = Done"
    and "tci_Mode i \<noteq> ''non_code''"
    and "execution_of db (tci_ProjectID i) (tci_Key i) = Some r" "xr_status r \<noteq> ''done''"
  shows "\<exists>e k'. TaskComplete fuel dv w ew extract i actor reg (k, db) = (Inl e, k', db)"
proof -
  have rel: "store_relation dv (=)" by (rule calm_relation[OF assms(1,2)])
  have last: "refuses db (io_bind (taskCompleteReplay dv i t found phases e) f)"
    if records: "completion_records dv (tci_ProjectID i) (tci_Key i) (k, db) = (Inr (found, phases), k', db)"
    for found phases e k k' and f :: "TaskCompleteOutput \<Rightarrow> 'a io"
  proof -
    obtain s where "found = Some s" "xs_Status s \<noteq> ''done''"
      using completion_records_read[OF assms(1,7) records] assms(8) by auto
    then show ?thesis using refuses_then[OF replay_needs_done[OF _ assms(6)]] by simp
  qed
  have "refuses db (TaskComplete fuel dv w ew extract i actor reg)"
    unfolding TaskComplete_def
  proof (intro refuses_check refuses_bind_pair refuses_bind store_relation.keeps_requireLocalTaskAuthoring[OF rel]
      store_relation.keeps_stored_task[OF rel] store_relation.keeps_ask[OF rel] store_relation.keeps_if[OF rel]
      store_relation.keeps_world[OF rel] store_relation.keeps_return[OF rel] store_relation.keeps_completion_records[OF rel]
      store_relation.keeps_ReadTaskCompletionEvent[OF rel], goal_cases)
    case (1 _ _ _ row' t' k1 k1' _ _ _ _ _ _ found phases k2 k2' event)
    then have "t' = t" using stored_task_read[OF assms(1,3,4)] by blast
    then show ?case using last[OF 1(5)] assms(5) by (auto simp: refuses_error split: option.split)
  qed
  then show ?thesis by (simp add: refuses_def)
qed

section \<open>A task that is stuck\<close>

definition done_payload :: string where
  "done_payload = json_object (map (apsnd flat_text) [(''id'', Flat_string ''AAA-TSK1''), (''status'', Flat_string ''done'')])"

definition stuck_db :: shared_db where
  "stuck_db = empty_db\<lparr>sd_tables := (\<lambda>_. [])(''shared_tasks'' := [\<lparr>se_ID = ''AAA-TSK1'', se_Revision = 1,
     se_Payload = done_payload, se_UpdatedAt = ''2024-01-01T00:00:00Z''\<rparr>]),
   sd_local := \<lparr>lo_states = [row_of_state (sample_execution ''integrated'' 7 candidate_commit)], lo_phases = [],
     lo_verifications = [], lo_captured = Map.empty\<rparr>\<rparr>"

definition completion_input :: TaskCompleteInput where
  "completion_input = \<lparr>tci_ProjectID = ''example'', tci_Key = ''AAA-TSK1'', tci_Mode = ''integrated'',
     tci_Reason = ''delivered'', tci_Review = ''accepted''\<rparr>"

lemma done_task: "decode_task done_payload = Some (zero_TaskAuthoring\<lparr>ta_ID := ''AAA-TSK1'', ta_Status := ''done''\<rparr>)"
proof -
  have members: "\<forall>(k, v) \<in> set [(''id'', Flat_string ''AAA-TSK1''), (''status'', Flat_string ''done'')]. plain k \<and> flat_plain v"
    by (simp add: plain_def plain_char_def byte_def)
  show ?thesis
    unfolding decode_task_def done_payload_def json_Unmarshal_flat[OF list.distinct(2) members]
    using members by (simp add: unquote_plain struct_field_def task_fields_def dec_string_def)
qed

theorem completion_stuck_witness:
  "\<forall>fuel w ew actor reg k. \<exists>e k'.
     TaskComplete fuel (sqlite ''t'') w ew member_of completion_input actor reg (k, stuck_db) = (Inl e, k', stuck_db)"
proof (intro allI)
  fix fuel w ew actor reg k
  have run: "execution_of stuck_db ''example'' ''AAA-TSK1'' = Some (row_of_state (sample_execution ''integrated'' 7 candidate_commit))"
    by (simp add: execution_of_def stuck_db_def empty_db_def locally_retired_def row_of_state_def sample_execution_def)
  moreover have "entity_row stuck_db ''shared_tasks'' ''AAA-TSK1'' = Some \<lparr>se_ID = ''AAA-TSK1'', se_Revision = 1,
      se_Payload = done_payload, se_UpdatedAt = ''2024-01-01T00:00:00Z''\<rparr>"
    by (simp add: entity_row_def stuck_db_def)
  ultimately show "\<exists>e k'. TaskComplete fuel (sqlite ''t'') w ew member_of completion_input actor reg (k, stuck_db) =
      (Inl e, k', stuck_db)"
    by (intro completion_stuck[OF calm_sqlite sqlite_atomic, where db = stuck_db and i = completion_input
        and r = "row_of_state (sample_execution ''integrated'' 7 candidate_commit)"
        and row = "\<lparr>se_ID = ''AAA-TSK1'', se_Revision = 1, se_Payload = done_payload,
          se_UpdatedAt = ''2024-01-01T00:00:00Z''\<rparr>"
        and t = "zero_TaskAuthoring\<lparr>ta_ID := ''AAA-TSK1'', ta_Status := ''done''\<rparr>"])
      (simp_all add: completion_input_def done_task row_of_state_def sample_execution_def)
qed

end
