(* ===== verification/Track_Properties.thy ===== *)
theory Track_Properties
  imports Planning_Reads Relation_Properties Completion_Properties
begin

text \<open>
  Properties of the services on milestones and tracks when nobody else writes: what a success implies, and the two
  operations that the lifecycle registry always rejects.
\<close>

section \<open>Operations that always fail\<close>

lemma refuses_checked: "(e = None \<Longrightarrow> refuses db m) \<Longrightarrow> refuses db (io_check e m)"
  using refuses_error by (cases e) (auto simp: io_check_def)

lemma refuses_event:
  assumes "sharedLifecycle (eq_EntityType rq) = Some d" "ld_ArchiveStatus d = ''archived''"
    and "eq_EventKind rq = ''status''" "eq_ToStatus rq = ''archived''"
  shows "refuses db (CommitSharedLifecycleEvent dv rq)"
proof -
  have "validateSharedLifecycleEventKind d (eq_EventKind rq) (eq_ToStatus rq) \<noteq> None"
    using assms by (simp add: validateSharedLifecycleEventKind_def)
  then have "event_checks d rq \<noteq> None"
    unfolding event_checks_def Let_def first_error_Cons_None by blast
  then show ?thesis
    using assms by (auto simp: CommitSharedLifecycleEvent_def Let_def intro!: refuses_error refuses_checked)
qed

lemma archived_registry:
  "\<exists>d. sharedLifecycle ''track'' = Some d \<and> ld_ArchiveStatus d = ''archived''"
  "\<exists>d. sharedLifecycle ''rule'' = Some d \<and> ld_ArchiveStatus d = ''archived''"
  by (simp_all add: sharedLifecycle_def sharedLifecycleRegistry_def)

section \<open>What acceptance and completion rest on\<close>

text \<open>What a snapshot pins is stored.\<close>

definition pinned :: "shared_db \<Rightarrow> TrackTaskSnapshot \<Rightarrow> bool" where
  "pinned db x \<longleftrightarrow> (\<exists>row t. entity_row db ''shared_tasks'' (tt_Key x) = Some row \<and> decode_task (se_Payload row) = Some t
     \<and> ta_Revision t = tt_Revision x \<and> ta_RevisionSHA256 t = tt_RevisionSHA256 x)"

text \<open>What an acceptance rests on: a pending review that pins what is stored now.\<close>

definition review_pinned :: "world \<Rightarrow> shared_db \<Rightarrow> string \<Rightarrow> string \<Rightarrow> bool" where
  "review_pinned w db projectID key \<longleftrightarrow> (\<exists>row v r j project. entity_row db ''shared_tracks'' key = Some row
     \<and> decode_track (se_Payload row) = Some v \<and> tk_ProjectID v = projectID \<and> tk_Status v = ''review_pending''
     \<and> tk_Review v = Some r \<and> tr_TrackRevision r = tk_Revision v \<and> map tt_Key (tr_Tasks r) = elems (tk_Tasks v)
     \<and> (\<forall>x \<in> set (tr_Tasks r). pinned db x) \<and> g_RefreshDefaultBranch (w_git w) j project = Inr (tr_Head r))"

text \<open>A member that counts as done: its task is, and no execution of it says otherwise.\<close>

definition finished_member :: "shared_db \<Rightarrow> string \<Rightarrow> string \<Rightarrow> bool" where
  "finished_member db projectID t \<longleftrightarrow>
     (\<exists>row v. entity_row db ''shared_tasks'' t = Some row \<and> decode_task (se_Payload row) = Some v \<and> ta_Status v = ''done'')
     \<and> (\<forall>r. execution_of db projectID t = Some r \<longrightarrow> xr_status r = ''done'')"

text \<open>What the completion of a milestone rests on; only the first 256 tracks of the project count.\<close>

definition completable :: "(string \<Rightarrow> string \<Rightarrow> string option) \<Rightarrow> shared_db \<Rightarrow> string \<Rightarrow> string \<Rightarrow> bool" where
  "completable extract db projectID key \<longleftrightarrow> (\<exists>row m. entity_row db ''shared_milestones'' key = Some row
     \<and> decode_milestone (se_Payload row) = Some m \<and> ms_ID m = key \<and> ms_ProjectID m = projectID \<and> ms_Status m = ''active''
     \<and> elems (ms_Tasks m) \<noteq> [] \<and> (\<forall>t \<in> set (elems (ms_Tasks m)). finished_member db projectID t)
     \<and> (\<forall>r \<in> set (take 256 (project_tracks extract projectID db)). \<exists>v. decode_track (se_Payload r) = Some v
         \<and> (tk_Milestone v = key \<and> set (elems (tk_Tasks v)) \<inter> set (elems (ms_Tasks m)) \<noteq> {}
            \<longrightarrow> \<not> nonterminal_track_status (tk_Status v))))"

section \<open>A gateway of its own\<close>

locale lone_store = store_relation dv "(=)" for dv
begin

lemma alone: "dv_others dv k db = db"
  using others [of db k] by simp

lemma run_same: "keeps (=) m \<Longrightarrow> m (k, db) = (r, k', db') \<Longrightarrow> db' = db"
  unfolding keeps_def by metis

lemma ReadSharedEntity_Inr:
  assumes "ReadSharedEntity dv et i (k, db) = (Inr row, s')" "projection_table et = Some t"
  shows "entity_row db t i = Some row \<and> snd s' = db"
  using assms alone
  by (auto simp: ReadSharedEntity_def io_bind_Inr io_query_Inr io_simps io_check_Inr Let_def
      split: option.splits if_splits sum.splits)

lemma run_bind_Inr:
  assumes "keeps (=) m" "io_bind m f (k, db) = (Inr y, s')"
  shows "\<exists>x j. m (k, db) = (Inr x, j, db) \<and> f x (j, db) = (Inr y, s')"
proof -
  obtain x t where x: "m (k, db) = (Inr x, t)" "f x t = (Inr y, s')" using assms(2) by (auto simp: io_bind_Inr)
  then have "snd t = db" using run_same [OF assms(1), of k db "Inr x" "fst t" "snd t"] by simp
  then show ?thesis using x by (cases t) auto
qed

lemma trackReadStored_Inr:
  assumes "trackReadStored dv projectID key 0 (k, db) = (Inr v, s')"
  shows "\<exists>row. entity_row db ''shared_tracks'' key = Some row \<and> decode_track (se_Payload row) = Some v \<and> tk_ID v = key
    \<and> tk_ProjectID v = projectID \<and> ValidateTrack v = None \<and> snd s' = db"
proof -
  have "projection_table ''track'' = Some ''shared_tracks''" by (simp add: projection_table_def sharedProjectionTables_def)
  then show ?thesis
    using assms
    by (auto simp: trackReadStored_def io_bind_Inr io_simps io_check_Inr io_require_def split: option.splits if_splits
        dest!: ReadSharedEntity_Inr)
qed

lemma track_for_change_Inr:
  assumes "track_for_change dv w projectID key (k, db) = (Inr (stored, current), s')"
  shows "\<exists>row status j. entity_row db ''shared_tracks'' key = Some row \<and> decode_track (se_Payload row) = Some stored
    \<and> tk_ID stored = key \<and> tk_ProjectID stored = projectID \<and> ValidateTrack stored = None
    \<and> current = stored\<lparr>tk_Status := status\<rparr> \<and> deriveTrackStatus dv w stored (j, db) = (Inr status, s')"
proof -
  obtain j where stored: "trackReadStored dv projectID key 0 (k, db) = (Inr stored, j, db)"
    and current: "TrackLifecycleRead dv w projectID key 0 (j, db) = (Inr current, s')"
    using run_bind_Inr [OF keeps_trackReadStored assms [unfolded track_for_change_def]]
    by (auto simp: io_bind_Inr io_simps)
  obtain j1 where "io_bind (trackReadStored dv projectID key 0) (\<lambda>stored. if (0 :: int) \<noteq> 0 then io_return stored
      else io_bind (deriveTrackStatus dv w stored) (\<lambda>status. io_return (stored\<lparr>tk_Status := status\<rparr>))) (j1, db) = (Inr current, s')"
    using run_bind_Inr [OF keeps_requireLocalTaskAuthoring current [unfolded TrackLifecycleRead_def]] by blast
  from run_bind_Inr [OF keeps_trackReadStored this] obtain again j2 where
    again: "trackReadStored dv projectID key 0 (j1, db) = (Inr again, j2, db)"
    and "io_bind (deriveTrackStatus dv w again) (\<lambda>status. io_return (again\<lparr>tk_Status := status\<rparr>)) (j2, db) = (Inr current, s')"
    by auto
  then obtain status where status: "deriveTrackStatus dv w again (j2, db) = (Inr status, s')" "current = again\<lparr>tk_Status := status\<rparr>"
    unfolding io_bind_Inr io_simps by blast
  have "again = stored" using trackReadStored_Inr [OF stored] trackReadStored_Inr [OF again] by (metis option.inject)
  then show ?thesis using trackReadStored_Inr [OF stored] status by blast
qed

lemma archived_stays:
  "tk_Status v = ''archived'' \<Longrightarrow> deriveTrackStatus dv w v s = (Inr status, s') \<Longrightarrow> status = ''archived''"
  by (simp add: deriveTrackStatus_def io_simps)

lemma refuses_commitTrack:
  assumes "tk_Status previous \<noteq> ''archived''" "tk_Status new = ''archived''"
  shows "refuses db (commitTrack dv previous new kind actor reason changed)"
proof -
  obtain d where d: "sharedLifecycle ''track'' = Some d" "ld_ArchiveStatus d = ''archived''" using archived_registry(1) by blast
  have "refuses db (CommitSharedLifecycleEvent dv (track_event op row previous new payload kind actor reason changed))"
    for op row payload
    by (rule refuses_event [OF _ d(2)]) (use d assms in \<open>simp_all add: track_event_def\<close>)
  then show ?thesis
    unfolding commitTrack_def Let_def using assms
    by (intro refuses_bind [OF keeps_value] refuses_bind [OF keeps_ReadSharedEntity]) (auto intro: refuses_then)
qed

lemma track_archive_refused: "refuses db (TrackLifecycleArchive dv w projectID key actor reason)"
proof -
  let ?new = "\<lambda>stored now. stored\<lparr>tk_Status := ''archived'', tk_UpdatedBy := actor,
    tk_UpdatedAt := later_than (tk_UpdatedAt stored) (to_utc now)\<rparr>"
  have "refuses db (io_check (fail_if (tk_Status current \<noteq> ''accepted'' \<and> tk_Status current \<noteq> ''cancelled'') m)
      (io_bind (io_now dv w) (\<lambda>now. io_bind (commitTrackEvent dv stored (?new stored now) ''track-archive'' actor reason
         [''status'']) (\<lambda>_. io_return (?new stored now)))))"
    if "track_for_change dv w projectID key s = (Inr (stored, current), s')" for m stored current s s'
  proof (rule refuses_checked)
    assume ok: "fail_if (tk_Status current \<noteq> ''accepted'' \<and> tk_Status current \<noteq> ''cancelled'') m = None"
    have "tk_Status stored \<noteq> ''archived''"
      using track_for_change_Inr [of w projectID key "fst s" "snd s" stored current s'] that ok archived_stays by fastforce
    then have "refuses db (commitTrack dv stored (?new stored now) ''track-archive'' actor reason [''status''])" for now
      by (rule refuses_commitTrack) simp
    then show "refuses db (io_bind (io_now dv w) (\<lambda>now. io_bind (commitTrackEvent dv stored (?new stored now) ''track-archive''
        actor reason [''status'']) (\<lambda>_. io_return (?new stored now))))"
      unfolding commitTrackEvent_def by (intro refuses_bind [OF keeps_world(3)] refuses_then refuses_checked)
  qed
  then show ?thesis
    unfolding TrackLifecycleArchive_def Let_def
    by (intro refuses_bind [OF keeps_requireLocalTaskAuthoring] refuses_checked refuses_bind [OF keeps_track_for_change])
      (auto split: prod.split)
qed

lemma refuses_rule_update:
  assumes "rui_Status i = Some ''archived''" "ru_Status previous \<noteq> ''archived''"
  shows "refuses db (commit_rule_update dv w i key row previous (updated_rule i previous now))"
proof -
  obtain d where d: "sharedLifecycle ''rule'' = Some d" "ld_ArchiveStatus d = ''archived''" using archived_registry(2) by blast
  have status: "ru_Status (updated_rule i previous now) = ''archived''"
    using assms(1) by (simp add: updated_rule_def Let_def patched_rule_def patched_def)
  have "refuses db (CommitSharedLifecycleEvent dv (rule_event op p k kind ''status'' historyKind e row previous
      (updated_rule i previous now) payload changed))" for op p k kind historyKind e payload changed
    by (rule refuses_event [OF _ d(2)]) (use d status in \<open>simp_all add: rule_event_def\<close>)
  then show ?thesis
    unfolding commit_rule_update_def using assms(2) status
    by (intro refuses_checked refuses_bind [OF keeps_value]) (auto intro!: refuses_then)
qed

lemma rule_update_refused:
  assumes archived: "rui_Status i = Some ''archived''"
  shows "refuses db (RuleUpdate dv w i)"
proof -
  have "patched_rule i v \<noteq> v" if "ru_Status v \<noteq> ''archived''" for v
  proof
    assume "patched_rule i v = v"
    then have "ru_Status (patched_rule i v) = ru_Status v" by simp
    then show False using that archived by (simp add: patched_rule_def patched_def)
  qed
  then show ?thesis
    unfolding RuleUpdate_def
    by (auto intro!: refuses_checked refuses_bind [OF keeps_requireLocalTaskAuthoring] refuses_bind [OF keeps_rule_for_change]
        refuses_bind [OF keeps_world(3)] refuses_rule_update [OF archived] refuses_error split: sum.split prod.split)
qed

lemma readSharedTask_Inr:
  assumes "readSharedTask dv projectID i (k, db) = (Inr v, s')"
  shows "\<exists>row t. entity_row db ''shared_tasks'' i = Some row \<and> decode_task (se_Payload row) = Some t \<and> ta_ID t = i
    \<and> v = DefaultTaskType_of t \<and> snd s' = db"
  using assms alone
  by (auto simp: readSharedTask_def ReadSharedTask_def io_bind_Inr io_query_Inr io_simps io_check_Inr io_require_def
      split: option.splits if_splits)

lemma snapshot_tasks_Inr:
  "snapshot_tasks dv projectID ts (k, db) = (Inr xs, s') \<Longrightarrow> map tt_Key xs = ts \<and> (\<forall>x \<in> set xs. pinned db x)"
proof (induction ts arbitrary: k xs s')
  case (Cons t ts)
  obtain v j where v: "readSharedTask dv projectID t (k, db) = (Inr v, j, db)"
    and rest: "io_bind (snapshot_tasks dv projectID ts) (\<lambda>rest. io_return
      (\<lparr>tt_Key = ta_ID v, tt_Revision = ta_Revision v, tt_RevisionSHA256 = ta_RevisionSHA256 v\<rparr> # rest)) (j, db) = (Inr xs, s')"
    using run_bind_Inr [OF keeps_readSharedTask Cons.prems [unfolded snapshot_tasks.simps]] by blast
  then obtain ys s'' where ys: "snapshot_tasks dv projectID ts (j, db) = (Inr ys, s'')"
    "xs = \<lparr>tt_Key = ta_ID v, tt_Revision = ta_Revision v, tt_RevisionSHA256 = ta_RevisionSHA256 v\<rparr> # ys"
    unfolding io_bind_Inr io_simps by blast
  then show ?case
    using Cons.IH [OF ys(1)] readSharedTask_Inr [OF v] by (auto simp: pinned_def DefaultTaskType_of_def)
qed (auto simp: io_simps)

lemma trackSnapshot_Inr:
  assumes "trackSnapshot dv w v (k, db) = (Inr r, s')"
  shows "\<exists>project j. g_RefreshDefaultBranch (w_git w) j project = Inr (tr_Head r) \<and> tr_TrackRevision r = tk_Revision v
    \<and> map tt_Key (tr_Tasks r) = elems (tk_Tasks v) \<and> (\<forall>x \<in> set (tr_Tasks r). pinned db x)"
proof -
  obtain project j where 1: "io_bind (io_ask dv (\<lambda>k. g_RefreshDefaultBranch (w_git w) k project)) (\<lambda>head.
      io_bind (io_ask dv (\<lambda>k. g_CommitTree (w_git w) k project head)) (\<lambda>tree.
      io_bind (snapshot_tasks dv (tk_ProjectID v) (elems (tk_Tasks v))) (\<lambda>tasks.
        io_return \<lparr>tr_Head = head, tr_Tree = tree, tr_Digest = sha256_hex (snapshot_text head tree (tk_Revision v) tasks),
          tr_TrackRevision = tk_Revision v, tr_Tasks = tasks, tr_SubmittedAt = zero_time, tr_SubmittedBy = []\<rparr>))) (j, db)
      = (Inr r, s')"
    using run_bind_Inr [OF keeps_project_of assms [unfolded trackSnapshot_def]] by blast
  then obtain head j2 where head: "io_ask dv (\<lambda>k. g_RefreshDefaultBranch (w_git w) k project) (j, db) = (Inr head, j2, db)"
    and 2: "io_bind (io_ask dv (\<lambda>k. g_CommitTree (w_git w) k project head)) (\<lambda>tree.
      io_bind (snapshot_tasks dv (tk_ProjectID v) (elems (tk_Tasks v))) (\<lambda>tasks.
        io_return \<lparr>tr_Head = head, tr_Tree = tree, tr_Digest = sha256_hex (snapshot_text head tree (tk_Revision v) tasks),
          tr_TrackRevision = tk_Revision v, tr_Tasks = tasks, tr_SubmittedAt = zero_time, tr_SubmittedBy = []\<rparr>)) (j2, db)
      = (Inr r, s')"
    using run_bind_Inr [OF keeps_ask 1] by blast
  obtain tree j3 where 3: "io_bind (snapshot_tasks dv (tk_ProjectID v) (elems (tk_Tasks v))) (\<lambda>tasks.
        io_return \<lparr>tr_Head = head, tr_Tree = tree, tr_Digest = sha256_hex (snapshot_text head tree (tk_Revision v) tasks),
          tr_TrackRevision = tk_Revision v, tr_Tasks = tasks, tr_SubmittedAt = zero_time, tr_SubmittedBy = []\<rparr>) (j3, db)
      = (Inr r, s')"
    using run_bind_Inr [OF keeps_ask 2] by blast
  obtain tasks j4 where tasks: "snapshot_tasks dv (tk_ProjectID v) (elems (tk_Tasks v)) (j3, db) = (Inr tasks, j4, db)"
    and r: "r = \<lparr>tr_Head = head, tr_Tree = tree, tr_Digest = sha256_hex (snapshot_text head tree (tk_Revision v) tasks),
          tr_TrackRevision = tk_Revision v, tr_Tasks = tasks, tr_SubmittedAt = zero_time, tr_SubmittedBy = []\<rparr>"
    using run_bind_Inr [OF keeps_snapshot_tasks 3] unfolding io_simps by blast
  have "g_RefreshDefaultBranch (w_git w) j project = Inr head"
    using head by (cases "g_RefreshDefaultBranch (w_git w) j project") (auto simp: io_ask_def)
  then show ?thesis using snapshot_tasks_Inr [OF tasks] r by auto
qed

lemma trackReviewIsFresh_Inr:
  assumes "trackReviewIsFresh dv w v (k, db) = (Inr True, s')"
  shows "\<exists>r j project. tk_Review v = Some r \<and> tr_TrackRevision r = tk_Revision v \<and> map tt_Key (tr_Tasks r) = elems (tk_Tasks v)
    \<and> (\<forall>x \<in> set (tr_Tasks r). pinned db x) \<and> g_RefreshDefaultBranch (w_git w) j project = Inr (tr_Head r)"
proof (cases "tk_Review v")
  case None
  then show ?thesis using assms by (simp add: trackReviewIsFresh_def io_simps)
next
  case (Some r)
  then obtain c s where c: "trackSnapshot dv w v (k, db) = (Inr c, s)" and same: "same_snapshot c r"
    using assms by (auto simp: trackReviewIsFresh_def io_bind_Inr io_simps)
  then show ?thesis using Some trackSnapshot_Inr [OF c] by (auto simp: same_snapshot_def)
qed

lemma pending_derived:
  assumes "deriveTrackStatus dv w v s = (Inr ''review_pending'', s')"
  shows "tk_Status v = ''review_pending''"
  using assms unfolding deriveTrackStatus_def
  by (auto simp: trackStatusFromTasks_def io_bind_Inr io_simps split: if_splits)

lemma accept_needs_review:
  assumes "\<not> review_pinned w db projectID key"
  shows "refuses db (TrackLifecycleAccept dv w projectID key actor)"
proof -
  have "\<not> (tk_Status current = ''review_pending'' \<and> trackReviewIsFresh dv w stored (k, db) = (Inr True, s))"
    if change: "track_for_change dv w projectID key (j, db) = (Inr (stored, current), s')" for stored current j s' k s
  proof
    assume a: "tk_Status current = ''review_pending'' \<and> trackReviewIsFresh dv w stored (k, db) = (Inr True, s)"
    obtain row status i where stored: "entity_row db ''shared_tracks'' key = Some row" "decode_track (se_Payload row) = Some stored"
        "tk_ProjectID stored = projectID" and current: "current = stored\<lparr>tk_Status := status\<rparr>"
        "deriveTrackStatus dv w stored (i, db) = (Inr status, s')"
      using track_for_change_Inr [OF change] by blast
    have "status = ''review_pending''" using a current(1) by simp
    then have "tk_Status stored = ''review_pending''"
      using current(2) pending_derived by blast
    then show False
      using assms stored trackReviewIsFresh_Inr [of w stored k db s] a unfolding review_pinned_def by blast
  qed
  then have last: "refuses db (io_bind (trackReviewIsFresh dv w stored) (\<lambda>fresh. io_require fresh m (f fresh)))"
    if "track_for_change dv w projectID key (j, db) = (Inr (stored, current), s')" "tk_Status current = ''review_pending''"
    for stored current j s' m and f :: "bool \<Rightarrow> (Track \<times> TrackView) io"
    using that by (intro refuses_bind [OF keeps_trackReviewIsFresh]) (metis (full_types) refuses_require(2))
  show ?thesis
    unfolding TrackLifecycleAccept_def Let_def
    by (intro refuses_bind [OF keeps_requireLocalTaskAuthoring] refuses_check refuses_bind_pair [OF keeps_track_for_change]
        refuses_checked last) auto
qed

lemma stored_milestone_Inr:
  assumes "MilestoneLifecycleRead dv w projectID key 0 (k, db) = (Inr m, s')"
  shows "\<exists>row. entity_row db ''shared_milestones'' key = Some row \<and> decode_milestone (se_Payload row) = Some m
    \<and> ms_ID m = key \<and> ms_ProjectID m = projectID"
proof -
  have t: "projection_table ''milestone'' = Some ''shared_milestones''"
    by (simp add: projection_table_def sharedProjectionTables_def)
  obtain j where "io_bind (io_bind (ReadSharedEntity dv ''milestone'' key) (\<lambda>row. io_return (se_Payload row)))
      (stored_milestone projectID key) (j, db) = (Inr m, s')"
    using run_bind_Inr [OF keeps_requireLocalTaskAuthoring assms [unfolded MilestoneLifecycleRead_def]] by auto
  then show ?thesis
    by (auto simp: stored_milestone_def io_bind_Inr io_simps io_check_Inr io_require_def split: option.splits if_splits
        dest!: ReadSharedEntity_Inr [OF _ t])
qed

lemma readAnySharedTask_Inr:
  assumes "readAnySharedTask dv w t (k, db) = (Inr v, s')"
  shows "\<exists>row v'. entity_row db ''shared_tasks'' t = Some row \<and> decode_task (se_Payload row) = Some v' \<and> ta_Status v' = ta_Status v"
proof -
  have "keeps (=) (ReadSharedTask dv t)" by (rule keeps_ReadSharedTask)
  from run_bind_Inr [OF this assms [unfolded readAnySharedTask_def]] obtain row j where
    "ReadSharedTask dv t (k, db) = (Inr row, j, db)"
    and "(case decode_task (se_Payload row) of None \<Rightarrow> io_error (''decode shared task '' @ t)
       | Some v \<Rightarrow> io_require (ta_ID v = t) ''shared task identity mismatch''
           (io_bind (requireLocalTaskAuthoring dv w (ta_ProjectID v)) (\<lambda>_.
             io_check (ValidateTaskAuthoring v) (io_return (DefaultTaskType_of v))))) (j, db) = (Inr v, s')"
    by auto
  then show ?thesis
    using alone
    by (auto simp: ReadSharedTask_def io_bind_Inr io_query_Inr io_simps io_check_Inr io_require_def DefaultTaskType_of_def
        split: option.splits if_splits)
qed

lemma ReadTaskExecutionState_Inr:
  assumes "ReadTaskExecutionState dv projectID t (k, db) = (Inr found, s')" "execution_of db projectID t = Some r"
  shows "\<exists>s. found = Some s \<and> xs_Status s = xr_status r"
proof (cases "state_of_row r")
  case (Inl m)
  then show ?thesis
    using assms alone
    by (auto simp: ReadTaskExecutionState_def local_store_def io_bind_Inr io_query_Inr io_simps io_value_def split: if_splits)
next
  case (Inr s)
  then have "xs_Status s = xr_status r"
    by (auto simp: state_of_row_def Let_def guard_result_def split: option.splits if_splits)
  then show ?thesis
    using Inr assms alone
    by (auto simp: ReadTaskExecutionState_def local_store_def io_bind_Inr io_query_Inr io_simps io_value_def split: if_splits)
qed

lemma wrap_Inr: "io_wrap p m s = (Inr x, s') \<Longrightarrow> m s = (Inr x, s')"
  by (auto simp: io_wrap_def io_bind_def io_try_def io_simps split: prod.splits sum.splits store_error.splits)

lemma tasks_done_Inr:
  "tasks_done dv w m ts (k, db) = (Inr u, s') \<Longrightarrow> \<forall>t \<in> set ts. finished_member db (ms_ProjectID m) t"
proof (induction ts arbitrary: k)
  case (Cons t ts)
  let ?done = "\<lambda>v found. case found of Some s \<Rightarrow> if xs_Status s \<noteq> ''done'' then xs_Status s else ta_Status v | None \<Rightarrow> ta_Status v"
  let ?rest = "\<lambda>v found. io_check (fail_if (?done v found \<noteq> ''done'')
     (''milestone '' @ go_quote (ms_ID m) @ '' cannot complete: Task '' @ go_quote t @ '' has status '' @ go_quote (?done v found)))
     (tasks_done dv w m ts)"
  obtain v j where v: "io_wrap (''milestone task '' @ go_quote t @ '' cannot be resolved: '') (readAnySharedTask dv w t) (k, db) =
      (Inr v, j, db)"
    and read: "io_bind (ReadTaskExecutionState dv (ms_ProjectID m) t) (?rest v) (j, db) = (Inr u, s')"
    using run_bind_Inr [OF keeps_wrap [OF keeps_readAnySharedTask] Cons.prems [unfolded tasks_done.simps Let_def]] by blast
  from run_bind_Inr [OF keeps_ReadTaskExecutionState read] obtain found i where found: "ReadTaskExecutionState dv (ms_ProjectID m) t (j, db) = (Inr found, i, db)"
    and rest: "?rest v found (i, db) = (Inr u, s')"
    by blast
  then have fin: "?done v found = ''done''" and more: "tasks_done dv w m ts (i, db) = (Inr u, s')"
    by (auto simp: io_check_Inr)
  have "finished_member db (ms_ProjectID m) t"
    unfolding finished_member_def
  proof (intro conjI allI impI)
    have "ta_Status v = ''done''" using fin by (cases found) (auto split: if_splits)
    then show "\<exists>row v. entity_row db ''shared_tasks'' t = Some row \<and> decode_task (se_Payload row) = Some v \<and> ta_Status v = ''done''"
      using readAnySharedTask_Inr [OF wrap_Inr [OF v]] by metis
    show "xr_status r = ''done''" if "execution_of db (ms_ProjectID m) t = Some r" for r
      using ReadTaskExecutionState_Inr [OF found that] fin by (auto split: if_splits)
  qed
  then show ?case using Cons.IH [OF more] by simp
qed simp

lemma tracks_terminal_None:
  "milestone_tracks_terminal key members rows = None \<longleftrightarrow> (\<forall>r \<in> set rows. \<exists>v. decode_track (se_Payload r) = Some v
     \<and> (tk_Milestone v = key \<and> set (elems (tk_Tasks v)) \<inter> set members \<noteq> {} \<longrightarrow> \<not> nonterminal_track_status (tk_Status v)))"
  by (induction rows) (auto split: option.splits)

lemma first_tracks: "qp_Entities (fst (query_page (track_query projectID []) (take 257 rows) reg)) = take 256 rows"
proof (cases "256 < length rows")
  case True
  show ?thesis unfolding page_more [OF True] Let_def by simp
next
  case False
  then have "length rows \<le> 256" by simp
  from page_final [OF this] show ?thesis using False by simp
qed

lemma completion_refused:
  assumes calm: "calm dv" and project: "projectID \<noteq> []" and mdi: "mdi_ProjectID i = projectID"
    and no: "\<not> completable extract db projectID (mdi_Key i)"
  shows "refuses db (MilestoneLifecycleComplete dv w extract i reg)"
proof -
  have "\<not> (requireMilestoneHasNoNonterminalTracks dv w extract projectID (ms_ID m) reg (k1, db) = (Inr reg', k2, db)
      \<and> requireMilestoneTasksDone dv w m (k3, db) = (Inr u, s2) \<and> ms_Status m = ''active'')"
    if m: "MilestoneLifecycleRead dv w projectID (mdi_Key i) 0 (k, db) = (Inr m, s)" for m k s k1 k2 k3 reg' u s2
  proof (intro notI, elim conjE)
    assume tracks: "requireMilestoneHasNoNonterminalTracks dv w extract projectID (ms_ID m) reg (k1, db) = (Inr reg', k2, db)"
      and tasks: "requireMilestoneTasksDone dv w m (k3, db) = (Inr u, s2)" and active: "ms_Status m = ''active''"
    obtain row where row: "entity_row db ''shared_milestones'' (mdi_Key i) = Some row" "decode_milestone (se_Payload row) = Some m"
      "ms_ID m = mdi_Key i" "ms_ProjectID m = projectID" using stored_milestone_Inr [OF m] by blast
    have members: "elems (ms_Tasks m) \<noteq> []" "\<forall>t \<in> set (elems (ms_Tasks m)). finished_member db projectID t"
      using tasks tasks_done_Inr [of w m "elems (ms_Tasks m)" k3 db u s2] row(4)
      by (auto simp: requireMilestoneTasksDone_def io_check_Inr)
    obtain m' j where again: "MilestoneLifecycleRead dv w projectID (ms_ID m) 0 (k1, db) = (Inr m', j, db)"
      and page: "io_bind (QuerySharedLifecycle dv extract (track_query projectID []) reg) (\<lambda>(page, reg').
        io_check (milestone_tracks_terminal (ms_ID m) (elems (ms_Tasks m')) (qp_Entities page)) (io_return reg')) (j, db) =
        (Inr reg', k2, db)"
      using run_bind_Inr [OF keeps_MilestoneLifecycleRead tracks [unfolded requireMilestoneHasNoNonterminalTracks_def]] by blast
    have "m' = m" using stored_milestone_Inr [OF again] row by auto
    moreover have "milestone_tracks_terminal (mdi_Key i) (elems (ms_Tasks m')) (take 256 (project_tracks extract projectID db)) = None"
      using page row(3) first_tracks [of projectID "project_tracks extract projectID db" reg]
      unfolding io_bind_Inr query_tracks [OF calm project, where cursor = "[]" and afterID = "[]", simplified]
      by (auto simp: io_check_Inr split: prod.splits)
    ultimately show False
      using no row members active unfolding completable_def tracks_terminal_None by blast
  qed
  then have last: "refuses db (io_bind (requireMilestoneHasNoNonterminalTracks dv w extract (ms_ProjectID m) (ms_ID m) reg)
      (\<lambda>_. io_bind (requireMilestoneTasksDone dv w m) f))"
    if "MilestoneLifecycleRead dv w projectID (mdi_Key i) 0 (k, db) = (Inr m, k', db)" "ms_Status m = ''active''"
    for m k k' and f :: "unit \<Rightarrow> Milestone io"
    using that stored_milestone_Inr [OF that(1)]
    by (intro refuses_bind [OF keeps_requireMilestoneHasNoNonterminalTracks] refuses_bind [OF keeps_requireMilestoneTasksDone]) blast
  show ?thesis
    unfolding MilestoneLifecycleComplete_def mdi
    by (intro refuses_bind [OF keeps_requireLocalTaskAuthoring] refuses_check refuses_bind [OF keeps_MilestoneLifecycleRead]
        refuses_checked last) auto
qed

end

interpretation sqlite_lone: lone_store "sqlite now" for now
  by unfold_locales (rule sqlite_atomic | simp add: sqlite_def)+


section \<open>What never happens\<close>

lemma lone: "calm dv \<Longrightarrow> atomic_driver dv \<Longrightarrow> lone_store dv"
  by (simp add: lone_store_def calm_relation)

text \<open>
  C24. No track can ever be archived: the archive service asks for a status change to \<open>archived\<close>, and the shared
  lifecycle event refuses every status change to the archive status of its entity.
\<close>

theorem track_archive_impossible:
  assumes "calm dv" "atomic_driver dv"
  shows "\<exists>e k'. TrackLifecycleArchive dv w projectID key actor reason (k, db) = (Inl e, k', db)"
  using lone_store.track_archive_refused [OF lone [OF assms], unfolded refuses_def] by blast

theorem track_archive_impossible_witness:
  "\<forall>w. \<exists>e k'. TrackLifecycleArchive (sqlite ''t'') w ''example'' ''AAA-TRK1'' ''planner'' ''closed'' (0, empty_db) = (Inl e, k', empty_db)"
  by (intro allI track_archive_impossible [OF calm_sqlite sqlite_atomic])

text \<open>
  C26. An update of a rule that sets its status to \<open>archived\<close> always fails and changes nothing, although the update
  prepares the archive metadata.
\<close>

theorem rule_update_never_archives:
  assumes "calm dv" "atomic_driver dv" "rui_Status i = Some ''archived''"
  shows "\<exists>e k'. RuleUpdate dv w i (k, db) = (Inl e, k', db)"
  using lone_store.rule_update_refused [OF lone [OF assms(1,2)] assms(3), unfolded refuses_def] by blast

definition archiving_update :: RuleUpdateInput where
  "archiving_update = \<lparr>rui_ProjectID = ''example'', rui_RuleID = ''AAA-RUL1'', rui_Title = None,
     rui_Summary = None, rui_Value = None, rui_Description = None, rui_Status = Some ''archived'', rui_ExpectedRevision = 1, rui_Reason = ''obsolete'',
     rui_UpdatedBy = ''planner''\<rparr>"

theorem rule_update_never_archives_witness:
  "\<forall>w. \<exists>e k'. RuleUpdate (sqlite ''t'') w archiving_update (0, empty_db) = (Inl e, k', empty_db)"
  by (intro allI rule_update_never_archives [OF calm_sqlite sqlite_atomic]) (simp add: archiving_update_def)



section \<open>Concrete refusals\<close>

text \<open>A track that waits for review without one, and an active milestone whose member runs.\<close>

definition pending_payload :: string where
  "pending_payload = json_object (map (apsnd flat_text)
     [(''project_id'', Flat_string ''example''), (''status'', Flat_string ''review_pending'')])"

definition empty_milestone :: string where
  "empty_milestone = json_object (map (apsnd flat_text) [(''id'', Flat_string ''AAA-MIL1''),
     (''project_id'', Flat_string ''example''), (''status'', Flat_string ''active'')])"

definition planning_db :: shared_db where
  "planning_db = empty_db\<lparr>sd_tables := (\<lambda>_. [])
     (''shared_tracks'' := [\<lparr>se_ID = ''AAA-TRK1'', se_Revision = 1, se_Payload = pending_payload, se_UpdatedAt = ''''\<rparr>],
      ''shared_milestones'' := [\<lparr>se_ID = ''AAA-MIL1'', se_Revision = 1, se_Payload = empty_milestone, se_UpdatedAt = ''''\<rparr>])\<rparr>"

lemma pending_track: "decode_track pending_payload = Some (zero_Track\<lparr>tk_ProjectID := ''example'', tk_Status := ''review_pending''\<rparr>)"
proof -
  have members: "\<forall>(k, v) \<in> set [(''project_id'', Flat_string ''example''), (''status'', Flat_string ''review_pending'')].
      plain k \<and> flat_plain v"
    by (simp add: plain_def plain_char_def byte_def)
  show ?thesis
    unfolding decode_track_def pending_payload_def json_Unmarshal_flat [OF list.distinct(2) members]
    using members by (simp add: unquote_plain struct_field_def track_fields_def dec_string_def)
qed

lemma milestone_without_members: "decode_milestone empty_milestone =
    Some (zero_Milestone\<lparr>ms_ID := ''AAA-MIL1'', ms_ProjectID := ''example'', ms_Status := ''active''\<rparr>)"
proof -
  have members: "\<forall>(k, v) \<in> set [(''id'', Flat_string ''AAA-MIL1''), (''project_id'', Flat_string ''example''),
      (''status'', Flat_string ''active'')]. plain k \<and> flat_plain v"
    by (simp add: plain_def plain_char_def byte_def)
  show ?thesis
    unfolding decode_milestone_def empty_milestone_def json_Unmarshal_flat [OF list.distinct(2) members]
    using members by (simp add: unquote_plain struct_field_def milestone_fields_def dec_string_def)
qed



end
