(* ===== verification/Local_Operations.thy ===== *)
theory Local_Operations
  imports Adr
begin

text \<open>
  The operations of the durable queue in the Local database (\<open>internal/sqlitestore/local_operations.go\<close>): allocation of
  a number and an id for a request, the admission coordinate (session and digest of the input), reads, lists and
  updates. Every access is guarded by the project not being retired locally. Texts that Go's library appends to an error
  are left out.
\<close>

section \<open>Values and their checks\<close>

record LocalOperation =
  lop_OperationID :: string
  lop_ProjectID :: string
  lop_ProjectCode :: string
  lop_OperationNumber :: int
  lop_MutationID :: string
  lop_Kind :: string
  lop_Status :: string
  lop_ResultPayload :: string
  lop_Error :: string
  lop_RecoveryReason :: string
  lop_CreatedAt :: gotime
  lop_UpdatedAt :: gotime
  lop_AdmissionSessionID :: string
  lop_AdmissionInputSHA256 :: string

record LocalOperationTurnSummary =
  lts_OperationID :: string
  lts_ProjectID :: string
  lts_Kind :: string
  lts_Status :: string

text \<open>\<open>hex.DecodeString\<close> takes both cases of the digits.\<close>

definition hex_string :: "string \<Rightarrow> bool" where
  "hex_string s \<longleftrightarrow> even (length s) \<and> list_all json_hex s"

definition validateAdmissionCoordinate :: "string \<Rightarrow> string \<Rightarrow> error" where
  "validateAdmissionCoordinate sessionID inputSHA256 = first_error
     [fail_if (sessionID \<noteq> [] \<and> 128 < length sessionID) ''invalid local operation admission session'',
      fail_if (sessionID \<noteq> [] \<and> nul \<in> set sessionID) ''invalid local operation admission session'',
      fail_if (inputSHA256 \<noteq> [] \<and> length inputSHA256 \<noteq> 64) ''invalid local operation admission input'',
      fail_if (inputSHA256 \<noteq> [] \<and> \<not> hex_string inputSHA256) ''invalid local operation admission input: '',
      fail_if (inputSHA256 = [] \<and> sessionID \<noteq> []) ''invalid local operation admission coordinate'']"

definition validateLocalOperationStatus :: "string \<Rightarrow> error" where
  "validateLocalOperationStatus status =
     fail_if (status \<notin> {''accepted'', ''running'', ''completed'', ''failed'', ''outcome_unknown''})
       (''invalid local operation status '' @ go_quote status)"

definition mutation_identity :: "string \<Rightarrow> string \<Rightarrow> error" where
  "mutation_identity what mutationID = first_error
     [fail_if (length mutationID \<noteq> 64) (''invalid '' @ what @ '' mutation identity''),
      fail_if (\<not> hex_string mutationID) (''invalid '' @ what @ '' mutation identity: '')]"

definition decodeLocalOperation :: "operation_row \<Rightarrow> LocalOperation result" where
  "decodeLocalOperation r =
     (case first_error
        [fail_if (oo_operation_number r < 1) ''invalid local operation number'',
         fail_if (ValidateOperationID (oo_operation_id r) \<noteq> None) ''invalid local operation identifier'',
         fail_if (ValidateProjectIdentifier (oo_project_id r) \<noteq> None) ''invalid local operation project'',
         fail_if (ValidateProjectCode (oo_project_code r) \<noteq> None) ''invalid local operation project code'',
         fail_if (length (oo_mutation_id r) \<noteq> 64) ''invalid local operation mutation'',
         fail_if (oo_kind r = []) ''invalid local operation kind'',
         validateLocalOperationStatus (oo_status r),
         fail_if (parse_rfc3339 (oo_created_at r) = None) ''invalid local operation created_at: '',
         fail_if (parse_rfc3339 (oo_updated_at r) = None) ''invalid local operation updated_at: '',
         validateAdmissionCoordinate (oo_admission_session_id r) (oo_admission_input_sha256 r)] of
        Some m \<Rightarrow> Err m
      | None \<Rightarrow> Ok
          \<lparr>lop_OperationID = oo_operation_id r, lop_ProjectID = oo_project_id r, lop_ProjectCode = oo_project_code r,
           lop_OperationNumber = oo_operation_number r, lop_MutationID = oo_mutation_id r, lop_Kind = oo_kind r,
           lop_Status = oo_status r, lop_ResultPayload = (case oo_result_payload r of None \<Rightarrow> [] | Some p \<Rightarrow> p),
           lop_Error = oo_error r, lop_RecoveryReason = oo_recovery_reason r,
           lop_CreatedAt = the (parse_rfc3339 (oo_created_at r)), lop_UpdatedAt = the (parse_rfc3339 (oo_updated_at r)),
           lop_AdmissionSessionID = oo_admission_session_id r, lop_AdmissionInputSHA256 = oo_admission_input_sha256 r\<rparr>)"

section \<open>Statements\<close>

abbreviation on_queue :: "(queue_db \<Rightarrow> queue_db) \<Rightarrow> shared_db \<Rightarrow> shared_db" where
  "on_queue f db \<equiv> db\<lparr>sd_queue := f (sd_queue db)\<rparr>"

text \<open>\<open>INSERT OR IGNORE\<close>: one sequence per project, with the code of the first allocation.\<close>

definition insert_operation_sequence :: "string \<Rightarrow> string \<Rightarrow> statement" where
  "insert_operation_sequence projectID projectCode db =
     (if qd_numbers (sd_queue db) projectID \<noteq> None then Some (db, 0)
      else Some (on_queue (\<lambda>q. q\<lparr>qd_numbers := (qd_numbers q)(projectID \<mapsto> (projectCode, 1))\<rparr>) db, 1))"

definition operation_id :: "string \<Rightarrow> int \<Rightarrow> string" where
  "operation_id projectCode n = projectCode @ ''-OPR'' @ dec_int n"

text \<open>The id is a primary key and the mutation is unique.\<close>

definition insert_operation :: "operation_row \<Rightarrow> statement" where
  "insert_operation r db =
     (if list_ex (\<lambda>old. oo_operation_id old = oo_operation_id r \<or> oo_mutation_id old = oo_mutation_id r)
           (qd_operations (sd_queue db))
      then None
      else Some (on_queue (\<lambda>q. q\<lparr>qd_operations := qd_operations q @ [r]\<rparr>) db, 1))"

definition accepted_row ::
  "string \<Rightarrow> string \<Rightarrow> string \<Rightarrow> int \<Rightarrow> string \<Rightarrow> string \<Rightarrow> string \<Rightarrow> string \<Rightarrow> string \<Rightarrow> operation_row" where
  "accepted_row ident projectID projectCode n mutationID kind at sessionID inputSHA256 =
     \<lparr>oo_operation_id = ident, oo_project_id = projectID, oo_project_code = projectCode, oo_operation_number = n,
      oo_mutation_id = mutationID, oo_kind = kind, oo_status = ''accepted'', oo_result_payload = None, oo_error = [],
      oo_recovery_reason = [], oo_created_at = at, oo_updated_at = at, oo_admission_session_id = sessionID,
      oo_admission_input_sha256 = inputSHA256\<rparr>"

definition insert_numbered_operation ::
  "string \<Rightarrow> string \<Rightarrow> string \<Rightarrow> string \<Rightarrow> string \<Rightarrow> string \<Rightarrow> string \<Rightarrow> statement" where
  "insert_numbered_operation projectID projectCode mutationID kind at sessionID inputSHA256 db =
     (case qd_numbers (sd_queue db) projectID of
        None \<Rightarrow> Some (db, 0)
      | Some (code, n) \<Rightarrow>
          if code \<noteq> projectCode \<or> locally_retired db projectID then Some (db, 0)
          else insert_operation (accepted_row (operation_id code n) projectID code n mutationID kind at sessionID inputSHA256) db)"

text \<open>The column has a check for the greatest safe integer.\<close>

definition advance_operation_sequence :: "(shared_db \<Rightarrow> bool) \<Rightarrow> string \<Rightarrow> string \<Rightarrow> statement" where
  "advance_operation_sequence cond projectID projectCode db =
     (case qd_numbers (sd_queue db) projectID of
        None \<Rightarrow> Some (db, 0)
      | Some (code, n) \<Rightarrow>
          if code \<noteq> projectCode \<or> \<not> cond db then Some (db, 0)
          else if n + 1 > int MaxSafeInteger then None
          else Some (on_queue (\<lambda>q. q\<lparr>qd_numbers := (qd_numbers q)(projectID \<mapsto> (code, n + 1))\<rparr>) db, 1))"

definition update_operation :: "string \<Rightarrow> string \<Rightarrow> (operation_row \<Rightarrow> bool) \<Rightarrow> (operation_row \<Rightarrow> operation_row) \<Rightarrow> statement" where
  "update_operation ident projectID cond f db =
     (let hit = (\<lambda>r. oo_operation_id r = ident \<and> oo_project_id r = projectID \<and> cond r);
          rows = qd_operations (sd_queue db)
      in if locally_retired db projectID then Some (db, 0)
         else Some (on_queue (\<lambda>q. q\<lparr>qd_operations := map (\<lambda>r. if hit r then f r else r) rows\<rparr>) db, length (filter hit rows)))"

section \<open>Reads\<close>

definition live_operations :: "shared_db \<Rightarrow> operation_row list" where
  "live_operations db = filter (\<lambda>r. \<not> locally_retired db (oo_project_id r)) (qd_operations (sd_queue db))"

definition one_operation :: "driver \<Rightarrow> (operation_row \<Rightarrow> bool) \<Rightarrow> string \<Rightarrow> LocalOperation io" where
  "one_operation dv cond missing =
     io_bind (io_query dv (\<lambda>db. find cond (live_operations db))) (\<lambda>row.
       case row of None \<Rightarrow> io_fail (NotExist missing) | Some r \<Rightarrow> io_value (decodeLocalOperation r))"

definition ReadLocalOperation :: "driver \<Rightarrow> string \<Rightarrow> LocalOperation io" where
  "ReadLocalOperation dv operationID =
     io_check (fail_if (\<not> dv_Local dv \<or> ValidateOperationID operationID \<noteq> None) ''invalid local operation identifier'')
       (one_operation dv (\<lambda>r. oo_operation_id r = operationID) (''local operation '' @ go_quote operationID))"

definition ReadLocalOperationByMutation :: "driver \<Rightarrow> string \<Rightarrow> LocalOperation io" where
  "ReadLocalOperationByMutation dv mutationID =
     io_check (first_error
       [fail_if (\<not> dv_Local dv) ''invalid local operation mutation identity'', mutation_identity ''local operation'' mutationID])
       (one_operation dv (\<lambda>r. oo_mutation_id r = mutationID) (''local operation mutation '' @ go_quote mutationID))"

definition listed_operations :: "driver \<Rightarrow> (operation_row \<Rightarrow> bool) \<Rightarrow> LocalOperation list io" where
  "listed_operations dv cond =
     io_bind (io_query dv (\<lambda>db. rev (sort_key oo_operation_number (filter cond (live_operations db)))))
       (\<lambda>rows. io_value (all_results decodeLocalOperation rows))"

definition ListLocalOperations :: "driver \<Rightarrow> string \<Rightarrow> LocalOperation list io" where
  "ListLocalOperations dv projectID = local_store dv
     (io_check (ValidateProjectIdentifier projectID) (listed_operations dv (\<lambda>r. oo_project_id r = projectID)))"

definition ListLocalOperationsByAdmissionCoordinate ::
  "driver \<Rightarrow> string \<Rightarrow> string \<Rightarrow> string \<Rightarrow> string \<Rightarrow> LocalOperation list io" where
  "ListLocalOperationsByAdmissionCoordinate dv projectID kind sessionID inputSHA256 = local_store dv
     (io_check (first_error
       [ValidateProjectIdentifier projectID, fail_if (kind = []) ''invalid local operation kind'',
        validateAdmissionCoordinate sessionID inputSHA256])
     (listed_operations dv (\<lambda>r. oo_project_id r = projectID \<and> oo_kind r = kind \<and> oo_admission_session_id r = sessionID
        \<and> oo_admission_input_sha256 r = inputSHA256)))"

text \<open>The summaries are ordered by the text of the id.\<close>

definition turn_summary :: "string \<Rightarrow> operation_row \<Rightarrow> LocalOperationTurnSummary result" where
  "turn_summary projectID r =
     (case first_error
        [fail_if (ValidateOperationID (oo_operation_id r) \<noteq> None) ''invalid local operation turn identifier'',
         fail_if (oo_project_id r \<noteq> projectID) ''invalid local operation turn project'',
         fail_if (oo_kind r = []) ''invalid local operation turn kind'',
         validateLocalOperationStatus (oo_status r)] of
        Some m \<Rightarrow> Err m
      | None \<Rightarrow> Ok \<lparr>lts_OperationID = oo_operation_id r, lts_ProjectID = oo_project_id r, lts_Kind = oo_kind r,
                   lts_Status = oo_status r\<rparr>)"

definition ListLocalOperationTurnSummaries :: "driver \<Rightarrow> string \<Rightarrow> LocalOperationTurnSummary list io" where
  "ListLocalOperationTurnSummaries dv projectID = local_store dv
     (io_check (ValidateProjectIdentifier projectID)
     (io_bind (io_query dv (\<lambda>db. rev (sort_key oo_operation_id
         (filter (\<lambda>r. oo_project_id r = projectID) (live_operations db)))))
       (\<lambda>rows. io_value (all_results (turn_summary projectID) rows))))"

section \<open>Changes\<close>

definition unless_locally_retired :: "driver \<Rightarrow> string \<Rightarrow> 'a io \<Rightarrow> 'a io" where
  "unless_locally_retired dv projectID m =
     io_bind (IsLocalProjectRetired dv projectID) (\<lambda>retired. if retired then io_fail LocalProjectRetired else m)"

definition SetLocalOperationAdmissionCoordinate :: "driver \<Rightarrow> string \<Rightarrow> string \<Rightarrow> string \<Rightarrow> string \<Rightarrow> unit io" where
  "SetLocalOperationAdmissionCoordinate dv operationID projectID sessionID inputSHA256 =
     io_check (first_error
       [fail_if (\<not> dv_Local dv \<or> ValidateOperationID operationID \<noteq> None \<or> ValidateProjectIdentifier projectID \<noteq> None)
          ''invalid local operation admission coordinate'',
        validateAdmissionCoordinate sessionID inputSHA256])
     (unless_locally_retired dv projectID
     (io_bind (ReadLocalOperation dv operationID) (\<lambda>existing.
       if lop_ProjectID existing \<noteq> projectID then io_error ''local operation admission project mismatch''
       else if lop_AdmissionSessionID existing = sessionID \<and> lop_AdmissionInputSHA256 existing = inputSHA256
       then io_return ()
       else if lop_AdmissionSessionID existing \<noteq> [] \<or> lop_AdmissionInputSHA256 existing \<noteq> []
       then io_error ''local operation admission coordinate mismatch''
       else io_batch dv [(update_operation operationID projectID
              (\<lambda>r. oo_admission_session_id r = [] \<and> oo_admission_input_sha256 r = [])
              (\<lambda>r. r\<lparr>oo_admission_session_id := sessionID, oo_admission_input_sha256 := inputSHA256\<rparr>), 1)])))"

definition UpdateLocalOperation :: "driver \<Rightarrow> LocalOperation \<Rightarrow> unit io" where
  "UpdateLocalOperation dv v =
     io_check (first_error
       [fail_if (\<not> dv_Local dv \<or> ValidateOperationID (lop_OperationID v) \<noteq> None \<or> lop_ProjectID v = [] \<or> lop_Kind v = []
          \<or> IsZero (lop_CreatedAt v) \<or> IsZero (lop_UpdatedAt v)) ''invalid local operation'',
        validateLocalOperationStatus (lop_Status v),
        validateAdmissionCoordinate (lop_AdmissionSessionID v) (lop_AdmissionInputSHA256 v)])
     (io_batch dv [(update_operation (lop_OperationID v) (lop_ProjectID v) (\<lambda>_. True)
        (\<lambda>r. r\<lparr>oo_status := lop_Status v, oo_result_payload := Some (lop_ResultPayload v), oo_error := lop_Error v,
              oo_recovery_reason := lop_RecoveryReason v, oo_updated_at := rfc3339_nano (to_utc (lop_UpdatedAt v)),
              oo_admission_session_id := lop_AdmissionSessionID v, oo_admission_input_sha256 := lop_AdmissionInputSHA256 v\<rparr>), 1)])"

section \<open>Allocation\<close>

definition other_coordinate :: "LocalOperation \<Rightarrow> string \<Rightarrow> string \<Rightarrow> bool" where
  "other_coordinate v sessionID inputSHA256 \<longleftrightarrow> inputSHA256 \<noteq> []
     \<and> (lop_AdmissionSessionID v \<noteq> sessionID \<or> lop_AdmissionInputSHA256 v \<noteq> inputSHA256)"

text \<open>A mutation that is known: the same request again, or a different one under its digest.\<close>

definition known_operation :: "driver \<Rightarrow> string \<Rightarrow> string \<Rightarrow> string \<Rightarrow> string \<Rightarrow> string \<Rightarrow> LocalOperation \<Rightarrow> LocalOperation io" where
  "known_operation dv projectID projectCode kind sessionID inputSHA256 existing =
     (if lop_ProjectID existing \<noteq> projectID \<or> lop_ProjectCode existing \<noteq> projectCode \<or> lop_Kind existing \<noteq> kind
      then io_error ''local operation mutation identity mismatch''
      else if other_coordinate existing sessionID inputSHA256
      then if lop_AdmissionSessionID existing \<noteq> [] \<or> lop_AdmissionInputSHA256 existing \<noteq> []
           then io_error ''local operation admission coordinate mismatch''
           else io_bind (SetLocalOperationAdmissionCoordinate dv (lop_OperationID existing) projectID sessionID inputSHA256)
             (\<lambda>_. ReadLocalOperation dv (lop_OperationID existing))
      else io_return existing)"

definition allocation_statements ::
  "string \<Rightarrow> string \<Rightarrow> string \<Rightarrow> string \<Rightarrow> string \<Rightarrow> string \<Rightarrow> string \<Rightarrow> batch" where
  "allocation_statements projectID projectCode mutationID kind at sessionID inputSHA256 =
     [(insert_operation_sequence projectID projectCode, 0),
      (insert_numbered_operation projectID projectCode mutationID kind at sessionID inputSHA256, 1),
      (advance_operation_sequence (\<lambda>_. True) projectID projectCode, 1)]"

text \<open>The batch failed: the project was retired, somebody else allocated the mutation, or the error stands.\<close>

definition allocation_failed :: "driver \<Rightarrow> string \<Rightarrow> string \<Rightarrow> string \<Rightarrow> string \<Rightarrow> store_error \<Rightarrow> LocalOperation io" where
  "allocation_failed dv projectID mutationID sessionID inputSHA256 e =
     io_bind (io_try (IsLocalProjectRetired dv projectID)) (\<lambda>retired.
       if retired = Inr True then io_fail LocalProjectRetired
       else io_bind (io_try (ReadLocalOperationByMutation dv mutationID)) (\<lambda>found.
         case found of
           Inl _ \<Rightarrow> io_fail e
         | Inr existing \<Rightarrow>
             if other_coordinate existing sessionID inputSHA256 then io_error ''local operation admission coordinate mismatch''
             else io_return existing))"

definition allocateLocalOperation ::
  "driver \<Rightarrow> string \<Rightarrow> string \<Rightarrow> string \<Rightarrow> string \<Rightarrow> string \<Rightarrow> string \<Rightarrow> gotime \<Rightarrow> LocalOperation io" where
  "allocateLocalOperation dv projectID projectCode mutationID kind sessionID inputSHA256 now = local_store dv
     (io_check (first_error [ValidateProjectIdentifier projectID, ValidateProjectCode projectCode])
     (unless_locally_retired dv projectID
     (io_check (first_error
        [mutation_identity ''operation'' mutationID,
         fail_if (kind = [] \<or> IsZero now) ''invalid local operation allocation'',
         validateAdmissionCoordinate sessionID inputSHA256])
     (io_bind (io_try (ReadLocalOperationByMutation dv mutationID)) (\<lambda>found.
       case found of
         Inr existing \<Rightarrow> known_operation dv projectID projectCode kind sessionID inputSHA256 existing
       | Inl (NotExist _) \<Rightarrow>
           io_bind (io_try (io_batch dv (allocation_statements projectID projectCode mutationID kind
               (rfc3339_nano (to_utc now)) sessionID inputSHA256))) (\<lambda>r.
             case r of
               Inl e \<Rightarrow> allocation_failed dv projectID mutationID sessionID inputSHA256 e
             | Inr _ \<Rightarrow> ReadLocalOperationByMutation dv mutationID)
       | Inl e \<Rightarrow> io_fail e)))))"

definition AllocateLocalOperation ::
  "driver \<Rightarrow> string \<Rightarrow> string \<Rightarrow> string \<Rightarrow> string \<Rightarrow> gotime \<Rightarrow> LocalOperation io" where
  "AllocateLocalOperation dv projectID projectCode mutationID kind now =
     allocateLocalOperation dv projectID projectCode mutationID kind [] [] now"

definition AllocateLocalOperationWithAdmissionCoordinate ::
  "driver \<Rightarrow> string \<Rightarrow> string \<Rightarrow> string \<Rightarrow> string \<Rightarrow> string \<Rightarrow> string \<Rightarrow> gotime \<Rightarrow> LocalOperation io" where
  "AllocateLocalOperationWithAdmissionCoordinate dv projectID projectCode mutationID kind sessionID inputSHA256 now =
     allocateLocalOperation dv projectID projectCode mutationID kind sessionID inputSHA256 now"

end
