(* ===== verification/Callback_Epochs.thy ===== *)
theory Callback_Epochs
  imports Local_Operations
begin

text \<open>
  Epochs of agent work (\<open>internal/sqlitestore/callback_epochs.go\<close>): armed when an agent gets work, observed until the
  agent was busy and then idle twice, claimed once, either without a hook or together with the operation that runs the
  hook, whose outcome is recorded in the end.
\<close>

record CallbackEpoch =
  cbe_ID :: string
  cbe_ProjectID :: string
  cbe_AgentID :: string
  cbe_SessionID :: string
  cbe_SessionKey :: string
  cbe_ArmedAt :: gotime
  cbe_BusySeen :: bool
  cbe_IdleObservations :: int
  cbe_OperationID :: string
  cbe_Outcome :: string
  cbe_CompletedAt :: gotime

record AgentWorkFinishedHookState =
  awf_EpochID :: string
  awf_ProjectID :: string
  awf_AgentID :: string
  awf_OperationID :: string
  awf_Outcome :: string

section \<open>Statements\<close>

definition arm_epoch :: "epoch_row \<Rightarrow> statement" where
  "arm_epoch r db =
     (if locally_retired db (eh_project_id r) \<or> list_ex (\<lambda>old. eh_epoch_id old = eh_epoch_id r) (qd_epochs (sd_queue db))
      then Some (db, 0)
      else Some (on_queue (\<lambda>q. q\<lparr>qd_epochs := qd_epochs q @ [r]\<rparr>) db, 1))"

definition update_epoch :: "string \<Rightarrow> (epoch_row \<Rightarrow> bool) \<Rightarrow> (epoch_row \<Rightarrow> epoch_row) \<Rightarrow> statement" where
  "update_epoch epochID cond f db =
     (let hit = (\<lambda>r. eh_epoch_id r = epochID \<and> cond r \<and> \<not> locally_retired db (eh_project_id r)); rows = qd_epochs (sd_queue db)
      in Some (on_queue (\<lambda>q. q\<lparr>qd_epochs := map (\<lambda>r. if hit r then f r else r) rows\<rparr>) db, length (filter hit rows)))"

definition unclaimed :: "epoch_row \<Rightarrow> bool" where
  "unclaimed r \<longleftrightarrow> eh_emitted_at r = None"

section \<open>Reads\<close>

definition decodeCallbackEpoch :: "epoch_row \<Rightarrow> CallbackEpoch result" where
  "decodeCallbackEpoch r =
     (case first_error
        [fail_if (parse_rfc3339 (eh_armed_at r) = None \<or> eh_busy_seen r < 0 \<or> 1 < eh_busy_seen r \<or> eh_idle_observations r < 0)
           ''invalid agent work epoch values'',
         fail_if (case eh_hook_completed_at r of None \<Rightarrow> False | Some at \<Rightarrow> parse_rfc3339 at = None)
           ''invalid agent work epoch completion time''] of
        Some m \<Rightarrow> Err m
      | None \<Rightarrow> Ok
          \<lparr>cbe_ID = eh_epoch_id r, cbe_ProjectID = eh_project_id r, cbe_AgentID = eh_agent_id r,
           cbe_SessionID = eh_session_id r, cbe_SessionKey = eh_session_key r,
           cbe_ArmedAt = the (parse_rfc3339 (eh_armed_at r)), cbe_BusySeen = (eh_busy_seen r = 1),
           cbe_IdleObservations = eh_idle_observations r,
           cbe_OperationID = (case eh_operation_id r of None \<Rightarrow> [] | Some i \<Rightarrow> i), cbe_Outcome = eh_hook_outcome r,
           cbe_CompletedAt = (case eh_hook_completed_at r of None \<Rightarrow> zero_time | Some at \<Rightarrow> the (parse_rfc3339 at))\<rparr>)"

definition ReadCallbackEpoch :: "driver \<Rightarrow> string \<Rightarrow> CallbackEpoch io" where
  "ReadCallbackEpoch dv epochID =
     io_check (fail_if (\<not> dv_Local dv \<or> epochID = []) ''agent work epoch identity is required'')
     (io_bind (io_query dv (\<lambda>db. find (\<lambda>r. eh_epoch_id r = epochID \<and> \<not> locally_retired db (eh_project_id r))
         (qd_epochs (sd_queue db)))) (\<lambda>row.
       case row of
         None \<Rightarrow> io_fail (NotExist (''agent work epoch '' @ go_quote epochID))
       | Some r \<Rightarrow> io_value (decodeCallbackEpoch r)))"

text \<open>The oldest epochs that nobody claimed.\<close>

definition pending_epoch :: "epoch_row \<Rightarrow> CallbackEpoch result" where
  "pending_epoch r =
     (if parse_rfc3339 (eh_armed_at r) = None \<or> eh_epoch_id r = [] \<or> eh_project_id r = [] \<or> eh_session_key r = []
         \<or> eh_busy_seen r < 0 \<or> 1 < eh_busy_seen r \<or> eh_idle_observations r < 0
      then Err ''invalid Agent-work epoch values''
      else Ok \<lparr>cbe_ID = eh_epoch_id r, cbe_ProjectID = eh_project_id r, cbe_AgentID = eh_agent_id r,
             cbe_SessionID = eh_session_id r, cbe_SessionKey = eh_session_key r,
             cbe_ArmedAt = the (parse_rfc3339 (eh_armed_at r)), cbe_BusySeen = (eh_busy_seen r = 1),
             cbe_IdleObservations = eh_idle_observations r, cbe_OperationID = [], cbe_Outcome = [],
             cbe_CompletedAt = zero_time\<rparr>)"

definition pending_rows :: "nat \<Rightarrow> shared_db \<Rightarrow> epoch_row list" where
  "pending_rows limit db = take limit (sort_key (\<lambda>r. (eh_armed_at r, eh_epoch_id r))
     (filter (\<lambda>r. unclaimed r \<and> \<not> locally_retired db (eh_project_id r)) (qd_epochs (sd_queue db))))"

definition PendingCallbackEpochs :: "driver \<Rightarrow> int \<Rightarrow> CallbackEpoch list io" where
  "PendingCallbackEpochs dv limit = local_store dv
     (io_check (fail_if (limit < 1 \<or> 256 < limit) ''invalid Agent-work epoch limit'')
     (io_bind (io_query dv (pending_rows (nat limit))) (\<lambda>rows. io_value (all_results pending_epoch rows))))"

definition LatestAgentWorkFinishedHook :: "driver \<Rightarrow> string \<Rightarrow> string \<Rightarrow> AgentWorkFinishedHookState option io" where
  "LatestAgentWorkFinishedHook dv projectID agentID =
     io_check (fail_if (\<not> dv_Local dv \<or> ValidateProjectIdentifier projectID \<noteq> None \<or> agentID = [])
       ''invalid Agent-work Hook status selector'')
     (io_bind (io_query dv (\<lambda>db. rev (sort_key (\<lambda>r. (eh_armed_at r, eh_epoch_id r))
         (filter (\<lambda>r. eh_project_id r = projectID \<and> eh_agent_id r = agentID \<and> eh_operation_id r \<noteq> None
             \<and> \<not> locally_retired db (eh_project_id r)) (qd_epochs (sd_queue db)))))) (\<lambda>rows.
       case rows of
         [] \<Rightarrow> io_return None
       | r # _ \<Rightarrow>
           io_check (fail_if (eh_epoch_id r = [] \<or> ValidateOperationID (the (eh_operation_id r)) \<noteq> None)
             ''invalid Agent-work Hook status identity'')
           (io_return (Some \<lparr>awf_EpochID = eh_epoch_id r, awf_ProjectID = eh_project_id r, awf_AgentID = eh_agent_id r,
              awf_OperationID = the (eh_operation_id r), awf_Outcome = eh_hook_outcome r\<rparr>))))"

section \<open>Arming and observing\<close>

definition armed_row :: "CallbackEpoch \<Rightarrow> epoch_row" where
  "armed_row e =
     \<lparr>eh_epoch_id = cbe_ID e, eh_project_id = cbe_ProjectID e, eh_agent_id = cbe_AgentID e,
      eh_session_key = cbe_SessionKey e, eh_armed_at = rfc3339_nano (to_utc (cbe_ArmedAt e)), eh_busy_seen = 0,
      eh_idle_observations = 0, eh_emitted_at = None, eh_session_id = cbe_SessionID e, eh_operation_id = None,
      eh_hook_outcome = [], eh_hook_completed_at = None\<rparr>"

definition same_epoch :: "CallbackEpoch \<Rightarrow> CallbackEpoch \<Rightarrow> bool" where
  "same_epoch a b \<longleftrightarrow> cbe_ProjectID a = cbe_ProjectID b \<and> cbe_AgentID a = cbe_AgentID b
     \<and> cbe_SessionID a = cbe_SessionID b \<and> cbe_SessionKey a = cbe_SessionKey b
     \<and> gt_ns (cbe_ArmedAt a) = gt_ns (cbe_ArmedAt b)"

definition ArmCallbackEpoch :: "driver \<Rightarrow> CallbackEpoch \<Rightarrow> unit io" where
  "ArmCallbackEpoch dv e = local_store dv
     (io_check (fail_if (cbe_ID e = [] \<or> cbe_ProjectID e = [] \<or> cbe_SessionKey e = [] \<or> IsZero (cbe_ArmedAt e))
        ''Agent-work epoch identity is incomplete'')
     (unless_locally_retired dv (cbe_ProjectID e)
     (io_bind (io_try (io_batch dv [(arm_epoch (armed_row e), 1)])) (\<lambda>r.
       case r of
         Inr _ \<Rightarrow> io_return ()
       | Inl err \<Rightarrow> io_bind (io_try (IsLocalProjectRetired dv (cbe_ProjectID e))) (\<lambda>retired.
           if retired = Inr True then io_fail LocalProjectRetired
           else io_bind (io_try (ReadCallbackEpoch dv (cbe_ID e))) (\<lambda>found.
             case found of
               Inr existing \<Rightarrow> if same_epoch existing e then io_return () else io_fail err
             | Inl _ \<Rightarrow> io_fail err))))))"

definition epoch_moved :: "driver \<Rightarrow> string \<Rightarrow> (epoch_row \<Rightarrow> epoch_row) \<Rightarrow> unit io" where
  "epoch_moved dv epochID f =
     io_bind (io_exec_rows dv (update_epoch epochID unclaimed f)) (\<lambda>n.
       if n \<noteq> 1 then io_error ''agent work epoch is already claimed'' else io_return ())"

text \<open>True when the agent was busy and this is at least the second idle observation since.\<close>

definition observe_row :: "driver \<Rightarrow> string \<Rightarrow> string \<Rightarrow> epoch_row \<Rightarrow> bool io" where
  "observe_row dv epochID state r =
     (if eh_busy_seen r \<notin> {0, 1} \<or> eh_idle_observations r < 0 then io_error ''invalid Agent-work epoch state values''
      else if eh_emitted_at r \<noteq> None \<and> eh_emitted_at r \<noteq> Some [] then io_return False
      else if state = ''running'' \<or> state = ''waiting''
      then io_bind (epoch_moved dv epochID (\<lambda>r. r\<lparr>eh_busy_seen := 1, eh_idle_observations := 0\<rparr>)) (\<lambda>_. io_return False)
      else if state = ''idle''
      then if eh_busy_seen r = 0 then io_return False
           else (let next_count = wrap_int (eh_idle_observations r + 1) in
             io_bind (epoch_moved dv epochID (\<lambda>r. r\<lparr>eh_idle_observations := next_count\<rparr>)) (\<lambda>_. io_return (2 \<le> next_count)))
      else io_bind (epoch_moved dv epochID (\<lambda>r. r\<lparr>eh_idle_observations := 0\<rparr>)) (\<lambda>_. io_return False))"

definition ObserveCallbackEpoch :: "driver \<Rightarrow> string \<Rightarrow> string \<Rightarrow> bool io" where
  "ObserveCallbackEpoch dv epochID state = local_store dv
     (io_check (fail_if (epochID = []) ''Agent-work epoch ID is required'')
     (io_bind (ReadCallbackEpoch dv epochID) (\<lambda>epoch.
      unless_locally_retired dv (cbe_ProjectID epoch)
     (io_bind (io_query dv (\<lambda>db. find (\<lambda>r. eh_epoch_id r = epochID) (qd_epochs (sd_queue db)))) (\<lambda>row.
       case row of
         None \<Rightarrow> io_fail (NotExist (''Agent-work epoch '' @ go_quote epochID))
       | Some r \<Rightarrow> observe_row dv epochID state r)))))"

section \<open>Claiming\<close>

definition ClaimCallbackEpochWithoutHook :: "driver \<Rightarrow> string \<Rightarrow> gotime \<Rightarrow> bool io" where
  "ClaimCallbackEpochWithoutHook dv epochID claimedAt =
     io_check (fail_if (\<not> dv_Local dv \<or> epochID = [] \<or> IsZero claimedAt) ''agent work epoch claim is incomplete'')
     (io_bind (ReadCallbackEpoch dv epochID) (\<lambda>epoch.
      unless_locally_retired dv (cbe_ProjectID epoch)
     (let at = rfc3339_nano (to_utc claimedAt) in
      io_bind (io_exec_rows dv (update_epoch epochID (\<lambda>r. unclaimed r \<and> eh_operation_id r = None)
         (\<lambda>r. r\<lparr>eh_emitted_at := Some at, eh_hook_outcome := ''unbound'', eh_hook_completed_at := Some at\<rparr>)))
        (\<lambda>n. io_return (n = 1)))))"

definition next_operation :: "shared_db \<Rightarrow> string \<Rightarrow> string \<Rightarrow> string option" where
  "next_operation db projectID projectCode =
     (case qd_numbers (sd_queue db) projectID of
        Some (code, n) \<Rightarrow> if code = projectCode then Some (operation_id code n) else None
      | None \<Rightarrow> None)"

text \<open>The claim names the operation that the next statement inserts.\<close>

definition claim_epoch :: "string \<Rightarrow> string \<Rightarrow> string \<Rightarrow> string \<Rightarrow> string \<Rightarrow> statement" where
  "claim_epoch epochID projectID projectCode sessionID at db =
     update_epoch epochID
       (\<lambda>r. eh_project_id r = projectID \<and> eh_session_id r = sessionID \<and> unclaimed r \<and> eh_operation_id r = None)
       (\<lambda>r. r\<lparr>eh_emitted_at := Some at, eh_operation_id := next_operation db projectID projectCode, eh_hook_outcome := ''pending''\<rparr>) db"

definition claimed_epoch :: "shared_db \<Rightarrow> string \<Rightarrow> string \<Rightarrow> epoch_row option" where
  "claimed_epoch db epochID projectID =
     find (\<lambda>r. eh_epoch_id r = epochID \<and> eh_project_id r = projectID \<and> eh_hook_outcome r = ''pending'' \<and> eh_operation_id r \<noteq> None)
       (qd_epochs (sd_queue db))"

definition insert_claimed_operation ::
  "string \<Rightarrow> string \<Rightarrow> string \<Rightarrow> string \<Rightarrow> string \<Rightarrow> string \<Rightarrow> string \<Rightarrow> string \<Rightarrow> statement" where
  "insert_claimed_operation epochID projectID projectCode mutationID kind at sessionID inputSHA256 db =
     (case (claimed_epoch db epochID projectID, qd_numbers (sd_queue db) projectID) of
        (Some e, Some (code, n)) \<Rightarrow>
          if code \<noteq> projectCode \<or> locally_retired db projectID then Some (db, 0)
          else insert_operation (accepted_row (the (eh_operation_id e)) (eh_project_id e) projectCode n mutationID kind at
            sessionID inputSHA256) db
      | _ \<Rightarrow> Some (db, 0))"

definition epoch_statements ::
  "string \<Rightarrow> string \<Rightarrow> string \<Rightarrow> string \<Rightarrow> string \<Rightarrow> string \<Rightarrow> string \<Rightarrow> string \<Rightarrow> batch" where
  "epoch_statements epochID projectID projectCode sessionID mutationID inputSHA256 kind at =
     [(insert_operation_sequence projectID projectCode, 0),
      (claim_epoch epochID projectID projectCode sessionID at, 1),
      (insert_claimed_operation epochID projectID projectCode mutationID kind at sessionID inputSHA256, 1),
      (advance_operation_sequence (\<lambda>db. claimed_epoch db epochID projectID \<noteq> None \<and> \<not> locally_retired db projectID)
         projectID projectCode, 1)]"

text \<open>The claim failed: retired, or claimed before with an operation of the same kind, or by something else.\<close>

definition claim_lost :: "driver \<Rightarrow> string \<Rightarrow> store_error \<Rightarrow> (LocalOperation \<times> bool) io" where
  "claim_lost dv epochID e =
     io_bind (io_try (ReadCallbackEpoch dv epochID)) (\<lambda>found.
       case found of
         Inr epoch \<Rightarrow> if cbe_OperationID epoch = [] \<and> \<not> IsZero (cbe_ArmedAt epoch)
           then io_error ''agent work epoch is already claimed'' else io_fail e
       | Inl _ \<Rightarrow> io_fail e)"

definition claim_failed :: "driver \<Rightarrow> string \<Rightarrow> string \<Rightarrow> string \<Rightarrow> store_error \<Rightarrow> (LocalOperation \<times> bool) io" where
  "claim_failed dv epochID projectID kind e =
     io_bind (io_try (IsLocalProjectRetired dv projectID)) (\<lambda>retired.
       if retired = Inr True then io_fail LocalProjectRetired
       else io_bind (io_try (io_bind (ReadCallbackEpoch dv epochID) (\<lambda>epoch.
           if cbe_OperationID epoch = [] then io_error '''' else ReadLocalOperation dv (cbe_OperationID epoch)))) (\<lambda>found.
         case found of
           Inr v \<Rightarrow> if lop_ProjectID v = projectID \<and> lop_Kind v = kind then io_return (v, False)
                    else claim_lost dv epochID e
         | Inl _ \<Rightarrow> claim_lost dv epochID e))"

definition AllocateCallbackEpochOperation ::
  "driver \<Rightarrow> string \<Rightarrow> string \<Rightarrow> string \<Rightarrow> string \<Rightarrow> string \<Rightarrow> string \<Rightarrow> string \<Rightarrow> gotime \<Rightarrow> (LocalOperation \<times> bool) io" where
  "AllocateCallbackEpochOperation dv epochID projectID projectCode sessionID mutationID inputSHA256 kind now = local_store dv
     (io_check (first_error
        [fail_if (epochID = [] \<or> ValidateProjectIdentifier projectID \<noteq> None \<or> ValidateProjectCode projectCode \<noteq> None
            \<or> sessionID = [] \<or> kind = [] \<or> IsZero now \<or> length mutationID \<noteq> 64) ''agent work Operation allocation is incomplete'',
         fail_if (\<not> hex_string mutationID) ''invalid agent work Operation mutation identity'',
         validateAdmissionCoordinate sessionID inputSHA256])
     (unless_locally_retired dv projectID
     (io_bind (io_try (io_batch dv (epoch_statements epochID projectID projectCode sessionID mutationID inputSHA256 kind
         (rfc3339_nano (to_utc now))))) (\<lambda>r.
       case r of
         Inl e \<Rightarrow> claim_failed dv epochID projectID kind e
       | Inr _ \<Rightarrow> io_bind (ReadLocalOperationByMutation dv mutationID) (\<lambda>v. io_return (v, True))))))"

definition RecordCallbackEpochOperationOutcome :: "driver \<Rightarrow> string \<Rightarrow> string \<Rightarrow> string \<Rightarrow> gotime \<Rightarrow> unit io" where
  "RecordCallbackEpochOperationOutcome dv epochID operationID outcome completedAt =
     io_check (fail_if (\<not> dv_Local dv \<or> epochID = [] \<or> ValidateOperationID operationID \<noteq> None
         \<or> outcome \<notin> {''completed'', ''failed'', ''outcome_unknown''} \<or> IsZero completedAt) ''invalid Agent-work Hook outcome'')
     (io_bind (ReadCallbackEpoch dv epochID) (\<lambda>epoch.
      io_check (fail_if (cbe_OperationID epoch \<noteq> operationID) ''Agent-work Hook Operation association does not match'')
     (unless_locally_retired dv (cbe_ProjectID epoch)
     (io_bind (io_exec_rows dv (update_epoch epochID (\<lambda>r. eh_operation_id r = Some operationID \<and> \<not> unclaimed r)
         (\<lambda>r. r\<lparr>eh_hook_outcome := outcome, eh_hook_completed_at := Some (rfc3339_nano (to_utc completedAt))\<rparr>))) (\<lambda>n.
       if n = 1 then io_return ()
       else io_bind (io_try (IsLocalProjectRetired dv (cbe_ProjectID epoch))) (\<lambda>retired.
         if retired = Inr True then io_fail LocalProjectRetired
         else io_error ''Agent-work Hook Operation association does not match''))))))"

end
