(* ===== verification/Durable_Operation.thy ===== *)
theory Durable_Operation
  imports Callback_Epochs Rule_Service
begin

text \<open>
  The file of a durable operation (\<open>internal/service/durable_mutation_mutation_identity.go\<close>,
  \<open>durable_mutation_mutation_adapters.go\<close>): its JSON form as \<open>internal/fsutil/atomic.go\<close> writes it, indented, with a
  bound for reading but none for writing, the digests that identify a request, and the record of hook attempts inside a
  result (\<open>task_lifecycle_hooks.go\<close>). A file is replaced as a whole, so writing one is a statement of its own.
\<close>

section \<open>Indented JSON\<close>

definition indent_line :: "nat \<Rightarrow> string" where
  "indent_line depth = lf # concat (replicate depth ''  '')"

text \<open>The flags: an opening bracket was the last token, inside a string literal, behind a backslash in it.\<close>

fun indent_from :: "nat \<Rightarrow> bool \<Rightarrow> bool \<Rightarrow> bool \<Rightarrow> string \<Rightarrow> string" where
  "indent_from depth opened literal escaped [] = []"
| "indent_from depth opened literal escaped (c # s) =
     (if literal then c # indent_from depth opened (escaped \<or> c \<noteq> quote_mark) (\<not> escaped \<and> c = backslash) s
      else if json_space c then indent_from depth opened False False s
      else if c = CHR ''}'' \<or> c = CHR '']'' then
        (if opened then c # indent_from depth False False False s
         else indent_line (depth - 1) @ c # indent_from (depth - 1) False False False s)
      else
        (let depth' = (if opened then Suc depth else depth) in
         (if opened then indent_line depth' else []) @
         (if c = quote_mark then c # indent_from depth' False True False s
          else if c = CHR ''{'' \<or> c = CHR ''['' then c # indent_from depth' True False False s
          else if c = CHR '','' then c # indent_line depth' @ indent_from depth' False False False s
          else if c = CHR '':'' then c # CHR '' '' # indent_from depth' False False False s
          else c # indent_from depth' False False False s)))"

definition json_indent :: "string \<Rightarrow> string" where
  "json_indent s = indent_from 0 False False False s"

text \<open>\<open>json.Compact\<close> leaves string literals as they are.\<close>

fun json_plain :: "json \<Rightarrow> string" where
  "json_plain J_null = ''null''"
| "json_plain (J_bool b) = json_bool b"
| "json_plain (J_number raw) = raw"
| "json_plain (J_string raw) = quote_mark # raw @ [quote_mark]"
| "json_plain (J_array vs) = json_list (map json_plain vs)"
| "json_plain (J_object ms) =
     ''{'' @ sep_concat '','' (map (\<lambda>(k, v). quote_mark # k @ [quote_mark, CHR '':''] @ json_plain v) ms) @ ''}''"

definition json_Compact :: "string \<Rightarrow> string option" where
  "json_Compact s = map_option json_plain (json_parse s)"

section \<open>The record\<close>

definition durableMutationSchemaVersion :: int where "durableMutationSchemaVersion = 1"

record durableMutationOperation =
  dmo_SchemaVersion :: int
  dmo_OperationID :: string
  dmo_MutationID :: string
  dmo_Kind :: string
  dmo_RequestSHA256 :: string
  dmo_SessionID :: string
  dmo_ProjectID :: string
  dmo_Input :: string
  dmo_Status :: string
  dmo_Result :: string
  dmo_Error :: string
  dmo_RecoveryReason :: string
  dmo_CapturedState :: string
  dmo_RetriedFrom :: string
  dmo_CreatedAt :: gotime
  dmo_UpdatedAt :: gotime

definition zero_durable :: durableMutationOperation where
  "zero_durable = \<lparr>dmo_SchemaVersion = 0, dmo_OperationID = [], dmo_MutationID = [], dmo_Kind = [], dmo_RequestSHA256 = [],
     dmo_SessionID = [], dmo_ProjectID = [], dmo_Input = [], dmo_Status = [], dmo_Result = [], dmo_Error = [],
     dmo_RecoveryReason = [], dmo_CapturedState = [], dmo_RetriedFrom = [], dmo_CreatedAt = zero_time,
     dmo_UpdatedAt = zero_time\<rparr>"

text \<open>A nil raw message is written as \<open>null\<close>.\<close>

definition json_raw_field :: "string \<Rightarrow> string result" where
  "json_raw_field raw = (if raw = [] then Ok ''null'' else json_raw raw)"

definition json_durable :: "durableMutationOperation \<Rightarrow> string result" where
  "json_durable v =
     (case (json_raw_field (dmo_Input v), json_raw_field (dmo_Result v), json_time (dmo_CreatedAt v), json_time (dmo_UpdatedAt v)) of
        (Inr input, Inr result, Inr created, Inr updated) \<Rightarrow> Ok (json_object
          (json_field ''schema_version'' (dec_int (dmo_SchemaVersion v))
           @ json_field ''operation_id'' (json_string (dmo_OperationID v))
           @ json_omit (dmo_MutationID v = []) ''mutation_id'' (json_string (dmo_MutationID v))
           @ json_field ''kind'' (json_string (dmo_Kind v))
           @ json_field ''request_sha256'' (json_string (dmo_RequestSHA256 v))
           @ json_omit (dmo_SessionID v = []) ''session_id'' (json_string (dmo_SessionID v))
           @ json_field ''project_id'' (json_string (dmo_ProjectID v))
           @ json_field ''input'' input
           @ json_field ''status'' (json_string (dmo_Status v))
           @ json_omit (dmo_Result v = []) ''result'' result
           @ json_omit (dmo_Error v = []) ''error'' (json_string (dmo_Error v))
           @ json_omit (dmo_RecoveryReason v = []) ''recovery_reason'' (json_string (dmo_RecoveryReason v))
           @ json_omit (dmo_CapturedState v = []) ''captured_state'' (json_string (dmo_CapturedState v))
           @ json_omit (dmo_RetriedFrom v = []) ''retried_from'' (json_string (dmo_RetriedFrom v))
           @ json_field ''created_at'' created
           @ json_field ''updated_at'' updated))
      | _ \<Rightarrow> Err ''json: error calling MarshalJSON'')"

definition durable_fields :: "(string \<times> durableMutationOperation field_decoder) list" where
  "durable_fields =
     [(''schema_version'', dec_int64 (\<lambda>x r. r\<lparr>dmo_SchemaVersion := x\<rparr>)),
      (''operation_id'', dec_string (\<lambda>x r. r\<lparr>dmo_OperationID := x\<rparr>)),
      (''mutation_id'', dec_string (\<lambda>x r. r\<lparr>dmo_MutationID := x\<rparr>)),
      (''kind'', dec_string (\<lambda>x r. r\<lparr>dmo_Kind := x\<rparr>)),
      (''request_sha256'', dec_string (\<lambda>x r. r\<lparr>dmo_RequestSHA256 := x\<rparr>)),
      (''session_id'', dec_string (\<lambda>x r. r\<lparr>dmo_SessionID := x\<rparr>)),
      (''project_id'', dec_string (\<lambda>x r. r\<lparr>dmo_ProjectID := x\<rparr>)),
      (''input'', \<lambda>_ r. Some r),
      (''status'', dec_string (\<lambda>x r. r\<lparr>dmo_Status := x\<rparr>)),
      (''result'', \<lambda>_ r. Some r),
      (''error'', dec_string (\<lambda>x r. r\<lparr>dmo_Error := x\<rparr>)),
      (''recovery_reason'', dec_string (\<lambda>x r. r\<lparr>dmo_RecoveryReason := x\<rparr>)),
      (''captured_state'', dec_string (\<lambda>x r. r\<lparr>dmo_CapturedState := x\<rparr>)),
      (''retried_from'', dec_string (\<lambda>x r. r\<lparr>dmo_RetriedFrom := x\<rparr>)),
      (''created_at'', dec_time dmo_CreatedAt (\<lambda>x r. r\<lparr>dmo_CreatedAt := x\<rparr>)),
      (''updated_at'', dec_time dmo_UpdatedAt (\<lambda>x r. r\<lparr>dmo_UpdatedAt := x\<rparr>))]"

text \<open>The bytes of a member as they stand in the text of an object, [] when it is absent.\<close>

definition raw_field :: "string \<Rightarrow> string \<Rightarrow> string" where
  "raw_field name s =
     (let t = skip_space s in
      if HasPrefix t ''{'' then
        (case find (\<lambda>(k, _). fold_name k = fold_name name) (rev (raw_members (length t) (drop 1 t))) of
           None \<Rightarrow> [] | Some (_, raw) \<Rightarrow> raw)
      else [])"

definition decode_durable :: "string \<Rightarrow> durableMutationOperation option" where
  "decode_durable s =
     map_option (\<lambda>v. v\<lparr>dmo_Input := raw_field ''input'' s, dmo_Result := raw_field ''result'' s\<rparr>)
       (decodeStrict durable_fields zero_durable s)"

section \<open>Digests\<close>

definition durableMutationDigestWithIdentity :: "string \<Rightarrow> string \<Rightarrow> string \<Rightarrow> string option \<Rightarrow> string" where
  "durableMutationDigestWithIdentity kind sessionID input identity =
     sha256_hex (kind @ [nul] @ sessionID @ [nul] @ input @ (case identity of None \<Rightarrow> [] | Some raw \<Rightarrow> nul # raw))"

definition durableMutationDigest :: "string \<Rightarrow> string \<Rightarrow> string \<Rightarrow> string" where
  "durableMutationDigest kind sessionID input = durableMutationDigestWithIdentity kind sessionID input None"

definition durableMutationInputSHA256 :: "string \<Rightarrow> string" where
  "durableMutationInputSHA256 input = sha256_hex (case json_Compact input of None \<Rightarrow> input | Some s \<Rightarrow> s)"

definition durableMutationInputEqual :: "string \<Rightarrow> string \<Rightarrow> bool result" where
  "durableMutationInputEqual left right =
     (case (json_Compact left, json_Compact right) of
        (Some a, Some b) \<Rightarrow> Ok (a = b)
      | _ \<Rightarrow> Err ''unexpected end of JSON input'')"

section \<open>Reading and writing\<close>

definition file_limit :: nat where "file_limit = 1048576"

definition durable_file :: "shared_db \<Rightarrow> string \<Rightarrow> string option" where
  "durable_file db name = map_of (qd_files (sd_queue db)) name"

definition checkDurableMutation :: "string \<Rightarrow> durableMutationOperation \<Rightarrow> error" where
  "checkDurableMutation operationID v = first_error
     [fail_if (dmo_SchemaVersion v \<noteq> durableMutationSchemaVersion \<or> dmo_OperationID v \<noteq> operationID \<or> dmo_Kind v = [])
        ''invalid durable mutation operation'',
      fail_if (length (dmo_RequestSHA256 v) \<noteq> 64) ''invalid durable mutation request digest'',
      fail_if (\<not> hex_string (dmo_RequestSHA256 v)) ''invalid durable mutation request digest: '',
      fail_if (dmo_MutationID v \<noteq> [] \<and> length (dmo_MutationID v) \<noteq> 64) ''invalid durable mutation identity'',
      fail_if (dmo_MutationID v \<noteq> [] \<and> \<not> hex_string (dmo_MutationID v)) ''invalid durable mutation identity: '',
      fail_if (dmo_Status v \<notin> {''accepted'', ''running'', ''completed'', ''failed'', ''outcome_unknown''})
        (''invalid durable mutation status '' @ go_quote (dmo_Status v)),
      fail_if (dmo_Input v = [] \<or> dmo_ProjectID v = []) ''invalid durable mutation payload'']"

definition readDurableMutation :: "driver \<Rightarrow> string \<Rightarrow> durableMutationOperation io" where
  "readDurableMutation dv operationID =
     io_check (fail_if (ValidateOperationID operationID \<noteq> None
         \<and> (\<not> HasPrefix operationID ''mutation-'' \<or> ValidateObjectIdentifier operationID \<noteq> None))
       ''invalid durable mutation operation identifier'')
     (io_bind (io_query dv (\<lambda>db. durable_file db operationID)) (\<lambda>found.
       case found of
         None \<Rightarrow> io_fail (NotExist (''stat '' @ operationID))
       | Some s \<Rightarrow>
           io_check (fail_if (file_limit < length s) (''file '' @ operationID @ '' exceeds 1048576 bytes''))
           (case decode_durable s of
              None \<Rightarrow> io_error (''decode '' @ operationID)
            | Some v \<Rightarrow>
                io_check (checkDurableMutation operationID v)
                (io_return (if dmo_MutationID v = [] then v\<lparr>dmo_MutationID := dmo_RequestSHA256 v\<rparr> else v)))))"

definition write_file :: "string \<Rightarrow> string \<Rightarrow> statement" where
  "write_file name s db =
     Some (on_queue (\<lambda>q. q\<lparr>qd_files := (name, s) # filter (\<lambda>(n, _). n \<noteq> name) (qd_files q)\<rparr>) db, 1)"

definition durable_text :: "durableMutationOperation \<Rightarrow> string result" where
  "durable_text v = map_sum id (\<lambda>s. json_indent s @ [lf]) (json_durable v)"

text \<open>The receipt that clients read follows the file; a legacy operation has none.\<close>

definition projected_operation :: "durableMutationOperation \<Rightarrow> LocalOperation \<Rightarrow> LocalOperation" where
  "projected_operation v l =
     (let l = l\<lparr>lop_Status := dmo_Status v, lop_ResultPayload := dmo_Result v, lop_Error := dmo_Error v,
            lop_RecoveryReason := dmo_RecoveryReason v, lop_UpdatedAt := dmo_UpdatedAt v\<rparr> in
      if dmo_Input v = [] then l
      else l\<lparr>lop_AdmissionSessionID := dmo_SessionID v,
             lop_AdmissionInputSHA256 := durableMutationInputSHA256 (dmo_Input v)\<rparr>)"

definition writeDurableMutation :: "driver \<Rightarrow> durableMutationOperation \<Rightarrow> unit io" where
  "writeDurableMutation dv v =
     io_bind (io_value (durable_text v)) (\<lambda>s.
     io_bind (io_batch dv [(write_file (dmo_OperationID v) s, 0)]) (\<lambda>_.
       if ValidateOperationID (dmo_OperationID v) \<noteq> None then io_return ()
       else io_check (fail_if (no_durability dv) ''local durability is unavailable'')
         (io_bind (ReadLocalOperation dv (dmo_OperationID v)) (\<lambda>l. UpdateLocalOperation dv (projected_operation v l)))))"

definition durableMutationTerminal :: "string \<Rightarrow> bool" where
  "durableMutationTerminal status \<longleftrightarrow> status \<in> {''completed'', ''failed'', ''outcome_unknown''}"

definition durableMutationKnownStatus :: "string \<Rightarrow> bool" where
  "durableMutationKnownStatus status \<longleftrightarrow> status \<in> {''accepted'', ''running'', ''completed'', ''failed'', ''outcome_unknown''}"

section \<open>Hook attempts inside a result\<close>

record procedureHookAttempt =
  pha_Hook :: string
  pha_Procedure :: string
  pha_Phase :: string
  pha_Outcome :: string
  pha_Reason :: string
  pha_Output :: string

definition zero_attempt :: procedureHookAttempt where
  "zero_attempt = \<lparr>pha_Hook = [], pha_Procedure = [], pha_Phase = [], pha_Outcome = [], pha_Reason = [], pha_Output = []\<rparr>"

text \<open>
  The error of \<open>json.Unmarshal\<close> is dropped: a member of another type is skipped and the rest is decoded. An output is kept
  compact, which is how it is written again.
\<close>

definition lenient_string :: "json \<Rightarrow> string \<Rightarrow> string" where
  "lenient_string v old = (case v of J_string raw \<Rightarrow> unquote raw | _ \<Rightarrow> old)"

definition attempt_fields :: "(string \<times> (json \<Rightarrow> procedureHookAttempt \<Rightarrow> procedureHookAttempt)) list" where
  "attempt_fields =
     [(''hook'', \<lambda>v a. a\<lparr>pha_Hook := lenient_string v (pha_Hook a)\<rparr>),
      (''procedure'', \<lambda>v a. a\<lparr>pha_Procedure := lenient_string v (pha_Procedure a)\<rparr>),
      (''phase'', \<lambda>v a. a\<lparr>pha_Phase := lenient_string v (pha_Phase a)\<rparr>),
      (''outcome'', \<lambda>v a. a\<lparr>pha_Outcome := lenient_string v (pha_Outcome a)\<rparr>),
      (''reason'', \<lambda>v a. a\<lparr>pha_Reason := lenient_string v (pha_Reason a)\<rparr>),
      (''output'', \<lambda>v a. a\<lparr>pha_Output := json_compact v\<rparr>)]"

definition decode_attempt :: "procedureHookAttempt \<Rightarrow> json \<Rightarrow> procedureHookAttempt" where
  "decode_attempt a v =
     (case v of
        J_object ms \<Rightarrow> fold (\<lambda>(name, m) a. case struct_field attempt_fields (unquote name) of None \<Rightarrow> a | Some f \<Rightarrow> f m a) ms a
      | _ \<Rightarrow> a)"

text \<open>A second array is decoded over the elements of the first.\<close>

definition decode_attempts :: "procedureHookAttempt list \<Rightarrow> json \<Rightarrow> procedureHookAttempt list" where
  "decode_attempts old v =
     (case v of
        J_array vs \<Rightarrow> map (\<lambda>(i, x). decode_attempt (if i < length old then old ! i else zero_attempt) x) (enumerate 0 vs)
      | J_null \<Rightarrow> []
      | _ \<Rightarrow> old)"

definition taskLifecycleHookAttempts :: "string \<Rightarrow> procedureHookAttempt list" where
  "taskLifecycleHookAttempts raw =
     (let attempts = (case json_parse raw of
            Some (J_object ms) \<Rightarrow>
              fold (\<lambda>(name, v) old. if fold_name (unquote name) = fold_name ''hook_attempts'' then decode_attempts old v else old) ms []
          | _ \<Rightarrow> [])
      in if 8 < length attempts then [] else attempts)"

definition json_attempt :: "procedureHookAttempt \<Rightarrow> string" where
  "json_attempt a = json_object
     (json_field ''hook'' (json_string (pha_Hook a)) @ json_field ''procedure'' (json_string (pha_Procedure a))
      @ json_field ''phase'' (json_string (pha_Phase a)) @ json_field ''outcome'' (json_string (pha_Outcome a))
      @ json_omit (pha_Reason a = []) ''reason'' (json_string (pha_Reason a))
      @ json_omit (pha_Output a = []) ''output''
          (case json_parse (pha_Output a) of None \<Rightarrow> pha_Output a | Some v \<Rightarrow> json_compact v))"

definition mergeTaskLifecycleHookAttempts :: "string \<Rightarrow> procedureHookAttempt list \<Rightarrow> string" where
  "mergeTaskLifecycleHookAttempts raw attempts =
     (if attempts = [] then raw
      else let ms = (case json_parse raw of Some (J_object ms) \<Rightarrow> map (\<lambda>(k, v). (unquote k, json_compact v)) ms | _ \<Rightarrow> []);
               ms = ms @ [(''hook_attempts'', json_list (map json_attempt attempts))];
               keys = sort (remdups (map fst ms))
           in json_object (map (\<lambda>k. (k, the (map_of (rev ms) k))) keys))"

definition pendingTaskLifecycleHookPhase :: "durableMutationOperation \<Rightarrow> string" where
  "pendingTaskLifecycleHookPhase v =
     (case find (\<lambda>a. pha_Outcome a = ''pending'') (taskLifecycleHookAttempts (dmo_Result v)) of
        None \<Rightarrow> [] | Some a \<Rightarrow> pha_Phase a)"

definition reconciled_attempt :: "procedureHookAttempt \<Rightarrow> procedureHookAttempt" where
  "reconciled_attempt a =
     (if pha_Outcome a \<noteq> ''pending'' then a
      else a\<lparr>pha_Outcome := ''outcome_unknown'',
             pha_Reason := ''Procedure Hook execution was not replayed after Gateway restart''\<rparr>)"

definition reconcilePendingTaskLifecycleHook :: "gotime \<Rightarrow> durableMutationOperation \<Rightarrow> durableMutationOperation \<times> bool" where
  "reconcilePendingTaskLifecycleHook now v =
     (let attempts = taskLifecycleHookAttempts (dmo_Result v);
          changed = list_ex (\<lambda>a. pha_Outcome a = ''pending'') attempts
      in (if changed then v\<lparr>dmo_Result := mergeTaskLifecycleHookAttempts (dmo_Result v) (map reconciled_attempt attempts),
            dmo_UpdatedAt := now\<rparr> else v, changed))"

definition maxTaskLifecycleOperationResultBytes :: nat where "maxTaskLifecycleOperationResultBytes = 1048576"

definition maxProcedureOutputBytes :: nat where "maxProcedureOutputBytes = 65536"

text \<open>Evidence of a hook, replaced under its name or appended.\<close>

definition put_attempt :: "procedureHookAttempt \<Rightarrow> procedureHookAttempt list \<Rightarrow> procedureHookAttempt list result" where
  "put_attempt a xs =
     (case dropWhile (\<lambda>x. pha_Hook x \<noteq> pha_Hook a) xs of
        [] \<Rightarrow> if 8 \<le> length xs then Err ''Procedure Hook attempt evidence exceeds its bound'' else Ok (xs @ [a])
      | _ # rest \<Rightarrow> Ok (takeWhile (\<lambda>x. pha_Hook x \<noteq> pha_Hook a) xs @ a # rest))"

definition writeTaskLifecycleHookAttempt :: "driver \<Rightarrow> world \<Rightarrow> string \<Rightarrow> procedureHookAttempt \<Rightarrow> unit io" where
  "writeTaskLifecycleHookAttempt dv w operationID a =
     io_check (fail_if (maxProcedureOutputBytes < length (pha_Output a) \<or> pha_Output a \<noteq> [] \<and> json_parse (pha_Output a) = None)
       ''Procedure Hook output evidence is invalid or exceeds its bound'')
     (io_bind (readDurableMutation dv operationID) (\<lambda>v.
      io_bind (io_value (put_attempt a (taskLifecycleHookAttempts (dmo_Result v)))) (\<lambda>attempts.
      let result = mergeTaskLifecycleHookAttempts (dmo_Result v) attempts in
      io_check (fail_if (maxTaskLifecycleOperationResultBytes < length result)
        ''Procedure Hook evidence exceeds its durable Operation bound'')
      (io_bind (io_now dv w) (\<lambda>now.
        writeDurableMutation dv (v\<lparr>dmo_Result := result, dmo_UpdatedAt := to_utc now\<rparr>))))))"

definition readTaskLifecycleHookAttempt :: "driver \<Rightarrow> string \<Rightarrow> string \<Rightarrow> procedureHookAttempt io" where
  "readTaskLifecycleHookAttempt dv operationID hook =
     io_bind (readDurableMutation dv operationID) (\<lambda>v.
       case find (\<lambda>a. pha_Hook a = hook) (taskLifecycleHookAttempts (dmo_Result v)) of
         None \<Rightarrow> io_error ''Hook attempt was not recorded''
       | Some a \<Rightarrow> io_return a)"

text \<open>The outcome of the operation is stored before its hook runs.\<close>

definition persistTaskLifecycleParentOutcome ::
  "driver \<Rightarrow> world \<Rightarrow> string \<Rightarrow> string \<Rightarrow> string \<Rightarrow> string \<Rightarrow> unit io" where
  "persistTaskLifecycleParentOutcome dv w operationID status result errorText =
     io_bind (readDurableMutation dv operationID) (\<lambda>v.
     io_bind (io_now dv w) (\<lambda>now.
     let merged = mergeTaskLifecycleHookAttempts result (taskLifecycleHookAttempts (dmo_Result v)) in
     io_check (fail_if (maxTaskLifecycleOperationResultBytes < length merged)
       ''Procedure Hook evidence exceeds its durable Operation bound'')
     (writeDurableMutation dv (v\<lparr>dmo_Status := status, dmo_Error := errorText, dmo_UpdatedAt := to_utc now, dmo_Result := merged\<rparr>))))"

end
