(* ===== verification/Durable_Queue.thy ===== *)
theory Durable_Queue
  imports Durable_Operation
begin

text \<open>
  The durable queue (\<open>internal/service/durable_mutation_mutation_worker.go\<close>, \<open>durable_mutation_mutation_execution.go\<close>): a
  request is admitted under the digest of its content, gets an operation with a number and a file, and is run by a
  worker. Waking a worker changes nothing in the databases, and a worker may take any operation at any time, so it is
  left out of the requests; what an operation does when it runs is the argument \<open>execute\<close>. Numbers inside the JSON of an
  adopted legacy operation are kept as they are written.
\<close>

text \<open>The clock of the process, random bytes, the sessions and the project codes of the Shared database.\<close>

record queue_world =
  qw_world :: world
  qw_Now :: "nat \<Rightarrow> gotime"
  qw_Random :: "nat \<Rightarrow> string result"
  qw_Session :: "nat \<Rightarrow> string \<Rightarrow> (string \<times> string) result"
  qw_SharedProjectCode :: "nat \<Rightarrow> string \<Rightarrow> string list result"

abbreviation qw_session :: "queue_world \<Rightarrow> string" where
  "qw_session qw \<equiv> w_session (qw_world qw)"

definition queue_now :: "driver \<Rightarrow> queue_world \<Rightarrow> gotime io" where
  "queue_now dv qw = io_bind (io_know dv (qw_Now qw)) (\<lambda>t. io_return (to_utc t))"

section \<open>The code of a project\<close>

definition shared_project_code :: "driver \<Rightarrow> queue_world \<Rightarrow> string \<Rightarrow> string io" where
  "shared_project_code dv qw projectID =
     (if \<not> dv_Shared dv then io_error (''project '' @ go_quote projectID @ '' has no local operation project code'')
      else io_bind (io_ask dv (\<lambda>k. qw_SharedProjectCode qw k projectID)) (\<lambda>rows.
        case rows of
          [code] \<Rightarrow> io_require (ValidateProjectCode code = None)
            (''project '' @ go_quote projectID @ '' has invalid local operation project code'') (io_return code)
        | _ \<Rightarrow> io_error (''project '' @ go_quote projectID @ '' has no local operation project code'')))"

definition session_project_code :: "driver \<Rightarrow> queue_world \<Rightarrow> string \<Rightarrow> string \<Rightarrow> string option io" where
  "session_project_code dv qw sessionID projectID =
     (if sessionID = [] then io_return None
      else io_bind (io_try (io_ask dv (\<lambda>k. qw_Session qw k sessionID))) (\<lambda>found.
        io_return (case found of
          Inr (project, code) \<Rightarrow> if project = projectID \<and> ValidateProjectCode code = None then Some code else None
        | Inl _ \<Rightarrow> None)))"

definition localOperationProjectCode :: "driver \<Rightarrow> queue_world \<Rightarrow> string \<Rightarrow> string \<Rightarrow> string io" where
  "localOperationProjectCode dv qw sessionID projectID =
     (if \<not> dv_Local dv then io_error ''local durability is unavailable''
      else io_bind (io_try (project_of dv (qw_world qw) projectID)) (\<lambda>found.
        case found of
          Inr project \<Rightarrow>
            if pc_ProjectCode project \<noteq> [] then io_check (ValidateProjectCode (pc_ProjectCode project)) (io_return (pc_ProjectCode project))
            else io_bind (session_project_code dv qw sessionID projectID) (\<lambda>code.
              case code of Some c \<Rightarrow> io_return c | None \<Rightarrow> shared_project_code dv qw projectID)
        | Inl _ \<Rightarrow> io_bind (session_project_code dv qw sessionID projectID) (\<lambda>code.
              case code of Some c \<Rightarrow> io_return c | None \<Rightarrow> shared_project_code dv qw projectID)))"

section \<open>Equivalent operations\<close>

definition durableMutationTurnAfter :: "durableMutationOperation \<Rightarrow> durableMutationOperation \<Rightarrow> bool" where
  "durableMutationTurnAfter candidate current =
     (let tie = (if gt_ns (dmo_CreatedAt candidate) \<noteq> gt_ns (dmo_CreatedAt current)
                 then time_after (dmo_CreatedAt candidate) (dmo_CreatedAt current)
                 else if gt_ns (dmo_UpdatedAt candidate) \<noteq> gt_ns (dmo_UpdatedAt current)
                 then time_after (dmo_UpdatedAt candidate) (dmo_UpdatedAt current)
                 else dmo_OperationID current < dmo_OperationID candidate)
      in case (ParseOperationID (dmo_OperationID candidate), ParseOperationID (dmo_OperationID current)) of
           (Inr (_, a), Inr (_, b)) \<Rightarrow> if a \<noteq> b then b < a else tie
         | _ \<Rightarrow> tie)"

fun latest_operation :: "durableMutationOperation option \<Rightarrow> durableMutationOperation list \<Rightarrow> durableMutationOperation option" where
  "latest_operation found [] = found"
| "latest_operation found (v # vs) =
     latest_operation (case found of None \<Rightarrow> Some v | Some l \<Rightarrow> if durableMutationTurnAfter v l then Some v else Some l) vs"

definition operation_identity :: "LocalOperation \<Rightarrow> durableMutationOperation \<Rightarrow> bool" where
  "operation_identity l v \<longleftrightarrow>
     (case ParseOperationID (dmo_OperationID v) of Inl _ \<Rightarrow> False
      | Inr (code, n) \<Rightarrow> code = lop_ProjectCode l \<and> int n = lop_OperationNumber l)
     \<and> dmo_OperationID v = lop_OperationID l \<and> dmo_ProjectID v = lop_ProjectID l \<and> dmo_Kind v = lop_Kind l
     \<and> dmo_RequestSHA256 v = lop_MutationID l"

definition equivalentDurableMutation ::
  "driver \<Rightarrow> LocalOperation \<Rightarrow> string \<Rightarrow> string \<Rightarrow> string \<Rightarrow> durableMutationOperation io" where
  "equivalentDurableMutation dv l projectCode sessionID input =
     (let what = ''equivalent Local operation '' @ lop_OperationID l in
      io_check (fail_if (lop_ProjectCode l \<noteq> projectCode \<or> lop_AdmissionSessionID l \<noteq> sessionID
          \<or> lop_AdmissionInputSHA256 l \<noteq> durableMutationInputSHA256 input) (what @ '' admission coordinate mismatch''))
      (io_bind (io_wrap (what @ '' is corrupt: '') (readDurableMutation dv (lop_OperationID l))) (\<lambda>v.
       io_check (first_error
         [fail_if (\<not> operation_identity l v) (what @ '' identity mismatch''),
          fail_if (dmo_SessionID v \<noteq> sessionID) (what @ '' session coordinate mismatch''),
          fail_if (\<not> durableMutationKnownStatus (dmo_Status v)) (what @ '' has invalid status'')])
       (case durableMutationInputEqual (dmo_Input v) input of
          Inl m \<Rightarrow> io_error (what @ '' input is corrupt: '' @ m)
        | Inr same \<Rightarrow> io_require same (what @ '' admission input mismatch'') (io_return v)))))"

fun equivalent_operations ::
  "driver \<Rightarrow> string \<Rightarrow> string \<Rightarrow> string \<Rightarrow> LocalOperation list \<Rightarrow> durableMutationOperation list io" where
  "equivalent_operations dv projectCode sessionID input [] = io_return []"
| "equivalent_operations dv projectCode sessionID input (l # ls) =
     io_bind (equivalentDurableMutation dv l projectCode sessionID input) (\<lambda>v.
     io_bind (equivalent_operations dv projectCode sessionID input ls) (\<lambda>vs. io_return (v # vs)))"

definition findLatestEquivalentDurableMutation ::
  "driver \<Rightarrow> string \<Rightarrow> string \<Rightarrow> string \<Rightarrow> string \<Rightarrow> string \<Rightarrow> durableMutationOperation option io" where
  "findLatestEquivalentDurableMutation dv kind projectID projectCode sessionID input =
     io_bind (ListLocalOperationsByAdmissionCoordinate dv projectID kind sessionID (durableMutationInputSHA256 input)) (\<lambda>ls.
     io_bind (equivalent_operations dv projectCode sessionID input ls) (\<lambda>vs. io_return (latest_operation None vs)))"

section \<open>Operations of older releases\<close>

fun adopted_value :: "string \<Rightarrow> string \<Rightarrow> json \<Rightarrow> json \<times> bool" where
  "adopted_value legacyID operationID (J_object ms) =
     (let rs = map (\<lambda>(k, v). if (unquote k = ''operation_id'' \<or> unquote k = ''gateway_operation_id'')
              \<and> (case v of J_string raw \<Rightarrow> unquote raw = legacyID | _ \<Rightarrow> False)
            then (k, J_string (tl (butlast (json_string operationID))), True)
            else (case adopted_value legacyID operationID v of (v', changed) \<Rightarrow> (k, v', changed))) ms
      in (J_object (map (\<lambda>(k, v, _). (k, v)) rs), list_ex (\<lambda>(_, _, changed). changed) rs))"
| "adopted_value legacyID operationID (J_array vs) =
     (let rs = map (adopted_value legacyID operationID) vs in (J_array (map fst rs), list_ex snd rs))"
| "adopted_value legacyID operationID v = (v, False)"

text \<open>\<open>json.Marshal\<close> of a decoded value: members sorted, the last of a name, strings encoded anew.\<close>

fun marshal_value :: "json \<Rightarrow> string" where
  "marshal_value J_null = ''null''"
| "marshal_value (J_bool b) = json_bool b"
| "marshal_value (J_number raw) = raw"
| "marshal_value (J_string raw) = json_string (unquote raw)"
| "marshal_value (J_array vs) = json_list (map marshal_value vs)"
| "marshal_value (J_object ms) =
     (let es = map (\<lambda>(k, v). (unquote k, marshal_value v)) ms
      in json_object (map (\<lambda>k. (k, the (map_of (rev es) k))) (sort (remdups (map fst es)))))"

definition canonicalizeAdoptedOperationJSON :: "string \<Rightarrow> string \<Rightarrow> string \<Rightarrow> string result" where
  "canonicalizeAdoptedOperationJSON raw legacyID operationID =
     (if raw = [] then Ok []
      else case json_parse raw of
        None \<Rightarrow> Err ''invalid character in JSON''
      | Some v \<Rightarrow> (case adopted_value legacyID operationID v of
           (v', changed) \<Rightarrow> Ok (if changed then marshal_value v' else raw)))"

definition adopted_operation :: "string \<Rightarrow> string \<Rightarrow> durableMutationOperation \<Rightarrow> durableMutationOperation result" where
  "adopted_operation operationID mutationID v =
     (case canonicalizeAdoptedOperationJSON (dmo_Input v) (dmo_OperationID v) operationID of
        Inl m \<Rightarrow> Err (''canonicalize legacy durable mutation input: '' @ m)
      | Inr input \<Rightarrow>
          (case canonicalizeAdoptedOperationJSON (dmo_Result v) (dmo_OperationID v) operationID of
             Inl m \<Rightarrow> Err (''canonicalize legacy durable mutation result: '' @ m)
           | Inr result \<Rightarrow> Ok (v\<lparr>dmo_Input := input, dmo_Result := result, dmo_OperationID := operationID,
               dmo_MutationID := mutationID\<rparr>)))"

definition adoptLegacyDurableMutationForRequest ::
  "driver \<Rightarrow> string \<Rightarrow> string \<Rightarrow> string \<Rightarrow> string \<Rightarrow> durableMutationOperation option io" where
  "adoptLegacyDurableMutationForRequest dv operationID projectID kind digest =
     io_bind (io_try (readDurableMutation dv (''mutation-'' @ digest))) (\<lambda>found.
       case found of
         Inl (NotExist _) \<Rightarrow> io_return None
       | Inl e \<Rightarrow> io_fail e
       | Inr legacy \<Rightarrow>
           io_check (fail_if (dmo_RequestSHA256 legacy \<noteq> digest \<or> dmo_ProjectID legacy \<noteq> projectID \<or> dmo_Kind legacy \<noteq> kind)
             ''legacy durable mutation identity mismatch'')
           (io_bind (io_value (adopted_operation operationID digest legacy)) (\<lambda>v.
            io_bind (writeDurableMutation dv v) (\<lambda>_. io_return (Some v)))))"

definition adoptLegacyDurableMutationOnStartup ::
  "driver \<Rightarrow> queue_world \<Rightarrow> durableMutationOperation \<Rightarrow> durableMutationOperation option io" where
  "adoptLegacyDurableMutationOnStartup dv qw legacy =
     (if no_durability dv then io_return None
      else io_bind (localOperationProjectCode dv qw [] (dmo_ProjectID legacy)) (\<lambda>code.
        io_bind (queue_now dv qw) (\<lambda>now.
        io_bind (AllocateLocalOperation dv (dmo_ProjectID legacy) code (dmo_RequestSHA256 legacy) (dmo_Kind legacy) now) (\<lambda>l.
        io_bind (io_try (readDurableMutation dv (lop_OperationID l))) (\<lambda>found.
          case found of
            Inr v \<Rightarrow>
              io_check (fail_if (dmo_RequestSHA256 v \<noteq> dmo_RequestSHA256 legacy \<or> dmo_Kind v \<noteq> dmo_Kind legacy
                  \<or> dmo_ProjectID v \<noteq> dmo_ProjectID legacy) ''adopted durable mutation identity mismatch'')
              (io_return (Some v))
          | Inl (NotExist _) \<Rightarrow>
              io_bind (io_value (adopted_operation (lop_OperationID l) (lop_MutationID l) legacy)) (\<lambda>v.
              io_bind (writeDurableMutation dv v) (\<lambda>_. io_return (Some v)))
          | Inl e \<Rightarrow> io_fail e)))))"

section \<open>Admission\<close>

text \<open>A request as it comes in: its kind and project, its input and identity as JSON, the session and what follows from them.\<close>

record admission =
  am_kind :: string
  am_projectID :: string
  am_projectCode :: string
  am_sessionID :: string
  am_input :: string
  am_identity :: "string option"
  am_now :: gotime

definition admission_digest :: "admission \<Rightarrow> string" where
  "admission_digest a = durableMutationDigestWithIdentity (am_kind a) (am_sessionID a) (am_input a) (am_identity a)"

definition freshDurableMutationDigest :: "driver \<Rightarrow> queue_world \<Rightarrow> admission \<Rightarrow> string io" where
  "freshDurableMutationDigest dv qw a =
     io_bind (io_wrap ''create server-owned Agent turn identity: '' (io_ask dv (qw_Random qw))) (\<lambda>turn.
       io_return (durableMutationDigestWithIdentity (am_kind a) (am_sessionID a) (am_input a) (Some turn)))"

definition allocate_with :: "driver \<Rightarrow> bool \<Rightarrow> admission \<Rightarrow> string \<Rightarrow> string io" where
  "allocate_with dv coordinate a mutationID =
     io_bind (if coordinate
              then AllocateLocalOperationWithAdmissionCoordinate dv (am_projectID a) (am_projectCode a) mutationID (am_kind a)
                (am_sessionID a) (durableMutationInputSHA256 (am_input a)) (am_now a)
              else AllocateLocalOperation dv (am_projectID a) (am_projectCode a) mutationID (am_kind a) (am_now a))
       (\<lambda>l. io_return (lop_OperationID l))"

definition new_operation :: "admission \<Rightarrow> string \<Rightarrow> string \<Rightarrow> string \<Rightarrow> durableMutationOperation" where
  "new_operation a operationID mutationID retriedFrom = zero_durable
     \<lparr>dmo_SchemaVersion := durableMutationSchemaVersion, dmo_OperationID := operationID, dmo_MutationID := mutationID,
      dmo_Kind := am_kind a, dmo_RequestSHA256 := mutationID, dmo_SessionID := am_sessionID a, dmo_ProjectID := am_projectID a,
      dmo_Input := am_input a, dmo_Status := ''accepted'', dmo_RetriedFrom := retriedFrom,
      dmo_CapturedState := (case am_identity a of None \<Rightarrow> [] | Some raw \<Rightarrow> raw),
      dmo_CreatedAt := am_now a, dmo_UpdatedAt := am_now a\<rparr>"

definition same_request :: "admission \<Rightarrow> string \<Rightarrow> durableMutationOperation \<Rightarrow> error" where
  "same_request a digest v = fail_if (dmo_RequestSHA256 v \<noteq> digest \<or> dmo_Kind v \<noteq> am_kind a) ''durable mutation identity mismatch''"

text \<open>A failed operation, or one of unknown outcome, is accepted once more.\<close>

definition accept_again :: "driver \<Rightarrow> gotime \<Rightarrow> durableMutationOperation \<Rightarrow> durableMutationOperation io" where
  "accept_again dv now v =
     (if dmo_Status v = ''failed'' \<or> dmo_Status v = ''outcome_unknown''
      then let v' = v\<lparr>dmo_Status := ''accepted'', dmo_Error := [], dmo_UpdatedAt := now\<rparr> in
        io_bind (writeDurableMutation dv v') (\<lambda>_. io_return v')
      else io_return v)"

definition create_operation :: "driver \<Rightarrow> admission \<Rightarrow> string \<Rightarrow> string \<Rightarrow> string \<Rightarrow> durableMutationOperation io" where
  "create_operation dv a operationID digest retriedFrom =
     (let v = new_operation a operationID digest retriedFrom in io_bind (writeDurableMutation dv v) (\<lambda>_. io_return v))"

definition fresh_operation ::
  "driver \<Rightarrow> queue_world \<Rightarrow> admission \<Rightarrow> ((store_error + durableMutationOperation) \<times> string \<times> string) io" where
  "fresh_operation dv qw a =
     io_bind (freshDurableMutationDigest dv qw a) (\<lambda>digest.
     io_bind (allocate_with dv True a digest) (\<lambda>operationID.
     io_bind (io_try (readDurableMutation dv operationID)) (\<lambda>found. io_return (found, digest, operationID))))"

text \<open>What stands under the digest of the request; a repeatable request moves on behind a finished turn.\<close>

definition standing_operation ::
  "driver \<Rightarrow> queue_world \<Rightarrow> bool \<Rightarrow> admission \<Rightarrow> string \<Rightarrow> string
   \<Rightarrow> ((store_error + durableMutationOperation) \<times> string \<times> string) io" where
  "standing_operation dv qw fresh a digest operationID =
     io_bind (io_try (readDurableMutation dv operationID)) (\<lambda>found.
       case found of
         Inl e \<Rightarrow> io_return (Inl e, digest, operationID)
       | Inr v \<Rightarrow>
           io_check (same_request a digest v)
           (if \<not> fresh \<or> \<not> durableMutationTerminal (dmo_Status v) then io_return (Inr v, digest, operationID)
            else io_bind (findLatestEquivalentDurableMutation dv (am_kind a) (am_projectID a) (am_projectCode a)
                (am_sessionID a) (am_input a)) (\<lambda>latest.
              case latest of
                Some l \<Rightarrow> if dmo_Status l \<noteq> ''completed'' then io_return (Inr l, dmo_RequestSHA256 l, dmo_OperationID l)
                  else fresh_operation dv qw a
              | None \<Rightarrow> fresh_operation dv qw a)))"

text \<open>The next turn of a repeatable request.\<close>

definition renewed_operation :: "driver \<Rightarrow> queue_world \<Rightarrow> admission \<Rightarrow> durableMutationOperation io" where
  "renewed_operation dv qw a =
     io_bind (fresh_operation dv qw a) (\<lambda>(found, digest, operationID).
       case found of
         Inr v \<Rightarrow> io_check (same_request a digest v) (io_return v)
       | Inl (NotExist _) \<Rightarrow> create_operation dv a operationID digest []
       | Inl e \<Rightarrow> io_fail e)"

definition adopt_or_create ::
  "driver \<Rightarrow> queue_world \<Rightarrow> bool \<Rightarrow> admission \<Rightarrow> string \<Rightarrow> string \<Rightarrow> durableMutationOperation io" where
  "adopt_or_create dv qw fresh a digest operationID =
     io_bind (adoptLegacyDurableMutationForRequest dv operationID (am_projectID a) (am_kind a) digest) (\<lambda>adopted.
       case adopted of
         None \<Rightarrow> create_operation dv a operationID digest []
       | Some legacy \<Rightarrow>
           if \<not> (fresh \<and> durableMutationTerminal (dmo_Status legacy)) then accept_again dv (am_now a) legacy
           else io_bind (findLatestEquivalentDurableMutation dv (am_kind a) (am_projectID a) (am_projectCode a)
               (am_sessionID a) (am_input a)) (\<lambda>latest.
             case latest of
               Some l \<Rightarrow> if \<not> durableMutationTerminal (dmo_Status l) then accept_again dv (am_now a) l
                 else renewed_operation dv qw a
             | None \<Rightarrow> renewed_operation dv qw a))"

definition admitted ::
  "driver \<Rightarrow> queue_world \<Rightarrow> string \<Rightarrow> string \<Rightarrow> string \<Rightarrow> string option \<Rightarrow> (admission \<Rightarrow> 'a io) \<Rightarrow> 'a io" where
  "admitted dv qw kind projectID input identity m =
     io_check (ValidateProjectIdentifier projectID)
     (io_check (fail_if (no_durability dv) ''local durability is unavailable'')
     (io_bind (localOperationProjectCode dv qw (qw_session qw) projectID) (\<lambda>code.
      io_bind (queue_now dv qw) (\<lambda>now.
        m \<lparr>am_kind = kind, am_projectID = projectID, am_projectCode = code, am_sessionID = qw_session qw, am_input = input,
           am_identity = identity, am_now = now\<rparr>))))"

definition enqueueTypedDurableMutationWithPolicy ::
  "driver \<Rightarrow> queue_world \<Rightarrow> string \<Rightarrow> string \<Rightarrow> string \<Rightarrow> string option \<Rightarrow> bool \<Rightarrow> durableMutationOperation io" where
  "enqueueTypedDurableMutationWithPolicy dv qw kind projectID input identity fresh =
     admitted dv qw kind projectID input identity (\<lambda>a.
     io_bind (allocate_with dv fresh a (admission_digest a)) (\<lambda>operationID.
     io_bind (standing_operation dv qw fresh a (admission_digest a) operationID) (\<lambda>(found, digest, operationID).
       case found of
         Inr v \<Rightarrow> io_check (same_request a digest v) (accept_again dv (am_now a) v)
       | Inl (NotExist _) \<Rightarrow> adopt_or_create dv qw fresh a digest operationID
       | Inl e \<Rightarrow> io_fail e)))"

definition enqueueTypedDurableMutation ::
  "driver \<Rightarrow> queue_world \<Rightarrow> string \<Rightarrow> string \<Rightarrow> string \<Rightarrow> durableMutationOperation io" where
  "enqueueTypedDurableMutation dv qw kind projectID input =
     enqueueTypedDurableMutationWithPolicy dv qw kind projectID input None False"

definition enqueueTypedDurableMutationWithIdentity ::
  "driver \<Rightarrow> queue_world \<Rightarrow> string \<Rightarrow> string \<Rightarrow> string \<Rightarrow> string option \<Rightarrow> durableMutationOperation io" where
  "enqueueTypedDurableMutationWithIdentity dv qw kind projectID input identity =
     enqueueTypedDurableMutationWithPolicy dv qw kind projectID input identity False"

definition enqueueRepeatableAgentMutation ::
  "driver \<Rightarrow> queue_world \<Rightarrow> string \<Rightarrow> string \<Rightarrow> string \<Rightarrow> durableMutationOperation io" where
  "enqueueRepeatableAgentMutation dv qw kind projectID input =
     enqueueTypedDurableMutationWithPolicy dv qw kind projectID input None True"

section \<open>Attempts of a verification\<close>

definition maxTaskVerificationAttempts :: nat where "maxTaskVerificationAttempts = 5"

definition retry_admitted :: "driver \<Rightarrow> queue_world \<Rightarrow> admission \<Rightarrow> string \<Rightarrow> durableMutationOperation io" where
  "retry_admitted dv qw a retriedFrom =
     io_bind (fresh_operation dv qw a) (\<lambda>(found, digest, operationID).
       case found of
         Inr v \<Rightarrow> io_check (same_request a digest v) (io_return v)
       | Inl (NotExist _) \<Rightarrow> create_operation dv a operationID digest retriedFrom
       | Inl e \<Rightarrow> io_fail e)"

definition retry_attempt :: "driver \<Rightarrow> queue_world \<Rightarrow> admission \<Rightarrow> durableMutationOperation \<Rightarrow> durableMutationOperation io" where
  "retry_attempt dv qw a failed =
     io_bind (ListLocalOperationsByAdmissionCoordinate dv (am_projectID a) (am_kind a) (am_sessionID a)
         (durableMutationInputSHA256 (am_input a))) (\<lambda>ls.
     io_bind (equivalent_operations dv (am_projectCode a) (am_sessionID a) (am_input a) ls) (\<lambda>vs.
       let identity = (case am_identity a of None \<Rightarrow> [] | Some raw \<Rightarrow> raw);
           any = latest_operation None vs; same = latest_operation None (filter (\<lambda>v. dmo_CapturedState v = identity) vs);
           in_flight = (case any of None \<Rightarrow> False | Some l \<Rightarrow> \<not> durableMutationTerminal (dmo_Status l))
       in if in_flight
          then (if map_option dmo_OperationID same = map_option dmo_OperationID any then io_return (the any)
                else io_error ''Task verification is already in flight'')
          else if (case same of None \<Rightarrow> False | Some l \<Rightarrow> dmo_Status l = ''completed'' \<or> dmo_Status l = ''outcome_unknown'')
          then io_return (the same)
          else if maxTaskVerificationAttempts \<le> length ls
          then io_error ''Task verification attempt bound reached; the failed receipt stays terminal and requires explicit workflow action''
          else retry_admitted dv qw a (case same of None \<Rightarrow> dmo_OperationID failed | Some l \<Rightarrow> dmo_OperationID l)))"

definition enqueueTaskVerificationAttempt ::
  "driver \<Rightarrow> queue_world \<Rightarrow> string \<Rightarrow> string \<Rightarrow> string \<Rightarrow> string option \<Rightarrow> durableMutationOperation io" where
  "enqueueTaskVerificationAttempt dv qw kind projectID input identity =
     admitted dv qw kind projectID input identity (\<lambda>a.
     io_bind (allocate_with dv True a (admission_digest a)) (\<lambda>operationID.
     io_bind (io_try (readDurableMutation dv operationID)) (\<lambda>found.
       case found of
         Inl (NotExist _) \<Rightarrow> create_operation dv a operationID (admission_digest a) []
       | Inl e \<Rightarrow> io_fail e
       | Inr v \<Rightarrow>
           io_check (same_request a (admission_digest a) v)
           (if dmo_Status v \<noteq> ''failed'' then io_return v else retry_attempt dv qw a v))))"

section \<open>Hooks after agent work\<close>

definition procedureExecutionKind :: string where "procedureExecutionKind = ''procedure-execution''"

record ProjectProcedureDefinition =
  ppd_Script :: string
  ppd_Summary :: string
  ppd_Guide :: string
  ppd_Input :: "(string \<times> json) list option"
  ppd_Output :: "(string \<times> json) list option"

record procedureExecutionRequest =
  pxr_Version :: string
  pxr_ProjectID :: string
  pxr_Name :: string
  pxr_ConfigurationRevision :: int
  pxr_Definition :: ProjectProcedureDefinition
  pxr_Input :: string
  pxr_SessionID :: string
  pxr_Hook :: string
  pxr_ParentOperationID :: string
  pxr_ExecutionRoot :: string

definition zero_definition :: ProjectProcedureDefinition where
  "zero_definition = \<lparr>ppd_Script = [], ppd_Summary = [], ppd_Guide = [], ppd_Input = None, ppd_Output = None\<rparr>"

definition zero_request :: procedureExecutionRequest where
  "zero_request = \<lparr>pxr_Version = [], pxr_ProjectID = [], pxr_Name = [], pxr_ConfigurationRevision = 0,
     pxr_Definition = zero_definition, pxr_Input = [], pxr_SessionID = [], pxr_Hook = [], pxr_ParentOperationID = [],
     pxr_ExecutionRoot = []\<rparr>"

definition dec_any_map :: "((string \<times> json) list option \<Rightarrow> 'r \<Rightarrow> 'r) \<Rightarrow> 'r field_decoder" where
  "dec_any_map upd v r = (case v of J_object ms \<Rightarrow> Some (upd (Some ms) r) | J_null \<Rightarrow> Some (upd None r) | _ \<Rightarrow> None)"

definition definition_fields :: "(string \<times> ProjectProcedureDefinition field_decoder) list" where
  "definition_fields =
     [(''script'', dec_string (\<lambda>x r. r\<lparr>ppd_Script := x\<rparr>)), (''summary'', dec_string (\<lambda>x r. r\<lparr>ppd_Summary := x\<rparr>)),
      (''guide'', dec_string (\<lambda>x r. r\<lparr>ppd_Guide := x\<rparr>)), (''input'', dec_any_map (\<lambda>x r. r\<lparr>ppd_Input := x\<rparr>)),
      (''output'', dec_any_map (\<lambda>x r. r\<lparr>ppd_Output := x\<rparr>))]"

definition request_fields :: "(string \<times> procedureExecutionRequest field_decoder) list" where
  "request_fields =
     [(''version'', dec_string (\<lambda>x r. r\<lparr>pxr_Version := x\<rparr>)), (''project_id'', dec_string (\<lambda>x r. r\<lparr>pxr_ProjectID := x\<rparr>)),
      (''name'', dec_string (\<lambda>x r. r\<lparr>pxr_Name := x\<rparr>)),
      (''configuration_revision'', dec_int64 (\<lambda>x r. r\<lparr>pxr_ConfigurationRevision := x\<rparr>)),
      (''definition'', \<lambda>v r. map_option (\<lambda>x. r\<lparr>pxr_Definition := x\<rparr>)
         (decode_struct False definition_fields v (pxr_Definition r))),
      (''input'', \<lambda>_ r. Some r), (''session_id'', dec_string (\<lambda>x r. r\<lparr>pxr_SessionID := x\<rparr>)),
      (''hook'', dec_string (\<lambda>x r. r\<lparr>pxr_Hook := x\<rparr>)),
      (''parent_operation_id'', dec_string (\<lambda>x r. r\<lparr>pxr_ParentOperationID := x\<rparr>)),
      (''execution_root'', dec_string (\<lambda>x r. r\<lparr>pxr_ExecutionRoot := x\<rparr>))]"

definition decode_request :: "string \<Rightarrow> procedureExecutionRequest option" where
  "decode_request s = map_option (\<lambda>r. r\<lparr>pxr_Input := raw_field ''input'' s\<rparr>) (json_Unmarshal request_fields zero_request s)"

definition procedureEpochFromInput :: "string \<Rightarrow> string" where
  "procedureEpochFromInput input =
     (case json_parse input of
        Some (J_object ms) \<Rightarrow>
          fold (\<lambda>(name, v) old. if fold_name (unquote name) = fold_name ''epoch'' then lenient_string v old else old) ms []
      | _ \<Rightarrow> [])"

definition recordAgentWorkFinishedOperationOutcome :: "driver \<Rightarrow> durableMutationOperation \<Rightarrow> unit io" where
  "recordAgentWorkFinishedOperationOutcome dv v =
     (if dmo_Kind v \<noteq> procedureExecutionKind \<or> no_durability dv then io_return ()
      else case decode_request (dmo_Input v) of
        None \<Rightarrow> io_return ()
      | Some r \<Rightarrow>
          if pxr_Hook r \<noteq> ''post_agent_work_finished'' \<or> pxr_ParentOperationID r \<noteq> [] then io_return ()
          else RecordCallbackEpochOperationOutcome dv (procedureEpochFromInput (pxr_Input r)) (dmo_OperationID v) (dmo_Status v)
            (dmo_UpdatedAt v))"

definition recoverNonReplayableProcedureOperation ::
  "driver \<Rightarrow> queue_world \<Rightarrow> durableMutationOperation \<Rightarrow> unit io" where
  "recoverNonReplayableProcedureOperation dv qw v =
     io_bind (io_now dv (qw_world qw)) (\<lambda>now.
     let v' = v\<lparr>dmo_Status := ''outcome_unknown'', dmo_Error := ''Procedure execution was not replayed after Gateway restart'',
           dmo_RecoveryReason := ''Procedure execution may have crossed its external side-effect boundary before restart'',
           dmo_Result := [], dmo_UpdatedAt := to_utc now\<rparr> in
     io_bind (writeDurableMutation dv v') (\<lambda>_. recordAgentWorkFinishedOperationOutcome dv v'))"

section \<open>Running\<close>

datatype run_outcome =
    Run_result string
  | Run_failed string
  | Run_unproven string
  | Run_timed_out string

type_synonym executor = "durableMutationOperation \<Rightarrow> run_outcome io"

definition finished_operation :: "run_outcome \<Rightarrow> gotime \<Rightarrow> durableMutationOperation \<Rightarrow> durableMutationOperation" where
  "finished_operation outcome now v =
     (let v = v\<lparr>dmo_UpdatedAt := now\<rparr>; attempts = taskLifecycleHookAttempts (dmo_Result v);
          unproven = (\<lambda>m reason. v\<lparr>dmo_Status := ''outcome_unknown'', dmo_RecoveryReason := reason, dmo_Error := m,
            dmo_Result := mergeTaskLifecycleHookAttempts [] attempts\<rparr>)
      in case outcome of
           Run_result r \<Rightarrow> v\<lparr>dmo_Status := ''completed'', dmo_Error := [], dmo_Result := mergeTaskLifecycleHookAttempts r attempts\<rparr>
         | Run_failed m \<Rightarrow> v\<lparr>dmo_Status := ''failed'', dmo_Error := m, dmo_Result := mergeTaskLifecycleHookAttempts [] attempts\<rparr>
         | Run_unproven m \<Rightarrow> unproven m ''Procedure outcome was not proven before the bounded execution ended''
         | Run_timed_out m \<Rightarrow> unproven m ''bounded worker context ended before the Operation outcome was proven'')"

definition finish_operation :: "driver \<Rightarrow> queue_world \<Rightarrow> string \<Rightarrow> run_outcome \<Rightarrow> unit io" where
  "finish_operation dv qw operationID outcome =
     io_bind (io_try (readDurableMutation dv operationID)) (\<lambda>found.
       case found of
         Inl _ \<Rightarrow> io_return ()
       | Inr v \<Rightarrow> io_bind (queue_now dv qw) (\<lambda>now.
           let v' = finished_operation outcome now v in
           io_bind (io_try (writeDurableMutation dv v')) (\<lambda>r.
             case r of
               Inl _ \<Rightarrow> io_return ()
             | Inr _ \<Rightarrow> if dmo_Kind v' = procedureExecutionKind then io_ignore (recordAgentWorkFinishedOperationOutcome dv v')
                        else io_return ())))"

text \<open>One worker, \<open>active\<close> when another one of the process has the operation in hand.\<close>

definition processDurableMutation :: "driver \<Rightarrow> queue_world \<Rightarrow> executor \<Rightarrow> bool \<Rightarrow> string \<Rightarrow> unit io" where
  "processDurableMutation dv qw execute active operationID =
     io_bind (io_try (readDurableMutation dv operationID)) (\<lambda>found.
       case found of
         Inl _ \<Rightarrow> io_return ()
       | Inr v \<Rightarrow>
           if durableMutationTerminal (dmo_Status v) \<or> active then io_return ()
           else io_bind (queue_now dv qw) (\<lambda>now.
             let v' = v\<lparr>dmo_Status := ''running'', dmo_UpdatedAt := now\<rparr> in
             io_bind (io_try (writeDurableMutation dv v')) (\<lambda>r.
               case r of
                 Inl _ \<Rightarrow> io_return ()
               | Inr _ \<Rightarrow> io_bind (execute v') (finish_operation dv qw operationID))))"

section \<open>After a restart\<close>

definition replayDurableMutationOnStartup :: "string \<Rightarrow> bool" where
  "replayDurableMutationOnStartup status \<longleftrightarrow> status = ''accepted'' \<or> status = ''running''"

definition recoverRunningDurableMutation :: "driver \<Rightarrow> queue_world \<Rightarrow> durableMutationOperation \<Rightarrow> unit io" where
  "recoverRunningDurableMutation dv qw v =
     (if dmo_Status v \<noteq> ''running'' then io_return ()
      else io_bind (queue_now dv qw) (\<lambda>now. writeDurableMutation dv (v\<lparr>dmo_Status := ''accepted'', dmo_Error := [],
        dmo_RecoveryReason := ''recovered after Gateway restart; retry is idempotent'', dmo_UpdatedAt := now\<rparr>)))"

definition recover_operation :: "driver \<Rightarrow> queue_world \<Rightarrow> durableMutationOperation \<Rightarrow> unit io" where
  "recover_operation dv qw v =
     (if durableMutationTerminal (dmo_Status v)
      then io_bind (if dmo_Kind v = procedureExecutionKind then io_ignore (recordAgentWorkFinishedOperationOutcome dv v)
                    else io_return ()) (\<lambda>_.
        io_bind (queue_now dv qw) (\<lambda>now.
          case reconcilePendingTaskLifecycleHook now v of
            (v', changed) \<Rightarrow> if changed then writeDurableMutation dv v' else io_return ()))
      else if \<not> replayDurableMutationOnStartup (dmo_Status v) then io_return ()
      else if dmo_Kind v = procedureExecutionKind then recoverNonReplayableProcedureOperation dv qw v
      else if dmo_Status v = ''running'' \<and> pendingTaskLifecycleHookPhase v \<noteq> []
      then io_bind (queue_now dv qw) (\<lambda>now. io_bind (io_now dv (qw_world qw)) (\<lambda>at.
        writeDurableMutation dv ((fst (reconcilePendingTaskLifecycleHook now v))
          \<lparr>dmo_Status := ''outcome_unknown'', dmo_Error := ''Task lifecycle Hook outcome was not proven before Gateway restart'',
           dmo_RecoveryReason := ''a claimed Hook invocation is never replayed'', dmo_UpdatedAt := to_utc at\<rparr>)))
      else recoverRunningDurableMutation dv qw v)"

definition recover_file :: "driver \<Rightarrow> queue_world \<Rightarrow> string \<Rightarrow> unit io" where
  "recover_file dv qw operationID =
     io_bind (readDurableMutation dv operationID) (\<lambda>v.
       if ValidateOperationID operationID \<noteq> None \<and> HasPrefix operationID ''mutation-''
       then io_bind (adoptLegacyDurableMutationOnStartup dv qw v) (\<lambda>adopted.
         recover_operation dv qw (case adopted of None \<Rightarrow> v | Some v' \<Rightarrow> v'))
       else recover_operation dv qw v)"

fun recover_files :: "driver \<Rightarrow> queue_world \<Rightarrow> string list \<Rightarrow> unit io" where
  "recover_files dv qw [] = io_return ()"
| "recover_files dv qw (name # names) = io_bind (io_ignore (recover_file dv qw name)) (\<lambda>_. recover_files dv qw names)"

definition startDurableMutationWorker :: "driver \<Rightarrow> queue_world \<Rightarrow> unit io" where
  "startDurableMutationWorker dv qw =
     io_bind (io_query dv (\<lambda>db. sort (map fst (qd_files (sd_queue db))))) (recover_files dv qw)"

section \<open>Receipts\<close>

record OperationReadResult =
  orr_OperationID :: string
  orr_Kind :: string
  orr_Status :: string
  orr_ProjectID :: string
  orr_Result :: string
  orr_Error :: string
  orr_RecoveryReason :: string
  orr_CreatedAt :: gotime
  orr_UpdatedAt :: gotime

definition readCanonicalOperation :: "driver \<Rightarrow> string \<Rightarrow> OperationReadResult io" where
  "readCanonicalOperation dv operationID =
     io_check (fail_if (no_durability dv) ''local durability is unavailable'')
     (io_bind (ReadLocalOperation dv operationID) (\<lambda>l. io_return
        \<lparr>orr_OperationID = lop_OperationID l, orr_Kind = lop_Kind l, orr_Status = lop_Status l, orr_ProjectID = lop_ProjectID l,
         orr_Result = lop_ResultPayload l, orr_Error = lop_Error l, orr_RecoveryReason = lop_RecoveryReason l,
         orr_CreatedAt = lop_CreatedAt l, orr_UpdatedAt = lop_UpdatedAt l\<rparr>))"

definition operationTerminal :: "string \<Rightarrow> bool" where
  "operationTerminal status \<longleftrightarrow> status \<in> {''completed'', ''failed'', ''outcome_unknown''}"

end
