(* ===== verification/Queue_Laws.thy ===== *)
theory Queue_Laws
  imports Durable_Queue Execution_Service
begin

text \<open>
  What every statement of the durable queue keeps: operations are only added, under the next number of their project, and
  never change their identity; an epoch is claimed once, together with the operation that stands for it. Then the requests of
  the queue, one after the other, and that each of them keeps this. What an operation does when it runs is a parameter, and so
  are other writers; both must keep the invariant.
\<close>

section \<open>Lists that only grow\<close>

definition list_grows :: "('a \<Rightarrow> 'a \<Rightarrow> bool) \<Rightarrow> 'a list \<Rightarrow> 'a list \<Rightarrow> bool" where
  "list_grows P xs ys \<longleftrightarrow> length xs \<le> length ys \<and> (\<forall>i < length xs. P (xs ! i) (ys ! i))"

lemma list_grows_map: "(\<And>x. x \<in> set xs \<Longrightarrow> P x (f x)) \<Longrightarrow> list_grows P xs (map f xs)"
  by (simp add: list_grows_def)

lemma list_grows_append: "(\<And>x. P x x) \<Longrightarrow> list_grows P xs (xs @ ys)"
  by (simp add: list_grows_def nth_append)

lemma list_grows_refl: "(\<And>x. P x x) \<Longrightarrow> list_grows P xs xs"
  by (simp add: list_grows_def)

lemma list_grows_trans:
  assumes "\<And>x y z. P x y \<Longrightarrow> P y z \<Longrightarrow> P x z" "list_grows P xs ys" "list_grows P ys zs"
  shows "list_grows P xs zs"
  using assms unfolding list_grows_def by (meson le_trans less_le_trans)

lemma list_grows_member:
  assumes "list_grows P xs ys" "x \<in> set xs"
  shows "\<exists>y \<in> set ys. P x y"
proof -
  obtain i where "i < length xs" "xs ! i = x" using assms(2) by (auto simp: in_set_conv_nth)
  then show ?thesis using assms(1) by (intro bexI [of _ "ys ! i"]) (auto simp: list_grows_def)
qed

section \<open>The invariant\<close>

definition operation_pin :: "operation_row \<Rightarrow> string \<times> string \<times> string \<times> int \<times> string \<times> string \<times> string" where
  "operation_pin r = (oo_operation_id r, oo_project_id r, oo_project_code r, oo_operation_number r, oo_mutation_id r,
     oo_kind r, oo_created_at r)"

definition epoch_pin :: "epoch_row \<Rightarrow> string \<times> string \<times> string \<times> string \<times> string \<times> string" where
  "epoch_pin e = (eh_epoch_id e, eh_project_id e, eh_agent_id e, eh_session_key e, eh_armed_at e, eh_session_id e)"

definition same_operation :: "operation_row \<Rightarrow> operation_row \<Rightarrow> bool" where
  "same_operation r r' \<longleftrightarrow> operation_pin r = operation_pin r'"

definition same_claim :: "epoch_row \<Rightarrow> epoch_row \<Rightarrow> bool" where
  "same_claim e e' \<longleftrightarrow> epoch_pin e = epoch_pin e'
     \<and> (eh_emitted_at e \<noteq> None \<longrightarrow> eh_emitted_at e' = eh_emitted_at e \<and> eh_operation_id e' = eh_operation_id e)"

definition numbered :: "queue_db \<Rightarrow> operation_row \<Rightarrow> bool" where
  "numbered q r \<longleftrightarrow> oo_operation_id r = operation_id (oo_project_code r) (oo_operation_number r) \<and> 1 \<le> oo_operation_number r
     \<and> (\<exists>n. qd_numbers q (oo_project_id r) = Some (oo_project_code r, n) \<and> oo_operation_number r < n)"

definition backed :: "operation_row list \<Rightarrow> epoch_row \<Rightarrow> bool" where
  "backed rows e \<longleftrightarrow> (\<forall>i. eh_operation_id e = Some i \<longrightarrow> eh_emitted_at e \<noteq> None
     \<and> (\<exists>r \<in> set rows. oo_operation_id r = i \<and> oo_project_id r = eh_project_id e))"

definition queue_wf :: "queue_db \<Rightarrow> bool" where
  "queue_wf q \<longleftrightarrow> distinct (map oo_operation_id (qd_operations q)) \<and> distinct (map oo_mutation_id (qd_operations q))
     \<and> (\<forall>r \<in> set (qd_operations q). numbered q r) \<and> (\<forall>p c n. qd_numbers q p = Some (c, n) \<longrightarrow> 1 \<le> n)
     \<and> distinct (map eh_epoch_id (qd_epochs q)) \<and> (\<forall>e \<in> set (qd_epochs q). backed (qd_operations q) e)"

definition queue_step :: "shared_db \<Rightarrow> shared_db \<Rightarrow> bool" where
  "queue_step a b \<longleftrightarrow> (queue_wf (sd_queue a) \<longrightarrow> queue_wf (sd_queue b))
     \<and> list_grows same_operation (qd_operations (sd_queue a)) (qd_operations (sd_queue b))
     \<and> list_grows same_claim (qd_epochs (sd_queue a)) (qd_epochs (sd_queue b))"

lemma same_operation_refl [simp]: "same_operation r r" by (simp add: same_operation_def)
lemma same_claim_refl [simp]: "same_claim e e" by (simp add: same_claim_def)

lemma queue_step_refl [simp]: "queue_step db db"
  by (simp add: queue_step_def list_grows_refl)

lemma same_operation_trans: "same_operation a b \<Longrightarrow> same_operation b c \<Longrightarrow> same_operation a c"
  by (simp add: same_operation_def)

lemma same_claim_trans: "same_claim a b \<Longrightarrow> same_claim b c \<Longrightarrow> same_claim a c"
  by (auto simp: same_claim_def)

lemma operations_trans:
  "list_grows same_operation xs ys \<Longrightarrow> list_grows same_operation ys zs \<Longrightarrow> list_grows same_operation xs zs"
  by (rule list_grows_trans) (rule same_operation_trans)

lemma claims_trans: "list_grows same_claim xs ys \<Longrightarrow> list_grows same_claim ys zs \<Longrightarrow> list_grows same_claim xs zs"
  by (rule list_grows_trans) (rule same_claim_trans)

lemma queue_step_trans: "queue_step a b \<Longrightarrow> queue_step b c \<Longrightarrow> queue_step a c"
  unfolding queue_step_def by (blast intro: operations_trans claims_trans)

lemma empty_queue_wf: "queue_wf empty_queue"
  by (simp add: queue_wf_def empty_queue_def)

lemma numbered_pin: "same_operation r r' \<Longrightarrow> numbered q r' = numbered q r"
  by (simp add: same_operation_def operation_pin_def numbered_def)

section \<open>Updates of rows\<close>

lemma map_if_pin: "(\<And>r. hit r \<Longrightarrow> g (f r) = g r) \<Longrightarrow> map g (map (\<lambda>r. if hit r then f r else r) rows) = map g rows"
  by simp

lemma backed_map:
  assumes "\<And>r. hit r \<Longrightarrow> same_operation r (f r)" "backed rows e"
  shows "backed (map (\<lambda>r. if hit r then f r else r) rows) e"
  unfolding backed_def
proof (intro allI impI)
  fix i
  assume i: "eh_operation_id e = Some i"
  then obtain r where r: "r \<in> set rows" "oo_operation_id r = i" "oo_project_id r = eh_project_id e" "eh_emitted_at e \<noteq> None"
    using assms(2) by (auto simp: backed_def)
  have "same_operation r (if hit r then f r else r)" using assms(1) by auto
  then have "oo_operation_id (if hit r then f r else r) = i \<and> oo_project_id (if hit r then f r else r) = eh_project_id e"
    using r by (simp add: same_operation_def operation_pin_def)
  moreover have "(if hit r then f r else r) \<in> set (map (\<lambda>r. if hit r then f r else r) rows)" using r(1) by simp
  ultimately show "eh_emitted_at e \<noteq> None \<and> (\<exists>r \<in> set (map (\<lambda>r. if hit r then f r else r) rows).
      oo_operation_id r = i \<and> oo_project_id r = eh_project_id e)"
    using r(4) by blast
qed

lemma update_operation_step:
  assumes "\<And>r. cond r \<Longrightarrow> same_operation r (f r)"
  shows "statement_keeps queue_step (update_operation ident projectID cond f)"
  unfolding statement_keeps_def
proof (intro allI impI)
  fix db db' :: shared_db and n
  let ?rows = "qd_operations (sd_queue db)"
  let ?hit = "\<lambda>r. oo_operation_id r = ident \<and> oo_project_id r = projectID \<and> cond r"
  let ?new = "map (\<lambda>r. if ?hit r then f r else r) ?rows"
  assume run: "update_operation ident projectID cond f db = Some (db', n)"
  have pins: "map g ?new = map g ?rows" if "\<And>r r'. same_operation r r' \<Longrightarrow> g r' = g r" for g :: "operation_row \<Rightarrow> string"
    using assms that by (auto simp: o_def)
  have wf: "queue_wf ((sd_queue db)\<lparr>qd_operations := ?new\<rparr>)" if wf: "queue_wf (sd_queue db)"
  proof -
    have "numbered ((sd_queue db)\<lparr>qd_operations := ?new\<rparr>) r'" if mem: "r' \<in> set ?new" for r'
    proof -
      obtain r where r: "r \<in> set ?rows" "r' = (if ?hit r then f r else r)"
        using mem unfolding set_map image_iff by blast
      then have "same_operation r r'" using assms by auto
      moreover have "numbered ((sd_queue db)\<lparr>qd_operations := ?new\<rparr>) r" using wf r by (auto simp: queue_wf_def numbered_def)
      ultimately show ?thesis by (simp add: numbered_pin)
    qed
    moreover have "backed ?new e" if "e \<in> set (qd_epochs (sd_queue db))" for e
      using wf that backed_map [of ?hit f ?rows e] assms by (auto simp: queue_wf_def)
    moreover have "map oo_operation_id ?new = map oo_operation_id ?rows" "map oo_mutation_id ?new = map oo_mutation_id ?rows"
      by (rule pins, simp add: same_operation_def operation_pin_def)+
    ultimately show ?thesis using wf unfolding queue_wf_def by (auto simp del: map_map)
  qed
  have "list_grows same_operation ?rows ?new" using assms by (intro list_grows_map) auto
  then show "queue_step db db'"
    using run wf by (auto simp: update_operation_def Let_def queue_step_def list_grows_refl split: if_splits)
qed

lemma update_epoch_step:
  assumes "\<And>e. cond e \<Longrightarrow> same_claim e (f e) \<and> eh_operation_id (f e) = eh_operation_id e
      \<and> (eh_emitted_at e \<noteq> None \<longrightarrow> eh_emitted_at (f e) \<noteq> None)"
  shows "statement_keeps queue_step (update_epoch ident cond f)"
  unfolding statement_keeps_def
proof (intro allI impI)
  fix db db' :: shared_db and n
  let ?rows = "qd_epochs (sd_queue db)"
  let ?hit = "\<lambda>e. eh_epoch_id e = ident \<and> cond e \<and> \<not> locally_retired db (eh_project_id e)"
  let ?new = "map (\<lambda>e. if ?hit e then f e else e) ?rows"
  assume run: "update_epoch ident cond f db = Some (db', n)"
  have wf: "queue_wf ((sd_queue db)\<lparr>qd_epochs := ?new\<rparr>)" if wf: "queue_wf (sd_queue db)"
  proof -
    have "map eh_epoch_id ?new = map eh_epoch_id ?rows"
      using assms by (auto simp: same_claim_def epoch_pin_def)
    moreover have "backed (qd_operations (sd_queue db)) e'" if mem: "e' \<in> set ?new" for e'
    proof -
      obtain e where e: "e \<in> set ?rows" "e' = (if ?hit e then f e else e)"
        using mem unfolding set_map image_iff by blast
      have "backed (qd_operations (sd_queue db)) e" using wf e by (auto simp: queue_wf_def)
      then show ?thesis using e assms [of e] by (auto simp: backed_def same_claim_def epoch_pin_def)
    qed
    ultimately show ?thesis using wf by (auto simp: queue_wf_def numbered_def simp del: map_map)
  qed
  have "list_grows same_claim ?rows ?new" using assms by (intro list_grows_map) auto
  then show "queue_step db db'"
    using run wf by (auto simp: update_epoch_def Let_def queue_step_def list_grows_refl)
qed

lemma arm_epoch_step: "eh_operation_id e = None \<Longrightarrow> statement_keeps queue_step (arm_epoch e)"
  by (auto simp: statement_keeps_def arm_epoch_def queue_step_def queue_wf_def numbered_def backed_def list_grows_refl list_ex_iff
      intro!: list_grows_append split: if_splits)

lemma write_file_step: "statement_keeps queue_step (write_file name s)"
  by (auto simp: statement_keeps_def write_file_def queue_step_def queue_wf_def numbered_def list_grows_refl)

section \<open>The two batches that allocate\<close>

definition numbered_project :: "queue_db \<Rightarrow> string \<Rightarrow> string \<Rightarrow> int \<Rightarrow> bool" where
  "numbered_project q p c n \<longleftrightarrow> (case qd_numbers q p of None \<Rightarrow> n = 1 | Some (c', n') \<Rightarrow> c' = c \<and> n' = n)"

definition allocated :: "queue_db \<Rightarrow> string \<Rightarrow> int \<Rightarrow> operation_row \<Rightarrow> queue_db" where
  "allocated q c n r = q\<lparr>qd_numbers := (qd_numbers q)(oo_project_id r \<mapsto> (c, n + 1)), qd_operations := qd_operations q @ [r]\<rparr>"

definition fresh_row :: "queue_db \<Rightarrow> operation_row \<Rightarrow> bool" where
  "fresh_row q r \<longleftrightarrow> oo_operation_id r \<notin> oo_operation_id ` set (qd_operations q)
     \<and> oo_mutation_id r \<notin> oo_mutation_id ` set (qd_operations q)"

lemma numbered_project_positive: "queue_wf q \<Longrightarrow> numbered_project q p c n \<Longrightarrow> 1 \<le> n"
  by (auto simp: queue_wf_def numbered_project_def split: option.splits)

lemma numbered_allocated:
  assumes "numbered q x" "numbered_project q (oo_project_id r) c n"
  shows "numbered (allocated q c n r) x"
  using assms by (auto simp: numbered_def numbered_project_def allocated_def split: option.splits)

lemma backed_mono: "backed rows e \<Longrightarrow> backed (rows @ rs) e"
  by (auto simp: backed_def)

lemma allocated_wf:
  assumes wf: "queue_wf q" and n: "numbered_project q p c n" and fresh: "fresh_row q r"
    and r: "oo_operation_id r = operation_id c n" "oo_project_id r = p" "oo_project_code r = c" "oo_operation_number r = n"
  shows "queue_wf (allocated q c n r)"
proof -
  have "numbered (allocated q c n r) x" if "x \<in> set (qd_operations q)" for x
    using wf that n r(2) by (intro numbered_allocated) (auto simp: queue_wf_def)
  moreover have "numbered (allocated q c n r) r"
    using numbered_project_positive [OF wf n] r by (auto simp: numbered_def allocated_def)
  moreover have "1 \<le> m" if "qd_numbers (allocated q c n r) x = Some (d, m)" for x d m
    using that wf numbered_project_positive [OF wf n] by (auto simp: allocated_def queue_wf_def split: if_splits)
  moreover have "backed (qd_operations (allocated q c n r)) e" if "e \<in> set (qd_epochs q)" for e
    using that wf backed_mono by (auto simp: allocated_def queue_wf_def)
  ultimately show ?thesis using wf fresh unfolding queue_wf_def fresh_row_def by (auto simp: allocated_def)
qed

lemma inserted_operation:
  "insert_operation r db = Some (db', n)
   \<Longrightarrow> fresh_row (sd_queue db) r \<and> db' = on_queue (\<lambda>q. q\<lparr>qd_operations := qd_operations q @ [r]\<rparr>) db"
  by (auto simp: insert_operation_def fresh_row_def list_ex_iff split: if_splits)

lemma sequence_started:
  assumes "insert_operation_sequence p c db = Some (db', n)"
  shows "\<exists>d. sd_queue db' = (sd_queue db)\<lparr>qd_numbers := (qd_numbers (sd_queue db))(p \<mapsto> d)\<rparr>
    \<and> (\<forall>m. d = (c, m) \<longrightarrow> numbered_project (sd_queue db) p c m)"
proof (cases "qd_numbers (sd_queue db) p")
  case None
  then show ?thesis
    using assms by (intro exI [of _ "(c, 1)"]) (auto simp: insert_operation_sequence_def numbered_project_def)
next
  case (Some d)
  then show ?thesis
    using assms by (intro exI [of _ d]) (auto simp: insert_operation_sequence_def numbered_project_def fun_upd_idem)
qed

lemma sequence_advanced:
  assumes "advance_operation_sequence cond p c db = Some (db', 1)" "qd_numbers (sd_queue db) p = Some (c, m)"
  shows "sd_queue db' = (sd_queue db)\<lparr>qd_numbers := (qd_numbers (sd_queue db))(p \<mapsto> (c, m + 1))\<rparr>"
  using assms by (auto simp: advance_operation_sequence_def split: if_splits)

lemma numbered_inserted:
  assumes "insert_numbered_operation p c mut kind at s i db = Some (db', 1)"
  shows "\<exists>m. qd_numbers (sd_queue db) p = Some (c, m) \<and> fresh_row (sd_queue db) (accepted_row (operation_id c m) p c m mut kind at s i)
    \<and> sd_queue db' = (sd_queue db)\<lparr>qd_operations := qd_operations (sd_queue db)
        @ [accepted_row (operation_id c m) p c m mut kind at s i]\<rparr>"
  using assms
  by (auto simp: insert_numbered_operation_def dest!: inserted_operation split: option.splits if_splits)

lemma run_statements_Suc:
  "run_statements ((st, Suc 0) # sts) db = Inr db' \<longleftrightarrow> (\<exists>mid. st db = Some (mid, 1) \<and> run_statements sts mid = Inr db')"
  by (auto simp: run_statements.simps(2) split: option.splits prod.splits if_splits)

lemma allocation_run:
  assumes "run_statements (allocation_statements p c mut kind at s i) db = Inr db'"
  shows "\<exists>m. numbered_project (sd_queue db) p c m
    \<and> fresh_row (sd_queue db) (accepted_row (operation_id c m) p c m mut kind at s i)
    \<and> sd_queue db' = allocated (sd_queue db) c m (accepted_row (operation_id c m) p c m mut kind at s i)"
proof -
  obtain d1 d2 n where d1: "insert_operation_sequence p c db = Some (d1, n)"
    and d2: "insert_numbered_operation p c mut kind at s i d1 = Some (d2, 1)"
    and d3: "advance_operation_sequence (\<lambda>_. True) p c d2 = Some (db', 1)"
    using assms by (auto simp: allocation_statements_def run_statements_Suc run_statements_Cons)
  obtain d where e1: "sd_queue d1 = (sd_queue db)\<lparr>qd_numbers := (qd_numbers (sd_queue db))(p \<mapsto> d)\<rparr>"
    "\<And>m. d = (c, m) \<Longrightarrow> numbered_project (sd_queue db) p c m"
    using sequence_started [OF d1] by blast
  obtain m where e2: "qd_numbers (sd_queue d1) p = Some (c, m)"
    "fresh_row (sd_queue d1) (accepted_row (operation_id c m) p c m mut kind at s i)"
    "sd_queue d2 = (sd_queue d1)\<lparr>qd_operations := qd_operations (sd_queue d1)
        @ [accepted_row (operation_id c m) p c m mut kind at s i]\<rparr>"
    using numbered_inserted [OF d2] by blast
  have e3: "sd_queue db' = (sd_queue d2)\<lparr>qd_numbers := (qd_numbers (sd_queue d2))(p \<mapsto> (c, m + 1))\<rparr>"
    using sequence_advanced [OF d3] e2 by simp
  show ?thesis using e1 e2 e3 by (intro exI [of _ m]) (auto simp: allocated_def fresh_row_def accepted_row_def)
qed

lemma allocation_step:
  assumes "run_statements (allocation_statements p c mut kind at s i) db = Inr db'"
  shows "queue_step db db'"
proof -
  obtain m where m: "numbered_project (sd_queue db) p c m"
    "fresh_row (sd_queue db) (accepted_row (operation_id c m) p c m mut kind at s i)"
    "sd_queue db' = allocated (sd_queue db) c m (accepted_row (operation_id c m) p c m mut kind at s i)"
    using allocation_run [OF assms] by blast
  have "queue_wf (sd_queue db) \<Longrightarrow> queue_wf (sd_queue db')"
    unfolding m(3) by (rule allocated_wf [OF _ m(1,2)]) (simp_all add: accepted_row_def)
  then show ?thesis by (auto simp: queue_step_def m(3) allocated_def list_grows_append list_grows_refl)
qed

lemma epoch_claimed:
  assumes "update_epoch ident cond f db = Some (db', 1)"
  shows "\<exists>hit e. (\<forall>x. hit x \<longrightarrow> eh_epoch_id x = ident \<and> cond x) \<and> e \<in> set (qd_epochs (sd_queue db)) \<and> hit e
    \<and> sd_queue db' = (sd_queue db)\<lparr>qd_epochs := map (\<lambda>x. if hit x then f x else x) (qd_epochs (sd_queue db))\<rparr>"
proof -
  let ?hit = "\<lambda>x. eh_epoch_id x = ident \<and> cond x \<and> \<not> locally_retired db (eh_project_id x)"
  have "length (filter ?hit (qd_epochs (sd_queue db))) = 1" using assms by (simp add: update_epoch_def Let_def)
  then have "filter ?hit (qd_epochs (sd_queue db)) \<noteq> []" by auto
  then obtain e where "e \<in> set (qd_epochs (sd_queue db))" "?hit e" unfolding filter_empty_conv by blast
  then show ?thesis using assms by (intro exI [of _ ?hit] exI [of _ e]) (auto simp: update_epoch_def Let_def)
qed

lemma claimed_inserted:
  assumes "insert_claimed_operation ident p c mut kind at s i db = Some (db', 1)"
  shows "\<exists>m e. claimed_epoch db ident p = Some e \<and> qd_numbers (sd_queue db) p = Some (c, m)
    \<and> fresh_row (sd_queue db) (accepted_row (the (eh_operation_id e)) (eh_project_id e) c m mut kind at s i)
    \<and> sd_queue db' = (sd_queue db)\<lparr>qd_operations := qd_operations (sd_queue db)
        @ [accepted_row (the (eh_operation_id e)) (eh_project_id e) c m mut kind at s i]\<rparr>"
  using assms
  by (auto simp: insert_claimed_operation_def dest!: inserted_operation split: option.splits if_splits)

lemma find_member: "find P xs = Some y \<Longrightarrow> y \<in> set xs \<and> P y"
  by (auto simp: find_Some_iff)

lemma only_epoch:
  fixes rows :: "epoch_row list"
  assumes "distinct (map eh_epoch_id rows)" "e \<in> set rows" "hit e" "\<And>x. hit x \<Longrightarrow> eh_epoch_id x = ident"
    and "\<And>x. eh_epoch_id (f x) = eh_epoch_id x"
    and "find (\<lambda>x. eh_epoch_id x = ident \<and> Q x) (map (\<lambda>x. if hit x then f x else x) rows) = Some y"
  shows "y = f e"
proof -
  let ?new = "map (\<lambda>x. if hit x then f x else x) rows"
  have "map eh_epoch_id ?new = map eh_epoch_id rows" using assms(5) by simp
  then have inj: "inj_on eh_epoch_id (set ?new)" using assms(1) unfolding distinct_map by (metis distinct_map)
  have "y \<in> set ?new" "eh_epoch_id y = ident" using find_member [OF assms(6)] by auto
  moreover have "(if hit e then f e else e) \<in> set ?new" using assms(2) unfolding set_map by (rule imageI)
  then have "f e \<in> set ?new" using assms(3) by simp
  moreover have "eh_epoch_id (f e) = ident" using assms(3-5) by simp
  ultimately show ?thesis by (intro inj_onD [OF inj]) simp_all
qed

definition claim_rows :: "(epoch_row \<Rightarrow> bool) \<Rightarrow> string \<Rightarrow> string option \<Rightarrow> epoch_row list \<Rightarrow> epoch_row list" where
  "claim_rows hit at i rows = map (\<lambda>x. if hit x
     then x\<lparr>eh_emitted_at := Some at, eh_operation_id := i, eh_hook_outcome := ''pending''\<rparr> else x) rows"

lemma claim_rows_find:
  assumes "distinct (map eh_epoch_id rows)" "e \<in> set rows" "hit e" "\<And>x. hit x \<Longrightarrow> eh_epoch_id x = ident"
    and "find (\<lambda>x. eh_epoch_id x = ident \<and> Q x) (claim_rows hit at (Some i) rows) = Some y"
  shows "eh_operation_id y = Some i"
proof -
  have pin: "eh_epoch_id (r\<lparr>eh_emitted_at := Some at, eh_operation_id := Some i, eh_hook_outcome := ''pending''\<rparr>) = eh_epoch_id r"
    for r :: epoch_row by simp
  have "y = e\<lparr>eh_emitted_at := Some at, eh_operation_id := Some i, eh_hook_outcome := ''pending''\<rparr>"
    by (rule only_epoch [OF assms(1-4) pin assms(5) [unfolded claim_rows_def]])
  then show ?thesis by simp
qed

lemma epoch_run:
  assumes "run_statements (epoch_statements ident p c sess mut i kind at) db = Inr db'"
  shows "\<exists>m hit e x. (\<forall>x. hit x \<longrightarrow> eh_epoch_id x = ident \<and> eh_project_id x = p \<and> unclaimed x)
    \<and> e \<in> set (qd_epochs (sd_queue db)) \<and> hit e \<and> numbered_project (sd_queue db) p c m
    \<and> find (\<lambda>r. eh_epoch_id r = ident \<and> eh_project_id r = p \<and> eh_hook_outcome r = ''pending'' \<and> eh_operation_id r \<noteq> None)
        (claim_rows hit at (Some (operation_id c m)) (qd_epochs (sd_queue db))) = Some x
    \<and> fresh_row (sd_queue db) (accepted_row (the (eh_operation_id x)) p c m mut kind at sess i)
    \<and> sd_queue db' = (allocated (sd_queue db) c m (accepted_row (the (eh_operation_id x)) p c m mut kind at sess i))
        \<lparr>qd_epochs := claim_rows hit at (Some (operation_id c m)) (qd_epochs (sd_queue db))\<rparr>"
proof -
  obtain d1 d2 d3 n where d1: "insert_operation_sequence p c db = Some (d1, n)"
    and d2: "claim_epoch ident p c sess at d1 = Some (d2, 1)"
    and d3: "insert_claimed_operation ident p c mut kind at sess i d2 = Some (d3, 1)"
    and d4: "advance_operation_sequence (\<lambda>db. claimed_epoch db ident p \<noteq> None \<and> \<not> locally_retired db p) p c d3 = Some (db', 1)"
    using assms by (auto simp: epoch_statements_def run_statements_Suc run_statements_Cons)
  obtain d where e1: "sd_queue d1 = (sd_queue db)\<lparr>qd_numbers := (qd_numbers (sd_queue db))(p \<mapsto> d)\<rparr>"
    "\<And>m. d = (c, m) \<Longrightarrow> numbered_project (sd_queue db) p c m"
    using sequence_started [OF d1] by blast
  obtain hit e where e2: "\<And>x. hit x \<Longrightarrow> eh_epoch_id x = ident \<and> eh_project_id x = p \<and> unclaimed x"
    "e \<in> set (qd_epochs (sd_queue d1))" "hit e"
    "sd_queue d2 = (sd_queue d1)\<lparr>qd_epochs := claim_rows hit at (next_operation d1 p c) (qd_epochs (sd_queue d1))\<rparr>"
    using epoch_claimed [OF d2 [unfolded claim_epoch_def]] unfolding claim_rows_def by blast
  obtain m x where e3: "claimed_epoch d2 ident p = Some x" "qd_numbers (sd_queue d2) p = Some (c, m)"
    "fresh_row (sd_queue d2) (accepted_row (the (eh_operation_id x)) (eh_project_id x) c m mut kind at sess i)"
    "sd_queue d3 = (sd_queue d2)\<lparr>qd_operations := qd_operations (sd_queue d2)
        @ [accepted_row (the (eh_operation_id x)) (eh_project_id x) c m mut kind at sess i]\<rparr>"
    using claimed_inserted [OF d3] by blast
  have e4: "sd_queue db' = (sd_queue d3)\<lparr>qd_numbers := (qd_numbers (sd_queue d3))(p \<mapsto> (c, m + 1))\<rparr>"
    using sequence_advanced [OF d4] e2(4) e3(2,4) by simp
  have p: "eh_project_id x = p" using e3(1) by (auto simp: claimed_epoch_def find_Some_iff)
  have m: "d = (c, m)" using e1(1) e2(4) e3(2) by simp
  have nxt: "next_operation d1 p c = Some (operation_id c m)" using e1(1) m by (simp add: next_operation_def)
  have q2: "sd_queue d2 = (sd_queue db)\<lparr>qd_numbers := (qd_numbers (sd_queue db))(p \<mapsto> (c, m)),
      qd_epochs := claim_rows hit at (Some (operation_id c m)) (qd_epochs (sd_queue db))\<rparr>"
    using e2(4) e1(1) m nxt by simp
  have "sd_queue db' = (allocated (sd_queue db) c m (accepted_row (the (eh_operation_id x)) p c m mut kind at sess i))
        \<lparr>qd_epochs := claim_rows hit at (Some (operation_id c m)) (qd_epochs (sd_queue db))\<rparr>"
    unfolding e4 e3(4) q2 p by (simp add: allocated_def accepted_row_def)
  moreover have "fresh_row (sd_queue db) (accepted_row (the (eh_operation_id x)) p c m mut kind at sess i)"
    using e3(3) unfolding fresh_row_def q2 p by simp
  moreover have "e \<in> set (qd_epochs (sd_queue db))" using e2(2) e1(1) by simp
  ultimately show ?thesis
    using e2(1,3) e1(2) [OF m] e3(1) [unfolded claimed_epoch_def q2] by auto
qed

lemma epoch_step:
  assumes "run_statements (epoch_statements ident p c sess mut i kind at) db = Inr db'"
  shows "queue_step db db'"
proof -
  let ?q = "sd_queue db"
  obtain m hit e x where hit: "\<And>x. hit x \<Longrightarrow> eh_epoch_id x = ident \<and> eh_project_id x = p \<and> unclaimed x"
    and e: "e \<in> set (qd_epochs ?q)" "hit e" and m: "numbered_project ?q p c m"
    and x: "find (\<lambda>r. eh_epoch_id r = ident \<and> eh_project_id r = p \<and> eh_hook_outcome r = ''pending'' \<and> eh_operation_id r \<noteq> None)
        (claim_rows hit at (Some (operation_id c m)) (qd_epochs ?q)) = Some x"
    and fresh: "fresh_row ?q (accepted_row (the (eh_operation_id x)) p c m mut kind at sess i)"
    and db': "sd_queue db' = (allocated ?q c m (accepted_row (the (eh_operation_id x)) p c m mut kind at sess i))
        \<lparr>qd_epochs := claim_rows hit at (Some (operation_id c m)) (qd_epochs ?q)\<rparr>"
    using epoch_run [OF assms] by blast
  let ?row = "accepted_row (the (eh_operation_id x)) p c m mut kind at sess i"
  have "queue_wf (sd_queue db')" if wf: "queue_wf ?q"
  proof -
    have "distinct (map eh_epoch_id (qd_epochs ?q))" using wf by (simp add: queue_wf_def)
    then have "eh_operation_id x = Some (operation_id c m)"
      by (rule claim_rows_find [OF _ e _ x]) (use hit in blast)
    then have row: "oo_operation_id ?row = operation_id c m" "oo_project_id ?row = p" "oo_project_code ?row = c"
      "oo_operation_number ?row = m" by (simp_all add: accepted_row_def)
    note all = allocated_wf [OF wf m fresh row]
    have ids: "map eh_epoch_id (claim_rows hit at (Some (operation_id c m)) (qd_epochs ?q)) = map eh_epoch_id (qd_epochs ?q)"
      by (simp add: claim_rows_def)
    have "backed (qd_operations ?q @ [?row]) y'"
      if mem: "y' \<in> set (claim_rows hit at (Some (operation_id c m)) (qd_epochs ?q))" for y'
    proof -
      obtain y where y: "y \<in> set (qd_epochs ?q)" "y' = (if hit y
          then y\<lparr>eh_emitted_at := Some at, eh_operation_id := Some (operation_id c m), eh_hook_outcome := ''pending''\<rparr> else y)"
        using mem unfolding claim_rows_def set_map image_iff by blast
      have "backed (qd_operations ?q @ [?row]) y" using wf y(1) backed_mono by (auto simp: queue_wf_def)
      then show ?thesis using y(2) hit [of y] row by (auto simp: backed_def)
    qed
    then show ?thesis
      using all ids by (auto simp: db' queue_wf_def allocated_def numbered_def simp del: map_map)
  qed
  moreover have "list_grows same_claim (qd_epochs ?q) (claim_rows hit at (Some (operation_id c m)) (qd_epochs ?q))"
    unfolding claim_rows_def
    by (rule list_grows_map) (use hit in \<open>auto simp: same_claim_def epoch_pin_def unclaimed_def\<close>)
  ultimately show ?thesis by (simp add: queue_step_def db' allocated_def list_grows_append)
qed

section \<open>The operations that only read\<close>

context store_relation
begin

lemma keeps_batch_run:
  assumes "\<And>db db'. run_statements sts db = Inr db' \<Longrightarrow> R db db'"
  shows "keeps R (io_batch dv sts)"
proof -
  have "R db db'" if "dv_batch dv k sts (dv_others dv k db) = (db', e)" for k db db' e
    using batch_outcome [OF that] assms others [of db k] trans by metis
  then show ?thesis unfolding keeps_def io_batch_def by (auto split: prod.splits option.splits)
qed

lemma keeps_one_operation [reading]: "keeps R (one_operation dv cond m)"
  unfolding one_operation_def by (intro reading)

lemma keeps_listed_operations [reading]: "keeps R (listed_operations dv cond)"
  unfolding listed_operations_def by (intro reading)

lemma keeps_operation_reads [reading]:
  "keeps R (ReadLocalOperation dv i)" "keeps R (ReadLocalOperationByMutation dv m)" "keeps R (ListLocalOperations dv p)"
  "keeps R (ListLocalOperationsByAdmissionCoordinate dv p kd s d)" "keeps R (ListLocalOperationTurnSummaries dv p)"
  "keeps R (ReadCallbackEpoch dv i)" "keeps R (PendingCallbackEpochs dv l)" "keeps R (LatestAgentWorkFinishedHook dv p a)"
  unfolding ReadLocalOperation_def ReadLocalOperationByMutation_def ListLocalOperations_def
    ListLocalOperationsByAdmissionCoordinate_def ListLocalOperationTurnSummaries_def ReadCallbackEpoch_def
    PendingCallbackEpochs_def LatestAgentWorkFinishedHook_def
  by (intro reading)+

lemma keeps_locally_retired [reading]: "keeps R m \<Longrightarrow> keeps R (unless_locally_retired dv p m)"
  unfolding unless_locally_retired_def by (intro reading keeps_retirement_reads)

lemma keeps_read_durable [reading]: "keeps R (readDurableMutation dv i)"
  unfolding readDurableMutation_def Let_def by (intro reading)

lemma keeps_queue_now [reading]: "keeps R (queue_now dv qw)"
  unfolding queue_now_def by (intro reading)

lemma keeps_project_code [reading]: "keeps R (localOperationProjectCode dv qw s p)"
  unfolding localOperationProjectCode_def session_project_code_def shared_project_code_def by (intro reading)

lemma keeps_equivalent [reading]: "keeps R (equivalent_operations dv c s i ls)"
  by (induction ls) (auto simp: equivalentDurableMutation_def Let_def intro!: reading)

lemma keeps_find_latest [reading]: "keeps R (findLatestEquivalentDurableMutation dv kd p c s i)"
  unfolding findLatestEquivalentDurableMutation_def by (intro reading)

end

section \<open>Requests\<close>

datatype queue_request =
    Allocate_operation string string string string gotime
  | Allocate_with_coordinate string string string string string string gotime
  | Set_coordinate string string string string
  | Update_operation LocalOperation
  | Arm_epoch CallbackEpoch
  | Observe_epoch string string
  | Claim_without_hook string gotime
  | Claim_with_operation string string string string string string string gotime
  | Record_outcome string string string gotime
  | Enqueue string string string "string option" bool
  | Enqueue_verification string string string "string option"
  | Run_operation bool string
  | Recover_operations
  | Write_attempt string procedureHookAttempt
  | Persist_parent string string string string

fun request :: "driver \<Rightarrow> queue_world \<Rightarrow> executor \<Rightarrow> queue_request \<Rightarrow> unit io" where
  "request dv qw ex (Allocate_operation p c m kd t) = io_done (AllocateLocalOperation dv p c m kd t)"
| "request dv qw ex (Allocate_with_coordinate p c m kd s d t) =
     io_done (AllocateLocalOperationWithAdmissionCoordinate dv p c m kd s d t)"
| "request dv qw ex (Set_coordinate i p s d) = SetLocalOperationAdmissionCoordinate dv i p s d"
| "request dv qw ex (Update_operation v) = UpdateLocalOperation dv v"
| "request dv qw ex (Arm_epoch e) = ArmCallbackEpoch dv e"
| "request dv qw ex (Observe_epoch i st) = io_done (ObserveCallbackEpoch dv i st)"
| "request dv qw ex (Claim_without_hook i t) = io_done (ClaimCallbackEpochWithoutHook dv i t)"
| "request dv qw ex (Claim_with_operation e p c s m d kd t) = io_done (AllocateCallbackEpochOperation dv e p c s m d kd t)"
| "request dv qw ex (Record_outcome e i out t) = RecordCallbackEpochOperationOutcome dv e i out t"
| "request dv qw ex (Enqueue kd p i ident fresh) = io_done (enqueueTypedDurableMutationWithPolicy dv qw kd p i ident fresh)"
| "request dv qw ex (Enqueue_verification kd p i ident) = io_done (enqueueTaskVerificationAttempt dv qw kd p i ident)"
| "request dv qw ex (Run_operation active i) = processDurableMutation dv qw ex active i"
| "request dv qw ex Recover_operations = startDurableMutationWorker dv qw"
| "request dv qw ex (Write_attempt i a) = writeTaskLifecycleHookAttempt dv (qw_world qw) i a"
| "request dv qw ex (Persist_parent i st r e) = persistTaskLifecycleParentOutcome dv (qw_world qw) i st r e"

fun run_requests :: "driver \<Rightarrow> queue_world \<Rightarrow> executor \<Rightarrow> queue_request list \<Rightarrow> unit io" where
  "run_requests dv qw ex [] = io_return ()"
| "run_requests dv qw ex (q # qs) = io_bind (io_ignore (request dv qw ex q)) (\<lambda>_. run_requests dv qw ex qs)"

section \<open>Every request keeps the invariant\<close>

locale durable_queue =
  fixes dv :: driver
  assumes queue_atomic: "atomic_driver dv"
    and queue_others: "queue_step db (dv_others dv k db)"
begin

lemma queue_relation: "store_relation dv queue_step"
  by unfold_locales (auto intro: queue_atomic queue_step_trans queue_others)

end

sublocale durable_queue \<subseteq> steps: store_relation dv queue_step
  by (rule queue_relation)

context durable_queue
begin

lemma keeps_update_operation [reading]: "keeps queue_step (UpdateLocalOperation dv v)"
  unfolding UpdateLocalOperation_def
  by (intro reading steps.keeps_exec)
    (auto intro!: steps.keeps_batch update_operation_step simp: same_operation_def operation_pin_def)

lemma keeps_set_coordinate [reading]: "keeps queue_step (SetLocalOperationAdmissionCoordinate dv i p s d)"
  unfolding SetLocalOperationAdmissionCoordinate_def
  by (intro reading steps.keeps_batch)
    (auto intro!: update_operation_step simp: same_operation_def operation_pin_def)

lemma keeps_allocate [reading]:
  "keeps queue_step (allocateLocalOperation dv p c m kd s d t)"
  "keeps queue_step (AllocateLocalOperation dv p c m kd t)"
  "keeps queue_step (AllocateLocalOperationWithAdmissionCoordinate dv p c m kd s d t)"
proof -
  show all: "keeps queue_step (allocateLocalOperation dv p c m kd s d t)" for s d
    unfolding allocateLocalOperation_def known_operation_def allocation_failed_def
    by (intro reading steps.keeps_retirement_reads steps.keeps_batch_run allocation_step)
  show "keeps queue_step (AllocateLocalOperation dv p c m kd t)"
    "keeps queue_step (AllocateLocalOperationWithAdmissionCoordinate dv p c m kd s d t)"
    unfolding AllocateLocalOperation_def AllocateLocalOperationWithAdmissionCoordinate_def by (rule all)+
qed

lemma keeps_epoch_moved [reading]:
  assumes "\<And>e. epoch_pin (f e) = epoch_pin e" "\<And>e. eh_operation_id (f e) = eh_operation_id e"
  shows "keeps queue_step (epoch_moved dv i f)"
  unfolding epoch_moved_def
  by (intro reading steps.keeps_exec_rows update_epoch_step) (auto simp: same_claim_def unclaimed_def assms)

lemma keeps_observe [reading]: "keeps queue_step (ObserveCallbackEpoch dv i st)"
  unfolding ObserveCallbackEpoch_def observe_row_def Let_def
  by (intro reading) (auto simp: epoch_pin_def)

lemma keeps_arm [reading]: "keeps queue_step (ArmCallbackEpoch dv e)"
  unfolding ArmCallbackEpoch_def
  by (intro reading steps.keeps_retirement_reads steps.keeps_exec)
    (auto intro!: steps.keeps_batch arm_epoch_step steps.keeps_return simp: armed_row_def)

lemma keeps_claims [reading]:
  "keeps queue_step (ClaimCallbackEpochWithoutHook dv i t)"
  "keeps queue_step (AllocateCallbackEpochOperation dv ep p c s m d kd t)"
  unfolding ClaimCallbackEpochWithoutHook_def AllocateCallbackEpochOperation_def claim_failed_def claim_lost_def Let_def
  by (intro reading steps.keeps_retirement_reads steps.keeps_exec_rows update_epoch_step steps.keeps_batch_run epoch_step;
      auto simp: same_claim_def epoch_pin_def unclaimed_def)+

lemma keeps_record_outcome [reading]: "keeps queue_step (RecordCallbackEpochOperationOutcome dv ep i out t)"
  unfolding RecordCallbackEpochOperationOutcome_def
  by (intro reading steps.keeps_retirement_reads steps.keeps_exec_rows update_epoch_step)
    (auto simp: same_claim_def epoch_pin_def)

lemma keeps_write_durable [reading]: "keeps queue_step (writeDurableMutation dv v)"
  unfolding writeDurableMutation_def
  by (intro reading steps.keeps_batch) (auto intro: write_file_step)

lemma keeps_hook_writes [reading]:
  "keeps queue_step (writeTaskLifecycleHookAttempt dv w i a)"
  "keeps queue_step (persistTaskLifecycleParentOutcome dv w i st rs e)"
  unfolding writeTaskLifecycleHookAttempt_def persistTaskLifecycleParentOutcome_def Let_def by (intro reading)+

lemma keeps_adopt [reading]:
  "keeps queue_step (adoptLegacyDurableMutationForRequest dv i p kd d)"
  "keeps queue_step (adoptLegacyDurableMutationOnStartup dv qw v)"
  unfolding adoptLegacyDurableMutationForRequest_def adoptLegacyDurableMutationOnStartup_def by (intro reading)+

lemma keeps_admission [reading]:
  "keeps queue_step (create_operation dv a i d f)" "keeps queue_step (accept_again dv t v)"
  "keeps queue_step (allocate_with dv co a d)" "keeps queue_step (fresh_operation dv qw a)"
  "keeps queue_step (standing_operation dv qw fresh a d i)" "keeps queue_step (renewed_operation dv qw a)"
  "keeps queue_step (adopt_or_create dv qw fresh a d i)" "keeps queue_step (retry_admitted dv qw a f)"
  "keeps queue_step (retry_attempt dv qw a v)"
  unfolding create_operation_def accept_again_def allocate_with_def freshDurableMutationDigest_def fresh_operation_def
    standing_operation_def renewed_operation_def adopt_or_create_def retry_admitted_def retry_attempt_def Let_def
  by (intro reading)+

lemma keeps_admitted [reading]:
  "(\<And>a. keeps queue_step (m a)) \<Longrightarrow> keeps queue_step (admitted dv qw kd p i ident m)"
  unfolding admitted_def by (intro reading)

lemma keeps_enqueue [reading]:
  "keeps queue_step (enqueueTypedDurableMutationWithPolicy dv qw kd p i ident fresh)"
  "keeps queue_step (enqueueTaskVerificationAttempt dv qw kd p i ident)"
  unfolding enqueueTypedDurableMutationWithPolicy_def enqueueTaskVerificationAttempt_def by (intro reading)+

lemma keeps_hook_outcome [reading]:
  "keeps queue_step (recordAgentWorkFinishedOperationOutcome dv v)"
  "keeps queue_step (recoverNonReplayableProcedureOperation dv qw v)"
  unfolding recoverNonReplayableProcedureOperation_def recordAgentWorkFinishedOperationOutcome_def Let_def
  by (intro reading)+

lemma keeps_process [reading]:
  assumes "\<And>v. keeps queue_step (ex v)"
  shows "keeps queue_step (processDurableMutation dv qw ex active i)"
  unfolding processDurableMutation_def finish_operation_def Let_def by (intro reading assms)

lemma keeps_recover_operation [reading]: "keeps queue_step (recover_operation dv qw v)"
  unfolding recover_operation_def recoverRunningDurableMutation_def Let_def by (intro reading)

lemma keeps_recover_files [reading]: "keeps queue_step (recover_files dv qw names)"
  by (induction names) (auto simp: recover_file_def intro!: reading)

lemma keeps_start [reading]: "keeps queue_step (startDurableMutationWorker dv qw)"
  unfolding startDurableMutationWorker_def by (intro reading)

lemma keeps_request:
  assumes "\<And>v. keeps queue_step (ex v)"
  shows "keeps queue_step (request dv qw ex q)"
  by (cases q; simp add: io_done_def; intro reading assms)

lemma keeps_run_requests:
  assumes "\<And>v. keeps queue_step (ex v)"
  shows "keeps queue_step (run_requests dv qw ex qs)"
  by (induction qs) (auto intro!: reading keeps_request assms)

end

interpretation sqlite_queue: durable_queue "sqlite now" for now
  by unfold_locales (simp_all add: sqlite_atomic)

end
