(* ===== verification/Queue_Properties.thy ===== *)
theory Queue_Properties
  imports Queue_Laws Track_Properties
begin

text \<open>
  What the durable queue promises: identities that never change, a mutation admitted once, receipts of verification
  attempts that are never overwritten, and the rule that says when agent work has finished.
\<close>

section \<open>Sample data\<close>

definition sample_operation :: operation_row where
  "sample_operation = accepted_row ''AAA-OPR1'' ''example'' ''AAA'' 1 (replicate 64 CHR ''a'') ''procedure-execution''
     ''2024-01-01T00:00:00Z'' ''session-1'' []"

definition sample_epoch :: epoch_row where
  "sample_epoch = \<lparr>eh_epoch_id = ''epoch-1'', eh_project_id = ''example'', eh_agent_id = ''worker'',
     eh_session_key = ''key-1'', eh_armed_at = ''2024-01-01T00:00:00Z'', eh_busy_seen = 1, eh_idle_observations = 2,
     eh_emitted_at = Some ''2024-01-01T00:00:01Z'', eh_session_id = ''session-1'', eh_operation_id = Some ''AAA-OPR1'',
     eh_hook_outcome = ''pending'', eh_hook_completed_at = None\<rparr>"

definition sample_queue :: queue_db where
  "sample_queue = \<lparr>qd_operations = [sample_operation], qd_numbers = [''example'' \<mapsto> (''AAA'', 2)], qd_epochs = [sample_epoch],
     qd_files = []\<rparr>"

lemma sample_queue_wf: "queue_wf sample_queue"
proof -
  have "dec_int 1 = ''1''" by code_simp
  then show ?thesis
    by (simp add: queue_wf_def sample_queue_def sample_operation_def sample_epoch_def accepted_row_def numbered_def backed_def
        operation_id_def)
qed

section \<open>Identities are final\<close>

lemma claim_kept:
  assumes step: "queue_step db db'" and wf: "queue_wf (sd_queue db)"
    and e1: "e1 \<in> set (qd_epochs (sd_queue db))" "eh_operation_id e1 = Some i"
  shows "\<exists>e2 \<in> set (qd_epochs (sd_queue db')). epoch_pin e2 = epoch_pin e1 \<and> eh_operation_id e2 = Some i
     \<and> (\<exists>o2 \<in> set (qd_operations (sd_queue db')). oo_operation_id o2 = i \<and> oo_project_id o2 = eh_project_id e1)"
proof -
  have "eh_emitted_at e1 \<noteq> None" using wf e1 by (auto simp: queue_wf_def backed_def)
  moreover obtain e2 where e2: "e2 \<in> set (qd_epochs (sd_queue db'))" "same_claim e1 e2"
    using step e1(1) list_grows_member [of same_claim] by (force simp: queue_step_def)
  ultimately have same: "epoch_pin e2 = epoch_pin e1" "eh_operation_id e2 = Some i"
    using e1(2) by (auto simp: same_claim_def)
  have "queue_wf (sd_queue db')" using step wf by (simp add: queue_step_def)
  then have "\<exists>o2 \<in> set (qd_operations (sd_queue db')). oo_operation_id o2 = i \<and> oo_project_id o2 = eh_project_id e1"
    using e2(1) same by (auto simp: queue_wf_def backed_def epoch_pin_def)
  then show ?thesis using e2(1) same by blast
qed

text \<open>
  C7. Whatever requests the queue serves and however they end, ids, mutations and numbers of operations stay unique, every
  operation keeps its identity, and an epoch that was claimed keeps its claim and the operation that stands for it, as
  long as the other writers and the operations that run behave the same way.
\<close>

theorem queue_identities_final:
  assumes "atomic_driver dv" "\<And>k db. queue_step db (dv_others dv k db)" "\<And>v. keeps queue_step (execute v)"
    and wf: "queue_wf (sd_queue db)" and run: "run_requests dv qw execute qs (k, db) = (r, k', db')"
  shows "queue_wf (sd_queue db')
    \<and> (\<forall>o1 \<in> set (qd_operations (sd_queue db)). \<exists>o2 \<in> set (qd_operations (sd_queue db')). operation_pin o2 = operation_pin o1)
    \<and> (\<forall>e1 \<in> set (qd_epochs (sd_queue db)). eh_operation_id e1 = Some i \<longrightarrow>
        (\<exists>e2 \<in> set (qd_epochs (sd_queue db')). epoch_pin e2 = epoch_pin e1 \<and> eh_operation_id e2 = Some i
         \<and> (\<exists>o2 \<in> set (qd_operations (sd_queue db')). oo_operation_id o2 = i \<and> oo_project_id o2 = eh_project_id e1)))"
proof -
  have queue: "durable_queue dv" using assms(1,2) by unfold_locales
  have "keeps queue_step (run_requests dv qw execute qs)"
    by (rule durable_queue.keeps_run_requests [OF queue]) (rule assms(3))
  then have step: "queue_step db db'" using run unfolding keeps_def by blast
  have "\<exists>o2 \<in> set (qd_operations (sd_queue db')). operation_pin o2 = operation_pin o1"
    if "o1 \<in> set (qd_operations (sd_queue db))" for o1
    using step list_grows_member [of same_operation, OF _ that] by (fastforce simp: queue_step_def same_operation_def)
  moreover have "\<exists>e2 \<in> set (qd_epochs (sd_queue db')). epoch_pin e2 = epoch_pin e1 \<and> eh_operation_id e2 = Some i
     \<and> (\<exists>o2 \<in> set (qd_operations (sd_queue db')). oo_operation_id o2 = i \<and> oo_project_id o2 = eh_project_id e1)"
    if "e1 \<in> set (qd_epochs (sd_queue db))" "eh_operation_id e1 = Some i" for e1
    by (rule claim_kept [OF step wf that])
  ultimately show ?thesis using step wf by (simp add: queue_step_def)
qed

theorem queue_identities_final_witness:
  "\<forall>qw. queue_wf (sd_queue (snd (snd (run_requests (sqlite ''t'') qw (\<lambda>_. io_return (Run_result ''{}''))
     [Observe_epoch ''epoch-1'' ''idle'', Recover_operations] (0, empty_db\<lparr>sd_queue := sample_queue\<rparr>)))))"
proof
  fix qw
  obtain r k' db' where run: "run_requests (sqlite ''t'') qw (\<lambda>_. io_return (Run_result ''{}''))
     [Observe_epoch ''epoch-1'' ''idle'', Recover_operations] (0, empty_db\<lparr>sd_queue := sample_queue\<rparr>) = (r, k', db')"
    by (cases "run_requests (sqlite ''t'') qw (\<lambda>_. io_return (Run_result ''{}''))
     [Observe_epoch ''epoch-1'' ''idle'', Recover_operations] (0, empty_db\<lparr>sd_queue := sample_queue\<rparr>)")
  show "queue_wf (sd_queue (snd (snd (run_requests (sqlite ''t'') qw (\<lambda>_. io_return (Run_result ''{}''))
     [Observe_epoch ''epoch-1'' ''idle'', Recover_operations] (0, empty_db\<lparr>sd_queue := sample_queue\<rparr>)))))"
    unfolding run snd_conv
    by (rule queue_identities_final [OF sqlite_atomic sqlite_queue.queue_others sqlite_queue.steps.keeps_return(1) _ run,
        THEN conjunct1]) (simp add: sample_queue_wf)
qed

section \<open>Attempts of a verification\<close>

definition files_kept :: "shared_db \<Rightarrow> shared_db \<Rightarrow> bool" where
  "files_kept db db' \<longleftrightarrow> (\<forall>name s. durable_file db name = Some s \<longrightarrow> durable_file db' name = Some s)"

lemma files_kept_queue: "qd_files (sd_queue db') = qd_files (sd_queue db) \<Longrightarrow> files_kept db db'"
  by (simp add: files_kept_def durable_file_def)

lemma file_statements:
  "statement_keeps files_kept (insert_operation_sequence p c)"
  "statement_keeps files_kept (insert_numbered_operation p c m kd at s d)"
  "statement_keeps files_kept (advance_operation_sequence cond p c)"
  "statement_keeps files_kept (update_operation i p cond2 f)"
  by (auto simp: statement_keeps_def insert_operation_sequence_def insert_numbered_operation_def insert_operation_def
      advance_operation_sequence_def update_operation_def Let_def intro!: files_kept_queue split: option.splits if_splits)

lemma map_of_others: "map_of (filter (\<lambda>(n, _). n \<noteq> name) fs) x = (if x = name then None else map_of fs x)"
  by (induction fs) auto

lemma write_new_file:
  "durable_file db name = None \<Longrightarrow> write_file name s db = Some (db', n) \<Longrightarrow> files_kept db db'"
  by (auto simp: files_kept_def durable_file_def write_file_def map_of_others)

context lone_store
begin

lemma files_relation: "store_relation dv files_kept"
  by unfold_locales (auto simp: atomic alone files_kept_def)

end

sublocale lone_store \<subseteq> files: store_relation dv files_kept
  by (rule files_relation)

context lone_store
begin

lemma files_updates [reading]:
  "keeps files_kept (UpdateLocalOperation dv v)" "keeps files_kept (SetLocalOperationAdmissionCoordinate dv i p s d)"
  unfolding UpdateLocalOperation_def SetLocalOperationAdmissionCoordinate_def
  by (intro reading files.keeps_batch; auto intro: file_statements)+

lemma files_allocate [reading]: "keeps files_kept (allocate_with dv co a d)"
  unfolding allocate_with_def AllocateLocalOperation_def AllocateLocalOperationWithAdmissionCoordinate_def
    allocateLocalOperation_def known_operation_def allocation_failed_def
  by (intro reading files.keeps_retirement_reads files.keeps_batch)
    (auto intro: file_statements simp: allocation_statements_def)

lemma missing_file:
  assumes "readDurableMutation dv i (k, db) = (Inl (NotExist t), s')"
  shows "snd s' = db \<and> durable_file db i = None"
  using assms alone
  by (auto simp: readDurableMutation_def io_check_def io_bind_def io_query_def io_fail_def io_error_def io_return_def Let_def
      split: option.splits if_splits)

lemma file_written:
  assumes "durable_file db (dmo_OperationID v) = None" "writeDurableMutation dv v (k, db) = (r, k', db')"
  shows "files_kept db db'"
proof -
  let ?rest = "if ValidateOperationID (dmo_OperationID v) \<noteq> None then io_return ()
       else io_check (fail_if (no_durability dv) ''local durability is unavailable'')
         (io_bind (ReadLocalOperation dv (dmo_OperationID v)) (\<lambda>l. UpdateLocalOperation dv (projected_operation v l)))"
  have rest: "keeps files_kept ?rest" by (intro reading)
  show ?thesis
  proof (cases "durable_text v")
    case (Inl e)
    then show ?thesis using assms(2)
      by (auto simp: writeDurableMutation_def io_bind_def io_value_def io_error_def io_fail_def files_kept_def)
  next
    case (Inr s)
    obtain e k1 db1 where one: "io_batch dv [(write_file (dmo_OperationID v) s, 0)] (k, db) = (e, k1, db1)"
      by (cases "io_batch dv [(write_file (dmo_OperationID v) s, 0)] (k, db)")
    have kept: "files_kept db db1"
    proof -
      obtain d e' where d: "dv_batch dv k [(write_file (dmo_OperationID v) s, 0)] db = (d, e')"
        by (cases "dv_batch dv k [(write_file (dmo_OperationID v) s, 0)] db")
      then have "db1 = d" using one alone by (auto simp: io_batch_def split: option.splits)
      moreover have "d = db \<or> run_statements [(write_file (dmo_OperationID v) s, 0)] db = Inr d"
        using batch_outcome [OF d] by blast
      ultimately show ?thesis
        using write_new_file [OF assms(1)] by (auto simp: run_statements_Cons files_kept_def)
    qed
    have "io_bind (io_batch dv [(write_file (dmo_OperationID v) s, 0)]) (\<lambda>_. ?rest) (k, db) = (r, k', db')"
      using assms(2) Inr by (simp add: writeDurableMutation_def io_value_def io_bind_def io_return_def)
    then have "db' = db1 \<or> (\<exists>k. ?rest (k, db1) = (r, k', db'))"
      using one by (auto simp: io_bind_def split: sum.splits)
    then have "files_kept db1 db'" using rest files.same unfolding keeps_def by blast
    then show ?thesis using kept files.trans by blast
  qed
qed

lemma file_created:
  assumes "durable_file db i = None" "create_operation dv a i d f (k, db) = (r, k', db')"
  shows "files_kept db db'"
proof -
  let ?v = "new_operation a i d f"
  have name: "dmo_OperationID ?v = i" by (simp add: new_operation_def)
  obtain e k1 db1 where one: "writeDurableMutation dv ?v (k, db) = (e, k1, db1)" by (cases "writeDurableMutation dv ?v (k, db)")
  then have "db' = db1" using assms(2) by (auto simp: create_operation_def Let_def io_bind_def io_return_def split: sum.splits)
  then show ?thesis using file_written [OF _ one] assms(1) name by simp
qed

lemma files_after_read:
  assumes m: "keeps files_kept m" and g: "\<And>v d i. keeps files_kept (g v d i)"
    and missing: "\<And>k db t d i k' db'. m (k, db) = (Inr (Inl (NotExist t), d, i), k', db') \<Longrightarrow> durable_file db' i = None"
  shows "keeps files_kept (io_bind m (\<lambda>(found, d, i). case found of
     Inr v \<Rightarrow> g v d i | Inl (NotExist _) \<Rightarrow> create_operation dv a i d f | Inl e \<Rightarrow> io_fail e))"
  unfolding keeps_def
proof (intro allI impI)
  fix k db r k' db'
  assume run: "io_bind m (\<lambda>(found, d, i). case found of
     Inr v \<Rightarrow> g v d i | Inl (NotExist _) \<Rightarrow> create_operation dv a i d f | Inl e \<Rightarrow> io_fail e) (k, db) = (r, k', db')"
  obtain x k1 db1 where one: "m (k, db) = (x, k1, db1)" by (cases "m (k, db)")
  have kept: "files_kept db db1" using m one unfolding keeps_def by blast
  have "files_kept db1 db'"
  proof (cases x)
    case (Inl e)
    then show ?thesis using run one by (simp add: io_bind_def files_kept_def)
  next
    case (Inr y)
    obtain found d i where y: "y = (found, d, i)" by (cases y)
    show ?thesis
    proof (cases "\<exists>t. found = Inl (NotExist t)")
      case True
      then show ?thesis
        using run one Inr y missing [of k db] file_created by (fastforce simp: io_bind_def)
    next
      case False
      then show ?thesis
        using run one Inr y g unfolding keeps_def
        by (cases found) (auto simp: io_bind_def io_fail_def files_kept_def split: store_error.splits)
    qed
  qed
  then show "files_kept db db'" using kept files.trans by blast
qed

lemma missing_after:
  assumes "io_bind (io_try (readDurableMutation dv i)) (\<lambda>found. io_return (found, d, i)) (k, db) = (Inr (Inl (NotExist t), d', i'), k', db')"
  shows "durable_file db' i' = None"
proof -
  have "readDurableMutation dv i (k, db) = (Inl (NotExist t), k', db')" "i' = i"
    using assms by (auto simp: io_bind_Inr io_try_Inr io_simps)
  then show ?thesis using missing_file by fastforce
qed

lemma files_after_reading:
  assumes "\<And>v. keeps files_kept (g v)"
  shows "keeps files_kept (io_bind (io_try (readDurableMutation dv i)) (\<lambda>found. case found of
     Inl (NotExist _) \<Rightarrow> create_operation dv a i d f | Inl e \<Rightarrow> io_fail e | Inr v \<Rightarrow> g v))"
proof -
  have "io_bind (io_try (readDurableMutation dv i)) (\<lambda>found. case found of
       Inl (NotExist _) \<Rightarrow> create_operation dv a i d f | Inl e \<Rightarrow> io_fail e | Inr v \<Rightarrow> g v)
    = io_bind (io_bind (io_try (readDurableMutation dv i)) (\<lambda>found. io_return (found, d, i)))
      (\<lambda>(found, d, i). case found of
        Inr v \<Rightarrow> g v | Inl (NotExist _) \<Rightarrow> create_operation dv a i d f | Inl e \<Rightarrow> io_fail e)"
    by (rule ext) (auto simp: io_bind_def io_return_def split: prod.splits sum.splits)
  moreover have "keeps files_kept (io_bind (io_bind (io_try (readDurableMutation dv i)) (\<lambda>found. io_return (found, d, i)))
      (\<lambda>(found, d, i). case found of
        Inr v \<Rightarrow> g v | Inl (NotExist _) \<Rightarrow> create_operation dv a i d f | Inl e \<Rightarrow> io_fail e))"
    by (rule files_after_read [where g = "\<lambda>v d i. g v"]) (intro reading | rule assms missing_after | assumption)+
  ultimately show ?thesis by simp
qed

lemma files_retry_admitted [reading]: "keeps files_kept (retry_admitted dv qw a f)"
  unfolding retry_admitted_def
proof (rule files_after_read)
  show "keeps files_kept (fresh_operation dv qw a)"
    unfolding fresh_operation_def freshDurableMutationDigest_def by (intro reading)
  show "keeps files_kept (io_check (same_request a d v) (io_return v))" for v d
    by (intro reading)
  fix k db t d i k' db'
  assume "fresh_operation dv qw a (k, db) = (Inr (Inl (NotExist t), d, i), k', db')"
  then obtain k1 db1 where
    "io_bind (io_try (readDurableMutation dv i)) (\<lambda>found. io_return (found, d, i)) (k1, db1) = (Inr (Inl (NotExist t), d, i), k', db')"
    unfolding fresh_operation_def by (auto simp: io_bind_Inr io_try_Inr io_simps)
  then show "durable_file db' i = None" by (rule missing_after)
qed

lemma files_verification_attempt: "keeps files_kept (enqueueTaskVerificationAttempt dv qw kd p i ident)"
proof -
  have "keeps files_kept (retry_attempt dv qw a v)" for a v
    unfolding retry_attempt_def Let_def by (intro reading)
  then show ?thesis
    unfolding enqueueTaskVerificationAttempt_def admitted_def
    by (intro reading files_after_reading) auto
qed

end

text \<open>
  C18. Asking for another verification never changes the file of an operation that exists: a failed attempt stays as it
  is, whatever the request, its outcome and the faults of the databases.
\<close>

theorem verification_receipts_final:
  assumes "calm dv" "atomic_driver dv" "durable_file db name = Some s"
    and "enqueueTaskVerificationAttempt dv qw kind projectID input identity (k, db) = (r, k', db')"
  shows "durable_file db' name = Some s"
  using lone_store.files_verification_attempt [OF lone [OF assms(1,2)]] assms(3,4)
  unfolding keeps_def files_kept_def by blast

theorem verification_receipts_final_witness:
  "\<forall>qw. durable_file (snd (snd (enqueueTaskVerificationAttempt (sqlite ''t'') qw ''task-test'' ''example'' ''{}'' None
     (0, empty_db\<lparr>sd_queue := sample_queue\<lparr>qd_files := [(''AAA-OPR1'', ''{}'')]\<rparr>\<rparr>)))) ''AAA-OPR1'' = Some ''{}''"
proof
  fix qw
  let ?db = "empty_db\<lparr>sd_queue := sample_queue\<lparr>qd_files := [(''AAA-OPR1'', ''{}'')]\<rparr>\<rparr>"
  let ?m = "enqueueTaskVerificationAttempt (sqlite ''t'') qw ''task-test'' ''example'' ''{}'' None"
  have run: "?m (0, ?db) = (fst (?m (0, ?db)), fst (snd (?m (0, ?db))), snd (snd (?m (0, ?db))))" by simp
  show "durable_file (snd (snd (?m (0, ?db)))) ''AAA-OPR1'' = Some ''{}''"
    by (rule verification_receipts_final [OF calm_sqlite sqlite_atomic _ run]) (simp add: durable_file_def)
qed

section \<open>An allocation without a file\<close>

definition not_exist :: "store_error \<Rightarrow> bool" where
  "not_exist e \<longleftrightarrow> (\<exists>t. e = NotExist t)"

text \<open>The operation leaves this database as it is, and a result satisfies \<open>P\<close>.\<close>

definition stays :: "shared_db \<Rightarrow> ('a \<Rightarrow> bool) \<Rightarrow> 'a io \<Rightarrow> bool" where
  "stays db P m \<longleftrightarrow> (\<forall>k r k' db'. m (k, db) = (r, k', db') \<longrightarrow> db' = db \<and> (\<forall>x. r = Inr x \<longrightarrow> P x))"

lemma stays_refuses: "stays db (\<lambda>_. False) m \<Longrightarrow> refuses db m"
  unfolding stays_def refuses_def by (metis prod.exhaust sum.exhaust)

lemma stays_keeps: "keeps (=) m \<Longrightarrow> stays db (\<lambda>_. True) m"
  unfolding stays_def keeps_def by blast

lemma stays_error: "stays db P (io_error t)" "stays db P (io_fail e)"
  by (simp_all add: stays_def io_error_def io_fail_def)

lemma stays_return: "P x \<Longrightarrow> stays db P (io_return x)"
  by (simp add: stays_def io_return_def)

lemma stays_check: "(e = None \<Longrightarrow> stays db P m) \<Longrightarrow> stays db P (io_check e m)"
  using stays_error by (cases e) (auto simp: io_check_def)

lemma stays_bind:
  assumes m: "stays db P m" and f: "\<And>x. P x \<Longrightarrow> stays db Q (f x)"
  shows "stays db Q (io_bind m f)"
  unfolding stays_def
proof (intro allI impI)
  fix k r k' db'
  assume run: "io_bind m f (k, db) = (r, k', db')"
  obtain x k1 db1 where one: "m (k, db) = (x, k1, db1)" by (cases "m (k, db)")
  then have "db1 = db" "\<And>y. x = Inr y \<Longrightarrow> P y" using m unfolding stays_def by blast+
  then show "db' = db \<and> (\<forall>x. r = Inr x \<longrightarrow> Q x)"
    using run one f by (cases x) (auto simp: io_bind_def stays_def)
qed

lemma stays_try: "stays db P m \<Longrightarrow> (\<And>k e s'. m (k, db) = (Inl e, s') \<Longrightarrow> \<not> not_exist e)
    \<Longrightarrow> stays db (\<lambda>r. (\<forall>e. r = Inl e \<longrightarrow> \<not> not_exist e) \<and> (\<forall>x. r = Inr x \<longrightarrow> P x)) (io_try m)"
  unfolding stays_def io_try_def by (auto split: prod.splits)

lemma all_results_member: "all_results f xs = Inr ys \<Longrightarrow> x \<in> set xs \<Longrightarrow> \<exists>y \<in> set ys. f x = Inr y"
  by (induction xs arbitrary: ys) (auto split: sum.splits)

lemma decoded_operation:
  assumes "decodeLocalOperation r = Inr l"
  shows "lop_OperationID l = oo_operation_id r" "lop_AdmissionSessionID l = oo_admission_session_id r"
    "lop_AdmissionInputSHA256 l = oo_admission_input_sha256 r"
  using assms by (auto simp: decodeLocalOperation_def split: option.splits)

lemma first_error_not_exist: "io_check e m s = (Inl (NotExist t), s') \<Longrightarrow> m s = (Inl (NotExist t), s')"
  by (cases e) (auto simp: io_check_def io_fail_def)

context lone_store
begin

lemma known_row:
  assumes "find cond (live_operations db) = Some r" "one_operation dv cond missing (k, db) = (x, s')"
  shows "(\<forall>t. x \<noteq> Inl (NotExist t)) \<and> (\<forall>v. x = Inr v \<longrightarrow> decodeLocalOperation r = Inr v)"
  using assms alone
  by (auto simp: one_operation_def io_bind_def io_query_def io_value_def io_return_def io_error_def io_fail_def Let_def
      split: option.splits sum.splits)

lemma known_mutation:
  assumes "find (\<lambda>r. oo_mutation_id r = m) (live_operations db) = Some r"
  shows "stays db (\<lambda>x. (\<forall>e. x = Inl e \<longrightarrow> \<not> not_exist e) \<and> (\<forall>v. x = Inr v \<longrightarrow> decodeLocalOperation r = Inr v))
    (io_try (ReadLocalOperationByMutation dv m))"
proof (rule stays_try)
  have kept: "keeps (=) (ReadLocalOperationByMutation dv m)" by (intro reading)
  show "stays db (\<lambda>v. decodeLocalOperation r = Inr v) (ReadLocalOperationByMutation dv m)"
    unfolding stays_def
  proof (intro allI impI)
    fix k x k' db'
    assume run: "ReadLocalOperationByMutation dv m (k, db) = (x, k', db')"
    then have "db' = db" using kept unfolding keeps_def by blast
    moreover have "decodeLocalOperation r = Inr v" if "x = Inr v" for v
      using run that known_row [OF assms] by (auto simp: ReadLocalOperationByMutation_def io_check_Inr)
    ultimately show "db' = db \<and> (\<forall>v. x = Inr v \<longrightarrow> decodeLocalOperation r = Inr v)" by blast
  qed
  fix k e s'
  assume run: "ReadLocalOperationByMutation dv m (k, db) = (Inl e, s')"
  show "\<not> not_exist e"
  proof
    assume "not_exist e"
    then obtain t where "ReadLocalOperationByMutation dv m (k, db) = (Inl (NotExist t), s')"
      using run by (auto simp: not_exist_def)
    then show False
      unfolding ReadLocalOperationByMutation_def using first_error_not_exist known_row [OF assms] by blast
  qed
qed

lemma allocate_known:
  assumes "find (\<lambda>r. oo_mutation_id r = digest) (live_operations db) = Some r"
    and "oo_admission_session_id r = am_sessionID a" "oo_admission_input_sha256 r = durableMutationInputSHA256 (am_input a)"
  shows "stays db (\<lambda>i. i = oo_operation_id r) (allocate_with dv True a digest)"
proof -
  have retired: "stays db (\<lambda>_. True) (IsLocalProjectRetired dv p)" for p
    by (rule stays_keeps) (rule keeps_retirement_reads)
  show ?thesis
    unfolding allocate_with_def AllocateLocalOperationWithAdmissionCoordinate_def allocateLocalOperation_def
      unless_locally_retired_def local_store_def if_True
  proof (rule stays_bind)
    show "stays db (\<lambda>i. i = oo_operation_id r) (io_return (lop_OperationID l))" if "decodeLocalOperation r = Inr l" for l
      using decoded_operation [OF that] by (intro stays_return) simp
    have known: "stays db ((=) v)
        (known_operation dv (am_projectID a) (am_projectCode a) (am_kind a) (am_sessionID a)
          (durableMutationInputSHA256 (am_input a)) v)" if "decodeLocalOperation r = Inr v" for v
      using decoded_operation [OF that] assms(2,3) that
      by (auto simp: known_operation_def other_coordinate_def intro: stays_error stays_return)
    show "stays db (\<lambda>l. decodeLocalOperation r = Inr l)
      (if \<not> dv_Local dv then io_error ''local store is unavailable''
       else io_check (first_error [ValidateProjectIdentifier (am_projectID a), ValidateProjectCode (am_projectCode a)])
        (io_bind (IsLocalProjectRetired dv (am_projectID a)) (\<lambda>retired. if retired then io_fail LocalProjectRetired else
          io_check (first_error
            [mutation_identity ''operation'' digest,
             fail_if (am_kind a = [] \<or> IsZero (am_now a)) ''invalid local operation allocation'',
             validateAdmissionCoordinate (am_sessionID a) (durableMutationInputSHA256 (am_input a))])
          (io_bind (io_try (ReadLocalOperationByMutation dv digest)) (\<lambda>found.
            case found of
              Inr existing \<Rightarrow> known_operation dv (am_projectID a) (am_projectCode a) (am_kind a) (am_sessionID a)
                (durableMutationInputSHA256 (am_input a)) existing
            | Inl (NotExist _) \<Rightarrow>
                io_bind (io_try (io_batch dv (allocation_statements (am_projectID a) (am_projectCode a) digest (am_kind a)
                    (rfc3339_nano (to_utc (am_now a))) (am_sessionID a) (durableMutationInputSHA256 (am_input a))))) (\<lambda>r.
                  case r of
                    Inl e \<Rightarrow> allocation_failed dv (am_projectID a) digest (am_sessionID a)
                      (durableMutationInputSHA256 (am_input a)) e
                  | Inr _ \<Rightarrow> ReadLocalOperationByMutation dv digest)
            | Inl e \<Rightarrow> io_fail e)))))"
      by (auto intro!: stays_error stays_check stays_bind [OF retired] stays_bind [OF known_mutation [OF assms(1)]] known
          split: sum.splits store_error.splits if_splits simp: not_exist_def)
  qed
qed

lemma orphan_listed:
  assumes "r \<in> set (live_operations db)" "cond r" "durable_file db (oo_operation_id r) = None"
  shows "stays db (\<lambda>ls. \<exists>l \<in> set ls. durable_file db (lop_OperationID l) = None) (listed_operations dv cond)"
proof -
  have "\<exists>l \<in> set ls. durable_file db (lop_OperationID l) = None"
    if rows: "all_results decodeLocalOperation (rev (sort_key oo_operation_number (filter cond (live_operations db)))) = Inr ls" for ls
  proof -
    obtain l where l: "l \<in> set ls" "decodeLocalOperation r = Inr l"
      using all_results_member [OF rows, of r] assms(1,2) by auto
    then show ?thesis using decoded_operation(1) [OF l(2)] assms(3) by (intro bexI [of _ l]) simp_all
  qed
  then show ?thesis
    using alone
    by (auto simp: stays_def listed_operations_def io_bind_def io_query_def io_value_def io_return_def io_error_def io_fail_def
        Let_def split: option.splits sum.splits)
qed

lemma orphan_unreadable: "durable_file db i = None \<Longrightarrow> stays db (\<lambda>_. False) (readDurableMutation dv i)"
  unfolding readDurableMutation_def
  by (rule stays_check, rule stays_bind [where P = "\<lambda>s. s = None"])
    (use alone in \<open>auto simp: stays_def io_query_def Let_def io_fail_def split: option.splits\<close>)

lemma stays_wrap: "stays db (\<lambda>_. False) m \<Longrightarrow> stays db (\<lambda>_. False) (io_wrap p m)"
  unfolding stays_def io_wrap_def io_bind_def io_try_def io_return_def io_error_def io_fail_def
  by (auto split: prod.splits sum.splits store_error.splits) fast+

lemma orphan_equivalent:
  "l \<in> set ls \<Longrightarrow> durable_file db (lop_OperationID l) = None \<Longrightarrow> stays db (\<lambda>_. False) (equivalent_operations dv c s i ls)"
proof (induction ls)
  case (Cons x xs)
  have first: "keeps (=) (equivalentDurableMutation dv x c s i)"
    unfolding equivalentDurableMutation_def Let_def by (intro reading)
  show ?case
  proof (cases "x = l")
    case True
    then have "stays db (\<lambda>_. False) (equivalentDurableMutation dv x c s i)"
      unfolding equivalentDurableMutation_def Let_def
      by (intro stays_check stays_bind [where P = "\<lambda>_. False"] stays_wrap orphan_unreadable) (use Cons.prems in auto)
    then show ?thesis unfolding equivalent_operations.simps by (rule stays_bind) simp
  next
    case False
    then have "stays db (\<lambda>_. False) (equivalent_operations dv c s i xs)" using Cons by auto
    then show ?thesis unfolding equivalent_operations.simps
      by (intro stays_bind [OF stays_keeps [OF first]] stays_bind [where P = "\<lambda>_. False"]) auto
  qed
qed simp

lemma failed_read:
  assumes "durable_file db i = Some s" "\<And>v. decode_durable s = Some v \<Longrightarrow> dmo_Status v = ''failed''"
  shows "stays db (\<lambda>x. (\<forall>e. x = Inl e \<longrightarrow> \<not> not_exist e) \<and> (\<forall>v. x = Inr v \<longrightarrow> dmo_Status v = ''failed''))
    (io_try (readDurableMutation dv i))"
proof (rule stays_try)
  have q: "stays db (\<lambda>x. x = Some s) (io_query dv (\<lambda>db. durable_file db i))"
    using alone assms(1) by (auto simp: stays_def io_query_def Let_def split: option.splits)
  show "stays db (\<lambda>v. dmo_Status v = ''failed'') (readDurableMutation dv i)"
    unfolding readDurableMutation_def
  proof (rule stays_check, rule stays_bind [OF q])
    fix x
    assume "x = Some s"
    then show "stays db (\<lambda>v. dmo_Status v = ''failed'') (case x of
         None \<Rightarrow> io_fail (NotExist (''stat '' @ i))
       | Some s \<Rightarrow>
           io_check (fail_if (file_limit < length s) (''file '' @ i @ '' exceeds 1048576 bytes''))
           (case decode_durable s of
              None \<Rightarrow> io_error (''decode '' @ i)
            | Some v \<Rightarrow>
                io_check (checkDurableMutation i v)
                (io_return (if dmo_MutationID v = [] then v\<lparr>dmo_MutationID := dmo_RequestSHA256 v\<rparr> else v))))"
      using assms(2) by (cases "decode_durable s") (auto intro!: stays_check stays_error stays_return)
  qed
  show "\<not> not_exist e" if "readDurableMutation dv i (k, db) = (Inl e, s')" for k e s'
    using that missing_file assms(1) unfolding not_exist_def by fastforce
qed

lemma orphan_blocks:
  assumes first: "find (\<lambda>r. oo_mutation_id r = durableMutationDigestWithIdentity kind (qw_session qw) input identity)
      (live_operations db) = Some r"
    "oo_admission_session_id r = qw_session qw" "oo_admission_input_sha256 r = durableMutationInputSHA256 input"
    and failed: "durable_file db (oo_operation_id r) = Some s" "\<And>v. decode_durable s = Some v \<Longrightarrow> dmo_Status v = ''failed''"
    and orphan: "r' \<in> set (live_operations db)" "oo_project_id r' = projectID" "oo_kind r' = kind"
      "oo_admission_session_id r' = qw_session qw" "oo_admission_input_sha256 r' = durableMutationInputSHA256 input"
      "durable_file db (oo_operation_id r') = None"
  shows "refuses db (enqueueTaskVerificationAttempt dv qw kind projectID input identity)"
proof -
  have retry: "stays db (\<lambda>_. False) (retry_attempt dv qw a v)"
    if "am_projectID a = projectID" "am_kind a = kind" "am_sessionID a = qw_session qw" "am_input a = input" for a v
    unfolding retry_attempt_def ListLocalOperationsByAdmissionCoordinate_def local_store_def that
    by (rule stays_bind [where P = "\<lambda>ls. \<exists>l \<in> set ls. durable_file db (lop_OperationID l) = None"])
      (auto intro!: stays_error stays_check orphan_listed [OF orphan(1)] orphan
        stays_bind [OF orphan_equivalent, where Q = "\<lambda>_. False"])
  have "stays db (\<lambda>_. False) (enqueueTaskVerificationAttempt dv qw kind projectID input identity)"
    unfolding enqueueTaskVerificationAttempt_def admitted_def
  proof (intro stays_check stays_bind [OF stays_keeps [OF keeps_project_code]] stays_bind [OF stays_keeps [OF keeps_queue_now]])
    fix code now
    let ?a = "\<lparr>am_kind = kind, am_projectID = projectID, am_projectCode = code, am_sessionID = qw_session qw, am_input = input,
           am_identity = identity, am_now = now\<rparr>"
    have digest: "admission_digest ?a = durableMutationDigestWithIdentity kind (qw_session qw) input identity"
      by (simp add: admission_digest_def)
    show "stays db (\<lambda>_. False) (io_bind (allocate_with dv True ?a (admission_digest ?a)) (\<lambda>operationID.
     io_bind (io_try (readDurableMutation dv operationID)) (\<lambda>found.
       case found of
         Inl (NotExist _) \<Rightarrow> create_operation dv ?a operationID (admission_digest ?a) []
       | Inl e \<Rightarrow> io_fail e
       | Inr v \<Rightarrow>
           io_check (same_request ?a (admission_digest ?a) v)
           (if dmo_Status v \<noteq> ''failed'' then io_return v else retry_attempt dv qw ?a v))))"
    proof (rule stays_bind [OF allocate_known])
      show "find (\<lambda>r. oo_mutation_id r = admission_digest ?a) (live_operations db) = Some r"
        using first(1) unfolding digest .
      show "oo_admission_session_id r = am_sessionID ?a" "oo_admission_input_sha256 r = durableMutationInputSHA256 (am_input ?a)"
        using first(2,3) by simp_all
      show "stays db (\<lambda>_. False) (io_bind (io_try (readDurableMutation dv i)) (\<lambda>found.
       case found of
         Inl (NotExist _) \<Rightarrow> create_operation dv ?a i (admission_digest ?a) []
       | Inl e \<Rightarrow> io_fail e
       | Inr v \<Rightarrow>
           io_check (same_request ?a (admission_digest ?a) v)
           (if dmo_Status v \<noteq> ''failed'' then io_return v else retry_attempt dv qw ?a v)))" if i: "i = oo_operation_id r" for i
        unfolding i
        by (rule stays_bind [OF failed_read [OF failed]])
          (auto intro!: stays_error stays_check retry split: sum.splits store_error.splits simp: not_exist_def)
    qed
  qed
  then show ?thesis by (rule stays_refuses)
qed

end


definition failed_file :: string where
  "failed_file = json_object (map (apsnd flat_text) [(''status'', Flat_string ''failed'')])"

definition orphaned :: "queue_world \<Rightarrow> shared_db" where
  "orphaned qw = (let digest = durableMutationDigestWithIdentity ''task-test'' (qw_session qw) ''{}'' None;
       sha = durableMutationInputSHA256 ''{}''; at = ''2024-01-01T00:00:00Z'';
       row = (\<lambda>i n m. accepted_row i ''example'' ''AAA'' n m ''task-test'' at (qw_session qw) sha)
     in empty_db\<lparr>sd_queue := \<lparr>qd_operations = [row ''AAA-OPR1'' 1 digest, row ''AAA-OPR2'' 2 (replicate 64 CHR ''b'')],
          qd_numbers = [''example'' \<mapsto> (''AAA'', 3)], qd_epochs = [], qd_files = [(''AAA-OPR1'', failed_file)]\<rparr>\<rparr>)"

lemma failed_file_status:
  assumes "decode_durable failed_file = Some v"
  shows "dmo_Status v = ''failed''"
proof -
  have members: "\<forall>(k, v) \<in> set [(''status'', Flat_string ''failed'')]. plain k \<and> flat_plain v"
    by (simp add: plain_def plain_char_def byte_def)
  have "json_parse failed_file = Some (J_object [(''status'', J_string ''failed'')])"
    unfolding failed_file_def using json_parse_flat [OF list.distinct(2) members] by simp
  then have "decodeStrict durable_fields zero_durable failed_file = Some (zero_durable\<lparr>dmo_Status := ''failed''\<rparr>)"
    using members by (simp add: decodeStrict_def decode_struct_def unquote_plain struct_field_def durable_fields_def dec_string_def)
  then show ?thesis using assms by (auto simp: decode_durable_def)
qed


section \<open>SQLite without faults and without other writers\<close>

lemma sqlite_query: "io_query (sqlite now) q (k, db) = (Inr (q db), Suc k, db)"
  by (simp add: io_query_def sqlite_def Let_def)

lemma sqlite_exec_rows:
  "st db = Some (db', n) \<Longrightarrow> io_exec_rows (sqlite now) st (k, db) = (Inr n, Suc k, db')"
  by (simp add: io_exec_rows_def sqlite_def sqlite_batch_def run_statements.simps(2) Let_def)

lemma sqlite_not_retired:
  assumes "\<not> locally_retired db p" "ValidateProjectIdentifier p = None"
  shows "IsLocalProjectRetired (sqlite now) p (k, db) = (Inr False, Suc k, db)"
proof -
  have "dv_Local (sqlite now)" by (simp add: sqlite_def)
  moreover have "sd_local_retirements db p = None"
    using assms(1) by (cases "sd_local_retirements db p") (auto simp: locally_retired_def)
  ultimately show ?thesis
    using assms(2)
    by (simp add: IsLocalProjectRetired_def ReadLocalProjectRetirement_def
        io_bind_def sqlite_query io_return_def io_check_def)
qed

lemma find_key:
  "distinct (map f xs) \<Longrightarrow> x \<in> set xs \<Longrightarrow> P x \<Longrightarrow> f x = key \<Longrightarrow> find (\<lambda>y. f y = key \<and> P y) xs = Some x"
  by (induction xs) (auto simp: image_iff)

lemma filter_key:
  "distinct (map f xs) \<Longrightarrow> x \<in> set xs \<Longrightarrow> P x \<Longrightarrow> f x = key \<Longrightarrow> filter (\<lambda>y. f y = key \<and> P y) xs = [x]"
proof (induction xs)
  case (Cons y ys)
  show ?case
  proof (cases "x = y")
    case True
    have "f z \<noteq> key" if "z \<in> set ys" for z using Cons.prems True imageI [OF that, of f] by auto
    then have "filter (\<lambda>y. f y = key \<and> P y) ys = []" by (auto simp: filter_empty_conv)
    then show ?thesis using True Cons.prems by simp
  next
    case False
    then have "f y \<noteq> key" using Cons.prems by auto
    then show ?thesis using False Cons by simp
  qed
qed simp

section \<open>One observation\<close>

definition busy_state :: "string \<Rightarrow> bool" where
  "busy_state st \<longleftrightarrow> st = ''running'' \<or> st = ''waiting''"

definition observed :: "int \<Rightarrow> int \<Rightarrow> string \<Rightarrow> int \<times> int \<times> bool" where
  "observed b c st =
     (if busy_state st then (1, 0, False)
      else if st = ''idle'' then (if b = 0 then (b, c, False) else (b, c + 1, 1 \<le> c))
      else (b, 0, False))"

text \<open>The epoch is stored, nobody claimed it and its values can be read.\<close>

definition watched :: "shared_db \<Rightarrow> string \<Rightarrow> int \<Rightarrow> int \<Rightarrow> bool" where
  "watched db i b c \<longleftrightarrow> i \<noteq> [] \<and> distinct (map eh_epoch_id (qd_epochs (sd_queue db)))
     \<and> (\<exists>r \<in> set (qd_epochs (sd_queue db)). eh_epoch_id r = i \<and> eh_emitted_at r = None \<and> eh_hook_completed_at r = None
         \<and> parse_rfc3339 (eh_armed_at r) \<noteq> None \<and> ValidateProjectIdentifier (eh_project_id r) = None
         \<and> \<not> locally_retired db (eh_project_id r) \<and> eh_busy_seen r = b \<and> eh_idle_observations r = c)"

lemma moved_once:
  assumes w: "watched db i b c"
    and f: "\<And>x. eh_busy_seen x = b \<Longrightarrow> eh_idle_observations x = c \<Longrightarrow> f x = x\<lparr>eh_busy_seen := b', eh_idle_observations := c'\<rparr>"
    and pin: "\<And>x. eh_epoch_id (f x) = eh_epoch_id x"
  shows "\<exists>db'. epoch_moved (sqlite now) i f (j, db) = (Inr (), Suc j, db') \<and> watched db' i b' c'"
proof -
  let ?rows = "qd_epochs (sd_queue db)"
  let ?hit = "\<lambda>x. eh_epoch_id x = i \<and> unclaimed x \<and> \<not> locally_retired db (eh_project_id x)"
  let ?new = "map (\<lambda>x. if ?hit x then f x else x) ?rows"
  let ?db = "on_queue (\<lambda>q. q\<lparr>qd_epochs := ?new\<rparr>) db"
  obtain r where r: "i \<noteq> []" "distinct (map eh_epoch_id ?rows)" "r \<in> set ?rows" "eh_epoch_id r = i" "eh_emitted_at r = None"
      "eh_hook_completed_at r = None" "parse_rfc3339 (eh_armed_at r) \<noteq> None"
      "ValidateProjectIdentifier (eh_project_id r) = None" "\<not> locally_retired db (eh_project_id r)"
      "eh_busy_seen r = b" "eh_idle_observations r = c"
    using w by (auto simp: watched_def)
  have hit: "?hit r" using r by (simp add: unclaimed_def)
  have "filter ?hit ?rows = [r]"
    using filter_key [OF r(2,3), of "\<lambda>x. unclaimed x \<and> \<not> locally_retired db (eh_project_id x)" i] hit by simp
  then have "update_epoch i unclaimed f db = Some (?db, 1)" by (simp add: update_epoch_def Let_def)
  then have run: "epoch_moved (sqlite now) i f (j, db) = (Inr (), Suc j, ?db)"
    by (simp add: epoch_moved_def io_bind_def sqlite_exec_rows io_return_def)
  have "map eh_epoch_id ?new = map eh_epoch_id ?rows" using pin by simp
  then have "distinct (map eh_epoch_id ?new)" using r(2) by (metis (no_types))
  moreover have "(if ?hit r then f r else r) \<in> set ?new" using r(3) unfolding set_map by (rule imageI)
  then have "r\<lparr>eh_busy_seen := b', eh_idle_observations := c'\<rparr> \<in> set ?new" using hit f [OF r(10,11)] by simp
  ultimately have "watched ?db i b' c'"
    using r unfolding watched_def by (auto simp: locally_retired_def simp del: set_map map_map
      intro!: bexI [of _ "r\<lparr>eh_busy_seen := b', eh_idle_observations := c'\<rparr>"])
  then show ?thesis using run by blast
qed

lemma observe_once:
  assumes w: "watched db i b c" and b: "b = 0 \<or> b = 1" and c: "0 \<le> c" "c < 9223372036854775807"
    and out: "observed b c st = (b', c', out)"
  shows "\<exists>k' db'. ObserveCallbackEpoch (sqlite now) i st (k, db) = (Inr out, k', db') \<and> watched db' i b' c'"
proof -
  let ?rows = "qd_epochs (sd_queue db)"
  obtain r where i: "i \<noteq> []" "distinct (map eh_epoch_id ?rows)" "r \<in> set ?rows" "eh_epoch_id r = i"
    and r: "eh_emitted_at r = None" "eh_hook_completed_at r = None" "parse_rfc3339 (eh_armed_at r) \<noteq> None"
      "ValidateProjectIdentifier (eh_project_id r) = None" "\<not> locally_retired db (eh_project_id r)"
      "eh_busy_seen r = b" "eh_idle_observations r = c"
    using w by (auto simp: watched_def)
  obtain e where e: "decodeCallbackEpoch r = Inr e" "cbe_ProjectID e = eh_project_id r"
    using r b c by (auto simp: decodeCallbackEpoch_def)
  have this_row: "find (\<lambda>x. eh_epoch_id x = i \<and> \<not> locally_retired db (eh_project_id x)) ?rows = Some r"
    "find (\<lambda>x. eh_epoch_id x = i) ?rows = Some r"
    using find_key [OF i(2,3), of "\<lambda>x. \<not> locally_retired db (eh_project_id x)" i]
      find_key [OF i(2,3), of "\<lambda>_. True" i] i(4) r(5) by simp_all
  have up: "dv_Local (sqlite now)" by (simp add: sqlite_def)
  have read: "ReadCallbackEpoch (sqlite now) i (k, db) = (Inr e, Suc k, db)"
    using i(1) up e(1) this_row by (simp add: ReadCallbackEpoch_def io_check_def io_bind_def sqlite_query io_value_def io_return_def)
  have observe: "ObserveCallbackEpoch (sqlite now) i st (k, db) = observe_row (sqlite now) i st r (Suc (Suc (Suc k)), db)"
    using i(1) up this_row(2) e(2) sqlite_not_retired [OF r(5,4)]
    by (simp add: ObserveCallbackEpoch_def local_store_def io_check_def read unless_locally_retired_def
        io_bind_def sqlite_query)
  have row: "eh_busy_seen r \<in> {0, 1} \<and> 0 \<le> eh_idle_observations r" using b c r by auto
  consider (1) "busy_state st" | (2) "st = ''idle''" "b = 0" | (3) "st = ''idle''" "b = 1" | (4) "\<not> busy_state st" "st \<noteq> ''idle''"
    using b by blast
  then show ?thesis
  proof cases
    case 1
    obtain d where "epoch_moved (sqlite now) i (\<lambda>r. r\<lparr>eh_busy_seen := 1, eh_idle_observations := 0\<rparr>) (Suc (Suc (Suc k)), db) = (Inr (), Suc (Suc (Suc (Suc k))), d)"
      "watched d i 1 0"
      using moved_once [OF w, where f = "\<lambda>r. r\<lparr>eh_busy_seen := 1, eh_idle_observations := 0\<rparr>" and b' = 1 and c' = "0"] by auto
    then show ?thesis
      unfolding observe using 1 row r(1,6,7) out
      by (auto simp: observe_row_def observed_def busy_state_def io_bind_def io_return_def Let_def)
  next
    case 2
    then have "ObserveCallbackEpoch (sqlite now) i st (k, db) = (Inr False, Suc (Suc (Suc k)), db)"
      unfolding observe using row r(1,6,7) by (simp add: observe_row_def io_return_def)
    then show ?thesis using 2 out w by (auto simp: observed_def busy_state_def)
  next
    case 3
    have wrap: "wrap_int (eh_idle_observations r + 1) = eh_idle_observations r + 1"
      using c r(7) by (intro wrap_int_id) auto
    obtain d where "epoch_moved (sqlite now) i (\<lambda>r. r\<lparr>eh_idle_observations := c + 1\<rparr>) (Suc (Suc (Suc k)), db) = (Inr (), Suc (Suc (Suc (Suc k))), d)"
      "watched d i 1 (c + 1)"
      using 3 moved_once [OF w, where f = "\<lambda>r. r\<lparr>eh_idle_observations := c + 1\<rparr>" and b' = 1 and c' = "c + 1"] by auto
    then show ?thesis
      unfolding observe using 3 row r(1,6,7) out
      by (auto simp: observe_row_def observed_def busy_state_def io_bind_def io_return_def Let_def wrap)
  next
    case 4
    obtain d where "epoch_moved (sqlite now) i (\<lambda>r. r\<lparr>eh_idle_observations := 0\<rparr>) (Suc (Suc (Suc k)), db) = (Inr (), Suc (Suc (Suc (Suc k))), d)"
      "watched d i b 0"
      using moved_once [OF w, where f = "\<lambda>r. r\<lparr>eh_idle_observations := 0\<rparr>" and b' = b and c' = "0"] by auto
    then show ?thesis
      unfolding observe using 4 row r(1,6,7) out
      by (auto simp: observe_row_def observed_def busy_state_def io_bind_def io_return_def Let_def)
  qed
qed

section \<open>All observations\<close>

text \<open>The answers to the observations of an epoch, in order.\<close>

fun observations :: "driver \<Rightarrow> string \<Rightarrow> string list \<Rightarrow> bool list io" where
  "observations dv i [] = io_return []"
| "observations dv i (st # sts) =
     io_bind (ObserveCallbackEpoch dv i st) (\<lambda>out. io_bind (observations dv i sts) (\<lambda>outs. io_return (out # outs)))"

text \<open>The work of an agent is finished: it was busy at some time and was last seen idle twice in a row.\<close>

definition work_finished :: "string list \<Rightarrow> bool" where
  "work_finished sts \<longleftrightarrow> (\<exists>us. sts = us @ [''idle'', ''idle''] \<and> (\<exists>st \<in> set us. st = ''running'' \<or> st = ''waiting''))"

definition busy_bit :: "string list \<Rightarrow> int" where
  "busy_bit sts = (if \<exists>st \<in> set sts. busy_state st then 1 else 0)"

definition idle_count :: "string list \<Rightarrow> int" where
  "idle_count sts = (if \<exists>st \<in> set sts. busy_state st then int (length (takeWhile (\<lambda>st. st = ''idle'') (rev sts))) else 0)"

lemma idle_not_busy [simp]: "\<not> busy_state ''idle''"
  by (simp add: busy_state_def)

lemma idle_count_bound: "0 \<le> idle_count sts \<and> idle_count sts \<le> int (length sts)"
  using length_takeWhile_le [of "\<lambda>st. st = ''idle''" "rev sts"] by (simp add: idle_count_def)

lemma idle_count_positive: "1 \<le> idle_count sts \<longleftrightarrow> (\<exists>us. sts = us @ [''idle''] \<and> (\<exists>st \<in> set us. busy_state st))"
  by (cases sts rule: rev_cases) (auto simp: idle_count_def)

lemma observed_prefix:
  "observed (busy_bit sts) (idle_count sts) st = (busy_bit (sts @ [st]), idle_count (sts @ [st]), work_finished (sts @ [st]))"
proof -
  have finished: "work_finished (sts @ [st]) \<longleftrightarrow> st = ''idle'' \<and> 1 \<le> idle_count sts"
    unfolding idle_count_positive work_finished_def busy_state_def by auto
  show ?thesis
    unfolding finished by (auto simp: observed_def busy_bit_def idle_count_def busy_state_def)
qed

lemma observations_from:
  assumes "watched db i (busy_bit past) (idle_count past)" "length past + length sts < 9223372036854775807"
  shows "\<exists>outs k' db'. observations (sqlite now) i sts (k, db) = (Inr outs, k', db')
    \<and> outs = map (\<lambda>n. work_finished (past @ take (Suc n) sts)) [0..<length sts]"
  using assms
proof (induction sts arbitrary: past k db)
  case Nil
  then show ?case by (simp add: io_return_def)
next
  case (Cons st sts)
  have numbers: "busy_bit past = 0 \<or> busy_bit past = 1" "0 \<le> idle_count past" "idle_count past < 9223372036854775807"
    using idle_count_bound [of past] Cons.prems(2) by (simp_all add: busy_bit_def)
  obtain k1 db1 where one: "ObserveCallbackEpoch (sqlite now) i st (k, db) = (Inr (work_finished (past @ [st])), k1, db1)"
    and w: "watched db1 i (busy_bit (past @ [st])) (idle_count (past @ [st]))"
    using observe_once [OF Cons.prems(1) numbers observed_prefix] by blast
  obtain outs k' db' where rest: "observations (sqlite now) i sts (k1, db1) = (Inr outs, k', db')"
    "outs = map (\<lambda>n. work_finished ((past @ [st]) @ take (Suc n) sts)) [0..<length sts]"
    using Cons.IH [OF w] Cons.prems(2) by fastforce
  have "map (\<lambda>n. work_finished (past @ take (Suc n) (st # sts))) [0..<length (st # sts)] = work_finished (past @ [st]) # outs"
    unfolding rest(2) by (simp add: upt_conv_Cons map_Suc_upt [symmetric] del: upt_Suc)
  then show ?case using one rest(1) by (simp add: io_bind_def io_return_def)
qed

text \<open>
  C19. The observations of a new epoch answer that the agent finished exactly when it was seen running or waiting before and
  idle at this observation and the one before it; other states in between start the count anew.
\<close>

theorem observations_exact:
  assumes "watched db i 0 0" "length sts < 9223372036854775807"
  shows "\<exists>outs k' db'. observations (sqlite now) i sts (k, db) = (Inr outs, k', db') \<and> length outs = length sts
    \<and> (\<forall>n < length sts. outs ! n = work_finished (take (Suc n) sts))"
  using observations_from [of db i "[]" sts now k] assms by (fastforce simp: busy_bit_def idle_count_def)

definition new_epoch :: epoch_row where
  "new_epoch = sample_epoch\<lparr>eh_busy_seen := 0, eh_idle_observations := 0, eh_emitted_at := None, eh_operation_id := None,
     eh_hook_outcome := []\<rparr>"

theorem observations_exact_witness:
  "\<exists>outs k' db'. observations (sqlite ''t'') ''epoch-1'' [''running'', ''idle'', ''idle'']
      (0, empty_db\<lparr>sd_queue := sample_queue\<lparr>qd_epochs := [new_epoch]\<rparr>\<rparr>) = (Inr outs, k', db') \<and> outs = [False, False, True]"
proof -
  have time: "parse_rfc3339 ''2024-01-01T00:00:00Z'' \<noteq> None" by code_simp
  have project: "ValidateProjectIdentifier ''example'' = None" by code_simp
  have w: "watched (empty_db\<lparr>sd_queue := sample_queue\<lparr>qd_epochs := [new_epoch]\<rparr>\<rparr>) ''epoch-1'' 0 0"
    using time project by (simp add: watched_def new_epoch_def sample_epoch_def sample_queue_def locally_retired_def empty_db_def)
  obtain outs k' db' where run: "observations (sqlite ''t'') ''epoch-1'' [''running'', ''idle'', ''idle'']
      (0, empty_db\<lparr>sd_queue := sample_queue\<lparr>qd_epochs := [new_epoch]\<rparr>\<rparr>) = (Inr outs, k', db')"
    and outs: "length outs = 3" "\<And>n. n < 3 \<Longrightarrow> outs ! n = work_finished (take (Suc n) [''running'', ''idle'', ''idle''])"
    using observations_exact [OF w, of "[''running'', ''idle'', ''idle'']" "''t''" 0] by auto
  have "work_finished [''running'', ''idle'', ''idle'']" "\<not> work_finished [''running'']" "\<not> work_finished [''running'', ''idle'']"
    by (auto simp: work_finished_def append_eq_Cons_conv)
  then have "outs ! 0 = False \<and> outs ! 1 = False \<and> outs ! 2 = True" using outs(2) [of 0] outs(2) [of 1] outs(2) [of 2] by simp
  then have "outs = [False, False, True]"
    using outs(1) by (auto simp: length_Suc_conv numeral_3_eq_3)
  then show ?thesis using run by blast
qed

end
