(* ===== verification/Spec2Isabelle.thy ===== *)
theory Spec2Isabelle
  imports Planning_Laws Shared_Page_Properties Shared_Replay_Properties Execution_Properties Rule_Properties
    Track_Properties Queue_Properties
begin

text \<open>
  gpt-tunnel-gateway, a gateway through which planning and working agents run a software project. Projects, tasks,
  decisions (ADRs), milestones, tracks, rules and relations are entities of a Shared database; the run of a task in a Git
  worktree (dispatch, submission, review, verification, integration) is a row of a Local database. This development models
  the Go code under \<open>src/internal\<close> that decides what those databases hold, and proves what they can be relied on for.

  \<^bold>\<open>The program and its parts.\<close>
  \<^item> \<open>model/\<close> is the vocabulary: identifiers, records, validators, status predicates. It has no state.
  \<^item> \<open>sqlitestore/\<close> holds the two databases. Every change is a batch of SQL statements, each with the number of rows it
    must change, inside one transaction; the state of an entity, its history, its lifecycle events, an outbox for the hub
    and the number sequences are written together.
  \<^item> \<open>service/\<close> holds the operations that clients call. They read, ask Git, agents, sessions and the clock, decide, and
    end in one or more store operations. Several processes share the databases.
  \<^item> \<open>pagination/\<close> gives out cursors from a registry of the process.

  \<^bold>\<open>Theories and the code they model.\<close>
  \<^item> \<open>Prelude\<close>, \<open>Go_Std\<close>, \<open>Go_Text\<close>, \<open>Go_Json\<close>, \<open>Sha256\<close>, \<open>Regex\<close>: errors as values, and the parts of Go's library that the
    code uses (strings, UTF-8, strconv, time, encoding/json with its decoder, crypto/sha256, the identifier patterns).
  \<^item> \<open>Identifiers\<close>, \<open>Workflow_Policy\<close>, \<open>Task_Vocabulary\<close>, \<open>Task_Authoring\<close>, \<open>Planning\<close>: \<open>model/\<close> (identifiers, workflow
    policy, task types, the authoring record and its edits, milestones, tracks, relations, rules). Their laws are in
    \<open>Identifier_Laws\<close>, \<open>Task_Authoring_Laws\<close>, \<open>Task_Authoring_Properties\<close>, \<open>Planning_Laws\<close>; \<open>Json_Laws\<close> says what the decoder does
    with flat objects.
  \<^item> \<open>Shared_Store\<close>: the database state \<open>shared_db\<close>, statements and transactions, the interface to the driver; \<open>Lifecycle_Registry\<close>
    the registry of entity kinds with their status machines and policies (\<open>sqlitestore/shared_lifecycle*.go\<close>,
    \<open>track_lifecycle_policy.go\<close>, \<open>milestone_lifecycle_policy.go\<close>); \<open>Shared_Lifecycle\<close>, \<open>Shared_History\<close>, \<open>Shared_Events\<close> creation,
    revision, mutation, history and events; \<open>Lifecycle_Query\<close> the search; \<open>Project_Retirement\<close>, \<open>Local_Tables\<close> the guards.
  \<^item> \<open>Execution_Model\<close>, \<open>Execution_Records\<close>, \<open>Execution_Store\<close>, \<open>Task_Completion\<close>: the state of an execution, phases, verification
    receipts, their rows and the store operations (\<open>sqlitestore/task_*.go\<close>, \<open>shared_task_execution.go\<close>).
  \<^item> \<open>Gateway_World\<close>: what an operation asks outside the databases. \<open>Task_Execution\<close>, \<open>Task_Parking\<close>, \<open>Task_Verifying\<close>,
    \<open>Task_Integration\<close>: the service operations on an execution (\<open>service/task_execution_*.go\<close>). \<open>Task_Closing\<close>: \<open>TaskComplete\<close>
    (\<open>service/task_complete.go\<close>). \<open>Adr\<close>: ADRs (\<open>service/shared_adr.go\<close>, \<open>adr_revisioned*.go\<close>). \<open>Task_Service\<close>: creation, edit,
    sealing, archive, lists of tasks (\<open>service/task_authoring_shared*.go\<close>, \<open>task_lifecycle.go\<close>).
  \<^item> \<open>Relation_Store\<close>, \<open>Relation_Service\<close>: relations with the trigger that publishes them, and the sugar of creations
    (\<open>sqlitestore/shared_relations.go\<close>, \<open>service/relation.go\<close>). \<open>Rule_Service\<close>: rules and the digest of their effective set
    (\<open>service/shared_rule.go\<close>). \<open>Track_Reads\<close>, \<open>Milestone_Service\<close>, \<open>Track_Service\<close>: the life of milestones and tracks
    (\<open>service/milestone_*.go\<close>, \<open>track_lifecycle.go\<close>).
  \<^item> \<open>Local_Operations\<close>, \<open>Callback_Epochs\<close>: the tables of the durable queue in the Local database (\<open>sqlitestore/local_operations.go\<close>,
    \<open>callback_epochs.go\<close>). \<open>Durable_Operation\<close>: the file of an operation, the digests of a request and the evidence of hooks
    (\<open>service/durable_mutation_mutation_identity.go\<close>, \<open>..._adapters.go\<close>, \<open>task_lifecycle_hooks.go\<close>). \<open>Durable_Queue\<close>: admission, retries,
    adoption, the worker and recovery (\<open>..._worker.go\<close>, \<open>..._execution.go\<close>).
  \<^item> \<open>Pagination\<close>: \<open>pagination/\<close>, its registry threaded through the operations that issue cursors.
  \<^item> \<open>Execution_Machine\<close> is the abstract specification of an execution: the moves a row may make and the evidence each
    needs. \<open>Execution_Reads\<close>, \<open>Execution_Logic\<close>, \<open>Execution_Rules\<close>, \<open>Execution_Refinement\<close>, \<open>Service_Reads\<close> show that every operation of
    the service, collected as \<open>serve\<close> in \<open>Execution_Service\<close>, is a sequence of such moves; \<open>Execution_Typed\<close> the same for the typing
    of the tables; \<open>Execution_Invariants\<close> derives what holds in every reachable database.
  \<^item> \<open>Queue_Laws\<close> states the invariant of the durable queue and shows it for every statement, the two batches that allocate and
    every request; \<open>Queue_Properties\<close> holds what follows.
    \<open>Planning_Reads\<close>, \<open>Relation_Properties\<close>, \<open>Rule_Properties\<close>, \<open>Track_Properties\<close> do the same for planning.

  \<^bold>\<open>How the code is rendered.\<close> A record of Go is a record, with prefixed field names; a slice that may be nil is a
  \<open>string list option\<close>; \<open>(T, error)\<close> is a sum with the message on the left. An operation is a function of the number of
  database accesses made so far and the database (\<open>io\<close>): every access may fail (\<open>dv_fault\<close>) and is preceded by whatever other
  writers do (\<open>dv_others\<close>), so one run of an operation stands for all its interleavings with others. Integers of Go that are
  incremented wrap at 64 bits (\<open>wrap_int\<close>). Definitions carry the names of the Go functions; the parts a long function is cut into have names
  of their own.

  \<^bold>\<open>Parameters and hypotheses.\<close> \<open>driver\<close>: the SQL engine, its faults, other writers and the clock of the store; \<open>atomic_driver\<close>
  says that a batch is done as a whole or not at all, which is what a transaction of SQLite documents and what \<open>sqlite\<close> does.
  \<open>follows\<close>, \<open>keeps_wf\<close>, \<open>others_fit\<close>, \<open>machine\<close> and \<open>typed_step\<close> restrict the other writers to what this very code can write, \<open>queue_step\<close> does so for the durable queue.
  \<open>world\<close>: Git, agents, sessions, hooks, queue and clock, with arbitrary answers at each access; \<open>queue_world\<close>
  adds random bytes, sessions and project codes, \<open>executor\<close> what an operation of the queue does when it runs. \<open>evidence\<close>: the two proofs that read
  the Journal of the hub. \<open>extract\<close>: \<open>json_extract\<close> of SQLite. \<open>historical\<close>: the reconciliation of old integrations.
  \<open>calm\<close> and \<open>quiet\<close> describe a gateway without faults and other writers; they are used only where an outcome, not only
  safety, is claimed.

  \<^bold>\<open>What the theorems show.\<close> Executions: the service refines the machine for every input, world, fault and interleaving;
  tasks past verification have an accepted review and a successful receipt for exactly their head; evidence is append-only;
  the tables are typed. Store: history, events and outbox only grow, keys stay unique, a commit does exactly what it says
  and nothing else, a replayed mutation is recognised, ids are never given twice, policies cannot be bypassed, pages of a history
  lose and repeat nothing. Model: edits, sealing and hashing of tasks, status machines that only go forward, the track and milestone
  policies, the languages of the identifiers and their round trips. Planning: a track is accepted on a fresh review only, a milestone
  completes with its members done only, pages of relations are complete, the digest of rules is exact. Queue: identities and claims are final,
  receipts of failed verifications are never rewritten, observations of an agent answer exactly what they are meant to; an allocation
  that lost its file blocks its successors. Cursors: the registry is bounded and a cursor is never
  mistaken for another position. Search and completion: the search for an accepted Track ends while cursors can be issued; it never ends
  once they cannot; a completion interrupted between its databases stays stuck.

  \<^bold>\<open>Fuel and bounds.\<close> \<open>json_parse\<close> has fuel \<open>2 * length + 2\<close>, more than the steps a text can cause. \<open>accepted_track_pages\<close> and
  \<open>sharedProjectEntities\<close> run with a number of rounds and give \<open>None\<close> when it is used up: a page of 256 (1000) rows is read per
  round, so the number of rows divided by the page size plus one is enough (\<open>track_search_complete\<close>). Creation tries eight numbers as the
  code does. The registry holds 65536 handles.

  \<^bold>\<open>Approximations.\<close> \<open>%q\<close>, \<open>ToUpper\<close> and \<open>ToLower\<close> leave non-ASCII runes alone; texts of JSON errors are shortened; the depth limit of
  the JSON decoder is not modelled; times are strict RFC 3339 and have an offset in place of a location; \<open>LIKE\<close> and \<open>lower\<close> are those of SQLite for
  ASCII; the order in which several unsupported filters are reported is fixed; a creation reads the clock once; an operation that fails
  drops the cursors it issued (the code keeps them); numbers inside an adopted operation are kept as written; waking a worker and the sweep
  that the first request starts are left out of the request, a worker may run at any time; \<open>w_recordTrackTaskDispatch\<close> is an answer inside
  a dispatch while \<open>recordTrackTaskDispatch\<close> is a request of its own. Mutexes and hooks of tests are left out: each access is a step, and other
  writers may act between any two.

  \<^bold>\<open>Not modelled.\<close> The front ends (\<open>mcp\<close>, \<open>controller\<close>, \<open>actioncontract\<close>, \<open>cmd\<close>), Git and files (\<open>gitx\<close>, \<open>hub\<close>, \<open>lockfile\<close>), processes
  and installation (\<open>gates\<close>, \<open>activation\<close>, \<open>upgrade\<close>, \<open>config\<close>, \<open>session\<close>), the worker of the outbox and the migrations of the store: they are
  input and output, or their answers are parameters. Of the service, the execution of procedures, the Journal, the set-up of projects and the
  reconciliation of old executions are left out, and so are the adapters that turn a request into an operation of the queue.
\<close>

end
